(* ===== verification/Prelude.thy ===== *)
theory Prelude
  imports Main "HOL-Library.Word"
begin

text \<open>
  Shared vocabulary of the development: the result type of fallible code and its sequencing,
  the index operations of Rust vectors and slices that the models use, decimal printing and
  parsing of integers, and the lemma collections the component theories extend.

  A Rust \<open>Result<T, E>\<close> is a value of the sum type \<open>'e + 'a\<close>: \<open>Inl\<close> carries the
  error, \<open>Inr\<close> the value.  The \<open>?\<close> operator is \<open>rbind\<close>; a guard that returns
  early is \<open>check\<close>; \<open>collect\<close> into a \<open>Result<Vec<_>, _>\<close> is \<open>rmap\<close>.
\<close>

named_theorems result_simps \<open>unfolding rules for sequenced fallible code\<close>
named_theorems list_ops \<open>facts on the vector operations\<close>

section \<open>Results\<close>

definition rbind :: "'e + 'a \<Rightarrow> ('a \<Rightarrow> 'e + 'b) \<Rightarrow> 'e + 'b" where
  "rbind m f = (case m of Inl e \<Rightarrow> Inl e | Inr x \<Rightarrow> f x)"

definition check :: "bool \<Rightarrow> 'e \<Rightarrow> 'e + unit" where
  "check b e = (if b then Inr () else Inl e)"

definition of_option :: "'e \<Rightarrow> 'a option \<Rightarrow> 'e + 'a" where
  "of_option e x = (case x of None \<Rightarrow> Inl e | Some v \<Rightarrow> Inr v)"

definition map_err :: "('e \<Rightarrow> 'f) \<Rightarrow> 'e + 'a \<Rightarrow> 'f + 'a" where
  "map_err f m = (case m of Inl e \<Rightarrow> Inl (f e) | Inr x \<Rightarrow> Inr x)"

primrec is_ok :: "'e + 'a \<Rightarrow> bool" where
  "is_ok (Inl e) = False"
| "is_ok (Inr x) = True"

lemma rbind_simps [simp, code]:
  "rbind (Inl e) f = Inl e"
  "rbind (Inr x) f = f x"
  by (simp_all add: rbind_def)

lemma rbind_Inr_iff [result_simps]:
  "rbind m f = Inr y \<longleftrightarrow> (\<exists>x. m = Inr x \<and> f x = Inr y)"
  by (cases m) simp_all

lemma rbind_Inl_iff:
  "rbind m f = Inl e \<longleftrightarrow> m = Inl e \<or> (\<exists>x. m = Inr x \<and> f x = Inl e)"
  by (cases m) simp_all

lemma rbind_return [simp]: "rbind m Inr = m"
  by (cases m) simp_all

lemma rbind_assoc: "rbind (rbind m f) g = rbind m (\<lambda>x. rbind (f x) g)"
  by (cases m) simp_all

lemma rbind_cong [fundef_cong]:
  "m = m' \<Longrightarrow> (\<And>x. m' = Inr x \<Longrightarrow> f x = g x) \<Longrightarrow> rbind m f = rbind m' g"
  by (cases m') simp_all

lemma check_simps [simp]:
  "check True e = Inr ()"
  "check False e = Inl e"
  by (simp_all add: check_def)

lemma check_Inr_iff [result_simps]: "check b e = Inr u \<longleftrightarrow> b"
  by (simp add: check_def)

lemma check_Inl_iff: "check b e = Inl e' \<longleftrightarrow> \<not> b \<and> e' = e"
  by (auto simp: check_def)

lemma of_option_simps [simp]:
  "of_option e None = Inl e"
  "of_option e (Some v) = Inr v"
  by (simp_all add: of_option_def)

lemma of_option_Inr_iff [result_simps]: "of_option e x = Inr v \<longleftrightarrow> x = Some v"
  by (cases x) simp_all

lemma map_err_simps [simp]:
  "map_err f (Inl e) = Inl (f e)"
  "map_err f (Inr x) = Inr x"
  by (simp_all add: map_err_def)

lemma map_err_Inr_iff [result_simps]: "map_err f m = Inr v \<longleftrightarrow> m = Inr v"
  by (cases m) simp_all

lemma is_ok_iff: "is_ok m \<longleftrightarrow> (\<exists>x. m = Inr x)"
  by (cases m) simp_all

fun rmap :: "('a \<Rightarrow> 'e + 'b) \<Rightarrow> 'a list \<Rightarrow> 'e + 'b list" where
  "rmap f [] = Inr []"
| "rmap f (x # xs) = rbind (f x) (\<lambda>y. rbind (rmap f xs) (\<lambda>ys. Inr (y # ys)))"

lemma rmap_cong [fundef_cong]:
  "xs = ys \<Longrightarrow> (\<And>x. x \<in> set ys \<Longrightarrow> f x = g x) \<Longrightarrow> rmap f xs = rmap g ys"
  by (induction ys arbitrary: xs) auto

lemma rmap_Inr_iff: "rmap f xs = Inr ys \<longleftrightarrow> list_all2 (\<lambda>x y. f x = Inr y) xs ys"
  by (induction xs arbitrary: ys) (auto simp: list_all2_Cons1 result_simps)

lemma rmap_length: "rmap f xs = Inr ys \<Longrightarrow> length ys = length xs"
  by (auto simp: rmap_Inr_iff dest: list_all2_lengthD)

lemma rmap_Inr_map: "(\<And>x. x \<in> set xs \<Longrightarrow> f x = Inr (g x)) \<Longrightarrow> rmap f xs = Inr (map g xs)"
  by (induction xs) auto

lemma rmap_Inl_mem: "rmap f xs = Inl e \<Longrightarrow> \<exists>x \<in> set xs. f x = Inl e"
  by (induction xs) (auto simp: rbind_Inl_iff)

section \<open>Vector operations\<close>

text \<open>\<open>Vec::remove\<close> and \<open>Vec::insert\<close>; callers guard the index.\<close>

definition remove_nth :: "nat \<Rightarrow> 'a list \<Rightarrow> 'a list" where
  "remove_nth i xs = take i xs @ drop (Suc i) xs"

definition insert_nth :: "nat \<Rightarrow> 'a \<Rightarrow> 'a list \<Rightarrow> 'a list" where
  "insert_nth i x xs = take i xs @ x # drop i xs"

text \<open>\<open>slice::swap\<close>.\<close>

definition swap_nth :: "nat \<Rightarrow> nat \<Rightarrow> 'a list \<Rightarrow> 'a list" where
  "swap_nth i j xs = xs[i := xs ! j, j := xs ! i]"

lemma length_remove_nth [simp]: "i < length xs \<Longrightarrow> length (remove_nth i xs) = length xs - 1"
  by (simp add: remove_nth_def)

lemma length_insert_nth [simp]: "i \<le> length xs \<Longrightarrow> length (insert_nth i x xs) = Suc (length xs)"
  by (simp add: insert_nth_def)

lemma length_swap_nth [simp]: "length (swap_nth i j xs) = length xs"
  by (simp add: swap_nth_def)

lemma remove_insert_nth [simp]: "i \<le> length xs \<Longrightarrow> remove_nth i (insert_nth i x xs) = xs"
  by (simp add: remove_nth_def insert_nth_def min_def)

lemma insert_remove_nth: "i < length xs \<Longrightarrow> insert_nth i x (remove_nth i xs) = xs[i := x]"
  by (simp add: remove_nth_def insert_nth_def upd_conv_take_nth_drop)

lemma insert_remove_nth_same: "i < length xs \<Longrightarrow> insert_nth i (xs ! i) (remove_nth i xs) = xs"
  by (simp add: insert_remove_nth)

lemma remove_nth_update [simp]: "i < length xs \<Longrightarrow> remove_nth i (xs[i := x]) = remove_nth i xs"
  by (simp add: remove_nth_def)

lemma nth_remove_nth:
  assumes "i < length xs" "k < length xs - 1"
  shows "remove_nth i xs ! k = (if k < i then xs ! k else xs ! Suc k)"
  using assms by (auto simp: remove_nth_def nth_append min_def)

lemma nth_insert_nth:
  assumes "i \<le> length xs" "k \<le> length xs"
  shows "insert_nth i x xs ! k = (if k < i then xs ! k else if k = i then x else xs ! (k - 1))"
proof (cases "i < k")
  case True
  then have "k - i = Suc (k - 1 - i)" by simp
  with True assms show ?thesis by (simp add: insert_nth_def nth_append min_def)
next
  case False
  with assms show ?thesis by (auto simp: insert_nth_def nth_append min_def)
qed

lemma remove_nth_Cons [simp]:
  "remove_nth 0 (x # xs) = xs"
  "remove_nth (Suc i) (x # xs) = x # remove_nth i xs"
  by (simp_all add: remove_nth_def)

lemma insert_nth_Cons [simp]:
  "insert_nth 0 y xs = y # xs"
  "insert_nth (Suc i) y (x # xs) = x # insert_nth i y xs"
  by (simp_all add: insert_nth_def)

lemma set_remove_nth: "set (remove_nth i xs) \<subseteq> set xs"
  by (auto simp: remove_nth_def dest: in_set_takeD in_set_dropD)

lemma nth_swap_nth:
  "i < length xs \<Longrightarrow> j < length xs \<Longrightarrow> k < length xs \<Longrightarrow>
   swap_nth i j xs ! k = (if k = j then xs ! i else if k = i then xs ! j else xs ! k)"
  by (simp add: swap_nth_def nth_list_update)

lemma swap_nth_swap_nth:
  assumes "i < length xs" "j < length xs"
  shows "swap_nth i j (swap_nth i j xs) = xs"
  by (rule nth_equalityI) (use assms in \<open>auto simp: nth_swap_nth\<close>)

lemma prod_list_insert_nth:
  "prod_list (insert_nth i x xs) = x * prod_list (xs :: 'a :: comm_monoid_mult list)"
proof -
  have "prod_list xs = prod_list (take i xs) * prod_list (drop i xs)"
    by (metis append_take_drop_id prod_list.append)
  then show ?thesis by (simp add: insert_nth_def mult.left_commute)
qed

lemma prod_list_remove_nth:
  assumes "i < length xs"
  shows "xs ! i * prod_list (remove_nth i xs) = prod_list (xs :: 'a :: comm_monoid_mult list)"
proof -
  have "prod_list (insert_nth i (xs ! i) (remove_nth i xs)) = prod_list xs"
    by (simp add: insert_remove_nth_same assms)
  then show ?thesis by (simp add: prod_list_insert_nth)
qed

lemma prod_list_nat_eq_0: "prod_list (xs :: nat list) = 0 \<longleftrightarrow> 0 \<in> set xs"
  by (induction xs) auto

lemma prod_list_filter_one: "prod_list (filter (\<lambda>d. d \<noteq> 1) xs) = prod_list (xs :: nat list)"
  by (induction xs) auto

section \<open>Decimal text\<close>

text \<open>\<open>to_string\<close> of an unsigned integer, and the digits part of \<open>str::parse\<close>.\<close>

definition digit_char :: "nat \<Rightarrow> char" where
  "digit_char d = char_of (48 + d)"

fun nat_str :: "nat \<Rightarrow> string" where
  "nat_str n = (if n < 10 then [digit_char n] else nat_str (n div 10) @ [digit_char (n mod 10)])"

declare nat_str.simps [simp del]

definition int_str :: "int \<Rightarrow> string" where
  "int_str i = (if i < 0 then CHR ''-'' # nat_str (nat (- i)) else nat_str (nat i))"

lemma digit_char_values:
  "digit_char 0 = CHR ''0''" "digit_char 1 = CHR ''1''" "digit_char 2 = CHR ''2''"
  "digit_char 3 = CHR ''3''" "digit_char 4 = CHR ''4''" "digit_char 5 = CHR ''5''"
  "digit_char 6 = CHR ''6''" "digit_char 7 = CHR ''7''" "digit_char 8 = CHR ''8''"
  "digit_char 9 = CHR ''9''" "digit_char (Suc 0) = CHR ''1''"
  by code_simp+

text \<open>Evaluates the decimal text of a numeral.\<close>

lemmas nat_str_eval = nat_str.simps digit_char_values

definition digit_value :: "char \<Rightarrow> nat option" where
  "digit_value c = (let v = of_char c :: nat in if 48 \<le> v \<and> v \<le> 57 then Some (v - 48) else None)"

fun parse_digits :: "nat \<Rightarrow> string \<Rightarrow> nat option" where
  "parse_digits acc [] = Some acc"
| "parse_digits acc (c # cs) =
     (case digit_value c of None \<Rightarrow> None | Some d \<Rightarrow> parse_digits (10 * acc + d) cs)"

definition parse_nat :: "string \<Rightarrow> nat option" where
  "parse_nat s = (if s = [] then None else parse_digits 0 s)"

lemma digit_value_char [simp]: "d < 10 \<Longrightarrow> digit_value (digit_char d) = Some d"
  by (simp add: digit_value_def digit_char_def)

lemma parse_digits_append:
  "parse_digits acc (s @ t) =
     (case parse_digits acc s of None \<Rightarrow> None | Some v \<Rightarrow> parse_digits v t)"
  by (induction acc s rule: parse_digits.induct) (auto split: option.split)

lemma parse_digits_nat_str: "parse_digits 0 (nat_str n) = Some n"
proof (induction n rule: nat_str.induct)
  case (1 n)
  then show ?case
    by (subst nat_str.simps) (auto simp: parse_digits_append)
qed

lemma nat_str_not_Nil [simp]: "nat_str n \<noteq> []"
  by (subst nat_str.simps) simp

lemma parse_nat_str [simp]: "parse_nat (nat_str n) = Some n"
  by (simp add: parse_nat_def parse_digits_nat_str)

lemma nat_str_inject [simp]: "nat_str m = nat_str n \<longleftrightarrow> m = n"
  by (metis option.inject parse_nat_str)

lemma nat_str_digits: "c \<in> set (nat_str n) \<Longrightarrow> digit_value c \<noteq> None"
proof (induction n rule: nat_str.induct)
  case (1 n)
  from "1.prems" show ?case
    using "1.IH" by (subst (asm) nat_str.simps) (auto split: if_splits)
qed

end
