(* ===== verification/Ast.thy ===== *)
theory Ast
  imports Prelude
begin

text \<open>
  The graph IR of \<^verbatim>\<open>crates/knok-core/src/ast.rs\<close>: element and tensor types, operations,
  expressions, untyped and typed graphs, and the methods of these types.

  Shape dimensions, axes and ids (\<open>usize\<close>, \<open>u64\<close> ids) are naturals; seeds are 64-bit words.
  An \<open>Arc\<close> or \<open>Box\<close> is the value it points to.  Constructors of \<open>CallOp\<close> carry the prefix
  \<open>Op\<close>, those of \<open>Expr\<close> the prefix \<open>E\<close>, because several of the source's names are HOL constants.
\<close>

section \<open>Errors\<close>

text \<open>
  One constructor per diagnostic of the sources (its format string); the interpolated values are
  not kept.  \<open>Panic\<close> stands for the panics of Rust: indexing out of bounds, \<open>i128\<close> overflow, \<open>usize\<close>
  underflow and \<open>expect\<close> on \<open>None\<close>.
\<close>

datatype (plugins only: code size) panic_kind = IndexOutOfBounds | I128Overflow | UsizeUnderflow | UnwrapNone

datatype (plugins only: code size) common_error =
    AxisOutOfBounds | ArityMismatch | NotFloat | NotNumeric | NotOrdered | NotIndexElement
  | NotBool | EmptyAxisReduction | EmptyTensorReduction | DimensionsDiffer

datatype (plugins only: code size) conv_error =
    ConvOperands | ConvGroupsZero | ConvStrideDilationZero | ConvKernelZero | ConvChannelsZero
  | ConvInputChannelsGroups | ConvOutputChannelsGroups | ConvKernelChannels | ConvKernelTooLarge

datatype (plugins only: code size) pool_error =
    AvgPoolNotFloat | PoolRank | PoolKernelZero | PoolStrideDilationZero | PoolBatchChannelZero
  | PoolKernelTooLarge

datatype (plugins only: code size) linalg_error =
    LinalgElementMismatch | DotRank | VecdotRank | VecdotShapes | DimsMustMatch | ResultRank
  | DiagonalRank | DiagonalAxesEqual | LinalgAxis
  | MatmulElement | MatmulRankZero | MatmulRankLimit | MatmulInner | MatmulBatch | MatmulResultRank

datatype (plugins only: code size) static_error =
    StaticNotNumeric | StaticRank | StaticEyeNotSquare | StaticUniformElem | StaticIntElem
  | StaticArity | StaticNotFinite | StaticNotLiteral | StaticLowHigh | StaticBoundsNotInt
  | EyeArity

datatype (plugins only: code size) literal_error =
    ArangeParamsNotInt | ArangeStepZero | ArangeLength | ArangeCount
  | LinspaceParamsNotInt | LinspaceNotDivisible | RandomRangeNotPositive
  | IntLiteralI32 | IntLiteralI64 | IntLiteralElem
  | UniformF32NotFinite | UniformF32LowHigh | UniformElem

datatype (plugins only: code size) rule_error =
    NotSingleOutput | FullLikeFillRank | FullLikeElements | SoftmaxScalar
  | RandomUniformTarget | RandomIntTarget | RandomKey | RandomBoundsRank | RandomBoundsElement
  | GraphCallUnresolved | ElementwiseElement | ElementwiseShapes | PredicateElement
  | PredicateShapes | LogicalShapes | WhereElement | WhereValueShapes | WhereConditionShapes

datatype (plugins only: code size) shape_error =
    ReshapeElement | ReshapeCount | BroadcastElement | BroadcastShapes
  | SliceElement | SliceRank | SliceBounds | TakeIndex | GatherElement | GatherShape
  | TakeAlongRank | TakeAlongDims | SqueezeElement | SqueezeShape | UnsqueezeElement
  | UnsqueezeShape | PadElement | PadRank | PadBounds

datatype (plugins only: code size) axis_error =
    ConcatOperands | ConcatDims | StackOperands | StackAxis | SplitSections
  | TileRank | RepeatAxis | AxisListBounds | AxisListDuplicates | PermutationRank
  | NotPermutation | MoveAxisBounds
  | PermuteElement | PermuteRank | PermuteNotPermutation | PermuteTarget

datatype (plugins only: code size) check_error =
    LetArity | ReturnTypes | UnknownValue | TupleIndex | GraphMultiOutput | RecursiveGraph
  | UnknownGraph | GraphArity | GraphArgument | NodeConflict | NodeMultiOutput

datatype (plugins only: code size) flatten_error =
    AdSingleOutput | AdScalarLoss | AdNoFloatInput | AdTooManyInputs | AdBodyType | AdLetArity
  | AdFlattenedLetArity | AdLetType | AdValueArity | AdValueType | AdUnknownValue | AdTupleIndex
  | AdMultiOutputCall | AdSplitArity | AdNotMultiOutput | AdElementwiseElement
  | AdElementwiseShapes

datatype (plugins only: code size) inline_error =
    AdRecursiveGraph | AdUnresolvedGraph | AdGraphArity | AdGraphArgument | AdGraphLetArity
  | AdGraphLetType | AdGraphOutputArity | AdGraphOutputType

datatype (plugins only: code size) reverse_error =
    AdUnbroadcastRank | AdUnbroadcast | AdTargetNotFlat | AdUnknownTarget
  | AdExpectedReference | AdNotSingleOutput | AdMatmulType | AdRemoveAxis | AdSingletonAxis
  | AdMatmulRank | AdEmptyIndex | AdDiagonalRank | AdDiagonalAxes | AdNotFlattened
  | AdUnsupported | AdEmptyTile | AdRepeatRank

datatype (plugins only: code size) trace_error = TraceNodeConflict | TraceNodeUnbound

datatype error =
    Panic panic_kind
  | CommonError common_error
  | ConvError conv_error
  | PoolError pool_error
  | LinalgError linalg_error
  | StaticError static_error
  | LiteralError literal_error
  | RuleError rule_error
  | ShapeError shape_error
  | AxisError axis_error
  | CheckError check_error
  | FlattenError flatten_error
  | InlineError inline_error
  | ReverseError reverse_error
  | TraceError trace_error

type_synonym 'a result = "error + 'a"

text \<open>Rust's indexing \<open>xs[i]\<close>, which panics out of bounds.\<close>

definition idx :: "'a list \<Rightarrow> nat \<Rightarrow> 'a result" where
  "idx xs i = (if i < length xs then Inr (xs ! i) else Inl (Panic IndexOutOfBounds))"

lemma idx_simps [simp]:
  "i < length xs \<Longrightarrow> idx xs i = Inr (xs ! i)"
  "\<not> i < length xs \<Longrightarrow> idx xs i = Inl (Panic IndexOutOfBounds)"
  by (simp_all add: idx_def)

lemma idx_Inr_iff [result_simps]: "idx xs i = Inr x \<longleftrightarrow> i < length xs \<and> x = xs ! i"
  by (auto simp: idx_def)

text \<open>Assignment through an index, \<open>xs[i] = v\<close>.\<close>

definition set_idx :: "'a list \<Rightarrow> nat \<Rightarrow> 'a \<Rightarrow> 'a list result" where
  "set_idx xs i v = (if i < length xs then Inr (xs[i := v]) else Inl (Panic IndexOutOfBounds))"

lemma set_idx_Inr_iff [result_simps]:
  "set_idx xs i v = Inr ys \<longleftrightarrow> i < length xs \<and> ys = xs[i := v]"
  by (auto simp: set_idx_def)

text \<open>\<open>Vec::insert\<close> and \<open>Vec::remove\<close>, which panic out of bounds, and subtraction of \<open>usize\<close> values.\<close>

definition vec_insert :: "nat \<Rightarrow> 'a \<Rightarrow> 'a list \<Rightarrow> 'a list result" where
  "vec_insert i x xs =
     (if i \<le> length xs then Inr (insert_nth i x xs) else Inl (Panic IndexOutOfBounds))"

definition vec_remove :: "nat \<Rightarrow> 'a list \<Rightarrow> 'a list result" where
  "vec_remove i xs = (if i < length xs then Inr (remove_nth i xs) else Inl (Panic IndexOutOfBounds))"

definition usize_sub :: "nat \<Rightarrow> nat \<Rightarrow> nat result" where
  "usize_sub a b = (if b \<le> a then Inr (a - b) else Inl (Panic UsizeUnderflow))"

text \<open>Checked \<open>i128\<close> arithmetic: a build with overflow checks panics outside the range.\<close>

definition i128_checked :: "int \<Rightarrow> int result" where
  "i128_checked i =
     (if - (2 ^ 127) \<le> i \<and> i < 2 ^ 127 then Inr i else Inl (Panic I128Overflow))"

lemma i128_checked_Inr_iff [result_simps]:
  "i128_checked i = Inr j \<longleftrightarrow> - (2 ^ 127) \<le> i \<and> i < 2 ^ 127 \<and> j = i"
  by (auto simp: i128_checked_def)

section \<open>Types\<close>

datatype element_type = Bool | F32 | F64 | F16 | BF16 | I32 | I64

record tensor_type =
  elem :: element_type
  shape :: "nat list"

abbreviation tensor :: "element_type \<Rightarrow> nat list \<Rightarrow> tensor_type" where
  "tensor e s \<equiv> \<lparr>elem = e, shape = s\<rparr>"

definition rank :: "tensor_type \<Rightarrow> nat" where
  "rank t = length (shape t)"

fun elem_mlir_type :: "element_type \<Rightarrow> string" where
  "elem_mlir_type Bool = ''i1''"
| "elem_mlir_type F32 = ''f32''"
| "elem_mlir_type F64 = ''f64''"
| "elem_mlir_type F16 = ''f16''"
| "elem_mlir_type BF16 = ''bf16''"
| "elem_mlir_type I32 = ''i32''"
| "elem_mlir_type I64 = ''i64''"

fun is_float :: "element_type \<Rightarrow> bool" where
  "is_float F32 = True"
| "is_float F64 = True"
| "is_float F16 = True"
| "is_float BF16 = True"
| "is_float _ = False"

fun is_bool :: "element_type \<Rightarrow> bool" where
  "is_bool Bool = True"
| "is_bool _ = False"

definition is_numeric :: "element_type \<Rightarrow> bool" where
  "is_numeric e = (\<not> is_bool e)"

fun zero_literal :: "element_type \<Rightarrow> string" where
  "zero_literal Bool = ''0''"
| "zero_literal F32 = ''0.0''"
| "zero_literal F64 = ''0.0''"
| "zero_literal F16 = ''0.0''"
| "zero_literal BF16 = ''0.0''"
| "zero_literal I32 = ''0''"
| "zero_literal I64 = ''0''"

fun one_literal :: "element_type \<Rightarrow> string" where
  "one_literal Bool = ''1''"
| "one_literal F32 = ''1.0''"
| "one_literal F64 = ''1.0''"
| "one_literal F16 = ''1.0''"
| "one_literal BF16 = ''1.0''"
| "one_literal I32 = ''1''"
| "one_literal I64 = ''1''"

text \<open>\<open>join("x")\<close> and \<open>TensorType::mlir_type\<close>.\<close>

fun join :: "string \<Rightarrow> string list \<Rightarrow> string" where
  "join sep [] = []"
| "join sep [x] = x"
| "join sep (x # y # ys) = x @ sep @ join sep (y # ys)"

definition mlir_type :: "tensor_type \<Rightarrow> string" where
  "mlir_type t =
     (if shape t = [] then ''tensor<'' @ elem_mlir_type (elem t) @ ''>''
      else ''tensor<'' @ join ''x'' (map nat_str (shape t)) @ ''x'' @ elem_mlir_type (elem t) @ ''>'')"

lemma float_numeric: "is_float e \<Longrightarrow> is_numeric e"
  by (cases e) (simp_all add: is_numeric_def)

lemma is_bool_iff [simp]: "is_bool e \<longleftrightarrow> e = Bool"
  by (cases e) simp_all

lemma rank_tensor [simp]: "rank (tensor e s) = length s"
  by (simp add: rank_def)

section \<open>Operations\<close>

datatype axis_spec = AxisAll | AxisOne nat

fun from_optional :: "nat option \<Rightarrow> axis_spec" where
  "from_optional (Some axis) = AxisOne axis"
| "from_optional None = AxisAll"

fun axis_index :: "axis_spec \<Rightarrow> nat option" where
  "axis_index AxisAll = None"
| "axis_index (AxisOne axis) = Some axis"

lemma axis_index_from_optional [simp]: "axis_index (from_optional a) = a"
  by (cases a) simp_all

lemma from_optional_axis_index [simp]: "from_optional (axis_index a) = a"
  by (cases a) simp_all

record padding2d =
  pad_top :: nat
  pad_bottom :: nat
  pad_left :: nat
  pad_right :: nat

text \<open>The two-element arrays \<open>[h, w]\<close> of the options are pairs.\<close>

record conv2d_options =
  conv_padding :: padding2d
  conv_stride :: "nat \<times> nat"
  conv_dilation :: "nat \<times> nat"
  conv_groups :: nat

record pool2d_options =
  pool_kernel :: "nat \<times> nat"
  pool_padding :: padding2d
  pool_stride :: "nat \<times> nat"
  pool_dilation :: "nat \<times> nat"

definition padding2d_default :: padding2d where
  "padding2d_default = \<lparr>pad_top = 0, pad_bottom = 0, pad_left = 0, pad_right = 0\<rparr>"

definition conv2d_default :: conv2d_options where
  "conv2d_default =
     \<lparr>conv_padding = padding2d_default, conv_stride = (1, 1), conv_dilation = (1, 1),
      conv_groups = 1\<rparr>"

definition pool2d_default :: pool2d_options where
  "pool2d_default =
     \<lparr>pool_kernel = (2, 2), pool_padding = padding2d_default, pool_stride = (2, 2),
      pool_dilation = (1, 1)\<rparr>"

datatype (plugins only: ) call_op =
    OpAbs
  | OpAll axis_spec
  | OpArgmax axis_spec
  | OpArgmin axis_spec
  | OpAny axis_spec
  | OpClip
  | OpConcat nat
  | OpConv2d conv2d_options
  | OpCeil
  | OpDetach
  | OpDiagonal "(nat \<times> nat) option"
  | OpDot
  | OpEqual
  | OpEye tensor_type
  | OpExp
  | OpExp2
  | OpExpM1
  | OpFloor
  | OpFullLike
  | OpGreater
  | OpGreaterEqual
  | OpGather tensor_type nat
  | OpIsNan
  | OpLess
  | OpLessEqual
  | OpArange tensor_type
  | OpLinspace tensor_type
  | OpRandomUniform tensor_type
  | OpRandomInt tensor_type
  | OpStaticRandomUniform tensor_type "64 word"
  | OpStaticRandomInt tensor_type "64 word"
  | OpLog
  | OpLog1P
  | OpLog2
  | OpLog10
  | OpLogicalAnd
  | OpLogicalNot
  | OpLogicalOr
  | OpLogicalXor
  | OpInner
  | OpMatmul
  | OpMaxPool2d pool2d_options
  | OpMax axis_spec
  | OpAvgPool2d pool2d_options
  | OpMean axis_spec
  | OpMin axis_spec
  | OpMinimum
  | OpMaximum
  | OpNotEqual
  | OpFlip "nat list"
  | OpMoveAxis nat nat
  | OpPad tensor_type "nat list"
  | OpOuter
  | OpPow
  | OpProd axis_spec
  | OpPtp axis_spec
  | OpPermute tensor_type "nat list"
  | OpPermuteDims "nat list"
  | OpReciprocal
  | OpRelu
  | OpRepeat nat nat
  | OpReshape tensor_type
  | OpRoll nat nat
  | OpBroadcast tensor_type
  | OpRint
  | OpRound
  | OpSigmoid
  | OpSlice tensor_type "nat list"
  | OpSoftmax axis_spec
  | OpSqrt
  | OpSquare
  | OpSqueeze tensor_type
  | OpStack nat
  | OpStd axis_spec
  | OpSum axis_spec
  | OpSplit nat "nat list"
  | OpSwapAxes nat nat
  | OpTanh
  | OpCos
  | OpSin
  | OpTan
  | OpTake nat nat
  | OpTile "nat list"
  | OpTakeAlongAxis nat
  | OpTrace "(nat \<times> nat) option"
  | OpTranspose "nat list"
  | OpUnsqueeze tensor_type
  | OpVar axis_spec
  | OpVecdot "nat option"
  | OpWhere
  | OpOnesLike
  | OpZerosLike
  | OpGraph string

primrec call_op_name :: "call_op \<Rightarrow> string" where
  "call_op_name OpAbs = ''abs''"
| "call_op_name (OpAll x0) = ''all''"
| "call_op_name (OpArgmax x0) = ''argmax''"
| "call_op_name (OpArgmin x0) = ''argmin''"
| "call_op_name (OpAny x0) = ''any''"
| "call_op_name OpClip = ''clip''"
| "call_op_name (OpConcat x0) = ''concat''"
| "call_op_name (OpConv2d x0) = ''conv2d''"
| "call_op_name OpCeil = ''ceil''"
| "call_op_name OpDetach = ''detach''"
| "call_op_name (OpDiagonal x0) = ''diagonal''"
| "call_op_name OpDot = ''dot''"
| "call_op_name OpEqual = ''equal''"
| "call_op_name (OpEye x0) = ''eye''"
| "call_op_name OpExp = ''exp''"
| "call_op_name OpExp2 = ''exp2''"
| "call_op_name OpExpM1 = ''expm1''"
| "call_op_name OpFloor = ''floor''"
| "call_op_name OpFullLike = ''full_like''"
| "call_op_name OpGreater = ''greater''"
| "call_op_name OpGreaterEqual = ''greater_equal''"
| "call_op_name (OpGather x0 x1) = ''gather''"
| "call_op_name OpIsNan = ''isnan''"
| "call_op_name OpLess = ''less''"
| "call_op_name OpLessEqual = ''less_equal''"
| "call_op_name (OpArange x0) = ''arange''"
| "call_op_name (OpLinspace x0) = ''linspace''"
| "call_op_name (OpRandomUniform x0) = ''random_uniform''"
| "call_op_name (OpRandomInt x0) = ''random_int''"
| "call_op_name (OpStaticRandomUniform x0 x1) = ''static_random_uniform''"
| "call_op_name (OpStaticRandomInt x0 x1) = ''static_random_int''"
| "call_op_name OpLog = ''log''"
| "call_op_name OpLog1P = ''log1p''"
| "call_op_name OpLog2 = ''log2''"
| "call_op_name OpLog10 = ''log10''"
| "call_op_name OpLogicalAnd = ''logical_and''"
| "call_op_name OpLogicalNot = ''logical_not''"
| "call_op_name OpLogicalOr = ''logical_or''"
| "call_op_name OpLogicalXor = ''logical_xor''"
| "call_op_name OpInner = ''inner''"
| "call_op_name OpMatmul = ''matmul''"
| "call_op_name (OpMaxPool2d x0) = ''max_pool2d''"
| "call_op_name (OpMax x0) = ''max''"
| "call_op_name (OpAvgPool2d x0) = ''avg_pool2d''"
| "call_op_name (OpMean x0) = ''mean''"
| "call_op_name (OpMin x0) = ''min''"
| "call_op_name OpMinimum = ''minimum''"
| "call_op_name OpMaximum = ''maximum''"
| "call_op_name OpNotEqual = ''not_equal''"
| "call_op_name (OpFlip x0) = ''flip''"
| "call_op_name (OpMoveAxis x0 x1) = ''moveaxis''"
| "call_op_name (OpPad x0 x1) = ''pad''"
| "call_op_name OpOuter = ''outer''"
| "call_op_name OpPow = ''pow''"
| "call_op_name (OpProd x0) = ''prod''"
| "call_op_name (OpPtp x0) = ''ptp''"
| "call_op_name (OpPermute x0 x1) = ''permute''"
| "call_op_name (OpPermuteDims x0) = ''permute_dims''"
| "call_op_name OpReciprocal = ''reciprocal''"
| "call_op_name OpRelu = ''relu''"
| "call_op_name (OpRepeat x0 x1) = ''repeat''"
| "call_op_name (OpReshape x0) = ''reshape''"
| "call_op_name (OpRoll x0 x1) = ''roll''"
| "call_op_name (OpBroadcast x0) = ''broadcast''"
| "call_op_name OpRint = ''rint''"
| "call_op_name OpRound = ''round''"
| "call_op_name OpSigmoid = ''sigmoid''"
| "call_op_name (OpSlice x0 x1) = ''slice''"
| "call_op_name (OpSoftmax x0) = ''softmax''"
| "call_op_name OpSqrt = ''sqrt''"
| "call_op_name OpSquare = ''square''"
| "call_op_name (OpSqueeze x0) = ''squeeze''"
| "call_op_name (OpStack x0) = ''stack''"
| "call_op_name (OpStd x0) = ''std''"
| "call_op_name (OpSum x0) = ''sum''"
| "call_op_name (OpSplit x0 x1) = ''split''"
| "call_op_name (OpSwapAxes x0 x1) = ''swapaxes''"
| "call_op_name OpTanh = ''tanh''"
| "call_op_name OpCos = ''cos''"
| "call_op_name OpSin = ''sin''"
| "call_op_name OpTan = ''tan''"
| "call_op_name (OpTake x0 x1) = ''take''"
| "call_op_name (OpTile x0) = ''tile''"
| "call_op_name (OpTakeAlongAxis x0) = ''take_along_axis''"
| "call_op_name (OpTrace x0) = ''trace''"
| "call_op_name (OpTranspose x0) = ''transpose''"
| "call_op_name (OpUnsqueeze x0) = ''unsqueeze''"
| "call_op_name (OpVar x0) = ''var''"
| "call_op_name (OpVecdot x0) = ''vecdot''"
| "call_op_name OpWhere = ''where''"
| "call_op_name OpOnesLike = ''ones_like''"
| "call_op_name OpZerosLike = ''zeros_like''"
| "call_op_name (OpGraph x0) = ''graph''"

declare call_op_name.simps [simp del]

section \<open>Expressions and graphs\<close>

datatype unary_op = Neg
datatype binary_op = Add | Sub | Mul | Div

datatype (plugins only: size) expr =
    EVar string
  | EConst string element_type
  | EUnary unary_op expr
  | EBinary binary_op expr expr
  | ENode nat expr
  | ETupleGet nat expr nat
  | ECall call_op "expr list"

record input =
  input_name :: string
  input_ty :: tensor_type

record let_binding =
  let_names :: "string list"
  let_value :: expr

record graph =
  graph_name :: string
  graph_backend :: string
  graph_inputs :: "input list"
  graph_outputs :: "tensor_type list"
  graph_lets :: "let_binding list"
  graph_body :: "expr list"

record typed_value =
  value_kind :: expr
  value_tys :: "tensor_type list"

record typed_expr =
  expr_kind :: expr
  expr_ty :: tensor_type

record typed_let =
  tlet_names :: "string list"
  tlet_value :: typed_value

record typed_graph =
  tg_name :: string
  tg_backend :: string
  tg_inputs :: "input list"
  tg_outputs :: "tensor_type list"
  tg_lets :: "typed_let list"
  tg_body :: "typed_expr list"

record graph_signature =
  sig_inputs :: "tensor_type list"
  sig_outputs :: "tensor_type list"

section \<open>Static scalars\<close>

text \<open>
  Floating-point arithmetic is a parameter: an \<open>f64_ops\<close> value supplies the operations of Rust's
  \<open>f64\<close> (and of \<open>f32\<close>, whose values are embedded in the same carrier) that the sources call.
\<close>

record 'f f64_ops =
  f_parse :: "string \<Rightarrow> 'f option"
  f_show :: "'f \<Rightarrow> string"
  f_of_int :: "int \<Rightarrow> 'f"
  f_to_usize :: "'f \<Rightarrow> nat"
  f_is_finite :: "'f \<Rightarrow> bool"
  f_lt :: "'f \<Rightarrow> 'f \<Rightarrow> bool"
  f_le :: "'f \<Rightarrow> 'f \<Rightarrow> bool"
  f_eq :: "'f \<Rightarrow> 'f \<Rightarrow> bool"
  f_neg :: "'f \<Rightarrow> 'f"
  f_add :: "'f \<Rightarrow> 'f \<Rightarrow> 'f"
  f_sub :: "'f \<Rightarrow> 'f \<Rightarrow> 'f"
  f_mul :: "'f \<Rightarrow> 'f \<Rightarrow> 'f"
  f_div :: "'f \<Rightarrow> 'f \<Rightarrow> 'f"
  f_ceil :: "'f \<Rightarrow> 'f"
  f_to_bits :: "'f \<Rightarrow> 64 word"
  f_from_bits :: "64 word \<Rightarrow> 'f"
  f32_round :: "'f \<Rightarrow> 'f"
  f32_add :: "'f \<Rightarrow> 'f \<Rightarrow> 'f"
  f32_sub :: "'f \<Rightarrow> 'f \<Rightarrow> 'f"
  f32_mul :: "'f \<Rightarrow> 'f \<Rightarrow> 'f"
  f32_div :: "'f \<Rightarrow> 'f \<Rightarrow> 'f"
  f32_to_bits :: "'f \<Rightarrow> 32 word"
  f32_from_bits :: "32 word \<Rightarrow> 'f"

datatype 'f scalar = SBool bool | SInt int | SFloat 'f

text \<open>\<open>str::parse::<i128>\<close>: an optional sign, at least one digit, no overflow.\<close>

definition parse_i128 :: "string \<Rightarrow> int option" where
  "parse_i128 s =
     (let v = (case s of
                 [] \<Rightarrow> None
               | c # cs \<Rightarrow>
                   (if c = CHR ''-'' then map_option (\<lambda>n. - int n) (parse_nat cs)
                    else if c = CHR ''+'' then map_option int (parse_nat cs)
                    else map_option int (parse_nat s)))
      in case v of
           None \<Rightarrow> None
         | Some i \<Rightarrow> if - (2 ^ 127) \<le> i \<and> i < 2 ^ 127 then Some i else None)"

definition const_scalar :: "'f f64_ops \<Rightarrow> string \<Rightarrow> element_type \<Rightarrow> 'f scalar option" where
  "const_scalar F v e =
     (case e of
        Bool \<Rightarrow> (if v = ''0'' then Some (SBool False)
                 else if v = ''1'' then Some (SBool True) else None)
      | I32 \<Rightarrow> map_option SInt (parse_i128 v)
      | I64 \<Rightarrow> map_option SInt (parse_i128 v)
      | F32 \<Rightarrow> map_option SFloat (f_parse F v)
      | F64 \<Rightarrow> map_option SFloat (f_parse F v)
      | F16 \<Rightarrow> map_option SFloat (f_parse F v)
      | BF16 \<Rightarrow> map_option SFloat (f_parse F v))"

fun neg_scalar :: "'f f64_ops \<Rightarrow> 'f scalar \<Rightarrow> 'f scalar option result" where
  "neg_scalar F (SInt i) = rbind (i128_checked (- i)) (\<lambda>j. Inr (Some (SInt j)))"
| "neg_scalar F (SFloat f) = Inr (Some (SFloat (f_neg F f)))"
| "neg_scalar F (SBool b) = Inr None"

fun static_scalar :: "'f f64_ops \<Rightarrow> expr \<Rightarrow> 'f scalar option result" where
  "static_scalar F (EConst v e) = Inr (const_scalar F v e)"
| "static_scalar F (EUnary Neg v) =
     rbind (static_scalar F v)
       (\<lambda>s. case s of None \<Rightarrow> Inr None | Some x \<Rightarrow> neg_scalar F x)"
| "static_scalar F _ = Inr None"

lemma parse_i128_nat_str: "int n < 2 ^ 127 \<Longrightarrow> parse_i128 (nat_str n) = Some (int n)"
proof -
  assume n: "int n < 2 ^ 127"
  obtain c cs where s: "nat_str n = c # cs" by (cases "nat_str n") simp_all
  then have "digit_value c \<noteq> None" using nat_str_digits [of c n] by simp
  then have "c \<noteq> CHR ''-''" and "c \<noteq> CHR ''+''"
    by (auto simp: digit_value_def)
  moreover have "parse_nat (c # cs) = Some n"
    using parse_nat_str [of n] by (simp add: s)
  ultimately show ?thesis using n by (simp add: parse_i128_def s)
qed

lemma parse_i128_range: "parse_i128 s = Some i \<Longrightarrow> - (2 ^ 127) \<le> i \<and> i < 2 ^ 127"
  by (auto simp: parse_i128_def Let_def split: option.splits if_splits)

text \<open>An instance of the arithmetic parameter on the integers, for concrete evaluations.\<close>

definition exact_ops :: "int f64_ops" where
  "exact_ops =
     \<lparr>f_parse = (\<lambda>s. None), f_show = int_str, f_of_int = (\<lambda>i. i), f_to_usize = nat,
      f_is_finite = (\<lambda>x. True), f_lt = (<), f_le = (\<le>), f_eq = (=), f_neg = uminus,
      f_add = (+), f_sub = (-), f_mul = (*), f_div = (div), f_ceil = (\<lambda>x. x),
      f_to_bits = word_of_int, f_from_bits = uint, f32_round = (\<lambda>x. x), f32_add = (+),
      f32_sub = (-), f32_mul = (*), f32_div = (div), f32_to_bits = word_of_int,
      f32_from_bits = uint\<rparr>"

end
