(* ===== verification/Ops_Common.thy ===== *)
theory Ops_Common
  imports Ast
begin

text \<open>
  \<^verbatim>\<open>crates/knok-core/src/ops/common.rs\<close>: element counts, broadcasting, the output type of a
  reduction, and the guards the inference rules share.

  Broadcasting is analysed through the dimensions counted from the last axis (\<open>trail\<close>): a shape is
  an unbounded sequence of optional dimensions, and two shapes broadcast exactly if they have a
  join in every position.  The locale \<open>partial_join\<close> states what the clients use of it (a
  partial semilattice) and is interpreted on \<open>broadcast_shape_slices\<close>.
\<close>

section \<open>Definitions\<close>

definition element_count :: "tensor_type \<Rightarrow> nat" where
  "element_count t = prod_list (shape t)"

definition dim_from_trailing :: "nat list \<Rightarrow> nat \<Rightarrow> nat \<Rightarrow> nat option" where
  "dim_from_trailing s rk offset =
     (let pad = rk - length s in if pad \<le> offset then Some (s ! (offset - pad)) else None)"

text \<open>The match on one pair of dimensions; \<open>(None, None)\<close> is the \<open>unreachable!\<close> arm.\<close>

fun broadcast_dim :: "nat option \<Rightarrow> nat option \<Rightarrow> nat result" where
  "broadcast_dim (Some l) (Some r) =
     (if l = r then Inr l
      else if l = 1 then Inr r
      else if r = 1 then Inr l
      else Inl (CommonError DimensionsDiffer))"
| "broadcast_dim None (Some d) = Inr d"
| "broadcast_dim (Some d) None = Inr d"
| "broadcast_dim None None = Inl (Panic UnwrapNone)"

definition broadcast_shape_slices :: "nat list \<Rightarrow> nat list \<Rightarrow> nat list result" where
  "broadcast_shape_slices lhs rhs =
     (let rk = max (length lhs) (length rhs)
      in rmap (\<lambda>offset. broadcast_dim (dim_from_trailing lhs rk offset)
                                      (dim_from_trailing rhs rk offset)) [0..<rk])"

definition broadcast_shape :: "tensor_type \<Rightarrow> tensor_type \<Rightarrow> nat list result" where
  "broadcast_shape lhs rhs = broadcast_shape_slices (shape lhs) (shape rhs)"

definition expect_axis :: "tensor_type \<Rightarrow> nat \<Rightarrow> unit result" where
  "expect_axis t axis = check (axis < rank t) (CommonError AxisOutOfBounds)"

fun reduction_output_type :: "tensor_type \<Rightarrow> axis_spec \<Rightarrow> tensor_type result" where
  "reduction_output_type t (AxisOne axis) =
     rbind (expect_axis t axis) (\<lambda>_. Inr (tensor (elem t) (remove_nth axis (shape t))))"
| "reduction_output_type t AxisAll = Inr (tensor (elem t) [])"

fun expect_non_empty_reduction :: "tensor_type \<Rightarrow> axis_spec \<Rightarrow> unit result" where
  "expect_non_empty_reduction t (AxisOne axis) =
     rbind (expect_axis t axis)
       (\<lambda>_. check (shape t ! axis \<noteq> 0) (CommonError EmptyAxisReduction))"
| "expect_non_empty_reduction t AxisAll =
     check (element_count t \<noteq> 0) (CommonError EmptyTensorReduction)"

definition expect_arity :: "tensor_type list \<Rightarrow> nat \<Rightarrow> unit result" where
  "expect_arity args expected = check (length args = expected) (CommonError ArityMismatch)"

definition expect_float :: "element_type \<Rightarrow> unit result" where
  "expect_float e = check (is_float e) (CommonError NotFloat)"

definition expect_numeric_element :: "element_type \<Rightarrow> unit result" where
  "expect_numeric_element e = check (is_numeric e) (CommonError NotNumeric)"

definition expect_ordered_element :: "element_type \<Rightarrow> unit result" where
  "expect_ordered_element e = check (is_numeric e \<or> is_bool e) (CommonError NotOrdered)"

definition expect_index_element :: "element_type \<Rightarrow> unit result" where
  "expect_index_element e = check (e = I32 \<or> e = I64) (CommonError NotIndexElement)"

definition expect_bool_element :: "element_type \<Rightarrow> unit result" where
  "expect_bool_element e = check (is_bool e) (CommonError NotBool)"

lemmas guard_defs =
  expect_axis_def expect_arity_def expect_float_def expect_numeric_element_def
  expect_ordered_element_def expect_index_element_def expect_bool_element_def

declare guard_defs [result_simps]

lemma expect_ordered_always: "expect_ordered_element e = Inr ()"
  by (simp add: expect_ordered_element_def is_numeric_def)

section \<open>The reference view of broadcasting\<close>

definition trail :: "nat list \<Rightarrow> nat \<Rightarrow> nat option" where
  "trail s i = (if i < length s then Some (rev s ! i) else None)"

fun join_dim :: "nat option \<Rightarrow> nat option \<Rightarrow> nat option option" where
  "join_dim None d = Some d"
| "join_dim d None = Some d"
| "join_dim (Some l) (Some r) =
     (if l = r then Some (Some l)
      else if l = 1 then Some (Some r)
      else if r = 1 then Some (Some l)
      else None)"

lemma trail_None_iff: "trail s i = None \<longleftrightarrow> length s \<le> i"
  by (simp add: trail_def)

lemma trail_inject: "(\<forall>i. trail s i = trail t i) \<longleftrightarrow> s = t"
proof
  assume eq: "\<forall>i. trail s i = trail t i"
  have "length t \<le> i \<longleftrightarrow> length s \<le> i" for i
    using eq by (metis trail_None_iff)
  then have len: "length s = length t" by (metis le_antisym le_refl)
  have "rev s ! i = rev t ! i" if "i < length s" for i
    using eq that len by (metis option.inject trail_def)
  then have "rev s = rev t" using len by (simp add: list_eq_iff_nth_eq)
  then show "s = t" by simp
qed simp

lemma dim_from_trailing_trail:
  assumes "length s \<le> rk" "offset < rk"
  shows "dim_from_trailing s rk offset = trail s (rk - 1 - offset)"
proof (cases "rk - length s \<le> offset")
  case True
  then have i: "rk - 1 - offset < length s" using assms by arith
  have "length s - Suc (rk - 1 - offset) = offset - (rk - length s)"
    using assms True by arith
  with True i show ?thesis by (simp add: dim_from_trailing_def trail_def rev_nth)
next
  case False
  then have "\<not> rk - 1 - offset < length s" using assms by arith
  with False show ?thesis by (simp add: dim_from_trailing_def trail_def)
qed

lemma join_dim_broadcast:
  "a \<noteq> None \<or> b \<noteq> None \<Longrightarrow> broadcast_dim a b = Inr d \<longleftrightarrow> join_dim a b = Some (Some d)"
  by (cases a; cases b) auto

lemma join_dim_None_iff: "join_dim a b = Some None \<longleftrightarrow> a = None \<and> b = None"
  by (cases a; cases b) auto

lemma all_flip: "(\<forall>k < n. P (n - 1 - k)) \<longleftrightarrow> (\<forall>i < (n :: nat). P i)"
proof
  assume H: "\<forall>k < n. P (n - 1 - k)"
  show "\<forall>i < n. P i"
  proof (intro allI impI)
    fix i assume i: "i < n"
    then have "n - 1 - i < n" "n - 1 - (n - 1 - i) = i" by simp_all
    with H show "P i" by metis
  qed
qed auto

lemma broadcast_dims_iff:
  "broadcast_shape_slices l r = Inr s \<longleftrightarrow>
     length s = max (length l) (length r) \<and>
     (\<forall>i < length s. join_dim (trail l i) (trail r i) = Some (trail s i))"
proof -
  let ?rk = "max (length l) (length r)"
  have dim: "broadcast_dim (dim_from_trailing l ?rk k) (dim_from_trailing r ?rk k) = Inr (s ! k)
      \<longleftrightarrow> join_dim (trail l (?rk - 1 - k)) (trail r (?rk - 1 - k)) = Some (trail s (?rk - 1 - k))"
    if k: "k < ?rk" and len: "length s = ?rk" for k
  proof -
    have "trail l (?rk - 1 - k) \<noteq> None \<or> trail r (?rk - 1 - k) \<noteq> None"
      using k by (auto simp: trail_None_iff)
    moreover have "trail s (?rk - 1 - k) = Some (s ! k)"
      using k len by (simp add: trail_def rev_nth)
    ultimately show ?thesis
      using k by (simp add: dim_from_trailing_trail join_dim_broadcast)
  qed
  have "broadcast_shape_slices l r = Inr s \<longleftrightarrow> length s = ?rk \<and>
      (\<forall>k < ?rk. broadcast_dim (dim_from_trailing l ?rk k) (dim_from_trailing r ?rk k) = Inr (s ! k))"
    by (auto simp: broadcast_shape_slices_def Let_def rmap_Inr_iff list_all2_conv_all_nth)
  also have "\<dots> \<longleftrightarrow> length s = ?rk \<and>
      (\<forall>k < ?rk. join_dim (trail l (?rk - 1 - k)) (trail r (?rk - 1 - k))
                  = Some (trail s (?rk - 1 - k)))"
    using dim by blast
  also have "\<dots> \<longleftrightarrow> length s = ?rk \<and>
      (\<forall>i < ?rk. join_dim (trail l i) (trail r i) = Some (trail s i))"
    using all_flip [of ?rk "\<lambda>i. join_dim (trail l i) (trail r i) = Some (trail s i)"] by simp
  finally show ?thesis by auto
qed

lemma broadcast_trail_iff:
  "broadcast_shape_slices l r = Inr s \<longleftrightarrow>
     (\<forall>i. join_dim (trail l i) (trail r i) = Some (trail s i))"
proof
  assume b: "broadcast_shape_slices l r = Inr s"
  then have len: "length s = max (length l) (length r)"
    and dims: "\<And>i. i < length s \<Longrightarrow> join_dim (trail l i) (trail r i) = Some (trail s i)"
    by (simp_all add: broadcast_dims_iff)
  show "\<forall>i. join_dim (trail l i) (trail r i) = Some (trail s i)"
  proof
    fix i
    show "join_dim (trail l i) (trail r i) = Some (trail s i)"
    proof (cases "i < length s")
      case True
      then show ?thesis by (rule dims)
    next
      case False
      then have "length l \<le> i" "length r \<le> i" "length s \<le> i" using len by linarith+
      then have "trail l i = None" "trail r i = None" "trail s i = None"
        by (simp_all add: trail_None_iff)
      then show ?thesis by simp
    qed
  qed
next
  assume H: "\<forall>i. join_dim (trail l i) (trail r i) = Some (trail s i)"
  have "length s \<le> i \<longleftrightarrow> max (length l) (length r) \<le> i" for i
  proof -
    have "join_dim (trail l i) (trail r i) = Some (trail s i)" using H by simp
    then have "trail s i = None \<longleftrightarrow> trail l i = None \<and> trail r i = None"
      using join_dim_None_iff [of "trail l i" "trail r i"] by auto
    then show ?thesis by (simp add: trail_None_iff)
  qed
  then have "length s = max (length l) (length r)" by (metis le_antisym le_refl)
  with H show "broadcast_shape_slices l r = Inr s" by (simp add: broadcast_dims_iff)
qed

section \<open>Partial joins\<close>

locale partial_join =
  fixes bc :: "'a \<Rightarrow> 'a \<Rightarrow> 'e + 'a"
  assumes idem: "bc a a = Inr a"
    and commute: "bc a b = Inr c \<Longrightarrow> bc b a = Inr c"
    and assoc: "bc a b = Inr ab \<Longrightarrow> bc ab c = Inr r \<Longrightarrow> \<exists>d. bc b c = Inr d \<and> bc a d = Inr r"
begin

lemma upper_left:
  assumes "bc a b = Inr c"
  shows "bc a c = Inr c"
proof -
  obtain d where "bc a b = Inr d" "bc a d = Inr c" using assoc [OF idem assms] by blast
  with assms show ?thesis by simp
qed

lemma upper_right: "bc a b = Inr c \<Longrightarrow> bc b c = Inr c"
  using upper_left commute by blast

lemma upper_left': "bc a b = Inr c \<Longrightarrow> bc c a = Inr c"
  using upper_left commute by blast

lemma upper_right': "bc a b = Inr c \<Longrightarrow> bc c b = Inr c"
  using upper_right commute by blast

lemma below_trans:
  assumes "bc a b = Inr b" "bc b c = Inr c"
  shows "bc a c = Inr c"
proof -
  obtain d where "bc b c = Inr d" "bc a d = Inr c" using assoc [OF assms] by blast
  with assms show ?thesis by simp
qed

lemma below_antisym:
  assumes "bc a b = Inr b" "bc b a = Inr a"
  shows "a = b"
  using commute [OF assms(1)] assms(2) by simp

lemma least:
  assumes "bc a c = Inr c" "bc b c = Inr c"
  shows "\<exists>d. bc a b = Inr d \<and> bc d c = Inr c"
proof -
  from assms have "bc c b = Inr c" "bc c a = Inr c" by (blast intro: commute)+
  with assoc have "\<exists>d. bc b a = Inr d \<and> bc c d = Inr c" by blast
  then show ?thesis using commute by blast
qed

end

lemma join_dim_idem: "join_dim a a = Some a"
  by (cases a) simp_all

lemma join_dim_commute: "join_dim a b = join_dim b a"
proof (cases "a = None \<or> b = None")
  case True
  then show ?thesis by (cases a; cases b) simp_all
next
  case False
  then obtain l r where ab: "a = Some l" "b = Some r" by auto
  then show ?thesis by (cases "l = r") (simp_all split: if_split)
qed

lemma join_dim_assoc:
  "join_dim a b = Some ab \<Longrightarrow> join_dim ab c = Some r \<Longrightarrow>
     \<exists>d. join_dim b c = Some d \<and> join_dim a d = Some r"
  by (cases a; cases b; cases c) (auto split: if_splits)

interpretation bc: partial_join broadcast_shape_slices
proof unfold_locales
  fix a b c ab r :: "nat list"
  show "broadcast_shape_slices a a = Inr a"
    by (simp add: broadcast_trail_iff join_dim_idem)
  show "broadcast_shape_slices b a = Inr c" if "broadcast_shape_slices a b = Inr c"
    using that by (simp add: broadcast_trail_iff join_dim_commute)
  assume ab: "broadcast_shape_slices a b = Inr ab" and r: "broadcast_shape_slices ab c = Inr r"
  have dims: "\<exists>d. join_dim (trail b i) (trail c i) = Some d \<and> join_dim (trail a i) d = Some (trail r i)"
    for i
  proof (rule join_dim_assoc)
    show "join_dim (trail a i) (trail b i) = Some (trail ab i)" using ab by (simp add: broadcast_trail_iff)
    show "join_dim (trail ab i) (trail c i) = Some (trail r i)" using r by (simp add: broadcast_trail_iff)
  qed
  define n where "n = max (length b) (length c)"
  define d where "d = map (\<lambda>k. the (the (join_dim (trail b (n - 1 - k)) (trail c (n - 1 - k))))) [0..<n]"
  have d: "join_dim (trail b i) (trail c i) = Some (trail d i)" for i
  proof (cases "i < n")
    case True
    then have "trail d i = Some (the (the (join_dim (trail b i) (trail c i))))"
      by (simp add: trail_def d_def rev_nth)
    moreover obtain v where v: "join_dim (trail b i) (trail c i) = Some v" using dims by blast
    moreover have "v \<noteq> None"
    proof
      assume "v = None"
      with v have "trail b i = None \<and> trail c i = None" by (simp add: join_dim_None_iff)
      with True show False by (simp add: n_def trail_None_iff max_def split: if_splits)
    qed
    ultimately show ?thesis by auto
  next
    case False
    then have "length b \<le> i" "length c \<le> i" "length d \<le> i" by (simp_all add: n_def d_def not_less)
    then have "trail b i = None" "trail c i = None" "trail d i = None"
      by (simp_all add: trail_None_iff)
    then show ?thesis by simp
  qed
  with dims have "\<forall>i. join_dim (trail a i) (trail d i) = Some (trail r i)"
    by (metis option.inject)
  with d show "\<exists>d. broadcast_shape_slices b c = Inr d \<and> broadcast_shape_slices a d = Inr r"
    by (auto simp: broadcast_trail_iff)
qed

lemma broadcast_commute: "broadcast_shape_slices a b = Inr c \<longleftrightarrow> broadcast_shape_slices b a = Inr c"
  using bc.commute by blast

lemma broadcast_idem [simp]: "broadcast_shape_slices a a = Inr a"
  by (rule bc.idem)

lemma broadcast_Nil [simp]:
  "broadcast_shape_slices [] a = Inr a"
  "broadcast_shape_slices a [] = Inr a"
proof -
  have nil: "trail [] i = None" for i by (simp add: trail_def)
  show "broadcast_shape_slices [] a = Inr a" by (simp add: broadcast_trail_iff nil)
  show "broadcast_shape_slices a [] = Inr a"
    by (simp add: broadcast_trail_iff nil join_dim_commute [of _ None])
qed

lemma broadcast_length: "broadcast_shape_slices a b = Inr c \<Longrightarrow> length c = max (length a) (length b)"
  by (simp add: broadcast_dims_iff)

text \<open>Shapes of equal rank broadcast pointwise.\<close>

lemma broadcast_same_length:
  assumes "length a = length c" "length b = length c"
    and "\<And>i. i < length c \<Longrightarrow> a ! i = b ! i \<and> c ! i = a ! i \<or> a ! i = 1 \<and> c ! i = b ! i \<or> b ! i = 1 \<and> c ! i = a ! i"
  shows "broadcast_shape_slices a b = Inr c"
proof -
  have "join_dim (trail a i) (trail b i) = Some (trail c i)" if i: "i < length c" for i
  proof -
    define k where "k = length c - Suc i"
    have k: "k < length c" using i by (simp add: k_def)
    have t: "trail a i = Some (a ! k)" "trail b i = Some (b ! k)" "trail c i = Some (c ! k)"
      using i assms(1,2) by (simp_all add: trail_def rev_nth k_def)
    show ?thesis using assms(3) [OF k] by (auto simp: t)
  qed
  then show ?thesis using assms(1,2) by (simp add: broadcast_dims_iff)
qed

lemma broadcast_nth:
  assumes "broadcast_shape_slices a b = Inr c" "length a = length c" "length b = length c" "i < length c"
  shows "a ! i = b ! i \<and> c ! i = a ! i \<or> a ! i = 1 \<and> c ! i = b ! i \<or> b ! i = 1 \<and> c ! i = a ! i"
proof -
  define k where "k = length c - Suc i"
  have k: "k < length c" "length c - Suc k = i" using assms(4) by (simp_all add: k_def)
  have "join_dim (trail a k) (trail b k) = Some (trail c k)"
    using assms(1) by (simp add: broadcast_trail_iff)
  moreover have "trail a k = Some (a ! i)" "trail b k = Some (b ! i)" "trail c k = Some (c ! i)"
    using k assms(2,3) by (simp_all add: trail_def rev_nth)
  ultimately show ?thesis by (auto split: if_splits)
qed

end
