(* ===== verification/Static_Creation.thy ===== *)
theory Static_Creation
  imports Ops_Common
begin

text \<open>
  \<^verbatim>\<open>crates/knok-core/src/ops/static_creation.rs\<close>: the compile-time expansion of \<open>arange\<close>,
  \<open>linspace\<close>, \<open>eye\<close> and the static random tensors into literal strings, and the validation of
  such calls.  Integer parameters are \<open>i128\<close>, with overflow as a panic; the generator works on
  64-bit words; floating-point arithmetic is the parameter \<open>F\<close> of type \<^typ>\<open>'f f64_ops\<close>.
\<close>

unbundle bit_operations_syntax

section \<open>Targets\<close>

definition validate_static_vector_target :: "tensor_type \<Rightarrow> unit result" where
  "validate_static_vector_target target =
     rbind (check (is_numeric (elem target)) (StaticError StaticNotNumeric)) (\<lambda>_.
     check (rank target = 1) (StaticError StaticRank))"

definition validate_static_eye_target :: "tensor_type \<Rightarrow> unit result" where
  "validate_static_eye_target target =
     rbind (check (rank target = 2) (StaticError StaticRank)) (\<lambda>_.
     check (shape target ! 0 = shape target ! 1) (StaticError StaticEyeNotSquare))"

definition validate_random_uniform_target :: "tensor_type \<Rightarrow> unit result" where
  "validate_random_uniform_target target =
     check (elem target = F32 \<or> elem target = F64) (StaticError StaticUniformElem)"

definition validate_random_int_target :: "tensor_type \<Rightarrow> unit result" where
  "validate_random_int_target target =
     check (elem target = I32 \<or> elem target = I64) (StaticError StaticIntElem)"

section \<open>Parameters\<close>

datatype 'f numeric_param = PInt int | PFloat 'f

fun as_int :: "'f numeric_param \<Rightarrow> int option" where
  "as_int (PInt v) = Some v"
| "as_int (PFloat v) = None"

fun as_float :: "'f f64_ops \<Rightarrow> 'f numeric_param \<Rightarrow> 'f" where
  "as_float F (PInt v) = f_of_int F v"
| "as_float F (PFloat v) = v"

definition numeric_param :: "'f f64_ops \<Rightarrow> expr \<Rightarrow> 'f numeric_param result" where
  "numeric_param F arg =
     rbind (static_scalar F arg) (\<lambda>s.
     case s of
       Some (SInt v) \<Rightarrow> Inr (PInt v)
     | Some (SFloat v) \<Rightarrow>
         (if f_is_finite F v then Inr (PFloat v) else Inl (StaticError StaticNotFinite))
     | Some (SBool b) \<Rightarrow> Inl (StaticError StaticNotLiteral)
     | None \<Rightarrow> Inl (StaticError StaticNotLiteral))"

text \<open>The inclusive range of accepted argument counts is given by its ends.\<close>

definition parse_numeric_params ::
    "'f f64_ops \<Rightarrow> expr list \<Rightarrow> nat \<Rightarrow> nat \<Rightarrow> 'f numeric_param list result" where
  "parse_numeric_params F args lo hi =
     rbind (check (lo \<le> length args \<and> length args \<le> hi) (StaticError StaticArity)) (\<lambda>_.
     rmap (numeric_param F) args)"

definition parse_float_bounds :: "'f f64_ops \<Rightarrow> expr list \<Rightarrow> ('f \<times> 'f) result" where
  "parse_float_bounds F args =
     rbind (parse_numeric_params F args 2 2) (\<lambda>params.
     let low = as_float F (params ! 0); high = as_float F (params ! 1) in
     if f_lt F low high then Inr (low, high) else Inl (StaticError StaticLowHigh))"

definition parse_integer_bounds :: "'f f64_ops \<Rightarrow> expr list \<Rightarrow> (int \<times> int) result" where
  "parse_integer_bounds F args =
     rbind (parse_numeric_params F args 2 2) (\<lambda>params.
     rbind (of_option (StaticError StaticBoundsNotInt) (as_int (params ! 0))) (\<lambda>low.
     rbind (of_option (StaticError StaticBoundsNotInt) (as_int (params ! 1))) (\<lambda>high.
     if low < high then Inr (low, high) else Inl (StaticError StaticLowHigh))))"

section \<open>Literals\<close>

definition integer_literal_for_elem :: "int \<Rightarrow> element_type \<Rightarrow> string result" where
  "integer_literal_for_elem value e =
     (if e = I32 \<and> (value < - (2 ^ 31) \<or> 2 ^ 31 - 1 < value) then Inl (LiteralError IntLiteralI32)
      else if e = I64 \<and> (value < - (2 ^ 63) \<or> 2 ^ 63 - 1 < value)
           then Inl (LiteralError IntLiteralI64)
      else if e = I32 \<or> e = I64 then Inr (int_str value)
      else Inl (LiteralError IntLiteralElem))"

text \<open>\<open>str::find\<close> of one character.\<close>

fun find_char :: "char \<Rightarrow> string \<Rightarrow> nat option" where
  "find_char c [] = None"
| "find_char c (d # ds) = (if d = c then Some 0 else map_option Suc (find_char c ds))"

definition float_literal :: "'f f64_ops \<Rightarrow> 'f \<Rightarrow> string" where
  "float_literal F value =
     (if f_eq F value (f_of_int F 0) then ''0.0''
      else
        let text = f_show F value;
            exponent = (case find_char CHR ''e'' text of
                          Some i \<Rightarrow> Some i | None \<Rightarrow> find_char CHR ''E'' text)
        in case exponent of
             Some i \<Rightarrow>
               (if CHR ''.'' \<in> set (take i text) then text
                else take i text @ ''.0'' @ drop i text)
           | None \<Rightarrow> (if CHR ''.'' \<in> set text then text else text @ ''.0''))"

section \<open>Lengths and values\<close>

definition integer_arange_len :: "int \<Rightarrow> int \<Rightarrow> int \<Rightarrow> nat result" where
  "integer_arange_len start stop step =
     (if step = 0 then Inl (LiteralError ArangeStepZero)
      else
        rbind (i128_checked (stop - start)) (\<lambda>distance.
        if (0 < step \<and> distance \<le> 0) \<or> (step < 0 \<and> 0 \<le> distance) then Inr 0
        else
          let d = nat \<bar>distance\<bar>; s = nat \<bar>step\<bar>;
              n = d div s + (if d mod s = 0 then 0 else 1)
          in if n < 2 ^ 64 then Inr n else Inl (LiteralError ArangeLength)))"

definition float_arange_len :: "'f f64_ops \<Rightarrow> 'f \<Rightarrow> 'f \<Rightarrow> 'f \<Rightarrow> nat result" where
  "float_arange_len F start stop step =
     (let zero = f_of_int F 0 in
      if f_eq F step zero then Inl (LiteralError ArangeStepZero)
      else
        let distance = f_sub F stop start in
        if (f_lt F zero step \<and> f_le F distance zero) \<or> (f_lt F step zero \<and> f_le F zero distance)
        then Inr 0
        else
          let len = f_ceil F (f_div F distance step) in
          if \<not> f_is_finite F len \<or> f_lt F len zero \<or> f_lt F (f_of_int F (2 ^ 64 - 1)) len
          then Inl (LiteralError ArangeLength)
          else Inr (f_to_usize F len))"

definition integer_linspace_values :: "int \<Rightarrow> int \<Rightarrow> nat \<Rightarrow> int list result" where
  "integer_linspace_values start stop len =
     (if len = 0 then Inr []
      else if len = 1 then Inr [start]
      else
        let intervals = int len - 1 in
        rbind (i128_checked (stop - start)) (\<lambda>distance.
        if \<not> intervals dvd distance then Inl (LiteralError LinspaceNotDivisible)
        else
          let step = distance div intervals in
          rmap (\<lambda>index. rbind (i128_checked (step * int index)) (\<lambda>off. i128_checked (start + off)))
            [0..<len]))"

definition float_linspace_values :: "'f f64_ops \<Rightarrow> 'f \<Rightarrow> 'f \<Rightarrow> nat \<Rightarrow> 'f list" where
  "float_linspace_values F start stop len =
     (if len = 0 then []
      else if len = 1 then [start]
      else
        let step = f_div F (f_sub F stop start) (f_of_int F (int len - 1)) in
        map (\<lambda>index. f_add F start (f_mul F step (f_of_int F (int index)))) [0..<len])"

section \<open>arange, linspace, eye\<close>

text \<open>The defaults of the one- and two-argument forms of \<open>arange\<close>.\<close>

fun arange_params ::
    "'f numeric_param list \<Rightarrow> 'f numeric_param \<times> 'f numeric_param \<times> 'f numeric_param" where
  "arange_params [stop] = (PInt 0, stop, PInt 1)"
| "arange_params [start, stop] = (start, stop, PInt 1)"
| "arange_params (start # stop # step # _) = (start, stop, step)"
| "arange_params [] = (PInt 0, PInt 0, PInt 1)"

definition int_arange_literals ::
    "tensor_type \<Rightarrow> 'f numeric_param \<Rightarrow> 'f numeric_param \<Rightarrow> 'f numeric_param \<Rightarrow> string list result" where
  "int_arange_literals target pstart pstop pstep =
     (let err = LiteralError ArangeParamsNotInt; len = shape target ! 0 in
      rbind (of_option err (as_int pstart)) (\<lambda>start.
      rbind (of_option err (as_int pstop)) (\<lambda>stop.
      rbind (of_option err (as_int pstep)) (\<lambda>step.
      rbind (integer_arange_len start stop step) (\<lambda>expected.
      rbind (check (expected = len) (LiteralError ArangeCount)) (\<lambda>_.
      rmap (\<lambda>index.
        rbind (i128_checked (step * int index)) (\<lambda>off.
        rbind (i128_checked (start + off)) (\<lambda>value.
        integer_literal_for_elem value (elem target)))) [0..<len]))))))"

definition float_arange_literals ::
    "'f f64_ops \<Rightarrow> tensor_type \<Rightarrow> 'f numeric_param \<Rightarrow> 'f numeric_param \<Rightarrow> 'f numeric_param
      \<Rightarrow> string list result" where
  "float_arange_literals F target pstart pstop pstep =
     (let start = as_float F pstart; stop = as_float F pstop; step = as_float F pstep;
          len = shape target ! 0
      in
      rbind (float_arange_len F start stop step) (\<lambda>expected.
      rbind (check (expected = len) (LiteralError ArangeCount)) (\<lambda>_.
      Inr (map (\<lambda>index. float_literal F (f_add F start (f_mul F step (f_of_int F (int index)))))
             [0..<len]))))"

definition static_arange_literals ::
    "'f f64_ops \<Rightarrow> tensor_type \<Rightarrow> expr list \<Rightarrow> string list result" where
  "static_arange_literals F target args =
     rbind (validate_static_vector_target target) (\<lambda>_.
     rbind (parse_numeric_params F args 1 3) (\<lambda>params.
     case arange_params params of (start, stop, step) \<Rightarrow>
       if elem target = I32 \<or> elem target = I64 then int_arange_literals target start stop step
       else if is_float (elem target) then float_arange_literals F target start stop step
       else Inl (StaticError StaticNotNumeric)))"

definition static_linspace_literals ::
    "'f f64_ops \<Rightarrow> tensor_type \<Rightarrow> expr list \<Rightarrow> string list result" where
  "static_linspace_literals F target args =
     rbind (validate_static_vector_target target) (\<lambda>_.
     rbind (parse_numeric_params F args 2 2) (\<lambda>params.
     let len = shape target ! 0; err = LiteralError LinspaceParamsNotInt in
     if elem target = I32 \<or> elem target = I64 then
       rbind (of_option err (as_int (params ! 0))) (\<lambda>start.
       rbind (of_option err (as_int (params ! 1))) (\<lambda>stop.
       rbind (integer_linspace_values start stop len) (\<lambda>values.
       rmap (\<lambda>value. integer_literal_for_elem value (elem target)) values)))
     else if is_float (elem target) then
       Inr (map (float_literal F)
         (float_linspace_values F (as_float F (params ! 0)) (as_float F (params ! 1)) len))
     else Inl (StaticError StaticNotNumeric)))"

definition static_eye_literals :: "tensor_type \<Rightarrow> string list result" where
  "static_eye_literals target =
     rbind (validate_static_eye_target target) (\<lambda>_.
     let rows = shape target ! 0 in
     Inr (concat (map (\<lambda>row. map (\<lambda>col.
       if row = col then one_literal (elem target) else zero_literal (elem target)) [0..<rows])
       [0..<rows])))"

section \<open>Static random tensors\<close>

definition splitmix64 :: "64 word \<Rightarrow> 64 word" where
  "splitmix64 value =
     (let value = value + 0x9E3779B97F4A7C15;
          mixed = (value XOR drop_bit 30 value) * 0xBF58476D1CE4E5B9;
          mixed = (mixed XOR drop_bit 27 mixed) * 0x94D049BB133111EB
      in mixed XOR drop_bit 31 mixed)"

definition unit_f64_from_u64 :: "'f f64_ops \<Rightarrow> 64 word \<Rightarrow> 'f" where
  "unit_f64_from_u64 F value =
     f_mul F (f_of_int F (uint (value AND (2 ^ 53 - 1)))) (f_div F (f_of_int F 1) (f_of_int F (2 ^ 53)))"

definition unit_f32_from_u64 :: "'f f64_ops \<Rightarrow> 64 word \<Rightarrow> 'f" where
  "unit_f32_from_u64 F value =
     f32_mul F (f32_round F (f_of_int F (uint (value AND (2 ^ 24 - 1)))))
       (f32_div F (f_of_int F 1) (f32_round F (f_of_int F (2 ^ 24))))"

definition next_down_f64 :: "'f f64_ops \<Rightarrow> 'f \<Rightarrow> 'f" where
  "next_down_f64 F value =
     (if f_eq F value (f_from_bits F 0xFFF0000000000000) then value
      else if f_eq F value (f_of_int F 0) then f_neg F (f_from_bits F 1)
      else if f_lt F (f_of_int F 0) value then f_from_bits F (f_to_bits F value - 1)
      else f_from_bits F (f_to_bits F value + 1))"

definition next_down_f32 :: "'f f64_ops \<Rightarrow> 'f \<Rightarrow> 'f" where
  "next_down_f32 F value =
     (if f_eq F value (f32_from_bits F 0xFF800000) then value
      else if f_eq F value (f_of_int F 0) then f_neg F (f32_from_bits F 1)
      else if f_lt F (f_of_int F 0) value then f32_from_bits F (f32_to_bits F value - 1)
      else f32_from_bits F (f32_to_bits F value + 1))"

definition uniform_f32 :: "'f f64_ops \<Rightarrow> 'f \<Rightarrow> 'f \<Rightarrow> 64 word \<Rightarrow> 'f" where
  "uniform_f32 F low high hash =
     (let value = f32_add F low (f32_mul F (unit_f32_from_u64 F hash) (f32_sub F high low));
          value = (if f_le F high value then next_down_f32 F high else value)
      in if f_lt F value low then low else value)"

definition uniform_f64 :: "'f f64_ops \<Rightarrow> 'f \<Rightarrow> 'f \<Rightarrow> 64 word \<Rightarrow> 'f" where
  "uniform_f64 F low high hash =
     (let value = f_add F low (f_mul F (unit_f64_from_u64 F hash) (f_sub F high low));
          value = (if f_le F high value then next_down_f64 F high else value)
      in if f_lt F value low then low else value)"

definition random_uniform_literal ::
    "'f f64_ops \<Rightarrow> element_type \<Rightarrow> 'f \<Rightarrow> 'f \<Rightarrow> 64 word \<Rightarrow> string result" where
  "random_uniform_literal F e low high hash =
     (case e of
        F32 \<Rightarrow>
          (let low = f32_round F low; high = f32_round F high in
           rbind (check (f_is_finite F low \<and> f_is_finite F high)
                    (LiteralError UniformF32NotFinite)) (\<lambda>_.
           rbind (check (\<not> f_le F high low) (LiteralError UniformF32LowHigh)) (\<lambda>_.
           Inr (float_literal F (uniform_f32 F low high hash)))))
      | F64 \<Rightarrow> Inr (float_literal F (uniform_f64 F low high hash))
      | _ \<Rightarrow> Inl (LiteralError UniformElem))"

definition static_random_uniform_literals ::
    "'f f64_ops \<Rightarrow> tensor_type \<Rightarrow> 64 word \<Rightarrow> expr list \<Rightarrow> string list result" where
  "static_random_uniform_literals F target seed args =
     rbind (validate_random_uniform_target target) (\<lambda>_.
     rbind (parse_float_bounds F args) (\<lambda>(low, high).
     rmap (\<lambda>index. random_uniform_literal F (elem target) low high (splitmix64 (seed + of_nat index)))
       [0..<element_count target]))"

definition static_random_int_literals ::
    "'f f64_ops \<Rightarrow> tensor_type \<Rightarrow> 64 word \<Rightarrow> expr list \<Rightarrow> string list result" where
  "static_random_int_literals F target seed args =
     rbind (validate_random_int_target target) (\<lambda>_.
     rbind (parse_integer_bounds F args) (\<lambda>(low, high).
     rbind (i128_checked (high - low)) (\<lambda>range.
     rbind (check (0 \<le> range) (LiteralError RandomRangeNotPositive)) (\<lambda>_.
     rmap (\<lambda>index.
       let sample = uint (splitmix64 (seed + of_nat index)) in
       rbind (i128_checked (low + sample mod range)) (\<lambda>value.
       integer_literal_for_elem value (elem target)))
       [0..<element_count target]))))"

section \<open>Validation\<close>

definition validate_static_creation_target :: "call_op \<Rightarrow> unit result" where
  "validate_static_creation_target op =
     (case op of
        OpArange target \<Rightarrow> validate_static_vector_target target
      | OpLinspace target \<Rightarrow> validate_static_vector_target target
      | OpEye target \<Rightarrow> validate_static_eye_target target
      | OpStaticRandomUniform target seed \<Rightarrow> validate_random_uniform_target target
      | OpStaticRandomInt target seed \<Rightarrow> validate_random_int_target target
      | _ \<Rightarrow> Inr ())"

definition discard :: "'a result \<Rightarrow> unit result" where
  "discard m = rbind m (\<lambda>_. Inr ())"

definition validate_static_creation_call :: "'f f64_ops \<Rightarrow> call_op \<Rightarrow> expr list \<Rightarrow> unit result" where
  "validate_static_creation_call F op args =
     (case op of
        OpArange target \<Rightarrow> discard (static_arange_literals F target args)
      | OpLinspace target \<Rightarrow> discard (static_linspace_literals F target args)
      | OpEye target \<Rightarrow>
          rbind (check (args = []) (StaticError EyeArity)) (\<lambda>_.
          discard (static_eye_literals target))
      | OpStaticRandomUniform target seed \<Rightarrow>
          discard (static_random_uniform_literals F target seed args)
      | OpStaticRandomInt target seed \<Rightarrow> discard (static_random_int_literals F target seed args)
      | _ \<Rightarrow> Inr ())"

end
