(* ===== verification/Static_Facts.thy ===== *)
theory Static_Facts
  imports Static_Creation
begin

text \<open>
  What the compile-time expansion of \<open>arange\<close>, \<open>linspace\<close>, \<open>eye\<close> and the static random tensors
  produces: the number of literals, their values, and the absence of overflow.
\<close>

section \<open>Decimal literals\<close>

lemma parse_i128_int_str:
  assumes "- (2 ^ 127) \<le> i" "i < 2 ^ 127"
  shows "parse_i128 (int_str i) = Some i"
proof (cases "i < 0")
  case True
  then have "parse_i128 (CHR ''-'' # nat_str (nat (- i))) = Some i"
    using assms by (simp add: parse_i128_def)
  with True show ?thesis by (simp add: int_str_def)
next
  case False
  then show ?thesis using assms parse_i128_nat_str [of "nat i"] by (simp add: int_str_def)
qed

lemma integer_literal_Inr:
  "integer_literal_for_elem v e = Inr s \<longleftrightarrow>
     (e = I32 \<and> - (2 ^ 31) \<le> v \<and> v < 2 ^ 31 \<or> e = I64 \<and> - (2 ^ 63) \<le> v \<and> v < 2 ^ 63) \<and>
     s = int_str v"
  by (auto simp: integer_literal_for_elem_def)

lemma integer_literal_scalar:
  assumes "integer_literal_for_elem v e = Inr s"
  shows "const_scalar F s e = Some (SInt v)"
proof -
  have "parse_i128 s = Some v" "e = I32 \<or> e = I64"
    using assms parse_i128_int_str [of v] by (auto simp: integer_literal_Inr)
  then show ?thesis by (auto simp: const_scalar_def)
qed

section \<open>arange\<close>

text \<open>The ceiling of a quotient, as \<open>integer_arange_len\<close> computes it.\<close>

lemma ceil_div:
  assumes "0 < (s :: nat)"
  shows "i < d div s + (if d mod s = 0 then 0 else 1) \<longleftrightarrow> i * s < d"
proof -
  have d: "d = s * (d div s) + d mod s" by simp
  show ?thesis
  proof (cases "d mod s = 0")
    case True
    then have "d = d div s * s" using d by (simp add: mult.commute)
    then have "i * s < d \<longleftrightarrow> i < d div s" using assms by (metis mult_less_cancel2)
    with True show ?thesis by simp
  next
    case False
    have lt: "d mod s < s" using assms by simp
    have "i * s < d \<longleftrightarrow> i \<le> d div s"
    proof
      assume "i \<le> d div s"
      then have "s * i \<le> s * (d div s)" by simp
      moreover have "0 < d mod s" using False by simp
      ultimately show "i * s < d" using d by (simp only: mult.commute [of i s])
    next
      assume "i * s < d"
      moreover have "(d div s + 1) * s = s * (d div s) + s" by simp
      ultimately have "i * s < (d div s + 1) * s" using d lt by linarith
      then show "i \<le> d div s" using assms by (metis Suc_eq_plus1 less_Suc_eq_le mult_less_cancel2)
    qed
    with False show ?thesis by auto
  qed
qed

lemma int_nat_mult_less:
  assumes "0 < (s :: int)" "0 \<le> d"
  shows "i * nat s < nat d \<longleftrightarrow> int i * s < d"
proof -
  have "int (i * nat s) = int i * s" "int (nat d) = d" using assms by simp_all
  then show ?thesis by (metis of_nat_less_iff)
qed

text \<open>Whether \<open>v\<close> comes before \<open>stop\<close> when counting in the direction of \<open>step\<close>.\<close>

definition before :: "int \<Rightarrow> int \<Rightarrow> int \<Rightarrow> bool" where
  "before step v stop \<longleftrightarrow> (if 0 < step then v < stop else stop < v)"

lemma integer_arange_len_before:
  assumes "integer_arange_len start stop step = Inr n"
  shows "i < n \<longleftrightarrow> before step (start + step * int i) stop"
proof -
  let ?d = "stop - start"
  have step: "step \<noteq> 0" using assms by (auto simp: integer_arange_len_def)
  show ?thesis
  proof (cases "(0 < step \<and> ?d \<le> 0) \<or> (step < 0 \<and> 0 \<le> ?d)")
    case True
    then have n: "n = 0" using assms step
      by (auto simp: integer_arange_len_def i128_checked_def split: if_splits)
    show ?thesis
    proof (cases "0 < step")
      case True
      then have "0 \<le> step * int i" by simp
      moreover have "stop \<le> start" using \<open>(0 < step \<and> ?d \<le> 0) \<or> _\<close> True by simp
      ultimately have "\<not> start + step * int i < stop" by linarith
      with True n show ?thesis by (simp add: before_def)
    next
      case False
      then have "step * int i \<le> 0" by (simp add: mult_le_0_iff)
      moreover have "start \<le> stop" using \<open>(0 < step \<and> ?d \<le> 0) \<or> _\<close> False by simp
      ultimately have "\<not> stop < start + step * int i" by linarith
      with False n show ?thesis by (simp add: before_def)
    qed
  next
    case False
    then have n: "n = nat \<bar>?d\<bar> div nat \<bar>step\<bar> + (if nat \<bar>?d\<bar> mod nat \<bar>step\<bar> = 0 then 0 else 1)"
      using assms step
      by (auto simp: integer_arange_len_def i128_checked_def Let_def split: if_splits)
    have "i < n \<longleftrightarrow> i * nat \<bar>step\<bar> < nat \<bar>?d\<bar>"
      unfolding n by (rule ceil_div) (use step in simp)
    also have "\<dots> \<longleftrightarrow> int i * \<bar>step\<bar> < \<bar>?d\<bar>"
      by (rule int_nat_mult_less) (use step in simp_all)
    also have "\<dots> \<longleftrightarrow> before step (start + step * int i) stop"
      using False step by (cases "0 < step") (auto simp: before_def mult.commute)
    finally show ?thesis .
  qed
qed

lemma int_arange_literals_Inr:
  assumes "int_arange_literals target (PInt start) (PInt stop) (PInt step) = Inr lits"
  shows "length lits = shape target ! 0"
    and "\<And>i. i < length lits \<longleftrightarrow> before step (start + step * int i) stop"
    and "\<And>i. i < length lits \<Longrightarrow>
           integer_literal_for_elem (start + step * int i) (elem target) = Inr (lits ! i)"
proof -
  let ?n = "shape target ! 0"
  have len: "integer_arange_len start stop step = Inr ?n"
    and lits: "list_all2 (\<lambda>i l. integer_literal_for_elem (start + step * int i) (elem target) = Inr l)
                 [0..<?n] lits"
    using assms by (auto simp: int_arange_literals_def result_simps Let_def rmap_Inr_iff
        elim!: list_all2_mono)
  then show n: "length lits = ?n" by (auto dest: list_all2_lengthD)
  show "i < length lits \<longleftrightarrow> before step (start + step * int i) stop" for i
    unfolding n by (rule integer_arange_len_before [OF len])
  show "integer_literal_for_elem (start + step * int i) (elem target) = Inr (lits ! i)"
    if "i < length lits" for i
    using list_all2_nthD [OF lits, of i] that by (simp add: n)
qed

section \<open>linspace\<close>

lemma scaled_bound:
  assumes "\<bar>step * n\<bar> < (b :: int)" "0 \<le> i" "i \<le> n"
  shows "\<bar>step * i\<bar> < b"
proof -
  have "\<bar>step * i\<bar> \<le> \<bar>step * n\<bar>" using assms by (simp add: abs_mult mult_left_mono)
  with assms show ?thesis by linarith
qed

text \<open>A value between two others, one step at a time from \<open>a\<close> to \<open>a + step * n\<close>.\<close>

lemma between_steps:
  assumes "0 \<le> i" "i \<le> (n :: int)"
  shows "min a (a + step * n) \<le> a + step * i \<and> a + step * i \<le> max a (a + step * n)"
proof (cases "0 \<le> step")
  case True
  then have "0 \<le> step * i" "step * i \<le> step * n" using assms by (simp_all add: mult_left_mono)
  then show ?thesis by (simp add: min_def max_def)
next
  case False
  then have "step * i \<le> 0" "step * n \<le> step * i"
    using assms by (simp_all add: mult_le_0_iff mult_left_mono_neg)
  then show ?thesis by (simp add: min_def max_def)
qed

lemma integer_linspace_values_ok:
  assumes "1 < len" "(int len - 1) dvd (stop - start)"
    and "- (2 ^ 127) \<le> start" "start < 2 ^ 127" "- (2 ^ 127) \<le> stop" "stop < 2 ^ 127"
    and "\<bar>stop - start\<bar> < 2 ^ 127"
  shows "integer_linspace_values start stop len =
           Inr (map (\<lambda>i. start + (stop - start) div (int len - 1) * int i) [0..<len])"
proof -
  let ?step = "(stop - start) div (int len - 1)"
  have stop: "stop = start + ?step * (int len - 1)" using dvd_div_mult_self [OF assms(2)] by linarith
  have "rbind (i128_checked (?step * int i)) (\<lambda>off. i128_checked (start + off))
          = Inr (start + ?step * int i)" if "i \<in> set [0..<len]" for i
  proof -
    have i: "0 \<le> int i" "int i \<le> int len - 1" using that by auto
    have "\<bar>?step * (int len - 1)\<bar> < 2 ^ 127" using assms(7) stop by simp
    then have "\<bar>?step * int i\<bar> < 2 ^ 127" using i by (rule scaled_bound)
    moreover have "- (2 ^ 127) \<le> start + ?step * int i \<and> start + ?step * int i < 2 ^ 127"
      using between_steps [OF i, of start ?step] assms(3-6) stop by (auto simp: min_def max_def split: if_splits)
    ultimately show ?thesis by (simp add: i128_checked_def abs_less_iff)
  qed
  then have "rmap (\<lambda>i. rbind (i128_checked (?step * int i)) (\<lambda>off. i128_checked (start + off))) [0..<len]
      = Inr (map (\<lambda>i. start + ?step * int i) [0..<len])"
    by (rule rmap_Inr_map)
  moreover have "i128_checked (stop - start) = Inr (stop - start)"
    using assms(7) by (simp add: i128_checked_def abs_less_iff)
  ultimately show ?thesis using assms(1,2) by (simp add: integer_linspace_values_def Let_def)
qed

lemma integer_linspace_values_length:
  "integer_linspace_values start stop len = Inr vs \<Longrightarrow> length vs = len"
  by (auto simp: integer_linspace_values_def Let_def result_simps dest: rmap_length split: if_splits)

section \<open>eye\<close>

lemma nth_concat_rows:
  "i < n \<Longrightarrow> j < m \<Longrightarrow> concat (map (\<lambda>r. map (f r) [0..<m]) [0..<n]) ! (i * m + j) = f i j"
proof (induction n)
  case (Suc n)
  have len: "length (concat (map (\<lambda>r. map (f r) [0..<m]) [0..<n])) = n * m"
    by (simp add: length_concat o_def sum_list_triv)
  show ?case
  proof (cases "i < n")
    case True
    have "i * m + j < n * m"
    proof -
      have "i * m + j < (i + 1) * m" using Suc.prems by simp
      also have "\<dots> \<le> n * m" using True by (intro mult_le_mono1) simp
      finally show ?thesis .
    qed
    with True Suc show ?thesis by (simp add: nth_append len)
  next
    case False
    then have "i = n" using Suc.prems by simp
    with Suc.prems show ?thesis by (simp add: nth_append len)
  qed
qed simp

lemma static_eye_length:
  "static_eye_literals target = Inr lits \<Longrightarrow> length lits = element_count target"
proof -
  assume H: "static_eye_literals target = Inr lits"
  then obtain n where "shape target = [n, n]"
    by (auto simp: static_eye_literals_def validate_static_eye_target_def result_simps rank_def
        numeral_2_eq_2 length_Suc_conv)
  with H show ?thesis
    by (auto simp: static_eye_literals_def result_simps element_count_def length_concat o_def
        sum_list_triv Let_def)
qed

section \<open>Static random tensors\<close>

lemma xor_shift_right_inject:
  fixes x y :: "64 word"
  assumes "0 < n" "x XOR drop_bit n x = y XOR drop_bit n y"
  shows "x = y"
proof -
  have bits: "bit x k \<noteq> bit x (k + n) \<longleftrightarrow> bit y k \<noteq> bit y (k + n)" for k
  proof -
    have "bit (x XOR drop_bit n x) k = bit (y XOR drop_bit n y) k" using assms by simp
    then show ?thesis by (simp add: bit_xor_iff bit_drop_bit_eq add.commute)
  qed
  have "64 - d \<le> k \<Longrightarrow> bit x k = bit y k" for d k
  proof (induction d arbitrary: k rule: less_induct)
    case (less d)
    show ?case
    proof (cases "64 \<le> k")
      case True
      then show ?thesis using bit_word.rep_eq by (auto dest: bit_imp_le_length)
    next
      case False
      have "bit x (k + n) = bit y (k + n)"
        by (rule less.IH [of "d - 1"]) (use less.prems False assms(1) in arith)+
      with bits [of k] show ?thesis by blast
    qed
  qed
  from this [of 64] show ?thesis by (auto simp: bit_eq_iff)
qed

lemma mult_inverse_inject:
  fixes x y :: "'a :: comm_ring_1"
  assumes "c * d = 1" "x * c = y * c"
  shows "x = y"
proof -
  have "x * c * d = y * c * d" using assms(2) by simp
  then show ?thesis by (simp add: mult.assoc assms(1))
qed

text \<open>The three mixing steps of \<open>splitmix64\<close> are injective: the multipliers are odd.\<close>

definition mix30 :: "64 word \<Rightarrow> 64 word" where
  "mix30 z = (z XOR drop_bit 30 z) * 0xBF58476D1CE4E5B9"

definition mix27 :: "64 word \<Rightarrow> 64 word" where
  "mix27 z = (z XOR drop_bit 27 z) * 0x94D049BB133111EB"

lemma mix_multipliers:
  "(0xBF58476D1CE4E5B9 :: 64 word) * 0x96DE1B173F119089 = 1"
  "(0x94D049BB133111EB :: 64 word) * 0x319642B2D24D8EC3 = 1"
  by simp_all

lemma mix30_inject: "mix30 a = mix30 b \<Longrightarrow> a = b"
  unfolding mix30_def
  by (drule mult_inverse_inject [OF mix_multipliers(1)]) (rule xor_shift_right_inject [rotated], assumption, simp)

lemma mix27_inject: "mix27 a = mix27 b \<Longrightarrow> a = b"
  unfolding mix27_def
  by (drule mult_inverse_inject [OF mix_multipliers(2)]) (rule xor_shift_right_inject [rotated], assumption, simp)

lemma splitmix64_mix:
  "splitmix64 z = (let m = mix27 (mix30 (z + 0x9E3779B97F4A7C15)) in m XOR drop_bit 31 m)"
  by (simp only: splitmix64_def mix30_def mix27_def Let_def)

lemma splitmix64_inject: "splitmix64 x = splitmix64 y \<longleftrightarrow> x = y"
proof
  assume "splitmix64 x = splitmix64 y"
  then have "mix27 (mix30 (x + 0x9E3779B97F4A7C15)) = mix27 (mix30 (y + 0x9E3779B97F4A7C15))"
    unfolding splitmix64_mix Let_def by (rule xor_shift_right_inject [rotated]) simp
  then have "x + 0x9E3779B97F4A7C15 = y + 0x9E3779B97F4A7C15"
    by (rule mix30_inject [OF mix27_inject])
  then show "x = y" by (rule add_right_imp_eq)
qed simp

text \<open>A run of fewer than \<open>2 ^ 64\<close> consecutive indices never repeats a sample.\<close>

lemma splitmix64_stream:
  assumes "i < 2 ^ 64" "j < 2 ^ 64"
  shows "splitmix64 (seed + of_nat i) = splitmix64 (seed + of_nat j) \<longleftrightarrow> i = j"
  using assms by (simp add: splitmix64_inject word_of_nat_eq_iff take_bit_nat_eq_self)

lemma static_random_int_value:
  assumes "static_random_int_literals F target seed args = Inr lits"
    and "parse_integer_bounds F args = Inr (low, high)" and "i < length lits"
  shows "\<exists>v. low \<le> v \<and> v < high \<and> integer_literal_for_elem v (elem target) = Inr (lits ! i)"
proof -
  have lh: "low < high" using assms(2) by (auto simp: parse_integer_bounds_def result_simps Let_def split: if_splits)
  have lits: "list_all2 (\<lambda>i l. integer_literal_for_elem
            (low + uint (splitmix64 (seed + of_nat i)) mod (high - low)) (elem target) = Inr l)
          [0..<element_count target] lits"
    using assms(1)
    by (auto simp: static_random_int_literals_def assms(2) result_simps Let_def rmap_Inr_iff
        elim!: list_all2_mono)
  then have "i < element_count target" using assms(3) by (auto dest: list_all2_lengthD)
  then have "integer_literal_for_elem
      (low + uint (splitmix64 (seed + of_nat i)) mod (high - low)) (elem target) = Inr (lits ! i)"
    using list_all2_nthD2 [OF lits assms(3)] by simp
  moreover have "0 \<le> uint (splitmix64 (seed + of_nat i)) mod (high - low)"
      "uint (splitmix64 (seed + of_nat i)) mod (high - low) < high - low"
    using lh by simp_all
  ultimately show ?thesis by (intro exI [of _ "low + uint (splitmix64 (seed + of_nat i)) mod (high - low)"]) simp
qed

section \<open>Literal counts\<close>

lemma vector_target_count:
  "validate_static_vector_target target = Inr () \<Longrightarrow> element_count target = shape target ! 0"
  by (auto simp: validate_static_vector_target_def result_simps rank_def element_count_def length_Suc_conv)

lemma int_arange_length:
  "int_arange_literals target a b c = Inr lits \<Longrightarrow> length lits = shape target ! 0"
  by (auto simp: int_arange_literals_def result_simps Let_def dest!: rmap_length)

lemma float_arange_length:
  "float_arange_literals F target a b c = Inr lits \<Longrightarrow> length lits = shape target ! 0"
  by (auto simp: float_arange_literals_def result_simps Let_def)

lemma static_arange_length:
  "static_arange_literals F target args = Inr lits \<Longrightarrow> length lits = element_count target"
proof -
  assume "static_arange_literals F target args = Inr lits"
  then obtain params where valid: "validate_static_vector_target target = Inr ()"
    and lits: "(case arange_params params of (a, b, c) \<Rightarrow>
        if elem target = I32 \<or> elem target = I64 then int_arange_literals target a b c
        else if is_float (elem target) then float_arange_literals F target a b c
        else Inl (StaticError StaticNotNumeric)) = Inr lits"
    by (auto simp: static_arange_literals_def result_simps)
  obtain a b c where p: "arange_params params = (a, b, c)" by (cases "arange_params params")
  from lits show ?thesis
    by (auto simp: p vector_target_count [OF valid] split: if_splits
        dest: int_arange_length float_arange_length)
qed

lemma static_linspace_length:
  "static_linspace_literals F target args = Inr lits \<Longrightarrow> length lits = element_count target"
  by (auto simp: static_linspace_literals_def float_linspace_values_def
      result_simps Let_def vector_target_count
      dest!: rmap_length integer_linspace_values_length split: if_splits)

lemma static_random_uniform_length:
  "static_random_uniform_literals F target seed args = Inr lits \<Longrightarrow> length lits = element_count target"
  by (auto simp: static_random_uniform_literals_def result_simps dest!: rmap_length)

lemma static_random_int_length:
  "static_random_int_literals F target seed args = Inr lits \<Longrightarrow> length lits = element_count target"
  by (auto simp: static_random_int_literals_def result_simps Let_def dest!: rmap_length)

end
