(* ===== verification/Static_Properties.thy ===== *)
theory Static_Properties
  imports Static_Facts
begin

text \<open>
  The properties of the compile-time creation operations, each with a concrete instance.
\<close>

text \<open>C1. An integer \<open>arange\<close> that is accepted expands to exactly the values
  \<open>start + step * i\<close> that lie before \<open>stop\<close> in the direction of \<open>step\<close>, one literal per element of
  the target, and every literal parses back to its value.\<close>

theorem int_arange_expansion:
  assumes "int_arange_literals target (PInt start) (PInt stop) (PInt step) = Inr lits"
  shows "length lits = shape target ! 0 \<and>
    (\<forall>i. i < length lits \<longleftrightarrow> before step (start + step * int i) stop) \<and>
    (\<forall>i < length lits. const_scalar F (lits ! i) (elem target) = Some (SInt (start + step * int i)))"
  using int_arange_literals_Inr [OF assms] integer_literal_scalar by blast

lemma int_arange_expansion_witness:
  "const_scalar exact_ops ([''5'', ''3'', ''1''] ! 2) I32 = Some (SInt 1)"
proof -
  have "int_arange_literals (tensor I32 [3]) (PInt 5) (PInt 0 :: int numeric_param) (PInt (- 2))
      = Inr [''5'', ''3'', ''1'']"
    by (simp add: int_arange_literals_def integer_arange_len_def i128_checked_def upt_rec
        integer_literal_for_elem_def int_str_def nat_str_eval)
  from conjunct2 [OF conjunct2 [OF int_arange_expansion [OF this, of exact_ops]]]
  have "\<forall>i < 3. const_scalar exact_ops ([''5'', ''3'', ''1''] ! i) I32 = Some (SInt (5 + - 2 * int i))"
    by simp
  from this [rule_format, of 2] show ?thesis by simp
qed

text \<open>C2. \<open>linspace\<close> on integers: when the distance divides into \<open>len - 1\<close> steps, the values start at
  \<open>start\<close>, end at \<open>stop\<close>, are equally spaced, and no intermediate computation overflows \<open>i128\<close>.\<close>

theorem int_linspace_expansion:
  assumes "1 < len" and "(int len - 1) dvd (stop - start)"
    and "\<bar>start\<bar> < 2 ^ 126" and "\<bar>stop\<bar> < 2 ^ 126"
  shows "\<exists>vs step. integer_linspace_values start stop len = Inr vs \<and> length vs = len \<and>
    hd vs = start \<and> last vs = stop \<and> (\<forall>i < len. vs ! i = start + step * int i)"
proof -
  let ?step = "(stop - start) div (int len - 1)"
  let ?vs = "map (\<lambda>i. start + ?step * int i) [0..<len]"
  have "integer_linspace_values start stop len = Inr ?vs"
    using assms by (intro integer_linspace_values_ok) (simp_all add: abs_less_iff)
  moreover have "start + ?step * int (len - 1) = stop"
    using dvd_div_mult_self [OF assms(2)] assms(1) by (simp add: of_nat_diff)
  moreover have "hd ?vs = start" "last ?vs = start + ?step * int (len - 1)"
    using assms(1) by (simp_all add: hd_map last_map)
  ultimately show ?thesis by (intro exI [of _ ?vs] exI [of _ ?step]) auto
qed

lemma int_linspace_expansion_witness:
  "\<exists>vs step. integer_linspace_values (- 3) 9 5 = Inr vs \<and> length vs = 5 \<and>
    hd vs = - 3 \<and> last vs = 9 \<and> (\<forall>i < 5. vs ! i = - 3 + step * int i)"
  using int_linspace_expansion [of 5 9 "- 3"] by simp

text \<open>Every accepted static creation call provides one literal for each element of its target.\<close>

theorem static_literal_counts:
  assumes "static_arange_literals F target args = Inr lits \<or>
    static_linspace_literals F target args = Inr lits \<or> static_eye_literals target = Inr lits \<or>
    static_random_uniform_literals F target seed args = Inr lits \<or>
    static_random_int_literals F target seed args = Inr lits"
  shows "length lits = element_count target"
  using assms static_arange_length static_linspace_length static_eye_length
    static_random_uniform_length static_random_int_length by blast

lemma static_literal_counts_witness:
  "length [''1'', ''0'', ''0'', ''1''] = element_count (tensor I32 [2, 2])"
proof (rule static_literal_counts [of exact_ops _ "[]" _ 0])
  have "static_eye_literals (tensor I32 [2, 2]) = Inr [''1'', ''0'', ''0'', ''1'']" by code_simp
  then show "static_arange_literals exact_ops (tensor I32 [2, 2]) [] = Inr [''1'', ''0'', ''0'', ''1''] \<or>
    static_linspace_literals exact_ops (tensor I32 [2, 2]) [] = Inr [''1'', ''0'', ''0'', ''1''] \<or>
    static_eye_literals (tensor I32 [2, 2]) = Inr [''1'', ''0'', ''0'', ''1''] \<or>
    static_random_uniform_literals exact_ops (tensor I32 [2, 2]) 0 [] = Inr [''1'', ''0'', ''0'', ''1''] \<or>
    static_random_int_literals exact_ops (tensor I32 [2, 2]) 0 [] = Inr [''1'', ''0'', ''0'', ''1'']"
    by blast
qed

text \<open>C4. The row-major expansion of \<open>eye\<close> has the one literal exactly on the diagonal.\<close>

theorem eye_diagonal:
  assumes "static_eye_literals target = Inr lits" and "i < n" and "j < n" and "shape target = [n, n]"
  shows "lits ! (i * n + j) = (if i = j then one_literal (elem target) else zero_literal (elem target))"
  using assms nth_concat_rows [of i n j n "\<lambda>r c. if r = c then one_literal (elem target) else zero_literal (elem target)"]
  by (auto simp: static_eye_literals_def result_simps Let_def)

lemma eye_diagonal_witness: "[''1'', ''0'', ''0'', ''1''] ! (1 * 2 + 1) = one_literal I32"
proof -
  have "static_eye_literals (tensor I32 [2, 2]) = Inr [''1'', ''0'', ''0'', ''1'']" by code_simp
  from eye_diagonal [OF this, of 1 2 1] show ?thesis by simp
qed

text \<open>Every literal of a static random integer tensor is the decimal form of a value in the
  half-open range of its bounds that fits the element type.\<close>

theorem static_random_int_range:
  assumes "static_random_int_literals F target seed args = Inr lits"
    and "parse_integer_bounds F args = Inr (low, high)" and "i < length lits"
  shows "\<exists>v. low \<le> v \<and> v < high \<and> const_scalar F (lits ! i) (elem target) = Some (SInt v)"
  using static_random_int_value [OF assms] integer_literal_scalar by blast

lemma static_random_int_range_witness:
  "\<exists>v. 10 \<le> v \<and> v < 12 \<and> const_scalar exact_ops ''11'' I32 = Some (SInt v)"
proof -
  let ?args = "[EConst ''10'' I32, EConst ''12'' I32]"
  have bounds: "parse_integer_bounds exact_ops ?args = Inr (10, 12)"
    by (simp add: parse_integer_bounds_def parse_numeric_params_def numeric_param_def
        const_scalar_def parse_i128_def parse_nat_def digit_value_def)
  have "splitmix64 1 = 0x910A2DEC89025CC1" by (simp add: splitmix64_def Let_def)
  then have "static_random_int_literals exact_ops (tensor I32 [1]) 1 ?args = Inr [''11'']"
    by (simp add: static_random_int_literals_def bounds validate_random_int_target_def
        i128_checked_def element_count_def integer_literal_for_elem_def int_str_def nat_str_eval)
  from static_random_int_range [OF this bounds, of 0] show ?thesis by simp
qed

text \<open>C6. The hash stream behind the static random tensors never repeats a sample: \<open>splitmix64\<close> is
  injective, so distinct element indices below \<open>2 ^ 64\<close> give distinct 64-bit samples.\<close>

theorem static_random_samples_distinct:
  assumes "i < 2 ^ 64" and "j < 2 ^ 64" and "splitmix64 (seed + of_nat i) = splitmix64 (seed + of_nat j)"
  shows "i = j"
  using splitmix64_stream assms by blast

lemma static_random_samples_distinct_witness:
  "splitmix64 (7 + of_nat 0) \<noteq> splitmix64 (7 + of_nat 1)"
  using static_random_samples_distinct [of 0 1 7] by auto

end
