(* ===== verification/Ops_Shapes.thy ===== *)
theory Ops_Shapes
  imports Ops_Common
begin

text \<open>
  The result types of the structured operations of \<^verbatim>\<open>crates/knok-core/src/ops\<close>: axis
  permutations (\<^verbatim>\<open>permute.rs\<close>), convolution (\<^verbatim>\<open>conv.rs\<close>), pooling (\<^verbatim>\<open>pool.rs\<close>),
  linear algebra (\<^verbatim>\<open>linalg.rs\<close>) and matrix products (\<^verbatim>\<open>matmul.rs\<close>).
  Definitions first, then what a successful inference says of the shapes.
\<close>

section \<open>permute.rs\<close>

text \<open>
  The loop over \<open>axes\<close> with its table \<open>seen\<close> of length \<open>rank\<close>.  Three functions of the sources run it
  and differ in the diagnostics for an axis out of bounds and for a repeated one.
\<close>

fun scan_axes :: "error \<Rightarrow> error \<Rightarrow> bool list \<Rightarrow> nat list \<Rightarrow> unit result" where
  "scan_axes e_bounds e_dup seen [] = Inr ()"
| "scan_axes e_bounds e_dup seen (axis # axes) =
     (if length seen \<le> axis then Inl e_bounds
      else if seen ! axis then Inl e_dup
      else scan_axes e_bounds e_dup (seen[axis := True]) axes)"

definition validate_permute :: "tensor_type \<Rightarrow> tensor_type \<Rightarrow> nat list \<Rightarrow> unit result" where
  "validate_permute inp target axes =
     rbind (check (elem inp = elem target) (AxisError PermuteElement)) (\<lambda>_.
     rbind (check (length axes = rank inp \<and> rank target = rank inp) (AxisError PermuteRank)) (\<lambda>_.
     rbind (scan_axes (AxisError PermuteNotPermutation) (AxisError PermuteNotPermutation)
              (replicate (rank inp) False) axes) (\<lambda>_.
     check (map (\<lambda>axis. shape inp ! axis) axes = shape target) (AxisError PermuteTarget))))"

section \<open>conv.rs\<close>

definition conv2d_result_type ::
    "tensor_type \<Rightarrow> tensor_type \<Rightarrow> conv2d_options \<Rightarrow> tensor_type result" where
  "conv2d_result_type inp kern options =
     rbind (check (rank inp = 4 \<and> rank kern = 4 \<and> elem inp = elem kern)
              (ConvError ConvOperands)) (\<lambda>_.
     rbind (expect_numeric_element (elem inp)) (\<lambda>_.
     rbind (check (conv_groups options \<noteq> 0) (ConvError ConvGroupsZero)) (\<lambda>_.
     rbind (check (fst (conv_stride options) \<noteq> 0 \<and> snd (conv_stride options) \<noteq> 0 \<and>
                   fst (conv_dilation options) \<noteq> 0 \<and> snd (conv_dilation options) \<noteq> 0)
              (ConvError ConvStrideDilationZero)) (\<lambda>_.
     rbind (check (shape kern ! 0 \<noteq> 0 \<and> shape kern ! 1 \<noteq> 0 \<and>
                   shape kern ! 2 \<noteq> 0 \<and> shape kern ! 3 \<noteq> 0)
              (ConvError ConvKernelZero)) (\<lambda>_.
     let input_channels = shape inp ! 3; output_channels = shape kern ! 3 in
     rbind (check (input_channels \<noteq> 0 \<and> output_channels \<noteq> 0) (ConvError ConvChannelsZero)) (\<lambda>_.
     rbind (check (conv_groups options dvd input_channels)
              (ConvError ConvInputChannelsGroups)) (\<lambda>_.
     rbind (check (conv_groups options dvd output_channels)
              (ConvError ConvOutputChannelsGroups)) (\<lambda>_.
     rbind (check (shape kern ! 2 = input_channels div conv_groups options)
              (ConvError ConvKernelChannels)) (\<lambda>_.
     let effective_h = (shape kern ! 0 - 1) * fst (conv_dilation options) + 1;
         effective_w = (shape kern ! 1 - 1) * snd (conv_dilation options) + 1;
         padded_h = shape inp ! 1 + pad_top (conv_padding options) + pad_bottom (conv_padding options);
         padded_w = shape inp ! 2 + pad_left (conv_padding options) + pad_right (conv_padding options)
     in rbind (check (effective_h \<le> padded_h \<and> effective_w \<le> padded_w)
                 (ConvError ConvKernelTooLarge)) (\<lambda>_.
        Inr (tensor (elem inp)
          [shape inp ! 0,
           (padded_h - effective_h) div fst (conv_stride options) + 1,
           (padded_w - effective_w) div snd (conv_stride options) + 1,
           output_channels])))))))))))"

section \<open>pool.rs\<close>

definition pool2d_result_type :: "tensor_type \<Rightarrow> pool2d_options \<Rightarrow> tensor_type result" where
  "pool2d_result_type inp options =
     rbind (check (rank inp = 4) (PoolError PoolRank)) (\<lambda>_.
     rbind (expect_numeric_element (elem inp)) (\<lambda>_.
     rbind (check (fst (pool_kernel options) \<noteq> 0 \<and> snd (pool_kernel options) \<noteq> 0)
              (PoolError PoolKernelZero)) (\<lambda>_.
     rbind (check (fst (pool_stride options) \<noteq> 0 \<and> snd (pool_stride options) \<noteq> 0 \<and>
                   fst (pool_dilation options) \<noteq> 0 \<and> snd (pool_dilation options) \<noteq> 0)
              (PoolError PoolStrideDilationZero)) (\<lambda>_.
     rbind (check (shape inp ! 0 \<noteq> 0 \<and> shape inp ! 3 \<noteq> 0)
              (PoolError PoolBatchChannelZero)) (\<lambda>_.
     let effective_h = (fst (pool_kernel options) - 1) * fst (pool_dilation options) + 1;
         effective_w = (snd (pool_kernel options) - 1) * snd (pool_dilation options) + 1;
         padded_h = shape inp ! 1 + pad_top (pool_padding options) + pad_bottom (pool_padding options);
         padded_w = shape inp ! 2 + pad_left (pool_padding options) + pad_right (pool_padding options)
     in rbind (check (effective_h \<le> padded_h \<and> effective_w \<le> padded_w)
                 (PoolError PoolKernelTooLarge)) (\<lambda>_.
        Inr (tensor (elem inp)
          [shape inp ! 0,
           (padded_h - effective_h) div fst (pool_stride options) + 1,
           (padded_w - effective_w) div snd (pool_stride options) + 1,
           shape inp ! 3])))))))"

definition max_pool2d_result_type :: "tensor_type \<Rightarrow> pool2d_options \<Rightarrow> tensor_type result" where
  "max_pool2d_result_type inp options = pool2d_result_type inp options"

definition avg_pool2d_result_type :: "tensor_type \<Rightarrow> pool2d_options \<Rightarrow> tensor_type result" where
  "avg_pool2d_result_type inp options =
     rbind (check (is_float (elem inp)) (PoolError AvgPoolNotFloat)) (\<lambda>_.
     pool2d_result_type inp options)"

section \<open>linalg.rs\<close>

definition MAX_TENSOR_RANK :: nat where
  "MAX_TENSOR_RANK = 6"

definition expect_same_numeric_element :: "tensor_type \<Rightarrow> tensor_type \<Rightarrow> unit result" where
  "expect_same_numeric_element lhs rhs =
     rbind (check (elem lhs = elem rhs) (LinalgError LinalgElementMismatch)) (\<lambda>_.
     expect_numeric_element (elem lhs))"

definition linalg_expect_axis :: "tensor_type \<Rightarrow> nat \<Rightarrow> unit result" where
  "linalg_expect_axis inp axis = check (axis < rank inp) (LinalgError LinalgAxis)"

definition expect_matching_dim :: "nat \<Rightarrow> nat \<Rightarrow> unit result" where
  "expect_matching_dim lhs rhs = check (lhs = rhs) (LinalgError DimsMustMatch)"

definition default_axis_pair ::
    "tensor_type \<Rightarrow> (nat \<times> nat) option \<Rightarrow> (nat \<times> nat) result" where
  "default_axis_pair inp axes =
     rbind (check (2 \<le> rank inp) (LinalgError DiagonalRank)) (\<lambda>_.
     let ax = (case axes of Some a \<Rightarrow> a | None \<Rightarrow> (rank inp - 2, rank inp - 1)) in
     rbind (linalg_expect_axis inp (fst ax)) (\<lambda>_.
     rbind (linalg_expect_axis inp (snd ax)) (\<lambda>_.
     rbind (check (fst ax \<noteq> snd ax) (LinalgError DiagonalAxesEqual)) (\<lambda>_. Inr ax))))"

definition remove_axes_shape :: "nat list \<Rightarrow> nat \<Rightarrow> nat \<Rightarrow> nat list" where
  "remove_axes_shape s axis0 axis1 =
     map snd (filter (\<lambda>(axis, dim). axis \<noteq> axis0 \<and> axis \<noteq> axis1) (enumerate 0 s))"

definition dot_result_type :: "tensor_type \<Rightarrow> tensor_type \<Rightarrow> tensor_type result" where
  "dot_result_type lhs rhs =
     rbind (expect_same_numeric_element lhs rhs) (\<lambda>_.
     rbind (check (rank lhs = 1 \<and> rank rhs = 1) (LinalgError DotRank)) (\<lambda>_.
     rbind (expect_matching_dim (shape lhs ! 0) (shape rhs ! 0)) (\<lambda>_.
     Inr (tensor (elem lhs) []))))"

definition vecdot_result_type ::
    "tensor_type \<Rightarrow> tensor_type \<Rightarrow> nat option \<Rightarrow> tensor_type result" where
  "vecdot_result_type lhs rhs axis =
     rbind (expect_same_numeric_element lhs rhs) (\<lambda>_.
     rbind (check (rank lhs \<noteq> 0 \<and> rank rhs \<noteq> 0) (LinalgError VecdotRank)) (\<lambda>_.
     rbind (check (shape lhs = shape rhs) (LinalgError VecdotShapes)) (\<lambda>_.
     let ax = (case axis of Some a \<Rightarrow> a | None \<Rightarrow> rank lhs - 1) in
     rbind (linalg_expect_axis lhs ax) (\<lambda>_.
     Inr (tensor (elem lhs) (remove_nth ax (shape lhs)))))))"

definition inner_result_type :: "tensor_type \<Rightarrow> tensor_type \<Rightarrow> tensor_type result" where
  "inner_result_type lhs rhs =
     rbind (expect_same_numeric_element lhs rhs) (\<lambda>_.
     if rank lhs = 0 \<or> rank rhs = 0
     then Inr (tensor (elem lhs) (if rank lhs = 0 then shape rhs else shape lhs))
     else
       rbind (expect_matching_dim (shape lhs ! (rank lhs - 1)) (shape rhs ! (rank rhs - 1))) (\<lambda>_.
       let s = take (rank lhs - 1) (shape lhs) @ take (rank rhs - 1) (shape rhs) in
       rbind (check (length s \<le> MAX_TENSOR_RANK) (LinalgError ResultRank)) (\<lambda>_.
       Inr (tensor (elem lhs) s))))"

definition outer_result_type :: "tensor_type \<Rightarrow> tensor_type \<Rightarrow> tensor_type result" where
  "outer_result_type lhs rhs =
     rbind (expect_same_numeric_element lhs rhs) (\<lambda>_.
     Inr (tensor (elem lhs) [element_count lhs, element_count rhs]))"

definition trace_result_type :: "tensor_type \<Rightarrow> (nat \<times> nat) option \<Rightarrow> tensor_type result" where
  "trace_result_type inp axes =
     rbind (expect_numeric_element (elem inp)) (\<lambda>_.
     rbind (default_axis_pair inp axes) (\<lambda>(axis0, axis1).
     rbind (expect_matching_dim (shape inp ! axis0) (shape inp ! axis1)) (\<lambda>_.
     Inr (tensor (elem inp) (remove_axes_shape (shape inp) axis0 axis1)))))"

definition diagonal_result_type :: "tensor_type \<Rightarrow> (nat \<times> nat) option \<Rightarrow> tensor_type result" where
  "diagonal_result_type inp axes =
     rbind (default_axis_pair inp axes) (\<lambda>(axis0, axis1).
     rbind (expect_matching_dim (shape inp ! axis0) (shape inp ! axis1)) (\<lambda>_.
     Inr (tensor (elem inp) (remove_axes_shape (shape inp) axis0 axis1 @ [shape inp ! axis0]))))"

section \<open>matmul.rs\<close>

definition matmul_result_type :: "tensor_type \<Rightarrow> tensor_type \<Rightarrow> tensor_type result" where
  "matmul_result_type lhs rhs =
     rbind (check (elem lhs = elem rhs) (LinalgError MatmulElement)) (\<lambda>_.
     rbind (expect_numeric_element (elem lhs)) (\<lambda>_.
     rbind (check (rank lhs \<noteq> 0 \<and> rank rhs \<noteq> 0) (LinalgError MatmulRankZero)) (\<lambda>_.
     rbind (check (rank lhs \<le> MAX_TENSOR_RANK \<and> rank rhs \<le> MAX_TENSOR_RANK)
              (LinalgError MatmulRankLimit)) (\<lambda>_.
     let lhs_is_vector = (rank lhs = 1); rhs_is_vector = (rank rhs = 1);
         lhs_k = (if lhs_is_vector then shape lhs ! 0 else shape lhs ! (rank lhs - 1));
         rhs_k = (if rhs_is_vector then shape rhs ! 0 else shape rhs ! (rank rhs - 2))
     in
     rbind (check (lhs_k = rhs_k) (LinalgError MatmulInner)) (\<lambda>_.
     let lhs_batch = (if 2 < rank lhs then take (rank lhs - 2) (shape lhs) else []);
         rhs_batch = (if 2 < rank rhs then take (rank rhs - 2) (shape rhs) else [])
     in
     rbind (map_err (\<lambda>_. LinalgError MatmulBatch) (broadcast_shape_slices lhs_batch rhs_batch)) (\<lambda>batch.
     let s = batch @ (if lhs_is_vector then [] else [shape lhs ! (rank lhs - 2)])
                   @ (if rhs_is_vector then [] else [shape rhs ! (rank rhs - 1)])
     in
     rbind (check (length s \<le> MAX_TENSOR_RANK) (LinalgError MatmulResultRank)) (\<lambda>_.
     Inr (tensor (elem lhs) s))))))))"

section \<open>Permutations\<close>

lemma scan_axes_ok:
  "scan_axes e1 e2 seen axes = Inr () \<longleftrightarrow>
     distinct axes \<and> (\<forall>a \<in> set axes. a < length seen \<and> \<not> seen ! a)"
proof (induction axes arbitrary: seen)
  case (Cons a axes)
  show ?case
  proof (cases "a < length seen \<and> \<not> seen ! a")
    case True
    then have "scan_axes e1 e2 seen (a # axes) = Inr () \<longleftrightarrow>
        distinct axes \<and> (\<forall>b \<in> set axes. b < length seen \<and> \<not> seen[a := True] ! b)"
      by (simp add: Cons.IH)
    also have "\<dots> \<longleftrightarrow> distinct axes \<and> a \<notin> set axes \<and> (\<forall>b \<in> set axes. b < length seen \<and> \<not> seen ! b)"
      using True by (auto simp: nth_list_update)
    finally show ?thesis using True by auto
  qed auto
qed simp

definition is_permutation :: "nat \<Rightarrow> nat list \<Rightarrow> bool" where
  "is_permutation n axes \<longleftrightarrow> length axes = n \<and> distinct axes \<and> set axes \<subseteq> {..<n}"

lemma is_permutation_set:
  assumes "is_permutation n axes"
  shows "set axes = {..<n}"
proof (rule card_subset_eq)
  show "card (set axes) = card {..<n}"
    using assms by (simp add: is_permutation_def distinct_card)
qed (use assms in \<open>simp_all add: is_permutation_def\<close>)

lemma is_permutation_length: "is_permutation n axes \<Longrightarrow> length axes = n"
  by (simp add: is_permutation_def)

lemma is_permutation_nth: "is_permutation n axes \<Longrightarrow> i < n \<Longrightarrow> axes ! i < n"
  by (force simp: is_permutation_def)

lemma scan_permutation:
  "length axes = n \<Longrightarrow>
   scan_axes e1 e2 (replicate n False) axes = Inr () \<longleftrightarrow> is_permutation n axes"
  by (auto simp: scan_axes_ok is_permutation_def)

lemma validate_permute_ok:
  "validate_permute inp target axes = Inr () \<longleftrightarrow>
     elem inp = elem target \<and> is_permutation (rank inp) axes \<and>
     shape target = map ((!) (shape inp)) axes"
proof -
  have "length axes = rank inp \<Longrightarrow>
      rank target = rank inp \<longleftrightarrow> length (shape target) = length (map ((!) (shape inp)) axes)"
    by (simp add: rank_def)
  then show ?thesis
    using is_permutation_length [of "rank inp" axes]
    by (auto simp: validate_permute_def result_simps scan_permutation rank_def)
qed

section \<open>Windows\<close>

text \<open>
  The output extent of a convolution or a pool is the number of window positions: position \<open>o\<close>
  exists exactly if a window of extent \<open>e\<close> that starts at \<open>o * stride\<close> ends inside the padded input.
\<close>

lemma window_positions:
  assumes "e \<le> p" "0 < (s :: nat)"
  shows "o' < (p - e) div s + 1 \<longleftrightarrow> o' * s + e \<le> p"
proof -
  have "o' < (p - e) div s + 1 \<longleftrightarrow> o' \<le> (p - e) div s" by arith
  also have "\<dots> \<longleftrightarrow> o' * s \<le> p - e" using assms(2) by (rule less_eq_div_iff_mult_less_eq)
  also have "\<dots> \<longleftrightarrow> o' * s + e \<le> p" using assms(1) by arith
  finally show ?thesis .
qed

lemma window_tap:
  assumes "o' * s + ((k - 1) * d + 1) \<le> p" "t < (k :: nat)"
  shows "o' * s + t * d < p"
proof -
  have "t * d \<le> (k - 1) * d" using assms(2) by (intro mult_le_mono1) simp
  with assms(1) show ?thesis by linarith
qed

end
