(* ===== verification/Ops_Rules.thy ===== *)
theory Ops_Rules
  imports Ops_Shapes Static_Creation
begin

text \<open>
  \<^verbatim>\<open>crates/knok-core/src/ops/rules.rs\<close>: the typing rule of every operation.  Each helper of the
  source is a definition of the same name; \<open>infer_call_results\<close> has one equation per constructor
  of \<open>CallOp\<close>, grouped as the arms of the source group them.
\<close>

section \<open>Elementwise and predicate rules\<close>

definition binary_result_type :: "tensor_type \<Rightarrow> tensor_type \<Rightarrow> tensor_type result" where
  "binary_result_type lhs rhs =
     rbind (expect_numeric_element (elem lhs)) (\<lambda>_.
     rbind (expect_numeric_element (elem rhs)) (\<lambda>_.
     rbind (check (elem lhs = elem rhs) (RuleError ElementwiseElement)) (\<lambda>_.
     rbind (map_err (\<lambda>_. RuleError ElementwiseShapes) (broadcast_shape lhs rhs)) (\<lambda>s.
     Inr (tensor (elem lhs) s)))))"

definition predicate_result_type :: "tensor_type \<Rightarrow> tensor_type \<Rightarrow> tensor_type result" where
  "predicate_result_type lhs rhs =
     rbind (check (elem lhs = elem rhs) (RuleError PredicateElement)) (\<lambda>_.
     rbind (map_err (\<lambda>_. RuleError PredicateShapes) (broadcast_shape lhs rhs)) (\<lambda>s.
     Inr (tensor Bool s)))"

definition comparison_result_type :: "tensor_type \<Rightarrow> tensor_type \<Rightarrow> tensor_type result" where
  "comparison_result_type lhs rhs =
     rbind (expect_numeric_element (elem lhs)) (\<lambda>_.
     rbind (expect_numeric_element (elem rhs)) (\<lambda>_.
     predicate_result_type lhs rhs))"

definition equality_result_type :: "tensor_type \<Rightarrow> tensor_type \<Rightarrow> tensor_type result" where
  "equality_result_type lhs rhs = predicate_result_type lhs rhs"

definition logical_result_type :: "tensor_type \<Rightarrow> tensor_type \<Rightarrow> tensor_type result" where
  "logical_result_type lhs rhs =
     rbind (expect_bool_element (elem lhs)) (\<lambda>_.
     rbind (expect_bool_element (elem rhs)) (\<lambda>_.
     rbind (map_err (\<lambda>_. RuleError LogicalShapes) (broadcast_shape lhs rhs)) (\<lambda>s.
     Inr (tensor Bool s))))"

definition expect_random_key :: "tensor_type \<Rightarrow> unit result" where
  "expect_random_key key = check (rank key = 0 \<and> elem key = I64) (RuleError RandomKey)"

definition random_bounds_result_type ::
    "tensor_type \<Rightarrow> tensor_type \<Rightarrow> tensor_type \<Rightarrow> unit result" where
  "random_bounds_result_type low high target =
     rbind (check (rank low = 0 \<and> rank high = 0) (RuleError RandomBoundsRank)) (\<lambda>_.
     check (elem low = elem target \<and> elem high = elem target) (RuleError RandomBoundsElement))"

definition where_result_type ::
    "tensor_type \<Rightarrow> tensor_type \<Rightarrow> tensor_type \<Rightarrow> tensor_type result" where
  "where_result_type condition lhs rhs =
     rbind (expect_bool_element (elem condition)) (\<lambda>_.
     rbind (check (elem lhs = elem rhs) (RuleError WhereElement)) (\<lambda>_.
     rbind (map_err (\<lambda>_. RuleError WhereValueShapes) (broadcast_shape lhs rhs)) (\<lambda>value_shape.
     rbind (map_err (\<lambda>_. RuleError WhereConditionShapes)
              (broadcast_shape condition (tensor (elem lhs) value_shape))) (\<lambda>s.
     Inr (tensor (elem lhs) s)))))"

section \<open>Slicing, indexing and reshaping\<close>

text \<open>The loops over zipped dimensions stop at the shortest list, as \<open>zip\<close> does.\<close>

fun slice_dims_ok :: "nat list \<Rightarrow> nat list \<Rightarrow> nat list \<Rightarrow> bool" where
  "slice_dims_ok (start # starts) (size' # size_list') (dim # dims) \<longleftrightarrow>
     start + size' \<le> dim \<and> slice_dims_ok starts size_list' dims"
| "slice_dims_ok _ _ _ \<longleftrightarrow> True"

definition validate_slice :: "tensor_type \<Rightarrow> tensor_type \<Rightarrow> nat list \<Rightarrow> unit result" where
  "validate_slice inp target starts =
     rbind (check (elem inp = elem target) (ShapeError SliceElement)) (\<lambda>_.
     rbind (check (rank inp = rank target \<and> length starts = rank inp) (ShapeError SliceRank)) (\<lambda>_.
     check (slice_dims_ok starts (shape target) (shape inp)) (ShapeError SliceBounds)))"

definition take_result_type :: "tensor_type \<Rightarrow> nat \<Rightarrow> nat \<Rightarrow> tensor_type result" where
  "take_result_type inp axis index =
     rbind (expect_axis inp axis) (\<lambda>_.
     rbind (check (index < shape inp ! axis) (ShapeError TakeIndex)) (\<lambda>_.
     Inr (tensor (elem inp) (remove_nth axis (shape inp)))))"

definition gather_result_type ::
    "tensor_type \<Rightarrow> tensor_type \<Rightarrow> tensor_type \<Rightarrow> nat \<Rightarrow> tensor_type result" where
  "gather_result_type inp indices target axis =
     rbind (expect_axis inp axis) (\<lambda>_.
     rbind (expect_index_element (elem indices)) (\<lambda>_.
     rbind (check (elem inp = elem target) (ShapeError GatherElement)) (\<lambda>_.
     rbind (check (take axis (shape inp) @ shape indices @ drop (axis + 1) (shape inp) = shape target)
              (ShapeError GatherShape)) (\<lambda>_.
     Inr target))))"

definition take_along_axis_result_type ::
    "tensor_type \<Rightarrow> tensor_type \<Rightarrow> nat \<Rightarrow> tensor_type result" where
  "take_along_axis_result_type inp indices axis =
     rbind (expect_axis inp axis) (\<lambda>_.
     rbind (expect_index_element (elem indices)) (\<lambda>_.
     rbind (check (rank inp = rank indices) (ShapeError TakeAlongRank)) (\<lambda>_.
     rbind (check (\<forall>dim_axis \<in> set [0..<rank inp].
                     dim_axis = axis \<or> shape inp ! dim_axis = shape indices ! dim_axis)
              (ShapeError TakeAlongDims)) (\<lambda>_.
     Inr (tensor (elem inp) (shape indices))))))"

definition validate_squeeze :: "tensor_type \<Rightarrow> tensor_type \<Rightarrow> unit result" where
  "validate_squeeze inp target =
     rbind (check (elem inp = elem target) (ShapeError SqueezeElement)) (\<lambda>_.
     check (filter (\<lambda>dim. dim \<noteq> 1) (shape inp) = shape target) (ShapeError SqueezeShape))"

definition validate_unsqueeze :: "tensor_type \<Rightarrow> tensor_type \<Rightarrow> unit result" where
  "validate_unsqueeze inp target =
     rbind (check (elem inp = elem target) (ShapeError UnsqueezeElement)) (\<lambda>_.
     let target_without_singletons = filter (\<lambda>dim. dim \<noteq> 1) (shape target);
         input_without_rank1_scalar = (if shape inp = [1] then [] else shape inp)
     in check (target_without_singletons = shape inp \<or>
               target_without_singletons = input_without_rank1_scalar) (ShapeError UnsqueezeShape))"

fun pad_dims_ok :: "nat list \<Rightarrow> nat list \<Rightarrow> nat list \<Rightarrow> bool" where
  "pad_dims_ok (dim # dims) (target_dim # target_dims) (low # lows) \<longleftrightarrow>
     dim + low \<le> target_dim \<and> pad_dims_ok dims target_dims lows"
| "pad_dims_ok _ _ _ \<longleftrightarrow> True"

definition validate_pad :: "tensor_type \<Rightarrow> tensor_type \<Rightarrow> nat list \<Rightarrow> unit result" where
  "validate_pad inp target lows =
     rbind (check (elem inp = elem target) (ShapeError PadElement)) (\<lambda>_.
     rbind (check (rank inp = rank target \<and> length lows = rank inp) (ShapeError PadRank)) (\<lambda>_.
     check (pad_dims_ok (shape inp) (shape target) lows) (ShapeError PadBounds)))"

section \<open>Joining and splitting\<close>

text \<open>\<open>concat\<close> visits the dimensions in order and rejects the first mismatch off the axis.\<close>

fun concat_dims :: "nat \<Rightarrow> nat \<Rightarrow> nat list \<Rightarrow> nat list \<Rightarrow> nat list result" where
  "concat_dims axis dim (l # ls) (r # rs) =
     (if dim = axis then rbind (concat_dims axis (Suc dim) ls rs) (\<lambda>s. Inr ((l + r) # s))
      else if l \<noteq> r then Inl (AxisError ConcatDims)
      else rbind (concat_dims axis (Suc dim) ls rs) (\<lambda>s. Inr (l # s)))"
| "concat_dims axis dim ls rs = Inr ls"

definition concat_result_type :: "tensor_type \<Rightarrow> tensor_type \<Rightarrow> nat \<Rightarrow> tensor_type result" where
  "concat_result_type lhs rhs axis =
     rbind (check (elem lhs = elem rhs \<and> rank lhs = rank rhs) (AxisError ConcatOperands)) (\<lambda>_.
     rbind (expect_axis lhs axis) (\<lambda>_.
     rbind (concat_dims axis 0 (shape lhs) (shape rhs)) (\<lambda>s.
     Inr (tensor (elem lhs) s))))"

definition stack_result_type :: "tensor_type \<Rightarrow> tensor_type \<Rightarrow> nat \<Rightarrow> tensor_type result" where
  "stack_result_type lhs rhs axis =
     rbind (check (lhs = rhs) (AxisError StackOperands)) (\<lambda>_.
     rbind (check (axis \<le> rank lhs) (AxisError StackAxis)) (\<lambda>_.
     Inr (tensor (elem lhs) (insert_nth axis 2 (shape lhs)))))"

definition split_result_types :: "tensor_type \<Rightarrow> nat \<Rightarrow> nat list \<Rightarrow> tensor_type list result" where
  "split_result_types inp axis sections =
     rbind (expect_axis inp axis) (\<lambda>_.
     rbind (check (sum_list sections = shape inp ! axis) (AxisError SplitSections)) (\<lambda>_.
     Inr (map (\<lambda>section'. tensor (elem inp) ((shape inp)[axis := section'])) sections)))"

definition tile_result_type :: "tensor_type \<Rightarrow> nat list \<Rightarrow> tensor_type result" where
  "tile_result_type inp multiples =
     rbind (check (length multiples = rank inp) (AxisError TileRank)) (\<lambda>_.
     Inr (tensor (elem inp) (map2 (*) (shape inp) multiples)))"

definition repeat_result_type :: "tensor_type \<Rightarrow> nat \<Rightarrow> nat \<Rightarrow> tensor_type result" where
  "repeat_result_type inp axis count =
     rbind (map_err (\<lambda>_. AxisError RepeatAxis) (expect_axis inp axis)) (\<lambda>_.
     Inr (tensor (elem inp) ((shape inp)[axis := shape inp ! axis * count])))"

section \<open>Axis movement\<close>

definition validate_axis_list :: "tensor_type \<Rightarrow> nat list \<Rightarrow> unit result" where
  "validate_axis_list inp axes =
     (let axes' = (if axes = [] then [0..<rank inp] else axes)
      in scan_axes (AxisError AxisListBounds) (AxisError AxisListDuplicates)
           (replicate (rank inp) False) axes')"

definition validate_axis_permutation :: "tensor_type \<Rightarrow> nat list \<Rightarrow> unit result" where
  "validate_axis_permutation inp axes =
     rbind (check (length axes = rank inp) (AxisError PermutationRank)) (\<lambda>_.
     scan_axes (AxisError NotPermutation) (AxisError NotPermutation)
       (replicate (rank inp) False) axes)"

definition permute_dims_result_type :: "tensor_type \<Rightarrow> nat list \<Rightarrow> tensor_type result" where
  "permute_dims_result_type inp axes =
     rbind (validate_axis_permutation inp axes) (\<lambda>_.
     Inr (tensor (elem inp) (map (\<lambda>axis. shape inp ! axis) axes)))"

definition transpose_result_type :: "tensor_type \<Rightarrow> nat list \<Rightarrow> tensor_type result" where
  "transpose_result_type inp axes =
     (if axes = [] then Inr (tensor (elem inp) (rev (shape inp)))
      else permute_dims_result_type inp axes)"

definition swapaxes_result_type :: "tensor_type \<Rightarrow> nat \<Rightarrow> nat \<Rightarrow> tensor_type result" where
  "swapaxes_result_type inp axis0 axis1 =
     rbind (expect_axis inp axis0) (\<lambda>_.
     rbind (expect_axis inp axis1) (\<lambda>_.
     Inr (tensor (elem inp) (swap_nth axis0 axis1 (shape inp)))))"

definition moveaxis_permutation :: "nat \<Rightarrow> nat \<Rightarrow> nat \<Rightarrow> nat list result" where
  "moveaxis_permutation rk source destination =
     rbind (check (source < rk \<and> destination < rk) (AxisError MoveAxisBounds)) (\<lambda>_.
     Inr (insert_nth destination source (remove_nth source [0..<rk])))"

definition moveaxis_result_type :: "tensor_type \<Rightarrow> nat \<Rightarrow> nat \<Rightarrow> tensor_type result" where
  "moveaxis_result_type inp source destination =
     rbind (moveaxis_permutation (rank inp) source destination) (\<lambda>axes.
     Inr (tensor (elem inp) (map (\<lambda>axis. shape inp ! axis) axes)))"

section \<open>The rule of every operation\<close>

definition single :: "tensor_type result \<Rightarrow> tensor_type list result" where
  "single m = rbind m (\<lambda>ty. Inr [ty])"

text \<open>The arm of the floating-point unary operations; \<open>isnan\<close> alone changes the element type.\<close>

definition unary_float_rule :: "tensor_type list \<Rightarrow> tensor_type list result" where
  "unary_float_rule args =
     rbind (expect_arity args 1) (\<lambda>_.
     rbind (expect_float (elem (args ! 0))) (\<lambda>_. Inr [args ! 0]))"

definition isnan_rule :: "tensor_type list \<Rightarrow> tensor_type list result" where
  "isnan_rule args =
     rbind (expect_arity args 1) (\<lambda>_.
     rbind (expect_float (elem (args ! 0))) (\<lambda>_. Inr [tensor Bool (shape (args ! 0))]))"

definition unary_numeric_rule :: "tensor_type list \<Rightarrow> tensor_type list result" where
  "unary_numeric_rule args =
     rbind (expect_arity args 1) (\<lambda>_.
     rbind (expect_numeric_element (elem (args ! 0))) (\<lambda>_. Inr [args ! 0]))"

definition bool_reduction_rule :: "axis_spec \<Rightarrow> tensor_type list \<Rightarrow> tensor_type list result" where
  "bool_reduction_rule axis args =
     rbind (expect_arity args 1) (\<lambda>_.
     rbind (expect_bool_element (elem (args ! 0))) (\<lambda>_.
     single (reduction_output_type (args ! 0) axis)))"

definition arg_reduction_rule :: "axis_spec \<Rightarrow> tensor_type list \<Rightarrow> tensor_type list result" where
  "arg_reduction_rule axis args =
     rbind (expect_arity args 1) (\<lambda>_.
     rbind (expect_ordered_element (elem (args ! 0))) (\<lambda>_.
     rbind (expect_non_empty_reduction (args ! 0) axis) (\<lambda>_.
     rbind (reduction_output_type (args ! 0) axis) (\<lambda>output.
     Inr [output\<lparr>elem := I64\<rparr>]))))"

definition extremum_rule :: "axis_spec \<Rightarrow> tensor_type list \<Rightarrow> tensor_type list result" where
  "extremum_rule axis args =
     rbind (expect_arity args 1) (\<lambda>_.
     rbind (expect_ordered_element (elem (args ! 0))) (\<lambda>_.
     rbind (expect_non_empty_reduction (args ! 0) axis) (\<lambda>_.
     single (reduction_output_type (args ! 0) axis))))"

definition numeric_reduction_rule :: "axis_spec \<Rightarrow> tensor_type list \<Rightarrow> tensor_type list result" where
  "numeric_reduction_rule axis args =
     rbind (expect_arity args 1) (\<lambda>_.
     rbind (expect_numeric_element (elem (args ! 0))) (\<lambda>_.
     single (reduction_output_type (args ! 0) axis)))"

definition ptp_rule :: "axis_spec \<Rightarrow> tensor_type list \<Rightarrow> tensor_type list result" where
  "ptp_rule axis args =
     rbind (expect_arity args 1) (\<lambda>_.
     rbind (expect_numeric_element (elem (args ! 0))) (\<lambda>_.
     rbind (expect_non_empty_reduction (args ! 0) axis) (\<lambda>_.
     single (reduction_output_type (args ! 0) axis))))"

definition float_reduction_rule :: "axis_spec \<Rightarrow> tensor_type list \<Rightarrow> tensor_type list result" where
  "float_reduction_rule axis args =
     rbind (expect_arity args 1) (\<lambda>_.
     rbind (expect_float (elem (args ! 0))) (\<lambda>_.
     rbind (expect_non_empty_reduction (args ! 0) axis) (\<lambda>_.
     single (reduction_output_type (args ! 0) axis))))"

definition softmax_rule :: "axis_spec \<Rightarrow> tensor_type list \<Rightarrow> tensor_type list result" where
  "softmax_rule axis args =
     rbind (expect_arity args 1) (\<lambda>_.
     rbind (expect_float (elem (args ! 0))) (\<lambda>_.
     rbind (check (rank (args ! 0) \<noteq> 0) (RuleError SoftmaxScalar)) (\<lambda>_.
     rbind (expect_non_empty_reduction (args ! 0) axis) (\<lambda>_. Inr [args ! 0]))))"

definition binary_rule ::
    "(tensor_type \<Rightarrow> tensor_type \<Rightarrow> tensor_type result) \<Rightarrow> tensor_type list \<Rightarrow> tensor_type list result" where
  "binary_rule rule args =
     rbind (expect_arity args 2) (\<lambda>_. single (rule (args ! 0) (args ! 1)))"

definition unary_rule ::
    "(tensor_type \<Rightarrow> tensor_type result) \<Rightarrow> tensor_type list \<Rightarrow> tensor_type list result" where
  "unary_rule rule args =
     rbind (expect_arity args 1) (\<lambda>_. single (rule (args ! 0)))"

text \<open>An operation that names its target type and validates the operand against it.\<close>

definition target_rule ::
    "(tensor_type \<Rightarrow> unit result) \<Rightarrow> tensor_type \<Rightarrow> tensor_type list \<Rightarrow> tensor_type list result" where
  "target_rule valid target args =
     rbind (expect_arity args 1) (\<lambda>_.
     rbind (valid (args ! 0)) (\<lambda>_. Inr [target]))"

definition minimum_maximum_rule :: "tensor_type list \<Rightarrow> tensor_type list result" where
  "minimum_maximum_rule args =
     rbind (expect_arity args 2) (\<lambda>_.
     rbind (expect_numeric_element (elem (args ! 0))) (\<lambda>_.
     rbind (expect_numeric_element (elem (args ! 1))) (\<lambda>_.
     single (binary_result_type (args ! 0) (args ! 1)))))"

definition clip_rule :: "tensor_type list \<Rightarrow> tensor_type list result" where
  "clip_rule args =
     rbind (expect_arity args 3) (\<lambda>_.
     rbind (expect_numeric_element (elem (args ! 0))) (\<lambda>_.
     rbind (expect_numeric_element (elem (args ! 1))) (\<lambda>_.
     rbind (expect_numeric_element (elem (args ! 2))) (\<lambda>_.
     rbind (binary_result_type (args ! 0) (args ! 1)) (\<lambda>value.
     single (binary_result_type value (args ! 2)))))))"

definition pow_rule :: "tensor_type list \<Rightarrow> tensor_type list result" where
  "pow_rule args =
     rbind (expect_arity args 2) (\<lambda>_.
     rbind (expect_float (elem (args ! 0))) (\<lambda>_.
     rbind (expect_float (elem (args ! 1))) (\<lambda>_.
     single (binary_result_type (args ! 0) (args ! 1)))))"

definition full_like_rule :: "tensor_type list \<Rightarrow> tensor_type list result" where
  "full_like_rule args =
     rbind (expect_arity args 2) (\<lambda>_.
     rbind (check (rank (args ! 1) = 0) (RuleError FullLikeFillRank)) (\<lambda>_.
     rbind (check (elem (args ! 0) = elem (args ! 1)) (RuleError FullLikeElements)) (\<lambda>_.
     Inr [args ! 0])))"

definition validate_reshape :: "tensor_type \<Rightarrow> tensor_type \<Rightarrow> unit result" where
  "validate_reshape target inp =
     rbind (check (elem inp = elem target) (ShapeError ReshapeElement)) (\<lambda>_.
     check (element_count inp = element_count target) (ShapeError ReshapeCount))"

definition validate_broadcast :: "tensor_type \<Rightarrow> tensor_type \<Rightarrow> unit result" where
  "validate_broadcast target inp =
     rbind (check (elem inp = elem target) (ShapeError BroadcastElement)) (\<lambda>_.
     rbind (map_err (\<lambda>_. ShapeError BroadcastShapes) (broadcast_shape inp target)) (\<lambda>_. Inr ()))"

definition random_rule ::
    "bool \<Rightarrow> rule_error \<Rightarrow> tensor_type \<Rightarrow> tensor_type list \<Rightarrow> tensor_type list result" where
  "random_rule elem_ok err target args =
     rbind (expect_arity args 3) (\<lambda>_.
     rbind (expect_random_key (args ! 0)) (\<lambda>_.
     rbind (check elem_ok (RuleError err)) (\<lambda>_.
     rbind (random_bounds_result_type (args ! 1) (args ! 2) target) (\<lambda>_.
     Inr [target, args ! 0]))))"

definition static_random_rule ::
    "call_op \<Rightarrow> tensor_type \<Rightarrow> tensor_type list \<Rightarrow> tensor_type list result" where
  "static_random_rule op target args =
     rbind (expect_arity args 2) (\<lambda>_.
     rbind (validate_static_creation_target op) (\<lambda>_.
     rbind (random_bounds_result_type (args ! 0) (args ! 1) target) (\<lambda>_.
     Inr [target])))"

primrec infer_call_results :: "call_op \<Rightarrow> tensor_type list \<Rightarrow> tensor_type list result" where
  "infer_call_results (OpSplit axis sections) args =
     rbind (expect_arity args 1) (\<lambda>_. split_result_types (args ! 0) axis sections)"
| "infer_call_results OpAbs args = unary_numeric_rule args"
| "infer_call_results (OpAll axis) args = bool_reduction_rule axis args"
| "infer_call_results (OpAny axis) args = bool_reduction_rule axis args"
| "infer_call_results (OpArgmax axis) args = arg_reduction_rule axis args"
| "infer_call_results (OpArgmin axis) args = arg_reduction_rule axis args"
| "infer_call_results OpDetach args = unary_rule Inr args"
| "infer_call_results OpCeil args = unary_float_rule args"
| "infer_call_results OpCos args = unary_float_rule args"
| "infer_call_results OpExp args = unary_float_rule args"
| "infer_call_results OpExp2 args = unary_float_rule args"
| "infer_call_results OpExpM1 args = unary_float_rule args"
| "infer_call_results OpFloor args = unary_float_rule args"
| "infer_call_results OpIsNan args = isnan_rule args"
| "infer_call_results OpLog args = unary_float_rule args"
| "infer_call_results OpLog1P args = unary_float_rule args"
| "infer_call_results OpLog2 args = unary_float_rule args"
| "infer_call_results OpLog10 args = unary_float_rule args"
| "infer_call_results OpRelu args = unary_float_rule args"
| "infer_call_results OpRint args = unary_float_rule args"
| "infer_call_results OpRound args = unary_float_rule args"
| "infer_call_results OpSigmoid args = unary_float_rule args"
| "infer_call_results OpSin args = unary_float_rule args"
| "infer_call_results OpSqrt args = unary_float_rule args"
| "infer_call_results OpTan args = unary_float_rule args"
| "infer_call_results OpTanh args = unary_float_rule args"
| "infer_call_results OpReciprocal args = unary_numeric_rule args"
| "infer_call_results OpSquare args = unary_numeric_rule args"
| "infer_call_results OpGreater args = binary_rule comparison_result_type args"
| "infer_call_results OpGreaterEqual args = binary_rule comparison_result_type args"
| "infer_call_results OpLess args = binary_rule comparison_result_type args"
| "infer_call_results OpLessEqual args = binary_rule comparison_result_type args"
| "infer_call_results (OpGather target axis) args =
     binary_rule (\<lambda>inp indices. gather_result_type inp indices target axis) args"
| "infer_call_results OpEqual args = binary_rule equality_result_type args"
| "infer_call_results OpNotEqual args = binary_rule equality_result_type args"
| "infer_call_results (OpEye target) args =
     rbind (expect_arity args 0) (\<lambda>_.
     rbind (validate_static_creation_target (OpEye target)) (\<lambda>_. Inr [target]))"
| "infer_call_results OpFullLike args = full_like_rule args"
| "infer_call_results OpLogicalAnd args = binary_rule logical_result_type args"
| "infer_call_results OpLogicalOr args = binary_rule logical_result_type args"
| "infer_call_results OpLogicalXor args = binary_rule logical_result_type args"
| "infer_call_results OpLogicalNot args =
     rbind (expect_arity args 1) (\<lambda>_.
     rbind (expect_bool_element (elem (args ! 0))) (\<lambda>_. Inr [args ! 0]))"
| "infer_call_results OpMinimum args = minimum_maximum_rule args"
| "infer_call_results OpMaximum args = minimum_maximum_rule args"
| "infer_call_results (OpMax axis) args = extremum_rule axis args"
| "infer_call_results (OpMin axis) args = extremum_rule axis args"
| "infer_call_results OpClip args = clip_rule args"
| "infer_call_results OpPow args = pow_rule args"
| "infer_call_results (OpConcat axis) args =
     binary_rule (\<lambda>lhs rhs. concat_result_type lhs rhs axis) args"
| "infer_call_results (OpFlip axes) args =
     rbind (expect_arity args 1) (\<lambda>_.
     rbind (validate_axis_list (args ! 0) axes) (\<lambda>_. Inr [args ! 0]))"
| "infer_call_results (OpMoveAxis source destination) args =
     unary_rule (\<lambda>inp. moveaxis_result_type inp source destination) args"
| "infer_call_results (OpPad target lows) args =
     target_rule (\<lambda>inp. validate_pad inp target lows) target args"
| "infer_call_results (OpSoftmax axis) args = softmax_rule axis args"
| "infer_call_results (OpTranspose axes) args =
     unary_rule (\<lambda>inp. transpose_result_type inp axes) args"
| "infer_call_results (OpPermute target axes) args =
     target_rule (\<lambda>inp. validate_permute inp target axes) target args"
| "infer_call_results (OpPermuteDims axes) args =
     unary_rule (\<lambda>inp. permute_dims_result_type inp axes) args"
| "infer_call_results (OpRepeat axis count) args =
     unary_rule (\<lambda>inp. repeat_result_type inp axis count) args"
| "infer_call_results (OpReshape target) args = target_rule (validate_reshape target) target args"
| "infer_call_results (OpRoll axis shift) args =
     rbind (expect_arity args 1) (\<lambda>_.
     rbind (expect_axis (args ! 0) axis) (\<lambda>_. Inr [args ! 0]))"
| "infer_call_results (OpBroadcast target) args = target_rule (validate_broadcast target) target args"
| "infer_call_results (OpSlice target starts) args =
     target_rule (\<lambda>inp. validate_slice inp target starts) target args"
| "infer_call_results (OpSqueeze target) args =
     target_rule (\<lambda>inp. validate_squeeze inp target) target args"
| "infer_call_results (OpStack axis) args =
     binary_rule (\<lambda>lhs rhs. stack_result_type lhs rhs axis) args"
| "infer_call_results (OpSwapAxes axis0 axis1) args =
     unary_rule (\<lambda>inp. swapaxes_result_type inp axis0 axis1) args"
| "infer_call_results (OpProd axis) args = numeric_reduction_rule axis args"
| "infer_call_results (OpPtp axis) args = ptp_rule axis args"
| "infer_call_results (OpStd axis) args = float_reduction_rule axis args"
| "infer_call_results (OpVar axis) args = float_reduction_rule axis args"
| "infer_call_results (OpSum axis) args = numeric_reduction_rule axis args"
| "infer_call_results (OpMean axis) args = float_reduction_rule axis args"
| "infer_call_results (OpTake axis index) args =
     unary_rule (\<lambda>inp. take_result_type inp axis index) args"
| "infer_call_results (OpTakeAlongAxis axis) args =
     binary_rule (\<lambda>inp indices. take_along_axis_result_type inp indices axis) args"
| "infer_call_results OpMatmul args = binary_rule matmul_result_type args"
| "infer_call_results (OpMaxPool2d options) args =
     unary_rule (\<lambda>inp. max_pool2d_result_type inp options) args"
| "infer_call_results (OpAvgPool2d options) args =
     unary_rule (\<lambda>inp. avg_pool2d_result_type inp options) args"
| "infer_call_results (OpConv2d options) args =
     binary_rule (\<lambda>inp kern. conv2d_result_type inp kern options) args"
| "infer_call_results (OpTile multiples) args =
     unary_rule (\<lambda>inp. tile_result_type inp multiples) args"
| "infer_call_results (OpDiagonal axes) args =
     unary_rule (\<lambda>inp. diagonal_result_type inp axes) args"
| "infer_call_results OpDot args = binary_rule dot_result_type args"
| "infer_call_results OpInner args = binary_rule inner_result_type args"
| "infer_call_results OpOuter args = binary_rule outer_result_type args"
| "infer_call_results (OpArange target) args =
     rbind (validate_static_creation_target (OpArange target)) (\<lambda>_. Inr [target])"
| "infer_call_results (OpLinspace target) args =
     rbind (validate_static_creation_target (OpLinspace target)) (\<lambda>_. Inr [target])"
| "infer_call_results (OpStaticRandomUniform target seed) args =
     static_random_rule (OpStaticRandomUniform target seed) target args"
| "infer_call_results (OpStaticRandomInt target seed) args =
     static_random_rule (OpStaticRandomInt target seed) target args"
| "infer_call_results (OpRandomUniform target) args =
     random_rule (elem target = F32 \<or> elem target = F64) RandomUniformTarget target args"
| "infer_call_results (OpRandomInt target) args =
     random_rule (elem target = I32 \<or> elem target = I64) RandomIntTarget target args"
| "infer_call_results (OpUnsqueeze target) args =
     target_rule (\<lambda>inp. validate_unsqueeze inp target) target args"
| "infer_call_results (OpTrace axes) args =
     unary_rule (\<lambda>inp. trace_result_type inp axes) args"
| "infer_call_results (OpVecdot axis) args =
     binary_rule (\<lambda>lhs rhs. vecdot_result_type lhs rhs axis) args"
| "infer_call_results OpWhere args =
     rbind (expect_arity args 3) (\<lambda>_.
     single (where_result_type (args ! 0) (args ! 1) (args ! 2)))"
| "infer_call_results OpOnesLike args = unary_rule Inr args"
| "infer_call_results OpZerosLike args = unary_rule Inr args"
| "infer_call_results (OpGraph name) args = Inl (RuleError GraphCallUnresolved)"

definition infer_call_result :: "call_op \<Rightarrow> tensor_type list \<Rightarrow> tensor_type result" where
  "infer_call_result op args =
     rbind (infer_call_results op args) (\<lambda>results.
     if length results = 1 then Inr (hd results) else Inl (RuleError NotSingleOutput))"

lemmas rule_groups =
  single_def unary_float_rule_def isnan_rule_def unary_numeric_rule_def bool_reduction_rule_def
  arg_reduction_rule_def extremum_rule_def numeric_reduction_rule_def ptp_rule_def
  float_reduction_rule_def softmax_rule_def binary_rule_def unary_rule_def target_rule_def
  minimum_maximum_rule_def clip_rule_def pow_rule_def full_like_rule_def random_rule_def
  static_random_rule_def

end
