(* ===== verification/Type_Check.thy ===== *)
theory Type_Check
  imports Ops_Rules
begin

text \<open>
  \<^verbatim>\<open>crates/knok-core/src/typecheck.rs\<close>: the type checker.  Its state is the node cache
  (\<open>NodeTypeCache\<close>), which every checking function takes and returns; after an error the state is
  discarded, as \<open>type_check\<close> returns.  The environment is the vector of bindings in order, read
  from its end.
\<close>

section \<open>State\<close>

type_synonym type_env = "(string \<times> tensor_type) list"
type_synonym node_cache = "nat \<Rightarrow> (expr \<times> tensor_type list) option"

record 'f checker =
  ck_ops :: "'f f64_ops"
  ck_signatures :: "(string \<times> graph_signature) list"
  ck_current :: string

definition env_from_inputs :: "input list \<Rightarrow> type_env" where
  "env_from_inputs inputs = map (\<lambda>i. (input_name i, input_ty i)) inputs"

definition env_lookup :: "type_env \<Rightarrow> string \<Rightarrow> tensor_type option" where
  "env_lookup env name = map_of (rev env) name"

definition push_bindings :: "type_env \<Rightarrow> string list \<Rightarrow> tensor_type list \<Rightarrow> type_env" where
  "push_bindings env names tys = env @ zip names tys"

definition ensure_same_node_payload :: "expr \<Rightarrow> expr \<Rightarrow> unit result" where
  "ensure_same_node_payload cached current = check (cached = current) (CheckError NodeConflict)"

definition cached_outputs :: "node_cache \<Rightarrow> nat \<Rightarrow> expr \<Rightarrow> tensor_type list option result" where
  "cached_outputs c node_id v =
     (case c node_id of
        None \<Rightarrow> Inr None
      | Some (cached, tys) \<Rightarrow>
          rbind (ensure_same_node_payload cached v) (\<lambda>_. Inr (Some tys)))"

definition cache_insert :: "node_cache \<Rightarrow> nat \<Rightarrow> expr \<Rightarrow> tensor_type list \<Rightarrow> node_cache result" where
  "cache_insert c node_id v tys =
     (case c node_id of
        Some (cached, _) \<Rightarrow> rbind (ensure_same_node_payload cached v) (\<lambda>_. Inr c)
      | None \<Rightarrow> Inr (c(node_id \<mapsto> (v, tys))))"

definition find_signature :: "(string \<times> graph_signature) list \<Rightarrow> string \<Rightarrow> graph_signature option" where
  "find_signature sigs name = map_of (rev sigs) name"

definition graph_callee :: "call_op \<Rightarrow> string option" where
  "graph_callee op = (case op of OpGraph name \<Rightarrow> Some name | _ \<Rightarrow> None)"

definition single_output_type :: "tensor_type list \<Rightarrow> check_error \<Rightarrow> tensor_type result" where
  "single_output_type tys err = (if length tys = 1 then Inr (hd tys) else Inl (CheckError err))"

lemma graph_callee_simps [simp]: "graph_callee (OpGraph name) = Some name"
  by (simp add: graph_callee_def)

lemma graph_callee_Some: "graph_callee op = Some name \<longleftrightarrow> op = OpGraph name"
  by (cases op) (simp_all add: graph_callee_def)

section \<open>The checker\<close>

function (sequential)
    type_value_outputs ::
      "'f checker \<Rightarrow> type_env \<Rightarrow> expr \<Rightarrow> node_cache \<Rightarrow> (tensor_type list \<times> node_cache) result"
  and type_tensor_expr ::
      "'f checker \<Rightarrow> type_env \<Rightarrow> expr \<Rightarrow> node_cache \<Rightarrow> (tensor_type \<times> node_cache) result"
  and type_graph_call_outputs ::
      "'f checker \<Rightarrow> type_env \<Rightarrow> string \<Rightarrow> expr list \<Rightarrow> node_cache
        \<Rightarrow> (tensor_type list \<times> node_cache) result"
  and type_graph_args ::
      "'f checker \<Rightarrow> type_env \<Rightarrow> expr list \<Rightarrow> tensor_type list \<Rightarrow> node_cache \<Rightarrow> node_cache result"
  and type_arg_tys ::
      "'f checker \<Rightarrow> type_env \<Rightarrow> expr list \<Rightarrow> node_cache \<Rightarrow> (tensor_type list \<times> node_cache) result"
  and type_node_outputs ::
      "'f checker \<Rightarrow> type_env \<Rightarrow> nat \<Rightarrow> expr \<Rightarrow> node_cache
        \<Rightarrow> (tensor_type list \<times> node_cache) result"
where
  "type_value_outputs C E (ECall op args) c =
     (case graph_callee op of
        Some name \<Rightarrow> type_graph_call_outputs C E name args c
      | None \<Rightarrow>
          rbind (validate_static_creation_call (ck_ops C) op args) (\<lambda>_.
          rbind (type_arg_tys C E args c) (\<lambda>(arg_tys, c').
          rbind (infer_call_results op arg_tys) (\<lambda>tys. Inr (tys, c')))))"
| "type_value_outputs C E (ENode node_id v) c = type_node_outputs C E node_id v c"
| "type_value_outputs C E e c =
     rbind (type_tensor_expr C E e c) (\<lambda>(ty, c'). Inr ([ty], c'))"
| "type_tensor_expr C E (EVar name) c =
     rbind (of_option (CheckError UnknownValue) (env_lookup E name)) (\<lambda>ty. Inr (ty, c))"
| "type_tensor_expr C E (EConst v e) c = Inr (tensor e [], c)"
| "type_tensor_expr C E (EUnary uop v) c =
     rbind (type_tensor_expr C E v c) (\<lambda>(ty, c').
     rbind (expect_numeric_element (elem ty)) (\<lambda>_. Inr (ty, c')))"
| "type_tensor_expr C E (EBinary bop l r) c =
     rbind (type_tensor_expr C E l c) (\<lambda>(lhs, c1).
     rbind (type_tensor_expr C E r c1) (\<lambda>(rhs, c2).
     rbind (binary_result_type lhs rhs) (\<lambda>ty. Inr (ty, c2))))"
| "type_tensor_expr C E (ENode node_id v) c =
     rbind (type_node_outputs C E node_id v c) (\<lambda>(outputs, c').
     rbind (single_output_type outputs NodeMultiOutput) (\<lambda>ty. Inr (ty, c')))"
| "type_tensor_expr C E (ETupleGet tuple_id v index) c =
     rbind (type_value_outputs C E v c) (\<lambda>(outputs, c').
     if index < length outputs then Inr (outputs ! index, c') else Inl (CheckError TupleIndex))"
| "type_tensor_expr C E (ECall op args) c =
     (case graph_callee op of
        Some name \<Rightarrow>
          rbind (type_graph_call_outputs C E name args c) (\<lambda>(outputs, c').
          rbind (single_output_type outputs GraphMultiOutput) (\<lambda>ty. Inr (ty, c')))
      | None \<Rightarrow>
          rbind (validate_static_creation_call (ck_ops C) op args) (\<lambda>_.
          rbind (type_arg_tys C E args c) (\<lambda>(arg_tys, c').
          rbind (infer_call_result op arg_tys) (\<lambda>ty. Inr (ty, c')))))"
| "type_graph_call_outputs C E name args c =
     (if name = ck_current C then Inl (CheckError RecursiveGraph)
      else
        rbind (of_option (CheckError UnknownGraph) (find_signature (ck_signatures C) name)) (\<lambda>sig.
        if length args \<noteq> length (sig_inputs sig) then Inl (CheckError GraphArity)
        else
          rbind (type_graph_args C E args (sig_inputs sig) c) (\<lambda>c'.
          Inr (sig_outputs sig, c'))))"
| "type_graph_args C E (arg # args) (expected # tys) c =
     rbind (type_tensor_expr C E arg c) (\<lambda>(actual, c').
     if actual \<noteq> expected then Inl (CheckError GraphArgument)
     else type_graph_args C E args tys c')"
| "type_graph_args C E _ _ c = Inr c"
| "type_arg_tys C E [] c = Inr ([], c)"
| "type_arg_tys C E (arg # args) c =
     rbind (type_tensor_expr C E arg c) (\<lambda>(ty, c1).
     rbind (type_arg_tys C E args c1) (\<lambda>(tys, c2). Inr (ty # tys, c2)))"
| "type_node_outputs C E node_id v c =
     rbind (cached_outputs c node_id v) (\<lambda>hit.
     case hit of
       Some tys \<Rightarrow> Inr (tys, c)
     | None \<Rightarrow>
         rbind (type_value_outputs C E v c) (\<lambda>(tys, c').
         rbind (cache_insert c' node_id v tys) (\<lambda>c''. Inr (tys, c''))))"
  by pat_completeness auto
termination
  by (relation "measure (\<lambda>x. case x of
         Inl (Inl (C, E, e, c)) \<Rightarrow> 3 * size e + 1
       | Inl (Inr (Inl (C, E, e, c))) \<Rightarrow> 3 * size e
       | Inl (Inr (Inr (C, E, n, es, c))) \<Rightarrow> 3 * size_list size es + 1
       | Inr (Inl (C, E, es, ts, c)) \<Rightarrow> 3 * size_list size es
       | Inr (Inr (Inl (C, E, es, c))) \<Rightarrow> 3 * size_list size es
       | Inr (Inr (Inr (C, E, i, v, c))) \<Rightarrow> 3 * size v + 2)") auto

fun check_lets ::
    "'f checker \<Rightarrow> let_binding list \<Rightarrow> type_env \<Rightarrow> node_cache
      \<Rightarrow> (typed_let list \<times> type_env \<times> node_cache) result" where
  "check_lets C [] E c = Inr ([], E, c)"
| "check_lets C (b # bs) E c =
     rbind (type_value_outputs C E (let_value b) c) (\<lambda>(tys, c').
     if length (let_names b) \<noteq> length tys then Inl (CheckError LetArity)
     else
       rbind (check_lets C bs (push_bindings E (let_names b) tys) c') (\<lambda>(lets, E', c'').
       Inr (\<lparr>tlet_names = let_names b,
             tlet_value = \<lparr>value_kind = let_value b, value_tys = tys\<rparr>\<rparr> # lets, E', c'')))"

definition type_check ::
    "'f f64_ops \<Rightarrow> graph \<Rightarrow> (string \<times> graph_signature) list \<Rightarrow> typed_graph result" where
  "type_check F g sigs =
     (let C = \<lparr>ck_ops = F, ck_signatures = sigs, ck_current = graph_name g\<rparr> in
      rbind (check_lets C (graph_lets g) (env_from_inputs (graph_inputs g)) Map.empty)
        (\<lambda>(lets, E, c).
      rbind (type_arg_tys C E (graph_body g) c) (\<lambda>(body_tys, c').
      if body_tys \<noteq> graph_outputs g then Inl (CheckError ReturnTypes)
      else Inr \<lparr>tg_name = graph_name g, tg_backend = graph_backend g, tg_inputs = graph_inputs g,
                tg_outputs = graph_outputs g, tg_lets = lets,
                tg_body = map2 (\<lambda>e ty. \<lparr>expr_kind = e, expr_ty = ty\<rparr>) (graph_body g) body_tys\<rparr>)))"

end
