(* ===== verification/Type_Spec.thy ===== *)
theory Type_Spec
  imports Type_Check
begin

text \<open>
  A declarative type system for graph expressions and the proof that the checker of
  \<open>Type_Check\<close> decides it: the checker is sound (the cache never changes a type) and complete on
  expressions whose node ids are used consistently.
\<close>

section \<open>The type system\<close>

inductive has_types :: "'f checker \<Rightarrow> type_env \<Rightarrow> expr \<Rightarrow> tensor_type list \<Rightarrow> bool"
  for C :: "'f checker" and E :: type_env where
  HVar: "env_lookup E name = Some ty \<Longrightarrow> has_types C E (EVar name) [ty]"
| HConst: "has_types C E (EConst v e) [tensor e []]"
| HUnary: "has_types C E v [ty] \<Longrightarrow> is_numeric (elem ty) \<Longrightarrow> has_types C E (EUnary uop v) [ty]"
| HBinary: "has_types C E l [lt] \<Longrightarrow> has_types C E r [rt] \<Longrightarrow> binary_result_type lt rt = Inr ty \<Longrightarrow>
    has_types C E (EBinary bop l r) [ty]"
| HNode: "has_types C E v tys \<Longrightarrow> has_types C E (ENode node_id v) tys"
| HTupleGet: "has_types C E v tys \<Longrightarrow> index < length tys \<Longrightarrow>
    has_types C E (ETupleGet tuple_id v index) [tys ! index]"
| HCall: "graph_callee op = None \<Longrightarrow> validate_static_creation_call (ck_ops C) op args = Inr () \<Longrightarrow>
    list_all2 (\<lambda>a t. has_types C E a [t]) args arg_tys \<Longrightarrow> infer_call_results op arg_tys = Inr tys \<Longrightarrow>
    has_types C E (ECall op args) tys"
| HGraph: "name \<noteq> ck_current C \<Longrightarrow> find_signature (ck_signatures C) name = Some sig \<Longrightarrow>
    list_all2 (\<lambda>a t. has_types C E a [t]) args (sig_inputs sig) \<Longrightarrow>
    has_types C E (ECall (OpGraph name) args) (sig_outputs sig)"

inductive_cases has_types_VarE: "has_types C E (EVar name) tys"
inductive_cases has_types_ConstE: "has_types C E (EConst v e) tys"
inductive_cases has_types_UnaryE: "has_types C E (EUnary uop v) tys"
inductive_cases has_types_BinaryE: "has_types C E (EBinary bop l r) tys"
inductive_cases has_types_NodeE: "has_types C E (ENode node_id v) tys"
inductive_cases has_types_TupleGetE: "has_types C E (ETupleGet tuple_id v index) tys"
inductive_cases has_types_CallE: "has_types C E (ECall op args) tys"

lemmas has_types_elims =
  has_types_VarE has_types_ConstE has_types_UnaryE has_types_BinaryE has_types_NodeE
  has_types_TupleGetE

lemma has_types_Var_iff [simp]:
  "has_types C E (EVar name) tys \<longleftrightarrow> (\<exists>ty. env_lookup E name = Some ty \<and> tys = [ty])"
  by (auto elim: has_types_VarE intro: HVar)

lemma has_types_Const_iff [simp]: "has_types C E (EConst v e) tys \<longleftrightarrow> tys = [tensor e []]"
  by (auto elim: has_types_ConstE intro: HConst)

lemma has_types_Node_iff [simp]: "has_types C E (ENode node_id v) tys \<longleftrightarrow> has_types C E v tys"
  by (auto elim: has_types_NodeE intro: HNode)

lemma has_types_Unary_iff:
  "has_types C E (EUnary uop v) tys \<longleftrightarrow>
     (\<exists>ty. has_types C E v [ty] \<and> is_numeric (elem ty) \<and> tys = [ty])"
  by (auto elim: has_types_UnaryE intro: HUnary)

lemma has_types_Binary_iff:
  "has_types C E (EBinary bop l r) tys \<longleftrightarrow>
     (\<exists>lt rt ty. has_types C E l [lt] \<and> has_types C E r [rt] \<and>
        binary_result_type lt rt = Inr ty \<and> tys = [ty])"
  by (blast elim: has_types_BinaryE intro: HBinary)

lemma has_types_TupleGet_iff:
  "has_types C E (ETupleGet tuple_id v index) tys \<longleftrightarrow>
     (\<exists>outs. has_types C E v outs \<and> index < length outs \<and> tys = [outs ! index])"
  by (auto elim: has_types_TupleGetE intro: HTupleGet)

lemma has_types_Call_iff:
  "graph_callee op = None \<Longrightarrow>
   has_types C E (ECall op args) tys \<longleftrightarrow>
     validate_static_creation_call (ck_ops C) op args = Inr () \<and>
     (\<exists>arg_tys. list_all2 (\<lambda>a t. has_types C E a [t]) args arg_tys \<and>
        infer_call_results op arg_tys = Inr tys)"
  by (auto elim!: has_types_CallE intro: HCall)

lemma has_types_Graph_iff:
  "has_types C E (ECall (OpGraph name) args) tys \<longleftrightarrow>
     name \<noteq> ck_current C \<and>
     (\<exists>sig. find_signature (ck_signatures C) name = Some sig \<and>
        list_all2 (\<lambda>a t. has_types C E a [t]) args (sig_inputs sig) \<and> tys = sig_outputs sig)"
  by (auto elim!: has_types_CallE intro: HGraph)

lemma list_all2_unique:
  assumes "list_all2 P xs ys" "list_all2 P xs zs"
    and "\<And>x y z. x \<in> set xs \<Longrightarrow> P x y \<Longrightarrow> P x z \<Longrightarrow> y = z"
  shows "ys = zs"
proof (rule nth_equalityI)
  show "length ys = length zs" using assms(1,2) by (simp add: list_all2_conv_all_nth)
  fix i assume "i < length ys"
  then have "i < length xs" "P (xs ! i) (ys ! i)" "P (xs ! i) (zs ! i)"
    using assms(1,2) by (simp_all add: list_all2_conv_all_nth)
  then show "ys ! i = zs ! i" using assms(3) nth_mem by blast
qed

text \<open>Types are unique.\<close>

lemma has_types_unique:
  "has_types C E e tys \<Longrightarrow> has_types C E e tys' \<Longrightarrow> tys = tys'"
proof (induction e arbitrary: tys tys')
  case (EUnary uop v)
  then show ?case by (auto simp: has_types_Unary_iff)
next
  case (EBinary bop l r)
  then obtain lt rt ty lt' rt' ty' where
      1: "has_types C E l [lt]" "has_types C E r [rt]" "binary_result_type lt rt = Inr ty" "tys = [ty]"
    and 2: "has_types C E l [lt']" "has_types C E r [rt']" "binary_result_type lt' rt' = Inr ty'" "tys' = [ty']"
    by (auto simp: has_types_Binary_iff)
  have "[lt] = [lt']" "[rt] = [rt']" using EBinary.IH 1 2 by blast+
  with 1 2 show ?case by simp
next
  case (ETupleGet tuple_id v index)
  then show ?case by (auto simp: has_types_TupleGet_iff dest: ETupleGet.IH)
next
  case (ECall op args)
  have IH: "\<And>x y z. x \<in> set args \<Longrightarrow> has_types C E x [y] \<Longrightarrow> has_types C E x [z] \<Longrightarrow> y = z"
    using ECall.IH by blast
  show ?case
  proof (cases "graph_callee op")
    case None
    then obtain ts ts' where ts: "list_all2 (\<lambda>a t. has_types C E a [t]) args ts"
        and ts': "list_all2 (\<lambda>a t. has_types C E a [t]) args ts'"
        and res: "infer_call_results op ts = Inr tys" "infer_call_results op ts' = Inr tys'"
      using ECall.prems by (auto simp: has_types_Call_iff)
    from ts ts' have "ts = ts'" by (rule list_all2_unique) (rule IH)
    with res show ?thesis by simp
  next
    case (Some name)
    then have "op = OpGraph name" by (simp add: graph_callee_Some)
    then show ?thesis using ECall.prems by (auto simp: has_types_Graph_iff)
  qed
qed auto

section \<open>Soundness of the checker\<close>

definition cache_ok :: "'f checker \<Rightarrow> type_env \<Rightarrow> node_cache \<Rightarrow> bool" where
  "cache_ok C E c \<longleftrightarrow> (\<forall>i v tys. c i = Some (v, tys) \<longrightarrow> has_types C E v tys)"

lemma cache_ok_empty [simp]: "cache_ok C E Map.empty"
  by (simp add: cache_ok_def)

lemma cached_outputs_None: "cached_outputs c i v = Inr None \<longleftrightarrow> c i = None"
  by (auto simp: cached_outputs_def result_simps split: option.splits)

lemma cached_outputs_Some: "cached_outputs c i v = Inr (Some tys) \<longleftrightarrow> c i = Some (v, tys)"
  by (auto simp: cached_outputs_def ensure_same_node_payload_def result_simps split: option.splits)

lemma cache_insert_ok:
  "cache_insert c i v tys = Inr c' \<Longrightarrow> cache_ok C E c \<Longrightarrow> has_types C E v tys \<Longrightarrow> cache_ok C E c'"
  by (auto simp: cache_insert_def cache_ok_def result_simps split: option.splits if_splits)

lemma single_output_Inr [result_simps]: "single_output_type tys err = Inr ty \<longleftrightarrow> tys = [ty]"
  by (cases tys) (auto simp: single_output_type_def)

lemma infer_call_result_Inr [result_simps]:
  "infer_call_result op ts = Inr ty \<longleftrightarrow> infer_call_results op ts = Inr [ty]"
  by (auto simp: infer_call_result_def result_simps length_Suc_conv)

lemma checker_sound:
  "type_value_outputs C E e c = Inr (tys, c') \<Longrightarrow> cache_ok C E c \<Longrightarrow>
     has_types C E e tys \<and> cache_ok C E c'"
  "type_tensor_expr C E e c = Inr (ty, c') \<Longrightarrow> cache_ok C E c \<Longrightarrow>
     has_types C E e [ty] \<and> cache_ok C E c'"
  "type_graph_call_outputs C E name args c = Inr (tys, c') \<Longrightarrow> cache_ok C E c \<Longrightarrow>
     has_types C E (ECall (OpGraph name) args) tys \<and> cache_ok C E c'"
  "type_graph_args C E args ts c = Inr c' \<Longrightarrow> cache_ok C E c \<Longrightarrow> length args = length ts \<Longrightarrow>
     list_all2 (\<lambda>a t. has_types C E a [t]) args ts \<and> cache_ok C E c'"
  "type_arg_tys C E args c = Inr (tys, c') \<Longrightarrow> cache_ok C E c \<Longrightarrow>
     list_all2 (\<lambda>a t. has_types C E a [t]) args tys \<and> cache_ok C E c'"
  "type_node_outputs C E node_id v c = Inr (tys, c') \<Longrightarrow> cache_ok C E c \<Longrightarrow>
     has_types C E v tys \<and> cache_ok C E c'"
proof (induction C E e c and C E e c and C E name args c and C E args ts c and C E args c
    and C E node_id v c
    arbitrary: tys c' and ty c' and tys c' and c' and tys c' and tys c'
    rule: type_value_outputs_type_tensor_expr_type_graph_call_outputs_type_graph_args_type_arg_tys_type_node_outputs.induct)
  case (1 C E op args c)
  show ?case
  proof (cases "graph_callee op")
    case None
    with 1 show ?thesis by (fastforce simp: result_simps has_types_Call_iff)
  next
    case (Some name)
    with 1 show ?thesis by (simp add: graph_callee_Some)
  qed
next
  case (10 C E op args c)
  show ?case
  proof (cases "graph_callee op")
    case None
    with 10 show ?thesis by (fastforce simp: result_simps has_types_Call_iff)
  next
    case (Some name)
    with 10 show ?thesis by (fastforce simp: graph_callee_Some result_simps)
  qed
next
  case (6 C E uop v c)
  then show ?case by (fastforce simp: result_simps has_types_Unary_iff)
next
  case (7 C E bop l r c)
  then show ?case by (fastforce simp: result_simps has_types_Binary_iff)
next
  case (9 C E tuple_id v index c)
  then show ?case by (fastforce simp: result_simps has_types_TupleGet_iff split: if_splits)
next
  case (11 C E name args c)
  then show ?case by (fastforce simp: result_simps has_types_Graph_iff split: if_splits)
next
  case (16 C E node_id v c)
  show ?case
  proof (cases "c node_id")
    case None
    then have miss: "cached_outputs c node_id v = Inr None" by (simp add: cached_outputs_None)
    from "16.prems" obtain c1 where v: "type_value_outputs C E v c = Inr (tys, c1)"
        and ins: "cache_insert c1 node_id v tys = Inr c'"
      by (auto simp: miss result_simps)
    from "16.IH" [OF miss refl v] "16.prems" have "has_types C E v tys" "cache_ok C E c1" by auto
    with ins show ?thesis by (auto intro: cache_insert_ok)
  next
    case (Some entry)
    with "16.prems" show ?thesis
      by (cases entry) (auto simp: result_simps cached_outputs_def ensure_same_node_payload_def
          cache_ok_def)
  qed
qed (auto simp: result_simps split: if_splits)

section \<open>Completeness of the checker\<close>

text \<open>The node occurrences of an expression; ids are consistent if each has one payload.\<close>

fun expr_nodes :: "expr \<Rightarrow> (nat \<times> expr) set" where
  "expr_nodes (EVar name) = {}"
| "expr_nodes (EConst v e) = {}"
| "expr_nodes (EUnary uop v) = expr_nodes v"
| "expr_nodes (EBinary bop l r) = expr_nodes l \<union> expr_nodes r"
| "expr_nodes (ENode node_id v) = insert (node_id, v) (expr_nodes v)"
| "expr_nodes (ETupleGet tuple_id v index) = expr_nodes v"
| "expr_nodes (ECall op args) = (\<Union>a \<in> set args. expr_nodes a)"

text \<open>The tuple projections of an expression, and its calls.\<close>

fun expr_tuples :: "expr \<Rightarrow> (nat \<times> expr) set" where
  "expr_tuples (EVar name) = {}"
| "expr_tuples (EConst v e) = {}"
| "expr_tuples (EUnary uop v) = expr_tuples v"
| "expr_tuples (EBinary bop l r) = expr_tuples l \<union> expr_tuples r"
| "expr_tuples (ENode node_id v) = expr_tuples v"
| "expr_tuples (ETupleGet tuple_id v index) = insert (tuple_id, v) (expr_tuples v)"
| "expr_tuples (ECall op args) = (\<Union>a \<in> set args. expr_tuples a)"

fun expr_calls :: "expr \<Rightarrow> (call_op \<times> expr list) set" where
  "expr_calls (EVar name) = {}"
| "expr_calls (EConst v e) = {}"
| "expr_calls (EUnary uop v) = expr_calls v"
| "expr_calls (EBinary bop l r) = expr_calls l \<union> expr_calls r"
| "expr_calls (ENode node_id v) = expr_calls v"
| "expr_calls (ETupleGet tuple_id v index) = expr_calls v"
| "expr_calls (ECall op args) = insert (op, args) (\<Union>a \<in> set args. expr_calls a)"

definition consistent :: "(nat \<times> expr) set \<Rightarrow> bool" where
  "consistent N \<longleftrightarrow> (\<forall>i v w. (i, v) \<in> N \<longrightarrow> (i, w) \<in> N \<longrightarrow> v = w)"

definition cache_in :: "(nat \<times> expr) set \<Rightarrow> node_cache \<Rightarrow> bool" where
  "cache_in N c \<longleftrightarrow> (\<forall>i v tys. c i = Some (v, tys) \<longrightarrow> (i, v) \<in> N)"

lemma cache_in_empty [simp]: "cache_in N Map.empty"
  by (simp add: cache_in_def)

lemma cache_insert_in:
  assumes "consistent N" "cache_in N c" "(i, v) \<in> N"
  shows "\<exists>c'. cache_insert c i v tys = Inr c' \<and> cache_in N c'"
proof (cases "c i")
  case None
  then show ?thesis using assms by (auto simp: cache_insert_def cache_in_def)
next
  case (Some entry)
  obtain w ts where entry: "entry = (w, ts)" by (cases entry)
  then have "(i, w) \<in> N" using assms(2) Some by (simp add: cache_in_def)
  then have "w = v" using assms(1,3) by (auto simp: consistent_def)
  with Some entry assms(2) show ?thesis
    by (auto simp: cache_insert_def ensure_same_node_payload_def)
qed

lemma default_outputs:
  assumes "has_types C E e [ty] \<Longrightarrow> \<exists>c'. type_tensor_expr C E e c = Inr (ty, c') \<and> cache_in N c'"
    and "has_types C E e tys" "tys = [ty]"
  shows "\<exists>c'. rbind (type_tensor_expr C E e c) (\<lambda>(ty, c'). Inr ([ty], c')) = Inr (tys, c') \<and> cache_in N c'"
  using assms by auto

lemmas checker_induct =
  type_value_outputs_type_tensor_expr_type_graph_call_outputs_type_graph_args_type_arg_tys_type_node_outputs.induct
    [case_names 1 2 d1 d2 d3 d4 d5 4 5 6 7 8 9 10 11 12 e1 e2 14 15 16]

lemma checker_complete:
  "has_types C E e tys \<Longrightarrow> consistent N \<Longrightarrow> expr_nodes e \<subseteq> N \<Longrightarrow> cache_ok C E c \<Longrightarrow> cache_in N c \<Longrightarrow>
     \<exists>c'. type_value_outputs C E e c = Inr (tys, c') \<and> cache_in N c'"
  "has_types C E e [ty] \<Longrightarrow> consistent N \<Longrightarrow> expr_nodes e \<subseteq> N \<Longrightarrow> cache_ok C E c \<Longrightarrow> cache_in N c \<Longrightarrow>
     \<exists>c'. type_tensor_expr C E e c = Inr (ty, c') \<and> cache_in N c'"
  "has_types C E (ECall (OpGraph name) args) tys \<Longrightarrow> consistent N \<Longrightarrow> (\<Union>a \<in> set args. expr_nodes a) \<subseteq> N \<Longrightarrow>
     cache_ok C E c \<Longrightarrow> cache_in N c \<Longrightarrow>
     \<exists>c'. type_graph_call_outputs C E name args c = Inr (tys, c') \<and> cache_in N c'"
  "list_all2 (\<lambda>a t. has_types C E a [t]) args ts \<Longrightarrow> consistent N \<Longrightarrow> (\<Union>a \<in> set args. expr_nodes a) \<subseteq> N \<Longrightarrow>
     cache_ok C E c \<Longrightarrow> cache_in N c \<Longrightarrow>
     \<exists>c'. type_graph_args C E args ts c = Inr c' \<and> cache_in N c'"
  "list_all2 (\<lambda>a t. has_types C E a [t]) args tys \<Longrightarrow> consistent N \<Longrightarrow> (\<Union>a \<in> set args. expr_nodes a) \<subseteq> N \<Longrightarrow>
     cache_ok C E c \<Longrightarrow> cache_in N c \<Longrightarrow>
     \<exists>c'. type_arg_tys C E args c = Inr (tys, c') \<and> cache_in N c'"
  "has_types C E v tys \<Longrightarrow> consistent N \<Longrightarrow> insert (node_id, v) (expr_nodes v) \<subseteq> N \<Longrightarrow> cache_ok C E c \<Longrightarrow> cache_in N c \<Longrightarrow>
     \<exists>c'. type_node_outputs C E node_id v c = Inr (tys, c') \<and> cache_in N c'"
proof (induction C E e c and C E e c and C E name args c and C E args ts c and C E args c
    and C E node_id v c
    arbitrary: tys and ty and tys and and tys and tys
    rule: checker_induct)
  case (1 C E op args c)
  show ?case
  proof (cases "graph_callee op")
    case None
    then show ?thesis using "1.IH"(1) [OF None] "1.prems" by (fastforce simp: has_types_Call_iff)
  next
    case (Some name)
    then show ?thesis using "1.IH"(2) [OF Some] "1.prems" by (simp add: graph_callee_Some)
  qed
next
  case (d3 C E uop v c)
  then obtain ty where "tys = [ty]" by (auto simp: has_types_Unary_iff)
  then show ?case
    using default_outputs d3 by (simp only: type_value_outputs.simps expr_nodes.simps) blast
next
  case (d4 C E bop l r c)
  then obtain ty where "tys = [ty]" by (auto simp: has_types_Binary_iff)
  then show ?case
    using default_outputs d4 by (simp only: type_value_outputs.simps expr_nodes.simps) blast
next
  case (d5 C E tuple_id v index c)
  then obtain ty where "tys = [ty]" by (auto simp: has_types_TupleGet_iff)
  then show ?case
    using default_outputs d5 by (simp only: type_value_outputs.simps expr_nodes.simps) blast
next
  case (6 C E uop v c)
  then show ?case by (fastforce simp: has_types_Unary_iff expect_numeric_element_def)
next
  case (7 C E bop l r c)
  from "7.prems"(1) obtain lt rt where ty: "has_types C E l [lt]" "has_types C E r [rt]"
      "binary_result_type lt rt = Inr ty"
    by (auto simp: has_types_Binary_iff)
  obtain c1 where c1: "type_tensor_expr C E l c = Inr (lt, c1)" "cache_in N c1"
    using "7.IH"(1) [OF ty(1)] "7.prems" by auto
  have "cache_ok C E c1" using checker_sound(2) [OF c1(1)] "7.prems" by simp
  then obtain c2 where "type_tensor_expr C E r c1 = Inr (rt, c2)" "cache_in N c2"
    using "7.IH"(2) [OF c1(1) refl ty(2)] "7.prems" c1 by auto
  with c1 ty show ?case by simp
next
  case (8 C E node_id v c)
  then have "\<exists>c'. type_node_outputs C E node_id v c = Inr ([ty], c') \<and> cache_in N c'"
    by (simp del: type_node_outputs.simps)
  then show ?case
    by (auto simp: single_output_type_def simp del: type_node_outputs.simps)
next
  case (9 C E tuple_id v index c)
  then show ?case by (fastforce simp: has_types_TupleGet_iff)
next
  case (10 C E op args c)
  show ?case
  proof (cases "graph_callee op")
    case None
    then show ?thesis using "10.IH"(1) [OF None] "10.prems"
      by (fastforce simp: has_types_Call_iff infer_call_result_def)
  next
    case (Some name)
    then show ?thesis using "10.IH"(2) [OF Some] "10.prems"
      by (fastforce simp: graph_callee_Some single_output_type_def)
  qed
next
  case (11 C E name args c)
  then show ?case by (fastforce simp: has_types_Graph_iff dest: list_all2_lengthD)
next
  case (12 C E arg args expected tys c)
  from "12.prems"(1) have ty: "has_types C E arg [expected]"
      "list_all2 (\<lambda>a t. has_types C E a [t]) args tys" by simp_all
  obtain c1 where c1: "type_tensor_expr C E arg c = Inr (expected, c1)" "cache_in N c1"
    using "12.IH"(1) [OF ty(1)] "12.prems" by auto
  have "cache_ok C E c1" using checker_sound(2) [OF c1(1)] "12.prems" by simp
  then show ?case using "12.IH"(2) [OF c1(1) refl _ ty(2)] "12.prems" c1 by auto
next
  case (15 C E arg args c)
  then obtain ty tys' where ty: "has_types C E arg [ty]" "tys = ty # tys'"
      "list_all2 (\<lambda>a t. has_types C E a [t]) args tys'"
    by (auto simp: list_all2_Cons1)
  obtain c1 where c1: "type_tensor_expr C E arg c = Inr (ty, c1)" "cache_in N c1"
    using "15.IH"(1) [OF ty(1)] "15.prems" by auto
  have "cache_ok C E c1" using checker_sound(2) [OF c1(1)] "15.prems" by simp
  then obtain c2 where "type_arg_tys C E args c1 = Inr (tys', c2)" "cache_in N c2"
    using "15.IH"(2) [OF c1(1) refl ty(3)] "15.prems" c1 by auto
  with c1 ty show ?case by simp
next
  case (16 C E node_id v c)
  show ?case
  proof (cases "c node_id")
    case None
    then have miss: "cached_outputs c node_id v = Inr None" by (simp add: cached_outputs_None)
    obtain c1 where c1: "type_value_outputs C E v c = Inr (tys, c1)" "cache_in N c1"
      using "16.IH" [OF miss refl "16.prems"(1)] "16.prems" by auto
    then obtain c2 where "cache_insert c1 node_id v tys = Inr c2" "cache_in N c2"
      using cache_insert_in "16.prems" by blast
    with miss c1 show ?thesis by simp
  next
    case (Some entry)
    obtain w ts where entry: "entry = (w, ts)" by (cases entry)
    have "(node_id, w) \<in> N" using Some entry "16.prems"(5) by (simp add: cache_in_def)
    then have w: "w = v" using "16.prems"(2,3) by (auto simp: consistent_def)
    then have "has_types C E v ts" using Some entry "16.prems"(4) by (simp add: cache_ok_def)
    then have "ts = tys" using "16.prems"(1) by (rule has_types_unique)
    then have "cached_outputs c node_id v = Inr (Some tys)"
      using Some entry w by (simp add: cached_outputs_Some)
    then show ?thesis using "16.prems"(5) by simp
  qed
qed (auto simp: list_all2_Cons1 single_output_type_def)

section \<open>Weakening\<close>

lemma has_types_weaken:
  "has_types C E e tys \<Longrightarrow> env_lookup E \<subseteq>\<^sub>m env_lookup E' \<Longrightarrow> has_types C E' e tys"
proof (induction rule: has_types.induct)
  case (HVar name ty)
  then show ?case by (auto simp: map_le_def dom_def)
next
  case (HCall op args arg_tys tys)
  then show ?case by (auto simp: has_types_Call_iff intro: list_all2_mono)
next
  case (HGraph name sig args)
  then show ?case by (auto simp: has_types_Graph_iff intro: list_all2_mono)
qed (auto simp: has_types_Unary_iff has_types_Binary_iff has_types_TupleGet_iff)

lemma env_lookup_eq: "env_lookup E = map_of (rev E)"
  by (rule ext) (simp add: env_lookup_def)

lemma env_lookup_append:
  "env_lookup (E @ E') = env_lookup E ++ env_lookup E'"
  by (simp add: env_lookup_eq)

lemma dom_env_lookup: "dom (env_lookup E) = fst ` set E"
  by (simp add: env_lookup_eq dom_map_of_conv_image_fst)

lemma env_lookup_fresh:
  assumes "fst ` set E \<inter> fst ` set E' = {}"
  shows "env_lookup E \<subseteq>\<^sub>m env_lookup (E @ E')"
proof -
  have "dom (env_lookup E) \<inter> dom (env_lookup E') = {}" using assms by (simp add: dom_env_lookup)
  then have "env_lookup E ++ env_lookup E' = env_lookup E' ++ env_lookup E"
    by (rule map_add_comm)
  then show ?thesis by (simp add: env_lookup_append)
qed

lemma env_lookup_push_fresh:
  assumes "set names \<inter> fst ` set E = {}"
  shows "env_lookup E \<subseteq>\<^sub>m env_lookup (push_bindings E names tys)"
proof -
  have "fst ` set (zip names tys) \<subseteq> set names" by (auto dest: set_zip_leftD)
  with assms show ?thesis unfolding push_bindings_def by (intro env_lookup_fresh) blast
qed

lemma has_types_push:
  "has_types C E e tys \<Longrightarrow> set names \<inter> fst ` set E = {} \<Longrightarrow>
     has_types C (push_bindings E names ts) e tys"
  by (rule has_types_weaken [OF _ env_lookup_push_fresh])

lemma cache_ok_push:
  "cache_ok C E c \<Longrightarrow> set names \<inter> fst ` set E = {} \<Longrightarrow> cache_ok C (push_bindings E names ts) c"
  by (auto simp: cache_ok_def intro: has_types_push)

section \<open>Graphs\<close>

inductive wt_lets ::
    "'f checker \<Rightarrow> type_env \<Rightarrow> let_binding list \<Rightarrow> typed_let list \<Rightarrow> type_env \<Rightarrow> bool"
  for C :: "'f checker" where
  WNil: "wt_lets C E [] [] E"
| WCons: "has_types C E (let_value b) tys \<Longrightarrow> length (let_names b) = length tys \<Longrightarrow>
    wt_lets C (push_bindings E (let_names b) tys) bs tbs E' \<Longrightarrow>
    wt_lets C E (b # bs)
      (\<lparr>tlet_names = let_names b,
        tlet_value = \<lparr>value_kind = let_value b, value_tys = tys\<rparr>\<rparr> # tbs) E'"

inductive_simps wt_lets_Nil [simp]: "wt_lets C E [] tbs E'"
inductive_simps wt_lets_Cons: "wt_lets C E (b # bs) tbs E'"

abbreviation graph_checker ::
    "'f f64_ops \<Rightarrow> graph \<Rightarrow> (string \<times> graph_signature) list \<Rightarrow> 'f checker" where
  "graph_checker F g sigs \<equiv> \<lparr>ck_ops = F, ck_signatures = sigs, ck_current = graph_name g\<rparr>"

abbreviation annotate_body :: "expr list \<Rightarrow> tensor_type list \<Rightarrow> typed_expr list" where
  "annotate_body es tys \<equiv> map2 (\<lambda>e ty. \<lparr>expr_kind = e, expr_ty = ty\<rparr>) es tys"

definition typed_as ::
    "'f f64_ops \<Rightarrow> graph \<Rightarrow> (string \<times> graph_signature) list \<Rightarrow> typed_graph \<Rightarrow> bool" where
  "typed_as F g sigs tg \<longleftrightarrow>
     (\<exists>E tlets. wt_lets (graph_checker F g sigs) (env_from_inputs (graph_inputs g)) (graph_lets g) tlets E \<and>
        list_all2 (\<lambda>e t. has_types (graph_checker F g sigs) E e [t]) (graph_body g) (graph_outputs g) \<and>
        tg = \<lparr>tg_name = graph_name g, tg_backend = graph_backend g, tg_inputs = graph_inputs g,
              tg_outputs = graph_outputs g, tg_lets = tlets,
              tg_body = annotate_body (graph_body g) (graph_outputs g)\<rparr>)"

definition well_typed :: "'f f64_ops \<Rightarrow> graph \<Rightarrow> (string \<times> graph_signature) list \<Rightarrow> bool" where
  "well_typed F g sigs \<longleftrightarrow> (\<exists>tg. typed_as F g sigs tg)"

definition let_nodes :: "let_binding list \<Rightarrow> (nat \<times> expr) set" where
  "let_nodes bs = (\<Union>b \<in> set bs. expr_nodes (let_value b))"

definition graph_nodes :: "graph \<Rightarrow> (nat \<times> expr) set" where
  "graph_nodes g = let_nodes (graph_lets g) \<union> (\<Union>e \<in> set (graph_body g). expr_nodes e)"

definition let_bound :: "let_binding list \<Rightarrow> string list" where
  "let_bound bs = concat (map let_names bs)"

definition bound_names :: "graph \<Rightarrow> string list" where
  "bound_names g = map input_name (graph_inputs g) @ let_bound (graph_lets g)"

lemma let_bound_simps [simp]:
  "let_bound [] = []" "let_bound (b # bs) = let_names b @ let_bound bs"
  "let_bound (bs @ bs') = let_bound bs @ let_bound bs'"
  by (simp_all add: let_bound_def)

lemma let_nodes_simps [simp]:
  "let_nodes [] = {}" "let_nodes (b # bs) = expr_nodes (let_value b) \<union> let_nodes bs"
  by (auto simp: let_nodes_def)

lemma names_push: "length names = length tys \<Longrightarrow>
    fst ` set (push_bindings E names tys) = fst ` set E \<union> set names"
  by (auto simp: push_bindings_def image_Un simp flip: set_map)

lemma check_lets_sound:
  "check_lets C bs E c = Inr (tbs, E', c') \<Longrightarrow> cache_ok C E c \<Longrightarrow>
   distinct (let_bound bs) \<Longrightarrow> set (let_bound bs) \<inter> fst ` set E = {} \<Longrightarrow>
   wt_lets C E bs tbs E' \<and> cache_ok C E' c'"
proof (induction C bs E c arbitrary: tbs rule: check_lets.induct)
  case (2 C b bs E c)
  from "2.prems"(1) obtain tys c1 ts where
      v: "type_value_outputs C E (let_value b) c = Inr (tys, c1)"
    and len: "length (let_names b) = length tys"
    and rest: "check_lets C bs (push_bindings E (let_names b) tys) c1 = Inr (ts, E', c')"
    and tbs: "tbs = \<lparr>tlet_names = let_names b,
                     tlet_value = \<lparr>value_kind = let_value b, value_tys = tys\<rparr>\<rparr> # ts"
    by (auto simp: result_simps split: if_splits)
  have c1: "has_types C E (let_value b) tys" "cache_ok C E c1"
    using checker_sound(1) [OF v] "2.prems" by simp_all
  have "wt_lets C (push_bindings E (let_names b) tys) bs ts E' \<and> cache_ok C E' c'"
    using "2.IH" [OF v refl _ rest] "2.prems" c1 len
    by (auto simp: names_push intro: cache_ok_push)
  with c1 len show ?case by (auto simp: tbs intro: WCons)
qed simp

lemma check_lets_complete:
  "wt_lets C E bs tbs E' \<Longrightarrow> cache_ok C E c \<Longrightarrow> cache_in N c \<Longrightarrow> consistent N \<Longrightarrow>
   let_nodes bs \<subseteq> N \<Longrightarrow> distinct (let_bound bs) \<Longrightarrow> set (let_bound bs) \<inter> fst ` set E = {} \<Longrightarrow>
   \<exists>c'. check_lets C bs E c = Inr (tbs, E', c') \<and> cache_in N c' \<and> cache_ok C E' c'"
proof (induction arbitrary: c rule: wt_lets.induct)
  case (WCons E b tys bs tbs E')
  have N: "expr_nodes (let_value b) \<subseteq> N" "let_nodes bs \<subseteq> N" using WCons.prems by simp_all
  have fresh: "set (let_names b) \<inter> fst ` set E = {}" using WCons.prems by auto
  have fresh': "set (let_bound bs) \<inter> fst ` set (push_bindings E (let_names b) tys) = {}"
    using WCons.prems WCons.hyps(2) by (auto simp: names_push)
  obtain c1 where v: "type_value_outputs C E (let_value b) c = Inr (tys, c1)" "cache_in N c1"
    using checker_complete(1) [OF WCons.hyps(1) WCons.prems(3) N(1) WCons.prems(1,2)] by auto
  have "cache_ok C E c1" using checker_sound(1) [OF v(1)] WCons.prems by simp
  then have "cache_ok C (push_bindings E (let_names b) tys) c1" using fresh by (rule cache_ok_push)
  then obtain c2 where "check_lets C bs (push_bindings E (let_names b) tys) c1 = Inr (tbs, E', c2)"
      "cache_in N c2" "cache_ok C E' c2"
    using WCons.IH [OF _ v(2) WCons.prems(3) N(2) _ fresh'] WCons.prems(5) by auto
  with v WCons.hyps show ?case by simp
qed simp

lemma env_from_inputs_names: "fst ` set (env_from_inputs ins) = set (map input_name ins)"
  by (force simp: env_from_inputs_def)

lemma type_check_sound:
  assumes "type_check F g sigs = Inr tg" and "distinct (bound_names g)"
  shows "typed_as F g sigs tg"
proof -
  let ?C = "graph_checker F g sigs"
  from assms(1) obtain tlets E c c' where
      lets: "check_lets ?C (graph_lets g) (env_from_inputs (graph_inputs g)) Map.empty = Inr (tlets, E, c)"
    and body: "type_arg_tys ?C E (graph_body g) c = Inr (graph_outputs g, c')"
    and tg: "tg = \<lparr>tg_name = graph_name g, tg_backend = graph_backend g, tg_inputs = graph_inputs g,
              tg_outputs = graph_outputs g, tg_lets = tlets,
              tg_body = annotate_body (graph_body g) (graph_outputs g)\<rparr>"
    by (auto simp: type_check_def Let_def result_simps split: if_splits)
  have "wt_lets ?C (env_from_inputs (graph_inputs g)) (graph_lets g) tlets E \<and> cache_ok ?C E c"
    using check_lets_sound [OF lets] assms(2)
    by (auto simp: bound_names_def env_from_inputs_names)
  then show ?thesis using checker_sound(5) [OF body] tg by (auto simp: typed_as_def)
qed

lemma type_check_complete:
  assumes "typed_as F g sigs tg" and "distinct (bound_names g)" and "consistent (graph_nodes g)"
  shows "type_check F g sigs = Inr tg"
proof -
  let ?C = "graph_checker F g sigs"
  from assms(1) obtain tlets E where
      lets: "wt_lets ?C (env_from_inputs (graph_inputs g)) (graph_lets g) tlets E"
    and body: "list_all2 (\<lambda>e t. has_types ?C E e [t]) (graph_body g) (graph_outputs g)"
    and tg: "tg = \<lparr>tg_name = graph_name g, tg_backend = graph_backend g, tg_inputs = graph_inputs g,
              tg_outputs = graph_outputs g, tg_lets = tlets,
              tg_body = annotate_body (graph_body g) (graph_outputs g)\<rparr>"
    by (auto simp: typed_as_def)
  obtain c where c: "check_lets ?C (graph_lets g) (env_from_inputs (graph_inputs g)) Map.empty = Inr (tlets, E, c)"
      "cache_in (graph_nodes g) c" "cache_ok ?C E c"
    using check_lets_complete [OF lets, of Map.empty "graph_nodes g"] assms(2,3)
    by (auto simp: bound_names_def env_from_inputs_names graph_nodes_def)
  obtain c' where "type_arg_tys ?C E (graph_body g) c = Inr (graph_outputs g, c')"
    using checker_complete(5) [OF body assms(3)] c by (auto simp: graph_nodes_def)
  with c(1) show ?thesis by (simp add: type_check_def tg)
qed

end
