(* ===== verification/Typing_Properties.thy ===== *)
theory Typing_Properties
  imports Type_Spec
begin

text \<open>The properties of the type checker, each with a concrete graph.\<close>

section \<open>An example graph\<close>

text \<open>\<open>fn f(x: [2, 3] f32, y: [3] f32) -> [] f32 { let z = x + y; sum(z * z) }\<close>, with \<open>z\<close> a shared node.\<close>

definition sum_square_graph :: graph where
  "sum_square_graph =
     \<lparr>graph_name = ''f'', graph_backend = ''cpu'',
      graph_inputs = [\<lparr>input_name = ''x'', input_ty = tensor F32 [2, 3]\<rparr>,
                      \<lparr>input_name = ''y'', input_ty = tensor F32 [3]\<rparr>],
      graph_outputs = [tensor F32 []],
      graph_lets = [\<lparr>let_names = [''z''], let_value = ENode 1 (EBinary Add (EVar ''x'') (EVar ''y''))\<rparr>],
      graph_body = [ECall (OpSum AxisAll) [EBinary Mul (EVar ''z'') (EVar ''z'')]]\<rparr>"

definition sum_square_typed :: typed_graph where
  "sum_square_typed =
     \<lparr>tg_name = ''f'', tg_backend = ''cpu'',
      tg_inputs = [\<lparr>input_name = ''x'', input_ty = tensor F32 [2, 3]\<rparr>,
                   \<lparr>input_name = ''y'', input_ty = tensor F32 [3]\<rparr>],
      tg_outputs = [tensor F32 []],
      tg_lets = [\<lparr>tlet_names = [''z''],
                  tlet_value = \<lparr>value_kind = ENode 1 (EBinary Add (EVar ''x'') (EVar ''y'')),
                                value_tys = [tensor F32 [2, 3]]\<rparr>\<rparr>],
      tg_body = [\<lparr>expr_kind = ECall (OpSum AxisAll) [EBinary Mul (EVar ''z'') (EVar ''z'')],
                  expr_ty = tensor F32 []\<rparr>]\<rparr>"

lemma sum_square_bound: "distinct (bound_names sum_square_graph)" "consistent (graph_nodes sum_square_graph)"
  by (simp_all add: sum_square_graph_def bound_names_def let_bound_def graph_nodes_def let_nodes_def
      consistent_def)

lemmas check_eval =
  type_check_def Let_def env_from_inputs_def env_lookup_def push_bindings_def graph_callee_def
  validate_static_creation_call_def rule_groups guard_defs binary_result_type_def broadcast_shape_def
  broadcast_shape_slices_def dim_from_trailing_def cached_outputs_def cache_insert_def
  ensure_same_node_payload_def single_output_type_def infer_call_result_def is_numeric_def rank_def

lemma sum_square_checks: "type_check exact_ops sum_square_graph [] = Inr sum_square_typed"
  by (simp add: sum_square_graph_def sum_square_typed_def check_eval upt_rec)

section \<open>Properties\<close>

text \<open>C1. On a graph whose bindings have distinct names and whose node ids are used consistently, the
  cached checker decides the declarative type system: it returns a typed graph exactly if the graph
  has a typing derivation, and then with the derived annotations.\<close>

theorem type_check_decides:
  assumes "distinct (bound_names g)" and "consistent (graph_nodes g)"
  shows "type_check F g sigs = Inr tg \<longleftrightarrow> typed_as F g sigs tg"
  using type_check_sound [OF _ assms(1)] type_check_complete [OF _ assms] by blast

lemma type_check_decides_witness: "typed_as exact_ops sum_square_graph [] sum_square_typed"
  using type_check_decides [OF sum_square_bound] sum_square_checks by blast

text \<open>The type of an expression does not depend on what the node cache already holds: a cache that
  records only derived types never changes the inferred types, it only saves work.\<close>

theorem node_cache_transparent:
  assumes "type_value_outputs C E e c = Inr (tys, c')" and "type_value_outputs C E e Map.empty = Inr (tys', c'')"
    and "cache_ok C E c"
  shows "tys = tys'"
  using checker_sound(1) [OF assms(1,3)] checker_sound(1) [OF assms(2) cache_ok_empty] has_types_unique
  by blast

lemma node_cache_transparent_witness:
  "[tensor F32 [3]] = [tensor F32 [3]] \<and>
   cache_ok (graph_checker exact_ops sum_square_graph []) [(''y'', tensor F32 [3])]
     [1 \<mapsto> (EVar ''y'', [tensor F32 [3]])]"
proof -
  let ?C = "graph_checker exact_ops sum_square_graph []"
  let ?E = "[(''y'', tensor F32 [3])]"
  let ?c = "[1 \<mapsto> (EVar ''y'', [tensor F32 [3]])]"
  have ok: "cache_ok ?C ?E ?c" by (simp add: cache_ok_def env_lookup_def)
  moreover have "type_value_outputs ?C ?E (ENode 1 (EVar ''y'')) ?c = Inr ([tensor F32 [3]], ?c)"
      "type_value_outputs ?C ?E (ENode 1 (EVar ''y'')) Map.empty = Inr ([tensor F32 [3]], ?c)"
    by (simp_all add: check_eval)
  ultimately show ?thesis using node_cache_transparent by blast
qed

end
