(* ===== verification/Fresh_Names.thy ===== *)
theory Fresh_Names
  imports Ast
begin

text \<open>
  The three searches for an unused name: \<open>next_auto_name\<close> and \<open>unique_name\<close> of
  \<^verbatim>\<open>autograd/mod.rs\<close> and \<open>unique_node_name\<close> of \<^verbatim>\<open>trace/normalize.rs\<close>.  The set of used names
  (\<open>BTreeSet<String>\<close>) is a list.  The loops end because the candidates are pairwise distinct; the
  locale \<open>fresh_supply\<close> holds what the clients need and is interpreted on each of the searches.
\<close>

section \<open>Termination of a search\<close>

lemma finite_hits:
  fixes name :: "nat \<Rightarrow> string"
  assumes "\<And>i j. name i = name j \<Longrightarrow> i = j"
  shows "finite {k. n \<le> k \<and> name k \<in> set used}"
proof (rule finite_subset)
  show "{k. n \<le> k \<and> name k \<in> set used} \<subseteq> name -` set used" by auto
  have "inj name" using assms by (auto intro: injI)
  then show "finite (name -` set used)" by (simp add: finite_vimageI)
qed

lemma fewer_hits:
  fixes name :: "nat \<Rightarrow> string"
  assumes "\<And>i j. name i = name j \<Longrightarrow> i = j" and "name n \<in> set used"
  shows "card {k. Suc n \<le> k \<and> name k \<in> set used} < card {k. n \<le> k \<and> name k \<in> set used}"
proof (rule psubset_card_mono)
  show "finite {k. n \<le> k \<and> name k \<in> set used}" using assms(1) by (rule finite_hits)
  show "{k. Suc n \<le> k \<and> name k \<in> set used} \<subset> {k. n \<le> k \<and> name k \<in> set used}"
    using assms(2) by (intro psubsetI subsetI) (simp_all, metis (mono_tags, lifting) Suc_n_not_le_n
      mem_Collect_eq order_refl)
qed

section \<open>The interface of a search\<close>

locale fresh_supply =
  fixes name :: "nat \<Rightarrow> string" and search :: "string list \<Rightarrow> nat \<Rightarrow> nat"
  assumes name_inject: "name i = name j \<Longrightarrow> i = j"
    and search_hit: "name n \<notin> set used \<Longrightarrow> search used n = n"
    and search_miss: "name n \<in> set used \<Longrightarrow> search used n = search used (Suc n)"
begin

lemma search_spec:
  "n \<le> search used n \<and> name (search used n) \<notin> set used \<and>
   (\<forall>k. n \<le> k \<and> k < search used n \<longrightarrow> name k \<in> set used)"
proof (induction "card {k. n \<le> k \<and> name k \<in> set used}" arbitrary: n rule: less_induct)
  case less
  show ?case
  proof (cases "name n \<in> set used")
    case True
    have "card {k. Suc n \<le> k \<and> name k \<in> set used} < card {k. n \<le> k \<and> name k \<in> set used}"
      using name_inject True by (rule fewer_hits)
    from less [OF this] have IH: "Suc n \<le> search used n" "name (search used n) \<notin> set used"
        "\<forall>k. Suc n \<le> k \<and> k < search used n \<longrightarrow> name k \<in> set used"
      using search_miss [OF True] by simp_all
    have "name k \<in> set used" if "n \<le> k" "k < search used n" for k
      using that IH True by (cases "k = n") auto
    with IH show ?thesis by auto
  next
    case False
    then have "search used n = n" by (rule search_hit)
    with False show ?thesis by auto
  qed
qed

lemma search_fresh: "name (search used n) \<notin> set used"
  using search_spec by blast

lemma search_ge: "n \<le> search used n"
  using search_spec by blast

lemma search_least: "n \<le> k \<Longrightarrow> k < search used n \<Longrightarrow> name k \<in> set used"
  using search_spec by blast

text \<open>Consecutive searches, each with the name of the one before taken, give distinct names.\<close>

lemma search_distinct: "name (search (name (search used m) # used) n) \<noteq> name (search used m)"
  using search_fresh [of "name (search used m) # used" n] by auto

end

section \<open>next_auto_name\<close>

definition auto_name :: "nat \<Rightarrow> string" where
  "auto_name n = ''__knok_autograd_'' @ nat_str n"

lemma auto_name_inject [simp]: "auto_name i = auto_name j \<longleftrightarrow> i = j"
  by (simp add: auto_name_def)

function auto_index :: "string list \<Rightarrow> nat \<Rightarrow> nat" where
  "auto_index used n = (if auto_name n \<in> set used then auto_index used (Suc n) else n)"
  by pat_completeness auto
termination
  by (relation "measure (\<lambda>(used, n). card {k. n \<le> k \<and> auto_name k \<in> set used})")
    (auto intro: fewer_hits)

declare auto_index.simps [simp del]

interpretation auto: fresh_supply auto_name auto_index
  by unfold_locales (simp_all add: auto_index.simps [of _ n for n])

section \<open>unique_name and unique_node_name\<close>

definition suffixed :: "string \<Rightarrow> nat \<Rightarrow> string" where
  "suffixed base k = (if k = 0 then base else base @ ''_'' @ nat_str k)"

lemma suffixed_inject [simp]: "suffixed base i = suffixed base j \<longleftrightarrow> i = j"
  by (auto simp: suffixed_def)

function suffix_index :: "string \<Rightarrow> string list \<Rightarrow> nat \<Rightarrow> nat" where
  "suffix_index base used n =
     (if suffixed base n \<in> set used then suffix_index base used (Suc n) else n)"
  by pat_completeness auto
termination
  by (relation "measure (\<lambda>(base, used, n). card {k. n \<le> k \<and> suffixed base k \<in> set used})")
    (auto intro: fewer_hits)

declare suffix_index.simps [simp del]

interpretation suffix: fresh_supply "suffixed base" "suffix_index base" for base
  by unfold_locales (simp_all add: suffix_index.simps [of _ _ n for n])

definition unique_name :: "string \<Rightarrow> string list \<Rightarrow> string \<times> string list" where
  "unique_name base used =
     (let candidate = suffixed base (suffix_index base used 0) in (candidate, candidate # used))"

definition node_name_of :: "nat \<Rightarrow> string" where
  "node_name_of node_id = ''__knok_node_'' @ nat_str node_id"

definition unique_node_name :: "nat \<Rightarrow> string list \<Rightarrow> string \<times> string list" where
  "unique_node_name node_id reserved =
     (let base = node_name_of node_id;
          candidate = suffixed base (suffix_index base reserved 0)
      in (candidate, candidate # reserved))"

lemma unique_name_fresh:
  "unique_name base used = (candidate, used') \<Longrightarrow> candidate \<notin> set used \<and> used' = candidate # used"
  by (auto simp: unique_name_def Let_def suffix.search_fresh)

lemma unique_node_name_fresh:
  "unique_node_name node_id used = (candidate, used') \<Longrightarrow>
     candidate \<notin> set used \<and> used' = candidate # used"
  by (auto simp: unique_node_name_def Let_def suffix.search_fresh)

text \<open>A base that is not taken is used as it is.\<close>

lemma unique_name_base: "base \<notin> set used \<Longrightarrow> fst (unique_name base used) = base"
  by (simp add: unique_name_def suffix_index.simps suffixed_def)

end
