(* ===== verification/Normalize.thy ===== *)
theory Normalize
  imports Type_Spec Fresh_Names
begin

text \<open>
  \<^verbatim>\<open>crates/knok-build/src/trace/normalize.rs\<close>: the pass that turns the shared nodes of a traced
  body into let bindings, one per node id, in dependency order.
\<close>

section \<open>The pass\<close>

type_synonym node_values = "nat \<Rightarrow> expr option"

fun collect_nodes :: "expr \<Rightarrow> node_values \<times> nat list \<Rightarrow> (node_values \<times> nat list) result"
  and collect_all :: "expr list \<Rightarrow> node_values \<times> nat list \<Rightarrow> (node_values \<times> nat list) result"
where
  "collect_nodes (EUnary uop v) s = collect_nodes v s"
| "collect_nodes (EBinary bop l r) s = rbind (collect_nodes l s) (collect_nodes r)"
| "collect_nodes (ENode node_id v) s =
     (case fst s node_id of
        Some existing \<Rightarrow> rbind (check (existing = v) (TraceError TraceNodeConflict)) (\<lambda>_. Inr s)
      | None \<Rightarrow>
          rbind (collect_nodes v s) (\<lambda>(values, order).
          Inr (values(node_id \<mapsto> v), order @ [node_id])))"
| "collect_nodes (ETupleGet tuple_id v index) s = collect_nodes v s"
| "collect_nodes (ECall op args) s = collect_all args s"
| "collect_nodes (EVar name) s = Inr s"
| "collect_nodes (EConst v e) s = Inr s"
| "collect_all [] s = Inr s"
| "collect_all (e # es) s = rbind (collect_nodes e s) (collect_all es)"

fun rewrite_node_refs :: "(nat \<Rightarrow> string option) \<Rightarrow> expr \<Rightarrow> expr result"
  and rewrite_all :: "(nat \<Rightarrow> string option) \<Rightarrow> expr list \<Rightarrow> expr list result"
where
  "rewrite_node_refs names (EUnary uop v) =
     rbind (rewrite_node_refs names v) (\<lambda>v'. Inr (EUnary uop v'))"
| "rewrite_node_refs names (EBinary bop l r) =
     rbind (rewrite_node_refs names l) (\<lambda>l'.
     rbind (rewrite_node_refs names r) (\<lambda>r'. Inr (EBinary bop l' r')))"
| "rewrite_node_refs names (ENode node_id v) =
     rbind (of_option (TraceError TraceNodeUnbound) (names node_id)) (\<lambda>name. Inr (EVar name))"
| "rewrite_node_refs names (ETupleGet tuple_id v index) =
     rbind (rewrite_node_refs names v) (\<lambda>v'. Inr (ETupleGet tuple_id v' index))"
| "rewrite_node_refs names (ECall op args) =
     rbind (rewrite_all names args) (\<lambda>args'. Inr (ECall op args'))"
| "rewrite_node_refs names (EVar name) = Inr (EVar name)"
| "rewrite_node_refs names (EConst v e) = Inr (EConst v e)"
| "rewrite_all names [] = Inr []"
| "rewrite_all names (e # es) =
     rbind (rewrite_node_refs names e) (\<lambda>e'.
     rbind (rewrite_all names es) (\<lambda>es'. Inr (e' # es')))"

text \<open>The names of the nodes, assigned in order, each reserved for the ones after it.\<close>

fun assign_names :: "nat list \<Rightarrow> string list \<Rightarrow> (nat \<Rightarrow> string option) \<Rightarrow> (nat \<Rightarrow> string option)" where
  "assign_names [] reserved names = names"
| "assign_names (node_id # order) reserved names =
     (let (name, reserved') = unique_node_name node_id reserved
      in assign_names order reserved' (names(node_id \<mapsto> name)))"

definition bind_node ::
    "(nat \<Rightarrow> string option) \<Rightarrow> node_values \<Rightarrow> nat \<Rightarrow> let_binding result" where
  "bind_node names values node_id =
     rbind (of_option (TraceError TraceNodeUnbound) (names node_id)) (\<lambda>name.
     rbind (of_option (TraceError TraceNodeUnbound) (values node_id)) (\<lambda>v.
     rbind (rewrite_node_refs names v) (\<lambda>v'.
     Inr \<lparr>let_names = [name], let_value = v'\<rparr>)))"

definition let_bind_nodes ::
    "expr list \<Rightarrow> string list \<Rightarrow> (let_binding list \<times> expr list) result" where
  "let_bind_nodes body reserved_names =
     rbind (collect_all body (Map.empty, [])) (\<lambda>(values, order).
     let names = assign_names order reserved_names Map.empty in
     rbind (rmap (bind_node names values) order) (\<lambda>lets.
     rbind (rmap (rewrite_node_refs names) body) (\<lambda>body'.
     Inr (lets, body'))))"

end
