(* ===== verification/Normalize_Correct.thy ===== *)
theory Normalize_Correct
  imports Normalize
begin

text \<open>
  Let-binding the nodes of a traced body preserves its types: the pass succeeds on consistently
  used ids, visits each node once and after the nodes it uses, and the rewritten graph is typed as
  the traced expressions were.
\<close>

section \<open>Collection\<close>

text \<open>Payloads of nodes inside an expression are smaller than the expression.\<close>

lemma expr_nodes_size: "(i, w) \<in> expr_nodes e \<Longrightarrow> size w < size e"
proof (induction e)
  case (ECall op args)
  then obtain a where "a \<in> set args" "size w < size a" by auto
  moreover from this have "size a \<le> size_list size args"
    by (simp add: size_list_estimation')
  ultimately show ?case by simp
qed (auto simp: less_Suc_eq)

lemma expr_nodes_closed: "(i, w) \<in> expr_nodes e \<Longrightarrow> expr_nodes w \<subseteq> expr_nodes e"
  by (induction e) (auto; blast)+

definition all_nodes :: "expr list \<Rightarrow> (nat \<times> expr) set" where
  "all_nodes es = (\<Union>e \<in> set es. expr_nodes e)"

definition collected :: "(nat \<times> expr) set \<Rightarrow> node_values \<times> nat list \<Rightarrow> bool" where
  "collected N s \<longleftrightarrow>
     distinct (snd s) \<and> dom (fst s) = set (snd s) \<and>
     (\<forall>i v. fst s i = Some v \<longrightarrow> (i, v) \<in> N) \<and>
     (\<forall>k < length (snd s). \<forall>v. fst s (snd s ! k) = Some v \<longrightarrow>
        fst ` expr_nodes v \<subseteq> set (take k (snd s)))"

definition extends :: "(nat \<times> expr) set \<Rightarrow> node_values \<times> nat list \<Rightarrow> node_values \<times> nat list \<Rightarrow> bool" where
  "extends M s s' \<longleftrightarrow>
     (\<forall>i v. fst s i = Some v \<longrightarrow> fst s' i = Some v) \<and> dom (fst s') = dom (fst s) \<union> fst ` M \<and>
     (\<forall>i v. (i, v) \<in> M \<longrightarrow> fst s' i = Some v)"

lemma collected_empty [simp]: "collected N (Map.empty, [])"
  by (simp add: collected_def)

lemma extends_refl: "extends {} s s"
  by (simp add: extends_def)

lemma extends_trans:
  assumes "extends M s t" "extends M' t u"
  shows "extends (M \<union> M') s u"
proof -
  have dom: "dom (fst u) = dom (fst s) \<union> fst ` (M \<union> M')"
    using assms unfolding extends_def by (simp add: image_Un Un_assoc)
  have old: "fst s i = Some v \<Longrightarrow> fst u i = Some v" for i v
    using assms unfolding extends_def by simp
  have new: "(i, v) \<in> M \<union> M' \<Longrightarrow> fst u i = Some v" for i v
    using assms unfolding extends_def by (elim UnE conjE) simp_all
  show ?thesis using dom old new unfolding extends_def by simp
qed

lemma collectedD:
  assumes "collected N (vals, order)"
  shows "distinct order" "dom vals = set order"
    and "vals i = Some v \<Longrightarrow> (i, v) \<in> N"
    and "k < length order \<Longrightarrow> vals (order ! k) = Some v \<Longrightarrow> fst ` expr_nodes v \<subseteq> set (take k order)"
proof -
  have c: "distinct order \<and> dom vals = set order \<and> (\<forall>i v. vals i = Some v \<longrightarrow> (i, v) \<in> N) \<and>
      (\<forall>k < length order. \<forall>v. vals (order ! k) = Some v \<longrightarrow>
         fst ` expr_nodes v \<subseteq> set (take k order))"
    using assms unfolding collected_def fst_conv snd_conv .
  from c show "distinct order" by (elim conjE)
  from c show "dom vals = set order" by (elim conjE)
  from c show "(i, v) \<in> N" if "vals i = Some v" using that by (elim conjE) (drule spec, drule spec, erule mp)
  from c show "fst ` expr_nodes v \<subseteq> set (take k order)"
    if "k < length order" "vals (order ! k) = Some v"
    using that by (elim conjE) (drule spec, drule mp, assumption, drule spec, erule mp)
qed

lemma collectedI:
  assumes "distinct order" "dom vals = set order" "\<And>i v. vals i = Some v \<Longrightarrow> (i, v) \<in> N"
    and "\<And>k v. k < length order \<Longrightarrow> vals (order ! k) = Some v \<Longrightarrow>
           fst ` expr_nodes v \<subseteq> set (take k order)"
  shows "collected N (vals, order)"
  using assms unfolding collected_def fst_conv snd_conv by blast

text \<open>Recording a node after its payload keeps the order topological.\<close>

lemma collected_insert:
  assumes "collected N (vals, order)" "i \<notin> set order" "(i, v) \<in> N"
    and "fst ` expr_nodes v \<subseteq> set order"
  shows "collected N (vals(i \<mapsto> v), order @ [i])"
proof -
  note c = collectedD [OF assms(1)]
  show ?thesis
  proof (rule collectedI)
    show "distinct (order @ [i])" "dom (vals(i \<mapsto> v)) = set (order @ [i])"
      using c(1,2) assms(2) by simp_all
    show "(j, w) \<in> N" if "(vals(i \<mapsto> v)) j = Some w" for j w
      using that c(3) assms(3) by (cases "j = i") simp_all
    show "fst ` expr_nodes w \<subseteq> set (take k (order @ [i]))"
      if k: "k < length (order @ [i])" and w: "(vals(i \<mapsto> v)) ((order @ [i]) ! k) = Some w" for k w
    proof (cases "k < length order")
      case True
      then have "order ! k \<noteq> i" using assms(2) nth_mem by metis
      with w True have "vals (order ! k) = Some w" by (simp add: nth_append)
      with True show ?thesis by (simp add: c(4))
    next
      case False
      with k have "k = length order" by simp
      with w assms(4) show ?thesis by simp
    qed
  qed
qed

lemma collect_complete:
  "consistent N \<Longrightarrow> expr_nodes e \<subseteq> N \<Longrightarrow> collected N s \<Longrightarrow>
     \<exists>s'. collect_nodes e s = Inr s' \<and> collected N s' \<and> extends (expr_nodes e) s s'"
  "consistent N \<Longrightarrow> all_nodes es \<subseteq> N \<Longrightarrow> collected N s \<Longrightarrow>
     \<exists>s'. collect_all es s = Inr s' \<and> collected N s' \<and> extends (all_nodes es) s s'"
proof (induction e s and es s rule: collect_nodes_collect_all.induct)
  case (2 bop l r s)
  then obtain s1 where s1: "collect_nodes l s = Inr s1" "collected N s1" "extends (expr_nodes l) s s1"
    by auto
  then obtain s2 where "collect_nodes r s1 = Inr s2" "collected N s2" "extends (expr_nodes r) s1 s2"
    using 2 by auto
  with s1 show ?case by (auto intro: extends_trans)
next
  case (3 i v s)
  obtain vals order where s: "s = (vals, order)" by (cases s)
  have iv: "(i, v) \<in> N" and N: "expr_nodes v \<subseteq> N" using "3.prems"(2) by auto
  have same: "u = w" if "(j, u) \<in> N" "(j, w) \<in> N" for j u w
    using "3.prems"(1) that by (auto simp: consistent_def)
  note c = collectedD [OF "3.prems"(3) [unfolded s]]
  show ?case
  proof (cases "vals i")
    case (Some w)
    then have w: "w = v" using c(3) iv same by blast
    have "i \<in> set order" using Some c(2) by auto
    then obtain k where k: "k < length order" "order ! k = i" by (auto simp: in_set_conv_nth)
    then have "fst ` expr_nodes v \<subseteq> set (take k order)" using c(4) Some w by simp
    then have ids: "fst ` expr_nodes v \<subseteq> dom vals" using c(2) set_take_subset by fast
    have "vals j = Some u" if "(j, u) \<in> expr_nodes v" for j u
    proof -
      have "j \<in> fst ` expr_nodes v" using that by (rule rev_image_eqI) simp
      then obtain u' where u': "vals j = Some u'" using ids by blast
      then have "u' = u" using c(3) N that same by blast
      with u' show ?thesis by simp
    qed
    with ids Some w s "3.prems"(3) show ?thesis by (auto simp: extends_def)
  next
    case None
    then obtain vals1 order1 where s1: "collect_nodes v s = Inr (vals1, order1)"
        "collected N (vals1, order1)" "extends (expr_nodes v) s (vals1, order1)"
      using "3.IH" [OF _ "3.prems"(1) N "3.prems"(3)] s None by auto
    have "i \<notin> fst ` expr_nodes v"
    proof
      assume "i \<in> fst ` expr_nodes v"
      then obtain w where "(i, w) \<in> expr_nodes v" by auto
      moreover from this have "w = v" using N iv same by blast
      ultimately show False using expr_nodes_size by blast
    qed
    then have i: "i \<notin> dom vals1" using s1(3) None s by (auto simp: extends_def)
    then have "i \<notin> set order1" using s1(2) by (auto simp: collected_def)
    moreover have "fst ` expr_nodes v \<subseteq> set order1"
      using s1(2,3) by (auto simp: collected_def extends_def)
    ultimately have "collected N (vals1(i \<mapsto> v), order1 @ [i])"
      using s1(2) iv by (intro collected_insert)
    moreover have "extends (insert (i, v) (expr_nodes v)) s (vals1(i \<mapsto> v), order1 @ [i])"
      unfolding extends_def fst_conv
    proof (intro conjI allI impI)
      have x: "\<And>j u. vals j = Some u \<Longrightarrow> vals1 j = Some u" "dom vals1 = dom vals \<union> fst ` expr_nodes v"
          "\<And>j u. (j, u) \<in> expr_nodes v \<Longrightarrow> vals1 j = Some u"
        using s1(3) unfolding extends_def s fst_conv by blast+
      show "dom (vals1(i \<mapsto> v)) = dom (fst s) \<union> fst ` insert (i, v) (expr_nodes v)"
        by (simp add: s x(2))
      show "(vals1(i \<mapsto> v)) j = Some u" if "fst s j = Some u" for j u
        using that x(1) None s by (cases "j = i") simp_all
      show "(vals1(i \<mapsto> v)) j = Some u" if "(j, u) \<in> insert (i, v) (expr_nodes v)" for j u
      proof (cases "j = i")
        case True
        with that \<open>i \<notin> fst ` expr_nodes v\<close> have "u = v" by force
        with True show ?thesis by simp
      next
        case False
        with that x(3) show ?thesis by simp
      qed
    qed
    ultimately show ?thesis using s1(1) None s by simp
  qed
next
  case (9 e es s)
  then obtain s1 where s1: "collect_nodes e s = Inr s1" "collected N s1" "extends (expr_nodes e) s s1"
    by (auto simp: all_nodes_def)
  then obtain s2 where "collect_all es s1 = Inr s2" "collected N s2" "extends (all_nodes es) s1 s2"
    using 9 by (auto simp: all_nodes_def)
  with s1 show ?case by (auto simp: all_nodes_def intro: extends_trans)
qed (auto simp: extends_refl all_nodes_def)

section \<open>Names\<close>

lemma assign_names_other:
  "i \<notin> set order \<Longrightarrow> assign_names order reserved names i = names i"
  by (induction order reserved names rule: assign_names.induct) (auto split: prod.splits)

lemma assign_names_head:
  assumes "unique_node_name i reserved = (name, reserved')" "i \<notin> set order"
  shows "assign_names (i # order) reserved names i = Some name"
  using assms by (simp add: assign_names_other)

lemma assign_names_fresh:
  "distinct order \<Longrightarrow> i \<in> set order \<Longrightarrow>
     \<exists>n. assign_names order reserved names i = Some n \<and> n \<notin> set reserved"
proof (induction order reserved names rule: assign_names.induct)
  case (2 j order reserved names)
  obtain name reserved' where u: "unique_node_name j reserved = (name, reserved')" by fastforce
  note name = unique_node_name_fresh [OF u]
  show ?case
  proof (cases "i = j")
    case True
    then have "assign_names (j # order) reserved names i = Some name"
      using assign_names_head [OF u] "2.prems"(1) by simp
    with name show ?thesis by blast
  next
    case False
    with "2.IH" [OF u [symmetric] refl] "2.prems" u name show ?thesis
      by (auto simp del: fun_upd_apply)
  qed
qed simp

lemma assign_names_distinct:
  "distinct order \<Longrightarrow> i \<in> set order \<Longrightarrow> j \<in> set order \<Longrightarrow>
     assign_names order reserved names i = assign_names order reserved names j \<Longrightarrow> i = j"
proof (induction order reserved names rule: assign_names.induct)
  case (2 k order reserved names)
  obtain name reserved' where u: "unique_node_name k reserved = (name, reserved')" by fastforce
  have dist: "distinct order" and k: "k \<notin> set order" using "2.prems"(1) by simp_all
  have head: "assign_names (k # order) reserved names k = Some name"
    using u k by (rule assign_names_head)
  have tail: "assign_names (k # order) reserved names m \<noteq> Some name" if "m \<in> set order" for m
    using assign_names_fresh [OF dist that, of reserved' "names(k \<mapsto> name)"]
      unique_node_name_fresh [OF u] u by auto
  show ?case
  proof (cases "i = k \<or> j = k")
    case True
    with head tail "2.prems"(2-4) show ?thesis by (metis set_ConsD)
  next
    case False
    then show ?thesis using "2.IH" [OF u [symmetric] refl dist] "2.prems" u
      by (simp del: fun_upd_apply)
  qed
qed simp

section \<open>Types\<close>

text \<open>The calls whose arguments must be literal: a node among them would become a name.\<close>

definition static_creation :: "call_op \<Rightarrow> bool" where
  "static_creation op \<longleftrightarrow>
     (case op of
        OpArange t \<Rightarrow> True | OpLinspace t \<Rightarrow> True | OpEye t \<Rightarrow> True
      | OpStaticRandomUniform t seed \<Rightarrow> True | OpStaticRandomInt t seed \<Rightarrow> True
      | _ \<Rightarrow> False)"

lemma not_static_creation: "\<not> static_creation op \<Longrightarrow> validate_static_creation_call F op args = Inr ()"
  by (cases op) (simp_all add: static_creation_def validate_static_creation_call_def)

fun literals_only :: "expr \<Rightarrow> bool" where
  "literals_only (EVar name) = True"
| "literals_only (EConst v e) = True"
| "literals_only (EUnary uop v) = literals_only v"
| "literals_only (EBinary bop l r) = (literals_only l \<and> literals_only r)"
| "literals_only (ENode node_id v) = literals_only v"
| "literals_only (ETupleGet tuple_id v index) = literals_only v"
| "literals_only (ECall op args) =
     ((\<forall>a \<in> set args. literals_only a) \<and>
      (static_creation op \<longrightarrow> (\<forall>a \<in> set args. expr_nodes a = {})))"

text \<open>Every node of \<open>e\<close> has one type, and its name is bound to that type in \<open>E\<close>.\<close>

definition nodes_bound ::
    "'f checker \<Rightarrow> type_env \<Rightarrow> (nat \<Rightarrow> string option) \<Rightarrow> type_env \<Rightarrow> expr \<Rightarrow> bool" where
  "nodes_bound C E0 names E e \<longleftrightarrow>
     (\<forall>i v. (i, v) \<in> expr_nodes e \<longrightarrow>
        (\<exists>name t. names i = Some name \<and> has_types C E0 v [t] \<and> env_lookup E name = Some t))"

lemma rewrite_node_free:
  "expr_nodes e = {} \<Longrightarrow> rewrite_node_refs names e = Inr e"
  "(\<forall>e \<in> set es. expr_nodes e = {}) \<Longrightarrow> rewrite_all names es = Inr es"
  by (induction names e and names es rule: rewrite_node_refs_rewrite_all.induct) auto

lemma rewrite_typed:
  "has_types C E0 e tys \<Longrightarrow> literals_only e \<Longrightarrow> nodes_bound C E0 names E e \<Longrightarrow>
     env_lookup E0 \<subseteq>\<^sub>m env_lookup E \<Longrightarrow>
     \<exists>e'. rewrite_node_refs names e = Inr e' \<and> has_types C E e' tys \<and> expr_nodes e' = {}"
  "list_all2 (\<lambda>e t. has_types C E0 e [t]) es tys \<Longrightarrow> (\<forall>e \<in> set es. literals_only e) \<Longrightarrow>
     (\<forall>e \<in> set es. nodes_bound C E0 names E e) \<Longrightarrow> env_lookup E0 \<subseteq>\<^sub>m env_lookup E \<Longrightarrow>
     \<exists>es'. rewrite_all names es = Inr es' \<and> list_all2 (\<lambda>e t. has_types C E e [t]) es' tys \<and>
        (\<forall>e \<in> set es'. expr_nodes e = {})"
proof (induction names e and names es arbitrary: tys and tys rule: rewrite_node_refs_rewrite_all.induct)
  case (1 names uop v)
  then obtain t where "has_types C E0 v [t]" "is_numeric (elem t)" "tys = [t]"
    by (auto simp: has_types_Unary_iff)
  with 1 show ?case by (fastforce simp: nodes_bound_def has_types_Unary_iff)
next
  case (2 names bop l r)
  from "2.prems"(1) obtain lt rt t where ty: "has_types C E0 l [lt]" "has_types C E0 r [rt]"
      "binary_result_type lt rt = Inr t" "tys = [t]"
    by (auto simp: has_types_Binary_iff)
  have nb: "nodes_bound C E0 names E l" "nodes_bound C E0 names E r"
    using "2.prems"(3) by (auto simp: nodes_bound_def)
  obtain l' where l: "rewrite_node_refs names l = Inr l'" "has_types C E l' [lt]" "expr_nodes l' = {}"
    using "2.IH"(1) [OF ty(1) _ nb(1)] "2.prems" by auto
  then obtain r' where "rewrite_node_refs names r = Inr r'" "has_types C E r' [rt]" "expr_nodes r' = {}"
    using "2.IH"(2) [OF l(1) ty(2) _ nb(2)] "2.prems" by auto
  with l ty show ?case by (auto simp: has_types_Binary_iff)
next
  case (3 names i v)
  then obtain name t where n: "names i = Some name" "has_types C E0 v [t]" "env_lookup E name = Some t"
    unfolding nodes_bound_def by (metis expr_nodes.simps(5) insertI1)
  then have "tys = [t]" using "3.prems"(1) by (auto dest: has_types_unique)
  with n show ?case by simp
next
  case (4 names tuple_id v index)
  then obtain outs where "has_types C E0 v outs" "index < length outs" "tys = [outs ! index]"
    by (auto simp: has_types_TupleGet_iff)
  with 4 show ?case by (fastforce simp: nodes_bound_def has_types_TupleGet_iff)
next
  case (5 names op args)
  have nb: "\<forall>a \<in> set args. nodes_bound C E0 names E a"
    using "5.prems"(3) unfolding nodes_bound_def expr_nodes.simps by blast
  have lit: "\<forall>a \<in> set args. literals_only a" using "5.prems"(2) by simp
  show ?case
  proof (cases "graph_callee op")
    case None
    then obtain ts where valid: "validate_static_creation_call (ck_ops C) op args = Inr ()"
      and ts: "list_all2 (\<lambda>a t. has_types C E0 a [t]) args ts" "infer_call_results op ts = Inr tys"
      using "5.prems"(1) by (auto simp: has_types_Call_iff)
    obtain args' where a: "rewrite_all names args = Inr args'"
        "list_all2 (\<lambda>e t. has_types C E e [t]) args' ts" "\<forall>a \<in> set args'. expr_nodes a = {}"
      using "5.IH" [OF ts(1) lit nb "5.prems"(4)] by blast
    have "validate_static_creation_call (ck_ops C) op args' = Inr ()"
    proof (cases "static_creation op")
      case True
      then have "args' = args" using a(1) rewrite_node_free(2) [of args names] "5.prems"(2) by simp
      with valid show ?thesis by simp
    qed (rule not_static_creation)
    with a ts None show ?thesis by (auto simp: has_types_Call_iff)
  next
    case (Some name)
    then have op: "op = OpGraph name" by (simp add: graph_callee_Some)
    with "5.prems"(1) obtain sig where sig: "name \<noteq> ck_current C"
        "find_signature (ck_signatures C) name = Some sig"
        "list_all2 (\<lambda>a t. has_types C E0 a [t]) args (sig_inputs sig)" "tys = sig_outputs sig"
      by (auto simp: has_types_Graph_iff)
    obtain args' where "rewrite_all names args = Inr args'"
        "list_all2 (\<lambda>e t. has_types C E e [t]) args' (sig_inputs sig)"
        "\<forall>a \<in> set args'. expr_nodes a = {}"
      using "5.IH" [OF sig(3) lit nb "5.prems"(4)] by blast
    with sig op show ?thesis by (auto simp: has_types_Graph_iff)
  qed
next
  case (9 names e es)
  then obtain t ts where ty: "has_types C E0 e [t]" "tys = t # ts"
      "list_all2 (\<lambda>e t. has_types C E0 e [t]) es ts"
    by (auto simp: list_all2_Cons1)
  obtain e' where e: "rewrite_node_refs names e = Inr e'" "has_types C E e' [t]" "expr_nodes e' = {}"
    using "9.IH"(1) [OF ty(1)] "9.prems" by auto
  then obtain es' where "rewrite_all names es = Inr es'"
      "list_all2 (\<lambda>e t. has_types C E e [t]) es' ts" "\<forall>e \<in> set es'. expr_nodes e = {}"
    using "9.IH"(2) [OF e(1) ty(3)] "9.prems" by auto
  with e ty show ?case by auto
qed (auto simp: map_le_def dom_def)

section \<open>The pass\<close>

lemma literals_only_payload: "(i, v) \<in> expr_nodes e \<Longrightarrow> literals_only e \<Longrightarrow> literals_only v"
  by (induction e) auto

lemma has_types_push_fresh:
  "env_lookup E0 \<subseteq>\<^sub>m env_lookup E \<Longrightarrow> fst ` set E0 \<subseteq> set reserved \<Longrightarrow> name \<notin> set reserved \<Longrightarrow>
     env_lookup E0 \<subseteq>\<^sub>m env_lookup (push_bindings E [name] [t])"
proof -
  assume H: "env_lookup E0 \<subseteq>\<^sub>m env_lookup E" "fst ` set E0 \<subseteq> set reserved" "name \<notin> set reserved"
  then have "name \<notin> dom (env_lookup E0)" by (auto simp: dom_env_lookup)
  with H(1) show ?thesis
    by (auto simp: push_bindings_def env_lookup_append map_le_def env_lookup_def map_add_def dom_def)
qed

lemma env_lookup_push_one:
  "env_lookup (push_bindings E [name] [t]) x = (if x = name then Some t else env_lookup E x)"
  by (simp add: push_bindings_def env_lookup_append map_add_def) (simp add: env_lookup_def)

text \<open>
  What is known before the nodes after position \<open>k\<close> are bound: the earlier ones have their types.
\<close>

definition bound_upto ::
    "'f checker \<Rightarrow> type_env \<Rightarrow> node_values \<Rightarrow> (nat \<Rightarrow> string option) \<Rightarrow> nat list \<Rightarrow> type_env \<Rightarrow> bool" where
  "bound_upto C E0 vals names dn E \<longleftrightarrow>
     env_lookup E0 \<subseteq>\<^sub>m env_lookup E \<and>
     (\<forall>i \<in> set dn. \<exists>name v t. names i = Some name \<and> vals i = Some v \<and>
        has_types C E0 v [t] \<and> env_lookup E name = Some t)"

lemma bind_nodes_typed:
  assumes order: "collected N (vals, dn @ todo)" and N: "consistent N"
    and names: "\<And>i. i \<in> set (dn @ todo) \<Longrightarrow> \<exists>n. names i = Some n \<and> n \<notin> set reserved"
    and inj: "\<And>i j. i \<in> set (dn @ todo) \<Longrightarrow> j \<in> set (dn @ todo) \<Longrightarrow> names i = names j \<Longrightarrow> i = j"
    and single: "\<And>i v. (i, v) \<in> N \<Longrightarrow> (\<exists>t. has_types C E0 v [t]) \<and> literals_only v \<and> expr_nodes v \<subseteq> N"
    and res: "fst ` set E0 \<subseteq> set reserved"
    and before: "bound_upto C E0 vals names dn E"
  shows "\<exists>lets tlets E'. rmap (bind_node names vals) todo = Inr lets \<and> wt_lets C E lets tlets E' \<and>
           bound_upto C E0 vals names (dn @ todo) E' \<and>
           let_bound lets = map (\<lambda>i. the (names i)) todo \<and> let_nodes lets = {}"
  using order before names inj
proof (induction todo arbitrary: dn E)
  case Nil
  then show ?case by (auto intro: WNil)
next
  case (Cons i todo)
  note c = collectedD [OF Cons.prems(1)]
  obtain v where v: "vals i = Some v" using c(2) by fastforce
  then have iv: "(i, v) \<in> N" by (rule c(3))
  with single obtain t where t: "has_types C E0 v [t]" "literals_only v" "expr_nodes v \<subseteq> N" by blast
  obtain name where name: "names i = Some name" "name \<notin> set reserved" using Cons.prems(3) by fastforce
  have sub: "env_lookup E0 \<subseteq>\<^sub>m env_lookup E" using Cons.prems(2) by (simp add: bound_upto_def)
  have "(dn @ i # todo) ! length dn = i" by simp
  then have ids: "fst ` expr_nodes v \<subseteq> set dn" using c(4) [of "length dn" v] v by simp
  have "nodes_bound C E0 names E v"
    unfolding nodes_bound_def
  proof (intro allI impI)
    fix j w assume j: "(j, w) \<in> expr_nodes v"
    then have "j \<in> set dn" using ids by force
    then obtain n u s where u: "names j = Some n" "vals j = Some u" "has_types C E0 u [s]"
        "env_lookup E n = Some s"
      using Cons.prems(2) unfolding bound_upto_def by blast
    have "u = w" using c(3) [OF u(2)] j t(3) N unfolding consistent_def by blast
    with u show "\<exists>name t. names j = Some name \<and> has_types C E0 w [t] \<and> env_lookup E name = Some t"
      by blast
  qed
  then obtain v' where v': "rewrite_node_refs names v = Inr v'" "has_types C E v' [t]" "expr_nodes v' = {}"
    using rewrite_typed(1) [OF t(1,2) _ sub] by blast
  let ?E = "push_bindings E [name] [t]"
  have before': "bound_upto C E0 vals names (dn @ [i]) ?E"
    unfolding bound_upto_def
  proof (intro conjI ballI)
    show "env_lookup E0 \<subseteq>\<^sub>m env_lookup ?E" using sub res name(2) by (rule has_types_push_fresh)
    fix j assume j: "j \<in> set (dn @ [i])"
    show "\<exists>n u s. names j = Some n \<and> vals j = Some u \<and> has_types C E0 u [s] \<and> env_lookup ?E n = Some s"
    proof (cases "j = i")
      case True
      with name v t show ?thesis by (auto simp: env_lookup_push_one)
    next
      case False
      with j obtain n u s where u: "names j = Some n" "vals j = Some u" "has_types C E0 u [s]"
          "env_lookup E n = Some s"
        using Cons.prems(2) unfolding bound_upto_def by auto
      have "n \<noteq> name" using Cons.prems(4) [of j i] j False u(1) name(1) by auto
      with u show ?thesis by (simp add: env_lookup_push_one)
    qed
  qed
  have coll': "collected N (vals, (dn @ [i]) @ todo)" using Cons.prems(1) by simp
  have names': "\<exists>n. names j = Some n \<and> n \<notin> set reserved" if "j \<in> set ((dn @ [i]) @ todo)" for j
    using Cons.prems(3) [of j] that by simp
  have inj': "j = k"
    if "j \<in> set ((dn @ [i]) @ todo)" "k \<in> set ((dn @ [i]) @ todo)" "names j = names k" for j k
    using Cons.prems(4) [of j k] that by simp
  obtain lets tlets E' where rest: "rmap (bind_node names vals) todo = Inr lets"
      "wt_lets C ?E lets tlets E'" "bound_upto C E0 vals names ((dn @ [i]) @ todo) E'"
      "let_bound lets = map (\<lambda>i. the (names i)) todo" "let_nodes lets = {}"
    using Cons.IH [OF coll' before' names' inj'] by blast
  let ?b = "\<lparr>let_names = [name], let_value = v'\<rparr>"
  have "bind_node names vals i = Inr ?b" using name v v' by (simp add: bind_node_def)
  then have "rmap (bind_node names vals) (i # todo) = Inr (?b # lets)" using rest(1) by simp
  moreover have "wt_lets C E (?b # lets)
      (\<lparr>tlet_names = [name], tlet_value = \<lparr>value_kind = v', value_tys = [t]\<rparr>\<rparr> # tlets) E'"
    using WCons [of C E ?b "[t]" lets tlets E'] v'(2) rest(2) by simp
  moreover have "bound_upto C E0 vals names (dn @ i # todo) E'" using rest(3) by simp
  moreover have "let_bound (?b # lets) = map (\<lambda>i. the (names i)) (i # todo)" using rest(4) name(1) by simp
  moreover have "let_nodes (?b # lets) = {}" using rest(5) v'(3) by simp
  ultimately show ?case by blast
qed

lemma let_bind_nodes_typed:
  assumes types: "list_all2 (\<lambda>e t. has_types C E0 e [t]) body tys"
    and N: "consistent (all_nodes body)"
    and single: "\<And>i v. (i, v) \<in> all_nodes body \<Longrightarrow> \<exists>t. has_types C E0 v [t]"
    and lit: "\<And>e. e \<in> set body \<Longrightarrow> literals_only e"
    and res: "fst ` set E0 \<subseteq> set reserved"
  shows "\<exists>lets body' tlets E. let_bind_nodes body reserved = Inr (lets, body') \<and>
           wt_lets C E0 lets tlets E \<and> list_all2 (\<lambda>e t. has_types C E e [t]) body' tys \<and>
           distinct (let_bound lets) \<and> set (let_bound lets) \<inter> set reserved = {} \<and>
           let_nodes lets = {} \<and> all_nodes body' = {}"
proof -
  let ?N = "all_nodes body"
  obtain s where s: "collect_all body (Map.empty, []) = Inr s" "collected ?N s"
      "extends ?N (Map.empty, []) s"
    using collect_complete(2) [OF N subset_refl collected_empty] by blast
  obtain vals order where s': "s = (vals, order)" by (cases s)
  note c = collectedD [OF s(2) [unfolded s']]
  define names where "names = assign_names order reserved Map.empty"
  have names: "\<exists>n. names i = Some n \<and> n \<notin> set reserved" if "i \<in> set ([] @ order)" for i
    using assign_names_fresh c(1) that by (simp add: names_def)
  have inj: "i = j" if "i \<in> set ([] @ order)" "j \<in> set ([] @ order)" "names i = names j" for i j
    using assign_names_distinct [OF c(1)] that by (simp add: names_def)
  have nodes: "(\<exists>t. has_types C E0 v [t]) \<and> literals_only v \<and> expr_nodes v \<subseteq> ?N"
    if iv: "(i, v) \<in> ?N" for i v
  proof -
    obtain e where e: "e \<in> set body" "(i, v) \<in> expr_nodes e" using iv unfolding all_nodes_def by blast
    then show ?thesis
      using single [OF iv] literals_only_payload [OF e(2) lit] expr_nodes_closed [OF e(2)]
      by (auto simp: all_nodes_def)
  qed
  have start: "bound_upto C E0 vals names [] E0" by (simp add: bound_upto_def)
  have coll: "collected ?N (vals, [] @ order)" using s(2) s' by simp
  have "\<exists>lets tlets E. rmap (bind_node names vals) order = Inr lets \<and> wt_lets C E0 lets tlets E \<and>
      bound_upto C E0 vals names ([] @ order) E \<and>
      let_bound lets = map (\<lambda>i. the (names i)) order \<and> let_nodes lets = {}"
  proof (rule bind_nodes_typed [OF coll N _ _ _ res start])
    show "\<exists>n. names i = Some n \<and> n \<notin> set reserved" if "i \<in> set ([] @ order)" for i
      using that by (rule names)
    show "i = j" if "i \<in> set ([] @ order)" "j \<in> set ([] @ order)" "names i = names j" for i j
      using that by (rule inj)
    show "(\<exists>t. has_types C E0 v [t]) \<and> literals_only v \<and> expr_nodes v \<subseteq> ?N"
      if "(i, v) \<in> ?N" for i v using that by (rule nodes)
  qed
  then obtain lets tlets E where lets: "rmap (bind_node names vals) order = Inr lets"
      "wt_lets C E0 lets tlets E" "bound_upto C E0 vals names ([] @ order) E"
      "let_bound lets = map (\<lambda>i. the (names i)) order" "let_nodes lets = {}"
    by blast
  have sub: "env_lookup E0 \<subseteq>\<^sub>m env_lookup E" using lets(3) by (simp add: bound_upto_def)
  have "nodes_bound C E0 names E e" if "e \<in> set body" for e
    unfolding nodes_bound_def
  proof (intro allI impI)
    fix i v assume "(i, v) \<in> expr_nodes e"
    then have iv: "(i, v) \<in> ?N" using that by (auto simp: all_nodes_def)
    then have v: "vals i = Some v" using s(3) s' by (simp add: extends_def)
    then have "i \<in> set order" using c(2) by auto
    with v show "\<exists>name t. names i = Some name \<and> has_types C E0 v [t] \<and> env_lookup E name = Some t"
      using lets(3) unfolding bound_upto_def append_Nil by (metis option.inject)
  qed
  then obtain body' where body': "rewrite_all names body = Inr body'"
      "list_all2 (\<lambda>e t. has_types C E e [t]) body' tys" "\<forall>e \<in> set body'. expr_nodes e = {}"
    using rewrite_typed(2) [OF types _ _ sub] lit by blast
  have "rewrite_all names es = rmap (rewrite_node_refs names) es" for es by (induction es) auto
  then have "let_bind_nodes body reserved = Inr (lets, body')"
    using s(1) s' lets(1) body'(1) by (simp add: let_bind_nodes_def names_def Let_def)
  moreover have "distinct (let_bound lets)"
    unfolding lets(4) distinct_map
  proof (intro conjI inj_onI)
    fix i j assume ij: "i \<in> set order" "j \<in> set order" "the (names i) = the (names j)"
    obtain a b where "names i = Some a" "names j = Some b"
      using names [of i] names [of j] ij(1,2) by auto
    then show "i = j" using ij inj [of i j] by simp
  qed (rule c(1))
  moreover have "set (let_bound lets) \<inter> set reserved = {}"
  proof -
    have "the (names i) \<notin> set reserved" if "i \<in> set order" for i using names [of i] that by auto
    then show ?thesis unfolding lets(4) by auto
  qed
  moreover have "all_nodes body' = {}" using body'(3) by (auto simp: all_nodes_def)
  ultimately show ?thesis using lets(2,5) body'(2) by (intro exI conjI)
qed

end
