(* ===== verification/Normalize_Properties.thy ===== *)
theory Normalize_Properties
  imports Normalize_Correct
begin

text \<open>The properties of the let-binding pass, each with a concrete body.\<close>

text \<open>
  What the let-binding pass computes: the abstract specification of a traced body is the body with
  the sharing erased, and substituting the bindings back into the rewritten body gives exactly that.
\<close>

section \<open>The abstraction\<close>

text \<open>The expression without the node wrappers: every shared node written out.\<close>

fun erase :: "expr \<Rightarrow> expr" where
  "erase (EVar name) = EVar name"
| "erase (EConst v e) = EConst v e"
| "erase (EUnary uop v) = EUnary uop (erase v)"
| "erase (EBinary bop l r) = EBinary bop (erase l) (erase r)"
| "erase (ENode node_id v) = erase v"
| "erase (ETupleGet tuple_id v index) = ETupleGet tuple_id (erase v) index"
| "erase (ECall op args) = ECall op (map erase args)"

text \<open>Substitution for names, and the substitution that a list of single bindings stands for.\<close>

fun subst :: "(string \<Rightarrow> expr option) \<Rightarrow> expr \<Rightarrow> expr" where
  "subst s (EVar name) = (case s name of Some v \<Rightarrow> v | None \<Rightarrow> EVar name)"
| "subst s (EConst v e) = EConst v e"
| "subst s (EUnary uop v) = EUnary uop (subst s v)"
| "subst s (EBinary bop l r) = EBinary bop (subst s l) (subst s r)"
| "subst s (ENode node_id v) = ENode node_id (subst s v)"
| "subst s (ETupleGet tuple_id v index) = ETupleGet tuple_id (subst s v) index"
| "subst s (ECall op args) = ECall op (map (subst s) args)"

fun expand_lets :: "let_binding list \<Rightarrow> (string \<Rightarrow> expr option) \<Rightarrow> (string \<Rightarrow> expr option)" where
  "expand_lets [] s = s"
| "expand_lets (b # bs) s = expand_lets bs (s(hd (let_names b) \<mapsto> subst s (let_value b)))"

fun expr_vars :: "expr \<Rightarrow> string set" where
  "expr_vars (EVar name) = {name}"
| "expr_vars (EConst v e) = {}"
| "expr_vars (EUnary uop v) = expr_vars v"
| "expr_vars (EBinary bop l r) = expr_vars l \<union> expr_vars r"
| "expr_vars (ENode node_id v) = expr_vars v"
| "expr_vars (ETupleGet tuple_id v index) = expr_vars v"
| "expr_vars (ECall op args) = (\<Union>a \<in> set args. expr_vars a)"

lemma payload_vars: "(i, v) \<in> expr_nodes e \<Longrightarrow> expr_vars v \<subseteq> expr_vars e"
  by (induction e) auto

section \<open>Rewriting\<close>

text \<open>The nodes of \<open>e\<close> are bound to their erased payloads, and \<open>s\<close> leaves the names of \<open>e\<close> alone.\<close>

definition stands_for ::
    "(nat \<Rightarrow> string option) \<Rightarrow> (string \<Rightarrow> expr option) \<Rightarrow> expr \<Rightarrow> bool" where
  "stands_for names s e \<longleftrightarrow>
     (\<forall>i v. (i, v) \<in> expr_nodes e \<longrightarrow> (\<exists>name. names i = Some name \<and> s name = Some (erase v))) \<and>
     (\<forall>x \<in> expr_vars e. s x = None)"

lemma stands_for_simps [simp]:
  "stands_for names s (EVar name) \<longleftrightarrow> s name = None"
  "stands_for names s (EConst lit el) \<longleftrightarrow> True"
  "stands_for names s (EUnary uop e) \<longleftrightarrow> stands_for names s e"
  "stands_for names s (EBinary bop l r) \<longleftrightarrow> stands_for names s l \<and> stands_for names s r"
  "stands_for names s (ETupleGet tuple_id e index) \<longleftrightarrow> stands_for names s e"
  "stands_for names s (ECall op args) \<longleftrightarrow> (\<forall>a \<in> set args. stands_for names s a)"
  by (auto simp: stands_for_def)

lemma stands_for_Node:
  "stands_for names s (ENode i e) \<Longrightarrow> \<exists>name. names i = Some name \<and> s name = Some (erase e)"
  by (auto simp: stands_for_def)

lemma rewrite_erase:
  "stands_for names s e \<Longrightarrow> \<exists>e'. rewrite_node_refs names e = Inr e' \<and> subst s e' = erase e"
  "(\<forall>e \<in> set es. stands_for names s e) \<Longrightarrow>
     \<exists>es'. rewrite_all names es = Inr es' \<and> map (subst s) es' = map erase es"
  by (induction names e and names es rule: rewrite_node_refs_rewrite_all.induct)
    (fastforce dest: stands_for_Node)+

section \<open>The pass\<close>

lemma bind_nodes_erase:
  assumes order: "collected N (vals, dn @ todo)" and N: "consistent N" "\<And>i v. (i, v) \<in> N \<Longrightarrow> expr_nodes v \<subseteq> N"
    and names: "\<And>i. i \<in> set (dn @ todo) \<Longrightarrow> \<exists>n. names i = Some n \<and> n \<notin> set reserved"
    and inj: "\<And>i j. i \<in> set (dn @ todo) \<Longrightarrow> j \<in> set (dn @ todo) \<Longrightarrow> names i = names j \<Longrightarrow> i = j"
    and vars: "\<And>i v. (i, v) \<in> N \<Longrightarrow> expr_vars v \<subseteq> set reserved"
    and before: "\<And>x. x \<in> set reserved \<Longrightarrow> s x = None"
      "\<And>i. i \<in> set dn \<Longrightarrow> \<exists>n v. names i = Some n \<and> vals i = Some v \<and> s n = Some (erase v)"
  shows "\<exists>lets. rmap (bind_node names vals) todo = Inr lets \<and>
    (\<forall>x \<in> set reserved. expand_lets lets s x = None) \<and>
    (\<forall>i \<in> set (dn @ todo). \<exists>n v. names i = Some n \<and> vals i = Some v \<and> expand_lets lets s n = Some (erase v))"
  using order names inj before
proof (induction todo arbitrary: dn s)
  case Nil
  then show ?case by auto
next
  case (Cons i todo)
  note c = collectedD [OF Cons.prems(1)]
  obtain v where v: "vals i = Some v" using c(2) by fastforce
  then have iv: "(i, v) \<in> N" by (rule c(3))
  obtain name where name: "names i = Some name" "name \<notin> set reserved" using Cons.prems(2) by fastforce
  have "(dn @ i # todo) ! length dn = i" by simp
  then have ids: "fst ` expr_nodes v \<subseteq> set dn" using c(4) [of "length dn" v] v by simp
  have "stands_for names s v"
    unfolding stands_for_def
  proof (intro conjI allI impI ballI)
    fix j w assume j: "(j, w) \<in> expr_nodes v"
    then have "j \<in> set dn" using ids by force
    then obtain n u where u: "names j = Some n" "vals j = Some u" "s n = Some (erase u)"
      using Cons.prems(5) by blast
    have "(j, u) \<in> N" "(j, w) \<in> N" using c(3) [OF u(2)] j N(2) [OF iv] by auto
    then have "u = w" using N(1) unfolding consistent_def by blast
    with u show "\<exists>n. names j = Some n \<and> s n = Some (erase w)" by blast
  qed (use vars [OF iv] Cons.prems(4) in blast)
  then obtain v' where v': "rewrite_node_refs names v = Inr v'" "subst s v' = erase v"
    using rewrite_erase(1) by blast
  let ?s = "s(name \<mapsto> erase v)"
  have res: "?s x = None" if "x \<in> set reserved" for x using that name(2) Cons.prems(4) by auto
  have dn: "\<exists>n v. names j = Some n \<and> vals j = Some v \<and> ?s n = Some (erase v)" if "j \<in> set (dn @ [i])" for j
  proof (cases "j = i")
    case True
    with name v show ?thesis by auto
  next
    case False
    with that obtain n u where u: "names j = Some n" "vals j = Some u" "s n = Some (erase u)"
      using Cons.prems(5) [of j] by auto
    have "n \<noteq> name" using Cons.prems(3) [of j i] that False u(1) name(1) by auto
    with u show ?thesis by auto
  qed
  have coll: "collected N (vals, (dn @ [i]) @ todo)" using Cons.prems(1) by simp
  have names': "\<exists>n. names j = Some n \<and> n \<notin> set reserved" if "j \<in> set ((dn @ [i]) @ todo)" for j
    using Cons.prems(2) [of j] that by simp
  have inj': "j = k"
    if "j \<in> set ((dn @ [i]) @ todo)" "k \<in> set ((dn @ [i]) @ todo)" "names j = names k" for j k
    using Cons.prems(3) [of j k] that by simp
  from Cons.IH [OF coll names' inj' res dn] obtain lets where lets: "rmap (bind_node names vals) todo = Inr lets"
      "\<forall>x \<in> set reserved. expand_lets lets ?s x = None"
      "\<forall>i \<in> set ((dn @ [i]) @ todo). \<exists>n v. names i = Some n \<and> vals i = Some v \<and> expand_lets lets ?s n = Some (erase v)"
    by blast
  have "bind_node names vals i = Inr \<lparr>let_names = [name], let_value = v'\<rparr>"
    using name v v' by (simp add: bind_node_def)
  then have "rmap (bind_node names vals) (i # todo) = Inr (\<lparr>let_names = [name], let_value = v'\<rparr> # lets)"
    using lets(1) by simp
  with lets(2,3) v'(2) show ?case by auto
qed

lemma let_bind_nodes_erase:
  assumes N: "consistent (all_nodes body)" and vars: "\<forall>e \<in> set body. expr_vars e \<subseteq> set reserved"
  shows "\<exists>lets body'. let_bind_nodes body reserved = Inr (lets, body') \<and>
    map (subst (expand_lets lets Map.empty)) body' = map erase body"
proof -
  let ?N = "all_nodes body"
  obtain vals order where s: "collect_all body (Map.empty, []) = Inr (vals, order)" "collected ?N (vals, order)"
      "extends ?N (Map.empty, []) (vals, order)"
    using collect_complete(2) [OF N subset_refl collected_empty] by fastforce
  note c = collectedD [OF s(2)]
  define names where "names = assign_names order reserved Map.empty"
  have names: "\<exists>n. names i = Some n \<and> n \<notin> set reserved" if "i \<in> set ([] @ order)" for i
    using assign_names_fresh c(1) that by (simp add: names_def)
  have inj: "i = j" if "i \<in> set ([] @ order)" "j \<in> set ([] @ order)" "names i = names j" for i j
    using assign_names_distinct [OF c(1)] that by (simp add: names_def)
  have closed: "expr_nodes v \<subseteq> ?N" and payload: "expr_vars v \<subseteq> set reserved" if iv: "(i, v) \<in> ?N" for i v
  proof -
    obtain e where e: "e \<in> set body" "(i, v) \<in> expr_nodes e" using iv unfolding all_nodes_def by blast
    then show "expr_nodes v \<subseteq> ?N" using expr_nodes_closed [OF e(2)] by (auto simp: all_nodes_def)
    show "expr_vars v \<subseteq> set reserved" using payload_vars [OF e(2)] vars e(1) by blast
  qed
  have coll: "collected ?N (vals, [] @ order)" using s(2) by simp
  have "\<exists>lets. rmap (bind_node names vals) order = Inr lets \<and>
      (\<forall>x \<in> set reserved. expand_lets lets Map.empty x = None) \<and>
      (\<forall>i \<in> set ([] @ order). \<exists>n v. names i = Some n \<and> vals i = Some v \<and>
         expand_lets lets Map.empty n = Some (erase v))"
    by (rule bind_nodes_erase [OF coll N closed names inj payload]) (simp_all only: empty_iff list.set)
  then obtain lets where lets: "rmap (bind_node names vals) order = Inr lets"
      "\<forall>x \<in> set reserved. expand_lets lets Map.empty x = None"
      "\<forall>i \<in> set order. \<exists>n v. names i = Some n \<and> vals i = Some v \<and> expand_lets lets Map.empty n = Some (erase v)"
    unfolding append_Nil by blast
  have "stands_for names (expand_lets lets Map.empty) e" if e: "e \<in> set body" for e
    unfolding stands_for_def
  proof (intro conjI allI impI ballI)
    fix i v assume "(i, v) \<in> expr_nodes e"
    then have "(i, v) \<in> ?N" using e by (auto simp: all_nodes_def)
    then have v: "vals i = Some v" using s(3) by (simp add: extends_def)
    then have "i \<in> set order" using c(2) by auto
    with lets(3) v show "\<exists>n. names i = Some n \<and> expand_lets lets Map.empty n = Some (erase v)" by fastforce
  qed (use vars lets(2) e in blast)
  then obtain body' where body': "rewrite_all names body = Inr body'"
      "map (subst (expand_lets lets Map.empty)) body' = map erase body"
    using rewrite_erase(2) by blast
  have "rewrite_all names es = rmap (rewrite_node_refs names) es" for es by (induction es) auto
  then have "let_bind_nodes body reserved = Inr (lets, body')"
    using s(1) lets(1) body'(1) by (simp add: let_bind_nodes_def names_def Let_def)
  with body'(2) show ?thesis by blast
qed

section \<open>Properties\<close>

text \<open>C13. Let-binding refines the tracing of a body without sharing: on a body that uses its node ids
  consistently and whose names are reserved, the pass succeeds, and expanding its bindings in the
  rewritten body gives the traced body with every shared node written out.\<close>

theorem let_bind_preserves_meaning:
  assumes "consistent (all_nodes body)" and "\<forall>e \<in> set body. expr_vars e \<subseteq> set reserved"
  shows "\<exists>lets body'. let_bind_nodes body reserved = Inr (lets, body') \<and>
    map (subst (expand_lets lets Map.empty)) body' = map erase body"
  using assms by (rule let_bind_nodes_erase)

lemma let_bind_preserves_meaning_witness:
  "\<exists>lets body'. let_bind_nodes [EBinary Mul (ENode 4 (EVar ''x'')) (ENode 7 (EUnary Neg (ENode 4 (EVar ''x''))))] [''x'']
      = Inr (lets, body') \<and>
    map (subst (expand_lets lets Map.empty)) body' = [EBinary Mul (EVar ''x'') (EUnary Neg (EVar ''x''))]"
  using let_bind_preserves_meaning
    [of "[EBinary Mul (ENode 4 (EVar ''x'')) (ENode 7 (EUnary Neg (ENode 4 (EVar ''x''))))]" "[''x'']"]
  by (simp add: all_nodes_def consistent_def)

text \<open>C10. Let-binding a traced body preserves its types.  If the node ids are used consistently, each
  node has one type, and the literals of static creations contain no node, the pass succeeds; its
  bindings are well typed in order, bind distinct names outside the reserved ones, contain no node,
  and the rewritten body has the types of the traced body.\<close>

theorem let_bind_preserves_types:
  assumes "list_all2 (\<lambda>e t. has_types C E0 e [t]) body tys"
    and "consistent (all_nodes body)"
    and "\<forall>(i, v) \<in> all_nodes body. \<exists>t. has_types C E0 v [t]"
    and "\<forall>e \<in> set body. literals_only e"
    and "fst ` set E0 \<subseteq> set reserved"
  shows "\<exists>lets body' tlets E. let_bind_nodes body reserved = Inr (lets, body') \<and>
           wt_lets C E0 lets tlets E \<and> list_all2 (\<lambda>e t. has_types C E e [t]) body' tys \<and>
           distinct (let_bound lets) \<and> set (let_bound lets) \<inter> set reserved = {} \<and>
           let_nodes lets = {} \<and> all_nodes body' = {}"
  by (rule let_bind_nodes_typed) (use assms in auto)

abbreviation demo_checker :: "int checker" where
  "demo_checker \<equiv> \<lparr>ck_ops = exact_ops, ck_signatures = [], ck_current = ''f''\<rparr>"

lemma let_bind_preserves_types_witness:
  "\<exists>lets body' tlets E.
     let_bind_nodes [EBinary Mul (ENode 4 (EVar ''x'')) (ENode 4 (EVar ''x''))] [''x''] = Inr (lets, body') \<and>
     wt_lets demo_checker [(''x'', tensor F32 [2])] lets tlets E \<and>
     list_all2 (\<lambda>e t. has_types demo_checker E e [t]) body' [tensor F32 [2]] \<and>
     distinct (let_bound lets) \<and> set (let_bound lets) \<inter> set [''x''] = {} \<and>
     let_nodes lets = {} \<and> all_nodes body' = {}"
proof (rule let_bind_preserves_types)
  show "list_all2 (\<lambda>e t. has_types demo_checker [(''x'', tensor F32 [2])] e [t])
      [EBinary Mul (ENode 4 (EVar ''x'')) (ENode 4 (EVar ''x''))] [tensor F32 [2]]"
    by (simp add: has_types_Binary_iff env_lookup_def binary_result_type_def guard_defs is_numeric_def
        broadcast_shape_def)
qed (simp_all add: all_nodes_def consistent_def env_lookup_def)

text \<open>Conflicting payloads are rejected: when two expressions of a body use one node id for
  different payloads, neither nested in the other, the pass reports the conflict.\<close>

theorem conflicting_payloads_rejected:
  assumes "v \<noteq> w" and "expr_nodes v = {}" and "expr_nodes w = {}"
  shows "let_bind_nodes [ENode i v, ENode i w] reserved = Inl (TraceError TraceNodeConflict)"
proof -
  have free: "collect_nodes e s = Inr s \<and> True" if "expr_nodes e = {}" for e s
    using that
  proof (induction e arbitrary: s)
    case (ECall op args)
    then have "collect_all args s = Inr s"
      by (induction args) auto
    then show ?case by simp
  qed auto
  show ?thesis using assms free by (simp add: let_bind_nodes_def)
qed

lemma conflicting_payloads_rejected_witness:
  "let_bind_nodes [ENode 1 (EConst ''1.0'' F32), ENode 1 (EConst ''2.0'' F32)] [] =
     Inl (TraceError TraceNodeConflict)"
  by (rule conflicting_payloads_rejected) simp_all


end
