(* ===== verification/Autograd_Common.thy ===== *)
theory Autograd_Common
  imports Type_Check Fresh_Names
begin

text \<open>
  \<^verbatim>\<open>crates/knok-core/src/autograd/mod.rs\<close>: the state of \<open>ValueAndGradBuilder\<close>, its binding and
  gradient accumulation methods, and the free functions that build gradient expressions.

  The borrowed graph and registry are arguments of the methods that read them.  The inline stack
  is an argument of the flattening functions (each push is bracketed by a pop), not a field.
  \<open>BTreeMap\<close>s are maps; the set of used names is a list.
\<close>

section \<open>State\<close>

record node =
  node_name :: string
  node_expr :: expr
  node_ty :: tensor_type

type_synonym type_map = "string \<Rightarrow> tensor_type option"

record ad_state =
  ad_used :: "string list"
  ad_env :: type_map
  ad_lets :: "let_binding list"
  ad_nodes :: "node list"
  ad_grads :: "string \<Rightarrow> expr option"
  ad_next :: nat
  ad_value_name :: string
  ad_inputs :: "input list"

section \<open>Expression builders\<close>

definition call :: "call_op \<Rightarrow> expr list \<Rightarrow> expr" where
  "call op args = ECall op args"

definition binary :: "binary_op \<Rightarrow> expr \<Rightarrow> expr \<Rightarrow> expr" where
  "binary op lhs rhs = EBinary op lhs rhs"

definition neg :: "expr \<Rightarrow> expr" where
  "neg value = EUnary Neg value"

definition scalar_const :: "string \<Rightarrow> element_type \<Rightarrow> expr" where
  "scalar_const value e = EConst value e"

definition zeros_like :: "expr \<Rightarrow> expr" where
  "zeros_like value = call OpZerosLike [value]"

definition ones_like :: "expr \<Rightarrow> expr" where
  "ones_like value = call OpOnesLike [value]"

definition mask_grad :: "expr \<Rightarrow> expr \<Rightarrow> expr" where
  "mask_grad condition grad = call OpWhere [condition, grad, zeros_like grad]"

lemmas builder_defs =
  call_def binary_def neg_def scalar_const_def zeros_like_def ones_like_def mask_grad_def

section \<open>Binding names\<close>

definition next_auto_name :: "ad_state \<Rightarrow> string \<times> ad_state" where
  "next_auto_name st =
     (let n = auto_index (ad_used st) (ad_next st); candidate = auto_name n
      in (candidate, st\<lparr>ad_used := candidate # ad_used st, ad_next := Suc n\<rparr>))"

definition bind_named :: "string \<Rightarrow> expr \<Rightarrow> tensor_type \<Rightarrow> ad_state \<Rightarrow> ad_state" where
  "bind_named name e ty st =
     st\<lparr>ad_lets := ad_lets st @ [\<lparr>let_names = [name], let_value = e\<rparr>],
        ad_env := (ad_env st)(name \<mapsto> ty)\<rparr>"

definition bind_auto :: "expr \<Rightarrow> tensor_type \<Rightarrow> ad_state \<Rightarrow> expr \<times> ad_state" where
  "bind_auto e ty st =
     (let (name, st') = next_auto_name st in (EVar name, bind_named name e ty st'))"

definition bind_forward_node :: "string \<Rightarrow> expr \<Rightarrow> tensor_type \<Rightarrow> ad_state \<Rightarrow> ad_state" where
  "bind_forward_node name e ty st =
     (let st' = bind_named name e ty st
      in st'\<lparr>ad_nodes := ad_nodes st' @ [\<lparr>node_name = name, node_expr = e, node_ty = ty\<rparr>]\<rparr>)"

definition bind_forward_auto :: "expr \<Rightarrow> tensor_type \<Rightarrow> ad_state \<Rightarrow> expr \<times> ad_state" where
  "bind_forward_auto e ty st =
     (let (name, st') = next_auto_name st in (EVar name, bind_forward_node name e ty st'))"

fun next_auto_names :: "nat \<Rightarrow> ad_state \<Rightarrow> string list \<times> ad_state" where
  "next_auto_names 0 st = ([], st)"
| "next_auto_names (Suc k) st =
     (let (name, st1) = next_auto_name st; (names, st2) = next_auto_names k st1
      in (name # names, st2))"

fun push_output_nodes ::
    "expr \<Rightarrow> (string \<times> tensor_type) list \<Rightarrow> ad_state \<Rightarrow> ad_state" where
  "push_output_nodes e [] st = st"
| "push_output_nodes e ((name, ty) # outs) st =
     push_output_nodes e outs
       (st\<lparr>ad_env := (ad_env st)(name \<mapsto> ty),
           ad_nodes := ad_nodes st @ [\<lparr>node_name = name, node_expr = e, node_ty = ty\<rparr>]\<rparr>)"

definition bind_forward_outputs_auto ::
    "expr \<Rightarrow> tensor_type list \<Rightarrow> ad_state \<Rightarrow> (expr \<times> tensor_type) list \<times> ad_state" where
  "bind_forward_outputs_auto e tys st =
     (let (names, st1) = next_auto_names (length tys) st;
          st2 = st1\<lparr>ad_lets := ad_lets st1 @ [\<lparr>let_names = names, let_value = e\<rparr>]\<rparr>
      in (zip (map EVar names) tys, push_output_nodes e (zip names tys) st2))"

section \<open>Types of flattened values and gradient accumulation\<close>

fun ref_ty :: "ad_state \<Rightarrow> expr \<Rightarrow> tensor_type result" where
  "ref_ty st (EVar name) = of_option (FlattenError AdUnknownValue) (ad_env st name)"
| "ref_ty st (EConst v e) = Inr (tensor e [])"
| "ref_ty st _ = Inl (ReverseError AdExpectedReference)"

definition add_grad :: "string \<Rightarrow> expr \<Rightarrow> ad_state \<Rightarrow> ad_state result" where
  "add_grad name grad st =
     rbind (of_option (ReverseError AdUnknownTarget) (ad_env st name)) (\<lambda>ty.
     if \<not> is_float (elem ty) then Inr st
     else
       let grad' = (case ad_grads st name of Some existing \<Rightarrow> binary Add existing grad | None \<Rightarrow> grad)
       in Inr (st\<lparr>ad_grads := (ad_grads st)(name \<mapsto> grad')\<rparr>))"

fun add_grad_to_expr :: "expr \<Rightarrow> expr \<Rightarrow> ad_state \<Rightarrow> ad_state result" where
  "add_grad_to_expr (EVar name) grad st = add_grad name grad st"
| "add_grad_to_expr (EConst v e) grad st = Inr st"
| "add_grad_to_expr _ grad st = Inl (ReverseError AdTargetNotFlat)"

definition add_reshape_grad_to_arg :: "expr \<Rightarrow> expr \<Rightarrow> ad_state \<Rightarrow> ad_state result" where
  "add_reshape_grad_to_arg arg grad st =
     rbind (ref_ty st arg) (\<lambda>in_ty.
     add_grad_to_expr arg (call (OpReshape in_ty) [grad]) st)"

definition gradient_output_for_input :: "input \<Rightarrow> ad_state \<Rightarrow> expr \<times> ad_state" where
  "gradient_output_for_input inp st =
     (let grad = (case ad_grads st (input_name inp) of
                    Some g \<Rightarrow> g | None \<Rightarrow> zeros_like (EVar (input_name inp)));
          st' = st\<lparr>ad_grads := (ad_grads st)(input_name inp := None)\<rparr>
      in bind_auto grad (input_ty inp) st')"

section \<open>Reductions and broadcasts\<close>

fun expand_reduction_grad ::
    "expr \<Rightarrow> tensor_type \<Rightarrow> tensor_type \<Rightarrow> axis_spec \<Rightarrow> expr result" where
  "expand_reduction_grad grad grad_ty in_ty AxisAll =
     Inr (if grad_ty = in_ty then grad else call (OpBroadcast in_ty) [grad])"
| "expand_reduction_grad grad grad_ty in_ty (AxisOne axis) =
     rbind (vec_insert axis 1 (shape grad_ty)) (\<lambda>s.
     let unsqueezed_ty = tensor (elem grad_ty) s;
         expanded = call (OpReshape unsqueezed_ty) [grad]
     in Inr (if unsqueezed_ty = in_ty then expanded
             else call (OpBroadcast in_ty) [expanded]))"

text \<open>The two loops of \<open>unbroadcast\<close>: leading axes are summed away, then singleton axes.\<close>

fun unbroadcast_leading :: "expr \<Rightarrow> nat list \<Rightarrow> nat \<Rightarrow> expr \<times> nat list" where
  "unbroadcast_leading e [] rk = (e, [])"
| "unbroadcast_leading e (d # s) rk =
     (if rk < length (d # s) then unbroadcast_leading (call (OpSum (AxisOne 0)) [e]) s rk
      else (e, d # s))"

fun unbroadcast_axes ::
    "nat list \<Rightarrow> nat list \<Rightarrow> element_type \<Rightarrow> expr \<Rightarrow> nat list \<Rightarrow> (expr \<times> nat list) result" where
  "unbroadcast_axes [] target el e s = Inr (e, s)"
| "unbroadcast_axes (axis # axes) target el e s =
     rbind (idx target axis) (\<lambda>t.
     rbind (if t = 1 then rbind (idx s axis) (\<lambda>d. Inr (d \<noteq> 1)) else Inr False) (\<lambda>collapse.
     if collapse then
       rbind (vec_remove axis s) (\<lambda>removed.
       rbind (vec_insert axis 1 removed) (\<lambda>s'.
       unbroadcast_axes axes target el
         (call (OpReshape (tensor el s')) [call (OpSum (AxisOne axis)) [e]]) s'))
     else unbroadcast_axes axes target el e s))"

definition unbroadcast :: "expr \<Rightarrow> tensor_type \<Rightarrow> tensor_type \<Rightarrow> expr result" where
  "unbroadcast e source_ty target_ty =
     (let (e1, s1) = unbroadcast_leading e (shape source_ty) (rank target_ty) in
      rbind (check (length s1 = rank target_ty) (ReverseError AdUnbroadcastRank)) (\<lambda>_.
      rbind (unbroadcast_axes [0..<rank target_ty] (shape target_ty) (elem source_ty) e1 s1) (\<lambda>(e2, s2).
      rbind (check (tensor (elem source_ty) s2 = target_ty) (ReverseError AdUnbroadcast)) (\<lambda>_.
      Inr e2))))"

definition elementwise_type :: "tensor_type \<Rightarrow> tensor_type \<Rightarrow> tensor_type result" where
  "elementwise_type lhs_ty rhs_ty =
     rbind (check (elem lhs_ty = elem rhs_ty) (FlattenError AdElementwiseElement)) (\<lambda>_.
     rbind (map_err (\<lambda>_. FlattenError AdElementwiseShapes)
              (broadcast_shape_slices (shape lhs_ty) (shape rhs_ty))) (\<lambda>s.
     Inr (tensor (elem lhs_ty) s)))"

definition call_stops_gradient :: "call_op \<Rightarrow> tensor_type \<Rightarrow> bool" where
  "call_stops_gradient op output_ty \<longleftrightarrow>
     \<not> is_float (elem output_ty) \<or>
     (case op of
        OpDetach \<Rightarrow> True | OpCeil \<Rightarrow> True | OpFloor \<Rightarrow> True | OpRint \<Rightarrow> True | OpRound \<Rightarrow> True
      | OpAll a \<Rightarrow> True | OpAny a \<Rightarrow> True | OpArgmax a \<Rightarrow> True | OpArgmin a \<Rightarrow> True
      | OpIsNan \<Rightarrow> True | OpGreater \<Rightarrow> True | OpGreaterEqual \<Rightarrow> True | OpLess \<Rightarrow> True
      | OpLessEqual \<Rightarrow> True | OpEqual \<Rightarrow> True | OpNotEqual \<Rightarrow> True | OpLogicalAnd \<Rightarrow> True
      | OpLogicalOr \<Rightarrow> True | OpLogicalXor \<Rightarrow> True | OpLogicalNot \<Rightarrow> True
      | OpArange t \<Rightarrow> True | OpLinspace t \<Rightarrow> True | OpEye t \<Rightarrow> True
      | OpRandomUniform t \<Rightarrow> True | OpRandomInt t \<Rightarrow> True
      | OpStaticRandomUniform t s \<Rightarrow> True | OpStaticRandomInt t s \<Rightarrow> True
      | OpOnesLike \<Rightarrow> True | OpZerosLike \<Rightarrow> True
      | _ \<Rightarrow> False)"

definition single_call_type :: "call_op \<Rightarrow> tensor_type list \<Rightarrow> tensor_type result" where
  "single_call_type op args =
     rbind (infer_call_results op args) (\<lambda>results.
     if length results = 1 then Inr (hd results) else Inl (ReverseError AdNotSingleOutput))"

definition reduction_count :: "tensor_type \<Rightarrow> axis_spec \<Rightarrow> nat result" where
  "reduction_count in_ty axis =
     (case axis of AxisAll \<Rightarrow> Inr (prod_list (shape in_ty)) | AxisOne a \<Rightarrow> idx (shape in_ty) a)"

definition element_count_slice :: "nat list \<Rightarrow> nat" where
  "element_count_slice s = prod_list s"

definition reshape_if_needed :: "expr \<Rightarrow> tensor_type \<Rightarrow> tensor_type \<Rightarrow> expr" where
  "reshape_if_needed e source_ty target_ty =
     (if source_ty = target_ty then e else call (OpReshape target_ty) [e])"

definition push_sum :: "expr option \<Rightarrow> expr \<Rightarrow> expr option" where
  "push_sum acc e = Some (case acc of Some existing \<Rightarrow> binary Add existing e | None \<Rightarrow> e)"

definition concat_all :: "expr list \<Rightarrow> nat \<Rightarrow> expr option" where
  "concat_all pieces axis =
     (case pieces of
        [] \<Rightarrow> None
      | p # ps \<Rightarrow> Some (foldl (\<lambda>acc piece. call (OpConcat axis) [acc, piece]) p ps))"

end
