(* ===== verification/Autograd_Helpers.thy ===== *)
theory Autograd_Helpers
  imports Autograd_Common
begin

text \<open>
  \<^verbatim>\<open>crates/knok-core/src/autograd/mod.rs\<close>, the rest of its free functions: matrix product
  gradients (\<open>MatmulGradSpec\<close>), gradients of indexed reads, units of pooling and convolution,
  diagonals, and permutations of axes.
\<close>

section \<open>Matrix products\<close>

record matmul_grad_spec =
  mg_lhs_is_vector :: bool
  mg_rhs_is_vector :: bool
  mg_lhs_matrix_ty :: tensor_type
  mg_rhs_matrix_ty :: tensor_type
  mg_grad_matrix_ty :: tensor_type

definition promoted_lhs_matmul_type :: "tensor_type \<Rightarrow> tensor_type" where
  "promoted_lhs_matmul_type ty =
     (if rank ty = 1 then tensor (elem ty) [1, shape ty ! 0] else ty)"

definition promoted_rhs_matmul_type :: "tensor_type \<Rightarrow> tensor_type" where
  "promoted_rhs_matmul_type ty =
     (if rank ty = 1 then tensor (elem ty) [shape ty ! 0, 1] else ty)"

definition remove_shape_axis :: "nat list \<Rightarrow> nat \<Rightarrow> nat list result" where
  "remove_shape_axis s axis =
     (if length s \<le> axis then Inl (ReverseError AdRemoveAxis)
      else if s ! axis \<noteq> 1 then Inl (ReverseError AdSingletonAxis)
      else Inr (remove_nth axis s))"

definition remove_axis :: "expr \<Rightarrow> tensor_type \<Rightarrow> nat \<Rightarrow> (expr \<times> tensor_type) result" where
  "remove_axis e ty axis =
     rbind (remove_shape_axis (shape ty) axis) (\<lambda>s.
     let ty' = tensor (elem ty) s in Inr (call (OpReshape ty') [e], ty'))"

definition demoted_matmul_output_type :: "tensor_type \<Rightarrow> bool \<Rightarrow> bool \<Rightarrow> tensor_type result" where
  "demoted_matmul_output_type promoted lhs_is_vector rhs_is_vector =
     rbind (if rhs_is_vector then remove_shape_axis (shape promoted) (rank promoted - 1)
            else Inr (shape promoted)) (\<lambda>s1.
     rbind (if lhs_is_vector then remove_shape_axis s1 (rank promoted - 2) else Inr s1) (\<lambda>s2.
     Inr (tensor (elem promoted) s2)))"

definition matmul_type :: "tensor_type \<Rightarrow> tensor_type \<Rightarrow> tensor_type result" where
  "matmul_type lhs_ty rhs_ty = single_call_type OpMatmul [lhs_ty, rhs_ty]"

definition matmul_grad_spec_new ::
    "tensor_type \<Rightarrow> tensor_type \<Rightarrow> tensor_type \<Rightarrow> matmul_grad_spec result" where
  "matmul_grad_spec_new lhs_ty rhs_ty output_ty =
     (let lhs_is_vector = (rank lhs_ty = 1); rhs_is_vector = (rank rhs_ty = 1);
          lhs_matrix_ty = promoted_lhs_matmul_type lhs_ty;
          rhs_matrix_ty = promoted_rhs_matmul_type rhs_ty
      in
      rbind (matmul_type lhs_matrix_ty rhs_matrix_ty) (\<lambda>grad_matrix_ty.
      rbind (demoted_matmul_output_type grad_matrix_ty lhs_is_vector rhs_is_vector) (\<lambda>expected.
      rbind (check (expected = output_ty) (ReverseError AdMatmulType)) (\<lambda>_.
      Inr \<lparr>mg_lhs_is_vector = lhs_is_vector, mg_rhs_is_vector = rhs_is_vector,
           mg_lhs_matrix_ty = lhs_matrix_ty, mg_rhs_matrix_ty = rhs_matrix_ty,
           mg_grad_matrix_ty = grad_matrix_ty\<rparr>))))"

definition demote_lhs_grad ::
    "matmul_grad_spec \<Rightarrow> expr \<Rightarrow> tensor_type \<Rightarrow> (expr \<times> tensor_type) result" where
  "demote_lhs_grad spec e ty =
     (if mg_lhs_is_vector spec then remove_axis e ty (rank ty - 2) else Inr (e, ty))"

definition demote_rhs_grad ::
    "matmul_grad_spec \<Rightarrow> expr \<Rightarrow> tensor_type \<Rightarrow> (expr \<times> tensor_type) result" where
  "demote_rhs_grad spec e ty =
     (if mg_rhs_is_vector spec then remove_axis e ty (rank ty - 1) else Inr (e, ty))"

definition swap_last_two :: "expr \<Rightarrow> tensor_type \<Rightarrow> expr result" where
  "swap_last_two e ty =
     (if rank ty < 2 then Inl (ReverseError AdMatmulRank)
      else Inr (call (OpSwapAxes (rank ty - 2) (rank ty - 1)) [e]))"

definition swap_last_two_type :: "tensor_type \<Rightarrow> tensor_type result" where
  "swap_last_two_type ty =
     (if rank ty < 2 then Inl (ReverseError AdMatmulRank)
      else Inr (tensor (elem ty) (swap_nth (rank ty - 2) (rank ty - 1) (shape ty))))"

section \<open>Indexed reads\<close>

text \<open>The loop that writes the dimensions of the indices into a shape of ones.\<close>

fun write_dims :: "nat \<Rightarrow> nat list \<Rightarrow> nat list \<Rightarrow> nat list result" where
  "write_dims pos [] out = Inr out"
| "write_dims pos (dim # dims) out =
     rbind (set_idx out pos dim) (\<lambda>out'. write_dims (Suc pos) dims out')"

definition reshape_index_condition ::
    "expr \<Rightarrow> tensor_type \<Rightarrow> tensor_type \<Rightarrow> nat \<Rightarrow> expr result" where
  "reshape_index_condition condition indices_ty output_ty axis =
     rbind (write_dims axis (shape indices_ty) (replicate (rank output_ty) 1)) (\<lambda>mask_shape.
     let mask_ty = tensor Bool mask_shape;
         condition' = reshape_if_needed condition (tensor Bool (shape indices_ty)) mask_ty;
         output_bool_ty = tensor Bool (shape output_ty)
     in Inr (if mask_ty = output_bool_ty then condition'
             else call (OpBroadcast output_bool_ty) [condition']))"

definition index_condition :: "expr \<Rightarrow> tensor_type \<Rightarrow> nat \<Rightarrow> nat \<Rightarrow> expr" where
  "index_condition indices indices_ty dim index =
     (let positive = call OpEqual [indices, scalar_const (nat_str index) (elem indices_ty)];
          negative = call OpEqual
            [indices, scalar_const (int_str (int index - int dim)) (elem indices_ty)]
      in call OpLogicalOr [positive, negative])"

text \<open>The inner loop of \<open>indexed_axis_grad\<close> sums the masked gradient over the index axes, last first.\<close>

definition sum_axes :: "nat list \<Rightarrow> expr \<Rightarrow> expr" where
  "sum_axes axes piece = foldl (\<lambda>p axis. call (OpSum (AxisOne axis)) [p]) piece axes"

definition indexed_axis_grad ::
    "expr \<Rightarrow> expr \<Rightarrow> tensor_type \<Rightarrow> tensor_type \<Rightarrow> tensor_type \<Rightarrow> nat \<Rightarrow> nat list \<Rightarrow> expr \<Rightarrow> expr result" where
  "indexed_axis_grad inp indices indices_ty output_ty in_ty axis reduce_axes grad =
     rbind (idx (shape in_ty) axis) (\<lambda>dim.
     if dim = 0 then Inr (zeros_like inp)
     else
       rbind (rmap (\<lambda>index.
         let condition = index_condition indices indices_ty dim index in
         rbind (if shape indices_ty = shape output_ty then Inr condition
                else reshape_index_condition condition indices_ty output_ty axis) (\<lambda>condition'.
         let piece = sum_axes (rev reduce_axes) (mask_grad condition' grad);
             unit_ty = tensor (elem in_ty) ((shape in_ty)[axis := 1])
         in Inr (call (OpReshape unit_ty) [piece]))) [0..<dim]) (\<lambda>pieces.
       of_option (ReverseError AdEmptyIndex) (concat_all pieces axis)))"

definition normalize_index_tensor :: "expr \<Rightarrow> element_type \<Rightarrow> nat \<Rightarrow> expr" where
  "normalize_index_tensor indices e axis_size =
     (let zero = scalar_const (zero_literal e) e;
          negative = call OpLess [indices, zero];
          shifted = binary Add indices (scalar_const (nat_str axis_size) e)
      in call OpWhere [negative, shifted, indices])"

definition take_along_axis_unit_grad ::
    "expr \<Rightarrow> tensor_type \<Rightarrow> tensor_type \<Rightarrow> tensor_type \<Rightarrow> nat \<Rightarrow> expr \<Rightarrow> expr option result" where
  "take_along_axis_unit_grad indices indices_ty output_ty in_ty axis grad =
     (if rank in_ty \<noteq> rank indices_ty \<or> shape indices_ty \<noteq> shape output_ty then Inr None
      else
        rbind (idx (shape indices_ty) axis) (\<lambda>unit_dim.
        if unit_dim \<noteq> 1 then Inr None
        else
          rbind (idx (shape in_ty) axis) (\<lambda>axis_size.
          let ie = elem indices_ty;
              normalized = normalize_index_tensor indices ie axis_size;
              input_index_ty = tensor ie (shape in_ty);
              normalized' = (if shape indices_ty = shape in_ty then normalized
                             else call (OpBroadcast input_index_ty) [normalized]);
              axis_values_ty = tensor ie [axis_size];
              axis_values = call (OpArange axis_values_ty)
                [scalar_const (zero_literal ie) ie, scalar_const (nat_str axis_size) ie];
              axis_grid_ty = tensor ie ((replicate (rank in_ty) 1)[axis := axis_size]);
              axis_grid = reshape_if_needed axis_values axis_values_ty axis_grid_ty;
              axis_grid' = (if axis_grid_ty = input_index_ty then axis_grid
                            else call (OpBroadcast input_index_ty) [axis_grid]);
              condition = call OpEqual [axis_grid', normalized'];
              grad' = (if output_ty = in_ty then grad else call (OpBroadcast in_ty) [grad])
          in Inr (Some (mask_grad condition grad')))))"

section \<open>Pooling and convolution\<close>

definition pool_unit_type :: "tensor_type \<Rightarrow> tensor_type" where
  "pool_unit_type in_ty = tensor (elem in_ty) [shape in_ty ! 0, 1, 1, shape in_ty ! 3]"

definition pool_output_unit :: "expr \<Rightarrow> tensor_type \<Rightarrow> nat \<Rightarrow> nat \<Rightarrow> expr" where
  "pool_output_unit output output_ty oh ow =
     call (OpSlice (tensor (elem output_ty) [shape output_ty ! 0, 1, 1, shape output_ty ! 3])
             [0, oh, ow, 0]) [output]"

text \<open>\<open>checked_sub\<close> of the low padding; \<open>None\<close> is a tap that falls into it.\<close>

definition checked_sub :: "nat \<Rightarrow> nat \<Rightarrow> nat option" where
  "checked_sub a b = (if b \<le> a then Some (a - b) else None)"

definition window_position ::
    "nat \<times> nat \<Rightarrow> nat \<times> nat \<Rightarrow> padding2d \<Rightarrow> nat \<Rightarrow> nat \<Rightarrow> nat \<Rightarrow> nat \<Rightarrow> (nat \<times> nat) option" where
  "window_position stride dilation padding oh ow kh kw =
     (let padded_h = oh * fst stride + kh * fst dilation;
          padded_w = ow * snd stride + kw * snd dilation
      in case checked_sub padded_h (pad_top padding) of
           None \<Rightarrow> None
         | Some ih \<Rightarrow>
             (case checked_sub padded_w (pad_left padding) of
                None \<Rightarrow> None
              | Some iw \<Rightarrow> Some (ih, iw)))"

definition pool_input_position ::
    "pool2d_options \<Rightarrow> nat \<Rightarrow> nat \<Rightarrow> nat \<Rightarrow> nat \<Rightarrow> (nat \<times> nat) option" where
  "pool_input_position options =
     window_position (pool_stride options) (pool_dilation options) (pool_padding options)"

definition conv_input_position ::
    "conv2d_options \<Rightarrow> nat \<Rightarrow> nat \<Rightarrow> nat \<Rightarrow> nat \<Rightarrow> (nat \<times> nat) option" where
  "conv_input_position options =
     window_position (conv_stride options) (conv_dilation options) (conv_padding options)"

definition pad_pool_unit_to_input :: "expr \<Rightarrow> tensor_type \<Rightarrow> nat \<Rightarrow> nat \<Rightarrow> expr" where
  "pad_pool_unit_to_input unit in_ty ih iw = call (OpPad in_ty [0, ih, iw, 0]) [unit]"

definition conv_input_unit_type :: "tensor_type \<Rightarrow> tensor_type" where
  "conv_input_unit_type in_ty = tensor (elem in_ty) [shape in_ty ! 0, 1, 1, 1]"

definition conv_input_unit :: "expr \<Rightarrow> tensor_type \<Rightarrow> nat \<Rightarrow> nat \<Rightarrow> nat \<Rightarrow> expr" where
  "conv_input_unit inp in_ty h w channel =
     call (OpSlice (conv_input_unit_type in_ty) [0, h, w, channel]) [inp]"

definition conv_output_channel_block ::
    "expr \<Rightarrow> tensor_type \<Rightarrow> nat \<Rightarrow> nat \<Rightarrow> nat \<Rightarrow> nat \<Rightarrow> expr" where
  "conv_output_channel_block grad output_ty oh ow start count =
     call (OpSlice (tensor (elem output_ty) [shape output_ty ! 0, 1, 1, count])
             [0, oh, ow, start]) [grad]"

definition conv_kernel_output_block ::
    "expr \<Rightarrow> tensor_type \<Rightarrow> nat \<Rightarrow> nat \<Rightarrow> nat \<Rightarrow> nat \<Rightarrow> nat \<Rightarrow> expr" where
  "conv_kernel_output_block kern kernel_ty kh kw input_channel start count =
     call (OpSlice (tensor (elem kernel_ty) [1, 1, 1, count]) [kh, kw, input_channel, start]) [kern]"

section \<open>Diagonals\<close>

definition ad_default_axis_pair ::
    "tensor_type \<Rightarrow> (nat \<times> nat) option \<Rightarrow> (nat \<times> nat) result" where
  "ad_default_axis_pair in_ty axes =
     rbind (check (2 \<le> rank in_ty) (ReverseError AdDiagonalRank)) (\<lambda>_.
     let ax = (case axes of Some a \<Rightarrow> a | None \<Rightarrow> (rank in_ty - 2, rank in_ty - 1)) in
     if rank in_ty \<le> fst ax \<or> rank in_ty \<le> snd ax \<or> fst ax = snd ax
     then Inl (ReverseError AdDiagonalAxes) else Inr ax)"

definition diagonal_compact_type :: "tensor_type \<Rightarrow> nat \<times> nat \<Rightarrow> tensor_type" where
  "diagonal_compact_type in_ty axes =
     tensor (elem in_ty)
       (remove_axes_shape (shape in_ty) (fst axes) (snd axes)
         @ [shape in_ty ! fst axes, shape in_ty ! snd axes])"

definition diagonal_eye :: "tensor_type \<Rightarrow> nat \<times> nat \<Rightarrow> tensor_type \<Rightarrow> expr" where
  "diagonal_eye in_ty axes compact_ty =
     call (OpBroadcast compact_ty)
       [call (OpEye (tensor (elem in_ty) [shape in_ty ! fst axes, shape in_ty ! snd axes])) []]"

text \<open>\<open>Iterator::position\<close>.\<close>

fun position :: "nat \<Rightarrow> nat list \<Rightarrow> nat option" where
  "position x [] = None"
| "position x (y # ys) = (if y = x then Some 0 else map_option Suc (position x ys))"

definition compact_axes :: "nat \<Rightarrow> nat \<times> nat \<Rightarrow> nat list result" where
  "compact_axes rk axes =
     (let non_axes = filter (\<lambda>axis. axis \<noteq> fst axes \<and> axis \<noteq> snd axes) [0..<rk] in
      rmap (\<lambda>axis.
        if axis = fst axes then Inr (length non_axes)
        else if axis = snd axes then Inr (length non_axes + 1)
        else of_option (Panic UnwrapNone) (position axis non_axes)) [0..<rk])"

definition permute_compact_diagonal :: "expr \<Rightarrow> tensor_type \<Rightarrow> nat \<times> nat \<Rightarrow> expr result" where
  "permute_compact_diagonal compact in_ty axes =
     rbind (compact_axes (rank in_ty) axes) (\<lambda>ax. Inr (call (OpPermuteDims ax) [compact]))"

section \<open>Permutations\<close>

definition default_axes :: "tensor_type \<Rightarrow> nat list \<Rightarrow> nat list" where
  "default_axes in_ty axes = (if axes = [] then rev [0..<rank in_ty] else axes)"

fun inverse_loop :: "nat \<Rightarrow> nat list \<Rightarrow> nat list \<Rightarrow> nat list result" where
  "inverse_loop k [] out = Inr out"
| "inverse_loop k (input_axis # axes) out =
     rbind (set_idx out input_axis k) (\<lambda>out'. inverse_loop (Suc k) axes out')"

definition inverse_permutation :: "nat list \<Rightarrow> nat list result" where
  "inverse_permutation axes = inverse_loop 0 axes (replicate (length axes) 0)"

end
