(* ===== verification/Autograd_Reverse.thy ===== *)
theory Autograd_Reverse
  imports Autograd_Helpers
begin

text \<open>
  \<^verbatim>\<open>crates/knok-core/src/autograd/reverse.rs\<close>: the reverse rule of every node.  Each method of
  the source and each arm of \<open>reverse_call\<close> is a definition; \<open>reverse_op\<close> dispatches on the
  operation.  \<open>out\<close> is the reference to the forward value of the node (\<open>Expr::Var(node.name)\<close>).
\<close>

section \<open>Binary operators\<close>

definition reverse_add :: "expr \<Rightarrow> expr \<Rightarrow> tensor_type \<Rightarrow> tensor_type \<Rightarrow> tensor_type \<Rightarrow> expr \<Rightarrow> ad_state \<Rightarrow> ad_state result" where
  "reverse_add lhs rhs lhs_ty rhs_ty output_ty grad st =
     rbind (unbroadcast grad output_ty lhs_ty) (\<lambda>lhs_grad.
     rbind (unbroadcast grad output_ty rhs_ty) (\<lambda>rhs_grad.
     rbind (add_grad_to_expr lhs lhs_grad st) (add_grad_to_expr rhs rhs_grad)))"

definition reverse_sub :: "expr \<Rightarrow> expr \<Rightarrow> tensor_type \<Rightarrow> tensor_type \<Rightarrow> tensor_type \<Rightarrow> expr \<Rightarrow> ad_state \<Rightarrow> ad_state result" where
  "reverse_sub lhs rhs lhs_ty rhs_ty output_ty grad st =
     rbind (unbroadcast grad output_ty lhs_ty) (\<lambda>lhs_grad.
     rbind (unbroadcast (neg grad) output_ty rhs_ty) (\<lambda>rhs_grad.
     rbind (add_grad_to_expr lhs lhs_grad st) (add_grad_to_expr rhs rhs_grad)))"

definition reverse_mul :: "expr \<Rightarrow> expr \<Rightarrow> tensor_type \<Rightarrow> tensor_type \<Rightarrow> tensor_type \<Rightarrow> expr \<Rightarrow> ad_state \<Rightarrow> ad_state result" where
  "reverse_mul lhs rhs lhs_ty rhs_ty output_ty grad st =
     rbind (unbroadcast (binary Mul grad rhs) output_ty lhs_ty) (\<lambda>lhs_grad.
     rbind (unbroadcast (binary Mul grad lhs) output_ty rhs_ty) (\<lambda>rhs_grad.
     rbind (add_grad_to_expr lhs lhs_grad st) (add_grad_to_expr rhs rhs_grad)))"

definition reverse_div :: "expr \<Rightarrow> expr \<Rightarrow> tensor_type \<Rightarrow> tensor_type \<Rightarrow> tensor_type \<Rightarrow> expr \<Rightarrow> ad_state \<Rightarrow> ad_state result" where
  "reverse_div lhs rhs lhs_ty rhs_ty output_ty grad st =
     (let rhs_sq = call OpSquare [rhs] in
      rbind (unbroadcast (binary Div grad rhs) output_ty lhs_ty) (\<lambda>lhs_grad.
      rbind (unbroadcast (neg (binary Div (binary Mul grad lhs) rhs_sq)) output_ty rhs_ty) (\<lambda>rhs_grad.
      rbind (add_grad_to_expr lhs lhs_grad st) (add_grad_to_expr rhs rhs_grad))))"

definition reverse_binary ::
    "binary_op \<Rightarrow> expr \<Rightarrow> expr \<Rightarrow> tensor_type \<Rightarrow> expr \<Rightarrow> ad_state \<Rightarrow> ad_state result" where
  "reverse_binary op lhs rhs output_ty grad st =
     rbind (ref_ty st lhs) (\<lambda>lhs_ty.
     rbind (ref_ty st rhs) (\<lambda>rhs_ty.
     case op of
       Add \<Rightarrow> reverse_add lhs rhs lhs_ty rhs_ty output_ty grad st
     | Sub \<Rightarrow> reverse_sub lhs rhs lhs_ty rhs_ty output_ty grad st
     | Mul \<Rightarrow> reverse_mul lhs rhs lhs_ty rhs_ty output_ty grad st
     | Div \<Rightarrow> reverse_div lhs rhs lhs_ty rhs_ty output_ty grad st))"

section \<open>Elementwise calls\<close>

text \<open>
  The arms of the unary elementwise operations add \<open>grad * local\<close> or \<open>grad / denom\<close> to the
  operand; \<open>local\<close> and \<open>denom\<close> are functions of the operand \<open>x\<close>, the value \<open>y\<close> and its element type.
\<close>

definition abs_local :: "expr \<Rightarrow> expr" where
  "abs_local x =
     (let zero = zeros_like x;
          positive = call OpGreater [x, zero];
          negative = call OpLess [x, zero];
          one = ones_like x
      in call OpWhere [positive, one, call OpWhere [negative, neg one, zero]])"

definition exp2_local :: "expr \<Rightarrow> element_type \<Rightarrow> expr" where
  "exp2_local y e = binary Mul (scalar_const ''0.6931471805599453'' e) y"

definition expm1_local :: "expr \<Rightarrow> element_type \<Rightarrow> expr" where
  "expm1_local y e = binary Add y (scalar_const ''1.0'' e)"

definition log1p_denom :: "expr \<Rightarrow> element_type \<Rightarrow> expr" where
  "log1p_denom x e = binary Add x (scalar_const ''1.0'' e)"

definition log2_denom :: "expr \<Rightarrow> element_type \<Rightarrow> expr" where
  "log2_denom x e = binary Mul x (scalar_const ''0.6931471805599453'' e)"

definition log10_denom :: "expr \<Rightarrow> element_type \<Rightarrow> expr" where
  "log10_denom x e = binary Mul x (scalar_const ''2.302585092994046'' e)"

definition sin_local :: "expr \<Rightarrow> expr" where
  "sin_local x = call OpCos [x]"

definition cos_local :: "expr \<Rightarrow> expr" where
  "cos_local x = neg (call OpSin [x])"

definition tan_local :: "expr \<Rightarrow> expr" where
  "tan_local y = binary Add (ones_like y) (call OpSquare [y])"

definition tanh_local :: "expr \<Rightarrow> expr" where
  "tanh_local y = binary Sub (ones_like y) (call OpSquare [y])"

definition sigmoid_local :: "expr \<Rightarrow> expr" where
  "sigmoid_local y = binary Mul y (binary Sub (ones_like y) y)"

definition square_local :: "expr \<Rightarrow> element_type \<Rightarrow> expr" where
  "square_local x e = binary Mul (scalar_const ''2.0'' e) x"

definition reciprocal_local :: "expr \<Rightarrow> expr" where
  "reciprocal_local y = neg (call OpSquare [y])"

definition sqrt_denom :: "expr \<Rightarrow> element_type \<Rightarrow> expr" where
  "sqrt_denom y e = binary Mul (scalar_const ''2.0'' e) y"

definition reverse_scaled ::
    "(expr \<Rightarrow> expr) \<Rightarrow> expr list \<Rightarrow> expr \<Rightarrow> ad_state \<Rightarrow> ad_state result" where
  "reverse_scaled local_of args grad st =
     rbind (idx args 0) (\<lambda>x. add_grad_to_expr x (binary Mul grad (local_of x)) st)"

definition reverse_divided ::
    "(expr \<Rightarrow> expr) \<Rightarrow> expr list \<Rightarrow> expr \<Rightarrow> ad_state \<Rightarrow> ad_state result" where
  "reverse_divided denom_of args grad st =
     rbind (idx args 0) (\<lambda>x. add_grad_to_expr x (binary Div grad (denom_of x)) st)"

definition reverse_relu :: "expr list \<Rightarrow> expr \<Rightarrow> ad_state \<Rightarrow> ad_state result" where
  "reverse_relu args grad st =
     rbind (idx args 0) (\<lambda>x.
     let zero = zeros_like x;
         condition = call OpGreater [x, zero];
         zero_grad = zeros_like grad
     in add_grad_to_expr x (call OpWhere [condition, grad, zero_grad]) st)"

definition reverse_pow ::
    "expr list \<Rightarrow> expr \<Rightarrow> tensor_type \<Rightarrow> expr \<Rightarrow> ad_state \<Rightarrow> ad_state result" where
  "reverse_pow args out output_ty grad st =
     rbind (idx args 0) (\<lambda>a. rbind (ref_ty st a) (\<lambda>lhs_ty.
     rbind (idx args 1) (\<lambda>b. rbind (ref_ty st b) (\<lambda>rhs_ty.
     let lhs_local = binary Mul b (call OpPow [a, binary Sub b (scalar_const ''1.0'' (elem output_ty))])
     in
     rbind (unbroadcast (binary Mul grad lhs_local) output_ty lhs_ty) (\<lambda>lhs_grad.
     rbind (add_grad_to_expr a lhs_grad st) (\<lambda>st1.
     let rhs_local = binary Mul out (call OpLog [a]) in
     rbind (unbroadcast (binary Mul grad rhs_local) output_ty rhs_ty) (\<lambda>rhs_grad.
     add_grad_to_expr b rhs_grad st1)))))))"

definition reverse_minimum_maximum ::
    "expr list \<Rightarrow> tensor_type \<Rightarrow> expr \<Rightarrow> bool \<Rightarrow> ad_state \<Rightarrow> ad_state result" where
  "reverse_minimum_maximum args output_ty grad maximum st =
     rbind (idx args 0) (\<lambda>a. rbind (ref_ty st a) (\<lambda>lhs_ty.
     rbind (idx args 1) (\<lambda>b. rbind (ref_ty st b) (\<lambda>rhs_ty.
     let (lhs_op, rhs_op) = (if maximum then (OpGreaterEqual, OpGreater) else (OpLessEqual, OpLess));
         lhs_mask = call lhs_op [a, b];
         rhs_mask = call rhs_op [b, a]
     in
     rbind (unbroadcast (mask_grad lhs_mask grad) output_ty lhs_ty) (\<lambda>lhs_grad.
     rbind (unbroadcast (mask_grad rhs_mask grad) output_ty rhs_ty) (\<lambda>rhs_grad.
     rbind (add_grad_to_expr a lhs_grad st) (add_grad_to_expr b rhs_grad)))))))"

definition reverse_clip ::
    "expr list \<Rightarrow> tensor_type \<Rightarrow> expr \<Rightarrow> ad_state \<Rightarrow> ad_state result" where
  "reverse_clip args output_ty grad st =
     rbind (idx args 0) (\<lambda>a. rbind (ref_ty st a) (\<lambda>value_ty.
     rbind (idx args 1) (\<lambda>b. rbind (ref_ty st b) (\<lambda>min_ty.
     rbind (idx args 2) (\<lambda>c. rbind (ref_ty st c) (\<lambda>max_ty.
     let above_min = call OpGreaterEqual [a, b];
         below_max = call OpLessEqual [a, c];
         value_mask = call OpLogicalAnd [above_min, below_max];
         min_mask = call OpLess [a, b];
         max_mask = call OpGreater [a, c]
     in
     rbind (unbroadcast (mask_grad value_mask grad) output_ty value_ty) (\<lambda>value_grad.
     rbind (unbroadcast (mask_grad min_mask grad) output_ty min_ty) (\<lambda>min_grad.
     rbind (unbroadcast (mask_grad max_mask grad) output_ty max_ty) (\<lambda>max_grad.
     rbind (add_grad_to_expr a value_grad st) (\<lambda>st1.
     rbind (add_grad_to_expr b min_grad st1) (add_grad_to_expr c max_grad)))))))))))"

definition reverse_where ::
    "expr list \<Rightarrow> tensor_type \<Rightarrow> expr \<Rightarrow> ad_state \<Rightarrow> ad_state result" where
  "reverse_where args output_ty grad st =
     rbind (idx args 1) (\<lambda>b. rbind (ref_ty st b) (\<lambda>true_ty.
     rbind (idx args 2) (\<lambda>c. rbind (ref_ty st c) (\<lambda>false_ty.
     rbind (idx args 0) (\<lambda>a.
     rbind (unbroadcast (mask_grad a grad) output_ty true_ty) (\<lambda>true_grad.
     rbind (unbroadcast (call OpWhere [a, zeros_like grad, grad]) output_ty false_ty) (\<lambda>false_grad.
     rbind (add_grad_to_expr b true_grad st) (add_grad_to_expr c false_grad))))))))"

section \<open>Reductions\<close>

definition reverse_sum ::
    "expr list \<Rightarrow> tensor_type \<Rightarrow> axis_spec \<Rightarrow> expr \<Rightarrow> ad_state \<Rightarrow> ad_state result" where
  "reverse_sum args output_ty axis grad st =
     rbind (idx args 0) (\<lambda>x. rbind (ref_ty st x) (\<lambda>in_ty.
     rbind (expand_reduction_grad grad output_ty in_ty axis) (\<lambda>input_grad.
     add_grad_to_expr x input_grad st)))"

definition reverse_prod ::
    "expr list \<Rightarrow> expr \<Rightarrow> tensor_type \<Rightarrow> axis_spec \<Rightarrow> expr \<Rightarrow> ad_state \<Rightarrow> ad_state result" where
  "reverse_prod args out output_ty axis grad st =
     rbind (idx args 0) (\<lambda>x. rbind (ref_ty st x) (\<lambda>in_ty.
     rbind (expand_reduction_grad out output_ty in_ty axis) (\<lambda>output.
     rbind (expand_reduction_grad grad output_ty in_ty axis) (\<lambda>grad'.
     add_grad_to_expr x (binary Mul grad' (binary Div output x)) st))))"

definition count_const :: "nat \<Rightarrow> element_type \<Rightarrow> expr" where
  "count_const count e = scalar_const (nat_str count @ ''.0'') e"

definition reverse_mean ::
    "expr list \<Rightarrow> tensor_type \<Rightarrow> axis_spec \<Rightarrow> expr \<Rightarrow> ad_state \<Rightarrow> ad_state result" where
  "reverse_mean args output_ty axis grad st =
     rbind (idx args 0) (\<lambda>x. rbind (ref_ty st x) (\<lambda>in_ty.
     rbind (reduction_count in_ty axis) (\<lambda>count.
     let scaled = binary Div grad (count_const count (elem output_ty)) in
     rbind (expand_reduction_grad scaled output_ty in_ty axis) (\<lambda>input_grad.
     add_grad_to_expr x input_grad st))))"

definition reverse_extremum ::
    "expr list \<Rightarrow> expr \<Rightarrow> tensor_type \<Rightarrow> axis_spec \<Rightarrow> expr \<Rightarrow> ad_state \<Rightarrow> ad_state result" where
  "reverse_extremum args out output_ty axis grad st =
     rbind (idx args 0) (\<lambda>x. rbind (ref_ty st x) (\<lambda>in_ty.
     rbind (expand_reduction_grad out output_ty in_ty axis) (\<lambda>selected.
     rbind (expand_reduction_grad grad output_ty in_ty axis) (\<lambda>grad'.
     add_grad_to_expr x (mask_grad (call OpEqual [x, selected]) grad') st))))"

definition reverse_softmax ::
    "expr list \<Rightarrow> expr \<Rightarrow> axis_spec \<Rightarrow> expr \<Rightarrow> ad_state \<Rightarrow> ad_state result" where
  "reverse_softmax args out axis grad st =
     rbind (idx args 0) (\<lambda>x. rbind (ref_ty st x) (\<lambda>in_ty.
     rbind (single_call_type (OpSum axis) [in_ty]) (\<lambda>reduced_ty.
     let weighted = binary Mul grad out in
     rbind (expand_reduction_grad (call (OpSum axis) [weighted]) reduced_ty in_ty axis) (\<lambda>summed.
     add_grad_to_expr x (binary Mul out (binary Sub grad summed)) st))))"

definition reverse_var ::
    "expr list \<Rightarrow> tensor_type \<Rightarrow> axis_spec \<Rightarrow> expr \<Rightarrow> ad_state \<Rightarrow> ad_state result" where
  "reverse_var args output_ty axis grad st =
     rbind (idx args 0) (\<lambda>x. rbind (ref_ty st x) (\<lambda>in_ty.
     if rank in_ty = 0 \<and> axis = AxisAll then Inr st
     else
       rbind (expand_reduction_grad (call (OpMean axis) [x]) output_ty in_ty axis) (\<lambda>mean.
       let centered = binary Sub x mean in
       rbind (expand_reduction_grad grad output_ty in_ty axis) (\<lambda>grad'.
       rbind (reduction_count in_ty axis) (\<lambda>count.
       let local = binary Div (binary Mul (scalar_const ''2.0'' (elem in_ty)) centered)
                     (count_const count (elem in_ty))
       in add_grad_to_expr x (binary Mul grad' local) st)))))"

definition reverse_std ::
    "expr list \<Rightarrow> expr \<Rightarrow> tensor_type \<Rightarrow> axis_spec \<Rightarrow> expr \<Rightarrow> ad_state \<Rightarrow> ad_state result" where
  "reverse_std args out output_ty axis grad st =
     rbind (idx args 0) (\<lambda>x. rbind (ref_ty st x) (\<lambda>in_ty.
     if rank in_ty = 0 \<and> axis = AxisAll then Inr st
     else
       rbind (expand_reduction_grad (call (OpMean axis) [x]) output_ty in_ty axis) (\<lambda>mean.
       let centered = binary Sub x mean in
       rbind (expand_reduction_grad grad output_ty in_ty axis) (\<lambda>grad'.
       rbind (expand_reduction_grad out output_ty in_ty axis) (\<lambda>std.
       rbind (reduction_count in_ty axis) (\<lambda>count.
       let denom = binary Mul (count_const count (elem in_ty)) std
       in add_grad_to_expr x (binary Mul grad' (binary Div centered denom)) st))))))"

definition reverse_ptp ::
    "expr list \<Rightarrow> tensor_type \<Rightarrow> axis_spec \<Rightarrow> expr \<Rightarrow> ad_state \<Rightarrow> ad_state result" where
  "reverse_ptp args output_ty axis grad st =
     rbind (idx args 0) (\<lambda>x. rbind (ref_ty st x) (\<lambda>in_ty.
     if rank in_ty = 0 \<and> axis = AxisAll then Inr st
     else
       rbind (expand_reduction_grad (call (OpMax axis) [x]) output_ty in_ty axis) (\<lambda>max'.
       rbind (expand_reduction_grad (call (OpMin axis) [x]) output_ty in_ty axis) (\<lambda>min'.
       rbind (expand_reduction_grad grad output_ty in_ty axis) (\<lambda>grad'.
       let max_grad = mask_grad (call OpEqual [x, max']) grad';
           min_grad = mask_grad (call OpEqual [x, min']) (neg grad')
       in add_grad_to_expr x (binary Add max_grad min_grad) st)))))"

end
