(* ===== verification/Autograd_Structured.thy ===== *)
theory Autograd_Structured
  imports Autograd_Reverse
begin

text \<open>
  \<^verbatim>\<open>crates/knok-core/src/autograd/reverse.rs\<close>, continued: the rules of linear algebra, of the
  shape and indexing operations, of pooling and convolution, and the dispatch of \<open>reverse_call\<close> and
  \<open>reverse_node\<close>.
\<close>

section \<open>Linear algebra\<close>

definition reverse_matmul ::
    "expr list \<Rightarrow> tensor_type \<Rightarrow> expr \<Rightarrow> ad_state \<Rightarrow> ad_state result" where
  "reverse_matmul args output_ty grad st =
     rbind (idx args 0) (\<lambda>a. rbind (ref_ty st a) (\<lambda>lhs_ty.
     rbind (idx args 1) (\<lambda>b. rbind (ref_ty st b) (\<lambda>rhs_ty.
     rbind (matmul_grad_spec_new lhs_ty rhs_ty output_ty) (\<lambda>spec.
     let lhs = reshape_if_needed a lhs_ty (mg_lhs_matrix_ty spec);
         rhs = reshape_if_needed b rhs_ty (mg_rhs_matrix_ty spec);
         grad' = reshape_if_needed grad output_ty (mg_grad_matrix_ty spec)
     in
     rbind (swap_last_two_type (mg_rhs_matrix_ty spec)) (\<lambda>rhs_t_ty.
     rbind (swap_last_two rhs (mg_rhs_matrix_ty spec)) (\<lambda>rhs_t.
     rbind (matmul_type (mg_grad_matrix_ty spec) rhs_t_ty) (\<lambda>lhs_grad_ty.
     rbind (demote_lhs_grad spec (call OpMatmul [grad', rhs_t]) lhs_grad_ty) (\<lambda>(lhs_grad, lhs_grad_ty').
     rbind (unbroadcast lhs_grad lhs_grad_ty' lhs_ty) (\<lambda>lhs_grad'.
     rbind (add_grad_to_expr a lhs_grad' st) (\<lambda>st1.
     rbind (swap_last_two_type (mg_lhs_matrix_ty spec)) (\<lambda>lhs_t_ty.
     rbind (swap_last_two lhs (mg_lhs_matrix_ty spec)) (\<lambda>lhs_t.
     rbind (matmul_type lhs_t_ty (mg_grad_matrix_ty spec)) (\<lambda>rhs_grad_ty.
     rbind (demote_rhs_grad spec (call OpMatmul [lhs_t, grad']) rhs_grad_ty) (\<lambda>(rhs_grad, rhs_grad_ty').
     rbind (unbroadcast rhs_grad rhs_grad_ty' rhs_ty) (\<lambda>rhs_grad'.
     add_grad_to_expr b rhs_grad' st1))))))))))))))))"

definition reverse_dot :: "expr list \<Rightarrow> expr \<Rightarrow> ad_state \<Rightarrow> ad_state result" where
  "reverse_dot args grad st =
     rbind (idx args 0) (\<lambda>a. rbind (idx args 1) (\<lambda>b.
     rbind (add_grad_to_expr a (binary Mul grad b) st)
       (add_grad_to_expr b (binary Mul grad a))))"

definition reverse_vecdot ::
    "expr list \<Rightarrow> tensor_type \<Rightarrow> nat option \<Rightarrow> expr \<Rightarrow> ad_state \<Rightarrow> ad_state result" where
  "reverse_vecdot args output_ty axis grad st =
     rbind (idx args 0) (\<lambda>a. rbind (ref_ty st a) (\<lambda>lhs_ty.
     rbind (usize_sub (rank lhs_ty) 1) (\<lambda>last_axis.
     let ax = AxisOne (case axis of Some x \<Rightarrow> x | None \<Rightarrow> last_axis) in
     rbind (expand_reduction_grad grad output_ty lhs_ty ax) (\<lambda>grad'.
     rbind (idx args 1) (\<lambda>b.
     rbind (add_grad_to_expr a (binary Mul grad' b) st)
       (add_grad_to_expr b (binary Mul grad' a)))))))"

definition reverse_inner_scalar ::
    "expr \<Rightarrow> expr \<Rightarrow> tensor_type \<Rightarrow> tensor_type \<Rightarrow> tensor_type \<Rightarrow> expr \<Rightarrow> ad_state \<Rightarrow> ad_state result" where
  "reverse_inner_scalar a b lhs_ty rhs_ty output_ty grad st =
     rbind (unbroadcast (binary Mul grad b) output_ty lhs_ty) (\<lambda>lhs_grad.
     rbind (unbroadcast (binary Mul grad a) output_ty rhs_ty) (\<lambda>rhs_grad.
     rbind (add_grad_to_expr a lhs_grad st) (add_grad_to_expr b rhs_grad)))"

definition reverse_inner_matrix ::
    "expr \<Rightarrow> expr \<Rightarrow> tensor_type \<Rightarrow> tensor_type \<Rightarrow> tensor_type \<Rightarrow> expr \<Rightarrow> ad_state \<Rightarrow> ad_state result" where
  "reverse_inner_matrix a b lhs_ty rhs_ty output_ty grad st =
     (let k = shape lhs_ty ! (rank lhs_ty - 1);
          lhs_prefix = element_count_slice (take (rank lhs_ty - 1) (shape lhs_ty));
          rhs_prefix = element_count_slice (take (rank rhs_ty - 1) (shape rhs_ty));
          lhs = call (OpReshape (tensor (elem lhs_ty) [lhs_prefix, k])) [a];
          rhs = call (OpReshape (tensor (elem lhs_ty) [rhs_prefix, k])) [b];
          grad' = reshape_if_needed grad output_ty (tensor (elem lhs_ty) [lhs_prefix, rhs_prefix]);
          lhs_grad = call (OpReshape lhs_ty) [call OpMatmul [grad', rhs]]
      in
      rbind (add_grad_to_expr a lhs_grad st) (\<lambda>st1.
      let grad_t = call (OpTranspose []) [grad'];
          rhs_grad = call (OpReshape rhs_ty) [call OpMatmul [grad_t, lhs]]
      in add_grad_to_expr b rhs_grad st1))"

definition reverse_inner ::
    "expr list \<Rightarrow> tensor_type \<Rightarrow> expr \<Rightarrow> ad_state \<Rightarrow> ad_state result" where
  "reverse_inner args output_ty grad st =
     rbind (idx args 0) (\<lambda>a. rbind (ref_ty st a) (\<lambda>lhs_ty.
     rbind (idx args 1) (\<lambda>b. rbind (ref_ty st b) (\<lambda>rhs_ty.
     if rank lhs_ty = 0 \<or> rank rhs_ty = 0
     then reverse_inner_scalar a b lhs_ty rhs_ty output_ty grad st
     else reverse_inner_matrix a b lhs_ty rhs_ty output_ty grad st))))"

definition reverse_outer ::
    "expr list \<Rightarrow> tensor_type \<Rightarrow> expr \<Rightarrow> ad_state \<Rightarrow> ad_state result" where
  "reverse_outer args output_ty grad st =
     rbind (idx args 0) (\<lambda>a. rbind (ref_ty st a) (\<lambda>lhs_ty.
     rbind (idx args 1) (\<lambda>b. rbind (ref_ty st b) (\<lambda>rhs_ty.
     let lhs_len = element_count_slice (shape lhs_ty);
         rhs_len = element_count_slice (shape rhs_ty);
         lhs_row = call (OpReshape (tensor (elem lhs_ty) [1, lhs_len])) [a];
         rhs_col = call (OpReshape (tensor (elem lhs_ty) [rhs_len, 1])) [b];
         grad' = reshape_if_needed grad output_ty (tensor (elem lhs_ty) [lhs_len, rhs_len]);
         lhs_grad = call (OpReshape lhs_ty) [call OpMatmul [grad', rhs_col]]
     in
     rbind (add_grad_to_expr a lhs_grad st) (\<lambda>st1.
     let rhs_grad = call (OpReshape rhs_ty) [call OpMatmul [lhs_row, grad']]
     in add_grad_to_expr b rhs_grad st1)))))"

definition reverse_trace ::
    "expr list \<Rightarrow> tensor_type \<Rightarrow> (nat \<times> nat) option \<Rightarrow> expr \<Rightarrow> ad_state \<Rightarrow> ad_state result" where
  "reverse_trace args output_ty axes grad st =
     rbind (idx args 0) (\<lambda>x. rbind (ref_ty st x) (\<lambda>in_ty.
     rbind (ad_default_axis_pair in_ty axes) (\<lambda>ax.
     let compact_ty = diagonal_compact_type in_ty ax;
         grad1 = call (OpReshape (tensor (elem in_ty) (shape output_ty @ [1, 1]))) [grad];
         grad2 = call (OpBroadcast compact_ty) [grad1];
         eye = diagonal_eye in_ty ax compact_ty;
         compact = binary Mul grad2 eye
     in
     rbind (permute_compact_diagonal compact in_ty ax) (\<lambda>g. add_grad_to_expr x g st))))"

definition reverse_diagonal ::
    "expr list \<Rightarrow> (nat \<times> nat) option \<Rightarrow> expr \<Rightarrow> ad_state \<Rightarrow> ad_state result" where
  "reverse_diagonal args axes grad st =
     rbind (idx args 0) (\<lambda>x. rbind (ref_ty st x) (\<lambda>in_ty.
     rbind (ad_default_axis_pair in_ty axes) (\<lambda>ax.
     let compact_ty = diagonal_compact_type in_ty ax;
         grad_shape = remove_axes_shape (shape in_ty) (fst ax) (snd ax) @ [shape in_ty ! fst ax, 1];
         grad1 = call (OpReshape (tensor (elem in_ty) grad_shape)) [grad];
         grad2 = call (OpBroadcast compact_ty) [grad1];
         eye = diagonal_eye in_ty ax compact_ty;
         compact = binary Mul grad2 eye
     in
     rbind (permute_compact_diagonal compact in_ty ax) (\<lambda>g. add_grad_to_expr x g st))))"

section \<open>Shapes and indices\<close>

definition reverse_broadcast ::
    "expr list \<Rightarrow> tensor_type \<Rightarrow> expr \<Rightarrow> ad_state \<Rightarrow> ad_state result" where
  "reverse_broadcast args output_ty grad st =
     rbind (idx args 0) (\<lambda>x. rbind (ref_ty st x) (\<lambda>in_ty.
     rbind (unbroadcast grad output_ty in_ty) (\<lambda>g. add_grad_to_expr x g st)))"

definition reverse_reshape :: "expr list \<Rightarrow> expr \<Rightarrow> ad_state \<Rightarrow> ad_state result" where
  "reverse_reshape args grad st = rbind (idx args 0) (\<lambda>x. add_reshape_grad_to_arg x grad st)"

definition reverse_pad :: "expr list \<Rightarrow> nat list \<Rightarrow> expr \<Rightarrow> ad_state \<Rightarrow> ad_state result" where
  "reverse_pad args lows grad st =
     rbind (idx args 0) (\<lambda>x. rbind (ref_ty st x) (\<lambda>in_ty.
     add_grad_to_expr x (call (OpSlice in_ty lows) [grad]) st))"

definition reverse_slice :: "expr list \<Rightarrow> nat list \<Rightarrow> expr \<Rightarrow> ad_state \<Rightarrow> ad_state result" where
  "reverse_slice args starts grad st =
     rbind (idx args 0) (\<lambda>x. rbind (ref_ty st x) (\<lambda>in_ty.
     add_grad_to_expr x (call (OpPad in_ty starts) [grad]) st))"

definition reverse_concat :: "expr list \<Rightarrow> nat \<Rightarrow> expr \<Rightarrow> ad_state \<Rightarrow> ad_state result" where
  "reverse_concat args axis grad st =
     rbind (idx args 0) (\<lambda>a. rbind (ref_ty st a) (\<lambda>lhs_ty.
     rbind (idx args 1) (\<lambda>b. rbind (ref_ty st b) (\<lambda>rhs_ty.
     rbind (idx (shape lhs_ty) axis) (\<lambda>dim.
     rbind (set_idx (replicate (rank rhs_ty) 0) axis dim) (\<lambda>rhs_starts.
     let lhs_grad = call (OpSlice lhs_ty (replicate (rank lhs_ty) 0)) [grad];
         rhs_grad = call (OpSlice rhs_ty rhs_starts) [grad]
     in rbind (add_grad_to_expr a lhs_grad st) (add_grad_to_expr b rhs_grad)))))))"

definition reverse_stack :: "expr list \<Rightarrow> nat \<Rightarrow> expr \<Rightarrow> ad_state \<Rightarrow> ad_state result" where
  "reverse_stack args axis grad st =
     rbind (idx args 0) (\<lambda>a.
     rbind (add_grad_to_expr a (call (OpTake axis 0) [grad]) st) (\<lambda>st1.
     rbind (idx args 1) (\<lambda>b. add_grad_to_expr b (call (OpTake axis 1) [grad]) st1)))"

definition reverse_take :: "expr list \<Rightarrow> nat \<Rightarrow> nat \<Rightarrow> expr \<Rightarrow> ad_state \<Rightarrow> ad_state result" where
  "reverse_take args axis index grad st =
     rbind (idx args 0) (\<lambda>x. rbind (ref_ty st x) (\<lambda>in_ty.
     rbind (set_idx (shape in_ty) axis 1) (\<lambda>expanded_shape.
     rbind (set_idx (replicate (rank in_ty) 0) axis index) (\<lambda>lows.
     let expanded = call (OpReshape (tensor (elem in_ty) expanded_shape)) [grad]
     in add_grad_to_expr x (call (OpPad in_ty lows) [expanded]) st))))"

text \<open>The slices of one axis of a tiled gradient, summed; then the loop over the axes, last first.\<close>

definition tile_slices :: "expr \<Rightarrow> tensor_type \<Rightarrow> nat \<Rightarrow> nat \<Rightarrow> nat \<Rightarrow> nat \<Rightarrow> expr option" where
  "tile_slices current slice_ty rk axis dim multiple =
     fold (\<lambda>index acc. push_sum acc
             (call (OpSlice slice_ty ((replicate rk 0)[axis := index * dim])) [current]))
       [0..<multiple] None"

fun tile_axes ::
    "tensor_type \<Rightarrow> (nat \<times> nat) list \<Rightarrow> expr \<Rightarrow> tensor_type \<Rightarrow> expr result" where
  "tile_axes in_ty [] current current_ty = Inr current"
| "tile_axes in_ty ((axis, multiple) # rest) current current_ty =
     (if multiple \<le> 1 then tile_axes in_ty rest current current_ty
      else
        rbind (idx (shape in_ty) axis) (\<lambda>dim.
        rbind (set_idx (shape current_ty) axis dim) (\<lambda>s.
        let slice_ty = tensor (elem current_ty) s in
        rbind (of_option (ReverseError AdEmptyTile)
                 (tile_slices current slice_ty (rank current_ty) axis dim multiple)) (\<lambda>acc.
        tile_axes in_ty rest acc slice_ty))))"

definition reverse_tile ::
    "expr list \<Rightarrow> tensor_type \<Rightarrow> nat list \<Rightarrow> expr \<Rightarrow> ad_state \<Rightarrow> ad_state result" where
  "reverse_tile args output_ty multiples grad st =
     rbind (idx args 0) (\<lambda>x. rbind (ref_ty st x) (\<lambda>in_ty.
     if 0 \<in> set multiples then add_grad_to_expr x (zeros_like x) st
     else
       rbind (tile_axes in_ty (rev (enumerate 0 multiples)) grad output_ty) (\<lambda>current.
       add_grad_to_expr x current st)))"

definition reverse_repeat :: "expr list \<Rightarrow> nat \<Rightarrow> nat \<Rightarrow> expr \<Rightarrow> ad_state \<Rightarrow> ad_state result" where
  "reverse_repeat args axis count grad st =
     rbind (idx args 0) (\<lambda>x. rbind (ref_ty st x) (\<lambda>in_ty.
     rbind (if count = 0 then Inr True else rbind (idx (shape in_ty) axis) (\<lambda>d. Inr (d = 0))) (\<lambda>empty.
     if empty then add_grad_to_expr x (zeros_like x) st
     else if count = 1 then add_grad_to_expr x grad st
     else
       rbind (vec_insert (axis + 1) count (shape in_ty)) (\<lambda>expanded_shape.
       if 6 < length expanded_shape then Inl (ReverseError AdRepeatRank)
       else
         let expanded = call (OpReshape (tensor (elem in_ty) expanded_shape)) [grad]
         in add_grad_to_expr x (call (OpSum (AxisOne (axis + 1))) [expanded]) st))))"

definition reverse_gather ::
    "expr list \<Rightarrow> tensor_type \<Rightarrow> nat \<Rightarrow> expr \<Rightarrow> ad_state \<Rightarrow> ad_state result" where
  "reverse_gather args output_ty axis grad st =
     rbind (idx args 0) (\<lambda>x. rbind (ref_ty st x) (\<lambda>in_ty.
     rbind (idx args 1) (\<lambda>indices. rbind (ref_ty st indices) (\<lambda>indices_ty.
     let reduce_axes = [axis..<axis + rank indices_ty] in
     rbind (indexed_axis_grad x indices indices_ty output_ty in_ty axis reduce_axes grad) (\<lambda>g.
     add_grad_to_expr x g st)))))"

definition reverse_take_along_axis ::
    "expr list \<Rightarrow> tensor_type \<Rightarrow> nat \<Rightarrow> expr \<Rightarrow> ad_state \<Rightarrow> ad_state result" where
  "reverse_take_along_axis args output_ty axis grad st =
     rbind (idx args 0) (\<lambda>x. rbind (ref_ty st x) (\<lambda>in_ty.
     rbind (idx args 1) (\<lambda>indices. rbind (ref_ty st indices) (\<lambda>indices_ty.
     rbind (take_along_axis_unit_grad indices indices_ty output_ty in_ty axis grad) (\<lambda>unit_grad.
     rbind (case unit_grad of
              Some g \<Rightarrow> Inr g
            | None \<Rightarrow> indexed_axis_grad x indices indices_ty output_ty in_ty axis [axis] grad) (\<lambda>g.
     add_grad_to_expr x g st))))))"

definition reverse_transpose :: "expr list \<Rightarrow> nat list \<Rightarrow> expr \<Rightarrow> ad_state \<Rightarrow> ad_state result" where
  "reverse_transpose args axes grad st =
     rbind (idx args 0) (\<lambda>x. rbind (ref_ty st x) (\<lambda>in_ty.
     rbind (inverse_permutation (default_axes in_ty axes)) (\<lambda>inverse_axes.
     add_grad_to_expr x (call (OpTranspose inverse_axes) [grad]) st)))"

definition reverse_permute :: "expr list \<Rightarrow> nat list \<Rightarrow> expr \<Rightarrow> ad_state \<Rightarrow> ad_state result" where
  "reverse_permute args axes grad st =
     rbind (inverse_permutation axes) (\<lambda>inverse_axes.
     rbind (idx args 0) (\<lambda>x. add_grad_to_expr x (call (OpPermuteDims inverse_axes) [grad]) st))"

text \<open>The rules that apply one operation to the gradient: \<open>swapaxes\<close>, \<open>moveaxis\<close> and \<open>flip\<close>.\<close>

definition reverse_moved :: "call_op \<Rightarrow> expr list \<Rightarrow> expr \<Rightarrow> ad_state \<Rightarrow> ad_state result" where
  "reverse_moved op args grad st =
     rbind (idx args 0) (\<lambda>x. add_grad_to_expr x (call op [grad]) st)"

definition reverse_roll :: "expr list \<Rightarrow> nat \<Rightarrow> nat \<Rightarrow> expr \<Rightarrow> ad_state \<Rightarrow> ad_state result" where
  "reverse_roll args axis shift grad st =
     rbind (idx args 0) (\<lambda>x. rbind (ref_ty st x) (\<lambda>in_ty.
     rbind (idx (shape in_ty) axis) (\<lambda>dim.
     let reverse_shift = (if dim = 0 then 0 else (dim - shift mod dim) mod dim)
     in add_grad_to_expr x (call (OpRoll axis reverse_shift) [grad]) st)))"

definition reverse_full_like ::
    "expr list \<Rightarrow> tensor_type \<Rightarrow> expr \<Rightarrow> ad_state \<Rightarrow> ad_state result" where
  "reverse_full_like args output_ty grad st =
     rbind (idx args 1) (\<lambda>b. rbind (ref_ty st b) (\<lambda>fill_ty.
     rbind (unbroadcast grad output_ty fill_ty) (\<lambda>g. add_grad_to_expr b g st)))"

section \<open>Pooling and convolution\<close>

text \<open>
  The nested loops push one padded contribution per window tap that lies in the input.  \<open>taps\<close>
  lists the taps of one output position in loop order; \<open>push_all\<close> folds the contributions.
  Shapes are indexed up to 3, so a lower rank panics before the loops.
\<close>

definition taps ::
    "nat \<times> nat \<Rightarrow> (nat \<Rightarrow> nat \<Rightarrow> (nat \<times> nat) option) \<Rightarrow> nat \<Rightarrow> nat \<Rightarrow> (nat \<times> nat) list" where
  "taps kern position_of h w =
     concat (map (\<lambda>kh. concat (map (\<lambda>kw.
       case position_of kh kw of
         Some (ih, iw) \<Rightarrow> (if h \<le> ih \<or> w \<le> iw then [] else [(ih, iw)])
       | None \<Rightarrow> []) [0..<snd kern])) [0..<fst kern])"

definition push_all :: "expr list \<Rightarrow> expr option" where
  "push_all pieces = fold (\<lambda>e acc. push_sum acc e) pieces None"

definition positions :: "nat \<Rightarrow> nat \<Rightarrow> (nat \<times> nat) list" where
  "positions h w = concat (map (\<lambda>oh. map (\<lambda>ow. (oh, ow)) [0..<w]) [0..<h])"

definition rank4 :: "tensor_type \<Rightarrow> unit result" where
  "rank4 t = check (3 < rank t) (Panic IndexOutOfBounds)"

definition or_zeros :: "expr option \<Rightarrow> expr \<Rightarrow> expr" where
  "or_zeros acc arg = (case acc of Some e \<Rightarrow> e | None \<Rightarrow> zeros_like arg)"

definition avg_pool_pieces ::
    "tensor_type \<Rightarrow> tensor_type \<Rightarrow> pool2d_options \<Rightarrow> expr \<Rightarrow> expr list" where
  "avg_pool_pieces in_ty output_ty options grad =
     (let scale = count_const (fst (pool_kernel options) * snd (pool_kernel options)) (elem in_ty) in
      concat (map (\<lambda>(oh, ow).
        let grad_unit = binary Div (pool_output_unit grad output_ty oh ow) scale in
        map (\<lambda>(ih, iw). pad_pool_unit_to_input grad_unit in_ty ih iw)
          (taps (pool_kernel options) (pool_input_position options oh ow)
             (shape in_ty ! 1) (shape in_ty ! 2)))
        (positions (shape output_ty ! 1) (shape output_ty ! 2))))"

definition reverse_avg_pool2d ::
    "expr list \<Rightarrow> pool2d_options \<Rightarrow> expr \<Rightarrow> ad_state \<Rightarrow> ad_state result" where
  "reverse_avg_pool2d args options grad st =
     rbind (idx args 0) (\<lambda>x. rbind (ref_ty st x) (\<lambda>in_ty.
     rbind (single_call_type (OpAvgPool2d options) [in_ty]) (\<lambda>output_ty.
     add_grad_to_expr x (or_zeros (push_all (avg_pool_pieces in_ty output_ty options grad)) x) st)))"

definition max_pool_pieces ::
    "expr \<Rightarrow> expr \<Rightarrow> tensor_type \<Rightarrow> tensor_type \<Rightarrow> pool2d_options \<Rightarrow> expr \<Rightarrow> expr list" where
  "max_pool_pieces x out in_ty output_ty options grad =
     concat (map (\<lambda>(oh, ow).
       let grad_unit = pool_output_unit grad output_ty oh ow;
           output_unit = pool_output_unit out output_ty oh ow
       in
       map (\<lambda>(ih, iw).
         let input_unit = call (OpSlice (pool_unit_type in_ty) [0, ih, iw, 0]) [x];
             masked = mask_grad (call OpEqual [input_unit, output_unit]) grad_unit
         in pad_pool_unit_to_input masked in_ty ih iw)
         (taps (pool_kernel options) (pool_input_position options oh ow)
            (shape in_ty ! 1) (shape in_ty ! 2)))
       (positions (shape output_ty ! 1) (shape output_ty ! 2)))"

definition reverse_max_pool2d ::
    "expr list \<Rightarrow> expr \<Rightarrow> tensor_type \<Rightarrow> pool2d_options \<Rightarrow> expr \<Rightarrow> ad_state \<Rightarrow> ad_state result" where
  "reverse_max_pool2d args out output_ty options grad st =
     rbind (idx args 0) (\<lambda>x. rbind (ref_ty st x) (\<lambda>in_ty.
     rbind (rank4 in_ty) (\<lambda>_. rbind (rank4 output_ty) (\<lambda>_.
     add_grad_to_expr x
       (or_zeros (push_all (max_pool_pieces x out in_ty output_ty options grad)) x) st))))"

text \<open>
  The convolution pushes an input piece and a kernel piece for every group, kernel tap, output
  position and channel of the group; \<open>conv_taps\<close> lists the loop indices
  \<open>(group, kh, kw, oh, ow, ih, iw, local_ic)\<close> in loop order.
\<close>

definition conv_taps ::
    "tensor_type \<Rightarrow> tensor_type \<Rightarrow> tensor_type \<Rightarrow> conv2d_options \<Rightarrow> nat
      \<Rightarrow> (nat \<times> nat \<times> nat \<times> nat \<times> nat \<times> nat \<times> nat \<times> nat) list" where
  "conv_taps in_ty kernel_ty output_ty options channels_per_group =
     concat (map (\<lambda>group.
       concat (map (\<lambda>(kh, kw).
         concat (map (\<lambda>(oh, ow).
           case conv_input_position options oh ow kh kw of
             None \<Rightarrow> []
           | Some (ih, iw) \<Rightarrow>
               (if shape in_ty ! 1 \<le> ih \<or> shape in_ty ! 2 \<le> iw then []
                else map (\<lambda>local_ic. (group, kh, kw, oh, ow, ih, iw, local_ic))
                       [0..<channels_per_group]))
           (positions (shape output_ty ! 1) (shape output_ty ! 2))))
         (positions (shape kernel_ty ! 0) (shape kernel_ty ! 1))))
       [0..<conv_groups options])"

definition conv_input_piece ::
    "expr \<Rightarrow> expr \<Rightarrow> tensor_type \<Rightarrow> tensor_type \<Rightarrow> tensor_type \<Rightarrow> nat \<Rightarrow> nat
      \<Rightarrow> nat \<times> nat \<times> nat \<times> nat \<times> nat \<times> nat \<times> nat \<times> nat \<Rightarrow> expr" where
  "conv_input_piece kern grad in_ty kernel_ty output_ty icpg ocpg =
     (\<lambda>(group, kh, kw, oh, ow, ih, iw, local_ic).
       let output_channel_start = group * ocpg;
           input_channel = group * icpg + local_ic;
           grad_block = conv_output_channel_block grad output_ty oh ow output_channel_start ocpg;
           kernel_block =
             conv_kernel_output_block kern kernel_ty kh kw local_ic output_channel_start ocpg;
           piece = call (OpSum (AxisOne 3)) [binary Mul grad_block kernel_block];
           piece' = call (OpReshape (conv_input_unit_type in_ty)) [piece]
       in call (OpPad in_ty [0, ih, iw, input_channel]) [piece'])"

definition conv_kernel_piece ::
    "expr \<Rightarrow> expr \<Rightarrow> tensor_type \<Rightarrow> tensor_type \<Rightarrow> tensor_type \<Rightarrow> nat \<Rightarrow> nat
      \<Rightarrow> nat \<times> nat \<times> nat \<times> nat \<times> nat \<times> nat \<times> nat \<times> nat \<Rightarrow> expr" where
  "conv_kernel_piece inp grad in_ty kernel_ty output_ty icpg ocpg =
     (\<lambda>(group, kh, kw, oh, ow, ih, iw, local_ic).
       let output_channel_start = group * ocpg;
           input_channel = group * icpg + local_ic;
           grad_block = conv_output_channel_block grad output_ty oh ow output_channel_start ocpg;
           input_unit = conv_input_unit inp in_ty ih iw input_channel;
           piece = sum_axes [2, 1, 0] (binary Mul input_unit grad_block);
           piece' = call (OpReshape (tensor (elem kernel_ty) [1, 1, 1, ocpg])) [piece]
       in call (OpPad kernel_ty [kh, kw, local_ic, output_channel_start]) [piece'])"

definition reverse_conv2d ::
    "expr list \<Rightarrow> tensor_type \<Rightarrow> conv2d_options \<Rightarrow> expr \<Rightarrow> ad_state \<Rightarrow> ad_state result" where
  "reverse_conv2d args output_ty options grad st =
     rbind (idx args 0) (\<lambda>x. rbind (ref_ty st x) (\<lambda>in_ty.
     rbind (idx args 1) (\<lambda>w. rbind (ref_ty st w) (\<lambda>kernel_ty.
     rbind (rank4 in_ty) (\<lambda>_. rbind (rank4 kernel_ty) (\<lambda>_. rbind (rank4 output_ty) (\<lambda>_.
     let icpg = shape in_ty ! 3 div conv_groups options;
         ocpg = shape kernel_ty ! 3 div conv_groups options;
         ts = conv_taps in_ty kernel_ty output_ty options icpg;
         input_acc = push_all (map (conv_input_piece w grad in_ty kernel_ty output_ty icpg ocpg) ts);
         kernel_acc = push_all (map (conv_kernel_piece x grad in_ty kernel_ty output_ty icpg ocpg) ts)
     in
     rbind (add_grad_to_expr x (or_zeros input_acc x) st)
       (add_grad_to_expr w (or_zeros kernel_acc w)))))))))"

section \<open>Dispatch\<close>

definition unsupported :: "ad_state result" where
  "unsupported = Inl (ReverseError AdUnsupported)"

primrec reverse_op ::
    "call_op \<Rightarrow> expr list \<Rightarrow> expr \<Rightarrow> tensor_type \<Rightarrow> expr \<Rightarrow> ad_state \<Rightarrow> ad_state result" where
  "reverse_op OpAbs args out ty grad st = reverse_scaled abs_local args grad st"
| "reverse_op OpExp args out ty grad st = reverse_scaled (\<lambda>x. out) args grad st"
| "reverse_op OpExp2 args out ty grad st = reverse_scaled (\<lambda>x. exp2_local out (elem ty)) args grad st"
| "reverse_op OpExpM1 args out ty grad st = reverse_scaled (\<lambda>x. expm1_local out (elem ty)) args grad st"
| "reverse_op OpLog args out ty grad st = reverse_divided (\<lambda>x. x) args grad st"
| "reverse_op OpLog1P args out ty grad st = reverse_divided (\<lambda>x. log1p_denom x (elem ty)) args grad st"
| "reverse_op OpLog2 args out ty grad st = reverse_divided (\<lambda>x. log2_denom x (elem ty)) args grad st"
| "reverse_op OpLog10 args out ty grad st = reverse_divided (\<lambda>x. log10_denom x (elem ty)) args grad st"
| "reverse_op OpSin args out ty grad st = reverse_scaled sin_local args grad st"
| "reverse_op OpCos args out ty grad st = reverse_scaled cos_local args grad st"
| "reverse_op OpTan args out ty grad st = reverse_scaled (\<lambda>x. tan_local out) args grad st"
| "reverse_op OpTanh args out ty grad st = reverse_scaled (\<lambda>x. tanh_local out) args grad st"
| "reverse_op OpRelu args out ty grad st = reverse_relu args grad st"
| "reverse_op OpSigmoid args out ty grad st = reverse_scaled (\<lambda>x. sigmoid_local out) args grad st"
| "reverse_op OpSquare args out ty grad st = reverse_scaled (\<lambda>x. square_local x (elem ty)) args grad st"
| "reverse_op OpReciprocal args out ty grad st = reverse_scaled (\<lambda>x. reciprocal_local out) args grad st"
| "reverse_op OpSqrt args out ty grad st = reverse_divided (\<lambda>x. sqrt_denom out (elem ty)) args grad st"
| "reverse_op OpPow args out ty grad st = reverse_pow args out ty grad st"
| "reverse_op OpMinimum args out ty grad st = reverse_minimum_maximum args ty grad False st"
| "reverse_op OpMaximum args out ty grad st = reverse_minimum_maximum args ty grad True st"
| "reverse_op OpClip args out ty grad st = reverse_clip args ty grad st"
| "reverse_op OpWhere args out ty grad st = reverse_where args ty grad st"
| "reverse_op (OpSum axis) args out ty grad st = reverse_sum args ty axis grad st"
| "reverse_op (OpProd axis) args out ty grad st = reverse_prod args out ty axis grad st"
| "reverse_op (OpMean axis) args out ty grad st = reverse_mean args ty axis grad st"
| "reverse_op (OpMax axis) args out ty grad st = reverse_extremum args out ty axis grad st"
| "reverse_op (OpMin axis) args out ty grad st = reverse_extremum args out ty axis grad st"
| "reverse_op (OpVar axis) args out ty grad st = reverse_var args ty axis grad st"
| "reverse_op (OpStd axis) args out ty grad st = reverse_std args out ty axis grad st"
| "reverse_op (OpPtp axis) args out ty grad st = reverse_ptp args ty axis grad st"
| "reverse_op (OpSoftmax axis) args out ty grad st = reverse_softmax args out axis grad st"
| "reverse_op OpMatmul args out ty grad st = reverse_matmul args ty grad st"
| "reverse_op OpDot args out ty grad st = reverse_dot args grad st"
| "reverse_op (OpVecdot axis) args out ty grad st = reverse_vecdot args ty axis grad st"
| "reverse_op OpInner args out ty grad st = reverse_inner args ty grad st"
| "reverse_op OpOuter args out ty grad st = reverse_outer args ty grad st"
| "reverse_op (OpTrace axes) args out ty grad st = reverse_trace args ty axes grad st"
| "reverse_op (OpDiagonal axes) args out ty grad st = reverse_diagonal args axes grad st"
| "reverse_op (OpReshape t) args out ty grad st = reverse_reshape args grad st"
| "reverse_op (OpSqueeze t) args out ty grad st = reverse_reshape args grad st"
| "reverse_op (OpUnsqueeze t) args out ty grad st = reverse_reshape args grad st"
| "reverse_op (OpBroadcast t) args out ty grad st = reverse_broadcast args ty grad st"
| "reverse_op (OpPad t lows) args out ty grad st = reverse_pad args lows grad st"
| "reverse_op (OpSlice t starts) args out ty grad st = reverse_slice args starts grad st"
| "reverse_op (OpConcat axis) args out ty grad st = reverse_concat args axis grad st"
| "reverse_op (OpStack axis) args out ty grad st = reverse_stack args axis grad st"
| "reverse_op (OpTake axis index) args out ty grad st = reverse_take args axis index grad st"
| "reverse_op (OpTile multiples) args out ty grad st = reverse_tile args ty multiples grad st"
| "reverse_op (OpRepeat axis count) args out ty grad st = reverse_repeat args axis count grad st"
| "reverse_op (OpGather t axis) args out ty grad st = reverse_gather args ty axis grad st"
| "reverse_op (OpTakeAlongAxis axis) args out ty grad st = reverse_take_along_axis args ty axis grad st"
| "reverse_op (OpAvgPool2d options) args out ty grad st = reverse_avg_pool2d args options grad st"
| "reverse_op (OpMaxPool2d options) args out ty grad st = reverse_max_pool2d args out ty options grad st"
| "reverse_op (OpConv2d options) args out ty grad st = reverse_conv2d args ty options grad st"
| "reverse_op (OpTranspose axes) args out ty grad st = reverse_transpose args axes grad st"
| "reverse_op (OpSwapAxes axis0 axis1) args out ty grad st = reverse_moved (OpSwapAxes axis0 axis1) args grad st"
| "reverse_op (OpMoveAxis source destination) args out ty grad st =
     reverse_moved (OpMoveAxis destination source) args grad st"
| "reverse_op (OpPermuteDims axes) args out ty grad st = reverse_permute args axes grad st"
| "reverse_op (OpPermute t axes) args out ty grad st = reverse_permute args axes grad st"
| "reverse_op (OpFlip axes) args out ty grad st = reverse_moved (OpFlip axes) args grad st"
| "reverse_op (OpRoll axis shift) args out ty grad st = reverse_roll args axis shift grad st"
| "reverse_op OpFullLike args out ty grad st = reverse_full_like args ty grad st"
| "reverse_op (OpAll x0) args out ty grad st = unsupported"
| "reverse_op (OpArgmax x0) args out ty grad st = unsupported"
| "reverse_op (OpArgmin x0) args out ty grad st = unsupported"
| "reverse_op (OpAny x0) args out ty grad st = unsupported"
| "reverse_op OpCeil args out ty grad st = unsupported"
| "reverse_op OpDetach args out ty grad st = unsupported"
| "reverse_op OpEqual args out ty grad st = unsupported"
| "reverse_op (OpEye x0) args out ty grad st = unsupported"
| "reverse_op OpFloor args out ty grad st = unsupported"
| "reverse_op OpGreater args out ty grad st = unsupported"
| "reverse_op OpGreaterEqual args out ty grad st = unsupported"
| "reverse_op OpIsNan args out ty grad st = unsupported"
| "reverse_op OpLess args out ty grad st = unsupported"
| "reverse_op OpLessEqual args out ty grad st = unsupported"
| "reverse_op (OpArange x0) args out ty grad st = unsupported"
| "reverse_op (OpLinspace x0) args out ty grad st = unsupported"
| "reverse_op (OpRandomUniform x0) args out ty grad st = unsupported"
| "reverse_op (OpRandomInt x0) args out ty grad st = unsupported"
| "reverse_op (OpStaticRandomUniform x0 x1) args out ty grad st = unsupported"
| "reverse_op (OpStaticRandomInt x0 x1) args out ty grad st = unsupported"
| "reverse_op OpLogicalAnd args out ty grad st = unsupported"
| "reverse_op OpLogicalNot args out ty grad st = unsupported"
| "reverse_op OpLogicalOr args out ty grad st = unsupported"
| "reverse_op OpLogicalXor args out ty grad st = unsupported"
| "reverse_op OpNotEqual args out ty grad st = unsupported"
| "reverse_op OpRint args out ty grad st = unsupported"
| "reverse_op OpRound args out ty grad st = unsupported"
| "reverse_op (OpSplit x0 x1) args out ty grad st = unsupported"
| "reverse_op OpOnesLike args out ty grad st = unsupported"
| "reverse_op OpZerosLike args out ty grad st = unsupported"
| "reverse_op (OpGraph x0) args out ty grad st = unsupported"

definition reverse_call ::
    "node \<Rightarrow> call_op \<Rightarrow> expr list \<Rightarrow> expr \<Rightarrow> ad_state \<Rightarrow> ad_state result" where
  "reverse_call nd op args grad st =
     (if call_stops_gradient op (node_ty nd) then Inr st
      else reverse_op op args (EVar (node_name nd)) (node_ty nd) grad st)"

definition reverse_node :: "node \<Rightarrow> expr \<Rightarrow> ad_state \<Rightarrow> ad_state result" where
  "reverse_node nd grad st =
     (case node_expr nd of
        EVar name \<Rightarrow> add_grad name grad st
      | EConst v e \<Rightarrow> Inr st
      | EUnary uop value \<Rightarrow> add_grad_to_expr value (neg grad) st
      | EBinary op lhs rhs \<Rightarrow> reverse_binary op lhs rhs (node_ty nd) grad st
      | ECall op args \<Rightarrow> reverse_call nd op args grad st
      | ENode node_id v \<Rightarrow> Inl (ReverseError AdNotFlattened)
      | ETupleGet tuple_id v index \<Rightarrow> Inl (ReverseError AdNotFlattened))"

end
