(* ===== verification/Autograd.thy ===== *)
theory Autograd
  imports Autograd_Structured
begin

text \<open>
  \<^verbatim>\<open>crates/knok-core/src/autograd/mod.rs\<close>: \<open>ValueAndGradBuilder::new\<close> and \<open>build\<close>, and the two
  entry points \<open>value_and_grad_graph\<close> and \<open>value_and_grad_graph_with_registry\<close>.
\<close>

text \<open>
  \<^verbatim>\<open>crates/knok-core/src/autograd/mod.rs\<close>: the flattening pass.  It walks the typed graph, inlines
  the graph calls that the registry resolves, infers every type again, and binds each operation to
  a name of its own, so that the operands of every forward node are names or constants.

  Inlining ends because a graph on the inline stack is not entered again: the measure of the
  recursion is the number of registered graphs off the stack, then the size of the expression.
\<close>

section \<open>Scopes and loops without recursion\<close>

type_synonym flat = "expr \<times> tensor_type"
type_synonym scope = "string \<Rightarrow> flat option"
type_synonym registry = "(string \<times> typed_graph) list"

datatype multi_kind = MSplit nat "nat list" | MRandom | MGraph string

definition multi_output_kind :: "call_op \<Rightarrow> multi_kind option" where
  "multi_output_kind op =
     (case op of
        OpSplit axis sections \<Rightarrow> Some (MSplit axis sections)
      | OpRandomUniform t \<Rightarrow> Some MRandom
      | OpRandomInt t \<Rightarrow> Some MRandom
      | OpGraph name \<Rightarrow> Some (MGraph name)
      | _ \<Rightarrow> None)"

definition flatten_var :: "scope \<Rightarrow> string \<Rightarrow> ad_state \<Rightarrow> flat result" where
  "flatten_var scope name st =
     (case scope name of
        Some bound \<Rightarrow> Inr bound
      | None \<Rightarrow>
          rbind (of_option (FlattenError AdUnknownValue) (ad_env st name)) (\<lambda>ty.
          Inr (EVar name, ty)))"

definition bind_typed :: "expr \<Rightarrow> tensor_type \<Rightarrow> ad_state \<Rightarrow> (flat \<times> ad_state) result" where
  "bind_typed e ty st = (let (v, st') = bind_forward_auto e ty st in Inr ((v, ty), st'))"

text \<open>The closure of \<open>flatten_split_outputs\<close>, with the running \<open>offset\<close>.\<close>

fun split_pieces ::
    "expr \<Rightarrow> nat \<Rightarrow> nat \<Rightarrow> nat \<Rightarrow> tensor_type list \<Rightarrow> ad_state \<Rightarrow> (flat list \<times> ad_state) result" where
  "split_pieces inp rk axis offset [] st = Inr ([], st)"
| "split_pieces inp rk axis offset (ty # tys) st =
     rbind (set_idx (replicate rk 0) axis offset) (\<lambda>starts.
     rbind (idx (shape ty) axis) (\<lambda>dim.
     rbind (bind_typed (call (OpSlice ty starts) [inp]) ty st) (\<lambda>(piece, st1).
     rbind (split_pieces inp rk axis (offset + dim) tys st1) (\<lambda>(pieces, st2).
     Inr (piece # pieces, st2)))))"

definition finish_call :: "call_op \<Rightarrow> flat list \<Rightarrow> ad_state \<Rightarrow> (flat \<times> ad_state) result" where
  "finish_call op flats st =
     rbind (infer_call_results op (map snd flats)) (\<lambda>results.
     if length results \<noteq> 1 then Inl (FlattenError AdMultiOutputCall)
     else bind_typed (ECall op (map fst flats)) (hd results) st)"

definition finish_multi_output :: "call_op \<Rightarrow> flat list \<Rightarrow> ad_state \<Rightarrow> (flat list \<times> ad_state) result" where
  "finish_multi_output op flats st =
     rbind (infer_call_results op (map snd flats)) (\<lambda>tys.
     if length tys \<le> 1 then Inl (FlattenError AdNotMultiOutput)
     else Inr (bind_forward_outputs_auto (ECall op (map fst flats)) tys st))"

fun bind_scope ::
    "error \<Rightarrow> string list \<Rightarrow> tensor_type list \<Rightarrow> flat list \<Rightarrow> scope \<Rightarrow> scope result" where
  "bind_scope err (name # names) (expected # tys) ((e, ty) # outs) scope =
     (if ty \<noteq> expected then Inl err else bind_scope err names tys outs (scope(name \<mapsto> (e, ty))))"
| "bind_scope err _ _ _ scope = Inr scope"

definition empty_scope :: scope where
  "empty_scope = Map.empty"

text \<open>The registered graphs off the stack.\<close>

definition off_stack :: "registry \<Rightarrow> string list \<Rightarrow> nat" where
  "off_stack reg stack = card (fst ` set reg - set stack)"

lemma off_stack_Cons:
  "name \<notin> set stack \<Longrightarrow> map_of reg name = Some g \<Longrightarrow> off_stack reg (name # stack) < off_stack reg stack"
  unfolding off_stack_def
proof (rule psubset_card_mono)
  assume name: "name \<notin> set stack" and "map_of reg name = Some g"
  then have "name \<in> fst ` set reg" by (auto dest: map_of_SomeD intro: rev_image_eqI)
  with name show "fst ` set reg - set (name # stack) \<subset> fst ` set reg - set stack" by force
qed simp

abbreviation lets_size :: "typed_let list \<Rightarrow> nat" where
  "lets_size bs \<equiv> size_list (\<lambda>b. size (value_kind (tlet_value b))) bs"

section \<open>Expressions\<close>

function (sequential)
    flatten_expr ::
      "registry \<Rightarrow> string list \<Rightarrow> scope \<Rightarrow> expr \<Rightarrow> ad_state \<Rightarrow> (flat \<times> ad_state) result"
  and flatten_outputs ::
      "registry \<Rightarrow> string list \<Rightarrow> scope \<Rightarrow> expr \<Rightarrow> ad_state \<Rightarrow> (flat list \<times> ad_state) result"
  and flatten_multi ::
      "registry \<Rightarrow> string list \<Rightarrow> scope \<Rightarrow> multi_kind \<Rightarrow> call_op \<Rightarrow> expr list \<Rightarrow> ad_state
        \<Rightarrow> (flat list \<times> ad_state) result"
  and flatten_args ::
      "registry \<Rightarrow> string list \<Rightarrow> scope \<Rightarrow> expr list \<Rightarrow> ad_state \<Rightarrow> (flat list \<times> ad_state) result"
  and flatten_graph_args ::
      "registry \<Rightarrow> string list \<Rightarrow> scope \<Rightarrow> input list \<Rightarrow> expr list \<Rightarrow> scope \<Rightarrow> ad_state
        \<Rightarrow> (scope \<times> ad_state) result"
  and flatten_graph_lets ::
      "registry \<Rightarrow> string list \<Rightarrow> scope \<Rightarrow> typed_let list \<Rightarrow> ad_state \<Rightarrow> (scope \<times> ad_state) result"
  and flatten_graph ::
      "registry \<Rightarrow> string list \<Rightarrow> scope \<Rightarrow> string \<Rightarrow> expr list \<Rightarrow> ad_state
        \<Rightarrow> (flat list \<times> ad_state) result"
where
  "flatten_expr reg stack scope (EVar name) st =
     rbind (flatten_var scope name st) (\<lambda>flat. Inr (flat, st))"
| "flatten_expr reg stack scope (EConst v e) st = Inr ((EConst v e, tensor e []), st)"
| "flatten_expr reg stack scope (EUnary uop v) st =
     rbind (flatten_expr reg stack scope v st) (\<lambda>((v', ty), st1).
     bind_typed (EUnary uop v') ty st1)"
| "flatten_expr reg stack scope (EBinary bop l r) st =
     rbind (flatten_expr reg stack scope l st) (\<lambda>((l', lhs_ty), st1).
     rbind (flatten_expr reg stack scope r st1) (\<lambda>((r', rhs_ty), st2).
     rbind (elementwise_type lhs_ty rhs_ty) (\<lambda>ty.
     bind_typed (EBinary bop l' r') ty st2)))"
| "flatten_expr reg stack scope (ENode node_id v) st = flatten_expr reg stack scope v st"
| "flatten_expr reg stack scope (ETupleGet tuple_id v index) st =
     rbind (flatten_outputs reg stack scope v st) (\<lambda>(outputs, st1).
     if index < length outputs then Inr (outputs ! index, st1) else Inl (FlattenError AdTupleIndex))"
| "flatten_expr reg stack scope (ECall op args) st =
     (case multi_output_kind op of
        Some kind \<Rightarrow>
          rbind (flatten_multi reg stack scope kind op args st) (\<lambda>(outputs, st1).
          if length outputs = 1 then Inr (hd outputs, st1) else Inl (FlattenError AdMultiOutputCall))
      | None \<Rightarrow>
          rbind (flatten_args reg stack scope args st) (\<lambda>(flats, st1). finish_call op flats st1))"
| "flatten_outputs reg stack scope (ENode node_id v) st = flatten_outputs reg stack scope v st"
| "flatten_outputs reg stack scope (ECall op args) st =
     (case multi_output_kind op of
        Some kind \<Rightarrow> flatten_multi reg stack scope kind op args st
      | None \<Rightarrow>
          rbind (flatten_expr reg stack scope (ECall op args) st) (\<lambda>(flat, st1). Inr ([flat], st1)))"
| "flatten_outputs reg stack scope e st =
     rbind (flatten_expr reg stack scope e st) (\<lambda>(flat, st1). Inr ([flat], st1))"
| "flatten_multi reg stack scope kind op args st =
     (case kind of
        MSplit axis sections \<Rightarrow>
          (case args of
             [arg] \<Rightarrow>
               rbind (flatten_expr reg stack scope arg st) (\<lambda>((inp, in_ty), st1).
               rbind (infer_call_results (OpSplit axis sections) [in_ty]) (\<lambda>tys.
               split_pieces inp (rank in_ty) axis 0 tys st1))
           | _ \<Rightarrow> Inl (FlattenError AdSplitArity))
      | MRandom \<Rightarrow>
          rbind (flatten_args reg stack scope args st) (\<lambda>(flats, st1).
          finish_multi_output op flats st1)
      | MGraph name \<Rightarrow> flatten_graph reg stack scope name args st)"
| "flatten_args reg stack scope [] st = Inr ([], st)"
| "flatten_args reg stack scope (arg # args) st =
     rbind (flatten_expr reg stack scope arg st) (\<lambda>(flat, st1).
     rbind (flatten_args reg stack scope args st1) (\<lambda>(flats, st2). Inr (flat # flats, st2)))"
| "flatten_graph_args reg stack scope (inp # inps) (arg # args) local st =
     rbind (flatten_expr reg stack scope arg st) (\<lambda>((e, ty), st1).
     if ty \<noteq> input_ty inp then Inl (InlineError AdGraphArgument)
     else flatten_graph_args reg stack scope inps args (local(input_name inp \<mapsto> (e, ty))) st1)"
| "flatten_graph_args reg stack scope _ _ local st = Inr (local, st)"
| "flatten_graph_lets reg stack local [] st = Inr (local, st)"
| "flatten_graph_lets reg stack local (b # bs) st =
     rbind (flatten_outputs reg stack local (value_kind (tlet_value b)) st) (\<lambda>(outputs, st1).
     if length outputs \<noteq> length (tlet_names b) \<or>
        length outputs \<noteq> length (value_tys (tlet_value b))
     then Inl (InlineError AdGraphLetArity)
     else
       rbind (bind_scope (InlineError AdGraphLetType) (tlet_names b) (value_tys (tlet_value b))
                outputs local) (\<lambda>local1.
       flatten_graph_lets reg stack local1 bs st1))"
| "flatten_graph reg stack scope name args st =
     (if name \<in> set stack then Inl (InlineError AdRecursiveGraph)
      else case map_of reg name of
        None \<Rightarrow> Inl (InlineError AdUnresolvedGraph)
      | Some g \<Rightarrow>
          if length (tg_inputs g) \<noteq> length args then Inl (InlineError AdGraphArity)
          else
            rbind (flatten_graph_args reg (name # stack) scope (tg_inputs g) args empty_scope st)
              (\<lambda>(local, st1).
            rbind (flatten_graph_lets reg (name # stack) local (tg_lets g) st1) (\<lambda>(local1, st2).
            rbind (flatten_args reg (name # stack) local1 (map expr_kind (tg_body g)) st2)
              (\<lambda>(outputs, st3).
            if length outputs \<noteq> length (tg_outputs g) then Inl (InlineError AdGraphOutputArity)
            else if map snd outputs \<noteq> tg_outputs g then Inl (InlineError AdGraphOutputType)
            else Inr (outputs, st3)))))"
  by pat_completeness auto

termination
  by (relation "inv_image (less_than <*lex*> less_than) (\<lambda>x. case x of
       Inl (Inl (reg, stack, scope, e, st)) \<Rightarrow> (off_stack reg stack, 3 * size e + 1)
     | Inl (Inr (Inl (reg, stack, scope, e, st))) \<Rightarrow> (off_stack reg stack, 3 * size e + 2)
     | Inl (Inr (Inr (reg, stack, scope, kind, op, args, st))) \<Rightarrow>
         (off_stack reg stack, 3 * size_list size args + 3)
     | Inr (Inl (Inl (reg, stack, scope, args, st))) \<Rightarrow> (off_stack reg stack, 3 * size_list size args + 1)
     | Inr (Inl (Inr (reg, stack, scope, inps, args, local, st))) \<Rightarrow>
         (off_stack reg stack, 3 * size_list size args + 1)
     | Inr (Inr (Inl (reg, stack, local, bs, st))) \<Rightarrow> (off_stack reg stack, 3 * lets_size bs + 1)
     | Inr (Inr (Inr (reg, stack, scope, name, args, st))) \<Rightarrow>
         (off_stack reg stack, 3 * size_list size args + 2))")
    (auto intro: off_stack_Cons)

section \<open>Bindings of the differentiated graph\<close>

fun bind_outputs ::
    "string list \<Rightarrow> tensor_type list \<Rightarrow> flat list \<Rightarrow> ad_state \<Rightarrow> ad_state result" where
  "bind_outputs (name # names) (expected # tys) ((e, ty) # outs) st =
     (if ty \<noteq> expected then Inl (FlattenError AdLetType)
      else bind_outputs names tys outs (bind_forward_node name e ty st))"
| "bind_outputs _ _ _ st = Inr st"

definition flatten_value_outputs ::
    "registry \<Rightarrow> typed_value \<Rightarrow> ad_state \<Rightarrow> (flat list \<times> ad_state) result" where
  "flatten_value_outputs reg v st =
     rbind (flatten_outputs reg [] empty_scope (value_kind v) st) (\<lambda>(outputs, st1).
     if length outputs \<noteq> length (value_tys v) then Inl (FlattenError AdValueArity)
     else if map snd outputs \<noteq> value_tys v then Inl (FlattenError AdValueType)
     else Inr (outputs, st1))"

definition flatten_typed_let :: "registry \<Rightarrow> typed_let \<Rightarrow> ad_state \<Rightarrow> ad_state result" where
  "flatten_typed_let reg b st =
     rbind (check (length (tlet_names b) = length (value_tys (tlet_value b)))
              (FlattenError AdLetArity)) (\<lambda>_.
     rbind (flatten_value_outputs reg (tlet_value b) st) (\<lambda>(outputs, st1).
     if length outputs \<noteq> length (tlet_names b) then Inl (FlattenError AdFlattenedLetArity)
     else bind_outputs (tlet_names b) (value_tys (tlet_value b)) outputs st1))"

fun flatten_typed_lets :: "registry \<Rightarrow> typed_let list \<Rightarrow> ad_state \<Rightarrow> ad_state result" where
  "flatten_typed_lets reg [] st = Inr st"
| "flatten_typed_lets reg (b # bs) st =
     rbind (flatten_typed_let reg b st) (flatten_typed_lets reg bs)"

definition MAX_VALUE_AND_GRAD_OUTPUTS :: nat where
  "MAX_VALUE_AND_GRAD_OUTPUTS = 12"

definition differentiable_inputs :: "typed_graph \<Rightarrow> input list" where
  "differentiable_inputs g = filter (\<lambda>i. is_float (elem (input_ty i))) (tg_inputs g)"

text \<open>The names of the inputs and of the bindings are reserved.\<close>

definition graph_names :: "typed_graph \<Rightarrow> string list" where
  "graph_names g = map input_name (tg_inputs g) @ concat (map tlet_names (tg_lets g))"

definition inputs_env :: "input list \<Rightarrow> type_map" where
  "inputs_env inputs = map_of (rev (map (\<lambda>i. (input_name i, input_ty i)) inputs))"

definition builder_new :: "typed_graph \<Rightarrow> ad_state result" where
  "builder_new g =
     rbind (check (length (tg_outputs g) = 1) (FlattenError AdSingleOutput)) (\<lambda>_.
     let loss_ty = tg_outputs g ! 0 in
     rbind (check (rank loss_ty = 0 \<and> is_float (elem loss_ty)) (FlattenError AdScalarLoss)) (\<lambda>_.
     rbind (check (differentiable_inputs g \<noteq> []) (FlattenError AdNoFloatInput)) (\<lambda>_.
     rbind (check (length (differentiable_inputs g) + 1 \<le> MAX_VALUE_AND_GRAD_OUTPUTS)
              (FlattenError AdTooManyInputs)) (\<lambda>_.
     let (value_name, used) = unique_name ''__knok_autograd_value'' (graph_names g) in
     Inr \<lparr>ad_used = used, ad_env = inputs_env (tg_inputs g), ad_lets = [], ad_nodes = [],
          ad_grads = Map.empty, ad_next = 0, ad_value_name = value_name,
          ad_inputs = differentiable_inputs g\<rparr>))))"

text \<open>The reverse sweep: the gradient of each node is taken out before its rule runs.\<close>

fun reverse_sweep :: "node list \<Rightarrow> ad_state \<Rightarrow> ad_state result" where
  "reverse_sweep [] st = Inr st"
| "reverse_sweep (nd # nds) st =
     (case ad_grads st (node_name nd) of
        None \<Rightarrow> reverse_sweep nds st
      | Some grad \<Rightarrow>
          rbind (reverse_node nd grad (st\<lparr>ad_grads := (ad_grads st)(node_name nd := None)\<rparr>))
            (reverse_sweep nds))"

fun gradient_outputs :: "input list \<Rightarrow> ad_state \<Rightarrow> expr list \<times> ad_state" where
  "gradient_outputs [] st = ([], st)"
| "gradient_outputs (i # is) st =
     (let (grad, st1) = gradient_output_for_input i st;
          (grads, st2) = gradient_outputs is st1
      in (grad # grads, st2))"

definition forward_pass :: "registry \<Rightarrow> typed_graph \<Rightarrow> ad_state \<Rightarrow> ad_state result" where
  "forward_pass reg g st =
     rbind (flatten_typed_lets reg (tg_lets g) st) (\<lambda>st1.
     rbind (of_option (Panic UnwrapNone) (if tg_body g = [] then None else Some (hd (tg_body g)))) (\<lambda>body.
     rbind (flatten_expr reg [] empty_scope (expr_kind body) st1) (\<lambda>((value_expr, value_ty), st2).
     if value_ty \<noteq> expr_ty body then Inl (FlattenError AdBodyType)
     else
       let st3 = bind_forward_node (ad_value_name st2) value_expr value_ty st2
       in Inr (st3\<lparr>ad_grads := (ad_grads st3)
                     (ad_value_name st3 \<mapsto> EConst ''1.0'' (elem value_ty))\<rparr>))))"

definition grad_graph :: "typed_graph \<Rightarrow> ad_state \<Rightarrow> graph" where
  "grad_graph g st =
     (let (grads, st1) = gradient_outputs (ad_inputs st) st in
      \<lparr>graph_name = tg_name g @ ''_value_and_grad'', graph_backend = tg_backend g,
       graph_inputs = tg_inputs g,
       graph_outputs = (tg_outputs g ! 0) # map input_ty (ad_inputs st),
       graph_lets = ad_lets st1, graph_body = EVar (ad_value_name st) # grads\<rparr>)"

definition build :: "'f f64_ops \<Rightarrow> registry \<Rightarrow> typed_graph \<Rightarrow> ad_state \<Rightarrow> typed_graph result" where
  "build F reg g st =
     rbind (forward_pass reg g st) (\<lambda>st1.
     rbind (reverse_sweep (rev (ad_nodes st1)) st1) (\<lambda>st2.
     type_check F (grad_graph g st2) []))"

definition value_and_grad_graph_with_registry ::
    "'f f64_ops \<Rightarrow> typed_graph \<Rightarrow> registry \<Rightarrow> typed_graph result" where
  "value_and_grad_graph_with_registry F g reg = rbind (builder_new g) (build F reg g)"

definition value_and_grad_graph :: "'f f64_ops \<Rightarrow> typed_graph \<Rightarrow> typed_graph result" where
  "value_and_grad_graph F g = value_and_grad_graph_with_registry F g []"

end
