(* ===== verification/Rule_Facts.thy ===== *)
theory Rule_Facts
  imports Ops_Rules
begin

text \<open>
  What the typing rules of \<^verbatim>\<open>ops/rules.rs\<close> accept, for the proofs about gradients and about the lowering.
\<close>

lemma binary_result_Inr:
  "binary_result_type lt rt = Inr t \<longleftrightarrow>
     is_numeric (elem lt) \<and> elem rt = elem lt \<and> elem t = elem lt \<and>
     broadcast_shape_slices (shape lt) (shape rt) = Inr (shape t)"
  by (cases t) (auto simp: binary_result_type_def result_simps broadcast_shape_def)

lemma predicate_result_Inr:
  "predicate_result_type lt rt = Inr t \<longleftrightarrow>
     elem rt = elem lt \<and> elem t = Bool \<and> broadcast_shape_slices (shape lt) (shape rt) = Inr (shape t)"
  by (cases t) (auto simp: predicate_result_type_def result_simps broadcast_shape_def)

lemma where_result_Inr:
  "where_result_type c a b = Inr t \<longleftrightarrow>
     elem c = Bool \<and> elem b = elem a \<and> elem t = elem a \<and>
     (\<exists>s. broadcast_shape_slices (shape a) (shape b) = Inr s \<and>
          broadcast_shape_slices (shape c) s = Inr (shape t))"
  by (cases t) (auto simp: where_result_type_def result_simps broadcast_shape_def)

lemma logical_result_Inr:
  "logical_result_type lt rt = Inr t \<longleftrightarrow>
     elem lt = Bool \<and> elem rt = Bool \<and> elem t = Bool \<and>
     broadcast_shape_slices (shape lt) (shape rt) = Inr (shape t)"
  by (cases t) (auto simp: logical_result_type_def result_simps broadcast_shape_def)

lemma numeric_not_Bool: "is_numeric e \<longleftrightarrow> e \<noteq> Bool"
  by (simp add: is_numeric_def)

lemma slice_dims_ok_iff:
  "length starts = length sizes' \<Longrightarrow> length dims = length sizes' \<Longrightarrow>
   slice_dims_ok starts sizes' dims \<longleftrightarrow> (\<forall>i < length sizes'. starts ! i + sizes' ! i \<le> dims ! i)"
  by (induction starts sizes' dims rule: slice_dims_ok.induct) (auto simp: less_Suc_eq_0_disj)

lemma pad_dims_ok_iff:
  "length lows = length dims \<Longrightarrow> length targets = length dims \<Longrightarrow>
   pad_dims_ok dims targets lows \<longleftrightarrow> (\<forall>i < length dims. dims ! i + lows ! i \<le> targets ! i)"
  by (induction dims targets lows rule: pad_dims_ok.induct) (auto simp: less_Suc_eq_0_disj)

lemma concat_dims_Inr:
  "length ls = length rs \<Longrightarrow> concat_dims axis d ls rs = Inr s \<longleftrightarrow>
     length s = length ls \<and>
     (\<forall>i < length ls. if d + i = axis then s ! i = ls ! i + rs ! i else ls ! i = rs ! i \<and> s ! i = ls ! i)"
proof (induction ls rs arbitrary: d s rule: list_induct2)
  case (Cons l ls r rs)
  show ?case
    by (cases s) (auto simp: Cons.IH result_simps less_Suc_eq_0_disj all_conj_distrib split: if_splits)
qed auto

lemma concat_result_Inr:
  assumes "concat_result_type lt rt axis = Inr t"
  shows "elem rt = elem lt" "elem t = elem lt" "rank rt = rank lt" "rank t = rank lt" "axis < rank lt"
    and "\<And>i. i < rank lt \<Longrightarrow> if i = axis then shape t ! i = shape lt ! i + shape rt ! i
                   else shape lt ! i = shape rt ! i \<and> shape t ! i = shape lt ! i"
  using assms
  by (auto simp: concat_result_type_def result_simps rank_def concat_dims_Inr [where d = 0] split: if_splits)

lemma moved_shape:
  assumes "src < length xs" "dst < length xs"
  shows "map ((!) xs) (insert_nth dst src (remove_nth src [0..<length xs]))
           = insert_nth dst (xs ! src) (remove_nth src xs)"
proof -
  have "map ((!) xs) [0..<length xs] = xs" by (rule map_nth)
  moreover have "map ((!) xs) (remove_nth src [0..<length xs])
      = remove_nth src (map ((!) xs) [0..<length xs])"
    by (simp add: remove_nth_def take_map drop_map)
  ultimately show ?thesis by (simp add: insert_nth_def flip: take_map drop_map)
qed

lemma enumerate_filter:
  "map snd (filter (\<lambda>(axis, dim). P axis) (enumerate k s)) = map (\<lambda>i. s ! (i - k)) (filter P [k..<k + length s])"
proof (induction s arbitrary: k)
  case (Cons d s)
  have "map (\<lambda>i. (d # s) ! (i - k)) (filter P [Suc k..<Suc k + length s])
      = map (\<lambda>i. s ! (i - Suc k)) (filter P [Suc k..<Suc k + length s])"
    by (rule map_cong [OF refl]) (auto simp: nth_Cons' Suc_diff_le)
  moreover have "[k..<k + length (d # s)] = k # [Suc k..<Suc k + length s]"
    by (simp add: upt_rec)
  ultimately show ?case by (simp add: Cons.IH)
qed simp

lemma remove_axes_filter:
  "remove_axes_shape s a b = map ((!) s) (filter (\<lambda>axis. axis \<noteq> a \<and> axis \<noteq> b) [0..<length s])"
  using enumerate_filter [of "\<lambda>axis. axis \<noteq> a \<and> axis \<noteq> b" 0 s] by (simp add: remove_axes_shape_def)

text \<open>Squeezing and unsqueezing keep the element type and the count.\<close>

lemma squeeze_count:
  "validate_squeeze in_ty t = Inr () \<Longrightarrow> elem in_ty = elem t \<and> prod_list (shape in_ty) = prod_list (shape t)"
  using prod_list_filter_one [of "shape in_ty"] by (auto simp: validate_squeeze_def result_simps)

lemma unsqueeze_count:
  "validate_unsqueeze in_ty t = Inr () \<Longrightarrow> elem in_ty = elem t \<and> prod_list (shape in_ty) = prod_list (shape t)"
  using prod_list_filter_one [of "shape t"]
  by (auto simp: validate_unsqueeze_def result_simps Let_def split: if_splits)

end
