(* ===== verification/Autograd_Typing.thy ===== *)
theory Autograd_Typing
  imports Autograd Normalize_Correct Rule_Facts
begin

text \<open>
  Typing rules for the expressions the reverse pass builds, the invariant of its state, and what the
  shared steps of its rules (\<open>add_grad_to_expr\<close>, \<open>unbroadcast\<close>, \<open>expand_reduction_grad\<close>) preserve.
\<close>

named_theorems typed_intros \<open>typing of built expressions\<close>

section \<open>Typed expressions\<close>

text \<open>Built expressions have one type and contain no shared node.\<close>

definition typed :: "'f checker \<Rightarrow> type_env \<Rightarrow> expr \<Rightarrow> tensor_type \<Rightarrow> bool" where
  "typed C E e t \<longleftrightarrow> has_types C E e [t] \<and> expr_nodes e = {}"

fun flat :: "expr \<Rightarrow> bool" where
  "flat (EVar name) = True"
| "flat (EConst v e) = True"
| "flat _ = False"

lemma typed_Var: "env_lookup E name = Some t \<Longrightarrow> typed C E (EVar name) t"
  by (simp add: typed_def)

lemma typed_Var_iff: "typed C E (EVar name) t \<longleftrightarrow> env_lookup E name = Some t"
  by (simp add: typed_def)

lemma typed_const [typed_intros]: "typed C E (scalar_const v e) (tensor e [])"
  by (simp add: typed_def scalar_const_def)

lemma scalar_const_nodes [simp]: "expr_nodes (scalar_const v e) = {}"
  by (simp add: scalar_const_def)

lemma typed_unique: "typed C E e t \<Longrightarrow> typed C E e t' \<Longrightarrow> t = t'"
  unfolding typed_def using has_types_unique by fastforce

lemma infer_not_graph: "infer_call_results op ts = Inr tys \<Longrightarrow> graph_callee op = None"
  by (cases op) (simp_all add: graph_callee_def)

lemma typed_call:
  assumes "list_all2 (typed C E) args ts" "infer_call_results op ts = Inr [t]" "\<not> static_creation op"
  shows "typed C E (call op args) t"
proof -
  have "list_all2 (\<lambda>a t. has_types C E a [t]) args ts"
    using assms(1) by (rule list_all2_mono) (simp add: typed_def)
  moreover have "\<forall>a \<in> set args. expr_nodes a = {}"
    using assms(1) by (auto simp: list_all2_conv_all_nth in_set_conv_nth typed_def)
  ultimately show ?thesis
    using assms(2,3) infer_not_graph [OF assms(2)] not_static_creation [OF assms(3)]
    by (auto simp: typed_def call_def has_types_Call_iff)
qed

lemma typed_call1:
  "typed C E a ta \<Longrightarrow> infer_call_results op [ta] = Inr [t] \<Longrightarrow> \<not> static_creation op \<Longrightarrow>
     typed C E (call op [a]) t"
  by (rule typed_call) simp_all

lemma typed_call2:
  "typed C E a ta \<Longrightarrow> typed C E b tb \<Longrightarrow> infer_call_results op [ta, tb] = Inr [t] \<Longrightarrow>
     \<not> static_creation op \<Longrightarrow> typed C E (call op [a, b]) t"
  by (rule typed_call) simp_all

lemma typed_call3:
  "typed C E a ta \<Longrightarrow> typed C E b tb \<Longrightarrow> typed C E c tc \<Longrightarrow>
     infer_call_results op [ta, tb, tc] = Inr [t] \<Longrightarrow> \<not> static_creation op \<Longrightarrow>
     typed C E (call op [a, b, c]) t"
  by (rule typed_call) simp_all

lemma typed_binary:
  "typed C E l lt \<Longrightarrow> typed C E r rt \<Longrightarrow> binary_result_type lt rt = Inr t \<Longrightarrow>
     typed C E (binary bop l r) t"
  by (auto simp: typed_def binary_def has_types_Binary_iff)

lemma typed_neg [typed_intros]:
  "typed C E e t \<Longrightarrow> is_numeric (elem t) \<Longrightarrow> typed C E (neg e) t"
  by (simp add: typed_def neg_def has_types_Unary_iff)

section \<open>Result types of elementwise operations\<close>

lemma tensor_eq_iff: "(t :: tensor_type) = tensor e s \<longleftrightarrow> elem t = e \<and> shape t = s"
  by (cases t) auto

lemma tensor_split: "tensor (elem t) (shape t) = (t :: tensor_type)"
  by (cases t) simp

text \<open>Operands that broadcast into the result: one of the two has the result's type.\<close>

lemma typed_binary_same [typed_intros]:
  "typed C E l t \<Longrightarrow> typed C E r t \<Longrightarrow> is_numeric (elem t) \<Longrightarrow> typed C E (binary bop l r) t"
  by (erule typed_binary, assumption) (simp add: binary_result_Inr)

definition below :: "tensor_type \<Rightarrow> tensor_type \<Rightarrow> bool" where
  "below s t \<longleftrightarrow> elem s = elem t \<and> broadcast_shape_slices (shape s) (shape t) = Inr (shape t)"

lemma below_refl [simp]: "below t t"
  by (simp add: below_def)

lemma below_scalar [simp]: "below (tensor e []) t \<longleftrightarrow> e = elem t"
  by (simp add: below_def)

lemma typed_binary_left:
  "typed C E l t \<Longrightarrow> typed C E r rt \<Longrightarrow> below rt t \<Longrightarrow> is_numeric (elem t) \<Longrightarrow>
     typed C E (binary bop l r) t"
  by (erule typed_binary, assumption) (auto simp: binary_result_Inr below_def intro: bc.commute)

lemma typed_binary_right:
  "typed C E l lt \<Longrightarrow> typed C E r t \<Longrightarrow> below lt t \<Longrightarrow> is_numeric (elem t) \<Longrightarrow>
     typed C E (binary bop l r) t"
  by (erule typed_binary, assumption) (auto simp: binary_result_Inr below_def)

lemma binary_result_below:
  assumes "binary_result_type lt rt = Inr t"
  shows "below lt t" "below rt t" "is_numeric (elem t)"
  using assms by (auto simp: binary_result_Inr below_def intro: bc.upper_left bc.upper_right)

lemma typed_like [typed_intros]:
  "typed C E e t \<Longrightarrow> typed C E (zeros_like e) t"
  "typed C E e t \<Longrightarrow> typed C E (ones_like e) t"
proof -
  have "infer_call_results op [t] = Inr [t] \<and> \<not> static_creation op"
    if "op = OpZerosLike \<or> op = OpOnesLike" for op
    using that by (auto simp: rule_groups guard_defs static_creation_def)
  then show "typed C E e t \<Longrightarrow> typed C E (zeros_like e) t" "typed C E e t \<Longrightarrow> typed C E (ones_like e) t"
    unfolding zeros_like_def ones_like_def by (blast intro: typed_call1)+
qed

lemma typed_where:
  assumes "typed C E c (tensor Bool s)" "typed C E a t" "typed C E b t"
    and "broadcast_shape_slices s (shape t) = Inr (shape t)"
  shows "typed C E (call OpWhere [c, a, b]) t"
  using assms(1-3)
  by (rule typed_call3) (use assms(4) in \<open>auto simp: rule_groups guard_defs static_creation_def
      where_result_Inr result_simps\<close>)

lemma typed_where_same:
  "typed C E c (tensor Bool (shape t)) \<Longrightarrow> typed C E a t \<Longrightarrow> typed C E b t \<Longrightarrow>
     typed C E (call OpWhere [c, a, b]) t"
  by (erule typed_where, assumption, assumption) simp

lemma typed_mask_grad:
  assumes "typed C E c (tensor Bool s)" "typed C E g t"
    and "broadcast_shape_slices s (shape t) = Inr (shape t)"
  shows "typed C E (mask_grad c g) t"
  unfolding mask_grad_def by (rule typed_where) (use assms in \<open>auto intro: typed_intros\<close>)

text \<open>Comparisons, as the reverse rules use them.\<close>

lemma typed_comparison:
  assumes "op = OpGreater \<or> op = OpGreaterEqual \<or> op = OpLess \<or> op = OpLessEqual"
    and "typed C E a ta" "typed C E b tb" "binary_result_type ta tb = Inr t"
  shows "typed C E (call op [a, b]) (tensor Bool (shape t))"
  using assms(2,3)
proof (rule typed_call2)
  have "infer_call_results op [ta, tb] = binary_rule comparison_result_type [ta, tb]"
    using assms(1) by auto
  then show "infer_call_results op [ta, tb] = Inr [tensor Bool (shape t)]"
    using assms(4) by (auto simp: rule_groups comparison_result_type_def predicate_result_Inr guard_defs
        result_simps binary_result_Inr)
  show "\<not> static_creation op" using assms(1) by (auto simp: static_creation_def)
qed

lemma typed_equal:
  assumes "typed C E a ta" "typed C E b tb" "elem ta = elem tb"
    and "broadcast_shape_slices (shape ta) (shape tb) = Inr s"
  shows "typed C E (call OpEqual [a, b]) (tensor Bool s)"
  using assms(1,2)
  by (rule typed_call2) (use assms(3,4) in \<open>auto simp: rule_groups equality_result_type_def
      predicate_result_Inr guard_defs result_simps static_creation_def\<close>)

lemma typed_logical:
  assumes "op = OpLogicalAnd \<or> op = OpLogicalOr"
    and "typed C E a (tensor Bool sa)" "typed C E b (tensor Bool sb)"
    and "broadcast_shape_slices sa sb = Inr s"
  shows "typed C E (call op [a, b]) (tensor Bool s)"
  using assms(2,3)
proof (rule typed_call2)
  show "infer_call_results op [tensor Bool sa, tensor Bool sb] = Inr [tensor Bool s]"
    using assms(1,4) by (auto simp: rule_groups logical_result_Inr guard_defs result_simps)
  show "\<not> static_creation op" using assms(1) by (auto simp: static_creation_def)
qed

text \<open>Unary operations that keep the type of a floating-point operand.\<close>

lemma typed_unary_float:
  "typed C E a t \<Longrightarrow> is_float (elem t) \<Longrightarrow> op \<in> {OpCos, OpSin, OpLog} \<Longrightarrow> typed C E (call op [a]) t"
  by (erule typed_call1) (auto simp: rule_groups guard_defs static_creation_def result_simps)

lemma typed_square [typed_intros]:
  "typed C E a t \<Longrightarrow> is_numeric (elem t) \<Longrightarrow> typed C E (call OpSquare [a]) t"
  by (erule typed_call1) (auto simp: rule_groups guard_defs static_creation_def result_simps)

section \<open>Shape operations\<close>

lemma typed_reshape:
  assumes "typed C E a t" "elem u = elem t" "prod_list (shape u) = prod_list (shape t)"
  shows "typed C E (call (OpReshape u) [a]) u"
  using assms(1)
  by (rule typed_call1) (use assms(2,3) in \<open>auto simp: rule_groups guard_defs static_creation_def
      validate_reshape_def element_count_def result_simps\<close>)

lemma typed_reshape_if_needed:
  assumes "typed C E a t" "elem u = elem t" "prod_list (shape u) = prod_list (shape t)"
  shows "typed C E (reshape_if_needed a t u) u"
  using assms typed_reshape [OF assms] by (auto simp: reshape_if_needed_def)

lemma typed_broadcast:
  assumes "typed C E a t" "elem u = elem t" "broadcast_shape_slices (shape t) (shape u) = Inr s"
  shows "typed C E (call (OpBroadcast u) [a]) u"
  using assms(1)
  by (rule typed_call1) (use assms(2,3) in \<open>auto simp: rule_groups guard_defs static_creation_def
      validate_broadcast_def broadcast_shape_def result_simps\<close>)

lemma typed_sum_axis:
  assumes "typed C E a (tensor el s)" "i < length s" "is_numeric el"
  shows "typed C E (call (OpSum (AxisOne i)) [a]) (tensor el (remove_nth i s))"
  using assms(1)
  by (rule typed_call1) (use assms(2,3) in \<open>auto simp: rule_groups guard_defs static_creation_def
      result_simps rank_def\<close>)

lemma typed_slice:
  assumes "typed C E a t" "elem u = elem t" "length starts = rank t" "rank u = rank t"
    and "\<And>i. i < rank t \<Longrightarrow> starts ! i + shape u ! i \<le> shape t ! i"
  shows "typed C E (call (OpSlice u starts) [a]) u"
  using assms(1)
  by (rule typed_call1) (use assms(2-) in \<open>auto simp: rule_groups guard_defs static_creation_def
      validate_slice_def slice_dims_ok_iff rank_def result_simps\<close>)

lemma typed_pad:
  assumes "typed C E a t" "elem u = elem t" "length lows = rank t" "rank u = rank t"
    and "\<And>i. i < rank t \<Longrightarrow> lows ! i + shape t ! i \<le> shape u ! i"
  shows "typed C E (call (OpPad u lows) [a]) u"
  using assms(1)
  by (rule typed_call1) (use assms(2-) in \<open>auto simp: rule_groups guard_defs static_creation_def
      validate_pad_def pad_dims_ok_iff rank_def result_simps add.commute\<close>)

section \<open>The state of the reverse pass\<close>

text \<open>
  During the reverse pass the environment is fixed; every accumulated gradient belongs to a
  floating-point name and has the type of that name.
\<close>

definition grads_ok :: "'f checker \<Rightarrow> type_env \<Rightarrow> (string \<Rightarrow> expr option) \<Rightarrow> bool" where
  "grads_ok C E G \<longleftrightarrow> (\<forall>name g. G name = Some g \<longrightarrow>
     (\<exists>t. env_lookup E name = Some t \<and> is_float (elem t) \<and> typed C E g t))"

definition st_ok :: "'f checker \<Rightarrow> type_env \<Rightarrow> ad_state \<Rightarrow> bool" where
  "st_ok C E st \<longleftrightarrow> ad_env st = env_lookup E \<and> grads_ok C E (ad_grads st)"

text \<open>A step that succeeds, keeps the invariant and changes the gradients only.\<close>

definition grads_only :: "ad_state \<Rightarrow> ad_state \<Rightarrow> bool" where
  "grads_only st st' \<longleftrightarrow> st' = st\<lparr>ad_grads := ad_grads st'\<rparr>"

definition rev_ok :: "'f checker \<Rightarrow> type_env \<Rightarrow> ad_state \<Rightarrow> ad_state result \<Rightarrow> bool" where
  "rev_ok C E st r \<longleftrightarrow> (\<exists>st'. r = Inr st' \<and> st_ok C E st' \<and> grads_only st st')"

lemma grads_only_refl [simp]: "grads_only st st"
  by (simp add: grads_only_def)

lemma grads_only_trans: "grads_only st st' \<Longrightarrow> grads_only st' st'' \<Longrightarrow> grads_only st st''"
  unfolding grads_only_def by (cases st; cases st'; cases st'') simp

lemma rev_ok_skip: "st_ok C E st \<Longrightarrow> rev_ok C E st (Inr st)"
  by (simp add: rev_ok_def)

lemma rev_ok_bind:
  assumes "rev_ok C E st r" "\<And>st'. st_ok C E st' \<Longrightarrow> rev_ok C E st' (k st')"
  shows "rev_ok C E st (rbind r k)"
proof -
  obtain st' where st': "r = Inr st'" "st_ok C E st'" "grads_only st st'"
    using assms(1) by (auto simp: rev_ok_def)
  then obtain st'' where "k st' = Inr st''" "st_ok C E st''" "grads_only st' st''"
    using assms(2) [of st'] by (auto simp: rev_ok_def)
  with st' show ?thesis by (auto simp: rev_ok_def intro: grads_only_trans)
qed

lemma ref_ty_flat: "st_ok C E st \<Longrightarrow> flat e \<Longrightarrow> typed C E e t \<Longrightarrow> ref_ty st e = Inr t"
  by (cases e) (auto simp: st_ok_def typed_def)

lemma add_grad_ok:
  assumes "st_ok C E st" "env_lookup E name = Some t" "is_float (elem t) \<Longrightarrow> typed C E g t"
  shows "rev_ok C E st (add_grad name g st)"
proof (cases "is_float (elem t)")
  case False
  then show ?thesis using assms by (simp add: add_grad_def st_ok_def rev_ok_def)
next
  case True
  define g' where "g' = (case ad_grads st name of Some old \<Rightarrow> binary Add old g | None \<Rightarrow> g)"
  let ?st = "st\<lparr>ad_grads := (ad_grads st)(name \<mapsto> g')\<rparr>"
  have g: "typed C E g t" using assms(3) True by simp
  have "typed C E g' t"
  proof (cases "ad_grads st name")
    case (Some old)
    then have "typed C E old t" using assms(1,2) by (fastforce simp: st_ok_def grads_ok_def)
    then show ?thesis using Some g True float_numeric by (auto simp: g'_def intro: typed_binary_same)
  qed (simp add: g'_def g)
  then have "grads_ok C E ((ad_grads st)(name \<mapsto> g'))"
    using assms(1,2) True by (simp add: st_ok_def grads_ok_def)
  then have "st_ok C E ?st" using assms(1) by (simp add: st_ok_def)
  moreover have "add_grad name g st = Inr ?st"
    using assms(1,2) True by (simp add: add_grad_def st_ok_def g'_def Let_def)
  ultimately show ?thesis by (simp add: rev_ok_def grads_only_def)
qed

lemma add_grad_to_expr_ok:
  assumes "st_ok C E st" "flat e" "typed C E e t" "is_float (elem t) \<Longrightarrow> typed C E g t"
  shows "rev_ok C E st (add_grad_to_expr e g st)"
proof (cases e)
  case (EVar name)
  then show ?thesis using assms by (auto simp: typed_Var_iff intro: add_grad_ok)
qed (use assms in \<open>simp_all add: rev_ok_skip\<close>)

section \<open>Undoing a broadcast\<close>

lemma sum_axis_head:
  "typed C E e (tensor el (d # s)) \<Longrightarrow> is_numeric el \<Longrightarrow>
     typed C E (call (OpSum (AxisOne 0)) [e]) (tensor el s)"
  using typed_sum_axis [of C E e el "d # s" 0] by simp

lemma unbroadcast_leading_typed:
  "typed C E e (tensor el s) \<Longrightarrow> is_numeric el \<Longrightarrow> unbroadcast_leading e s rk = (e', s') \<Longrightarrow>
     typed C E e' (tensor el s') \<and> s' = drop (length s - rk) s"
proof (induction e s rk rule: unbroadcast_leading.induct)
  case (2 e d s rk)
  show ?case
  proof (cases "rk < length (d # s)")
    case True
    then have "length (d # s) - rk = Suc (length s - rk)" by simp
    have "unbroadcast_leading (call (OpSum (AxisOne 0)) [e]) s rk = (e', s')"
      using "2.prems"(3) True by simp
    with "2.IH" [OF True sum_axis_head [OF "2.prems"(1,2)] "2.prems"(2)]
    have "typed C E e' (tensor el s')" "s' = drop (length s - rk) s" by blast+
    with \<open>length (d # s) - rk = Suc (length s - rk)\<close> show ?thesis by simp
  next
    case False
    then have le: "length (d # s) \<le> rk" by simp
    have "e = e' \<and> d # s = s'" using "2.prems"(3) False by simp
    then show ?thesis using "2.prems"(1) le by (metis diff_is_0_eq drop0)
  qed
qed simp

lemma collapse_axis:
  assumes "typed C E e (tensor el s)" "axis < length s" "is_numeric el"
  shows "typed C E (call (OpReshape (tensor el (s[axis := 1]))) [call (OpSum (AxisOne axis)) [e]])
           (tensor el (s[axis := 1]))"
proof (rule typed_reshape)
  show "typed C E (call (OpSum (AxisOne axis)) [e]) (tensor el (remove_nth axis s))"
    using assms by (rule typed_sum_axis)
  have "s[axis := 1] = insert_nth axis 1 (remove_nth axis s)"
    using assms(2) by (simp add: insert_remove_nth)
  then show "prod_list (shape (tensor el (s[axis := 1]))) = prod_list (shape (tensor el (remove_nth axis s)))"
    by (simp add: prod_list_insert_nth)
qed simp

lemma unbroadcast_axes_typed:
  assumes "typed C E e (tensor el s)" "is_numeric el" "length s = length target"
    and "\<forall>a \<in> set axes. a < length target"
  shows "\<exists>e' s'. unbroadcast_axes axes target el e s = Inr (e', s') \<and> typed C E e' (tensor el s') \<and>
           length s' = length target \<and>
           (\<forall>i < length target. s' ! i = (if i \<in> set axes \<and> target ! i = 1 then 1 else s ! i))"
  using assms
proof (induction axes arbitrary: e s)
  case Nil
  then show ?case by auto
next
  case (Cons axis axes)
  have axis: "axis < length target" "axis < length s" using Cons.prems by simp_all
  show ?case
  proof (cases "target ! axis = 1 \<and> s ! axis \<noteq> 1")
    case True
    let ?s = "s[axis := 1]"
    have s: "vec_remove axis s = Inr (remove_nth axis s)"
        "vec_insert axis 1 (remove_nth axis s) = Inr ?s"
      using axis by (auto simp: vec_remove_def vec_insert_def insert_remove_nth)
    obtain e' s' where e': "unbroadcast_axes axes target el
          (call (OpReshape (tensor el ?s)) [call (OpSum (AxisOne axis)) [e]]) ?s = Inr (e', s')"
        "typed C E e' (tensor el s')" "length s' = length target"
        "\<forall>i < length target. s' ! i = (if i \<in> set axes \<and> target ! i = 1 then 1 else ?s ! i)"
      using Cons.IH [OF collapse_axis [OF Cons.prems(1) axis(2) Cons.prems(2)] Cons.prems(2)] Cons.prems
      by auto
    have "unbroadcast_axes (axis # axes) target el e s = Inr (e', s')"
      using True axis e'(1) s by simp
    moreover have "\<forall>i < length target. s' ! i = (if i \<in> set (axis # axes) \<and> target ! i = 1 then 1 else s ! i)"
      using e'(4) axis True by (auto simp: nth_list_update)
    ultimately show ?thesis using e'(2,3) by blast
  next
    case False
    obtain e' s' where e': "unbroadcast_axes axes target el e s = Inr (e', s')"
        "typed C E e' (tensor el s')" "length s' = length target"
        "\<forall>i < length target. s' ! i = (if i \<in> set axes \<and> target ! i = 1 then 1 else s ! i)"
      using Cons.IH [OF Cons.prems(1-3)] Cons.prems(4) by auto
    have "unbroadcast_axes (axis # axes) target el e s = Inr (e', s')"
      using False axis e'(1) by auto
    moreover have "\<forall>i < length target. s' ! i = (if i \<in> set (axis # axes) \<and> target ! i = 1 then 1 else s ! i)"
      using e'(4) axis False by auto
    ultimately show ?thesis using e'(2,3) by blast
  qed
qed

text \<open>If a shape broadcasts into another, the trailing dimensions agree or are one.\<close>

lemma broadcast_below_trailing:
  assumes "broadcast_shape_slices tgt s = Inr s"
  shows "length tgt \<le> length s"
    and "i < length tgt \<Longrightarrow> tgt ! i = drop (length s - length tgt) s ! i \<or> tgt ! i = 1"
proof -
  show len: "length tgt \<le> length s" using broadcast_length [OF assms] by simp
  assume i: "i < length tgt"
  define k where "k = length tgt - Suc i"
  have k: "k < length tgt" "k < length s" using i len by (simp_all add: k_def)
  have "length s - Suc k = length s - length tgt + i" using i len by (simp add: k_def)
  then have t: "trail tgt k = Some (tgt ! i)" "trail s k = Some (drop (length s - length tgt) s ! i)"
    using k i len by (simp_all add: trail_def rev_nth k_def)
  have "join_dim (trail tgt k) (trail s k) = Some (trail s k)"
    using assms by (simp add: broadcast_trail_iff)
  with t show "tgt ! i = drop (length s - length tgt) s ! i \<or> tgt ! i = 1"
    by (auto split: if_splits)
qed

lemma unbroadcast_typed:
  assumes "typed C E e src" "below tgt src" "is_numeric (elem src)"
  shows "\<exists>e'. unbroadcast e src tgt = Inr e' \<and> typed C E e' tgt"
proof -
  let ?n = "length (shape tgt)"
  have bc: "broadcast_shape_slices (shape tgt) (shape src) = Inr (shape src)"
    and el: "elem tgt = elem src" using assms(2) by (simp_all add: below_def)
  note dims = broadcast_below_trailing [OF bc]
  obtain e1 s1 where lead: "unbroadcast_leading e (shape src) (rank tgt) = (e1, s1)" by fastforce
  have "typed C E e (tensor (elem src) (shape src))" using assms(1) by (simp add: tensor_split)
  note lead' = unbroadcast_leading_typed [OF this assms(3) lead [unfolded rank_def]]
  have e1: "typed C E e1 (tensor (elem src) s1)" "s1 = drop (length (shape src) - ?n) (shape src)"
    by (rule conjunct1 [OF lead'], rule conjunct2 [OF lead'])
  have len: "length s1 = ?n" using dims(1) by (simp add: e1(2))
  obtain e2 s2 where e2: "unbroadcast_axes [0..<?n] (shape tgt) (elem src) e1 s1 = Inr (e2, s2)"
      "typed C E e2 (tensor (elem src) s2)" "length s2 = ?n"
      "\<forall>i < ?n. s2 ! i = (if i \<in> set [0..<?n] \<and> shape tgt ! i = 1 then 1 else s1 ! i)"
    using unbroadcast_axes_typed [OF e1(1) assms(3) len, of "[0..<?n]"] by auto
  have "s2 ! i = shape tgt ! i" if "i < ?n" for i
    using e2(4) that dims(2) [OF that] e1(2) by auto
  then have "s2 = shape tgt" using e2(3) by (simp add: list_eq_iff_nth_eq)
  then have "tensor (elem src) s2 = tgt" using el tensor_split [of tgt] by simp
  then have "typed C E e2 tgt" and "tensor (elem src) s2 = tgt" using e2(2) by simp_all
  moreover have "unbroadcast e src tgt = Inr e2"
    using e2(1) lead len \<open>tensor (elem src) s2 = tgt\<close> by (simp add: unbroadcast_def rank_def)
  ultimately show ?thesis by blast
qed

section \<open>Expanding a reduced gradient\<close>

lemma expand_reduction_typed:
  assumes "typed C E g (tensor el (shape out))" "reduction_output_type t axis = Inr out"
    and "elem t = el" "out' = tensor el (shape out)"
  shows "\<exists>e. expand_reduction_grad g out' t axis = Inr e \<and> typed C E e t"
proof (cases axis)
  case AxisAll
  then have s: "shape out = []" using assms(2) by auto
  then show ?thesis
    using assms AxisAll typed_broadcast [OF assms(1), of t "shape t"] by auto
next
  case (AxisOne a)
  then have a: "a < length (shape t)" and out: "shape out = remove_nth a (shape t)"
    using assms(2) by (auto simp: guard_defs rank_def result_simps)
  let ?s = "(shape t)[a := 1]"
  have ins: "vec_insert a 1 (shape out') = Inr ?s"
    using a out assms(4) by (simp add: vec_insert_def insert_remove_nth)
  have "prod_list ?s = prod_list (shape out)"
    using a out by (simp add: prod_list_insert_nth flip: insert_remove_nth)
  then have r: "typed C E (call (OpReshape (tensor el ?s)) [g]) (tensor el ?s)"
    by (intro typed_reshape [OF assms(1)]) simp_all
  have "broadcast_shape_slices ?s (shape t) = Inr (shape t)"
  proof (rule broadcast_same_length)
    fix i assume i: "i < length (shape t)"
    have "?s ! i = (if i = a then 1 else shape t ! i)" using i by (simp add: nth_list_update)
    then show "?s ! i = shape t ! i \<and> shape t ! i = ?s ! i \<or> ?s ! i = 1 \<and> shape t ! i = shape t ! i \<or>
        shape t ! i = 1 \<and> shape t ! i = ?s ! i" by (cases "i = a") simp_all
  qed simp_all
  then have b: "typed C E (call (OpBroadcast t) [call (OpReshape (tensor el ?s)) [g]]) t"
    using typed_broadcast [OF r, of t] assms(3) by simp
  show ?thesis
    using AxisOne ins r b assms(4) by (auto simp: Let_def)
qed

end
