(* ===== verification/Reverse_Elementwise.thy ===== *)
theory Reverse_Elementwise
  imports Autograd_Typing
begin

text \<open>
  The reverse rules of the binary operators, the elementwise operations and the reductions: on
  operands that the typing rule of the operation accepts, each rule succeeds and accumulates
  gradients of the operands' types.
\<close>

named_theorems rev_steps \<open>how the steps of a reverse rule succeed\<close>

section \<open>Operands and steps\<close>

abbreviation operand :: "'f checker \<Rightarrow> type_env \<Rightarrow> expr \<Rightarrow> tensor_type \<Rightarrow> bool" where
  "operand C E x t \<equiv> flat x \<and> typed C E x t"

lemma add_operand [rev_steps]:
  "st_ok C E st \<Longrightarrow> operand C E x t \<Longrightarrow> (is_float (elem t) \<Longrightarrow> typed C E g t) \<Longrightarrow>
     rev_ok C E st (add_grad_to_expr x g st)"
  by (blast intro: add_grad_to_expr_ok)

lemma ref_operand [rev_steps]:
  "st_ok C E st \<Longrightarrow> operand C E x t \<Longrightarrow> rev_ok C E st (k t) \<Longrightarrow>
     rev_ok C E st (rbind (ref_ty st x) k)"
  using ref_ty_flat by fastforce

lemma unbroadcast_step [rev_steps]:
  assumes "typed C E e src" "below tgt src" "is_numeric (elem src)"
    and "\<And>e'. typed C E e' tgt \<Longrightarrow> rev_ok C E st (k e')"
  shows "rev_ok C E st (rbind (unbroadcast e src tgt) k)"
  using unbroadcast_typed [OF assms(1-3)] assms(4) by auto

lemma expand_ok:
  assumes "reduction_output_type in_ty axis = Inr out" "typed C E g out"
  shows "\<exists>e. expand_reduction_grad g out in_ty axis = Inr e \<and> typed C E e in_ty"
proof -
  have "elem out = elem in_ty"
    using assms(1) by (cases axis) (auto simp: result_simps)
  then have out: "out = tensor (elem in_ty) (shape out)" by (cases out) simp
  have "typed C E g (tensor (elem in_ty) (shape out))" using assms(2) out by simp
  then show ?thesis using expand_reduction_typed [OF _ assms(1) refl out] by blast
qed

lemma expand_step [rev_steps]:
  assumes "reduction_output_type in_ty axis = Inr out" "typed C E g out"
    and "\<And>e. typed C E e in_ty \<Longrightarrow> rev_ok C E st (k e)"
  shows "rev_ok C E st (rbind (expand_reduction_grad g out in_ty axis) k)"
  using expand_ok [OF assms(1,2)] assms(3) by auto

lemma add_both [rev_steps]:
  assumes "st_ok C E st" "operand C E x t" "operand C E y u"
    and "is_float (elem t) \<Longrightarrow> typed C E g t" "is_float (elem u) \<Longrightarrow> typed C E h u"
  shows "rev_ok C E st (rbind (add_grad_to_expr x g st) (add_grad_to_expr y h))"
  by (intro rev_ok_bind add_operand [OF _ assms(2)] add_operand [OF _ assms(3)]) (use assms in auto)

lemma add_three [rev_steps]:
  assumes "st_ok C E st" "operand C E x t" "operand C E y u" "operand C E z v"
    and "typed C E g t" "typed C E h u" "typed C E i v"
  shows "rev_ok C E st (rbind (add_grad_to_expr x g st) (\<lambda>st1.
           rbind (add_grad_to_expr y h st1) (add_grad_to_expr z i)))"
  by (rule rev_ok_bind [OF add_operand [OF assms(1,2)]]) (use assms in \<open>auto intro: add_both\<close>)

declare float_numeric [simp]

section \<open>Binary operators\<close>

lemma reverse_binary_ok:
  assumes st: "st_ok C E st" and ops: "operand C E l lt" "operand C E r rt"
    and t: "binary_result_type lt rt = Inr t" and g: "typed C E g t"
  shows "rev_ok C E st (reverse_binary bop l r t g st)"
proof -
  note b = binary_result_below [OF t]
  have r2: "typed C E (call OpSquare [r]) rt"
    using ops(2) b(2,3) by (intro typed_square) (auto simp: below_def)
  have "typed C E (binary Mul g r) t" "typed C E (binary Mul g l) t" "typed C E (binary Div g r) t"
    using g ops b by (blast intro: typed_binary_left)+
  moreover from this have "typed C E (binary Div (binary Mul g l) (call OpSquare [r])) t"
    using r2 b by (blast intro: typed_binary_left)
  ultimately show ?thesis
    unfolding reverse_binary_def
    by (intro ref_operand [OF st ops(1)] ref_operand [OF st ops(2)], cases bop)
      (use st ops b g in \<open>auto simp: reverse_add_def reverse_sub_def reverse_mul_def reverse_div_def
         intro!: rev_steps typed_neg\<close>)
qed

section \<open>Unary operations\<close>

lemma reverse_scaled_ok:
  assumes "st_ok C E st" "operand C E x t" "typed C E g t" "is_numeric (elem t)" "typed C E (f x) t"
  shows "rev_ok C E st (reverse_scaled f [x] g st)"
  unfolding reverse_scaled_def using assms by (auto intro!: rev_steps typed_binary_same)

lemma reverse_divided_ok:
  assumes "st_ok C E st" "operand C E x t" "typed C E g t" "is_numeric (elem t)" "typed C E (f x) t"
  shows "rev_ok C E st (reverse_divided f [x] g st)"
  unfolding reverse_divided_def using assms by (auto intro!: rev_steps typed_binary_same)

lemma typed_scaled_const:
  "typed C E y t \<Longrightarrow> is_numeric (elem t) \<Longrightarrow> typed C E (binary bop (scalar_const v (elem t)) y) t"
  "typed C E y t \<Longrightarrow> is_numeric (elem t) \<Longrightarrow> typed C E (binary bop y (scalar_const v (elem t))) t"
  by (rule typed_binary_right typed_binary_left, rule typed_const; simp)
    (rule typed_binary_left, assumption, rule typed_const; simp)

lemma comparison_mask:
  "op \<in> {OpGreater, OpGreaterEqual, OpLess, OpLessEqual} \<Longrightarrow> typed C E a t \<Longrightarrow> typed C E b t \<Longrightarrow>
     is_numeric (elem t) \<Longrightarrow> typed C E (call op [a, b]) (tensor Bool (shape t))"
  by (rule typed_comparison [of _ C E _ t _ t t]) (auto simp: binary_result_Inr)

lemma typed_abs_local:
  "typed C E x t \<Longrightarrow> is_numeric (elem t) \<Longrightarrow> typed C E (abs_local x) t"
  unfolding abs_local_def Let_def
  by (intro typed_where_same comparison_mask typed_intros) simp_all

lemma typed_locals:
  assumes "typed C E y t" "is_float (elem t)"
  shows "typed C E (exp2_local y (elem t)) t" "typed C E (expm1_local y (elem t)) t"
    "typed C E (log1p_denom y (elem t)) t" "typed C E (log2_denom y (elem t)) t"
    "typed C E (log10_denom y (elem t)) t" "typed C E (sin_local y) t" "typed C E (cos_local y) t"
    "typed C E (tan_local y) t" "typed C E (tanh_local y) t" "typed C E (sigmoid_local y) t"
    "typed C E (sqrt_denom y (elem t)) t"
  using assms
  by (auto simp: exp2_local_def expm1_local_def log1p_denom_def log2_denom_def log10_denom_def
      sin_local_def cos_local_def tan_local_def tanh_local_def sigmoid_local_def sqrt_denom_def
      intro!: typed_scaled_const typed_unary_float typed_intros)

lemma typed_numeric_locals:
  assumes "typed C E y t" "is_numeric (elem t)"
  shows "typed C E (square_local y (elem t)) t" "typed C E (reciprocal_local y) t"
  using assms
  by (auto simp: square_local_def reciprocal_local_def intro!: typed_scaled_const typed_intros)

lemma reverse_relu_ok:
  assumes "st_ok C E st" "operand C E x t" "typed C E g t" "is_numeric (elem t)"
  shows "rev_ok C E st (reverse_relu [x] g st)"
  unfolding reverse_relu_def Let_def using assms
  by (auto intro!: rev_steps typed_where_same comparison_mask typed_intros)

section \<open>Elementwise operations of several operands\<close>

lemma ty_below_trans: "below s t \<Longrightarrow> below t u \<Longrightarrow> below s u"
  using bc.below_trans by (auto simp: below_def)

lemma binary_result_sym: "binary_result_type lt rt = Inr t \<Longrightarrow> binary_result_type rt lt = Inr t"
  by (auto simp: binary_result_Inr intro: bc.commute)

lemma reverse_pow_ok:
  assumes st: "st_ok C E st" and ops: "operand C E a lt" "operand C E b rt"
    and t: "binary_result_type lt rt = Inr t" and f: "is_float (elem t)"
    and out: "typed C E out t" and g: "typed C E g t"
  shows "rev_ok C E st (reverse_pow [a, b] out t g st)"
proof -
  note below = binary_result_below [OF t]
  have el: "elem lt = elem t" "elem rt = elem t" using below by (simp_all add: below_def)
  have "typed C E (binary Sub b (scalar_const ''1.0'' (elem rt))) rt"
    using ops(2) f el by (intro typed_scaled_const) simp_all
  then have "typed C E (call OpPow [a, binary Sub b (scalar_const ''1.0'' (elem t))]) t"
    by (intro typed_call2 [OF conjunct2 [OF ops(1)]])
      (use t f el in \<open>auto simp: rule_groups guard_defs static_creation_def\<close>)
  then have l: "typed C E (binary Mul g (binary Mul b
      (call OpPow [a, binary Sub b (scalar_const ''1.0'' (elem t))]))) t"
    using ops(2) below g by (blast intro: typed_binary_same typed_binary_right)
  have "typed C E (call OpLog [a]) lt" using ops(1) f el by (auto intro: typed_unary_float)
  then have r: "typed C E (binary Mul g (binary Mul out (call OpLog [a]))) t"
    using out g below by (blast intro: typed_binary_same typed_binary_left)
  show ?thesis
    unfolding reverse_pow_def Let_def using st ops l r below
    by (auto intro!: ref_operand unbroadcast_step rev_ok_bind [OF add_operand] add_operand)
qed

lemma reverse_minimum_maximum_ok:
  assumes st: "st_ok C E st" and ops: "operand C E a lt" "operand C E b rt"
    and t: "binary_result_type lt rt = Inr t" and g: "typed C E g t"
  shows "rev_ok C E st (reverse_minimum_maximum [a, b] t g m st)"
proof -
  note below = binary_result_below [OF t]
  note sym = binary_result_sym [OF t]
  have "typed C E (mask_grad (call op [a, b]) g) t \<and> typed C E (mask_grad (call op [b, a]) g) t"
    if op: "op = OpGreater \<or> op = OpGreaterEqual \<or> op = OpLess \<or> op = OpLessEqual" for op
    using ops typed_comparison [OF op _ _ t] typed_comparison [OF op _ _ sym] g
    by (auto intro!: typed_mask_grad [where s = "shape t"])
  then show ?thesis
    unfolding reverse_minimum_maximum_def Let_def using st ops below
    by (cases m) (auto intro!: ref_operand unbroadcast_step add_both)
qed

lemma reverse_clip_ok:
  assumes st: "st_ok C E st" and ops: "operand C E a ta" "operand C E b tb" "operand C E c tc"
    and v: "binary_result_type ta tb = Inr v" and t: "binary_result_type v tc = Inr t"
    and g: "typed C E g t"
  shows "rev_ok C E st (reverse_clip [a, b, c] t g st)"
proof -
  note bv = binary_result_below [OF v] and bt = binary_result_below [OF t]
  have below: "below ta t" "below tb t" "below tc t"
    using bt(2) ty_below_trans [OF bv(1) bt(1)] ty_below_trans [OF bv(2) bt(1)] by blast+
  have up: "broadcast_shape_slices (shape ta) (shape t) = Inr (shape t)"
      "broadcast_shape_slices (shape tc) (shape t) = Inr (shape t)"
      and vt: "broadcast_shape_slices (shape v) (shape t) = Inr (shape t)"
    using below bt(1) by (simp_all add: below_def)
  from bc.least [OF up] obtain d where d: "broadcast_shape_slices (shape ta) (shape tc) = Inr d"
      "broadcast_shape_slices d (shape t) = Inr (shape t)" by blast
  from bc.least [OF vt d(2)] obtain m where m: "broadcast_shape_slices (shape v) d = Inr m"
      "broadcast_shape_slices m (shape t) = Inr (shape t)" by blast
  have el: "elem ta = elem t" "elem tc = elem t" using below by (simp_all add: below_def)
  have tac: "binary_result_type ta tc = Inr (tensor (elem t) d)"
    using el d(1) bt(3) by (simp add: binary_result_Inr)
  have ab: "typed C E (call op [a, b]) (tensor Bool (shape v))"
      and ac: "typed C E (call op [a, c]) (tensor Bool d)"
    if op: "op = OpGreater \<or> op = OpGreaterEqual \<or> op = OpLess \<or> op = OpLessEqual" for op
    using ops typed_comparison [OF op _ _ v] typed_comparison [OF op _ _ tac] by auto
  have "typed C E (call OpLogicalAnd [call OpGreaterEqual [a, b], call OpLessEqual [a, c]])
      (tensor Bool m)"
    by (rule typed_logical [OF disjI1 [OF refl] ab ac m(1)]) simp_all
  then have "typed C E (mask_grad (call OpLogicalAnd [call OpGreaterEqual [a, b],
      call OpLessEqual [a, c]]) g) t" using g m(2) by (rule typed_mask_grad)
  moreover have "typed C E (mask_grad (call OpLess [a, b]) g) t"
    by (rule typed_mask_grad [OF ab g vt]) simp
  moreover have "typed C E (mask_grad (call OpGreater [a, c]) g) t"
    by (rule typed_mask_grad [OF ac g d(2)]) simp
  ultimately show ?thesis
    unfolding reverse_clip_def Let_def using st ops below bt(3)
    by (auto intro!: ref_operand unbroadcast_step add_three)
qed

lemma reverse_where_ok:
  assumes st: "st_ok C E st" and ops: "operand C E c tc" "operand C E a ta" "operand C E b tb"
    and t: "where_result_type tc ta tb = Inr t" and g: "typed C E g t" and f: "is_float (elem t)"
  shows "rev_ok C E st (reverse_where [c, a, b] t g st)"
proof -
  obtain s where s: "broadcast_shape_slices (shape ta) (shape tb) = Inr s"
      "broadcast_shape_slices (shape tc) s = Inr (shape t)"
    and el: "elem tc = Bool" "elem ta = elem t" "elem tb = elem t"
    using t by (auto simp: where_result_Inr)
  have "broadcast_shape_slices s (shape t) = Inr (shape t)" using s(2) by (rule bc.upper_right)
  then have below: "below ta t" "below tb t"
    using bc.upper_left [OF s(1)] bc.upper_right [OF s(1)] el
    by (auto simp: below_def intro: bc.below_trans)
  have "tc = tensor Bool (shape tc)" using el(1) by (simp add: tensor_eq_iff)
  then have tc: "typed C E c (tensor Bool (shape tc))" using ops(1) by metis
  have ct: "broadcast_shape_slices (shape tc) (shape t) = Inr (shape t)" using s(2) by (rule bc.upper_left)
  have "typed C E (call OpWhere [c, zeros_like g, g]) t"
    using tc ct g by (intro typed_where typed_intros)
  moreover have "typed C E (mask_grad c g) t" using tc g ct by (rule typed_mask_grad)
  ultimately show ?thesis
    unfolding reverse_where_def using st ops below f
    by (auto intro!: ref_operand unbroadcast_step add_both)
qed

lemma reverse_full_like_ok:
  assumes "st_ok C E st" "operand C E x t" "operand C E b tb" "rank tb = 0" "elem tb = elem t"
    "typed C E g t" "is_numeric (elem t)"
  shows "rev_ok C E st (reverse_full_like [x, b] t g st)"
proof -
  have "below tb t" using assms(4,5) by (simp add: below_def rank_def)
  then show ?thesis
    unfolding reverse_full_like_def using assms by (auto intro!: ref_operand unbroadcast_step add_operand)
qed

section \<open>Reductions\<close>

lemma reduction_elem: "reduction_output_type in_ty axis = Inr out \<Longrightarrow> elem out = elem in_ty"
  by (cases axis) (auto simp: result_simps)

lemma reduction_count_ok: "reduction_output_type in_ty axis = Inr out \<Longrightarrow> \<exists>n. reduction_count in_ty axis = Inr n"
  by (cases axis) (auto simp: reduction_count_def result_simps rank_def)

lemma is_float_not_Bool: "is_float e \<Longrightarrow> e \<noteq> Bool"
  by auto

lemma typed_reduction:
  assumes "typed C E x in_ty" "reduction_output_type in_ty axis = Inr out" "is_float (elem in_ty)"
    and "expect_non_empty_reduction in_ty axis = Inr ()"
    and "op \<in> {OpMax axis, OpMin axis, OpMean axis, OpSum axis}"
  shows "typed C E (call op [x]) out"
  using assms(1)
  by (rule typed_call1) (use assms(2-) in \<open>auto simp: rule_groups guard_defs static_creation_def
      is_float_not_Bool numeric_not_Bool\<close>)

lemma reverse_sum_ok:
  assumes "st_ok C E st" "operand C E x in_ty" "reduction_output_type in_ty axis = Inr out"
    "typed C E g out"
  shows "rev_ok C E st (reverse_sum [x] out axis g st)"
  unfolding reverse_sum_def using assms by (auto intro!: ref_operand expand_step add_operand)

lemma reverse_prod_ok:
  assumes "st_ok C E st" "operand C E x in_ty" "reduction_output_type in_ty axis = Inr out"
    "typed C E g out" "typed C E y out" "is_numeric (elem in_ty)"
  shows "rev_ok C E st (reverse_prod [x] y out axis g st)"
  unfolding reverse_prod_def using assms
  by (auto intro!: ref_operand expand_step add_operand typed_binary_same)

lemma typed_count: "typed C E e t \<Longrightarrow> is_numeric (elem t) \<Longrightarrow> el = elem t \<Longrightarrow>
    typed C E (binary bop e (count_const n el)) t \<and> typed C E (binary bop (count_const n el) e) t"
  unfolding count_const_def using typed_scaled_const by blast

lemma reverse_mean_ok:
  assumes "st_ok C E st" "operand C E x in_ty" "reduction_output_type in_ty axis = Inr out"
    "typed C E g out" "is_numeric (elem out)"
  shows "rev_ok C E st (reverse_mean [x] out axis g st)"
proof -
  obtain n where "reduction_count in_ty axis = Inr n" using reduction_count_ok [OF assms(3)] ..
  then show ?thesis
    unfolding reverse_mean_def using assms typed_count [OF assms(4,5) refl]
    by (auto intro!: ref_operand expand_step [OF assms(3)] add_operand)
qed

lemma typed_selected: "typed C E x t \<Longrightarrow> typed C E y t \<Longrightarrow> typed C E g t \<Longrightarrow>
    typed C E (mask_grad (call OpEqual [x, y]) g) t"
  by (rule typed_mask_grad [OF typed_equal [of _ _ _ t _ t "shape t"]]) simp_all

lemma reverse_extremum_ok:
  assumes "st_ok C E st" "operand C E x in_ty" "reduction_output_type in_ty axis = Inr out"
    "typed C E g out" "typed C E y out"
  shows "rev_ok C E st (reverse_extremum [x] y out axis g st)"
  unfolding reverse_extremum_def using assms
  by (auto intro!: ref_operand expand_step [OF assms(3)] add_operand typed_selected)

lemma reverse_softmax_ok:
  assumes "st_ok C E st" "operand C E x t" "reduction_output_type t axis = Inr out"
    "typed C E g t" "typed C E y t" "is_float (elem t)" "expect_non_empty_reduction t axis = Inr ()"
  shows "rev_ok C E st (reverse_softmax [x] y axis g st)"
proof -
  have "single_call_type (OpSum axis) [t] = Inr out"
    using assms(3,6) by (simp add: single_call_type_def rule_groups guard_defs)
  moreover have "typed C E (call (OpSum axis) [binary Mul g y]) out"
    using assms by (intro typed_reduction [OF typed_binary_same assms(3)]) simp_all
  ultimately show ?thesis
    unfolding reverse_softmax_def Let_def using assms
    by (auto intro!: ref_operand expand_step [OF assms(3)] add_operand typed_binary_same)
qed

lemma reverse_var_ok:
  assumes "st_ok C E st" "operand C E x in_ty" "reduction_output_type in_ty axis = Inr out"
    "typed C E g out" "is_float (elem in_ty)" "expect_non_empty_reduction in_ty axis = Inr ()"
  shows "rev_ok C E st (reverse_var [x] out axis g st)"
proof -
  obtain n where n: "reduction_count in_ty axis = Inr n" using reduction_count_ok [OF assms(3)] ..
  have num: "is_numeric (elem in_ty)" using assms(5) by (rule float_numeric)
  have mean: "typed C E (call (OpMean axis) [x]) out"
    using assms(2,3,5,6) by (auto intro: typed_reduction)
  have "typed C E (binary Mul g' (binary Div
          (binary Mul (scalar_const ''2.0'' (elem in_ty)) (binary Sub x m)) (count_const n (elem in_ty)))) in_ty"
    if "typed C E m in_ty" "typed C E g' in_ty" for m g'
    by (intro typed_binary_same [OF that(2)] typed_count [THEN conjunct1] typed_scaled_const
        typed_binary_same [OF _ that(1)] num refl) (use assms(2) in blast)
  with n mean show ?thesis
    unfolding reverse_var_def Let_def using assms
    by (auto intro!: ref_operand expand_step [OF assms(3)] add_operand rev_ok_skip)
qed

lemma reverse_std_ok:
  assumes "st_ok C E st" "operand C E x in_ty" "reduction_output_type in_ty axis = Inr out"
    "typed C E g out" "typed C E y out" "is_float (elem in_ty)"
    "expect_non_empty_reduction in_ty axis = Inr ()"
  shows "rev_ok C E st (reverse_std [x] y out axis g st)"
proof -
  obtain n where n: "reduction_count in_ty axis = Inr n" using reduction_count_ok [OF assms(3)] ..
  have num: "is_numeric (elem in_ty)" using assms(6) by (rule float_numeric)
  have mean: "typed C E (call (OpMean axis) [x]) out"
    using assms(2,3,6,7) by (auto intro: typed_reduction)
  have "typed C E (binary Mul g' (binary Div (binary Sub x m)
          (binary Mul (count_const n (elem in_ty)) s))) in_ty"
    if "typed C E m in_ty" "typed C E g' in_ty" "typed C E s in_ty" for m g' s
    by (intro typed_binary_same [OF that(2)] typed_binary_same [OF _ typed_count [THEN conjunct2]]
        typed_binary_same [OF _ that(1)] that(3) num refl) (use assms(2) in blast)
  with n mean show ?thesis
    unfolding reverse_std_def Let_def using assms
    by (auto intro!: ref_operand expand_step [OF assms(3)] add_operand rev_ok_skip)
qed

lemma reverse_ptp_ok:
  assumes "st_ok C E st" "operand C E x in_ty" "reduction_output_type in_ty axis = Inr out"
    "typed C E g out" "is_float (elem in_ty)" "expect_non_empty_reduction in_ty axis = Inr ()"
  shows "rev_ok C E st (reverse_ptp [x] out axis g st)"
proof -
  have num: "is_numeric (elem in_ty)" using assms(5) by (rule float_numeric)
  have extrema: "typed C E (call (OpMax axis) [x]) out" "typed C E (call (OpMin axis) [x]) out"
    using assms(2,3,5,6) by (auto intro: typed_reduction)
  have "typed C E (binary Add (mask_grad (call OpEqual [x, m]) g')
          (mask_grad (call OpEqual [x, n]) (neg g'))) in_ty"
    if "typed C E m in_ty" "typed C E n in_ty" "typed C E g' in_ty" for m n g'
    by (intro typed_binary_same typed_selected typed_neg that num) (use assms(2) in blast)+
  with extrema show ?thesis
    unfolding reverse_ptp_def Let_def using assms
    by (auto intro!: ref_operand expand_step [OF assms(3)] add_operand rev_ok_skip)
qed

end
