(* ===== verification/Reverse_Shapes.thy ===== *)
theory Reverse_Shapes
  imports Reverse_Elementwise
begin

text \<open>
  The reverse rules of the shape operations (reshaping, padding, slicing, joining, tiling,
  repeating) and of the axis permutations succeed on operands the typing rule accepts.
\<close>

section \<open>Reshapes\<close>

lemma reverse_reshape_ok:
  assumes "st_ok C E st" "operand C E x in_ty" "typed C E g t" "elem in_ty = elem t"
    "prod_list (shape in_ty) = prod_list (shape t)"
  shows "rev_ok C E st (reverse_reshape [x] g st)"
  unfolding reverse_reshape_def add_reshape_grad_to_arg_def using assms
  by (auto intro!: ref_operand add_operand typed_reshape [OF assms(3)])

lemma reverse_broadcast_ok:
  assumes "st_ok C E st" "operand C E x in_ty" "typed C E g t" "below in_ty t" "is_numeric (elem t)"
  shows "rev_ok C E st (reverse_broadcast [x] t g st)"
  unfolding reverse_broadcast_def using assms
  by (auto intro!: ref_operand unbroadcast_step add_operand)

section \<open>Slices\<close>

lemma reverse_pad_ok:
  assumes "st_ok C E st" "operand C E x in_ty" "typed C E g t" "validate_pad in_ty t lows = Inr ()"
  shows "rev_ok C E st (reverse_pad [x] lows g st)"
proof -
  have "typed C E (call (OpSlice in_ty lows) [g]) in_ty"
    using assms(3,4)
    by (intro typed_slice) (auto simp: validate_pad_def result_simps rank_def pad_dims_ok_iff add.commute)
  then show ?thesis
    unfolding reverse_pad_def using assms by (auto intro!: ref_operand add_operand)
qed

lemma reverse_slice_ok:
  assumes "st_ok C E st" "operand C E x in_ty" "typed C E g t" "validate_slice in_ty t starts = Inr ()"
  shows "rev_ok C E st (reverse_slice [x] starts g st)"
proof -
  have "typed C E (call (OpPad in_ty starts) [g]) in_ty"
    using assms(3,4)
    by (intro typed_pad) (auto simp: validate_slice_def result_simps rank_def slice_dims_ok_iff)
  then show ?thesis
    unfolding reverse_slice_def using assms by (auto intro!: ref_operand add_operand)
qed

lemma reverse_concat_ok:
  assumes "st_ok C E st" "operand C E a lt" "operand C E b rt" "typed C E g t"
    "concat_result_type lt rt axis = Inr t"
  shows "rev_ok C E st (reverse_concat [a, b] axis g st)"
proof -
  note c = concat_result_Inr [OF assms(5)]
  let ?starts = "(replicate (rank rt) 0)[axis := shape lt ! axis]"
  have "typed C E (call (OpSlice lt (replicate (rank lt) 0)) [g]) lt"
    using assms(4) c by (intro typed_slice) (force split: if_splits)+
  moreover have "typed C E (call (OpSlice rt ?starts) [g]) rt"
    using assms(4) c by (intro typed_slice) (force simp: nth_list_update split: if_splits)+
  ultimately show ?thesis
    unfolding reverse_concat_def Let_def using assms c(3,5)
    by (auto simp: set_idx_def rank_def intro!: ref_operand add_both)
qed

lemma typed_take:
  assumes "typed C E a t" "axis < rank t" "index < shape t ! axis"
  shows "typed C E (call (OpTake axis index) [a]) (tensor (elem t) (remove_nth axis (shape t)))"
  using assms(1)
  by (rule typed_call1) (use assms(2,3) in \<open>auto simp: rule_groups guard_defs static_creation_def
      take_result_type_def result_simps\<close>)

lemma reverse_stack_ok:
  assumes "st_ok C E st" "operand C E a u" "operand C E b u" "typed C E g t"
    "stack_result_type u u axis = Inr t"
  shows "rev_ok C E st (reverse_stack [a, b] axis g st)"
proof -
  have ax: "axis \<le> length (shape u)" and t: "t = tensor (elem u) (insert_nth axis 2 (shape u))"
    using assms(5) by (auto simp: stack_result_type_def result_simps rank_def)
  have "typed C E (call (OpTake axis k) [g]) u" if "k < 2" for k
    using typed_take [OF assms(4), of axis k] ax that
    by (simp add: t nth_insert_nth rank_def tensor_split)
  then show ?thesis
    unfolding reverse_stack_def using assms by (auto intro!: rev_ok_bind [OF add_operand] add_operand)
qed

lemma reverse_take_ok:
  assumes "st_ok C E st" "operand C E x in_ty" "typed C E g t" "take_result_type in_ty axis index = Inr t"
  shows "rev_ok C E st (reverse_take [x] axis index g st)"
proof -
  let ?u = "tensor (elem in_ty) ((shape in_ty)[axis := 1])"
  let ?lows = "(replicate (rank in_ty) 0)[axis := index]"
  have ax: "axis < length (shape in_ty)" "index < shape in_ty ! axis"
      and t: "t = tensor (elem in_ty) (remove_nth axis (shape in_ty))"
    using assms(4) by (auto simp: take_result_type_def result_simps rank_def)
  have "typed C E (call (OpReshape ?u) [g]) ?u"
    by (rule typed_reshape [OF assms(3)])
      (use ax in \<open>simp_all add: t prod_list_insert_nth flip: insert_remove_nth\<close>)
  then have "typed C E (call (OpPad in_ty ?lows) [call (OpReshape ?u) [g]]) in_ty"
    by (rule typed_pad) (use ax in \<open>auto simp: rank_def nth_list_update\<close>)
  then show ?thesis
    unfolding reverse_take_def Let_def using assms ax
    by (auto simp: set_idx_def rank_def intro!: ref_operand add_operand)
qed

section \<open>Axis movements\<close>

lemma reverse_moved_ok:
  assumes "st_ok C E st" "operand C E x in_ty" "typed C E g t" "infer_call_results op [t] = Inr [in_ty]"
    "\<not> static_creation op"
  shows "rev_ok C E st (reverse_moved op [x] g st)"
  unfolding reverse_moved_def using assms by (auto intro!: add_operand typed_call1 [OF assms(3)])

lemma swapaxes_back:
  assumes "swapaxes_result_type in_ty a b = Inr t"
  shows "infer_call_results (OpSwapAxes a b) [t] = Inr [in_ty]"
  using assms
  by (auto simp: rule_groups guard_defs swapaxes_result_type_def result_simps rank_def swap_nth_swap_nth
      tensor_split)

lemma flip_back:
  assumes "infer_call_results (OpFlip axes) [in_ty] = Inr [t]"
  shows "infer_call_results (OpFlip axes) [t] = Inr [in_ty]"
  using assms by (auto simp: guard_defs result_simps)

lemma reverse_roll_ok:
  assumes "st_ok C E st" "operand C E x t" "typed C E g t" "axis < rank t"
  shows "rev_ok C E st (reverse_roll [x] axis shift g st)"
proof -
  have "typed C E (call (OpRoll axis k) [g]) t" for k
    using assms(3) by (rule typed_call1) (use assms(4) in \<open>auto simp: guard_defs static_creation_def\<close>)
  then show ?thesis
    unfolding reverse_roll_def Let_def using assms by (auto simp: rank_def intro!: ref_operand add_operand)
qed

text \<open>Moving an axis there and back is the identity on shapes.\<close>

lemma moveaxis_result_Inr:
  "moveaxis_result_type in_ty src dst = Inr t \<longleftrightarrow>
     src < rank in_ty \<and> dst < rank in_ty \<and>
     t = tensor (elem in_ty) (insert_nth dst (shape in_ty ! src) (remove_nth src (shape in_ty)))"
  by (auto simp: moveaxis_result_type_def moveaxis_permutation_def result_simps rank_def moved_shape)

lemma moveaxis_back:
  assumes "moveaxis_result_type in_ty src dst = Inr t"
  shows "infer_call_results (OpMoveAxis dst src) [t] = Inr [in_ty]"
proof -
  have s: "src < length (shape in_ty)" "dst < length (shape in_ty)"
      and t: "t = tensor (elem in_ty) (insert_nth dst (shape in_ty ! src) (remove_nth src (shape in_ty)))"
    using assms by (auto simp: moveaxis_result_Inr rank_def)
  have len: "length (remove_nth src (shape in_ty)) = length (shape in_ty) - 1" using s by simp
  have rk: "rank t = length (shape in_ty)" using s len by (simp add: t rank_def)
  have "shape t ! dst = shape in_ty ! src" "remove_nth dst (shape t) = remove_nth src (shape in_ty)"
    using s len by (auto simp: t nth_insert_nth)
  then have "moveaxis_result_type t dst src = Inr in_ty"
    using s rk by (simp add: moveaxis_result_Inr t insert_remove_nth_same tensor_split)
  then show ?thesis by (simp add: rule_groups guard_defs)
qed

section \<open>Permutations\<close>

lemma inverse_loop_ok:
  "distinct axes \<Longrightarrow> \<forall>a \<in> set axes. a < length out \<Longrightarrow>
     \<exists>out'. inverse_loop k axes out = Inr out' \<and> length out' = length out \<and>
       (\<forall>i < length axes. out' ! (axes ! i) = k + i) \<and>
       (\<forall>a. a \<notin> set axes \<longrightarrow> out' ! a = out ! a)"
proof (induction axes arbitrary: k out)
  case (Cons a axes)
  have a: "a < length out" "a \<notin> set axes" using Cons.prems by simp_all
  obtain out' where out': "inverse_loop (Suc k) axes (out[a := k]) = Inr out'"
      "length out' = length out" "\<forall>i < length axes. out' ! (axes ! i) = Suc k + i"
      "\<forall>b. b \<notin> set axes \<longrightarrow> out' ! b = out[a := k] ! b"
    using Cons.IH [of "out[a := k]" "Suc k"] Cons.prems by auto
  have "out' ! a = k" using out'(4) a by simp
  then have "\<forall>i < length (a # axes). out' ! ((a # axes) ! i) = k + i"
    using out'(3) by (auto simp: less_Suc_eq_0_disj)
  moreover have "inverse_loop k (a # axes) out = Inr out'"
    using a out'(1) by (simp add: set_idx_def)
  ultimately show ?case using out'(2,4) a by auto
qed simp

lemma inverse_permutation_ok:
  assumes "is_permutation n axes"
  shows "\<exists>inverse_axes. inverse_permutation axes = Inr inverse_axes \<and> is_permutation n inverse_axes \<and> (\<forall>i < n. inverse_axes ! (axes ! i) = i)"
proof -
  have p: "length axes = n" "distinct axes" "set axes = {..<n}"
    using assms is_permutation_set by (auto simp: is_permutation_def)
  obtain inverse_axes where inverse_axes: "inverse_permutation axes = Inr inverse_axes" "length inverse_axes = n"
      "\<forall>i < n. inverse_axes ! (axes ! i) = i"
    using inverse_loop_ok [of axes "replicate (length axes) 0" 0] p
    by (auto simp: inverse_permutation_def)
  have "{..<n} \<subseteq> set inverse_axes"
  proof
    fix i assume "i \<in> {..<n}"
    then have "axes ! i < length inverse_axes" "inverse_axes ! (axes ! i) = i"
      using inverse_axes(2,3) is_permutation_nth [OF assms] by auto
    then show "i \<in> set inverse_axes" by (metis nth_mem)
  qed
  moreover have "card (set inverse_axes) \<le> n" using inverse_axes(2) card_length by blast
  ultimately have eq: "set inverse_axes = {..<n}" by (metis card_lessThan card_seteq finite_set)
  then have "distinct inverse_axes" using inverse_axes(2) by (simp add: card_distinct)
  with inverse_axes eq show ?thesis by (auto simp: is_permutation_def)
qed

lemma permute_dims_Inr:
  "permute_dims_result_type in_ty axes = Inr t \<longleftrightarrow>
     is_permutation (rank in_ty) axes \<and> t = tensor (elem in_ty) (map ((!) (shape in_ty)) axes)"
  by (auto simp: permute_dims_result_type_def validate_axis_permutation_def result_simps
      scan_permutation is_permutation_def scan_axes_ok)

lemma permute_dims_back:
  assumes "permute_dims_result_type in_ty axes = Inr t" "inverse_permutation axes = Inr inverse_axes"
  shows "permute_dims_result_type t inverse_axes = Inr in_ty"
proof -
  let ?n = "rank in_ty"
  have p: "is_permutation ?n axes" and t: "t = tensor (elem in_ty) (map ((!) (shape in_ty)) axes)"
    using assms(1) by (simp_all add: permute_dims_Inr)
  have inverse_axes: "is_permutation ?n inverse_axes" "\<forall>i < ?n. inverse_axes ! (axes ! i) = i"
    using inverse_permutation_ok [OF p] assms(2) by auto
  have len: "length axes = ?n" "length inverse_axes = ?n" using p inverse_axes(1) by (auto dest: is_permutation_length)
  have "map ((!) (shape t)) inverse_axes = shape in_ty"
  proof (rule nth_equalityI)
    show "length (map ((!) (shape t)) inverse_axes) = length (shape in_ty)" using len by (simp add: rank_def)
    fix j assume "j < length (map ((!) (shape t)) inverse_axes)"
    then have j: "j < ?n" using len by simp
    then obtain i where i: "i < ?n" "axes ! i = j"
      using is_permutation_set [OF p] len(1) by (metis in_set_conv_nth lessThan_iff)
    then have "inverse_axes ! j = i" using inverse_axes(2) by blast
    then show "map ((!) (shape t)) inverse_axes ! j = shape in_ty ! j"
      using i j len by (simp add: t)
  qed
  moreover have "rank t = ?n" by (simp add: t len)
  ultimately show ?thesis using inverse_axes(1) by (simp add: permute_dims_Inr t tensor_split)
qed

lemma reverse_permute_ok:
  assumes "st_ok C E st" "operand C E x in_ty" "typed C E g t" "permute_dims_result_type in_ty axes = Inr t"
  shows "rev_ok C E st (reverse_permute [x] axes g st)"
proof -
  obtain inverse_axes where inverse_axes: "inverse_permutation axes = Inr inverse_axes"
    using inverse_permutation_ok assms(4) permute_dims_Inr by blast
  have "typed C E (call (OpPermuteDims inverse_axes) [g]) in_ty"
    using assms(3)
    by (rule typed_call1) (simp_all add: rule_groups guard_defs static_creation_def
        permute_dims_back [OF assms(4) inverse_axes])
  then show ?thesis unfolding reverse_permute_def using assms inverse_axes by (auto intro!: add_operand)
qed

lemma validate_permute_dims:
  "validate_permute in_ty t axes = Inr () \<Longrightarrow> permute_dims_result_type in_ty axes = Inr t"
  by (cases t) (auto simp: validate_permute_ok permute_dims_Inr)

lemma rev_is_permutation: "is_permutation n (rev [0..<n])"
  by (auto simp: is_permutation_def)

lemma transpose_default:
  assumes "transpose_result_type in_ty axes = Inr t"
  shows "permute_dims_result_type in_ty (default_axes in_ty axes) = Inr t"
proof (cases "axes = []")
  case True
  have "map ((!) (shape in_ty)) (rev [0..<rank in_ty]) = rev (shape in_ty)"
    by (simp add: rank_def map_nth flip: rev_map)
  then show ?thesis
    using assms True rev_is_permutation
    by (simp add: transpose_result_type_def default_axes_def permute_dims_Inr)
qed (use assms in \<open>simp add: transpose_result_type_def default_axes_def\<close>)

lemma reverse_transpose_ok:
  assumes "st_ok C E st" "operand C E x in_ty" "typed C E g t" "transpose_result_type in_ty axes = Inr t"
  shows "rev_ok C E st (reverse_transpose [x] axes g st)"
proof -
  note d = transpose_default [OF assms(4)]
  obtain inverse_axes where inverse_axes: "inverse_permutation (default_axes in_ty axes) = Inr inverse_axes"
    using inverse_permutation_ok d permute_dims_Inr by blast
  note undo = permute_dims_back [OF d inverse_axes]
  have "transpose_result_type t inverse_axes = Inr in_ty"
  proof (cases "inverse_axes = []")
    case True
    then have "rank t = 0" using undo by (simp add: permute_dims_Inr is_permutation_def)
    then show ?thesis using undo True by (simp add: transpose_result_type_def permute_dims_Inr rank_def)
  qed (use undo in \<open>simp add: transpose_result_type_def\<close>)
  then have "typed C E (call (OpTranspose inverse_axes) [g]) in_ty"
    by (intro typed_call1 [OF assms(3)]) (simp_all add: rule_groups guard_defs static_creation_def)
  then show ?thesis
    unfolding reverse_transpose_def using assms inverse_axes by (auto intro!: ref_operand add_operand)
qed

section \<open>Sums of pieces\<close>

lemma push_all_append: "push_all (ps @ [p]) = push_sum (push_all ps) p"
  by (simp add: push_all_def)

lemma push_all_typed:
  "ps \<noteq> [] \<Longrightarrow> \<forall>p \<in> set ps. typed C E p t \<Longrightarrow> is_numeric (elem t) \<Longrightarrow>
     \<exists>e. push_all ps = Some e \<and> typed C E e t"
proof (induction ps rule: rev_induct)
  case (snoc p ps)
  then show ?case
    by (cases "ps = []")
      (auto simp: push_all_append push_sum_def push_all_def intro: typed_binary_same)
qed simp

lemma or_zeros_typed:
  assumes "\<forall>p \<in> set ps. typed C E p t" "typed C E x t" "is_numeric (elem t)"
  shows "typed C E (or_zeros (push_all ps) x) t"
proof (cases "ps = []")
  case True
  then show ?thesis using assms(2) by (simp add: push_all_def or_zeros_def typed_intros)
next
  case False
  then show ?thesis using push_all_typed [OF False assms(1,3)] by (auto simp: or_zeros_def)
qed

lemma tile_slices_push:
  "tile_slices current slice_ty rk axis dim multiple = push_all (map (\<lambda>index.
     call (OpSlice slice_ty ((replicate rk 0)[axis := index * dim])) [current]) [0..<multiple])"
  by (simp add: tile_slices_def push_all_def fold_map comp_def)

section \<open>Tiling\<close>

lemma tile_slices_typed:
  assumes "typed C E e cur" "axis < rank cur" "shape cur ! axis = dim * m" "0 < m" "is_numeric (elem cur)"
  shows "\<exists>acc. tile_slices e (tensor (elem cur) ((shape cur)[axis := dim])) (rank cur) axis dim m = Some acc \<and>
           typed C E acc (tensor (elem cur) ((shape cur)[axis := dim]))"
  unfolding tile_slices_push
proof (rule push_all_typed)
  let ?u = "tensor (elem cur) ((shape cur)[axis := dim])"
  show "\<forall>p \<in> set (map (\<lambda>index. call (OpSlice ?u ((replicate (rank cur) 0)[axis := index * dim])) [e]) [0..<m]).
      typed C E p ?u"
  proof clarsimp
    fix index assume "index < m"
    then have "Suc index * dim \<le> m * dim" by (intro mult_le_mono1) simp
    then have "index * dim + dim \<le> shape cur ! axis" by (simp add: assms(3) mult.commute)
    then show "typed C E (call (OpSlice ?u ((replicate (rank cur) 0)[axis := index * dim])) [e]) ?u"
      by (intro typed_slice [OF assms(1)]) (use assms(2) in \<open>auto simp: rank_def nth_list_update\<close>)
  qed
qed (use assms in simp_all)

lemma tile_axes_typed:
  assumes "distinct (map fst ps)" "typed C E e cur" "elem cur = elem in_ty" "rank cur = rank in_ty"
    and "\<forall>(a, m) \<in> set ps. a < rank in_ty \<and> 0 < m \<and> shape cur ! a = shape in_ty ! a * m"
    and "\<forall>i < rank in_ty. i \<notin> fst ` set ps \<longrightarrow> shape cur ! i = shape in_ty ! i"
    and "is_numeric (elem in_ty)"
  shows "\<exists>e'. tile_axes in_ty ps e cur = Inr e' \<and> typed C E e' in_ty"
  using assms(1-6)
proof (induction ps arbitrary: e cur)
  case Nil
  then have "shape cur = shape in_ty" by (auto simp: rank_def intro: nth_equalityI)
  then have "cur = in_ty" using Nil(3) by (metis tensor_split)
  with Nil show ?case by simp
next
  case (Cons p ps)
  obtain a m where p: "p = (a, m)" by fastforce
  have a: "a < rank in_ty" "0 < m" "shape cur ! a = shape in_ty ! a * m" "a \<notin> fst ` set ps"
    using Cons.prems(1,5) by (auto simp: p)
  show ?case
  proof (cases "m \<le> 1")
    case True
    then have "shape cur ! a = shape in_ty ! a" using a by simp
    then have "\<forall>i < rank in_ty. i \<notin> fst ` set ps \<longrightarrow> shape cur ! i = shape in_ty ! i"
      using Cons.prems(6) by (auto simp: p)
    then obtain e' where "tile_axes in_ty ps e cur = Inr e'" "typed C E e' in_ty"
      using Cons.IH [OF _ Cons.prems(2-4)] Cons.prems(1,5) by auto
    then show ?thesis using True by (simp add: p)
  next
    case False
    let ?u = "tensor (elem cur) ((shape cur)[a := shape in_ty ! a])"
    obtain acc where acc: "tile_slices e ?u (rank cur) a (shape in_ty ! a) m = Some acc" "typed C E acc ?u"
      using tile_slices_typed [OF Cons.prems(2), of a "shape in_ty ! a" m] a Cons.prems(3,4) assms(7) by auto
    have same: "\<forall>(b, k) \<in> set ps. b < rank in_ty \<and> 0 < k \<and> shape ?u ! b = shape in_ty ! b * k"
    proof clarify
      fix b k assume bk: "(b, k) \<in> set ps"
      then have "b \<noteq> a" using a(4) by force
      with bk show "b < rank in_ty \<and> 0 < k \<and> shape ?u ! b = shape in_ty ! b * k"
        using Cons.prems(5) by auto
    qed
    have rest: "\<forall>i < rank in_ty. i \<notin> fst ` set ps \<longrightarrow> shape ?u ! i = shape in_ty ! i"
      using Cons.prems(4,6) a(1) by (auto simp: p nth_list_update rank_def)
    obtain e' where "tile_axes in_ty ps acc ?u = Inr e'" "typed C E e' in_ty"
      using Cons.IH [OF _ acc(2) _ _ same rest] Cons.prems(1,3,4) by (auto simp: rank_def)
    then show ?thesis
      using False a(1) acc(1) Cons.prems(4) by (simp add: p set_idx_def rank_def)
  qed
qed

lemma reverse_tile_ok:
  assumes "st_ok C E st" "operand C E x in_ty" "typed C E g t" "tile_result_type in_ty ms = Inr t"
    "is_numeric (elem in_ty)"
  shows "rev_ok C E st (reverse_tile [x] t ms g st)"
proof (cases "0 \<in> set ms")
  case True
  then show ?thesis
    unfolding reverse_tile_def using assms by (auto intro!: ref_operand add_operand typed_intros)
next
  case False
  have len: "length ms = rank in_ty" and t: "t = tensor (elem in_ty) (map2 (*) (shape in_ty) ms)"
    using assms(4) by (auto simp: tile_result_type_def result_simps)
  have pos: "0 < ms ! i" if "i < length ms" for i using False nth_mem [OF that] by (cases "ms ! i") auto
  have "\<forall>(a, m) \<in> set (rev (enumerate 0 ms)). a < rank in_ty \<and> 0 < m \<and> shape t ! a = shape in_ty ! a * m"
    using len pos by (auto simp: t in_set_enumerate_eq rank_def)
  moreover have "fst ` set (rev (enumerate 0 ms)) = {..<rank in_ty}"
    using len by (simp flip: set_map add: atLeast0LessThan)
  ultimately obtain e where "tile_axes in_ty (rev (enumerate 0 ms)) g t = Inr e" "typed C E e in_ty"
    using tile_axes_typed [of "rev (enumerate 0 ms)" C E g t in_ty] assms(3,5) len
    by (auto simp: t rank_def distinct_rev rev_map [symmetric])
  then show ?thesis
    unfolding reverse_tile_def using assms False by (auto intro!: ref_operand add_operand)
qed

section \<open>Repetition\<close>

lemma prod_list_update: "i < length xs \<Longrightarrow> prod_list (xs[i := v]) = v * prod_list (remove_nth i xs)"
  for xs :: "nat list"
  by (simp add: prod_list_insert_nth flip: insert_remove_nth)

lemma reverse_repeat_ok:
  assumes "st_ok C E st" "operand C E x in_ty" "typed C E g t" "repeat_result_type in_ty axis count = Inr t"
    "is_numeric (elem in_ty)" "rank in_ty < 6 \<or> count \<le> 1"
  shows "rev_ok C E st (reverse_repeat [x] axis count g st)"
proof -
  have ax: "axis < length (shape in_ty)"
      and t: "t = tensor (elem in_ty) ((shape in_ty)[axis := shape in_ty ! axis * count])"
    using assms(4) by (auto simp: repeat_result_type_def guard_defs result_simps rank_def)
  consider (empty) "count = 0 \<or> shape in_ty ! axis = 0" | (same) "count = 1" "shape in_ty ! axis \<noteq> 0"
    | (many) "1 < count" "shape in_ty ! axis \<noteq> 0" "rank in_ty < 6"
    using assms(6) by linarith
  then show ?thesis
  proof cases
    case empty
    then show ?thesis
      unfolding reverse_repeat_def using assms ax
      by (auto intro!: ref_operand add_operand typed_intros)
  next
    case same
    then have "t = in_ty" by (simp add: t tensor_split)
    then show ?thesis
      unfolding reverse_repeat_def using assms ax same by (auto intro!: ref_operand add_operand)
  next
    case many
    let ?s = "insert_nth (axis + 1) count (shape in_ty)"
    have len: "axis + 1 \<le> length (shape in_ty)" using ax by simp
    have "typed C E (call (OpReshape (tensor (elem in_ty) ?s)) [g]) (tensor (elem in_ty) ?s)"
      by (rule typed_reshape [OF assms(3)])
        (use ax in \<open>simp_all add: t prod_list_insert_nth prod_list_update mult.assoc [symmetric]
           mult.commute [of count] prod_list_remove_nth [symmetric]\<close>)
    then have "typed C E (call (OpSum (AxisOne (axis + 1))) [call (OpReshape (tensor (elem in_ty) ?s)) [g]])
        (tensor (elem in_ty) (remove_nth (axis + 1) ?s))"
      by (rule typed_sum_axis) (use len assms(5) in simp_all)
    then have "typed C E (call (OpSum (AxisOne (axis + 1)))
        [call (OpReshape (tensor (elem in_ty) ?s)) [g]]) in_ty"
      using len by (simp only: remove_insert_nth tensor_split)
    then show ?thesis
      unfolding reverse_repeat_def Let_def using assms ax many
      by (auto simp: vec_insert_def rank_def intro!: ref_operand add_operand)
  qed
qed

end
