(* ===== verification/Reverse_Windows.thy ===== *)
theory Reverse_Windows
  imports Reverse_Shapes
begin

text \<open>
  The reverse rules of pooling and convolution: every slice they take lies inside the tensor it is
  taken from, and every padded contribution has the type of the operand it is added to.
\<close>

section \<open>Shapes of rank four\<close>

lemma rank4_shape:
  "rank t = 4 \<Longrightarrow> \<exists>a b c d. t = tensor (elem t) [a, b, c, d]"
  by (cases t) (auto simp: rank_def numeral_eq_Suc length_Suc_conv)

lemma typed_slice4:
  assumes "typed C E x (tensor el [a, b, c, d])" "i + a' \<le> a" "j + b' \<le> b" "k + c' \<le> c" "l + d' \<le> d"
  shows "typed C E (call (OpSlice (tensor el [a', b', c', d']) [i, j, k, l]) [x]) (tensor el [a', b', c', d'])"
  by (rule typed_slice [OF assms(1)])
    (use assms(2-) in \<open>auto simp: less_Suc_eq_0_disj numeral_eq_Suc\<close>)

lemma typed_pad4:
  assumes "typed C E x (tensor el [a', b', c', d'])" "i + a' \<le> a" "j + b' \<le> b" "k + c' \<le> c" "l + d' \<le> d"
  shows "typed C E (call (OpPad (tensor el [a, b, c, d]) [i, j, k, l]) [x]) (tensor el [a, b, c, d])"
  by (rule typed_pad [OF assms(1)])
    (use assms(2-) in \<open>auto simp: less_Suc_eq_0_disj numeral_eq_Suc\<close>)

lemma set_positions: "(oh, ow) \<in> set (positions h w) \<longleftrightarrow> oh < h \<and> ow < w"
  by (auto simp: positions_def image_iff)

lemma taps_inside: "(ih, iw) \<in> set (taps kern position_of h w) \<Longrightarrow> ih < h \<and> iw < w"
  by (auto simp: taps_def split: option.splits if_splits)

lemma windows_mem:
  assumes "p \<in> set (concat (map (\<lambda>(i, j). map (\<lambda>(ih, iw). f i j ih iw) (taps kern (pos i j) h w)) (positions oh ow)))"
  obtains i j ih iw where "i < oh" "j < ow" "ih < h" "iw < w" "p = f i j ih iw"
proof -
  from assms obtain i j ih iw where "(i, j) \<in> set (positions oh ow)"
      "(ih, iw) \<in> set (taps kern (pos i j) h w)" "p = f i j ih iw" by auto
  then show ?thesis using that taps_inside set_positions by blast
qed

section \<open>Pooling\<close>

lemma pool2d_shapes:
  assumes "pool2d_result_type in_ty options = Inr t"
  obtains el n h w c oh ow where "in_ty = tensor el [n, h, w, c]" "t = tensor el [n, oh, ow, c]"
proof -
  have "rank in_ty = 4" using assms by (auto simp: pool2d_result_type_def result_simps)
  then obtain n h w c where in_ty: "in_ty = tensor (elem in_ty) [n, h, w, c]" using rank4_shape by blast
  then have s: "shape in_ty = [n, h, w, c]" by (metis tensor_type.select_convs(2))
  then obtain oh ow where "t = tensor (elem in_ty) [n, oh, ow, c]"
    using assms by (auto simp: pool2d_result_type_def result_simps Let_def)
  with in_ty show ?thesis by (rule that)
qed

lemma pool_unit_typed:
  "typed C E y (tensor el [n, oh, ow, c]) \<Longrightarrow> i < oh \<Longrightarrow> j < ow \<Longrightarrow>
     typed C E (pool_output_unit y (tensor el [n, oh, ow, c]) i j) (tensor el [n, 1, 1, c])"
  unfolding pool_output_unit_def by (auto intro!: typed_slice4)

lemma pad_unit_typed:
  "typed C E u (tensor el [n, 1, 1, c]) \<Longrightarrow> ih < h \<Longrightarrow> iw < w \<Longrightarrow>
     typed C E (pad_pool_unit_to_input u (tensor el [n, h, w, c]) ih iw) (tensor el [n, h, w, c])"
  unfolding pad_pool_unit_to_input_def by (auto intro!: typed_pad4)

lemma avg_pool_piece_typed:
  assumes "typed C E g (tensor el [n, oh, ow, c])" "is_numeric el"
  shows "\<forall>p \<in> set (avg_pool_pieces (tensor el [n, h, w, c]) (tensor el [n, oh, ow, c]) options g).
           typed C E p (tensor el [n, h, w, c])"
proof -
  have unit: "typed C E (binary Div (pool_output_unit g (tensor el [n, oh, ow, c]) i j) (count_const k el))
      (tensor el [n, 1, 1, c])" if "i < oh" "j < ow" for i j k
    using pool_unit_typed [OF assms(1) that] assms(2) by (intro typed_count [THEN conjunct1]) simp_all
  show ?thesis
  proof
    fix p assume "p \<in> set (avg_pool_pieces (tensor el [n, h, w, c]) (tensor el [n, oh, ow, c]) options g)"
    then obtain i j ih iw where "i < oh" "j < ow" "ih < h" "iw < w" and p: "p = pad_pool_unit_to_input
        (binary Div (pool_output_unit g (tensor el [n, oh, ow, c]) i j)
          (count_const (fst (pool_kernel options) * snd (pool_kernel options)) el)) (tensor el [n, h, w, c]) ih iw"
      unfolding avg_pool_pieces_def Let_def by (elim windows_mem) simp
    then show "typed C E p (tensor el [n, h, w, c])"
      unfolding p by (intro pad_unit_typed unit)
  qed
qed

lemma reverse_avg_pool2d_ok:
  assumes st: "st_ok C E st" and x: "operand C E x in_ty" and g: "typed C E g t"
    and res: "infer_call_results (OpAvgPool2d options) [in_ty] = Inr [t]"
  shows "rev_ok C E st (reverse_avg_pool2d [x] options g st)"
proof -
  have f: "is_float (elem in_ty)" and r: "pool2d_result_type in_ty options = Inr t"
    using res by (auto simp: rule_groups guard_defs result_simps avg_pool2d_result_type_def)
  from pool2d_shapes [OF r] obtain el n h w c oh ow
    where s: "in_ty = tensor el [n, h, w, c]" "t = tensor el [n, oh, ow, c]" .
  have "is_numeric el" using f by (simp add: s)
  then have "\<forall>p \<in> set (avg_pool_pieces in_ty t options g). typed C E p in_ty"
    using avg_pool_piece_typed g unfolding s by blast
  then have "typed C E (or_zeros (push_all (avg_pool_pieces in_ty t options g)) x) in_ty"
    using x f by (intro or_zeros_typed) simp_all
  moreover have "single_call_type (OpAvgPool2d options) [in_ty] = Inr t"
    using res by (simp add: single_call_type_def)
  ultimately show ?thesis
    unfolding reverse_avg_pool2d_def using st x by (auto intro!: ref_operand add_operand)
qed

lemma max_pool_piece_typed:
  assumes "typed C E x (tensor el [n, h, w, c])" "typed C E y (tensor el [n, oh, ow, c])"
    "typed C E g (tensor el [n, oh, ow, c])"
  shows "\<forall>p \<in> set (max_pool_pieces x y (tensor el [n, h, w, c]) (tensor el [n, oh, ow, c]) options g).
           typed C E p (tensor el [n, h, w, c])"
proof -
  have unit: "typed C E (mask_grad (call OpEqual [call (OpSlice (tensor el [n, 1, 1, c]) [0, ih, iw, 0]) [x],
           pool_output_unit y (tensor el [n, oh, ow, c]) i j])
           (pool_output_unit g (tensor el [n, oh, ow, c]) i j)) (tensor el [n, 1, 1, c])"
    if pos: "i < oh" "j < ow" "ih < h" "iw < w" for i j ih iw
  proof (rule typed_selected)
    show "typed C E (call (OpSlice (tensor el [n, 1, 1, c]) [0, ih, iw, 0]) [x]) (tensor el [n, 1, 1, c])"
      by (rule typed_slice4 [OF assms(1)]) (use pos in simp_all)
  qed (rule pool_unit_typed [OF assms(2) pos(1,2)] pool_unit_typed [OF assms(3) pos(1,2)])+
  show ?thesis
  proof
    fix p assume "p \<in> set (max_pool_pieces x y (tensor el [n, h, w, c]) (tensor el [n, oh, ow, c]) options g)"
    then obtain i j ih iw where pos: "i < oh" "j < ow" "ih < h" "iw < w" and p: "p = pad_pool_unit_to_input
        (mask_grad (call OpEqual [call (OpSlice (tensor el [n, 1, 1, c]) [0, ih, iw, 0]) [x],
           pool_output_unit y (tensor el [n, oh, ow, c]) i j])
           (pool_output_unit g (tensor el [n, oh, ow, c]) i j)) (tensor el [n, h, w, c]) ih iw"
      unfolding max_pool_pieces_def pool_unit_type_def Let_def by (elim windows_mem) simp
    from unit [OF pos] pos(3,4) show "typed C E p (tensor el [n, h, w, c])"
      unfolding p by (rule pad_unit_typed)
  qed
qed

lemma reverse_max_pool2d_ok:
  assumes st: "st_ok C E st" and x: "operand C E x in_ty" and g: "typed C E g t" and y: "typed C E y t"
    and r: "pool2d_result_type in_ty options = Inr t" and num: "is_numeric (elem in_ty)"
  shows "rev_ok C E st (reverse_max_pool2d [x] y t options g st)"
proof -
  from pool2d_shapes [OF r] obtain el n h w c oh ow
    where s: "in_ty = tensor el [n, h, w, c]" "t = tensor el [n, oh, ow, c]" .
  have "\<forall>p \<in> set (max_pool_pieces x y in_ty t options g). typed C E p in_ty"
    using max_pool_piece_typed x y g unfolding s by blast
  then have "typed C E (or_zeros (push_all (max_pool_pieces x y in_ty t options g)) x) in_ty"
    using x num by (intro or_zeros_typed) simp_all
  moreover have "rank4 in_ty = Inr ()" "rank4 t = Inr ()" by (simp_all add: rank4_def s)
  ultimately show ?thesis
    unfolding reverse_max_pool2d_def using st x by (auto intro!: ref_operand add_operand)
qed

section \<open>Convolution\<close>

lemma conv2d_shapes:
  assumes "conv2d_result_type in_ty kernel_ty options = Inr t"
  obtains el n h w ic kh kw oc oh ow g icpg ocpg where
    "in_ty = tensor el [n, h, w, ic]" "kernel_ty = tensor el [kh, kw, icpg, oc]"
    "t = tensor el [n, oh, ow, oc]" "g = conv_groups options" "ic = g * icpg" "oc = g * ocpg" "0 < g"
proof -
  have "rank in_ty = 4" "rank kernel_ty = 4" and el: "elem kernel_ty = elem in_ty"
    using assms by (auto simp: conv2d_result_type_def result_simps)
  then obtain n h w ic kh kw kc oc where in_ty: "in_ty = tensor (elem in_ty) [n, h, w, ic]"
      and kern: "kernel_ty = tensor (elem in_ty) [kh, kw, kc, oc]"
    using rank4_shape [of in_ty] rank4_shape [of kernel_ty] by metis
  then have s: "shape in_ty = [n, h, w, ic]" "shape kernel_ty = [kh, kw, kc, oc]"
    by (metis tensor_type.select_convs(2))+
  have "conv_groups options dvd ic" "conv_groups options dvd oc" "0 < conv_groups options"
      "kc = ic div conv_groups options"
    using assms by (simp_all add: conv2d_result_type_def result_simps Let_def s numeral_eq_Suc)
  moreover obtain oh ow where "t = tensor (elem in_ty) [n, oh, ow, oc]"
    using assms by (auto simp: conv2d_result_type_def result_simps Let_def s numeral_eq_Suc)
  ultimately show ?thesis
    using in_ty kern by (intro that [where icpg = kc and ocpg = "oc div conv_groups options"]) auto
qed

lemma conv_taps_inside:
  assumes "tap \<in> set (conv_taps (tensor el [n, h, w, ic]) (tensor el [kh, kw, kc, oc])
             (tensor el [n, oh, ow, oc]) options icpg)"
  obtains gr i j oi oj ih iw c where "tap = (gr, i, j, oi, oj, ih, iw, c)"
    "gr < conv_groups options" "i < kh" "j < kw" "oi < oh" "oj < ow" "ih < h" "iw < w" "c < icpg"
proof -
  from assms show thesis
    by (auto simp: conv_taps_def set_positions split: option.splits if_splits intro!: that)
qed

lemma block_inside: "gr < g \<Longrightarrow> c < k \<Longrightarrow> gr * k + c < g * (k :: nat)"
proof -
  assume "gr < g" "c < k"
  then have "gr * k + c < Suc gr * k" "Suc gr * k \<le> g * k"
    by (simp, intro mult_le_mono1) simp
  then show ?thesis by linarith
qed

lemma typed_output_block:
  assumes "typed C E grad (tensor el [n, oh, ow, g * k])" "gr < g" "i < oh" "j < ow"
  shows "typed C E (conv_output_channel_block grad (tensor el [n, oh, ow, g * k]) i j (gr * k) k)
           (tensor el [n, 1, 1, k])"
proof -
  have "Suc gr * k \<le> g * k" using assms(2) by (intro mult_le_mono1) simp
  then show ?thesis
    unfolding conv_output_channel_block_def using assms by (auto intro!: typed_slice4)
qed

lemma conv_input_piece_typed:
  assumes w: "typed C E wt (tensor el [kh, kw, icpg, g * ocpg])"
    and grad: "typed C E grad (tensor el [n, oh, ow, g * ocpg])" and num: "is_numeric el"
    and tap: "gr < g" "i < kh" "j < kw" "oi < oh" "oj < ow" "ih < h" "iw < w'" "c < icpg"
  shows "typed C E (conv_input_piece wt grad (tensor el [n, h, w', g * icpg])
           (tensor el [kh, kw, icpg, g * ocpg]) (tensor el [n, oh, ow, g * ocpg]) icpg ocpg
           (gr, i, j, oi, oj, ih, iw, c)) (tensor el [n, h, w', g * icpg])"
proof -
  let ?block = "conv_output_channel_block grad (tensor el [n, oh, ow, g * ocpg]) oi oj (gr * ocpg) ocpg"
  let ?kern = "conv_kernel_output_block wt (tensor el [kh, kw, icpg, g * ocpg]) i j c (gr * ocpg) ocpg"
  have "Suc gr * ocpg \<le> g * ocpg" using tap(1) by (intro mult_le_mono1) simp
  then have kern: "typed C E ?kern (tensor el [1, 1, 1, ocpg])"
    unfolding conv_kernel_output_block_def using w tap by (auto intro!: typed_slice4)
  have "below (tensor el [1, 1, 1, ocpg]) (tensor el [n, 1, 1, ocpg])"
    unfolding below_def
    by (auto intro!: broadcast_same_length simp: less_Suc_eq_0_disj numeral_eq_Suc)
  then have "typed C E (binary Mul ?block ?kern) (tensor el [n, 1, 1, ocpg])"
    using typed_output_block [OF grad tap(1,4,5)] kern num by (intro typed_binary_left) simp_all
  then have "typed C E (call (OpSum (AxisOne 3)) [binary Mul ?block ?kern])
      (tensor el (remove_nth 3 [n, 1, 1, ocpg]))"
    by (rule typed_sum_axis) (simp_all add: num)
  then have "typed C E (call (OpReshape (tensor el [n, 1, 1, 1]))
      [call (OpSum (AxisOne 3)) [binary Mul ?block ?kern]]) (tensor el [n, 1, 1, 1])"
    by (rule typed_reshape) (simp_all add: remove_nth_def)
  moreover have "gr * icpg + c < g * icpg" using tap(1,8) by (rule block_inside)
  ultimately show ?thesis
    unfolding conv_input_piece_def conv_input_unit_type_def Let_def using tap by (auto intro!: typed_pad4)
qed

lemma conv_kernel_piece_typed:
  assumes x: "typed C E x (tensor el [n, h, w', g * icpg])"
    and grad: "typed C E grad (tensor el [n, oh, ow, g * ocpg])" and num: "is_numeric el"
    and tap: "gr < g" "i < kh" "j < kw" "oi < oh" "oj < ow" "ih < h" "iw < w'" "c < icpg"
  shows "typed C E (conv_kernel_piece x grad (tensor el [n, h, w', g * icpg])
           (tensor el [kh, kw, icpg, g * ocpg]) (tensor el [n, oh, ow, g * ocpg]) icpg ocpg
           (gr, i, j, oi, oj, ih, iw, c)) (tensor el [kh, kw, icpg, g * ocpg])"
proof -
  let ?block = "conv_output_channel_block grad (tensor el [n, oh, ow, g * ocpg]) oi oj (gr * ocpg) ocpg"
  let ?unit = "conv_input_unit x (tensor el [n, h, w', g * icpg]) ih iw (gr * icpg + c)"
  have "gr * icpg + c < g * icpg" using tap(1,8) by (rule block_inside)
  then have unit: "typed C E ?unit (tensor el [n, 1, 1, 1])"
    unfolding conv_input_unit_def conv_input_unit_type_def using x tap by (auto intro!: typed_slice4)
  have "below (tensor el [n, 1, 1, 1]) (tensor el [n, 1, 1, ocpg])"
    unfolding below_def
    by (auto intro!: broadcast_same_length simp: less_Suc_eq_0_disj numeral_eq_Suc)
  then have p: "typed C E (binary Mul ?unit ?block) (tensor el [n, 1, 1, ocpg])"
    using typed_output_block [OF grad tap(1,4,5)] unit num by (intro typed_binary_right) simp_all
  have "typed C E (sum_axes [2, 1, 0] (binary Mul ?unit ?block))
      (tensor el (remove_nth 0 (remove_nth 1 (remove_nth 2 [n, 1, 1, ocpg]))))"
    unfolding sum_axes_def foldl.simps
    by (intro typed_sum_axis p num) (simp_all add: remove_nth_def)
  then have "typed C E (sum_axes [2, 1, 0] (binary Mul ?unit ?block)) (tensor el [ocpg])"
    by (simp add: remove_nth_def)
  then have "typed C E (call (OpReshape (tensor el [1, 1, 1, ocpg]))
      [sum_axes [2, 1, 0] (binary Mul ?unit ?block)]) (tensor el [1, 1, 1, ocpg])"
    by (rule typed_reshape) simp_all
  moreover have "Suc gr * ocpg \<le> g * ocpg" using tap(1) by (intro mult_le_mono1) simp
  ultimately show ?thesis
    unfolding conv_kernel_piece_def Let_def using tap by (auto intro!: typed_pad4)
qed

lemma reverse_conv2d_ok:
  assumes st: "st_ok C E st" and x: "operand C E x in_ty" and w: "operand C E wt kernel_ty"
    and g: "typed C E g t" and r: "conv2d_result_type in_ty kernel_ty options = Inr t"
    and num: "is_numeric (elem in_ty)"
  shows "rev_ok C E st (reverse_conv2d [x, wt] t options g st)"
proof -
  from conv2d_shapes [OF r] obtain el n h w' ic kh kw oc oh ow gs icpg ocpg where
    s: "in_ty = tensor el [n, h, w', ic]" "kernel_ty = tensor el [kh, kw, icpg, oc]"
      "t = tensor el [n, oh, ow, oc]"
    and gs: "gs = conv_groups options" "ic = gs * icpg" "oc = gs * ocpg" "0 < gs" .
  have chan: "ic div conv_groups options = icpg" "oc div conv_groups options = ocpg"
    using gs by auto
  have num': "is_numeric el" using num by (simp add: s)
  let ?ts = "conv_taps in_ty kernel_ty t options icpg"
  have "typed C E (conv_input_piece wt g in_ty kernel_ty t icpg ocpg tap) in_ty \<and>
        typed C E (conv_kernel_piece x g in_ty kernel_ty t icpg ocpg tap) kernel_ty"
    if "tap \<in> set ?ts" for tap
    using that [unfolded s]
  proof (cases rule: conv_taps_inside)
    case (1 gr i j oi oj ih iw c)
    then show ?thesis
      using conv_input_piece_typed [of C E wt el kh kw icpg gs ocpg g n oh ow gr i j oi oj ih h iw w' c]
        conv_kernel_piece_typed [of C E x el n h w' gs icpg g oh ow ocpg gr i kh j kw oi oj ih iw c]
        x w g num' gs by (simp add: s)
  qed
  then have "typed C E (or_zeros (push_all (map (conv_input_piece wt g in_ty kernel_ty t icpg ocpg) ?ts)) x) in_ty"
      "typed C E (or_zeros (push_all (map (conv_kernel_piece x g in_ty kernel_ty t icpg ocpg) ?ts)) wt) kernel_ty"
    using x w num num' by (intro or_zeros_typed; simp add: s)+
  moreover have "rank4 in_ty = Inr ()" "rank4 kernel_ty = Inr ()" "rank4 t = Inr ()"
    by (simp_all add: rank4_def s)
  moreover have "shape in_ty ! 3 div conv_groups options = icpg" "shape kernel_ty ! 3 div conv_groups options = ocpg"
    using chan by (simp_all add: s)
  ultimately show ?thesis
    unfolding reverse_conv2d_def Let_def using st x w by (auto intro!: ref_operand add_both)
qed

end
