(* ===== verification/Reverse_Linalg.thy ===== *)
theory Reverse_Linalg
  imports Reverse_Windows
begin

text \<open>
  The reverse rules of the linear algebra operations.  A matrix product is analysed through its
  promoted operands \<open>b @ [m, k]\<close> and \<open>b' @ [k, n]\<close>, whose batch shapes broadcast to \<open>c\<close>: the
  gradient products have the shapes \<open>c @ [m, k]\<close> and \<open>c @ [k, n]\<close>, which reduce to the operands.
\<close>

section \<open>Shapes with a matrix suffix\<close>

lemma trail_append: "trail (s @ u) i = (if i < length u then trail u i else trail s (i - length u))"
  by (auto simp: trail_def nth_append)

lemma broadcast_append:
  "broadcast_shape_slices a b = Inr c \<Longrightarrow> broadcast_shape_slices (a @ s) (b @ s) = Inr (c @ s)"
  by (simp add: broadcast_trail_iff trail_append join_dim_idem)

lemma broadcast_append':
  "broadcast_shape_slices s u = Inr v \<Longrightarrow> length s = length u \<Longrightarrow>
     broadcast_shape_slices (b @ s) (b @ u) = Inr (b @ v)"
proof -
  assume b: "broadcast_shape_slices s u = Inr v" "length s = length u"
  then have "length v = length u" using broadcast_length by fastforce
  then show ?thesis using b by (auto simp: broadcast_trail_iff trail_append join_dim_idem)
qed

lemma broadcast_suffix: "broadcast_shape_slices s (c @ s) = Inr (c @ s)"
  using broadcast_append [of "[]" c c s] by simp

lemma swap_last: "swap_nth (length b) (Suc (length b)) (b @ [x, y]) = b @ [y, x]"
  by (simp add: swap_nth_def list_update_append nth_append)

lemma remove_last: "remove_nth (Suc (length b)) (b @ [x, y]) = b @ [x]"
  "remove_nth (length b) (b @ [x, y]) = b @ [y]" "remove_nth (length b) (b @ [x]) = b"
  by (simp_all add: remove_nth_def)

lemma split_last2:
  assumes "2 \<le> length s"
  obtains b x y where "s = b @ [x, y]"
proof -
  obtain t y where t: "s = t @ [y]" using assms by (cases s rule: rev_cases) auto
  then obtain b x where "t = b @ [x]" using assms by (cases t rule: rev_cases) auto
  with t show ?thesis by (intro that) simp
qed

section \<open>Matrix products\<close>

lemma matmul_matrix:
  assumes "is_numeric e" "broadcast_shape_slices b b' = Inr c" "length b \<le> 4" "length b' \<le> 4" "length c \<le> 4"
  shows "matmul_result_type (tensor e (b @ [m, k])) (tensor e (b' @ [k, n])) = Inr (tensor e (c @ [m, n]))"
  using assms
  by (auto simp: matmul_result_type_def guard_defs MAX_TENSOR_RANK_def nth_append Let_def
      split: if_splits)

lemma infer_matmul:
  assumes "is_numeric e" "broadcast_shape_slices b b' = Inr c" "length b \<le> 4" "length b' \<le> 4" "length c \<le> 4"
  shows "infer_call_results OpMatmul [tensor e (b @ [m, k]), tensor e (b' @ [k, n])] = Inr [tensor e (c @ [m, n])]"
  using matmul_matrix [OF assms] by (simp add: rule_groups guard_defs)

lemma matmul_type_matrix:
  assumes "is_numeric e" "broadcast_shape_slices b b' = Inr c" "length b \<le> 4" "length b' \<le> 4" "length c \<le> 4"
  shows "matmul_type (tensor e (b @ [m, k])) (tensor e (b' @ [k, n])) = Inr (tensor e (c @ [m, n]))"
  using infer_matmul [OF assms] by (simp add: matmul_type_def single_call_type_def)

text \<open>The operands of an accepted product, promoted.\<close>

definition promotes :: "bool \<Rightarrow> tensor_type \<Rightarrow> element_type \<Rightarrow> nat list \<Rightarrow> nat list \<Rightarrow> nat list \<Rightarrow> bool" where
  "promotes vec ty e b mat v \<longleftrightarrow> (if vec then b = [] \<and> ty = tensor e v else ty = tensor e (b @ mat))"

lemma promoted_lhs:
  assumes "ty = tensor e s" "s \<noteq> []" "length s \<le> 6"
  obtains b m k where "promoted_lhs_matmul_type ty = tensor e (b @ [m, k])" "length b \<le> 4"
    "promotes (rank ty = 1) ty e b [m, k] [k]" "rank ty = 1 \<Longrightarrow> m = 1" "last s = k"
    "rank ty \<noteq> 1 \<Longrightarrow> s = b @ [m, k]"
proof (cases "length s = 1")
  case True
  then obtain k where "s = [k]" by (cases s) auto
  then show ?thesis
    using assms(1) by (intro that [of "[]" 1 k]) (simp_all add: promoted_lhs_matmul_type_def promotes_def)
next
  case False
  then have "2 \<le> length s" using assms(2) by (cases s) (auto simp: Suc_le_eq)
  then obtain b m k where "s = b @ [m, k]" by (rule split_last2)
  then show ?thesis
    using assms(1,3) by (intro that [of b m k]) (simp_all add: promoted_lhs_matmul_type_def promotes_def)
qed

lemma promoted_rhs:
  assumes "ty = tensor e s" "s \<noteq> []" "length s \<le> 6"
  obtains b k n where "promoted_rhs_matmul_type ty = tensor e (b @ [k, n])" "length b \<le> 4"
    "promotes (rank ty = 1) ty e b [k, n] [k]" "rank ty = 1 \<Longrightarrow> n = 1" "rank ty = 1 \<Longrightarrow> s = [k]"
    "rank ty \<noteq> 1 \<Longrightarrow> s = b @ [k, n]"
proof (cases "length s = 1")
  case True
  then obtain k where "s = [k]" by (cases s) auto
  then show ?thesis
    using assms(1) by (intro that [of "[]" k 1]) (simp_all add: promoted_rhs_matmul_type_def promotes_def)
next
  case False
  then have "2 \<le> length s" using assms(2) by (cases s) (auto simp: Suc_le_eq)
  then obtain b k n where "s = b @ [k, n]" by (rule split_last2)
  then show ?thesis
    using assms(1,3) by (intro that [of b k n]) (simp_all add: promoted_rhs_matmul_type_def promotes_def)
qed

lemma matmul_promoted:
  assumes "matmul_result_type lt rt = Inr t"
  obtains e b b' c m k n where
    "promoted_lhs_matmul_type lt = tensor e (b @ [m, k])" "promoted_rhs_matmul_type rt = tensor e (b' @ [k, n])"
    "is_numeric e" "broadcast_shape_slices b b' = Inr c" "length b \<le> 4" "length b' \<le> 4" "length c \<le> 4"
    "promotes (rank lt = 1) lt e b [m, k] [k]" "promotes (rank rt = 1) rt e b' [k, n] [k]"
    "rank lt = 1 \<longrightarrow> m = 1" "rank rt = 1 \<longrightarrow> n = 1"
    "t = tensor e (c @ (if rank lt = 1 then [] else [m]) @ (if rank rt = 1 then [] else [n]))"
proof -
  obtain e s where lt: "lt = tensor e s" by (metis tensor_split)
  obtain e' s' where rt: "rt = tensor e' s'" by (metis tensor_split)
  have el: "e' = e" "is_numeric e" and ranks: "s \<noteq> []" "s' \<noteq> []" "length s \<le> 6" "length s' \<le> 6"
    using assms by (auto simp: matmul_result_type_def result_simps guard_defs lt rt MAX_TENSOR_RANK_def)
  from promoted_lhs [OF lt ranks(1,3)] obtain b m k where
    l: "promoted_lhs_matmul_type lt = tensor e (b @ [m, k])" "length b \<le> 4"
      "promotes (rank lt = 1) lt e b [m, k] [k]" "rank lt = 1 \<Longrightarrow> m = 1" "last s = k"
      "rank lt \<noteq> 1 \<Longrightarrow> s = b @ [m, k]" by blast
  from promoted_rhs [OF rt ranks(2,4)] obtain b' k' n where
    r: "promoted_rhs_matmul_type rt = tensor e' (b' @ [k', n])" "length b' \<le> 4"
      "promotes (rank rt = 1) rt e' b' [k', n] [k']" "rank rt = 1 \<Longrightarrow> n = 1" "rank rt = 1 \<Longrightarrow> s' = [k']"
      "rank rt \<noteq> 1 \<Longrightarrow> s' = b' @ [k', n]" by blast
  have lhs: "(if rank lt = 1 then shape lt ! 0 else shape lt ! (rank lt - 1)) = k"
      "(if 2 < rank lt then take (rank lt - 2) (shape lt) else []) = b"
      "(if rank lt = 1 then [] else [shape lt ! (rank lt - 2)]) = (if rank lt = 1 then [] else [m])"
    using l(3) by (auto simp: promotes_def nth_append split: if_splits)
  have rhs: "(if rank rt = 1 then shape rt ! 0 else shape rt ! (rank rt - 2)) = k'"
      "(if 2 < rank rt then take (rank rt - 2) (shape rt) else []) = b'"
      "(if rank rt = 1 then [] else [shape rt ! (rank rt - 1)]) = (if rank rt = 1 then [] else [n])"
    using r(3) by (auto simp: promotes_def nth_append split: if_splits)
  obtain c where c: "broadcast_shape_slices b b' = Inr c" "k' = k"
      "t = tensor e (c @ (if rank lt = 1 then [] else [m]) @ (if rank rt = 1 then [] else [n]))"
    using assms [unfolded matmul_result_type_def Let_def lhs rhs] lt
    unfolding rbind_Inr_iff check_Inr_iff map_err_Inr_iff sum.inject by auto
  show ?thesis
  proof (rule that [of e b m k b' n c])
    show "length c \<le> 4" using broadcast_length [OF c(1)] l(2) r(2) by simp
  qed (use l r c el in auto)
qed

text \<open>The two operands of a product, its value and the promoted gradient.\<close>

lemma promotes_typed:
  assumes "typed C E a ty" "promotes (rank ty = 1) ty e b [m, k] v" "rank ty = 1 \<Longrightarrow> prod_list v = m * k"
  shows "typed C E (reshape_if_needed a ty (tensor e (b @ [m, k]))) (tensor e (b @ [m, k]))"
  using assms(1) by (rule typed_reshape_if_needed) (use assms(2,3) in \<open>auto simp: promotes_def split: if_splits\<close>)

lemma typed_matmul:
  assumes "typed C E l (tensor e (b @ [m, k]))" "typed C E r (tensor e (b' @ [k, n]))"
    "is_numeric e" "broadcast_shape_slices b b' = Inr c" "length b \<le> 4" "length b' \<le> 4" "length c \<le> 4"
  shows "typed C E (call OpMatmul [l, r]) (tensor e (c @ [m, n]))"
  using assms(1,2) by (rule typed_call2) (simp_all add: infer_matmul assms static_creation_def del: infer_call_results.simps)

lemma typed_swap_last_two:
  assumes "typed C E x (tensor e (b @ [m, k]))"
  shows "\<exists>y. swap_last_two x (tensor e (b @ [m, k])) = Inr y \<and> typed C E y (tensor e (b @ [k, m]))"
    and "swap_last_two_type (tensor e (b @ [m, k])) = Inr (tensor e (b @ [k, m]))"
proof -
  have "typed C E (call (OpSwapAxes (length b) (Suc (length b))) [x]) (tensor e (b @ [k, m]))"
    using assms by (rule typed_call1) (simp_all add: rule_groups guard_defs swapaxes_result_type_def
        swap_last static_creation_def)
  then show "\<exists>y. swap_last_two x (tensor e (b @ [m, k])) = Inr y \<and> typed C E y (tensor e (b @ [k, m]))"
    by (simp add: swap_last_two_def)
  show "swap_last_two_type (tensor e (b @ [m, k])) = Inr (tensor e (b @ [k, m]))"
    by (simp add: swap_last_two_type_def swap_last)
qed

lemma typed_remove_axis:
  assumes "typed C E x ty" "axis < rank ty" "shape ty ! axis = 1"
  shows "\<exists>y. remove_axis x ty axis = Inr (y, tensor (elem ty) (remove_nth axis (shape ty))) \<and>
           typed C E y (tensor (elem ty) (remove_nth axis (shape ty)))"
proof -
  have "prod_list (remove_nth axis (shape ty)) = prod_list (shape ty)"
    using prod_list_remove_nth [of axis "shape ty"] assms(2,3) by (simp add: rank_def)
  then show ?thesis
    using assms typed_reshape [OF assms(1), of "tensor (elem ty) (remove_nth axis (shape ty))"]
    by (simp add: remove_axis_def remove_shape_axis_def rank_def Let_def)
qed

text \<open>A gradient product, demoted when its operand is a vector, reduces to the operand's type.\<close>

lemma demote_lhs_step:
  assumes "typed C E x (tensor e (c @ [m, k]))" "promotes (rank lt = 1) lt e b [m, k] [k]"
    "rank lt = 1 \<Longrightarrow> m = 1" "broadcast_shape_slices b c = Inr c" "mg_lhs_is_vector spec \<longleftrightarrow> rank lt = 1"
  shows "\<exists>y ty. demote_lhs_grad spec x (tensor e (c @ [m, k])) = Inr (y, ty) \<and> typed C E y ty \<and> below lt ty \<and> elem ty = e"
proof (cases "rank lt = 1")
  case True
  then have "lt = tensor e [k]" "m = 1" using assms(2,3) by (simp_all add: promotes_def)
  then show ?thesis
    using typed_remove_axis [OF assms(1), of "length c"] True assms(5) broadcast_suffix [of "[k]" c]
    by (auto simp: demote_lhs_grad_def remove_last below_def nth_append)
next
  case False
  then show ?thesis
    using assms broadcast_append [OF assms(4), of "[m, k]"]
    by (auto simp: demote_lhs_grad_def promotes_def below_def)
qed

lemma demote_rhs_step:
  assumes "typed C E x (tensor e (c @ [k, n]))" "promotes (rank rt = 1) rt e b [k, n] [k]"
    "rank rt = 1 \<Longrightarrow> n = 1" "broadcast_shape_slices b c = Inr c" "mg_rhs_is_vector spec \<longleftrightarrow> rank rt = 1"
  shows "\<exists>y ty. demote_rhs_grad spec x (tensor e (c @ [k, n])) = Inr (y, ty) \<and> typed C E y ty \<and> below rt ty \<and> elem ty = e"
proof (cases "rank rt = 1")
  case True
  then have "rt = tensor e [k]" "n = 1" using assms(2,3) by (simp_all add: promotes_def)
  then show ?thesis
    using typed_remove_axis [OF assms(1), of "Suc (length c)"] True assms(5) broadcast_suffix [of "[k]" c]
    by (auto simp: demote_rhs_grad_def remove_last below_def nth_append)
next
  case False
  then show ?thesis
    using assms broadcast_append [OF assms(4), of "[k, n]"]
    by (auto simp: demote_rhs_grad_def promotes_def below_def)
qed

lemma demoted_output:
  assumes "rank lt = 1 \<Longrightarrow> m = 1" "rank rt = 1 \<Longrightarrow> n = 1"
  shows "demoted_matmul_output_type (tensor e (c @ [m, n])) (rank lt = 1) (rank rt = 1) =
           Inr (tensor e (c @ (if rank lt = 1 then [] else [m]) @ (if rank rt = 1 then [] else [n])))"
  using assms
  by (auto simp: demoted_matmul_output_type_def remove_shape_axis_def remove_last nth_append)

lemma reverse_matmul_ok:
  assumes st: "st_ok C E st" and ops: "operand C E x lt" "operand C E y rt" and g: "typed C E g t"
    and r: "matmul_result_type lt rt = Inr t"
  shows "rev_ok C E st (reverse_matmul [x, y] t g st)"
proof -
  obtain e b b' c m k n where
    L: "promoted_lhs_matmul_type lt = tensor e (b @ [m, k])" and
    R: "promoted_rhs_matmul_type rt = tensor e (b' @ [k, n])" and
    num: "is_numeric e" and bc: "broadcast_shape_slices b b' = Inr c" and
    len: "length b \<le> 4" "length b' \<le> 4" "length c \<le> 4" and
    pl: "promotes (rank lt = 1) lt e b [m, k] [k]" and pr: "promotes (rank rt = 1) rt e b' [k, n] [k]" and
    one: "rank lt = 1 \<longrightarrow> m = 1" "rank rt = 1 \<longrightarrow> n = 1" and
    t: "t = tensor e (c @ (if rank lt = 1 then [] else [m]) @ (if rank rt = 1 then [] else [n]))"
    by (rule matmul_promoted [OF r])
  note ones = one(1) [rule_format] one(2) [rule_format]
  let ?G = "tensor e (c @ [m, n])"
  define spec where "spec = \<lparr>mg_lhs_is_vector = (rank lt = 1), mg_rhs_is_vector = (rank rt = 1),
    mg_lhs_matrix_ty = tensor e (b @ [m, k]), mg_rhs_matrix_ty = tensor e (b' @ [k, n]),
    mg_grad_matrix_ty = ?G\<rparr>"
  have spec: "matmul_grad_spec_new lt rt t = Inr spec"
    using matmul_type_matrix [OF num bc len] demoted_output [of lt m rt n e c] ones
    by (simp add: matmul_grad_spec_new_def L R t spec_def Let_def)
  define lhs where "lhs = reshape_if_needed x lt (tensor e (b @ [m, k]))"
  define rhs where "rhs = reshape_if_needed y rt (tensor e (b' @ [k, n]))"
  define grad where "grad = reshape_if_needed g t ?G"
  have lhs: "typed C E lhs (tensor e (b @ [m, k]))"
    unfolding lhs_def using ops(1) pl ones(1) by (intro promotes_typed) auto
  have rhs: "typed C E rhs (tensor e (b' @ [k, n]))"
    unfolding rhs_def using ops(2) pr ones(2) by (intro promotes_typed) auto
  have grad: "typed C E grad ?G"
    unfolding grad_def by (rule typed_reshape_if_needed [OF g]) (use ones in \<open>auto simp: t\<close>)
  obtain rhs_t where rhs_t: "swap_last_two rhs (tensor e (b' @ [k, n])) = Inr rhs_t"
      "typed C E rhs_t (tensor e (b' @ [n, k]))" using typed_swap_last_two(1) [OF rhs] by blast
  obtain lhs_t where lhs_t: "swap_last_two lhs (tensor e (b @ [m, k])) = Inr lhs_t"
      "typed C E lhs_t (tensor e (b @ [k, m]))" using typed_swap_last_two(1) [OF lhs] by blast
  have bl: "broadcast_shape_slices b c = Inr c" and cb': "broadcast_shape_slices c b' = Inr c"
    and br: "broadcast_shape_slices b' c = Inr c"
    using bc by (rule bc.upper_left, rule bc.upper_right', rule bc.upper_right)
  have lg: "typed C E (call OpMatmul [grad, rhs_t]) (tensor e (c @ [m, k]))"
    by (rule typed_matmul [OF grad rhs_t(2) num cb' len(3,2,3)])
  have rg: "typed C E (call OpMatmul [lhs_t, grad]) (tensor e (c @ [k, n]))"
    by (rule typed_matmul [OF lhs_t(2) grad num bl len(1,3,3)])
  obtain lx lty where lx: "demote_lhs_grad spec (call OpMatmul [grad, rhs_t]) (tensor e (c @ [m, k])) = Inr (lx, lty)"
      "typed C E lx lty" "below lt lty" "elem lty = e"
    using demote_lhs_step [OF lg pl ones(1) bl, of spec] by (auto simp: spec_def)
  obtain rx rty where rx: "demote_rhs_grad spec (call OpMatmul [lhs_t, grad]) (tensor e (c @ [k, n])) = Inr (rx, rty)"
      "typed C E rx rty" "below rt rty" "elem rty = e"
    using demote_rhs_step [OF rg pr ones(2) br, of spec] by (auto simp: spec_def)
  have types: "swap_last_two_type (tensor e (b' @ [k, n])) = Inr (tensor e (b' @ [n, k]))"
      "swap_last_two_type (tensor e (b @ [m, k])) = Inr (tensor e (b @ [k, m]))"
      "matmul_type ?G (tensor e (b' @ [n, k])) = Inr (tensor e (c @ [m, k]))"
      "matmul_type (tensor e (b @ [k, m])) ?G = Inr (tensor e (c @ [k, n]))"
    using typed_swap_last_two(2) [OF rhs] typed_swap_last_two(2) [OF lhs]
      matmul_type_matrix [OF num cb' len(3,2,3)] matmul_type_matrix [OF num bl len(1,3,3)] by blast+
  have fields: "mg_lhs_matrix_ty spec = tensor e (b @ [m, k])" "mg_rhs_matrix_ty spec = tensor e (b' @ [k, n])"
      "mg_grad_matrix_ty spec = ?G" by (simp_all add: spec_def)
  have "rev_ok C E st (rbind (unbroadcast lx lty lt) (\<lambda>lg. rbind (add_grad_to_expr x lg st) (\<lambda>st1.
          rbind (unbroadcast rx rty rt) (\<lambda>rg. add_grad_to_expr y rg st1))))"
    using st ops lx(2-) rx(2-) num
    by (auto intro!: unbroadcast_step rev_ok_bind [OF add_operand [OF st ops(1)]] add_operand [OF _ ops(2)])
  moreover have "ref_ty st x = Inr lt" "ref_ty st y = Inr rt" using ref_ty_flat [OF st] ops by blast+
  ultimately show ?thesis
    by (simp add: reverse_matmul_def Let_def spec fields types rhs_t(1) lhs_t(1) lx(1) rx(1)
        flip: lhs_def rhs_def grad_def)
qed

section \<open>Inner and outer products\<close>

lemma reverse_dot_ok:
  assumes "st_ok C E st" "operand C E x lt" "operand C E y rt" "typed C E g t"
    and r: "dot_result_type lt rt = Inr t"
  shows "rev_ok C E st (reverse_dot [x, y] g st)"
proof -
  have t: "t = tensor (elem lt) []" "lt = rt" and num: "is_numeric (elem lt)"
    using r by (auto simp: dot_result_type_def expect_same_numeric_element_def expect_matching_dim_def
        guard_defs result_simps rank_def length_Suc_conv tensor_eq_iff intro!: tensor_type.equality)
  then have "typed C E (binary Mul g z) lt" if "typed C E z lt" for z
    using that assms(4) by (intro typed_binary_right [of C E g t]) auto
  then show ?thesis
    unfolding reverse_dot_def using assms t(2) by (auto intro!: add_both)
qed

lemma reverse_vecdot_ok:
  assumes "st_ok C E st" "operand C E x lt" "operand C E y rt" "typed C E g t"
    and r: "vecdot_result_type lt rt axis = Inr t"
  shows "rev_ok C E st (reverse_vecdot [x, y] t axis g st)"
proof -
  define ax where "ax = (case axis of Some a \<Rightarrow> a | None \<Rightarrow> rank lt - 1)"
  have eq: "elem lt = elem rt" "shape lt = shape rt" and num: "is_numeric (elem lt)"
      and rk: "rank lt \<noteq> 0" "ax < rank lt" and t: "t = tensor (elem lt) (remove_nth ax (shape lt))"
    using r by (auto simp: vecdot_result_type_def expect_same_numeric_element_def linalg_expect_axis_def
        guard_defs result_simps ax_def Let_def)
  have "lt = rt" using eq tensor_split by metis
  moreover have "reduction_output_type lt (AxisOne ax) = Inr t" using rk t by (simp add: guard_defs)
  moreover have "usize_sub (rank lt) 1 = Inr (rank lt - 1)" using rk by (simp add: usize_sub_def)
  ultimately have "rev_ok C E st (rbind (expand_reduction_grad g t lt (AxisOne ax)) (\<lambda>grad'.
      rbind (add_grad_to_expr x (binary Mul grad' y) st) (add_grad_to_expr y (binary Mul grad' x))))"
    and "ref_ty st x = Inr lt" "usize_sub (rank lt) 1 = Inr (rank lt - 1)"
    using assms(1-4) num ref_ty_flat [OF assms(1)]
    by (blast intro: expand_step add_both typed_binary_same)+
  then show ?thesis
    by (cases axis) (simp_all add: reverse_vecdot_def Let_def ax_def del: expand_reduction_grad.simps)
qed

lemma typed_matmul2:
  assumes "typed C E l (tensor e [m, k])" "typed C E r (tensor e [k, n])" "is_numeric e"
  shows "typed C E (call OpMatmul [l, r]) (tensor e [m, n])"
  using typed_matmul [of C E l e "[]" m k r "[]" n "[]"] assms by simp

lemma typed_transpose2:
  assumes "typed C E x (tensor e [m, n])"
  shows "typed C E (call (OpTranspose []) [x]) (tensor e [n, m])"
  using assms by (rule typed_call1) (simp_all add: rule_groups guard_defs transpose_result_type_def static_creation_def)

lemma take_last: "s \<noteq> [] \<Longrightarrow> prod_list (take (length s - 1) s) * s ! (length s - 1) = prod_list (s :: nat list)"
  by (cases s rule: rev_cases) simp_all

lemma reverse_inner_ok:
  assumes st: "st_ok C E st" and ops: "operand C E x lt" "operand C E y rt" and g: "typed C E g t"
    and r: "inner_result_type lt rt = Inr t"
  shows "rev_ok C E st (reverse_inner [x, y] t g st)"
proof -
  have el: "elem lt = elem rt" and num: "is_numeric (elem lt)"
    using r by (auto simp: inner_result_type_def expect_same_numeric_element_def guard_defs result_simps)
  show ?thesis
  proof (cases "rank lt = 0 \<or> rank rt = 0")
    case True
    then have t: "t = tensor (elem lt) (if rank lt = 0 then shape rt else shape lt)"
      using r by (auto simp: inner_result_type_def expect_same_numeric_element_def guard_defs result_simps)
    then have below: "below lt t" "below rt t" and num_t: "is_numeric (elem t)"
      using True el num by (auto simp: below_def rank_def)
    have "typed C E (binary Mul g y) t" "typed C E (binary Mul g x) t"
      using g ops below num_t by (blast intro: typed_binary_left)+
    then show ?thesis
      unfolding reverse_inner_def reverse_inner_scalar_def using st ops below num_t True
      by (auto intro!: ref_operand unbroadcast_step add_both)
  next
    case False
    let ?k = "shape lt ! (rank lt - 1)"
    let ?lp = "element_count_slice (take (rank lt - 1) (shape lt))"
    let ?rp = "element_count_slice (take (rank rt - 1) (shape rt))"
    have k: "?k = shape rt ! (rank rt - 1)"
        and t: "t = tensor (elem lt) (take (rank lt - 1) (shape lt) @ take (rank rt - 1) (shape rt))"
      using r False by (auto simp: inner_result_type_def expect_same_numeric_element_def guard_defs
          expect_matching_dim_def result_simps Let_def)
    have cl: "?lp * ?k = prod_list (shape lt)" and cr: "?rp * ?k = prod_list (shape rt)"
      using take_last [of "shape lt"] take_last [of "shape rt"] False k
      by (auto simp: rank_def element_count_slice_def)
    define lhs where "lhs = call (OpReshape (tensor (elem lt) [?lp, ?k])) [x]"
    define rhs where "rhs = call (OpReshape (tensor (elem lt) [?rp, ?k])) [y]"
    define grad where "grad = reshape_if_needed g t (tensor (elem lt) [?lp, ?rp])"
    have lhs: "typed C E lhs (tensor (elem lt) [?lp, ?k])"
      unfolding lhs_def by (rule typed_reshape [OF conjunct2 [OF ops(1)]]) (use cl in simp_all)
    have rhs: "typed C E rhs (tensor (elem lt) [?rp, ?k])"
      unfolding rhs_def by (rule typed_reshape [OF conjunct2 [OF ops(2)]]) (use cr el in simp_all)
    have grad: "typed C E grad (tensor (elem lt) [?lp, ?rp])"
      unfolding grad_def by (rule typed_reshape_if_needed [OF g]) (simp_all add: t element_count_slice_def)
    have "typed C E (call (OpReshape lt) [call OpMatmul [grad, rhs]]) lt"
      by (rule typed_reshape [OF typed_matmul2 [OF grad rhs num]]) (use cl in simp_all)
    moreover have "typed C E (call (OpReshape rt) [call OpMatmul [call (OpTranspose []) [grad], lhs]]) rt"
      by (rule typed_reshape [OF typed_matmul2 [OF typed_transpose2 [OF grad] lhs num]])
        (use cr el in simp_all)
    ultimately show ?thesis
      unfolding reverse_inner_def reverse_inner_matrix_def Let_def
      using st ops False
      by (auto simp: lhs_def rhs_def grad_def intro!: ref_operand rev_ok_bind [OF add_operand] add_operand)
  qed
qed

lemma reverse_outer_ok:
  assumes st: "st_ok C E st" and ops: "operand C E x lt" "operand C E y rt" and g: "typed C E g t"
    and r: "outer_result_type lt rt = Inr t"
  shows "rev_ok C E st (reverse_outer [x, y] t g st)"
proof -
  let ?m = "element_count_slice (shape lt)" and ?n = "element_count_slice (shape rt)"
  have el: "elem rt = elem lt" and num: "is_numeric (elem lt)" and t: "t = tensor (elem lt) [?m, ?n]"
    using r by (auto simp: outer_result_type_def expect_same_numeric_element_def guard_defs result_simps
        element_count_def element_count_slice_def)
  define row where "row = call (OpReshape (tensor (elem lt) [1, ?m])) [x]"
  define col where "col = call (OpReshape (tensor (elem lt) [?n, 1])) [y]"
  define grad where "grad = reshape_if_needed g t (tensor (elem lt) [?m, ?n])"
  have row: "typed C E row (tensor (elem lt) [1, ?m])"
    unfolding row_def by (rule typed_reshape [OF conjunct2 [OF ops(1)]]) (simp_all add: element_count_slice_def)
  have col: "typed C E col (tensor (elem lt) [?n, 1])"
    unfolding col_def by (rule typed_reshape [OF conjunct2 [OF ops(2)]])
      (simp_all add: element_count_slice_def el)
  have grad: "typed C E grad (tensor (elem lt) [?m, ?n])"
    unfolding grad_def by (rule typed_reshape_if_needed [OF g]) (simp_all add: t)
  have "typed C E (call (OpReshape lt) [call OpMatmul [grad, col]]) lt"
    by (rule typed_reshape [OF typed_matmul2 [OF grad col num]]) (simp_all add: element_count_slice_def)
  moreover have "typed C E (call (OpReshape rt) [call OpMatmul [row, grad]]) rt"
    by (rule typed_reshape [OF typed_matmul2 [OF row grad num]]) (simp_all add: element_count_slice_def el)
  ultimately show ?thesis
    unfolding reverse_outer_def Let_def using st ops
    by (auto simp: row_def col_def grad_def intro!: ref_operand rev_ok_bind [OF add_operand] add_operand)
qed

section \<open>Diagonals\<close>

text \<open>The axes of the diagonal moved to the end, as the compact gradient has them.\<close>

definition diagonal_last :: "nat \<Rightarrow> nat \<times> nat \<Rightarrow> nat list" where
  "diagonal_last rk ax = filter (\<lambda>axis. axis \<noteq> fst ax \<and> axis \<noteq> snd ax) [0..<rk] @ [fst ax, snd ax]"

lemma diagonal_last_permutation:
  assumes "fst ax < rk" "snd ax < rk" "fst ax \<noteq> snd ax"
  shows "is_permutation rk (diagonal_last rk ax)"
proof -
  have d: "distinct (diagonal_last rk ax)" and s: "set (diagonal_last rk ax) = {..<rk}"
    using assms by (auto simp: diagonal_last_def)
  then have "length (diagonal_last rk ax) = rk" by (metis card_lessThan distinct_card)
  with d s show ?thesis by (simp add: is_permutation_def)
qed

lemma position_Some: "x \<in> set ys \<Longrightarrow> \<exists>i. position x ys = Some i \<and> i < length ys \<and> ys ! i = x"
  by (induction ys) auto

lemma compact_axes_ok:
  assumes "fst ax < rk" "snd ax < rk" "fst ax \<noteq> snd ax"
  shows "\<exists>p. compact_axes rk ax = Inr p \<and> is_permutation rk p \<and> (\<forall>j < rk. diagonal_last rk ax ! (p ! j) = j)"
proof -
  let ?non = "filter (\<lambda>axis. axis \<noteq> fst ax \<and> axis \<noteq> snd ax) [0..<rk]"
  have perm: "is_permutation rk (diagonal_last rk ax)" using assms by (rule diagonal_last_permutation)
  then have len: "length ?non + 2 = rk" by (auto dest!: is_permutation_length simp: diagonal_last_def)
  define f where "f axis = (if axis = fst ax then length ?non
     else if axis = snd ax then length ?non + 1 else the (position axis ?non))" for axis
  have f: "(if axis = fst ax then Inr (length ?non) else if axis = snd ax then Inr (length ?non + 1)
        else of_option (Panic UnwrapNone) (position axis ?non)) = Inr (f axis) \<and>
      f axis < rk \<and> diagonal_last rk ax ! f axis = axis" if "axis < rk" for axis
  proof (cases "axis = fst ax \<or> axis = snd ax")
    case True
    then show ?thesis using len assms(3) by (auto simp: f_def diagonal_last_def nth_append)
  next
    case False
    then obtain i where "position axis ?non = Some i" "i < length ?non" "?non ! i = axis"
      using position_Some [of axis ?non] \<open>axis < rk\<close> by auto
    then show ?thesis using False len by (simp add: f_def diagonal_last_def nth_append)
  qed
  let ?p = "map f [0..<rk]"
  have "compact_axes rk ax = Inr ?p"
    unfolding compact_axes_def Let_def by (rule rmap_Inr_map) (use f in simp)
  moreover have "distinct ?p"
    unfolding distinct_map using f by (auto intro!: inj_onI) (metis f)
  ultimately show ?thesis
    using f by (auto simp: is_permutation_def)
qed

lemma compact_shape:
  "shape (diagonal_compact_type in_ty ax) = map ((!) (shape in_ty)) (diagonal_last (rank in_ty) ax)"
  by (simp add: diagonal_compact_type_def diagonal_last_def remove_axes_filter rank_def)

lemma typed_permute_compact:
  assumes "typed C E x (diagonal_compact_type in_ty ax)" "fst ax < rank in_ty" "snd ax < rank in_ty"
    "fst ax \<noteq> snd ax"
  shows "\<exists>e. permute_compact_diagonal x in_ty ax = Inr e \<and> typed C E e in_ty"
proof -
  obtain p where p: "compact_axes (rank in_ty) ax = Inr p" "is_permutation (rank in_ty) p"
      "\<forall>j < rank in_ty. diagonal_last (rank in_ty) ax ! (p ! j) = j"
    using compact_axes_ok [OF assms(2-4)] by blast
  have perm: "is_permutation (rank in_ty) (diagonal_last (rank in_ty) ax)"
    using assms(2-4) by (rule diagonal_last_permutation)
  note lens = is_permutation_length [OF p(2)] is_permutation_length [OF perm]
  have "map ((!) (shape (diagonal_compact_type in_ty ax))) p = shape in_ty"
    by (rule nth_equalityI)
      (use p(3) lens is_permutation_nth [OF p(2)] in \<open>auto simp: compact_shape rank_def\<close>)
  moreover have "rank (diagonal_compact_type in_ty ax) = rank in_ty"
    using lens by (simp add: rank_def [of "diagonal_compact_type in_ty ax"] compact_shape)
  moreover have "elem (diagonal_compact_type in_ty ax) = elem in_ty"
    by (simp add: diagonal_compact_type_def)
  ultimately have "permute_dims_result_type (diagonal_compact_type in_ty ax) p = Inr in_ty"
    using p(2) by (simp add: permute_dims_Inr tensor_split)
  then have "typed C E (call (OpPermuteDims p) [x]) in_ty"
    by (intro typed_call1 [OF assms(1)]) (simp_all add: rule_groups guard_defs static_creation_def)
  then show ?thesis by (simp add: permute_compact_diagonal_def p(1))
qed

lemma typed_eye:
  "typed C E (call (OpEye (tensor e [d, d])) []) (tensor e [d, d])"
  by (simp add: typed_def call_def has_types_Call_iff graph_callee_def validate_static_creation_call_def
      discard_def static_eye_literals_def validate_static_eye_target_def guard_defs Let_def
      validate_static_creation_target_def)

lemma typed_diagonal_eye:
  assumes "shape in_ty ! fst ax = d" "shape in_ty ! snd ax = d"
  shows "typed C E (diagonal_eye in_ty ax (diagonal_compact_type in_ty ax)) (diagonal_compact_type in_ty ax)"
proof -
  have "broadcast_shape_slices [d, d] (shape (diagonal_compact_type in_ty ax)) = Inr (shape (diagonal_compact_type in_ty ax))"
    using assms broadcast_suffix [of "[d, d]"] by (simp add: diagonal_compact_type_def)
  then show ?thesis
    unfolding diagonal_eye_def using assms
    by (intro typed_broadcast [of _ _ _ "tensor (elem in_ty) [d, d]"])
      (simp_all add: typed_eye, simp_all add: diagonal_compact_type_def)
qed

lemma default_axis_pair_ok:
  assumes "default_axis_pair in_ty axes = Inr ax"
  shows "ad_default_axis_pair in_ty axes = Inr ax" "fst ax < rank in_ty" "snd ax < rank in_ty" "fst ax \<noteq> snd ax"
  using assms
  by (auto simp: default_axis_pair_def ad_default_axis_pair_def linalg_expect_axis_def result_simps Let_def)

lemma typed_diagonal_grad:
  assumes "typed C E g (tensor (elem in_ty) u)" "prod_list u = prod_list v"
    "broadcast_shape_slices v (shape (diagonal_compact_type in_ty ax)) = Inr w"
    "shape in_ty ! fst ax = d" "shape in_ty ! snd ax = d" "is_numeric (elem in_ty)"
  shows "typed C E (binary Mul (call (OpBroadcast (diagonal_compact_type in_ty ax))
            [call (OpReshape (tensor (elem in_ty) v)) [g]])
          (diagonal_eye in_ty ax (diagonal_compact_type in_ty ax))) (diagonal_compact_type in_ty ax)"
proof (rule typed_binary_same)
  have "typed C E (call (OpReshape (tensor (elem in_ty) v)) [g]) (tensor (elem in_ty) v)"
    by (rule typed_reshape [OF assms(1)]) (simp_all add: assms(2))
  then show "typed C E (call (OpBroadcast (diagonal_compact_type in_ty ax))
      [call (OpReshape (tensor (elem in_ty) v)) [g]]) (diagonal_compact_type in_ty ax)"
    by (rule typed_broadcast) (use assms(3) in \<open>auto simp: diagonal_compact_type_def\<close>)
  show "is_numeric (elem (diagonal_compact_type in_ty ax))"
    using assms(6) by (simp add: diagonal_compact_type_def)
qed (rule typed_diagonal_eye [OF assms(4,5)])

lemma reverse_trace_ok:
  assumes st: "st_ok C E st" and x: "operand C E x in_ty" and g: "typed C E g t"
    and r: "trace_result_type in_ty axes = Inr t"
  shows "rev_ok C E st (reverse_trace [x] t axes g st)"
proof -
  obtain ax where ax: "default_axis_pair in_ty axes = Inr ax" and d: "shape in_ty ! fst ax = shape in_ty ! snd ax"
      and t: "t = tensor (elem in_ty) (remove_axes_shape (shape in_ty) (fst ax) (snd ax))"
      and num: "is_numeric (elem in_ty)"
    using r by (auto simp: trace_result_type_def result_simps expect_matching_dim_def)
  note p = default_axis_pair_ok [OF ax]
  have "broadcast_shape_slices [1, 1] [shape in_ty ! snd ax, shape in_ty ! snd ax] =
      Inr [shape in_ty ! snd ax, shape in_ty ! snd ax]"
    by (rule broadcast_same_length) (auto simp: less_Suc_eq_0_disj)
  from broadcast_append' [OF this]
  have "typed C E (binary Mul (call (OpBroadcast (diagonal_compact_type in_ty ax))
            [call (OpReshape (tensor (elem in_ty) (shape t @ [1, 1]))) [g]])
          (diagonal_eye in_ty ax (diagonal_compact_type in_ty ax))) (diagonal_compact_type in_ty ax)"
    by (intro typed_diagonal_grad [OF g [unfolded t]]) (auto simp: t d num diagonal_compact_type_def)
  from typed_permute_compact [OF this p(2-4)] show ?thesis
    unfolding reverse_trace_def Let_def using st x p(1)
    by (auto intro!: ref_operand add_operand)
qed

lemma reverse_diagonal_ok:
  assumes st: "st_ok C E st" and x: "operand C E x in_ty" and g: "typed C E g t"
    and r: "diagonal_result_type in_ty axes = Inr t" and num: "is_numeric (elem in_ty)"
  shows "rev_ok C E st (reverse_diagonal [x] axes g st)"
proof -
  obtain ax where ax: "default_axis_pair in_ty axes = Inr ax" and d: "shape in_ty ! fst ax = shape in_ty ! snd ax"
      and t: "t = tensor (elem in_ty) (remove_axes_shape (shape in_ty) (fst ax) (snd ax) @ [shape in_ty ! fst ax])"
    using r by (auto simp: diagonal_result_type_def result_simps expect_matching_dim_def)
  note p = default_axis_pair_ok [OF ax]
  have "broadcast_shape_slices [shape in_ty ! snd ax, 1] [shape in_ty ! snd ax, shape in_ty ! snd ax] =
      Inr [shape in_ty ! snd ax, shape in_ty ! snd ax]"
    by (rule broadcast_same_length) (auto simp: less_Suc_eq_0_disj)
  from broadcast_append' [OF this]
  have "typed C E (binary Mul (call (OpBroadcast (diagonal_compact_type in_ty ax))
            [call (OpReshape (tensor (elem in_ty)
               (remove_axes_shape (shape in_ty) (fst ax) (snd ax) @ [shape in_ty ! fst ax, 1]))) [g]])
          (diagonal_eye in_ty ax (diagonal_compact_type in_ty ax))) (diagonal_compact_type in_ty ax)"
    by (intro typed_diagonal_grad [OF g [unfolded t]]) (auto simp: d num diagonal_compact_type_def)
  from typed_permute_compact [OF this p(2-4)] show ?thesis
    unfolding reverse_diagonal_def Let_def using st x p(1)
    by (auto intro!: ref_operand add_operand)
qed

end
