(* ===== verification/Reverse_Indices.thy ===== *)
theory Reverse_Indices
  imports Reverse_Linalg Static_Facts
begin

text \<open>
  The reverse rules of the indexed reads \<open>gather\<close> and \<open>take_along_axis\<close>: one masked piece per
  position of the indexed axis, reduced over the index axes and concatenated along the axis.
\<close>

section \<open>Masks\<close>

lemma write_dims_ok:
  "pos + length dims \<le> length out \<Longrightarrow>
     write_dims pos dims out = Inr (take pos out @ dims @ drop (pos + length dims) out)"
proof (induction dims arbitrary: pos out)
  case (Cons d dims)
  then have "write_dims (Suc pos) dims (out[pos := d])
      = Inr (take (Suc pos) (out[pos := d]) @ dims @ drop (Suc pos + length dims) (out[pos := d]))"
    by simp
  then show ?case using Cons.prems by (simp add: set_idx_def take_Suc_conv_app_nth)
qed simp

lemma typed_index_condition:
  assumes "typed C E i ity" "is_numeric (elem ity)"
  shows "typed C E (index_condition i ity dim k) (tensor Bool (shape ity))"
proof -
  have "typed C E (call OpEqual [i, scalar_const v (elem ity)]) (tensor Bool (shape ity))" for v
    using assms(1) by (rule typed_equal [OF _ typed_const]) simp_all
  then show ?thesis
    unfolding index_condition_def Let_def by (intro typed_logical [where op = OpLogicalOr]) auto
qed

lemma reshape_index_condition_ok:
  assumes c: "typed C E c (tensor Bool (shape ity))"
    and t: "shape t = take axis s @ shape ity @ drop (axis + 1) s" and ax: "axis < length s"
  shows "\<exists>c'. reshape_index_condition c ity t axis = Inr c' \<and> typed C E c' (tensor Bool (shape t))"
proof -
  let ?m = "replicate axis 1 @ shape ity @ replicate (length s - Suc axis) 1"
  have w: "write_dims axis (shape ity) (replicate (rank t) 1) = Inr ?m"
    using ax by (subst write_dims_ok) (simp_all add: rank_def t min_def)
  have "typed C E (reshape_if_needed c (tensor Bool (shape ity)) (tensor Bool ?m)) (tensor Bool ?m)"
    using c by (rule typed_reshape_if_needed) (simp_all add: prod_list_replicate)
  moreover from this have "typed C E (call (OpBroadcast (tensor Bool (shape t)))
      [reshape_if_needed c (tensor Bool (shape ity)) (tensor Bool ?m)]) (tensor Bool (shape t))"
  proof (rule typed_broadcast)
    show "broadcast_shape_slices (shape (tensor Bool ?m)) (shape (tensor Bool (shape t))) = Inr (shape t)"
      unfolding tensor_type.select_convs using ax
      by (intro broadcast_same_length) (auto simp: t nth_append)
  qed simp
  ultimately show ?thesis using w by (auto simp: reshape_index_condition_def Let_def)
qed

section \<open>Pieces\<close>

lemma typed_concat:
  assumes "typed C E a ta" "typed C E b tb" "concat_result_type ta tb axis = Inr t"
  shows "typed C E (call (OpConcat axis) [a, b]) t"
  using assms(1,2) by (rule typed_call2) (simp_all add: rule_groups guard_defs static_creation_def assms(3))

lemma concat_pieces:
  assumes "axis < length s" "typed C E p (tensor el (s[axis := k]))"
    and "\<forall>q \<in> set qs. typed C E q (tensor el (s[axis := 1]))"
  shows "typed C E (foldl (\<lambda>acc piece. call (OpConcat axis) [acc, piece]) p qs)
           (tensor el (s[axis := k + length qs]))"
  using assms(2,3)
proof (induction qs arbitrary: p k)
  case (Cons q qs)
  have "concat_dims axis 0 (s[axis := k]) (s[axis := 1]) = Inr (s[axis := Suc k])"
    using assms(1) by (simp add: concat_dims_Inr nth_list_update)
  then have "typed C E (call (OpConcat axis) [p, q]) (tensor el (s[axis := Suc k]))"
    using Cons.prems assms(1)
    by (intro typed_concat [of C E p "tensor el (s[axis := k])" q "tensor el (s[axis := 1])"])
      (simp_all add: concat_result_type_def guard_defs)
  then show ?case using Cons.IH Cons.prems(2) by fastforce
qed simp

lemma concat_all_ok:
  assumes "axis < length s" "ps \<noteq> []" "\<forall>p \<in> set ps. typed C E p (tensor el (s[axis := 1]))"
  shows "\<exists>e. concat_all ps axis = Some e \<and> typed C E e (tensor el (s[axis := length ps]))"
  using assms concat_pieces [of axis s C E _ el 1] by (cases ps) (auto simp: concat_all_def)

lemma indexed_axis_grad_ok:
  assumes x: "typed C E x in_ty" and i: "typed C E i ity" "is_numeric (elem ity)"
    and g: "typed C E g t" and ax: "axis < length (shape in_ty)"
    and cond: "\<And>c. typed C E c (tensor Bool (shape ity)) \<Longrightarrow>
        \<exists>c'. (if shape ity = shape t then Inr c else reshape_index_condition c ity t axis) = Inr c' \<and>
             typed C E c' (tensor Bool (shape t))"
    and sum: "\<And>p. typed C E p t \<Longrightarrow>
        typed C E (sum_axes (rev reduce) p) (tensor (elem in_ty) (remove_nth axis (shape in_ty)))"
  shows "\<exists>e. indexed_axis_grad x i ity t in_ty axis reduce g = Inr e \<and> typed C E e in_ty"
proof (cases "shape in_ty ! axis = 0")
  case True
  then show ?thesis using x ax by (auto simp: indexed_axis_grad_def intro: typed_intros)
next
  case False
  let ?dim = "shape in_ty ! axis"
  let ?unit = "tensor (elem in_ty) ((shape in_ty)[axis := 1])"
  let ?step = "\<lambda>index. rbind (if shape ity = shape t then Inr (index_condition i ity ?dim index)
       else reshape_index_condition (index_condition i ity ?dim index) ity t axis) (\<lambda>c'.
       let piece = sum_axes (rev reduce) (mask_grad c' g) in Inr (call (OpReshape ?unit) [piece]))"
  have step: "\<exists>p. ?step index = Inr p \<and> typed C E p ?unit" for index
  proof -
    obtain c' where c': "(if shape ity = shape t then Inr (index_condition i ity ?dim index)
        else reshape_index_condition (index_condition i ity ?dim index) ity t axis) = Inr c'"
        "typed C E c' (tensor Bool (shape t))"
      using cond [OF typed_index_condition [OF i]] by blast
    have "typed C E (sum_axes (rev reduce) (mask_grad c' g)) (tensor (elem in_ty) (remove_nth axis (shape in_ty)))"
      by (rule sum, rule typed_mask_grad [OF c'(2) g]) simp
    then have "typed C E (call (OpReshape ?unit) [sum_axes (rev reduce) (mask_grad c' g)]) ?unit"
      by (rule typed_reshape) (use ax in \<open>simp_all add: prod_list_update\<close>)
    then show ?thesis using c'(1) by simp
  qed
  then obtain f where f: "?step index = Inr (f index)" "typed C E (f index) ?unit" for index by metis
  have "rmap ?step [0..<?dim] = Inr (map f [0..<?dim])" by (rule rmap_Inr_map) (rule f(1))
  moreover obtain e where e: "concat_all (map f [0..<?dim]) axis = Some e"
      "typed C E e (tensor (elem in_ty) ((shape in_ty)[axis := ?dim]))"
    using concat_all_ok [OF ax, of "map f [0..<?dim]" C E "elem in_ty"] False f(2) by auto
  ultimately have "indexed_axis_grad x i ity t in_ty axis reduce g = Inr e"
    using ax False by (simp add: indexed_axis_grad_def Let_def)
  then show ?thesis using e(2) by (simp add: tensor_split)
qed

text \<open>Summing the index axes of a gathered gradient, last first.\<close>

lemma sum_index_axes:
  "typed C E p (tensor el (a @ d @ b)) \<Longrightarrow> is_numeric el \<Longrightarrow>
     typed C E (sum_axes (rev [length a..<length a + length d]) p) (tensor el (a @ b))"
proof (induction d arbitrary: p b rule: rev_induct)
  case (snoc x d)
  let ?k = "length a + length d"
  have "typed C E (call (OpSum (AxisOne ?k)) [p]) (tensor el (remove_nth ?k (a @ (d @ [x]) @ b)))"
    using snoc.prems by (intro typed_sum_axis) simp_all
  then have "typed C E (call (OpSum (AxisOne ?k)) [p]) (tensor el (a @ d @ b))"
    by (simp add: remove_nth_def)
  from snoc.IH [OF this snoc.prems(2)] show ?case by (simp add: sum_axes_def)
qed (simp add: sum_axes_def)

section \<open>gather\<close>

lemma reverse_gather_ok:
  assumes st: "st_ok C E st" and x: "operand C E x in_ty" and i: "operand C E i ity" and g: "typed C E g t"
    and r: "gather_result_type in_ty ity t axis = Inr t" and num: "is_numeric (elem in_ty)"
  shows "rev_ok C E st (reverse_gather [x, i] t axis g st)"
proof -
  let ?a = "take axis (shape in_ty)" and ?b = "drop (axis + 1) (shape in_ty)"
  have ax: "axis < length (shape in_ty)" and el: "elem t = elem in_ty" "is_numeric (elem ity)"
      and s: "shape t = ?a @ shape ity @ ?b"
    using r by (auto simp: gather_result_type_def guard_defs result_simps rank_def is_numeric_def)
  have "\<exists>e. indexed_axis_grad x i ity t in_ty axis [axis..<axis + rank ity] g = Inr e \<and> typed C E e in_ty"
  proof (rule indexed_axis_grad_ok [OF conjunct2 [OF x] conjunct2 [OF i] el(2) g ax])
    fix c assume c: "typed C E c (tensor Bool (shape ity))"
    show "\<exists>c'. (if shape ity = shape t then Inr c else reshape_index_condition c ity t axis) = Inr c' \<and>
             typed C E c' (tensor Bool (shape t))"
      using c reshape_index_condition_ok [OF c s ax] by (cases "shape ity = shape t") simp_all
  next
    fix p assume "typed C E p t"
    then have "typed C E p (tensor (elem in_ty) (?a @ shape ity @ ?b))" using el(1) s by (metis tensor_split)
    from sum_index_axes [OF this num] ax
    show "typed C E (sum_axes (rev [axis..<axis + rank ity]) p)
            (tensor (elem in_ty) (remove_nth axis (shape in_ty)))"
      by (simp add: rank_def remove_nth_def min_def)
  qed
  then show ?thesis
    unfolding reverse_gather_def Let_def using st x i by (auto intro!: ref_operand add_operand)
qed

section \<open>take_along_axis\<close>

text \<open>The positions of an axis as an integer tensor; literals have to fit the index element type.\<close>

lemma typed_positions:
  assumes e: "e = I32 \<or> e = I64" and n: "n \<le> 2 ^ 31"
  shows "typed C E (call (OpArange (tensor e [n])) [scalar_const (zero_literal e) e, scalar_const (nat_str n) e])
           (tensor e [n])"
proof -
  have n': "int n \<le> 2147483648" using n by simp
  have num: "is_numeric e" using e by (auto simp: is_numeric_def)
  have zero: "static_scalar F (scalar_const (zero_literal e) e) = Inr (Some (SInt 0))" for F
    using e parse_i128_nat_str [of 0] by (auto simp: scalar_const_def const_scalar_def nat_str_eval)
  have count: "static_scalar F (scalar_const (nat_str n) e) = Inr (Some (SInt (int n)))" for F
    using e parse_i128_nat_str [of n] n' by (auto simp: scalar_const_def const_scalar_def)
  have params: "parse_numeric_params F [scalar_const (zero_literal e) e, scalar_const (nat_str n) e] 1 3
      = Inr [PInt 0, PInt (int n)]" for F
    by (simp add: parse_numeric_params_def numeric_param_def zero count)
  have "integer_arange_len 0 (int n) 1 = Inr n"
    using n' by (auto simp: integer_arange_len_def i128_checked_def)
  moreover have "rmap (\<lambda>index. rbind (i128_checked (1 * int index)) (\<lambda>off. rbind (i128_checked (0 + off))
      (\<lambda>value. integer_literal_for_elem value e))) [0..<n] = Inr (map (\<lambda>i. int_str (int i)) [0..<n])"
    by (rule rmap_Inr_map) (use e n' in \<open>auto simp: i128_checked_def integer_literal_for_elem_def\<close>)
  ultimately have "validate_static_creation_call F (OpArange (tensor e [n]))
      [scalar_const (zero_literal e) e, scalar_const (nat_str n) e] = Inr ()" for F
    by (simp add: validate_static_creation_call_def discard_def static_arange_literals_def
        validate_static_vector_target_def params [unfolded One_nat_def] int_arange_literals_def num e)
  moreover have "validate_static_creation_target (OpArange (tensor e [n])) = Inr ()"
    by (simp add: validate_static_creation_target_def validate_static_vector_target_def num)
  moreover have "list_all2 (\<lambda>a t. has_types C E a [t])
      [scalar_const (zero_literal e) e, scalar_const (nat_str n) e] [tensor e [], tensor e []]"
    using typed_const [of C E] by (simp add: typed_def)
  ultimately show ?thesis
    by (auto simp: typed_def call_def has_types_Call_iff graph_callee_def)
qed

lemma typed_normalized_indices:
  assumes "typed C E i ity" "is_numeric (elem ity)"
  shows "typed C E (normalize_index_tensor i (elem ity) n) ity"
proof -
  have b: "binary_result_type ity (tensor (elem ity) []) = Inr ity"
    using assms(2) by (simp add: binary_result_Inr)
  have "typed C E (call OpLess [i, scalar_const (zero_literal (elem ity)) (elem ity)]) (tensor Bool (shape ity))"
    by (rule typed_comparison [OF _ assms(1) typed_const b]) simp
  moreover have "typed C E (binary Add i (scalar_const (nat_str n) (elem ity))) ity"
    using assms(1) typed_const b by (rule typed_binary)
  ultimately show ?thesis
    unfolding normalize_index_tensor_def Let_def using assms(1) by (rule typed_where_same)
qed

text \<open>An operand brought to a type it broadcasts to, unless it has it already.\<close>

lemma typed_broadcast_if:
  assumes "typed C E x s" "below s t" "s = t \<longleftrightarrow> b"
  shows "typed C E (if b then x else call (OpBroadcast t) [x]) t"
  using assms typed_broadcast [OF assms(1), of t] by (auto simp: below_def)

lemma take_along_unit_ok:
  assumes i: "typed C E i ity" and e: "elem ity = I32 \<or> elem ity = I64"
    and g: "typed C E g t" and rk: "rank in_ty = rank ity" and ax: "axis < length (shape in_ty)"
    and dims: "\<forall>a < rank in_ty. a = axis \<or> shape in_ty ! a = shape ity ! a"
    and t: "t = tensor (elem in_ty) (shape ity)" and n: "shape in_ty ! axis \<le> 2 ^ 31"
  shows "\<exists>r. take_along_axis_unit_grad i ity t in_ty axis g = Inr r \<and> (\<forall>e'. r = Some e' \<longrightarrow> typed C E e' in_ty)"
proof (cases "shape ity ! axis = 1")
  case False
  then show ?thesis using rk ax by (simp add: take_along_axis_unit_grad_def t rank_def)
next
  case True
  let ?n = "shape in_ty ! axis" and ?grid = "(replicate (rank in_ty) 1)[axis := shape in_ty ! axis]"
  let ?full = "tensor (elem ity) (shape in_ty)"
  define norm where "norm = normalize_index_tensor i (elem ity) ?n"
  define vals where "vals = call (OpArange (tensor (elem ity) [?n]))
    [scalar_const (zero_literal (elem ity)) (elem ity), scalar_const (nat_str ?n) (elem ity)]"
  have len: "length (shape ity) = length (shape in_ty)" using rk by (simp add: rank_def)
  have below: "broadcast_shape_slices (shape ity) (shape in_ty) = Inr (shape in_ty)"
    by (rule broadcast_same_length) (use len dims True in \<open>auto simp: rank_def\<close>)
  have "typed C E norm ity"
    unfolding norm_def using i e by (intro typed_normalized_indices) (auto simp: is_numeric_def)
  then have norm: "typed C E (if shape ity = shape in_ty then norm else call (OpBroadcast ?full) [norm]) ?full"
    by (rule typed_broadcast_if) (auto simp: below_def below tensor_eq_iff)
  have "typed C E vals (tensor (elem ity) [?n])" unfolding vals_def using e n by (rule typed_positions)
  then have "typed C E (reshape_if_needed vals (tensor (elem ity) [?n]) (tensor (elem ity) ?grid))
      (tensor (elem ity) ?grid)"
    by (rule typed_reshape_if_needed)
      (use ax in \<open>simp_all add: rank_def prod_list_update remove_nth_def prod_list_replicate\<close>)
  then have grid: "typed C E (if tensor (elem ity) ?grid = ?full
      then reshape_if_needed vals (tensor (elem ity) [?n]) (tensor (elem ity) ?grid)
      else call (OpBroadcast ?full) [reshape_if_needed vals (tensor (elem ity) [?n]) (tensor (elem ity) ?grid)]) ?full"
  proof (rule typed_broadcast_if)
    show "below (tensor (elem ity) ?grid) ?full"
      unfolding below_def tensor_type.select_convs
      by (intro conjI refl broadcast_same_length) (use ax in \<open>auto simp: rank_def nth_list_update\<close>)
  qed simp
  have grad: "typed C E (if t = in_ty then g else call (OpBroadcast in_ty) [g]) in_ty"
    using g by (rule typed_broadcast_if) (simp_all add: below_def t below)
  have "take_along_axis_unit_grad i ity t in_ty axis g = Inr (Some (mask_grad (call OpEqual
      [if tensor (elem ity) ?grid = ?full
       then reshape_if_needed vals (tensor (elem ity) [?n]) (tensor (elem ity) ?grid)
       else call (OpBroadcast ?full) [reshape_if_needed vals (tensor (elem ity) [?n]) (tensor (elem ity) ?grid)],
       if shape ity = shape in_ty then norm else call (OpBroadcast ?full) [norm]])
      (if t = in_ty then g else call (OpBroadcast in_ty) [g])))"
    using True rk ax len
    by (simp add: take_along_axis_unit_grad_def Let_def t rank_def norm_def vals_def)
  moreover note typed_mask_grad [OF typed_equal [OF grid norm, of "shape in_ty"] grad]
  ultimately show ?thesis by auto
qed

lemma reverse_take_along_axis_ok:
  assumes st: "st_ok C E st" and x: "operand C E x in_ty" and i: "operand C E i ity" and g: "typed C E g t"
    and r: "take_along_axis_result_type in_ty ity axis = Inr t" and num: "is_numeric (elem in_ty)"
    and n: "shape in_ty ! axis \<le> 2 ^ 31"
  shows "rev_ok C E st (reverse_take_along_axis [x, i] t axis g st)"
proof -
  have ax: "axis < length (shape in_ty)" and e: "elem ity = I32 \<or> elem ity = I64"
      and rk: "rank in_ty = rank ity" and t: "t = tensor (elem in_ty) (shape ity)"
      and dims: "\<forall>a < rank in_ty. a = axis \<or> shape in_ty ! a = shape ity ! a"
    using r by (auto simp: take_along_axis_result_type_def guard_defs result_simps rank_def)
  obtain u where u: "take_along_axis_unit_grad i ity t in_ty axis g = Inr u"
      "\<forall>e'. u = Some e' \<longrightarrow> typed C E e' in_ty"
    using take_along_unit_ok [OF conjunct2 [OF i] e g rk ax dims t n] by blast
  have "\<exists>e. indexed_axis_grad x i ity t in_ty axis [axis] g = Inr e \<and> typed C E e in_ty"
  proof (rule indexed_axis_grad_ok [OF conjunct2 [OF x] conjunct2 [OF i] _ g ax])
    fix p assume "typed C E p t"
    then have "typed C E (call (OpSum (AxisOne axis)) [p]) (tensor (elem in_ty) (remove_nth axis (shape ity)))"
      unfolding t by (rule typed_sum_axis) (use ax rk num in \<open>simp_all add: rank_def\<close>)
    moreover have "remove_nth axis (shape ity) = remove_nth axis (shape in_ty)"
    proof (rule nth_equalityI)
      have "shape ity ! a = shape in_ty ! a" if "a < length (shape in_ty)" "a \<noteq> axis" for a
        using dims that by (auto simp: rank_def)
      then show "remove_nth axis (shape ity) ! k = remove_nth axis (shape in_ty) ! k"
        if "k < length (remove_nth axis (shape ity))" for k
        using that ax rk by (simp add: rank_def nth_remove_nth)
    qed (use ax rk in \<open>simp add: rank_def\<close>)
    ultimately show "typed C E (sum_axes (rev [axis]) p) (tensor (elem in_ty) (remove_nth axis (shape in_ty)))"
      by (simp add: sum_axes_def)
  qed (use e in \<open>auto simp: t is_numeric_def\<close>)
  then obtain h where "indexed_axis_grad x i ity t in_ty axis [axis] g = Inr h" "typed C E h in_ty" by blast
  then show ?thesis
    unfolding reverse_take_along_axis_def using st x i u
    by (cases u) (auto intro!: ref_operand add_operand)
qed

end
