(* ===== verification/Reverse_Correct.thy ===== *)
theory Reverse_Correct
  imports Reverse_Indices
begin

text \<open>
  The reverse pass as a whole.  On a node whose operation was accepted by the typing rules the
  reverse rule succeeds and keeps the accumulated gradients well typed; so the reverse sweep over
  the nodes of a typed graph succeeds.
\<close>

section \<open>The dispatch on the operation\<close>

text \<open>
  What a rule needs beyond the typing of the call: a broadcast must not drop dimensions, a
  repetition must leave room for one more axis, and the positions of an indexed axis must be
  representable as literals.  A \<open>split\<close> is replaced by slices when the graph is flattened.
\<close>

definition reversible :: "call_op \<Rightarrow> tensor_type list \<Rightarrow> bool" where
  "reversible op ts \<longleftrightarrow>
     (case op of
        OpBroadcast target \<Rightarrow> below (ts ! 0) target
      | OpRepeat axis count \<Rightarrow> rank (ts ! 0) < 6 \<or> count \<le> 1
      | OpTakeAlongAxis axis \<Rightarrow> shape (ts ! 0) ! axis \<le> 2 ^ 31
      | OpSplit axis sections \<Rightarrow> False
      | _ \<Rightarrow> True)"

lemma arity_simps:
  "expect_arity ts 0 = Inr () \<longleftrightarrow> ts = []"
  "expect_arity ts 1 = Inr () \<longleftrightarrow> (\<exists>a. ts = [a])"
  "expect_arity ts (Suc 0) = Inr () \<longleftrightarrow> (\<exists>a. ts = [a])"
  "expect_arity ts 2 = Inr () \<longleftrightarrow> (\<exists>a b. ts = [a, b])"
  "expect_arity ts 3 = Inr () \<longleftrightarrow> (\<exists>a b c. ts = [a, b, c])"
  by (auto simp: expect_arity_def check_Inr_iff length_Suc_conv numeral_eq_Suc)

lemma operands_simps:
  "list_all2 (\<lambda>x t. operand C E x t) args [] \<longleftrightarrow> args = []"
  "list_all2 (\<lambda>x t. operand C E x t) args (a # ts) \<longleftrightarrow>
     (\<exists>x xs. args = x # xs \<and> operand C E x a \<and> list_all2 (\<lambda>x t. operand C E x t) xs ts)"
  by (simp_all add: list_all2_Cons2)

lemmas call_cases = rule_groups arity_simps rbind_Inr_iff check_Inr_iff operands_simps
  expect_float_def expect_numeric_element_def

lemma reverse_op_elementwise:
  assumes "st_ok C E st" "list_all2 (\<lambda>x t. operand C E x t) args ts" "infer_call_results op ts = Inr [t]"
    and "is_float (elem t)" "typed C E out t" "typed C E g t"
    and "op \<in> {OpAbs, OpExp, OpExp2, OpExpM1, OpLog, OpLog1P, OpLog2, OpLog10, OpSin, OpCos, OpTan, OpTanh,
           OpRelu, OpSigmoid, OpSquare, OpReciprocal, OpSqrt}"
  shows "rev_ok C E st (reverse_op op args out t g st)"
  using assms
  by (auto simp: call_cases intro!: reverse_scaled_ok [where t = t] reverse_divided_ok [where t = t]
      typed_abs_local typed_locals typed_numeric_locals reverse_relu_ok [where t = t])

lemma reverse_op_reductions:
  assumes "st_ok C E st" "list_all2 (\<lambda>x t. operand C E x t) args ts" "infer_call_results op ts = Inr [t]"
    and f: "is_float (elem t)" and "typed C E out t" "typed C E g t"
    and "op \<in> {OpSum axis, OpProd axis, OpMean axis, OpMax axis, OpMin axis, OpVar axis, OpStd axis,
           OpPtp axis, OpSoftmax axis}"
  shows "rev_ok C E st (reverse_op op args out t g st)"
proof -
  have num: "is_numeric (elem t)" using f by (rule float_numeric)
  obtain x a where ts: "ts = [a]" "args = [x]" "operand C E x a"
    using assms(2,3,7) by (auto simp: call_cases)
  show ?thesis
  proof (cases "op = OpSoftmax axis")
    case True
    then have t: "t = a" and ne: "expect_non_empty_reduction t axis = Inr ()"
      using assms(3) by (auto simp: call_cases ts)
    obtain r where "reduction_output_type t axis = Inr r"
      using ne by (cases axis) (auto simp: guard_defs result_simps)
    then show ?thesis using True assms ts t ne by (auto intro: reverse_softmax_ok)
  next
    case False
    then have r: "reduction_output_type a axis = Inr t" using assms(3,7) by (auto simp: call_cases ts)
    then have el: "elem t = elem a" by (rule reduction_elem)
    have "expect_non_empty_reduction a axis = Inr ()" if "op \<notin> {OpSum axis, OpProd axis}"
      using assms(3,7) False that by (auto simp: call_cases ts)
    moreover have "rev_ok C E st (reverse_prod [x] out t axis g st)"
      by (rule reverse_prod_ok [OF assms(1) ts(3) r assms(6,5)]) (use num el in simp)
    moreover have "rev_ok C E st (reverse_mean [x] t axis g st)"
      by (rule reverse_mean_ok [OF assms(1) ts(3) r assms(6) num])
    ultimately show ?thesis
      using assms(1,5-7) False ts r f el
      by (auto intro: reverse_sum_ok reverse_extremum_ok reverse_var_ok reverse_std_ok reverse_ptp_ok)
  qed
qed

lemma reverse_op_pairs:
  assumes "st_ok C E st" "list_all2 (\<lambda>x t. operand C E x t) args ts" "infer_call_results op ts = Inr [t]"
    and f: "is_float (elem t)" and "typed C E out t" "typed C E g t"
    and "op \<in> {OpPow, OpMinimum, OpMaximum, OpMatmul, OpDot, OpVecdot vax, OpInner, OpOuter, OpConcat ax,
           OpStack ax, OpGather target ax, OpTakeAlongAxis ax, OpConv2d options, OpFullLike}"
    and "reversible op ts"
  shows "rev_ok C E st (reverse_op op args out t g st)"
proof -
  have num: "is_numeric (elem t)" using f by (rule float_numeric)
  obtain x y a b where ts: "ts = [a, b]" "args = [x, y]" and x: "operand C E x a" and y: "operand C E y b"
    using assms(2,3,7) by (auto simp: call_cases)
  note st = assms(1) and out = assms(5) and g = assms(6) and res = assms(3) [unfolded ts]
  from assms(7) consider "op = OpPow" | "op \<in> {OpMinimum, OpMaximum}" | "op = OpMatmul" | "op = OpDot"
    | "op = OpVecdot vax" | "op = OpInner" | "op = OpOuter" | "op = OpConcat ax" | "op = OpStack ax"
    | "op = OpGather target ax" | "op = OpTakeAlongAxis ax" | "op = OpConv2d options" | "op = OpFullLike"
    by blast
  then show ?thesis
  proof cases
    case 1
    then show ?thesis using st x y f out g res by (auto simp: call_cases ts intro: reverse_pow_ok)
  next
    case 2
    then show ?thesis using st x y g res by (auto simp: call_cases ts intro: reverse_minimum_maximum_ok)
  next
    case 3
    then show ?thesis using st x y g res by (auto simp: call_cases ts intro: reverse_matmul_ok)
  next
    case 4
    then show ?thesis using st x y g res by (auto simp: call_cases ts intro: reverse_dot_ok)
  next
    case 5
    then show ?thesis using st x y g res by (auto simp: call_cases ts intro: reverse_vecdot_ok)
  next
    case 6
    then show ?thesis using st x y g res by (auto simp: call_cases ts intro: reverse_inner_ok)
  next
    case 7
    then show ?thesis using st x y g res by (auto simp: call_cases ts intro: reverse_outer_ok)
  next
    case 8
    then show ?thesis using st x y g res by (auto simp: call_cases ts intro: reverse_concat_ok)
  next
    case 9
    then have r: "stack_result_type a b ax = Inr t" using res by (auto simp: call_cases)
    then have "b = a" by (auto simp: stack_result_type_def result_simps)
    then show ?thesis using 9 st x y g r by (auto simp: ts intro: reverse_stack_ok)
  next
    case 10
    then have r: "gather_result_type a b target ax = Inr t" using res by (auto simp: call_cases)
    then have "target = t" "elem a = elem t" by (auto simp: gather_result_type_def result_simps)
    then show ?thesis using 10 st x y g r num by (auto simp: ts intro: reverse_gather_ok)
  next
    case 11
    then have r: "take_along_axis_result_type a b ax = Inr t" using res by (auto simp: call_cases)
    then have "elem a = elem t" by (auto simp: take_along_axis_result_type_def result_simps)
    then show ?thesis
      using 11 st x y g r num assms(8) by (auto simp: ts reversible_def intro: reverse_take_along_axis_ok)
  next
    case 12
    then have r: "conv2d_result_type a b options = Inr t" using res by (auto simp: call_cases)
    then have "elem a = elem t" by (auto simp: conv2d_result_type_def result_simps Let_def)
    then show ?thesis using 12 st x y g r num by (auto simp: ts intro: reverse_conv2d_ok)
  next
    case 13
    then have "rank b = 0" "elem b = elem a" "t = a"
      using res by (auto simp: call_cases)
    then show ?thesis using 13 st x y g num by (auto simp: ts intro: reverse_full_like_ok)
  qed
qed

lemma reverse_op_triples:
  assumes "st_ok C E st" "list_all2 (\<lambda>x t. operand C E x t) args ts" "infer_call_results op ts = Inr [t]"
    and f: "is_float (elem t)" and "typed C E g t" and "op = OpClip \<or> op = OpWhere"
  shows "rev_ok C E st (reverse_op op args out t g st)"
  using assms(6)
proof
  assume "op = OpClip"
  then show ?thesis using assms by (auto simp: call_cases intro: reverse_clip_ok)
next
  assume "op = OpWhere"
  then show ?thesis using assms by (auto simp: call_cases intro: reverse_where_ok)
qed

lemma reverse_op_shapes:
  assumes "st_ok C E st" "list_all2 (\<lambda>x t. operand C E x t) args ts" "infer_call_results op ts = Inr [t]"
    and f: "is_float (elem t)" and "typed C E out t" "typed C E g t"
    and "op \<in> {OpReshape u, OpSqueeze u, OpUnsqueeze u, OpBroadcast u, OpPad u offs, OpSlice u offs,
           OpTake ax k, OpTile offs, OpRepeat ax k, OpTranspose offs, OpSwapAxes ax k, OpMoveAxis ax k,
           OpPermuteDims offs, OpPermute u offs, OpFlip offs, OpRoll ax k, OpAvgPool2d options,
           OpMaxPool2d options, OpTrace axes, OpDiagonal axes}"
    and "reversible op ts"
  shows "rev_ok C E st (reverse_op op args out t g st)"
proof -
  have num: "is_numeric (elem t)" using f by (rule float_numeric)
  obtain x a where ts: "ts = [a]" "args = [x]" and x: "operand C E x a"
    using assms(2,3,7) by (auto simp: call_cases)
  note st = assms(1) and out = assms(5) and g = assms(6) and res = assms(3) [unfolded ts]
  from assms(7) consider "op = OpReshape u" | "op = OpSqueeze u" | "op = OpUnsqueeze u" | "op = OpBroadcast u"
    | "op = OpPad u offs" | "op = OpSlice u offs" | "op = OpTake ax k" | "op = OpTile offs" | "op = OpRepeat ax k"
    | "op = OpTranspose offs" | "op = OpSwapAxes ax k" | "op = OpMoveAxis ax k" | "op = OpPermuteDims offs"
    | "op = OpPermute u offs" | "op = OpFlip offs" | "op = OpRoll ax k" | "op = OpAvgPool2d options"
    | "op = OpMaxPool2d options" | "op = OpTrace axes" | "op = OpDiagonal axes" by blast
  then show ?thesis
  proof cases
    case 1
    then have "elem a = elem t" "prod_list (shape a) = prod_list (shape t)"
      using res by (auto simp: call_cases validate_reshape_def element_count_def)
    then show ?thesis using 1 st x g by (auto simp: ts intro: reverse_reshape_ok)
  next
    case 2
    then have v: "validate_squeeze a t = Inr ()" using res by (auto simp: call_cases)
    then have "elem a = elem t" by (auto simp: validate_squeeze_def result_simps)
    then show ?thesis using 2 st x g squeeze_count [OF v] by (auto simp: ts intro: reverse_reshape_ok)
  next
    case 3
    then have v: "validate_unsqueeze a t = Inr ()" using res by (auto simp: call_cases)
    then have "elem a = elem t" by (auto simp: validate_unsqueeze_def result_simps)
    then show ?thesis using 3 st x g unsqueeze_count [OF v] by (auto simp: ts intro: reverse_reshape_ok)
  next
    case 4
    then have "u = t" using res by (auto simp: call_cases)
    then show ?thesis using 4 st x g num assms(8) by (auto simp: ts reversible_def intro: reverse_broadcast_ok)
  next
    case 5
    then show ?thesis using st x g res by (auto simp: call_cases ts intro: reverse_pad_ok)
  next
    case 6
    then show ?thesis using st x g res by (auto simp: call_cases ts intro: reverse_slice_ok)
  next
    case 7
    then show ?thesis using st x g res by (auto simp: call_cases ts intro: reverse_take_ok)
  next
    case 8
    then have r: "tile_result_type a offs = Inr t" using res by (auto simp: call_cases)
    then have "elem a = elem t" by (auto simp: tile_result_type_def result_simps)
    then show ?thesis using 8 st x g r num by (auto simp: ts intro: reverse_tile_ok)
  next
    case 9
    then have r: "repeat_result_type a ax k = Inr t" using res by (auto simp: call_cases)
    then have "elem a = elem t" by (auto simp: repeat_result_type_def result_simps)
    then show ?thesis using 9 st x g r num assms(8) by (auto simp: ts reversible_def intro: reverse_repeat_ok)
  next
    case 10
    then show ?thesis using st x g res by (auto simp: call_cases ts intro: reverse_transpose_ok)
  next
    case 11
    then have "swapaxes_result_type a ax k = Inr t" using res by (auto simp: call_cases)
    from swapaxes_back [OF this] show ?thesis
      using 11 st x g by (auto simp: ts static_creation_def intro!: reverse_moved_ok [OF st x g])
  next
    case 12
    then have "moveaxis_result_type a ax k = Inr t" using res by (auto simp: call_cases)
    from moveaxis_back [OF this] show ?thesis
      using 12 st x g by (auto simp: ts static_creation_def intro!: reverse_moved_ok [OF st x g])
  next
    case 13
    then show ?thesis using st x g res by (auto simp: call_cases ts intro: reverse_permute_ok)
  next
    case 14
    then have "permute_dims_result_type a offs = Inr t"
      using res by (auto simp: call_cases intro: validate_permute_dims)
    then show ?thesis using 14 st x g by (auto simp: ts intro: reverse_permute_ok)
  next
    case 15
    from flip_back [OF res [unfolded 15]] show ?thesis
      using 15 st x g by (auto simp: ts static_creation_def intro!: reverse_moved_ok [OF st x g])
  next
    case 16
    then have "t = a" "ax < rank a" using res by (auto simp: call_cases guard_defs)
    then show ?thesis using 16 st x g by (auto simp: ts intro: reverse_roll_ok)
  next
    case 17
    then show ?thesis using st x g res by (auto simp: ts intro: reverse_avg_pool2d_ok)
  next
    case 18
    then have r: "pool2d_result_type a options = Inr t" using res by (auto simp: call_cases max_pool2d_result_type_def)
    then have "elem a = elem t" by (auto simp: pool2d_result_type_def result_simps Let_def)
    then show ?thesis using 18 st x g out r num by (auto simp: ts intro: reverse_max_pool2d_ok)
  next
    case 19
    then show ?thesis using st x g res by (auto simp: call_cases ts intro: reverse_trace_ok)
  next
    case 20
    then have r: "diagonal_result_type a axes = Inr t" using res by (auto simp: call_cases)
    then have "elem a = elem t" by (auto simp: diagonal_result_type_def result_simps)
    then show ?thesis using 20 st x g r num by (auto simp: ts intro: reverse_diagonal_ok)
  qed
qed

text \<open>Every operation that is accepted and does not stop the gradient has a reverse rule.\<close>

lemma reverse_op_ok:
  assumes "st_ok C E st" "list_all2 (\<lambda>x t. operand C E x t) args ts" "infer_call_results op ts = Inr [t]"
    and "\<not> call_stops_gradient op t" "typed C E out t" "typed C E g t" "reversible op ts"
  shows "rev_ok C E st (reverse_op op args out t g st)"
proof -
  have f: "is_float (elem t)" using assms(4) by (auto simp: call_stops_gradient_def)
  note elementwise = reverse_op_elementwise [OF assms(1-3) f assms(5,6)]
  note reductions = reverse_op_reductions [OF assms(1-3) f assms(5,6)]
  note pairs = reverse_op_pairs [OF assms(1-3) f assms(5,6) _ assms(7)]
  note triples = reverse_op_triples [OF assms(1-3) f assms(6)]
  note shapes = reverse_op_shapes [OF assms(1-3) f assms(5,6) _ assms(7)]
  have "op \<in> {OpAbs, OpExp, OpExp2, OpExpM1, OpLog, OpLog1P, OpLog2, OpLog10, OpSin, OpCos, OpTan, OpTanh,
       OpRelu, OpSigmoid, OpSquare, OpReciprocal, OpSqrt} \<or>
     (\<exists>axis. op \<in> {OpSum axis, OpProd axis, OpMean axis, OpMax axis, OpMin axis, OpVar axis, OpStd axis, OpPtp
       axis, OpSoftmax axis}) \<or>
     (\<exists>vax ax target options. op \<in> {OpPow, OpMinimum, OpMaximum, OpMatmul, OpDot, OpVecdot vax, OpInner, OpOuter, OpConcat ax,
       OpStack ax, OpGather target ax, OpTakeAlongAxis ax, OpConv2d options, OpFullLike}) \<or>
     op = OpClip \<or> op = OpWhere \<or>
     (\<exists>u offs ax k options axes. op \<in> {OpReshape u, OpSqueeze u, OpUnsqueeze u, OpBroadcast u, OpPad u offs, OpSlice u offs, OpTake
       ax k, OpTile offs, OpRepeat ax k, OpTranspose offs, OpSwapAxes ax k, OpMoveAxis ax k,
       OpPermuteDims offs, OpPermute u offs, OpFlip offs, OpRoll ax k, OpAvgPool2d options,
       OpMaxPool2d options, OpTrace axes, OpDiagonal axes}) \<or>
     (\<exists>n ax ks. op \<in> {OpGraph n, OpSplit ax ks})"
    using assms(4) f by (cases op) (simp_all add: call_stops_gradient_def)
  moreover have False if "op \<in> {OpGraph n, OpSplit ax ks}" for n ax ks
    using that assms(3,7) by (auto simp: reversible_def)
  ultimately show ?thesis using elementwise reductions pairs triples shapes by metis
qed

section \<open>Nodes and the sweep\<close>

text \<open>
  A node of the flattened graph: its expression is one operation on operands, its type is what the
  typing rules infer, and it is bound to a name of that type.
\<close>

fun node_expr_ok :: "'f checker \<Rightarrow> type_env \<Rightarrow> expr \<Rightarrow> tensor_type \<Rightarrow> bool" where
  "node_expr_ok C E (EVar name) t \<longleftrightarrow> typed C E (EVar name) t"
| "node_expr_ok C E (EConst v e) t \<longleftrightarrow> t = tensor e []"
| "node_expr_ok C E (EUnary uop v) t \<longleftrightarrow> operand C E v t \<and> is_numeric (elem t)"
| "node_expr_ok C E (EBinary bop l r) t \<longleftrightarrow>
     (\<exists>lt rt. operand C E l lt \<and> operand C E r rt \<and> binary_result_type lt rt = Inr t)"
| "node_expr_ok C E (ECall op args) t \<longleftrightarrow>
     (\<exists>ts. list_all2 (\<lambda>x t. operand C E x t) args ts \<and>
        (call_stops_gradient op t \<or> infer_call_results op ts = Inr [t] \<and> reversible op ts))"
| "node_expr_ok C E (ENode node_id v) t \<longleftrightarrow> False"
| "node_expr_ok C E (ETupleGet tuple_id v index) t \<longleftrightarrow> False"

definition node_ok :: "'f checker \<Rightarrow> type_env \<Rightarrow> node \<Rightarrow> bool" where
  "node_ok C E nd \<longleftrightarrow>
     env_lookup E (node_name nd) = Some (node_ty nd) \<and> node_expr_ok C E (node_expr nd) (node_ty nd)"

lemma reverse_node_ok:
  assumes st: "st_ok C E st" and nd: "node_ok C E nd" and g: "typed C E g (node_ty nd)"
  shows "rev_ok C E st (reverse_node nd g st)"
proof -
  have name: "typed C E (EVar (node_name nd)) (node_ty nd)" using nd by (simp add: node_ok_def typed_Var)
  have ok: "node_expr_ok C E (node_expr nd) (node_ty nd)" using nd by (simp add: node_ok_def)
  show ?thesis
  proof (cases "node_expr nd")
    case (EVar x)
    then show ?thesis
      using ok st g by (auto simp: reverse_node_def typed_Var_iff intro: add_grad_ok)
  next
    case (EConst v e)
    then show ?thesis using st by (simp add: reverse_node_def rev_ok_skip)
  next
    case (EUnary uop v)
    then show ?thesis
      using ok st g by (auto simp: reverse_node_def intro!: add_operand typed_neg)
  next
    case (EBinary bop l r)
    then show ?thesis
      using ok st g by (auto simp: reverse_node_def intro!: reverse_binary_ok)
  next
    case (ECall op args)
    then show ?thesis
      using ok st g name
      by (auto simp: reverse_node_def reverse_call_def intro: rev_ok_skip reverse_op_ok)
  qed (use ok in simp_all)
qed

lemma grads_take: "st_ok C E st \<Longrightarrow> st_ok C E (st\<lparr>ad_grads := (ad_grads st)(name := None)\<rparr>)"
  by (auto simp: st_ok_def grads_ok_def)

lemma reverse_sweep_ok:
  assumes "st_ok C E st" "\<forall>nd \<in> set nds. node_ok C E nd"
  shows "rev_ok C E st (reverse_sweep nds st)"
  using assms
proof (induction nds arbitrary: st)
  case (Cons nd nds)
  show ?case
  proof (cases "ad_grads st (node_name nd)")
    case None
    then show ?thesis using Cons by simp
  next
    case (Some g)
    let ?st = "st\<lparr>ad_grads := (ad_grads st)(node_name nd := None)\<rparr>"
    have nd: "node_ok C E nd" using Cons.prems(2) by simp
    then have g: "typed C E g (node_ty nd)"
      using Cons.prems(1) Some by (fastforce simp: st_ok_def grads_ok_def node_ok_def)
    have "rev_ok C E ?st (rbind (reverse_node nd g ?st) (reverse_sweep nds))"
      using reverse_node_ok [OF grads_take [OF Cons.prems(1)] nd g]
      by (rule rev_ok_bind) (use Cons in simp)
    then show ?thesis using Some by (simp add: rev_ok_def grads_only_def)
  qed
qed (simp add: rev_ok_skip)

end
