(* ===== verification/Shape_Properties.thy ===== *)
theory Shape_Properties
  imports Reverse_Correct "HOL-Library.Multiset"
begin

text \<open>The properties of the typing rules of the shape operations, each with a concrete instance.\<close>

section \<open>Broadcasting\<close>



section \<open>Windows\<close>





section \<open>Rearrangements\<close>

lemma permute_count:
  assumes "is_permutation (length s) axes"
  shows "prod_list (map ((!) s) axes) = (prod_list s :: nat)"
proof -
  have "distinct axes" using assms by (simp add: is_permutation_def)
  then have "mset axes = mset [0..<length s]"
    using set_eq_iff_mset_eq_distinct [of axes "[0..<length s]"] is_permutation_set [OF assms]
    by (simp add: atLeast0LessThan)
  then have "mset (map ((!) s) axes) = mset (map ((!) s) [0..<length s])" by simp
  then have "prod_mset (mset (map ((!) s) axes)) = prod_mset (mset s)" by (simp only: map_nth)
  then show ?thesis by (simp only: prod_mset_prod_list)
qed

lemma prod_list_swap_nth:
  "i < length s \<Longrightarrow> j < length s \<Longrightarrow> prod_list (swap_nth i j s) = (prod_list s :: nat)"
  by (metis mset_swap prod_mset_prod_list swap_nth_def)

text \<open>The operations that only rearrange elements keep the element type and the number of elements.\<close>

theorem rearrangement_keeps_count:
  assumes "infer_call_results op [inp] = Inr [out]"
    and "op \<in> {OpReshape t, OpSqueeze t, OpUnsqueeze t, OpTranspose axes, OpSwapAxes a b, OpMoveAxis a b,
           OpPermuteDims axes, OpPermute t axes, OpFlip axes, OpRoll a k}"
  shows "elem out = elem inp \<and> prod_list (shape out) = prod_list (shape inp)"
proof -
  have permuted: "elem u = elem inp \<and> prod_list (shape u) = prod_list (shape inp)"
    if "permute_dims_result_type inp axes = Inr u" for axes u
    using that permute_count [of "shape inp" axes] by (auto simp: permute_dims_Inr rank_def)
  from assms(2) consider "op = OpReshape t" | "op = OpSqueeze t" | "op = OpUnsqueeze t" | "op = OpTranspose axes"
    | "op = OpSwapAxes a b" | "op = OpMoveAxis a b" | "op = OpPermuteDims axes" | "op = OpPermute t axes"
    | "op = OpFlip axes" | "op = OpRoll a k" by blast
  then show ?thesis
  proof cases
    case 1
    then show ?thesis using assms(1) by (auto simp: call_cases validate_reshape_def element_count_def)
  next
    case 2
    then have "validate_squeeze inp out = Inr ()" using assms(1) by (auto simp: call_cases)
    then show ?thesis by (metis squeeze_count)
  next
    case 3
    then have "validate_unsqueeze inp out = Inr ()" using assms(1) by (auto simp: call_cases)
    then show ?thesis by (metis unsqueeze_count)
  next
    case 4
    then have "transpose_result_type inp axes = Inr out" using assms(1) by (auto simp: call_cases)
    then show ?thesis using permuted transpose_default by blast
  next
    case 5
    then show ?thesis
      using assms(1) by (auto simp: call_cases swapaxes_result_type_def guard_defs rank_def prod_list_swap_nth)
  next
    case 6
    then show ?thesis
      using assms(1) by (auto simp: call_cases moveaxis_result_Inr rank_def prod_list_insert_nth prod_list_remove_nth)
  next
    case 7
    then show ?thesis using assms(1) permuted by (auto simp: call_cases)
  next
    case 8
    then have "validate_permute inp out axes = Inr ()" using assms(1) by (auto simp: call_cases)
    then show ?thesis using permuted validate_permute_dims by blast
  next
    case 9
    then show ?thesis using assms(1) by (auto simp: call_cases)
  next
    case 10
    then show ?thesis using assms(1) by (auto simp: call_cases)
  qed
qed

lemma permute_example: "permute_dims_result_type (tensor F32 [2, 3, 4]) [2, 0, 1] = Inr (tensor F32 [4, 2, 3])"
  by (simp add: permute_dims_Inr is_permutation_def rank_def)

lemma rearrangement_keeps_count_witness:
  "elem (tensor F32 [4, 2, 3]) = elem (tensor F32 [2, 3, 4]) \<and>
   prod_list (shape (tensor F32 [4, 2, 3])) = prod_list (shape (tensor F32 [2, 3, 4]))"
  by (rule rearrangement_keeps_count [where op = "OpPermuteDims [2, 0, 1]"])
    (simp_all add: rule_groups guard_defs permute_example [unfolded One_nat_def])

text \<open>C32. Each of these rearrangements is undone, at the level of types, by an operation that the
  reverse pass uses: a permutation by its inverse permutation, a moved axis by moving it back, and a
  swap by itself.\<close>

theorem rearrangements_invert:
  "(permute_dims_result_type inp axes = Inr out \<longrightarrow>
      (\<exists>inverse_axes. inverse_permutation axes = Inr inverse_axes \<and>
         permute_dims_result_type out inverse_axes = Inr inp)) \<and>
   (infer_call_results (OpMoveAxis a b) [inp] = Inr [out] \<longrightarrow>
      infer_call_results (OpMoveAxis b a) [out] = Inr [inp]) \<and>
   (infer_call_results (OpSwapAxes a b) [inp] = Inr [out] \<longrightarrow>
      infer_call_results (OpSwapAxes a b) [out] = Inr [inp])"
proof (intro conjI impI)
  assume p: "permute_dims_result_type inp axes = Inr out"
  then obtain inverse_axes where "inverse_permutation axes = Inr inverse_axes"
    using inverse_permutation_ok [of "rank inp" axes] by (auto simp: permute_dims_Inr)
  with p show "\<exists>inverse_axes. inverse_permutation axes = Inr inverse_axes \<and>
      permute_dims_result_type out inverse_axes = Inr inp" by (auto intro: permute_dims_back)
qed (auto simp: call_cases intro!: moveaxis_back [simplified] swapaxes_back [simplified])

lemma rearrangements_invert_witness:
  "\<exists>inverse_axes. inverse_permutation [2, 0, 1] = Inr inverse_axes \<and>
     permute_dims_result_type (tensor F32 [4, 2, 3]) inverse_axes = Inr (tensor F32 [2, 3, 4])"
  using rearrangements_invert [of "tensor F32 [2, 3, 4]" "[2, 0, 1]" "tensor F32 [4, 2, 3]"] permute_example
  by blast

section \<open>Splitting and joining\<close>

text \<open>Concatenation of several tensors along an axis, from left to right.\<close>

definition concat_types :: "nat \<Rightarrow> tensor_type \<Rightarrow> tensor_type list \<Rightarrow> tensor_type result" where
  "concat_types axis t ts =
     foldl (\<lambda>acc u. rbind acc (\<lambda>a. concat_result_type a u axis)) (Inr t) ts"

lemma concat_types_pieces:
  assumes "axis < length s"
  shows "concat_types axis (tensor el (s[axis := n])) (map (\<lambda>k. tensor el (s[axis := k])) ks) =
    Inr (tensor el (s[axis := n + sum_list ks]))"
proof (induction ks arbitrary: n)
  case (Cons k ks)
  have "concat_result_type (tensor el (s[axis := n])) (tensor el (s[axis := k])) axis =
      Inr (tensor el (s[axis := n + k]))"
    using assms by (auto simp: concat_result_type_def result_simps rank_def concat_dims_Inr [where d = 0] nth_list_update)
  then show ?case using Cons [of "n + k"] by (simp add: concat_types_def add.assoc)
qed (simp add: concat_types_def)

text \<open>Joining the pieces of a split gives back the type that was split.\<close>

theorem split_concat_roundtrip:
  assumes "split_result_types inp axis sections = Inr (piece # pieces)"
  shows "concat_types axis piece pieces = Inr inp"
proof -
  obtain n ks where s: "sections = n # ks" "axis < length (shape inp)" "n + sum_list ks = shape inp ! axis"
      "piece = tensor (elem inp) ((shape inp)[axis := n])"
      "pieces = map (\<lambda>k. tensor (elem inp) ((shape inp)[axis := k])) ks"
    using assms by (cases sections) (auto simp: split_result_types_def guard_defs result_simps rank_def)
  then show ?thesis using concat_types_pieces [OF s(2)] by (simp add: tensor_split)
qed

lemma split_concat_roundtrip_witness:
  "concat_types 1 (tensor I32 [2, 1]) [tensor I32 [2, 3], tensor I32 [2, 2]] = Inr (tensor I32 [2, 6])"
  by (rule split_concat_roundtrip [where sections = "[1, 3, 2]"])
    (simp add: split_result_types_def guard_defs rank_def)

end
