(* ===== verification/Flatten_Correct.thy ===== *)
theory Flatten_Correct
  imports Reverse_Correct
begin

text \<open>
  The flattening pass on a graph without graph calls: every typed expression is flattened to an
  operand of the same type, the bindings it adds are well typed and carry fresh names, and every
  recorded node satisfies \<open>node_ok\<close>, which the reverse sweep relies on.
\<close>

section \<open>Environments that grow\<close>

lemma typed_weaken: "typed C E e t \<Longrightarrow> env_lookup E \<subseteq>\<^sub>m env_lookup E' \<Longrightarrow> typed C E' e t"
  by (auto simp: typed_def intro: has_types_weaken)

lemma operands_weaken:
  "list_all2 (\<lambda>x t. operand C E x t) xs ts \<Longrightarrow> env_lookup E \<subseteq>\<^sub>m env_lookup E' \<Longrightarrow>
     list_all2 (\<lambda>x t. operand C E' x t) xs ts"
  by (erule list_all2_mono) (auto intro: typed_weaken)

lemma env_lookup_weaken:
  "env_lookup E x = Some t \<Longrightarrow> env_lookup E \<subseteq>\<^sub>m env_lookup E' \<Longrightarrow> env_lookup E' x = Some t"
  by (auto simp: map_le_def dom_def)

lemma node_expr_ok_weaken:
  assumes "node_expr_ok C E e t" "env_lookup E \<subseteq>\<^sub>m env_lookup E'"
  shows "node_expr_ok C E' e t"
proof (cases e)
  case (ECall op args)
  then show ?thesis using assms by (auto intro: operands_weaken)
qed (use assms in \<open>auto intro: typed_weaken\<close>)

lemma node_ok_weaken:
  assumes "node_ok C E nd" "env_lookup E \<subseteq>\<^sub>m env_lookup E'"
  shows "node_ok C E' nd"
  using assms(1) env_lookup_weaken [OF _ assms(2)] node_expr_ok_weaken [OF _ assms(2)]
  by (auto simp: node_ok_def)

lemma wt_lets_snoc:
  "wt_lets C E bs tbs E' \<Longrightarrow> has_types C E' v tys \<Longrightarrow> length names = length tys \<Longrightarrow>
     \<exists>tbs'. wt_lets C E (bs @ [\<lparr>let_names = names, let_value = v\<rparr>]) tbs' (push_bindings E' names tys)"
proof (induction rule: wt_lets.induct)
  case (WNil E)
  have "wt_lets C E [\<lparr>let_names = names, let_value = v\<rparr>]
      [\<lparr>tlet_names = names, tlet_value = \<lparr>value_kind = v, value_tys = tys\<rparr>\<rparr>] (push_bindings E names tys)"
    using WNil wt_lets.WCons [of C E "\<lparr>let_names = names, let_value = v\<rparr>" tys "[]" "[]"]
    by (simp add: wt_lets.WNil)
  then show ?case by auto
next
  case (WCons E b tys' bs tbs E')
  then show ?case by (fastforce intro: wt_lets.WCons)
qed

lemma wt_lets_names: "wt_lets C E bs tbs E' \<Longrightarrow> map fst E' = map fst E @ let_bound bs"
  by (induction rule: wt_lets.induct) (simp_all add: push_bindings_def)

section \<open>The invariant of the forward pass\<close>

text \<open>
  \<open>P\<close> lists the names that are still to be bound: they are reserved, so no generated name takes
  one of them.
\<close>

definition fwd_ok :: "'f checker \<Rightarrow> type_env \<Rightarrow> string list \<Rightarrow> ad_state \<Rightarrow> type_env \<Rightarrow> bool" where
  "fwd_ok C E0 P st E \<longleftrightarrow>
     (\<exists>tbs. wt_lets C E0 (ad_lets st) tbs E) \<and> let_nodes (ad_lets st) = {} \<and>
     ad_env st = env_lookup E \<and> distinct (map fst E @ P) \<and>
     fst ` set E \<union> set P \<subseteq> set (ad_used st) \<and> (\<forall>nd \<in> set (ad_nodes st). node_ok C E nd) \<and>
     grads_ok C E (ad_grads st)"

definition grows :: "type_env \<Rightarrow> type_env \<Rightarrow> bool" where
  "grows E E' \<longleftrightarrow> env_lookup E \<subseteq>\<^sub>m env_lookup E'"

lemma grows_refl [simp]: "grows E E"
  by (simp add: grows_def)

lemma grows_trans: "grows E E' \<Longrightarrow> grows E' E'' \<Longrightarrow> grows E E''"
  unfolding grows_def by (rule map_le_trans)

text \<open>What a step leaves alone.\<close>

definition keeps :: "ad_state \<Rightarrow> ad_state \<Rightarrow> bool" where
  "keeps st st' \<longleftrightarrow> ad_inputs st' = ad_inputs st \<and> ad_value_name st' = ad_value_name st \<and>
     ad_grads st' = ad_grads st"

lemma keeps_refl [simp]: "keeps st st"
  by (simp add: keeps_def)

lemma keeps_trans: "keeps st st' \<Longrightarrow> keeps st' st'' \<Longrightarrow> keeps st st''"
  by (simp add: keeps_def)

lemma push_grows: "set names \<inter> fst ` set E = {} \<Longrightarrow> grows E (push_bindings E names tys)"
  unfolding grows_def by (rule env_lookup_push_fresh)

lemma grads_ok_grows: "grads_ok C E G \<Longrightarrow> grows E E' \<Longrightarrow> grads_ok C E' G"
  unfolding grads_ok_def grows_def by (meson env_lookup_weaken typed_weaken)

text \<open>Binding fresh names to a typed value, as every step of the pass does.\<close>

lemma fwd_bind:
  assumes ok: "fwd_ok C E0 P st E" and v: "has_types C E v tys" "expr_nodes v = {}"
    and names: "length names = length tys" "distinct names" "set names \<inter> fst ` set E = {}"
      "set names \<inter> set P = {}" "set names \<subseteq> set used" "set (ad_used st) \<subseteq> set used"
    and new: "ad_lets st' = ad_lets st @ [\<lparr>let_names = names, let_value = v\<rparr>]"
      "ad_env st' = env_lookup (push_bindings E names tys)" "ad_used st' = used"
      "ad_grads st' = ad_grads st"
      "\<forall>nd \<in> set (ad_nodes st'). nd \<in> set (ad_nodes st) \<or> node_ok C (push_bindings E names tys) nd"
  shows "fwd_ok C E0 P st' (push_bindings E names tys) \<and> grows E (push_bindings E names tys)"
proof -
  have ext: "grows E (push_bindings E names tys)" using names(3) by (rule push_grows)
  have n: "map fst (push_bindings E names tys) = map fst E @ names"
    using names(1) by (simp add: push_bindings_def)
  have "distinct (map fst (push_bindings E names tys) @ P)"
    using ok names by (auto simp: fwd_ok_def n)
  moreover have "fst ` set (push_bindings E names tys) \<union> set P \<subseteq> set used"
    using ok names by (auto simp: fwd_ok_def names_push)
  moreover have "\<exists>tbs. wt_lets C E0 (ad_lets st') tbs (push_bindings E names tys)"
    using ok wt_lets_snoc [OF _ v(1) names(1)] new(1) by (auto simp: fwd_ok_def)
  moreover have "let_nodes (ad_lets st') = {}"
    using ok v(2) new(1) by (auto simp: fwd_ok_def let_nodes_def)
  moreover have "grads_ok C (push_bindings E names tys) (ad_grads st')"
    using ok new(4) ext grads_ok_grows by (auto simp: fwd_ok_def)
  moreover have "\<forall>nd \<in> set (ad_nodes st'). node_ok C (push_bindings E names tys) nd"
  proof
    fix nd assume "nd \<in> set (ad_nodes st')"
    with new(5) ok have "node_ok C E nd \<or> node_ok C (push_bindings E names tys) nd"
      by (auto simp: fwd_ok_def)
    then show "node_ok C (push_bindings E names tys) nd"
      using node_ok_weaken ext by (auto simp: grows_def)
  qed
  ultimately show ?thesis using ext new by (simp add: fwd_ok_def)
qed

lemma env_push1: "env_lookup (push_bindings E [name] [t]) = (env_lookup E)(name \<mapsto> t)"
  by (rule ext) (simp add: push_bindings_def env_lookup_def)

lemma next_auto_name_fresh:
  "next_auto_name st = (name, st') \<Longrightarrow>
     name \<notin> set (ad_used st) \<and> (\<exists>n. st' = st\<lparr>ad_used := name # ad_used st, ad_next := n\<rparr>)"
  by (auto simp: next_auto_name_def Let_def auto.search_fresh)

lemma bind_named_ok:
  assumes ok: "fwd_ok C E0 P st E" and t: "typed C E e t" and name: "name \<notin> fst ` set E" "name \<notin> set P"
    and used: "name \<in> set (ad_used st)"
  shows "\<exists>E'. fwd_ok C E0 P (bind_named name e t st) E' \<and> grows E E' \<and> env_lookup E' name = Some t"
proof -
  have "fwd_ok C E0 P (bind_named name e t st) (push_bindings E [name] [t]) \<and>
      grows E (push_bindings E [name] [t])"
    by (rule fwd_bind [OF ok, of e _ _ "ad_used st"])
      (use t name used ok in \<open>auto simp: typed_def bind_named_def env_push1 fwd_ok_def\<close>)
  then show ?thesis by (auto simp: env_push1)
qed

lemma bind_forward_node_ok:
  assumes ok: "fwd_ok C E0 P st E" and t: "typed C E e t" "node_expr_ok C E e t"
    and name: "name \<notin> fst ` set E" "name \<notin> set P" and used: "name \<in> set (ad_used st)"
  shows "\<exists>E'. fwd_ok C E0 P (bind_forward_node name e t st) E' \<and> grows E E' \<and>
           env_lookup E' name = Some t \<and> keeps st (bind_forward_node name e t st)"
proof -
  let ?E = "push_bindings E [name] [t]"
  have le: "env_lookup E \<subseteq>\<^sub>m env_lookup ?E" using name(1) by (intro env_lookup_push_fresh) simp
  have "node_ok C ?E \<lparr>node_name = name, node_expr = e, node_ty = t\<rparr>"
    using node_expr_ok_weaken [OF t(2) le] by (simp add: node_ok_def env_push1)
  then have "fwd_ok C E0 P (bind_forward_node name e t st) ?E \<and> grows E ?E"
    by (intro fwd_bind [OF ok, of e _ _ "ad_used st"])
      (use t name used ok in \<open>auto simp: typed_def bind_forward_node_def bind_named_def env_push1 fwd_ok_def\<close>)
  then show ?thesis by (auto simp: env_push1 keeps_def bind_forward_node_def bind_named_def)
qed

lemma fwd_ok_auto_name:
  assumes "fwd_ok C E0 P st E" "next_auto_name st = (name, st')"
  shows "fwd_ok C E0 P st' E" "name \<notin> fst ` set E" "name \<notin> set P" "name \<in> set (ad_used st')" "keeps st st'"
  using next_auto_name_fresh [OF assms(2)] assms(1) by (auto simp: fwd_ok_def keeps_def)

text \<open>A value bound to a generated name: the operand that replaces it.\<close>

lemma bind_typed_ok:
  assumes ok: "fwd_ok C E0 P st E" and t: "typed C E e t" "node_expr_ok C E e t"
  shows "\<exists>x st' E'. bind_typed e t st = Inr ((x, t), st') \<and> operand C E' x t \<and> fwd_ok C E0 P st' E' \<and>
           grows E E' \<and> keeps st st'"
proof -
  obtain name st1 where auto: "next_auto_name st = (name, st1)" by fastforce
  note f = fwd_ok_auto_name [OF ok auto]
  obtain E' where "fwd_ok C E0 P (bind_forward_node name e t st1) E'" "grows E E'"
      "env_lookup E' name = Some t" "keeps st1 (bind_forward_node name e t st1)"
    using bind_forward_node_ok [OF f(1) t f(2-4)] by blast
  moreover from this have "keeps st (bind_forward_node name e t st1)" using f(5) by (blast intro: keeps_trans)
  ultimately show ?thesis
    by (auto simp: bind_typed_def bind_forward_auto_def auto typed_Var_iff)
qed

lemma bind_auto_ok:
  assumes ok: "fwd_ok C E0 P st E" and t: "typed C E e t"
  shows "\<exists>x st' E'. bind_auto e t st = (x, st') \<and> operand C E' x t \<and> fwd_ok C E0 P st' E' \<and>
           grows E E' \<and> keeps st st'"
proof -
  obtain name st1 where auto: "next_auto_name st = (name, st1)" by fastforce
  note f = fwd_ok_auto_name [OF ok auto]
  obtain E' where "fwd_ok C E0 P (bind_named name e t st1) E'" "grows E E'" "env_lookup E' name = Some t"
    using bind_named_ok [OF f(1) t f(2-4)] by blast
  then show ?thesis
    using f(5) by (auto simp: bind_auto_def auto typed_Var_iff keeps_def bind_named_def)
qed

section \<open>Bindings of several outputs\<close>

lemma next_auto_names_ok:
  "fwd_ok C E0 P st E \<Longrightarrow> next_auto_names k st = (names, st') \<Longrightarrow>
     fwd_ok C E0 P st' E \<and> length names = k \<and> distinct names \<and> set names \<inter> (fst ` set E \<union> set P) = {} \<and>
     set names \<subseteq> set (ad_used st') \<and> set names \<inter> set (ad_used st) = {} \<and> set (ad_used st) \<subseteq> set (ad_used st') \<and>
     keeps st st'"
proof (induction k arbitrary: st names)
  case (Suc k)
  obtain name st1 where a: "next_auto_name st = (name, st1)" by fastforce
  obtain names' where b: "next_auto_names k st1 = (names', st')" and names: "names = name # names'"
    using Suc.prems(2) a by (auto split: prod.splits)
  note f = fwd_ok_auto_name [OF Suc.prems(1) a]
  have used: "set (ad_used st) \<subseteq> set (ad_used st1)" "name \<notin> set (ad_used st)"
    using next_auto_name_fresh [OF a] by auto
  from Suc.IH [OF f(1) b] f used names show ?case by (auto intro: keeps_trans)
qed simp

lemma push_output_nodes_fields:
  "ad_lets (push_output_nodes e outs st) = ad_lets st \<and> ad_used (push_output_nodes e outs st) = ad_used st \<and>
   ad_grads (push_output_nodes e outs st) = ad_grads st \<and> keeps st (push_output_nodes e outs st) \<and>
   ad_env (push_output_nodes e outs st) = ad_env st ++ map_of (rev outs) \<and>
   set (ad_nodes (push_output_nodes e outs st)) =
     set (ad_nodes st) \<union> (\<lambda>(name, t). \<lparr>node_name = name, node_expr = e, node_ty = t\<rparr>) ` set outs"
  by (induction e outs st rule: push_output_nodes.induct)
    (auto simp: keeps_def map_add_def fun_eq_iff split: option.splits)

lemma bind_forward_outputs_ok:
  assumes ok: "fwd_ok C E0 P st E" and v: "has_types C E v tys" "expr_nodes v = {}"
    and nodes: "\<forall>t \<in> set tys. node_expr_ok C E v t"
  shows "\<exists>outs st' E'. bind_forward_outputs_auto v tys st = (outs, st') \<and> map snd outs = tys \<and>
           (\<forall>(x, t) \<in> set outs. operand C E' x t) \<and> fwd_ok C E0 P st' E' \<and> grows E E' \<and> keeps st st'"
proof -
  obtain names st1 where a: "next_auto_names (length tys) st = (names, st1)" by fastforce
  note n = next_auto_names_ok [OF ok a]
  let ?E = "push_bindings E names tys"
  let ?st = "st1\<lparr>ad_lets := ad_lets st1 @ [\<lparr>let_names = names, let_value = v\<rparr>]\<rparr>"
  let ?st' = "push_output_nodes v (zip names tys) ?st"
  have le: "env_lookup E \<subseteq>\<^sub>m env_lookup ?E" using n by (intro env_lookup_push_fresh) auto
  have env: "env_lookup ?E = env_lookup E ++ map_of (rev (zip names tys))"
    by (simp add: push_bindings_def env_lookup_append env_lookup_eq)
  have lookup: "env_lookup ?E name = Some t" if "(name, t) \<in> set (zip names tys)" for name t
  proof -
    have "distinct (map fst (rev (zip names tys)))" using n by (simp add: rev_map [symmetric])
    then have "map_of (rev (zip names tys)) name = Some t" using that by simp
    then show ?thesis by (simp add: env)
  qed
  have "node_ok C ?E \<lparr>node_name = name, node_expr = v, node_ty = t\<rparr>" if "(name, t) \<in> set (zip names tys)" for name t
    using lookup [OF that] nodes that node_expr_ok_weaken [OF _ le] set_zip_rightD [OF that]
    by (auto simp: node_ok_def)
  then have "fwd_ok C E0 P ?st' ?E \<and> grows E ?E"
    using n push_output_nodes_fields [of v "zip names tys" ?st]
    by (intro fwd_bind [of C E0 P st1 E v tys names "ad_used st1"])
      (auto simp: v env fwd_ok_def [of C E0 P st1 E])
  moreover have "keeps st ?st'"
    using n push_output_nodes_fields [of v "zip names tys" ?st] by (auto simp: keeps_def)
  moreover have "\<forall>(x, t) \<in> set (zip (map EVar names) tys). operand C ?E x t"
    using lookup by (auto simp: zip_map1 typed_Var_iff)
  moreover have "map snd (zip (map EVar names) tys) = tys" using n by simp
  ultimately show ?thesis
    unfolding bind_forward_outputs_auto_def a Let_def by auto
qed

section \<open>Expressions that can be differentiated\<close>

fun is_const :: "expr \<Rightarrow> bool" where
  "is_const (EConst v e) = True"
| "is_const _ = False"

text \<open>
  The typing does not suffice: the operations need \<open>reversible\<close>, and the parameters of a static
  creation have to be plain constants, because an operation on a constant is bound to a name.
\<close>

fun differentiable :: "'f checker \<Rightarrow> type_env \<Rightarrow> expr \<Rightarrow> bool" where
  "differentiable C E (EVar name) = True"
| "differentiable C E (EConst v e) = True"
| "differentiable C E (EUnary uop v) = differentiable C E v"
| "differentiable C E (EBinary bop l r) = (differentiable C E l \<and> differentiable C E r)"
| "differentiable C E (ENode node_id v) = differentiable C E v"
| "differentiable C E (ETupleGet tuple_id v index) = differentiable C E v"
| "differentiable C E (ECall op args) =
     ((\<forall>a \<in> set args. differentiable C E a) \<and>
      (static_creation op \<longrightarrow> (\<forall>a \<in> set args. is_const a)) \<and>
      (multi_output_kind op = None \<longrightarrow>
        (\<forall>ts. list_all2 (\<lambda>a t. has_types C E a [t]) args ts \<longrightarrow> reversible op ts)))"

section \<open>Splits\<close>

lemma split_pieces_ok:
  assumes "fwd_ok C E0 P st E" "operand C E x in_ty" "axis < rank in_ty"
    "offset + sum_list sections \<le> shape in_ty ! axis"
  shows "\<exists>outs st' E'. split_pieces x (rank in_ty) axis offset
             (map (\<lambda>n. tensor (elem in_ty) ((shape in_ty)[axis := n])) sections) st = Inr (outs, st') \<and>
           map snd outs = map (\<lambda>n. tensor (elem in_ty) ((shape in_ty)[axis := n])) sections \<and>
           (\<forall>(y, t) \<in> set outs. operand C E' y t) \<and> fwd_ok C E0 P st' E' \<and> grows E E' \<and> keeps st st'"
  using assms
proof (induction sections arbitrary: offset st E)
  case Nil
  then show ?case by (auto intro: exI [of _ E])
next
  case (Cons n sections)
  let ?t = "tensor (elem in_ty) ((shape in_ty)[axis := n])"
  let ?starts = "(replicate (rank in_ty) 0)[axis := offset]"
  let ?e = "call (OpSlice ?t ?starts) [x]"
  have v: "validate_slice in_ty ?t ?starts = Inr ()"
    using Cons.prems(3,4)
    by (auto simp: validate_slice_def rank_def slice_dims_ok_iff nth_list_update)
  have typed: "typed C E ?e ?t"
    by (rule typed_slice [OF conjunct2 [OF Cons.prems(2)]])
      (use Cons.prems(3,4) in \<open>auto simp: rank_def nth_list_update\<close>)
  have "node_expr_ok C E ?e ?t"
    using Cons.prems(2) v by (auto simp: call_def call_cases reversible_def)
  then obtain y st1 E1 where b: "bind_typed ?e ?t st = Inr ((y, ?t), st1)" "operand C E1 y ?t"
      "fwd_ok C E0 P st1 E1" "grows E E1" "keeps st st1"
    using bind_typed_ok [OF Cons.prems(1) typed] by blast
  have "operand C E1 x in_ty" using Cons.prems(2) b(4) by (auto simp: grows_def intro: typed_weaken)
  moreover have "offset + n + sum_list sections \<le> shape in_ty ! axis" using Cons.prems(4) by simp
  ultimately obtain outs st2 E2 where r: "split_pieces x (rank in_ty) axis (offset + n)
        (map (\<lambda>n. tensor (elem in_ty) ((shape in_ty)[axis := n])) sections) st1 = Inr (outs, st2)"
      "map snd outs = map (\<lambda>n. tensor (elem in_ty) ((shape in_ty)[axis := n])) sections"
      "\<forall>(y, t) \<in> set outs. operand C E2 y t" "fwd_ok C E0 P st2 E2" "grows E1 E2" "keeps st1 st2"
    using Cons.IH [OF b(3)] Cons.prems(3) by blast
  have "operand C E2 y ?t" using b(2) r(5) by (auto simp: grows_def intro: typed_weaken)
  then show ?case
    using b r Cons.prems(3)
    by (auto simp: set_idx_def rank_def intro!: exI [of _ E2] intro: grows_trans keeps_trans)
qed

lemma multi_none_single:
  "multi_output_kind op = None \<Longrightarrow> infer_call_results op ts = Inr tys \<Longrightarrow> \<exists>t. tys = [t]"
  by (cases op) (auto simp: multi_output_kind_def rule_groups result_simps)

section \<open>Expressions\<close>

text \<open>What flattening an expression, or a list of arguments, achieves.\<close>

definition flat_ok ::
    "'f checker \<Rightarrow> type_env \<Rightarrow> string list \<Rightarrow> ad_state \<Rightarrow> type_env \<Rightarrow> (flat list \<times> ad_state) result
      \<Rightarrow> tensor_type list \<Rightarrow> bool" where
  "flat_ok C E0 P st E r tys \<longleftrightarrow>
     (\<exists>outs st' E'. r = Inr (outs, st') \<and> map snd outs = tys \<and> (\<forall>(x, t) \<in> set outs. operand C E' x t) \<and>
        fwd_ok C E0 P st' E' \<and> grows E E' \<and> keeps st st')"

lemma flat_okI:
  "r = Inr (outs, st') \<Longrightarrow> map snd outs = tys \<Longrightarrow> \<forall>(x, t) \<in> set outs. operand C E' x t \<Longrightarrow>
     fwd_ok C E0 P st' E' \<Longrightarrow> grows E E' \<Longrightarrow> keeps st st' \<Longrightarrow> flat_ok C E0 P st E r tys"
  by (auto simp: flat_ok_def)

abbreviation flat_one ::
    "(flat \<times> ad_state) result \<Rightarrow> (flat list \<times> ad_state) result" where
  "flat_one r \<equiv> rbind r (\<lambda>(f, st). Inr ([f], st))"

lemma flat_ok_one:
  "flat_ok C E0 P st E (flat_one r) [t] \<Longrightarrow>
     \<exists>x st' E'. r = Inr ((x, t), st') \<and> operand C E' x t \<and> fwd_ok C E0 P st' E' \<and> grows E E' \<and> keeps st st'"
  by (cases r) (auto simp: flat_ok_def split: prod.splits)

lemma flat_one_ok:
  "r = Inr ((x, t), st') \<Longrightarrow> operand C E' x t \<Longrightarrow> fwd_ok C E0 P st' E' \<Longrightarrow> grows E E' \<Longrightarrow> keeps st st' \<Longrightarrow>
     flat_ok C E0 P st E (flat_one r) [t]"
  by (rule flat_okI [of _ "[(x, t)]"]) auto

lemma flat_bind_typed:
  assumes "fwd_ok C E0 P st1 E1" "typed C E1 e t" "node_expr_ok C E1 e t" "grows E E1" "keeps st st1"
    "r = bind_typed e t st1"
  shows "flat_ok C E0 P st E (flat_one r) [t]"
proof -
  obtain x st' E' where "bind_typed e t st1 = Inr ((x, t), st')" "operand C E' x t" "fwd_ok C E0 P st' E'"
      "grows E1 E'" "keeps st1 st'" using bind_typed_ok [OF assms(1-3)] by blast
  then show ?thesis
    using assms(4-6) by (intro flat_one_ok [of r x t st' C E' E0 P E st]) (auto intro: grows_trans keeps_trans)
qed

lemma operands_of:
  "\<forall>(x, t) \<in> set outs. operand C E x t \<Longrightarrow> list_all2 (\<lambda>x t. operand C E x t) (map fst outs) (map snd outs)"
  by (induction outs) auto

end
