(* ===== verification/Flatten_Total.thy ===== *)
theory Flatten_Total
  imports Flatten_Correct
begin

text \<open>
  Flattening succeeds on every typed, differentiable expression of a graph without graph calls, and
  gives operands of the types that the type system assigns to it.
\<close>

section \<open>Calls\<close>

lemma finish_call_ok:
  assumes ok: "fwd_ok C E0 P st E" and outs: "\<forall>(x, t) \<in> set outs. operand C E x t"
    and res: "infer_call_results op (map snd outs) = Inr [t]"
    and static: "validate_static_creation_call (ck_ops C) op (map fst outs) = Inr ()"
    and rev: "reversible op (map snd outs)"
  shows "flat_ok C E0 P st E (flat_one (finish_call op outs st)) [t]"
proof -
  note all2 = operands_of [OF outs]
  have "list_all2 (\<lambda>a t. has_types C E a [t]) (map fst outs) (map snd outs)"
    using all2 by (rule list_all2_mono) (simp add: typed_def)
  then have "has_types C E (ECall op (map fst outs)) [t]"
    using infer_not_graph [OF res] static res by (auto simp: has_types_Call_iff)
  moreover have "expr_nodes (ECall op (map fst outs)) = {}" using outs by (auto simp: typed_def)
  ultimately have "typed C E (ECall op (map fst outs)) t" by (simp add: typed_def)
  moreover have "node_expr_ok C E (ECall op (map fst outs)) t" using all2 res rev by auto
  ultimately show ?thesis
    using res by (intro flat_bind_typed [OF ok]) (simp_all add: finish_call_def)
qed

lemma finish_multi_output_ok:
  assumes ok: "fwd_ok C E0 P st E" and outs: "\<forall>(x, t) \<in> set outs. operand C E x t"
    and res: "infer_call_results op (map snd outs) = Inr tys" and op: "multi_output_kind op = Some MRandom"
  shows "flat_ok C E0 P st E (finish_multi_output op outs st) tys \<and> length tys = 2"
proof -
  note all2 = operands_of [OF outs]
  have random: "\<exists>target. op = OpRandomUniform target \<or> op = OpRandomInt target"
    using op by (cases op) (simp_all add: multi_output_kind_def)
  then have len: "length tys = 2" using res by (auto simp: rule_groups random_rule_def result_simps)
  have stops: "call_stops_gradient op t" for t using random by (auto simp: call_stops_gradient_def)
  have "list_all2 (\<lambda>a t. has_types C E a [t]) (map fst outs) (map snd outs)"
    using all2 by (rule list_all2_mono) (simp add: typed_def)
  then have v: "has_types C E (ECall op (map fst outs)) tys"
    using infer_not_graph [OF res] res random
    by (auto simp: has_types_Call_iff not_static_creation static_creation_def)
  have nodes: "expr_nodes (ECall op (map fst outs)) = {}" using outs by (auto simp: typed_def)
  have "\<forall>t \<in> set tys. node_expr_ok C E (ECall op (map fst outs)) t" using all2 stops by auto
  from bind_forward_outputs_ok [OF ok v nodes this] show ?thesis
    using res len by (auto simp: finish_multi_output_def flat_ok_def)
qed

section \<open>Expressions\<close>

text \<open>The two results of flattening an expression of given types.\<close>

definition flattens ::
    "'f checker \<Rightarrow> type_env \<Rightarrow> string list \<Rightarrow> string list \<Rightarrow> type_env \<Rightarrow> expr \<Rightarrow> tensor_type list \<Rightarrow> bool" where
  "flattens C E0 P stack E e tys \<longleftrightarrow>
     (\<forall>st E1. fwd_ok C E0 P st E1 \<longrightarrow> grows E E1 \<longrightarrow>
        flat_ok C E0 P st E1 (flatten_outputs [] stack empty_scope e st) tys \<and>
        (\<forall>t. tys = [t] \<longrightarrow>
           flat_ok C E0 P st E1 (flat_one (flatten_expr [] stack empty_scope e st)) [t]))"

lemma flattensD:
  "flattens C E0 P stack E e tys \<Longrightarrow> fwd_ok C E0 P st E1 \<Longrightarrow> grows E E1 \<Longrightarrow>
     flat_ok C E0 P st E1 (flatten_outputs [] stack empty_scope e st) tys"
  by (simp add: flattens_def)

lemma flattens_one:
  assumes "flattens C E0 P stack E e [t]" "fwd_ok C E0 P st E1" "grows E E1"
  shows "\<exists>x st' E'. flatten_expr [] stack empty_scope e st = Inr ((x, t), st') \<and> operand C E' x t \<and>
    fwd_ok C E0 P st' E' \<and> grows E1 E' \<and> keeps st st'"
  by (rule flat_ok_one) (use assms in \<open>simp add: flattens_def\<close>)

text \<open>An expression that has one output and is not a call or a shared node.\<close>

lemma flattens_single:
  assumes "\<And>st. flatten_outputs [] stack empty_scope e st = flat_one (flatten_expr [] stack empty_scope e st)"
    and "\<And>st E1. fwd_ok C E0 P st E1 \<Longrightarrow> grows E E1 \<Longrightarrow>
      flat_ok C E0 P st E1 (flat_one (flatten_expr [] stack empty_scope e st)) [t]"
  shows "flattens C E0 P stack E e [t]"
  using assms by (simp add: flattens_def)

lemma flat_one_now:
  "r = Inr ((x, t), st) \<Longrightarrow> operand C E x t \<Longrightarrow> fwd_ok C E0 P st E \<Longrightarrow> flat_ok C E0 P st E (flat_one r) [t]"
  by (rule flat_one_ok [of r x t st C E E0 P E st]) simp_all

lemma grows_operand: "operand C E x t \<Longrightarrow> grows E E' \<Longrightarrow> operand C E' x t"
  by (auto simp: grows_def intro: typed_weaken)

lemma grows_outputs: "\<forall>(x, t) \<in> set outs. operand C E x t \<Longrightarrow> grows E E' \<Longrightarrow> \<forall>(x, t) \<in> set outs. operand C E' x t"
  using grows_operand by fast

lemma flatten_args_ok:
  assumes "list_all2 (\<lambda>a t. flattens C E0 P stack E a [t]) args ts" "fwd_ok C E0 P st E1" "grows E E1"
  shows "\<exists>outs st' E'. flatten_args [] stack empty_scope args st = Inr (outs, st') \<and> map snd outs = ts \<and>
    (\<forall>(x, t) \<in> set outs. operand C E' x t) \<and> fwd_ok C E0 P st' E' \<and> grows E1 E' \<and> keeps st st' \<and>
    ((\<forall>a \<in> set args. is_const a) \<longrightarrow> map fst outs = args)"
  using assms
proof (induction arbitrary: st E1 rule: list_all2_induct)
  case Nil
  then show ?case by auto
next
  case (Cons a args t ts)
  obtain x st1 E2 where a: "flatten_expr [] stack empty_scope a st = Inr ((x, t), st1)" "operand C E2 x t"
      "fwd_ok C E0 P st1 E2" "grows E1 E2" "keeps st st1"
    using flattens_one [OF Cons.hyps(1) Cons.prems] by blast
  have "grows E E2" using Cons.prems(2) a(4) by (rule grows_trans)
  from Cons.IH [OF a(3) this] obtain outs st' E' where
    r: "flatten_args [] stack empty_scope args st1 = Inr (outs, st')" "map snd outs = ts"
      "\<forall>(x, t) \<in> set outs. operand C E' x t" "fwd_ok C E0 P st' E'" "grows E2 E'" "keeps st1 st'"
      "(\<forall>a \<in> set args. is_const a) \<longrightarrow> map fst outs = args" by blast
  have "x = a" if "is_const a" using a(1) that by (cases a) simp_all
  moreover have "operand C E' x t" using a(2) r(5) by (rule grows_operand)
  moreover have "grows E1 E'" "keeps st st'" using a r by (blast intro: grows_trans keeps_trans)+
  ultimately show ?case using a(1) r by (auto intro!: exI [of _ E'])
qed

lemma flat_ok_step:
  assumes "flat_ok C E0 P st1 E1 r tys" "grows E E1" "keeps st st1"
  shows "flat_ok C E0 P st E r tys"
  using assms unfolding flat_ok_def by (blast intro: grows_trans keeps_trans)

lemma flatten_split_ok:
  assumes arg: "flattens C E0 P stack E a [t]" and res: "infer_call_results (OpSplit axis sections) [t] = Inr tys"
    and ok: "fwd_ok C E0 P st E1" "grows E E1"
  shows "flat_ok C E0 P st E1
    (flatten_multi [] stack empty_scope (MSplit axis sections) (OpSplit axis sections) [a] st) tys"
proof -
  obtain x st1 E2 where a: "flatten_expr [] stack empty_scope a st = Inr ((x, t), st1)" "operand C E2 x t"
      "fwd_ok C E0 P st1 E2" "grows E1 E2" "keeps st st1"
    using flattens_one [OF arg ok] by blast
  from res have axis: "axis < rank t" "sum_list sections = shape t ! axis"
    and tys: "tys = map (\<lambda>n. tensor (elem t) ((shape t)[axis := n])) sections"
    by (auto simp: call_cases split_result_types_def guard_defs)
  have "flat_ok C E0 P st1 E2 (split_pieces x (rank t) axis 0 tys st1) tys"
    using split_pieces_ok [OF a(3,2) axis(1), of 0 sections] axis(2) by (auto simp: flat_ok_def tys)
  then show ?thesis using a res by (auto intro: flat_ok_step)
qed

lemma flatten_call_ok:
  assumes args: "list_all2 (\<lambda>a t. flattens C E0 P stack E a [t]) args ts"
    and res: "infer_call_results op ts = Inr tys"
    and static: "validate_static_creation_call (ck_ops C) op args = Inr ()"
      "static_creation op \<longrightarrow> (\<forall>a \<in> set args. is_const a)"
    and rev: "multi_output_kind op = None \<longrightarrow> reversible op ts"
  shows "flattens C E0 P stack E (ECall op args) tys"
proof -
  have no_graph: "graph_callee op = None" using res by (rule infer_not_graph)
  have "flat_ok C E0 P st E1 (flatten_outputs [] stack empty_scope (ECall op args) st) tys \<and>
      (\<forall>t. tys = [t] \<longrightarrow>
        flat_ok C E0 P st E1 (flat_one (flatten_expr [] stack empty_scope (ECall op args) st)) [t])"
    if ok: "fwd_ok C E0 P st E1" "grows E E1" for st E1
  proof -
    obtain outs st1 E2 where a: "flatten_args [] stack empty_scope args st = Inr (outs, st1)" "map snd outs = ts"
        "\<forall>(x, t) \<in> set outs. operand C E2 x t" "fwd_ok C E0 P st1 E2" "grows E1 E2" "keeps st st1"
        "(\<forall>a \<in> set args. is_const a) \<longrightarrow> map fst outs = args"
      using flatten_args_ok [OF args ok] by blast
    show ?thesis
    proof (cases "multi_output_kind op")
      case None
      obtain t where tys: "tys = [t]" using multi_none_single [OF None res] by blast
      have "validate_static_creation_call (ck_ops C) op (map fst outs) = Inr ()"
        using static a(7) not_static_creation [of op "ck_ops C"] by (cases "static_creation op") auto
      then have "flat_ok C E0 P st E1 (flat_one (finish_call op outs st1)) [t]"
        using rev None res a(2,5,6)
        by (intro flat_ok_step [OF finish_call_ok [OF a(4,3)]]) (simp_all add: tys)
      then show ?thesis using None a(1) by (simp add: tys)
    next
      case (Some kind)
      have "flat_ok C E0 P st E1 (flatten_multi [] stack empty_scope kind op args st) tys"
      proof (cases kind)
        case (MSplit axis sections)
        then have op: "op = OpSplit axis sections"
          using Some by (cases op) (simp_all add: multi_output_kind_def)
        then obtain t arg where "ts = [t]" "args = [arg]"
          using res args by (auto simp: call_cases list_all2_Cons2)
        then show ?thesis using flatten_split_ok [OF _ _ ok] args res by (simp add: op MSplit)
      next
        case MRandom
        then show ?thesis
          using finish_multi_output_ok [OF a(4,3)] a(1,2,5,6) Some res by (auto intro: flat_ok_step)
      next
        case (MGraph name)
        then show ?thesis
          using Some no_graph by (cases op) (simp_all add: multi_output_kind_def graph_callee_def)
      qed
      then show ?thesis using Some by (auto simp: flat_ok_def)
    qed
  qed
  then show ?thesis by (simp add: flattens_def)
qed

lemma has_types_no_graph:
  "has_types C E (ECall (OpGraph name) args) tys \<Longrightarrow> ck_signatures C \<noteq> []"
  by (auto simp: has_types_Graph_iff find_signature_def)

lemma flatten_typed:
  assumes "has_types C E e tys" "differentiable C E e" "ck_signatures C = []"
  shows "flattens C E0 P stack E e tys"
  using assms(1,2)
proof (induction e arbitrary: tys)
  case (EVar name)
  then obtain t where t: "tys = [t]" "env_lookup E name = Some t" by auto
  have "flat_ok C E0 P st E1 (flat_one (flatten_expr [] stack empty_scope (EVar name) st)) [t]"
    if ok: "fwd_ok C E0 P st E1" "grows E E1" for st E1
  proof -
    have "env_lookup E1 name = Some t" using t(2) ok(2) by (auto simp: grows_def intro: env_lookup_weaken)
    moreover have "ad_env st = env_lookup E1" using ok(1) by (simp add: fwd_ok_def)
    ultimately show ?thesis
      using ok(1) by (intro flat_one_now [where x = "EVar name"]) (simp_all add: flatten_var_def empty_scope_def typed_Var_iff)
  qed
  then show ?case unfolding t(1) by (intro flattens_single) simp_all
next
  case (EConst v e)
  then show ?case by (auto intro!: flattens_single flat_one_now simp: typed_def)
next
  case (EUnary uop v)
  then obtain t where t: "tys = [t]" "has_types C E v [t]" "is_numeric (elem t)"
    by (auto simp: has_types_Unary_iff)
  have v: "flattens C E0 P stack E v [t]" using EUnary t(2) by simp
  have "flat_ok C E0 P st E1 (flat_one (flatten_expr [] stack empty_scope (EUnary uop v) st)) [t]"
    if ok: "fwd_ok C E0 P st E1" "grows E E1" for st E1
  proof -
    obtain x st1 E2 where a: "flatten_expr [] stack empty_scope v st = Inr ((x, t), st1)" "operand C E2 x t"
        "fwd_ok C E0 P st1 E2" "grows E1 E2" "keeps st st1"
      using flattens_one [OF v ok] by blast
    have "typed C E2 (EUnary uop x) t" using a(2) t(3) by (auto simp: typed_def has_types_Unary_iff)
    then show ?thesis using a t(3) by (intro flat_bind_typed [OF a(3)]) simp_all
  qed
  then show ?case unfolding t(1) by (intro flattens_single) simp_all
next
  case (EBinary bop l r)
  then obtain t lt rt where t: "tys = [t]" "has_types C E l [lt]" "has_types C E r [rt]"
      "binary_result_type lt rt = Inr t" by (auto simp: has_types_Binary_iff)
  have l: "flattens C E0 P stack E l [lt]" and r: "flattens C E0 P stack E r [rt]"
    using EBinary t(2,3) by simp_all
  have "flat_ok C E0 P st E1 (flat_one (flatten_expr [] stack empty_scope (EBinary bop l r) st)) [t]"
    if ok: "fwd_ok C E0 P st E1" "grows E E1" for st E1
  proof -
    obtain x st1 E2 where a: "flatten_expr [] stack empty_scope l st = Inr ((x, lt), st1)" "operand C E2 x lt"
        "fwd_ok C E0 P st1 E2" "grows E1 E2" "keeps st st1"
      using flattens_one [OF l ok] by blast
    have "grows E E2" using ok(2) a(4) by (rule grows_trans)
    from flattens_one [OF r a(3) this] obtain y st2 E3 where
      b: "flatten_expr [] stack empty_scope r st1 = Inr ((y, rt), st2)" "operand C E3 y rt"
        "fwd_ok C E0 P st2 E3" "grows E2 E3" "keeps st1 st2" by blast
    have x: "operand C E3 x lt" using a(2) b(4) by (rule grows_operand)
    have e: "elementwise_type lt rt = Inr t" using t(4)
      by (auto simp: elementwise_type_def binary_result_type_def broadcast_shape_def result_simps)
    have "typed C E3 (EBinary bop x y) t" using x b(2) t(4) by (auto simp: typed_def has_types_Binary_iff)
    then show ?thesis
      using a b x e t(4)
      by (intro flat_bind_typed [OF b(3)]) (auto intro: grows_trans keeps_trans)
  qed
  then show ?case unfolding t(1) by (intro flattens_single) simp_all
next
  case (ENode node_id v)
  then show ?case by (simp add: flattens_def)
next
  case (ETupleGet tuple_id v index)
  then obtain outs where t: "has_types C E v outs" "index < length outs" "tys = [outs ! index]"
    by (auto simp: has_types_TupleGet_iff)
  have v: "flattens C E0 P stack E v outs" using ETupleGet t(1) by simp
  have "flat_ok C E0 P st E1 (flat_one (flatten_expr [] stack empty_scope (ETupleGet tuple_id v index) st))
      [outs ! index]"
    if ok: "fwd_ok C E0 P st E1" "grows E E1" for st E1
  proof -
    obtain ps st1 E2 where a: "flatten_outputs [] stack empty_scope v st = Inr (ps, st1)" "map snd ps = outs"
        "\<forall>(x, t) \<in> set ps. operand C E2 x t" "fwd_ok C E0 P st1 E2" "grows E1 E2" "keeps st st1"
      using flattensD [OF v ok] by (auto simp: flat_ok_def)
    have i: "index < length ps" using t(2) a(2) by auto
    then have "operand C E2 (fst (ps ! index)) (snd (ps ! index))" using a(3) nth_mem by fastforce
    then show ?thesis
      using a i by (intro flat_one_ok [of _ "fst (ps ! index)" _ st1 _ E2]) auto
  qed
  then show ?case unfolding t(3) by (intro flattens_single) simp_all
next
  case (ECall op args)
  show ?case
  proof (cases "graph_callee op")
    case None
    then obtain ts where ts: "list_all2 (\<lambda>a t. has_types C E a [t]) args ts"
        "infer_call_results op ts = Inr tys" "validate_static_creation_call (ck_ops C) op args = Inr ()"
      using ECall.prems(1) by (auto simp: has_types_Call_iff)
    have "list_all2 (\<lambda>a t. flattens C E0 P stack E a [t]) args ts"
      using ts(1) ECall.IH ECall.prems(2) by (auto simp: list_all2_conv_all_nth)
    then show ?thesis using ts ECall.prems(2) by (intro flatten_call_ok) auto
  next
    case (Some name)
    then show ?thesis
      using has_types_no_graph [of C E name args tys] ECall.prems(1) assms(3) by (auto simp: graph_callee_Some)
  qed
qed

end
