(* ===== verification/Gradient_Properties.thy ===== *)
theory Gradient_Properties
  imports Flatten_Total Typing_Properties
begin

text \<open>The properties of automatic differentiation, each with a concrete graph.\<close>

text \<open>
  \<open>value_and_grad_graph\<close> as a whole: on a typed graph without graph calls that is differentiable in
  the sense of \<open>differentiable\<close>, no pass fails, and the derived graph is accepted by the type checker
  that runs at the end.
\<close>

section \<open>The checker without signatures\<close>

lemma has_types_current:
  "has_types C E e tys \<Longrightarrow> ck_signatures C = [] \<Longrightarrow> has_types (C\<lparr>ck_current := n\<rparr>) E e tys"
proof (induction rule: has_types.induct)
  case (HCall op args arg_tys tys)
  then show ?case by (auto simp: has_types_Call_iff intro: list_all2_mono)
next
  case (HGraph name sig args)
  then show ?case by (simp add: find_signature_def)
qed (auto simp: has_types_Unary_iff has_types_Binary_iff has_types_TupleGet_iff)

lemma graph_checker_irrelevant:
  "has_types (graph_checker F g []) = has_types (graph_checker F h [])"
proof (intro ext iffI)
  fix E e tys
  show "has_types (graph_checker F h []) E e tys" if "has_types (graph_checker F g []) E e tys"
    using has_types_current [OF that, of "graph_name h"] by simp
  show "has_types (graph_checker F g []) E e tys" if "has_types (graph_checker F h []) E e tys"
    using has_types_current [OF that, of "graph_name g"] by simp
qed

lemma differentiable_irrelevant:
  "differentiable (graph_checker F g []) E e = differentiable (graph_checker F h []) E e"
  by (induction e) (simp_all add: graph_checker_irrelevant [of F g h])

lemma wt_lets_irrelevant:
  "wt_lets (graph_checker F g []) E bs tbs E' \<Longrightarrow> wt_lets (graph_checker F h []) E bs tbs E'"
  by (induction rule: wt_lets.induct) (auto simp: wt_lets_Cons graph_checker_irrelevant [of F g h])

section \<open>Bindings\<close>

text \<open>Every binding of the graph and its loss can be differentiated.\<close>

fun differentiable_lets :: "'f checker \<Rightarrow> type_env \<Rightarrow> typed_let list \<Rightarrow> expr \<Rightarrow> bool" where
  "differentiable_lets C E [] body = differentiable C E body"
| "differentiable_lets C E (b # bs) body \<longleftrightarrow>
     differentiable C E (value_kind (tlet_value b)) \<and>
     differentiable_lets C (push_bindings E (tlet_names b) (value_tys (tlet_value b))) bs body"

lemma differentiable_lets_irrelevant:
  "differentiable_lets (graph_checker F g []) E bs v = differentiable_lets (graph_checker F h []) E bs v"
  by (induction bs arbitrary: E) (simp_all add: differentiable_irrelevant [of F g _ _ h])

lemma fwd_ok_pending: "fwd_ok C E0 (names @ P) st E \<Longrightarrow> fwd_ok C E0 P st E"
  by (auto simp: fwd_ok_def)

lemma operand_node_expr: "operand C E x t \<Longrightarrow> node_expr_ok C E x t"
  by (cases x) (auto simp: typed_def)

lemma bind_outputs_ok:
  assumes "\<forall>(x, t) \<in> set outs. operand C E x t" "fwd_ok C E0 (names @ P) st E" "length names = length outs"
  shows "\<exists>st' E'. bind_outputs names (map snd outs) outs st = Inr st' \<and> fwd_ok C E0 P st' E' \<and> grows E E' \<and>
    keeps st st' \<and> list_all2 (\<lambda>name t. env_lookup E' name = Some t) names (map snd outs)"
  using assms
proof (induction outs arbitrary: names st E)
  case Nil
  then show ?case by auto
next
  case (Cons out outs)
  obtain x t where out: "out = (x, t)" by (cases out)
  obtain name rest where names: "names = name # rest" using Cons.prems(3) by (cases names) auto
  have ok: "fwd_ok C E0 (name # rest @ P) st E" using Cons.prems(2) names by simp
  then have ok': "fwd_ok C E0 (rest @ P) st E" using fwd_ok_pending [of C E0 "[name]"] by simp
  have x: "operand C E x t" using Cons.prems(1) out by auto
  have name: "name \<notin> fst ` set E" "name \<notin> set (rest @ P)" "name \<in> set (ad_used st)"
    using ok by (auto simp: fwd_ok_def)
  obtain E1 where b: "fwd_ok C E0 (rest @ P) (bind_forward_node name x t st) E1" "grows E E1"
      "env_lookup E1 name = Some t" "keeps st (bind_forward_node name x t st)"
    using bind_forward_node_ok [OF ok' conjunct2 [OF x] operand_node_expr [OF x] name] by blast
  have "\<forall>(x, t) \<in> set outs. operand C E1 x t"
    using grows_outputs [of outs C E E1] Cons.prems(1) b(2) by (simp add: out)
  from Cons.IH [OF this b(1)] obtain st' E' where
    r: "bind_outputs rest (map snd outs) outs (bind_forward_node name x t st) = Inr st'" "fwd_ok C E0 P st' E'"
      "grows E1 E'" "keeps (bind_forward_node name x t st) st'"
      "list_all2 (\<lambda>name t. env_lookup E' name = Some t) rest (map snd outs)"
    using Cons.prems(3) names by auto
  have "env_lookup E' name = Some t" using b(3) r(3) by (auto simp: grows_def intro: env_lookup_weaken)
  moreover have "grows E E'" "keeps st st'" using b r by (blast intro: grows_trans keeps_trans)+
  ultimately show ?case using r by (auto simp: names out)
qed

lemma lookup_push:
  "env_lookup (push_bindings E names tys) x = Some t \<Longrightarrow>
     env_lookup E x = Some t \<or> (x, t) \<in> set (zip names tys)"
  by (auto simp: push_bindings_def env_lookup_append env_lookup_eq map_add_Some_iff dest: map_of_SomeD)

lemma grows_push:
  assumes "grows E E'" "list_all2 (\<lambda>name t. env_lookup E' name = Some t) names tys"
  shows "grows (push_bindings E names tys) E'"
  unfolding grows_def map_le_def
proof
  fix x assume "x \<in> dom (env_lookup (push_bindings E names tys))"
  then obtain t where t: "env_lookup (push_bindings E names tys) x = Some t" by auto
  have "env_lookup E' x = Some t"
    using lookup_push [OF t] assms by (auto simp: grows_def list_all2_iff intro: env_lookup_weaken)
  with t show "env_lookup (push_bindings E names tys) x = env_lookup E' x" by simp
qed

lemma flatten_typed_lets_ok:
  assumes "wt_lets C E bs tbs E'" "differentiable_lets C E tbs body" "ck_signatures C = []"
    and "fwd_ok C E0 (let_bound bs @ P) st E1" "grows E E1"
  shows "\<exists>st' E1'. flatten_typed_lets [] tbs st = Inr st' \<and> fwd_ok C E0 P st' E1' \<and> grows E' E1' \<and>
    grows E1 E1' \<and> keeps st st' \<and> differentiable C E' body"
  using assms
proof (induction arbitrary: st E1 rule: wt_lets.induct)
  case (WNil E)
  then show ?case by auto
next
  case (WCons E b tys bs tbs E')
  let ?v = "\<lparr>value_kind = let_value b, value_tys = tys\<rparr>"
  have ok: "fwd_ok C E0 (let_names b @ (let_bound bs @ P)) st E1" using WCons.prems(3) by simp
  have "flattens C E0 (let_names b @ (let_bound bs @ P)) [] E (let_value b) tys"
    by (rule flatten_typed) (use WCons in simp_all)
  from flattensD [OF this ok WCons.prems(4)] obtain outs st1 E2 where
    v: "flatten_outputs [] [] empty_scope (let_value b) st = Inr (outs, st1)" "map snd outs = tys"
      "\<forall>(x, t) \<in> set outs. operand C E2 x t" "fwd_ok C E0 (let_names b @ (let_bound bs @ P)) st1 E2"
      "grows E1 E2" "keeps st st1" by (auto simp: flat_ok_def)
  have len: "length (let_names b) = length outs" using WCons.hyps(2) v(2) by auto
  obtain st2 E3 where b: "bind_outputs (let_names b) tys outs st1 = Inr st2" "fwd_ok C E0 (let_bound bs @ P) st2 E3"
      "grows E2 E3" "keeps st1 st2" "list_all2 (\<lambda>name t. env_lookup E3 name = Some t) (let_names b) tys"
    using bind_outputs_ok [OF v(3,4) len] v(2) by auto
  have "grows E E3" using WCons.prems(4) v(5) b(3) by (blast intro: grows_trans)
  then have E3: "grows (push_bindings E (let_names b) tys) E3" using b(5) by (rule grows_push)
  obtain st3 E4 where r: "flatten_typed_lets [] tbs st2 = Inr st3" "fwd_ok C E0 P st3 E4" "grows E' E4"
      "grows E3 E4" "keeps st2 st3" "differentiable C E' body"
    using WCons.IH [OF _ WCons.prems(2) b(2) E3] WCons.prems(1) by auto
  have "length outs = length tys" using v(2) by auto
  then have "flatten_typed_let [] \<lparr>tlet_names = let_names b, tlet_value = ?v\<rparr> st = Inr st2"
    using v(1,2) b(1) len WCons.hyps(2) by (simp add: flatten_typed_let_def flatten_value_outputs_def)
  moreover have "grows E1 E4" "keeps st st3" using v b r by (blast intro: grows_trans keeps_trans)+
  ultimately show ?case using r by auto
qed

section \<open>The three passes\<close>

lemma inputs_env_lookup: "inputs_env ins = env_lookup (env_from_inputs ins)"
  by (simp add: inputs_env_def env_from_inputs_def env_lookup_eq rev_map)

lemma typed_as_fields:
  assumes "typed_as F g [] tg"
  shows "tg_inputs tg = graph_inputs g" "tg_outputs tg = graph_outputs g"
    "tg_name tg = graph_name g" "map tlet_names (tg_lets tg) = map let_names (graph_lets g)"
proof -
  obtain E tlets where lets: "wt_lets (graph_checker F g []) (env_from_inputs (graph_inputs g)) (graph_lets g) tlets E"
    and tg: "tg = \<lparr>tg_name = graph_name g, tg_backend = graph_backend g, tg_inputs = graph_inputs g,
              tg_outputs = graph_outputs g, tg_lets = tlets,
              tg_body = annotate_body (graph_body g) (graph_outputs g)\<rparr>"
    using assms by (auto simp: typed_as_def)
  have "map tlet_names tlets = map let_names (graph_lets g)"
    using lets by (induction rule: wt_lets.induct) simp_all
  then show "tg_inputs tg = graph_inputs g" "tg_outputs tg = graph_outputs g"
    "tg_name tg = graph_name g" "map tlet_names (tg_lets tg) = map let_names (graph_lets g)"
    by (simp_all add: tg)
qed

lemma builder_new_ok:
  assumes "builder_new tg = Inr st" "typed_as F g [] tg" "distinct (bound_names g)"
  shows "fwd_ok C (env_from_inputs (graph_inputs g)) (let_bound (graph_lets g) @ [ad_value_name st]) st
      (env_from_inputs (graph_inputs g)) \<and>
    (\<exists>loss. tg_outputs tg = [loss] \<and> rank loss = 0 \<and> is_float (elem loss)) \<and>
    ad_inputs st = differentiable_inputs tg"
proof -
  have names: "graph_names tg = bound_names g"
    using typed_as_fields [OF assms(2)] by (simp add: graph_names_def bound_names_def let_bound_def)
  obtain v used where v: "unique_name ''__knok_autograd_value'' (graph_names tg) = (v, used)" by fastforce
  obtain loss where loss: "tg_outputs tg = [loss]" "rank loss = 0" "is_float (elem loss)"
    and st: "st = \<lparr>ad_used = used, ad_env = inputs_env (tg_inputs tg), ad_lets = [], ad_nodes = [],
      ad_grads = Map.empty, ad_next = 0, ad_value_name = v, ad_inputs = differentiable_inputs tg\<rparr>"
    using assms(1) v by (auto simp: builder_new_def result_simps Let_def length_Suc_conv)
  have "v \<notin> set (bound_names g)" "used = v # bound_names g"
    using unique_name_fresh [OF v] by (simp_all add: names)
  moreover have "map fst (env_from_inputs (graph_inputs g)) = map input_name (graph_inputs g)"
    by (simp add: env_from_inputs_def)
  ultimately show ?thesis
    using assms(3) loss typed_as_fields(1) [OF assms(2)]
    by (auto simp: fwd_ok_def st let_nodes_def inputs_env_lookup grads_ok_def bound_names_def
        env_from_inputs_names)
qed

text \<open>The forward pass ends with the loss bound to the name reserved for it, and the seed gradient.\<close>

lemma forward_pass_ok:
  assumes tg: "typed_as F g [] tg" and names: "distinct (bound_names g)"
    and diff: "differentiable_lets C (env_from_inputs (graph_inputs g)) (tg_lets tg) (expr_kind (hd (tg_body tg)))"
    and C: "C = graph_checker F g []" and new: "builder_new tg = Inr st"
  shows "\<exists>st' E. forward_pass [] tg st = Inr st' \<and> fwd_ok C (env_from_inputs (graph_inputs g)) [] st' E \<and>
    grows (env_from_inputs (graph_inputs g)) E \<and> ad_inputs st' = differentiable_inputs tg \<and>
    env_lookup E (ad_value_name st') = Some (tg_outputs tg ! 0)"
proof -
  let ?E0 = "env_from_inputs (graph_inputs g)"
  obtain Eg tlets where lets: "wt_lets C ?E0 (graph_lets g) tlets Eg"
    and body: "list_all2 (\<lambda>e t. has_types C Eg e [t]) (graph_body g) (graph_outputs g)"
    and eq: "tg = \<lparr>tg_name = graph_name g, tg_backend = graph_backend g, tg_inputs = graph_inputs g,
              tg_outputs = graph_outputs g, tg_lets = tlets,
              tg_body = annotate_body (graph_body g) (graph_outputs g)\<rparr>"
    using tg by (auto simp: typed_as_def C)
  obtain loss where ok: "fwd_ok C ?E0 (let_bound (graph_lets g) @ [ad_value_name st]) st ?E0"
    and loss: "graph_outputs g = [loss]" "rank loss = 0" "is_float (elem loss)"
    and ins: "ad_inputs st = differentiable_inputs tg"
    using builder_new_ok [OF new tg names, of C] typed_as_fields(2) [OF tg] by auto
  obtain e where e: "graph_body g = [e]" "has_types C Eg e [loss]"
    using body loss(1) by (auto simp: list_all2_Cons2)
  have tg_body: "tg_body tg = [\<lparr>expr_kind = e, expr_ty = loss\<rparr>]" by (simp add: eq e(1) loss(1))
  have tg_lets: "tg_lets tg = tlets" by (simp add: eq)
  have sigs: "ck_signatures C = []" by (simp add: C)
  obtain st1 E1 where a: "flatten_typed_lets [] tlets st = Inr st1" "fwd_ok C ?E0 [ad_value_name st] st1 E1"
      "grows Eg E1" "grows ?E0 E1" "keeps st st1" "differentiable C Eg e"
    using flatten_typed_lets_ok [OF lets _ sigs ok grows_refl, of e] diff tg_body
    by (simp add: tg_lets) blast
  obtain x st2 E2 where b: "flatten_expr [] [] empty_scope e st1 = Inr ((x, loss), st2)" "operand C E2 x loss"
      "fwd_ok C ?E0 [ad_value_name st] st2 E2" "grows E1 E2" "keeps st1 st2"
    using flattens_one [OF flatten_typed [OF e(2) a(6) sigs] a(2,3)] by blast
  let ?v = "ad_value_name st"
  have v: "ad_value_name st2 = ?v" using a(5) b(5) by (simp add: keeps_def)
  have fresh: "?v \<notin> fst ` set E2" "?v \<notin> set []" "?v \<in> set (ad_used st2)"
    using b(3) by (auto simp: fwd_ok_def)
  obtain E3 where c: "fwd_ok C ?E0 [] (bind_forward_node ?v x loss st2) E3" "grows E2 E3"
      "env_lookup E3 ?v = Some loss" "keeps st2 (bind_forward_node ?v x loss st2)"
    using bind_forward_node_ok [OF fwd_ok_pending [of C ?E0 "[?v]" "[]" st2 E2] conjunct2 [OF b(2)]
        operand_node_expr [OF b(2)] fresh] b(3) by auto
  let ?st3 = "bind_forward_node ?v x loss st2"
  let ?st4 = "?st3\<lparr>ad_grads := (ad_grads ?st3)(?v \<mapsto> EConst ''1.0'' (elem loss))\<rparr>"
  have "typed C E3 (EConst ''1.0'' (elem loss)) loss"
    using loss(2) by (cases loss) (simp add: typed_def rank_def)
  then have "grads_ok C E3 (ad_grads ?st4)"
    using c(1,3) loss(3) by (auto simp: fwd_ok_def grads_ok_def)
  then have "fwd_ok C ?E0 [] ?st4 E3" using c(1) by (simp add: fwd_ok_def)
  moreover have v3: "ad_value_name ?st3 = ?v" using c(4) v by (simp add: keeps_def)
  moreover have "forward_pass [] tg st = Inr ?st4"
    using a(1) b(1) v v3 by (simp add: forward_pass_def tg_body tg_lets Let_def)
  moreover have "grows ?E0 E3" using a(4) b(4) c(2) by (blast intro: grows_trans)
  moreover have "ad_inputs ?st4 = differentiable_inputs tg"
    using a(5) b(5) c(4) ins by (simp add: keeps_def)
  ultimately show ?thesis using c(3) loss(1) by (auto simp: eq)
qed

lemma gradient_outputs_ok:
  assumes "fwd_ok C E0 [] st E" "grows E0 E" "\<forall>i \<in> set is. env_lookup E0 (input_name i) = Some (input_ty i)"
    and "\<forall>i \<in> set is. is_float (elem (input_ty i))"
  shows "\<exists>xs st' E'. gradient_outputs is st = (xs, st') \<and> fwd_ok C E0 [] st' E' \<and> grows E E' \<and>
    list_all2 (\<lambda>x i. typed C E' x (input_ty i)) xs is"
  using assms
proof (induction "is" arbitrary: st E)
  case Nil
  then show ?case by auto
next
  case (Cons i "is")
  let ?name = "input_name i" and ?t = "input_ty i"
  let ?g = "case ad_grads st ?name of Some g \<Rightarrow> g | None \<Rightarrow> zeros_like (EVar ?name)"
  let ?st = "st\<lparr>ad_grads := (ad_grads st)(?name := None)\<rparr>"
  have look: "env_lookup E ?name = Some ?t"
    using Cons.prems(2,3) by (auto simp: grows_def intro: env_lookup_weaken)
  have "is_numeric (elem ?t)" using Cons.prems(4) by (auto intro: float_numeric)
  then have z: "typed C E (zeros_like (EVar ?name)) ?t" using look by (intro typed_like) (simp_all add: typed_Var_iff)
  have g: "typed C E ?g ?t"
    using z Cons.prems(1) look by (fastforce simp: fwd_ok_def grads_ok_def split: option.splits)
  have "fwd_ok C E0 [] ?st E" using Cons.prems(1) by (auto simp: fwd_ok_def grads_ok_def)
  from bind_auto_ok [OF this g] obtain x st1 E1 where b: "bind_auto ?g ?t ?st = (x, st1)" "operand C E1 x ?t"
      "fwd_ok C E0 [] st1 E1" "grows E E1" by blast
  have "grows E0 E1" using Cons.prems(2) b(4) by (rule grows_trans)
  from Cons.IH [OF b(3) this] obtain xs st2 E2 where r: "gradient_outputs is st1 = (xs, st2)"
      "fwd_ok C E0 [] st2 E2" "grows E1 E2" "list_all2 (\<lambda>x i. typed C E2 x (input_ty i)) xs is"
    using Cons.prems(3,4) by auto
  have "operand C E2 x ?t" using b(2) r(3) by (rule grows_operand)
  moreover have "grows E E2" using b(4) r(3) by (rule grows_trans)
  ultimately show ?case
    using b(1) r by (auto simp: gradient_output_for_input_def Let_def)
qed

lemma lookup_inputs:
  "distinct (map input_name ins) \<Longrightarrow> i \<in> set ins \<Longrightarrow>
     env_lookup (env_from_inputs ins) (input_name i) = Some (input_ty i)"
  by (auto simp: env_from_inputs_def env_lookup_eq rev_map [symmetric] o_def
      intro!: map_of_is_SomeI)

text \<open>The whole of \<open>build\<close>.\<close>

lemma value_and_grad_ok:
  assumes tg: "typed_as F g [] tg" and names: "distinct (bound_names g)"
    and diff: "differentiable_lets (graph_checker F g []) (env_from_inputs (graph_inputs g)) (tg_lets tg)
      (expr_kind (hd (tg_body tg)))"
    and new: "builder_new tg = Inr st"
  shows "\<exists>out h. value_and_grad_graph F tg = Inr out \<and> typed_as F h [] out \<and> distinct (bound_names h) \<and>
    graph_inputs h = graph_inputs g \<and>
    graph_outputs h = tg_outputs tg ! 0 # map input_ty (differentiable_inputs tg)"
proof -
  let ?E0 = "env_from_inputs (graph_inputs g)" and ?C = "graph_checker F g []"
  obtain st1 E where f: "forward_pass [] tg st = Inr st1" "fwd_ok ?C ?E0 [] st1 E" "grows ?E0 E"
      "ad_inputs st1 = differentiable_inputs tg" "env_lookup E (ad_value_name st1) = Some (tg_outputs tg ! 0)"
    using forward_pass_ok [OF tg names diff refl new] by blast
  have "st_ok ?C E st1" "\<forall>nd \<in> set (rev (ad_nodes st1)). node_ok ?C E nd"
    using f(2) by (auto simp: fwd_ok_def st_ok_def)
  then obtain st2 where s: "reverse_sweep (rev (ad_nodes st1)) st1 = Inr st2" "st_ok ?C E st2" "grads_only st1 st2"
    using reverse_sweep_ok unfolding rev_ok_def by blast
  have st2: "st2 = st1\<lparr>ad_grads := ad_grads st2\<rparr>" using s(3) by (simp add: grads_only_def)
  have ok2: "fwd_ok ?C ?E0 [] st2 E"
    using f(2) s(2) by (subst st2) (auto simp: fwd_ok_def st_ok_def)
  have ins: "\<forall>i \<in> set (differentiable_inputs tg). env_lookup ?E0 (input_name i) = Some (input_ty i) \<and>
      is_float (elem (input_ty i))"
    using lookup_inputs names typed_as_fields(1) [OF tg]
    by (auto simp: differentiable_inputs_def bound_names_def)
  have "ad_inputs st2 = differentiable_inputs tg" "ad_value_name st2 = ad_value_name st1"
    using f(4) by (subst st2, simp)+
  note fields = this
  obtain xs st3 E' where o: "gradient_outputs (differentiable_inputs tg) st2 = (xs, st3)" "fwd_ok ?C ?E0 [] st3 E'"
      "grows E E'" "list_all2 (\<lambda>x i. typed ?C E' x (input_ty i)) xs (differentiable_inputs tg)"
    using gradient_outputs_ok [OF ok2 f(3), of "differentiable_inputs tg"] ins by blast
  let ?h = "grad_graph tg st2"
  have h: "?h = \<lparr>graph_name = tg_name tg @ ''_value_and_grad'', graph_backend = tg_backend tg,
      graph_inputs = graph_inputs g,
      graph_outputs = tg_outputs tg ! 0 # map input_ty (differentiable_inputs tg),
      graph_lets = ad_lets st3, graph_body = EVar (ad_value_name st1) # xs\<rparr>"
    using o(1) by (simp add: grad_graph_def fields typed_as_fields(1) [OF tg])
  obtain tlets where lets: "wt_lets ?C ?E0 (ad_lets st3) tlets E'" and nodes: "let_nodes (ad_lets st3) = {}"
      and dist: "distinct (map fst E')" using o(2) by (auto simp: fwd_ok_def)
  have "env_lookup E' (ad_value_name st1) = Some (tg_outputs tg ! 0)"
    using f(5) o(3) by (auto simp: grows_def intro: env_lookup_weaken)
  moreover have "list_all2 (\<lambda>x t. typed ?C E' x t) xs (map input_ty (differentiable_inputs tg))"
    using o(4) by (simp add: list.rel_map)
  ultimately have body: "list_all2 (\<lambda>x t. typed ?C E' x t) (graph_body ?h) (graph_outputs ?h)"
    by (simp add: h typed_Var_iff)
  have "list_all2 (\<lambda>x t. has_types (graph_checker F ?h []) E' x [t]) (graph_body ?h) (graph_outputs ?h)"
    using body by (rule list_all2_mono) (simp add: typed_def graph_checker_irrelevant [of F g ?h])
  moreover have "wt_lets (graph_checker F ?h []) ?E0 (ad_lets st3) tlets E'"
    using lets by (rule wt_lets_irrelevant)
  ultimately obtain out where out: "typed_as F ?h [] out"
    unfolding typed_as_def by (auto simp: h)
  have bound: "map fst E' = bound_names ?h"
    using wt_lets_names [OF lets] by (simp add: bound_names_def h env_from_inputs_def)
  have "\<forall>e \<in> set (graph_body ?h). expr_nodes e = {}"
    using body by (auto simp: list_all2_conv_all_nth in_set_conv_nth typed_def)
  then have "graph_nodes ?h = {}" using nodes by (simp add: graph_nodes_def h)
  then have "type_check F ?h [] = Inr out"
    using type_check_complete [OF out] dist bound by (simp add: consistent_def)
  then have "value_and_grad_graph F tg = Inr out"
    using new f(1) s(1) by (simp add: value_and_grad_graph_def value_and_grad_graph_with_registry_def build_def)
  with out dist bound show ?thesis by (auto simp: h)
qed

section \<open>Success\<close>

lemma differentiable_sum:
  "differentiable C E v \<Longrightarrow> differentiable C E (ECall (OpSum axis) [v])"
  by (simp add: reversible_def static_creation_def)

text \<open>C5. Differentiation never fails on a graph it is meant for: if the type checker has accepted a
  graph without graph calls whose names are distinct, whose operations are differentiable, and whose
  loss and inputs pass the entry checks, then flattening, the reverse sweep and the final type check
  all succeed; the result is a well typed graph with the same inputs that returns the loss and one
  gradient of the type of each floating-point input.\<close>

theorem gradient_graph_well_typed:
  assumes "typed_as F g [] tg" and "distinct (bound_names g)"
    and "differentiable_lets (graph_checker F g []) (env_from_inputs (graph_inputs g)) (tg_lets tg)
      (expr_kind (hd (tg_body tg)))"
    and "builder_new tg = Inr st"
  shows "\<exists>out h. value_and_grad_graph F tg = Inr out \<and> typed_as F h [] out \<and> distinct (bound_names h) \<and>
    graph_inputs h = graph_inputs g \<and>
    graph_outputs h = tg_outputs tg ! 0 # map input_ty (differentiable_inputs tg)"
  using assms by (rule value_and_grad_ok)

lemma gradient_graph_well_typed_witness:
  "\<exists>out h. value_and_grad_graph exact_ops sum_square_typed = Inr out \<and> typed_as exact_ops h [] out \<and>
    distinct (bound_names h) \<and> graph_inputs h = graph_inputs sum_square_graph \<and>
    graph_outputs h = [tensor F32 [], tensor F32 [2, 3], tensor F32 [3]]"
proof -
  have tg: "typed_as exact_ops sum_square_graph [] sum_square_typed"
    using type_check_sound [OF sum_square_checks sum_square_bound(1)] .
  have diff: "differentiable_lets (graph_checker exact_ops sum_square_graph [])
      (env_from_inputs (graph_inputs sum_square_graph)) (tg_lets sum_square_typed)
      (expr_kind (hd (tg_body sum_square_typed)))"
    by (simp add: sum_square_typed_def differentiable_sum del: differentiable.simps(7))
  have ins: "map input_ty (differentiable_inputs sum_square_typed) = [tensor F32 [2, 3], tensor F32 [3]]"
    "tg_outputs sum_square_typed = [tensor F32 []]" "length (differentiable_inputs sum_square_typed) = 2"
    by (simp_all add: differentiable_inputs_def sum_square_typed_def)
  then have "differentiable_inputs sum_square_typed \<noteq> []" by auto
  then obtain st where "builder_new sum_square_typed = Inr st"
    using ins
    by (cases "unique_name ''__knok_autograd_value'' (graph_names sum_square_typed)")
      (simp add: builder_new_def MAX_VALUE_AND_GRAD_OUTPUTS_def rank_def Let_def)
  from gradient_graph_well_typed [OF tg sum_square_bound(1) diff this] show ?thesis by (simp add: ins)
qed





section \<open>A typed graph that is not differentiated\<close>




end
