(* ===== verification/Tensor.thy ===== *)
theory Tensor
  imports Prelude
begin

text \<open>
  \<^verbatim>\<open>crates/knok/src/tensor.rs\<close>: the fixed-rank tensor containers \<open>Tensor0\<close> to \<open>Tensor6\<close>.  The
  const generics \<open>D0\<close>, \<open>D1\<close>, ... are arguments of the operations; the storage is a row-major vector.
  A shared reference into the storage is the element; a mutable one (\<open>get_mut\<close>, \<open>as_mut_slice\<close>) is the
  function that writes through it.  Rust's arrays are lists, with \<open>rect2\<close>, ... for their extents.

  The errors of the crate are \<open>rt_error\<close>; the error type of the runtime library is its parameter.
\<close>

section \<open>Errors\<close>

datatype signature_error = InputSignature | OutputSignature

datatype 'r rt_error =
    Runtime 'r
  | ShapeErr "nat list" "nat list"
  | GraphSignature signature_error
  | MissingArtifactVariant string string
  | MissingDefaultArtifactVariant string
  | OutputCountMismatch nat nat
  | OutputShapeMismatch nat "nat list" "nat list"
  | RtPanic

text \<open>Rust's indexing \<open>v[i]\<close>.\<close>

definition vec_at :: "'a list \<Rightarrow> nat \<Rightarrow> 'r rt_error + 'a" where
  "vec_at xs i = (if i < length xs then Inr (xs ! i) else Inl RtPanic)"

lemma vec_at_simps [simp]:
  "i < length xs \<Longrightarrow> vec_at xs i = Inr (xs ! i)"
  "\<not> i < length xs \<Longrightarrow> vec_at xs i = Inl RtPanic"
  by (simp_all add: vec_at_def)

section \<open>Storage\<close>

record 'a tensor_data =
  td_data :: "'a list"

record 'a fixed_rank =
  storage :: "'a tensor_data"

definition data_from_vec :: "'a list \<Rightarrow> nat list \<Rightarrow> 'r rt_error + 'a tensor_data" where
  "data_from_vec data shape =
     (let expected_len = prod_list shape in
      if length data \<noteq> expected_len then Inl (ShapeErr shape [length data])
      else Inr \<lparr>td_data = data\<rparr>)"

definition data_filled :: "'a \<Rightarrow> nat list \<Rightarrow> 'a tensor_data" where
  "data_filled value shape = \<lparr>td_data = replicate (prod_list shape) value\<rparr>"

definition as_slice :: "'a fixed_rank \<Rightarrow> 'a list" where
  "as_slice t = td_data (storage t)"

definition into_vec :: "'a fixed_rank \<Rightarrow> 'a list" where
  "into_vec t = td_data (storage t)"

text \<open>Writing through the reference to element \<open>i\<close>, and through the mutable slice.\<close>

definition write_at :: "'a fixed_rank \<Rightarrow> nat \<Rightarrow> 'a \<Rightarrow> 'a fixed_rank" where
  "write_at t i v = t\<lparr>storage := \<lparr>td_data = (td_data (storage t))[i := v]\<rparr>\<rparr>"

definition as_mut_slice :: "'a fixed_rank \<Rightarrow> nat \<Rightarrow> 'a \<Rightarrow> 'r rt_error + 'a fixed_rank" where
  "as_mut_slice t i v =
     (if i < length (td_data (storage t)) then Inr (write_at t i v) else Inl RtPanic)"

text \<open>The reference to the element at the flat index \<open>i\<close>, and the mutable one.\<close>

definition element_ref :: "'a fixed_rank \<Rightarrow> nat \<Rightarrow> 'r rt_error + 'a option" where
  "element_ref t i = rbind (vec_at (td_data (storage t)) i) (\<lambda>x. Inr (Some x))"

definition element_mut :: "'a fixed_rank \<Rightarrow> nat \<Rightarrow> 'r rt_error + ('a \<Rightarrow> 'a fixed_rank) option" where
  "element_mut t i = rbind (vec_at (td_data (storage t)) i) (\<lambda>_. Inr (Some (write_at t i)))"

section \<open>Tensor0\<close>

definition tensor0_from_vec :: "'a list \<Rightarrow> 'r rt_error + 'a fixed_rank" where
  "tensor0_from_vec data = rbind (data_from_vec data []) (\<lambda>s. Inr \<lparr>storage = s\<rparr>)"

definition tensor0_from_scalar :: "'a \<Rightarrow> 'a fixed_rank" where
  "tensor0_from_scalar value = \<lparr>storage = \<lparr>td_data = [value]\<rparr>\<rparr>"

definition tensor0_from_array :: "'a list \<Rightarrow> 'a fixed_rank" where
  "tensor0_from_array array = \<lparr>storage = \<lparr>td_data = array\<rparr>\<rparr>"

definition tensor0_filled :: "'a \<Rightarrow> 'a fixed_rank" where
  "tensor0_filled value = \<lparr>storage = \<lparr>td_data = [value]\<rparr>\<rparr>"

definition tensor0_get :: "'a fixed_rank \<Rightarrow> 'r rt_error + 'a" where
  "tensor0_get t = vec_at (td_data (storage t)) 0"

definition tensor0_get_mut :: "'a fixed_rank \<Rightarrow> 'r rt_error + ('a \<Rightarrow> 'a fixed_rank)" where
  "tensor0_get_mut t = rbind (vec_at (td_data (storage t)) 0) (\<lambda>_. Inr (write_at t 0))"

section \<open>Tensor1\<close>

definition tensor1_from_vec :: "nat \<Rightarrow> 'a list \<Rightarrow> 'r rt_error + 'a fixed_rank" where
  "tensor1_from_vec D0 data = rbind (data_from_vec data [D0]) (\<lambda>s. Inr \<lparr>storage = s\<rparr>)"

definition tensor1_from_array :: "'a list \<Rightarrow> 'a fixed_rank" where
  "tensor1_from_array array = \<lparr>storage = \<lparr>td_data = array\<rparr>\<rparr>"

definition tensor1_filled :: "nat \<Rightarrow> 'a \<Rightarrow> 'a fixed_rank" where
  "tensor1_filled D0 value = \<lparr>storage = data_filled value [D0]\<rparr>"

definition tensor1_get :: "'a fixed_rank \<Rightarrow> nat \<Rightarrow> 'r rt_error + 'a option" where
  "tensor1_get t index =
     (if index < length (td_data (storage t)) then Inr (Some (td_data (storage t) ! index)) else Inr None)"

definition tensor1_get_mut :: "'a fixed_rank \<Rightarrow> nat \<Rightarrow> 'r rt_error + ('a \<Rightarrow> 'a fixed_rank) option" where
  "tensor1_get_mut t index =
     (if index < length (td_data (storage t)) then Inr (Some (write_at t index)) else Inr None)"

section \<open>Tensor2\<close>

definition tensor2_from_vec :: "nat \<Rightarrow> nat \<Rightarrow> 'a list \<Rightarrow> 'r rt_error + 'a fixed_rank" where
  "tensor2_from_vec D0 D1 data = rbind (data_from_vec data [D0, D1]) (\<lambda>s. Inr \<lparr>storage = s\<rparr>)"

definition tensor2_from_array :: "'a list list \<Rightarrow> 'a fixed_rank" where
  "tensor2_from_array array = \<lparr>storage = \<lparr>td_data = concat array\<rparr>\<rparr>"

definition tensor2_filled :: "nat \<Rightarrow> nat \<Rightarrow> 'a \<Rightarrow> 'a fixed_rank" where
  "tensor2_filled D0 D1 value = \<lparr>storage = data_filled value [D0, D1]\<rparr>"

definition tensor2_get ::
    "nat \<Rightarrow> nat \<Rightarrow> 'a fixed_rank \<Rightarrow> nat \<Rightarrow> nat \<Rightarrow> 'r rt_error + 'a option" where
  "tensor2_get D0 D1 t row col =
     (if row < D0 \<and> col < D1
      then element_ref t (row * D1 + col) else Inr None)"

definition tensor2_get_mut ::
    "nat \<Rightarrow> nat \<Rightarrow> 'a fixed_rank \<Rightarrow> nat \<Rightarrow> nat \<Rightarrow> 'r rt_error + ('a \<Rightarrow> 'a fixed_rank) option" where
  "tensor2_get_mut D0 D1 t row col =
     (if row < D0 \<and> col < D1
      then element_mut t (row * D1 + col) else Inr None)"

section \<open>Tensor3\<close>

definition tensor3_from_vec :: "nat \<Rightarrow> nat \<Rightarrow> nat \<Rightarrow> 'a list \<Rightarrow> 'r rt_error + 'a fixed_rank" where
  "tensor3_from_vec D0 D1 D2 data = rbind (data_from_vec data [D0, D1, D2]) (\<lambda>s. Inr \<lparr>storage = s\<rparr>)"

definition tensor3_from_array :: "'a list list list \<Rightarrow> 'a fixed_rank" where
  "tensor3_from_array array = \<lparr>storage = \<lparr>td_data = concat (concat array)\<rparr>\<rparr>"

definition tensor3_filled :: "nat \<Rightarrow> nat \<Rightarrow> nat \<Rightarrow> 'a \<Rightarrow> 'a fixed_rank" where
  "tensor3_filled D0 D1 D2 value = \<lparr>storage = data_filled value [D0, D1, D2]\<rparr>"

definition tensor3_get ::
    "nat \<Rightarrow> nat \<Rightarrow> nat \<Rightarrow> 'a fixed_rank \<Rightarrow> nat \<Rightarrow> nat \<Rightarrow> nat \<Rightarrow> 'r rt_error + 'a option" where
  "tensor3_get D0 D1 D2 t d0 d1 d2 =
     (if d0 < D0 \<and> d1 < D1 \<and> d2 < D2
      then element_ref t ((d0 * D1 + d1) * D2 + d2) else Inr None)"

definition tensor3_get_mut ::
    "nat \<Rightarrow> nat \<Rightarrow> nat \<Rightarrow> 'a fixed_rank \<Rightarrow> nat \<Rightarrow> nat \<Rightarrow> nat \<Rightarrow> 'r rt_error + ('a \<Rightarrow> 'a fixed_rank) option" where
  "tensor3_get_mut D0 D1 D2 t d0 d1 d2 =
     (if d0 < D0 \<and> d1 < D1 \<and> d2 < D2
      then element_mut t ((d0 * D1 + d1) * D2 + d2) else Inr None)"

section \<open>Tensor4\<close>

definition tensor4_from_vec :: "nat \<Rightarrow> nat \<Rightarrow> nat \<Rightarrow> nat \<Rightarrow> 'a list \<Rightarrow> 'r rt_error + 'a fixed_rank" where
  "tensor4_from_vec D0 D1 D2 D3 data = rbind (data_from_vec data [D0, D1, D2, D3]) (\<lambda>s. Inr \<lparr>storage = s\<rparr>)"

definition tensor4_from_array :: "'a list list list list \<Rightarrow> 'a fixed_rank" where
  "tensor4_from_array array = \<lparr>storage = \<lparr>td_data = concat (concat (concat array))\<rparr>\<rparr>"

definition tensor4_filled :: "nat \<Rightarrow> nat \<Rightarrow> nat \<Rightarrow> nat \<Rightarrow> 'a \<Rightarrow> 'a fixed_rank" where
  "tensor4_filled D0 D1 D2 D3 value = \<lparr>storage = data_filled value [D0, D1, D2, D3]\<rparr>"

definition tensor4_get ::
    "nat \<Rightarrow> nat \<Rightarrow> nat \<Rightarrow> nat \<Rightarrow> 'a fixed_rank \<Rightarrow> nat \<Rightarrow> nat \<Rightarrow> nat \<Rightarrow> nat \<Rightarrow> 'r rt_error + 'a option" where
  "tensor4_get D0 D1 D2 D3 t d0 d1 d2 d3 =
     (if d0 < D0 \<and> d1 < D1 \<and> d2 < D2 \<and> d3 < D3
      then element_ref t (((d0 * D1 + d1) * D2 + d2) * D3 + d3) else Inr None)"

definition tensor4_get_mut ::
    "nat \<Rightarrow> nat \<Rightarrow> nat \<Rightarrow> nat \<Rightarrow> 'a fixed_rank \<Rightarrow> nat \<Rightarrow> nat \<Rightarrow> nat \<Rightarrow> nat \<Rightarrow> 'r rt_error + ('a \<Rightarrow> 'a fixed_rank) option" where
  "tensor4_get_mut D0 D1 D2 D3 t d0 d1 d2 d3 =
     (if d0 < D0 \<and> d1 < D1 \<and> d2 < D2 \<and> d3 < D3
      then element_mut t (((d0 * D1 + d1) * D2 + d2) * D3 + d3) else Inr None)"

section \<open>Tensor5\<close>

definition tensor5_from_vec :: "nat \<Rightarrow> nat \<Rightarrow> nat \<Rightarrow> nat \<Rightarrow> nat \<Rightarrow> 'a list \<Rightarrow> 'r rt_error + 'a fixed_rank" where
  "tensor5_from_vec D0 D1 D2 D3 D4 data = rbind (data_from_vec data [D0, D1, D2, D3, D4]) (\<lambda>s. Inr \<lparr>storage = s\<rparr>)"

definition tensor5_from_array :: "'a list list list list list \<Rightarrow> 'a fixed_rank" where
  "tensor5_from_array array = \<lparr>storage = \<lparr>td_data = concat (concat (concat (concat array)))\<rparr>\<rparr>"

definition tensor5_filled :: "nat \<Rightarrow> nat \<Rightarrow> nat \<Rightarrow> nat \<Rightarrow> nat \<Rightarrow> 'a \<Rightarrow> 'a fixed_rank" where
  "tensor5_filled D0 D1 D2 D3 D4 value = \<lparr>storage = data_filled value [D0, D1, D2, D3, D4]\<rparr>"

definition tensor5_get ::
    "nat \<Rightarrow> nat \<Rightarrow> nat \<Rightarrow> nat \<Rightarrow> nat \<Rightarrow> 'a fixed_rank \<Rightarrow> nat \<Rightarrow> nat \<Rightarrow> nat \<Rightarrow> nat \<Rightarrow> nat \<Rightarrow> 'r rt_error + 'a option" where
  "tensor5_get D0 D1 D2 D3 D4 t d0 d1 d2 d3 d4 =
     (if d0 < D0 \<and> d1 < D1 \<and> d2 < D2 \<and> d3 < D3 \<and> d4 < D4
      then element_ref t ((((d0 * D1 + d1) * D2 + d2) * D3 + d3) * D4 + d4) else Inr None)"

definition tensor5_get_mut ::
    "nat \<Rightarrow> nat \<Rightarrow> nat \<Rightarrow> nat \<Rightarrow> nat \<Rightarrow> 'a fixed_rank \<Rightarrow> nat \<Rightarrow> nat \<Rightarrow> nat \<Rightarrow> nat \<Rightarrow> nat \<Rightarrow> 'r rt_error + ('a \<Rightarrow> 'a fixed_rank) option" where
  "tensor5_get_mut D0 D1 D2 D3 D4 t d0 d1 d2 d3 d4 =
     (if d0 < D0 \<and> d1 < D1 \<and> d2 < D2 \<and> d3 < D3 \<and> d4 < D4
      then element_mut t ((((d0 * D1 + d1) * D2 + d2) * D3 + d3) * D4 + d4) else Inr None)"

section \<open>Tensor6\<close>

definition tensor6_from_vec :: "nat \<Rightarrow> nat \<Rightarrow> nat \<Rightarrow> nat \<Rightarrow> nat \<Rightarrow> nat \<Rightarrow> 'a list \<Rightarrow> 'r rt_error + 'a fixed_rank" where
  "tensor6_from_vec D0 D1 D2 D3 D4 D5 data = rbind (data_from_vec data [D0, D1, D2, D3, D4, D5]) (\<lambda>s. Inr \<lparr>storage = s\<rparr>)"

definition tensor6_from_array :: "'a list list list list list list \<Rightarrow> 'a fixed_rank" where
  "tensor6_from_array array = \<lparr>storage = \<lparr>td_data = concat (concat (concat (concat (concat array))))\<rparr>\<rparr>"

definition tensor6_filled :: "nat \<Rightarrow> nat \<Rightarrow> nat \<Rightarrow> nat \<Rightarrow> nat \<Rightarrow> nat \<Rightarrow> 'a \<Rightarrow> 'a fixed_rank" where
  "tensor6_filled D0 D1 D2 D3 D4 D5 value = \<lparr>storage = data_filled value [D0, D1, D2, D3, D4, D5]\<rparr>"

definition tensor6_get ::
    "nat \<Rightarrow> nat \<Rightarrow> nat \<Rightarrow> nat \<Rightarrow> nat \<Rightarrow> nat \<Rightarrow> 'a fixed_rank \<Rightarrow> nat \<Rightarrow> nat \<Rightarrow> nat \<Rightarrow> nat \<Rightarrow> nat \<Rightarrow> nat \<Rightarrow> 'r rt_error + 'a option" where
  "tensor6_get D0 D1 D2 D3 D4 D5 t d0 d1 d2 d3 d4 d5 =
     (if d0 < D0 \<and> d1 < D1 \<and> d2 < D2 \<and> d3 < D3 \<and> d4 < D4 \<and> d5 < D5
      then element_ref t (((((d0 * D1 + d1) * D2 + d2) * D3 + d3) * D4 + d4) * D5 + d5) else Inr None)"

definition tensor6_get_mut ::
    "nat \<Rightarrow> nat \<Rightarrow> nat \<Rightarrow> nat \<Rightarrow> nat \<Rightarrow> nat \<Rightarrow> 'a fixed_rank \<Rightarrow> nat \<Rightarrow> nat \<Rightarrow> nat \<Rightarrow> nat \<Rightarrow> nat \<Rightarrow> nat \<Rightarrow> 'r rt_error + ('a \<Rightarrow> 'a fixed_rank) option" where
  "tensor6_get_mut D0 D1 D2 D3 D4 D5 t d0 d1 d2 d3 d4 d5 =
     (if d0 < D0 \<and> d1 < D1 \<and> d2 < D2 \<and> d3 < D3 \<and> d4 < D4 \<and> d5 < D5
      then element_mut t (((((d0 * D1 + d1) * D2 + d2) * D3 + d3) * D4 + d4) * D5 + d5) else Inr None)"

section \<open>Zeros and ones\<close>

text \<open>\<open>TensorElement\<close> supplies the two constants, the macro the constructors.\<close>

record 'a tensor_element =
  element_zero :: 'a
  element_one :: 'a

definition tensor_zeros :: "('a \<Rightarrow> 'a fixed_rank) \<Rightarrow> 'a tensor_element \<Rightarrow> 'a fixed_rank" where
  "tensor_zeros filled T = filled (element_zero T)"

definition tensor_ones :: "('a \<Rightarrow> 'a fixed_rank) \<Rightarrow> 'a tensor_element \<Rightarrow> 'a fixed_rank" where
  "tensor_ones filled T = filled (element_one T)"

end
