(* ===== verification/Tensor_Facts.thy ===== *)
theory Tensor_Facts
  imports Tensor
begin

text \<open>
  The row-major index as a bijection, the element accessors of every rank as one reference
  definition, and the trait \<open>FixedTensor\<close> as a locale that every rank interprets.
\<close>

section \<open>Row-major indices\<close>

text \<open>Horner's scheme over the dimensions, as the accessors write it out for each rank.\<close>

fun row_major :: "nat \<Rightarrow> nat list \<Rightarrow> nat list \<Rightarrow> nat" where
  "row_major acc (d # ds) (i # is) = row_major (acc * d + i) ds is"
| "row_major acc _ _ = acc"

abbreviation flat_index :: "nat list \<Rightarrow> nat list \<Rightarrow> nat" where
  "flat_index \<equiv> row_major 0"

definition in_bounds :: "nat list \<Rightarrow> nat list \<Rightarrow> bool" where
  "in_bounds ds is \<longleftrightarrow> list_all2 (<) is ds"

lemma in_bounds_simps [simp]:
  "in_bounds [] is \<longleftrightarrow> is = []"
  "in_bounds (d # ds) (i # is) \<longleftrightarrow> i < d \<and> in_bounds ds is"
  "\<not> in_bounds (d # ds) []"
  by (auto simp: in_bounds_def)

lemma in_bounds_Cons: "in_bounds (d # ds) js \<longleftrightarrow> (\<exists>i is. js = i # is \<and> i < d \<and> in_bounds ds is)"
  by (auto simp: in_bounds_def list_all2_Cons2)

lemma scaled_less: "acc < p \<Longrightarrow> i < d \<Longrightarrow> acc * d + i < p * (d :: nat)"
  using mult_le_mono1 [of "Suc acc" p d] by simp

lemma row_major_less: "in_bounds ds is \<Longrightarrow> acc < p \<Longrightarrow> row_major acc ds is < p * prod_list ds"
proof (induction ds arbitrary: acc p "is")
  case (Cons d ds)
  then obtain j js where "is = j # js" "j < d" "in_bounds ds js" by (auto simp: in_bounds_Cons)
  with Cons.IH [of js "acc * d + j" "p * d"] Cons.prems(2) show ?case
    by (simp add: scaled_less mult.assoc)
qed simp

lemma row_major_inject:
  "in_bounds ds is \<Longrightarrow> in_bounds ds js \<Longrightarrow> row_major a ds is = row_major b ds js \<Longrightarrow> a = b \<and> is = js"
proof (induction ds arbitrary: a b "is" js)
  case (Cons d ds)
  then obtain i is' j js' where e: "is = i # is'" "js = j # js'" "i < d" "j < d" "in_bounds ds is'" "in_bounds ds js'"
    by (auto simp: in_bounds_Cons)
  then have "a * d + i = b * d + j \<and> is' = js'" using Cons.IH [OF e(5,6)] Cons.prems(3) by simp
  then have "(a * d + i) div d = (b * d + j) div d" "(a * d + i) mod d = (b * d + j) mod d" "is' = js'" by simp_all
  with e show ?case by simp
qed simp

lemma row_major_onto:
  "n < p * prod_list ds \<Longrightarrow> \<exists>acc is. acc < p \<and> in_bounds ds is \<and> row_major acc ds is = n"
proof (induction ds arbitrary: p)
  case (Cons d ds)
  then have pd: "n < p * d * prod_list ds" by (simp add: mult.assoc)
  then obtain m js where m: "m < p * d" "in_bounds ds js" "row_major m ds js = n"
    using Cons.IH [OF pd] by blast
  then have "0 < d" by (cases d) simp_all
  then have "m div d < p" "m mod d < d" using m(1) by (simp_all add: less_mult_imp_div_less)
  then show ?case
    using m by (intro exI [of _ "m div d"] exI [of _ "m mod d # js"]) simp
qed auto

lemma flat_index_bij: "bij_betw (flat_index ds) {js. in_bounds ds js} {..<prod_list ds}"
  unfolding bij_betw_def inj_on_def
proof (intro conjI ballI impI set_eqI iffI)
  show "is = js" if "is \<in> {js. in_bounds ds js}" "js \<in> {js. in_bounds ds js}" "flat_index ds is = flat_index ds js"
    for "is" js
    using that row_major_inject by blast
  show "n \<in> {..<prod_list ds}" if "n \<in> flat_index ds ` {js. in_bounds ds js}" for n
    using that row_major_less [of ds _ 0 1] by auto
  show "n \<in> flat_index ds ` {js. in_bounds ds js}" if "n \<in> {..<prod_list ds}" for n
    using that row_major_onto [of n 1 ds] by auto
qed

section \<open>Accessors\<close>

text \<open>The reference accessors, for any rank.\<close>

definition tensor_get :: "nat list \<Rightarrow> 'a fixed_rank \<Rightarrow> nat list \<Rightarrow> 'r rt_error + 'a option" where
  "tensor_get ds t js = (if in_bounds ds js then element_ref t (flat_index ds js) else Inr None)"

definition tensor_get_mut ::
    "nat list \<Rightarrow> 'a fixed_rank \<Rightarrow> nat list \<Rightarrow> 'r rt_error + ('a \<Rightarrow> 'a fixed_rank) option" where
  "tensor_get_mut ds t js = (if in_bounds ds js then element_mut t (flat_index ds js) else Inr None)"

text \<open>A tensor of a shape: the storage holds exactly its elements.\<close>

definition has_shape :: "nat list \<Rightarrow> 'a fixed_rank \<Rightarrow> bool" where
  "has_shape ds t \<longleftrightarrow> length (as_slice t) = prod_list ds"

lemma as_slice_write [simp]: "as_slice (write_at t i v) = (as_slice t)[i := v]"
  by (simp add: as_slice_def write_at_def)

lemma has_shape_write [simp]: "has_shape ds (write_at t i v) = has_shape ds t"
  by (simp add: has_shape_def)

lemma get_in_bounds:
  assumes "has_shape ds t"
  shows "tensor_get ds t js = Inr (if in_bounds ds js then Some (as_slice t ! flat_index ds js) else None)"
    and "tensor_get_mut ds t js = Inr (if in_bounds ds js then Some (write_at t (flat_index ds js)) else None)"
  using assms row_major_less [of ds js 0 1]
  by (auto simp: tensor_get_def tensor_get_mut_def element_ref_def element_mut_def has_shape_def as_slice_def)

lemma get_written:
  assumes "has_shape ds t" "in_bounds ds js" "in_bounds ds ks"
  shows "as_slice (write_at t (flat_index ds js) v) ! flat_index ds ks =
    (if ks = js then v else as_slice t ! flat_index ds ks)"
proof -
  have "flat_index ds js < length (as_slice t)"
    using row_major_less [OF assms(2), of 0 1] assms(1) by (simp add: has_shape_def)
  moreover have "flat_index ds js = flat_index ds ks \<longleftrightarrow> js = ks"
    using row_major_inject [OF assms(2,3), of 0 0] by auto
  ultimately show ?thesis by (simp add: nth_list_update)
qed

lemma get_mut_set:
  assumes "has_shape ds t" "tensor_get_mut ds t js = Inr (Some write)"
  shows "has_shape ds (write v) \<and>
    tensor_get ds (write v) ks = (if ks = js then Inr (Some v) else tensor_get ds t ks)"
proof -
  have b: "in_bounds ds js" and w: "write = write_at t (flat_index ds js)"
    using assms(2) by (simp_all add: get_in_bounds(2) [OF assms(1)] split: if_splits)
  have s: "has_shape ds (write v)" using assms(1) by (simp add: w)
  show ?thesis
  proof (cases "in_bounds ds ks")
    case True
    then show ?thesis
      using get_written [OF assms(1) b True, of v] s by (simp add: get_in_bounds(1) assms(1) w)
  next
    case False
    with b s show ?thesis by (auto simp: get_in_bounds(1) assms(1))
  qed
qed

text \<open>The accessors of every rank are the reference accessors.\<close>

lemma ranked_get:
  "has_shape [D0] t \<Longrightarrow> tensor1_get t index = tensor_get [D0] t [index]"
  "tensor2_get D0 D1 t row col = tensor_get [D0, D1] t [row, col]"
  "tensor3_get D0 D1 D2 t d0 d1 d2 = tensor_get [D0, D1, D2] t [d0, d1, d2]"
  "tensor4_get D0 D1 D2 D3 t d0 d1 d2 d3 = tensor_get [D0, D1, D2, D3] t [d0, d1, d2, d3]"
  "tensor5_get D0 D1 D2 D3 D4 t d0 d1 d2 d3 d4 = tensor_get [D0, D1, D2, D3, D4] t [d0, d1, d2, d3, d4]"
  "tensor6_get D0 D1 D2 D3 D4 D5 t d0 d1 d2 d3 d4 d5 = tensor_get [D0, D1, D2, D3, D4, D5] t [d0, d1, d2, d3, d4, d5]"
  by (simp_all add: tensor_get_def tensor1_get_def element_ref_def has_shape_def as_slice_def
      tensor2_get_def tensor3_get_def tensor4_get_def tensor5_get_def tensor6_get_def)

lemma ranked_get_mut:
  "has_shape [D0] t \<Longrightarrow> tensor1_get_mut t index = tensor_get_mut [D0] t [index]"
  "tensor2_get_mut D0 D1 t row col = tensor_get_mut [D0, D1] t [row, col]"
  "tensor3_get_mut D0 D1 D2 t d0 d1 d2 = tensor_get_mut [D0, D1, D2] t [d0, d1, d2]"
  "tensor4_get_mut D0 D1 D2 D3 t d0 d1 d2 d3 = tensor_get_mut [D0, D1, D2, D3] t [d0, d1, d2, d3]"
  "tensor5_get_mut D0 D1 D2 D3 D4 t d0 d1 d2 d3 d4 = tensor_get_mut [D0, D1, D2, D3, D4] t [d0, d1, d2, d3, d4]"
  "tensor6_get_mut D0 D1 D2 D3 D4 D5 t d0 d1 d2 d3 d4 d5 = tensor_get_mut [D0, D1, D2, D3, D4, D5] t [d0, d1, d2, d3, d4, d5]"
  by (simp_all add: tensor_get_mut_def tensor1_get_mut_def element_mut_def has_shape_def as_slice_def
      tensor2_get_mut_def tensor3_get_mut_def tensor4_get_mut_def tensor5_get_mut_def tensor6_get_mut_def)

section \<open>Arrays\<close>

text \<open>The extents of nested arrays.\<close>

definition rect2 :: "nat \<Rightarrow> nat \<Rightarrow> 'a list list \<Rightarrow> bool" where
  "rect2 D0 D1 a \<longleftrightarrow> length a = D0 \<and> (\<forall>x \<in> set a. length x = D1)"

definition rect3 :: "nat \<Rightarrow> nat \<Rightarrow> nat \<Rightarrow> 'a list list list \<Rightarrow> bool" where
  "rect3 D0 D1 D2 a \<longleftrightarrow> length a = D0 \<and> (\<forall>x \<in> set a. rect2 D1 D2 x)"

definition rect4 :: "nat \<Rightarrow> nat \<Rightarrow> nat \<Rightarrow> nat \<Rightarrow> 'a list list list list \<Rightarrow> bool" where
  "rect4 D0 D1 D2 D3 a \<longleftrightarrow> length a = D0 \<and> (\<forall>x \<in> set a. rect3 D1 D2 D3 x)"

definition rect5 :: "nat \<Rightarrow> nat \<Rightarrow> nat \<Rightarrow> nat \<Rightarrow> nat \<Rightarrow> 'a list list list list list \<Rightarrow> bool" where
  "rect5 D0 D1 D2 D3 D4 a \<longleftrightarrow> length a = D0 \<and> (\<forall>x \<in> set a. rect4 D1 D2 D3 D4 x)"

definition rect6 :: "nat \<Rightarrow> nat \<Rightarrow> nat \<Rightarrow> nat \<Rightarrow> nat \<Rightarrow> nat \<Rightarrow> 'a list list list list list list \<Rightarrow> bool" where
  "rect6 D0 D1 D2 D3 D4 D5 a \<longleftrightarrow> length a = D0 \<and> (\<forall>x \<in> set a. rect5 D1 D2 D3 D4 D5 x)"

lemma concat_length: "\<forall>x \<in> set xs. length x = n \<Longrightarrow> length (concat xs) = length xs * n"
  by (induction xs) auto

lemma concat_row:
  "\<forall>x \<in> set xs. length x = n \<Longrightarrow> i < length xs \<Longrightarrow> j < n \<Longrightarrow> concat xs ! (i * n + j) = xs ! i ! j"
proof (induction xs arbitrary: i)
  case (Cons x xs)
  then show ?case by (cases i) (auto simp: nth_append)
qed simp

lemma rect_concat:
  "rect3 D0 D1 D2 a3 \<Longrightarrow> rect2 (D0 * D1) D2 (concat a3)"
  "rect4 D0 D1 D2 D3 a4 \<Longrightarrow> rect3 (D0 * D1) D2 D3 (concat a4)"
  "rect5 D0 D1 D2 D3 D4 a5 \<Longrightarrow> rect4 (D0 * D1) D2 D3 D4 (concat a5)"
  "rect6 D0 D1 D2 D3 D4 D5 a6 \<Longrightarrow> rect5 (D0 * D1) D2 D3 D4 D5 (concat a6)"
  by (auto simp: rect2_def rect3_def rect4_def rect5_def rect6_def concat_length)

text \<open>The rows of an array are arrays of one rank less, all of the same length.\<close>

lemma rect_rows:
  "rect2 D0 D1 a2 \<Longrightarrow> length a2 = D0 \<and> (\<forall>x \<in> set a2. length x = D1)"
  "rect3 D0 D1 D2 a3 \<Longrightarrow> length a3 = D0 \<and> (\<forall>x \<in> set a3. length x = D1)"
  "rect4 D0 D1 D2 D3 a4 \<Longrightarrow> length a4 = D0 \<and> (\<forall>x \<in> set a4. length x = D1)"
  "rect5 D0 D1 D2 D3 D4 a5 \<Longrightarrow> length a5 = D0 \<and> (\<forall>x \<in> set a5. length x = D1)"
  "rect6 D0 D1 D2 D3 D4 D5 a6 \<Longrightarrow> length a6 = D0 \<and> (\<forall>x \<in> set a6. length x = D1)"
  by (auto simp: rect2_def rect3_def rect4_def rect5_def rect6_def)

lemma rect2_length: "rect2 D0 D1 a \<Longrightarrow> length (concat a) = prod_list [D0, D1]"
  using concat_length [of a D1] by (simp add: rect2_def)

lemma rect3_length: "rect3 D0 D1 D2 a \<Longrightarrow> length (concat (concat a)) = prod_list [D0, D1, D2]"
  using rect2_length [OF rect_concat(1)] by (simp add: mult.assoc)

lemma rect4_length: "rect4 D0 D1 D2 D3 a \<Longrightarrow> length (concat (concat (concat a))) = prod_list [D0, D1, D2, D3]"
  using rect3_length [OF rect_concat(2)] by (simp add: mult.assoc)

lemma rect5_length: "rect5 D0 D1 D2 D3 D4 a \<Longrightarrow> length (concat (concat (concat (concat a)))) = prod_list [D0, D1, D2, D3, D4]"
  using rect4_length [OF rect_concat(3)] by (simp add: mult.assoc)

lemma rect6_length: "rect6 D0 D1 D2 D3 D4 D5 a \<Longrightarrow> length (concat (concat (concat (concat (concat a))))) = prod_list [D0, D1, D2, D3, D4, D5]"
  using rect5_length [OF rect_concat(4)] by (simp add: mult.assoc)

lemma array2_nth:
  "rect2 D0 D1 a \<Longrightarrow> d0 < D0 \<Longrightarrow> d1 < D1 \<Longrightarrow>
     concat a ! (d0 * D1 + d1) = a ! d0 ! d1"
  by (metis concat_row rect_rows(1))

lemma array3_nth:
  "rect3 D0 D1 D2 a \<Longrightarrow> d0 < D0 \<Longrightarrow> d1 < D1 \<Longrightarrow> d2 < D2 \<Longrightarrow>
     concat (concat a) ! ((d0 * D1 + d1) * D2 + d2) = a ! d0 ! d1 ! d2"
  using array2_nth [OF rect_concat(1), of D0 D1 D2 a "d0 * D1 + d1" d2]
    concat_row [of a D1 d0 d1] rect_rows(2) [of D0 D1 D2 a]
  by (simp add: scaled_less)

lemma array4_nth:
  "rect4 D0 D1 D2 D3 a \<Longrightarrow> d0 < D0 \<Longrightarrow> d1 < D1 \<Longrightarrow> d2 < D2 \<Longrightarrow> d3 < D3 \<Longrightarrow>
     concat (concat (concat a)) ! (((d0 * D1 + d1) * D2 + d2) * D3 + d3) = a ! d0 ! d1 ! d2 ! d3"
  using array3_nth [OF rect_concat(2), of D0 D1 D2 D3 a "d0 * D1 + d1" d2 d3]
    concat_row [of a D1 d0 d1] rect_rows(3) [of D0 D1 D2 D3 a]
  by (simp add: scaled_less)

lemma array5_nth:
  "rect5 D0 D1 D2 D3 D4 a \<Longrightarrow> d0 < D0 \<Longrightarrow> d1 < D1 \<Longrightarrow> d2 < D2 \<Longrightarrow> d3 < D3 \<Longrightarrow> d4 < D4 \<Longrightarrow>
     concat (concat (concat (concat a))) ! ((((d0 * D1 + d1) * D2 + d2) * D3 + d3) * D4 + d4) = a ! d0 ! d1 ! d2 ! d3 ! d4"
  using array4_nth [OF rect_concat(3), of D0 D1 D2 D3 D4 a "d0 * D1 + d1" d2 d3 d4]
    concat_row [of a D1 d0 d1] rect_rows(4) [of D0 D1 D2 D3 D4 a]
  by (simp add: scaled_less)

lemma array6_nth:
  "rect6 D0 D1 D2 D3 D4 D5 a \<Longrightarrow> d0 < D0 \<Longrightarrow> d1 < D1 \<Longrightarrow> d2 < D2 \<Longrightarrow> d3 < D3 \<Longrightarrow> d4 < D4 \<Longrightarrow> d5 < D5 \<Longrightarrow>
     concat (concat (concat (concat (concat a)))) ! (((((d0 * D1 + d1) * D2 + d2) * D3 + d3) * D4 + d4) * D5 + d5) = a ! d0 ! d1 ! d2 ! d3 ! d4 ! d5"
  using array5_nth [OF rect_concat(4), of D0 D1 D2 D3 D4 D5 a "d0 * D1 + d1" d2 d3 d4 d5]
    concat_row [of a D1 d0 d1] rect_rows(5) [of D0 D1 D2 D3 D4 D5 a]
  by (simp add: scaled_less)

end
