(* ===== verification/Tensor_Serde.thy ===== *)
theory Tensor_Serde
  imports Tensor_Facts
begin

text \<open>
  The trait \<open>FixedTensor\<close> as a locale, and the serde support of \<^verbatim>\<open>crates/knok/src/tensor.rs\<close>, which
  is written against the trait.  The data format is a parameter: a \<open>codec\<close> encodes and decodes the
  two fields, and the format presents a struct either as a map or as a sequence.
\<close>

section \<open>Serialization and deserialization\<close>

record ('v, 'a, 'e) codec =
  enc_shape :: "nat list \<Rightarrow> 'v"
  enc_data :: "'a list \<Rightarrow> 'v"
  dec_shape :: "'v \<Rightarrow> 'e + nat list"
  dec_data :: "'v \<Rightarrow> 'e + 'a list"

text \<open>What a format promises: a value that it has encoded is decoded to itself.\<close>

definition codec_faithful :: "('v, 'a, 'e) codec \<Rightarrow> bool" where
  "codec_faithful F \<longleftrightarrow>
     (\<forall>s. dec_shape F (enc_shape F s) = Inr s) \<and> (\<forall>d. dec_data F (enc_data F d) = Inr d)"

datatype ('e, 'r) serde_error =
    FormatError 'e
  | UnknownField string
  | DuplicateField string
  | MissingField string
  | InvalidLength nat
  | SerdeShapeMismatch "nat list" "nat list"
  | SerdeCustom "'r rt_error"

datatype serde_field = FieldShape | FieldData

definition visit_str :: "string \<Rightarrow> ('e, 'r) serde_error + serde_field" where
  "visit_str value =
     (if value = ''shape'' then Inr FieldShape
      else if value = ''data'' then Inr FieldData
      else Inl (UnknownField value))"

definition tensor_from_serde_parts ::
    "('a list \<Rightarrow> 'r rt_error + 't) \<Rightarrow> nat list \<Rightarrow> nat list \<Rightarrow> 'a list \<Rightarrow> ('e, 'r) serde_error + 't" where
  "tensor_from_serde_parts from_vec expected_shape shape data =
     (if shape \<noteq> expected_shape then Inl (SerdeShapeMismatch expected_shape shape)
      else map_err SerdeCustom (from_vec data))"

text \<open>The loop of \<open>visit_map\<close>.\<close>

fun visit_entries ::
    "('v, 'a, 'e) codec \<Rightarrow> (string \<times> 'v) list \<Rightarrow> nat list option \<Rightarrow> 'a list option
      \<Rightarrow> ('e, 'r) serde_error + (nat list option \<times> 'a list option)" where
  "visit_entries F [] shape data = Inr (shape, data)"
| "visit_entries F ((key, value) # entries) shape data =
     rbind (visit_str key) (\<lambda>field.
     case field of
       FieldShape \<Rightarrow>
         if shape \<noteq> None then Inl (DuplicateField ''shape'')
         else rbind (map_err FormatError (dec_shape F value)) (\<lambda>s. visit_entries F entries (Some s) data)
     | FieldData \<Rightarrow>
         if data \<noteq> None then Inl (DuplicateField ''data'')
         else rbind (map_err FormatError (dec_data F value)) (\<lambda>d. visit_entries F entries shape (Some d)))"

definition visit_map ::
    "('v, 'a, 'e) codec \<Rightarrow> ('a list \<Rightarrow> 'r rt_error + 't) \<Rightarrow> nat list \<Rightarrow> (string \<times> 'v) list
      \<Rightarrow> ('e, 'r) serde_error + 't" where
  "visit_map F from_vec expected_shape entries =
     rbind (visit_entries F entries None None) (\<lambda>(shape, data).
     rbind (of_option (MissingField ''shape'') shape) (\<lambda>shape.
     rbind (of_option (MissingField ''data'') data) (\<lambda>data.
     tensor_from_serde_parts from_vec expected_shape shape data)))"

text \<open>\<open>next_element\<close> of a sequence; a further element is only skipped, so its value does not matter.\<close>

fun visit_seq ::
    "('v, 'a, 'e) codec \<Rightarrow> ('a list \<Rightarrow> 'r rt_error + 't) \<Rightarrow> nat list \<Rightarrow> 'v list
      \<Rightarrow> ('e, 'r) serde_error + 't" where
  "visit_seq F from_vec expected_shape [] = Inl (InvalidLength 0)"
| "visit_seq F from_vec expected_shape (v0 # vs) =
     rbind (map_err FormatError (dec_shape F v0)) (\<lambda>shape.
     case vs of
       [] \<Rightarrow> Inl (InvalidLength 1)
     | v1 # rest \<Rightarrow>
         rbind (map_err FormatError (dec_data F v1)) (\<lambda>data.
         if rest \<noteq> [] then Inl (InvalidLength 3)
         else tensor_from_serde_parts from_vec expected_shape shape data))"

datatype 'v presentation = AsMap "(string \<times> 'v) list" | AsSeq "'v list"

definition deserialize_tensor ::
    "('v, 'a, 'e) codec \<Rightarrow> ('a list \<Rightarrow> 'r rt_error + 't) \<Rightarrow> nat list \<Rightarrow> 'v presentation
      \<Rightarrow> ('e, 'r) serde_error + 't" where
  "deserialize_tensor F from_vec expected_shape p =
     (case p of
        AsMap entries \<Rightarrow> visit_map F from_vec expected_shape entries
      | AsSeq elements \<Rightarrow> visit_seq F from_vec expected_shape elements)"

definition serialize_tensor :: "('v, 'a, 'e) codec \<Rightarrow> nat list \<Rightarrow> 'a list \<Rightarrow> (string \<times> 'v) list" where
  "serialize_tensor F shape data = [(''shape'', enc_shape F shape), (''data'', enc_data F data)]"

text \<open>The loop accepts each field once and nothing else.\<close>

lemma visit_str_Inr:
  "visit_str k = Inr f \<longleftrightarrow> k = ''shape'' \<and> f = FieldShape \<or> k = ''data'' \<and> f = FieldData"
  by (auto simp: visit_str_def)

lemma visit_some_some: "visit_entries F es (Some s) (Some d) = Inr r \<longleftrightarrow> es = [] \<and> r = (Some s, Some d)"
  by (cases es) (auto simp: visit_str_Inr result_simps)

lemma visit_some_none:
  "visit_entries F es (Some s) None = Inr (s', Some d) \<longleftrightarrow>
     s' = Some s \<and> (\<exists>w. es = [(''data'', w)] \<and> dec_data F w = Inr d)"
  by (cases es) (auto simp: visit_str_Inr result_simps visit_some_some)

lemma visit_none_some:
  "visit_entries F es None (Some d) = Inr (Some s, d') \<longleftrightarrow>
     d' = Some d \<and> (\<exists>v. es = [(''shape'', v)] \<and> dec_shape F v = Inr s)"
  by (cases es) (auto simp: visit_str_Inr result_simps visit_some_some)

lemma visit_none_none:
  "visit_entries F es None None = Inr (Some s, Some d) \<longleftrightarrow>
     (\<exists>v w. (es = [(''shape'', v), (''data'', w)] \<or> es = [(''data'', w), (''shape'', v)]) \<and>
        dec_shape F v = Inr s \<and> dec_data F w = Inr d)"
  by (cases es) (auto simp: visit_str_Inr result_simps visit_some_none visit_none_some)

section \<open>The trait\<close>

text \<open>
  \<open>FixedTensor\<close>: the constructors and accessors of a rank.  The laws are what every implementation
  has to keep: the storage has one element per position of the shape.
\<close>

locale fixed_tensor =
  fixes SHAPE :: "nat list"
    and from_vec :: "'a list \<Rightarrow> 'r rt_error + 'a fixed_rank"
    and filled :: "'a \<Rightarrow> 'a fixed_rank"
  assumes from_vec_law: "from_vec data =
      (if length data = prod_list SHAPE then Inr \<lparr>storage = \<lparr>td_data = data\<rparr>\<rparr>
       else Inl (ShapeErr SHAPE [length data]))"
    and filled_law: "as_slice (filled v) = replicate (prod_list SHAPE) v"
begin

lemma from_vec_ok: "from_vec data = Inr t \<longleftrightarrow> has_shape SHAPE t \<and> as_slice t = data"
  by (cases t; cases "storage t") (auto simp: from_vec_law has_shape_def as_slice_def)

lemma from_vec_slice: "has_shape SHAPE t \<Longrightarrow> from_vec (as_slice t) = Inr t"
  by (simp add: from_vec_ok)

lemma from_vec_error: "from_vec data = Inl e \<longleftrightarrow> length data \<noteq> prod_list SHAPE \<and> e = ShapeErr SHAPE [length data]"
  by (auto simp: from_vec_law)

lemma filled_shape: "has_shape SHAPE (filled v)"
  by (simp add: has_shape_def filled_law)

lemma filled_get:
  "tensor_get SHAPE (filled v) js = Inr (if in_bounds SHAPE js then Some v else None)"
  using row_major_less [of SHAPE js 0 1] by (simp add: get_in_bounds(1) [OF filled_shape] filled_law)

lemma zeros_ones: "tensor_zeros filled T = filled (element_zero T)" "tensor_ones filled T = filled (element_one T)"
  by (simp_all add: tensor_zeros_def tensor_ones_def)

lemma serde_parts_ok:
  "tensor_from_serde_parts from_vec SHAPE shape data = Inr t \<longleftrightarrow>
     shape = SHAPE \<and> has_shape SHAPE t \<and> as_slice t = data"
  by (auto simp: tensor_from_serde_parts_def map_err_Inr_iff from_vec_ok)

text \<open>Both presentations of a serialized tensor, with the fields of the map in any order.\<close>

lemma roundtrip:
  assumes "codec_faithful F" "has_shape SHAPE t"
    and "p \<in> {AsMap (serialize_tensor F SHAPE (as_slice t)), AsMap (rev (serialize_tensor F SHAPE (as_slice t))),
      AsSeq (map snd (serialize_tensor F SHAPE (as_slice t)))}"
  shows "deserialize_tensor F from_vec SHAPE p = Inr t"
  using assms
  by (auto simp: codec_faithful_def deserialize_tensor_def serialize_tensor_def visit_map_def visit_str_def
      serde_parts_ok)

text \<open>What a presentation has to be to be accepted: exactly the two fields, once each, that fit the shape.\<close>

lemma visit_map_ok:
  "visit_map F from_vec SHAPE entries = Inr t \<longleftrightarrow>
     (\<exists>v w. (entries = [(''shape'', v), (''data'', w)] \<or> entries = [(''data'', w), (''shape'', v)]) \<and>
        dec_shape F v = Inr SHAPE \<and> dec_data F w = Inr (as_slice t) \<and> has_shape SHAPE t)"
  by (auto simp: visit_map_def result_simps visit_none_none serde_parts_ok)

lemma visit_seq_ok:
  "visit_seq F from_vec SHAPE elements = Inr t \<longleftrightarrow>
     (\<exists>v w. elements = [v, w] \<and> dec_shape F v = Inr SHAPE \<and> dec_data F w = Inr (as_slice t) \<and> has_shape SHAPE t)"
  by (cases elements; cases "tl elements") (auto simp: result_simps serde_parts_ok split: list.splits if_splits)

end

section \<open>The seven ranks\<close>

lemmas rank_defs =
  data_from_vec_def data_filled_def as_slice_def Let_def
  tensor0_from_vec_def tensor1_from_vec_def tensor2_from_vec_def tensor3_from_vec_def tensor4_from_vec_def
  tensor5_from_vec_def tensor6_from_vec_def tensor0_filled_def tensor1_filled_def tensor2_filled_def
  tensor3_filled_def tensor4_filled_def tensor5_filled_def tensor6_filled_def

interpretation rank0: fixed_tensor "[]" tensor0_from_vec tensor0_filled
  by unfold_locales (simp_all add: rank_defs)

interpretation rank1: fixed_tensor "[D0]" "tensor1_from_vec D0" "tensor1_filled D0" for D0
  by unfold_locales (simp_all add: rank_defs)

interpretation rank2: fixed_tensor "[D0, D1]" "tensor2_from_vec D0 D1" "tensor2_filled D0 D1" for D0 D1
  by unfold_locales (simp_all add: rank_defs)

interpretation rank3: fixed_tensor "[D0, D1, D2]" "tensor3_from_vec D0 D1 D2" "tensor3_filled D0 D1 D2" for D0 D1 D2
  by unfold_locales (simp_all add: rank_defs)

interpretation rank4: fixed_tensor "[D0, D1, D2, D3]" "tensor4_from_vec D0 D1 D2 D3" "tensor4_filled D0 D1 D2 D3"
  for D0 D1 D2 D3
  by unfold_locales (simp_all add: rank_defs)

interpretation rank5: fixed_tensor "[D0, D1, D2, D3, D4]" "tensor5_from_vec D0 D1 D2 D3 D4"
    "tensor5_filled D0 D1 D2 D3 D4" for D0 D1 D2 D3 D4
  by unfold_locales (simp_all add: rank_defs)

interpretation rank6: fixed_tensor "[D0, D1, D2, D3, D4, D5]" "tensor6_from_vec D0 D1 D2 D3 D4 D5"
    "tensor6_filled D0 D1 D2 D3 D4 D5" for D0 D1 D2 D3 D4 D5
  by unfold_locales (simp_all add: rank_defs)

end
