(* ===== verification/Tensor_Properties.thy ===== *)
theory Tensor_Properties
  imports Tensor_Serde
begin

text \<open>The properties of the tensor containers, each with a concrete tensor.\<close>

section \<open>Accessors\<close>

text \<open>C40. The accessors address the storage by a bijection: for every rank the index formula of the code
  is the row-major index, which maps the positions inside the shape one to one onto the storage, and on
  a tensor of the shape \<open>get\<close> never panics and returns \<open>None\<close> exactly outside the shape.\<close>

theorem accessors_row_major:
  "bij_betw (flat_index ds) {js. in_bounds ds js} {..<prod_list ds} \<and>
   (has_shape ds t \<longrightarrow>
      tensor_get ds t js = Inr (if in_bounds ds js then Some (as_slice t ! flat_index ds js) else None)) \<and>
   (has_shape [D0] t \<longrightarrow> tensor1_get t d0 = tensor_get [D0] t [d0]) \<and>
   tensor2_get D0 D1 t d0 d1 = tensor_get [D0, D1] t [d0, d1] \<and>
   tensor3_get D0 D1 D2 t d0 d1 d2 = tensor_get [D0, D1, D2] t [d0, d1, d2] \<and>
   tensor4_get D0 D1 D2 D3 t d0 d1 d2 d3 = tensor_get [D0, D1, D2, D3] t [d0, d1, d2, d3] \<and>
   tensor5_get D0 D1 D2 D3 D4 t d0 d1 d2 d3 d4 = tensor_get [D0, D1, D2, D3, D4] t [d0, d1, d2, d3, d4] \<and>
   tensor6_get D0 D1 D2 D3 D4 D5 t d0 d1 d2 d3 d4 d5 = tensor_get [D0, D1, D2, D3, D4, D5] t [d0, d1, d2, d3, d4, d5]"
  by (intro conjI impI flat_index_bij get_in_bounds(1) ranked_get)

lemma accessors_row_major_witness:
  "tensor_get [2, 3] (tensor2_from_array [[1, 2, 3], [4, 5, 6 :: int]]) [1, 0] = (Inr (Some 4) :: 'r rt_error + int option)"
proof -
  let ?t = "tensor2_from_array [[1, 2, 3], [4, 5, 6 :: int]]"
  have "has_shape [2, 3] ?t" by (simp add: has_shape_def as_slice_def tensor2_from_array_def)
  moreover have "as_slice ?t ! flat_index [2, 3] [1, 0] = 4"
    by (simp add: as_slice_def tensor2_from_array_def)
  ultimately show ?thesis
    using conjunct1 [OF conjunct2 [OF accessors_row_major [of "[2, 3]" ?t "[1, 0]"]]] by simp
qed

text \<open>C41. A nested array is stored so that it can be read back: for every rank, \<open>get\<close> on the tensor made by
  \<open>from_array\<close> returns the element of the array at the same indices.\<close>

theorem array_roundtrip:
  "(rect2 D0 D1 a2 \<longrightarrow> tensor2_get D0 D1 (tensor2_from_array a2) d0 d1 =
      Inr (if d0 < D0 \<and> d1 < D1 then Some (a2 ! d0 ! d1) else None)) \<and>
   (rect3 D0 D1 D2 a3 \<longrightarrow> tensor3_get D0 D1 D2 (tensor3_from_array a3) d0 d1 d2 =
      Inr (if d0 < D0 \<and> d1 < D1 \<and> d2 < D2 then Some (a3 ! d0 ! d1 ! d2) else None)) \<and>
   (rect4 D0 D1 D2 D3 a4 \<longrightarrow> tensor4_get D0 D1 D2 D3 (tensor4_from_array a4) d0 d1 d2 d3 =
      Inr (if d0 < D0 \<and> d1 < D1 \<and> d2 < D2 \<and> d3 < D3 then Some (a4 ! d0 ! d1 ! d2 ! d3) else None)) \<and>
   (rect5 D0 D1 D2 D3 D4 a5 \<longrightarrow> tensor5_get D0 D1 D2 D3 D4 (tensor5_from_array a5) d0 d1 d2 d3 d4 =
      Inr (if d0 < D0 \<and> d1 < D1 \<and> d2 < D2 \<and> d3 < D3 \<and> d4 < D4 then Some (a5 ! d0 ! d1 ! d2 ! d3 ! d4) else None)) \<and>
   (rect6 D0 D1 D2 D3 D4 D5 a6 \<longrightarrow> tensor6_get D0 D1 D2 D3 D4 D5 (tensor6_from_array a6) d0 d1 d2 d3 d4 d5 =
      Inr (if d0 < D0 \<and> d1 < D1 \<and> d2 < D2 \<and> d3 < D3 \<and> d4 < D4 \<and> d5 < D5 then Some (a6 ! d0 ! d1 ! d2 ! d3 ! d4 ! d5) else None))"
  by (auto simp: ranked_get get_in_bounds(1) has_shape_def as_slice_def rect2_length rect3_length rect4_length
      rect5_length rect6_length array2_nth array3_nth array4_nth array5_nth array6_nth
      tensor2_from_array_def tensor3_from_array_def tensor4_from_array_def tensor5_from_array_def tensor6_from_array_def)

lemma array_roundtrip_witness:
  "tensor3_get 2 1 2 (tensor3_from_array [[[1, 2]], [[3, 4 :: int]]]) 1 0 1 = (Inr (Some 4) :: 'r rt_error + int option)"
proof -
  have "rect3 2 1 2 [[[1, 2]], [[3, 4 :: int]]]" by (simp add: rect3_def rect2_def)
  then show ?thesis
    using conjunct1 [OF conjunct2 [OF array_roundtrip], of 2 1 2 "[[[1, 2]], [[3, 4 :: int]]]" 1 0 1] by simp
qed

text \<open>C42. A mutable reference changes one element: writing through what \<open>get_mut\<close> returns keeps the shape,
  the element reads back as written, and every other element is what it was.\<close>

theorem get_mut_lens:
  assumes "has_shape [D0, D1, D2, D3, D4, D5] t"
    and "tensor6_get_mut D0 D1 D2 D3 D4 D5 t d0 d1 d2 d3 d4 d5 = (Inr (Some write) :: 'r rt_error + _)"
  shows "has_shape [D0, D1, D2, D3, D4, D5] (write v) \<and>
    tensor6_get D0 D1 D2 D3 D4 D5 (write v) e0 e1 e2 e3 e4 e5 =
      (if [e0, e1, e2, e3, e4, e5] = [d0, d1, d2, d3, d4, d5] then Inr (Some v)
       else (tensor6_get D0 D1 D2 D3 D4 D5 t e0 e1 e2 e3 e4 e5 :: 'r rt_error + _))"
  using get_mut_set [OF assms(1) assms(2) [unfolded ranked_get_mut(6)], of v "[e0, e1, e2, e3, e4, e5]"]
  unfolding ranked_get(6) .

lemma get_mut_lens_witness:
  "has_shape [1, 1, 1, 1, 1, 2] \<lparr>storage = \<lparr>td_data = [7, 9 :: int]\<rparr>\<rparr> \<and>
   tensor6_get 1 1 1 1 1 2 \<lparr>storage = \<lparr>td_data = [7, 9 :: int]\<rparr>\<rparr> 0 0 0 0 0 0 = (Inr (Some 7) :: unit rt_error + _)"
proof -
  let ?t = "\<lparr>storage = \<lparr>td_data = [7, 8 :: int]\<rparr>\<rparr>"
  have s: "has_shape [1, 1, 1, 1, 1, 2] ?t" by (simp add: has_shape_def as_slice_def)
  have m: "tensor6_get_mut 1 1 1 1 1 2 ?t 0 0 0 0 0 1 = (Inr (Some (write_at ?t 1)) :: unit rt_error + _)"
    by (simp add: tensor6_get_mut_def element_mut_def)
  have g: "tensor6_get 1 1 1 1 1 2 ?t 0 0 0 0 0 0 = (Inr (Some 7) :: unit rt_error + _)"
    by (simp add: tensor6_get_def element_ref_def)
  have w: "write_at ?t 1 9 = \<lparr>storage = \<lparr>td_data = [7, 9]\<rparr>\<rparr>" by (simp add: write_at_def)
  show ?thesis using get_mut_lens [OF s m, of 9 0 0 0 0 0 0] unfolding w g by simp
qed

section \<open>Serialization\<close>

definition presentations ::
    "('v, 'a, 'e) codec \<Rightarrow> nat list \<Rightarrow> 'a fixed_rank \<Rightarrow> 'v presentation set" where
  "presentations F ds t =
     (let fields = serialize_tensor F ds (as_slice t) in
      {AsMap fields, AsMap (rev fields), AsSeq (map snd fields)})"

text \<open>C26. Serialization round trip: with a format that decodes what it encoded, every presentation of a
  serialized tensor, as a map in either order or as a sequence, deserializes to the same tensor, for
  every rank.\<close>

theorem serde_roundtrip:
  assumes "codec_faithful F" and "p \<in> presentations F ds t" and "has_shape ds t"
  shows "(ds = [] \<longrightarrow> deserialize_tensor F tensor0_from_vec ds p = Inr t) \<and>
   (ds = [D0] \<longrightarrow> deserialize_tensor F (tensor1_from_vec D0) ds p = Inr t) \<and>
   (ds = [D0, D1] \<longrightarrow> deserialize_tensor F (tensor2_from_vec D0 D1) ds p = Inr t) \<and>
   (ds = [D0, D1, D2] \<longrightarrow> deserialize_tensor F (tensor3_from_vec D0 D1 D2) ds p = Inr t) \<and>
   (ds = [D0, D1, D2, D3] \<longrightarrow> deserialize_tensor F (tensor4_from_vec D0 D1 D2 D3) ds p = Inr t) \<and>
   (ds = [D0, D1, D2, D3, D4] \<longrightarrow> deserialize_tensor F (tensor5_from_vec D0 D1 D2 D3 D4) ds p = Inr t) \<and>
   (ds = [D0, D1, D2, D3, D4, D5] \<longrightarrow> deserialize_tensor F (tensor6_from_vec D0 D1 D2 D3 D4 D5) ds p = Inr t)"
  using assms by (auto simp: presentations_def Let_def intro!: rank0.roundtrip rank1.roundtrip rank2.roundtrip rank3.roundtrip rank4.roundtrip rank5.roundtrip rank6.roundtrip)

definition pair_codec :: "(nat list + 'a list, 'a, unit) codec" where
  "pair_codec = \<lparr>enc_shape = Inl, enc_data = Inr,
     dec_shape = (\<lambda>v. case v of Inl s \<Rightarrow> Inr s | Inr d \<Rightarrow> Inl ()),
     dec_data = (\<lambda>v. case v of Inl s \<Rightarrow> Inl () | Inr d \<Rightarrow> Inr d)\<rparr>"

lemma serde_roundtrip_witness:
  "deserialize_tensor pair_codec (tensor2_from_vec 1 2) [1, 2] (AsMap [(''data'', Inr [5, 6]), (''shape'', Inl [1, 2])])
     = (Inr \<lparr>storage = \<lparr>td_data = [5, 6 :: int]\<rparr>\<rparr> :: (unit, 'r) serde_error + _)"
proof -
  let ?t = "\<lparr>storage = \<lparr>td_data = [5, 6 :: int]\<rparr>\<rparr>"
  have f: "codec_faithful pair_codec" by (simp add: codec_faithful_def pair_codec_def)
  have p: "AsMap [(''data'', Inr [5, 6]), (''shape'', Inl [1, 2])] \<in> presentations pair_codec [1, 2] ?t"
    by (simp add: presentations_def serialize_tensor_def pair_codec_def as_slice_def)
  have s: "has_shape [1, 2] ?t" by (simp add: has_shape_def as_slice_def)
  show ?thesis using serde_roundtrip [OF f p s] by blast
qed


end
