(* ===== verification/Artifact.thy ===== *)
theory Artifact
  imports Tensor_Facts
begin

text \<open>
  \<^verbatim>\<open>crates/knok/src/backend.rs\<close>, \<^verbatim>\<open>crates/knok/src/artifact.rs\<close> and the signature check of
  \<^verbatim>\<open>crates/knok/src/graph.rs\<close>: compiler backends and runtime drivers with all features of the crate
  enabled, the metadata embedded in a compiled graph, and the typed handle that is made from it.
\<close>

section \<open>Backends and drivers\<close>

datatype backend = LlvmCpu | MetalSpirv | VulkanSpirv | CudaBackend

datatype driver = LocalTask | LocalSync | MetalDriver | VulkanDriver | CudaDriver

definition driver_name :: "driver \<Rightarrow> string" where
  "driver_name d =
     (case d of
        LocalTask \<Rightarrow> ''local-task''
      | LocalSync \<Rightarrow> ''local-sync''
      | MetalDriver \<Rightarrow> ''metal''
      | VulkanDriver \<Rightarrow> ''vulkan''
      | CudaDriver \<Rightarrow> ''cuda'')"

definition driver_from_name :: "string \<Rightarrow> driver option" where
  "driver_from_name name =
     (if name = ''local-task'' then Some LocalTask
      else if name = ''local-sync'' then Some LocalSync
      else if name = ''metal'' then Some MetalDriver
      else if name = ''vulkan'' then Some VulkanDriver
      else if name = ''cuda'' then Some CudaDriver
      else None)"

definition backend_name :: "backend \<Rightarrow> string" where
  "backend_name b =
     (case b of
        LlvmCpu \<Rightarrow> ''llvm-cpu''
      | MetalSpirv \<Rightarrow> ''metal-spirv''
      | VulkanSpirv \<Rightarrow> ''vulkan-spirv''
      | CudaBackend \<Rightarrow> ''cuda'')"

definition default_driver :: "backend \<Rightarrow> string" where
  "default_driver b =
     (case b of
        LlvmCpu \<Rightarrow> driver_name LocalTask
      | MetalSpirv \<Rightarrow> driver_name MetalDriver
      | VulkanSpirv \<Rightarrow> driver_name VulkanDriver
      | CudaBackend \<Rightarrow> driver_name CudaDriver)"

definition backend_from_name :: "string \<Rightarrow> backend option" where
  "backend_from_name name =
     (if name = ''llvm-cpu'' then Some LlvmCpu
      else if name = ''metal-spirv'' then Some MetalSpirv
      else if name = ''vulkan-spirv'' then Some VulkanSpirv
      else if name = ''cuda'' then Some CudaBackend
      else None)"

definition supports_driver :: "backend \<Rightarrow> driver \<Rightarrow> bool" where
  "supports_driver b d =
     (case (b, d) of
        (LlvmCpu, LocalTask) \<Rightarrow> True
      | (LlvmCpu, LocalSync) \<Rightarrow> True
      | _ \<Rightarrow> default_driver b = driver_name d)"

definition SUPPORTED_BACKENDS :: "backend list" where
  "SUPPORTED_BACKENDS = [LlvmCpu, MetalSpirv, VulkanSpirv, CudaBackend]"

lemma driver_names [simp]: "driver_from_name (driver_name d) = Some d"
  by (cases d) (simp_all add: driver_from_name_def driver_name_def)

lemma backend_names [simp]: "backend_from_name (backend_name b) = Some b"
  by (cases b) (simp_all add: backend_from_name_def backend_name_def)

lemma driver_name_inject [simp]: "driver_name d = driver_name d' \<longleftrightarrow> d = d'"
  using driver_names by (metis option.inject)

lemma default_driver_known: "\<exists>d. driver_from_name (default_driver b) = Some d \<and> supports_driver b d"
  by (cases b) (simp_all add: default_driver_def supports_driver_def)

section \<open>Artifacts\<close>

datatype dtype = DBool | DF32 | DF64 | DF16 | DBF16 | DI32 | DI64

text \<open>\<open>elem as u8\<close>, the discriminant.\<close>

definition dtype_code :: "dtype \<Rightarrow> 8 word" where
  "dtype_code d =
     (case d of DBool \<Rightarrow> 0 | DF32 \<Rightarrow> 1 | DF64 \<Rightarrow> 2 | DF16 \<Rightarrow> 3 | DBF16 \<Rightarrow> 4 | DI32 \<Rightarrow> 5 | DI64 \<Rightarrow> 6)"

lemma dtype_code_inject [simp]: "dtype_code d = dtype_code d' \<longleftrightarrow> d = d'"
  by (cases d; cases d') (simp_all add: dtype_code_def)

record tensor_desc =
  desc_elem :: dtype
  desc_shape :: "nat list"

text \<open>A static byte slice: its address and its contents.\<close>

record static_bytes =
  bytes_ptr :: nat
  bytes_contents :: "8 word list"

record artifact_variant =
  vmfb :: static_bytes
  variant_backend :: backend
  compile_flags :: "string list"

record graph_artifact =
  function_name :: string
  input_descs :: "tensor_desc list"
  output_descs :: "tensor_desc list"
  variants :: "artifact_variant list"

definition variant_for_driver :: "graph_artifact \<Rightarrow> driver \<Rightarrow> artifact_variant option" where
  "variant_for_driver a d = List.find (\<lambda>v. supports_driver (variant_backend v) d) (variants a)"

definition first_variant :: "graph_artifact \<Rightarrow> artifact_variant option" where
  "first_variant a = (case variants a of [] \<Rightarrow> None | v # vs \<Rightarrow> Some v)"

section \<open>The typed handle\<close>

text \<open>The two \<open>while\<close> loops of \<open>signatures_match\<close>.\<close>

function dims_match :: "nat list \<Rightarrow> nat list \<Rightarrow> nat \<Rightarrow> bool" where
  "dims_match expected actual j =
     (if j < length expected then
        (if expected ! j \<noteq> actual ! j then False else dims_match expected actual (j + 1))
      else True)"
  by pat_completeness auto
termination
  by (relation "measure (\<lambda>(expected, actual, j). length expected - j)") auto

function descs_match :: "tensor_desc list \<Rightarrow> tensor_desc list \<Rightarrow> nat \<Rightarrow> bool" where
  "descs_match expected actual i =
     (if i < length expected then
        (if dtype_code (desc_elem (expected ! i)) \<noteq> dtype_code (desc_elem (actual ! i)) \<or>
            length (desc_shape (expected ! i)) \<noteq> length (desc_shape (actual ! i))
         then False
         else if \<not> dims_match (desc_shape (expected ! i)) (desc_shape (actual ! i)) 0 then False
         else descs_match expected actual (i + 1))
      else True)"
  by pat_completeness auto
termination
  by (relation "measure (\<lambda>(expected, actual, i). length expected - i)") auto

declare dims_match.simps [simp del] descs_match.simps [simp del]

definition signatures_match :: "tensor_desc list \<Rightarrow> tensor_desc list \<Rightarrow> bool" where
  "signatures_match expected actual =
     (if length expected \<noteq> length actual then False else descs_match expected actual 0)"

lemma dims_match_iff:
  "length expected = length actual \<Longrightarrow> j \<le> length expected \<Longrightarrow>
     dims_match expected actual j \<longleftrightarrow> drop j expected = drop j actual"
proof (induction expected actual j rule: dims_match.induct)
  case (1 expected actual j)
  then show ?case
    by (cases "j < length expected")
      (auto simp: dims_match.simps [of expected actual j] dims_match.simps [of expected actual "length actual"] Cons_nth_drop_Suc [symmetric])
qed

lemma descs_match_iff:
  "length expected = length actual \<Longrightarrow> i \<le> length expected \<Longrightarrow>
     descs_match expected actual i \<longleftrightarrow> drop i expected = drop i actual"
proof (induction expected actual i rule: descs_match.induct)
  case (1 expected actual i)
  show ?case
  proof (cases "i < length expected")
    case True
    have "expected ! i = actual ! i \<longleftrightarrow>
        desc_elem (expected ! i) = desc_elem (actual ! i) \<and> desc_shape (expected ! i) = desc_shape (actual ! i)"
      by (cases "expected ! i"; cases "actual ! i") simp
    moreover have "dims_match (desc_shape (expected ! i)) (desc_shape (actual ! i)) 0 \<longleftrightarrow>
        desc_shape (expected ! i) = desc_shape (actual ! i)"
      if "length (desc_shape (expected ! i)) = length (desc_shape (actual ! i))"
      using dims_match_iff [OF that, of 0] by simp
    ultimately show ?thesis
      using 1 True
      by (auto simp: descs_match.simps [of expected actual i] Cons_nth_drop_Suc [symmetric])
  qed (use 1 in \<open>auto simp: descs_match.simps [of expected actual "length actual"]\<close>)
qed

lemma signatures_match_iff: "signatures_match expected actual \<longleftrightarrow> expected = actual"
  using descs_match_iff [of expected actual 0] by (auto simp: signatures_match_def)

text \<open>\<open>Graph::new\<close>: the handle carries the artifact only; \<open>I::DESCS\<close> and \<open>O::DESCS\<close> are arguments.\<close>

record graph_handle =
  handle_artifact :: graph_artifact

definition graph_new ::
    "tensor_desc list \<Rightarrow> tensor_desc list \<Rightarrow> graph_artifact \<Rightarrow> signature_error + graph_handle" where
  "graph_new input_sig output_sig a =
     (if \<not> signatures_match input_sig (input_descs a) then Inl InputSignature
      else if \<not> signatures_match output_sig (output_descs a) then Inl OutputSignature
      else Inr \<lparr>handle_artifact = a\<rparr>)"

end
