(* ===== verification/Runtime.thy ===== *)
theory Runtime
  imports Artifact
begin

text \<open>
  \<^verbatim>\<open>crates/knok/src/runtime.rs\<close> and the boundary traits of \<^verbatim>\<open>crates/knok/src/graph.rs\<close>: runtime
  configurations, the engine with its cache of loaded modules, and prepared models.

  The runtime library \<open>eerie\<close> is a parameter: an \<open>eerie\<close> record supplies the calls that the sources
  make.  Its handles are opaque types; an element of a tensor is a value of the type \<open>'x\<close>, whatever
  its dtype.
\<close>

section \<open>The runtime library\<close>

record ('sp, 'rt, 'pr, 'fn, 'v, 'buf, 'x, 'r) eerie =
  spec_custom :: "string \<Rightarrow> 'sp"
  spec_ordinal :: "'sp \<Rightarrow> nat \<Rightarrow> 'sp"
  spec_path :: "'sp \<Rightarrow> string \<Rightarrow> 'sp"
  runtime_new :: "'sp \<Rightarrow> 'r + 'rt"
  load_vmfb :: "'rt \<Rightarrow> 8 word list \<Rightarrow> 'r + 'pr"
  program_function :: "'pr \<Rightarrow> string \<Rightarrow> 'r + 'fn"
  buffer_view :: "'rt \<Rightarrow> dtype \<Rightarrow> nat list \<Rightarrow> 'x list \<Rightarrow> 'r + 'v"
  invoke :: "'fn \<Rightarrow> 'v list \<Rightarrow> 'r + 'v list"
  buffer_from_value :: "dtype \<Rightarrow> 'v \<Rightarrow> 'r + 'buf"
  buffer_shape :: "'buf \<Rightarrow> nat list"
  buffer_read :: "'buf \<Rightarrow> 'r + 'x list"
  buffer_read_into :: "'buf \<Rightarrow> 'x list \<Rightarrow> 'x list \<times> ('r + unit)"

section \<open>Configuration\<close>

record 'sp runtime_config =
  config_driver :: driver
  config_device :: 'sp

definition config_for_driver ::
    "('sp, 'rt, 'pr, 'fn, 'v, 'buf, 'x, 'r) eerie \<Rightarrow> driver \<Rightarrow> 'sp runtime_config" where
  "config_for_driver L d = \<lparr>config_driver = d, config_device = spec_custom L (driver_name d)\<rparr>"

definition config_auto :: "('sp, 'rt, 'pr, 'fn, 'v, 'buf, 'x, 'r) eerie \<Rightarrow> 'sp runtime_config" where
  "config_auto L = config_for_driver L LocalTask"

text \<open>The \<open>expect\<close> panics on a driver name that does not parse.\<close>

definition config_for_backend ::
    "('sp, 'rt, 'pr, 'fn, 'v, 'buf, 'x, 'r) eerie \<Rightarrow> backend \<Rightarrow> 'r rt_error + 'sp runtime_config" where
  "config_for_backend L b =
     rbind (of_option RtPanic (driver_from_name (default_driver b))) (\<lambda>d. Inr (config_for_driver L d))"

definition device_ordinal ::
    "('sp, 'rt, 'pr, 'fn, 'v, 'buf, 'x, 'r) eerie \<Rightarrow> 'sp runtime_config \<Rightarrow> nat \<Rightarrow> 'sp runtime_config" where
  "device_ordinal L c ordinal = c\<lparr>config_device := spec_ordinal L (config_device c) ordinal\<rparr>"

definition device_path ::
    "('sp, 'rt, 'pr, 'fn, 'v, 'buf, 'x, 'r) eerie \<Rightarrow> 'sp runtime_config \<Rightarrow> string \<Rightarrow> 'sp runtime_config" where
  "device_path L c path = c\<lparr>config_device := spec_path L (config_device c) path\<rparr>"

section \<open>Engines\<close>

type_synonym module_key = "nat \<times> nat"

record ('rt, 'pr) engine =
  engine_driver :: driver
  engine_runtime :: 'rt
  engine_modules :: "module_key \<Rightarrow> 'pr option"

definition engine_new ::
    "('sp, 'rt, 'pr, 'fn, 'v, 'buf, 'x, 'r) eerie \<Rightarrow> 'sp runtime_config \<Rightarrow> 'r rt_error + ('rt, 'pr) engine" where
  "engine_new L config =
     rbind (map_err Runtime (runtime_new L (config_device config))) (\<lambda>rt.
     Inr \<lparr>engine_driver = config_driver config, engine_runtime = rt, engine_modules = Map.empty\<rparr>)"

definition engine_for_backend ::
    "('sp, 'rt, 'pr, 'fn, 'v, 'buf, 'x, 'r) eerie \<Rightarrow> backend \<Rightarrow> 'r rt_error + ('rt, 'pr) engine" where
  "engine_for_backend L b = rbind (config_for_backend L b) (engine_new L)"

definition engine_for_variant ::
    "('sp, 'rt, 'pr, 'fn, 'v, 'buf, 'x, 'r) eerie \<Rightarrow> artifact_variant \<Rightarrow> 'r rt_error + ('rt, 'pr) engine" where
  "engine_for_variant L v = engine_for_backend L (variant_backend v)"

definition engine_for_artifact ::
    "('sp, 'rt, 'pr, 'fn, 'v, 'buf, 'x, 'r) eerie \<Rightarrow> graph_artifact \<Rightarrow> 'r rt_error + ('rt, 'pr) engine" where
  "engine_for_artifact L a =
     rbind (of_option (MissingDefaultArtifactVariant (function_name a)) (first_variant a))
       (engine_for_variant L)"

record ('rt, 'fn) model =
  model_runtime :: 'rt
  model_function :: 'fn
  model_artifact :: graph_artifact

text \<open>
  \<open>Engine::load\<close>.  The cache entry is written before the function is resolved, so it stays when the
  function is missing; the engine is returned with the result.
\<close>

definition module_key :: "artifact_variant \<Rightarrow> module_key" where
  "module_key v = (bytes_ptr (vmfb v), length (bytes_contents (vmfb v)))"

definition cached_program ::
    "('sp, 'rt, 'pr, 'fn, 'v, 'buf, 'x, 'r) eerie \<Rightarrow> ('rt, 'pr) engine \<Rightarrow> artifact_variant
      \<Rightarrow> 'r rt_error + 'pr \<times> ('rt, 'pr) engine" where
  "cached_program L eng v =
     (case engine_modules eng (module_key v) of
        Some program \<Rightarrow> Inr (program, eng)
      | None \<Rightarrow>
          rbind (map_err Runtime (load_vmfb L (engine_runtime eng) (bytes_contents (vmfb v)))) (\<lambda>program.
          Inr (program, eng\<lparr>engine_modules := (engine_modules eng)(module_key v \<mapsto> program)\<rparr>)))"

definition engine_load ::
    "('sp, 'rt, 'pr, 'fn, 'v, 'buf, 'x, 'r) eerie \<Rightarrow> ('rt, 'pr) engine \<Rightarrow> graph_handle
      \<Rightarrow> ('r rt_error + ('rt, 'fn) model) \<times> ('rt, 'pr) engine" where
  "engine_load L eng g =
     (let a = handle_artifact g in
      case variant_for_driver a (engine_driver eng) of
        None \<Rightarrow> (Inl (MissingArtifactVariant (function_name a) (driver_name (engine_driver eng))), eng)
      | Some v \<Rightarrow>
          (case cached_program L eng v of
             Inl e \<Rightarrow> (Inl e, eng)
           | Inr (program, eng') \<Rightarrow>
               (rbind (map_err Runtime (program_function L program (function_name a))) (\<lambda>f.
                Inr \<lparr>model_runtime = engine_runtime eng', model_function = f, model_artifact = a\<rparr>), eng')))"

section \<open>Inputs and outputs\<close>

text \<open>A graph tensor is given by its descriptor and its storage; a tuple is a list of them.\<close>

definition input_value ::
    "('sp, 'rt, 'pr, 'fn, 'v, 'buf, 'x, 'r) eerie \<Rightarrow> 'rt \<Rightarrow> tensor_desc \<times> 'x fixed_rank \<Rightarrow> 'r rt_error + 'v" where
  "input_value L rt inp =
     map_err Runtime (buffer_view L rt (desc_elem (fst inp)) (desc_shape (fst inp)) (as_slice (snd inp)))"

text \<open>The implementations of \<open>GraphOutput\<close>: the unit, one tensor, a tuple.\<close>

datatype output_kind = UnitOutput | OneOutput tensor_desc | TupleOutput "tensor_desc list"

definition output_sig :: "output_kind \<Rightarrow> tensor_desc list" where
  "output_sig k = (case k of UnitOutput \<Rightarrow> [] | OneOutput d \<Rightarrow> [d] | TupleOutput ds \<Rightarrow> ds)"

definition check_count :: "'v list \<Rightarrow> nat \<Rightarrow> 'r rt_error + unit" where
  "check_count values' expected =
     (let actual = length values' in
      if actual \<noteq> expected then Inl (OutputCountMismatch expected actual) else Inr ())"

definition check_shape ::
    "('sp, 'rt, 'pr, 'fn, 'v, 'buf, 'x, 'r) eerie \<Rightarrow> 'v list \<Rightarrow> nat \<Rightarrow> tensor_desc \<Rightarrow> 'r rt_error + unit" where
  "check_shape L values' index d =
     rbind (vec_at values' index) (\<lambda>v.
     rbind (map_err Runtime (buffer_from_value L (desc_elem d) v)) (\<lambda>output.
     let actual = buffer_shape L output in
     if actual \<noteq> desc_shape d then Inl (OutputShapeMismatch index (desc_shape d) actual) else Inr ()))"

fun check_shapes ::
    "('sp, 'rt, 'pr, 'fn, 'v, 'buf, 'x, 'r) eerie \<Rightarrow> 'v list \<Rightarrow> nat \<Rightarrow> tensor_desc list \<Rightarrow> 'r rt_error + unit" where
  "check_shapes L values' index [] = Inr ()"
| "check_shapes L values' index (d # ds) =
     rbind (check_shape L values' index d) (\<lambda>_. check_shapes L values' (index + 1) ds)"

definition validate_raw_outputs ::
    "('sp, 'rt, 'pr, 'fn, 'v, 'buf, 'x, 'r) eerie \<Rightarrow> output_kind \<Rightarrow> 'v list \<Rightarrow> 'r rt_error + unit" where
  "validate_raw_outputs L k values' =
     (case k of
        UnitOutput \<Rightarrow> check_count values' 0
      | OneOutput d \<Rightarrow> rbind (check_count values' 1) (\<lambda>_. check_shape L values' 0 d)
      | TupleOutput ds \<Rightarrow>
          rbind (check_count values' (length ds)) (\<lambda>_. check_shapes L values' 0 ds))"

definition read_value ::
    "('sp, 'rt, 'pr, 'fn, 'v, 'buf, 'x, 'r) eerie \<Rightarrow> tensor_desc \<Rightarrow> 'v \<Rightarrow> 'r rt_error + 'x list" where
  "read_value L d v =
     rbind (map_err Runtime (buffer_from_value L (desc_elem d) v)) (\<lambda>buffer.
     map_err Runtime (buffer_read L buffer))"

text \<open>\<open>Outputs::one\<close> pops the last value, \<open>Outputs::read\<close> indexes.\<close>

definition read_one ::
    "('sp, 'rt, 'pr, 'fn, 'v, 'buf, 'x, 'r) eerie \<Rightarrow> 'v list \<Rightarrow> tensor_desc \<Rightarrow> 'r rt_error + 'x list" where
  "read_one L values' d =
     rbind (of_option RtPanic (if values' = [] then None else Some (last values'))) (read_value L d)"

definition read_at ::
    "('sp, 'rt, 'pr, 'fn, 'v, 'buf, 'x, 'r) eerie \<Rightarrow> 'v list \<Rightarrow> nat \<Rightarrow> tensor_desc \<Rightarrow> 'r rt_error + 'x list" where
  "read_at L values' index d = rbind (vec_at values' index) (read_value L d)"

text \<open>\<open>T::from_vec\<close> for a tensor type of the given shape.\<close>

definition graph_tensor_from_vec :: "nat list \<Rightarrow> 'x list \<Rightarrow> 'r rt_error + 'x fixed_rank" where
  "graph_tensor_from_vec shape data = rbind (data_from_vec data shape) (\<lambda>s. Inr \<lparr>storage = s\<rparr>)"

fun read_tuple ::
    "('sp, 'rt, 'pr, 'fn, 'v, 'buf, 'x, 'r) eerie \<Rightarrow> 'v list \<Rightarrow> nat \<Rightarrow> tensor_desc list
      \<Rightarrow> 'r rt_error + 'x fixed_rank list" where
  "read_tuple L values' index [] = Inr []"
| "read_tuple L values' index (d # ds) =
     rbind (read_at L values' index d) (\<lambda>data.
     rbind (graph_tensor_from_vec (desc_shape d) data) (\<lambda>t.
     rbind (read_tuple L values' (index + 1) ds) (\<lambda>ts. Inr (t # ts))))"

definition read_raw_outputs ::
    "('sp, 'rt, 'pr, 'fn, 'v, 'buf, 'x, 'r) eerie \<Rightarrow> output_kind \<Rightarrow> 'v list \<Rightarrow> 'r rt_error + 'x fixed_rank list" where
  "read_raw_outputs L k values' =
     (case k of
        UnitOutput \<Rightarrow> Inr []
      | OneOutput d \<Rightarrow>
          rbind (read_one L values' d) (\<lambda>data.
          rbind (graph_tensor_from_vec (desc_shape d) data) (\<lambda>t. Inr [t]))
      | TupleOutput ds \<Rightarrow> read_tuple L values' 0 ds)"

text \<open>Reading into existing tensors: the targets are returned with the result, written as far as it got.\<close>

definition read_into_slice ::
    "('sp, 'rt, 'pr, 'fn, 'v, 'buf, 'x, 'r) eerie \<Rightarrow> 'v list \<Rightarrow> nat \<Rightarrow> tensor_desc \<Rightarrow> 'x fixed_rank
      \<Rightarrow> 'x fixed_rank \<times> ('r rt_error + unit)" where
  "read_into_slice L values' index d t =
     (case rbind (vec_at values' index) (\<lambda>v. map_err Runtime (buffer_from_value L (desc_elem d) v)) of
        Inl e \<Rightarrow> (t, Inl e)
      | Inr buffer \<Rightarrow>
          (let (data, status) = buffer_read_into L buffer (as_slice t)
           in (\<lparr>storage = \<lparr>td_data = data\<rparr>\<rparr>, map_err Runtime status)))"

fun read_tuple_into ::
    "('sp, 'rt, 'pr, 'fn, 'v, 'buf, 'x, 'r) eerie \<Rightarrow> 'v list \<Rightarrow> nat \<Rightarrow> tensor_desc list \<Rightarrow> 'x fixed_rank list
      \<Rightarrow> 'x fixed_rank list \<times> ('r rt_error + unit)" where
  "read_tuple_into L values' index (d # ds) (t # ts) =
     (case read_into_slice L values' index d t of
        (t', Inl e) \<Rightarrow> (t' # ts, Inl e)
      | (t', Inr u) \<Rightarrow>
          (let (ts', status) = read_tuple_into L values' (index + 1) ds ts in (t' # ts', status)))"
| "read_tuple_into L values' index _ ts = (ts, Inr ())"

definition read_raw_outputs_into ::
    "('sp, 'rt, 'pr, 'fn, 'v, 'buf, 'x, 'r) eerie \<Rightarrow> output_kind \<Rightarrow> 'v list \<Rightarrow> 'x fixed_rank list
      \<Rightarrow> 'x fixed_rank list \<times> ('r rt_error + unit)" where
  "read_raw_outputs_into L k values' ts = read_tuple_into L values' 0 (output_sig k) ts"

section \<open>Models\<close>

definition model_invoke ::
    "('sp, 'rt, 'pr, 'fn, 'v, 'buf, 'x, 'r) eerie \<Rightarrow> ('rt, 'fn) model \<Rightarrow> output_kind
      \<Rightarrow> (tensor_desc \<times> 'x fixed_rank) list \<Rightarrow> 'r rt_error + 'v list" where
  "model_invoke L m k inputs =
     rbind (rmap (input_value L (model_runtime m)) inputs) (\<lambda>args.
     rbind (map_err Runtime (invoke L (model_function m) args)) (\<lambda>outputs.
     rbind (validate_raw_outputs L k outputs) (\<lambda>_. Inr outputs)))"

definition model_run ::
    "('sp, 'rt, 'pr, 'fn, 'v, 'buf, 'x, 'r) eerie \<Rightarrow> ('rt, 'fn) model \<Rightarrow> output_kind
      \<Rightarrow> (tensor_desc \<times> 'x fixed_rank) list \<Rightarrow> 'r rt_error + 'x fixed_rank list" where
  "model_run L m k inputs = rbind (model_invoke L m k inputs) (read_raw_outputs L k)"

definition model_run_into ::
    "('sp, 'rt, 'pr, 'fn, 'v, 'buf, 'x, 'r) eerie \<Rightarrow> ('rt, 'fn) model \<Rightarrow> output_kind
      \<Rightarrow> (tensor_desc \<times> 'x fixed_rank) list \<Rightarrow> 'x fixed_rank list
      \<Rightarrow> 'x fixed_rank list \<times> ('r rt_error + unit)" where
  "model_run_into L m k inputs outputs =
     (case model_invoke L m k inputs of
        Inl e \<Rightarrow> (outputs, Inl e)
      | Inr values' \<Rightarrow> read_raw_outputs_into L k values' outputs)"

text \<open>\<open>Graph::run\<close>, \<open>Graph::run_into\<close> and \<open>Graph::run_once\<close>.\<close>

definition graph_run ::
    "('sp, 'rt, 'pr, 'fn, 'v, 'buf, 'x, 'r) eerie \<Rightarrow> graph_handle \<Rightarrow> ('rt, 'pr) engine \<Rightarrow> output_kind
      \<Rightarrow> (tensor_desc \<times> 'x fixed_rank) list \<Rightarrow> ('r rt_error + 'x fixed_rank list) \<times> ('rt, 'pr) engine" where
  "graph_run L g eng k inputs =
     (let (r, eng') = engine_load L eng g in (rbind r (\<lambda>m. model_run L m k inputs), eng'))"

definition graph_run_into ::
    "('sp, 'rt, 'pr, 'fn, 'v, 'buf, 'x, 'r) eerie \<Rightarrow> graph_handle \<Rightarrow> ('rt, 'pr) engine \<Rightarrow> output_kind
      \<Rightarrow> (tensor_desc \<times> 'x fixed_rank) list \<Rightarrow> 'x fixed_rank list
      \<Rightarrow> 'x fixed_rank list \<times> ('r rt_error + unit) \<times> ('rt, 'pr) engine" where
  "graph_run_into L g eng k inputs outputs =
     (let (r, eng') = engine_load L eng g in
      case r of
        Inl e \<Rightarrow> (outputs, Inl e, eng')
      | Inr m \<Rightarrow> (let (outputs', status) = model_run_into L m k inputs outputs in (outputs', status, eng')))"

definition graph_run_once ::
    "('sp, 'rt, 'pr, 'fn, 'v, 'buf, 'x, 'r) eerie \<Rightarrow> graph_handle \<Rightarrow> output_kind
      \<Rightarrow> (tensor_desc \<times> 'x fixed_rank) list \<Rightarrow> 'r rt_error + 'x fixed_rank list" where
  "graph_run_once L g k inputs =
     rbind (engine_for_artifact L (handle_artifact g)) (\<lambda>eng. fst (graph_run L g eng k inputs))"

end
