(* ===== verification/Runtime_Properties.thy ===== *)
theory Runtime_Properties
  imports Runtime
begin

text \<open>
  The properties of artifacts, engines and models, each with a concrete runtime library in its
  witness.
\<close>

section \<open>A concrete runtime library\<close>

text \<open>
  Programs are the bytes they were loaded from, a function returns its arguments, and a value is a
  typed buffer.
\<close>

type_synonym demo_value = "dtype \<times> nat list \<times> int list"

definition demo_lib ::
    "(string, unit, 8 word list, string, demo_value, demo_value, int, string) eerie" where
  "demo_lib =
     \<lparr>spec_custom = (\<lambda>name. name), spec_ordinal = (\<lambda>s n. s), spec_path = (\<lambda>s p. s),
      runtime_new = (\<lambda>s. Inr ()), load_vmfb = (\<lambda>rt bytes. if bytes = [] then Inl ''empty'' else Inr bytes),
      program_function = (\<lambda>p name. Inr name),
      buffer_view = (\<lambda>rt d s data. Inr (d, s, data)), invoke = (\<lambda>f args. Inr args),
      buffer_from_value = (\<lambda>d v. if fst v = d then Inr v else Inl ''dtype''),
      buffer_shape = (\<lambda>b. fst (snd b)), buffer_read = (\<lambda>b. Inr (snd (snd b))),
      buffer_read_into = (\<lambda>b xs. if length xs = length (snd (snd b)) then (snd (snd b), Inr ()) else (xs, Inl ''length''))\<rparr>"

definition demo_desc :: tensor_desc where
  "demo_desc = \<lparr>desc_elem = DI32, desc_shape = [2]\<rparr>"

definition demo_tensor :: "int \<Rightarrow> int \<Rightarrow> int fixed_rank" where
  "demo_tensor a b = \<lparr>storage = \<lparr>td_data = [a, b]\<rparr>\<rparr>"

definition demo_artifact :: graph_artifact where
  "demo_artifact =
     \<lparr>function_name = ''f'', input_descs = [demo_desc], output_descs = [demo_desc],
      variants = [\<lparr>vmfb = \<lparr>bytes_ptr = 4096, bytes_contents = [7, 8]\<rparr>, variant_backend = VulkanSpirv, compile_flags = []\<rparr>,
                  \<lparr>vmfb = \<lparr>bytes_ptr = 8192, bytes_contents = [9]\<rparr>, variant_backend = LlvmCpu, compile_flags = []\<rparr>]\<rparr>"

definition demo_graph :: graph_handle where
  "demo_graph = \<lparr>handle_artifact = demo_artifact\<rparr>"

definition demo_engine :: "(unit, 8 word list) engine" where
  "demo_engine = \<lparr>engine_driver = LocalSync, engine_runtime = (), engine_modules = Map.empty\<rparr>"

definition demo_model :: "(unit, string) model" where
  "demo_model = \<lparr>model_runtime = (), model_function = ''f'', model_artifact = demo_artifact\<rparr>"

lemmas demo_defs = demo_lib_def demo_desc_def demo_tensor_def demo_artifact_def demo_graph_def demo_engine_def
  demo_model_def

section \<open>Handles and variants\<close>

text \<open>A typed handle exists exactly for the artifacts of its signature: the loops of the signature check
  end, they accept a signature exactly if it has the same number of tensors with the same dtypes and
  shapes, and the first mismatch in the order inputs, outputs is reported.\<close>

theorem handle_signature:
  "graph_new ins outs a =
     (if ins \<noteq> input_descs a then Inl InputSignature
      else if outs \<noteq> output_descs a then Inl OutputSignature
      else Inr \<lparr>handle_artifact = a\<rparr>)"
  by (simp add: graph_new_def signatures_match_iff)

lemma find_driver:
  "variant_for_driver a d = Some v \<longleftrightarrow>
     (\<exists>i < length (variants a). variants a ! i = v \<and> supports_driver (variant_backend v) d \<and>
        (\<forall>j < i. \<not> supports_driver (variant_backend (variants a ! j)) d))"
  by (auto simp: variant_for_driver_def find_Some_iff)

lemma config_backend_ok:
  "\<exists>d. config_for_backend L b = Inr (config_for_driver L d) \<and> supports_driver b d"
  using default_driver_known [of b] by (auto simp: config_for_backend_def)

lemma engine_new_driver: "engine_new L c = Inr eng \<Longrightarrow> engine_driver eng = config_driver c"
  by (auto simp: engine_new_def result_simps)

lemma map_err_Inl_iff: "map_err f m = Inl e \<longleftrightarrow> (\<exists>e'. m = Inl e' \<and> e = f e')"
  by (cases m) auto

lemma cached_program_error: "cached_program L eng v = Inl e \<Longrightarrow> \<exists>r. e = Runtime r"
  by (auto simp: cached_program_def rbind_Inl_iff map_err_Inl_iff split: option.splits)

text \<open>A convenience engine can run the artifact it was made for: no configuration panics on a driver
  name, and an engine created for an artifact always finds a variant that its driver supports, so that
  loading never reports a missing variant.\<close>

theorem engine_for_artifact_finds_variant:
  assumes "engine_for_artifact L (handle_artifact g) = Inr eng"
  shows "\<exists>v \<in> set (variants (handle_artifact g)).
      variant_for_driver (handle_artifact g) (engine_driver eng) = Some v \<and>
      supports_driver (variant_backend v) (engine_driver eng) \<and>
      fst (engine_load L eng g) \<noteq> Inl (MissingArtifactVariant name d)"
proof -
  let ?a = "handle_artifact g"
  obtain v where v: "first_variant ?a = Some v" "engine_for_backend L (variant_backend v) = Inr eng"
    using assms by (auto simp: engine_for_artifact_def engine_for_variant_def result_simps)
  obtain d where d: "config_for_backend L (variant_backend v) = Inr (config_for_driver L d)"
      "supports_driver (variant_backend v) d" using config_backend_ok by blast
  have driver: "engine_driver eng = d"
    using v(2) d(1) engine_new_driver by (fastforce simp: engine_for_backend_def config_for_driver_def)
  obtain vs where "variants ?a = v # vs" using v(1) by (auto simp: first_variant_def split: list.splits)
  then have v': "v \<in> set (variants ?a)" "variant_for_driver ?a d = Some v"
    using d(2) by (simp_all add: variant_for_driver_def)
  have "fst (engine_load L eng g) \<noteq> Inl (MissingArtifactVariant name' d')" for name' d'
    using v'(2) cached_program_error [of L eng v]
    by (cases "cached_program L eng v") (auto simp: engine_load_def driver Let_def rbind_Inl_iff map_err_Inl_iff)
  with v' d(2) driver show ?thesis by auto
qed

lemma engine_for_artifact_finds_variant_witness:
  "\<exists>v \<in> set (variants demo_artifact). variant_for_driver demo_artifact VulkanDriver = Some v \<and>
     supports_driver (variant_backend v) VulkanDriver"
proof -
  have "engine_for_artifact demo_lib (handle_artifact demo_graph) =
      Inr \<lparr>engine_driver = VulkanDriver, engine_runtime = (), engine_modules = Map.empty\<rparr>"
    by (simp add: demo_defs engine_for_artifact_def first_variant_def engine_for_variant_def engine_for_backend_def
        config_for_backend_def default_driver_def config_for_driver_def engine_new_def)
  from engine_for_artifact_finds_variant [OF this] show ?thesis by (auto simp: demo_graph_def)
qed

section \<open>The module cache\<close>

text \<open>
  The bytes of a variant are static: the address and the length determine them.  A cache is sound if
  every entry is what loading the bytes behind its key gives.
\<close>

definition static_variants :: "(module_key \<Rightarrow> 8 word list) \<Rightarrow> graph_handle \<Rightarrow> bool" where
  "static_variants mem g \<longleftrightarrow>
     (\<forall>v \<in> set (variants (handle_artifact g)). bytes_contents (vmfb v) = mem (module_key v))"

definition cache_sound ::
    "('sp, 'rt, 'pr, 'fn, 'v, 'buf, 'x, 'r) eerie \<Rightarrow> (module_key \<Rightarrow> 8 word list) \<Rightarrow> ('rt, 'pr) engine \<Rightarrow> bool" where
  "cache_sound L mem eng \<longleftrightarrow>
     (\<forall>k p. engine_modules eng k = Some p \<longrightarrow> load_vmfb L (engine_runtime eng) (mem k) = Inr p)"

lemma variant_member: "variant_for_driver a d = Some v \<Longrightarrow> v \<in> set (variants a)"
  by (auto simp: find_driver)

lemma cache_soundD:
  "cache_sound L mem eng \<Longrightarrow> engine_modules eng k = Some p \<Longrightarrow> load_vmfb L (engine_runtime eng) (mem k) = Inr p"
  by (simp add: cache_sound_def del: split_paired_All)

lemma cached_program_sound:
  assumes "cache_sound L mem eng" "bytes_contents (vmfb v) = mem (module_key v)"
  shows "cached_program L eng v = Inl e \<Longrightarrow>
      map_err Runtime (load_vmfb L (engine_runtime eng) (bytes_contents (vmfb v))) = Inl e"
    and "cached_program L eng v = Inr (p, eng') \<Longrightarrow>
      cache_sound L mem eng' \<and> engine_runtime eng' = engine_runtime eng \<and>
      load_vmfb L (engine_runtime eng) (bytes_contents (vmfb v)) = Inr p"
proof -
  show "map_err Runtime (load_vmfb L (engine_runtime eng) (bytes_contents (vmfb v))) = Inl e"
    if "cached_program L eng v = Inl e"
    using that by (auto simp: cached_program_def rbind_Inl_iff split: option.splits)
  show "cache_sound L mem eng' \<and> engine_runtime eng' = engine_runtime eng \<and>
      load_vmfb L (engine_runtime eng) (bytes_contents (vmfb v)) = Inr p"
    if c: "cached_program L eng v = Inr (p, eng')"
  proof (cases "engine_modules eng (module_key v)")
    case None
    then have p: "load_vmfb L (engine_runtime eng) (bytes_contents (vmfb v)) = Inr p"
      and e: "eng' = eng\<lparr>engine_modules := (engine_modules eng)(module_key v \<mapsto> p)\<rparr>"
      using c by (auto simp: cached_program_def result_simps)
    have "load_vmfb L (engine_runtime eng) (mem k) = Inr q"
      if "((engine_modules eng)(module_key v \<mapsto> p)) k = Some q" for k q
      using that p assms cache_soundD [OF assms(1)] by (cases "k = module_key v") auto
    with p e show ?thesis by (simp add: cache_sound_def del: split_paired_All fun_upd_apply)
  next
    case (Some q)
    with c show ?thesis using assms cache_soundD [OF assms(1) Some] by (simp add: cached_program_def)
  qed
qed

text \<open>C27. The module cache is transparent: on an engine whose cache is sound, loading a graph gives what an
  engine with an empty cache gives, errors included, and leaves the cache sound.\<close>

theorem module_cache_transparent:
  assumes "cache_sound L mem eng" and "static_variants mem g"
  shows "fst (engine_load L eng g) = fst (engine_load L (eng\<lparr>engine_modules := Map.empty\<rparr>) g) \<and>
    cache_sound L mem (snd (engine_load L eng g))"
proof (cases "variant_for_driver (handle_artifact g) (engine_driver eng)")
  case None
  with assms(1) show ?thesis by (simp add: engine_load_def)
next
  case (Some v)
  then have bytes: "bytes_contents (vmfb v) = mem (module_key v)"
    using assms(2) variant_member by (auto simp: static_variants_def)
  note sound = cached_program_sound [OF assms(1) bytes]
  show ?thesis
  proof (cases "cached_program L eng v")
    case (Inl e)
    then have "map_err Runtime (load_vmfb L (engine_runtime eng) (bytes_contents (vmfb v))) = Inl e"
      by (rule sound(1))
    with Some Inl assms(1) show ?thesis by (simp add: engine_load_def cached_program_def)
  next
    case (Inr r)
    obtain p eng' where r: "r = (p, eng')" by (cases r)
    with sound(2) Inr have "cache_sound L mem eng'" "engine_runtime eng' = engine_runtime eng"
        "load_vmfb L (engine_runtime eng) (bytes_contents (vmfb v)) = Inr p" by auto
    with Some Inr r show ?thesis by (simp add: engine_load_def Let_def) (simp add: cached_program_def)
  qed
qed

definition demo_memory :: "module_key \<Rightarrow> 8 word list" where
  "demo_memory k = (if k = (4096, 2) then [7, 8] else [9])"

lemma module_cache_transparent_witness:
  "fst (engine_load demo_lib (demo_engine\<lparr>engine_modules := [(8192, 1) \<mapsto> [9]]\<rparr>) demo_graph) =
     fst (engine_load demo_lib demo_engine demo_graph)"
proof -
  have "cache_sound demo_lib demo_memory (demo_engine\<lparr>engine_modules := [(8192, 1) \<mapsto> [9]]\<rparr>)"
    by (simp add: cache_sound_def demo_defs demo_memory_def)
  moreover have "static_variants demo_memory demo_graph"
    by (simp add: static_variants_def demo_defs module_key_def demo_memory_def)
  ultimately have "fst (engine_load demo_lib (demo_engine\<lparr>engine_modules := [(8192, 1) \<mapsto> [9]]\<rparr>) demo_graph) =
      fst (engine_load demo_lib (demo_engine\<lparr>engine_modules := [(8192, 1) \<mapsto> [9]],  engine_modules := Map.empty\<rparr>) demo_graph)"
    using module_cache_transparent by blast
  then show ?thesis by (simp add: demo_engine_def)
qed

text \<open>A module is loaded once: after a graph was loaded, loading it again does not call the loader, it
  returns the same model, whatever the loader would do, and leaves the engine as it is.\<close>

theorem module_loaded_once:
  assumes "engine_load L eng g = (Inr m, eng')"
  shows "engine_load (L\<lparr>load_vmfb := loader\<rparr>) eng' g = (Inr m, eng')"
proof -
  obtain v p where v: "variant_for_driver (handle_artifact g) (engine_driver eng) = Some v"
      "cached_program L eng v = Inr (p, eng')"
      "rbind (map_err Runtime (program_function L p (function_name (handle_artifact g)))) (\<lambda>f.
         Inr \<lparr>model_runtime = engine_runtime eng', model_function = f, model_artifact = handle_artifact g\<rparr>) = Inr m"
    using assms by (auto simp: engine_load_def Let_def split: option.splits sum.splits)
  then have "engine_modules eng' (module_key v) = Some p" "engine_driver eng' = engine_driver eng"
    by (auto simp: cached_program_def result_simps split: option.splits)
  with v show ?thesis by (simp add: engine_load_def cached_program_def)
qed

lemma module_loaded_once_witness:
  "engine_load (demo_lib\<lparr>load_vmfb := (\<lambda>rt bytes. Inl ''gone'')\<rparr>)
     (demo_engine\<lparr>engine_modules := [(8192, 1) \<mapsto> [9]]\<rparr>) demo_graph =
   (Inr demo_model, demo_engine\<lparr>engine_modules := [(8192, 1) \<mapsto> [9]]\<rparr>)"
  by (rule module_loaded_once [where eng = demo_engine])
    (simp add: demo_defs engine_load_def cached_program_def module_key_def variant_for_driver_def
      supports_driver_def default_driver_def driver_name_def)

section \<open>Outputs\<close>

text \<open>The values that a function returned fit a signature.\<close>

definition outputs_fit ::
    "('sp, 'rt, 'pr, 'fn, 'v, 'buf, 'x, 'r) eerie \<Rightarrow> 'v list \<Rightarrow> tensor_desc list \<Rightarrow> bool" where
  "outputs_fit L vs ds \<longleftrightarrow>
     list_all2 (\<lambda>v d. \<exists>b. buffer_from_value L (desc_elem d) v = Inr b \<and> buffer_shape L b = desc_shape d) vs ds"

lemma check_shape_ok:
  "check_shape L vs i d = Inr u \<longleftrightarrow> i < length vs \<and>
     (\<exists>b. buffer_from_value L (desc_elem d) (vs ! i) = Inr b \<and> buffer_shape L b = desc_shape d)"
  by (auto simp: check_shape_def result_simps vec_at_def Let_def)

lemma check_shapes_ok:
  "length vs = i + length ds \<Longrightarrow> check_shapes L vs i ds = Inr u \<longleftrightarrow> outputs_fit L (drop i vs) ds"
proof (induction ds arbitrary: i)
  case (Cons d ds)
  have i: "i < length vs" using Cons.prems by simp
  have "check_shapes L vs (i + 1) ds = Inr u \<longleftrightarrow> outputs_fit L (drop (i + 1) vs) ds"
    using Cons by simp
  then show ?case
    using i by (auto simp: result_simps check_shape_ok outputs_fit_def Cons_nth_drop_Suc [symmetric])
qed (simp add: outputs_fit_def)

lemma check_count_ok: "check_count vs n = Inr u \<longleftrightarrow> length vs = n"
  by (auto simp: check_count_def Let_def)

lemma validate_ok: "validate_raw_outputs L k vs = Inr u \<longleftrightarrow> outputs_fit L vs (output_sig k)"
proof (cases k)
  case UnitOutput
  then show ?thesis by (simp add: validate_raw_outputs_def output_sig_def check_count_ok outputs_fit_def)
next
  case (OneOutput d)
  then show ?thesis
    by (auto simp: validate_raw_outputs_def output_sig_def check_count_ok check_shape_ok outputs_fit_def result_simps
        length_Suc_conv list_all2_Cons2)
next
  case (TupleOutput ds)
  then show ?thesis
    using check_shapes_ok [of vs 0 ds L] list_all2_lengthD
    by (fastforce simp: validate_raw_outputs_def output_sig_def check_count_ok outputs_fit_def result_simps)
qed

lemma invoke_ok:
  "model_invoke L m k inputs = Inr vs \<longleftrightarrow>
     (\<exists>args. rmap (input_value L (model_runtime m)) inputs = Inr args \<and>
        invoke L (model_function m) args = Inr vs \<and> outputs_fit L vs (output_sig k))"
  by (auto simp: model_invoke_def result_simps validate_ok)

text \<open>No panic: the indices are those that the count check has admitted.\<close>

lemma check_shape_safe: "i < length vs \<Longrightarrow> check_shape L vs i d \<noteq> Inl RtPanic"
  by (auto simp: check_shape_def rbind_Inl_iff map_err_Inl_iff Let_def)

lemma check_shapes_safe: "length vs = i + length ds \<Longrightarrow> check_shapes L vs i ds \<noteq> Inl RtPanic"
  by (induction ds arbitrary: i) (auto simp: rbind_Inl_iff check_shape_safe)

lemma validate_safe: "validate_raw_outputs L k vs \<noteq> Inl RtPanic"
proof -
  have count: "check_count vs n \<noteq> Inl RtPanic" for n by (simp add: check_count_def Let_def)
  show ?thesis
    using count
    by (cases k) (auto simp: validate_raw_outputs_def rbind_Inl_iff check_count_ok check_shape_safe check_shapes_safe)
qed

lemma invoke_safe: "model_invoke L m k inputs \<noteq> Inl RtPanic"
proof -
  have "rmap (input_value L (model_runtime m)) inputs \<noteq> Inl RtPanic"
    by (auto simp: input_value_def map_err_Inl_iff dest!: rmap_Inl_mem)
  then show ?thesis using validate_safe [of L k] by (auto simp: model_invoke_def rbind_Inl_iff map_err_Inl_iff)
qed

lemma read_value_safe: "read_value L d v \<noteq> Inl RtPanic"
  by (auto simp: read_value_def rbind_Inl_iff map_err_Inl_iff)

lemma graph_tensor_ok: "graph_tensor_from_vec s data = Inr t \<longleftrightarrow> has_shape s t \<and> as_slice t = data"
  by (cases t; cases "storage t")
    (auto simp: graph_tensor_from_vec_def data_from_vec_def has_shape_def as_slice_def Let_def result_simps)

lemma graph_tensor_safe: "graph_tensor_from_vec s data \<noteq> Inl RtPanic"
  by (auto simp: graph_tensor_from_vec_def data_from_vec_def Let_def rbind_Inl_iff)

lemma read_tuple_safe: "length vs = i + length ds \<Longrightarrow> read_tuple L vs i ds \<noteq> Inl RtPanic"
  by (induction ds arbitrary: i) (auto simp: rbind_Inl_iff read_at_def read_value_safe graph_tensor_safe)

lemma read_tuple_ok:
  "read_tuple L vs i ds = Inr ts \<Longrightarrow> list_all2 (\<lambda>d t. has_shape (desc_shape d) t) ds ts"
  by (induction ds arbitrary: i ts) (auto simp: result_simps graph_tensor_ok)

lemma read_one_index:
  "length vs = 1 \<Longrightarrow> read_raw_outputs L (OneOutput d) vs = read_raw_outputs L (TupleOutput [d]) vs"
  by (auto simp: read_raw_outputs_def read_one_def read_at_def length_Suc_conv)

lemma read_raw_tuple:
  "outputs_fit L vs (output_sig k) \<Longrightarrow> read_raw_outputs L k vs = read_tuple L vs 0 (output_sig k)"
  using read_one_index [of vs L]
  by (cases k) (auto simp: output_sig_def outputs_fit_def read_raw_outputs_def dest: list_all2_lengthD)

text \<open>C24. Running a model never panics, whatever the runtime library returns, and when it succeeds it
  returns one tensor for each output of the signature, with the storage of its shape.\<close>

theorem model_run_safe:
  "model_run L m k inputs \<noteq> Inl RtPanic \<and>
   (\<forall>ts. model_run L m k inputs = Inr ts \<longrightarrow>
      list_all2 (\<lambda>d t. has_shape (desc_shape d) t) (output_sig k) ts)"
proof (cases "model_invoke L m k inputs")
  case (Inl e)
  then show ?thesis using invoke_safe [of L m k inputs] by (auto simp: model_run_def)
next
  case (Inr vs)
  then have fit: "outputs_fit L vs (output_sig k)" by (auto simp: invoke_ok)
  then have "length vs = length (output_sig k)" by (auto simp: outputs_fit_def dest: list_all2_lengthD)
  with Inr fit show ?thesis
    using read_tuple_safe [of vs 0 "output_sig k" L] read_tuple_ok by (auto simp: model_run_def read_raw_tuple)
qed

lemma model_run_safe_witness:
  "list_all2 (\<lambda>d t. has_shape (desc_shape d) t) [demo_desc] [demo_tensor 3 4]"
proof -
  have "model_run demo_lib demo_model (OneOutput demo_desc) [(demo_desc, demo_tensor 3 4)] = Inr [demo_tensor 3 4]"
    by (simp add: demo_defs model_run_def model_invoke_def input_value_def validate_raw_outputs_def check_count_def
        check_shape_def read_raw_outputs_def read_one_def read_value_def graph_tensor_from_vec_def data_from_vec_def
        as_slice_def)
  with model_run_safe have "list_all2 (\<lambda>d t. has_shape (desc_shape d) t) (output_sig (OneOutput demo_desc)) [demo_tensor 3 4]"
    by blast
  then show ?thesis by (simp add: output_sig_def)
qed

text \<open>C55. Outputs are validated before they are written: when \<open>run_into\<close> has changed an output tensor, the
  function had returned the right number of values, all of the right dtype and shape; so on every
  count, dtype or shape error the caller's tensors are untouched.\<close>

theorem run_into_validates_first:
  assumes "fst (model_run_into L m k inputs outputs) \<noteq> outputs"
  shows "\<exists>args vs. rmap (input_value L (model_runtime m)) inputs = Inr args \<and>
    invoke L (model_function m) args = Inr vs \<and> length vs = length (output_sig k) \<and>
    (\<forall>i < length vs. \<exists>b. buffer_from_value L (desc_elem (output_sig k ! i)) (vs ! i) = Inr b \<and>
       buffer_shape L b = desc_shape (output_sig k ! i))"
proof -
  obtain vs where "model_invoke L m k inputs = Inr vs"
    using assms by (cases "model_invoke L m k inputs") (auto simp: model_run_into_def)
  then show ?thesis unfolding invoke_ok outputs_fit_def list_all2_conv_all_nth by blast
qed

lemma run_into_validates_first_witness:
  "\<exists>args. rmap (input_value demo_lib ()) [(demo_desc, demo_tensor 3 4)] = Inr args \<and>
     invoke demo_lib ''f'' args = Inr [(DI32, [2], [3, 4])]"
proof -
  have "fst (model_run_into demo_lib demo_model (OneOutput demo_desc) [(demo_desc, demo_tensor 3 4)] [demo_tensor 0 0])
      \<noteq> [demo_tensor 0 0]"
    by (simp add: demo_defs model_run_into_def model_invoke_def input_value_def validate_raw_outputs_def
        check_count_def check_shape_def read_raw_outputs_into_def read_into_slice_def output_sig_def as_slice_def Let_def)
  from run_into_validates_first [OF this] show ?thesis
    by (simp add: demo_defs input_value_def as_slice_def)
qed

text \<open>What the runtime library promises of \<open>read_into\<close>: into a slice of the right length it writes what
  \<open>read\<close> returns.\<close>

definition read_into_law :: "('sp, 'rt, 'pr, 'fn, 'v, 'buf, 'x, 'r) eerie \<Rightarrow> bool" where
  "read_into_law L \<longleftrightarrow>
     (\<forall>b data xs. buffer_read L b = Inr data \<and> length xs = length data \<longrightarrow> buffer_read_into L b xs = (data, Inr ()))"

lemma fixed_rank_eq: "as_slice t = as_slice t' \<longleftrightarrow> t = t'"
  by (cases t; cases t'; cases "storage t"; cases "storage t'") (simp add: as_slice_def)

lemma read_tuple_into_ok:
  assumes law: "read_into_law L"
  shows "read_tuple L vs i ds = Inr ts \<Longrightarrow> list_all2 (\<lambda>d t. has_shape (desc_shape d) t) ds outs \<Longrightarrow>
     read_tuple_into L vs i ds outs = (ts, Inr ())"
proof (induction ds arbitrary: i ts outs)
  case (Cons d ds)
  then obtain o' os where outs: "outs = o' # os" "has_shape (desc_shape d) o'"
      "list_all2 (\<lambda>d t. has_shape (desc_shape d) t) ds os" by (auto simp: list_all2_Cons1)
  from Cons.prems(1) obtain b t rest where r: "i < length vs"
      "buffer_from_value L (desc_elem d) (vs ! i) = Inr b" "buffer_read L b = Inr (as_slice t)"
      "has_shape (desc_shape d) t" "read_tuple L vs (i + 1) ds = Inr rest" "ts = t # rest"
    by (auto simp: result_simps read_at_def read_value_def graph_tensor_ok vec_at_def split: if_splits)
  have "length (as_slice o') = length (as_slice t)" using outs(2) r(4) by (simp add: has_shape_def)
  with law r(3) have w: "buffer_read_into L b (as_slice o') = (as_slice t, Inr ())"
    by (simp add: read_into_law_def)
  have t: "\<lparr>storage = \<lparr>td_data = as_slice t\<rparr>\<rparr> = t" by (cases t; cases "storage t") (simp add: as_slice_def)
  have "read_into_slice L vs i d o' = (t, Inr ())"
    using r(1,2) w t by (simp add: read_into_slice_def)
  with Cons.IH [OF r(5) outs(3)] show ?case by (simp add: outs(1) r(6))
qed simp

text \<open>C56. \<open>run_into\<close> computes what \<open>run\<close> computes: with a runtime library that reads into a slice what it
  would return, and output tensors of the right shapes, it succeeds whenever \<open>run\<close> does and leaves
  exactly the returned tensors in the outputs.\<close>

theorem run_into_equals_run:
  assumes "read_into_law L" and "model_run L m k inputs = Inr ts"
    and "list_all2 (\<lambda>d t. has_shape (desc_shape d) t) (output_sig k) outputs"
  shows "model_run_into L m k inputs outputs = (ts, Inr ())"
proof -
  obtain vs where vs: "model_invoke L m k inputs = Inr vs" "read_raw_outputs L k vs = Inr ts"
    using assms(2) by (auto simp: model_run_def result_simps)
  then have "outputs_fit L vs (output_sig k)" by (auto simp: invoke_ok)
  then have "read_tuple L vs 0 (output_sig k) = Inr ts" using vs(2) by (simp add: read_raw_tuple)
  from read_tuple_into_ok [OF assms(1) this assms(3)] vs(1) show ?thesis
    by (simp add: model_run_into_def read_raw_outputs_into_def)
qed

lemma run_into_equals_run_witness:
  "model_run_into demo_lib demo_model (TupleOutput [demo_desc, demo_desc])
     [(demo_desc, demo_tensor 3 4), (demo_desc, demo_tensor 5 6)] [demo_tensor 0 0, demo_tensor 1 1] =
   ([demo_tensor 3 4, demo_tensor 5 6], Inr ())"
proof (rule run_into_equals_run)
  show "read_into_law demo_lib" by (simp add: read_into_law_def demo_defs)
qed (simp_all add: demo_defs model_run_def model_invoke_def input_value_def validate_raw_outputs_def check_count_def
    check_shape_def read_raw_outputs_def read_at_def read_value_def graph_tensor_from_vec_def data_from_vec_def
    output_sig_def as_slice_def has_shape_def)

end
