(* ===== verification/Trace_Ops.thy ===== *)
theory Trace_Ops
  imports Static_Creation
begin

text \<open>
  The tracing DSL of \<^verbatim>\<open>crates/knok-build/src/trace\<close>: the functions a \<^verbatim>\<open>build.rs\<close> program calls to
  record a graph.  A traced tensor carries the graph expression it stands for; its Rust type fixes an
  element type and a shape, here the field \<open>tr_type\<close>.  Functions that are generic in their result
  take the requested type as the argument \<open>out\<close>.

  The two global counters \<open>NEXT_NODE_ID\<close> and \<open>NEXT_TUPLE_ID\<close> are the state that every recording
  function passes on; \<open>fetch_add\<close> wraps around at 64 bits.  The public functions carry the suffix
  \<open>_t\<close>, because most of their names are HOL constants; the private ones keep their names.
\<close>

section \<open>Handles and the counters (\<^verbatim>\<open>expr.rs\<close>)\<close>

record tracer =
  node_counter :: "64 word"
  tuple_counter :: "64 word"

type_synonym 'a tracing = "tracer \<Rightarrow> 'a \<times> tracer"

record trace_tensor =
  tr_type :: tensor_type
  tr_expr :: expr

abbreviation from_expr :: "tensor_type \<Rightarrow> expr \<Rightarrow> trace_tensor" where
  "from_expr ty e \<equiv> \<lparr>tr_type = ty, tr_expr = e\<rparr>"

text \<open>The mask type \<open>BoolTensor::Bool\<close> of a tensor type.\<close>

definition bool_tensor :: "tensor_type \<Rightarrow> tensor_type" where
  "bool_tensor ty = tensor Bool (shape ty)"

definition initial_tracer :: tracer where
  "initial_tracer = \<lparr>node_counter = 1, tuple_counter = 1\<rparr>"

definition node_expr :: "expr \<Rightarrow> expr tracing" where
  "node_expr v s =
     (ENode (unat (node_counter s)) v, s\<lparr>node_counter := node_counter s + 1\<rparr>)"

definition next_tuple_id :: "nat tracing" where
  "next_tuple_id s = (unat (tuple_counter s), s\<lparr>tuple_counter := tuple_counter s + 1\<rparr>)"

definition record_node :: "tensor_type \<Rightarrow> expr \<Rightarrow> trace_tensor tracing" where
  "record_node ty v s = (case node_expr v s of (e, s') \<Rightarrow> (from_expr ty e, s'))"

section \<open>Scalars and operands (\<^verbatim>\<open>tensor.rs\<close>)\<close>

text \<open>
  \<open>ScalarLiteral\<close> has five implementations.  The texts that \<open>format!("{:?}")\<close> gives for floating-point
  scalars are a parameter.
\<close>

datatype 'f literal = LitBool bool | LitF32 'f | LitF64 'f | LitI32 "32 word" | LitI64 "64 word"

record 'f float_debug =
  debug_f32 :: "'f \<Rightarrow> string"
  debug_f64 :: "'f \<Rightarrow> string"

text \<open>\<open>String::insert_str\<close>; the search for a character is \<open>find_char\<close>.\<close>

definition insert_str :: "nat \<Rightarrow> string \<Rightarrow> string \<Rightarrow> string" where
  "insert_str i t s = take i s @ t @ drop i s"

definition mlir_float_literal :: "string \<Rightarrow> string" where
  "mlir_float_literal s =
     (if s = ''inf'' \<or> s = ''-inf'' \<or> s = ''NaN'' then s
      else
        (case (case find_char (CHR ''e'') s of Some i \<Rightarrow> Some i | None \<Rightarrow> find_char (CHR ''E'') s) of
           Some i \<Rightarrow> (if CHR ''.'' \<notin> set (take i s) then insert_str i ''.0'' s else s)
         | None \<Rightarrow> (if CHR ''.'' \<in> set s then s else s @ ''.0'')))"

fun const_expr :: "'f float_debug \<Rightarrow> 'f literal \<Rightarrow> expr" where
  "const_expr D (LitBool b) = EConst (if b then ''1'' else ''0'') Bool"
| "const_expr D (LitF32 x) = EConst (mlir_float_literal (debug_f32 D x)) F32"
| "const_expr D (LitF64 x) = EConst (mlir_float_literal (debug_f64 D x)) F64"
| "const_expr D (LitI32 i) = EConst (int_str (sint i)) I32"
| "const_expr D (LitI64 i) = EConst (int_str (sint i)) I64"

text \<open>\<open>TraceOperand\<close>: a traced tensor or a scalar.\<close>

datatype 'f operand = OTensor trace_tensor | OScalar "'f literal"

fun into_operand_expr :: "'f float_debug \<Rightarrow> 'f operand \<Rightarrow> expr" where
  "into_operand_expr D (OTensor t) = tr_expr t"
| "into_operand_expr D (OScalar x) = const_expr D x"

section \<open>Recording calls (\<^verbatim>\<open>expr.rs\<close>)\<close>

definition call_output :: "tensor_type \<Rightarrow> call_op \<Rightarrow> expr list \<Rightarrow> trace_tensor tracing" where
  "call_output out op args = record_node out (ECall op args)"

definition unary :: "call_op \<Rightarrow> trace_tensor \<Rightarrow> trace_tensor tracing" where
  "unary op v = record_node (tr_type v) (ECall op [tr_expr v])"

definition unary_bool :: "call_op \<Rightarrow> trace_tensor \<Rightarrow> trace_tensor tracing" where
  "unary_bool op v = record_node (bool_tensor (tr_type v)) (ECall op [tr_expr v])"

definition binary_same ::
    "'f float_debug \<Rightarrow> call_op \<Rightarrow> trace_tensor \<Rightarrow> 'f operand \<Rightarrow> trace_tensor tracing" where
  "binary_same D op l r = record_node (tr_type l) (ECall op [tr_expr l, into_operand_expr D r])"

definition binary_bool ::
    "'f float_debug \<Rightarrow> call_op \<Rightarrow> trace_tensor \<Rightarrow> 'f operand \<Rightarrow> trace_tensor tracing" where
  "binary_bool D op l r =
     record_node (bool_tensor (tr_type l)) (ECall op [tr_expr l, into_operand_expr D r])"

section \<open>Operators (\<^verbatim>\<open>tensor.rs\<close>)\<close>

text \<open>\<open>Add\<close>, \<open>Sub\<close>, \<open>Mul\<close> and \<open>Div\<close> of a tensor and a tensor of any rank or a scalar, and \<open>Neg\<close>.  The
  result has the type of the left operand.\<close>

definition tensor_binary ::
    "'f float_debug \<Rightarrow> binary_op \<Rightarrow> trace_tensor \<Rightarrow> 'f operand \<Rightarrow> trace_tensor tracing" where
  "tensor_binary D bop l r = record_node (tr_type l) (EBinary bop (tr_expr l) (into_operand_expr D r))"

definition tensor_neg :: "trace_tensor \<Rightarrow> trace_tensor tracing" where
  "tensor_neg v = record_node (tr_type v) (EUnary Neg (tr_expr v))"

section \<open>Elementwise operations (\<^verbatim>\<open>elementwise.rs\<close>)\<close>

definition abs_t :: "trace_tensor \<Rightarrow> trace_tensor tracing" where
  "abs_t v = unary OpAbs v"

definition ceil_t :: "trace_tensor \<Rightarrow> trace_tensor tracing" where
  "ceil_t v = unary OpCeil v"

definition detach_t :: "trace_tensor \<Rightarrow> trace_tensor tracing" where
  "detach_t v = unary OpDetach v"

definition exp_t :: "trace_tensor \<Rightarrow> trace_tensor tracing" where
  "exp_t v = unary OpExp v"

definition exp2_t :: "trace_tensor \<Rightarrow> trace_tensor tracing" where
  "exp2_t v = unary OpExp2 v"

definition expm1_t :: "trace_tensor \<Rightarrow> trace_tensor tracing" where
  "expm1_t v = unary OpExpM1 v"

definition floor_t :: "trace_tensor \<Rightarrow> trace_tensor tracing" where
  "floor_t v = unary OpFloor v"

definition log_t :: "trace_tensor \<Rightarrow> trace_tensor tracing" where
  "log_t v = unary OpLog v"

definition log1p_t :: "trace_tensor \<Rightarrow> trace_tensor tracing" where
  "log1p_t v = unary OpLog1P v"

definition log2_t :: "trace_tensor \<Rightarrow> trace_tensor tracing" where
  "log2_t v = unary OpLog2 v"

definition log10_t :: "trace_tensor \<Rightarrow> trace_tensor tracing" where
  "log10_t v = unary OpLog10 v"

definition relu_t :: "trace_tensor \<Rightarrow> trace_tensor tracing" where
  "relu_t v = unary OpRelu v"

definition rint_t :: "trace_tensor \<Rightarrow> trace_tensor tracing" where
  "rint_t v = unary OpRint v"

definition round_t :: "trace_tensor \<Rightarrow> trace_tensor tracing" where
  "round_t v = unary OpRound v"

definition sigmoid_t :: "trace_tensor \<Rightarrow> trace_tensor tracing" where
  "sigmoid_t v = unary OpSigmoid v"

definition sin_t :: "trace_tensor \<Rightarrow> trace_tensor tracing" where
  "sin_t v = unary OpSin v"

definition cos_t :: "trace_tensor \<Rightarrow> trace_tensor tracing" where
  "cos_t v = unary OpCos v"

definition sqrt_t :: "trace_tensor \<Rightarrow> trace_tensor tracing" where
  "sqrt_t v = unary OpSqrt v"

definition tan_t :: "trace_tensor \<Rightarrow> trace_tensor tracing" where
  "tan_t v = unary OpTan v"

definition tanh_t :: "trace_tensor \<Rightarrow> trace_tensor tracing" where
  "tanh_t v = unary OpTanh v"

definition square_t :: "trace_tensor \<Rightarrow> trace_tensor tracing" where
  "square_t v = unary OpSquare v"

definition reciprocal_t :: "trace_tensor \<Rightarrow> trace_tensor tracing" where
  "reciprocal_t v = unary OpReciprocal v"

definition isnan_t :: "trace_tensor \<Rightarrow> trace_tensor tracing" where
  "isnan_t v = unary_bool OpIsNan v"

definition zeros_like_t :: "trace_tensor \<Rightarrow> trace_tensor tracing" where
  "zeros_like_t v = unary OpZerosLike v"

definition ones_like_t :: "trace_tensor \<Rightarrow> trace_tensor tracing" where
  "ones_like_t v = unary OpOnesLike v"

definition full_like_t :: "'f float_debug \<Rightarrow> trace_tensor \<Rightarrow> 'f operand \<Rightarrow> trace_tensor tracing" where
  "full_like_t D v fill = 
     record_node (tr_type v) (ECall OpFullLike [tr_expr v, into_operand_expr D fill])"

definition minimum_t :: "'f float_debug \<Rightarrow> trace_tensor \<Rightarrow> 'f operand \<Rightarrow> trace_tensor tracing" where
  "minimum_t D l r = binary_same D OpMinimum l r"

definition maximum_t :: "'f float_debug \<Rightarrow> trace_tensor \<Rightarrow> 'f operand \<Rightarrow> trace_tensor tracing" where
  "maximum_t D l r = binary_same D OpMaximum l r"

definition pow_t :: "'f float_debug \<Rightarrow> trace_tensor \<Rightarrow> 'f operand \<Rightarrow> trace_tensor tracing" where
  "pow_t D l r = binary_same D OpPow l r"

definition clip_t :: "'f float_debug \<Rightarrow> trace_tensor \<Rightarrow> 'f operand \<Rightarrow> 'f operand \<Rightarrow> trace_tensor tracing" where
  "clip_t D v lo hi = 
     record_node (tr_type v)
       (ECall OpClip [tr_expr v, into_operand_expr D lo, into_operand_expr D hi])"

definition greater_t :: "'f float_debug \<Rightarrow> trace_tensor \<Rightarrow> 'f operand \<Rightarrow> trace_tensor tracing" where
  "greater_t D l r = binary_bool D OpGreater l r"

definition greater_equal_t :: "'f float_debug \<Rightarrow> trace_tensor \<Rightarrow> 'f operand \<Rightarrow> trace_tensor tracing" where
  "greater_equal_t D l r = binary_bool D OpGreaterEqual l r"

definition less_t :: "'f float_debug \<Rightarrow> trace_tensor \<Rightarrow> 'f operand \<Rightarrow> trace_tensor tracing" where
  "less_t D l r = binary_bool D OpLess l r"

definition less_equal_t :: "'f float_debug \<Rightarrow> trace_tensor \<Rightarrow> 'f operand \<Rightarrow> trace_tensor tracing" where
  "less_equal_t D l r = binary_bool D OpLessEqual l r"

definition equal_t :: "'f float_debug \<Rightarrow> trace_tensor \<Rightarrow> 'f operand \<Rightarrow> trace_tensor tracing" where
  "equal_t D l r = binary_bool D OpEqual l r"

definition not_equal_t :: "'f float_debug \<Rightarrow> trace_tensor \<Rightarrow> 'f operand \<Rightarrow> trace_tensor tracing" where
  "not_equal_t D l r = binary_bool D OpNotEqual l r"

definition logical_and_t :: "'f float_debug \<Rightarrow> trace_tensor \<Rightarrow> 'f operand \<Rightarrow> trace_tensor tracing" where
  "logical_and_t D l r = binary_same D OpLogicalAnd l r"

definition logical_or_t :: "'f float_debug \<Rightarrow> trace_tensor \<Rightarrow> 'f operand \<Rightarrow> trace_tensor tracing" where
  "logical_or_t D l r = binary_same D OpLogicalOr l r"

definition logical_xor_t :: "'f float_debug \<Rightarrow> trace_tensor \<Rightarrow> 'f operand \<Rightarrow> trace_tensor tracing" where
  "logical_xor_t D l r = binary_same D OpLogicalXor l r"

definition logical_not_t :: "trace_tensor \<Rightarrow> trace_tensor tracing" where
  "logical_not_t v = unary OpLogicalNot v"

definition where_t :: "tensor_type \<Rightarrow> 'f float_debug \<Rightarrow> trace_tensor \<Rightarrow> 'f operand \<Rightarrow> 'f operand \<Rightarrow> trace_tensor tracing" where
  "where_t out D condition x y = 
     call_output out OpWhere
       [tr_expr condition, into_operand_expr D x, into_operand_expr D y]"

section \<open>Shapes and indexing (\<^verbatim>\<open>shape.rs\<close>)\<close>

definition reshape_t :: "tensor_type \<Rightarrow> trace_tensor \<Rightarrow> trace_tensor tracing" where
  "reshape_t out v = call_output out (OpReshape out) [tr_expr v]"

definition broadcast_t :: "tensor_type \<Rightarrow> trace_tensor \<Rightarrow> trace_tensor tracing" where
  "broadcast_t out v = call_output out (OpBroadcast out) [tr_expr v]"

definition squeeze_t :: "tensor_type \<Rightarrow> trace_tensor \<Rightarrow> trace_tensor tracing" where
  "squeeze_t out v = call_output out (OpSqueeze out) [tr_expr v]"

definition unsqueeze_t :: "tensor_type \<Rightarrow> trace_tensor \<Rightarrow> trace_tensor tracing" where
  "unsqueeze_t out v = call_output out (OpUnsqueeze out) [tr_expr v]"

definition trace_slice :: "tensor_type \<Rightarrow> trace_tensor \<Rightarrow> nat list \<Rightarrow> trace_tensor tracing" where
  "trace_slice out v starts = call_output out (OpSlice out starts) [tr_expr v]"

definition slice_t :: "tensor_type \<Rightarrow> trace_tensor \<Rightarrow> nat list \<Rightarrow> trace_tensor tracing" where
  "slice_t out v starts = trace_slice out v starts"

definition trace_pad :: "tensor_type \<Rightarrow> trace_tensor \<Rightarrow> nat list \<Rightarrow> trace_tensor tracing" where
  "trace_pad out v lows = call_output out (OpPad out lows) [tr_expr v]"

definition pad_t :: "tensor_type \<Rightarrow> trace_tensor \<Rightarrow> nat list \<Rightarrow> trace_tensor tracing" where
  "pad_t out v lows = trace_pad out v lows"

definition trace_gather :: "tensor_type \<Rightarrow> trace_tensor \<Rightarrow> trace_tensor \<Rightarrow> nat \<Rightarrow> trace_tensor tracing" where
  "trace_gather out v indices axis = 
     call_output out (OpGather out axis) [tr_expr v, tr_expr indices]"

definition gather_t :: "tensor_type \<Rightarrow> trace_tensor \<Rightarrow> trace_tensor \<Rightarrow> nat \<Rightarrow> trace_tensor tracing" where
  "gather_t out v indices axis = trace_gather out v indices axis"

definition trace_take :: "tensor_type \<Rightarrow> trace_tensor \<Rightarrow> nat \<Rightarrow> nat \<Rightarrow> trace_tensor tracing" where
  "trace_take out v axis index = call_output out (OpTake axis index) [tr_expr v]"

definition take_t :: "tensor_type \<Rightarrow> trace_tensor \<Rightarrow> nat \<Rightarrow> nat \<Rightarrow> trace_tensor tracing" where
  "take_t out v axis index = trace_take out v axis index"

definition trace_take_along_axis :: "tensor_type \<Rightarrow> trace_tensor \<Rightarrow> trace_tensor \<Rightarrow> nat \<Rightarrow> trace_tensor tracing" where
  "trace_take_along_axis out v indices axis = 
     call_output out (OpTakeAlongAxis axis) [tr_expr v, tr_expr indices]"

definition take_along_axis_t :: "tensor_type \<Rightarrow> trace_tensor \<Rightarrow> trace_tensor \<Rightarrow> nat \<Rightarrow> trace_tensor tracing" where
  "take_along_axis_t out v indices axis = 
     trace_take_along_axis out v indices axis"

definition trace_concat :: "tensor_type \<Rightarrow> trace_tensor \<Rightarrow> trace_tensor \<Rightarrow> nat \<Rightarrow> trace_tensor tracing" where
  "trace_concat out l r axis = call_output out (OpConcat axis) [tr_expr l, tr_expr r]"

definition concat_t :: "tensor_type \<Rightarrow> trace_tensor \<Rightarrow> trace_tensor \<Rightarrow> nat \<Rightarrow> trace_tensor tracing" where
  "concat_t out l r axis = trace_concat out l r axis"

definition trace_stack :: "tensor_type \<Rightarrow> trace_tensor \<Rightarrow> trace_tensor \<Rightarrow> nat \<Rightarrow> trace_tensor tracing" where
  "trace_stack out l r axis = call_output out (OpStack axis) [tr_expr l, tr_expr r]"

definition stack_t :: "tensor_type \<Rightarrow> trace_tensor \<Rightarrow> trace_tensor \<Rightarrow> nat \<Rightarrow> trace_tensor tracing" where
  "stack_t out l r axis = trace_stack out l r axis"

definition trace_tile :: "tensor_type \<Rightarrow> trace_tensor \<Rightarrow> nat list \<Rightarrow> trace_tensor tracing" where
  "trace_tile out v multiples = call_output out (OpTile multiples) [tr_expr v]"

definition tile_t :: "tensor_type \<Rightarrow> trace_tensor \<Rightarrow> nat list \<Rightarrow> trace_tensor tracing" where
  "tile_t out v multiples = trace_tile out v multiples"

definition trace_repeat :: "tensor_type \<Rightarrow> trace_tensor \<Rightarrow> nat \<Rightarrow> nat \<Rightarrow> trace_tensor tracing" where
  "trace_repeat out v axis count = call_output out (OpRepeat axis count) [tr_expr v]"

definition repeat_t :: "tensor_type \<Rightarrow> trace_tensor \<Rightarrow> nat \<Rightarrow> nat \<Rightarrow> trace_tensor tracing" where
  "repeat_t out v axis count = trace_repeat out v axis count"

definition trace_flip :: "trace_tensor \<Rightarrow> trace_tensor tracing" where
  "trace_flip v = unary (OpFlip []) v"

definition flip_t :: "trace_tensor \<Rightarrow> trace_tensor tracing" where
  "flip_t v = trace_flip v"

definition trace_flip_axes :: "trace_tensor \<Rightarrow> nat list \<Rightarrow> trace_tensor tracing" where
  "trace_flip_axes v axes = unary (OpFlip axes) v"

definition flip_axes_t :: "trace_tensor \<Rightarrow> nat list \<Rightarrow> trace_tensor tracing" where
  "flip_axes_t v axes = trace_flip_axes v axes"

definition trace_roll :: "trace_tensor \<Rightarrow> nat \<Rightarrow> nat \<Rightarrow> trace_tensor tracing" where
  "trace_roll v axis shift = unary (OpRoll axis shift) v"

definition roll_t :: "trace_tensor \<Rightarrow> nat \<Rightarrow> nat \<Rightarrow> trace_tensor tracing" where
  "roll_t v axis shift = trace_roll v axis shift"

definition trace_transpose :: "tensor_type \<Rightarrow> trace_tensor \<Rightarrow> trace_tensor tracing" where
  "trace_transpose out v = call_output out (OpTranspose []) [tr_expr v]"

definition transpose_t :: "tensor_type \<Rightarrow> trace_tensor \<Rightarrow> trace_tensor tracing" where
  "transpose_t out v = trace_transpose out v"

definition trace_transpose_axes :: "tensor_type \<Rightarrow> trace_tensor \<Rightarrow> nat list \<Rightarrow> trace_tensor tracing" where
  "trace_transpose_axes out v axes = call_output out (OpTranspose axes) [tr_expr v]"

definition transpose_axes_t :: "tensor_type \<Rightarrow> trace_tensor \<Rightarrow> nat list \<Rightarrow> trace_tensor tracing" where
  "transpose_axes_t out v axes = trace_transpose_axes out v axes"

definition trace_permute :: "tensor_type \<Rightarrow> trace_tensor \<Rightarrow> nat list \<Rightarrow> trace_tensor tracing" where
  "trace_permute out v axes = call_output out (OpPermute out axes) [tr_expr v]"

definition permute_t :: "tensor_type \<Rightarrow> trace_tensor \<Rightarrow> nat list \<Rightarrow> trace_tensor tracing" where
  "permute_t out v axes = trace_permute out v axes"

definition trace_permute_dims :: "tensor_type \<Rightarrow> trace_tensor \<Rightarrow> nat list \<Rightarrow> trace_tensor tracing" where
  "trace_permute_dims out v axes = call_output out (OpPermuteDims axes) [tr_expr v]"

definition permute_dims_t :: "tensor_type \<Rightarrow> trace_tensor \<Rightarrow> nat list \<Rightarrow> trace_tensor tracing" where
  "permute_dims_t out v axes = trace_permute_dims out v axes"

definition trace_swapaxes :: "tensor_type \<Rightarrow> trace_tensor \<Rightarrow> nat \<Rightarrow> nat \<Rightarrow> trace_tensor tracing" where
  "trace_swapaxes out v axis0 axis1 = call_output out (OpSwapAxes axis0 axis1) [tr_expr v]"

definition swapaxes_t :: "tensor_type \<Rightarrow> trace_tensor \<Rightarrow> nat \<Rightarrow> nat \<Rightarrow> trace_tensor tracing" where
  "swapaxes_t out v axis0 axis1 = trace_swapaxes out v axis0 axis1"

definition trace_moveaxis :: "tensor_type \<Rightarrow> trace_tensor \<Rightarrow> nat \<Rightarrow> nat \<Rightarrow> trace_tensor tracing" where
  "trace_moveaxis out v source destination = call_output out (OpMoveAxis source destination) [tr_expr v]"

definition moveaxis_t :: "tensor_type \<Rightarrow> trace_tensor \<Rightarrow> nat \<Rightarrow> nat \<Rightarrow> trace_tensor tracing" where
  "moveaxis_t out v source destination = trace_moveaxis out v source destination"

section \<open>Linear algebra (\<^verbatim>\<open>linalg.rs\<close>)\<close>

text \<open>The implementations of the trait \<open>Matmul\<close> by the rank of the left operand:
  the shape of \<open>Output\<close>, or \<open>None\<close> where there is none and a program does not compile.\<close>

definition matmul1 :: "nat \<Rightarrow> nat list \<Rightarrow> nat list option" where
  "matmul1 k rhs =
     (case rhs of
        [k'] \<Rightarrow> if k = k' then Some [] else None
      | [k', n] \<Rightarrow> if k = k' then Some [n] else None
      | _ \<Rightarrow> None)"

definition matmul2 :: "nat \<Rightarrow> nat \<Rightarrow> nat list \<Rightarrow> nat list option" where
  "matmul2 m k rhs =
     (case rhs of
        [k'] \<Rightarrow> if k = k' then Some [m] else None
      | [k', n] \<Rightarrow> if k = k' then Some [m, n] else None
      | [b0, k', n] \<Rightarrow> if k = k' then Some [b0, m, n] else None
      | _ \<Rightarrow> None)"

definition matmul3 :: "nat \<Rightarrow> nat \<Rightarrow> nat \<Rightarrow> nat list \<Rightarrow> nat list option" where
  "matmul3 b0 m k rhs =
     (case rhs of
        [k', n] \<Rightarrow> if k = k' then Some [b0, m, n] else None
      | [b0', k', n] \<Rightarrow> if k = k' \<and> b0 = b0' then Some [b0, m, n] else None
      | _ \<Rightarrow> None)"

definition matmul4 :: "nat \<Rightarrow> nat \<Rightarrow> nat \<Rightarrow> nat \<Rightarrow> nat list \<Rightarrow> nat list option" where
  "matmul4 b0 b1 m k rhs =
     (case rhs of
        [b1', k', n] \<Rightarrow> if k = k' \<and> b1 = 1 then Some [b0, b1', m, n] else None
      | [b0', b1', k', n] \<Rightarrow> if k = k' \<and> [b0, b1] = [b0', b1'] then Some [b0, b1, m, n] else None
      | _ \<Rightarrow> None)"

definition matmul5 :: "nat list \<Rightarrow> nat \<Rightarrow> nat \<Rightarrow> nat list \<Rightarrow> nat list option" where
  "matmul5 b m k rhs =
     (case rhs of
        [b0', b1', b2', k', n] \<Rightarrow> if k = k' \<and> b = [b0', b1', b2'] then Some (b @ [m, n]) else None
      | _ \<Rightarrow> None)"

definition matmul6 :: "nat list \<Rightarrow> nat \<Rightarrow> nat \<Rightarrow> nat list \<Rightarrow> nat list option" where
  "matmul6 b m k rhs =
     (case rhs of
        [b0', b1', b2', b3', k', n] \<Rightarrow>
          if k = k' \<and> b = [b0', b1', b2', b3'] then Some (b @ [m, n]) else None
      | _ \<Rightarrow> None)"

definition matmul_shape :: "nat list \<Rightarrow> nat list \<Rightarrow> nat list option" where
  "matmul_shape lhs rhs =
     (case lhs of
        [k] \<Rightarrow> matmul1 k rhs
      | [m, k] \<Rightarrow> matmul2 m k rhs
      | [b0, m, k] \<Rightarrow> matmul3 b0 m k rhs
      | [b0, b1, m, k] \<Rightarrow> matmul4 b0 b1 m k rhs
      | [b0, b1, b2, m, k] \<Rightarrow> matmul5 [b0, b1, b2] m k rhs
      | [b0, b1, b2, b3, m, k] \<Rightarrow> matmul6 [b0, b1, b2, b3] m k rhs
      | _ \<Rightarrow> None)"

definition matmul_output :: "tensor_type \<Rightarrow> tensor_type \<Rightarrow> tensor_type option" where
  "matmul_output l r =
     (if elem l = elem r then map_option (tensor (elem l)) (matmul_shape (shape l) (shape r)) else None)"

definition matmul_t :: "trace_tensor \<Rightarrow> trace_tensor \<Rightarrow> trace_tensor tracing option" where
  "matmul_t l r =
     map_option (\<lambda>out. record_node out (ECall OpMatmul [tr_expr l, tr_expr r]))
       (matmul_output (tr_type l) (tr_type r))"

definition dot_t :: "tensor_type \<Rightarrow> trace_tensor \<Rightarrow> trace_tensor \<Rightarrow> trace_tensor tracing" where
  "dot_t out l r = call_output out OpDot [tr_expr l, tr_expr r]"

definition inner_t :: "tensor_type \<Rightarrow> trace_tensor \<Rightarrow> trace_tensor \<Rightarrow> trace_tensor tracing" where
  "inner_t out l r = call_output out OpInner [tr_expr l, tr_expr r]"

definition outer_t :: "tensor_type \<Rightarrow> trace_tensor \<Rightarrow> trace_tensor \<Rightarrow> trace_tensor tracing" where
  "outer_t out l r = call_output out OpOuter [tr_expr l, tr_expr r]"

definition trace_vecdot :: "tensor_type \<Rightarrow> trace_tensor \<Rightarrow> trace_tensor \<Rightarrow> trace_tensor tracing" where
  "trace_vecdot out l r = call_output out (OpVecdot None) [tr_expr l, tr_expr r]"

definition vecdot_t :: "tensor_type \<Rightarrow> trace_tensor \<Rightarrow> trace_tensor \<Rightarrow> trace_tensor tracing" where
  "vecdot_t out l r = trace_vecdot out l r"

definition trace_vecdot_axis :: "tensor_type \<Rightarrow> trace_tensor \<Rightarrow> trace_tensor \<Rightarrow> nat \<Rightarrow> trace_tensor tracing" where
  "trace_vecdot_axis out l r axis = 
     call_output out (OpVecdot (Some axis)) [tr_expr l, tr_expr r]"

definition vecdot_axis_t :: "tensor_type \<Rightarrow> trace_tensor \<Rightarrow> trace_tensor \<Rightarrow> nat \<Rightarrow> trace_tensor tracing" where
  "vecdot_axis_t out l r axis = trace_vecdot_axis out l r axis"

definition trace_trace :: "tensor_type \<Rightarrow> trace_tensor \<Rightarrow> trace_tensor tracing" where
  "trace_trace out v = call_output out (OpTrace None) [tr_expr v]"

definition trace_t :: "tensor_type \<Rightarrow> trace_tensor \<Rightarrow> trace_tensor tracing" where
  "trace_t out v = trace_trace out v"

definition trace_trace_axes :: "tensor_type \<Rightarrow> trace_tensor \<Rightarrow> nat \<Rightarrow> nat \<Rightarrow> trace_tensor tracing" where
  "trace_trace_axes out v axis0 axis1 = 
     call_output out (OpTrace (Some (axis0, axis1))) [tr_expr v]"

definition trace_axes_t :: "tensor_type \<Rightarrow> trace_tensor \<Rightarrow> nat \<Rightarrow> nat \<Rightarrow> trace_tensor tracing" where
  "trace_axes_t out v axis0 axis1 = trace_trace_axes out v axis0 axis1"

definition trace_diagonal :: "tensor_type \<Rightarrow> trace_tensor \<Rightarrow> trace_tensor tracing" where
  "trace_diagonal out v = call_output out (OpDiagonal None) [tr_expr v]"

definition diagonal_t :: "tensor_type \<Rightarrow> trace_tensor \<Rightarrow> trace_tensor tracing" where
  "diagonal_t out v = trace_diagonal out v"

definition trace_diagonal_axes :: "tensor_type \<Rightarrow> trace_tensor \<Rightarrow> nat \<Rightarrow> nat \<Rightarrow> trace_tensor tracing" where
  "trace_diagonal_axes out v axis0 axis1 = 
     call_output out (OpDiagonal (Some (axis0, axis1))) [tr_expr v]"

definition diagonal_axes_t :: "tensor_type \<Rightarrow> trace_tensor \<Rightarrow> nat \<Rightarrow> nat \<Rightarrow> trace_tensor tracing" where
  "diagonal_axes_t out v axis0 axis1 = trace_diagonal_axes out v axis0 axis1"

section \<open>Reductions (\<^verbatim>\<open>reductions.rs\<close>)\<close>

definition trace_all_all :: "tensor_type \<Rightarrow> trace_tensor \<Rightarrow> trace_tensor tracing" where
  "trace_all_all out v = call_output out (OpAll AxisAll) [tr_expr v]"

definition trace_all_axis :: "tensor_type \<Rightarrow> trace_tensor \<Rightarrow> nat \<Rightarrow> trace_tensor tracing" where
  "trace_all_axis out v axis = call_output out (OpAll (AxisOne axis)) [tr_expr v]"

definition trace_any_all :: "tensor_type \<Rightarrow> trace_tensor \<Rightarrow> trace_tensor tracing" where
  "trace_any_all out v = call_output out (OpAny AxisAll) [tr_expr v]"

definition trace_any_axis :: "tensor_type \<Rightarrow> trace_tensor \<Rightarrow> nat \<Rightarrow> trace_tensor tracing" where
  "trace_any_axis out v axis = call_output out (OpAny (AxisOne axis)) [tr_expr v]"

definition trace_argmax_all :: "tensor_type \<Rightarrow> trace_tensor \<Rightarrow> trace_tensor tracing" where
  "trace_argmax_all out v = call_output out (OpArgmax AxisAll) [tr_expr v]"

definition trace_argmax_axis :: "tensor_type \<Rightarrow> trace_tensor \<Rightarrow> nat \<Rightarrow> trace_tensor tracing" where
  "trace_argmax_axis out v axis = call_output out (OpArgmax (AxisOne axis)) [tr_expr v]"

definition trace_argmin_all :: "tensor_type \<Rightarrow> trace_tensor \<Rightarrow> trace_tensor tracing" where
  "trace_argmin_all out v = call_output out (OpArgmin AxisAll) [tr_expr v]"

definition trace_argmin_axis :: "tensor_type \<Rightarrow> trace_tensor \<Rightarrow> nat \<Rightarrow> trace_tensor tracing" where
  "trace_argmin_axis out v axis = call_output out (OpArgmin (AxisOne axis)) [tr_expr v]"

definition trace_max_all :: "tensor_type \<Rightarrow> trace_tensor \<Rightarrow> trace_tensor tracing" where
  "trace_max_all out v = call_output out (OpMax AxisAll) [tr_expr v]"

definition trace_max_axis :: "tensor_type \<Rightarrow> trace_tensor \<Rightarrow> nat \<Rightarrow> trace_tensor tracing" where
  "trace_max_axis out v axis = call_output out (OpMax (AxisOne axis)) [tr_expr v]"

definition trace_mean_all :: "tensor_type \<Rightarrow> trace_tensor \<Rightarrow> trace_tensor tracing" where
  "trace_mean_all out v = call_output out (OpMean AxisAll) [tr_expr v]"

definition trace_mean_axis :: "tensor_type \<Rightarrow> trace_tensor \<Rightarrow> nat \<Rightarrow> trace_tensor tracing" where
  "trace_mean_axis out v axis = call_output out (OpMean (AxisOne axis)) [tr_expr v]"

definition trace_min_all :: "tensor_type \<Rightarrow> trace_tensor \<Rightarrow> trace_tensor tracing" where
  "trace_min_all out v = call_output out (OpMin AxisAll) [tr_expr v]"

definition trace_min_axis :: "tensor_type \<Rightarrow> trace_tensor \<Rightarrow> nat \<Rightarrow> trace_tensor tracing" where
  "trace_min_axis out v axis = call_output out (OpMin (AxisOne axis)) [tr_expr v]"

definition trace_prod_all :: "tensor_type \<Rightarrow> trace_tensor \<Rightarrow> trace_tensor tracing" where
  "trace_prod_all out v = call_output out (OpProd AxisAll) [tr_expr v]"

definition trace_prod_axis :: "tensor_type \<Rightarrow> trace_tensor \<Rightarrow> nat \<Rightarrow> trace_tensor tracing" where
  "trace_prod_axis out v axis = call_output out (OpProd (AxisOne axis)) [tr_expr v]"

definition trace_ptp_all :: "tensor_type \<Rightarrow> trace_tensor \<Rightarrow> trace_tensor tracing" where
  "trace_ptp_all out v = call_output out (OpPtp AxisAll) [tr_expr v]"

definition trace_ptp_axis :: "tensor_type \<Rightarrow> trace_tensor \<Rightarrow> nat \<Rightarrow> trace_tensor tracing" where
  "trace_ptp_axis out v axis = call_output out (OpPtp (AxisOne axis)) [tr_expr v]"

definition trace_std_all :: "tensor_type \<Rightarrow> trace_tensor \<Rightarrow> trace_tensor tracing" where
  "trace_std_all out v = call_output out (OpStd AxisAll) [tr_expr v]"

definition trace_std_axis :: "tensor_type \<Rightarrow> trace_tensor \<Rightarrow> nat \<Rightarrow> trace_tensor tracing" where
  "trace_std_axis out v axis = call_output out (OpStd (AxisOne axis)) [tr_expr v]"

definition trace_sum_all :: "tensor_type \<Rightarrow> trace_tensor \<Rightarrow> trace_tensor tracing" where
  "trace_sum_all out v = call_output out (OpSum AxisAll) [tr_expr v]"

definition trace_sum_axis :: "tensor_type \<Rightarrow> trace_tensor \<Rightarrow> nat \<Rightarrow> trace_tensor tracing" where
  "trace_sum_axis out v axis = call_output out (OpSum (AxisOne axis)) [tr_expr v]"

definition trace_var_all :: "tensor_type \<Rightarrow> trace_tensor \<Rightarrow> trace_tensor tracing" where
  "trace_var_all out v = call_output out (OpVar AxisAll) [tr_expr v]"

definition trace_var_axis :: "tensor_type \<Rightarrow> trace_tensor \<Rightarrow> nat \<Rightarrow> trace_tensor tracing" where
  "trace_var_axis out v axis = call_output out (OpVar (AxisOne axis)) [tr_expr v]"

definition sum_t :: "tensor_type \<Rightarrow> trace_tensor \<Rightarrow> trace_tensor tracing" where
  "sum_t out v = trace_sum_all out v"

definition sum_axis_t :: "tensor_type \<Rightarrow> trace_tensor \<Rightarrow> nat \<Rightarrow> trace_tensor tracing" where
  "sum_axis_t out v axis = trace_sum_axis out v axis"

definition prod_t :: "tensor_type \<Rightarrow> trace_tensor \<Rightarrow> trace_tensor tracing" where
  "prod_t out v = trace_prod_all out v"

definition prod_axis_t :: "tensor_type \<Rightarrow> trace_tensor \<Rightarrow> nat \<Rightarrow> trace_tensor tracing" where
  "prod_axis_t out v axis = trace_prod_axis out v axis"

definition mean_t :: "tensor_type \<Rightarrow> trace_tensor \<Rightarrow> trace_tensor tracing" where
  "mean_t out v = trace_mean_all out v"

definition mean_axis_t :: "tensor_type \<Rightarrow> trace_tensor \<Rightarrow> nat \<Rightarrow> trace_tensor tracing" where
  "mean_axis_t out v axis = trace_mean_axis out v axis"

definition max_t :: "tensor_type \<Rightarrow> trace_tensor \<Rightarrow> trace_tensor tracing" where
  "max_t out v = trace_max_all out v"

definition max_axis_t :: "tensor_type \<Rightarrow> trace_tensor \<Rightarrow> nat \<Rightarrow> trace_tensor tracing" where
  "max_axis_t out v axis = trace_max_axis out v axis"

definition amax_t :: "tensor_type \<Rightarrow> trace_tensor \<Rightarrow> trace_tensor tracing" where
  "amax_t out v = trace_max_all out v"

definition amax_axis_t :: "tensor_type \<Rightarrow> trace_tensor \<Rightarrow> nat \<Rightarrow> trace_tensor tracing" where
  "amax_axis_t out v axis = trace_max_axis out v axis"

definition min_t :: "tensor_type \<Rightarrow> trace_tensor \<Rightarrow> trace_tensor tracing" where
  "min_t out v = trace_min_all out v"

definition min_axis_t :: "tensor_type \<Rightarrow> trace_tensor \<Rightarrow> nat \<Rightarrow> trace_tensor tracing" where
  "min_axis_t out v axis = trace_min_axis out v axis"

definition amin_t :: "tensor_type \<Rightarrow> trace_tensor \<Rightarrow> trace_tensor tracing" where
  "amin_t out v = trace_min_all out v"

definition amin_axis_t :: "tensor_type \<Rightarrow> trace_tensor \<Rightarrow> nat \<Rightarrow> trace_tensor tracing" where
  "amin_axis_t out v axis = trace_min_axis out v axis"

definition argmax_t :: "tensor_type \<Rightarrow> trace_tensor \<Rightarrow> trace_tensor tracing" where
  "argmax_t out v = trace_argmax_all out v"

definition argmax_axis_t :: "tensor_type \<Rightarrow> trace_tensor \<Rightarrow> nat \<Rightarrow> trace_tensor tracing" where
  "argmax_axis_t out v axis = trace_argmax_axis out v axis"

definition argmin_t :: "tensor_type \<Rightarrow> trace_tensor \<Rightarrow> trace_tensor tracing" where
  "argmin_t out v = trace_argmin_all out v"

definition argmin_axis_t :: "tensor_type \<Rightarrow> trace_tensor \<Rightarrow> nat \<Rightarrow> trace_tensor tracing" where
  "argmin_axis_t out v axis = trace_argmin_axis out v axis"

definition var_t :: "tensor_type \<Rightarrow> trace_tensor \<Rightarrow> trace_tensor tracing" where
  "var_t out v = trace_var_all out v"

definition var_axis_t :: "tensor_type \<Rightarrow> trace_tensor \<Rightarrow> nat \<Rightarrow> trace_tensor tracing" where
  "var_axis_t out v axis = trace_var_axis out v axis"

definition std_t :: "tensor_type \<Rightarrow> trace_tensor \<Rightarrow> trace_tensor tracing" where
  "std_t out v = trace_std_all out v"

definition std_axis_t :: "tensor_type \<Rightarrow> trace_tensor \<Rightarrow> nat \<Rightarrow> trace_tensor tracing" where
  "std_axis_t out v axis = trace_std_axis out v axis"

definition ptp_t :: "tensor_type \<Rightarrow> trace_tensor \<Rightarrow> trace_tensor tracing" where
  "ptp_t out v = trace_ptp_all out v"

definition ptp_axis_t :: "tensor_type \<Rightarrow> trace_tensor \<Rightarrow> nat \<Rightarrow> trace_tensor tracing" where
  "ptp_axis_t out v axis = trace_ptp_axis out v axis"

definition all_t :: "tensor_type \<Rightarrow> trace_tensor \<Rightarrow> trace_tensor tracing" where
  "all_t out v = trace_all_all out v"

definition all_axis_t :: "tensor_type \<Rightarrow> trace_tensor \<Rightarrow> nat \<Rightarrow> trace_tensor tracing" where
  "all_axis_t out v axis = trace_all_axis out v axis"

definition any_t :: "tensor_type \<Rightarrow> trace_tensor \<Rightarrow> trace_tensor tracing" where
  "any_t out v = trace_any_all out v"

definition any_axis_t :: "tensor_type \<Rightarrow> trace_tensor \<Rightarrow> nat \<Rightarrow> trace_tensor tracing" where
  "any_axis_t out v axis = trace_any_axis out v axis"

definition softmax_t :: "trace_tensor \<Rightarrow> trace_tensor tracing" where
  "softmax_t v = unary (OpSoftmax AxisAll) v"

definition trace_softmax_axis :: "trace_tensor \<Rightarrow> nat \<Rightarrow> trace_tensor tracing" where
  "trace_softmax_axis v axis = unary (OpSoftmax (AxisOne axis)) v"

definition softmax_axis_t :: "trace_tensor \<Rightarrow> nat \<Rightarrow> trace_tensor tracing" where
  "softmax_axis_t v axis = trace_softmax_axis v axis"

section \<open>Static tensors (\<^verbatim>\<open>creation.rs\<close>)\<close>

definition trace_arange1 :: "tensor_type \<Rightarrow> 'f float_debug \<Rightarrow> 'f operand \<Rightarrow> trace_tensor tracing" where
  "trace_arange1 out D stop = call_output out (OpArange out) [into_operand_expr D stop]"

definition arange_to_t :: "tensor_type \<Rightarrow> 'f float_debug \<Rightarrow> 'f operand \<Rightarrow> trace_tensor tracing" where
  "arange_to_t out D stop = trace_arange1 out D stop"

definition trace_arange2 :: "tensor_type \<Rightarrow> 'f float_debug \<Rightarrow> 'f operand \<Rightarrow> 'f operand \<Rightarrow> trace_tensor tracing" where
  "trace_arange2 out D start stop = 
     call_output out (OpArange out) [into_operand_expr D start, into_operand_expr D stop]"

definition arange_t :: "tensor_type \<Rightarrow> 'f float_debug \<Rightarrow> 'f operand \<Rightarrow> 'f operand \<Rightarrow> trace_tensor tracing" where
  "arange_t out D start stop = trace_arange2 out D start stop"

definition trace_arange3 :: "tensor_type \<Rightarrow> 'f float_debug \<Rightarrow> 'f operand \<Rightarrow> 'f operand \<Rightarrow> 'f operand \<Rightarrow> trace_tensor tracing" where
  "trace_arange3 out D start stop step = 
     call_output out (OpArange out)
       [into_operand_expr D start, into_operand_expr D stop, into_operand_expr D step]"

definition arange_step_t :: "tensor_type \<Rightarrow> 'f float_debug \<Rightarrow> 'f operand \<Rightarrow> 'f operand \<Rightarrow> 'f operand \<Rightarrow> trace_tensor tracing" where
  "arange_step_t out D start stop step = trace_arange3 out D start stop step"

definition linspace_t :: "tensor_type \<Rightarrow> 'f float_debug \<Rightarrow> 'f operand \<Rightarrow> 'f operand \<Rightarrow> trace_tensor tracing" where
  "linspace_t out D start stop = 
     call_output out (OpLinspace out) [into_operand_expr D start, into_operand_expr D stop]"

definition eye_t :: "tensor_type \<Rightarrow> trace_tensor tracing" where
  "eye_t out = call_output out (OpEye out) []"

definition identity_t :: "tensor_type \<Rightarrow> trace_tensor tracing" where
  "identity_t out = eye_t out"

section \<open>Convolution and pooling (\<^verbatim>\<open>conv.rs\<close>, \<^verbatim>\<open>pool.rs\<close>)\<close>

text \<open>The builders of static options, whose padding is the array \<open>[top, bottom, left, right]\<close>.\<close>

record conv_builder =
  cb_padding :: "nat \<times> nat \<times> nat \<times> nat"
  cb_stride :: "nat \<times> nat"
  cb_dilation :: "nat \<times> nat"
  cb_groups :: nat

definition conv_new :: conv_builder where
  "conv_new = \<lparr>cb_padding = (0, 0, 0, 0), cb_stride = (1, 1), cb_dilation = (1, 1), cb_groups = 1\<rparr>"

definition with_conv_padding :: "nat \<Rightarrow> nat \<Rightarrow> nat \<Rightarrow> nat \<Rightarrow> conv_builder \<Rightarrow> conv_builder" where
  "with_conv_padding upper bottom left right b = b\<lparr>cb_padding := (upper, bottom, left, right)\<rparr>"

definition with_conv_stride :: "nat \<Rightarrow> nat \<Rightarrow> conv_builder \<Rightarrow> conv_builder" where
  "with_conv_stride height width b = b\<lparr>cb_stride := (height, width)\<rparr>"

definition with_conv_dilation :: "nat \<Rightarrow> nat \<Rightarrow> conv_builder \<Rightarrow> conv_builder" where
  "with_conv_dilation height width b = b\<lparr>cb_dilation := (height, width)\<rparr>"

definition with_conv_groups :: "nat \<Rightarrow> conv_builder \<Rightarrow> conv_builder" where
  "with_conv_groups groups b = b\<lparr>cb_groups := groups\<rparr>"

definition conv_into_core :: "conv_builder \<Rightarrow> conv2d_options" where
  "conv_into_core b =
     (case cb_padding b of (upper, bottom, left, right) \<Rightarrow>
        \<lparr>conv_padding = \<lparr>pad_top = upper, pad_bottom = bottom, pad_left = left, pad_right = right\<rparr>,
         conv_stride = cb_stride b, conv_dilation = cb_dilation b, conv_groups = cb_groups b\<rparr>)"

record pool_builder =
  pb_kernel :: "nat \<times> nat"
  pb_padding :: "nat \<times> nat \<times> nat \<times> nat"
  pb_stride :: "nat \<times> nat"
  pb_dilation :: "nat \<times> nat"

definition pool_new :: "nat \<Rightarrow> nat \<Rightarrow> pool_builder" where
  "pool_new kernel_height kernel_width =
     \<lparr>pb_kernel = (kernel_height, kernel_width), pb_padding = (0, 0, 0, 0),
      pb_stride = (kernel_height, kernel_width), pb_dilation = (1, 1)\<rparr>"

definition with_pool_padding :: "nat \<Rightarrow> nat \<Rightarrow> nat \<Rightarrow> nat \<Rightarrow> pool_builder \<Rightarrow> pool_builder" where
  "with_pool_padding upper bottom left right b = b\<lparr>pb_padding := (upper, bottom, left, right)\<rparr>"

definition with_pool_stride :: "nat \<Rightarrow> nat \<Rightarrow> pool_builder \<Rightarrow> pool_builder" where
  "with_pool_stride height width b = b\<lparr>pb_stride := (height, width)\<rparr>"

definition with_pool_dilation :: "nat \<Rightarrow> nat \<Rightarrow> pool_builder \<Rightarrow> pool_builder" where
  "with_pool_dilation height width b = b\<lparr>pb_dilation := (height, width)\<rparr>"

definition pool_into_core :: "pool_builder \<Rightarrow> pool2d_options" where
  "pool_into_core b =
     (case pb_padding b of (upper, bottom, left, right) \<Rightarrow>
        \<lparr>pool_kernel = pb_kernel b,
         pool_padding = \<lparr>pad_top = upper, pad_bottom = bottom, pad_left = left, pad_right = right\<rparr>,
         pool_stride = pb_stride b, pool_dilation = pb_dilation b\<rparr>)"

definition conv2d_options_t :: "tensor_type \<Rightarrow> trace_tensor \<Rightarrow> trace_tensor \<Rightarrow> conv_builder \<Rightarrow> trace_tensor tracing" where
  "conv2d_options_t out l r options = 
     call_output out (OpConv2d (conv_into_core options)) [tr_expr l, tr_expr r]"

definition trace_conv2d :: "tensor_type \<Rightarrow> trace_tensor \<Rightarrow> trace_tensor \<Rightarrow> trace_tensor tracing" where
  "trace_conv2d out l r = conv2d_options_t out l r conv_new"

definition conv2d_t :: "tensor_type \<Rightarrow> trace_tensor \<Rightarrow> trace_tensor \<Rightarrow> trace_tensor tracing" where
  "conv2d_t out l r = trace_conv2d out l r"

definition max_pool2d_options_t :: "tensor_type \<Rightarrow> trace_tensor \<Rightarrow> pool_builder \<Rightarrow> trace_tensor tracing" where
  "max_pool2d_options_t out v options = 
     call_output out (OpMaxPool2d (pool_into_core options)) [tr_expr v]"

definition max_pool2d_t :: "tensor_type \<Rightarrow> trace_tensor \<Rightarrow> trace_tensor tracing" where
  "max_pool2d_t out v = max_pool2d_options_t out v (pool_new 2 2)"

definition avg_pool2d_options_t :: "tensor_type \<Rightarrow> trace_tensor \<Rightarrow> pool_builder \<Rightarrow> trace_tensor tracing" where
  "avg_pool2d_options_t out v options = 
     call_output out (OpAvgPool2d (pool_into_core options)) [tr_expr v]"

definition avg_pool2d_t :: "tensor_type \<Rightarrow> trace_tensor \<Rightarrow> trace_tensor tracing" where
  "avg_pool2d_t out v = avg_pool2d_options_t out v (pool_new 2 2)"

section \<open>Tuples (\<^verbatim>\<open>context.rs\<close>, \<^verbatim>\<open>shape.rs\<close>)\<close>

text \<open>
  A value of a type that implements \<open>TraceVars\<close> is one traced tensor or a tuple of two to six: the
  list of its components, and the type the list of their types.
\<close>

definition var_count :: "tensor_type list \<Rightarrow> nat" where
  "var_count outs = length outs"

definition from_tuple_expr :: "tensor_type list \<Rightarrow> nat \<Rightarrow> expr \<Rightarrow> trace_tensor list" where
  "from_tuple_expr outs tuple_id v =
     map2 (\<lambda>ty index. from_expr ty (ETupleGet tuple_id v index)) outs [0..<length outs]"

definition record_tuple :: "tensor_type list \<Rightarrow> expr \<Rightarrow> trace_tensor list tracing" where
  "record_tuple outs v s = (case next_tuple_id s of (tuple_id, s') \<Rightarrow> (from_tuple_expr outs tuple_id v, s'))"

text \<open>\<open>split\<close> panics when the sections do not match the requested outputs; the panic carries both
  counts.  The call itself is not wrapped in a node: its projections share a tuple id.\<close>

definition trace_split ::
    "tensor_type list \<Rightarrow> trace_tensor \<Rightarrow> nat \<Rightarrow> nat list \<Rightarrow> tracer
      \<Rightarrow> (nat \<times> nat) + (trace_tensor list \<times> tracer)" where
  "trace_split outs v axis sections s =
     (if length sections \<noteq> var_count outs then Inl (length sections, var_count outs)
      else Inr (record_tuple outs (ECall (OpSplit axis sections) [tr_expr v]) s))"

definition split_t ::
    "tensor_type list \<Rightarrow> trace_tensor \<Rightarrow> nat \<Rightarrow> nat list \<Rightarrow> tracer
      \<Rightarrow> (nat \<times> nat) + (trace_tensor list \<times> tracer)" where
  "split_t outs v axis sections = trace_split outs v axis sections"

section \<open>Random tensors (\<^verbatim>\<open>random.rs\<close>)\<close>

text \<open>Static random tensors are calls outside any node; runtime ones are pairs of the samples and the
  next key.\<close>

definition trace_static_random_uniform ::
    "tensor_type \<Rightarrow> 'f float_debug \<Rightarrow> 64 word \<Rightarrow> 'f literal \<Rightarrow> 'f literal \<Rightarrow> trace_tensor" where
  "trace_static_random_uniform out D seed low high =
     from_expr out (ECall (OpStaticRandomUniform out seed) [const_expr D low, const_expr D high])"

definition uniform_static_t ::
    "tensor_type \<Rightarrow> 'f float_debug \<Rightarrow> 64 word \<Rightarrow> 'f literal \<Rightarrow> 'f literal \<Rightarrow> trace_tensor" where
  "uniform_static_t out D seed low high = trace_static_random_uniform out D seed low high"

definition trace_static_random_int ::
    "tensor_type \<Rightarrow> 'f float_debug \<Rightarrow> 64 word \<Rightarrow> 'f literal \<Rightarrow> 'f literal \<Rightarrow> trace_tensor" where
  "trace_static_random_int out D seed low high =
     from_expr out (ECall (OpStaticRandomInt out seed) [const_expr D low, const_expr D high])"

definition randint_static_t ::
    "tensor_type \<Rightarrow> 'f float_debug \<Rightarrow> 64 word \<Rightarrow> 'f literal \<Rightarrow> 'f literal \<Rightarrow> trace_tensor" where
  "randint_static_t out D seed low high = trace_static_random_int out D seed low high"

definition trace_random_uniform ::
    "tensor_type \<Rightarrow> 'f float_debug \<Rightarrow> trace_tensor \<Rightarrow> 'f literal \<Rightarrow> 'f literal \<Rightarrow> trace_tensor list tracing" where
  "trace_random_uniform out D key low high =
     record_tuple [out, tensor I64 []]
       (ECall (OpRandomUniform out) [tr_expr key, const_expr D low, const_expr D high])"

definition uniform_t ::
    "tensor_type \<Rightarrow> 'f float_debug \<Rightarrow> trace_tensor \<Rightarrow> 'f literal \<Rightarrow> 'f literal \<Rightarrow> trace_tensor list tracing" where
  "uniform_t out D key low high = trace_random_uniform out D key low high"

text \<open>\<open>RandomFloatElement::zero\<close> and \<open>one\<close>, given by the values \<open>zero\<close> and \<open>one'\<close> of the float type.\<close>

fun random_float_bounds :: "'f \<Rightarrow> 'f \<Rightarrow> element_type \<Rightarrow> ('f literal \<times> 'f literal) option" where
  "random_float_bounds zero one' F32 = Some (LitF32 zero, LitF32 one')"
| "random_float_bounds zero one' F64 = Some (LitF64 zero, LitF64 one')"
| "random_float_bounds zero one' _ = None"

definition rand_t ::
    "tensor_type \<Rightarrow> 'f float_debug \<Rightarrow> 'f \<Rightarrow> 'f \<Rightarrow> trace_tensor \<Rightarrow> trace_tensor list tracing option" where
  "rand_t out D zero one' key =
     map_option (\<lambda>(low, high). uniform_t out D key low high) (random_float_bounds zero one' (elem out))"

definition trace_random_int ::
    "tensor_type \<Rightarrow> 'f float_debug \<Rightarrow> trace_tensor \<Rightarrow> 'f literal \<Rightarrow> 'f literal \<Rightarrow> trace_tensor list tracing" where
  "trace_random_int out D key low high =
     record_tuple [out, tensor I64 []]
       (ECall (OpRandomInt out) [tr_expr key, const_expr D low, const_expr D high])"

definition randint_t ::
    "tensor_type \<Rightarrow> 'f float_debug \<Rightarrow> trace_tensor \<Rightarrow> 'f literal \<Rightarrow> 'f literal \<Rightarrow> trace_tensor list tracing" where
  "randint_t out D key low high = trace_random_int out D key low high"

end
