(* ===== verification/Trace_Context.thy ===== *)
theory Trace_Context
  imports Trace_Ops Normalize_Correct
begin

text \<open>
  \<^verbatim>\<open>crates/knok-build/src/trace/context.rs\<close>: the tracing context, which registers the inputs of a
  graph and turns the traced outputs into a checked graph, and the states that programs written
  against the DSL reach.
\<close>

section \<open>The context\<close>

record trace_context =
  ctx_inputs :: "input list"

definition context_default :: trace_context where
  "context_default = \<lparr>ctx_inputs = []\<rparr>"

definition context_input :: "tensor_type \<Rightarrow> string \<Rightarrow> trace_context \<Rightarrow> trace_tensor \<times> trace_context" where
  "context_input ty name ctx =
     (from_expr ty (EVar name),
      ctx\<lparr>ctx_inputs := ctx_inputs ctx @ [\<lparr>input_name = name, input_ty = ty\<rparr>]\<rparr>)"

text \<open>\<open>TraceOutput\<close> for a tensor or a tuple of tensors.\<close>

definition output_exprs :: "trace_tensor list \<Rightarrow> expr list" where
  "output_exprs outs = map tr_expr outs"

definition output_types :: "trace_tensor list \<Rightarrow> tensor_type list" where
  "output_types outs = map tr_type outs"

definition finish ::
    "'f f64_ops \<Rightarrow> trace_context \<Rightarrow> string \<Rightarrow> string \<Rightarrow> trace_tensor list \<Rightarrow> typed_graph result" where
  "finish F ctx name backend outs =
     (let body = output_exprs outs;
          reserved_names = map input_name (ctx_inputs ctx)
      in rbind (let_bind_nodes body reserved_names) (\<lambda>(lets, body').
         type_check F
           \<lparr>graph_name = name, graph_backend = backend, graph_inputs = ctx_inputs ctx,
            graph_outputs = output_types outs, graph_lets = lets, graph_body = body'\<rparr> []))"

definition typed_expr_of :: "trace_tensor \<Rightarrow> typed_expr" where
  "typed_expr_of v = \<lparr>expr_kind = tr_expr v, expr_ty = tr_type v\<rparr>"

section \<open>Programs\<close>

text \<open>
  The steps of a program that uses the DSL: it holds a set of traced tensors and passes them, or
  scalars, to the functions of \<open>Trace_Ops\<close>.  A node step records one expression over these operands,
  a tuple step one call with several results.  Other traces of the process may take ids in between;
  ids do not wrap around.
\<close>

definition multi_result :: "call_op \<Rightarrow> bool" where
  "multi_result op \<longleftrightarrow>
     (case op of OpSplit axis sections \<Rightarrow> True | OpRandomUniform t \<Rightarrow> True | OpRandomInt t \<Rightarrow> True
      | _ \<Rightarrow> False)"

definition operand_of :: "trace_tensor set \<Rightarrow> expr \<Rightarrow> bool" where
  "operand_of H e \<longleftrightarrow> e \<in> tr_expr ` H \<or> (\<exists>v ty. e = EConst v ty)"

inductive payload :: "trace_tensor set \<Rightarrow> expr \<Rightarrow> bool" for H where
  PUnary: "operand_of H v \<Longrightarrow> payload H (EUnary uop v)"
| PBinary: "operand_of H l \<Longrightarrow> operand_of H r \<Longrightarrow> payload H (EBinary bop l r)"
| PCall: "\<forall>a \<in> set args. operand_of H a \<Longrightarrow> graph_callee op = None \<Longrightarrow> \<not> multi_result op \<Longrightarrow>
    payload H (ECall op args)"

inductive traced :: "tracer \<Rightarrow> trace_context \<Rightarrow> trace_tensor set \<Rightarrow> bool" where
  Start: "traced s context_default {}"
| Input: "traced s ctx H \<Longrightarrow> context_input ty name ctx = (h, ctx') \<Longrightarrow> traced s ctx' (insert h H)"
| Node: "traced s ctx H \<Longrightarrow> payload H v \<Longrightarrow> record_node ty v s = (h, s') \<Longrightarrow>
    node_counter s \<noteq> - 1 \<Longrightarrow> traced s' ctx (insert h H)"
| Tuple: "traced s ctx H \<Longrightarrow> \<forall>a \<in> set args. operand_of H a \<Longrightarrow> multi_result op \<Longrightarrow>
    record_tuple outs (ECall op args) s = (hs, s') \<Longrightarrow> tuple_counter s \<noteq> - 1 \<Longrightarrow>
    traced s' ctx (set hs \<union> H)"
| Static: "traced s ctx H \<Longrightarrow> \<forall>a \<in> set args. \<exists>v ty. a = EConst v ty \<Longrightarrow> graph_callee op = None \<Longrightarrow>
    \<not> multi_result op \<Longrightarrow> traced s ctx (insert (from_expr out (ECall op args)) H)"
| Other: "traced s ctx H \<Longrightarrow> node_counter s \<le> node_counter s' \<Longrightarrow>
    tuple_counter s \<le> tuple_counter s' \<Longrightarrow> traced s' ctx H"

section \<open>Every function of the DSL takes such a step\<close>

text \<open>A scalar operand is a constant, a tensor operand must be held.\<close>

fun holds_operand :: "trace_tensor set \<Rightarrow> 'f operand \<Rightarrow> bool" where
  "holds_operand H (OTensor t) = (t \<in> H)"
| "holds_operand H (OScalar x) = True"

lemma operand_const: "\<exists>v ty. const_expr D x = EConst v ty"
  by (cases x) simp_all

lemma operand_of_simps [simp]:
  "t \<in> H \<Longrightarrow> operand_of H (tr_expr t)"
  "holds_operand H r \<Longrightarrow> operand_of H (into_operand_expr D r)"
  by (cases r; simp add: operand_of_def operand_const)+

definition node_step :: "trace_tensor set \<Rightarrow> trace_tensor tracing \<Rightarrow> bool" where
  "node_step H f \<longleftrightarrow> (\<exists>ty v. payload H v \<and> f = record_node ty v)"

lemma node_step_call:
  "\<forall>a \<in> set args. operand_of H a \<Longrightarrow> graph_callee op = None \<Longrightarrow> \<not> multi_result op \<Longrightarrow>
     node_step H (record_node ty (ECall op args))"
  "\<forall>a \<in> set args. operand_of H a \<Longrightarrow> graph_callee op = None \<Longrightarrow> \<not> multi_result op \<Longrightarrow>
     node_step H (call_output ty op args)"
  "v \<in> H \<Longrightarrow> graph_callee op = None \<Longrightarrow> \<not> multi_result op \<Longrightarrow> node_step H (unary op v)"
  "v \<in> H \<Longrightarrow> graph_callee op = None \<Longrightarrow> \<not> multi_result op \<Longrightarrow> node_step H (unary_bool op v)"
  "v \<in> H \<Longrightarrow> holds_operand H r \<Longrightarrow> graph_callee op = None \<Longrightarrow> \<not> multi_result op \<Longrightarrow>
     node_step H (binary_same D op v r)"
  "v \<in> H \<Longrightarrow> holds_operand H r \<Longrightarrow> graph_callee op = None \<Longrightarrow> \<not> multi_result op \<Longrightarrow>
     node_step H (binary_bool D op v r)"
  by (auto simp: node_step_def call_output_def unary_def unary_bool_def binary_same_def
      binary_bool_def intro!: exI PCall)

lemma node_step_operators:
  "v \<in> H \<Longrightarrow> holds_operand H r \<Longrightarrow> node_step H (tensor_binary D bop v r)"
  "v \<in> H \<Longrightarrow> node_step H (tensor_neg v)"
  by (auto simp: node_step_def tensor_binary_def tensor_neg_def intro!: exI PBinary PUnary)

text \<open>The program keeps on the traced states when it calls a function of the DSL.\<close>

lemma traced_node_step:
  "traced s ctx H \<Longrightarrow> node_step H f \<Longrightarrow> f s = (h, s') \<Longrightarrow> node_counter s \<noteq> - 1 \<Longrightarrow>
     traced s' ctx (insert h H)"
  by (auto simp: node_step_def intro: traced.Node)

end
