(* ===== verification/Trace_Steps.thy ===== *)
theory Trace_Steps
  imports Trace_Context
begin

text \<open>
  Every function of the DSL that returns one traced tensor takes a node step over the tensors it is
  given: these facts tie the functions of \<open>Trace_Ops\<close> to the programs of \<open>Trace_Context\<close>.
\<close>

lemmas step_rules = node_step_call graph_callee_def multi_result_def

lemmas elementwise_defs =
  abs_t_def ceil_t_def detach_t_def exp_t_def exp2_t_def expm1_t_def floor_t_def log_t_def
  log1p_t_def log2_t_def log10_t_def relu_t_def rint_t_def round_t_def sigmoid_t_def sin_t_def
  cos_t_def sqrt_t_def tan_t_def tanh_t_def square_t_def reciprocal_t_def isnan_t_def
  zeros_like_t_def ones_like_t_def full_like_t_def minimum_t_def maximum_t_def pow_t_def clip_t_def
  greater_t_def greater_equal_t_def less_t_def less_equal_t_def equal_t_def not_equal_t_def
  logical_and_t_def logical_or_t_def logical_xor_t_def logical_not_t_def where_t_def

lemma elementwise_steps:
  assumes "condition \<in> H" and "l \<in> H" and "v \<in> H" and "holds_operand H fill"
    and "holds_operand H hi" and "holds_operand H lo" and "holds_operand H r" and "holds_operand H x"
    and "holds_operand H y"
  shows "node_step H (abs_t v)" and "node_step H (ceil_t v)" and "node_step H (detach_t v)"
    and "node_step H (exp_t v)" and "node_step H (exp2_t v)" and "node_step H (expm1_t v)"
    and "node_step H (floor_t v)" and "node_step H (log_t v)" and "node_step H (log1p_t v)"
    and "node_step H (log2_t v)" and "node_step H (log10_t v)" and "node_step H (relu_t v)"
    and "node_step H (rint_t v)" and "node_step H (round_t v)" and "node_step H (sigmoid_t v)"
    and "node_step H (sin_t v)" and "node_step H (cos_t v)" and "node_step H (sqrt_t v)"
    and "node_step H (tan_t v)" and "node_step H (tanh_t v)" and "node_step H (square_t v)"
    and "node_step H (reciprocal_t v)" and "node_step H (isnan_t v)"
    and "node_step H (zeros_like_t v)" and "node_step H (ones_like_t v)"
    and "node_step H (full_like_t D v fill)" and "node_step H (minimum_t D l r)"
    and "node_step H (maximum_t D l r)" and "node_step H (pow_t D l r)"
    and "node_step H (clip_t D v lo hi)" and "node_step H (greater_t D l r)"
    and "node_step H (greater_equal_t D l r)" and "node_step H (less_t D l r)"
    and "node_step H (less_equal_t D l r)" and "node_step H (equal_t D l r)"
    and "node_step H (not_equal_t D l r)" and "node_step H (logical_and_t D l r)"
    and "node_step H (logical_or_t D l r)" and "node_step H (logical_xor_t D l r)"
    and "node_step H (logical_not_t v)" and "node_step H (where_t out D condition x y)"
  using assms by (simp_all add: elementwise_defs step_rules)

lemmas shape_defs =
  reshape_t_def broadcast_t_def squeeze_t_def unsqueeze_t_def trace_slice_def slice_t_def
  trace_pad_def pad_t_def trace_gather_def gather_t_def trace_take_def take_t_def
  trace_take_along_axis_def take_along_axis_t_def trace_concat_def concat_t_def trace_stack_def
  stack_t_def trace_tile_def tile_t_def trace_repeat_def repeat_t_def trace_flip_def flip_t_def
  trace_flip_axes_def flip_axes_t_def trace_roll_def roll_t_def trace_transpose_def transpose_t_def
  trace_transpose_axes_def transpose_axes_t_def trace_permute_def permute_t_def
  trace_permute_dims_def permute_dims_t_def trace_swapaxes_def swapaxes_t_def trace_moveaxis_def
  moveaxis_t_def

lemma shape_steps:
  assumes "indices \<in> H" and "l \<in> H" and "r \<in> H" and "v \<in> H"
  shows "node_step H (reshape_t out v)" and "node_step H (broadcast_t out v)"
    and "node_step H (squeeze_t out v)" and "node_step H (unsqueeze_t out v)"
    and "node_step H (slice_t out v starts)" and "node_step H (pad_t out v lows)"
    and "node_step H (gather_t out v indices axis)" and "node_step H (take_t out v axis index)"
    and "node_step H (take_along_axis_t out v indices axis)" and "node_step H (concat_t out l r axis)"
    and "node_step H (stack_t out l r axis)" and "node_step H (tile_t out v multiples)"
    and "node_step H (repeat_t out v axis count)" and "node_step H (flip_t v)"
    and "node_step H (flip_axes_t v axes)" and "node_step H (roll_t v axis shift)"
    and "node_step H (transpose_t out v)" and "node_step H (transpose_axes_t out v axes)"
    and "node_step H (permute_t out v axes)" and "node_step H (permute_dims_t out v axes)"
    and "node_step H (swapaxes_t out v axis0 axis1)"
    and "node_step H (moveaxis_t out v source destination)"
  using assms by (simp_all add: shape_defs step_rules)

lemmas linalg_defs =
  dot_t_def inner_t_def outer_t_def trace_vecdot_def vecdot_t_def trace_vecdot_axis_def
  vecdot_axis_t_def trace_trace_def trace_t_def trace_trace_axes_def trace_axes_t_def
  trace_diagonal_def diagonal_t_def trace_diagonal_axes_def diagonal_axes_t_def

lemma linalg_steps:
  assumes "l \<in> H" and "r \<in> H" and "v \<in> H"
  shows "node_step H (dot_t out l r)" and "node_step H (inner_t out l r)"
    and "node_step H (outer_t out l r)" and "node_step H (vecdot_t out l r)"
    and "node_step H (vecdot_axis_t out l r axis)" and "node_step H (trace_t out v)"
    and "node_step H (trace_axes_t out v axis0 axis1)" and "node_step H (diagonal_t out v)"
    and "node_step H (diagonal_axes_t out v axis0 axis1)"
  using assms by (simp_all add: linalg_defs step_rules)

lemmas reduction_defs =
  trace_all_all_def trace_all_axis_def trace_any_all_def trace_any_axis_def trace_argmax_all_def
  trace_argmax_axis_def trace_argmin_all_def trace_argmin_axis_def trace_max_all_def
  trace_max_axis_def trace_mean_all_def trace_mean_axis_def trace_min_all_def trace_min_axis_def
  trace_prod_all_def trace_prod_axis_def trace_ptp_all_def trace_ptp_axis_def trace_std_all_def
  trace_std_axis_def trace_sum_all_def trace_sum_axis_def trace_var_all_def trace_var_axis_def
  sum_t_def sum_axis_t_def prod_t_def prod_axis_t_def mean_t_def mean_axis_t_def max_t_def
  max_axis_t_def amax_t_def amax_axis_t_def min_t_def min_axis_t_def amin_t_def amin_axis_t_def
  argmax_t_def argmax_axis_t_def argmin_t_def argmin_axis_t_def var_t_def var_axis_t_def std_t_def
  std_axis_t_def ptp_t_def ptp_axis_t_def all_t_def all_axis_t_def any_t_def any_axis_t_def
  softmax_t_def trace_softmax_axis_def softmax_axis_t_def

lemma reduction_steps:
  assumes "v \<in> H"
  shows "node_step H (sum_t out v)" and "node_step H (sum_axis_t out v axis)"
    and "node_step H (prod_t out v)" and "node_step H (prod_axis_t out v axis)"
    and "node_step H (mean_t out v)" and "node_step H (mean_axis_t out v axis)"
    and "node_step H (max_t out v)" and "node_step H (max_axis_t out v axis)"
    and "node_step H (amax_t out v)" and "node_step H (amax_axis_t out v axis)"
    and "node_step H (min_t out v)" and "node_step H (min_axis_t out v axis)"
    and "node_step H (amin_t out v)" and "node_step H (amin_axis_t out v axis)"
    and "node_step H (argmax_t out v)" and "node_step H (argmax_axis_t out v axis)"
    and "node_step H (argmin_t out v)" and "node_step H (argmin_axis_t out v axis)"
    and "node_step H (var_t out v)" and "node_step H (var_axis_t out v axis)"
    and "node_step H (std_t out v)" and "node_step H (std_axis_t out v axis)"
    and "node_step H (ptp_t out v)" and "node_step H (ptp_axis_t out v axis)"
    and "node_step H (all_t out v)" and "node_step H (all_axis_t out v axis)"
    and "node_step H (any_t out v)" and "node_step H (any_axis_t out v axis)"
    and "node_step H (softmax_t v)" and "node_step H (softmax_axis_t v axis)"
  using assms by (simp_all add: reduction_defs step_rules)

lemmas creation_defs =
  trace_arange1_def arange_to_t_def trace_arange2_def arange_t_def trace_arange3_def
  arange_step_t_def linspace_t_def eye_t_def identity_t_def

lemma creation_steps:
  assumes "holds_operand H start" and "holds_operand H step" and "holds_operand H stop"
  shows "node_step H (arange_to_t out D stop)" and "node_step H (arange_t out D start stop)"
    and "node_step H (arange_step_t out D start stop step)"
    and "node_step H (linspace_t out D start stop)" and "node_step H (eye_t out)"
    and "node_step H (identity_t out)"
  using assms by (simp_all add: creation_defs step_rules)

lemmas window_defs =
  conv2d_options_t_def trace_conv2d_def conv2d_t_def max_pool2d_options_t_def max_pool2d_t_def
  avg_pool2d_options_t_def avg_pool2d_t_def

lemma window_steps:
  assumes "l \<in> H" and "r \<in> H" and "v \<in> H"
  shows "node_step H (conv2d_options_t out l r options)" and "node_step H (conv2d_t out l r)"
    and "node_step H (max_pool2d_options_t out v pool)" and "node_step H (max_pool2d_t out v)"
    and "node_step H (avg_pool2d_options_t out v pool)" and "node_step H (avg_pool2d_t out v)"
  using assms by (simp_all add: window_defs step_rules)

lemma matmul_step:
  "matmul_t l r = Some f \<Longrightarrow> l \<in> H \<Longrightarrow> r \<in> H \<Longrightarrow> node_step H f"
  by (auto simp: matmul_t_def step_rules)

lemma tuple_steps:
  "split_t outs v axis sections s = Inr (hs, s') \<Longrightarrow>
     record_tuple outs (ECall (OpSplit axis sections) [tr_expr v]) s = (hs, s')"
  "uniform_t out D key low high s =
     record_tuple [out, tensor I64 []]
       (ECall (OpRandomUniform out) [tr_expr key, const_expr D low, const_expr D high]) s"
  "randint_t out D key low high s =
     record_tuple [out, tensor I64 []]
       (ECall (OpRandomInt out) [tr_expr key, const_expr D low, const_expr D high]) s"
  by (auto simp: split_t_def trace_split_def uniform_t_def trace_random_uniform_def randint_t_def
      trace_random_int_def split: if_splits)

end
