(* ===== verification/Trace_Facts.thy ===== *)
theory Trace_Facts
  imports Trace_Steps Normalize_Properties
begin

text \<open>
  What holds of every program written against the DSL: ids are used consistently, and the graph that
  \<open>finish\<close> builds from traced tensors is accepted exactly if the traced tensors have their Rust types.
\<close>

section \<open>The invariant\<close>

definition held_nodes :: "trace_tensor set \<Rightarrow> (nat \<times> expr) set" where
  "held_nodes H = (\<Union>h \<in> H. expr_nodes (tr_expr h))"

definition held_tuples :: "trace_tensor set \<Rightarrow> (nat \<times> expr) set" where
  "held_tuples H = (\<Union>h \<in> H. expr_tuples (tr_expr h))"

definition held_vars :: "trace_tensor set \<Rightarrow> string set" where
  "held_vars H = (\<Union>h \<in> H. expr_vars (tr_expr h))"

lemma held_simps [simp]:
  "held_nodes {} = {}" "held_nodes (insert h H) = expr_nodes (tr_expr h) \<union> held_nodes H"
  "held_nodes (H' \<union> H) = held_nodes H' \<union> held_nodes H"
  "held_tuples {} = {}" "held_tuples (insert h H) = expr_tuples (tr_expr h) \<union> held_tuples H"
  "held_tuples (H' \<union> H) = held_tuples H' \<union> held_tuples H"
  "held_vars {} = {}" "held_vars (insert h H) = expr_vars (tr_expr h) \<union> held_vars H"
  "held_vars (H' \<union> H) = held_vars H' \<union> held_vars H"
  by (auto simp: held_nodes_def held_tuples_def held_vars_def)

text \<open>A payload whose type, if it has one, is a single type.\<close>

fun single_payload :: "expr \<Rightarrow> bool" where
  "single_payload (ECall op args) = (graph_callee op = None \<and> \<not> multi_result op)"
| "single_payload (ENode node_id v) = False"
| "single_payload _ = True"

definition used_below :: "nat \<Rightarrow> (nat \<times> expr) set \<Rightarrow> bool" where
  "used_below n N \<longleftrightarrow> consistent N \<and> (\<forall>(i, v) \<in> N. i < n)"

definition trace_inv :: "tracer \<Rightarrow> trace_context \<Rightarrow> trace_tensor set \<Rightarrow> bool" where
  "trace_inv s ctx H \<longleftrightarrow>
     used_below (unat (node_counter s)) (held_nodes H) \<and>
     used_below (unat (tuple_counter s)) (held_tuples H) \<and>
     held_vars H \<subseteq> input_name ` set (ctx_inputs ctx) \<and>
     (\<forall>(i, v) \<in> held_nodes H. single_payload v)"

lemma used_below_mono: "used_below n N \<Longrightarrow> n \<le> m \<Longrightarrow> M \<subseteq> N \<Longrightarrow> used_below m M"
  by (fastforce simp: used_below_def consistent_def)

lemma used_below_insert: "used_below n N \<Longrightarrow> used_below (Suc n) (insert (n, v) N)"
  by (fastforce simp: used_below_def consistent_def)

lemma unat_succ: "(w :: 64 word) \<noteq> - 1 \<Longrightarrow> unat (w + 1) = Suc (unat w)"
  by (metis add.commute eq_neg_iff_add_eq_0 unatSuc)

lemma operand_parts:
  assumes "operand_of H e"
  shows "expr_nodes e \<subseteq> held_nodes H" "expr_tuples e \<subseteq> held_tuples H" "expr_vars e \<subseteq> held_vars H"
  using assms by (auto simp: operand_of_def held_nodes_def held_tuples_def held_vars_def)

lemma operands_parts:
  assumes "\<forall>a \<in> set args. operand_of H a"
  shows "(\<Union>a \<in> set args. expr_nodes a) \<subseteq> held_nodes H" "(\<Union>a \<in> set args. expr_tuples a) \<subseteq> held_tuples H"
    "(\<Union>a \<in> set args. expr_vars a) \<subseteq> held_vars H"
  using assms operand_parts by blast+

lemma payload_parts:
  assumes "payload H v"
  shows "expr_nodes v \<subseteq> held_nodes H" "expr_tuples v \<subseteq> held_tuples H" "expr_vars v \<subseteq> held_vars H"
    "single_payload v"
  using assms by (induction) (use operand_parts operands_parts in \<open>simp_all; blast\<close>)+

lemma record_node_eq:
  "record_node ty v s = (h, s') \<longleftrightarrow>
     h = from_expr ty (ENode (unat (node_counter s)) v) \<and> s' = s\<lparr>node_counter := node_counter s + 1\<rparr>"
  by (auto simp: record_node_def node_expr_def)

lemma record_tuple_eq:
  "record_tuple outs v s = (hs, s') \<longleftrightarrow>
     hs = from_tuple_expr outs (unat (tuple_counter s)) v \<and> s' = s\<lparr>tuple_counter := tuple_counter s + 1\<rparr>"
  by (auto simp: record_tuple_def next_tuple_id_def)

lemma from_tuple_parts:
  "held_nodes (set (from_tuple_expr outs i v)) \<subseteq> expr_nodes v"
  "held_tuples (set (from_tuple_expr outs i v)) \<subseteq> insert (i, v) (expr_tuples v)"
  "held_vars (set (from_tuple_expr outs i v)) \<subseteq> expr_vars v"
  by (auto simp: held_nodes_def held_tuples_def held_vars_def from_tuple_expr_def set_zip)

text \<open>Every step keeps the invariant.\<close>

lemma traced_inv: "traced s ctx H \<Longrightarrow> trace_inv s ctx H"
proof (induction rule: traced.induct)
  case (Start s)
  then show ?case by (simp add: trace_inv_def used_below_def consistent_def)
next
  case (Input s ctx H ty name h ctx')
  then show ?case by (auto simp: trace_inv_def context_input_def)
next
  case (Node s ctx H v ty h s')
  note p = payload_parts [OF Node.hyps(2)]
  have "used_below (Suc (unat (node_counter s))) (insert (unat (node_counter s), v) (held_nodes H))"
    using Node.IH used_below_insert by (simp add: trace_inv_def)
  moreover have "insert (unat (node_counter s), v) (expr_nodes v) \<union> held_nodes H
      = insert (unat (node_counter s), v) (held_nodes H)"
    "expr_tuples v \<union> held_tuples H = held_tuples H" using p by blast+
  ultimately show ?case
    using Node.IH Node.hyps(3,4) p by (auto simp: trace_inv_def record_node_eq unat_succ)
next
  case (Tuple s ctx H args op outs hs s')
  let ?call = "ECall op args" and ?i = "unat (tuple_counter s)"
  have parts: "expr_nodes ?call \<subseteq> held_nodes H" "expr_tuples ?call \<subseteq> held_tuples H"
      "expr_vars ?call \<subseteq> held_vars H"
    using operands_parts [OF Tuple.hyps(2)] by simp_all
  have hs: "hs = from_tuple_expr outs ?i ?call" and s': "s' = s\<lparr>tuple_counter := tuple_counter s + 1\<rparr>"
    using Tuple.hyps(4) by (simp_all add: record_tuple_eq)
  have nodes: "held_nodes (set hs \<union> H) = held_nodes H" and vars: "held_vars (set hs \<union> H) = held_vars H"
    and tuples: "held_tuples (set hs \<union> H) \<subseteq> insert (?i, ?call) (held_tuples H)"
    using from_tuple_parts [of outs ?i ?call] parts unfolding hs held_simps by blast+
  have "used_below (Suc ?i) (insert (?i, ?call) (held_tuples H))"
    using Tuple.IH used_below_insert by (simp add: trace_inv_def)
  then have "used_below (Suc ?i) (held_tuples (set hs \<union> H))" using used_below_mono tuples by blast
  then show ?case
    using Tuple.IH Tuple.hyps(5) unfolding trace_inv_def nodes vars by (simp add: s' unat_succ)
next
  case (Static s ctx H args op out)
  then have "operand_of {} a" if "a \<in> set args" for a using that by (simp add: operand_of_def)
  then have "(\<Union>a \<in> set args. expr_nodes a) = {}" "(\<Union>a \<in> set args. expr_tuples a) = {}"
      "(\<Union>a \<in> set args. expr_vars a) = {}"
    using operands_parts [of args "{}"] by simp_all
  then show ?case using Static.IH by (simp add: trace_inv_def)
next
  case (Other s ctx H s')
  then show ?case
    by (auto simp: trace_inv_def word_le_nat_alt intro: used_below_mono [OF _ _ subset_refl])
qed

section \<open>Types of recorded expressions\<close>

fun literal :: "expr \<Rightarrow> bool" where
  "literal (EConst v e) = True"
| "literal (EUnary Neg v) = literal v"
| "literal _ = False"

lemma static_scalar_literal: "static_scalar F a = Inr (Some x) \<Longrightarrow> literal a"
  by (induction a arbitrary: x rule: literal.induct)
    (auto simp: result_simps split: option.splits)

lemma literal_nodes: "literal e \<Longrightarrow> expr_nodes e = {}"
  by (induction e rule: literal.induct) simp_all

lemma numeric_param_literal: "numeric_param F a = Inr p \<Longrightarrow> literal a"
  by (auto simp: numeric_param_def result_simps dest: static_scalar_literal split: option.splits)

lemma numeric_params_literal:
  "parse_numeric_params F args lo hi = Inr ps \<Longrightarrow> a \<in> set args \<Longrightarrow> literal a"
  by (auto simp: parse_numeric_params_def result_simps rmap_Inr_iff list_all2_conv_all_nth in_set_conv_nth
      dest: numeric_param_literal)

lemma static_args_literal:
  assumes "static_creation op" "validate_static_creation_call F op args = Inr ()" "a \<in> set args"
  shows "literal a"
  using assms
  by (auto simp: static_creation_def validate_static_creation_call_def discard_def result_simps
      static_arange_literals_def static_linspace_literals_def static_random_uniform_literals_def
      static_random_int_literals_def parse_float_bounds_def parse_integer_bounds_def
      dest!: numeric_params_literal split: call_op.splits)

lemma has_types_literals_only: "has_types C E e tys \<Longrightarrow> literals_only e"
proof (induction e arbitrary: tys)
  case (ECall op args)
  have "literals_only a" if a: "a \<in> set args" for a
  proof -
    from ECall.prems obtain ts where "list_all2 (\<lambda>a t. has_types C E a [t]) args ts"
      by (auto elim: has_types_CallE)
    then obtain t where "has_types C E a [t]"
      using a by (auto simp: list_all2_conv_all_nth in_set_conv_nth)
    then show ?thesis using ECall.IH a by blast
  qed
  moreover have "expr_nodes a = {}" if op: "static_creation op" and a: "a \<in> set args" for a
  proof -
    have "graph_callee op = None" using op by (cases op) (simp_all add: static_creation_def graph_callee_def)
    then have "validate_static_creation_call (ck_ops C) op args = Inr ()"
      using ECall.prems by (simp add: has_types_Call_iff)
    then show ?thesis using static_args_literal [OF op _ a] literal_nodes by blast
  qed
  ultimately show ?case by simp
qed (auto simp: has_types_Unary_iff has_types_Binary_iff has_types_TupleGet_iff)

lemma infer_single:
  "\<not> multi_result op \<Longrightarrow> infer_call_results op ts = Inr tys \<Longrightarrow> \<exists>t. tys = [t]"
  by (cases op) (auto simp: multi_result_def rule_groups result_simps)

lemma single_payload_type:
  assumes "has_types C E v tys" "single_payload v"
  shows "\<exists>t. tys = [t]"
proof (cases v)
  case (ECall op args)
  with assms show ?thesis by (auto simp: has_types_Call_iff dest: infer_single)
qed (use assms in \<open>auto simp: has_types_Unary_iff has_types_Binary_iff has_types_TupleGet_iff\<close>)

lemma payload_typed:
  "has_types C E e tys \<Longrightarrow> (i, v) \<in> expr_nodes e \<Longrightarrow> \<exists>ts. has_types C E v ts"
proof (induction e arbitrary: tys)
  case (ECall op args)
  then obtain a where a: "a \<in> set args" "(i, v) \<in> expr_nodes a" by auto
  from ECall.prems(1) obtain ts where "list_all2 (\<lambda>a t. has_types C E a [t]) args ts"
    by (auto elim: has_types_CallE)
  then obtain t where "has_types C E a [t]"
    using a(1) by (auto simp: list_all2_conv_all_nth in_set_conv_nth)
  then show ?case using ECall.IH a by blast
qed (auto simp: has_types_Unary_iff has_types_Binary_iff has_types_TupleGet_iff)

section \<open>Types of rewritten expressions\<close>

lemma rewrite_literal: "rewrite_node_refs names e = Inr e' \<Longrightarrow> literal e' \<Longrightarrow> e' = e"
proof (induction e arbitrary: e')
  case (EUnary uop v)
  then show ?case by (cases uop) (auto simp: result_simps)
qed (auto simp: result_simps of_option_def split: option.splits)

lemma rewrite_all_rmap: "rewrite_all names es = rmap (rewrite_node_refs names) es"
  by (induction es) auto

lemma rewrite_typed_back:
  "rewrite_node_refs names e = Inr e' \<Longrightarrow> has_types C E e' tys \<Longrightarrow> nodes_bound C E0 names E e \<Longrightarrow>
     \<forall>x \<in> expr_vars e. env_lookup E x = env_lookup E0 x \<Longrightarrow> has_types C E0 e tys"
proof (induction e arbitrary: e' tys)
  case (EUnary uop v)
  then show ?case by (auto simp: result_simps has_types_Unary_iff nodes_bound_def)
next
  case (EBinary bop l r)
  then show ?case by (fastforce simp: result_simps has_types_Binary_iff nodes_bound_def)
next
  case (ENode i v)
  then obtain name t where "names i = Some name" "has_types C E0 v [t]" "env_lookup E name = Some t"
    unfolding nodes_bound_def by (metis expr_nodes.simps(5) insertI1)
  with ENode.prems show ?case by (auto simp: result_simps)
next
  case (ETupleGet tuple_id v index)
  then show ?case by (fastforce simp: result_simps has_types_TupleGet_iff nodes_bound_def)
next
  case (ECall op args)
  from ECall.prems(1) obtain args' where args': "list_all2 (\<lambda>a a'. rewrite_node_refs names a = Inr a') args args'"
      "e' = ECall op args'"
    by (auto simp: result_simps rewrite_all_rmap rmap_Inr_iff)
  have args0: "list_all2 (\<lambda>a t. has_types C E0 a [t]) args ts"
    if "list_all2 (\<lambda>a t. has_types C E a [t]) args' ts" for ts
    unfolding list_all2_conv_all_nth
  proof (intro conjI allI impI)
    show len: "length args = length ts" using args'(1) that by (simp add: list_all2_lengthD)
    fix k assume k: "k < length args"
    then have "args ! k \<in> set args" by simp
    moreover from this have "nodes_bound C E0 names E (args ! k)"
        "\<forall>x \<in> expr_vars (args ! k). env_lookup E x = env_lookup E0 x"
      using ECall.prems(3,4) unfolding nodes_bound_def expr_nodes.simps expr_vars.simps by blast+
    moreover have "rewrite_node_refs names (args ! k) = Inr (args' ! k)" "has_types C E (args' ! k) [ts ! k]"
      using args'(1) that k len by (simp_all add: list_all2_conv_all_nth)
    ultimately show "has_types C E0 (args ! k) [ts ! k]" using ECall.IH by blast
  qed
  show ?case
  proof (cases "graph_callee op")
    case None
    with ECall.prems(2) args'(2) obtain ts where
        valid: "validate_static_creation_call (ck_ops C) op args' = Inr ()"
      and ts: "list_all2 (\<lambda>a t. has_types C E a [t]) args' ts" "infer_call_results op ts = Inr tys"
      by (auto simp: has_types_Call_iff)
    have "args' = args" if op: "static_creation op"
    proof (rule nth_equalityI)
      show "length args' = length args" using args'(1) by (simp add: list_all2_lengthD)
      fix k assume k: "k < length args'"
      then have "literal (args' ! k)" using static_args_literal [OF op valid] by simp
      with k show "args' ! k = args ! k"
        using args'(1) by (intro rewrite_literal [of names]) (simp_all add: list_all2_conv_all_nth)
    qed
    then have "validate_static_creation_call (ck_ops C) op args = Inr ()"
      using valid not_static_creation by (cases "static_creation op") simp_all
    with None ts args0 show ?thesis by (auto simp: has_types_Call_iff)
  next
    case (Some name)
    then have "op = OpGraph name" by (simp add: graph_callee_Some)
    with ECall.prems(2) args'(2) args0 show ?thesis by (auto simp: has_types_Graph_iff)
  qed
qed auto

section \<open>Types of let-bound bodies\<close>

lemma bind_nodes_typed_back:
  assumes "collected N (vals, dn @ todo)" and N: "consistent N"
    and "\<And>i. i \<in> set (dn @ todo) \<Longrightarrow> \<exists>n. names i = Some n \<and> n \<notin> set reserved"
    and "\<And>i j. i \<in> set (dn @ todo) \<Longrightarrow> j \<in> set (dn @ todo) \<Longrightarrow> names i = names j \<Longrightarrow> i = j"
    and payload: "\<And>i v. (i, v) \<in> N \<Longrightarrow> single_payload v \<and> expr_nodes v \<subseteq> N \<and> expr_vars v \<subseteq> set reserved"
    and res: "fst ` set E0 \<subseteq> set reserved"
    and "bound_upto C E0 vals names dn E" and "\<forall>x \<in> set reserved. env_lookup E x = env_lookup E0 x"
    and "rmap (bind_node names vals) todo = Inr lets" and "wt_lets C E lets tlets E'"
  shows "bound_upto C E0 vals names (dn @ todo) E' \<and> (\<forall>x \<in> set reserved. env_lookup E' x = env_lookup E0 x)"
  using assms(1,3,4,7-)
proof (induction todo arbitrary: dn E lets tlets)
  case Nil
  then show ?case by simp
next
  case (Cons i todo)
  note c = collectedD [OF Cons.prems(1)]
  obtain v where v: "vals i = Some v" using c(2) by fastforce
  then have iv: "(i, v) \<in> N" by (rule c(3))
  obtain name where name: "names i = Some name" "name \<notin> set reserved" using Cons.prems(2) by fastforce
  have "bind_node names vals i =
      rbind (rewrite_node_refs names v) (\<lambda>v'. Inr \<lparr>let_names = [name], let_value = v'\<rparr>)"
    using name v by (simp add: bind_node_def)
  with Cons.prems(6) obtain v' lets' where
      v': "rewrite_node_refs names v = Inr v'" and rest: "rmap (bind_node names vals) todo = Inr lets'"
    and lets: "lets = \<lparr>let_names = [name], let_value = v'\<rparr> # lets'"
    by (auto simp: result_simps)
  from Cons.prems(7) obtain t tlets' where t: "has_types C E v' [t]"
      and wt: "wt_lets C (push_bindings E [name] [t]) lets' tlets' E'"
    by (auto simp: lets wt_lets_Cons dest!: sym [of "Suc 0" "length _"] simp: length_Suc_conv)
  have "(dn @ i # todo) ! length dn = i" by simp
  then have ids: "fst ` expr_nodes v \<subseteq> set dn" using c(4) [of "length dn" v] v by simp
  have "nodes_bound C E0 names E v"
    unfolding nodes_bound_def
  proof (intro allI impI)
    fix j w assume j: "(j, w) \<in> expr_nodes v"
    then have "j \<in> set dn" using ids by force
    then obtain n u s where u: "names j = Some n" "vals j = Some u" "has_types C E0 u [s]"
        "env_lookup E n = Some s"
      using Cons.prems(4) unfolding bound_upto_def by blast
    have "u = w" using c(3) [OF u(2)] j payload [OF iv] N unfolding consistent_def by blast
    with u show "\<exists>name t. names j = Some name \<and> has_types C E0 w [t] \<and> env_lookup E name = Some t"
      by blast
  qed
  then have v0: "has_types C E0 v [t]"
    using rewrite_typed_back [OF v' t] Cons.prems(5) payload [OF iv] by blast
  have E: "env_lookup (push_bindings E [name] [t]) = (env_lookup E)(name \<mapsto> t)"
    by (rule ext) (simp add: env_lookup_push_one)
  have "bound_upto C E0 vals names (dn @ [i]) (push_bindings E [name] [t])"
    unfolding bound_upto_def
  proof (intro conjI ballI)
    show "env_lookup E0 \<subseteq>\<^sub>m env_lookup (push_bindings E [name] [t])"
      using Cons.prems(4) res name(2) by (intro has_types_push_fresh) (auto simp: bound_upto_def)
    fix j assume j: "j \<in> set (dn @ [i])"
    show "\<exists>n u s. names j = Some n \<and> vals j = Some u \<and> has_types C E0 u [s] \<and>
        env_lookup (push_bindings E [name] [t]) n = Some s"
    proof (cases "j = i")
      case True
      with name v v0 show ?thesis by (auto simp: E)
    next
      case False
      with j obtain n u s where u: "names j = Some n" "vals j = Some u" "has_types C E0 u [s]"
          "env_lookup E n = Some s"
        using Cons.prems(4) unfolding bound_upto_def by auto
      have "n \<noteq> name" using Cons.prems(3) [of j i] j False u(1) name(1) by auto
      with u show ?thesis by (simp add: E)
    qed
  qed
  moreover have "\<forall>x \<in> set reserved. env_lookup (push_bindings E [name] [t]) x = env_lookup E0 x"
    using Cons.prems(5) name(2) by (auto simp: E)
  moreover have "collected N (vals, (dn @ [i]) @ todo)" using Cons.prems(1) by simp
  moreover have "\<exists>n. names j = Some n \<and> n \<notin> set reserved" if "j \<in> set ((dn @ [i]) @ todo)" for j
    using Cons.prems(2) [of j] that by simp
  moreover have "j = k"
    if "j \<in> set ((dn @ [i]) @ todo)" "k \<in> set ((dn @ [i]) @ todo)" "names j = names k" for j k
    using Cons.prems(3) [of j k] that by simp
  ultimately have "bound_upto C E0 vals names ((dn @ [i]) @ todo) E' \<and>
      (\<forall>x \<in> set reserved. env_lookup E' x = env_lookup E0 x)"
    using Cons.IH rest wt by blast
  then show ?case by simp
qed

text \<open>The rewriting of the pass: outputs and bindings are rewritten by one map of names, and the types of
  rewritten expressions are the types of what was rewritten.\<close>

lemma let_bind_nodes_rewrite:
  assumes bind: "let_bind_nodes body reserved = Inr (lets, body')" and wt: "wt_lets C E0 lets tlets E"
    and N: "consistent (all_nodes body)"
    and payload: "\<And>i v. (i, v) \<in> all_nodes body \<Longrightarrow> single_payload v"
    and vars: "\<And>e. e \<in> set body \<Longrightarrow> expr_vars e \<subseteq> set reserved"
    and res: "fst ` set E0 \<subseteq> set reserved"
  shows "\<exists>names. list_all2 (\<lambda>e e'. rewrite_node_refs names e = Inr e') body body' \<and>
    (\<forall>l \<in> set lets. \<exists>i v. (i, v) \<in> all_nodes body \<and> rewrite_node_refs names v = Inr (let_value l)) \<and>
    (\<forall>e e' tys. expr_nodes e \<subseteq> all_nodes body \<longrightarrow> expr_vars e \<subseteq> set reserved \<longrightarrow>
       rewrite_node_refs names e = Inr e' \<longrightarrow> has_types C E e' tys \<longrightarrow> has_types C E0 e tys)"
proof -
  let ?N = "all_nodes body"
  obtain vals order where s: "collect_all body (Map.empty, []) = Inr (vals, order)" "collected ?N (vals, order)"
      "extends ?N (Map.empty, []) (vals, order)"
    using collect_complete(2) [OF N subset_refl collected_empty] by fastforce
  note c = collectedD [OF s(2)]
  define names where "names = assign_names order reserved Map.empty"
  from bind s(1) have lets: "rmap (bind_node names vals) order = Inr lets"
      and body': "rmap (rewrite_node_refs names) body = Inr body'"
    by (auto simp: let_bind_nodes_def names_def Let_def result_simps)
  have parts: "single_payload v \<and> expr_nodes v \<subseteq> ?N \<and> expr_vars v \<subseteq> set reserved"
    if iv: "(i, v) \<in> ?N" for i v
  proof -
    obtain e where e: "e \<in> set body" "(i, v) \<in> expr_nodes e" using iv unfolding all_nodes_def by blast
    then show ?thesis
      using expr_nodes_closed [OF e(2)] payload_vars [OF e(2)] vars payload iv by (auto simp: all_nodes_def)
  qed
  have "bound_upto C E0 vals names ([] @ order) E \<and> (\<forall>x \<in> set reserved. env_lookup E x = env_lookup E0 x)"
  proof (rule bind_nodes_typed_back [OF _ N _ _ parts res _ _ lets wt])
    show "\<exists>n. names i = Some n \<and> n \<notin> set reserved" if "i \<in> set ([] @ order)" for i
      using assign_names_fresh c(1) that by (simp add: names_def)
    show "i = j" if "i \<in> set ([] @ order)" "j \<in> set ([] @ order)" "names i = names j" for i j
      using assign_names_distinct [OF c(1)] that by (simp add: names_def)
  qed (use s(2) in \<open>simp_all add: bound_upto_def\<close>)
  then have up: "bound_upto C E0 vals names order E" and env: "\<forall>x \<in> set reserved. env_lookup E x = env_lookup E0 x"
    by simp_all
  have typed: "has_types C E0 e tys"
    if e: "expr_nodes e \<subseteq> ?N" "expr_vars e \<subseteq> set reserved" "rewrite_node_refs names e = Inr e'" "has_types C E e' tys" for e e' tys
  proof (rule rewrite_typed_back [OF e(3,4)])
    show "nodes_bound C E0 names E e"
      unfolding nodes_bound_def
    proof (intro allI impI)
      fix i v assume "(i, v) \<in> expr_nodes e"
      then have "(i, v) \<in> ?N" using e(1) by blast
      then have "vals i = Some v" using s(3) by (simp add: extends_def)
      moreover from this have "i \<in> set order" using c(2) by auto
      ultimately show "\<exists>name t. names i = Some name \<and> has_types C E0 v [t] \<and> env_lookup E name = Some t"
        using up unfolding bound_upto_def by fastforce
    qed
  qed (use e(2) env in blast)
  have "\<exists>i v. (i, v) \<in> ?N \<and> rewrite_node_refs names v = Inr (let_value l)" if "l \<in> set lets" for l
  proof -
    from lets have all: "list_all2 (\<lambda>i l. bind_node names vals i = Inr l) order lets" by (simp add: rmap_Inr_iff)
    from that obtain k where "k < length lets" "l = lets ! k" by (auto simp: in_set_conv_nth)
    with all have "bind_node names vals (order ! k) = Inr l" by (simp add: list_all2_conv_all_nth)
    then obtain i where "bind_node names vals i = Inr l" by blast
    then obtain v where "vals i = Some v" "rewrite_node_refs names v = Inr (let_value l)"
      by (auto simp: bind_node_def of_option_def result_simps split: option.splits)
    with c(3) show ?thesis by blast
  qed
  moreover have "list_all2 (\<lambda>e e'. rewrite_node_refs names e = Inr e') body body'"
    using body' by (simp add: rmap_Inr_iff)
  ultimately show ?thesis using typed by (intro exI [of _ names]) simp
qed

lemma let_bind_nodes_typed_back:
  assumes bind: "let_bind_nodes body reserved = Inr (lets, body')"
    and wt: "wt_lets C E0 lets tlets E" "list_all2 (\<lambda>e t. has_types C E e [t]) body' tys"
    and N: "consistent (all_nodes body)"
    and payload: "\<And>i v. (i, v) \<in> all_nodes body \<Longrightarrow> single_payload v"
    and vars: "\<And>e. e \<in> set body \<Longrightarrow> expr_vars e \<subseteq> set reserved"
    and res: "fst ` set E0 \<subseteq> set reserved"
  shows "list_all2 (\<lambda>e t. has_types C E0 e [t]) body tys"
proof -
  obtain names where names: "list_all2 (\<lambda>e e'. rewrite_node_refs names e = Inr e') body body'"
    and rewritten: "\<And>e e' tys. expr_nodes e \<subseteq> all_nodes body \<Longrightarrow> expr_vars e \<subseteq> set reserved \<Longrightarrow>
      rewrite_node_refs names e = Inr e' \<Longrightarrow> has_types C E e' tys \<Longrightarrow> has_types C E0 e tys"
    by (rule exE [OF let_bind_nodes_rewrite [OF bind wt(1) N _ _ res]]) (use payload vars in blast)+
  have "has_types C E0 e [t]" if "e \<in> set body" "rewrite_node_refs names e = Inr e'" "has_types C E e' [t]" for e e' t
    using rewritten [OF _ vars [OF that(1)] that(2,3)] that(1) by (auto simp: all_nodes_def)
  with names wt(2) show ?thesis unfolding list_all2_conv_all_nth by (metis nth_mem)
qed

lemma bind_nodes_names:
  "rmap (bind_node names vals) order = Inr lets \<Longrightarrow> let_bound lets = map (\<lambda>i. the (names i)) order"
  by (induction order arbitrary: lets)
    (auto simp: result_simps bind_node_def of_option_def split: option.splits)

lemma let_bind_nodes_names:
  assumes bind: "let_bind_nodes body reserved = Inr (lets, body')" and N: "consistent (all_nodes body)"
  shows "distinct (let_bound lets)" "set (let_bound lets) \<inter> set reserved = {}"
proof -
  obtain vals order where s: "collect_all body (Map.empty, []) = Inr (vals, order)"
      "collected (all_nodes body) (vals, order)"
    using collect_complete(2) [OF N subset_refl collected_empty] by fastforce
  note c = collectedD [OF s(2)]
  define names where "names = assign_names order reserved Map.empty"
  from bind s(1) have "rmap (bind_node names vals) order = Inr lets"
    by (auto simp: let_bind_nodes_def names_def Let_def result_simps)
  then have bound: "let_bound lets = map (\<lambda>i. the (names i)) order" by (rule bind_nodes_names)
  have names: "\<exists>n. names i = Some n \<and> n \<notin> set reserved" if "i \<in> set order" for i
    using assign_names_fresh c(1) that by (simp add: names_def)
  have "inj_on (\<lambda>i. the (names i)) (set order)"
  proof (rule inj_onI)
    fix i j assume ij: "i \<in> set order" "j \<in> set order" "the (names i) = the (names j)"
    then have "names i = names j" using names [of i] names [of j] by auto
    then show "i = j" using assign_names_distinct [OF c(1)] ij by (simp add: names_def)
  qed
  then show "distinct (let_bound lets)" using c(1) by (simp add: bound distinct_map)
  show "set (let_bound lets) \<inter> set reserved = {}" using names by (fastforce simp: bound)
qed

section \<open>Finishing a trace\<close>

lemma held_subset:
  assumes "set outs \<subseteq> H"
  shows "all_nodes (output_exprs outs) \<subseteq> held_nodes H"
    "e \<in> set (output_exprs outs) \<Longrightarrow> expr_vars e \<subseteq> held_vars H"
  using assms by (auto simp: all_nodes_def held_nodes_def held_vars_def output_exprs_def)

lemma traced_body:
  assumes "traced s ctx H" "set outs \<subseteq> H"
  shows "consistent (all_nodes (output_exprs outs))"
    "(i, v) \<in> all_nodes (output_exprs outs) \<Longrightarrow> single_payload v"
    "e \<in> set (output_exprs outs) \<Longrightarrow> expr_vars e \<subseteq> set (map input_name (ctx_inputs ctx))"
proof -
  note inv = traced_inv [OF assms(1), unfolded trace_inv_def]
  note sub = held_subset [OF assms(2)]
  show "consistent (all_nodes (output_exprs outs))"
    using inv sub(1) used_below_mono [OF _ le_refl sub(1)] by (auto simp: used_below_def)
  show "(i, v) \<in> all_nodes (output_exprs outs) \<Longrightarrow> single_payload v" using inv sub(1) by blast
  show "e \<in> set (output_exprs outs) \<Longrightarrow> expr_vars e \<subseteq> set (map input_name (ctx_inputs ctx))"
    using inv sub(2) by fastforce
qed

abbreviation finish_checker :: "'f f64_ops \<Rightarrow> string \<Rightarrow> 'f checker" where
  "finish_checker F name \<equiv> \<lparr>ck_ops = F, ck_signatures = [], ck_current = name\<rparr>"

text \<open>The graph that \<open>finish\<close> gives to the checker.\<close>

definition finished_graph ::
    "trace_context \<Rightarrow> string \<Rightarrow> string \<Rightarrow> trace_tensor list \<Rightarrow> let_binding list \<Rightarrow> expr list \<Rightarrow> graph" where
  "finished_graph ctx name backend outs lets body =
     \<lparr>graph_name = name, graph_backend = backend, graph_inputs = ctx_inputs ctx,
      graph_outputs = output_types outs, graph_lets = lets, graph_body = body\<rparr>"

lemma finish_Inr:
  "finish F ctx name backend outs = Inr tg \<longleftrightarrow>
     (\<exists>lets body'. let_bind_nodes (output_exprs outs) (map input_name (ctx_inputs ctx)) = Inr (lets, body') \<and>
        type_check F (finished_graph ctx name backend outs lets body') [] = Inr tg)"
  by (auto simp: finish_def finished_graph_def Let_def result_simps)

lemma finish_typed:
  assumes tr: "traced s ctx H" "set outs \<subseteq> H" and dist: "distinct (map input_name (ctx_inputs ctx))"
    and fin: "finish F ctx name backend outs = Inr tg"
  shows "\<exists>lets body'. let_bind_nodes (output_exprs outs) (map input_name (ctx_inputs ctx)) = Inr (lets, body') \<and>
    distinct (bound_names (finished_graph ctx name backend outs lets body')) \<and>
    typed_as F (finished_graph ctx name backend outs lets body') [] tg"
proof -
  from fin obtain lets body' where bind: "let_bind_nodes (output_exprs outs) (map input_name (ctx_inputs ctx)) = Inr (lets, body')"
      and check: "type_check F (finished_graph ctx name backend outs lets body') [] = Inr tg"
    by (auto simp: finish_Inr)
  note names = let_bind_nodes_names [OF bind traced_body(1) [OF tr]]
  have "distinct (bound_names (finished_graph ctx name backend outs lets body'))"
    using dist names by (auto simp: bound_names_def finished_graph_def)
  with bind type_check_sound [OF check] show ?thesis by blast
qed

lemma finish_iff:
  assumes tr: "traced s ctx H" "set outs \<subseteq> H" and dist: "distinct (map input_name (ctx_inputs ctx))"
  shows "(\<exists>tg. finish F ctx name backend outs = Inr tg) \<longleftrightarrow>
    (\<forall>h \<in> set outs. has_types (finish_checker F name) (env_from_inputs (ctx_inputs ctx)) (tr_expr h) [tr_type h])"
    (is "?fin \<longleftrightarrow> ?typed")
proof
  let ?C = "finish_checker F name" and ?E = "env_from_inputs (ctx_inputs ctx)"
    and ?res = "map input_name (ctx_inputs ctx)"
  have res: "fst ` set ?E \<subseteq> set ?res" by (simp add: env_from_inputs_names)
  have types: "list_all2 (\<lambda>e t. has_types ?C ?E e [t]) (output_exprs outs) (output_types outs) \<longleftrightarrow> ?typed"
    by (simp add: output_exprs_def output_types_def list_all2_map1 list_all2_map2 list_all2_same)
  {
    assume ?fin
    then obtain tg where "finish F ctx name backend outs = Inr tg" by blast
    then obtain lets body' where bind: "let_bind_nodes (output_exprs outs) ?res = Inr (lets, body')"
        and typed: "typed_as F (finished_graph ctx name backend outs lets body') [] tg"
      using finish_typed [OF tr dist] by blast
    from typed obtain tlets E where "wt_lets ?C ?E lets tlets E"
        "list_all2 (\<lambda>e t. has_types ?C E e [t]) body' (output_types outs)"
      by (auto simp: typed_as_def finished_graph_def)
    then have "list_all2 (\<lambda>e t. has_types ?C ?E e [t]) (output_exprs outs) (output_types outs)"
      by (rule let_bind_nodes_typed_back [OF bind _ _ traced_body(1) [OF tr] _ _ res])
        (use traced_body [OF tr] in blast)+
    then show ?typed by (simp add: types)
  next
    assume typed: ?typed
    then have body: "list_all2 (\<lambda>e t. has_types ?C ?E e [t]) (output_exprs outs) (output_types outs)"
      by (simp add: types)
    have lit: "literals_only e" if "e \<in> set (output_exprs outs)" for e
      using typed that by (auto simp: output_exprs_def intro: has_types_literals_only)
    have single: "\<exists>t. has_types ?C ?E v [t]" if iv: "(i, v) \<in> all_nodes (output_exprs outs)" for i v
    proof -
      obtain ts where "has_types ?C ?E v ts"
        using typed iv payload_typed by (fastforce simp: all_nodes_def output_exprs_def)
      then show ?thesis using single_payload_type traced_body(2) [OF tr iv] by blast
    qed
    have "\<exists>lets body' tlets E. let_bind_nodes (output_exprs outs) ?res = Inr (lets, body') \<and>
        wt_lets ?C ?E lets tlets E \<and> list_all2 (\<lambda>e t. has_types ?C E e [t]) body' (output_types outs) \<and>
        distinct (let_bound lets) \<and> set (let_bound lets) \<inter> set ?res = {} \<and>
        let_nodes lets = {} \<and> all_nodes body' = {}"
      by (rule let_bind_nodes_typed [OF body traced_body(1) [OF tr] _ _ res]) (use single lit in blast)+
    then obtain lets body' tlets E where bind: "let_bind_nodes (output_exprs outs) ?res = Inr (lets, body')"
        and wt: "wt_lets ?C ?E lets tlets E" "list_all2 (\<lambda>e t. has_types ?C E e [t]) body' (output_types outs)"
        and names: "distinct (let_bound lets)" "set (let_bound lets) \<inter> set ?res = {}"
        and nodes: "let_nodes lets = {}" "all_nodes body' = {}"
      by blast
    let ?g = "finished_graph ctx name backend outs lets body'"
    have "distinct (bound_names ?g)" using dist names by (auto simp: bound_names_def finished_graph_def)
    moreover have "consistent (graph_nodes ?g)"
      using nodes by (simp add: graph_nodes_def finished_graph_def all_nodes_def consistent_def)
    moreover have "\<exists>tg. typed_as F ?g [] tg" using wt by (auto simp: typed_as_def finished_graph_def)
    ultimately have "\<exists>tg. type_check F ?g [] = Inr tg" using type_check_complete by blast
    with bind show ?fin by (auto simp: finish_Inr)
  }
qed

end
