(* ===== verification/Trace_Properties.thy ===== *)
theory Trace_Properties
  imports Trace_Facts Static_Facts
begin

text \<open>The properties of the tracing DSL, each with a concrete program.\<close>

section \<open>Scalars\<close>

lemma find_char_absent [simp]: "c \<notin> set s \<Longrightarrow> find_char c s = None"
  by (induction s) auto

lemma find_char_first: "c \<notin> set s \<Longrightarrow> find_char c (s @ c # t) = Some (length s)"
  by (induction s) auto

lemma mlir_float_literal_split:
  assumes "\<not> (m @ ex = ''inf'' \<or> m @ ex = ''-inf'' \<or> m @ ex = ''NaN'')"
    and "CHR ''e'' \<notin> set m" "CHR ''E'' \<notin> set m" and "ex = [] \<or> (\<exists>x. ex = CHR ''e'' # x)"
  shows "mlir_float_literal (m @ ex) = m @ (if CHR ''.'' \<in> set m then [] else ''.0'') @ ex"
proof (cases "ex = []")
  case True
  with assms show ?thesis by (simp add: mlir_float_literal_def)
next
  case False
  then obtain x where ex: "ex = CHR ''e'' # x" using assms(4) by auto
  have "find_char (CHR ''e'') (m @ ex) = Some (length m)"
    unfolding ex by (rule find_char_first [OF assms(2)])
  then show ?thesis using assms(1) by (simp add: mlir_float_literal_def insert_str_def)
qed

definition digits :: "string \<Rightarrow> bool" where
  "digits s \<longleftrightarrow> set s \<subseteq> set ''0123456789''"

text \<open>C1. The text of a finite floating-point scalar, as Rust prints it for debugging (a sign, digits, an
  optional fraction and an optional exponent), becomes a literal of MLIR: the mantissa gets the
  fraction \<open>.0\<close> if it has none, everything else is kept, and a literal is left alone.\<close>

theorem float_literal_text:
  assumes "sign \<in> {'''', ''-''}" and "digits ds"
    and "frac = [] \<or> (\<exists>fs. frac = CHR ''.'' # fs \<and> digits fs)"
    and "ex = [] \<or> (\<exists>sg es. ex = CHR ''e'' # sg @ es \<and> sg \<in> {'''', ''-''} \<and> digits es)"
  shows "mlir_float_literal (sign @ ds @ frac @ ex) = sign @ ds @ (if frac = [] then ''.0'' else frac) @ ex \<and>
    mlir_float_literal (sign @ ds @ (if frac = [] then ''.0'' else frac) @ ex)
      = sign @ ds @ (if frac = [] then ''.0'' else frac) @ ex"
proof -
  let ?frac = "if frac = [] then ''.0'' else frac"
  obtain D where D: "digits t \<longleftrightarrow> set t \<subseteq> D" and D': "D = set ''0123456789''" for t
    by (simp add: digits_def)
  have notin: "CHR ''e'' \<notin> {CHR ''-'', CHR ''.''} \<union> D" "CHR ''E'' \<notin> {CHR ''-'', CHR ''.''} \<union> D"
      "CHR ''N'' \<notin> {CHR ''-'', CHR ''.'', CHR ''e''} \<union> D" "CHR ''n'' \<notin> {CHR ''-'', CHR ''.'', CHR ''e''} \<union> D"
      "CHR ''.'' \<notin> insert (CHR ''-'') D"
    by (simp_all add: D')
  have lit: "mlir_float_literal (sign @ ds @ fr @ ex) = sign @ ds @ (if fr = [] then ''.0'' else fr) @ ex"
    if fr: "fr = [] \<or> (\<exists>fs. fr = CHR ''.'' # fs \<and> digits fs)" for fr
  proof -
    let ?m = "sign @ ds @ fr"
    have sign: "set sign \<subseteq> {CHR ''-''}" using assms(1) by auto
    have sets: "set ds \<subseteq> D" "set fr \<subseteq> insert (CHR ''.'') D" "set ex \<subseteq> {CHR ''e'', CHR ''-''} \<union> D"
    proof -
      show "set ds \<subseteq> D" using assms(2) by (simp add: D)
      show "set fr \<subseteq> insert (CHR ''.'') D" using fr by (elim disjE exE conjE) (simp_all add: D subset_insertI2)
      show "set ex \<subseteq> {CHR ''e'', CHR ''-''} \<union> D"
        using assms(4) by (elim disjE exE conjE insertE) (simp_all add: D le_supI2 subset_insertI2)
    qed
    have m: "set ?m \<subseteq> {CHR ''-'', CHR ''.''} \<union> D" using sign sets(1,2) unfolding set_append by blast
    have e: "CHR ''e'' \<notin> set ?m" "CHR ''E'' \<notin> set ?m"
      by (rule contra_subsetD [OF m notin(1)], rule contra_subsetD [OF m notin(2)])
    have all: "set (?m @ ex) \<subseteq> {CHR ''-'', CHR ''.'', CHR ''e''} \<union> D"
      using m sets(3) unfolding set_append [of ?m] by blast
    have "CHR ''N'' \<notin> set (?m @ ex)" "CHR ''n'' \<notin> set (?m @ ex)"
      by (rule contra_subsetD [OF all notin(3)], rule contra_subsetD [OF all notin(4)])
    moreover have "\<not> (t = ''inf'' \<or> t = ''-inf'' \<or> t = ''NaN'')"
      if "CHR ''N'' \<notin> set t" "CHR ''n'' \<notin> set t" for t
      using that by auto
    ultimately have special: "\<not> (?m @ ex = ''inf'' \<or> ?m @ ex = ''-inf'' \<or> ?m @ ex = ''NaN'')" by blast
    have "CHR ''.'' \<notin> set sign" "CHR ''.'' \<notin> set ds"
      using sign sets(1) notin(5) by auto
    then have dot: "CHR ''.'' \<in> set ?m \<longleftrightarrow> fr \<noteq> []" using fr by auto
    have "ex = [] \<or> (\<exists>x. ex = CHR ''e'' # x)" using assms(4) by auto
    from mlir_float_literal_split [OF special e this] dot show ?thesis by simp
  qed
  have "?frac = [] \<or> (\<exists>fs. ?frac = CHR ''.'' # fs \<and> digits fs)"
    using assms(3) by (auto simp: digits_def)
  from lit [OF this] lit [OF assms(3)] show ?thesis by (simp split: if_splits)
qed

lemma float_literal_text_witness: "mlir_float_literal ''-1e-21'' = ''-1.0e-21''"
proof -
  have "\<exists>sg es. ''-21'' = sg @ es \<and> (sg = [] \<or> sg = ''-'') \<and> digits es"
    by (rule exI [of _ "''-''"], rule exI [of _ "''21''"]) (simp add: digits_def)
  moreover have "digits ''1''" by (simp add: digits_def)
  ultimately show ?thesis
    using float_literal_text [of "''-''" "''1''" "[]" "''e-21''"] by simp
qed

text \<open>A Boolean or integer scalar that is embedded in a trace is read back as the same value when
  the type checker evaluates static arguments, and the constant has the element type of the
  scalar.\<close>

theorem scalar_constants_read_back:
  "static_scalar F (const_expr D (LitBool b)) = Inr (Some (SBool b)) \<and>
   static_scalar F (const_expr D (LitI32 i)) = Inr (Some (SInt (sint i))) \<and>
   static_scalar F (const_expr D (LitI64 j)) = Inr (Some (SInt (sint j))) \<and>
   has_types C E (const_expr D (LitBool b)) [tensor Bool []] \<and>
   has_types C E (const_expr D (LitI32 i)) [tensor I32 []] \<and>
   has_types C E (const_expr D (LitI64 j)) [tensor I64 []]"
proof -
  have "parse_i128 (int_str (sint i)) = Some (sint i)" "parse_i128 (int_str (sint j)) = Some (sint j)"
    using sint_range_size [of i] sint_range_size [of j] by (auto intro!: parse_i128_int_str simp: word_size)
  then show ?thesis by (simp add: const_scalar_def)
qed

section \<open>Static types\<close>

lemma matmul_batch:
  "broadcast_shape_slices [b0, Suc 0] [b1] = Inr [b0, b1]"
  by (simp add: broadcast_shape_slices_def dim_from_trailing_def upt_rec)

text \<open>C3. The Rust type of a matrix product is the inferred one: for every implementation of the trait
  \<open>Matmul\<close>, on numeric elements, the checker's rule accepts operands of these types and gives the
  type of \<open>Output\<close>.\<close>

theorem matmul_output_inferred:
  assumes "matmul_output l r = Some out" and "is_numeric (elem l)"
  shows "infer_call_results OpMatmul [l, r] = Inr [out]"
proof -
  have numeric: "expect_numeric_element (elem l) = Inr ()"
    using assms(2) by (simp add: expect_numeric_element_def)
  obtain s where s: "matmul_shape (shape l) (shape r) = Some s" "elem l = elem r" "out = tensor (elem l) s"
    using assms(1) by (auto simp: matmul_output_def split: if_splits)
  have "matmul_result_type l r = Inr (tensor (elem l) s)"
    using s(1) numeric
    by (auto simp: matmul_shape_def matmul1_def matmul2_def matmul3_def matmul4_def matmul5_def
        matmul6_def matmul_result_type_def s(2) rank_def MAX_TENSOR_RANK_def matmul_batch
        split: list.splits if_splits)
  then show ?thesis by (simp add: rule_groups guard_defs s(3))
qed

lemma matmul_output_inferred_witness:
  "infer_call_results OpMatmul [tensor F32 [5, 1, 2, 3], tensor F32 [4, 3, 2]] = Inr [tensor F32 [5, 4, 2, 2]]"
  by (rule matmul_output_inferred)
    (simp_all add: matmul_output_def matmul_shape_def matmul4_def is_numeric_def)

text \<open>The functions of the DSL whose Rust result type is computed from the type of the argument, and the
  same for a tensor and a scalar.\<close>

definition tensor_functions :: "(trace_tensor \<Rightarrow> trace_tensor tracing) set" where
  "tensor_functions =
     {abs_t, ceil_t, detach_t, exp_t, exp2_t, expm1_t, floor_t, log_t, log1p_t, log2_t, log10_t, relu_t,
      rint_t, round_t, sigmoid_t, sin_t, cos_t, sqrt_t, tan_t, tanh_t, square_t, reciprocal_t, isnan_t,
      zeros_like_t, ones_like_t, logical_not_t, flip_t, softmax_t, tensor_neg}
     \<union> range (\<lambda>axes v. flip_axes_t v axes) \<union> range (\<lambda>axis v. softmax_axis_t v axis)
     \<union> range (\<lambda>(axis, shift) v. roll_t v axis shift)"

definition scalar_functions ::
    "'f float_debug \<Rightarrow> (trace_tensor \<Rightarrow> 'f operand \<Rightarrow> trace_tensor tracing) set" where
  "scalar_functions D =
     {minimum_t D, maximum_t D, pow_t D, greater_t D, greater_equal_t D, less_t D, less_equal_t D,
      equal_t D, not_equal_t D, logical_and_t D, logical_or_t D, logical_xor_t D, full_like_t D}
     \<union> range (tensor_binary D)"

lemma recorded_node [simp]:
  "tr_type (fst (record_node ty v s)) = ty"
  "tr_expr (fst (record_node ty v s)) = ENode (unat (node_counter s)) v"
  by (simp_all add: record_node_def node_expr_def)

lemma const_expr_types: "\<exists>e. \<forall>C E tys. has_types C E (const_expr D x) tys \<longleftrightarrow> tys = [tensor e []]"
  by (cases x) auto

lemma unary_types:
  assumes "has_types C E v [t]" "graph_callee op = None"
  shows "has_types C E (ECall op [v]) tys \<longleftrightarrow>
     validate_static_creation_call (ck_ops C) op [v] = Inr () \<and> infer_call_results op [t] = Inr tys"
  using assms by (auto simp: has_types_Call_iff list_all2_Cons1 dest: has_types_unique)

lemma binary_types:
  assumes "has_types C E v [t]" "has_types C E w [u]" "graph_callee op = None"
  shows "has_types C E (ECall op [v, w]) tys \<longleftrightarrow>
     validate_static_creation_call (ck_ops C) op [v, w] = Inr () \<and> infer_call_results op [t, u] = Inr tys"
  using assms by (auto simp: has_types_Call_iff list_all2_Cons1 dest: has_types_unique)

lemmas static_type_defs =
  elementwise_defs shape_defs reduction_defs unary_def unary_bool_def binary_same_def binary_bool_def
  tensor_binary_def tensor_neg_def bool_tensor_def graph_callee_def rule_groups
  has_types_Unary_iff has_types_Binary_iff binary_result_type_def comparison_result_type_def
  equality_result_type_def predicate_result_type_def logical_result_type_def broadcast_shape_def

text \<open>The Rust types of the DSL are the inferred ones: when a traced tensor has its Rust type, the
  only type the checker can infer for the result of an operation on it, or of an operation with a
  scalar, is the Rust type of that result.\<close>

theorem static_types_inferred:
  assumes "has_types C E (tr_expr v) [tr_type v]"
  shows "(\<forall>f \<in> tensor_functions. {tys. has_types C E (tr_expr (fst (f v s))) tys} \<subseteq> {[tr_type (fst (f v s))]}) \<and>
    (\<forall>g \<in> scalar_functions D. {tys. has_types C E (tr_expr (fst (g v (OScalar x) s))) tys}
        \<subseteq> {[tr_type (fst (g v (OScalar x) s))]})"
proof (intro conjI ballI subsetI)
  note v = assms
  obtain e where x: "has_types C E (const_expr D x) [tensor e []]" using const_expr_types by blast
  fix f tys assume "f \<in> tensor_functions" "tys \<in> {tys. has_types C E (tr_expr (fst (f v s))) tys}"
  then show "tys \<in> {[tr_type (fst (f v s))]}"
    by (auto simp: tensor_functions_def static_type_defs unary_types [OF v] result_simps
        split: if_splits dest: has_types_unique [OF v])
next
  note v = assms
  obtain e where x: "has_types C E (const_expr D x) [tensor e []]" using const_expr_types by blast
  fix g tys assume "g \<in> scalar_functions D" "tys \<in> {tys. has_types C E (tr_expr (fst (g v (OScalar x) s))) tys}"
  then show "tys \<in> {[tr_type (fst (g v (OScalar x) s))]}"
    by (auto simp: scalar_functions_def static_type_defs binary_types [OF v x] result_simps
        split: if_splits dest!: has_types_unique [OF v] has_types_unique [OF x])
qed

section \<open>An example program\<close>

text \<open>\<open>fn f(x: T1<f32, 2>) -> T1<f32, 2> { let y = square(x); y.clone() * y }\<close>.\<close>

definition demo_context :: trace_context where
  "demo_context = \<lparr>ctx_inputs = [\<lparr>input_name = ''x'', input_ty = tensor F32 [2]\<rparr>]\<rparr>"

definition demo_x :: trace_tensor where
  "demo_x = from_expr (tensor F32 [2]) (EVar ''x'')"

definition demo_y :: trace_tensor where
  "demo_y = from_expr (tensor F32 [2]) (ENode 1 (ECall OpSquare [EVar ''x'']))"

definition demo_out :: trace_tensor where
  "demo_out = from_expr (tensor F32 [2]) (ENode 2 (EBinary Mul (tr_expr demo_y) (tr_expr demo_y)))"

definition demo_debug :: "int float_debug" where
  "demo_debug = \<lparr>debug_f32 = int_str, debug_f64 = int_str\<rparr>"

lemma demo_traced:
  "traced \<lparr>node_counter = 3, tuple_counter = 1\<rparr> demo_context {demo_out, demo_y, demo_x}"
proof -
  have x: "traced initial_tracer demo_context {demo_x}"
    using traced.Input [OF traced.Start, of "tensor F32 [2]" "''x''" demo_x demo_context]
    by (simp add: context_input_def context_default_def demo_x_def demo_context_def)
  have y: "square_t demo_x initial_tracer = (demo_y, \<lparr>node_counter = 2, tuple_counter = 1\<rparr>)"
    by (simp add: square_t_def unary_def record_node_def node_expr_def demo_x_def demo_y_def
        initial_tracer_def)
  have "node_step {demo_x} (square_t demo_x)" by (simp add: square_t_def step_rules)
  from traced_node_step [OF x this y] have
    held: "traced \<lparr>node_counter = 2, tuple_counter = 1\<rparr> demo_context {demo_y, demo_x}"
    by (simp add: initial_tracer_def)
  have product: "tensor_binary demo_debug Mul demo_y (OTensor demo_y) \<lparr>node_counter = 2, tuple_counter = 1\<rparr>
      = (demo_out, \<lparr>node_counter = 3, tuple_counter = 1\<rparr>)"
    by (simp add: tensor_binary_def record_node_def node_expr_def demo_y_def demo_out_def)
  have "node_step {demo_y, demo_x} (tensor_binary demo_debug Mul demo_y (OTensor demo_y))"
    by (rule node_step_operators) simp_all
  from traced_node_step [OF held this product] show ?thesis by simp
qed

lemma demo_typed:
  "has_types (finish_checker exact_ops ''f'') (env_from_inputs (ctx_inputs demo_context)) (tr_expr demo_x) [tr_type demo_x]"
  "has_types (finish_checker exact_ops ''f'') (env_from_inputs (ctx_inputs demo_context)) (tr_expr demo_out) [tr_type demo_out]"
proof -
  show "has_types (finish_checker exact_ops ''f'') (env_from_inputs (ctx_inputs demo_context)) (tr_expr demo_x) [tr_type demo_x]"
    by (simp add: demo_x_def demo_context_def env_from_inputs_def env_lookup_def)
  then have "has_types (finish_checker exact_ops ''f'') (env_from_inputs (ctx_inputs demo_context)) (tr_expr demo_y) [tensor F32 [2]]"
    by (simp add: demo_x_def demo_y_def unary_types graph_callee_def validate_static_creation_call_def
        rule_groups guard_defs is_numeric_def)
  then show "has_types (finish_checker exact_ops ''f'') (env_from_inputs (ctx_inputs demo_context)) (tr_expr demo_out) [tr_type demo_out]"
    by (auto simp: demo_out_def has_types_Binary_iff binary_result_type_def broadcast_shape_def
        guard_defs is_numeric_def intro!: exI)
qed

lemma static_types_inferred_witness:
  "{tys. has_types (finish_checker exact_ops ''f'') (env_from_inputs (ctx_inputs demo_context))
      (tr_expr (fst (isnan_t demo_x initial_tracer))) tys} \<subseteq> {[tensor Bool [2]]}"
proof -
  have "isnan_t \<in> tensor_functions" by (simp add: tensor_functions_def)
  moreover have "tr_type (fst (isnan_t demo_x initial_tracer)) = tensor Bool [2]"
    by (simp add: isnan_t_def unary_bool_def bool_tensor_def demo_x_def)
  ultimately show ?thesis
    using static_types_inferred [OF demo_typed(1), of initial_tracer demo_debug "LitBool True"] by metis
qed

section \<open>Traces\<close>

text \<open>C22. Tracing uses its ids consistently: in every state of a program that uses the DSL, each node id
  and each tuple id of the traced tensors stands for one expression, and lies below its counter.\<close>

theorem traced_ids_consistent:
  assumes "traced s ctx H"
  shows "consistent (held_nodes H) \<and> consistent (held_tuples H) \<and>
    fst ` held_nodes H \<subseteq> {..<unat (node_counter s)} \<and> fst ` held_tuples H \<subseteq> {..<unat (tuple_counter s)}"
  using traced_inv [OF assms] by (auto simp: trace_inv_def used_below_def)

lemma traced_ids_consistent_witness:
  "consistent (held_nodes {demo_out, demo_y, demo_x}) \<and> fst ` held_nodes {demo_out, demo_y, demo_x} = {1, 2}"
  using traced_ids_consistent [OF demo_traced] by (auto simp: demo_out_def demo_y_def demo_x_def)

text \<open>C6. \<open>finish\<close> accepts exactly the traces whose outputs have their Rust types: for tensors of a
  program that uses the DSL and has distinct input names, let-binding and the type check succeed if
  and only if the declarative type system gives each output expression the type of its handle.\<close>

theorem finish_decides:
  assumes "traced s ctx H" and "set outs \<subseteq> H" and "distinct (map input_name (ctx_inputs ctx))"
  shows "(\<exists>tg. finish F ctx name backend outs = Inr tg) \<longleftrightarrow>
    (\<forall>h \<in> set outs. has_types (finish_checker F name) (env_from_inputs (ctx_inputs ctx)) (tr_expr h) [tr_type h])"
  using assms by (rule finish_iff)

lemma finish_decides_witness: "\<exists>tg. finish exact_ops demo_context ''f'' ''llvm-cpu'' [demo_out] = Inr tg"
  using finish_decides [OF demo_traced, of "[demo_out]" exact_ops "''f''" "''llvm-cpu''"] demo_typed(2)
  by (simp add: demo_context_def)

text \<open>The untyped bindings of a typed graph.\<close>

definition untyped_lets :: "typed_graph \<Rightarrow> let_binding list" where
  "untyped_lets tg = map (\<lambda>l. \<lparr>let_names = tlet_names l, let_value = value_kind (tlet_value l)\<rparr>) (tg_lets tg)"

lemma wt_lets_untyped:
  "wt_lets C E lets tlets E' \<Longrightarrow>
     map (\<lambda>l. \<lparr>let_names = tlet_names l, let_value = value_kind (tlet_value l)\<rparr>) tlets = lets"
  by (induction rule: wt_lets.induct) simp_all

lemma annotate_body_exprs: "length es = length tys \<Longrightarrow> map expr_kind (annotate_body es tys) = es"
  by (induction es tys rule: list_induct2) simp_all

text \<open>C21. A finished graph means what was traced: it has the registered inputs and the Rust types of the
  outputs, and expanding its bindings in its body gives the traced expressions with their sharing
  written out.\<close>

theorem finish_refines_trace:
  assumes "traced s ctx H" and "set outs \<subseteq> H" and "distinct (map input_name (ctx_inputs ctx))"
    and "finish F ctx name backend outs = Inr tg"
  shows "tg_inputs tg = ctx_inputs ctx \<and> tg_outputs tg = output_types outs \<and>
    map (subst (expand_lets (untyped_lets tg) Map.empty)) (map expr_kind (tg_body tg))
      = map erase (output_exprs outs)"
proof -
  let ?reserved = "map input_name (ctx_inputs ctx)"
  obtain lets body' where bind: "let_bind_nodes (output_exprs outs) ?reserved = Inr (lets, body')"
      and typed: "typed_as F (finished_graph ctx name backend outs lets body') [] tg"
    using finish_typed [OF assms] by blast
  from typed obtain tlets E where wt: "wt_lets (finish_checker F name) (env_from_inputs (ctx_inputs ctx)) lets tlets E"
      and len: "length body' = length (output_types outs)"
      and tg: "tg_inputs tg = ctx_inputs ctx" "tg_outputs tg = output_types outs" "tg_lets tg = tlets"
        "tg_body tg = annotate_body body' (output_types outs)"
    by (auto simp: typed_as_def finished_graph_def dest: list_all2_lengthD)
  have "untyped_lets tg = lets" using wt_lets_untyped [OF wt] by (simp add: untyped_lets_def tg)
  moreover have "map expr_kind (tg_body tg) = body'" using annotate_body_exprs [OF len] by (simp add: tg)
  moreover have "map (subst (expand_lets lets Map.empty)) body' = map erase (output_exprs outs)"
    using let_bind_nodes_erase [OF traced_body(1) [OF assms(1,2)]] traced_body(3) [OF assms(1,2)] bind
    by fastforce
  ultimately show ?thesis using tg by simp
qed

lemma finish_refines_trace_witness:
  "\<exists>tg. finish exact_ops demo_context ''f'' ''llvm-cpu'' [demo_out] = Inr tg \<and>
     tg_outputs tg = [tensor F32 [2]] \<and>
     map (subst (expand_lets (untyped_lets tg) Map.empty)) (map expr_kind (tg_body tg))
       = [EBinary Mul (ECall OpSquare [EVar ''x'']) (ECall OpSquare [EVar ''x''])]"
proof -
  obtain tg where tg: "finish exact_ops demo_context ''f'' ''llvm-cpu'' [demo_out] = Inr tg"
    using finish_iff [OF demo_traced, of "[demo_out]" exact_ops "''f''" "''llvm-cpu''"] demo_typed(2)
    by (auto simp: demo_context_def)
  have "set [demo_out] \<subseteq> {demo_out, demo_y, demo_x}" "distinct (map input_name (ctx_inputs demo_context))"
    by (simp_all add: demo_context_def)
  from finish_refines_trace [OF demo_traced this tg] tg show ?thesis
    by (auto simp: output_types_def output_exprs_def demo_out_def demo_y_def)
qed

end
