(* ===== verification/Mlir.thy ===== *)
theory Mlir
  imports Ops_Rules Static_Creation
begin

text \<open>
  The MLIR side of the lowering of \<^verbatim>\<open>crates/knok-compile/src/lowering\<close>: the operations it appends to
  a block, and the functions of \<^verbatim>\<open>lowerer.rs\<close> and \<^verbatim>\<open>value.rs\<close> that build them.

  The crate melior is not part of the sources.  What the lowering builds through it is kept as data: an
  operation with its name, operands, result types, attributes and regions.  Parsing the text of types
  and attributes is the job of the MLIR context, a parameter that tells which texts parse.
\<close>

section \<open>Errors and sequencing\<close>

datatype (plugins only: code size) lower_message =
    ParseElementType | ParseTensorType | ParseAttribute | IntegerTooLarge
  | DenseScalarEmpty | DenseLength | ScalarExpected | BroadcastElements | BroadcastResult
  | AxisBroadcastRank | AxisBroadcastBounds | AxisBroadcastDims | ConcatEmpty
  | ReductionAxis | ReductionEmptyAxis | ReductionEmpty | MatmulRank | MatmulInnerDims
  | ConvGroups | UnknownValueLowering | MultiResultExpression | MultiResultOp | InlineMultiOutput
  | TupleProjection | LetValues | RecursiveLowering | UnknownGraphLowering | GraphArguments
  | BodyOutputs | OutputType | OutputScalar | RandomElement | RandomCount | DepthExhausted

text \<open>An error of the lowering itself, or one of the functions of \<open>knok-core\<close> and the panics.\<close>

datatype lower_error = LowerError lower_message | CoreError error

text \<open>A step that reads and updates a state, and may fail.\<close>

type_synonym ('s, 'a) step = "'s \<Rightarrow> lower_error + 'a \<times> 's"

definition sreturn :: "'a \<Rightarrow> ('s, 'a) step" where
  "sreturn x s = Inr (x, s)"

definition sfail :: "lower_message \<Rightarrow> ('s, 'a) step" where
  "sfail m s = Inl (LowerError m)"

definition sbind :: "('s, 'a) step \<Rightarrow> ('a \<Rightarrow> ('s, 'b) step) \<Rightarrow> ('s, 'b) step" where
  "sbind m f s = (case m s of Inl e \<Rightarrow> Inl e | Inr (x, s') \<Rightarrow> f x s')"

definition slift :: "'a result \<Rightarrow> ('s, 'a) step" where
  "slift r s = (case r of Inl e \<Rightarrow> Inl (CoreError e) | Inr x \<Rightarrow> Inr (x, s))"

definition scheck :: "bool \<Rightarrow> lower_message \<Rightarrow> ('s, unit) step" where
  "scheck b m = (if b then sreturn () else sfail m)"

text \<open>An iterator that is collected into a \<open>Result\<close>.\<close>

fun smap :: "('a \<Rightarrow> ('s, 'b) step) \<Rightarrow> 'a list \<Rightarrow> ('s, 'b list) step" where
  "smap f [] = sreturn []"
| "smap f (x # xs) = sbind (f x) (\<lambda>y. sbind (smap f xs) (\<lambda>ys. sreturn (y # ys)))"

text \<open>A loop that threads one value.\<close>

fun sfold :: "('a \<Rightarrow> 'b \<Rightarrow> ('s, 'b) step) \<Rightarrow> 'a list \<Rightarrow> 'b \<Rightarrow> ('s, 'b) step" where
  "sfold f [] acc = sreturn acc"
| "sfold f (x # xs) acc = sbind (f x acc) (sfold f xs)"

named_theorems step_simps \<open>unfolding rules for steps\<close>

lemma sbind_Inr_iff [step_simps]:
  "sbind m f s = Inr r \<longleftrightarrow> (\<exists>x s'. m s = Inr (x, s') \<and> f x s' = Inr r)"
  by (auto simp: sbind_def split: sum.splits)

lemma sreturn_Inr_iff [step_simps]: "sreturn x s = Inr (y, s') \<longleftrightarrow> y = x \<and> s' = s"
  by (auto simp: sreturn_def)

lemma sfail_not_Inr [step_simps]: "sfail m s = Inr r \<longleftrightarrow> False"
  by (simp add: sfail_def)

lemma slift_Inr_iff [step_simps]: "slift r s = Inr (y, s') \<longleftrightarrow> r = Inr y \<and> s' = s"
  by (auto simp: slift_def split: sum.splits)

lemma scheck_Inr_iff [step_simps]: "scheck b m s = Inr (u, s') \<longleftrightarrow> b \<and> s' = s"
  by (auto simp: scheck_def step_simps)

lemma sbind_cong [fundef_cong]:
  "s = s' \<Longrightarrow> m s' = m' s' \<Longrightarrow> (\<And>x t. m' s' = Inr (x, t) \<Longrightarrow> f x t = f' x t) \<Longrightarrow> sbind m f s = sbind m' f' s'"
  by (auto simp: sbind_def split: sum.splits)

section \<open>Operations\<close>

datatype mlir_ty = MElem element_type | MTensor tensor_type | MIndex

text \<open>The handle of a value: an argument of the function's block or the result of an operation in
  it, given by positions, or the same in the block of a region.\<close>

datatype raw = BlockArg nat | OpResult nat nat | RegionArg nat | RegionResult nat nat

text \<open>Attributes are texts that the context parses, or dense integer arrays.\<close>

datatype attr = AText string | AI32 "nat list" | AI64 "nat list"

datatype (plugins only: size) mlir_op =
  MOp (op_name: string) (op_operands: "raw list") (op_results: "mlir_ty list")
      (op_attrs: "(string \<times> attr) list") (op_regions: "(mlir_ty list \<times> mlir_op list) list")

record mlir_block =
  in_region :: bool
  block_args :: "mlir_ty list"
  block_ops :: "mlir_op list"

record mlir_context =
  parses_type :: "string \<Rightarrow> bool"
  parses_attr :: "string \<Rightarrow> bool"

definition arg_raw :: "mlir_block \<Rightarrow> nat \<Rightarrow> raw" where
  "arg_raw b i = (if in_region b then RegionArg i else BlockArg i)"

definition result_raw :: "mlir_block \<Rightarrow> nat \<Rightarrow> nat \<Rightarrow> raw" where
  "result_raw b pos i = (if in_region b then RegionResult pos i else OpResult pos i)"

definition append_operation :: "mlir_op \<Rightarrow> mlir_block \<Rightarrow> raw list \<times> mlir_block" where
  "append_operation op b =
     (map (result_raw b (length (block_ops b))) [0..<length (op_results op)],
      b\<lparr>block_ops := block_ops b @ [op]\<rparr>)"

definition new_region :: "mlir_ty list \<Rightarrow> mlir_block" where
  "new_region tys = \<lparr>in_region = True, block_args = tys, block_ops = []\<rparr>"

definition region_of :: "mlir_block \<Rightarrow> mlir_ty list \<times> mlir_op list" where
  "region_of b = (block_args b, block_ops b)"

section \<open>Types and attributes\<close>

definition mlir_element_type :: "mlir_context \<Rightarrow> element_type \<Rightarrow> ('s, mlir_ty) step" where
  "mlir_element_type ctx e =
     (if parses_type ctx (elem_mlir_type e) then sreturn (MElem e) else sfail ParseElementType)"

definition mlir_tensor_type :: "mlir_context \<Rightarrow> tensor_type \<Rightarrow> ('s, mlir_ty) step" where
  "mlir_tensor_type ctx ty =
     (if parses_type ctx (mlir_type ty) then sreturn (MTensor ty) else sfail ParseTensorType)"

definition parse_attr :: "mlir_context \<Rightarrow> string \<Rightarrow> ('s, attr) step" where
  "parse_attr ctx text = (if parses_attr ctx text then sreturn (AText text) else sfail ParseAttribute)"

definition parse_attrs :: "mlir_context \<Rightarrow> (string \<times> string) list \<Rightarrow> ('s, (string \<times> attr) list) step" where
  "parse_attrs ctx attrs =
     smap (\<lambda>(name, text). sbind (parse_attr ctx text) (\<lambda>a. sreturn (name, a))) attrs"

definition dense_i32_attr :: "string \<Rightarrow> nat list \<Rightarrow> string \<times> attr" where
  "dense_i32_attr name ns = (name, AI32 ns)"

text \<open>The conversion \<open>i64::try_from\<close> fails from \<open>2 ^ 63\<close> on.\<close>

definition dense_i64_attr :: "string \<Rightarrow> nat list \<Rightarrow> ('s, string \<times> attr) step" where
  "dense_i64_attr name ns =
     (if (\<forall>n \<in> set ns. n < 2 ^ 63) then sreturn (name, AI64 ns) else sfail IntegerTooLarge)"

section \<open>Blocks\<close>

definition append_block_op ::
    "mlir_context \<Rightarrow> string \<Rightarrow> raw list \<Rightarrow> mlir_ty list \<Rightarrow> (string \<times> string) list
      \<Rightarrow> (mlir_block, raw list) step" where
  "append_block_op ctx name operands results attrs =
     sbind (parse_attrs ctx attrs) (\<lambda>attrs'.
     (\<lambda>b. Inr (append_operation (MOp name operands results attrs' []) b)))"

text \<open>The first result, \<open>[0]\<close>, of an operation appended to a block.\<close>

definition block_op ::
    "mlir_context \<Rightarrow> string \<Rightarrow> raw list \<Rightarrow> mlir_ty \<Rightarrow> (string \<times> string) list \<Rightarrow> (mlir_block, raw) step" where
  "block_op ctx name operands result attrs =
     sbind (append_block_op ctx name operands [result] attrs) (\<lambda>rs. sreturn (hd rs))"

section \<open>Values (\<^verbatim>\<open>value.rs\<close>)\<close>

datatype value_kind = Scalar | Tensor

record lvalue =
  raw_of :: raw
  val_ty :: tensor_type
  val_kind :: value_kind

definition value_scalar :: "raw \<Rightarrow> element_type \<Rightarrow> lvalue" where
  "value_scalar r e = \<lparr>raw_of = r, val_ty = tensor e [], val_kind = Scalar\<rparr>"

definition value_tensor :: "raw \<Rightarrow> tensor_type \<Rightarrow> lvalue" where
  "value_tensor r ty = \<lparr>raw_of = r, val_ty = ty, val_kind = Tensor\<rparr>"

section \<open>The lowerer\<close>

record lowerer =
  context_of :: mlir_context
  main_block :: mlir_block
  graphs_of :: "string \<Rightarrow> typed_graph option"
  call_stack :: "string list"
  tuple_scope_stack :: "nat list"
  next_tuple_scope :: nat
  bound_values :: "string \<Rightarrow> lvalue option"
  node_values :: "nat \<times> nat \<Rightarrow> lvalue option"
  tuple_values :: "nat \<times> nat \<Rightarrow> lvalue list option"

type_synonym 'a lower = "(lowerer, 'a) step"

definition sget :: "('s, 's) step" where
  "sget s = Inr (s, s)"

definition supdate :: "('s \<Rightarrow> 's) \<Rightarrow> ('s, unit) step" where
  "supdate f s = Inr ((), f s)"

lemma sget_Inr_iff [step_simps]: "sget s = Inr (x, s') \<longleftrightarrow> x = s \<and> s' = s"
  by (auto simp: sget_def)

lemma supdate_Inr_iff [step_simps]: "supdate f s = Inr (x, s') \<longleftrightarrow> s' = f s"
  by (auto simp: supdate_def)

text \<open>\<open>self.context\<close>, and a step on \<open>self.block\<close>.\<close>

definition with_context :: "(mlir_context \<Rightarrow> 'a lower) \<Rightarrow> 'a lower" where
  "with_context f s = f (context_of s) s"

definition on_block :: "(mlir_block, 'a) step \<Rightarrow> 'a lower" where
  "on_block m s =
     (case m (main_block s) of Inl e \<Rightarrow> Inl e | Inr (x, b) \<Rightarrow> Inr (x, s\<lparr>main_block := b\<rparr>))"

definition mlir_value_type :: "tensor_type \<Rightarrow> value_kind \<Rightarrow> mlir_ty lower" where
  "mlir_value_type ty kind =
     with_context (\<lambda>ctx.
     case kind of Scalar \<Rightarrow> mlir_element_type ctx (elem ty) | Tensor \<Rightarrow> mlir_tensor_type ctx ty)"

definition append_op_with_built_attrs ::
    "string \<Rightarrow> raw list \<Rightarrow> mlir_ty list \<Rightarrow> (string \<times> attr) list \<Rightarrow> (mlir_ty list \<times> mlir_op list) list
      \<Rightarrow> raw list lower" where
  "append_op_with_built_attrs name operands results attrs regions =
     on_block (\<lambda>b. Inr (append_operation (MOp name operands results attrs regions) b))"

definition append_op_with_result_types ::
    "string \<Rightarrow> raw list \<Rightarrow> mlir_ty list \<Rightarrow> (string \<times> string) list \<Rightarrow> raw list lower" where
  "append_op_with_result_types name operands results attrs =
     with_context (\<lambda>ctx. sbind (parse_attrs ctx attrs) (\<lambda>attrs'.
     append_op_with_built_attrs name operands results attrs' []))"

definition value_of_kind :: "raw \<Rightarrow> tensor_type \<Rightarrow> value_kind \<Rightarrow> lvalue" where
  "value_of_kind r ty kind =
     (case kind of Scalar \<Rightarrow> value_scalar r (elem ty) | Tensor \<Rightarrow> value_tensor r ty)"

definition append_op_with_attrs ::
    "string \<Rightarrow> lvalue list \<Rightarrow> tensor_type \<Rightarrow> value_kind \<Rightarrow> (string \<times> string) list \<Rightarrow> lvalue lower" where
  "append_op_with_attrs name operands result_ty result_kind attrs =
     sbind (mlir_value_type result_ty result_kind) (\<lambda>result_type.
     sbind (append_op_with_result_types name (map raw_of operands) [result_type] attrs) (\<lambda>results.
     sreturn (value_of_kind (hd results) result_ty result_kind)))"

definition append_op :: "string \<Rightarrow> lvalue list \<Rightarrow> tensor_type \<Rightarrow> value_kind \<Rightarrow> lvalue lower" where
  "append_op name operands result_ty result_kind =
     sbind (mlir_value_type result_ty result_kind) (\<lambda>result_type.
     sbind (append_op_with_built_attrs name (map raw_of operands) [result_type] [] []) (\<lambda>results.
     sreturn (value_of_kind (hd results) result_ty result_kind)))"

text \<open>The common end of the builders that return one tensor.\<close>

definition append_tensor_op ::
    "string \<Rightarrow> lvalue list \<Rightarrow> tensor_type \<Rightarrow> (string \<times> attr) list \<Rightarrow> (mlir_ty list \<times> mlir_op list) list
      \<Rightarrow> lvalue lower" where
  "append_tensor_op name operands ty attrs regions =
     sbind (with_context (\<lambda>ctx. mlir_tensor_type ctx ty)) (\<lambda>result_type.
     sbind (append_op_with_built_attrs name (map raw_of operands) [result_type] attrs regions) (\<lambda>results.
     sreturn (value_tensor (hd results) ty)))"

definition append_tensor_empty :: "tensor_type \<Rightarrow> lvalue lower" where
  "append_tensor_empty ty = append_op ''tensor.empty'' [] ty Tensor"

definition dim_name :: "nat \<Rightarrow> string" where
  "dim_name i = CHR ''d'' # nat_str i"

definition affine_tuple :: "string list \<Rightarrow> string" where
  "affine_tuple ds = (if ds = [] then ''()'' else ''('' @ join '', '' ds @ '')'')"

definition identity_map :: "nat \<Rightarrow> string" where
  "identity_map rk = (if rk = 0 then ''()'' else ''('' @ join '', '' (map dim_name [0..<rk]) @ '')'')"

definition linalg_maps :: "nat \<Rightarrow> string list \<Rightarrow> string" where
  "linalg_maps loop_rank maps =
     ''['' @ join '', '' (map (\<lambda>m. ''affine_map<('' @ join '', '' (map dim_name [0..<loop_rank]) @ '') -> '' @ m @ ''>'') maps)
     @ '']''"

definition linalg_iterators :: "string list \<Rightarrow> string" where
  "linalg_iterators kinds =
     ''['' @ join '', '' (map (\<lambda>k. ''#linalg.iterator_type<'' @ k @ ''>'') kinds) @ '']''"

text \<open>Runs the builder of a region's body on a fresh block and ends the block with its yield.\<close>

definition build_region ::
    "mlir_context \<Rightarrow> mlir_ty list \<Rightarrow> string \<Rightarrow> (raw list \<Rightarrow> (mlir_block, raw list) step)
      \<Rightarrow> lower_error + mlir_block" where
  "build_region ctx arg_types terminator body =
     (let b = new_region arg_types in
      case sbind (body (map (arg_raw b) [0..<length arg_types]))
             (\<lambda>yields. append_block_op ctx terminator yields [] []) b of
        Inl e \<Rightarrow> Inl e
      | Inr (_, b') \<Rightarrow> Inr b')"

definition sregion :: "lower_error + mlir_block \<Rightarrow> ('s, mlir_ty list \<times> mlir_op list) step" where
  "sregion r s = (case r of Inl e \<Rightarrow> Inl e | Inr b \<Rightarrow> Inr (region_of b, s))"

definition append_linalg_generic ::
    "lvalue list \<Rightarrow> lvalue list \<Rightarrow> tensor_type list \<Rightarrow> nat \<Rightarrow> string list \<Rightarrow> string list
      \<Rightarrow> (mlir_context \<Rightarrow> raw list \<Rightarrow> (mlir_block, raw list) step) \<Rightarrow> raw list lower" where
  "append_linalg_generic inputs outputs result_tys loop_rank maps iterators body =
     with_context (\<lambda>ctx.
     sbind (smap (\<lambda>v. mlir_element_type ctx (elem (val_ty v))) (inputs @ outputs)) (\<lambda>arg_types.
     sbind (sregion (build_region ctx arg_types ''linalg.yield'' (body ctx))) (\<lambda>region.
     sbind (smap (mlir_tensor_type ctx) result_tys) (\<lambda>result_types.
     sbind (parse_attr ctx (linalg_maps loop_rank maps)) (\<lambda>map_attr.
     sbind (parse_attr ctx (linalg_iterators iterators)) (\<lambda>iterator_attr.
     append_op_with_built_attrs ''linalg.generic'' (map raw_of (inputs @ outputs)) result_types
       [dense_i32_attr ''operand_segment_sizes'' [length inputs, length outputs],
        (''indexing_maps'', map_attr), (''iterator_types'', iterator_attr)]
       [region]))))))"

text \<open>A generic operation with one result.\<close>

definition append_generic_tensor ::
    "lvalue list \<Rightarrow> lvalue \<Rightarrow> tensor_type \<Rightarrow> nat \<Rightarrow> string list \<Rightarrow> string list
      \<Rightarrow> (mlir_context \<Rightarrow> raw list \<Rightarrow> (mlir_block, raw list) step) \<Rightarrow> lvalue lower" where
  "append_generic_tensor inputs output ty loop_rank maps iterators body =
     sbind (append_linalg_generic inputs [output] [ty] loop_rank maps iterators body) (\<lambda>results.
     sreturn (value_tensor (hd results) ty))"

definition append_linalg_fill :: "lvalue \<Rightarrow> lvalue \<Rightarrow> tensor_type \<Rightarrow> lvalue lower" where
  "append_linalg_fill scalar output ty =
     (if rank ty = 0 then append_tensor_op ''tensor.from_elements'' [scalar] ty [] []
      else append_generic_tensor [scalar] output ty (rank ty) [''()'', identity_map (rank ty)]
             (replicate (rank ty) ''parallel'') (\<lambda>ctx args. sreturn [args ! 0]))"

definition named_linalg_body ::
    "string \<Rightarrow> tensor_type \<Rightarrow> mlir_context \<Rightarrow> raw list \<Rightarrow> (mlir_block, raw list) step" where
  "named_linalg_body name ty ctx args =
     (if name \<in> {''linalg.matmul'', ''linalg.batch_matmul'', ''linalg.conv_2d_nhwc_hwcf''} then
        sbind (mlir_element_type ctx (elem ty)) (\<lambda>elem_ty.
        sbind (block_op ctx (if is_float (elem ty) then ''arith.mulf'' else ''arith.muli'')
                 [args ! 0, args ! 1] elem_ty []) (\<lambda>product.
        sbind (block_op ctx (if is_float (elem ty) then ''arith.addf'' else ''arith.addi'')
                 [product, args ! 2] elem_ty []) (\<lambda>total. sreturn [total])))
      else sreturn [args ! 0])"

definition named_linalg_region ::
    "string \<Rightarrow> lvalue list \<Rightarrow> tensor_type \<Rightarrow> (mlir_ty list \<times> mlir_op list) lower" where
  "named_linalg_region name inputs ty =
     with_context (\<lambda>ctx.
     sbind (smap (mlir_element_type ctx) (map (\<lambda>v. elem (val_ty v)) inputs @ [elem ty])) (\<lambda>arg_types.
     sregion (build_region ctx arg_types ''linalg.yield'' (named_linalg_body name ty ctx))))"

definition append_named_linalg_with_built_attrs ::
    "string \<Rightarrow> lvalue list \<Rightarrow> lvalue \<Rightarrow> tensor_type \<Rightarrow> (string \<times> attr) list \<Rightarrow> lvalue lower" where
  "append_named_linalg_with_built_attrs name inputs output ty attrs =
     sbind (with_context (\<lambda>ctx. mlir_tensor_type ctx ty)) (\<lambda>result_type.
     sbind (named_linalg_region name inputs ty) (\<lambda>region.
     sbind (append_op_with_built_attrs name (map raw_of (inputs @ [output])) [result_type]
              (dense_i32_attr ''operand_segment_sizes'' [length inputs, 1] # attrs) [region]) (\<lambda>results.
     sreturn (value_tensor (hd results) ty))))"

definition append_named_linalg ::
    "string \<Rightarrow> lvalue list \<Rightarrow> lvalue \<Rightarrow> tensor_type \<Rightarrow> (string \<times> string) list \<Rightarrow> lvalue lower" where
  "append_named_linalg name inputs output ty attrs =
     with_context (\<lambda>ctx. sbind (parse_attrs ctx attrs) (\<lambda>attrs'.
     append_named_linalg_with_built_attrs name inputs output ty attrs'))"

definition append_index_constant :: "nat \<Rightarrow> raw lower" where
  "append_index_constant n =
     sbind (append_op_with_result_types ''arith.constant'' [] [MIndex]
              [(''value'', nat_str n @ '' : index'')]) (\<lambda>results. sreturn (hd results))"

definition append_tensor_extract :: "lvalue \<Rightarrow> raw list \<Rightarrow> lvalue lower" where
  "append_tensor_extract v indices =
     sbind (with_context (\<lambda>ctx. mlir_element_type ctx (elem (val_ty v)))) (\<lambda>result_type.
     sbind (append_op_with_built_attrs ''tensor.extract'' (raw_of v # indices) [result_type] [] []) (\<lambda>results.
     sreturn (value_scalar (hd results) (elem (val_ty v)))))"

definition append_tensor_pad ::
    "lvalue \<Rightarrow> tensor_type \<Rightarrow> nat list \<Rightarrow> nat list \<Rightarrow> lvalue \<Rightarrow> lvalue lower" where
  "append_tensor_pad v ty lows highs pad_value =
     with_context (\<lambda>ctx.
     sbind (sregion (build_region ctx (replicate (rank ty) MIndex) ''tensor.yield''
              (\<lambda>args. sreturn [raw_of pad_value]))) (\<lambda>region.
     sbind (dense_i64_attr ''static_low'' lows) (\<lambda>low.
     sbind (dense_i64_attr ''static_high'' highs) (\<lambda>high.
     append_tensor_op ''tensor.pad'' [v] ty
       [dense_i32_attr ''operand_segment_sizes'' [1, 0, 0], low, high] [region]))))"

definition append_tensor_extract_slice ::
    "lvalue \<Rightarrow> tensor_type \<Rightarrow> nat list \<Rightarrow> nat list \<Rightarrow> nat list \<Rightarrow> lvalue lower" where
  "append_tensor_extract_slice v ty offsets extents strides =
     sbind (with_context (\<lambda>ctx. mlir_tensor_type ctx ty)) (\<lambda>result_type.
     sbind (dense_i64_attr ''static_offsets'' offsets) (\<lambda>a.
     sbind (dense_i64_attr ''static_sizes'' extents) (\<lambda>b.
     sbind (dense_i64_attr ''static_strides'' strides) (\<lambda>c.
     append_tensor_op ''tensor.extract_slice'' [v] ty
       [dense_i32_attr ''operand_segment_sizes'' [1, 0, 0, 0], a, b, c] []))))"

definition append_tensor_insert_slice ::
    "lvalue \<Rightarrow> lvalue \<Rightarrow> tensor_type \<Rightarrow> nat list \<Rightarrow> lvalue lower" where
  "append_tensor_insert_slice source dest dest_ty offsets =
     sbind (with_context (\<lambda>ctx. mlir_tensor_type ctx dest_ty)) (\<lambda>result_type.
     sbind (dense_i64_attr ''static_offsets'' offsets) (\<lambda>a.
     sbind (dense_i64_attr ''static_sizes'' (shape (val_ty source))) (\<lambda>b.
     sbind (dense_i64_attr ''static_strides'' (replicate (rank (val_ty source)) 1)) (\<lambda>c.
     append_tensor_op ''tensor.insert_slice'' [source, dest] dest_ty
       [dense_i32_attr ''operand_segment_sizes'' [1, 1, 0, 0, 0], a, b, c] []))))"

definition append_reassociation_op ::
    "string \<Rightarrow> lvalue \<Rightarrow> tensor_type \<Rightarrow> string \<Rightarrow> nat list option \<Rightarrow> lvalue lower" where
  "append_reassociation_op name v ty reassociation output_shape =
     with_context (\<lambda>ctx.
     sbind (parse_attr ctx reassociation) (\<lambda>groups.
     sbind (case output_shape of
              None \<Rightarrow> sreturn []
            | Some s \<Rightarrow>
                sbind (dense_i64_attr ''static_output_shape'' s) (\<lambda>a.
                sreturn [a, dense_i32_attr ''operand_segment_sizes'' [0]])) (\<lambda>more.
     append_tensor_op name [v] ty ((''reassociation'', groups) # more) [])))"

end
