(* ===== verification/Lower_Emit.thy ===== *)
theory Lower_Emit
  imports Mlir
begin

text \<open>
  The elementwise part of the lowering: \<^verbatim>\<open>lowering/emit.rs\<close>, and from \<^verbatim>\<open>lowering/tensor_ops.rs\<close> the
  broadcasts it uses.
\<close>

text \<open>
  \<^verbatim>\<open>crates/knok-compile/src/lowering/shape.rs\<close>: the shape arithmetic of the lowering.  Reassociation
  groups say which consecutive dimensions of the larger tensor belong to one dimension of the smaller.
\<close>

section \<open>Reassociation\<close>

definition reassociation_for_rank :: "nat \<Rightarrow> string" where
  "reassociation_for_rank rk = ''[['' @ join '', '' (map nat_str [0..<rk]) @ '']]''"

definition format_reassociation_groups :: "nat list list \<Rightarrow> string" where
  "format_reassociation_groups groups =
     ''['' @ join '', '' (map (\<lambda>g. ''['' @ join '', '' (map nat_str g) @ '']'') groups) @ '']''"

text \<open>The loop over \<open>index\<close> with the groups built so far; the removed axis joins the group before it, or
  opens the first group together with the axis after it.\<close>

function removed_axis_groups :: "nat \<Rightarrow> nat \<Rightarrow> nat \<Rightarrow> nat list list \<Rightarrow> nat list list" where
  "removed_axis_groups rk axis index groups =
     (if index < rk then
        if index = axis then
          if groups = [] then removed_axis_groups rk axis (index + 2) (groups @ [[index, index + 1]])
          else removed_axis_groups rk axis (index + 1) (butlast groups @ [last groups @ [index]])
        else removed_axis_groups rk axis (index + 1) (groups @ [[index]])
      else groups)"
  by pat_completeness auto
termination
  by (relation "measure (\<lambda>(rk, axis, index, groups). rk - index)") auto

declare removed_axis_groups.simps [simp del]

definition collapse_reassociation_for_removed_axis :: "nat \<Rightarrow> nat \<Rightarrow> string" where
  "collapse_reassociation_for_removed_axis rk axis =
     (if rk \<le> 1 then reassociation_for_rank rk
      else format_reassociation_groups (removed_axis_groups rk axis 0 []))"

definition inserted_axis_groups :: "nat \<Rightarrow> nat \<Rightarrow> nat list list" where
  "inserted_axis_groups input_rank axis =
     (let groups = map (\<lambda>i. if i = axis then [i, i + 1] else if i < axis then [i] else [i + 1]) [0..<input_rank]
      in if axis = input_rank then
           (if groups = [] then [[axis]] else butlast groups @ [last groups @ [axis]])
         else groups)"

definition expand_reassociation_for_inserted_axis :: "nat \<Rightarrow> nat \<Rightarrow> string" where
  "expand_reassociation_for_inserted_axis input_rank axis =
     format_reassociation_groups (inserted_axis_groups input_rank axis)"

text \<open>The loop with the groups and the pending indices; an expanded dimension of one joins the group
  that follows it, or the last group.\<close>

fun squeezed_groups :: "nat \<Rightarrow> (nat \<times> nat) list \<Rightarrow> nat list list \<Rightarrow> nat list \<Rightarrow> nat list list" where
  "squeezed_groups index ((input_dim, output_dim) # dims) groups pending =
     (if \<not> (input_dim = 1 \<and> output_dim \<noteq> 1)
      then squeezed_groups (index + 1) dims (groups @ [pending @ [index]]) []
      else squeezed_groups (index + 1) dims groups (pending @ [index]))"
| "squeezed_groups index [] groups pending =
     (if pending = [] then groups
      else if groups = [] then [pending]
      else butlast groups @ [last groups @ pending])"

definition collapse_reassociation_for_squeezed_broadcast :: "nat list \<Rightarrow> nat list \<Rightarrow> string" where
  "collapse_reassociation_for_squeezed_broadcast input_shape aligned_output_shape =
     format_reassociation_groups (squeezed_groups 0 (zip input_shape aligned_output_shape) [] [])"

section \<open>Broadcasting\<close>

text \<open>\<open>broadcast_shape\<close> and \<open>dim_from_trailing\<close> repeat the code of \<open>knok-core\<close> (\<open>broadcast_shape_slices\<close>).\<close>

definition lower_broadcast_shape :: "nat list \<Rightarrow> nat list \<Rightarrow> ('s, nat list) step" where
  "lower_broadcast_shape lhs rhs = slift (broadcast_shape_slices lhs rhs)"

definition broadcast_result_type :: "tensor_type \<Rightarrow> tensor_type \<Rightarrow> ('s, tensor_type) step" where
  "broadcast_result_type lhs rhs =
     sbind (scheck (elem lhs = elem rhs) BroadcastElements) (\<lambda>_.
     sbind (lower_broadcast_shape (shape lhs) (shape rhs)) (\<lambda>s.
     sreturn (tensor (elem lhs) s)))"

definition ensure_broadcastable :: "tensor_type \<Rightarrow> tensor_type \<Rightarrow> ('s, unit) step" where
  "ensure_broadcastable inp output =
     sbind (scheck (elem inp = elem output) BroadcastElements) (\<lambda>_.
     sbind (lower_broadcast_shape (shape inp) (shape output)) (\<lambda>s.
     scheck (s = shape output) BroadcastResult))"

definition axis_broadcast_dimensions :: "nat \<Rightarrow> nat \<Rightarrow> nat \<Rightarrow> ('s, nat list) step" where
  "axis_broadcast_dimensions input_rank output_rank axis =
     sbind (scheck (input_rank + 1 = output_rank) AxisBroadcastRank) (\<lambda>_.
     sbind (scheck (axis < output_rank) AxisBroadcastBounds) (\<lambda>_.
     sreturn [axis]))"

definition ensure_axis_broadcastable :: "tensor_type \<Rightarrow> tensor_type \<Rightarrow> nat \<Rightarrow> ('s, unit) step" where
  "ensure_axis_broadcastable inp output axis =
     sbind (scheck (elem inp = elem output) BroadcastElements) (\<lambda>_.
     sbind (scheck (rank inp + 1 = rank output) AxisBroadcastRank) (\<lambda>_.
     sfold (\<lambda>output_index _.
         if output_index = axis then sreturn ()
         else
           (let input_index = (if output_index < axis then output_index else output_index - 1) in
            sbind (slift (idx (shape inp) input_index)) (\<lambda>i.
            sbind (slift (idx (shape output) output_index)) (\<lambda>n.
            scheck (i = n) AxisBroadcastDims))))
       [0..<rank output] ()))"

section \<open>Reductions\<close>

definition reduction_output_shape :: "nat list \<Rightarrow> axis_spec \<Rightarrow> bool \<Rightarrow> ('s, nat list) step" where
  "reduction_output_shape input_shape axis keep_dims =
     (case axis of
        AxisOne axis \<Rightarrow>
          (if keep_dims
           then sreturn (map (\<lambda>i. if i = axis then 1 else input_shape ! i) [0..<length input_shape])
           else slift (vec_remove axis input_shape))
      | AxisAll \<Rightarrow> sreturn [])"

definition reduction_output_map :: "nat \<Rightarrow> axis_spec \<Rightarrow> bool \<Rightarrow> string" where
  "reduction_output_map input_rank axis keep_dims =
     (case axis of
        AxisOne axis \<Rightarrow>
          (if keep_dims then
             ''('' @ join '', '' (map (\<lambda>i. if i = axis then ''0'' else dim_name i) [0..<input_rank]) @ '')''
           else if input_rank = 1 then ''()''
           else
             (let dims = join '', '' (map dim_name (filter (\<lambda>i. i \<noteq> axis) [0..<input_rank]))
              in if dims = [] then ''()'' else ''('' @ dims @ '')''))
      | AxisAll \<Rightarrow> ''()'')"

section \<open>Constants\<close>

definition lower_constant :: "string \<Rightarrow> element_type \<Rightarrow> lvalue lower" where
  "lower_constant v e =
     append_op_with_attrs ''arith.constant'' [] (tensor e []) Scalar
       [(''value'', v @ '' : '' @ elem_mlir_type e)]"

definition dense_attr :: "string \<Rightarrow> tensor_type \<Rightarrow> string \<times> string" where
  "dense_attr literal ty = (''value'', ''dense<'' @ literal @ ''> : '' @ mlir_type ty)"

definition zero_like :: "tensor_type \<Rightarrow> lvalue lower" where
  "zero_like ty =
     (if rank ty = 0 then lower_constant (zero_literal (elem ty)) (elem ty)
      else append_op_with_attrs ''arith.constant'' [] ty Tensor [dense_attr (zero_literal (elem ty)) ty])"

definition one_like :: "tensor_type \<Rightarrow> lvalue lower" where
  "one_like ty =
     (if rank ty = 0 then lower_constant (one_literal (elem ty)) (elem ty)
      else append_op_with_attrs ''arith.constant'' [] ty Tensor [dense_attr (one_literal (elem ty)) ty])"

text \<open>The literal nested by the shape; \<open>chunk_len\<close> values belong to each index of the first
  dimension.\<close>

fun nested_dense_literal :: "string list \<Rightarrow> nat list \<Rightarrow> string" where
  "nested_dense_literal vs [] = hd vs"
| "nested_dense_literal vs (d # ds) =
     (if d = 0 then ''[]''
      else
        (let chunk_len = prod_list ds in
         ''['' @ join '', ''
           (map (\<lambda>i. if chunk_len = 0 then nested_dense_literal [] ds
                      else nested_dense_literal (take chunk_len (drop (i * chunk_len) vs)) ds) [0..<d])
         @ '']''))"

definition dense_constant :: "tensor_type \<Rightarrow> string list \<Rightarrow> lvalue lower" where
  "dense_constant ty vs =
     (if rank ty = 0 then
        (case vs of [] \<Rightarrow> sfail DenseScalarEmpty | v # _ \<Rightarrow> lower_constant v (elem ty))
      else if length vs \<noteq> element_count ty then sfail DenseLength
      else append_op_with_attrs ''arith.constant'' [] ty Tensor
             [dense_attr (nested_dense_literal vs (shape ty)) ty])"

definition zero_initialized_tensor :: "tensor_type \<Rightarrow> lvalue lower" where
  "zero_initialized_tensor ty =
     sbind (append_tensor_empty ty) (\<lambda>empty.
     sbind (lower_constant (zero_literal (elem ty)) (elem ty)) (\<lambda>zero.
     append_linalg_fill zero empty ty))"

section \<open>Broadcasts\<close>

definition extract_first_scalar :: "lvalue \<Rightarrow> lvalue lower" where
  "extract_first_scalar v =
     sbind (append_index_constant 0) (\<lambda>zero.
     append_tensor_extract v (replicate (rank (val_ty v)) zero))"

definition coerce_to_scalar :: "lvalue \<Rightarrow> lvalue lower" where
  "coerce_to_scalar v =
     (case val_kind v of
        Scalar \<Rightarrow> sreturn v
      | Tensor \<Rightarrow>
          (if rank (val_ty v) = 0 \<or> element_count (val_ty v) = 1 then extract_first_scalar v
           else sfail ScalarExpected))"

definition splat :: "lvalue \<Rightarrow> tensor_type \<Rightarrow> lvalue lower" where
  "splat scalar ty =
     sbind (coerce_to_scalar scalar) (\<lambda>scalar'.
     sbind (append_tensor_empty ty) (\<lambda>empty.
     append_linalg_fill scalar' empty ty))"

definition emit_linalg_broadcast :: "lvalue \<Rightarrow> tensor_type \<Rightarrow> nat list \<Rightarrow> lvalue lower" where
  "emit_linalg_broadcast v ty dimensions =
     sbind (append_tensor_empty ty) (\<lambda>empty.
     sbind (dense_i64_attr ''dimensions'' dimensions) (\<lambda>a.
     append_named_linalg_with_built_attrs ''linalg.broadcast'' [v] empty ty [a]))"

text \<open>The positions that a broadcast stretches, and the dimensions that stay.\<close>

definition stretched :: "nat list \<Rightarrow> nat list \<Rightarrow> nat \<Rightarrow> nat \<Rightarrow> bool" where
  "stretched input_shape output_shape padding i \<longleftrightarrow>
     input_shape ! i = 1 \<and> output_shape ! (padding + i) \<noteq> 1"

definition squeeze_singleton_broadcast_dims ::
    "lvalue \<Rightarrow> tensor_type \<Rightarrow> (lvalue \<times> nat list) lower" where
  "squeeze_singleton_broadcast_dims v ty =
     sbind (slift (usize_sub (rank ty) (rank (val_ty v)))) (\<lambda>padding.
     let s = shape (val_ty v);
         singletons = filter (stretched s (shape ty) padding) [0..<length s];
         dimensions = [0..<padding] @ map (\<lambda>i. padding + i) singletons
     in
     if singletons = [] then sreturn (v, dimensions)
     else
       (let squeezed = map (\<lambda>i. s ! i) (filter (\<lambda>i. \<not> stretched s (shape ty) padding i) [0..<length s]) in
        if squeezed = [] then
          sbind (extract_first_scalar v) (\<lambda>scalar. sreturn (scalar, [0..<rank ty]))
        else
          sbind (append_reassociation_op ''tensor.collapse_shape'' v (tensor (elem (val_ty v)) squeezed)
                   (collapse_reassociation_for_squeezed_broadcast s (drop padding (shape ty))) None) (\<lambda>squeezed_value.
          sreturn (squeezed_value, dimensions))))"

definition lower_broadcast :: "lvalue \<Rightarrow> tensor_type \<Rightarrow> lvalue lower" where
  "lower_broadcast v ty =
     (if val_ty v = ty \<and> val_kind v = Tensor then sreturn v
      else if val_kind v = Scalar then splat v ty
      else if rank (val_ty v) = 0 then splat v ty
      else if element_count (val_ty v) = 1 then
        sbind (extract_first_scalar v) (\<lambda>scalar. splat scalar ty)
      else
        sbind (ensure_broadcastable (val_ty v) ty) (\<lambda>_.
        sbind (squeeze_singleton_broadcast_dims v ty) (\<lambda>(v', dimensions).
        emit_linalg_broadcast v' ty dimensions)))"

definition broadcast_along_axis :: "lvalue \<Rightarrow> tensor_type \<Rightarrow> nat \<Rightarrow> lvalue lower" where
  "broadcast_along_axis v ty axis =
     (if val_ty v = ty \<and> val_kind v = Tensor then sreturn v
      else if val_kind v = Scalar then splat v ty
      else if rank (val_ty v) = 0 \<or> element_count (val_ty v) = 1 then
        sbind (coerce_to_scalar v) (\<lambda>scalar. splat scalar ty)
      else
        sbind (ensure_axis_broadcastable (val_ty v) ty axis) (\<lambda>_.
        sbind (axis_broadcast_dimensions (rank (val_ty v)) (rank ty) axis) (\<lambda>dimensions.
        emit_linalg_broadcast v ty dimensions)))"

definition coerce_to_kind :: "lvalue \<Rightarrow> tensor_type \<Rightarrow> value_kind \<Rightarrow> lvalue lower" where
  "coerce_to_kind v ty kind = (case kind of Scalar \<Rightarrow> coerce_to_scalar v | Tensor \<Rightarrow> lower_broadcast v ty)"

section \<open>Elementwise operations\<close>

definition emit_unary :: "string \<Rightarrow> lvalue \<Rightarrow> lvalue lower" where
  "emit_unary name v = append_op name [v] (val_ty v) (val_kind v)"

definition emit_binary :: "string \<Rightarrow> lvalue \<Rightarrow> lvalue \<Rightarrow> lvalue lower" where
  "emit_binary name l r =
     sbind (broadcast_result_type (val_ty l) (val_ty r)) (\<lambda>ty.
     let kind = (if rank ty = 0 \<and> val_kind l = Scalar \<and> val_kind r = Scalar then Scalar else Tensor) in
     sbind (coerce_to_kind l ty kind) (\<lambda>l'.
     sbind (coerce_to_kind r ty kind) (\<lambda>r'.
     append_op name [l', r'] ty kind)))"

definition operand_elem :: "lvalue \<Rightarrow> lvalue \<Rightarrow> element_type" where
  "operand_elem l r = (if rank (val_ty l) = 0 then elem (val_ty r) else elem (val_ty l))"

fun binary_op_name :: "bool \<Rightarrow> binary_op \<Rightarrow> string" where
  "binary_op_name True Add = ''arith.addf''"
| "binary_op_name True Sub = ''arith.subf''"
| "binary_op_name True Mul = ''arith.mulf''"
| "binary_op_name True Div = ''arith.divf''"
| "binary_op_name False Add = ''arith.addi''"
| "binary_op_name False Sub = ''arith.subi''"
| "binary_op_name False Mul = ''arith.muli''"
| "binary_op_name False Div = ''arith.divsi''"

definition binary_value :: "binary_op \<Rightarrow> lvalue \<Rightarrow> lvalue \<Rightarrow> lvalue lower" where
  "binary_value bop l r = emit_binary (binary_op_name (is_float (operand_elem l r)) bop) l r"

definition lower_minimum :: "lvalue \<Rightarrow> lvalue \<Rightarrow> lvalue lower" where
  "lower_minimum l r =
     emit_binary (if is_float (operand_elem l r) then ''arith.minimumf'' else ''arith.minsi'') l r"

definition lower_maximum :: "lvalue \<Rightarrow> lvalue \<Rightarrow> lvalue lower" where
  "lower_maximum l r =
     emit_binary (if is_float (operand_elem l r) then ''arith.maximumf'' else ''arith.maxsi'') l r"

text \<open>The numbers of the predicates of \<open>arith.cmpf\<close> and \<open>arith.cmpi\<close>; other names panic.\<close>

definition cmpf_predicates :: "(string \<times> nat) list" where
  "cmpf_predicates =
     [(''false'', 0), (''oeq'', 1), (''ogt'', 2), (''oge'', 3), (''olt'', 4), (''ole'', 5), (''one'', 6),
      (''ord'', 7), (''ueq'', 8), (''ugt'', 9), (''uge'', 10), (''ult'', 11), (''ule'', 12), (''une'', 13),
      (''uno'', 14), (''true'', 15)]"

definition cmpi_predicates :: "(string \<times> nat) list" where
  "cmpi_predicates =
     [(''eq'', 0), (''ne'', 1), (''slt'', 2), (''sle'', 3), (''sgt'', 4), (''sge'', 5), (''ult'', 6),
      (''ule'', 7), (''ugt'', 8), (''uge'', 9)]"

definition cmpf_predicate_value :: "string \<Rightarrow> ('s, nat) step" where
  "cmpf_predicate_value p = slift (of_option (Panic UnwrapNone) (map_of cmpf_predicates p))"

definition cmpi_predicate_value :: "string \<Rightarrow> ('s, nat) step" where
  "cmpi_predicate_value p = slift (of_option (Panic UnwrapNone) (map_of cmpi_predicates p))"

definition predicate_attr :: "string \<Rightarrow> string option \<Rightarrow> ('s, (string \<times> string) list) step" where
  "predicate_attr name predicate =
     (case predicate of
        None \<Rightarrow> sreturn []
      | Some p \<Rightarrow>
          (if name = ''arith.cmpf'' then
             sbind (cmpf_predicate_value p) (\<lambda>n. sreturn [(''predicate'', nat_str n @ '' : i64'')])
           else if name = ''arith.cmpi'' then
             sbind (cmpi_predicate_value p) (\<lambda>n. sreturn [(''predicate'', nat_str n @ '' : i64'')])
           else sreturn []))"

definition append_region_like_scalar_op ::
    "string \<Rightarrow> lvalue list \<Rightarrow> tensor_type \<Rightarrow> value_kind \<Rightarrow> string option \<Rightarrow> lvalue lower" where
  "append_region_like_scalar_op name operands ty kind predicate =
     sbind (predicate_attr name predicate) (\<lambda>attrs. append_op_with_attrs name operands ty kind attrs)"

text \<open>The body of an elementwise generic operation: one scalar operation on some of the arguments.\<close>

definition scalar_body ::
    "string \<Rightarrow> string option \<Rightarrow> element_type \<Rightarrow> nat list \<Rightarrow> mlir_context \<Rightarrow> raw list
      \<Rightarrow> (mlir_block, raw list) step" where
  "scalar_body name predicate result_elem positions ctx args =
     sbind (predicate_attr name predicate) (\<lambda>attrs.
     sbind (mlir_element_type ctx result_elem) (\<lambda>result_type.
     sbind (block_op ctx name (map (\<lambda>i. args ! i) positions) result_type attrs) (\<lambda>r.
     sreturn [r])))"

definition parallel :: "nat \<Rightarrow> string list" where
  "parallel rk = replicate rk ''parallel''"

definition emit_elementwise_unary_with_duplicate_operand ::
    "tensor_type \<Rightarrow> lvalue \<Rightarrow> string \<Rightarrow> string option \<Rightarrow> lvalue lower" where
  "emit_elementwise_unary_with_duplicate_operand ty v name predicate =
     (if rank ty = 0 then append_region_like_scalar_op name [v, v] ty (val_kind v) predicate
      else
        sbind (coerce_to_kind v (tensor (elem (val_ty v)) (shape ty)) Tensor) (\<lambda>v'.
        sbind (append_tensor_empty ty) (\<lambda>output.
        append_generic_tensor [v'] output ty (rank ty) [identity_map (rank ty), identity_map (rank ty)]
          (parallel (rank ty)) (scalar_body name predicate (elem ty) [0, 0]))))"

definition emit_elementwise_binary_op ::
    "tensor_type \<Rightarrow> lvalue \<Rightarrow> lvalue \<Rightarrow> string \<Rightarrow> string option \<Rightarrow> lvalue lower" where
  "emit_elementwise_binary_op ty l r name predicate =
     (if rank ty = 0 then
        (let kind = (if val_kind l = Scalar \<and> val_kind r = Scalar then Scalar else Tensor) in
         sbind (coerce_to_kind l (tensor (elem (val_ty l)) []) kind) (\<lambda>l'.
         sbind (coerce_to_kind r (tensor (elem (val_ty r)) []) kind) (\<lambda>r'.
         append_region_like_scalar_op name [l', r'] ty kind predicate)))
      else
        sbind (coerce_to_kind l (tensor (elem (val_ty l)) (shape ty)) Tensor) (\<lambda>l'.
        sbind (coerce_to_kind r (tensor (elem (val_ty r)) (shape ty)) Tensor) (\<lambda>r'.
        sbind (append_tensor_empty ty) (\<lambda>output.
        append_generic_tensor [l', r'] output ty (rank ty)
          [identity_map (rank ty), identity_map (rank ty), identity_map (rank ty)]
          (parallel (rank ty)) (scalar_body name predicate (elem ty) [0, 1])))))"

definition emit_elementwise_ternary ::
    "tensor_type \<Rightarrow> lvalue \<Rightarrow> lvalue \<Rightarrow> lvalue \<Rightarrow> lvalue lower" where
  "emit_elementwise_ternary ty c t f =
     (if rank ty = 0 then
        (let kind = (if val_kind c = Scalar \<and> val_kind t = Scalar \<and> val_kind f = Scalar
                     then Scalar else Tensor);
             value_ty = tensor (elem ty) [] in
         sbind (coerce_to_kind c (tensor Bool []) kind) (\<lambda>c'.
         sbind (coerce_to_kind t value_ty kind) (\<lambda>t'.
         sbind (coerce_to_kind f value_ty kind) (\<lambda>f'.
         append_region_like_scalar_op ''arith.select'' [c', t', f'] ty kind None))))
      else
        sbind (append_tensor_empty ty) (\<lambda>output.
        append_generic_tensor [c, t, f] output ty (rank ty)
          [identity_map (rank ty), identity_map (rank ty), identity_map (rank ty), identity_map (rank ty)]
          (parallel (rank ty)) (scalar_body ''arith.select'' None (elem ty) [0, 1, 2])))"

definition lower_comparison :: "string \<Rightarrow> string \<Rightarrow> lvalue \<Rightarrow> lvalue \<Rightarrow> lvalue lower" where
  "lower_comparison float_predicate integer_predicate l r =
     sbind (lower_broadcast_shape (shape (val_ty l)) (shape (val_ty r))) (\<lambda>s.
     let float' = is_float (elem (val_ty l)) in
     emit_elementwise_binary_op (tensor Bool s) l r (if float' then ''arith.cmpf'' else ''arith.cmpi'')
       (Some (if float' then float_predicate else integer_predicate)))"

definition lower_isnan :: "lvalue \<Rightarrow> lvalue lower" where
  "lower_isnan v =
     emit_elementwise_unary_with_duplicate_operand (tensor Bool (shape (val_ty v))) v ''arith.cmpf'' (Some ''uno'')"

definition logical_binary :: "string \<Rightarrow> lvalue \<Rightarrow> lvalue \<Rightarrow> lvalue lower" where
  "logical_binary name l r =
     sbind (broadcast_result_type (val_ty l) (val_ty r)) (\<lambda>ty.
     emit_elementwise_binary_op ty l r name None)"

definition logical_not :: "lvalue \<Rightarrow> lvalue lower" where
  "logical_not v =
     sbind (lower_constant ''1'' Bool) (\<lambda>true_value.
     sbind (lower_broadcast true_value (val_ty v)) (\<lambda>true_value'.
     logical_binary ''arith.xori'' v true_value'))"

definition where_select :: "lvalue \<Rightarrow> lvalue \<Rightarrow> lvalue \<Rightarrow> lvalue lower" where
  "where_select c t f =
     sbind (lower_broadcast_shape (shape (val_ty t)) (shape (val_ty f))) (\<lambda>value_shape.
     sbind (lower_broadcast_shape (shape (val_ty c)) value_shape) (\<lambda>s.
     sbind (coerce_to_kind c (tensor Bool s) Tensor) (\<lambda>c'.
     sbind (coerce_to_kind t (tensor (elem (val_ty t)) s) Tensor) (\<lambda>t'.
     sbind (coerce_to_kind f (tensor (elem (val_ty f)) s) Tensor) (\<lambda>f'.
     emit_elementwise_ternary (tensor (elem (val_ty t)) s) c' t' f')))))"

end
