(* ===== verification/Lower_Tensor.thy ===== *)
theory Lower_Tensor
  imports Lower_Emit
begin

text \<open>
  The data movement of the lowering, \<^verbatim>\<open>lowering/tensor_ops.rs\<close>: permutations, reshapes, slices,
  gathers, concatenations and the operations built from them.  The broadcasts of that file are in
  \<open>Lower_Emit\<close>, which uses them.
\<close>

section \<open>Permutations\<close>

definition lower_permute :: "lvalue \<Rightarrow> tensor_type \<Rightarrow> nat list \<Rightarrow> lvalue lower" where
  "lower_permute v ty axes =
     (if axes = [0..<length axes] then sreturn v
      else
        sbind (append_tensor_empty ty) (\<lambda>empty.
        sbind (dense_i64_attr ''permutation'' axes) (\<lambda>a.
        append_named_linalg_with_built_attrs ''linalg.transpose'' [v] empty ty [a])))"

definition lower_permute_dims :: "lvalue \<Rightarrow> nat list \<Rightarrow> lvalue lower" where
  "lower_permute_dims v axes =
     sbind (slift (rmap (idx (shape (val_ty v))) axes)) (\<lambda>s.
     lower_permute v (tensor (elem (val_ty v)) s) axes)"

definition lower_transpose :: "lvalue \<Rightarrow> nat list \<Rightarrow> lvalue lower" where
  "lower_transpose v axes =
     (if rank (val_ty v) \<le> 1 then sreturn v
      else if axes = [] then
        lower_permute v (tensor (elem (val_ty v)) (rev (shape (val_ty v)))) (rev [0..<rank (val_ty v)])
      else lower_permute_dims v axes)"

definition swap_axes :: "nat \<Rightarrow> nat \<Rightarrow> nat list \<Rightarrow> nat list result" where
  "swap_axes i j axes =
     (if i < length axes \<and> j < length axes then Inr (swap_nth i j axes)
      else Inl (Panic IndexOutOfBounds))"

definition lower_swapaxes :: "lvalue \<Rightarrow> nat \<Rightarrow> nat \<Rightarrow> lvalue lower" where
  "lower_swapaxes v axis0 axis1 =
     sbind (slift (swap_axes axis0 axis1 [0..<rank (val_ty v)])) (\<lambda>axes. lower_permute_dims v axes)"

definition lower_moveaxis :: "lvalue \<Rightarrow> nat \<Rightarrow> nat \<Rightarrow> lvalue lower" where
  "lower_moveaxis v source destination =
     sbind (slift (idx [0..<rank (val_ty v)] source)) (\<lambda>axis.
     sbind (slift (vec_remove source [0..<rank (val_ty v)])) (\<lambda>axes.
     sbind (slift (vec_insert destination axis axes)) (\<lambda>axes'. lower_permute_dims v axes')))"

section \<open>Reshapes\<close>

definition expand_rank1 :: "lvalue \<Rightarrow> tensor_type \<Rightarrow> lvalue lower" where
  "expand_rank1 v ty =
     append_reassociation_op ''tensor.expand_shape'' v ty (reassociation_for_rank (rank ty)) (Some (shape ty))"

definition collapse_to_rank1 :: "lvalue \<Rightarrow> tensor_type \<Rightarrow> lvalue lower" where
  "collapse_to_rank1 v ty =
     append_reassociation_op ''tensor.collapse_shape'' v ty (reassociation_for_rank (rank (val_ty v))) None"

definition lower_reshape :: "lvalue \<Rightarrow> tensor_type \<Rightarrow> lvalue lower" where
  "lower_reshape v ty =
     (if val_ty v = ty then sreturn v
      else if rank ty = 0 \<or> rank (val_ty v) = 0 then splat v ty
      else
        sbind (if rank (val_ty v) = 1 then sreturn v
               else collapse_to_rank1 v (tensor (elem (val_ty v)) [element_count (val_ty v)])) (\<lambda>flat.
        if rank ty = 1 then sreturn flat else expand_rank1 flat ty))"

definition expand_insert_axis :: "lvalue \<Rightarrow> tensor_type \<Rightarrow> nat \<Rightarrow> lvalue lower" where
  "expand_insert_axis v ty axis =
     append_reassociation_op ''tensor.expand_shape'' v ty
       (expand_reassociation_for_inserted_axis (rank (val_ty v)) axis) (Some (shape ty))"

section \<open>Slices\<close>

definition lower_slice :: "lvalue \<Rightarrow> tensor_type \<Rightarrow> nat list \<Rightarrow> lvalue lower" where
  "lower_slice v ty starts =
     append_tensor_extract_slice v ty starts (shape ty) (replicate (rank ty) 1)"

text \<open>The slice of one axis from an offset, over the whole of the other axes.\<close>

definition slice_axis :: "lvalue \<Rightarrow> nat \<Rightarrow> nat \<Rightarrow> nat \<Rightarrow> lvalue lower" where
  "slice_axis v axis start extent =
     sbind (slift (set_idx (replicate (rank (val_ty v)) 0) axis start)) (\<lambda>starts.
     sbind (slift (set_idx (shape (val_ty v)) axis extent)) (\<lambda>s.
     lower_slice v (tensor (elem (val_ty v)) s) starts))"

fun split_sections :: "lvalue \<Rightarrow> nat \<Rightarrow> nat \<Rightarrow> nat list \<Rightarrow> lvalue list lower" where
  "split_sections v axis offset [] = sreturn []"
| "split_sections v axis offset (section # sections) =
     sbind (slice_axis v axis offset section) (\<lambda>piece.
     sbind (split_sections v axis (offset + section) sections) (\<lambda>pieces. sreturn (piece # pieces)))"

definition lower_split :: "lvalue \<Rightarrow> nat \<Rightarrow> nat list \<Rightarrow> lvalue list lower" where
  "lower_split v axis sections = split_sections v axis 0 sections"

definition lower_take :: "lvalue \<Rightarrow> nat \<Rightarrow> nat \<Rightarrow> lvalue lower" where
  "lower_take v axis index =
     sbind (slice_axis v axis index 1) (\<lambda>sliced.
     sbind (slift (vec_remove axis (shape (val_ty sliced)))) (\<lambda>s.
     let ty = tensor (elem (val_ty sliced)) s in
     if val_ty sliced = ty then sreturn sliced
     else if rank ty = 0 then lower_reshape sliced ty
     else append_reassociation_op ''tensor.collapse_shape'' sliced ty
            (collapse_reassociation_for_removed_axis (rank (val_ty sliced)) axis) None))"

section \<open>Gathers\<close>

datatype gather_input_axis = GatherIndex | GatherOutput nat

definition index_cast_in_block :: "mlir_context \<Rightarrow> raw \<Rightarrow> (mlir_block, raw) step" where
  "index_cast_in_block ctx r = block_op ctx ''arith.index_cast'' [r] MIndex []"

text \<open>A negative index counts from the end; an index outside the axis fails at run time.\<close>

definition normalize_index_in_block :: "mlir_context \<Rightarrow> raw \<Rightarrow> nat \<Rightarrow> (mlir_block, raw) step" where
  "normalize_index_in_block ctx index_value axis_size =
     sbind (mlir_element_type ctx Bool) (\<lambda>i1_ty.
     sbind (block_op ctx ''arith.constant'' [] MIndex [(''value'', ''0 : index'')]) (\<lambda>zero.
     sbind (block_op ctx ''arith.constant'' [] MIndex [(''value'', nat_str axis_size @ '' : index'')]) (\<lambda>dim.
     sbind (block_op ctx ''arith.cmpi'' [index_value, zero] i1_ty [(''predicate'', ''2 : i64'')]) (\<lambda>is_negative.
     sbind (block_op ctx ''arith.addi'' [index_value, dim] MIndex []) (\<lambda>wrapped.
     sbind (block_op ctx ''arith.select'' [is_negative, wrapped, index_value] MIndex []) (\<lambda>normalized.
     sbind (block_op ctx ''arith.cmpi'' [normalized, zero] i1_ty [(''predicate'', ''5 : i64'')]) (\<lambda>lower_ok.
     sbind (block_op ctx ''arith.cmpi'' [normalized, dim] i1_ty [(''predicate'', ''2 : i64'')]) (\<lambda>upper_ok.
     sbind (block_op ctx ''arith.andi'' [lower_ok, upper_ok] i1_ty []) (\<lambda>in_bounds.
     sbind (append_block_op ctx ''cf.assert'' [in_bounds] []
              [(''msg'', CHR 0x22 # ''index out of bounds'' @ [CHR 0x22])]) (\<lambda>_.
     sreturn normalized))))))))))"

definition normalize_gather_index :: "raw \<Rightarrow> nat \<Rightarrow> raw lower" where
  "normalize_gather_index index_value axis_size =
     with_context (\<lambda>ctx. on_block (normalize_index_in_block ctx index_value axis_size))"

definition extract_index_value :: "lvalue \<Rightarrow> raw list \<Rightarrow> raw lower" where
  "extract_index_value indices index_axes =
     sbind (append_tensor_extract indices index_axes) (\<lambda>index_value.
     sbind (append_op_with_result_types ''arith.index_cast'' [raw_of index_value] [MIndex] []) (\<lambda>results.
     sreturn (hd results)))"

definition extract_gather_value :: "lvalue \<Rightarrow> raw \<Rightarrow> gather_input_axis list \<Rightarrow> lvalue lower" where
  "extract_gather_value v index_value input_axes =
     sbind (append_index_constant 0) (\<lambda>zero.
     append_tensor_extract v
       (map (\<lambda>axis. case axis of GatherIndex \<Rightarrow> index_value | GatherOutput _ \<Rightarrow> zero) input_axes))"

definition format_dim_subset :: "nat list \<Rightarrow> string" where
  "format_dim_subset axes = ''('' @ join '', '' (map dim_name axes) @ '')''"

definition linalg_index :: "mlir_context \<Rightarrow> nat \<Rightarrow> (mlir_block, raw) step" where
  "linalg_index ctx axis = block_op ctx ''linalg.index'' [] MIndex [(''dim'', nat_str axis @ '' : i64'')]"

definition gather_body ::
    "raw \<Rightarrow> element_type \<Rightarrow> nat \<Rightarrow> gather_input_axis list \<Rightarrow> nat \<Rightarrow> mlir_context \<Rightarrow> raw list
      \<Rightarrow> (mlir_block, raw list) step" where
  "gather_body input_raw input_elem rk input_axes axis_size ctx args =
     sbind (smap (linalg_index ctx) [0..<rk]) (\<lambda>output_indices.
     sbind (index_cast_in_block ctx (args ! 0)) (\<lambda>cast.
     sbind (normalize_index_in_block ctx cast axis_size) (\<lambda>index_value.
     sbind (smap (\<lambda>axis. case axis of GatherIndex \<Rightarrow> sreturn index_value
                        | GatherOutput axis \<Rightarrow> slift (idx output_indices axis)) input_axes) (\<lambda>input_indices.
     sbind (mlir_element_type ctx input_elem) (\<lambda>elem_ty.
     sbind (block_op ctx ''tensor.extract'' (input_raw # input_indices) elem_ty []) (\<lambda>r.
     sreturn [r]))))))"

definition gather_with_maps ::
    "lvalue \<Rightarrow> lvalue \<Rightarrow> tensor_type \<Rightarrow> nat list \<Rightarrow> gather_input_axis list \<Rightarrow> nat \<Rightarrow> lvalue lower" where
  "gather_with_maps v indices ty index_axes input_axes axis_size =
     sbind (coerce_to_kind indices (val_ty indices) Tensor) (\<lambda>indices'.
     if rank ty = 0 then
       sbind (extract_index_value indices' []) (\<lambda>cast.
       sbind (normalize_gather_index cast axis_size) (\<lambda>index_value.
       sbind (extract_gather_value v index_value input_axes) (\<lambda>scalar. splat scalar ty)))
     else
       sbind (append_tensor_empty ty) (\<lambda>output.
       append_generic_tensor [indices'] output ty (rank ty)
         [format_dim_subset index_axes, identity_map (rank ty)] (parallel (rank ty))
         (gather_body (raw_of v) (elem (val_ty v)) (rank ty) input_axes axis_size)))"

definition lower_gather :: "lvalue \<Rightarrow> lvalue \<Rightarrow> nat \<Rightarrow> tensor_type \<Rightarrow> lvalue lower" where
  "lower_gather v indices axis ty =
     (let index_rank = rank (val_ty indices);
          input_axes =
            map (\<lambda>i. if i < axis then GatherOutput i
                     else if i = axis then GatherIndex
                     else GatherOutput (i + index_rank - 1)) [0..<rank (val_ty v)]
      in
      sbind (slift (idx (shape (val_ty v)) axis)) (\<lambda>axis_size.
      gather_with_maps v indices ty [axis..<axis + index_rank] input_axes axis_size))"

definition lower_take_along_axis :: "lvalue \<Rightarrow> lvalue \<Rightarrow> nat \<Rightarrow> lvalue lower" where
  "lower_take_along_axis v indices axis =
     (let input_axes = map (\<lambda>i. if i = axis then GatherIndex else GatherOutput i) [0..<rank (val_ty v)] in
      sbind (slift (idx (shape (val_ty v)) axis)) (\<lambda>axis_size.
      gather_with_maps v indices (tensor (elem (val_ty v)) (shape (val_ty indices)))
        [0..<rank (val_ty indices)] input_axes axis_size))"

section \<open>Concatenation\<close>

definition lower_concat :: "lvalue \<Rightarrow> lvalue \<Rightarrow> nat \<Rightarrow> lvalue lower" where
  "lower_concat l r axis =
     sbind (slift (idx (shape (val_ty r)) axis)) (\<lambda>n.
     sbind (slift (idx (shape (val_ty l)) axis)) (\<lambda>m.
     let ty = tensor (elem (val_ty l)) ((shape (val_ty l))[axis := m + n]) in
     sbind (append_tensor_empty ty) (\<lambda>empty.
     sbind (append_tensor_insert_slice l empty ty (replicate (rank ty) 0)) (\<lambda>first.
     append_tensor_insert_slice r first ty ((replicate (rank ty) 0)[axis := m + n - n])))))"

text \<open>The loop of \<open>concat_many\<close> over the pieces, with the offset and the tensor filled so far.\<close>

fun insert_pieces :: "tensor_type \<Rightarrow> nat \<Rightarrow> lvalue list \<Rightarrow> nat \<Rightarrow> lvalue \<Rightarrow> lvalue lower" where
  "insert_pieces ty axis [] offset acc = sreturn acc"
| "insert_pieces ty axis (piece # pieces) offset acc =
     sbind (slift (set_idx (replicate (rank ty) 0) axis offset)) (\<lambda>offsets.
     sbind (slift (idx (shape (val_ty piece)) axis)) (\<lambda>n.
     sbind (append_tensor_insert_slice piece acc ty offsets) (\<lambda>acc'.
     insert_pieces ty axis pieces (offset + n) acc')))"

definition concat_many :: "lvalue list \<Rightarrow> nat \<Rightarrow> lvalue lower" where
  "concat_many pieces axis =
     (case pieces of
        [] \<Rightarrow> sfail ConcatEmpty
      | first # _ \<Rightarrow>
          sbind (slift (rmap (\<lambda>piece. idx (shape (val_ty piece)) axis) pieces)) (\<lambda>extents.
          sbind (slift (set_idx (shape (val_ty first)) axis (sum_list extents))) (\<lambda>s.
          let ty = tensor (elem (val_ty first)) s in
          sbind (append_tensor_empty ty) (\<lambda>empty. insert_pieces ty axis pieces 0 empty))))"

definition lower_stack :: "lvalue \<Rightarrow> lvalue \<Rightarrow> nat \<Rightarrow> lvalue lower" where
  "lower_stack l r axis =
     sbind (slift (vec_insert axis 1 (shape (val_ty l)))) (\<lambda>s.
     let unit_ty = tensor (elem (val_ty l)) s in
     sbind (expand_insert_axis l unit_ty axis) (\<lambda>l'.
     sbind (expand_insert_axis r unit_ty axis) (\<lambda>r'.
     lower_concat l' r' axis)))"

section \<open>Repetition\<close>

definition lower_tile :: "lvalue \<Rightarrow> nat list \<Rightarrow> lvalue lower" where
  "lower_tile v multiples =
     (if rank (val_ty v) = 0 then sreturn v
      else if 0 \<in> set multiples then
        append_tensor_empty
          (tensor (elem (val_ty v)) (map (\<lambda>(dim, multiple). dim * multiple) (zip (shape (val_ty v)) multiples)))
      else
        sfold (\<lambda>(axis, multiple) v'.
            if multiple \<le> 1 then sreturn v' else concat_many (replicate multiple v') axis)
          (zip [0..<length multiples] multiples) v)"

definition lower_repeat :: "lvalue \<Rightarrow> nat \<Rightarrow> nat \<Rightarrow> lvalue lower" where
  "lower_repeat v axis count =
     sbind (slift (idx (shape (val_ty v)) axis)) (\<lambda>n.
     if count = 0 \<or> n = 0 then
       append_tensor_empty (tensor (elem (val_ty v)) ((shape (val_ty v))[axis := n * count]))
     else if count = 1 then sreturn v
     else
       sbind (smap (\<lambda>index.
           sbind (slice_axis v axis index 1) (\<lambda>unit. concat_many (replicate count unit) axis)) [0..<n]) (\<lambda>pieces.
       concat_many pieces axis))"

definition flip_axis :: "nat \<Rightarrow> lvalue \<Rightarrow> lvalue lower" where
  "flip_axis axis v =
     sbind (slift (idx (shape (val_ty v)) axis)) (\<lambda>dim.
     if dim \<le> 1 then sreturn v
     else
       sbind (smap (\<lambda>index. slice_axis v axis index 1) (rev [0..<dim])) (\<lambda>pieces.
       concat_many pieces axis))"

definition lower_flip :: "lvalue \<Rightarrow> nat list \<Rightarrow> lvalue lower" where
  "lower_flip v axes = sfold flip_axis (if axes = [] then [0..<rank (val_ty v)] else axes) v"

definition lower_roll :: "lvalue \<Rightarrow> nat \<Rightarrow> nat \<Rightarrow> lvalue lower" where
  "lower_roll v axis shift =
     sbind (slift (idx (shape (val_ty v)) axis)) (\<lambda>dim.
     if dim \<le> 1 then sreturn v
     else
       (let offset = shift mod dim; split = dim - offset in
        if offset = 0 then sreturn v
        else
          sbind (slice_axis v axis split offset) (\<lambda>high.
          sbind (slice_axis v axis 0 split) (\<lambda>low.
          lower_concat high low axis))))"

section \<open>Padding\<close>

definition pad_highs :: "nat list \<Rightarrow> nat list \<Rightarrow> nat list \<Rightarrow> nat list result" where
  "pad_highs outputs inputs lows =
     rmap (\<lambda>((output, inp), low). rbind (usize_sub output inp) (\<lambda>d. usize_sub d low))
       (zip (zip outputs inputs) lows)"

definition lower_pad :: "lvalue \<Rightarrow> tensor_type \<Rightarrow> nat list \<Rightarrow> lvalue lower" where
  "lower_pad v ty lows =
     sbind (slift (pad_highs (shape ty) (shape (val_ty v)) lows)) (\<lambda>highs.
     if (\<forall>low \<in> set lows. low = 0) \<and> (\<forall>high \<in> set highs. high = 0) then sreturn v
     else
       sbind (lower_constant (zero_literal (elem ty)) (elem ty)) (\<lambda>zero.
       append_tensor_pad v ty lows highs zero))"

end
