(* ===== verification/Lower_Reduce.thy ===== *)
theory Lower_Reduce
  imports Lower_Tensor
begin

text \<open>
  The reductions of the lowering, \<^verbatim>\<open>lowering/reductions.rs\<close>: sums, extrema and their arguments,
  the statistics built from them, softmax and sigmoid.
\<close>

section \<open>Literals and iterators\<close>

fun min_numeric_literal :: "element_type \<Rightarrow> string" where
  "min_numeric_literal Bool = ''0''"
| "min_numeric_literal F32 = ''-3.40282347E+38''"
| "min_numeric_literal F64 = ''-1.7976931348623157E+308''"
| "min_numeric_literal F16 = ''-65504.0''"
| "min_numeric_literal BF16 = ''-3.38953139E+38''"
| "min_numeric_literal I32 = ''-2147483648''"
| "min_numeric_literal I64 = ''-9223372036854775808''"

fun max_numeric_literal :: "element_type \<Rightarrow> string" where
  "max_numeric_literal Bool = ''1''"
| "max_numeric_literal F32 = ''3.40282347E+38''"
| "max_numeric_literal F64 = ''1.7976931348623157E+308''"
| "max_numeric_literal F16 = ''65504.0''"
| "max_numeric_literal BF16 = ''3.38953139E+38''"
| "max_numeric_literal I32 = ''2147483647''"
| "max_numeric_literal I64 = ''9223372036854775807''"

text \<open>The seeds of the float reductions; other element types are unreachable.\<close>

fun negative_infinity_literal :: "element_type \<Rightarrow> string result" where
  "negative_infinity_literal F32 = Inr ''0xFF800000''"
| "negative_infinity_literal F64 = Inr ''0xFFF0000000000000''"
| "negative_infinity_literal F16 = Inr ''0xFC00''"
| "negative_infinity_literal BF16 = Inr ''0xFF80''"
| "negative_infinity_literal _ = Inl (Panic UnwrapNone)"

fun positive_infinity_literal :: "element_type \<Rightarrow> string result" where
  "positive_infinity_literal F32 = Inr ''0x7F800000''"
| "positive_infinity_literal F64 = Inr ''0x7FF0000000000000''"
| "positive_infinity_literal F16 = Inr ''0x7C00''"
| "positive_infinity_literal BF16 = Inr ''0x7F80''"
| "positive_infinity_literal _ = Inl (Panic UnwrapNone)"

text \<open>The kinds are written to a text and parsed back; the empty text has one empty kind, which panics.\<close>

definition reduction_iterators :: "nat \<Rightarrow> axis_spec \<Rightarrow> string list result" where
  "reduction_iterators rk axis =
     (if rk = 0 then Inl (Panic UnwrapNone)
      else Inr (map (\<lambda>i. if axis = AxisAll \<or> axis_index axis = Some i then ''reduction'' else ''parallel'')
                  [0..<rk]))"

definition lower_non_empty_reduction :: "tensor_type \<Rightarrow> axis_spec \<Rightarrow> ('s, unit) step" where
  "lower_non_empty_reduction ty axis =
     (case axis of
        AxisOne axis \<Rightarrow>
          (if axis \<ge> rank ty then sfail ReductionAxis
           else if shape ty ! axis = 0 then sfail ReductionEmptyAxis else sreturn ())
      | AxisAll \<Rightarrow> (if element_count ty = 0 then sfail ReductionEmpty else sreturn ()))"

section \<open>Reductions\<close>

definition fill_tensor :: "tensor_type \<Rightarrow> string \<Rightarrow> element_type \<Rightarrow> lvalue lower" where
  "fill_tensor ty v e =
     sbind (append_tensor_empty ty) (\<lambda>empty.
     sbind (lower_constant v e) (\<lambda>scalar. append_linalg_fill scalar empty ty))"

definition reduce_body ::
    "string \<Rightarrow> element_type \<Rightarrow> mlir_context \<Rightarrow> raw list \<Rightarrow> (mlir_block, raw list) step" where
  "reduce_body reducer_op e ctx args =
     sbind (mlir_element_type ctx e) (\<lambda>elem_ty.
     sbind (block_op ctx reducer_op [args ! 1, args ! 0] elem_ty []) (\<lambda>r. sreturn [r]))"

definition lower_reduce :: "lvalue \<Rightarrow> string \<Rightarrow> string \<Rightarrow> axis_spec \<Rightarrow> bool \<Rightarrow> lvalue lower" where
  "lower_reduce v initial_value reducer_op axis keep_dims =
     sbind (reduction_output_shape (shape (val_ty v)) axis keep_dims) (\<lambda>s.
     let ty = tensor (elem (val_ty v)) s; rk = rank (val_ty v) in
     sbind (fill_tensor ty initial_value (elem ty)) (\<lambda>init.
     sbind (slift (reduction_iterators rk axis)) (\<lambda>iterators.
     append_generic_tensor [v] init ty rk [identity_map rk, reduction_output_map rk axis keep_dims] iterators
       (reduce_body reducer_op (elem ty)))))"

text \<open>A reduction of a scalar over all axes is the scalar.\<close>

definition scalar_reduction :: "lvalue \<Rightarrow> axis_spec \<Rightarrow> bool" where
  "scalar_reduction v axis \<longleftrightarrow> rank (val_ty v) = 0 \<and> axis = AxisAll"

definition float_or_int :: "element_type \<Rightarrow> string \<Rightarrow> string \<Rightarrow> string" where
  "float_or_int e float_op int_op = (if is_float e then float_op else int_op)"

definition lower_sum :: "lvalue \<Rightarrow> axis_spec \<Rightarrow> lvalue lower" where
  "lower_sum v axis =
     (if scalar_reduction v axis then sreturn v
      else lower_reduce v (zero_literal (elem (val_ty v)))
             (float_or_int (elem (val_ty v)) ''arith.addf'' ''arith.addi'') axis False)"

definition lower_prod :: "lvalue \<Rightarrow> axis_spec \<Rightarrow> lvalue lower" where
  "lower_prod v axis =
     (if scalar_reduction v axis then sreturn v
      else lower_reduce v (one_literal (elem (val_ty v)))
             (float_or_int (elem (val_ty v)) ''arith.mulf'' ''arith.muli'') axis False)"

definition lower_all :: "lvalue \<Rightarrow> axis_spec \<Rightarrow> lvalue lower" where
  "lower_all v axis =
     (if scalar_reduction v axis then sreturn v else lower_reduce v ''1'' ''arith.andi'' axis False)"

definition lower_any :: "lvalue \<Rightarrow> axis_spec \<Rightarrow> lvalue lower" where
  "lower_any v axis =
     (if scalar_reduction v axis then sreturn v else lower_reduce v ''0'' ''arith.ori'' axis False)"

definition max_seed :: "element_type \<Rightarrow> (string \<times> string) result" where
  "max_seed e =
     (if e = Bool then Inr (''0'', ''arith.ori'')
      else if is_float e then rbind (negative_infinity_literal e) (\<lambda>v. Inr (v, ''arith.maximumf''))
      else Inr (min_numeric_literal e, ''arith.maxsi''))"

definition min_seed :: "element_type \<Rightarrow> (string \<times> string) result" where
  "min_seed e =
     (if e = Bool then Inr (''1'', ''arith.andi'')
      else if is_float e then rbind (positive_infinity_literal e) (\<lambda>v. Inr (v, ''arith.minimumf''))
      else Inr (max_numeric_literal e, ''arith.minsi''))"

definition max_keep_dims :: "lvalue \<Rightarrow> axis_spec \<Rightarrow> bool \<Rightarrow> lvalue lower" where
  "max_keep_dims v axis keep_dims =
     sbind (lower_non_empty_reduction (val_ty v) axis) (\<lambda>_.
     if scalar_reduction v axis then sreturn v
     else
       sbind (slift (max_seed (elem (val_ty v)))) (\<lambda>(initial_value, reducer_op).
       lower_reduce v initial_value reducer_op axis keep_dims))"

definition lower_max :: "lvalue \<Rightarrow> axis_spec \<Rightarrow> lvalue lower" where
  "lower_max v axis = max_keep_dims v axis False"

definition lower_min :: "lvalue \<Rightarrow> axis_spec \<Rightarrow> lvalue lower" where
  "lower_min v axis =
     sbind (lower_non_empty_reduction (val_ty v) axis) (\<lambda>_.
     if scalar_reduction v axis then sreturn v
     else
       sbind (slift (min_seed (elem (val_ty v)))) (\<lambda>(initial_value, reducer_op).
       lower_reduce v initial_value reducer_op axis False))"

section \<open>Statistics\<close>

definition reduced_count :: "tensor_type \<Rightarrow> axis_spec \<Rightarrow> nat result" where
  "reduced_count ty axis =
     (case axis_index axis of None \<Rightarrow> Inr (element_count ty) | Some axis \<Rightarrow> idx (shape ty) axis)"

definition count_literal :: "nat \<Rightarrow> string" where
  "count_literal n = nat_str n @ ''.0''"

text \<open>The reduced value back over the dimensions it was reduced from.\<close>

definition broadcast_reduced :: "lvalue \<Rightarrow> tensor_type \<Rightarrow> axis_spec \<Rightarrow> lvalue lower" where
  "broadcast_reduced v ty axis =
     (case axis_index axis of None \<Rightarrow> lower_broadcast v ty | Some axis \<Rightarrow> broadcast_along_axis v ty axis)"

definition lower_mean :: "lvalue \<Rightarrow> axis_spec \<Rightarrow> lvalue lower" where
  "lower_mean v axis =
     sbind (lower_non_empty_reduction (val_ty v) axis) (\<lambda>_.
     if scalar_reduction v axis then sreturn v
     else
       sbind (slift (reduced_count (val_ty v) axis)) (\<lambda>count.
       sbind (lower_sum v axis) (\<lambda>total.
       sbind (lower_constant (count_literal count) (elem (val_ty v))) (\<lambda>scale.
       emit_binary ''arith.divf'' total scale))))"

definition lower_var :: "lvalue \<Rightarrow> axis_spec \<Rightarrow> lvalue lower" where
  "lower_var v axis =
     sbind (lower_non_empty_reduction (val_ty v) axis) (\<lambda>_.
     if scalar_reduction v axis then zero_like (val_ty v)
     else
       sbind (slift (reduced_count (val_ty v) axis)) (\<lambda>count.
       sbind (lower_mean v axis) (\<lambda>mean.
       sbind (broadcast_reduced mean (val_ty v) axis) (\<lambda>mean'.
       sbind (emit_binary ''arith.subf'' v mean') (\<lambda>centered.
       sbind (emit_binary ''arith.mulf'' centered centered) (\<lambda>squared.
       sbind (lower_sum squared axis) (\<lambda>total.
       sbind (lower_constant (count_literal count) (elem (val_ty v))) (\<lambda>scale.
       emit_binary ''arith.divf'' total scale))))))))"

definition lower_std :: "lvalue \<Rightarrow> axis_spec \<Rightarrow> lvalue lower" where
  "lower_std v axis = sbind (lower_var v axis) (\<lambda>variance. emit_unary ''math.sqrt'' variance)"

definition lower_ptp :: "lvalue \<Rightarrow> axis_spec \<Rightarrow> lvalue lower" where
  "lower_ptp v axis =
     sbind (lower_non_empty_reduction (val_ty v) axis) (\<lambda>_.
     if scalar_reduction v axis then zero_like (val_ty v)
     else
       sbind (lower_max v axis) (\<lambda>high.
       sbind (lower_min v axis) (\<lambda>low.
       emit_binary (float_or_int (elem (val_ty high)) ''arith.subf'' ''arith.subi'') high low)))"

definition lower_softmax :: "lvalue \<Rightarrow> axis_spec \<Rightarrow> lvalue lower" where
  "lower_softmax v axis =
     sbind (lower_non_empty_reduction (val_ty v) axis) (\<lambda>_.
     sbind (max_keep_dims v axis False) (\<lambda>high.
     sbind (broadcast_reduced high (val_ty v) axis) (\<lambda>high'.
     sbind (emit_binary ''arith.subf'' v high') (\<lambda>shifted.
     sbind (emit_unary ''math.exp'' shifted) (\<lambda>exp'.
     sbind (lower_reduce exp' (zero_literal (elem (val_ty exp'))) ''arith.addf'' axis False) (\<lambda>denominator.
     sbind (broadcast_reduced denominator (val_ty exp') axis) (\<lambda>denominator'.
     emit_binary ''arith.divf'' exp' denominator')))))))"

definition lower_sigmoid :: "lvalue \<Rightarrow> lvalue lower" where
  "lower_sigmoid v =
     sbind (lower_constant (one_literal (elem (val_ty v))) (elem (val_ty v))) (\<lambda>one'.
     sbind (zero_like (val_ty v)) (\<lambda>zero.
     sbind (emit_binary ''arith.subf'' zero v) (\<lambda>neg.
     sbind (emit_unary ''math.exp'' neg) (\<lambda>exp'.
     sbind (emit_binary ''arith.addf'' one' exp') (\<lambda>denominator.
     emit_binary ''arith.divf'' one' denominator)))))"

section \<open>Arguments of extrema\<close>

datatype extreme = ExtremeMax | ExtremeMin

fun initial_value :: "extreme \<Rightarrow> element_type \<Rightarrow> string" where
  "initial_value ExtremeMax e = min_numeric_literal e"
| "initial_value ExtremeMin e = max_numeric_literal e"

definition ordering_predicate :: "extreme \<Rightarrow> element_type \<Rightarrow> string" where
  "ordering_predicate ex e =
     (case ex of
        ExtremeMax \<Rightarrow> (if is_float e then ''ogt'' else if e = Bool then ''ugt'' else ''sgt'')
      | ExtremeMin \<Rightarrow> (if is_float e then ''olt'' else if e = Bool then ''ult'' else ''slt''))"

definition cmp_predicate_attr :: "string \<Rightarrow> string \<Rightarrow> ('s, string) step" where
  "cmp_predicate_attr name predicate =
     sbind (if name = ''arith.cmpf'' then cmpf_predicate_value predicate
            else if name = ''arith.cmpi'' then cmpi_predicate_value predicate
            else slift (Inl (Panic UnwrapNone))) (\<lambda>n.
     sreturn (nat_str n @ '' : i64''))"

text \<open>The row-major index of the element, from the second axis on.\<close>

fun flatten_index ::
    "mlir_context \<Rightarrow> nat \<Rightarrow> nat list \<Rightarrow> raw \<Rightarrow> (mlir_block, raw) step" where
  "flatten_index ctx axis [] flattened = sreturn flattened"
| "flatten_index ctx axis (dim # dims) flattened =
     sbind (linalg_index ctx axis) (\<lambda>axis_index'.
     sbind (block_op ctx ''arith.constant'' [] MIndex [(''value'', nat_str dim @ '' : index'')]) (\<lambda>dim_size.
     sbind (block_op ctx ''arith.muli'' [flattened, dim_size] MIndex []) (\<lambda>scaled.
     sbind (block_op ctx ''arith.addi'' [scaled, axis_index'] MIndex []) (\<lambda>flattened'.
     flatten_index ctx (axis + 1) dims flattened'))))"

definition arg_candidate_index ::
    "mlir_context \<Rightarrow> tensor_type \<Rightarrow> axis_spec \<Rightarrow> (mlir_block, raw) step" where
  "arg_candidate_index ctx ty axis =
     sbind (case axis_index axis of
              Some axis \<Rightarrow> linalg_index ctx axis
            | None \<Rightarrow> sbind (linalg_index ctx 0) (flatten_index ctx 1 (drop 1 (shape ty)))) (\<lambda>index.
     sbind (mlir_element_type ctx I64) (\<lambda>i64_ty.
     block_op ctx ''arith.index_cast'' [index] i64_ty []))"

definition arg_extreme_body ::
    "extreme \<Rightarrow> tensor_type \<Rightarrow> axis_spec \<Rightarrow> mlir_context \<Rightarrow> raw list \<Rightarrow> (mlir_block, raw list) step" where
  "arg_extreme_body ex ty axis ctx args =
     (let compare_op = float_or_int (elem ty) ''arith.cmpf'' ''arith.cmpi'';
          equal_predicate = float_or_int (elem ty) ''oeq'' ''eq'' in
     sbind (mlir_element_type ctx (elem ty)) (\<lambda>elem_ty.
     sbind (mlir_element_type ctx Bool) (\<lambda>i1_ty.
     sbind (mlir_element_type ctx I64) (\<lambda>i64_ty.
     sbind (arg_candidate_index ctx ty axis) (\<lambda>candidate_index.
     sbind (cmp_predicate_attr compare_op (ordering_predicate ex (elem ty))) (\<lambda>ordering_attr.
     sbind (block_op ctx compare_op [args ! 0, args ! 2] i1_ty [(''predicate'', ordering_attr)]) (\<lambda>ordered.
     sbind (cmp_predicate_attr compare_op equal_predicate) (\<lambda>equal_attr.
     sbind (block_op ctx compare_op [args ! 0, args ! 2] i1_ty [(''predicate'', equal_attr)]) (\<lambda>equal.
     sbind (block_op ctx ''arith.cmpi'' [candidate_index, args ! 1] i1_ty
              [(''predicate'', ''2 : i64'')]) (\<lambda>lower_index.
     sbind (block_op ctx ''arith.andi'' [equal, lower_index] i1_ty []) (\<lambda>tied_before.
     sbind (block_op ctx ''arith.ori'' [ordered, tied_before] i1_ty []) (\<lambda>better.
     sbind (block_op ctx ''arith.select'' [better, candidate_index, args ! 1] i64_ty []) (\<lambda>selected_index.
     sbind (block_op ctx ''arith.select'' [better, args ! 0, args ! 2] elem_ty []) (\<lambda>selected_value.
     sreturn [selected_index, selected_value]))))))))))))))"

definition arg_extreme :: "lvalue \<Rightarrow> axis_spec \<Rightarrow> extreme \<Rightarrow> lvalue lower" where
  "arg_extreme v axis ex =
     sbind (lower_non_empty_reduction (val_ty v) axis) (\<lambda>_.
     if scalar_reduction v axis then
       sbind (lower_constant ''0'' I64) (\<lambda>scalar. splat scalar (tensor I64 []))
     else
       sbind (reduction_output_shape (shape (val_ty v)) axis False) (\<lambda>s.
       let index_ty = tensor I64 s; value_ty = tensor (elem (val_ty v)) s; rk = rank (val_ty v);
           output_map = reduction_output_map rk axis False in
       sbind (fill_tensor index_ty ''0'' I64) (\<lambda>init_index.
       sbind (fill_tensor value_ty (initial_value ex (elem (val_ty v))) (elem (val_ty v))) (\<lambda>init_value.
       sbind (slift (reduction_iterators rk axis)) (\<lambda>iterators.
       sbind (append_linalg_generic [v] [init_index, init_value] [index_ty, value_ty] rk
                [identity_map rk, output_map, output_map] iterators
                (arg_extreme_body ex (val_ty v) axis)) (\<lambda>results.
       sreturn (value_tensor (hd results) index_ty)))))))"

definition lower_argmax :: "lvalue \<Rightarrow> axis_spec \<Rightarrow> lvalue lower" where
  "lower_argmax v axis = arg_extreme v axis ExtremeMax"

definition lower_argmin :: "lvalue \<Rightarrow> axis_spec \<Rightarrow> lvalue lower" where
  "lower_argmin v axis = arg_extreme v axis ExtremeMin"

end
