(* ===== verification/Lower_Linalg.thy ===== *)
theory Lower_Linalg
  imports Lower_Reduce
begin

text \<open>
  Contractions and windows: \<^verbatim>\<open>lowering/linalg.rs\<close>, \<^verbatim>\<open>lowering/matmul.rs\<close>, \<^verbatim>\<open>lowering/conv.rs\<close> and
  \<^verbatim>\<open>lowering/pool.rs\<close>.
\<close>

section \<open>Contractions\<close>

definition ensure_tensor_value :: "lvalue \<Rightarrow> lvalue lower" where
  "ensure_tensor_value v = (case val_kind v of Tensor \<Rightarrow> sreturn v | Scalar \<Rightarrow> splat v (val_ty v))"

definition output_dims :: "nat \<Rightarrow> string list" where
  "output_dims rk = map dim_name [0..<rk]"

definition multiply_add_body ::
    "element_type \<Rightarrow> mlir_context \<Rightarrow> raw list \<Rightarrow> (mlir_block, raw list) step" where
  "multiply_add_body e ctx args =
     sbind (mlir_element_type ctx e) (\<lambda>elem_ty.
     sbind (block_op ctx (float_or_int e ''arith.mulf'' ''arith.muli'') [args ! 0, args ! 1] elem_ty []) (\<lambda>product.
     sbind (block_op ctx (float_or_int e ''arith.addf'' ''arith.addi'') [args ! 2, product] elem_ty []) (\<lambda>total.
     sreturn [total])))"

definition emit_two_input_reduction ::
    "lvalue \<Rightarrow> lvalue \<Rightarrow> tensor_type \<Rightarrow> string list \<Rightarrow> string list \<Rightarrow> nat \<Rightarrow> lvalue lower" where
  "emit_two_input_reduction l r ty lhs_indices rhs_indices loop_rank =
     sbind (ensure_tensor_value l) (\<lambda>l'.
     sbind (ensure_tensor_value r) (\<lambda>r'.
     sbind (zero_initialized_tensor ty) (\<lambda>init.
     append_generic_tensor [l', r'] init ty loop_rank
       [affine_tuple lhs_indices, affine_tuple rhs_indices, affine_tuple (output_dims (rank ty))]
       (parallel (rank ty) @ [''reduction'']) (multiply_add_body (elem ty)))))"

definition add_body :: "element_type \<Rightarrow> mlir_context \<Rightarrow> raw list \<Rightarrow> (mlir_block, raw list) step" where
  "add_body e = reduce_body (float_or_int e ''arith.addf'' ''arith.addi'') e"

definition emit_one_input_reduction ::
    "lvalue \<Rightarrow> tensor_type \<Rightarrow> string list \<Rightarrow> nat \<Rightarrow> lvalue lower" where
  "emit_one_input_reduction v ty input_indices loop_rank =
     sbind (ensure_tensor_value v) (\<lambda>v'.
     sbind (zero_initialized_tensor ty) (\<lambda>init.
     append_generic_tensor [v'] init ty loop_rank
       [affine_tuple input_indices, affine_tuple (output_dims (rank ty))]
       (parallel (rank ty) @ [''reduction'']) (add_body (elem ty))))"

text \<open>The loop that names the axes of the operand: the selected axes share one dimension, the others
  are numbered in order.\<close>

fun axis_indices :: "(nat \<Rightarrow> bool) \<Rightarrow> string \<Rightarrow> nat \<Rightarrow> nat list \<Rightarrow> string list" where
  "axis_indices selected shared output_axis [] = []"
| "axis_indices selected shared output_axis (i # is) =
     (if selected i then shared # axis_indices selected shared output_axis is
      else dim_name output_axis # axis_indices selected shared (output_axis + 1) is)"

definition lower_vecdot :: "lvalue \<Rightarrow> lvalue \<Rightarrow> nat option \<Rightarrow> lvalue lower" where
  "lower_vecdot l r axis =
     sbind (case axis of None \<Rightarrow> slift (usize_sub (rank (val_ty l)) 1) | Some a \<Rightarrow> sreturn a) (\<lambda>axis'.
     sbind (slift (vec_remove axis' (shape (val_ty l)))) (\<lambda>s.
     let ty = tensor (elem (val_ty l)) s;
         indices = axis_indices (\<lambda>i. i = axis') (dim_name (rank ty)) 0 [0..<rank (val_ty l)] in
     emit_two_input_reduction l r ty indices indices (rank ty + 1)))"

definition lower_inner :: "lvalue \<Rightarrow> lvalue \<Rightarrow> lvalue lower" where
  "lower_inner l r =
     (if rank (val_ty l) = 0 \<or> rank (val_ty r) = 0 then binary_value Mul l r
      else
        (let lhs_prefix = rank (val_ty l) - 1; rhs_prefix = rank (val_ty r) - 1;
             ty = tensor (elem (val_ty l)) (take lhs_prefix (shape (val_ty l)) @ take rhs_prefix (shape (val_ty r)));
             reduction_dim = dim_name (rank ty) in
         emit_two_input_reduction l r ty (map dim_name [0..<lhs_prefix] @ [reduction_dim])
           (map (\<lambda>i. dim_name (lhs_prefix + i)) [0..<rhs_prefix] @ [reduction_dim]) (rank ty + 1)))"

definition lower_dot :: "lvalue \<Rightarrow> lvalue \<Rightarrow> lvalue lower" where
  "lower_dot l r = lower_inner l r"

definition product_body :: "element_type \<Rightarrow> mlir_context \<Rightarrow> raw list \<Rightarrow> (mlir_block, raw list) step" where
  "product_body e ctx args =
     sbind (mlir_element_type ctx e) (\<lambda>elem_ty.
     sbind (block_op ctx (float_or_int e ''arith.mulf'' ''arith.muli'') [args ! 0, args ! 1] elem_ty []) (\<lambda>p.
     sreturn [p]))"

definition lower_outer :: "lvalue \<Rightarrow> lvalue \<Rightarrow> lvalue lower" where
  "lower_outer l r =
     (let m = element_count (val_ty l); n = element_count (val_ty r);
          ty = tensor (elem (val_ty l)) [m, n] in
      sbind (lower_reshape l (tensor (elem (val_ty l)) [m])) (\<lambda>l'.
      sbind (lower_reshape r (tensor (elem (val_ty r)) [n])) (\<lambda>r'.
      sbind (append_tensor_empty ty) (\<lambda>empty.
      append_generic_tensor [l', r'] empty ty 2 [''(d0)'', ''(d1)'', ''(d0, d1)''] [''parallel'', ''parallel'']
        (product_body (elem ty))))))"

definition last_axes :: "tensor_type \<Rightarrow> (nat \<times> nat) option \<Rightarrow> (nat \<times> nat) result" where
  "last_axes ty axes =
     (case axes of
        Some pair \<Rightarrow> Inr pair
      | None \<Rightarrow> rbind (usize_sub (rank ty) 2) (\<lambda>a. rbind (usize_sub (rank ty) 1) (\<lambda>b. Inr (a, b))))"

definition lower_trace :: "lvalue \<Rightarrow> (nat \<times> nat) option \<Rightarrow> lvalue lower" where
  "lower_trace v axes =
     sbind (slift (last_axes (val_ty v) axes)) (\<lambda>(axis0, axis1).
     let ty = tensor (elem (val_ty v)) (remove_axes_shape (shape (val_ty v)) axis0 axis1);
         indices = axis_indices (\<lambda>i. i = axis0 \<or> i = axis1) (dim_name (rank ty)) 0 [0..<rank (val_ty v)] in
     emit_one_input_reduction v ty indices (rank ty + 1))"

definition lower_diagonal :: "lvalue \<Rightarrow> (nat \<times> nat) option \<Rightarrow> lvalue lower" where
  "lower_diagonal v axes =
     sbind (slift (last_axes (val_ty v) axes)) (\<lambda>(axis0, axis1).
     sbind (slift (idx (shape (val_ty v)) axis0)) (\<lambda>n.
     let ty = tensor (elem (val_ty v)) (remove_axes_shape (shape (val_ty v)) axis0 axis1 @ [n]) in
     sbind (ensure_tensor_value v) (\<lambda>v'.
     sbind (append_tensor_empty ty) (\<lambda>output.
     append_generic_tensor [v'] output ty (rank ty)
       [affine_tuple (axis_indices (\<lambda>i. i = axis0 \<or> i = axis1) (dim_name (rank ty - 1)) 0 [0..<rank (val_ty v')]),
        affine_tuple (output_dims (rank ty))]
       (parallel (rank ty)) (\<lambda>ctx args. sreturn [args ! 0])))))"

section \<open>Matrix products\<close>

record matmul_spec =
  lhs_shape :: "nat list"
  rhs_shape :: "nat list"
  output_shape :: "nat list"

definition matmul_spec_new :: "tensor_type \<Rightarrow> tensor_type \<Rightarrow> ('s, matmul_spec) step" where
  "matmul_spec_new l r =
     (if rank l = 0 \<or> rank r = 0 then sfail MatmulRank
      else
        (let lhs_k = (if rank l = 1 then shape l ! 0 else shape l ! (rank l - 1));
             rhs_k = (if rank r = 1 then shape r ! 0 else shape r ! (rank r - 2)) in
         if lhs_k \<noteq> rhs_k then sfail MatmulInnerDims
         else
           sbind (lower_broadcast_shape (if rank l > 2 then take (rank l - 2) (shape l) else [])
                    (if rank r > 2 then take (rank r - 2) (shape r) else [])) (\<lambda>batch.
           sreturn \<lparr>lhs_shape = shape l, rhs_shape = shape r,
                    output_shape = batch @ (if rank l = 1 then [] else [shape l ! (rank l - 2)])
                                         @ (if rank r = 1 then [] else [shape r ! (rank r - 1)])\<rparr>)))"

definition output_batch_rank :: "matmul_spec \<Rightarrow> nat result" where
  "output_batch_rank spec =
     usize_sub (length (output_shape spec))
       ((if length (lhs_shape spec) \<noteq> 1 then 1 else 0) + (if length (rhs_shape spec) \<noteq> 1 then 1 else 0))"

definition batch_indices :: "nat list \<Rightarrow> nat list \<Rightarrow> string list result" where
  "batch_indices input_batch output_batch =
     rbind (usize_sub (length output_batch) (length input_batch)) (\<lambda>padding.
     Inr (map (\<lambda>i. if input_batch ! i = 1 \<and> output_batch ! (padding + i) \<noteq> 1 then ''0''
                   else dim_name (padding + i)) [0..<length input_batch]))"

definition lhs_indices :: "matmul_spec \<Rightarrow> string \<Rightarrow> string list result" where
  "lhs_indices spec reduction_dim =
     (if length (lhs_shape spec) = 1 then Inr [reduction_dim]
      else
        rbind (output_batch_rank spec) (\<lambda>b.
        rbind (batch_indices (take (length (lhs_shape spec) - 2) (lhs_shape spec))
                 (take b (output_shape spec))) (\<lambda>indices.
        Inr (indices @ [dim_name b, reduction_dim]))))"

definition rhs_indices :: "matmul_spec \<Rightarrow> string \<Rightarrow> string list result" where
  "rhs_indices spec reduction_dim =
     (if length (rhs_shape spec) = 1 then Inr [reduction_dim]
      else
        rbind (output_batch_rank spec) (\<lambda>b.
        rbind (batch_indices (take (length (rhs_shape spec) - 2) (rhs_shape spec))
                 (take b (output_shape spec))) (\<lambda>indices.
        Inr (indices @ [reduction_dim, dim_name (b + (if length (lhs_shape spec) \<noteq> 1 then 1 else 0))]))))"

definition generic_matmul :: "lvalue \<Rightarrow> lvalue \<Rightarrow> lvalue lower" where
  "generic_matmul l r =
     sbind (matmul_spec_new (val_ty l) (val_ty r)) (\<lambda>spec.
     let ty = tensor (elem (val_ty l)) (output_shape spec); reduction_dim = dim_name (rank ty) in
     sbind (zero_initialized_tensor ty) (\<lambda>init.
     sbind (slift (lhs_indices spec reduction_dim)) (\<lambda>lhs_is.
     sbind (slift (rhs_indices spec reduction_dim)) (\<lambda>rhs_is.
     append_generic_tensor [l, r] init ty (rank ty + 1)
       [affine_tuple lhs_is, affine_tuple rhs_is, affine_tuple (output_dims (rank ty))]
       (parallel (rank ty) @ [''reduction'']) (multiply_add_body (elem ty))))))"

definition batch_matmul :: "lvalue \<Rightarrow> lvalue \<Rightarrow> lvalue lower" where
  "batch_matmul l r =
     (let ty = tensor (elem (val_ty l)) [shape (val_ty l) ! 0, shape (val_ty l) ! 1, shape (val_ty r) ! 2] in
      sbind (zero_initialized_tensor ty) (\<lambda>init.
      append_named_linalg ''linalg.batch_matmul'' [l, r] init ty []))"

definition lower_matmul :: "lvalue \<Rightarrow> lvalue \<Rightarrow> lvalue lower" where
  "lower_matmul l r =
     (if rank (val_ty l) = 3 \<and> rank (val_ty r) = 3 \<and> shape (val_ty l) ! 0 = shape (val_ty r) ! 0 then
        batch_matmul l r
      else if rank (val_ty l) \<noteq> 2 \<or> rank (val_ty r) \<noteq> 2 then generic_matmul l r
      else
        (let ty = tensor (elem (val_ty l)) [shape (val_ty l) ! 0, shape (val_ty r) ! 1] in
         sbind (zero_initialized_tensor ty) (\<lambda>init.
         append_named_linalg ''linalg.matmul'' [l, r] init ty [])))"

section \<open>Convolutions\<close>

definition conv2d_attrs :: "conv2d_options \<Rightarrow> (string \<times> string) list" where
  "conv2d_attrs options =
     (if conv_dilation options = (1, 1) \<and> conv_stride options = (1, 1) then []
      else
        [(''dilations'', ''dense<['' @ nat_str (fst (conv_dilation options)) @ '', ''
                          @ nat_str (snd (conv_dilation options)) @ '']> : vector<2xi64>''),
         (''strides'', ''dense<['' @ nat_str (fst (conv_stride options)) @ '', ''
                        @ nat_str (snd (conv_stride options)) @ '']> : vector<2xi64>'')])"

text \<open>\<open>(n - ((k - 1) * dilation + 1)) / stride + 1\<close> on \<open>usize\<close>; a zero stride divides by zero.\<close>

definition window_extent :: "nat \<Rightarrow> nat \<Rightarrow> nat \<Rightarrow> nat \<Rightarrow> nat result" where
  "window_extent n k dilation stride =
     rbind (usize_sub k 1) (\<lambda>k'.
     rbind (usize_sub n (k' * dilation + 1)) (\<lambda>room.
     if stride = 0 then Inl (Panic UnwrapNone) else Inr (room div stride + 1)))"

definition conv2d_direct :: "lvalue \<Rightarrow> lvalue \<Rightarrow> conv2d_options \<Rightarrow> lvalue lower" where
  "conv2d_direct v kern options =
     sbind (slift (idx (shape (val_ty v)) 0)) (\<lambda>batch.
     sbind (slift (idx (shape (val_ty v)) 1)) (\<lambda>height.
     sbind (slift (idx (shape (val_ty kern)) 0)) (\<lambda>kernel_h.
     sbind (slift (window_extent height kernel_h (fst (conv_dilation options)) (fst (conv_stride options)))) (\<lambda>h.
     sbind (slift (idx (shape (val_ty v)) 2)) (\<lambda>width.
     sbind (slift (idx (shape (val_ty kern)) 1)) (\<lambda>kernel_w.
     sbind (slift (window_extent width kernel_w (snd (conv_dilation options)) (snd (conv_stride options)))) (\<lambda>w.
     sbind (slift (idx (shape (val_ty kern)) 3)) (\<lambda>channels.
     let ty = tensor (elem (val_ty v)) [batch, h, w, channels] in
     sbind (zero_initialized_tensor ty) (\<lambda>init.
     append_named_linalg ''linalg.conv_2d_nhwc_hwcf'' [v, kern] init ty (conv2d_attrs options))))))))))"

definition pad_nhwc :: "lvalue \<Rightarrow> padding2d \<Rightarrow> string result \<Rightarrow> lvalue lower" where
  "pad_nhwc v padding literal =
     (if pad_top padding = 0 \<and> pad_bottom padding = 0 \<and> pad_left padding = 0 \<and> pad_right padding = 0
      then sreturn v
      else
        sbind (slift (rmap (idx (shape (val_ty v))) [0, 1, 2, 3])) (\<lambda>dims.
        let ty = tensor (elem (val_ty v))
              [dims ! 0, dims ! 1 + pad_top padding + pad_bottom padding,
               dims ! 2 + pad_left padding + pad_right padding, dims ! 3] in
        sbind (slift literal) (\<lambda>text.
        sbind (lower_constant text (elem ty)) (\<lambda>pad.
        append_tensor_pad v ty [0, pad_top padding, pad_left padding, 0]
          [0, pad_bottom padding, pad_right padding, 0] pad))))"

definition pad_conv2d_input :: "lvalue \<Rightarrow> conv2d_options \<Rightarrow> lvalue lower" where
  "pad_conv2d_input v options =
     pad_nhwc v (conv_padding options) (Inr (zero_literal (elem (val_ty v))))"

text \<open>One group: its channels of the input and of the kernel, convolved and appended to the output so far.\<close>

definition conv2d_group ::
    "lvalue \<Rightarrow> lvalue \<Rightarrow> conv2d_options \<Rightarrow> nat \<Rightarrow> nat \<Rightarrow> nat \<Rightarrow> lvalue option \<Rightarrow> lvalue option lower" where
  "conv2d_group v kern options input_channels output_channels g output =
     sbind (slift (rmap (idx (shape (val_ty v))) [0, 1, 2])) (\<lambda>dims.
     sbind (slift (rmap (idx (shape (val_ty kern))) [0, 1, 2])) (\<lambda>kernel_dims.
     sbind (lower_slice v (tensor (elem (val_ty v)) (dims @ [input_channels]))
              [0, 0, 0, g * input_channels]) (\<lambda>input_slice.
     sbind (lower_slice kern (tensor (elem (val_ty kern)) (kernel_dims @ [output_channels]))
              [0, 0, 0, g * output_channels]) (\<lambda>kernel_slice.
     sbind (conv2d_direct input_slice kernel_slice options) (\<lambda>group_output.
     sbind (case output of
              Some previous \<Rightarrow> lower_concat previous group_output 3
            | None \<Rightarrow> sreturn group_output) (\<lambda>output'.
     sreturn (Some output')))))))"

definition grouped_conv2d :: "lvalue \<Rightarrow> lvalue \<Rightarrow> conv2d_options \<Rightarrow> lvalue lower" where
  "grouped_conv2d v kern options =
     sbind (slift (idx (shape (val_ty v)) 3)) (\<lambda>input_channels.
     sbind (slift (idx (shape (val_ty kern)) 3)) (\<lambda>output_channels.
     let groups = conv_groups options in
     sbind (sfold (conv2d_group v kern options (input_channels div groups) (output_channels div groups))
              [0..<groups] None) (\<lambda>output.
     case output of None \<Rightarrow> sfail ConvGroups | Some v' \<Rightarrow> sreturn v')))"

definition lower_conv2d :: "lvalue \<Rightarrow> lvalue \<Rightarrow> conv2d_options \<Rightarrow> lvalue lower" where
  "lower_conv2d v kern options =
     sbind (pad_conv2d_input v options) (\<lambda>v'.
     if conv_groups options > 1 then grouped_conv2d v' kern options else conv2d_direct v' kern options)"

section \<open>Pooling\<close>

datatype pool2d_reduction = PoolAverage | PoolMax

fun max_pool_padding_literal :: "element_type \<Rightarrow> string result" where
  "max_pool_padding_literal Bool = Inl (Panic UnwrapNone)"
| "max_pool_padding_literal F32 = Inr ''0xFF800000''"
| "max_pool_padding_literal F64 = Inr ''0xFFF0000000000000''"
| "max_pool_padding_literal F16 = Inr ''0xFC00''"
| "max_pool_padding_literal BF16 = Inr ''0xFF80''"
| "max_pool_padding_literal I32 = Inr ''-2147483648''"
| "max_pool_padding_literal I64 = Inr ''-9223372036854775808''"

definition pool2d_output_type :: "tensor_type \<Rightarrow> pool2d_options \<Rightarrow> tensor_type result" where
  "pool2d_output_type ty options =
     rbind (idx (shape ty) 0) (\<lambda>batch.
     rbind (idx (shape ty) 1) (\<lambda>height.
     rbind (window_extent height (fst (pool_kernel options)) (fst (pool_dilation options))
              (fst (pool_stride options))) (\<lambda>h.
     rbind (idx (shape ty) 2) (\<lambda>width.
     rbind (window_extent width (snd (pool_kernel options)) (snd (pool_dilation options))
              (snd (pool_stride options))) (\<lambda>w.
     rbind (idx (shape ty) 3) (\<lambda>channels.
     Inr (tensor (elem ty) [batch, h, w, channels])))))))"

definition index_constant_in_block :: "mlir_context \<Rightarrow> nat \<Rightarrow> (mlir_block, raw) step" where
  "index_constant_in_block ctx n =
     block_op ctx ''arith.constant'' [] MIndex [(''value'', nat_str n @ '' : index'')]"

definition scalar_constant_in_block ::
    "mlir_context \<Rightarrow> string \<Rightarrow> element_type \<Rightarrow> (mlir_block, raw) step" where
  "scalar_constant_in_block ctx v e =
     sbind (mlir_element_type ctx e) (\<lambda>ty.
     block_op ctx ''arith.constant'' [] ty [(''value'', v @ '' : '' @ elem_mlir_type e)])"

definition scaled_index_in_block :: "mlir_context \<Rightarrow> raw \<Rightarrow> nat \<Rightarrow> nat \<Rightarrow> (mlir_block, raw) step" where
  "scaled_index_in_block ctx index scale offset =
     sbind (index_constant_in_block ctx scale) (\<lambda>scale'.
     sbind (block_op ctx ''arith.muli'' [index, scale'] MIndex []) (\<lambda>scaled.
     if offset = 0 then sreturn scaled
     else
       sbind (index_constant_in_block ctx offset) (\<lambda>offset'.
       block_op ctx ''arith.addi'' [scaled, offset'] MIndex [])))"

definition pool_op_name :: "pool2d_reduction \<Rightarrow> element_type \<Rightarrow> string" where
  "pool_op_name reduction e =
     (case reduction of
        PoolAverage \<Rightarrow> float_or_int e ''arith.addf'' ''arith.addi''
      | PoolMax \<Rightarrow> float_or_int e ''arith.maximumf'' ''arith.maxsi'')"

text \<open>One tap of the window: the input element under it, combined with the accumulator.\<close>

definition pool_tap ::
    "mlir_context \<Rightarrow> raw \<Rightarrow> element_type \<Rightarrow> pool2d_options \<Rightarrow> pool2d_reduction \<Rightarrow> raw list
      \<Rightarrow> nat \<times> nat \<Rightarrow> raw \<Rightarrow> (mlir_block, raw) step" where
  "pool_tap ctx input_raw e options reduction indices = (\<lambda>(kernel_h, kernel_w) acc.
     sbind (mlir_element_type ctx e) (\<lambda>elem_ty.
     sbind (scaled_index_in_block ctx (indices ! 1) (fst (pool_stride options))
              (kernel_h * fst (pool_dilation options))) (\<lambda>h.
     sbind (scaled_index_in_block ctx (indices ! 2) (snd (pool_stride options))
              (kernel_w * snd (pool_dilation options))) (\<lambda>w.
     sbind (block_op ctx ''tensor.extract'' [input_raw, indices ! 0, h, w, indices ! 3] elem_ty []) (\<lambda>v.
     block_op ctx (pool_op_name reduction e) [acc, v] elem_ty [])))))"

definition build_pool2d_body ::
    "mlir_context \<Rightarrow> raw \<Rightarrow> element_type \<Rightarrow> pool2d_options \<Rightarrow> pool2d_reduction \<Rightarrow> raw list
      \<Rightarrow> (mlir_block, raw) step" where
  "build_pool2d_body ctx input_raw e options reduction indices =
     sbind (mlir_element_type ctx e) (\<lambda>elem_ty.
     sbind (slift (case reduction of PoolAverage \<Rightarrow> Inr (zero_literal e)
                   | PoolMax \<Rightarrow> max_pool_padding_literal e)) (\<lambda>seed.
     sbind (scalar_constant_in_block ctx seed e) (\<lambda>init.
     sbind (sfold (pool_tap ctx input_raw e options reduction indices)
              (List.product [0..<fst (pool_kernel options)] [0..<snd (pool_kernel options)]) init) (\<lambda>acc.
     if reduction = PoolAverage then
       sbind (scalar_constant_in_block ctx
                (count_literal (fst (pool_kernel options) * snd (pool_kernel options))) e) (\<lambda>denominator.
       block_op ctx ''arith.divf'' [acc, denominator] elem_ty [])
     else sreturn acc))))"

definition pool_body ::
    "raw \<Rightarrow> element_type \<Rightarrow> pool2d_options \<Rightarrow> pool2d_reduction \<Rightarrow> mlir_context \<Rightarrow> raw list
      \<Rightarrow> (mlir_block, raw list) step" where
  "pool_body input_raw e options reduction ctx args =
     sbind (smap (linalg_index ctx) [0..<4]) (\<lambda>indices.
     sbind (build_pool2d_body ctx input_raw e options reduction indices) (\<lambda>r. sreturn [r]))"

definition emit_pool2d_generic ::
    "lvalue \<Rightarrow> tensor_type \<Rightarrow> pool2d_options \<Rightarrow> pool2d_reduction \<Rightarrow> lvalue lower" where
  "emit_pool2d_generic v ty options reduction =
     sbind (append_tensor_empty ty) (\<lambda>output.
     append_generic_tensor [] output ty (rank ty) [''(d0, d1, d2, d3)'']
       [''parallel'', ''parallel'', ''parallel'', ''parallel'']
       (pool_body (raw_of v) (elem (val_ty v)) options reduction))"

definition lower_max_pool2d :: "lvalue \<Rightarrow> pool2d_options \<Rightarrow> lvalue lower" where
  "lower_max_pool2d v options =
     sbind (pad_nhwc v (pool_padding options) (max_pool_padding_literal (elem (val_ty v)))) (\<lambda>v'.
     sbind (slift (pool2d_output_type (val_ty v') options)) (\<lambda>ty.
     emit_pool2d_generic v' ty options PoolMax))"

definition lower_avg_pool2d :: "lvalue \<Rightarrow> pool2d_options \<Rightarrow> lvalue lower" where
  "lower_avg_pool2d v options =
     sbind (pad_nhwc v (pool_padding options) (Inr (zero_literal (elem (val_ty v))))) (\<lambda>v'.
     sbind (slift (pool2d_output_type (val_ty v') options)) (\<lambda>ty.
     emit_pool2d_generic v' ty options PoolAverage))"

end
