(* ===== verification/Lower_Random.thy ===== *)
theory Lower_Random
  imports Lower_Linalg
begin

text \<open>
  Random sampling, \<^verbatim>\<open>lowering/random.rs\<close>: a counter-based generator emitted into the region of the
  operation, a sample per element, and the key for the next draw.
\<close>

section \<open>Integer and float operations of a region\<close>

text \<open>Constants are \<open>i128\<close> values, printed in decimal.\<close>

definition int_constant_in_block ::
    "mlir_context \<Rightarrow> int \<Rightarrow> element_type \<Rightarrow> (mlir_block, raw) step" where
  "int_constant_in_block ctx v e =
     sbind (mlir_element_type ctx e) (\<lambda>ty.
     block_op ctx ''arith.constant'' [] ty [(''value'', int_str v @ '' : '' @ elem_mlir_type e)])"

definition float_constant_in_block ::
    "mlir_context \<Rightarrow> string \<Rightarrow> element_type \<Rightarrow> (mlir_block, raw) step" where
  "float_constant_in_block ctx v e =
     sbind (mlir_element_type ctx e) (\<lambda>ty.
     block_op ctx ''arith.constant'' [] ty [(''value'', v @ '' : '' @ elem_mlir_type e)])"

definition int_binary ::
    "mlir_context \<Rightarrow> string \<Rightarrow> raw \<Rightarrow> raw \<Rightarrow> element_type \<Rightarrow> (mlir_block, raw) step" where
  "int_binary ctx name l r e =
     sbind (mlir_element_type ctx e) (\<lambda>ty. block_op ctx name [l, r] ty [])"

definition add_i64 :: "mlir_context \<Rightarrow> raw \<Rightarrow> 64 word \<Rightarrow> (mlir_block, raw) step" where
  "add_i64 ctx l r =
     sbind (int_constant_in_block ctx (sint r) I64) (\<lambda>r'. int_binary ctx ''arith.addi'' l r' I64)"

definition mul_i64 :: "mlir_context \<Rightarrow> raw \<Rightarrow> 64 word \<Rightarrow> (mlir_block, raw) step" where
  "mul_i64 ctx l r =
     sbind (int_constant_in_block ctx (sint r) I64) (\<lambda>r'. int_binary ctx ''arith.muli'' l r' I64)"

definition and_i64 :: "mlir_context \<Rightarrow> raw \<Rightarrow> int \<Rightarrow> (mlir_block, raw) step" where
  "and_i64 ctx l r =
     sbind (int_constant_in_block ctx r I64) (\<lambda>r'. int_binary ctx ''arith.andi'' l r' I64)"

definition xor_i64 :: "mlir_context \<Rightarrow> raw \<Rightarrow> raw \<Rightarrow> (mlir_block, raw) step" where
  "xor_i64 ctx l r = int_binary ctx ''arith.xori'' l r I64"

definition shift_right_i64 :: "mlir_context \<Rightarrow> raw \<Rightarrow> int \<Rightarrow> (mlir_block, raw) step" where
  "shift_right_i64 ctx l amount =
     sbind (int_constant_in_block ctx amount I64) (\<lambda>r'. int_binary ctx ''arith.shrui'' l r' I64)"

definition bitcast_in_block :: "mlir_context \<Rightarrow> raw \<Rightarrow> mlir_ty \<Rightarrow> (mlir_block, raw) step" where
  "bitcast_in_block ctx v ty = block_op ctx ''arith.bitcast'' [v] ty []"

definition cmpf_in_block :: "mlir_context \<Rightarrow> string \<Rightarrow> raw \<Rightarrow> raw \<Rightarrow> (mlir_block, raw) step" where
  "cmpf_in_block ctx predicate l r =
     sbind (mlir_element_type ctx Bool) (\<lambda>ty.
     sbind (slift (of_option (Panic UnwrapNone)
              (map_of [(''oeq'', 1 :: nat), (''ogt'', 2), (''oge'', 3)] predicate))) (\<lambda>n.
     block_op ctx ''arith.cmpf'' [l, r] ty [(''predicate'', nat_str n @ '' : i64'')]))"

definition select_in_block ::
    "mlir_context \<Rightarrow> raw \<Rightarrow> raw \<Rightarrow> raw \<Rightarrow> element_type \<Rightarrow> (mlir_block, raw) step" where
  "select_in_block ctx c t f e =
     sbind (mlir_element_type ctx e) (\<lambda>ty. block_op ctx ''arith.select'' [c, t, f] ty [])"

section \<open>The generator\<close>

definition index_to_i64 :: "mlir_context \<Rightarrow> raw \<Rightarrow> (mlir_block, raw) step" where
  "index_to_i64 ctx r =
     sbind (mlir_element_type ctx I64) (\<lambda>ty. block_op ctx ''arith.index_cast'' [r] ty [])"

text \<open>The row-major index of the element; axis 0 starts it, each further axis scales and adds.\<close>

fun flattened_axes :: "mlir_context \<Rightarrow> nat \<Rightarrow> nat list \<Rightarrow> raw \<Rightarrow> (mlir_block, raw) step" where
  "flattened_axes ctx axis [] flattened = sreturn flattened"
| "flattened_axes ctx axis (dim # dims) flattened =
     sbind (linalg_index ctx axis) (\<lambda>raw_index.
     sbind (index_to_i64 ctx raw_index) (\<lambda>index.
     if axis = 0 then flattened_axes ctx 1 dims index
     else
       sbind (int_constant_in_block ctx (int dim) I64) (\<lambda>dim'.
       sbind (int_binary ctx ''arith.muli'' flattened dim' I64) (\<lambda>scaled.
       sbind (int_binary ctx ''arith.addi'' scaled index I64) (\<lambda>flattened'.
       flattened_axes ctx (axis + 1) dims flattened')))))"

definition flattened_linalg_index :: "mlir_context \<Rightarrow> nat list \<Rightarrow> (mlir_block, raw) step" where
  "flattened_linalg_index ctx s =
     sbind (int_constant_in_block ctx 0 I64) (\<lambda>zero. flattened_axes ctx 0 s zero)"

definition splitmix64_in_block :: "mlir_context \<Rightarrow> raw \<Rightarrow> (mlir_block, raw) step" where
  "splitmix64_in_block ctx v =
     sbind (add_i64 ctx v 0x9E3779B97F4A7C15) (\<lambda>v1.
     sbind (shift_right_i64 ctx v1 30) (\<lambda>s1.
     sbind (xor_i64 ctx v1 s1) (\<lambda>x1.
     sbind (mul_i64 ctx x1 0xBF58476D1CE4E5B9) (\<lambda>m1.
     sbind (shift_right_i64 ctx m1 27) (\<lambda>s2.
     sbind (xor_i64 ctx m1 s2) (\<lambda>x2.
     sbind (mul_i64 ctx x2 0x94D049BB133111EB) (\<lambda>m2.
     sbind (shift_right_i64 ctx m2 31) (\<lambda>s3.
     xor_i64 ctx m2 s3))))))))"

text \<open>The element types other than those of the two generators are rejected.\<close>

definition unit_float_from_hash ::
    "mlir_context \<Rightarrow> raw \<Rightarrow> element_type \<Rightarrow> (mlir_block, raw) step" where
  "unit_float_from_hash ctx hash e =
     sbind (if e = F64 then sreturn (9007199254740991 :: int, ''9007199254740992.0'')
            else if e = F32 then sreturn (16777215, ''16777216.0'')
            else sfail RandomElement) (\<lambda>(bit_mask, scale).
     sbind (and_i64 ctx hash bit_mask) (\<lambda>masked.
     sbind (mlir_element_type ctx e) (\<lambda>elem_ty.
     sbind (block_op ctx ''arith.sitofp'' [masked] elem_ty []) (\<lambda>float'.
     sbind (float_constant_in_block ctx scale e) (\<lambda>scale'.
     block_op ctx ''arith.divf'' [float', scale'] elem_ty [])))))"

definition integer_sample_from_hash ::
    "mlir_context \<Rightarrow> raw \<Rightarrow> element_type \<Rightarrow> (mlir_block, raw) step" where
  "integer_sample_from_hash ctx hash e =
     (if e = I32 then
        sbind (mlir_element_type ctx I32) (\<lambda>ty. block_op ctx ''arith.trunci'' [hash] ty [])
      else if e = I64 then sreturn hash
      else sfail RandomElement)"

definition float_bit_layout :: "element_type \<Rightarrow> ('s, element_type \<times> int) step" where
  "float_bit_layout e =
     (if e = F32 then sreturn (I32, - (2 ^ 31) + 1)
      else if e = F64 then sreturn (I64, - (2 ^ 63) + 1)
      else sfail RandomElement)"

definition next_down_float :: "mlir_context \<Rightarrow> raw \<Rightarrow> element_type \<Rightarrow> (mlir_block, raw) step" where
  "next_down_float ctx v e =
     sbind (float_bit_layout e) (\<lambda>(int_elem, negative_min_subnormal_bits).
     sbind (mlir_element_type ctx int_elem) (\<lambda>int_ty.
     sbind (float_constant_in_block ctx ''0.0'' e) (\<lambda>zero.
     sbind (int_constant_in_block ctx 1 int_elem) (\<lambda>one'.
     sbind (bitcast_in_block ctx v int_ty) (\<lambda>bits.
     sbind (int_binary ctx ''arith.subi'' bits one' int_elem) (\<lambda>decremented.
     sbind (int_binary ctx ''arith.addi'' bits one' int_elem) (\<lambda>incremented.
     sbind (cmpf_in_block ctx ''ogt'' v zero) (\<lambda>is_positive.
     sbind (select_in_block ctx is_positive decremented incremented int_elem) (\<lambda>nonzero_bits.
     sbind (cmpf_in_block ctx ''oeq'' v zero) (\<lambda>is_zero.
     sbind (int_constant_in_block ctx negative_min_subnormal_bits int_elem) (\<lambda>negative_min_subnormal.
     sbind (select_in_block ctx is_zero negative_min_subnormal nonzero_bits int_elem) (\<lambda>next_bits.
     sbind (mlir_element_type ctx e) (\<lambda>elem_ty.
     bitcast_in_block ctx next_bits elem_ty)))))))))))))"

definition clamp_uniform_sample_below_high ::
    "mlir_context \<Rightarrow> raw \<Rightarrow> raw \<Rightarrow> element_type \<Rightarrow> (mlir_block, raw) step" where
  "clamp_uniform_sample_below_high ctx sample high e =
     sbind (next_down_float ctx high e) (\<lambda>upper.
     sbind (cmpf_in_block ctx ''oge'' sample high) (\<lambda>is_at_or_above_high.
     select_in_block ctx is_at_or_above_high upper sample e))"

section \<open>Sampling\<close>

text \<open>The hash of the key plus the element's index.\<close>

definition element_hash :: "mlir_context \<Rightarrow> nat list \<Rightarrow> raw \<Rightarrow> (mlir_block, raw) step" where
  "element_hash ctx s key =
     sbind (flattened_linalg_index ctx s) (\<lambda>linear_index.
     sbind (int_binary ctx ''arith.addi'' key linear_index I64) (\<lambda>counter.
     splitmix64_in_block ctx counter))"

definition random_uniform_body ::
    "tensor_type \<Rightarrow> mlir_context \<Rightarrow> raw list \<Rightarrow> (mlir_block, raw list) step" where
  "random_uniform_body target ctx args =
     sbind (mlir_element_type ctx (elem target)) (\<lambda>elem_ty.
     sbind (element_hash ctx (shape target) (args ! 0)) (\<lambda>hash.
     sbind (unit_float_from_hash ctx hash (elem target)) (\<lambda>unit.
     sbind (block_op ctx ''arith.subf'' [args ! 2, args ! 1] elem_ty []) (\<lambda>span.
     sbind (block_op ctx ''arith.mulf'' [unit, span] elem_ty []) (\<lambda>scaled.
     sbind (block_op ctx ''arith.addf'' [args ! 1, scaled] elem_ty []) (\<lambda>shifted.
     sbind (clamp_uniform_sample_below_high ctx shifted (args ! 2) (elem target)) (\<lambda>capped.
     sreturn [capped])))))))"

definition random_int_body ::
    "tensor_type \<Rightarrow> mlir_context \<Rightarrow> raw list \<Rightarrow> (mlir_block, raw list) step" where
  "random_int_body target ctx args =
     sbind (element_hash ctx (shape target) (args ! 0)) (\<lambda>hash.
     sbind (integer_sample_from_hash ctx hash (elem target)) (\<lambda>sample.
     sbind (mlir_element_type ctx (elem target)) (\<lambda>elem_ty.
     sbind (block_op ctx ''arith.subi'' [args ! 2, args ! 1] elem_ty []) (\<lambda>span.
     sbind (block_op ctx ''arith.remui'' [sample, span] elem_ty []) (\<lambda>offset.
     sbind (block_op ctx ''arith.addi'' [args ! 1, offset] elem_ty []) (\<lambda>shifted.
     sreturn [shifted]))))))"

text \<open>The operation of both tensors: three scalars in, one element per point of the target out.\<close>

definition random_tensor ::
    "tensor_type \<Rightarrow> lvalue \<Rightarrow> lvalue \<Rightarrow> lvalue
      \<Rightarrow> (mlir_context \<Rightarrow> raw list \<Rightarrow> (mlir_block, raw list) step) \<Rightarrow> lvalue lower" where
  "random_tensor target key low high body =
     sbind (append_tensor_empty target) (\<lambda>output.
     append_generic_tensor [key, low, high] output target (rank target)
       [''()'', ''()'', ''()'', identity_map (rank target)] (parallel (rank target)) body)"

definition random_next_key :: "lvalue \<Rightarrow> tensor_type \<Rightarrow> lvalue lower" where
  "random_next_key key target =
     (if prod_list (shape target) \<ge> 2 ^ 63 then sfail RandomCount
      else
        sbind (lower_constant (nat_str (prod_list (shape target))) I64) (\<lambda>count.
        binary_value Add key count))"

definition random_values ::
    "tensor_type \<Rightarrow> lvalue \<Rightarrow> lvalue \<Rightarrow> lvalue
      \<Rightarrow> (mlir_context \<Rightarrow> raw list \<Rightarrow> (mlir_block, raw list) step) \<Rightarrow> lvalue list lower" where
  "random_values target key low high body =
     sbind (coerce_to_scalar key) (\<lambda>key'.
     sbind (coerce_to_scalar low) (\<lambda>low'.
     sbind (coerce_to_scalar high) (\<lambda>high'.
     sbind (random_tensor target key' low' high' body) (\<lambda>v.
     sbind (random_next_key key' target) (\<lambda>next_key.
     sreturn [v, next_key])))))"

definition lower_random_uniform ::
    "tensor_type \<Rightarrow> lvalue \<Rightarrow> lvalue \<Rightarrow> lvalue \<Rightarrow> lvalue list lower" where
  "lower_random_uniform target key low high = random_values target key low high (random_uniform_body target)"

definition lower_random_int ::
    "tensor_type \<Rightarrow> lvalue \<Rightarrow> lvalue \<Rightarrow> lvalue \<Rightarrow> lvalue list lower" where
  "lower_random_int target key low high = random_values target key low high (random_int_body target)"

end
