(* ===== verification/Lowering.thy ===== *)
theory Lowering
  imports Lower_Random Type_Check
begin

text \<open>
  The dispatch of \<^verbatim>\<open>lowering/lowerer.rs\<close>: expressions, calls, shared nodes and tuples, graph calls
  inlined in a scope of their own, and the function around the graph.

  Every branch of \<open>lower_call\<close> lowers its operands in order and then builds the operation, so the two
  halves are \<open>call_arity\<close> and \<open>apply_call\<close>.  The branches of \<open>lower_call\<close> for graph calls, splits and
  random draws are never reached, because \<open>lower_call_values\<close> takes them first; they are errors here.

  A nested call inlines the callee, so the recursion is bounded by the graphs of the registry: the first
  argument of the functions is the number of calls that may still be entered.
\<close>

section \<open>Operations\<close>

text \<open>The number of operands a branch lowers.\<close>

primrec call_arity :: "call_op \<Rightarrow> nat" where
  "call_arity OpAbs = 1"
| "call_arity (OpAll axis) = 1"
| "call_arity (OpArgmax axis) = 1"
| "call_arity (OpArgmin axis) = 1"
| "call_arity (OpAny axis) = 1"
| "call_arity OpClip = 3"
| "call_arity (OpConcat axis) = 2"
| "call_arity (OpConv2d options) = 2"
| "call_arity OpCeil = 1"
| "call_arity OpDetach = 1"
| "call_arity (OpDiagonal axes) = 1"
| "call_arity OpDot = 2"
| "call_arity OpEqual = 2"
| "call_arity (OpEye ty) = 0"
| "call_arity OpExp = 1"
| "call_arity OpExp2 = 1"
| "call_arity OpExpM1 = 1"
| "call_arity OpFloor = 1"
| "call_arity OpFullLike = 2"
| "call_arity OpGreater = 2"
| "call_arity OpGreaterEqual = 2"
| "call_arity (OpGather target axis) = 2"
| "call_arity OpIsNan = 1"
| "call_arity OpLess = 2"
| "call_arity OpLessEqual = 2"
| "call_arity (OpArange ty) = 0"
| "call_arity (OpLinspace ty) = 0"
| "call_arity (OpRandomUniform target) = 3"
| "call_arity (OpRandomInt target) = 3"
| "call_arity (OpStaticRandomUniform target seed) = 0"
| "call_arity (OpStaticRandomInt target seed) = 0"
| "call_arity OpLog = 1"
| "call_arity OpLog1P = 1"
| "call_arity OpLog2 = 1"
| "call_arity OpLog10 = 1"
| "call_arity OpLogicalAnd = 2"
| "call_arity OpLogicalNot = 1"
| "call_arity OpLogicalOr = 2"
| "call_arity OpLogicalXor = 2"
| "call_arity OpInner = 2"
| "call_arity OpMatmul = 2"
| "call_arity (OpMaxPool2d options) = 1"
| "call_arity (OpMax axis) = 1"
| "call_arity (OpAvgPool2d options) = 1"
| "call_arity (OpMean axis) = 1"
| "call_arity (OpMin axis) = 1"
| "call_arity OpMinimum = 2"
| "call_arity OpMaximum = 2"
| "call_arity OpNotEqual = 2"
| "call_arity (OpFlip axes) = 1"
| "call_arity (OpMoveAxis source destination) = 1"
| "call_arity (OpPad target lows) = 1"
| "call_arity OpOuter = 2"
| "call_arity OpPow = 2"
| "call_arity (OpProd axis) = 1"
| "call_arity (OpPtp axis) = 1"
| "call_arity (OpPermute target axes) = 1"
| "call_arity (OpPermuteDims axes) = 1"
| "call_arity OpReciprocal = 1"
| "call_arity OpRelu = 1"
| "call_arity (OpRepeat axis count) = 1"
| "call_arity (OpReshape ty) = 1"
| "call_arity (OpRoll axis shift) = 1"
| "call_arity (OpBroadcast ty) = 1"
| "call_arity OpRint = 1"
| "call_arity OpRound = 1"
| "call_arity OpSigmoid = 1"
| "call_arity (OpSlice target starts) = 1"
| "call_arity (OpSoftmax axis) = 1"
| "call_arity OpSqrt = 1"
| "call_arity OpSquare = 1"
| "call_arity (OpSqueeze ty) = 1"
| "call_arity (OpStack axis) = 2"
| "call_arity (OpStd axis) = 1"
| "call_arity (OpSum axis) = 1"
| "call_arity (OpSplit axis sections) = 1"
| "call_arity (OpSwapAxes axis0 axis1) = 1"
| "call_arity OpTanh = 1"
| "call_arity OpCos = 1"
| "call_arity OpSin = 1"
| "call_arity OpTan = 1"
| "call_arity (OpTake axis index) = 1"
| "call_arity (OpTile multiples) = 1"
| "call_arity (OpTakeAlongAxis axis) = 2"
| "call_arity (OpTrace axes) = 1"
| "call_arity (OpTranspose axes) = 1"
| "call_arity (OpUnsqueeze ty) = 1"
| "call_arity (OpVar axis) = 1"
| "call_arity (OpVecdot axis) = 2"
| "call_arity OpWhere = 3"
| "call_arity OpOnesLike = 1"
| "call_arity OpZerosLike = 1"
| "call_arity (OpGraph name) = 0"

primrec apply_call :: "'f f64_ops \<Rightarrow> expr list \<Rightarrow> lvalue list \<Rightarrow> call_op \<Rightarrow> lvalue lower" where
  "apply_call F args vs OpAbs =
     emit_unary (float_or_int (elem (val_ty (vs ! 0))) ''math.absf'' ''math.absi'') (vs ! 0)"
| "apply_call F args vs (OpAll axis) = lower_all (vs ! 0) axis"
| "apply_call F args vs (OpArgmax axis) = lower_argmax (vs ! 0) axis"
| "apply_call F args vs (OpArgmin axis) = lower_argmin (vs ! 0) axis"
| "apply_call F args vs (OpAny axis) = lower_any (vs ! 0) axis"
| "apply_call F args vs OpClip =
     sbind (lower_minimum (vs ! 0) (vs ! 2)) (\<lambda>clipped_high. lower_maximum clipped_high (vs ! 1))"
| "apply_call F args vs (OpConcat axis) = lower_concat (vs ! 0) (vs ! 1) axis"
| "apply_call F args vs (OpConv2d options) = lower_conv2d (vs ! 0) (vs ! 1) options"
| "apply_call F args vs OpCeil = emit_unary ''math.ceil'' (vs ! 0)"
| "apply_call F args vs OpDetach = sreturn (vs ! 0)"
| "apply_call F args vs (OpDiagonal axes) = lower_diagonal (vs ! 0) axes"
| "apply_call F args vs OpDot = lower_dot (vs ! 0) (vs ! 1)"
| "apply_call F args vs OpEqual = lower_comparison ''oeq'' ''eq'' (vs ! 0) (vs ! 1)"
| "apply_call F args vs (OpEye ty) = sbind (slift (static_eye_literals ty)) (dense_constant ty)"
| "apply_call F args vs OpExp = emit_unary ''math.exp'' (vs ! 0)"
| "apply_call F args vs OpExp2 =
     sbind (lower_constant ''0.6931471805599453'' (elem (val_ty (vs ! 0)))) (\<lambda>ln2.
     sbind (binary_value Mul (vs ! 0) ln2) (\<lambda>scaled. emit_unary ''math.exp'' scaled))"
| "apply_call F args vs OpExpM1 = emit_unary ''math.expm1'' (vs ! 0)"
| "apply_call F args vs OpFloor = emit_unary ''math.floor'' (vs ! 0)"
| "apply_call F args vs OpFullLike = splat (vs ! 1) (val_ty (vs ! 0))"
| "apply_call F args vs OpGreater = lower_comparison ''ogt'' ''sgt'' (vs ! 0) (vs ! 1)"
| "apply_call F args vs OpGreaterEqual = lower_comparison ''oge'' ''sge'' (vs ! 0) (vs ! 1)"
| "apply_call F args vs (OpGather target axis) = lower_gather (vs ! 0) (vs ! 1) axis target"
| "apply_call F args vs OpIsNan = lower_isnan (vs ! 0)"
| "apply_call F args vs OpLess = lower_comparison ''olt'' ''slt'' (vs ! 0) (vs ! 1)"
| "apply_call F args vs OpLessEqual = lower_comparison ''ole'' ''sle'' (vs ! 0) (vs ! 1)"
| "apply_call F args vs (OpArange ty) =
     sbind (slift (static_arange_literals F ty args)) (dense_constant ty)"
| "apply_call F args vs (OpLinspace ty) =
     sbind (slift (static_linspace_literals F ty args)) (dense_constant ty)"
| "apply_call F args vs (OpRandomUniform target) = sfail MultiResultOp"
| "apply_call F args vs (OpRandomInt target) = sfail MultiResultOp"
| "apply_call F args vs (OpStaticRandomUniform target seed) =
     sbind (slift (static_random_uniform_literals F target seed args)) (dense_constant target)"
| "apply_call F args vs (OpStaticRandomInt target seed) =
     sbind (slift (static_random_int_literals F target seed args)) (dense_constant target)"
| "apply_call F args vs OpLog = emit_unary ''math.log'' (vs ! 0)"
| "apply_call F args vs OpLog1P = emit_unary ''math.log1p'' (vs ! 0)"
| "apply_call F args vs OpLog2 =
     sbind (emit_unary ''math.log'' (vs ! 0)) (\<lambda>log'.
     sbind (lower_constant ''0.6931471805599453'' (elem (val_ty (vs ! 0)))) (\<lambda>ln2. binary_value Div log' ln2))"
| "apply_call F args vs OpLog10 =
     sbind (emit_unary ''math.log'' (vs ! 0)) (\<lambda>log'.
     sbind (lower_constant ''2.302585092994046'' (elem (val_ty (vs ! 0)))) (\<lambda>ln10. binary_value Div log' ln10))"
| "apply_call F args vs OpLogicalAnd = logical_binary ''arith.andi'' (vs ! 0) (vs ! 1)"
| "apply_call F args vs OpLogicalNot = logical_not (vs ! 0)"
| "apply_call F args vs OpLogicalOr = logical_binary ''arith.ori'' (vs ! 0) (vs ! 1)"
| "apply_call F args vs OpLogicalXor = logical_binary ''arith.xori'' (vs ! 0) (vs ! 1)"
| "apply_call F args vs OpInner = lower_inner (vs ! 0) (vs ! 1)"
| "apply_call F args vs OpMatmul = lower_matmul (vs ! 0) (vs ! 1)"
| "apply_call F args vs (OpMaxPool2d options) = lower_max_pool2d (vs ! 0) options"
| "apply_call F args vs (OpMax axis) = lower_max (vs ! 0) axis"
| "apply_call F args vs (OpAvgPool2d options) = lower_avg_pool2d (vs ! 0) options"
| "apply_call F args vs (OpMean axis) = lower_mean (vs ! 0) axis"
| "apply_call F args vs (OpMin axis) = lower_min (vs ! 0) axis"
| "apply_call F args vs OpMinimum = lower_minimum (vs ! 0) (vs ! 1)"
| "apply_call F args vs OpMaximum = lower_maximum (vs ! 0) (vs ! 1)"
| "apply_call F args vs OpNotEqual = lower_comparison ''une'' ''ne'' (vs ! 0) (vs ! 1)"
| "apply_call F args vs (OpFlip axes) = lower_flip (vs ! 0) axes"
| "apply_call F args vs (OpMoveAxis source destination) =
     lower_moveaxis (vs ! 0) source destination"
| "apply_call F args vs (OpPad target lows) = lower_pad (vs ! 0) target lows"
| "apply_call F args vs OpOuter = lower_outer (vs ! 0) (vs ! 1)"
| "apply_call F args vs OpPow = emit_binary ''math.powf'' (vs ! 0) (vs ! 1)"
| "apply_call F args vs (OpProd axis) = lower_prod (vs ! 0) axis"
| "apply_call F args vs (OpPtp axis) = lower_ptp (vs ! 0) axis"
| "apply_call F args vs (OpPermute target axes) = lower_permute (vs ! 0) target axes"
| "apply_call F args vs (OpPermuteDims axes) = lower_permute_dims (vs ! 0) axes"
| "apply_call F args vs OpReciprocal =
     sbind (one_like (val_ty (vs ! 0))) (\<lambda>one'. binary_value Div one' (vs ! 0))"
| "apply_call F args vs OpRelu =
     sbind (zero_like (val_ty (vs ! 0))) (\<lambda>zero. emit_binary ''arith.maximumf'' zero (vs ! 0))"
| "apply_call F args vs (OpRepeat axis count) = lower_repeat (vs ! 0) axis count"
| "apply_call F args vs (OpReshape ty) = lower_reshape (vs ! 0) ty"
| "apply_call F args vs (OpRoll axis shift) = lower_roll (vs ! 0) axis shift"
| "apply_call F args vs (OpBroadcast ty) = lower_broadcast (vs ! 0) ty"
| "apply_call F args vs OpRint = emit_unary ''math.roundeven'' (vs ! 0)"
| "apply_call F args vs OpRound = emit_unary ''math.roundeven'' (vs ! 0)"
| "apply_call F args vs OpSigmoid = lower_sigmoid (vs ! 0)"
| "apply_call F args vs (OpSlice target starts) = lower_slice (vs ! 0) target starts"
| "apply_call F args vs (OpSoftmax axis) = lower_softmax (vs ! 0) axis"
| "apply_call F args vs OpSqrt = emit_unary ''math.sqrt'' (vs ! 0)"
| "apply_call F args vs OpSquare = binary_value Mul (vs ! 0) (vs ! 0)"
| "apply_call F args vs (OpSqueeze ty) = lower_reshape (vs ! 0) ty"
| "apply_call F args vs (OpStack axis) = lower_stack (vs ! 0) (vs ! 1) axis"
| "apply_call F args vs (OpStd axis) = lower_std (vs ! 0) axis"
| "apply_call F args vs (OpSum axis) = lower_sum (vs ! 0) axis"
| "apply_call F args vs (OpSplit axis sections) = sfail MultiResultOp"
| "apply_call F args vs (OpSwapAxes axis0 axis1) = lower_swapaxes (vs ! 0) axis0 axis1"
| "apply_call F args vs OpTanh = emit_unary ''math.tanh'' (vs ! 0)"
| "apply_call F args vs OpCos = emit_unary ''math.cos'' (vs ! 0)"
| "apply_call F args vs OpSin = emit_unary ''math.sin'' (vs ! 0)"
| "apply_call F args vs OpTan = emit_unary ''math.tan'' (vs ! 0)"
| "apply_call F args vs (OpTake axis index) = lower_take (vs ! 0) axis index"
| "apply_call F args vs (OpTile multiples) = lower_tile (vs ! 0) multiples"
| "apply_call F args vs (OpTakeAlongAxis axis) = lower_take_along_axis (vs ! 0) (vs ! 1) axis"
| "apply_call F args vs (OpTrace axes) = lower_trace (vs ! 0) axes"
| "apply_call F args vs (OpTranspose axes) = lower_transpose (vs ! 0) axes"
| "apply_call F args vs (OpUnsqueeze ty) = lower_reshape (vs ! 0) ty"
| "apply_call F args vs (OpVar axis) = lower_var (vs ! 0) axis"
| "apply_call F args vs (OpVecdot axis) = lower_vecdot (vs ! 0) (vs ! 1) axis"
| "apply_call F args vs OpWhere = where_select (vs ! 0) (vs ! 1) (vs ! 2)"
| "apply_call F args vs OpOnesLike = one_like (val_ty (vs ! 0))"
| "apply_call F args vs OpZerosLike = zero_like (val_ty (vs ! 0))"
| "apply_call F args vs (OpGraph name) = sfail MultiResultExpression"

text \<open>The operations with several results, and the others.\<close>

definition apply_call_values :: "'f f64_ops \<Rightarrow> expr list \<Rightarrow> lvalue list \<Rightarrow> call_op \<Rightarrow> lvalue list lower" where
  "apply_call_values F args vs op =
     (case op of
        OpSplit axis sections \<Rightarrow> lower_split (vs ! 0) axis sections
      | OpRandomUniform target \<Rightarrow> lower_random_uniform target (vs ! 0) (vs ! 1) (vs ! 2)
      | OpRandomInt target \<Rightarrow> lower_random_int target (vs ! 0) (vs ! 1) (vs ! 2)
      | _ \<Rightarrow> sbind (apply_call F args vs op) (\<lambda>v. sreturn [v]))"

section \<open>Scopes\<close>

definition current_tuple_scope :: "nat lower" where
  "current_tuple_scope =
     sbind sget (\<lambda>s.
     if tuple_scope_stack s = [] then slift (Inl (Panic UnwrapNone)) else sreturn (last (tuple_scope_stack s)))"

definition tuple_value_at :: "lvalue list \<Rightarrow> nat \<Rightarrow> lvalue lower" where
  "tuple_value_at values' index =
     (if index < length values' then sreturn (values' ! index) else sfail TupleProjection)"

type_synonym overwritten = "(string \<times> lvalue option) list"

text \<open>One assignment of \<open>values\<close>, with the value it replaces.\<close>

definition insert_value :: "string \<times> lvalue \<Rightarrow> overwritten \<Rightarrow> overwritten lower" where
  "insert_value = (\<lambda>(name, v) overwritten.
     sbind sget (\<lambda>s.
     sbind (supdate (\<lambda>s. s\<lparr>bound_values := (bound_values s)(name \<mapsto> v)\<rparr>)) (\<lambda>_.
     sreturn (overwritten @ [(name, bound_values s name)]))))"

definition bind_values :: "string list \<Rightarrow> lvalue list \<Rightarrow> overwritten \<Rightarrow> overwritten lower" where
  "bind_values names values' overwritten =
     (if length names \<noteq> length values' then sfail LetValues
      else sfold insert_value (zip names values') overwritten)"

definition restore_values :: "overwritten \<Rightarrow> (string \<Rightarrow> lvalue option) \<Rightarrow> (string \<Rightarrow> lvalue option)" where
  "restore_values overwritten m = fold (\<lambda>(name, old) m. m(name := old)) (rev overwritten) m"

text \<open>The scope of an inlined graph: its name on the call stack and a fresh number for its nodes and
  tuples, which leave with it.\<close>

definition push_inline_scope :: "string \<Rightarrow> nat lower" where
  "push_inline_scope name =
     sbind sget (\<lambda>s.
     sbind (supdate (\<lambda>s. s\<lparr>call_stack := call_stack s @ [name],
                          next_tuple_scope := next_tuple_scope s + 1,
                          tuple_scope_stack := tuple_scope_stack s @ [next_tuple_scope s]\<rparr>)) (\<lambda>_.
     sreturn (next_tuple_scope s)))"

definition outside_scope :: "nat \<Rightarrow> (nat \<times> nat \<Rightarrow> 'a option) \<Rightarrow> nat \<times> nat \<Rightarrow> 'a option" where
  "outside_scope scope m key = (if fst key = scope then None else m key)"

definition pop_inline_scope :: "nat \<Rightarrow> unit lower" where
  "pop_inline_scope scope =
     supdate (\<lambda>s. s\<lparr>node_values := outside_scope scope (node_values s),
                    tuple_values := outside_scope scope (tuple_values s),
                    tuple_scope_stack := butlast (tuple_scope_stack s),
                    call_stack := butlast (call_stack s)\<rparr>)"

definition output_value :: "lvalue \<Rightarrow> tensor_type \<Rightarrow> lvalue lower" where
  "output_value v output =
     (if val_ty v \<noteq> output then sfail OutputType
      else
        (case val_kind v of
           Tensor \<Rightarrow> sreturn v
         | Scalar \<Rightarrow> (if rank output = 0 then splat v output else sfail OutputScalar)))"

definition single_value :: "lvalue list \<Rightarrow> lvalue lower" where
  "single_value values' =
     (if length values' \<noteq> 1 then sfail MultiResultExpression else sreturn (hd values'))"

definition lookup_value :: "string \<Rightarrow> lvalue lower" where
  "lookup_value name =
     sbind sget (\<lambda>s.
     case bound_values s name of None \<Rightarrow> sfail UnknownValueLowering | Some v \<Rightarrow> sreturn v)"

definition cached_node :: "nat \<Rightarrow> lvalue lower \<Rightarrow> lvalue lower" where
  "cached_node node_id compute =
     sbind current_tuple_scope (\<lambda>scope.
     sbind sget (\<lambda>s.
     case node_values s (scope, node_id) of
       Some v \<Rightarrow> sreturn v
     | None \<Rightarrow>
         sbind compute (\<lambda>v.
         sbind (supdate (\<lambda>s. s\<lparr>node_values := (node_values s)((scope, node_id) \<mapsto> v)\<rparr>)) (\<lambda>_.
         sreturn v))))"

definition cached_tuple :: "nat \<Rightarrow> nat \<Rightarrow> lvalue list lower \<Rightarrow> lvalue lower" where
  "cached_tuple tuple_id index compute =
     sbind current_tuple_scope (\<lambda>scope.
     sbind sget (\<lambda>s.
     case tuple_values s (scope, tuple_id) of
       Some values' \<Rightarrow> tuple_value_at values' index
     | None \<Rightarrow>
         sbind compute (\<lambda>values'.
         sbind (tuple_value_at values' index) (\<lambda>projected.
         sbind (supdate (\<lambda>s. s\<lparr>tuple_values := (tuple_values s)((scope, tuple_id) \<mapsto> values')\<rparr>)) (\<lambda>_.
         sreturn projected)))))"

text \<open>The checks before a graph is inlined.\<close>

definition inline_target :: "string \<Rightarrow> nat \<Rightarrow> typed_graph lower" where
  "inline_target name arity =
     sbind sget (\<lambda>s.
     if name \<in> set (call_stack s) then sfail RecursiveLowering
     else
       (case graphs_of s name of
          None \<Rightarrow> sfail UnknownGraphLowering
        | Some g \<Rightarrow> (if length (tg_inputs g) \<noteq> arity then sfail GraphArguments else sreturn g)))"

text \<open>A graph's body in a scope of its own; afterwards the values it shadowed are back.\<close>

definition in_scope ::
    "string \<Rightarrow> (string \<times> lvalue) list \<Rightarrow> (overwritten \<Rightarrow> ('a \<times> overwritten) lower) \<Rightarrow> 'a lower" where
  "in_scope name inputs compute =
     sbind (push_inline_scope name) (\<lambda>scope.
     sbind (sfold insert_value inputs []) (\<lambda>overwritten.
     sbind (compute overwritten) (\<lambda>(r, overwritten').
     sbind (supdate (\<lambda>s. s\<lparr>bound_values := restore_values overwritten' (bound_values s)\<rparr>)) (\<lambda>_.
     sbind (pop_inline_scope scope) (\<lambda>_.
     sreturn r)))))"

definition lower_outputs :: "(expr \<Rightarrow> lvalue lower) \<Rightarrow> typed_expr list \<Rightarrow> tensor_type list \<Rightarrow> lvalue list lower" where
  "lower_outputs compute body outputs =
     (if length body \<noteq> length outputs then sfail BodyOutputs
      else smap (\<lambda>(e, output). sbind (compute (expr_kind e)) (\<lambda>v. output_value v output)) (zip body outputs))"

section \<open>Expressions\<close>

function (sequential) lower_expr :: "'f f64_ops \<Rightarrow> nat \<Rightarrow> expr \<Rightarrow> lvalue lower"
  and lower_args :: "'f f64_ops \<Rightarrow> nat \<Rightarrow> nat \<Rightarrow> expr list \<Rightarrow> lvalue list lower"
  and lower_all_args :: "'f f64_ops \<Rightarrow> nat \<Rightarrow> expr list \<Rightarrow> lvalue list lower"
  and lower_call_values :: "'f f64_ops \<Rightarrow> nat \<Rightarrow> call_op \<Rightarrow> expr list \<Rightarrow> lvalue list lower"
  and lower_let_values :: "'f f64_ops \<Rightarrow> nat \<Rightarrow> expr \<Rightarrow> lvalue list lower"
  and inline_graph_values :: "'f f64_ops \<Rightarrow> nat \<Rightarrow> string \<Rightarrow> lvalue list \<Rightarrow> lvalue list lower"
where
  "lower_expr F d (EVar name) = lookup_value name"
| "lower_expr F d (EConst v e) = lower_constant v e"
| "lower_expr F d (EUnary Neg value) =
     sbind (lower_expr F d value) (\<lambda>v.
     sbind (zero_like (val_ty v)) (\<lambda>zero. binary_value Sub zero v))"
| "lower_expr F d (EBinary bop l r) =
     sbind (lower_expr F d l) (\<lambda>lhs.
     sbind (lower_expr F d r) (\<lambda>rhs. binary_value bop lhs rhs))"
| "lower_expr F d (ENode node_id value) = cached_node node_id (lower_expr F d value)"
| "lower_expr F d (ETupleGet tuple_id value index) = cached_tuple tuple_id index (lower_let_values F d value)"
| "lower_expr F d (ECall op args) = sbind (lower_call_values F d op args) single_value"
| "lower_args F d 0 args = sreturn []"
| "lower_args F d (Suc n) [] = slift (Inl (Panic IndexOutOfBounds))"
| "lower_args F d (Suc n) (arg # args) =
     sbind (lower_expr F d arg) (\<lambda>v. sbind (lower_args F d n args) (\<lambda>vs. sreturn (v # vs)))"
| "lower_all_args F d [] = sreturn []"
| "lower_all_args F d (arg # args) =
     sbind (lower_expr F d arg) (\<lambda>v. sbind (lower_all_args F d args) (\<lambda>vs. sreturn (v # vs)))"
| "lower_call_values F d op args =
     (case graph_callee op of
        Some name \<Rightarrow> sbind (lower_all_args F d args) (inline_graph_values F d name)
      | None \<Rightarrow> sbind (lower_args F d (call_arity op) args) (\<lambda>vs. apply_call_values F args vs op))"
| "lower_let_values F d (ENode node_id value) = lower_let_values F d value"
| "lower_let_values F d (ECall op args) = lower_call_values F d op args"
| "lower_let_values F d e = sbind (lower_expr F d e) (\<lambda>v. sreturn [v])"
| "inline_graph_values F 0 name args =
     sbind (inline_target name (length args)) (\<lambda>g. sfail DepthExhausted)"
| "inline_graph_values F (Suc d) name args =
     sbind (inline_target name (length args)) (\<lambda>g.
     in_scope name (zip (map input_name (tg_inputs g)) args) (\<lambda>overwritten.
       sbind (sfold (\<lambda>b overwritten.
           sbind (lower_let_values F d (value_kind (tlet_value b))) (\<lambda>values'.
           bind_values (tlet_names b) values' overwritten)) (tg_lets g) overwritten) (\<lambda>overwritten'.
       sbind (lower_outputs (lower_expr F d) (tg_body g) (tg_outputs g)) (\<lambda>outputs.
       sreturn (outputs, overwritten')))))"
  by pat_completeness auto
termination
  by (relation "inv_image (less_than <*lex*> less_than) (\<lambda>x. case x of
         Inl (Inl (F, d, e)) \<Rightarrow> (d, 3 * size e)
       | Inl (Inr (Inl (F, d, n, es))) \<Rightarrow> (d, 3 * size_list size es)
       | Inl (Inr (Inr (F, d, es))) \<Rightarrow> (d, 3 * size_list size es)
       | Inr (Inl (F, d, op, es)) \<Rightarrow> (d, 3 * size_list size es + 1)
       | Inr (Inr (Inl (F, d, e))) \<Rightarrow> (d, 3 * size e + 1)
       | Inr (Inr (Inr (F, d, name, vs))) \<Rightarrow> (d, 0))") auto

section \<open>Functions\<close>

record mlir_func =
  func_name :: string
  func_inputs :: "mlir_ty list"
  func_outputs :: "mlir_ty list"
  func_block :: mlir_block

text \<open>The lowerer of a graph: the block has one argument per input, bound to the input's name.\<close>

definition lowerer_new :: "mlir_context \<Rightarrow> typed_graph \<Rightarrow> (string \<Rightarrow> typed_graph option) \<Rightarrow> lower_error + lowerer" where
  "lowerer_new ctx g graphs =
     (case smap (\<lambda>i. mlir_tensor_type ctx (input_ty i)) (tg_inputs g) () of
        Inl e \<Rightarrow> Inl e
      | Inr (arg_types, _) \<Rightarrow>
          Inr \<lparr>context_of = ctx,
               main_block = \<lparr>in_region = False, block_args = arg_types, block_ops = []\<rparr>,
               graphs_of = graphs, call_stack = [tg_name g], tuple_scope_stack = [0], next_tuple_scope = 1,
               bound_values =
                 map_of (rev (map (\<lambda>(k, i). (input_name i, value_tensor (BlockArg k) (input_ty i)))
                                (enumerate 0 (tg_inputs g)))),
               node_values = Map.empty, tuple_values = Map.empty\<rparr>)"

definition lower_graph :: "'f f64_ops \<Rightarrow> nat \<Rightarrow> typed_graph \<Rightarrow> mlir_func lower" where
  "lower_graph F d g =
     sbind (sfold (\<lambda>b _.
         sbind (lower_let_values F d (value_kind (tlet_value b))) (\<lambda>values'.
         sbind (bind_values (tlet_names b) values' []) (\<lambda>_. sreturn ()))) (tg_lets g) ()) (\<lambda>_.
     sbind (lower_outputs (lower_expr F d) (tg_body g) (tg_outputs g)) (\<lambda>body.
     sbind (append_op_with_built_attrs ''func.return'' (map raw_of body) [] [] []) (\<lambda>_.
     with_context (\<lambda>ctx.
     sbind (smap (\<lambda>i. mlir_tensor_type ctx (input_ty i)) (tg_inputs g)) (\<lambda>input_types.
     sbind (smap (mlir_tensor_type ctx) (tg_outputs g)) (\<lambda>output_types.
     sbind sget (\<lambda>s.
     sreturn \<lparr>func_name = tg_name g, func_inputs = input_types, func_outputs = output_types,
              func_block = main_block s\<rparr>)))))))"

text \<open>Parsing, verifying and printing the module is the work of MLIR, a parameter.\<close>

definition lower_to_mlir_with_registry ::
    "'f f64_ops \<Rightarrow> mlir_context \<Rightarrow> (mlir_func \<Rightarrow> lower_error + string) \<Rightarrow> nat \<Rightarrow> typed_graph
      \<Rightarrow> (string \<Rightarrow> typed_graph option) \<Rightarrow> lower_error + string" where
  "lower_to_mlir_with_registry F ctx canonicalize_and_verify d g graphs =
     rbind (lowerer_new ctx g graphs) (\<lambda>s.
     rbind (lower_graph F d g s) (\<lambda>(f, s'). canonicalize_and_verify f))"

definition lower_to_mlir ::
    "'f f64_ops \<Rightarrow> mlir_context \<Rightarrow> (mlir_func \<Rightarrow> lower_error + string) \<Rightarrow> typed_graph \<Rightarrow> lower_error + string" where
  "lower_to_mlir F ctx canonicalize_and_verify g =
     lower_to_mlir_with_registry F ctx canonicalize_and_verify 0 g Map.empty"

end
