(* ===== verification/Mlir_Typing.thy ===== *)
theory Mlir_Typing
  imports Lowering
begin

text \<open>
  What it means for the operations that the lowering emits to be well typed: every operand is defined
  earlier in the block (or around the region), the operand and result types fit the operation, the loops
  of a \<^verbatim>\<open>linalg\<close> operation have one extent each, and regions yield what their operation expects.  This is
  the specification that the lowering is proved to meet; it names the rules that MLIR documents for
  these operations.
\<close>

section \<open>Types of values\<close>

fun elem_of :: "mlir_ty \<Rightarrow> mlir_ty" where
  "elem_of (MElem e) = MElem e"
| "elem_of (MTensor ty) = MElem (elem ty)"
| "elem_of MIndex = MIndex"

fun float_ty :: "mlir_ty \<Rightarrow> bool" where
  "float_ty (MElem e) = is_float e"
| "float_ty (MTensor ty) = is_float (elem ty)"
| "float_ty MIndex = False"

fun bool_like :: "mlir_ty \<Rightarrow> mlir_ty" where
  "bool_like (MElem e) = MElem Bool"
| "bool_like (MTensor ty) = MTensor (tensor Bool (shape ty))"
| "bool_like MIndex = MElem Bool"

fun bit_width :: "element_type \<Rightarrow> nat" where
  "bit_width Bool = 1"
| "bit_width F32 = 32"
| "bit_width F64 = 64"
| "bit_width F16 = 16"
| "bit_width BF16 = 16"
| "bit_width I32 = 32"
| "bit_width I64 = 64"

section \<open>Rules of the operations\<close>

definition binary_typed :: "bool \<Rightarrow> mlir_ty list \<Rightarrow> mlir_ty list \<Rightarrow> bool" where
  "binary_typed float' tys res \<longleftrightarrow> (\<exists>t. tys = [t, t] \<and> res = [t] \<and> float_ty t = float')"

definition compare_typed :: "bool \<Rightarrow> mlir_ty list \<Rightarrow> mlir_ty list \<Rightarrow> bool" where
  "compare_typed float' tys res \<longleftrightarrow> (\<exists>t. tys = [t, t] \<and> res = [bool_like t] \<and> float_ty t = float')"

definition select_typed :: "mlir_ty list \<Rightarrow> mlir_ty list \<Rightarrow> bool" where
  "select_typed tys res \<longleftrightarrow> (\<exists>t. tys = [bool_like t, t, t] \<and> res = [t])"

definition unary_typed :: "bool \<Rightarrow> mlir_ty list \<Rightarrow> mlir_ty list \<Rightarrow> bool" where
  "unary_typed float' tys res \<longleftrightarrow> (\<exists>t. tys = [t] \<and> res = [t] \<and> float_ty t = float')"

definition constant_typed :: "mlir_ty list \<Rightarrow> mlir_ty list \<Rightarrow> bool" where
  "constant_typed tys res \<longleftrightarrow> tys = [] \<and> length res = 1"

definition index_cast_typed :: "mlir_ty list \<Rightarrow> mlir_ty list \<Rightarrow> bool" where
  "index_cast_typed tys res \<longleftrightarrow>
     (\<exists>e. (e = I32 \<or> e = I64) \<and> (tys = [MElem e] \<and> res = [MIndex] \<or> tys = [MIndex] \<and> res = [MElem e]))"

definition bitcast_typed :: "mlir_ty list \<Rightarrow> mlir_ty list \<Rightarrow> bool" where
  "bitcast_typed tys res \<longleftrightarrow> (\<exists>a b. tys = [MElem a] \<and> res = [MElem b] \<and> bit_width a = bit_width b)"

definition sitofp_typed :: "mlir_ty list \<Rightarrow> mlir_ty list \<Rightarrow> bool" where
  "sitofp_typed tys res \<longleftrightarrow> (\<exists>a b. tys = [MElem a] \<and> res = [MElem b] \<and> \<not> is_float a \<and> is_float b)"

definition trunci_typed :: "mlir_ty list \<Rightarrow> mlir_ty list \<Rightarrow> bool" where
  "trunci_typed tys res \<longleftrightarrow>
     (\<exists>a b. tys = [MElem a] \<and> res = [MElem b] \<and> \<not> is_float a \<and> \<not> is_float b \<and> bit_width b < bit_width a)"

definition extract_typed :: "mlir_ty list \<Rightarrow> mlir_ty list \<Rightarrow> bool" where
  "extract_typed tys res \<longleftrightarrow>
     (\<exists>ty. tys = MTensor ty # replicate (rank ty) MIndex \<and> res = [MElem (elem ty)])"

definition empty_typed :: "mlir_ty list \<Rightarrow> mlir_ty list \<Rightarrow> bool" where
  "empty_typed tys res \<longleftrightarrow> tys = [] \<and> (\<exists>ty. res = [MTensor ty])"

definition from_elements_typed :: "mlir_ty list \<Rightarrow> mlir_ty list \<Rightarrow> bool" where
  "from_elements_typed tys res \<longleftrightarrow> (\<exists>e. tys = [MElem e] \<and> res = [MTensor (tensor e [])])"

type_synonym attrs = "(string \<times> attr) list"

text \<open>A slice stays within the tensor it is taken from or put into.\<close>

definition slice_within :: "attrs \<Rightarrow> nat list \<Rightarrow> nat list \<Rightarrow> bool" where
  "slice_within attrs part whole \<longleftrightarrow>
     (\<exists>offsets. map_of attrs ''static_offsets'' = Some (AI64 offsets) \<and>
        map_of attrs ''static_sizes'' = Some (AI64 part) \<and>
        map_of attrs ''static_strides'' = Some (AI64 (replicate (length part) 1)) \<and>
        length offsets = length whole \<and> length part = length whole \<and>
        (\<forall>i < length whole. offsets ! i + part ! i \<le> whole ! i))"

definition extract_slice_typed :: "attrs \<Rightarrow> mlir_ty list \<Rightarrow> mlir_ty list \<Rightarrow> bool" where
  "extract_slice_typed attrs tys res \<longleftrightarrow>
     (\<exists>a b. tys = [MTensor a] \<and> res = [MTensor b] \<and> elem a = elem b \<and> slice_within attrs (shape b) (shape a))"

definition insert_slice_typed :: "attrs \<Rightarrow> mlir_ty list \<Rightarrow> mlir_ty list \<Rightarrow> bool" where
  "insert_slice_typed attrs tys res \<longleftrightarrow>
     (\<exists>a b. tys = [MTensor a, MTensor b] \<and> res = [MTensor b] \<and> elem a = elem b \<and>
        slice_within attrs (shape a) (shape b))"

definition pad_typed :: "attrs \<Rightarrow> mlir_ty list \<Rightarrow> mlir_ty list \<Rightarrow> bool" where
  "pad_typed attrs tys res \<longleftrightarrow>
     (\<exists>a b lows highs. tys = [MTensor a] \<and> res = [MTensor b] \<and> elem a = elem b \<and>
        map_of attrs ''static_low'' = Some (AI64 lows) \<and> map_of attrs ''static_high'' = Some (AI64 highs) \<and>
        length lows = rank a \<and> length highs = rank a \<and>
        shape b = map (\<lambda>i. lows ! i + shape a ! i + highs ! i) [0..<rank a])"

text \<open>The groups list the dimensions of the larger shape in order, one group per dimension of the smaller
  shape, whose extent is the product of the group.\<close>

definition grouped :: "nat list list \<Rightarrow> nat list \<Rightarrow> nat list \<Rightarrow> bool" where
  "grouped groups large small \<longleftrightarrow>
     concat groups = [0..<length large] \<and>
     small = map (\<lambda>g. prod_list (map (\<lambda>i. large ! i) g)) groups"

definition reshape_typed :: "attrs \<Rightarrow> tensor_type \<Rightarrow> tensor_type \<Rightarrow> bool" where
  "reshape_typed attrs large small \<longleftrightarrow>
     elem large = elem small \<and>
     (\<exists>groups. map_of attrs ''reassociation'' = Some (AText (format_reassociation_groups groups)) \<and>
        grouped groups (shape large) (shape small))"

definition collapse_typed :: "attrs \<Rightarrow> mlir_ty list \<Rightarrow> mlir_ty list \<Rightarrow> bool" where
  "collapse_typed attrs tys res \<longleftrightarrow>
     (\<exists>a b. tys = [MTensor a] \<and> res = [MTensor b] \<and> reshape_typed attrs a b)"

definition expand_typed :: "attrs \<Rightarrow> mlir_ty list \<Rightarrow> mlir_ty list \<Rightarrow> bool" where
  "expand_typed attrs tys res \<longleftrightarrow>
     (\<exists>a b. tys = [MTensor a] \<and> res = [MTensor b] \<and> reshape_typed attrs b a \<and>
        map_of attrs ''static_output_shape'' = Some (AI64 (shape b)))"

section \<open>Loops\<close>

text \<open>An operand of a \<^verbatim>\<open>linalg.generic\<close> is read at one index per dimension: a loop whose extent is the
  dimension, or the constant 0.  A scalar operand has no index.\<close>

definition index_fits :: "nat list \<Rightarrow> string \<Rightarrow> nat \<Rightarrow> bool" where
  "index_fits extents i n \<longleftrightarrow>
     (\<exists>k < length extents. i = dim_name k \<and> extents ! k = n) \<or> i = ''0'' \<and> n = 1"

fun operand_fits :: "nat list \<Rightarrow> string list \<Rightarrow> mlir_ty \<Rightarrow> bool" where
  "operand_fits extents is (MElem e) = (is = [])"
| "operand_fits extents is (MTensor ty) = list_all2 (index_fits extents) is (shape ty)"
| "operand_fits extents is MIndex = False"

text \<open>Every loop is used by some operand.  A loop is parallel exactly if a result is indexed by it.\<close>

definition loops_fit ::
    "nat list \<Rightarrow> string list list \<Rightarrow> string list list \<Rightarrow> string list \<Rightarrow> mlir_ty list \<Rightarrow> bool" where
  "loops_fit extents in_maps out_maps kinds tys \<longleftrightarrow>
     length kinds = length extents \<and>
     list_all2 (operand_fits extents) (in_maps @ out_maps) tys \<and>
     (\<forall>k < length extents. \<exists>is \<in> set (in_maps @ out_maps). dim_name k \<in> set is) \<and>
     (\<forall>k < length extents. \<forall>is \<in> set out_maps.
        kinds ! k = (if dim_name k \<in> set is then ''parallel'' else ''reduction''))"

definition loops_typed :: "attrs \<Rightarrow> mlir_ty list \<Rightarrow> mlir_ty list \<Rightarrow> bool" where
  "loops_typed attrs tys res \<longleftrightarrow>
     (\<exists>extents in_maps out_maps kinds.
        map_of attrs ''indexing_maps'' =
          Some (AText (linalg_maps (length extents) (map affine_tuple (in_maps @ out_maps)))) \<and>
        map_of attrs ''iterator_types'' = Some (AText (linalg_iterators kinds)) \<and>
        length out_maps = length res \<and> loops_fit extents in_maps out_maps kinds tys)"

definition generic_typed :: "attrs \<Rightarrow> mlir_ty list \<Rightarrow> mlir_ty list \<Rightarrow> bool" where
  "generic_typed attrs tys res \<longleftrightarrow>
     (\<forall>t \<in> set res. \<exists>ty. t = MTensor ty) \<and> (\<exists>ins. tys = ins @ res) \<and> loops_typed attrs tys res"

definition linalg_transpose_typed :: "attrs \<Rightarrow> mlir_ty list \<Rightarrow> mlir_ty list \<Rightarrow> bool" where
  "linalg_transpose_typed attrs tys res \<longleftrightarrow>
     (\<exists>a b axes. tys = [MTensor a, MTensor b] \<and> res = [MTensor b] \<and> elem a = elem b \<and>
        map_of attrs ''permutation'' = Some (AI64 axes) \<and> is_permutation (rank a) axes \<and>
        shape b = map (\<lambda>i. shape a ! i) axes)"

definition linalg_broadcast_typed :: "attrs \<Rightarrow> mlir_ty list \<Rightarrow> mlir_ty list \<Rightarrow> bool" where
  "linalg_broadcast_typed attrs tys res \<longleftrightarrow>
     (\<exists>a b dims. tys = [MTensor a, MTensor b] \<and> res = [MTensor b] \<and> elem a = elem b \<and>
        map_of attrs ''dimensions'' = Some (AI64 dims) \<and> distinct dims \<and> (\<forall>d \<in> set dims. d < rank b) \<and>
        shape a = map (\<lambda>i. shape b ! i) (filter (\<lambda>i. i \<notin> set dims) [0..<rank b]))"

definition linalg_matmul_typed :: "mlir_ty list \<Rightarrow> mlir_ty list \<Rightarrow> bool" where
  "linalg_matmul_typed tys res \<longleftrightarrow>
     (\<exists>e m k n. tys = [MTensor (tensor e [m, k]), MTensor (tensor e [k, n]), MTensor (tensor e [m, n])] \<and>
        res = [MTensor (tensor e [m, n])])"

definition linalg_batch_matmul_typed :: "mlir_ty list \<Rightarrow> mlir_ty list \<Rightarrow> bool" where
  "linalg_batch_matmul_typed tys res \<longleftrightarrow>
     (\<exists>e b m k n. tys = [MTensor (tensor e [b, m, k]), MTensor (tensor e [b, k, n]), MTensor (tensor e [b, m, n])] \<and>
        res = [MTensor (tensor e [b, m, n])])"

text \<open>The last window of a convolution ends within its input.  Strides and dilations are 1 unless the
  attributes give them.\<close>

definition window_step :: "attrs \<Rightarrow> string \<Rightarrow> nat \<times> nat \<Rightarrow> bool" where
  "window_step attrs name = (\<lambda>(y, x).
     case map_of attrs name of
       None \<Rightarrow> y = 1 \<and> x = 1
     | Some a \<Rightarrow> a = AText (''dense<['' @ nat_str y @ '', '' @ nat_str x @ '']> : vector<2xi64>''))"

definition linalg_conv_typed :: "attrs \<Rightarrow> mlir_ty list \<Rightarrow> mlir_ty list \<Rightarrow> bool" where
  "linalg_conv_typed attrs tys res \<longleftrightarrow>
     (\<exists>e n h w c kh kw f oh ow sh sw dh dw.
        tys = [MTensor (tensor e [n, h, w, c]), MTensor (tensor e [kh, kw, c, f]), MTensor (tensor e [n, oh, ow, f])] \<and>
        res = [MTensor (tensor e [n, oh, ow, f])] \<and>
        window_step attrs ''strides'' (sh, sw) \<and> window_step attrs ''dilations'' (dh, dw) \<and>
        (oh - 1) * sh + (kh - 1) * dh < h \<and> (ow - 1) * sw + (kw - 1) * dw < w)"

section \<open>Operations\<close>

definition float_binary_ops :: "string list" where
  "float_binary_ops =
     [''arith.addf'', ''arith.subf'', ''arith.mulf'', ''arith.divf'', ''arith.maximumf'', ''arith.minimumf'',
      ''math.powf'']"

definition int_binary_ops :: "string list" where
  "int_binary_ops =
     [''arith.addi'', ''arith.subi'', ''arith.muli'', ''arith.divsi'', ''arith.remui'', ''arith.shrui'',
      ''arith.andi'', ''arith.ori'', ''arith.xori'', ''arith.maxsi'', ''arith.minsi'']"

definition float_unary_ops :: "string list" where
  "float_unary_ops =
     [''math.absf'', ''math.ceil'', ''math.cos'', ''math.exp'', ''math.expm1'', ''math.floor'', ''math.log'',
      ''math.log1p'', ''math.roundeven'', ''math.sin'', ''math.sqrt'', ''math.tan'', ''math.tanh'']"

definition op_rules :: "(string \<times> (attrs \<Rightarrow> mlir_ty list \<Rightarrow> mlir_ty list \<Rightarrow> bool)) list" where
  "op_rules =
       [(''math.absi'', \<lambda>attrs. unary_typed False),
        (''arith.cmpf'', \<lambda>attrs. compare_typed True),
        (''arith.cmpi'', \<lambda>attrs. compare_typed False),
        (''arith.select'', \<lambda>attrs. select_typed),
        (''arith.constant'', \<lambda>attrs. constant_typed),
        (''arith.index_cast'', \<lambda>attrs. index_cast_typed),
        (''arith.bitcast'', \<lambda>attrs. bitcast_typed),
        (''arith.sitofp'', \<lambda>attrs. sitofp_typed),
        (''arith.trunci'', \<lambda>attrs. trunci_typed),
        (''tensor.empty'', \<lambda>attrs. empty_typed),
        (''tensor.from_elements'', \<lambda>attrs. from_elements_typed),
        (''tensor.extract'', \<lambda>attrs. extract_typed),
        (''tensor.extract_slice'', extract_slice_typed),
        (''tensor.insert_slice'', insert_slice_typed),
        (''tensor.pad'', pad_typed),
        (''tensor.collapse_shape'', collapse_typed),
        (''tensor.expand_shape'', expand_typed),
        (''linalg.generic'', generic_typed),
        (''linalg.transpose'', linalg_transpose_typed),
        (''linalg.broadcast'', linalg_broadcast_typed),
        (''linalg.matmul'', \<lambda>attrs. linalg_matmul_typed),
        (''linalg.batch_matmul'', \<lambda>attrs. linalg_batch_matmul_typed),
        (''linalg.conv_2d_nhwc_hwcf'', linalg_conv_typed),
        (''linalg.index'', \<lambda>attrs tys res. tys = [] \<and> res = [MIndex]),
        (''linalg.yield'', \<lambda>attrs tys res. res = []),
        (''tensor.yield'', \<lambda>attrs tys res. res = []),
        (''func.return'', \<lambda>attrs tys res. res = []),
        (''cf.assert'', \<lambda>attrs tys res. tys = [MElem Bool] \<and> res = [])]"

definition op_typed :: "string \<Rightarrow> attrs \<Rightarrow> mlir_ty list \<Rightarrow> mlir_ty list \<Rightarrow> bool" where
  "op_typed name attrs tys res =
     (if name \<in> set float_binary_ops then binary_typed True tys res
      else if name \<in> set int_binary_ops then binary_typed False tys res
      else if name \<in> set float_unary_ops then unary_typed True tys res
      else (case map_of op_rules name of None \<Rightarrow> False | Some rule \<Rightarrow> rule attrs tys res))"

section \<open>Blocks and regions\<close>

text \<open>The types of the handles that a block defines.\<close>

fun block_ty :: "mlir_block \<Rightarrow> raw \<Rightarrow> mlir_ty option" where
  "block_ty b (BlockArg i) =
     (if \<not> in_region b \<and> i < length (block_args b) then Some (block_args b ! i) else None)"
| "block_ty b (OpResult p i) =
     (if \<not> in_region b \<and> p < length (block_ops b) \<and> i < length (op_results (block_ops b ! p))
      then Some (op_results (block_ops b ! p) ! i) else None)"
| "block_ty b (RegionArg i) =
     (if in_region b \<and> i < length (block_args b) then Some (block_args b ! i) else None)"
| "block_ty b (RegionResult p i) =
     (if in_region b \<and> p < length (block_ops b) \<and> i < length (op_results (block_ops b ! p))
      then Some (op_results (block_ops b ! p) ! i) else None)"

definition block_prefix :: "nat \<Rightarrow> mlir_block \<Rightarrow> mlir_block" where
  "block_prefix p b = b\<lparr>block_ops := take p (block_ops b)\<rparr>"

text \<open>A region sees the values around it as well.\<close>

fun scope_ty :: "(raw \<Rightarrow> mlir_ty option) \<Rightarrow> mlir_block \<Rightarrow> raw \<Rightarrow> mlir_ty option" where
  "scope_ty outer b (BlockArg i) = outer (BlockArg i)"
| "scope_ty outer b (OpResult p i) = outer (OpResult p i)"
| "scope_ty outer b r = block_ty b r"

text \<open>Every operation of the block fits the types that are defined before it.\<close>

definition block_fits ::
    "((raw \<Rightarrow> mlir_ty option) \<Rightarrow> mlir_op \<Rightarrow> bool) \<Rightarrow> (mlir_block \<Rightarrow> raw \<Rightarrow> mlir_ty option) \<Rightarrow> mlir_block \<Rightarrow> bool" where
  "block_fits fits ty b \<longleftrightarrow> (\<forall>p < length (block_ops b). fits (ty (block_prefix p b)) (block_ops b ! p))"

definition operands_typed :: "(raw \<Rightarrow> mlir_ty option) \<Rightarrow> raw list \<Rightarrow> mlir_ty list \<Rightarrow> bool" where
  "operands_typed T rs tys \<longleftrightarrow> map T rs = map Some tys"

definition plain_op_fits :: "(raw \<Rightarrow> mlir_ty option) \<Rightarrow> mlir_op \<Rightarrow> bool" where
  "plain_op_fits T op \<longleftrightarrow>
     op_regions op = [] \<and>
     (\<exists>tys. operands_typed T (op_operands op) tys \<and> op_typed (op_name op) (op_attrs op) tys (op_results op))"

text \<open>A region ends with the terminator, which yields values of the given types.\<close>

definition region_fits ::
    "(raw \<Rightarrow> mlir_ty option) \<Rightarrow> string \<Rightarrow> mlir_ty list \<Rightarrow> mlir_ty list \<Rightarrow> mlir_ty list \<times> mlir_op list \<Rightarrow> bool" where
  "region_fits outer terminator arg_types yields region \<longleftrightarrow>
     (\<exists>b. region = region_of b \<and> in_region b \<and> block_args b = arg_types \<and>
        block_fits plain_op_fits (scope_ty outer) b \<and>
        (\<exists>ops yield. block_ops b = ops @ [yield] \<and> op_name yield = terminator \<and>
           operands_typed (scope_ty outer b) (op_operands yield) yields))"

definition regions_fit :: "(raw \<Rightarrow> mlir_ty option) \<Rightarrow> mlir_op \<Rightarrow> mlir_ty list \<Rightarrow> bool" where
  "regions_fit T op tys =
     (if take 7 (op_name op) = ''linalg.'' then
        (\<exists>region. op_regions op = [region] \<and>
           region_fits T ''linalg.yield'' (map elem_of tys) (map elem_of (op_results op)) region)
      else if op_name op = ''tensor.pad'' then
        (\<exists>region. op_regions op = [region] \<and>
           (\<forall>t \<in> set tys. \<forall>ty. t = MTensor ty \<longrightarrow>
              region_fits T ''tensor.yield'' (replicate (rank ty) MIndex) [MElem (elem ty)] region))
      else op_regions op = [])"

definition op_fits :: "(raw \<Rightarrow> mlir_ty option) \<Rightarrow> mlir_op \<Rightarrow> bool" where
  "op_fits T op \<longleftrightarrow>
     (\<exists>tys. operands_typed T (op_operands op) tys \<and> op_typed (op_name op) (op_attrs op) tys (op_results op) \<and>
        regions_fit T op tys)"

text \<open>A function is well formed if its body is and ends by returning values of the result types.\<close>

definition func_fits :: "mlir_func \<Rightarrow> bool" where
  "func_fits f \<longleftrightarrow>
     \<not> in_region (func_block f) \<and> block_args (func_block f) = func_inputs f \<and>
     block_fits op_fits block_ty (func_block f) \<and>
     (\<exists>ops return. block_ops (func_block f) = ops @ [return] \<and> op_name return = ''func.return'' \<and>
        operands_typed (block_ty (func_block f)) (op_operands return) (func_outputs f))"

end
