(* ===== verification/Lower_Logic.thy ===== *)
theory Lower_Logic
  imports Mlir_Typing
begin

text \<open>
  A logic for steps that append to a block.  \<open>step_ok good T keeps \<Gamma> m G P\<close> says of a step \<open>m\<close>, run in a
  state that satisfies the invariant and types the handles of \<open>\<Gamma>\<close>: it fails only with an error of the MLIR
  context, and otherwise it keeps the invariant and every typed handle, types the handles \<open>G r\<close> of its
  result \<open>r\<close>, and satisfies \<open>P r\<close>.  Handles stay typed, so \<open>\<Gamma>\<close> only grows along a sequence of steps.
\<close>

section \<open>Steps\<close>

text \<open>The errors that depend on what MLIR can parse, on sizes beyond \<open>i64\<close>, or on graphs that call each other.\<close>

definition soft_error :: "lower_error \<Rightarrow> bool" where
  "soft_error e \<longleftrightarrow>
     e \<in> LowerError ` {ParseElementType, ParseTensorType, ParseAttribute, IntegerTooLarge, RandomCount,
                       RecursiveLowering}"

lemma soft_error_simps [simp]:
  "soft_error (LowerError ParseElementType)" "soft_error (LowerError ParseTensorType)"
  "soft_error (LowerError ParseAttribute)" "soft_error (LowerError IntegerTooLarge)"
  "soft_error (LowerError RandomCount)" "soft_error (LowerError RecursiveLowering)"
  "\<not> soft_error (LowerError DepthExhausted)" "\<not> soft_error (CoreError c)"
  by (simp_all add: soft_error_def)

type_synonym typings = "(raw \<times> mlir_ty) set"

definition typings_hold :: "(raw \<Rightarrow> mlir_ty option) \<Rightarrow> typings \<Rightarrow> bool" where
  "typings_hold T \<Gamma> \<longleftrightarrow> (\<forall>(x, t) \<in> \<Gamma>. T x = Some t)"

lemma typings_hold_simps [simp]:
  "typings_hold T {}"
  "typings_hold T (insert (x, t) \<Gamma>) \<longleftrightarrow> T x = Some t \<and> typings_hold T \<Gamma>"
  "typings_hold T (\<Gamma> \<union> \<Delta>) \<longleftrightarrow> typings_hold T \<Gamma> \<and> typings_hold T \<Delta>"
  by (auto simp: typings_hold_def)

lemma typings_hold_subset: "typings_hold T \<Gamma> \<Longrightarrow> \<Delta> \<subseteq> \<Gamma> \<Longrightarrow> typings_hold T \<Delta>"
  by (auto simp: typings_hold_def)

lemma typed_mono: "T \<subseteq>\<^sub>m T' \<Longrightarrow> typings_hold T \<Gamma> \<Longrightarrow> typings_hold T' \<Gamma>"
  by (fastforce simp: typings_hold_def map_le_def dom_def)

definition step_ok ::
    "('s \<Rightarrow> bool) \<Rightarrow> ('s \<Rightarrow> raw \<Rightarrow> mlir_ty option) \<Rightarrow> ('s \<Rightarrow> 's \<Rightarrow> bool) \<Rightarrow> typings \<Rightarrow> ('s, 'a) step
      \<Rightarrow> ('a \<Rightarrow> typings) \<Rightarrow> ('a \<Rightarrow> bool) \<Rightarrow> bool" where
  "step_ok good T keeps \<Gamma> m G P \<longleftrightarrow>
     (\<forall>s. good s \<longrightarrow> typings_hold (T s) \<Gamma> \<longrightarrow>
        (case m s of
           Inl e \<Rightarrow> soft_error e
         | Inr (r, s') \<Rightarrow>
             good s' \<and> keeps s s' \<and> T s \<subseteq>\<^sub>m T s' \<and> typings_hold (T s') (G r) \<and> P r))"

lemma step_okI:
  assumes "\<And>s e. good s \<Longrightarrow> typings_hold (T s) \<Gamma> \<Longrightarrow> m s = Inl e \<Longrightarrow> soft_error e"
    and "\<And>s r s'. good s \<Longrightarrow> typings_hold (T s) \<Gamma> \<Longrightarrow> m s = Inr (r, s') \<Longrightarrow>
      good s' \<and> keeps s s' \<and> T s \<subseteq>\<^sub>m T s' \<and> typings_hold (T s') (G r) \<and> P r"
  shows "step_ok good T keeps \<Gamma> m G P"
  unfolding step_ok_def
proof (intro allI impI)
  fix s
  assume s: "good s" "typings_hold (T s) \<Gamma>"
  show "case m s of Inl e \<Rightarrow> soft_error e | Inr (r, s') \<Rightarrow>
      good s' \<and> keeps s s' \<and> T s \<subseteq>\<^sub>m T s' \<and> typings_hold (T s') (G r) \<and> P r"
  proof (cases "m s")
    case (Inl e)
    then show ?thesis using assms(1) [OF s Inl] by simp
  next
    case (Inr p)
    then show ?thesis using assms(2) [OF s] by (cases p) simp
  qed
qed

lemma step_okD:
  assumes "step_ok good T keeps \<Gamma> m G P" "good s" "typings_hold (T s) \<Gamma>"
  shows "m s = Inl e \<Longrightarrow> soft_error e"
    and "m s = Inr (r, s') \<Longrightarrow>
      good s' \<and> keeps s s' \<and> T s \<subseteq>\<^sub>m T s' \<and> typings_hold (T s') (G r) \<and> P r"
  using assms(1) [unfolded step_ok_def, rule_format, OF assms(2,3)] by simp_all

lemma step_ok_weaken:
  assumes "step_ok good T keeps \<Gamma> m G P" "\<Gamma> \<subseteq> \<Gamma>'"
    and "\<And>r. P r \<Longrightarrow> H r \<subseteq> G r \<union> \<Gamma>' \<and> Q r"
  shows "step_ok good T keeps \<Gamma>' m H Q"
proof (rule step_okI)
  fix s e
  assume s: "good s" "typings_hold (T s) \<Gamma>'" and e: "m s = Inl e"
  show "soft_error e" by (rule step_okD(1) [OF assms(1) s(1) typings_hold_subset [OF s(2) assms(2)] e])
next
  fix s r s'
  assume s: "good s" "typings_hold (T s) \<Gamma>'" and m: "m s = Inr (r, s')"
  note r = step_okD(2) [OF assms(1) s(1) typings_hold_subset [OF s(2) assms(2)] m]
  then have "typings_hold (T s') (G r \<union> \<Gamma>')" using typed_mono [OF _ s(2)] by simp
  with r assms(3) [of r] typings_hold_subset
  show "good s' \<and> keeps s s' \<and> T s \<subseteq>\<^sub>m T s' \<and> typings_hold (T s') (H r) \<and> Q r" by blast
qed

section \<open>Sequencing\<close>

locale ssa_state =
  fixes good :: "'s \<Rightarrow> bool"
    and T :: "'s \<Rightarrow> raw \<Rightarrow> mlir_ty option"
    and keeps :: "'s \<Rightarrow> 's \<Rightarrow> bool"
  assumes keeps_refl: "keeps s s"
    and keeps_trans: "keeps s s' \<Longrightarrow> keeps s' s'' \<Longrightarrow> keeps s s''"
begin

lemma ok_return: "G x \<subseteq> \<Gamma> \<Longrightarrow> P x \<Longrightarrow> step_ok good T keeps \<Gamma> (sreturn x) G P"
  by (rule step_okI) (auto simp: sreturn_def keeps_refl intro: typings_hold_subset)

lemma ok_bind:
  assumes m: "step_ok good T keeps \<Gamma> m G P"
    and f: "\<And>r. P r \<Longrightarrow> step_ok good T keeps (\<Gamma> \<union> G r) (f r) H Q"
  shows "step_ok good T keeps \<Gamma> (sbind m f) H Q"
proof (rule step_okI)
  fix s e
  assume s: "good s" "typings_hold (T s) \<Gamma>" and e: "sbind m f s = Inl e"
  show "soft_error e"
  proof (cases "m s")
    case (Inl e')
    with e have "m s = Inl e" by (simp add: sbind_def)
    then show ?thesis by (rule step_okD(1) [OF m s])
  next
    case (Inr p)
    obtain r s1 where p: "p = (r, s1)" by (cases p)
    note 1 = step_okD(2) [OF m s Inr [unfolded p]]
    from 1 have "typings_hold (T s1) (\<Gamma> \<union> G r)" using typed_mono [OF _ s(2)] by simp
    moreover from e Inr p have "f r s1 = Inl e" by (simp add: sbind_def)
    ultimately show ?thesis using 1 by (blast intro: step_okD(1) [OF f])
  qed
next
  fix s r s'
  assume s: "good s" "typings_hold (T s) \<Gamma>" and r: "sbind m f s = Inr (r, s')"
  then obtain x s1 where mx: "m s = Inr (x, s1)" and fx: "f x s1 = Inr (r, s')"
    by (auto simp: step_simps)
  note 1 = step_okD(2) [OF m s mx]
  from 1 have "typings_hold (T s1) (\<Gamma> \<union> G x)" using typed_mono [OF _ s(2)] by simp
  with 1 have "good s' \<and> keeps s1 s' \<and> T s1 \<subseteq>\<^sub>m T s' \<and> typings_hold (T s') (H r) \<and> Q r"
    using step_okD(2) [OF f _ _ fx] by blast
  with 1 show "good s' \<and> keeps s s' \<and> T s \<subseteq>\<^sub>m T s' \<and> typings_hold (T s') (H r) \<and> Q r"
    by (blast intro: keeps_trans map_le_trans)
qed

text \<open>A step that types nothing new.\<close>

lemma ok_bind_pure:
  assumes "step_ok good T keeps \<Gamma> m (\<lambda>_. {}) P"
    and "\<And>r. P r \<Longrightarrow> step_ok good T keeps \<Gamma> (f r) H Q"
  shows "step_ok good T keeps \<Gamma> (sbind m f) H Q"
  using assms by (intro ok_bind [where G = "\<lambda>_. {}" and P = P]) simp_all

lemma ok_if:
  "(b \<Longrightarrow> step_ok good T keeps \<Gamma> m G P) \<Longrightarrow> (\<not> b \<Longrightarrow> step_ok good T keeps \<Gamma> m' G P) \<Longrightarrow>
     step_ok good T keeps \<Gamma> (if b then m else m') G P"
  by simp

lemma ok_lift: "r = Inr x \<Longrightarrow> G x \<subseteq> \<Gamma> \<Longrightarrow> P x \<Longrightarrow> step_ok good T keeps \<Gamma> (slift r) G P"
  by (rule step_okI) (auto simp: slift_def keeps_refl intro: typings_hold_subset)

lemma ok_check: "b \<Longrightarrow> step_ok good T keeps \<Gamma> (scheck b e) (\<lambda>_. {}) (\<lambda>_. True)"
  by (simp add: scheck_def ok_return)

lemma ok_soft: "soft_error (LowerError e) \<Longrightarrow> step_ok good T keeps \<Gamma> (sfail e) G P"
  by (rule step_okI) (auto simp: sfail_def)

lemma ok_smap:
  assumes "\<And>i x. i < length xs \<Longrightarrow> x = xs ! i \<Longrightarrow> step_ok good T keeps \<Gamma> (f x) G (P i)"
  shows "step_ok good T keeps \<Gamma> (smap f xs) (\<lambda>ys. \<Union>(G ` set ys))
           (\<lambda>ys. length ys = length xs \<and> (\<forall>i < length xs. P i (ys ! i)))"
  using assms
proof (induction xs arbitrary: \<Gamma> P)
  case Nil
  then show ?case by (auto intro: ok_return)
next
  case (Cons x xs)
  have x: "step_ok good T keeps \<Gamma> (f x) G (P 0)" using Cons.prems [of 0] by simp
  show ?case unfolding smap.simps
  proof (rule ok_bind [OF x], rule ok_bind)
    fix y
    assume y: "P 0 y"
    have "step_ok good T keeps \<Gamma> (f z) G (P (Suc i))" if "i < length xs" "z = xs ! i" for i z
      using Cons.prems [of "Suc i"] that by simp
    then have "step_ok good T keeps (\<Gamma> \<union> G y) (f z) G (P (Suc i))" if "i < length xs" "z = xs ! i" for i z
      using that by (blast intro: step_ok_weaken)
    then show "step_ok good T keeps (\<Gamma> \<union> G y) (smap f xs) (\<lambda>ys. \<Union>(G ` set ys))
        (\<lambda>ys. length ys = length xs \<and> (\<forall>i < length xs. P (Suc i) (ys ! i)))" by (rule Cons.IH)
    fix ys
    assume "length ys = length xs \<and> (\<forall>i < length xs. P (Suc i) (ys ! i))"
    with y show "step_ok good T keeps (\<Gamma> \<union> G y \<union> \<Union>(G ` set ys)) (sreturn (y # ys)) (\<lambda>ys. \<Union>(G ` set ys))
        (\<lambda>ys. length ys = length (x # xs) \<and> (\<forall>i < length (x # xs). P i (ys ! i)))"
      by (intro ok_return) (auto simp: less_Suc_eq_0_disj)
  qed
qed

text \<open>A loop with an invariant \<open>P\<close> that counts the rounds.\<close>

lemma ok_sfold:
  assumes "\<And>i acc. i < length xs \<Longrightarrow> P i acc \<Longrightarrow>
             step_ok good T keeps (\<Gamma> \<union> G acc) (f (xs ! i) acc) G (P (Suc i))"
    and "G acc \<subseteq> \<Gamma>" "P 0 acc"
  shows "step_ok good T keeps \<Gamma> (sfold f xs acc) G (P (length xs))"
  using assms
proof (induction xs arbitrary: \<Gamma> P acc)
  case Nil
  then show ?case by (auto intro: ok_return)
next
  case (Cons x xs)
  have "\<Gamma> \<union> G acc = \<Gamma>" using Cons.prems(2) by blast
  with Cons.prems(1) [of 0 acc] Cons.prems(3)
  have x: "step_ok good T keeps \<Gamma> (f x acc) G (P (Suc 0))" by simp
  show ?case unfolding sfold.simps
  proof (rule ok_bind [OF x])
    fix acc'
    assume acc': "P (Suc 0) acc'"
    have "step_ok good T keeps (\<Gamma> \<union> G acc' \<union> G acc'') (f (xs ! i) acc'') G (P (Suc (Suc i)))"
      if "i < length xs" "P (Suc i) acc''" for i acc''
      using Cons.prems(1) [of "Suc i" acc''] that by (auto intro: step_ok_weaken)
    then have "step_ok good T keeps (\<Gamma> \<union> G acc') (sfold f xs acc') G (\<lambda>r. P (Suc (length xs)) r)"
      by (rule Cons.IH [where P = "\<lambda>i. P (Suc i)"]) (use acc' in auto)
    then show "step_ok good T keeps (\<Gamma> \<union> G acc') (sfold f xs acc') G (P (length (x # xs)))" by simp
  qed
qed

lemma ok_elem_type: "step_ok good T keeps \<Gamma> (mlir_element_type ctx e) (\<lambda>_. {}) (\<lambda>t. t = MElem e)"
  by (simp add: mlir_element_type_def ok_return ok_soft)

lemma ok_tensor_type: "step_ok good T keeps \<Gamma> (mlir_tensor_type ctx ty) (\<lambda>_. {}) (\<lambda>t. t = MTensor ty)"
  by (simp add: mlir_tensor_type_def ok_return ok_soft)

lemma ok_parse_attr: "step_ok good T keeps \<Gamma> (parse_attr ctx text) (\<lambda>_. {}) (\<lambda>a. a = AText text)"
  by (simp add: parse_attr_def ok_return ok_soft)

lemma ok_dense_i64: "step_ok good T keeps \<Gamma> (dense_i64_attr name ns) (\<lambda>_. {}) (\<lambda>a. a = (name, AI64 ns))"
  by (simp add: dense_i64_attr_def ok_return ok_soft)

lemma ok_parse_attrs:
  "step_ok good T keeps \<Gamma> (parse_attrs ctx attrs) (\<lambda>_. {}) (\<lambda>as. as = map (\<lambda>(n, t). (n, AText t)) attrs)"
proof -
  have "step_ok good T keeps \<Gamma>
      (smap (\<lambda>(name, text). sbind (parse_attr ctx text) (\<lambda>a. sreturn (name, a))) attrs)
      (\<lambda>ys. \<Union>((\<lambda>_. {}) ` set ys))
      (\<lambda>ys. length ys = length attrs \<and>
         (\<forall>i < length attrs. ys ! i = (fst (attrs ! i), AText (snd (attrs ! i)))))"
  proof (rule ok_smap)
    fix i x
    show "step_ok good T keeps \<Gamma>
        (case x of (name, text) \<Rightarrow> sbind (parse_attr ctx text) (\<lambda>a. sreturn (name, a))) (\<lambda>_. {})
        (\<lambda>y. y = (fst (attrs ! i), AText (snd (attrs ! i))))" if "x = attrs ! i"
      unfolding that by (cases "attrs ! i") (auto intro!: ok_bind [OF ok_parse_attr] ok_return)
  qed
  then show ?thesis unfolding parse_attrs_def
    by (rule step_ok_weaken) (auto intro!: nth_equalityI split: prod.splits)
qed

end

end
