(* ===== verification/Lower_Blocks.thy ===== *)
theory Lower_Blocks
  imports Lower_Logic
begin

text \<open>
  The builders of \<^verbatim>\<open>lowerer.rs\<close> in the logic: appending an operation that fits keeps a block well formed and
  types the results.  The interface of \<open>append_operation\<close> is a locale; the function's block and the block of
  a region are its two instances.
\<close>

section \<open>Typed lists of handles\<close>

definition typing_list :: "raw list \<Rightarrow> mlir_ty list \<Rightarrow> typings" where
  "typing_list rs tys = set (zip rs tys)"

lemma typing_list_simps [simp]:
  "typing_list [] tys = {}" "typing_list rs [] = {}"
  "typing_list (r # rs) (t # tys) = insert (r, t) (typing_list rs tys)"
  by (simp_all add: typing_list_def)

lemma typing_list_append:
  "length rs = length tys \<Longrightarrow> typing_list (rs @ rs') (tys @ tys') = typing_list rs tys \<union> typing_list rs' tys'"
  by (simp add: typing_list_def)

lemma operands_typedI:
  assumes "typings_hold T \<Gamma>" "typing_list rs tys \<subseteq> \<Gamma>" "length rs = length tys"
  shows "operands_typed T rs tys"
  unfolding operands_typed_def
proof (rule nth_equalityI)
  show "length (map T rs) = length (map Some tys)" using assms(3) by simp
  fix i
  assume "i < length (map T rs)"
  then have "(rs ! i, tys ! i) \<in> \<Gamma>" using assms(2,3) by (auto simp: typing_list_def set_zip)
  then show "map T rs ! i = map Some tys ! i"
    using assms(1,3) \<open>i < length (map T rs)\<close> by (auto simp: typings_hold_def)
qed

lemma operands_typed_mono: "operands_typed T rs tys \<Longrightarrow> T \<subseteq>\<^sub>m T' \<Longrightarrow> operands_typed T' rs tys"
  by (auto simp: operands_typed_def map_le_def dom_def list_eq_iff_nth_eq)

section \<open>Appending an operation\<close>

locale ssa_builder = ssa_state good T keeps
  for good :: "'s \<Rightarrow> bool"
    and T :: "'s \<Rightarrow> raw \<Rightarrow> mlir_ty option"
    and keeps :: "'s \<Rightarrow> 's \<Rightarrow> bool" +
  fixes fits :: "(raw \<Rightarrow> mlir_ty option) \<Rightarrow> mlir_op \<Rightarrow> bool"
    and emit :: "mlir_op \<Rightarrow> 's \<Rightarrow> lower_error + raw list \<times> 's"
  assumes emit_fits: "good s \<Longrightarrow> fits (T s) op \<Longrightarrow>
    \<exists>rs s'. emit op s = Inr (rs, s') \<and> good s' \<and> keeps s s' \<and> T s \<subseteq>\<^sub>m T s' \<and>
      length rs = length (op_results op) \<and> typings_hold (T s') (typing_list rs (op_results op))"
begin

lemma ok_emit:
  assumes "\<And>s. good s \<Longrightarrow> typings_hold (T s) \<Gamma> \<Longrightarrow> fits (T s) op"
  shows "step_ok good T keeps \<Gamma> (emit op) (\<lambda>rs. typing_list rs (op_results op))
           (\<lambda>rs. length rs = length (op_results op))"
proof (rule step_okI)
  fix s e
  assume "good s" "typings_hold (T s) \<Gamma>" "emit op s = Inl e"
  then show "soft_error e" using emit_fits [OF _ assms] by fastforce
next
  fix s r s'
  assume "good s" "typings_hold (T s) \<Gamma>" "emit op s = Inr (r, s')"
  then show "good s' \<and> keeps s s' \<and> T s \<subseteq>\<^sub>m T s' \<and> typings_hold (T s') (typing_list r (op_results op)) \<and>
      length r = length (op_results op)"
    using emit_fits [OF _ assms] by fastforce
qed

end

definition emit_block :: "mlir_op \<Rightarrow> (mlir_block, raw list) step" where
  "emit_block op b = Inr (append_operation op b)"

lemma append_operation_block [simp]:
  "snd (append_operation op b) = b\<lparr>block_ops := block_ops b @ [op]\<rparr>"
  "fst (append_operation op b) = map (result_raw b (length (block_ops b))) [0..<length (op_results op)]"
  by (simp_all add: append_operation_def)

lemma block_ty_append: "block_ty b \<subseteq>\<^sub>m block_ty (b\<lparr>block_ops := block_ops b @ [op]\<rparr>)"
  unfolding map_le_def
proof
  fix r
  assume "r \<in> dom (block_ty b)"
  then show "block_ty b r = block_ty (b\<lparr>block_ops := block_ops b @ [op]\<rparr>) r"
    by (cases r) (auto simp: nth_append split: if_splits)
qed

lemma scope_ty_append: "scope_ty outer b \<subseteq>\<^sub>m scope_ty outer (b\<lparr>block_ops := block_ops b @ [op]\<rparr>)"
  unfolding map_le_def
proof
  fix r
  assume "r \<in> dom (scope_ty outer b)"
  then show "scope_ty outer b r = scope_ty outer (b\<lparr>block_ops := block_ops b @ [op]\<rparr>) r"
    using block_ty_append [of b op] by (cases r) (auto simp: nth_append split: if_splits)
qed

lemma block_ty_result:
  "i < length (op_results op) \<Longrightarrow>
     block_ty (b\<lparr>block_ops := block_ops b @ [op]\<rparr>) (result_raw b (length (block_ops b)) i) = Some (op_results op ! i)"
  by (simp add: result_raw_def)

lemma scope_ty_result:
  "i < length (op_results op) \<Longrightarrow> in_region b \<Longrightarrow>
     scope_ty outer (b\<lparr>block_ops := block_ops b @ [op]\<rparr>) (result_raw b (length (block_ops b)) i) = Some (op_results op ! i)"
  by (simp add: result_raw_def)

lemma block_prefix_append:
  "p < length (block_ops b) \<Longrightarrow> block_prefix p (b\<lparr>block_ops := block_ops b @ [op]\<rparr>) = block_prefix p b"
  "block_prefix (length (block_ops b)) (b\<lparr>block_ops := block_ops b @ [op]\<rparr>) = b"
  by (simp_all add: block_prefix_def)

lemma block_fits_append:
  "block_fits fits ty b \<Longrightarrow> fits (ty b) op \<Longrightarrow> block_fits fits ty (b\<lparr>block_ops := block_ops b @ [op]\<rparr>)"
  by (auto simp: block_fits_def nth_append block_prefix_append less_Suc_eq)

lemma results_typed:
  assumes "\<And>i. i < length tys \<Longrightarrow> T (f i) = Some (tys ! i)"
  shows "typings_hold T (typing_list (map f [0..<length tys]) tys)"
  using assms by (auto simp: typings_hold_def typing_list_def set_zip)

section \<open>The two blocks\<close>

definition region_good :: "(raw \<Rightarrow> mlir_ty option) \<Rightarrow> mlir_ty list \<Rightarrow> mlir_block \<Rightarrow> bool" where
  "region_good outer args b \<longleftrightarrow> in_region b \<and> block_args b = args \<and> block_fits plain_op_fits (scope_ty outer) b"

interpretation region:
  ssa_builder "region_good outer args" "scope_ty outer" "\<lambda>_ _. True" plain_op_fits emit_block for outer args
proof (unfold_locales)
  fix b :: mlir_block and op
  assume b: "region_good outer args b" and op: "plain_op_fits (scope_ty outer b) op"
  have "typings_hold (scope_ty outer (b\<lparr>block_ops := block_ops b @ [op]\<rparr>))
      (typing_list (fst (append_operation op b)) (op_results op))"
    unfolding append_operation_block
    by (rule results_typed) (use b in \<open>simp add: scope_ty_result region_good_def\<close>)
  then show "\<exists>rs s'. emit_block op b = Inr (rs, s') \<and> region_good outer args s' \<and> True \<and>
      scope_ty outer b \<subseteq>\<^sub>m scope_ty outer s' \<and> length rs = length (op_results op) \<and>
      typings_hold (scope_ty outer s') (typing_list rs (op_results op))"
    using b op scope_ty_append [of outer b op]
    by (auto simp: emit_block_def append_operation_def region_good_def block_fits_append)
qed auto

definition body_good :: "mlir_block \<Rightarrow> bool" where
  "body_good b \<longleftrightarrow> \<not> in_region b \<and> block_fits op_fits block_ty b"

definition same_args :: "mlir_block \<Rightarrow> mlir_block \<Rightarrow> bool" where
  "same_args b b' \<longleftrightarrow> block_args b' = block_args b"

interpretation body: ssa_builder body_good block_ty same_args op_fits emit_block
proof (unfold_locales)
  fix b op
  assume b: "body_good b" and op: "op_fits (block_ty b) op"
  have "typings_hold (block_ty (b\<lparr>block_ops := block_ops b @ [op]\<rparr>))
      (typing_list (fst (append_operation op b)) (op_results op))"
    unfolding append_operation_block by (rule results_typed) (rule block_ty_result)
  then show "\<exists>rs s'. emit_block op b = Inr (rs, s') \<and> body_good s' \<and> same_args b s' \<and>
      block_ty b \<subseteq>\<^sub>m block_ty s' \<and> length rs = length (op_results op) \<and>
      typings_hold (block_ty s') (typing_list rs (op_results op))"
    using b op block_ty_append [of b op]
    by (auto simp: emit_block_def append_operation_def body_good_def same_args_def block_fits_append)
qed (auto simp: same_args_def)

definition main_good :: "lowerer \<Rightarrow> bool" where
  "main_good s \<longleftrightarrow> body_good (main_block s)"

definition main_ty :: "lowerer \<Rightarrow> raw \<Rightarrow> mlir_ty option" where
  "main_ty s = block_ty (main_block s)"

text \<open>Builders change only the operations of the function's block.\<close>

definition only_block :: "lowerer \<Rightarrow> lowerer \<Rightarrow> bool" where
  "only_block s s' \<longleftrightarrow> s' = s\<lparr>main_block := main_block s'\<rparr> \<and> same_args (main_block s) (main_block s')"

lemma only_block_refl: "only_block s s"
  by (simp add: only_block_def same_args_def)

lemma only_block_trans:
  assumes "only_block s s'" "only_block s' s''"
  shows "only_block s s''"
proof -
  have "s'' = s'\<lparr>main_block := main_block s''\<rparr>" "s' = s\<lparr>main_block := main_block s'\<rparr>"
    using assms by (simp_all add: only_block_def)
  then have "s'' = s\<lparr>main_block := main_block s', main_block := main_block s''\<rparr>" by simp
  then show ?thesis using assms by (simp add: only_block_def same_args_def)
qed

abbreviation builds :: "typings \<Rightarrow> 'a lower \<Rightarrow> ('a \<Rightarrow> typings) \<Rightarrow> ('a \<Rightarrow> bool) \<Rightarrow> bool" where
  "builds \<equiv> step_ok main_good main_ty only_block"

abbreviation body_builds ::
    "typings \<Rightarrow> (mlir_block, 'a) step \<Rightarrow> ('a \<Rightarrow> typings) \<Rightarrow> ('a \<Rightarrow> bool) \<Rightarrow> bool" where
  "body_builds \<equiv> step_ok body_good block_ty same_args"

abbreviation region_builds ::
    "(raw \<Rightarrow> mlir_ty option) \<Rightarrow> mlir_ty list \<Rightarrow> typings \<Rightarrow> (mlir_block, 'a) step \<Rightarrow> ('a \<Rightarrow> typings)
      \<Rightarrow> ('a \<Rightarrow> bool) \<Rightarrow> bool" where
  "region_builds outer args \<equiv> step_ok (region_good outer args) (scope_ty outer) (\<lambda>_ _. True)"

text \<open>A step on the block is a step of the lowerer.\<close>

lemma on_block_ok:
  assumes "body_builds \<Gamma> m G P"
  shows "builds \<Gamma> (on_block m) G P"
proof (rule step_okI)
  fix s e
  assume s: "main_good s" "typings_hold (main_ty s) \<Gamma>" and e: "on_block m s = Inl e"
  then have "m (main_block s) = Inl e" by (auto simp: on_block_def split: sum.splits prod.splits)
  with s show "soft_error e" unfolding main_good_def main_ty_def by (blast intro: step_okD(1) [OF assms])
next
  fix s r s'
  assume s: "main_good s" "typings_hold (main_ty s) \<Gamma>" and r: "on_block m s = Inr (r, s')"
  then obtain b where m: "m (main_block s) = Inr (r, b)" and s': "s' = s\<lparr>main_block := b\<rparr>"
    by (auto simp: on_block_def split: sum.splits prod.splits)
  from s step_okD(2) [OF assms _ _ m] s'
  show "main_good s' \<and> only_block s s' \<and> main_ty s \<subseteq>\<^sub>m main_ty s' \<and> typings_hold (main_ty s') (G r) \<and> P r"
    by (simp add: main_good_def main_ty_def only_block_def)
qed

interpretation main: ssa_builder main_good main_ty only_block op_fits "\<lambda>op. on_block (emit_block op)"
proof (unfold_locales)
  fix s :: lowerer and op
  assume s: "main_good s" and op: "op_fits (main_ty s) op"
  from body.emit_fits [of "main_block s" op] s op
  show "\<exists>rs s'. on_block (emit_block op) s = Inr (rs, s') \<and> main_good s' \<and> only_block s s' \<and>
      main_ty s \<subseteq>\<^sub>m main_ty s' \<and> length rs = length (op_results op) \<and>
      typings_hold (main_ty s') (typing_list rs (op_results op))"
    by (fastforce simp: on_block_def main_good_def main_ty_def only_block_def)
qed (rule only_block_refl, rule only_block_trans)

section \<open>Operations without regions\<close>

definition plain_name :: "string \<Rightarrow> bool" where
  "plain_name name \<longleftrightarrow> take 7 name \<noteq> ''linalg.'' \<and> name \<noteq> ''tensor.pad''"

lemma plain_op_fits_op_fits: "plain_name (op_name op) \<Longrightarrow> plain_op_fits T op \<Longrightarrow> op_fits T op"
  by (auto simp: plain_op_fits_def op_fits_def regions_fit_def plain_name_def)

definition text_attrs :: "(string \<times> string) list \<Rightarrow> attrs" where
  "text_attrs attrs = map (\<lambda>(n, t). (n, AText t)) attrs"

locale block_builder = ssa_builder good T keeps fits emit_block
  for good :: "mlir_block \<Rightarrow> bool"
    and T :: "mlir_block \<Rightarrow> raw \<Rightarrow> mlir_ty option"
    and keeps :: "mlir_block \<Rightarrow> mlir_block \<Rightarrow> bool"
    and fits :: "(raw \<Rightarrow> mlir_ty option) \<Rightarrow> mlir_op \<Rightarrow> bool" +
  assumes fits_plain: "plain_name (op_name op) \<Longrightarrow> plain_op_fits T' op \<Longrightarrow> fits T' op"
begin

lemma append_block_op_fits:
  assumes "typing_list operands tys \<subseteq> \<Gamma>" "length operands = length tys"
    and "op_typed name (text_attrs attrs) tys results"
    and "\<And>T'. plain_op_fits T' (MOp name operands results (text_attrs attrs) []) \<Longrightarrow>
           fits T' (MOp name operands results (text_attrs attrs) [])"
  shows "step_ok good T keeps \<Gamma> (append_block_op ctx name operands results attrs)
           (\<lambda>rs. typing_list rs results) (\<lambda>rs. length rs = length results)"
  unfolding append_block_op_def
proof (rule ok_bind [OF ok_parse_attrs])
  fix as
  assume as: "as = map (\<lambda>(n, t). (n, AText t)) attrs"
  have "step_ok good T keeps (\<Gamma> \<union> {}) (emit_block (MOp name operands results as []))
      (\<lambda>rs. typing_list rs (op_results (MOp name operands results as [])))
      (\<lambda>rs. length rs = length (op_results (MOp name operands results as [])))"
  proof (rule ok_emit)
    fix s
    assume "typings_hold (T s) (\<Gamma> \<union> {})"
    then have "operands_typed (T s) operands tys" using assms(1,2) by (auto intro: operands_typedI)
    then show "fits (T s) (MOp name operands results as [])"
      using assms(3,4) by (auto simp: as plain_op_fits_def text_attrs_def)
  qed
  then show "step_ok good T keeps (\<Gamma> \<union> {}) (\<lambda>b. Inr (append_operation (MOp name operands results as []) b))
      (\<lambda>rs. typing_list rs results) (\<lambda>rs. length rs = length results)"
    by (simp add: emit_block_def [abs_def])
qed

lemmas append_block_op_ok = append_block_op_fits [OF _ _ _ fits_plain]

lemma block_op_fits:
  assumes "typing_list operands tys \<subseteq> \<Gamma>" "length operands = length tys"
    and "op_typed name (text_attrs attrs) tys [result]"
    and "\<And>T'. plain_op_fits T' (MOp name operands [result] (text_attrs attrs) []) \<Longrightarrow>
           fits T' (MOp name operands [result] (text_attrs attrs) [])"
  shows "step_ok good T keeps \<Gamma> (block_op ctx name operands result attrs) (\<lambda>r. {(r, result)}) (\<lambda>_. True)"
  unfolding block_op_def
  by (rule ok_bind [OF append_block_op_fits [OF assms]])
     (auto simp: length_Suc_conv intro!: ok_return)

lemma block_op_ok:
  assumes "plain_name name" "typing_list operands tys \<subseteq> \<Gamma>" "length operands = length tys"
    and "op_typed name (text_attrs attrs) tys [result]"
  shows "step_ok good T keeps \<Gamma> (block_op ctx name operands result attrs) (\<lambda>r. {(r, result)}) (\<lambda>_. True)"
  using assms by (intro block_op_fits fits_plain) auto

end

interpretation body: block_builder body_good block_ty same_args op_fits
  by unfold_locales (rule plain_op_fits_op_fits)

interpretation region: block_builder "region_good outer args" "scope_ty outer" "\<lambda>_ _. True" plain_op_fits
  for outer args
  by unfold_locales simp

end
