(* ===== verification/Lower_Build.thy ===== *)
theory Lower_Build
  imports Lower_Blocks
begin

text \<open>
  The operation builders of \<^verbatim>\<open>lowerer.rs\<close> keep the function's block well formed: one rule per builder,
  with the typing condition of the operation it appends as premise.
\<close>

section \<open>Typing rules by name\<close>

lemmas op_table =
  op_typed_def op_rules_def float_binary_ops_def int_binary_ops_def float_unary_ops_def

named_theorems op_typings \<open>the typing rule of each operation\<close>

lemma op_groups_disjoint:
  "name \<in> set int_binary_ops \<Longrightarrow> name \<notin> set float_binary_ops"
  "name \<in> set float_unary_ops \<Longrightarrow> name \<notin> set float_binary_ops"
  "name \<in> set float_unary_ops \<Longrightarrow> name \<notin> set int_binary_ops"
proof -
  have "set int_binary_ops \<inter> set float_binary_ops = {}" "set float_unary_ops \<inter> set float_binary_ops = {}"
      "set float_unary_ops \<inter> set int_binary_ops = {}"
    by (simp_all add: float_binary_ops_def int_binary_ops_def float_unary_ops_def)
  then show "name \<in> set int_binary_ops \<Longrightarrow> name \<notin> set float_binary_ops"
      "name \<in> set float_unary_ops \<Longrightarrow> name \<notin> set float_binary_ops"
      "name \<in> set float_unary_ops \<Longrightarrow> name \<notin> set int_binary_ops" by blast+
qed

lemma float_binary_typed: "name \<in> set float_binary_ops \<Longrightarrow> op_typed name attrs = binary_typed True"
  by (simp add: op_typed_def fun_eq_iff)

lemma int_binary_typed: "name \<in> set int_binary_ops \<Longrightarrow> op_typed name attrs = binary_typed False"
  by (simp add: op_typed_def fun_eq_iff op_groups_disjoint)

lemma float_unary_typed: "name \<in> set float_unary_ops \<Longrightarrow> op_typed name attrs = unary_typed True"
  by (simp add: op_typed_def fun_eq_iff op_groups_disjoint)

lemma other_typed [op_typings]:
  "op_typed ''math.absi'' attrs = unary_typed False"
  "op_typed ''arith.cmpf'' attrs = compare_typed True"
  "op_typed ''arith.cmpi'' attrs = compare_typed False"
  "op_typed ''arith.select'' attrs = select_typed"
  "op_typed ''arith.constant'' attrs = constant_typed"
  "op_typed ''arith.index_cast'' attrs = index_cast_typed"
  "op_typed ''arith.bitcast'' attrs = bitcast_typed"
  "op_typed ''arith.sitofp'' attrs = sitofp_typed"
  "op_typed ''arith.trunci'' attrs = trunci_typed"
  by (simp_all add: op_table fun_eq_iff)

lemma tensor_typed [op_typings]:
  "op_typed ''tensor.empty'' attrs = empty_typed"
  "op_typed ''tensor.from_elements'' attrs = from_elements_typed"
  "op_typed ''tensor.extract'' attrs = extract_typed"
  "op_typed ''tensor.extract_slice'' attrs = extract_slice_typed attrs"
  "op_typed ''tensor.insert_slice'' attrs = insert_slice_typed attrs"
  "op_typed ''tensor.pad'' attrs = pad_typed attrs"
  "op_typed ''tensor.collapse_shape'' attrs = collapse_typed attrs"
  "op_typed ''tensor.expand_shape'' attrs = expand_typed attrs"
  by (simp_all add: op_table fun_eq_iff)

lemma linalg_typed [op_typings]:
  "op_typed ''linalg.generic'' attrs = generic_typed attrs"
  "op_typed ''linalg.transpose'' attrs = linalg_transpose_typed attrs"
  "op_typed ''linalg.broadcast'' attrs = linalg_broadcast_typed attrs"
  "op_typed ''linalg.matmul'' attrs = linalg_matmul_typed"
  "op_typed ''linalg.batch_matmul'' attrs = linalg_batch_matmul_typed"
  "op_typed ''linalg.conv_2d_nhwc_hwcf'' attrs = linalg_conv_typed attrs"
  "op_typed ''linalg.index'' attrs tys res \<longleftrightarrow> tys = [] \<and> res = [MIndex]"
  "op_typed ''linalg.yield'' attrs tys res \<longleftrightarrow> res = []"
  "op_typed ''tensor.yield'' attrs tys res \<longleftrightarrow> res = []"
  "op_typed ''func.return'' attrs tys res \<longleftrightarrow> res = []"
  "op_typed ''cf.assert'' attrs tys res \<longleftrightarrow> tys = [MElem Bool] \<and> res = []"
  by (simp_all add: op_table fun_eq_iff)

lemma binary_names [op_typings]:
  "op_typed ''arith.addf'' attrs = binary_typed True" "op_typed ''arith.subf'' attrs = binary_typed True"
  "op_typed ''arith.mulf'' attrs = binary_typed True" "op_typed ''arith.divf'' attrs = binary_typed True"
  "op_typed ''arith.maximumf'' attrs = binary_typed True" "op_typed ''arith.minimumf'' attrs = binary_typed True"
  "op_typed ''math.powf'' attrs = binary_typed True"
  "op_typed ''arith.addi'' attrs = binary_typed False" "op_typed ''arith.subi'' attrs = binary_typed False"
  "op_typed ''arith.muli'' attrs = binary_typed False" "op_typed ''arith.divsi'' attrs = binary_typed False"
  "op_typed ''arith.remui'' attrs = binary_typed False" "op_typed ''arith.shrui'' attrs = binary_typed False"
  "op_typed ''arith.andi'' attrs = binary_typed False" "op_typed ''arith.ori'' attrs = binary_typed False"
  "op_typed ''arith.xori'' attrs = binary_typed False" "op_typed ''arith.maxsi'' attrs = binary_typed False"
  "op_typed ''arith.minsi'' attrs = binary_typed False"
  by (rule float_binary_typed int_binary_typed, simp add: float_binary_ops_def int_binary_ops_def)+

lemma unary_names [op_typings]:
  "op_typed ''math.absf'' attrs = unary_typed True" "op_typed ''math.ceil'' attrs = unary_typed True"
  "op_typed ''math.cos'' attrs = unary_typed True" "op_typed ''math.exp'' attrs = unary_typed True"
  "op_typed ''math.expm1'' attrs = unary_typed True" "op_typed ''math.floor'' attrs = unary_typed True"
  "op_typed ''math.log'' attrs = unary_typed True" "op_typed ''math.log1p'' attrs = unary_typed True"
  "op_typed ''math.roundeven'' attrs = unary_typed True" "op_typed ''math.sin'' attrs = unary_typed True"
  "op_typed ''math.sqrt'' attrs = unary_typed True" "op_typed ''math.tan'' attrs = unary_typed True"
  "op_typed ''math.tanh'' attrs = unary_typed True"
  by (rule float_unary_typed, simp add: float_unary_ops_def)+

named_theorems plain_names \<open>names without a region\<close>

lemma plain_name_names [plain_names]:
  "plain_name ''arith.cmpf''" "plain_name ''arith.cmpi''" "plain_name ''arith.select''"
  "plain_name ''arith.constant''" "plain_name ''arith.index_cast''" "plain_name ''arith.bitcast''"
  "plain_name ''arith.sitofp''" "plain_name ''arith.trunci''" "plain_name ''math.absi''"
  "plain_name ''tensor.empty''" "plain_name ''tensor.from_elements''" "plain_name ''tensor.extract''"
  "plain_name ''tensor.extract_slice''" "plain_name ''tensor.insert_slice''"
  "plain_name ''tensor.collapse_shape''" "plain_name ''tensor.expand_shape''"
  "plain_name ''func.return''" "plain_name ''cf.assert''" "plain_name ''tensor.yield''"
  by (simp_all add: plain_name_def)

lemma plain_name_binary [plain_names]:
  "name \<in> set float_binary_ops \<Longrightarrow> plain_name name" "name \<in> set int_binary_ops \<Longrightarrow> plain_name name"
  "name \<in> set float_unary_ops \<Longrightarrow> plain_name name"
  by (auto simp: plain_name_def float_binary_ops_def int_binary_ops_def float_unary_ops_def)

lemma plain_name_arith [plain_names]:
  "plain_name ''arith.addf''" "plain_name ''arith.subf''" "plain_name ''arith.mulf''" "plain_name ''arith.divf''"
  "plain_name ''arith.maximumf''" "plain_name ''arith.minimumf''" "plain_name ''math.powf''"
  "plain_name ''arith.addi''" "plain_name ''arith.subi''" "plain_name ''arith.muli''" "plain_name ''arith.divsi''"
  "plain_name ''arith.remui''" "plain_name ''arith.shrui''" "plain_name ''arith.andi''" "plain_name ''arith.ori''"
  "plain_name ''arith.xori''" "plain_name ''arith.maxsi''" "plain_name ''arith.minsi''"
  by (simp_all add: plain_name_def)

lemma typed_rules:
  "binary_typed f [t, t] [t] \<longleftrightarrow> float_ty t = f"
  "compare_typed f [t, t] [MElem Bool] \<longleftrightarrow> bool_like t = MElem Bool \<and> float_ty t = f"
  "unary_typed f [t] [t] \<longleftrightarrow> float_ty t = f"
  "constant_typed [] [t]"
  by (auto simp: binary_typed_def compare_typed_def unary_typed_def constant_typed_def)

section \<open>Values\<close>

definition value_ty :: "lvalue \<Rightarrow> mlir_ty" where
  "value_ty v = (case val_kind v of Scalar \<Rightarrow> MElem (elem (val_ty v)) | Tensor \<Rightarrow> MTensor (val_ty v))"

definition typing_of :: "lvalue \<Rightarrow> typings" where
  "typing_of v = {(raw_of v, value_ty v)}"

text \<open>A scalar value has rank 0.\<close>

definition kind_ok :: "lvalue \<Rightarrow> bool" where
  "kind_ok v \<longleftrightarrow> (val_kind v = Scalar \<longrightarrow> rank (val_ty v) = 0)"

lemma value_simps [simp]:
  "raw_of (value_scalar r e) = r" "val_ty (value_scalar r e) = tensor e []" "val_kind (value_scalar r e) = Scalar"
  "raw_of (value_tensor r ty) = r" "val_ty (value_tensor r ty) = ty" "val_kind (value_tensor r ty) = Tensor"
  "value_ty (value_scalar r e) = MElem e" "value_ty (value_tensor r ty) = MTensor ty"
  "kind_ok (value_scalar r e)" "kind_ok (value_tensor r ty)"
  by (simp_all add: value_scalar_def value_tensor_def value_ty_def kind_ok_def)

lemma value_ty_kind:
  "val_kind v = Scalar \<Longrightarrow> value_ty v = MElem (elem (val_ty v))"
  "val_kind v = Tensor \<Longrightarrow> value_ty v = MTensor (val_ty v)"
  by (simp_all add: value_ty_def)

lemma elem_of_value_ty [simp]: "elem_of (value_ty v) = MElem (elem (val_ty v))"
  by (simp add: value_ty_def split: value_kind.splits)

lemma float_ty_value_ty [simp]: "float_ty (value_ty v) = is_float (elem (val_ty v))"
  by (simp add: value_ty_def split: value_kind.splits)

lemma typing_of_subset [simp]: "typing_of v \<subseteq> \<Gamma> \<longleftrightarrow> (raw_of v, value_ty v) \<in> \<Gamma>"
  by (simp add: typing_of_def)

lemma typing_of_mem [simp]: "(r, t) \<in> typing_of v \<longleftrightarrow> r = raw_of v \<and> t = value_ty v"
  by (auto simp: typing_of_def)

section \<open>Builders of the lowerer\<close>

lemma with_context_ok: "(\<And>ctx. builds \<Gamma> (f ctx) G P) \<Longrightarrow> builds \<Gamma> (with_context f) G P"
  unfolding step_ok_def with_context_def by blast

lemma on_block_emit: "on_block (\<lambda>b. Inr (append_operation op b)) = on_block (emit_block op)"
  by (simp add: emit_block_def [abs_def])

lemma append_built_ok:
  assumes "typing_list operands tys \<subseteq> \<Gamma>" "length operands = length tys"
    and "op_typed name attrs tys results"
    and "\<And>s. main_good s \<Longrightarrow> typings_hold (main_ty s) \<Gamma> \<Longrightarrow>
           regions_fit (main_ty s) (MOp name operands results attrs regions) tys"
  shows "builds \<Gamma> (append_op_with_built_attrs name operands results attrs regions)
           (\<lambda>rs. typing_list rs results) (\<lambda>rs. length rs = length results)"
proof -
  have "builds \<Gamma> (on_block (emit_block (MOp name operands results attrs regions)))
      (\<lambda>rs. typing_list rs (op_results (MOp name operands results attrs regions)))
      (\<lambda>rs. length rs = length (op_results (MOp name operands results attrs regions)))"
  proof (rule main.ok_emit)
    fix s
    assume s: "main_good s" "typings_hold (main_ty s) \<Gamma>"
    then have "operands_typed (main_ty s) operands tys" using assms(1,2) by (auto intro: operands_typedI)
    then show "op_fits (main_ty s) (MOp name operands results attrs regions)"
      using assms(3) assms(4) [OF s] by (auto simp: op_fits_def)
  qed
  then show ?thesis by (simp add: append_op_with_built_attrs_def on_block_emit)
qed

lemma plain_regions_fit: "plain_name name \<Longrightarrow> regions_fit T (MOp name operands results attrs []) tys"
  by (simp add: regions_fit_def plain_name_def)

lemma append_plain_ok:
  assumes "plain_name name" "typing_list operands tys \<subseteq> \<Gamma>" "length operands = length tys"
    and "op_typed name attrs tys results"
  shows "builds \<Gamma> (append_op_with_built_attrs name operands results attrs [])
           (\<lambda>rs. typing_list rs results) (\<lambda>rs. length rs = length results)"
  using assms by (intro append_built_ok plain_regions_fit)

lemma append_result_types_ok:
  assumes "plain_name name" "typing_list operands tys \<subseteq> \<Gamma>" "length operands = length tys"
    and "op_typed name (text_attrs attrs) tys results"
  shows "builds \<Gamma> (append_op_with_result_types name operands results attrs)
           (\<lambda>rs. typing_list rs results) (\<lambda>rs. length rs = length results)"
  unfolding append_op_with_result_types_def
proof (rule with_context_ok, rule main.ok_bind [OF main.ok_parse_attrs])
  fix ctx as
  assume "as = map (\<lambda>(n, t). (n, AText t)) attrs"
  with assms show "builds (\<Gamma> \<union> {}) (append_op_with_built_attrs name operands results as [])
      (\<lambda>rs. typing_list rs results) (\<lambda>rs. length rs = length results)"
    by (intro append_plain_ok) (auto simp: text_attrs_def)
qed

text \<open>The first result as a value.\<close>

lemma return_value_ok:
  assumes "\<And>r. G (f [r]) \<subseteq> \<Gamma> \<union> {(r, t)}" "\<And>r. P (f [r])"
  shows "length rs = length [t] \<Longrightarrow> builds (\<Gamma> \<union> typing_list rs [t]) (sreturn (f rs)) G P"
proof -
  assume "length rs = length [t]"
  then obtain r where rs: "rs = [r]" by (auto simp: length_Suc_conv)
  show ?thesis unfolding rs by (rule main.ok_return) (use assms in auto)
qed

lemma mlir_value_type_ok:
  "builds \<Gamma> (mlir_value_type ty kind) (\<lambda>_. {})
     (\<lambda>t. t = (case kind of Scalar \<Rightarrow> MElem (elem ty) | Tensor \<Rightarrow> MTensor ty))"
  unfolding mlir_value_type_def
  by (rule with_context_ok) (cases kind; simp add: main.ok_elem_type main.ok_tensor_type)

definition is_value :: "tensor_type \<Rightarrow> value_kind \<Rightarrow> lvalue \<Rightarrow> bool" where
  "is_value ty kind v \<longleftrightarrow> val_ty v = ty \<and> val_kind v = kind"

lemma append_op_with_attrs_ok:
  assumes "plain_name name" "\<forall>v \<in> set operands. typing_of v \<subseteq> \<Gamma>" "kind = Scalar \<longrightarrow> rank ty = 0"
    and "op_typed name (text_attrs attrs) (map value_ty operands)
           [case kind of Scalar \<Rightarrow> MElem (elem ty) | Tensor \<Rightarrow> MTensor ty]"
  shows "builds \<Gamma> (append_op_with_attrs name operands ty kind attrs) typing_of (is_value ty kind)"
  unfolding append_op_with_attrs_def
proof (rule main.ok_bind [OF mlir_value_type_ok])
  fix t
  assume t: "t = (case kind of Scalar \<Rightarrow> MElem (elem ty) | Tensor \<Rightarrow> MTensor ty)"
  have "typing_list (map raw_of operands) (map value_ty operands) \<subseteq> \<Gamma>"
    using assms(2) by (auto simp: typing_list_def set_zip)
  then show "builds (\<Gamma> \<union> {}) (sbind (append_op_with_result_types name (map raw_of operands) [t] attrs)
      (\<lambda>results. sreturn (value_of_kind (hd results) ty kind))) typing_of (is_value ty kind)"
    using assms(1,3,4)
    by (intro main.ok_bind [OF append_result_types_ok [of _ _ "map value_ty operands"]] return_value_ok)
       (auto simp: t value_of_kind_def is_value_def rank_def split: value_kind.splits)
qed

lemma append_op_ok:
  assumes "plain_name name" "\<forall>v \<in> set operands. typing_of v \<subseteq> \<Gamma>" "kind = Scalar \<longrightarrow> rank ty = 0"
    and "op_typed name [] (map value_ty operands)
           [case kind of Scalar \<Rightarrow> MElem (elem ty) | Tensor \<Rightarrow> MTensor ty]"
  shows "builds \<Gamma> (append_op name operands ty kind) typing_of (is_value ty kind)"
  unfolding append_op_def
proof (rule main.ok_bind [OF mlir_value_type_ok])
  fix t
  assume t: "t = (case kind of Scalar \<Rightarrow> MElem (elem ty) | Tensor \<Rightarrow> MTensor ty)"
  have "typing_list (map raw_of operands) (map value_ty operands) \<subseteq> \<Gamma>"
    using assms(2) by (auto simp: typing_list_def set_zip)
  then show "builds (\<Gamma> \<union> {}) (sbind (append_op_with_built_attrs name (map raw_of operands) [t] [] [])
      (\<lambda>results. sreturn (value_of_kind (hd results) ty kind))) typing_of (is_value ty kind)"
    using assms(1,3,4)
    by (intro main.ok_bind [OF append_plain_ok [of _ _ "map value_ty operands"]] return_value_ok)
       (auto simp: t value_of_kind_def is_value_def rank_def split: value_kind.splits)
qed

lemma append_tensor_op_ok:
  assumes "\<forall>v \<in> set operands. typing_of v \<subseteq> \<Gamma>"
    and "op_typed name attrs (map value_ty operands) [MTensor ty]"
    and "\<And>s. main_good s \<Longrightarrow> typings_hold (main_ty s) \<Gamma> \<Longrightarrow>
           regions_fit (main_ty s) (MOp name (map raw_of operands) [MTensor ty] attrs regions) (map value_ty operands)"
  shows "builds \<Gamma> (append_tensor_op name operands ty attrs regions) typing_of (is_value ty Tensor)"
  unfolding append_tensor_op_def
proof (rule main.ok_bind [OF with_context_ok [OF main.ok_tensor_type]])
  fix t
  assume t: "t = MTensor ty"
  have "typing_list (map raw_of operands) (map value_ty operands) \<subseteq> \<Gamma>"
    using assms(1) by (auto simp: typing_list_def set_zip)
  then show "builds (\<Gamma> \<union> {}) (sbind (append_op_with_built_attrs name (map raw_of operands) [t] attrs regions)
      (\<lambda>results. sreturn (value_tensor (hd results) ty))) typing_of (is_value ty Tensor)"
    using assms(2,3)
    by (intro main.ok_bind [OF append_built_ok [of _ "map value_ty operands"]] return_value_ok)
       (auto simp: t is_value_def)
qed

lemma append_tensor_empty_ok: "builds \<Gamma> (append_tensor_empty ty) typing_of (is_value ty Tensor)"
  unfolding append_tensor_empty_def
  by (rule append_op_ok) (simp_all add: plain_names op_typings empty_typed_def)

lemma append_index_constant_ok: "builds \<Gamma> (append_index_constant n) (\<lambda>r. {(r, MIndex)}) (\<lambda>_. True)"
  unfolding append_index_constant_def
  by (rule main.ok_bind [OF append_result_types_ok [of _ _ "[]"]], simp_all add: plain_names op_typings typed_rules)
     (auto simp: length_Suc_conv intro!: main.ok_return)

lemma append_tensor_extract_ok:
  assumes "val_kind v = Tensor" "typing_of v \<subseteq> \<Gamma>" "length indices = rank (val_ty v)"
    and "\<forall>i \<in> set indices. (i, MIndex) \<in> \<Gamma>"
  shows "builds \<Gamma> (append_tensor_extract v indices) typing_of (is_value (tensor (elem (val_ty v)) []) Scalar)"
  unfolding append_tensor_extract_def
proof (rule main.ok_bind [OF with_context_ok [OF main.ok_elem_type]])
  fix t
  assume t: "t = MElem (elem (val_ty v))"
  have "typing_list indices (replicate (rank (val_ty v)) MIndex) \<subseteq> \<Gamma>"
    using assms(3,4) by (auto simp: typing_list_def set_zip)
  then show "builds (\<Gamma> \<union> {}) (sbind (append_op_with_built_attrs ''tensor.extract'' (raw_of v # indices) [t] [] [])
      (\<lambda>results. sreturn (value_scalar (hd results) (elem (val_ty v))))) typing_of
      (is_value (tensor (elem (val_ty v)) []) Scalar)"
    using assms(1-3)
    by (intro main.ok_bind [OF append_plain_ok [of _ _ "MTensor (val_ty v) # replicate (rank (val_ty v)) MIndex"]]
          return_value_ok)
       (auto simp: t is_value_def plain_names op_typings extract_typed_def value_ty_kind)
qed

end
