(* ===== verification/Lower_Regions.thy ===== *)
theory Lower_Regions
  imports Lower_Build
begin

text \<open>
  Regions and the operations that carry them: the body of a region is built on a block of its own, which
  sees the values around it; \<^verbatim>\<open>linalg.generic\<close>, the named \<^verbatim>\<open>linalg\<close> operations and \<^verbatim>\<open>tensor.pad\<close>.
\<close>

section \<open>Building a region\<close>

fun main_raw :: "raw \<Rightarrow> bool" where
  "main_raw (BlockArg i) = True"
| "main_raw (OpResult p i) = True"
| "main_raw _ = False"

definition around :: "(raw \<Rightarrow> mlir_ty option) \<Rightarrow> typings \<Rightarrow> bool" where
  "around outer \<Gamma> \<longleftrightarrow> (\<forall>r t. outer r = Some t \<longrightarrow> main_raw r) \<and> typings_hold outer \<Gamma>"

lemma around_main: "main_good s \<Longrightarrow> typings_hold (main_ty s) \<Gamma> \<Longrightarrow> around (main_ty s) \<Gamma>"
  unfolding around_def
proof (intro conjI allI impI)
  fix r t
  assume "main_good s" "main_ty s r = Some t"
  then show "main_raw r" by (cases r) (auto simp: main_good_def body_good_def main_ty_def)
qed

lemma around_scope: "around outer \<Gamma> \<Longrightarrow> typings_hold (scope_ty outer b) \<Gamma>"
  unfolding around_def typings_hold_def
proof clarify
  fix r t
  assume "\<forall>r t. outer r = Some t \<longrightarrow> main_raw r" "\<forall>(x, t) \<in> \<Gamma>. outer x = Some t" "(r, t) \<in> \<Gamma>"
  then have "outer r = Some t" "main_raw r" by auto
  then show "scope_ty outer b r = Some t" by (cases r) auto
qed

definition region_args :: "mlir_ty list \<Rightarrow> raw list" where
  "region_args tys = map RegionArg [0..<length tys]"

definition args_typing :: "mlir_ty list \<Rightarrow> typings" where
  "args_typing tys = typing_list (region_args tys) tys"

lemma args_typing_nth [simp]: "i < length tys \<Longrightarrow> (region_args tys ! i, tys ! i) \<in> args_typing tys"
  by (auto simp: args_typing_def typing_list_def region_args_def set_zip intro!: exI [of _ i])

lemma region_args_new: "map (arg_raw (new_region tys)) [0..<length tys] = region_args tys"
  by (simp add: arg_raw_def new_region_def region_args_def)

definition body_ok ::
    "typings \<Rightarrow> mlir_ty list \<Rightarrow> mlir_ty list \<Rightarrow> (raw list \<Rightarrow> (mlir_block, raw list) step) \<Rightarrow> bool" where
  "body_ok \<Gamma> arg_types yields body \<longleftrightarrow>
     (\<forall>outer. region_builds outer arg_types (\<Gamma> \<union> args_typing arg_types) (body (region_args arg_types))
        (\<lambda>rs. typing_list rs yields) (\<lambda>rs. length rs = length yields))"

lemma new_region_good: "region_good outer tys (new_region tys)"
  by (simp add: region_good_def new_region_def block_fits_def)

lemma new_region_args: "typings_hold (scope_ty outer (new_region tys)) (args_typing tys)"
  by (auto simp: args_typing_def typing_list_def region_args_def set_zip typings_hold_def new_region_def)

lemma append_terminator:
  "append_block_op ctx name rs [] [] b =
     Inr ([], b\<lparr>block_ops := block_ops b @ [MOp name rs [] [] []]\<rparr>)"
  by (simp add: append_block_op_def parse_attrs_def sbind_def sreturn_def append_operation_def)

lemma build_region_fits:
  assumes body: "body_ok \<Gamma> tys yields body" and outer: "around outer \<Gamma>"
    and yield: "op_typed terminator [] yields []"
  shows "case build_region ctx tys terminator body of
           Inl e \<Rightarrow> soft_error e | Inr b \<Rightarrow> region_fits outer terminator tys yields (region_of b)"
proof -
  let ?b = "new_region tys" and ?m = "body (region_args tys)"
  have ok: "region_builds outer tys (\<Gamma> \<union> args_typing tys) ?m (\<lambda>rs. typing_list rs yields)
      (\<lambda>rs. length rs = length yields)" using body by (simp add: body_ok_def)
  have hold: "typings_hold (scope_ty outer ?b) (\<Gamma> \<union> args_typing tys)"
    using around_scope [OF outer] new_region_args by simp
  show ?thesis
  proof (cases "?m ?b")
    case (Inl e)
    from step_okD(1) [OF ok new_region_good hold Inl] Inl show ?thesis
      by (simp add: build_region_def Let_def region_args_new sbind_def)
  next
    case (Inr p)
    obtain rs b where p: "p = (rs, b)" by (cases p)
    from step_okD(2) [OF ok new_region_good hold Inr [unfolded p]]
    have b: "region_good outer tys b" "typings_hold (scope_ty outer b) (typing_list rs yields)"
        "length rs = length yields" by auto
    let ?yield = "MOp terminator rs [] [] []"
    let ?b' = "b\<lparr>block_ops := block_ops b @ [?yield]\<rparr>"
    have built: "build_region ctx tys terminator body = Inr ?b'"
      using Inr p by (simp add: build_region_def Let_def region_args_new sbind_def append_terminator)
    have typed: "operands_typed (scope_ty outer b) rs yields" using b by (auto intro: operands_typedI)
    then have "plain_op_fits (scope_ty outer b) ?yield" using yield by (auto simp: plain_op_fits_def)
    then have "block_fits plain_op_fits (scope_ty outer) ?b'"
      using b(1) by (auto simp: region_good_def intro: block_fits_append)
    moreover have "operands_typed (scope_ty outer ?b') rs yields"
      using typed scope_ty_append by (rule operands_typed_mono)
    ultimately show ?thesis using b(1)
      by (auto simp: built region_fits_def region_good_def intro!: exI [of _ ?b'])
  qed
qed

lemma sregion_ok:
  assumes "body_ok \<Gamma> tys yields body" "op_typed terminator [] yields []"
  shows "builds \<Gamma> (sregion (build_region ctx tys terminator body)) (\<lambda>_. {})
           (\<lambda>region. \<forall>outer. around outer \<Gamma> \<longrightarrow> region_fits outer terminator tys yields region)"
proof (rule step_okI)
  fix s e
  assume s: "main_good s" "typings_hold (main_ty s) \<Gamma>"
    and e: "sregion (build_region ctx tys terminator body) s = Inl e"
  then show "soft_error e"
    using build_region_fits [OF assms(1) around_main [OF s] assms(2), of ctx]
    by (auto simp: sregion_def split: sum.splits)
next
  fix s r s'
  assume s: "main_good s" "typings_hold (main_ty s) \<Gamma>"
    and r: "sregion (build_region ctx tys terminator body) s = Inr (r, s')"
  then have "\<forall>outer. around outer \<Gamma> \<longrightarrow> region_fits outer terminator tys yields r"
    using build_region_fits [OF assms(1) _ assms(2), of _ ctx]
    by (auto simp: sregion_def split: sum.splits)
  then show "main_good s' \<and> only_block s s' \<and> main_ty s \<subseteq>\<^sub>m main_ty s' \<and> typings_hold (main_ty s') {} \<and>
      (\<forall>outer. around outer \<Gamma> \<longrightarrow> region_fits outer terminator tys yields r)"
    using r s by (auto simp: sregion_def only_block_refl split: sum.splits)
qed

section \<open>Generic operations\<close>

lemma generic_regions_fit:
  assumes "\<forall>outer. around outer \<Gamma> \<longrightarrow> region_fits outer ''linalg.yield'' (map elem_of tys) (map elem_of res) region"
    and "main_good s" "typings_hold (main_ty s) \<Gamma>" "take 7 name = ''linalg.''"
  shows "regions_fit (main_ty s) (MOp name operands res attrs [region]) tys"
  using assms around_main by (auto simp: regions_fit_def)

lemma smap_elem_types_ok:
  "builds \<Gamma> (smap (\<lambda>v. mlir_element_type ctx (elem (val_ty v))) vs) (\<lambda>_. {})
     (\<lambda>ts. ts = map (\<lambda>v. MElem (elem (val_ty v))) vs)"
proof -
  have "builds \<Gamma> (smap (\<lambda>v. mlir_element_type ctx (elem (val_ty v))) vs) (\<lambda>ys. \<Union>((\<lambda>_. {}) ` set ys))
      (\<lambda>ys. length ys = length vs \<and> (\<forall>i < length vs. ys ! i = MElem (elem (val_ty (vs ! i)))))"
    by (rule main.ok_smap) (use main.ok_elem_type in blast)
  then show ?thesis by (rule step_ok_weaken) (auto intro: nth_equalityI)
qed

lemma smap_tensor_types_ok:
  "builds \<Gamma> (smap (mlir_tensor_type ctx) tys) (\<lambda>_. {}) (\<lambda>ts. ts = map MTensor tys)"
proof -
  have "builds \<Gamma> (smap (mlir_tensor_type ctx) tys) (\<lambda>ys. \<Union>((\<lambda>_. {}) ` set ys))
      (\<lambda>ys. length ys = length tys \<and> (\<forall>i < length tys. ys ! i = MTensor (tys ! i)))"
    by (rule main.ok_smap) (use main.ok_tensor_type in blast)
  then show ?thesis by (rule step_ok_weaken) (auto intro: nth_equalityI)
qed

lemma typing_list_values:
  "(\<forall>v \<in> set vs. typing_of v \<subseteq> \<Gamma>) \<Longrightarrow> typing_list (map raw_of vs) (map value_ty vs) \<subseteq> \<Gamma>"
  by (auto simp: typing_list_def set_zip)

lemma append_linalg_generic_ok:
  assumes vs: "\<forall>v \<in> set (inputs @ outputs). typing_of v \<subseteq> \<Gamma>"
    and outs: "map value_ty outputs = map MTensor result_tys"
    and loops: "loops_fit extents in_maps out_maps kinds (map value_ty (inputs @ outputs))"
    and maps: "maps = map affine_tuple (in_maps @ out_maps)" "loop_rank = length extents"
    and n: "length out_maps = length result_tys"
    and body: "\<And>ctx. body_ok \<Gamma> (map (\<lambda>v. MElem (elem (val_ty v))) (inputs @ outputs))
                 (map (\<lambda>ty. MElem (elem ty)) result_tys) (body ctx)"
  shows "builds \<Gamma> (append_linalg_generic inputs outputs result_tys loop_rank maps kinds body)
           (\<lambda>rs. typing_list rs (map MTensor result_tys)) (\<lambda>rs. length rs = length result_tys)"
  unfolding append_linalg_generic_def
proof (rule with_context_ok, rule main.ok_bind_pure [OF smap_elem_types_ok], hypsubst)
  fix ctx
  let ?vs = "inputs @ outputs"
  let ?args = "map (\<lambda>v. MElem (elem (val_ty v))) ?vs" and ?res = "map MTensor result_tys"
  let ?yields = "map (\<lambda>ty. MElem (elem ty)) result_tys"
  show "builds \<Gamma>
      (sbind (sregion (build_region ctx ?args ''linalg.yield'' (body ctx))) (\<lambda>region.
       sbind (smap (mlir_tensor_type ctx) result_tys) (\<lambda>result_types.
       sbind (parse_attr ctx (linalg_maps loop_rank maps)) (\<lambda>map_attr.
       sbind (parse_attr ctx (linalg_iterators kinds)) (\<lambda>iterator_attr.
       append_op_with_built_attrs ''linalg.generic'' (map raw_of ?vs) result_types
         [dense_i32_attr ''operand_segment_sizes'' [length inputs, length outputs],
          (''indexing_maps'', map_attr), (''iterator_types'', iterator_attr)] [region])))))
      (\<lambda>rs. typing_list rs ?res) (\<lambda>rs. length rs = length result_tys)"
  proof (rule main.ok_bind_pure [OF sregion_ok [OF body]], simp add: op_typings,
      rule main.ok_bind_pure [OF smap_tensor_types_ok], rule main.ok_bind_pure [OF main.ok_parse_attr],
      rule main.ok_bind_pure [OF main.ok_parse_attr], hypsubst)
    fix region
    assume region: "\<forall>outer. around outer \<Gamma> \<longrightarrow> region_fits outer ''linalg.yield'' ?args ?yields region"
    let ?attrs = "[dense_i32_attr ''operand_segment_sizes'' [length inputs, length outputs],
        (''indexing_maps'', AText (linalg_maps loop_rank maps)),
        (''iterator_types'', AText (linalg_iterators kinds))]"
    have "loops_typed ?attrs (map value_ty ?vs) ?res"
      unfolding loops_typed_def using loops maps n
      by (intro exI [of _ extents] exI [of _ in_maps] exI [of _ out_maps] exI [of _ kinds])
         (simp add: dense_i32_attr_def)
    then have typed: "op_typed ''linalg.generic'' ?attrs (map value_ty ?vs) ?res"
      using outs by (auto simp: op_typings generic_typed_def)
    have "builds \<Gamma> (append_op_with_built_attrs ''linalg.generic'' (map raw_of ?vs) ?res ?attrs [region])
        (\<lambda>rs. typing_list rs ?res) (\<lambda>rs. length rs = length ?res)"
      using typing_list_values [OF vs]
    proof (rule append_built_ok [OF _ _ typed])
      fix s
      assume s: "main_good s" "typings_hold (main_ty s) \<Gamma>"
      have "map elem_of (map value_ty ?vs) = ?args" "map elem_of ?res = ?yields" by simp_all
      with region show "regions_fit (main_ty s)
          (MOp ''linalg.generic'' (map raw_of ?vs) ?res ?attrs [region]) (map value_ty ?vs)"
        by (intro generic_regions_fit [OF _ s]) (simp_all add: comp_def)
    qed simp
    then show "builds \<Gamma> (append_op_with_built_attrs ''linalg.generic'' (map raw_of ?vs) ?res ?attrs [region])
        (\<lambda>rs. typing_list rs ?res) (\<lambda>rs. length rs = length result_tys)" by simp
  qed
qed

lemma append_generic_tensor_ok:
  assumes "\<forall>v \<in> set inputs. typing_of v \<subseteq> \<Gamma>" "typing_of output \<subseteq> \<Gamma>" "is_value ty Tensor output"
    and "loops_fit extents in_maps [out_map] kinds (map value_ty inputs @ [MTensor ty])"
    and "maps = map affine_tuple (in_maps @ [out_map])" "loop_rank = length extents"
    and "\<And>ctx. body_ok \<Gamma> (map (\<lambda>v. MElem (elem (val_ty v))) inputs @ [MElem (elem ty)]) [MElem (elem ty)] (body ctx)"
  shows "builds \<Gamma> (append_generic_tensor inputs output ty loop_rank maps kinds body) typing_of (is_value ty Tensor)"
  unfolding append_generic_tensor_def
proof (rule main.ok_bind)
  have out: "value_ty output = MTensor ty" "val_ty output = ty"
    using assms(3) by (simp_all add: is_value_def value_ty_kind)
  show "builds \<Gamma> (append_linalg_generic inputs [output] [ty] loop_rank maps kinds body)
      (\<lambda>rs. typing_list rs (map MTensor [ty])) (\<lambda>rs. length rs = length [ty])"
    by (rule append_linalg_generic_ok [where extents = extents and in_maps = in_maps and out_maps = "[out_map]"])
       (use assms out in auto)
  show "builds (\<Gamma> \<union> typing_list rs (map MTensor [ty])) (sreturn (value_tensor (hd rs) ty)) typing_of
      (is_value ty Tensor)" if "length rs = length [ty]" for rs
    using that return_value_ok [where f = "\<lambda>rs. value_tensor (hd rs) ty" and t = "MTensor ty"]
    by (auto simp: is_value_def)
qed

section \<open>Loops of elementwise operations\<close>

lemma dim_name_inject [simp]: "dim_name i = dim_name j \<longleftrightarrow> i = j"
  by (simp add: dim_name_def)

lemma dim_name_not_zero [simp]: "dim_name i \<noteq> ''0''" "''0'' \<noteq> dim_name i"
  by (simp_all add: dim_name_def)

lemma affine_tuple_dims: "affine_tuple (map dim_name [0..<n]) = identity_map n"
  by (simp add: affine_tuple_def identity_map_def)

lemma affine_tuple_Nil [simp]: "affine_tuple [] = ''()''"
  by (simp add: affine_tuple_def)

definition identity_dims :: "nat \<Rightarrow> string list" where
  "identity_dims n = map dim_name [0..<n]"

lemma identity_dims_simps [simp]:
  "length (identity_dims n) = n" "affine_tuple (identity_dims n) = identity_map n"
  "dim_name k \<in> set (identity_dims n) \<longleftrightarrow> k < n"
  by (auto simp: identity_dims_def affine_tuple_dims)

lemma identity_fits [simp]: "operand_fits s (identity_dims (length s)) (MTensor (tensor e s))"
  by (auto simp: list_all2_conv_all_nth identity_dims_def index_fits_def)

lemma identity_fits_rank: "extents = shape ty \<Longrightarrow> operand_fits extents (identity_dims (rank ty)) (MTensor ty)"
  using identity_fits [of "shape ty" "elem ty"] by (cases ty) (simp add: rank_def)

text \<open>Operands read at the point of the result, or scalars.\<close>

lemma elementwise_loops_fit:
  assumes "list_all2 (operand_fits (shape ty)) in_maps tys"
  shows "loops_fit (shape ty) in_maps [identity_dims (rank ty)] (parallel (rank ty)) (tys @ [MTensor ty])"
  using assms
  by (auto simp: loops_fit_def parallel_def rank_def intro: list_all2_appendI identity_fits_rank [unfolded rank_def])

lemma body_okI:
  assumes "\<And>outer. region_builds outer tys (\<Gamma> \<union> args_typing tys) (body (region_args tys)) G P"
    and "\<And>rs. P rs \<Longrightarrow> typing_list rs yields \<subseteq> G rs \<union> (\<Gamma> \<union> args_typing tys) \<and> length rs = length yields"
  shows "body_ok \<Gamma> tys yields body"
  unfolding body_ok_def
proof
  fix outer
  show "region_builds outer tys (\<Gamma> \<union> args_typing tys) (body (region_args tys))
      (\<lambda>rs. typing_list rs yields) (\<lambda>rs. length rs = length yields)"
    by (rule step_ok_weaken [OF assms(1)]) (use assms(2) in auto)
qed

text \<open>A body that yields its first argument.\<close>

lemma copy_body_ok: "tys \<noteq> [] \<Longrightarrow> body_ok \<Gamma> tys [hd tys] (\<lambda>args. sreturn [args ! 0])"
  by (rule body_okI [where G = "\<lambda>_. {}" and P = "\<lambda>rs. rs = [region_args tys ! 0]"])
     (auto intro!: region.ok_return simp: hd_conv_nth)

lemma append_linalg_fill_ok:
  assumes "typing_of scalar \<subseteq> \<Gamma>" "is_value (tensor (elem ty) []) Scalar scalar"
    and "typing_of output \<subseteq> \<Gamma>" "is_value ty Tensor output"
  shows "builds \<Gamma> (append_linalg_fill scalar output ty) typing_of (is_value ty Tensor)"
proof (cases "rank ty = 0")
  case True
  then have "ty = tensor (elem ty) []" by (cases ty) (simp add: rank_def)
  then have "op_typed ''tensor.from_elements'' [] (map value_ty [scalar]) [MTensor ty]"
    using assms(2) by (auto simp: op_typings from_elements_typed_def is_value_def value_ty_kind)
  then have "builds \<Gamma> (append_tensor_op ''tensor.from_elements'' [scalar] ty [] []) typing_of (is_value ty Tensor)"
    by (rule append_tensor_op_ok [rotated]) (use assms in \<open>simp_all add: plain_names plain_regions_fit\<close>)
  with True show ?thesis by (simp add: append_linalg_fill_def)
next
  case False
  have sc: "value_ty scalar = MElem (elem ty)" "elem (val_ty scalar) = elem ty"
    using assms(2) by (simp_all add: is_value_def value_ty_kind)
  have body: "body_ok \<Gamma> [MElem (elem ty), MElem (elem ty)] [MElem (elem ty)] (\<lambda>args. sreturn [args ! 0])"
    using copy_body_ok [of "[MElem (elem ty), MElem (elem ty)]"] by simp
  have "builds \<Gamma> (append_generic_tensor [scalar] output ty (rank ty) [''()'', identity_map (rank ty)]
      (replicate (rank ty) ''parallel'') (\<lambda>ctx args. sreturn [args ! 0])) typing_of (is_value ty Tensor)"
    by (rule append_generic_tensor_ok [where in_maps = "[[]]" and out_map = "identity_dims (rank ty)"
          and extents = "shape ty"])
       (use assms body sc elementwise_loops_fit [of ty "[[]]" "[MElem (elem ty)]"] in
         \<open>simp_all add: parallel_def rank_def\<close>)
  with False show ?thesis by (simp add: append_linalg_fill_def)
qed

section \<open>Named operations\<close>

lemma named_body_ok:
  assumes "length tys = 2 \<or> name \<notin> {''linalg.matmul'', ''linalg.batch_matmul'', ''linalg.conv_2d_nhwc_hwcf''}"
    and "\<forall>t \<in> set tys. t = MElem (elem ty)" "tys \<noteq> []"
  shows "body_ok \<Gamma> (tys @ [MElem (elem ty)]) [MElem (elem ty)] (named_linalg_body name ty ctx)"
proof (cases "name \<in> {''linalg.matmul'', ''linalg.batch_matmul'', ''linalg.conv_2d_nhwc_hwcf''}")
  case False
  have "hd (tys @ [MElem (elem ty)]) = MElem (elem ty)" using assms(2,3) by (cases tys) auto
  with copy_body_ok [of "tys @ [MElem (elem ty)]" \<Gamma>] show ?thesis
    using False by (simp add: named_linalg_body_def [abs_def])
next
  case True
  let ?t = "MElem (elem ty)"
  let ?tys = "[?t, ?t, ?t]"
  from assms(1,2) True have tys: "tys @ [?t] = ?tys"
    by (auto simp: length_Suc_conv numeral_2_eq_2)
  have args: "(region_args ?tys ! 0, ?t) \<in> args_typing ?tys" "(region_args ?tys ! 1, ?t) \<in> args_typing ?tys"
      "(region_args ?tys ! 2, ?t) \<in> args_typing ?tys"
    using args_typing_nth [of 0 ?tys] args_typing_nth [of 1 ?tys] args_typing_nth [of 2 ?tys] by simp_all
  show ?thesis unfolding tys
  proof (rule body_okI [where G = "\<lambda>rs. typing_list rs [?t]" and P = "\<lambda>rs. length rs = 1"])
    fix outer
    show "region_builds outer ?tys (\<Gamma> \<union> args_typing ?tys)
        (named_linalg_body name ty ctx (region_args ?tys)) (\<lambda>rs. typing_list rs [?t]) (\<lambda>rs. length rs = 1)"
      unfolding named_linalg_body_def if_P [OF True]
      by (rule region.ok_bind_pure [OF region.ok_elem_type], hypsubst,
          rule region.ok_bind [OF region.block_op_ok [where tys = "[?t, ?t]"]],
          (use args in \<open>simp_all add: plain_names op_typings typed_rules split: if_splits\<close>)[4],
          rule region.ok_bind [OF region.block_op_ok [where tys = "[?t, ?t]"]],
          (use args in \<open>simp_all add: plain_names op_typings typed_rules split: if_splits\<close>)[4],
          rule region.ok_return) simp_all
  qed simp
qed

lemma smap_elems_ok:
  "builds \<Gamma> (smap (mlir_element_type ctx) es) (\<lambda>_. {}) (\<lambda>ts. ts = map MElem es)"
proof -
  have "builds \<Gamma> (smap (mlir_element_type ctx) es) (\<lambda>ys. \<Union>((\<lambda>_. {}) ` set ys))
      (\<lambda>ys. length ys = length es \<and> (\<forall>i < length es. ys ! i = MElem (es ! i)))"
    by (rule main.ok_smap) (use main.ok_elem_type in blast)
  then show ?thesis by (rule step_ok_weaken) (auto intro: nth_equalityI)
qed

lemma append_named_linalg_ok:
  assumes "\<forall>v \<in> set inputs. typing_of v \<subseteq> \<Gamma> \<and> elem (val_ty v) = elem ty" "inputs \<noteq> []"
    and "typing_of output \<subseteq> \<Gamma>" "is_value ty Tensor output" "take 7 name = ''linalg.''"
    and "length inputs = 2 \<or> name \<notin> {''linalg.matmul'', ''linalg.batch_matmul'', ''linalg.conv_2d_nhwc_hwcf''}"
    and "op_typed name (dense_i32_attr ''operand_segment_sizes'' [length inputs, 1] # attrs)
           (map value_ty inputs @ [MTensor ty]) [MTensor ty]"
  shows "builds \<Gamma> (append_named_linalg_with_built_attrs name inputs output ty attrs) typing_of (is_value ty Tensor)"
  unfolding append_named_linalg_with_built_attrs_def named_linalg_region_def
proof (rule main.ok_bind_pure [OF with_context_ok [OF main.ok_tensor_type]], hypsubst)
  let ?args = "map (\<lambda>v. MElem (elem (val_ty v))) inputs @ [MElem (elem ty)]"
  let ?attrs = "dense_i32_attr ''operand_segment_sizes'' [length inputs, 1] # attrs"
  have out: "value_ty output = MTensor ty" using assms(4) by (simp add: is_value_def value_ty_kind)
  have body: "body_ok \<Gamma> ?args [MElem (elem ty)] (named_linalg_body name ty ctx)" for ctx
    by (rule named_body_ok) (use assms in auto)
  have elems: "map MElem (map (\<lambda>v. elem (val_ty v)) inputs @ [elem ty]) = ?args" by simp
  have region: "builds \<Gamma>
      (with_context (\<lambda>ctx.
       sbind (smap (mlir_element_type ctx) (map (\<lambda>v. elem (val_ty v)) inputs @ [elem ty])) (\<lambda>arg_types.
       sregion (build_region ctx arg_types ''linalg.yield'' (named_linalg_body name ty ctx))))) (\<lambda>_. {})
      (\<lambda>region. \<forall>outer. around outer \<Gamma> \<longrightarrow> region_fits outer ''linalg.yield'' ?args [MElem (elem ty)] region)"
    by (rule with_context_ok, rule main.ok_bind_pure [OF smap_elems_ok], hypsubst, unfold elems,
        rule sregion_ok [OF body]) (simp add: op_typings)
  show "builds \<Gamma>
      (sbind
        (with_context (\<lambda>ctx.
         sbind (smap (mlir_element_type ctx) (map (\<lambda>v. elem (val_ty v)) inputs @ [elem ty])) (\<lambda>arg_types.
         sregion (build_region ctx arg_types ''linalg.yield'' (named_linalg_body name ty ctx))))) (\<lambda>region.
       sbind (append_op_with_built_attrs name (map raw_of (inputs @ [output])) [MTensor ty] ?attrs [region])
        (\<lambda>results. sreturn (value_tensor (hd results) ty)))) typing_of (is_value ty Tensor)"
  proof (rule main.ok_bind_pure [OF region])
    fix region
    assume region: "\<forall>outer. around outer \<Gamma> \<longrightarrow>
        region_fits outer ''linalg.yield'' ?args [MElem (elem ty)] region"
    show "builds \<Gamma> (sbind (append_op_with_built_attrs name (map raw_of (inputs @ [output])) [MTensor ty] ?attrs [region])
        (\<lambda>results. sreturn (value_tensor (hd results) ty))) typing_of (is_value ty Tensor)"
    proof (rule main.ok_bind [OF append_built_ok [where tys = "map value_ty (inputs @ [output])"]])
      show "typing_list (map raw_of (inputs @ [output])) (map value_ty (inputs @ [output])) \<subseteq> \<Gamma>"
        using assms by (intro typing_list_values) auto
      show "op_typed name ?attrs (map value_ty (inputs @ [output])) [MTensor ty]" using assms(7) out by simp
      fix s
      assume s: "main_good s" "typings_hold (main_ty s) \<Gamma>"
      show "regions_fit (main_ty s) (MOp name (map raw_of (inputs @ [output])) [MTensor ty] ?attrs [region])
          (map value_ty (inputs @ [output]))"
        using region by (intro generic_regions_fit [OF _ s assms(5)]) (simp add: out comp_def)
    next
      fix rs :: "raw list"
      assume "length rs = length [MTensor ty]"
      then show "builds (\<Gamma> \<union> typing_list rs [MTensor ty]) (sreturn (value_tensor (hd rs) ty)) typing_of
          (is_value ty Tensor)"
        by (rule return_value_ok [rotated 2]) (auto simp: is_value_def)
    qed simp
  qed
qed

section \<open>Padding, slices and reshapes\<close>

lemma append_tensor_pad_ok:
  assumes v: "typing_of v \<subseteq> \<Gamma>" "val_kind v = Tensor" "elem (val_ty v) = elem ty"
    and pad: "typing_of pad \<subseteq> \<Gamma>" "is_value (tensor (elem ty) []) Scalar pad"
    and "length lows = rank (val_ty v)" "length highs = rank (val_ty v)"
    and s: "shape ty = map (\<lambda>i. lows ! i + shape (val_ty v) ! i + highs ! i) [0..<rank (val_ty v)]"
  shows "builds \<Gamma> (append_tensor_pad v ty lows highs pad) typing_of (is_value ty Tensor)"
  unfolding append_tensor_pad_def
proof (rule with_context_ok)
  fix ctx
  let ?args = "replicate (rank ty) MIndex"
  let ?region_ok = "\<lambda>region. \<forall>outer. around outer \<Gamma> \<longrightarrow>
        region_fits outer ''tensor.yield'' ?args [MElem (elem ty)] region"
  have sc: "value_ty pad = MElem (elem ty)" using pad(2) by (simp add: is_value_def value_ty_kind)
  have "body_ok \<Gamma> ?args [MElem (elem ty)] (\<lambda>args. sreturn [raw_of pad])"
    by (rule body_okI [where G = "\<lambda>_. {}" and P = "\<lambda>rs. rs = [raw_of pad]"])
       (use pad(1) sc in \<open>auto intro!: region.ok_return\<close>)
  note region = sregion_ok [OF this, of "''tensor.yield''" ctx]
  show "builds \<Gamma>
      (sbind (sregion (build_region ctx ?args ''tensor.yield'' (\<lambda>args. sreturn [raw_of pad]))) (\<lambda>region.
       sbind (dense_i64_attr ''static_low'' lows) (\<lambda>low.
       sbind (dense_i64_attr ''static_high'' highs) (\<lambda>high.
       append_tensor_op ''tensor.pad'' [v] ty
         [dense_i32_attr ''operand_segment_sizes'' [1, 0, 0], low, high] [region])))) typing_of (is_value ty Tensor)"
  proof (rule main.ok_bind_pure [OF region], simp add: op_typings,
      rule main.ok_bind_pure [OF main.ok_dense_i64], rule main.ok_bind_pure [OF main.ok_dense_i64], hypsubst)
    fix region
    assume region: "?region_ok region"
    let ?attrs = "[dense_i32_attr ''operand_segment_sizes'' [1, 0, 0], (''static_low'', AI64 lows),
        (''static_high'', AI64 highs)]"
    have ranks: "rank (val_ty v) = rank ty" using s by (simp add: rank_def)
    show "builds \<Gamma> (append_tensor_op ''tensor.pad'' [v] ty ?attrs [region]) typing_of (is_value ty Tensor)"
    proof (rule append_tensor_op_ok)
      show "op_typed ''tensor.pad'' ?attrs (map value_ty [v]) [MTensor ty]"
        using assms by (simp add: op_typings pad_typed_def value_ty_kind dense_i32_attr_def)
      fix st
      assume "main_good st" "typings_hold (main_ty st) \<Gamma>"
      with region have "region_fits (main_ty st) ''tensor.yield'' ?args [MElem (elem ty)] region"
        using around_main by blast
      then show "regions_fit (main_ty st) (MOp ''tensor.pad'' (map raw_of [v]) [MTensor ty] ?attrs [region])
          (map value_ty [v])"
        using v ranks by (simp add: regions_fit_def value_ty_kind)
    qed (use v in simp)
  qed
qed

lemma append_tensor_extract_slice_ok:
  assumes "typing_of v \<subseteq> \<Gamma>" "val_kind v = Tensor" "elem (val_ty v) = elem ty"
    and "length offsets = rank (val_ty v)" "rank ty = rank (val_ty v)"
    and "\<forall>i < rank ty. offsets ! i + shape ty ! i \<le> shape (val_ty v) ! i"
  shows "builds \<Gamma> (append_tensor_extract_slice v ty offsets (shape ty) (replicate (rank ty) 1)) typing_of
           (is_value ty Tensor)"
  unfolding append_tensor_extract_slice_def
  by (rule main.ok_bind_pure [OF with_context_ok [OF main.ok_tensor_type]],
      rule main.ok_bind_pure [OF main.ok_dense_i64], rule main.ok_bind_pure [OF main.ok_dense_i64],
      rule main.ok_bind_pure [OF main.ok_dense_i64], hypsubst, rule append_tensor_op_ok)
     (use assms in \<open>auto simp: op_typings extract_slice_typed_def slice_within_def value_ty_kind dense_i32_attr_def
        rank_def plain_regions_fit plain_names\<close>)

lemma append_tensor_insert_slice_ok:
  assumes "typing_of v \<subseteq> \<Gamma>" "val_kind v = Tensor" "elem (val_ty v) = elem ty"
    and "typing_of dest \<subseteq> \<Gamma>" "is_value ty Tensor dest"
    and "length offsets = rank ty" "rank (val_ty v) = rank ty"
    and "\<forall>i < rank ty. offsets ! i + shape (val_ty v) ! i \<le> shape ty ! i"
  shows "builds \<Gamma> (append_tensor_insert_slice v dest ty offsets) typing_of (is_value ty Tensor)"
  unfolding append_tensor_insert_slice_def
  by (rule main.ok_bind_pure [OF with_context_ok [OF main.ok_tensor_type]],
      rule main.ok_bind_pure [OF main.ok_dense_i64], rule main.ok_bind_pure [OF main.ok_dense_i64],
      rule main.ok_bind_pure [OF main.ok_dense_i64], hypsubst, rule append_tensor_op_ok)
     (use assms in \<open>auto simp: op_typings insert_slice_typed_def slice_within_def value_ty_kind dense_i32_attr_def
        rank_def plain_regions_fit plain_names is_value_def\<close>)

lemma append_collapse_ok:
  assumes "typing_of v \<subseteq> \<Gamma>" "val_kind v = Tensor" "elem (val_ty v) = elem ty"
    and "grouped groups (shape (val_ty v)) (shape ty)" "text = format_reassociation_groups groups"
  shows "builds \<Gamma> (append_reassociation_op ''tensor.collapse_shape'' v ty text None) typing_of (is_value ty Tensor)"
  unfolding append_reassociation_op_def option.case
  by (rule with_context_ok, rule main.ok_bind_pure [OF main.ok_parse_attr],
      rule main.ok_bind_pure [OF main.ok_return [where G = "\<lambda>_. {}" and P = "\<lambda>r. r = []"]],
      simp, simp, hypsubst, rule append_tensor_op_ok)
     (use assms in \<open>auto simp: op_typings collapse_typed_def reshape_typed_def value_ty_kind
        plain_regions_fit plain_names\<close>)

lemma append_expand_ok:
  assumes "typing_of v \<subseteq> \<Gamma>" "val_kind v = Tensor" "elem (val_ty v) = elem ty"
    and "grouped groups (shape ty) (shape (val_ty v))" "text = format_reassociation_groups groups"
  shows "builds \<Gamma> (append_reassociation_op ''tensor.expand_shape'' v ty text (Some (shape ty))) typing_of
           (is_value ty Tensor)"
  unfolding append_reassociation_op_def option.case
  by (rule with_context_ok, rule main.ok_bind_pure [OF main.ok_parse_attr],
      rule main.ok_bind_pure [OF main.ok_bind_pure [OF main.ok_dense_i64 main.ok_return
        [where G = "\<lambda>_. {}" and P = "\<lambda>r. r = [(''static_output_shape'', AI64 (shape ty)),
            dense_i32_attr ''operand_segment_sizes'' [0]]"]]],
      simp, simp, hypsubst, rule append_tensor_op_ok)
     (use assms in \<open>auto simp: op_typings expand_typed_def reshape_typed_def value_ty_kind
        plain_regions_fit plain_names dense_i32_attr_def\<close>)

end
