(* ===== verification/Lower_Groups.thy ===== *)
theory Lower_Groups
  imports Lower_Regions
begin

text \<open>
  The reassociation groups of \<^verbatim>\<open>shape.rs\<close> are partitions: each lists the dimensions of the larger shape
  in order and multiplies to the smaller shape.  And the arithmetic of broadcast dimensions.
\<close>

section \<open>Groups\<close>

abbreviation group_products :: "nat list \<Rightarrow> nat list list \<Rightarrow> nat list" where
  "group_products s groups \<equiv> map (\<lambda>g. prod_list (map (\<lambda>i. s ! i) g)) groups"

lemma reassociation_for_rank_format: "reassociation_for_rank n = format_reassociation_groups [[0..<n]]"
  by (simp add: reassociation_for_rank_def format_reassociation_groups_def)

lemma grouped_all: "grouped [[0..<length s]] s [prod_list s]"
  by (simp add: grouped_def map_nth)

lemma removed_axis_after:
  assumes "axis < i \<or> rk \<le> axis"
  shows "removed_axis_groups rk axis i groups = groups @ map (\<lambda>j. [j]) [i..<rk]"
  using assms
proof (induction rk axis i groups rule: removed_axis_groups.induct)
  case (1 rk axis i groups)
  show ?case
  proof (cases "i < rk")
    case True
    with "1.prems" have "i \<noteq> axis" "axis < i + 1 \<or> rk \<le> axis" by linarith+
    with 1 True show ?thesis
      by (subst removed_axis_groups.simps) (simp add: upt_rec [of i rk])
  next
    case False
    then show ?thesis by (subst removed_axis_groups.simps) simp
  qed
qed

lemma removed_axis_upto:
  assumes "i \<le> axis" "axis < rk"
  shows "removed_axis_groups rk axis i (map (\<lambda>j. [j]) [0..<i]) =
           removed_axis_groups rk axis axis (map (\<lambda>j. [j]) [0..<axis])"
  using assms
proof (induction "axis - i" arbitrary: i)
  case (Suc n)
  then have "i < axis" "n = axis - Suc i" by linarith+
  with Suc.hyps(1) [of "Suc i"] Suc.prems show ?case
    by (subst removed_axis_groups.simps) simp
qed simp

lemma removed_axis_closed:
  assumes "axis < rk" "2 \<le> rk"
  shows "removed_axis_groups rk axis 0 [] =
           (if axis = 0 then [0, 1] # map (\<lambda>j. [j]) [2..<rk]
            else map (\<lambda>j. [j]) [0..<axis - 1] @ [[axis - 1, axis]] @ map (\<lambda>j. [j]) [axis + 1..<rk])"
proof (cases axis)
  case 0
  have "removed_axis_groups rk 0 0 [] = removed_axis_groups rk 0 2 [[0, 1]]"
    using assms by (subst removed_axis_groups.simps) (simp add: numeral_2_eq_2)
  with 0 show ?thesis by (simp add: removed_axis_after)
next
  case (Suc k)
  have "removed_axis_groups rk axis 0 [] = removed_axis_groups rk axis axis (map (\<lambda>j. [j]) [0..<axis])"
    using removed_axis_upto [of 0 axis rk] assms by simp
  also have "\<dots> = removed_axis_groups rk axis (axis + 1) (map (\<lambda>j. [j]) [0..<k] @ [[k, axis]])"
    using assms by (subst removed_axis_groups.simps) (simp add: Suc)
  finally show ?thesis by (simp add: removed_axis_after Suc)
qed

lemma map_nth_upt: "j \<le> length s \<Longrightarrow> map (\<lambda>k. s ! k) [i..<j] = take (j - i) (drop i s)"
  by (rule nth_equalityI) auto

lemma grouped_removed_axis:
  assumes "axis < length s" "2 \<le> length s" "s ! axis = 1"
  shows "grouped (removed_axis_groups (length s) axis 0 []) s (remove_nth axis s)"
proof (cases "axis = 0")
  case True
  with assms obtain x y zs where s: "s = x # y # zs"
    by (cases s; cases "tl s") auto
  have tail: "map (\<lambda>k. s ! k) [2..<length s] = zs" using assms(2) by (subst map_nth_upt) (simp_all add: s)
  have up: "[0..<length s] = 0 # 1 # [2..<length s]"
  proof -
    have "0 < length s" "1 < length s" using assms(2) by linarith+
    then show ?thesis using upt_conv_Cons [of 0 "length s"] upt_conv_Cons [of 1 "length s"]
      by (simp add: numeral_2_eq_2)
  qed
  have "remove_nth 0 s = s ! 1 # zs" by (simp add: remove_nth_def s)
  with True assms tail up show ?thesis
    by (simp add: grouped_def removed_axis_closed comp_def)
next
  case False
  let ?k = "axis - 1"
  have k: "Suc ?k = axis" using False by simp
  have up: "[0..<length s] = [0..<?k] @ [?k, axis] @ [axis + 1..<length s]"
    using assms(1) k upt_add_eq_append [of 0 ?k "length s - ?k"] upt_conv_Cons [of ?k "length s"]
      upt_conv_Cons [of axis "length s"] by simp
  have "remove_nth axis s = map (\<lambda>j. s ! j) [0..<?k] @ [s ! ?k] @ map (\<lambda>j. s ! j) [axis + 1..<length s]"
  proof -
    have "take axis s = map (\<lambda>j. s ! j) [0..<?k] @ [s ! ?k]"
      using assms(1) k take_Suc_conv_app_nth [of ?k s] by (simp add: map_nth_upt)
    moreover have "drop (Suc axis) s = map (\<lambda>j. s ! j) [axis + 1..<length s]"
      by (simp add: map_nth_upt)
    ultimately show ?thesis by (simp add: remove_nth_def)
  qed
  then show ?thesis using False assms up
    by (simp add: grouped_def removed_axis_closed comp_def)
qed

lemma inserted_axis_closed:
  assumes "axis \<le> n" "0 < n"
  shows "inserted_axis_groups n axis =
           (if axis = n then map (\<lambda>j. [j]) [0..<n - 1] @ [[n - 1, n]]
            else map (\<lambda>j. [j]) [0..<axis] @ [[axis, axis + 1]] @ map (\<lambda>j. [j + 1]) [axis + 1..<n])"
proof (cases "axis = n")
  case True
  obtain m where m: "n = Suc m" using assms(2) by (cases n) auto
  have "map (\<lambda>i. if i = n then [i, i + 1] else if i < n then [i] else [i + 1]) [0..<n] = map (\<lambda>j. [j]) [0..<n]"
    by simp
  with True show ?thesis by (simp add: inserted_axis_groups_def Let_def m)
next
  case False
  then have up: "[0..<n] = [0..<axis] @ [axis] @ [axis + 1..<n]"
    using assms(1) upt_add_eq_append [of 0 axis "n - axis"] upt_conv_Cons [of axis n] by simp
  show ?thesis unfolding inserted_axis_groups_def Let_def up using False by simp
qed

lemma grouped_inserted_axis:
  assumes "axis \<le> length s" "s \<noteq> []"
  shows "grouped (inserted_axis_groups (length s) axis) (insert_nth axis 1 s) s"
proof (cases "axis = length s")
  case True
  obtain k where k: "length s = Suc k" using assms(2) by (cases s) auto
  have "map (\<lambda>j. s ! j) [0..<Suc k] = s" using map_nth [of s] k by simp
  then have s: "map (\<lambda>j. s ! j) [0..<k] @ [s ! k] = s" by simp
  have low: "map (\<lambda>j. (s @ [Suc 0]) ! j) [0..<k] = map (\<lambda>j. s ! j) [0..<k]"
      and top': "(s @ [Suc 0]) ! k = s ! k" "(s @ [Suc 0]) ! Suc k = Suc 0"
    using k by (auto simp: nth_append)
  show ?thesis using True assms k s
    by (simp add: grouped_def inserted_axis_closed comp_def insert_nth_def low top')
next
  case False
  with assms(1) have a: "axis < length s" by simp
  let ?t = "insert_nth axis 1 s"
  have up: "[0..<Suc (length s)] = [0..<axis] @ [axis, axis + 1] @ [axis + 2..<Suc (length s)]"
    using a upt_add_eq_append [of 0 axis "Suc (length s) - axis"] upt_conv_Cons [of axis "Suc (length s)"]
      upt_conv_Cons [of "Suc axis" "Suc (length s)"] by simp
  have sh: "concat (map (\<lambda>j. [j + 1]) [axis + 1..<length s]) = [axis + 2..<Suc (length s)]"
    using map_Suc_upt [of "axis + 1" "length s"] by (simp add: comp_def flip: map_Suc_upt)
  have low: "map (\<lambda>j. ?t ! j) [0..<axis] = map (\<lambda>j. s ! j) [0..<axis]"
    using a by (auto simp: insert_nth_def nth_append)
  have mid: "?t ! axis = 1" "?t ! Suc axis = s ! axis" using a by (simp_all add: insert_nth_def nth_append)
  have high: "map (\<lambda>j. ?t ! Suc j) [axis + 1..<length s] = map (\<lambda>j. s ! j) [axis + 1..<length s]"
    using a by (auto simp: insert_nth_def nth_append)
  have "s = map (\<lambda>j. s ! j) [0..<axis] @ [s ! axis] @ map (\<lambda>j. s ! j) [axis + 1..<length s]"
    using a id_take_nth_drop [of axis s] by (simp add: map_nth_upt)
  then have s: "map (\<lambda>j. ?t ! j) [0..<axis] @ [s ! axis] @ map (\<lambda>j. ?t ! Suc j) [axis + 1..<length s] = s"
    unfolding low high by (rule sym)
  show ?thesis using a False assms up sh mid s
    by (simp add: grouped_def inserted_axis_closed comp_def)
qed

text \<open>A scalar has no dimension to group with, but the groups of an inserted axis still have one.\<close>

lemma inserted_axis_scalar: "inserted_axis_groups 0 0 = [[0]]" "\<not> grouped (inserted_axis_groups 0 0) [1] []"
  by (simp_all add: inserted_axis_groups_def grouped_def)

section \<open>Squeezed dimensions\<close>

lemma squeezed_groups_invariant:
  assumes "length outs = length s" "index \<le> length s"
    and "concat groups @ pending = [0..<index]" "\<forall>i \<in> set pending. s ! i = 1"
    and "group_products s groups = map (\<lambda>i. s ! i) (filter (\<lambda>i. \<not> (s ! i = 1 \<and> outs ! i \<noteq> 1)) [0..<index])"
    and "filter (\<lambda>i. \<not> (s ! i = 1 \<and> outs ! i \<noteq> 1)) [0..<length s] \<noteq> []"
  shows "grouped (squeezed_groups index (zip (drop index s) (drop index outs)) groups pending) s
           (map (\<lambda>i. s ! i) (filter (\<lambda>i. \<not> (s ! i = 1 \<and> outs ! i \<noteq> 1)) [0..<length s]))"
  using assms
proof (induction "length s - index" arbitrary: index groups pending)
  case 0
  then have i: "index = length s" by simp
  show ?case
  proof (cases "pending = []")
    case True
    with 0 i show ?thesis by (simp add: grouped_def)
  next
    case False
    have "groups \<noteq> []" using 0 i by auto
    then obtain gs g where g: "groups = gs @ [g]" by (metis rev_exhaust)
    have ones: "prod_list (map (\<lambda>i. s ! i) pending) = 1"
      using 0(5) by (induction pending) auto
    have "grouped (gs @ [g @ pending]) s
        (map (\<lambda>i. s ! i) (filter (\<lambda>i. \<not> (s ! i = 1 \<and> outs ! i \<noteq> 1)) [0..<length s]))"
      using 0 i by (simp add: grouped_def g ones flip: append_assoc) (simp add: append_assoc)?
    with False i g show ?thesis by simp
  qed
next
  case (Suc n)
  then have i: "index < length s" "n = length s - Suc index" by linarith+
  have dims: "zip (drop index s) (drop index outs) =
      (s ! index, outs ! index) # zip (drop (Suc index) s) (drop (Suc index) outs)"
    using i Suc.prems(1) by (simp add: Cons_nth_drop_Suc [symmetric])
  show ?case
  proof (cases "s ! index = 1 \<and> outs ! index \<noteq> 1")
    case True
    have "grouped (squeezed_groups (Suc index) (zip (drop (Suc index) s) (drop (Suc index) outs)) groups
        (pending @ [index])) s
        (map (\<lambda>i. s ! i) (filter (\<lambda>i. \<not> (s ! i = 1 \<and> outs ! i \<noteq> 1)) [0..<length s]))"
      by (rule Suc.hyps(1)) (use Suc.prems True i in \<open>auto simp flip: append_assoc\<close>)
    with True dims show ?thesis by simp
  next
    case False
    have ones: "prod_list (map (\<lambda>i. s ! i) pending) = 1"
      using Suc.prems(4) by (induction pending) auto
    have "grouped (squeezed_groups (Suc index) (zip (drop (Suc index) s) (drop (Suc index) outs))
        (groups @ [pending @ [index]]) []) s
        (map (\<lambda>i. s ! i) (filter (\<lambda>i. \<not> (s ! i = 1 \<and> outs ! i \<noteq> 1)) [0..<length s]))"
      by (rule Suc.hyps(1)) (use Suc.prems False i ones in \<open>auto simp flip: append_assoc\<close>)
    with False dims show ?thesis by (simp del: de_Morgan_conj)
  qed
qed

lemma grouped_squeezed:
  assumes "length outs = length s" "filter (\<lambda>i. \<not> (s ! i = 1 \<and> outs ! i \<noteq> 1)) [0..<length s] \<noteq> []"
  shows "grouped (squeezed_groups 0 (zip s outs) [] []) s
           (map (\<lambda>i. s ! i) (filter (\<lambda>i. \<not> (s ! i = 1 \<and> outs ! i \<noteq> 1)) [0..<length s]))"
  using squeezed_groups_invariant [of outs s 0 "[]" "[]"] assms by simp

section \<open>Broadcast dimensions\<close>

lemma remove_nth_filter:
  assumes "axis < length s"
  shows "remove_nth axis s = map (\<lambda>i. s ! i) (filter (\<lambda>i. i \<noteq> axis) [0..<length s])"
proof -
  have "[0..<length s] = [0..<axis] @ axis # [Suc axis..<length s]"
    using assms by (metis append_Cons append_Nil le_add_diff_inverse less_imp_le_nat upt_add_eq_append upt_conv_Cons zero_le)
  moreover have "filter (\<lambda>i. i \<noteq> axis) [0..<axis] = [0..<axis]"
      "filter (\<lambda>i. i \<noteq> axis) [Suc axis..<length s] = [Suc axis..<length s]"
    by (simp_all add: filter_id_conv)
  ultimately show ?thesis using assms by (simp add: remove_nth_def map_nth_upt)
qed

lemma broadcast_onto:
  assumes "broadcast_shape_slices s t = Inr t"
  shows "length s \<le> length t"
    and "i < length s \<Longrightarrow> s ! i = 1 \<or> s ! i = t ! (length t - length s + i)"
proof -
  show len: "length s \<le> length t" using broadcast_length [OF assms] by simp
  show "s ! i = 1 \<or> s ! i = t ! (length t - length s + i)" if i: "i < length s"
  proof -
    let ?k = "length s - Suc i"
    have k: "?k < length s" "length s - Suc ?k = i" "length t - Suc ?k = length t - length s + i"
      using i len by linarith+
    have "join_dim (trail s ?k) (trail t ?k) = Some (trail t ?k)"
      using assms by (simp add: broadcast_trail_iff)
    moreover have "trail s ?k = Some (s ! i)" "trail t ?k = Some (t ! (length t - length s + i))"
      using k len by (simp_all add: trail_def rev_nth)
    ultimately show ?thesis by (auto split: if_splits)
  qed
qed

end
