(* ===== verification/Lower_Emit_Spec.thy ===== *)
theory Lower_Emit_Spec
  imports Lower_Groups
begin

text \<open>
  The elementwise lowering of \<^verbatim>\<open>emit.rs\<close> and the broadcasts build well-formed operations of the expected
  types.
\<close>

section \<open>Values in scope\<close>

definition vin :: "typings \<Rightarrow> lvalue \<Rightarrow> bool" where
  "vin \<Gamma> v \<longleftrightarrow> typing_of v \<subseteq> \<Gamma> \<and> kind_ok v"

definition has_ty :: "tensor_type \<Rightarrow> lvalue \<Rightarrow> bool" where
  "has_ty ty v \<longleftrightarrow> val_ty v = ty \<and> kind_ok v"

lemma vin_Un [simp]: "vin (\<Gamma> \<union> \<Delta>) v \<longleftrightarrow> vin \<Gamma> v \<or> vin \<Delta> v"
  by (auto simp: vin_def typing_of_def)

lemma vin_own [simp]: "vin (typing_of v) v \<longleftrightarrow> kind_ok v"
  by (simp add: vin_def)

lemma vin_empty [simp]: "\<not> vin {} v"
  by (simp add: vin_def typing_of_def)

lemma vin_typing: "vin \<Gamma> v \<Longrightarrow> typing_of v \<subseteq> \<Gamma>"
  by (simp add: vin_def)

lemma vin_kind: "vin \<Gamma> v \<Longrightarrow> kind_ok v"
  by (simp add: vin_def)

lemma is_value_ty: "is_value ty k v \<Longrightarrow> val_ty v = ty" "is_value ty k v \<Longrightarrow> val_kind v = k"
  by (simp_all add: is_value_def)

lemma is_value_kind_ok [simp]: "is_value ty Tensor v \<Longrightarrow> kind_ok v" "is_value (tensor e []) Scalar v \<Longrightarrow> kind_ok v"
  by (simp_all add: is_value_def kind_ok_def)

lemma is_value_has_ty: "is_value ty k v \<Longrightarrow> kind_ok v \<Longrightarrow> has_ty ty v"
  by (simp add: is_value_def has_ty_def)

lemma tensor_has_ty: "is_value ty Tensor v \<Longrightarrow> has_ty ty v"
  by (rule is_value_has_ty) simp_all

lemma scalar_has_ty: "is_value (tensor e []) Scalar v \<Longrightarrow> has_ty (tensor e []) v"
  by (rule is_value_has_ty) simp_all

lemma has_ty_simps: "has_ty ty v \<Longrightarrow> val_ty v = ty" "has_ty ty v \<Longrightarrow> kind_ok v"
  by (simp_all add: has_ty_def)

lemma scalar_count: "kind_ok v \<Longrightarrow> val_kind v = Scalar \<Longrightarrow> val_ty v = tensor (elem (val_ty v)) []"
  by (cases "val_ty v") (simp add: kind_ok_def rank_def)

lemma builds_has_ty:
  assumes "builds \<Gamma> m typing_of P" "\<And>v. P v \<Longrightarrow> has_ty ty v"
  shows "builds \<Gamma> m typing_of (has_ty ty)"
  using step_ok_weaken [OF assms(1) order_refl] assms(2) by blast

lemma builds_return: "vin \<Gamma> v \<Longrightarrow> P v \<Longrightarrow> builds \<Gamma> (sreturn v) typing_of P"
  by (rule main.ok_return) (simp_all add: vin_def)

lemma rank_0_iff: "rank ty = 0 \<longleftrightarrow> ty = tensor (elem ty) []"
  by (cases ty) (auto simp: rank_def)

lemma rank_0_count: "rank ty = 0 \<Longrightarrow> element_count ty = 1"
  by (simp add: rank_def element_count_def)

section \<open>Constants\<close>

lemma lower_constant_ok: "builds \<Gamma> (lower_constant v e) typing_of (is_value (tensor e []) Scalar)"
  unfolding lower_constant_def
  by (rule append_op_with_attrs_ok) (simp_all add: plain_names op_typings typed_rules)

lemma dense_attr_constant_ok:
  "builds \<Gamma> (append_op_with_attrs ''arith.constant'' [] ty Tensor attrs) typing_of (is_value ty Tensor)"
  by (rule append_op_with_attrs_ok) (simp_all add: plain_names op_typings typed_rules)

lemma lower_constant_has_ty: "rank ty = 0 \<Longrightarrow> builds \<Gamma> (lower_constant v (elem ty)) typing_of (has_ty ty)"
proof -
  assume "rank ty = 0"
  then have ty: "ty = tensor (elem ty) []" by (simp add: rank_0_iff)
  have "builds \<Gamma> (lower_constant v e) typing_of (has_ty (tensor e []))" for e
    by (rule builds_has_ty [OF lower_constant_ok scalar_has_ty])
  then show ?thesis by (subst (2) ty) simp
qed

lemma zero_like_ok: "builds \<Gamma> (zero_like ty) typing_of (has_ty ty)"
  unfolding zero_like_def
  by (rule main.ok_if)
     (auto intro: lower_constant_has_ty builds_has_ty [OF dense_attr_constant_ok] tensor_has_ty)

lemma one_like_ok: "builds \<Gamma> (one_like ty) typing_of (has_ty ty)"
  unfolding one_like_def
  by (rule main.ok_if)
     (auto intro: lower_constant_has_ty builds_has_ty [OF dense_attr_constant_ok] tensor_has_ty)

lemma dense_constant_ok:
  assumes "length vs = element_count ty"
  shows "builds \<Gamma> (dense_constant ty vs) typing_of (has_ty ty)"
proof (cases "rank ty = 0")
  case True
  then have "vs \<noteq> []" using assms rank_0_count by force
  then obtain v vs' where vs: "vs = v # vs'" by (cases vs) auto
  with True show ?thesis by (simp add: dense_constant_def lower_constant_has_ty)
next
  case False
  have "builds \<Gamma> (append_op_with_attrs ''arith.constant'' [] ty Tensor attrs) typing_of (has_ty ty)" for attrs
    by (rule builds_has_ty [OF dense_attr_constant_ok tensor_has_ty])
  with False assms show ?thesis by (simp add: dense_constant_def)
qed

lemma fill_constant_ok:
  "builds \<Gamma> (sbind (append_tensor_empty ty) (\<lambda>empty.
     sbind (lower_constant v (elem ty)) (\<lambda>scalar. append_linalg_fill scalar empty ty))) typing_of (is_value ty Tensor)"
  by (rule main.ok_bind [OF append_tensor_empty_ok], rule main.ok_bind [OF lower_constant_ok],
      rule append_linalg_fill_ok) auto

lemma zero_initialized_tensor_ok: "builds \<Gamma> (zero_initialized_tensor ty) typing_of (is_value ty Tensor)"
  unfolding zero_initialized_tensor_def by (rule fill_constant_ok)

section \<open>Scalars\<close>

lemma extract_first_scalar_ok:
  assumes "vin \<Gamma> v" "val_kind v = Tensor"
  shows "builds \<Gamma> (extract_first_scalar v) typing_of (is_value (tensor (elem (val_ty v)) []) Scalar)"
  unfolding extract_first_scalar_def
  by (rule main.ok_bind [OF append_index_constant_ok], rule append_tensor_extract_ok)
     (use assms in \<open>auto simp: vin_def\<close>)

lemma coerce_to_scalar_ok:
  assumes "vin \<Gamma> v" "element_count (val_ty v) = 1"
  shows "builds \<Gamma> (coerce_to_scalar v) typing_of (is_value (tensor (elem (val_ty v)) []) Scalar)"
proof (cases "val_kind v")
  case Scalar
  then have "val_ty v = tensor (elem (val_ty v)) []" using assms(1) by (intro scalar_count) (simp_all add: vin_def)
  with Scalar have "is_value (tensor (elem (val_ty v)) []) Scalar v" by (simp add: is_value_def)
  with Scalar assms(1) show ?thesis by (simp add: coerce_to_scalar_def builds_return)
next
  case Tensor
  with assms show ?thesis by (simp add: coerce_to_scalar_def extract_first_scalar_ok)
qed

lemma splat_ok:
  assumes "vin \<Gamma> v" "element_count (val_ty v) = 1" "elem (val_ty v) = elem ty"
  shows "builds \<Gamma> (splat v ty) typing_of (is_value ty Tensor)"
  unfolding splat_def
  by (rule main.ok_bind [OF coerce_to_scalar_ok], rule assms, rule assms,
      rule main.ok_bind [OF append_tensor_empty_ok], rule append_linalg_fill_ok)
     (use assms(3) in auto)

section \<open>Broadcasts\<close>

lemma emit_linalg_broadcast_ok:
  assumes v: "vin \<Gamma> v" "val_kind v = Tensor" "elem (val_ty v) = elem ty"
    and dims: "distinct dims" "\<forall>d \<in> set dims. d < rank ty"
    and s: "shape (val_ty v) = map (\<lambda>i. shape ty ! i) (filter (\<lambda>i. i \<notin> set dims) [0..<rank ty])"
  shows "builds \<Gamma> (emit_linalg_broadcast v ty dims) typing_of (is_value ty Tensor)"
  unfolding emit_linalg_broadcast_def
  by (rule main.ok_bind [OF append_tensor_empty_ok], rule main.ok_bind_pure [OF main.ok_dense_i64],
      hypsubst, rule append_named_linalg_ok)
     (use assms in \<open>auto simp: vin_def op_typings linalg_broadcast_typed_def value_ty_kind dense_i32_attr_def
        intro!: exI [of _ "val_ty v"]\<close>)

lemma filter_shift: "filter P [n..<n + k] = map ((+) n) (filter (\<lambda>i. P (n + i)) [0..<k])"
proof -
  have "[n..<n + k] = map ((+) n) [0..<k]" by (rule nth_equalityI) simp_all
  then show ?thesis by (simp add: filter_map comp_def)
qed

text \<open>The dimensions that a broadcast adds, and those that it stretches.\<close>

definition added_dims :: "nat list \<Rightarrow> nat list \<Rightarrow> nat list" where
  "added_dims s t =
     [0..<length t - length s] @
     map (\<lambda>i. length t - length s + i) (filter (stretched s t (length t - length s)) [0..<length s])"

lemma kept_dims:
  assumes "length s \<le> length t"
  shows "filter (\<lambda>i. i \<notin> set (added_dims s t)) [0..<length t] =
           map ((+) (length t - length s)) (filter (\<lambda>i. \<not> stretched s t (length t - length s) i) [0..<length s])"
proof -
  let ?p = "length t - length s"
  have "[0..<length t] = [0..<?p] @ [?p..<?p + length s]"
    using assms upt_add_eq_append [of 0 ?p "length s"] by simp
  moreover have "filter (\<lambda>i. i \<notin> set (added_dims s t)) [0..<?p] = []"
    by (auto simp: filter_empty_conv added_dims_def)
  moreover have "filter (\<lambda>i. i \<notin> set (added_dims s t)) [?p..<?p + length s] =
      map ((+) ?p) (filter (\<lambda>i. \<not> stretched s t ?p i) [0..<length s])"
    unfolding filter_shift by (rule arg_cong [where f = "map ((+) ?p)"], rule filter_cong)
      (auto simp: added_dims_def)
  ultimately show ?thesis by simp
qed

lemma added_dims_ok: "distinct (added_dims s t)" "length s \<le> length t \<Longrightarrow> d \<in> set (added_dims s t) \<Longrightarrow> d < length t"
  by (auto simp: added_dims_def distinct_map inj_on_def)

lemma kept_shape:
  assumes "broadcast_shape_slices s t = Inr t"
  shows "map (\<lambda>i. s ! i) (filter (\<lambda>i. \<not> stretched s t (length t - length s) i) [0..<length s]) =
           map (\<lambda>i. t ! i) (filter (\<lambda>i. i \<notin> set (added_dims s t)) [0..<length t])"
  unfolding kept_dims [OF broadcast_onto(1) [OF assms]] map_map
proof (rule map_cong [OF refl])
  fix i
  assume "i \<in> set (filter (\<lambda>i. \<not> stretched s t (length t - length s) i) [0..<length s])"
  then have "i < length s" "s ! i = 1 \<Longrightarrow> t ! (length t - length s + i) = 1" by (auto simp: stretched_def)
  then show "s ! i = ((!) t \<circ> (+) (length t - length s)) i" using broadcast_onto(2) [OF assms, of i]
    by (cases "s ! i = 1") auto
qed

lemma squeeze_ok:
  assumes v: "vin \<Gamma> v" "val_kind v = Tensor" "elem (val_ty v) = elem ty"
    and b: "broadcast_shape_slices (shape (val_ty v)) (shape ty) = Inr (shape ty)"
    and c: "element_count (val_ty v) \<noteq> 1"
  shows "builds \<Gamma> (squeeze_singleton_broadcast_dims v ty) (\<lambda>(v', dims). typing_of v')
     (\<lambda>(v', dims). dims = added_dims (shape (val_ty v)) (shape ty) \<and>
        is_value (tensor (elem ty) (map (\<lambda>i. shape ty ! i) (filter (\<lambda>i. i \<notin> set dims) [0..<rank ty]))) Tensor v')"
proof -
  let ?s = "shape (val_ty v)" and ?t = "shape ty"
  let ?p = "length ?t - length ?s"
  let ?kept = "filter (\<lambda>i. \<not> stretched ?s ?t ?p i) [0..<length ?s]"
  have len: "length ?s \<le> length ?t" by (rule broadcast_onto(1) [OF b])
  then have pad: "usize_sub (rank ty) (rank (val_ty v)) = Inr ?p" by (simp add: usize_sub_def rank_def)
  have kept: "?kept \<noteq> []"
  proof
    assume "?kept = []"
    then have "\<forall>i < length ?s. ?s ! i = 1" by (auto simp: filter_empty_conv stretched_def)
    then have "?s = replicate (length ?s) 1" by (auto intro: nth_equalityI)
    moreover have "prod_list (replicate n (1 :: nat)) = 1" for n by (induction n) simp_all
    ultimately have "prod_list ?s = 1" by metis
    with c show False by (simp add: element_count_def)
  qed
  show ?thesis
  proof (cases "filter (stretched ?s ?t ?p) [0..<length ?s] = []")
    case True
    then have "?kept = [0..<length ?s]" by (simp add: filter_empty_conv)
    then have "?s = map (\<lambda>i. ?t ! i) (filter (\<lambda>i. i \<notin> set (added_dims ?s ?t)) [0..<rank ty])"
      using kept_shape [OF b] by (simp add: map_nth rank_def)
    then have "is_value (tensor (elem ty) (map (\<lambda>i. ?t ! i)
        (filter (\<lambda>i. i \<notin> set (added_dims ?s ?t)) [0..<rank ty]))) Tensor v"
      using v by (cases "val_ty v") (simp add: is_value_def)
    then show ?thesis using True v(1)
      unfolding squeeze_singleton_broadcast_dims_def Let_def
      by (intro main.ok_bind_pure [OF main.ok_lift [OF pad, where P = "\<lambda>x. x = ?p"]])
         (auto simp: vin_def added_dims_def intro!: main.ok_return)
  next
    case False
    let ?sq = "map (\<lambda>i. ?s ! i) ?kept"
    have aligned: "length (drop ?p ?t) = length ?s" using len by simp
    have kept_eq: "?kept = filter (\<lambda>i. \<not> (?s ! i = 1 \<and> drop ?p ?t ! i \<noteq> 1)) [0..<length ?s]"
      using len by (intro filter_cong) (auto simp: stretched_def)
    have grouped: "grouped (squeezed_groups 0 (zip ?s (drop ?p ?t)) [] []) ?s ?sq"
      using grouped_squeezed [OF aligned] kept unfolding kept_eq by blast
    have sq: "?sq = map (\<lambda>i. ?t ! i) (filter (\<lambda>i. i \<notin> set (added_dims ?s ?t)) [0..<rank ty])"
      using kept_shape [OF b] by (simp add: rank_def)
    have "builds \<Gamma> (append_reassociation_op ''tensor.collapse_shape'' v (tensor (elem (val_ty v)) ?sq)
        (collapse_reassociation_for_squeezed_broadcast ?s (drop ?p ?t)) None) typing_of
        (is_value (tensor (elem (val_ty v)) ?sq) Tensor)"
      by (rule append_collapse_ok)
         (use v grouped in \<open>auto simp: vin_def collapse_reassociation_for_squeezed_broadcast_def\<close>)
    then have step: "builds \<Gamma> (sbind (append_reassociation_op ''tensor.collapse_shape'' v
          (tensor (elem (val_ty v)) ?sq)
          (collapse_reassociation_for_squeezed_broadcast ?s (drop ?p ?t)) None)
        (\<lambda>squeezed. sreturn (squeezed, added_dims ?s ?t))) (\<lambda>(v', dims). typing_of v')
        (\<lambda>(v', dims). dims = added_dims ?s ?t \<and> is_value (tensor (elem ty)
           (map (\<lambda>i. ?t ! i) (filter (\<lambda>i. i \<notin> set dims) [0..<rank ty]))) Tensor v')"
      by (rule main.ok_bind, intro main.ok_return) (use v(3) sq in auto)
    show ?thesis unfolding squeeze_singleton_broadcast_dims_def Let_def
      by (rule main.ok_bind_pure [OF main.ok_lift [OF pad, where P = "\<lambda>x. x = ?p"]], simp, simp, hypsubst)
         (use step False kept in \<open>simp add: added_dims_def\<close>)
  qed
qed

lemma kind_ok_count: "kind_ok v \<Longrightarrow> val_kind v = Scalar \<Longrightarrow> element_count (val_ty v) = 1"
  by (rule rank_0_count) (simp add: kind_ok_def)

lemma is_value_simps: "is_value ty k v \<longleftrightarrow> val_ty v = ty \<and> val_kind v = k"
  by (simp add: is_value_def)

definition fills :: "tensor_type \<Rightarrow> tensor_type \<Rightarrow> bool" where
  "fills a ty \<longleftrightarrow>
     elem a = elem ty \<and>
     (element_count a = 1 \<or> broadcast_shape_slices (shape a) (shape ty) = Inr (shape ty))"

lemma fills_refl [simp]: "fills ty ty"
  by (simp add: fills_def)

lemma lower_broadcast_ok:
  assumes v: "vin \<Gamma> v" and f: "fills (val_ty v) ty"
  shows "builds \<Gamma> (lower_broadcast v ty) typing_of (is_value ty Tensor)"
proof -
  note e = f [unfolded fills_def, THEN conjunct1]
  have splat: "builds \<Gamma> (splat v ty) typing_of (is_value ty Tensor)" if "element_count (val_ty v) = 1"
    by (rule splat_ok [OF v that e])
  have first: "builds \<Gamma> (sbind (extract_first_scalar v) (\<lambda>scalar. splat scalar ty)) typing_of (is_value ty Tensor)"
    if "val_kind v = Tensor"
    by (rule main.ok_bind [OF extract_first_scalar_ok [OF v that]], rule splat_ok)
       (auto simp: is_value_simps e element_count_def vin_def kind_ok_def)
  have general: "builds \<Gamma> (sbind (ensure_broadcastable (val_ty v) ty) (\<lambda>_.
        sbind (squeeze_singleton_broadcast_dims v ty) (\<lambda>(v', dimensions).
        emit_linalg_broadcast v' ty dimensions))) typing_of (is_value ty Tensor)"
    if k: "val_kind v = Tensor" and c: "element_count (val_ty v) \<noteq> 1"
  proof -
    from f c have b: "broadcast_shape_slices (shape (val_ty v)) (shape ty) = Inr (shape ty)"
      by (simp add: fills_def)
    have check: "builds \<Gamma> (ensure_broadcastable (val_ty v) ty) (\<lambda>_. {}) (\<lambda>_. True)"
      unfolding ensure_broadcastable_def lower_broadcast_shape_def
      by (rule main.ok_bind_pure [OF main.ok_check [OF e]],
          rule main.ok_bind_pure [OF main.ok_lift [OF b, where P = "\<lambda>x. x = shape ty"]])
         (auto intro: main.ok_check)
    show ?thesis
      by (rule main.ok_bind_pure [OF check], rule main.ok_bind [OF squeeze_ok [OF v k e b c]])
         (auto intro!: emit_linalg_broadcast_ok [OF _ _ _ added_dims_ok(1)]
            dest: added_dims_ok(2) [OF broadcast_onto(1) [OF b]] simp: is_value_simps vin_def kind_ok_def rank_def)
  qed
  show ?thesis
  proof (cases "val_kind v")
    case Scalar
    with splat show ?thesis using v by (simp add: lower_broadcast_def kind_ok_count vin_kind)
  next
    case Tensor
    with splat first general show ?thesis using v unfolding lower_broadcast_def
      by (auto intro!: main.ok_if builds_return simp: is_value_simps rank_0_count)
  qed
qed

lemma ok_check_loop:
  "(\<And>i. i < length xs \<Longrightarrow> builds \<Gamma> (f (xs ! i) ()) (\<lambda>_. {}) (\<lambda>_. True)) \<Longrightarrow>
     builds \<Gamma> (sfold f xs ()) (\<lambda>_. {}) (\<lambda>_. True)"
  by (rule main.ok_sfold [where G = "\<lambda>_. {}" and P = "\<lambda>_ _. True"]) simp_all

lemma broadcast_along_axis_ok:
  assumes v: "vin \<Gamma> v" and e: "elem (val_ty v) = elem ty"
    and s: "axis < rank ty" "shape (val_ty v) = remove_nth axis (shape ty)"
  shows "builds \<Gamma> (broadcast_along_axis v ty axis) typing_of (is_value ty Tensor)"
proof -
  have rk: "rank (val_ty v) + 1 = rank ty" using s by (simp add: rank_def length_remove_nth)
  then have ne: "val_ty v \<noteq> ty" by auto
  have splat: "builds \<Gamma> (splat v ty) typing_of (is_value ty Tensor)" if "element_count (val_ty v) = 1"
    by (rule splat_ok [OF v that e])
  have first: "builds \<Gamma> (sbind (coerce_to_scalar v) (\<lambda>scalar. splat scalar ty)) typing_of (is_value ty Tensor)"
    if "element_count (val_ty v) = 1"
    by (rule main.ok_bind [OF coerce_to_scalar_ok [OF v that]], rule splat_ok)
       (auto simp: is_value_simps e element_count_def vin_def kind_ok_def)
  have check: "builds \<Gamma> (ensure_axis_broadcastable (val_ty v) ty axis) (\<lambda>_. {}) (\<lambda>_. True)"
    unfolding ensure_axis_broadcastable_def
  proof (rule main.ok_bind_pure [OF main.ok_check [OF e]], rule main.ok_bind_pure [OF main.ok_check [OF rk]],
      rule ok_check_loop)
    fix i
    assume "i < length [0..<rank ty]"
    then have i: "i < rank ty" by simp
    show "builds \<Gamma> (if [0..<rank ty] ! i = axis then sreturn ()
        else let input_index = if [0..<rank ty] ! i < axis then [0..<rank ty] ! i else [0..<rank ty] ! i - 1
          in sbind (slift (idx (shape (val_ty v)) input_index)) (\<lambda>i'.
             sbind (slift (idx (shape ty) ([0..<rank ty] ! i))) (\<lambda>n. scheck (i' = n) AxisBroadcastDims)))
        (\<lambda>_. {}) (\<lambda>_. True)"
    proof (cases "i = axis")
      case True
      with i show ?thesis by (auto intro: main.ok_return)
    next
      case False
      let ?j = "if i < axis then i else i - 1"
      have j: "?j < length (shape (val_ty v))" "shape (val_ty v) ! ?j = shape ty ! i"
        using i s rk False by (auto simp: rank_def nth_remove_nth)
      have 1: "idx (shape (val_ty v)) ?j = Inr (shape ty ! i)" "idx (shape ty) i = Inr (shape ty ! i)"
        using j i by (simp_all add: idx_Inr_iff rank_def)
      have "builds \<Gamma> (sbind (slift (idx (shape (val_ty v)) ?j)) (\<lambda>i'.
          sbind (slift (idx (shape ty) i)) (\<lambda>n. scheck (i' = n) AxisBroadcastDims))) (\<lambda>_. {}) (\<lambda>_. True)"
        by (rule main.ok_bind_pure [OF main.ok_lift [OF 1(1), where P = "\<lambda>x. x = shape ty ! i"]], simp, simp,
            rule main.ok_bind_pure [OF main.ok_lift [OF 1(2), where P = "\<lambda>x. x = shape ty ! i"]], simp, simp,
            rule main.ok_check, simp)
      then show ?thesis using False i by (cases "i < axis") (simp_all add: Let_def)
    qed
  qed
  have kept: "shape (val_ty v) = map (\<lambda>i. shape ty ! i) (filter (\<lambda>i. i \<notin> set [axis]) [0..<rank ty])"
    using s remove_nth_filter [of axis "shape ty"] by (simp add: rank_def)
  have dims: "builds \<Gamma> (axis_broadcast_dimensions (rank (val_ty v)) (rank ty) axis) (\<lambda>_. {}) (\<lambda>x. x = [axis])"
    unfolding axis_broadcast_dimensions_def
    by (rule main.ok_bind_pure [OF main.ok_check [OF rk]], rule main.ok_bind_pure [OF main.ok_check [OF s(1)]],
        rule main.ok_return) simp_all
  have general: "builds \<Gamma> (sbind (ensure_axis_broadcastable (val_ty v) ty axis) (\<lambda>_.
        sbind (axis_broadcast_dimensions (rank (val_ty v)) (rank ty) axis) (\<lambda>dimensions.
        emit_linalg_broadcast v ty dimensions))) typing_of (is_value ty Tensor)" if "val_kind v = Tensor"
    by (rule main.ok_bind_pure [OF check], rule main.ok_bind_pure [OF dims], hypsubst,
        rule emit_linalg_broadcast_ok [OF v that e _ _ kept]) (use s in simp_all)
  show ?thesis
  proof (cases "val_kind v")
    case Scalar
    with splat show ?thesis using v by (simp add: broadcast_along_axis_def kind_ok_count vin_kind)
  next
    case Tensor
    with first general show ?thesis using v ne unfolding broadcast_along_axis_def
      by (auto intro!: main.ok_if simp: rank_0_count)
  qed
qed

lemma coerce_to_kind_ok:
  assumes "vin \<Gamma> v" "fills (val_ty v) ty" "kind = Scalar \<longrightarrow> element_count (val_ty v) = 1 \<and> rank ty = 0"
  shows "builds \<Gamma> (coerce_to_kind v ty kind) typing_of (is_value ty kind)"
proof (cases kind)
  case Scalar
  then have "ty = tensor (elem (val_ty v)) []" using assms(2,3) by (cases ty) (auto simp: fills_def rank_def)
  with Scalar coerce_to_scalar_ok [OF assms(1)] assms(3) show ?thesis by (simp add: coerce_to_kind_def)
next
  case Tensor
  with lower_broadcast_ok [OF assms(1,2)] show ?thesis by (simp add: coerce_to_kind_def)
qed

end
