(* ===== verification/Lower_Elementwise.thy ===== *)
theory Lower_Elementwise
  imports Lower_Emit_Spec
begin

text \<open>
  The elementwise builders of \<^verbatim>\<open>emit.rs\<close>: an operation on elements becomes an operation on tensors of rank 0
  or a loop over the result, with its operands broadcast to the shape of the result.
\<close>

section \<open>Predicates and bodies\<close>

definition predicate_known :: "string \<Rightarrow> string option \<Rightarrow> bool" where
  "predicate_known name predicate \<longleftrightarrow>
     (\<forall>p. predicate = Some p \<longrightarrow>
        (name = ''arith.cmpf'' \<longrightarrow> p \<in> fst ` set cmpf_predicates) \<and>
        (name = ''arith.cmpi'' \<longrightarrow> p \<in> fst ` set cmpi_predicates))"

lemma predicate_known_None [simp]: "predicate_known name None"
  by (simp add: predicate_known_def)

lemma predicate_known_compare [simp]:
  "predicate_known ''arith.cmpf'' (Some p) \<longleftrightarrow> p \<in> fst ` set cmpf_predicates"
  "predicate_known ''arith.cmpi'' (Some p) \<longleftrightarrow> p \<in> fst ` set cmpi_predicates"
  by (simp_all add: predicate_known_def)

context ssa_state
begin

lemma ok_table:
  assumes "p \<in> fst ` set table"
  shows "step_ok good T keeps \<Gamma> (slift (of_option e (map_of table p))) (\<lambda>_. {}) (\<lambda>_. True)"
proof -
  from assms obtain n where "map_of table p = Some n" by (auto dest: weak_map_of_SomeI)
  then show ?thesis by (auto intro: ok_lift)
qed

lemma ok_predicate_attr:
  assumes "predicate_known name predicate"
  shows "step_ok good T keeps \<Gamma> (predicate_attr name predicate) (\<lambda>_. {}) (\<lambda>_. True)"
  using assms unfolding predicate_attr_def predicate_known_def cmpf_predicate_value_def cmpi_predicate_value_def
  by (auto split: option.split intro!: ok_return ok_bind_pure [OF ok_table])

end

lemma append_region_like_scalar_op_ok:
  assumes "predicate_known name predicate" "plain_name name" "\<forall>v \<in> set operands. typing_of v \<subseteq> \<Gamma>"
    and "kind = Scalar \<longrightarrow> rank ty = 0"
    and "\<And>attrs. op_typed name attrs (map value_ty operands)
           [case kind of Scalar \<Rightarrow> MElem (elem ty) | Tensor \<Rightarrow> MTensor ty]"
  shows "builds \<Gamma> (append_region_like_scalar_op name operands ty kind predicate) typing_of (is_value ty kind)"
  unfolding append_region_like_scalar_op_def
  by (rule main.ok_bind_pure [OF main.ok_predicate_attr [OF assms(1)]],
      rule append_op_with_attrs_ok [OF assms(2-4)]) (rule assms(5))

lemma scalar_body_ok:
  assumes "predicate_known name predicate" "plain_name name" "\<forall>i \<in> set positions. i < length tys"
    and "\<And>attrs. op_typed name attrs (map (\<lambda>i. tys ! i) positions) [MElem e]"
  shows "body_ok \<Gamma> tys [MElem e] (scalar_body name predicate e positions ctx)"
proof (rule body_okI [where G = "\<lambda>rs. typing_list rs [MElem e]" and P = "\<lambda>rs. length rs = 1"])
  fix outer
  have args: "typing_list (map (\<lambda>i. region_args tys ! i) positions) (map (\<lambda>i. tys ! i) positions)
      \<subseteq> \<Gamma> \<union> args_typing tys"
    using assms(3) by (induction positions) auto
  show "region_builds outer tys (\<Gamma> \<union> args_typing tys) (scalar_body name predicate e positions ctx (region_args tys))
      (\<lambda>rs. typing_list rs [MElem e]) (\<lambda>rs. length rs = 1)"
    unfolding scalar_body_def
    by (rule region.ok_bind_pure [OF region.ok_predicate_attr [OF assms(1)]],
        rule region.ok_bind_pure [OF region.ok_elem_type], hypsubst,
        rule region.ok_bind [OF region.block_op_ok [OF assms(2) args]], simp, rule assms(4),
        rule region.ok_return) simp_all
qed simp

section \<open>Elementwise operations\<close>

text \<open>An operation on elements that also applies to tensors.\<close>

definition elementwise :: "string \<Rightarrow> element_type list \<Rightarrow> element_type \<Rightarrow> bool" where
  "elementwise name es e \<longleftrightarrow>
     plain_name name \<and>
     (\<forall>attrs. op_typed name attrs (map MElem es) [MElem e] \<and>
        op_typed name attrs (map (\<lambda>e. MTensor (tensor e [])) es) [MTensor (tensor e [])])"

lemma elementwise_ops:
  "name \<in> set float_binary_ops \<Longrightarrow> is_float e \<Longrightarrow> elementwise name [e, e] e"
  "name \<in> set int_binary_ops \<Longrightarrow> \<not> is_float e \<Longrightarrow> elementwise name [e, e] e"
  "is_float e \<Longrightarrow> elementwise ''arith.cmpf'' [e, e] Bool"
  "\<not> is_float e \<Longrightarrow> elementwise ''arith.cmpi'' [e, e] Bool"
  "elementwise ''arith.select'' [Bool, e, e] e"
  by (auto simp: elementwise_def plain_names op_typings float_binary_typed int_binary_typed typed_rules select_typed_def compare_typed_def)

text \<open>The loop over the elements.\<close>

lemma elementwise_loop_ok:
  assumes name: "elementwise name (map (\<lambda>i. elem (val_ty (vs ! i))) positions) (elem ty)"
      "predicate_known name predicate" "\<forall>i \<in> set positions. i < length vs"
    and vs: "\<forall>v \<in> set vs. vin \<Gamma> v \<and> val_kind v = Tensor \<and> shape (val_ty v) = shape ty"
    and maps: "maps = replicate (Suc (length vs)) (identity_map (rank ty))"
  shows "builds \<Gamma> (sbind (append_tensor_empty ty) (\<lambda>output.
           append_generic_tensor vs output ty (rank ty) maps (parallel (rank ty))
             (scalar_body name predicate (elem ty) positions))) typing_of (is_value ty Tensor)"
proof (rule main.ok_bind [OF append_tensor_empty_ok],
    rule append_generic_tensor_ok [where in_maps = "replicate (length vs) (identity_dims (rank ty))"
      and out_map = "identity_dims (rank ty)" and extents = "shape ty"])
  let ?tys = "map (\<lambda>v. MElem (elem (val_ty v))) vs @ [MElem (elem ty)]"
  have fit: "operand_fits (shape ty) (identity_dims (rank ty)) (value_ty v)" if "v \<in> set vs" for v
    using vs that identity_fits_rank [of "shape ty" "val_ty v"] by (simp add: value_ty_kind rank_def)
  have "list_all2 (operand_fits (shape ty)) (replicate (length vs) (identity_dims (rank ty))) (map value_ty vs)"
    by (auto simp: list_all2_conv_all_nth fit)
  then show "loops_fit (shape ty) (replicate (length vs) (identity_dims (rank ty))) [identity_dims (rank ty)]
      (parallel (rank ty)) (map value_ty vs @ [MTensor ty])" by (rule elementwise_loops_fit)
  show "maps = map affine_tuple (replicate (length vs) (identity_dims (rank ty)) @ [identity_dims (rank ty)])"
    using maps by (simp add: replicate_append_same)
  have positions: "map (\<lambda>i. ?tys ! i) positions = map MElem (map (\<lambda>i. elem (val_ty (vs ! i))) positions)"
    using name(3) by (auto simp: nth_append)
  show "body_ok (\<Gamma> \<union> typing_of dest) ?tys [MElem (elem ty)] (scalar_body name predicate (elem ty) positions ctx)"
    for ctx dest
  proof (rule scalar_body_ok [OF name(2)])
    show "plain_name name" using name(1) by (simp add: elementwise_def)
    show "\<forall>i \<in> set positions. i < length ?tys" using name(3) by auto
    show "op_typed name attrs (map (\<lambda>i. ?tys ! i) positions) [MElem (elem ty)]" for attrs
      unfolding positions using name(1) by (simp add: elementwise_def)
  qed
qed (use vs in \<open>auto simp: vin_def rank_def\<close>)

lemma emit_unary_ok:
  assumes "vin \<Gamma> v" "plain_name name" "op_typed name [] [value_ty v] [value_ty v]"
  shows "builds \<Gamma> (emit_unary name v) typing_of (is_value (val_ty v) (val_kind v))"
  unfolding emit_unary_def
  by (rule append_op_ok)
     (use assms in \<open>auto simp: vin_def kind_ok_def value_ty_def split: value_kind.splits\<close>)

lemma float_unary_ok:
  assumes "vin \<Gamma> v" "name \<in> set float_unary_ops" "is_float (elem (val_ty v))"
  shows "builds \<Gamma> (emit_unary name v) typing_of (is_value (val_ty v) (val_kind v))"
  by (rule emit_unary_ok) (use assms in \<open>simp_all add: plain_names float_unary_typed typed_rules\<close>)

lemma vin_value: "is_value ty Tensor v \<Longrightarrow> vin (\<Gamma> \<union> typing_of v) v"
  by (simp add: vin_def is_value_simps kind_ok_def)

lemma vin_has_ty: "has_ty ty v \<Longrightarrow> vin (\<Gamma> \<union> typing_of v) v"
  by (simp add: vin_def has_ty_def)

lemma vin_left: "vin \<Gamma> v \<Longrightarrow> vin (\<Gamma> \<union> \<Delta>) v"
  by simp

lemma fills_Inr:
  "broadcast_shape_slices s (shape ty) = Inr (shape ty) \<Longrightarrow> elem ty = e \<Longrightarrow> fills (tensor e s) ty"
  by (simp add: fills_def)

lemma value_as_tensor: "tensor (elem ty) (shape ty) = ty"
  by (cases ty) simp

lemma emit_binary_ok:
  assumes l: "vin \<Gamma> l" and r: "vin \<Gamma> r"
    and e: "elem (val_ty l) = e" "elem (val_ty r) = e"
    and s: "broadcast_shape_slices (shape (val_ty l)) (shape (val_ty r)) = Inr s"
    and name: "name \<in> set float_binary_ops \<and> is_float e \<or> name \<in> set int_binary_ops \<and> \<not> is_float e"
  shows "builds \<Gamma> (emit_binary name l r) typing_of (has_ty (tensor e s))"
proof -
  let ?ty = "tensor e s"
  let ?kind = "if rank ?ty = 0 \<and> val_kind l = Scalar \<and> val_kind r = Scalar then Scalar else Tensor"
  have fills: "fills (val_ty l) ?ty" "fills (val_ty r) ?ty"
    using e bc.upper_left [OF s] bc.upper_right [OF s] by (simp_all add: fills_def)
  have scalar: "?kind = Scalar \<longrightarrow> element_count (val_ty v) = 1 \<and> rank ?ty = 0" if "v = l \<or> v = r" for v
    using that l r by (auto simp: kind_ok_count vin_def)
  have typed: "op_typed name [] [t, t] [t]" if "float_ty t = is_float e" for t
    using name that by (auto simp: float_binary_typed int_binary_typed typed_rules)
  have "builds \<Gamma> (broadcast_result_type (val_ty l) (val_ty r)) (\<lambda>_. {}) (\<lambda>ty. ty = ?ty)"
    unfolding broadcast_result_type_def lower_broadcast_shape_def
    by (rule main.ok_bind_pure [OF main.ok_check], simp add: e,
        rule main.ok_bind_pure [OF main.ok_lift [OF s, where P = "\<lambda>x. x = s"]])
       (auto intro: main.ok_return simp: e)
  then show ?thesis unfolding emit_binary_def Let_def
  proof (rule main.ok_bind_pure, hypsubst)
    show "builds \<Gamma> (sbind (coerce_to_kind l ?ty ?kind) (\<lambda>l'. sbind (coerce_to_kind r ?ty ?kind) (\<lambda>r'.
        append_op name [l', r'] ?ty ?kind))) typing_of (has_ty ?ty)"
    proof (rule main.ok_bind [OF coerce_to_kind_ok [OF l fills(1)]], rule scalar, simp,
        rule main.ok_bind [OF coerce_to_kind_ok [OF vin_left [OF r] fills(2)]], rule scalar, simp)
      fix l' r'
      assume v: "is_value ?ty ?kind l'" "is_value ?ty ?kind r'"
      have "builds (\<Gamma> \<union> typing_of l' \<union> typing_of r') (append_op name [l', r'] ?ty ?kind) typing_of
          (is_value ?ty ?kind)"
        by (rule append_op_ok) (use v name in \<open>auto simp: is_value_simps value_ty_def plain_names intro: typed\<close>)
      then show "builds (\<Gamma> \<union> typing_of l' \<union> typing_of r') (append_op name [l', r'] ?ty ?kind) typing_of (has_ty ?ty)"
        by (rule builds_has_ty) (auto simp: is_value_simps has_ty_def kind_ok_def)
    qed
  qed
qed

lemma binary_op_name_groups:
  "binary_op_name True bop \<in> set float_binary_ops" "binary_op_name False bop \<in> set int_binary_ops"
  by (cases bop; simp add: float_binary_ops_def int_binary_ops_def)+

lemma operand_elem_same: "elem (val_ty l) = e \<Longrightarrow> elem (val_ty r) = e \<Longrightarrow> operand_elem l r = e"
  by (simp add: operand_elem_def)

lemma chosen_binary_ok:
  assumes "vin \<Gamma> l" "vin \<Gamma> r" "elem (val_ty l) = e" "elem (val_ty r) = e"
    and "broadcast_shape_slices (shape (val_ty l)) (shape (val_ty r)) = Inr s"
    and "f \<in> set float_binary_ops" "i \<in> set int_binary_ops"
  shows "builds \<Gamma> (emit_binary (if is_float (operand_elem l r) then f else i) l r) typing_of (has_ty (tensor e s))"
  by (rule emit_binary_ok [OF assms(1-5)]) (use assms(6,7) operand_elem_same [OF assms(3,4)] in auto)

lemma binary_value_ok:
  assumes "vin \<Gamma> l" "vin \<Gamma> r" "elem (val_ty l) = e" "elem (val_ty r) = e"
    and "broadcast_shape_slices (shape (val_ty l)) (shape (val_ty r)) = Inr s"
  shows "builds \<Gamma> (binary_value bop l r) typing_of (has_ty (tensor e s))"
  using chosen_binary_ok [OF assms binary_op_name_groups]
  by (cases "is_float (operand_elem l r)") (simp_all add: binary_value_def)

lemma lower_minimum_ok:
  assumes "vin \<Gamma> l" "vin \<Gamma> r" "elem (val_ty l) = e" "elem (val_ty r) = e"
    and "broadcast_shape_slices (shape (val_ty l)) (shape (val_ty r)) = Inr s"
  shows "builds \<Gamma> (lower_minimum l r) typing_of (has_ty (tensor e s))"
  unfolding lower_minimum_def
  by (rule chosen_binary_ok [OF assms]) (simp_all add: float_binary_ops_def int_binary_ops_def)

lemma lower_maximum_ok:
  assumes "vin \<Gamma> l" "vin \<Gamma> r" "elem (val_ty l) = e" "elem (val_ty r) = e"
    and "broadcast_shape_slices (shape (val_ty l)) (shape (val_ty r)) = Inr s"
  shows "builds \<Gamma> (lower_maximum l r) typing_of (has_ty (tensor e s))"
  unfolding lower_maximum_def
  by (rule chosen_binary_ok [OF assms]) (simp_all add: float_binary_ops_def int_binary_ops_def)

section \<open>Comparisons, logic and selection\<close>

lemma elementwise_at_kind:
  assumes "elementwise name es e" "list_all2 (\<lambda>v e. is_value (tensor e []) kind v) vs es"
  shows "op_typed name attrs (map value_ty vs) [case kind of Scalar \<Rightarrow> MElem e | Tensor \<Rightarrow> MTensor (tensor e [])]"
proof -
  have "map value_ty vs = map (\<lambda>e. case kind of Scalar \<Rightarrow> MElem e | Tensor \<Rightarrow> MTensor (tensor e [])) es"
    using assms(2) by (induction rule: list_all2_induct) (auto simp: is_value_simps value_ty_def split: value_kind.split)
  with assms(1) show ?thesis by (cases kind) (simp_all add: elementwise_def)
qed

lemma elementwise_scalar_ok:
  assumes name: "elementwise name es (elem ty)" "predicate_known name predicate" and ty: "rank ty = 0"
    and vs: "list_all2 (\<lambda>v e. is_value (tensor e []) kind v) vs es" "\<forall>v \<in> set vs. typing_of v \<subseteq> \<Gamma>"
  shows "builds \<Gamma> (append_region_like_scalar_op name vs ty kind predicate) typing_of (has_ty ty)"
proof -
  have t: "tensor (elem ty) [] = ty" using ty by (simp add: rank_0_iff)
  have "plain_name name" using name(1) by (simp add: elementwise_def)
  then have "builds \<Gamma> (append_region_like_scalar_op name vs ty kind predicate) typing_of (is_value ty kind)"
    by (rule append_region_like_scalar_op_ok [OF name(2) _ vs(2)])
       (use ty elementwise_at_kind [OF name(1) vs(1)] in \<open>simp_all only: t simp_thms\<close>)
  then show ?thesis by (rule builds_has_ty) (use ty in \<open>simp add: has_ty_def is_value_simps kind_ok_def\<close>)
qed

lemma emit_elementwise_unary_ok:
  assumes v: "vin \<Gamma> v" and s: "shape ty = shape (val_ty v)"
    and name: "elementwise name [elem (val_ty v), elem (val_ty v)] (elem ty)" "predicate_known name predicate"
  shows "builds \<Gamma> (emit_elementwise_unary_with_duplicate_operand ty v name predicate) typing_of (has_ty ty)"
  unfolding emit_elementwise_unary_with_duplicate_operand_def
proof (rule main.ok_if)
  assume rk: "rank ty = 0"
  then have "is_value (tensor (elem (val_ty v)) []) (val_kind v) v"
    using s by (cases "val_ty v") (simp add: is_value_simps rank_def)
  then show "builds \<Gamma> (append_region_like_scalar_op name [v, v] ty (val_kind v) predicate) typing_of (has_ty ty)"
    by (intro elementwise_scalar_ok [OF name rk]) (use v in \<open>simp_all add: vin_def\<close>)
next
  let ?vty = "tensor (elem (val_ty v)) (shape ty)"
  have vty: "?vty = val_ty v" using s by (simp add: value_as_tensor)
  show "builds \<Gamma> (sbind (coerce_to_kind v ?vty Tensor) (\<lambda>v'. sbind (append_tensor_empty ty) (\<lambda>dest.
      append_generic_tensor [v'] dest ty (rank ty) [identity_map (rank ty), identity_map (rank ty)]
        (parallel (rank ty)) (scalar_body name predicate (elem ty) [0, 0])))) typing_of (has_ty ty)"
    unfolding vty
    by (rule main.ok_bind [OF coerce_to_kind_ok [OF v]], simp, simp,
        rule builds_has_ty [OF elementwise_loop_ok tensor_has_ty])
       (use s name in \<open>auto simp: is_value_simps vin_def kind_ok_def\<close>)
qed

lemma emit_elementwise_binary_op_ok:
  assumes l: "vin \<Gamma> l" and r: "vin \<Gamma> r"
    and s: "broadcast_shape_slices (shape (val_ty l)) (shape (val_ty r)) = Inr (shape ty)"
    and name: "elementwise name [elem (val_ty l), elem (val_ty r)] (elem ty)" "predicate_known name predicate"
  shows "builds \<Gamma> (emit_elementwise_binary_op ty l r name predicate) typing_of (has_ty ty)"
  unfolding emit_elementwise_binary_op_def Let_def
proof (rule main.ok_if)
  assume rk: "rank ty = 0"
  then have "shape ty = []" by (simp add: rank_def)
  with broadcast_length [OF s] have nil: "shape (val_ty l) = []" "shape (val_ty r) = []" by simp_all
  let ?kind = "if val_kind l = Scalar \<and> val_kind r = Scalar then Scalar else Tensor"
  have fills: "fills (val_ty l) (tensor (elem (val_ty l)) [])" "fills (val_ty r) (tensor (elem (val_ty r)) [])"
      "element_count (val_ty l) = 1" "element_count (val_ty r) = 1"
    using nil by (simp_all add: fills_def element_count_def)
  show "builds \<Gamma> (sbind (coerce_to_kind l (tensor (elem (val_ty l)) []) ?kind) (\<lambda>l'.
      sbind (coerce_to_kind r (tensor (elem (val_ty r)) []) ?kind) (\<lambda>r'.
      append_region_like_scalar_op name [l', r'] ty ?kind predicate))) typing_of (has_ty ty)"
    by (rule main.ok_bind [OF coerce_to_kind_ok [OF l fills(1)]], simp add: fills,
        rule main.ok_bind [OF coerce_to_kind_ok [OF vin_left [OF r] fills(2)]], simp add: fills,
        rule elementwise_scalar_ok [OF name rk])
       (auto simp del: if_split)
next
  let ?lty = "tensor (elem (val_ty l)) (shape ty)" and ?rty = "tensor (elem (val_ty r)) (shape ty)"
  have fills: "fills (val_ty l) ?lty" "fills (val_ty r) ?rty"
    using bc.upper_left [OF s] bc.upper_right [OF s] by (simp_all add: fills_def)
  show "builds \<Gamma> (sbind (coerce_to_kind l ?lty Tensor) (\<lambda>l'. sbind (coerce_to_kind r ?rty Tensor) (\<lambda>r'.
      sbind (append_tensor_empty ty) (\<lambda>dest.
      append_generic_tensor [l', r'] dest ty (rank ty)
        [identity_map (rank ty), identity_map (rank ty), identity_map (rank ty)]
        (parallel (rank ty)) (scalar_body name predicate (elem ty) [0, 1]))))) typing_of (has_ty ty)"
    by (rule main.ok_bind [OF coerce_to_kind_ok [OF l fills(1)]], simp,
        rule main.ok_bind [OF coerce_to_kind_ok [OF vin_left [OF r] fills(2)]], simp,
        rule builds_has_ty [OF elementwise_loop_ok tensor_has_ty])
       (use name in \<open>auto simp: is_value_simps vin_def kind_ok_def\<close>)
qed

lemma float_predicates [simp]:
  "''oeq'' \<in> fst ` set cmpf_predicates" "''one'' \<in> fst ` set cmpf_predicates" "''une'' \<in> fst ` set cmpf_predicates"
  "''ogt'' \<in> fst ` set cmpf_predicates" "''oge'' \<in> fst ` set cmpf_predicates"
  "''olt'' \<in> fst ` set cmpf_predicates" "''ole'' \<in> fst ` set cmpf_predicates" "''uno'' \<in> fst ` set cmpf_predicates"
  by (simp_all add: cmpf_predicates_def)

lemma int_predicates [simp]:
  "''eq'' \<in> fst ` set cmpi_predicates" "''ne'' \<in> fst ` set cmpi_predicates"
  "''sgt'' \<in> fst ` set cmpi_predicates" "''sge'' \<in> fst ` set cmpi_predicates"
  "''slt'' \<in> fst ` set cmpi_predicates" "''sle'' \<in> fst ` set cmpi_predicates"
  "''ugt'' \<in> fst ` set cmpi_predicates" "''ult'' \<in> fst ` set cmpi_predicates"
  by (simp_all add: cmpi_predicates_def)

lemma lower_comparison_ok:
  assumes v: "vin \<Gamma> l" "vin \<Gamma> r" and e: "elem (val_ty l) = elem (val_ty r)"
    and s: "broadcast_shape_slices (shape (val_ty l)) (shape (val_ty r)) = Inr s"
    and p: "fp \<in> fst ` set cmpf_predicates" "ip \<in> fst ` set cmpi_predicates"
  shows "builds \<Gamma> (lower_comparison fp ip l r) typing_of (has_ty (tensor Bool s))"
  unfolding lower_comparison_def lower_broadcast_shape_def Let_def
proof (rule main.ok_bind_pure [OF main.ok_lift [OF s, where P = "\<lambda>x. x = s"]], simp, simp, hypsubst)
  show "builds \<Gamma> (emit_elementwise_binary_op (tensor Bool s) l r
      (if is_float (elem (val_ty l)) then ''arith.cmpf'' else ''arith.cmpi'')
      (Some (if is_float (elem (val_ty l)) then fp else ip))) typing_of (has_ty (tensor Bool s))"
    by (rule emit_elementwise_binary_op_ok [OF v])
       (use e s p in \<open>simp_all add: elementwise_ops\<close>)
qed

lemma lower_isnan_ok:
  assumes "vin \<Gamma> v" "is_float (elem (val_ty v))"
  shows "builds \<Gamma> (lower_isnan v) typing_of (has_ty (tensor Bool (shape (val_ty v))))"
  unfolding lower_isnan_def
  by (rule emit_elementwise_unary_ok [OF assms(1)]) (use assms(2) in \<open>simp_all add: elementwise_ops\<close>)

lemma logical_binary_ok:
  assumes v: "vin \<Gamma> l" "vin \<Gamma> r" and e: "elem (val_ty l) = Bool" "elem (val_ty r) = Bool"
    and s: "broadcast_shape_slices (shape (val_ty l)) (shape (val_ty r)) = Inr s"
    and name: "name \<in> set int_binary_ops"
  shows "builds \<Gamma> (logical_binary name l r) typing_of (has_ty (tensor Bool s))"
  unfolding logical_binary_def broadcast_result_type_def lower_broadcast_shape_def
proof (rule main.ok_bind_pure)
  show "builds \<Gamma> (sbind (scheck (elem (val_ty l) = elem (val_ty r)) BroadcastElements) (\<lambda>_.
      sbind (slift (broadcast_shape_slices (shape (val_ty l)) (shape (val_ty r)))) (\<lambda>s.
      sreturn (tensor (elem (val_ty l)) s)))) (\<lambda>_. {}) (\<lambda>ty. ty = tensor Bool s)"
    by (rule main.ok_bind_pure [OF main.ok_check], simp add: e,
        rule main.ok_bind_pure [OF main.ok_lift [OF s, where P = "\<lambda>x. x = s"]])
       (auto intro: main.ok_return simp: e)
  fix ty
  assume "ty = tensor Bool s"
  then show "builds \<Gamma> (emit_elementwise_binary_op ty l r name None) typing_of (has_ty (tensor Bool s))"
    using emit_elementwise_binary_op_ok [OF v, of "tensor Bool s" name None] e s elementwise_ops(2) [OF name, of Bool]
    by simp
qed

lemma logical_not_ok:
  assumes v: "vin \<Gamma> v" and e: "elem (val_ty v) = Bool"
  shows "builds \<Gamma> (logical_not v) typing_of (has_ty (tensor Bool (shape (val_ty v))))"
  unfolding logical_not_def
proof (rule main.ok_bind [OF lower_constant_ok])
  fix c
  assume c: "is_value (tensor Bool []) Scalar c"
  have "builds (\<Gamma> \<union> typing_of c) (lower_broadcast c (val_ty v)) typing_of (is_value (val_ty v) Tensor)"
    by (rule lower_broadcast_ok) (use c e in \<open>simp_all add: is_value_simps vin_def kind_ok_def fills_def element_count_def rank_def\<close>)
  then show "builds (\<Gamma> \<union> typing_of c) (sbind (lower_broadcast c (val_ty v)) (logical_binary ''arith.xori'' v))
      typing_of (has_ty (tensor Bool (shape (val_ty v))))"
    by (rule main.ok_bind, intro logical_binary_ok)
       (use v e in \<open>auto simp: is_value_simps vin_def kind_ok_def int_binary_ops_def\<close>)
qed

lemma emit_elementwise_ternary_ok:
  assumes v: "vin \<Gamma> c" "vin \<Gamma> t" "vin \<Gamma> f"
    and tys: "is_value (tensor Bool (shape ty)) Tensor c" "is_value ty Tensor t" "is_value ty Tensor f"
  shows "builds \<Gamma> (emit_elementwise_ternary ty c t f) typing_of (has_ty ty)"
  unfolding emit_elementwise_ternary_def Let_def
proof (rule main.ok_if)
  assume rk: "rank ty = 0"
  then have t: "tensor (elem ty) [] = ty" and s: "shape ty = []" by (simp_all add: rank_0_iff rank_def)
  have kind: "(if val_kind c = Scalar \<and> val_kind t = Scalar \<and> val_kind f = Scalar then Scalar else Tensor) = Tensor"
    using tys by (simp add: is_value_simps)
  show "builds \<Gamma> (sbind (coerce_to_kind c (tensor Bool [])
        (if val_kind c = Scalar \<and> val_kind t = Scalar \<and> val_kind f = Scalar then Scalar else Tensor)) (\<lambda>c'.
      sbind (coerce_to_kind t (tensor (elem ty) [])
        (if val_kind c = Scalar \<and> val_kind t = Scalar \<and> val_kind f = Scalar then Scalar else Tensor)) (\<lambda>t'.
      sbind (coerce_to_kind f (tensor (elem ty) [])
        (if val_kind c = Scalar \<and> val_kind t = Scalar \<and> val_kind f = Scalar then Scalar else Tensor)) (\<lambda>f'.
      append_region_like_scalar_op ''arith.select'' [c', t', f'] ty
        (if val_kind c = Scalar \<and> val_kind t = Scalar \<and> val_kind f = Scalar then Scalar else Tensor) None))))
      typing_of (has_ty ty)"
    unfolding kind t
    by (rule main.ok_bind [OF coerce_to_kind_ok [OF v(1)]], use tys s in \<open>simp add: is_value_simps\<close>, simp,
        rule main.ok_bind [OF coerce_to_kind_ok [OF vin_left [OF v(2)]]], use tys in \<open>simp add: is_value_simps\<close>, simp,
        rule main.ok_bind [OF coerce_to_kind_ok [OF vin_left [OF vin_left [OF v(3)]]]],
        use tys in \<open>simp add: is_value_simps\<close>, simp,
        rule elementwise_scalar_ok [OF elementwise_ops(5) predicate_known_None rk])
       (simp_all add: t)
next
  show "builds \<Gamma> (sbind (append_tensor_empty ty) (\<lambda>dest.
      append_generic_tensor [c, t, f] dest ty (rank ty)
        [identity_map (rank ty), identity_map (rank ty), identity_map (rank ty), identity_map (rank ty)]
        (parallel (rank ty)) (scalar_body ''arith.select'' None (elem ty) [0, 1, 2]))) typing_of (has_ty ty)"
    by (rule builds_has_ty [OF elementwise_loop_ok tensor_has_ty])
       (use v tys elementwise_ops(5) in \<open>auto simp: is_value_simps numeral_2_eq_2\<close>)
qed

lemma where_select_ok:
  assumes v: "vin \<Gamma> c" "vin \<Gamma> t" "vin \<Gamma> f"
    and e: "elem (val_ty c) = Bool" "elem (val_ty t) = e" "elem (val_ty f) = e"
    and s: "broadcast_shape_slices (shape (val_ty t)) (shape (val_ty f)) = Inr s'"
      "broadcast_shape_slices (shape (val_ty c)) s' = Inr s"
  shows "builds \<Gamma> (where_select c t f) typing_of (has_ty (tensor e s))"
  unfolding where_select_def lower_broadcast_shape_def e(2,3)
proof (rule main.ok_bind_pure [OF main.ok_lift [OF s(1), where P = "\<lambda>x. x = s'"]], simp, simp, hypsubst,
    rule main.ok_bind_pure [OF main.ok_lift [OF s(2), where P = "\<lambda>x. x = s"]], simp, simp, hypsubst)
  have fills: "fills (val_ty c) (tensor Bool s)" "fills (val_ty t) (tensor e s)" "fills (val_ty f) (tensor e s)"
    using e bc.upper_left [OF s(2)] bc.below_trans [OF bc.upper_left [OF s(1)] bc.upper_right [OF s(2)]]
      bc.below_trans [OF bc.upper_right [OF s(1)] bc.upper_right [OF s(2)]]
    by (simp_all add: fills_def)
  show "builds \<Gamma> (sbind (coerce_to_kind c (tensor Bool s) Tensor) (\<lambda>c'.
      sbind (coerce_to_kind t (tensor e s) Tensor) (\<lambda>t'.
      sbind (coerce_to_kind f (tensor e s) Tensor) (\<lambda>f'.
      emit_elementwise_ternary (tensor e s) c' t' f')))) typing_of (has_ty (tensor e s))"
    by (rule main.ok_bind [OF coerce_to_kind_ok [OF v(1) fills(1)]], simp,
        rule main.ok_bind [OF coerce_to_kind_ok [OF vin_left [OF v(2)] fills(2)]], simp,
        rule main.ok_bind [OF coerce_to_kind_ok [OF vin_left [OF vin_left [OF v(3)]] fills(3)]], simp,
        rule emit_elementwise_ternary_ok)
       (auto simp: vin_def is_value_simps kind_ok_def)
qed

end
