(* ===== verification/Lower_Tensor_Spec.thy ===== *)
theory Lower_Tensor_Spec
  imports Lower_Elementwise Rule_Facts
begin

text \<open>
  The data movement of \<^verbatim>\<open>tensor_ops.rs\<close>: permutations, reshapes, slices and concatenations build well
  formed operations whose results have the types of the operations' rules.
\<close>

section \<open>Values of positive rank\<close>

lemma tensor_kind: "vin \<Gamma> v \<Longrightarrow> rank (val_ty v) \<noteq> 0 \<Longrightarrow> val_kind v = Tensor"
  by (cases "val_kind v") (simp_all add: vin_def kind_ok_def)

lemma axis_kind: "vin \<Gamma> v \<Longrightarrow> axis < rank (val_ty v) \<Longrightarrow> val_kind v = Tensor"
  by (rule tensor_kind) simp_all

lemma return_has_ty: "vin \<Gamma> v \<Longrightarrow> val_ty v = ty \<Longrightarrow> builds \<Gamma> (sreturn v) typing_of (has_ty ty)"
  by (rule builds_return) (simp_all add: has_ty_def vin_def)

lemma builds_tensor: "builds \<Gamma> m typing_of (is_value ty Tensor) \<Longrightarrow> builds \<Gamma> m typing_of (has_ty ty)"
  by (rule builds_has_ty [OF _ tensor_has_ty])

lemma bind_lift:
  assumes "r = Inr x" "builds \<Gamma> (f x) G P"
  shows "builds \<Gamma> (sbind (slift r) f) G P"
  by (rule main.ok_bind_pure [OF main.ok_lift [OF assms(1), where P = "\<lambda>y. y = x"]]) (use assms(2) in auto)

lemma idx_shape: "axis < rank ty \<Longrightarrow> idx (shape ty) axis = Inr (shape ty ! axis)"
  by (simp add: idx_Inr_iff rank_def)

lemma nth_shape: "map (\<lambda>i. shape ty ! i) [0..<rank ty] = shape ty"
  by (simp add: rank_def map_nth)

section \<open>Permutations\<close>

lemma lower_permute_ok:
  assumes v: "vin \<Gamma> v" and p: "is_permutation (rank (val_ty v)) axes"
    and ty: "elem ty = elem (val_ty v)" "shape ty = map (\<lambda>i. shape (val_ty v) ! i) axes"
  shows "builds \<Gamma> (lower_permute v ty axes) typing_of (has_ty ty)"
proof (cases "axes = [0..<length axes]")
  case True
  then have "axes = [0..<rank (val_ty v)]" using is_permutation_length [OF p] by simp
  then have "ty = val_ty v" using ty nth_shape [of "val_ty v"] by (simp add: value_as_tensor tensor_type.equality)
  then show ?thesis unfolding lower_permute_def if_P [OF True] using v by (intro return_has_ty) simp_all
next
  case False
  then have "axes \<noteq> []" by auto
  then have "rank (val_ty v) \<noteq> 0" using is_permutation_length [OF p] by (metis length_0_conv)
  then have k: "val_kind v = Tensor" by (rule tensor_kind [OF v])
  show ?thesis unfolding lower_permute_def if_not_P [OF False]
    by (rule builds_tensor, rule main.ok_bind [OF append_tensor_empty_ok], rule main.ok_bind_pure [OF main.ok_dense_i64],
        hypsubst, rule append_named_linalg_ok)
       (use v k p ty in \<open>auto simp: vin_def op_typings linalg_transpose_typed_def value_ty_kind dense_i32_attr_def\<close>)
qed

lemma permuted_dims: "is_permutation (rank ty) axes \<Longrightarrow> rmap (idx (shape ty)) axes = Inr (map (\<lambda>i. shape ty ! i) axes)"
  by (rule rmap_Inr_map) (auto simp: idx_Inr_iff rank_def is_permutation_def)

lemma lower_permute_dims_ok:
  assumes "vin \<Gamma> v" "is_permutation (rank (val_ty v)) axes"
  shows "builds \<Gamma> (lower_permute_dims v axes) typing_of
           (has_ty (tensor (elem (val_ty v)) (map (\<lambda>i. shape (val_ty v) ! i) axes)))"
  unfolding lower_permute_dims_def
  by (rule bind_lift [OF permuted_dims [OF assms(2)]], rule lower_permute_ok [OF assms]) simp_all

lemma permutation_small:
  assumes "is_permutation n axes" "n \<le> 1"
  shows "axes = [0..<n]"
proof (cases n)
  case 0
  with assms(1) show ?thesis by (simp add: is_permutation_def)
next
  case (Suc m)
  with assms have "n = 1" "length axes = 1" "set axes \<subseteq> {0}" by (auto simp: is_permutation_def)
  then show ?thesis by (cases axes) auto
qed

lemma rev_permutation: "is_permutation n (rev [0..<n])"
  by (auto simp: is_permutation_def)

lemma rev_nth_shape: "map (\<lambda>i. s ! i) (rev [0..<length s]) = rev s"
  by (simp add: rev_map [symmetric] map_nth)

lemma lower_transpose_ok:
  assumes v: "vin \<Gamma> v" and ty: "transpose_result_type (val_ty v) axes = Inr ty"
  shows "builds \<Gamma> (lower_transpose v axes) typing_of (has_ty ty)"
proof -
  from ty have cases: "axes = [] \<and> ty = tensor (elem (val_ty v)) (rev (shape (val_ty v))) \<or>
      axes \<noteq> [] \<and> is_permutation (rank (val_ty v)) axes \<and>
        ty = tensor (elem (val_ty v)) (map (\<lambda>i. shape (val_ty v) ! i) axes)"
    by (auto simp: transpose_result_type_def permute_dims_result_type_def validate_axis_permutation_def result_simps
        scan_permutation split: if_splits)
  show ?thesis
  proof (cases "rank (val_ty v) \<le> 1")
    case True
    have "rev (shape (val_ty v)) = shape (val_ty v)"
      using True by (cases "shape (val_ty v)"; cases "tl (shape (val_ty v))") (auto simp: rank_def)
    moreover have "map (\<lambda>i. shape (val_ty v) ! i) axes = shape (val_ty v)"
      if "is_permutation (rank (val_ty v)) axes"
      using permutation_small [OF that True] nth_shape [of "val_ty v"] by simp
    ultimately have "ty = val_ty v" using cases by (auto simp: value_as_tensor)
    then show ?thesis using v True by (simp add: lower_transpose_def return_has_ty)
  next
    case False
    show ?thesis
    proof (cases "axes = []")
      case True
      with cases have t: "ty = tensor (elem (val_ty v)) (rev (shape (val_ty v)))" by simp
      have "builds \<Gamma> (lower_permute v ty (rev [0..<rank (val_ty v)])) typing_of (has_ty ty)"
        by (rule lower_permute_ok [OF v rev_permutation]) (simp_all add: t rank_def rev_nth_shape)
      with True False t show ?thesis by (simp add: lower_transpose_def)
    next
      case nonempty: False
      with cases False show ?thesis using lower_permute_dims_ok [OF v] by (auto simp: lower_transpose_def)
    qed
  qed
qed

lemma swap_permutation: "a < n \<Longrightarrow> b < n \<Longrightarrow> is_permutation n (swap_nth a b [0..<n])"
  using set_swap [of a "[0..<n]" b] distinct_swap [of a "[0..<n]" b] by (auto simp: is_permutation_def swap_nth_def)

lemma lower_swapaxes_ok:
  assumes v: "vin \<Gamma> v" and ty: "swapaxes_result_type (val_ty v) axis0 axis1 = Inr ty"
  shows "builds \<Gamma> (lower_swapaxes v axis0 axis1) typing_of (has_ty ty)"
proof -
  let ?n = "rank (val_ty v)" and ?s = "shape (val_ty v)"
  from ty have ax: "axis0 < ?n" "axis1 < ?n" and t: "ty = tensor (elem (val_ty v)) (swap_nth axis0 axis1 ?s)"
    by (auto simp: swapaxes_result_type_def result_simps guard_defs)
  have "map (\<lambda>i. ?s ! i) (swap_nth axis0 axis1 [0..<?n]) = swap_nth axis0 axis1 ?s"
    using ax by (intro nth_equalityI) (auto simp: nth_swap_nth rank_def)
  with lower_permute_dims_ok [OF v swap_permutation [OF ax]] t
  have "builds \<Gamma> (lower_permute_dims v (swap_nth axis0 axis1 [0..<?n])) typing_of (has_ty ty)" by simp
  then show ?thesis unfolding lower_swapaxes_def
    by (rule bind_lift [rotated]) (use ax in \<open>simp add: swap_axes_def\<close>)
qed

lemma set_insert_nth: "set (insert_nth b a xs) = insert a (set xs)"
proof -
  have "set (insert_nth b a xs) = insert a (set (take b xs @ drop b xs))"
    unfolding insert_nth_def set_append by auto
  then show ?thesis by simp
qed

lemma distinct_insert_nth: "distinct xs \<Longrightarrow> a \<notin> set xs \<Longrightarrow> distinct (insert_nth b a xs)"
  using set_take_disj_set_drop_if_distinct [of xs b b]
  by (auto simp: insert_nth_def dest: in_set_takeD in_set_dropD)

lemma moved_permutation:
  assumes "a < n" "b < n"
  shows "is_permutation n (insert_nth b a (remove_nth a [0..<n]))"
proof -
  have "distinct (remove_nth a [0..<n])" "a \<notin> set (remove_nth a [0..<n])" "set (remove_nth a [0..<n]) \<subseteq> {..<n}"
    using assms by (auto simp: remove_nth_def)
  then show ?thesis using assms
    by (simp add: is_permutation_def set_insert_nth distinct_insert_nth)
qed

lemma lower_moveaxis_ok:
  assumes v: "vin \<Gamma> v" and ty: "moveaxis_result_type (val_ty v) source destination = Inr ty"
  shows "builds \<Gamma> (lower_moveaxis v source destination) typing_of (has_ty ty)"
proof -
  let ?n = "rank (val_ty v)" and ?s = "shape (val_ty v)"
  let ?axes = "insert_nth destination source (remove_nth source [0..<?n])"
  from ty have ax: "source < ?n" "destination < ?n"
      and t: "ty = tensor (elem (val_ty v)) (map (\<lambda>i. ?s ! i) ?axes)"
    by (auto simp: moveaxis_result_type_def moveaxis_permutation_def result_simps)
  have 1: "idx [0..<?n] source = Inr source" "vec_remove source [0..<?n] = Inr (remove_nth source [0..<?n])"
      "vec_insert destination source (remove_nth source [0..<?n]) = Inr ?axes"
    using ax by (simp_all add: idx_Inr_iff vec_remove_def vec_insert_def)
  show ?thesis unfolding lower_moveaxis_def t
    by (rule bind_lift [OF 1(1)], rule bind_lift [OF 1(2)], rule bind_lift [OF 1(3)],
        rule lower_permute_dims_ok [OF v moved_permutation [OF ax]])
qed

section \<open>Reshapes\<close>

lemma element_count_0 [simp]: "element_count (tensor e []) = 1"
  by (simp add: element_count_def)

lemma element_count_1 [simp]: "element_count (tensor e [n]) = n"
  by (simp add: element_count_def)

lemma lower_reshape_ok:
  assumes v: "vin \<Gamma> v" and e: "elem (val_ty v) = elem ty" and n: "element_count (val_ty v) = element_count ty"
  shows "builds \<Gamma> (lower_reshape v ty) typing_of (has_ty ty)"
proof (cases "val_ty v = ty \<or> rank ty = 0 \<or> rank (val_ty v) = 0")
  case True
  then have "val_ty v \<noteq> ty \<Longrightarrow> element_count (val_ty v) = 1" using n rank_0_count by metis
  with True show ?thesis using v e
    by (cases "val_ty v = ty") (auto simp: lower_reshape_def return_has_ty intro!: builds_tensor splat_ok)
next
  case False
  then have rk: "rank ty \<noteq> 0" "rank (val_ty v) \<noteq> 0" by simp_all
  have k: "val_kind v = Tensor" by (rule tensor_kind [OF v rk(2)])
  let ?flat = "tensor (elem ty) [element_count ty]"
  let ?collapse = "if rank (val_ty v) = 1 then sreturn v
      else collapse_to_rank1 v (tensor (elem (val_ty v)) [element_count (val_ty v)])"
  have "builds \<Gamma> ?collapse typing_of (is_value ?flat Tensor)"
  proof (rule main.ok_if)
    assume "rank (val_ty v) = 1"
    then obtain m where "shape (val_ty v) = [m]" by (auto simp: rank_def length_Suc_conv)
    then have "val_ty v = ?flat" using e n by (cases "val_ty v") (simp add: element_count_def)
    then show "builds \<Gamma> (sreturn v) typing_of (is_value ?flat Tensor)" using v k by (simp add: builds_return is_value_simps)
  next
    show "builds \<Gamma> (collapse_to_rank1 v (tensor (elem (val_ty v)) [element_count (val_ty v)])) typing_of
        (is_value ?flat Tensor)"
      unfolding collapse_to_rank1_def e n reassociation_for_rank_format
      by (rule append_collapse_ok [OF vin_typing [OF v] k])
         (use e n grouped_all [of "shape (val_ty v)"] in \<open>simp_all add: element_count_def rank_def\<close>)
  qed
  then have "builds \<Gamma> (sbind ?collapse (\<lambda>flat. if rank ty = 1 then sreturn flat else expand_rank1 flat ty)) typing_of
      (is_value ty Tensor)"
  proof (rule main.ok_bind, intro main.ok_if)
    fix flat
    assume flat: "is_value ?flat Tensor flat"
    then have vf: "vin (\<Gamma> \<union> typing_of flat) flat" by (rule vin_value)
    show "builds (\<Gamma> \<union> typing_of flat) (sreturn flat) typing_of (is_value ty Tensor)" if "rank ty = 1"
    proof -
      from that obtain m where "shape ty = [m]" by (auto simp: rank_def length_Suc_conv)
      then have "?flat = ty" by (cases ty) (simp add: element_count_def)
      with flat vf show ?thesis by (simp add: builds_return)
    qed
    show "builds (\<Gamma> \<union> typing_of flat) (expand_rank1 flat ty) typing_of (is_value ty Tensor)"
      unfolding expand_rank1_def reassociation_for_rank_format
      by (rule append_expand_ok [OF vin_typing [OF vf]])
         (use flat grouped_all [of "shape ty"] in \<open>auto simp: is_value_simps element_count_def rank_def\<close>)
  qed
  with False show ?thesis by (simp add: lower_reshape_def builds_tensor)
qed

section \<open>Slices\<close>

lemma lower_slice_ok:
  assumes "vin \<Gamma> v" "val_kind v = Tensor" "elem (val_ty v) = elem ty"
    and "length starts = rank (val_ty v)" "rank ty = rank (val_ty v)"
    and "\<forall>i < rank ty. starts ! i + shape ty ! i \<le> shape (val_ty v) ! i"
  shows "builds \<Gamma> (lower_slice v ty starts) typing_of (is_value ty Tensor)"
  unfolding lower_slice_def
  by (rule append_tensor_extract_slice_ok [OF vin_typing [OF assms(1)] assms(2-)])

lemma set_idx_ok: "i < length xs \<Longrightarrow> set_idx xs i x = Inr (xs[i := x])"
  by (simp add: set_idx_Inr_iff)

lemma slice_axis_ok:
  assumes v: "vin \<Gamma> v" and a: "axis < rank (val_ty v)" "start + extent \<le> shape (val_ty v) ! axis"
  shows "builds \<Gamma> (slice_axis v axis start extent) typing_of
           (is_value (tensor (elem (val_ty v)) ((shape (val_ty v))[axis := extent])) Tensor)"
  unfolding slice_axis_def
proof (rule bind_lift [OF set_idx_ok], use a in simp, rule bind_lift [OF set_idx_ok], use a in \<open>simp add: rank_def\<close>,
    rule lower_slice_ok [OF v axis_kind [OF v a(1)]])
  let ?ty = "tensor (elem (val_ty v)) ((shape (val_ty v))[axis := extent])"
  show "\<forall>i < rank ?ty. (replicate (rank (val_ty v)) 0)[axis := start] ! i + shape ?ty ! i \<le> shape (val_ty v) ! i"
    using a by (auto simp: rank_def nth_list_update)
qed (simp_all add: rank_def)

lemma split_sections_ok:
  assumes "vin \<Gamma> v" "axis < rank (val_ty v)" "offset + sum_list sections \<le> shape (val_ty v) ! axis"
  shows "builds \<Gamma> (split_sections v axis offset sections) (\<lambda>vs. \<Union>(typing_of ` set vs))
           (\<lambda>vs. list_all2 has_ty (map (\<lambda>n. tensor (elem (val_ty v)) ((shape (val_ty v))[axis := n])) sections) vs)"
  using assms
proof (induction sections arbitrary: \<Gamma> offset)
  case Nil
  then show ?case by (auto intro: main.ok_return)
next
  case (Cons n sections)
  have 1: "offset + n \<le> shape (val_ty v) ! axis" "offset + n + sum_list sections \<le> shape (val_ty v) ! axis"
    using Cons.prems(3) by simp_all
  show ?case unfolding split_sections.simps
    by (rule main.ok_bind [OF slice_axis_ok [OF Cons.prems(1,2) 1(1)]],
        rule main.ok_bind [OF Cons.IH [OF vin_left [OF Cons.prems(1)] Cons.prems(2) 1(2)]], rule main.ok_return)
       (auto intro: tensor_has_ty)
qed

lemma lower_split_ok:
  assumes "vin \<Gamma> v" "split_result_types (val_ty v) axis sections = Inr tys"
  shows "builds \<Gamma> (lower_split v axis sections) (\<lambda>vs. \<Union>(typing_of ` set vs)) (\<lambda>vs. list_all2 has_ty tys vs)"
proof -
  from assms(2) have "axis < rank (val_ty v)" "sum_list sections = shape (val_ty v) ! axis"
      "tys = map (\<lambda>n. tensor (elem (val_ty v)) ((shape (val_ty v))[axis := n])) sections"
    by (auto simp: split_result_types_def result_simps guard_defs)
  with split_sections_ok [OF assms(1)] show ?thesis by (simp add: lower_split_def)
qed

lemma lower_take_ok:
  assumes v: "vin \<Gamma> v" and ty: "take_result_type (val_ty v) axis index = Inr ty"
  shows "builds \<Gamma> (lower_take v axis index) typing_of (has_ty ty)"
proof -
  let ?s = "shape (val_ty v)" and ?e = "elem (val_ty v)"
  from ty have a: "axis < rank (val_ty v)" "index + 1 \<le> ?s ! axis" and t: "ty = tensor ?e (remove_nth axis ?s)"
    by (auto simp: take_result_type_def result_simps guard_defs)
  have a': "axis < length ?s" using a(1) by (simp add: rank_def)
  have removed: "remove_nth axis (?s[axis := 1]) = remove_nth axis ?s" by (simp add: remove_nth_def)
  have ne: "?s[axis := 1] \<noteq> remove_nth axis ?s"
  proof
    assume "?s[axis := 1] = remove_nth axis ?s"
    from arg_cong [OF this, of length] a' show False by simp
  qed
  have count: "element_count (tensor ?e (?s[axis := 1])) = element_count ty"
  proof -
    have "?s[axis := 1] = insert_nth axis 1 (remove_nth axis ?s)" using a' by (simp add: insert_remove_nth)
    then show ?thesis by (simp add: element_count_def t prod_list_insert_nth)
  qed
  show ?thesis unfolding lower_take_def
  proof (rule main.ok_bind [OF slice_axis_ok [OF v a]])
    fix sliced
    assume sl: "is_value (tensor ?e (?s[axis := 1])) Tensor sliced"
    then have vs: "vin (\<Gamma> \<union> typing_of sliced) sliced" by (rule vin_value)
    have r: "vec_remove axis (shape (val_ty sliced)) = Inr (remove_nth axis ?s)"
      using sl a' by (simp add: is_value_simps vec_remove_def removed)
    have reshape: "builds (\<Gamma> \<union> typing_of sliced) (lower_reshape sliced ty) typing_of (has_ty ty)"
      by (rule lower_reshape_ok [OF vs]) (use sl t count in \<open>simp_all add: is_value_simps\<close>)
    have collapse: "builds (\<Gamma> \<union> typing_of sliced)
        (append_reassociation_op ''tensor.collapse_shape'' sliced ty
          (collapse_reassociation_for_removed_axis (rank (val_ty sliced)) axis) None) typing_of (has_ty ty)"
      if rk: "rank ty \<noteq> 0"
    proof (rule builds_tensor, rule append_collapse_ok [OF vin_typing [OF vs]])
      let ?u = "shape (val_ty sliced)"
      have u: "?u = ?s[axis := 1]" "length ?u = length ?s" "rank (val_ty sliced) = length ?u"
        using sl by (simp_all add: is_value_simps rank_def)
      have two: "2 \<le> length ?s" using rk a' t by (simp add: rank_def)
      show "grouped (removed_axis_groups (length ?u) axis 0 []) ?u (shape ty)"
        using grouped_removed_axis [of axis ?u] a' two t by (simp add: u removed)
      show "collapse_reassociation_for_removed_axis (rank (val_ty sliced)) axis =
          format_reassociation_groups (removed_axis_groups (length ?u) axis 0 [])"
        using two by (simp add: collapse_reassociation_for_removed_axis_def u)
    qed (use sl t in \<open>simp_all add: is_value_simps\<close>)
    have ty': "tensor (elem (val_ty sliced)) (remove_nth axis ?s) = ty" using sl t by (simp add: is_value_simps)
    have "val_ty sliced \<noteq> ty" using sl t ne by (auto simp: is_value_simps)
    then show "builds (\<Gamma> \<union> typing_of sliced) (sbind (slift (vec_remove axis (shape (val_ty sliced)))) (\<lambda>s.
        let ty = tensor (elem (val_ty sliced)) s in
        if val_ty sliced = ty then sreturn sliced
        else if rank ty = 0 then lower_reshape sliced ty
        else append_reassociation_op ''tensor.collapse_shape'' sliced ty
               (collapse_reassociation_for_removed_axis (rank (val_ty sliced)) axis) None)) typing_of (has_ty ty)"
      using reshape collapse by (intro bind_lift [OF r]) (simp add: Let_def ty')
  qed
qed

section \<open>Concatenation\<close>

text \<open>A piece fits in a tensor at an offset of one axis.\<close>

definition piece_at :: "tensor_type \<Rightarrow> nat \<Rightarrow> nat \<Rightarrow> tensor_type \<Rightarrow> bool" where
  "piece_at ty axis offset piece \<longleftrightarrow>
     elem piece = elem ty \<and> axis < rank ty \<and> rank piece = rank ty \<and>
     offset + shape piece ! axis \<le> shape ty ! axis \<and>
     (\<forall>i < rank ty. i \<noteq> axis \<longrightarrow> shape piece ! i \<le> shape ty ! i)"

lemma insert_piece_ok:
  assumes "vin \<Gamma> v" "typing_of dest \<subseteq> \<Gamma>" "is_value ty Tensor dest" "piece_at ty axis offset (val_ty v)"
  shows "builds \<Gamma> (append_tensor_insert_slice v dest ty ((replicate (rank ty) 0)[axis := offset])) typing_of
           (is_value ty Tensor)"
  by (rule append_tensor_insert_slice_ok [OF vin_typing [OF assms(1)] tensor_kind [OF assms(1)]])
     (use assms in \<open>auto simp: piece_at_def nth_list_update\<close>)

lemma lower_concat_ok:
  assumes v: "vin \<Gamma> l" "vin \<Gamma> r" and ty: "concat_result_type (val_ty l) (val_ty r) axis = Inr ty"
  shows "builds \<Gamma> (lower_concat l r axis) typing_of (is_value ty Tensor)"
proof -
  let ?m = "shape (val_ty l) ! axis" and ?n = "shape (val_ty r) ! axis"
  note c = concat_result_Inr [OF ty]
  have shape: "shape ty = (shape (val_ty l))[axis := ?m + ?n]"
    using c by (intro nth_equalityI) (auto simp: rank_def nth_list_update split: if_splits)
  then have t: "tensor (elem (val_ty l)) ((shape (val_ty l))[axis := ?m + ?n]) = ty"
    using c(2) by (cases ty) simp
  have i: "idx (shape (val_ty l)) axis = Inr ?m" "idx (shape (val_ty r)) axis = Inr ?n"
    using c(3,5) by (simp_all add: idx_shape)
  have dims: "?m + ?n = shape ty ! axis" using c(5,6) by (metis (full_types))
  have pieces: "piece_at ty axis 0 (val_ty l)" "piece_at ty axis ?m (val_ty r)"
    using c(1-5) dims c(6) by (auto simp: piece_at_def)
  have zeros: "(replicate (rank ty) (0 :: nat))[axis := 0] = replicate (rank ty) 0"
    using c(4,5) by (intro nth_equalityI) (auto simp: nth_list_update)
  show ?thesis unfolding lower_concat_def
  proof (rule bind_lift [OF i(2)], rule bind_lift [OF i(1)], unfold Let_def t,
      rule main.ok_bind [OF append_tensor_empty_ok])
    fix dest
    assume d: "is_value ty Tensor dest"
    show "builds (\<Gamma> \<union> typing_of dest) (sbind (append_tensor_insert_slice l dest ty (replicate (rank ty) 0)) (\<lambda>first.
        append_tensor_insert_slice r first ty ((replicate (rank ty) 0)[axis := ?m + ?n - ?n]))) typing_of
        (is_value ty Tensor)"
      by (rule main.ok_bind [OF insert_piece_ok [OF vin_left [OF v(1)] _ d pieces(1), unfolded zeros]], simp,
          unfold add_diff_cancel_right',
          rule insert_piece_ok [OF vin_left [OF vin_left [OF v(2)]] _ _ pieces(2)]) auto
  qed
qed

lemma insert_pieces_ok:
  assumes "\<forall>v \<in> set pieces. vin \<Gamma> v \<and> elem (val_ty v) = elem ty \<and> rank (val_ty v) = rank ty \<and>
             (\<forall>i < rank ty. i \<noteq> axis \<longrightarrow> shape (val_ty v) ! i \<le> shape ty ! i)"
    and "axis < rank ty" "offset + (\<Sum>v \<leftarrow> pieces. shape (val_ty v) ! axis) \<le> shape ty ! axis"
    and "typing_of acc \<subseteq> \<Gamma>" "is_value ty Tensor acc"
  shows "builds \<Gamma> (insert_pieces ty axis pieces offset acc) typing_of (is_value ty Tensor)"
  using assms
proof (induction pieces arbitrary: \<Gamma> offset acc)
  case Nil
  then show ?case by (auto intro: main.ok_return)
next
  case (Cons v vs)
  let ?n = "shape (val_ty v) ! axis"
  have v: "vin \<Gamma> v" "rank (val_ty v) = rank ty" using Cons.prems(1) by auto
  have i: "idx (shape (val_ty v)) axis = Inr ?n" using v(2) Cons.prems(2) by (simp add: idx_shape)
  have p: "piece_at ty axis offset (val_ty v)" using Cons.prems(1-3) by (auto simp: piece_at_def)
  show ?case unfolding insert_pieces.simps
  proof (rule bind_lift [OF set_idx_ok], use Cons.prems(2) in simp, rule bind_lift [OF i],
      rule main.ok_bind [OF insert_piece_ok [OF v(1) Cons.prems(4,5) p]])
    fix acc'
    assume acc': "is_value ty Tensor acc'"
    show "builds (\<Gamma> \<union> typing_of acc') (insert_pieces ty axis vs (offset + ?n) acc') typing_of (is_value ty Tensor)"
      by (rule Cons.IH) (use Cons.prems acc' in \<open>auto simp: algebra_simps\<close>)
  qed
qed

text \<open>The type of the pieces of \<open>concat_many\<close>, equal off the axis.\<close>

lemma concat_many_ok:
  assumes ps: "\<forall>v \<in> set pieces. vin \<Gamma> v \<and> elem (val_ty v) = e \<and> length (shape (val_ty v)) = length s \<and>
             (\<forall>i < length s. i \<noteq> axis \<longrightarrow> shape (val_ty v) ! i = s ! i)"
    and ne: "pieces \<noteq> []" and a: "axis < length s"
  shows "builds \<Gamma> (concat_many pieces axis) typing_of
           (is_value (tensor e (s[axis := \<Sum>v \<leftarrow> pieces. shape (val_ty v) ! axis])) Tensor)"
proof -
  let ?n = "\<Sum>v \<leftarrow> pieces. shape (val_ty v) ! axis"
  let ?ty = "tensor e (s[axis := ?n])"
  obtain first rest where p: "pieces = first # rest" using ne by (cases pieces) auto
  then have f: "first \<in> set pieces" by simp
  have extents: "rmap (\<lambda>v. idx (shape (val_ty v)) axis) pieces = Inr (map (\<lambda>v. shape (val_ty v) ! axis) pieces)"
    using ps a by (intro rmap_Inr_map) (auto simp: idx_Inr_iff)
  have "(shape (val_ty first))[axis := ?n] = s[axis := ?n]"
    using ps f a by (intro nth_equalityI) (auto simp: nth_list_update)
  then have set: "set_idx (shape (val_ty first)) axis (sum_list (map (\<lambda>v. shape (val_ty v) ! axis) pieces)) =
      Inr (s[axis := ?n])" using ps f a by (simp add: set_idx_ok)
  have e: "elem (val_ty first) = e" using ps f by blast
  have "builds \<Gamma> (sbind (append_tensor_empty ?ty) (\<lambda>empty. insert_pieces ?ty axis pieces 0 empty)) typing_of
      (is_value ?ty Tensor)"
    by (rule main.ok_bind [OF append_tensor_empty_ok], rule insert_pieces_ok)
       (use ps a in \<open>auto simp: rank_def nth_list_update\<close>)
  then show ?thesis unfolding concat_many_def
    by (simp only: p list.case, intro bind_lift [OF extents [unfolded p]] bind_lift [OF set [unfolded p]])
       (simp add: Let_def e p del: insert_pieces.simps)
qed

lemma inserted_not_scalar: "shape ty \<noteq> [] \<Longrightarrow> rank ty \<noteq> 0"
  by (simp add: rank_def)

text \<open>Stacking needs operands of positive rank: \<open>inserted_axis_scalar\<close> shows that the reassociation of a
  scalar operand fits no tensor.\<close>

lemma expand_insert_axis_ok:
  assumes v: "vin \<Gamma> v" and a: "axis \<le> rank (val_ty v)" "rank (val_ty v) \<noteq> 0"
    and ty: "ty = tensor (elem (val_ty v)) (insert_nth axis 1 (shape (val_ty v)))"
  shows "builds \<Gamma> (expand_insert_axis v ty axis) typing_of (is_value ty Tensor)"
proof -
  have g: "grouped (inserted_axis_groups (rank (val_ty v)) axis) (shape ty) (shape (val_ty v))"
    using grouped_inserted_axis [of axis "shape (val_ty v)"] a by (simp add: ty rank_def)
  show ?thesis unfolding expand_insert_axis_def
    by (rule append_expand_ok [OF vin_typing [OF v] tensor_kind [OF v a(2)] _ g])
       (simp_all add: ty expand_reassociation_for_inserted_axis_def)
qed

lemma lower_stack_ok:
  assumes v: "vin \<Gamma> l" "vin \<Gamma> r" and ty: "stack_result_type (val_ty l) (val_ty r) axis = Inr ty"
    and rk: "rank (val_ty l) \<noteq> 0"
  shows "builds \<Gamma> (lower_stack l r axis) typing_of (is_value ty Tensor)"
proof -
  let ?s = "shape (val_ty l)"
  let ?unit = "tensor (elem (val_ty l)) (insert_nth axis 1 ?s)"
  from ty have eq: "val_ty r = val_ty l" and a: "axis \<le> rank (val_ty l)"
      and t: "ty = tensor (elem (val_ty l)) (insert_nth axis 2 ?s)"
    by (auto simp: stack_result_type_def result_simps)
  have ins: "vec_insert axis 1 ?s = Inr (insert_nth axis 1 ?s)" using a by (simp add: vec_insert_def rank_def)
  have a': "axis \<le> length ?s" using a by (simp add: rank_def)
  have two: "insert_nth axis 2 ?s ! axis = 2" "insert_nth axis 1 ?s ! axis = Suc 0"
    using a' by (simp_all add: nth_insert_nth)
  have cat: "concat_result_type ?unit ?unit axis = Inr ty"
    using a' two by (auto simp: concat_result_type_def result_simps guard_defs rank_def t concat_dims_Inr nth_insert_nth)
  show ?thesis unfolding lower_stack_def
  proof (rule bind_lift [OF ins], unfold Let_def, rule main.ok_bind [OF expand_insert_axis_ok [OF v(1) a rk refl]])
    fix l'
    assume l': "is_value ?unit Tensor l'"
    have 1: "?unit = tensor (elem (val_ty r)) (insert_nth axis 1 (shape (val_ty r)))" by (simp add: eq)
    show "builds (\<Gamma> \<union> typing_of l') (sbind (expand_insert_axis r ?unit axis) (\<lambda>r'. lower_concat l' r' axis)) typing_of
        (is_value ty Tensor)"
      by (rule main.ok_bind [OF expand_insert_axis_ok [OF vin_left [OF v(2)] _ _ 1]],
          simp add: eq a, simp add: eq rk, rule lower_concat_ok)
         (use l' cat in \<open>auto simp: is_value_simps vin_def kind_ok_def\<close>)
  qed
qed

section \<open>Repetition\<close>

text \<open>A loop that changes the extents of some axes.\<close>

lemma sfold_has_ty:
  assumes "\<And>i v. i < length xs \<Longrightarrow> vin (\<Gamma> \<union> typing_of v) v \<Longrightarrow> has_ty (tys i) v \<Longrightarrow>
             builds (\<Gamma> \<union> typing_of v) (f (xs ! i) v) typing_of (has_ty (tys (Suc i)))"
    and "vin \<Gamma> v" "has_ty (tys 0) v"
  shows "builds \<Gamma> (sfold f xs v) typing_of (has_ty (tys (length xs)))"
  by (rule main.ok_sfold [where P = "\<lambda>i. has_ty (tys i)"])
     (use assms in \<open>auto simp: vin_def has_ty_def\<close>)

lemma sum_list_replicate_nat: "sum_list (replicate n (m :: nat)) = n * m"
  by (induction n) simp_all

lemma repeat_piece_ok:
  assumes v: "vin \<Gamma> v" and a: "axis < rank (val_ty v)" and n: "count \<noteq> 0"
  shows "builds \<Gamma> (concat_many (replicate count v) axis) typing_of
           (is_value (tensor (elem (val_ty v)) ((shape (val_ty v))[axis := count * shape (val_ty v) ! axis])) Tensor)"
  using concat_many_ok [of "replicate count v" \<Gamma> "elem (val_ty v)" "shape (val_ty v)" axis] assms
  by (simp add: rank_def sum_list_replicate_nat)

definition tiled :: "nat list \<Rightarrow> nat list \<Rightarrow> nat \<Rightarrow> nat list" where
  "tiled s multiples k = map (\<lambda>i. if i < k then s ! i * multiples ! i else s ! i) [0..<length s]"

lemma tiled_simps: "tiled s multiples 0 = s" "length multiples = length s \<Longrightarrow> tiled s multiples (length s) = map2 (*) s multiples"
  by (auto simp: tiled_def map_nth intro: nth_equalityI)

lemma tiled_Suc: "k < length s \<Longrightarrow> tiled s multiples (Suc k) = (tiled s multiples k)[k := multiples ! k * s ! k]"
  by (rule nth_equalityI) (auto simp: tiled_def nth_list_update less_Suc_eq)

lemma lower_tile_ok:
  assumes v: "vin \<Gamma> v" and ty: "tile_result_type (val_ty v) multiples = Inr ty"
  shows "builds \<Gamma> (lower_tile v multiples) typing_of (has_ty ty)"
proof -
  let ?s = "shape (val_ty v)" and ?e = "elem (val_ty v)"
  from ty have n: "length multiples = length ?s" and t: "ty = tensor ?e (map2 (*) ?s multiples)"
    by (auto simp: tile_result_type_def result_simps rank_def)
  show ?thesis unfolding lower_tile_def
  proof (intro main.ok_if)
    assume "rank (val_ty v) = 0"
    then have "ty = val_ty v" using t by (cases "val_ty v") (simp add: rank_def)
    then show "builds \<Gamma> (sreturn v) typing_of (has_ty ty)" using v by (simp add: return_has_ty)
  next
    have "map (\<lambda>(dim, multiple). dim * multiple) (zip ?s multiples) = map2 (*) ?s multiples" by simp
    then show "builds \<Gamma> (append_tensor_empty (tensor ?e (map (\<lambda>(dim, multiple). dim * multiple) (zip ?s multiples))))
        typing_of (has_ty ty)"
      using t by (simp add: builds_tensor append_tensor_empty_ok)
  next
    assume pos: "0 \<notin> set multiples"
    let ?f = "\<lambda>(axis, multiple) v'. if multiple \<le> 1 then sreturn v' else concat_many (replicate multiple v') axis"
    let ?xs = "zip [0..<length multiples] multiples"
    let ?tys = "\<lambda>k. tensor ?e (tiled ?s multiples k)"
    have "builds \<Gamma> (sfold ?f ?xs v) typing_of (has_ty (?tys (length ?xs)))"
    proof (rule sfold_has_ty [OF _ v])
      show "has_ty (?tys 0) v" using v by (simp add: has_ty_def tiled_simps value_as_tensor vin_def)
      fix i v'
      assume i: "i < length ?xs" and v': "vin (\<Gamma> \<union> typing_of v') v'" "has_ty (?tys i) v'"
      from i have x: "?xs ! i = (i, multiples ! i)" and il: "i < length ?s" using n by simp_all
      have m: "multiples ! i \<noteq> 0" using pos i n by (metis length_zip length_upt min.idem minus_nat.diff_0 nth_mem)
      have at: "tiled ?s multiples i ! i = ?s ! i" using il by (simp add: tiled_def)
      show "builds (\<Gamma> \<union> typing_of v') (?f (?xs ! i) v') typing_of (has_ty (?tys (Suc i)))"
        unfolding x prod.case
      proof (rule main.ok_if)
        assume "multiples ! i \<le> 1"
        with m have "multiples ! i = 1" by simp
        then have "tiled ?s multiples (Suc i) = tiled ?s multiples i"
          using tiled_Suc [OF il, of multiples] at by (metis list_update_id mult_1)
        with v' show "builds (\<Gamma> \<union> typing_of v') (sreturn v') typing_of (has_ty (?tys (Suc i)))"
          by (intro return_has_ty) (simp_all add: has_ty_def)
      next
        have "builds (\<Gamma> \<union> typing_of v') (concat_many (replicate (multiples ! i) v') i) typing_of
            (is_value (tensor (elem (val_ty v')) ((shape (val_ty v'))[i := multiples ! i * shape (val_ty v') ! i])) Tensor)"
          by (rule repeat_piece_ok [OF v'(1) _ m]) (use v' il in \<open>simp add: has_ty_def rank_def tiled_def\<close>)
        then show "builds (\<Gamma> \<union> typing_of v') (concat_many (replicate (multiples ! i) v') i) typing_of
            (has_ty (?tys (Suc i)))"
          using v'(2) by (intro builds_tensor) (simp add: has_ty_def tiled_Suc [OF il] at)
      qed
    qed
    then show "builds \<Gamma> (sfold ?f ?xs v) typing_of (has_ty ty)" using n t by (simp add: tiled_simps)
  qed
qed

lemma collected_pieces_ok:
  assumes "\<And>i x. i < length xs \<Longrightarrow> x = xs ! i \<Longrightarrow> builds \<Gamma> (f x) typing_of (is_value (tensor e (s[axis := m])) Tensor)"
    and a: "axis < length s" and ne: "xs \<noteq> []"
  shows "builds \<Gamma> (sbind (smap f xs) (\<lambda>pieces. concat_many pieces axis)) typing_of
           (is_value (tensor e (s[axis := length xs * m])) Tensor)"
proof (rule main.ok_bind [OF main.ok_smap [where P = "\<lambda>_. is_value (tensor e (s[axis := m])) Tensor"]])
  show "builds \<Gamma> (f x) typing_of (is_value (tensor e (s[axis := m])) Tensor)" if "i < length xs" "x = xs ! i" for i x
    using assms(1) that .
  fix pieces
  assume ps: "length pieces = length xs \<and> (\<forall>i < length xs. is_value (tensor e (s[axis := m])) Tensor (pieces ! i))"
  then have each: "\<forall>v \<in> set pieces. is_value (tensor e (s[axis := m])) Tensor v" by (auto simp: in_set_conv_nth)
  then have "(\<Sum>v \<leftarrow> pieces. shape (val_ty v) ! axis) = (\<Sum>v \<leftarrow> pieces. m)"
    using a by (intro arg_cong [where f = sum_list] map_cong) (auto simp: is_value_simps)
  then have total: "(\<Sum>v \<leftarrow> pieces. shape (val_ty v) ! axis) = length xs * m"
    using ps by (simp add: sum_list_triv)
  have "builds (\<Gamma> \<union> \<Union>(typing_of ` set pieces)) (concat_many pieces axis) typing_of
      (is_value (tensor e (s[axis := \<Sum>v \<leftarrow> pieces. shape (val_ty v) ! axis])) Tensor)"
    by (rule concat_many_ok) (use each a ne ps in \<open>auto simp: is_value_simps vin_def kind_ok_def\<close>)
  then show "builds (\<Gamma> \<union> \<Union>(typing_of ` set pieces)) (concat_many pieces axis) typing_of
      (is_value (tensor e (s[axis := length xs * m])) Tensor)" by (simp only: total)
qed

lemma unit_slice_ok:
  assumes "vin \<Gamma> v" "axis < rank (val_ty v)" "i < shape (val_ty v) ! axis"
  shows "builds \<Gamma> (slice_axis v axis i 1) typing_of
           (is_value (tensor (elem (val_ty v)) ((shape (val_ty v))[axis := 1])) Tensor)"
  by (rule slice_axis_ok [OF assms(1,2)]) (use assms(3) in simp)

lemma lower_repeat_ok:
  assumes v: "vin \<Gamma> v" and ty: "repeat_result_type (val_ty v) axis count = Inr ty"
  shows "builds \<Gamma> (lower_repeat v axis count) typing_of (has_ty ty)"
proof -
  let ?s = "shape (val_ty v)" and ?e = "elem (val_ty v)"
  from ty have a: "axis < rank (val_ty v)" and t: "ty = tensor ?e (?s[axis := ?s ! axis * count])"
    by (auto simp: repeat_result_type_def result_simps guard_defs)
  have a': "axis < length ?s" using a by (simp add: rank_def)
  let ?f = "\<lambda>index. sbind (slice_axis v axis index 1) (\<lambda>unit. concat_many (replicate count unit) axis)"
  have piece: "builds \<Gamma> (?f i) typing_of (is_value (tensor ?e (?s[axis := count])) Tensor)"
    if "i < ?s ! axis" "count \<noteq> 0" for i
  proof (rule main.ok_bind [OF unit_slice_ok [OF v a that(1)]])
    fix unit
    assume unit: "is_value (tensor ?e (?s[axis := 1])) Tensor unit"
    from repeat_piece_ok [OF vin_value [OF unit], of axis count \<Gamma>] unit a' that(2)
    show "builds (\<Gamma> \<union> typing_of unit) (concat_many (replicate count unit) axis) typing_of
        (is_value (tensor ?e (?s[axis := count])) Tensor)"
      by (simp add: is_value_simps rank_def)
  qed
  show ?thesis unfolding lower_repeat_def
  proof (rule bind_lift [OF idx_shape [OF a]], intro main.ok_if)
    show "builds \<Gamma> (append_tensor_empty (tensor ?e (?s[axis := ?s ! axis * count]))) typing_of (has_ty ty)"
      using t by (simp add: builds_tensor append_tensor_empty_ok)
    show "builds \<Gamma> (sreturn v) typing_of (has_ty ty)" if "count = 1"
      using v t that by (intro return_has_ty) (simp_all add: value_as_tensor)
    assume nz: "\<not> (count = 0 \<or> ?s ! axis = 0)"
    have "builds \<Gamma> (sbind (smap ?f [0..<?s ! axis]) (\<lambda>pieces. concat_many pieces axis)) typing_of
        (is_value (tensor ?e (?s[axis := length [0..<?s ! axis] * count])) Tensor)"
      by (rule collected_pieces_ok [OF _ a']) (use piece nz in auto)
    then show "builds \<Gamma> (sbind (smap ?f [0..<?s ! axis]) (\<lambda>pieces. concat_many pieces axis)) typing_of (has_ty ty)"
      using t by (simp add: builds_tensor)
  qed
qed

lemma flip_axis_ok:
  assumes v: "vin \<Gamma> v" and a: "axis < rank (val_ty v)"
  shows "builds \<Gamma> (flip_axis axis v) typing_of (has_ty (val_ty v))"
proof -
  let ?s = "shape (val_ty v)" and ?e = "elem (val_ty v)"
  have a': "axis < length ?s" using a by (simp add: rank_def)
  show ?thesis unfolding flip_axis_def
  proof (rule bind_lift [OF idx_shape [OF a]], rule main.ok_if)
    assume big: "\<not> ?s ! axis \<le> 1"
    have "builds \<Gamma> (sbind (smap (\<lambda>index. slice_axis v axis index 1) (rev [0..<?s ! axis]))
        (\<lambda>pieces. concat_many pieces axis)) typing_of
        (is_value (tensor ?e (?s[axis := length (rev [0..<?s ! axis]) * 1])) Tensor)"
      by (rule collected_pieces_ok [OF _ a']) (use big in \<open>auto simp: rev_nth intro!: unit_slice_ok [OF v a, unfolded One_nat_def]\<close>)
    then show "builds \<Gamma> (sbind (smap (\<lambda>index. slice_axis v axis index 1) (rev [0..<?s ! axis]))
        (\<lambda>pieces. concat_many pieces axis)) typing_of (has_ty (val_ty v))"
      by (simp add: builds_tensor value_as_tensor)
  qed (simp add: v return_has_ty)
qed

lemma lower_flip_ok:
  assumes v: "vin \<Gamma> v" and axes: "validate_axis_list (val_ty v) axes = Inr ()"
  shows "builds \<Gamma> (lower_flip v axes) typing_of (has_ty (val_ty v))"
  unfolding lower_flip_def
proof (rule sfold_has_ty [where tys = "\<lambda>_. val_ty v", OF _ v])
  let ?axes = "if axes = [] then [0..<rank (val_ty v)] else axes"
  fix i v'
  assume "i < length ?axes" and v': "vin (\<Gamma> \<union> typing_of v') v'" "has_ty (val_ty v) v'"
  then have "?axes ! i < rank (val_ty v')"
    using axes nth_mem [of i ?axes] by (auto simp: validate_axis_list_def scan_axes_ok has_ty_def split: if_splits)
  from flip_axis_ok [OF v'(1) this] v'(2)
  show "builds (\<Gamma> \<union> typing_of v') (flip_axis (?axes ! i) v') typing_of (has_ty (val_ty v))" by (simp add: has_ty_def)
qed (use v in \<open>simp add: has_ty_def vin_def\<close>)

lemma lower_roll_ok:
  assumes v: "vin \<Gamma> v" and a: "axis < rank (val_ty v)"
  shows "builds \<Gamma> (lower_roll v axis shift) typing_of (has_ty (val_ty v))"
proof -
  let ?s = "shape (val_ty v)" and ?e = "elem (val_ty v)"
  let ?n = "?s ! axis" let ?k = "shift mod ?n"
  have a': "axis < length ?s" using a by (simp add: rank_def)
  have same: "builds \<Gamma> (sreturn v) typing_of (has_ty (val_ty v))" by (rule return_has_ty [OF v refl])
  show ?thesis unfolding lower_roll_def Let_def
  proof (rule bind_lift [OF idx_shape [OF a]], intro main.ok_if same)
    assume "\<not> ?n \<le> 1"
    then have k: "?k < ?n" by (intro mod_less_divisor) simp
    have cat: "concat_result_type (tensor ?e (?s[axis := ?k])) (tensor ?e (?s[axis := ?n - ?k])) axis = Inr (val_ty v)"
      using a' k by (cases "val_ty v")
        (auto simp: concat_result_type_def result_simps guard_defs rank_def concat_dims_Inr nth_list_update)
    show "builds \<Gamma> (sbind (slice_axis v axis (?n - ?k) ?k) (\<lambda>high.
        sbind (slice_axis v axis 0 (?n - ?k)) (\<lambda>low. lower_concat high low axis))) typing_of (has_ty (val_ty v))"
      by (rule builds_tensor, rule main.ok_bind [OF slice_axis_ok [OF v a]], use k in simp,
          rule main.ok_bind [OF slice_axis_ok [OF vin_left [OF v] a]], simp,
          rule lower_concat_ok)
         (use cat in \<open>auto simp: is_value_simps vin_def kind_ok_def\<close>)
  qed
qed

section \<open>Padding\<close>

lemma pad_highs_ok:
  assumes "length outs = length s" "length lows = length s" "\<forall>i < length s. s ! i + lows ! i \<le> outs ! i"
  shows "pad_highs outs s lows = Inr (map (\<lambda>i. outs ! i - s ! i - lows ! i) [0..<length s])"
proof -
  have z: "zip (zip outs s) lows = map (\<lambda>i. ((outs ! i, s ! i), lows ! i)) [0..<length s]"
    using assms(1,2) by (intro nth_equalityI) simp_all
  have "rmap (\<lambda>((o', i), low). rbind (usize_sub o' i) (\<lambda>d. usize_sub d low)) (zip (zip outs s) lows) =
      Inr (map (\<lambda>((o', i), low). o' - i - low) (zip (zip outs s) lows))"
    unfolding z by (rule rmap_Inr_map) (use assms(3) in \<open>force simp: usize_sub_def\<close>)
  then show ?thesis by (simp add: pad_highs_def z comp_def)
qed

lemma lower_pad_ok:
  assumes v: "vin \<Gamma> v" and ok: "validate_pad (val_ty v) ty lows = Inr ()"
  shows "builds \<Gamma> (lower_pad v ty lows) typing_of (has_ty ty)"
proof -
  let ?s = "shape (val_ty v)"
  let ?highs = "map (\<lambda>i. shape ty ! i - ?s ! i - lows ! i) [0..<length ?s]"
  from ok have e: "elem (val_ty v) = elem ty" and n: "length (shape ty) = length ?s" "length lows = length ?s"
      and le: "\<forall>i < length ?s. ?s ! i + lows ! i \<le> shape ty ! i"
    by (auto simp: validate_pad_def result_simps rank_def pad_dims_ok_iff)
  have dims: "shape ty = map (\<lambda>i. lows ! i + ?s ! i + ?highs ! i) [0..<rank (val_ty v)]"
    using n le by (intro nth_equalityI) (auto simp: rank_def)
  show ?thesis unfolding lower_pad_def
  proof (rule bind_lift [OF pad_highs_ok [OF n le]], rule main.ok_if)
    assume none: "(\<forall>low \<in> set lows. low = 0) \<and> (\<forall>high \<in> set ?highs. high = 0)"
    have "shape ty ! i = ?s ! i" if i: "i < length ?s" for i
    proof -
      have "lows ! i \<in> set lows" "?highs ! i \<in> set ?highs" using i n by (simp_all only: nth_mem length_map length_upt)
      with none have "lows ! i = 0" "?highs ! i = 0" by blast+
      then show ?thesis using le i by fastforce
    qed
    then have "shape ty = ?s" using n by (intro nth_equalityI) simp_all
    then have "val_ty v = ty" using e by (cases ty; cases "val_ty v") simp
    with v show "builds \<Gamma> (sreturn v) typing_of (has_ty ty)" by (rule return_has_ty)
  next
    assume some: "\<not> ((\<forall>low \<in> set lows. low = 0) \<and> (\<forall>high \<in> set ?highs. high = 0))"
    then have "?s \<noteq> []" using n by auto
    then have k: "val_kind v = Tensor" using tensor_kind [OF v] by (simp add: rank_def)
    show "builds \<Gamma> (sbind (lower_constant (zero_literal (elem ty)) (elem ty)) (append_tensor_pad v ty lows ?highs))
        typing_of (has_ty ty)"
      by (rule builds_tensor, rule main.ok_bind [OF lower_constant_ok],
          rule append_tensor_pad_ok [OF vin_typing [OF vin_left [OF v]] k e _ _ _ _ dims])
         (use n in \<open>auto simp: rank_def\<close>)
  qed
qed

end
