(* ===== verification/Lower_Gather_Spec.thy ===== *)
theory Lower_Gather_Spec
  imports Lower_Tensor_Spec
begin

text \<open>
  Gathers: the index is read, normalized and checked in the body of the loop (or before it, for a scalar
  result), and the input is read at one index per dimension.
\<close>

section \<open>Operations in a body\<close>

context block_builder
begin

lemma ok_block_op1:
  assumes "plain_name name" "(r, t) \<in> \<Gamma>" "op_typed name (text_attrs attrs) [t] [result]"
  shows "step_ok good T keeps \<Gamma> (block_op ctx name [r] result attrs) (\<lambda>r. {(r, result)}) (\<lambda>_. True)"
  by (rule block_op_ok [where tys = "[t]"]) (use assms in simp_all)

lemma ok_block_op2:
  assumes "plain_name name" "(r, t) \<in> \<Gamma>" "(r', t') \<in> \<Gamma>" "op_typed name (text_attrs attrs) [t, t'] [result]"
  shows "step_ok good T keeps \<Gamma> (block_op ctx name [r, r'] result attrs) (\<lambda>r. {(r, result)}) (\<lambda>_. True)"
  by (rule block_op_ok [where tys = "[t, t']"]) (use assms in simp_all)

lemma ok_block_op3:
  assumes "plain_name name" "(r, t) \<in> \<Gamma>" "(r', t') \<in> \<Gamma>" "(r'', t'') \<in> \<Gamma>"
    and "op_typed name (text_attrs attrs) [t, t', t''] [result]"
  shows "step_ok good T keeps \<Gamma> (block_op ctx name [r, r', r''] result attrs) (\<lambda>r. {(r, result)}) (\<lambda>_. True)"
  by (rule block_op_ok [where tys = "[t, t', t'']"]) (use assms in simp_all)

lemma ok_constant:
  "step_ok good T keeps \<Gamma> (block_op ctx ''arith.constant'' [] t attrs) (\<lambda>r. {(r, t)}) (\<lambda>_. True)"
  by (rule block_op_ok [where tys = "[]"]) (simp_all add: plain_names op_typings constant_typed_def)

lemma ok_binary:
  assumes "name \<in> set int_binary_ops" "(r, t) \<in> \<Gamma>" "(r', t) \<in> \<Gamma>" "\<not> float_ty t"
  shows "step_ok good T keeps \<Gamma> (block_op ctx name [r, r'] t attrs) (\<lambda>r. {(r, t)}) (\<lambda>_. True)"
  by (rule ok_block_op2 [OF _ assms(2,3)]) (use assms in \<open>simp_all add: plain_names int_binary_typed typed_rules\<close>)

lemma ok_float_binary:
  assumes "name \<in> set float_binary_ops" "(r, t) \<in> \<Gamma>" "(r', t) \<in> \<Gamma>" "float_ty t"
  shows "step_ok good T keeps \<Gamma> (block_op ctx name [r, r'] t attrs) (\<lambda>r. {(r, t)}) (\<lambda>_. True)"
  by (rule ok_block_op2 [OF _ assms(2,3)]) (use assms in \<open>simp_all add: plain_names float_binary_typed typed_rules\<close>)

lemma ok_compare:
  assumes "(r, t) \<in> \<Gamma>" "(r', t) \<in> \<Gamma>" "bool_like t = MElem Bool"
    and "name = (if float_ty t then ''arith.cmpf'' else ''arith.cmpi'')"
  shows "step_ok good T keeps \<Gamma> (block_op ctx name [r, r'] (MElem Bool) attrs) (\<lambda>r. {(r, MElem Bool)}) (\<lambda>_. True)"
  by (rule ok_block_op2 [OF _ assms(1,2)]) (use assms in \<open>simp_all add: plain_names op_typings typed_rules\<close>)

lemma ok_select:
  assumes "(c, MElem Bool) \<in> \<Gamma>" "(r, t) \<in> \<Gamma>" "(r', t) \<in> \<Gamma>" "bool_like t = MElem Bool"
  shows "step_ok good T keeps \<Gamma> (block_op ctx ''arith.select'' [c, r, r'] t attrs) (\<lambda>r. {(r, t)}) (\<lambda>_. True)"
  by (rule ok_block_op3 [OF _ assms(1-3)]) (use assms in \<open>simp_all add: plain_names op_typings select_typed_def\<close>)

lemma ok_normalize_index:
  assumes "(index_value, MIndex) \<in> \<Gamma>"
  shows "step_ok good T keeps \<Gamma> (normalize_index_in_block ctx index_value n) (\<lambda>r. {(r, MIndex)}) (\<lambda>_. True)"
  unfolding normalize_index_in_block_def
  apply (rule ok_bind_pure [OF ok_elem_type], hypsubst)
  apply (rule ok_bind [OF ok_constant])
  apply (rule ok_bind [OF ok_constant])
  apply (rule ok_bind [OF ok_compare [where t = MIndex]], use assms in \<open>simp_all\<close>)
  apply (rule ok_bind [OF ok_binary], simp_all add: int_binary_ops_def)
  apply (rule ok_bind [OF ok_select], simp_all)
  apply (rule ok_bind [OF ok_compare [where t = MIndex]], simp_all)
  apply (rule ok_bind [OF ok_compare [where t = MIndex]], simp_all)
  apply (rule ok_bind [OF ok_binary], simp_all add: int_binary_ops_def)
  apply (rule ok_bind_pure [OF append_block_op_ok [where tys = "[MElem Bool]" and results = "[]", simplified]])
  apply (auto simp: plain_names op_typings intro: ok_return)
  done

end

lemma ok_linalg_index: "region_builds outer tys \<Gamma> (linalg_index ctx axis) (\<lambda>r. {(r, MIndex)}) (\<lambda>_. True)"
  unfolding linalg_index_def
  by (rule region.block_op_fits [where tys = "[]"]) (simp_all add: op_typings)

lemma ok_linalg_indices:
  "region_builds outer tys \<Gamma> (smap (linalg_index ctx) [0..<n]) (\<lambda>rs. typing_list rs (replicate n MIndex))
     (\<lambda>rs. length rs = n)"
proof -
  have "region_builds outer tys \<Gamma> (smap (linalg_index ctx) [0..<n]) (\<lambda>rs. \<Union>((\<lambda>r. {(r, MIndex)}) ` set rs))
      (\<lambda>rs. length rs = length [0..<n] \<and> (\<forall>i < length [0..<n]. True))"
    by (rule region.ok_smap) (rule ok_linalg_index)
  then show ?thesis by (rule step_ok_weaken) (auto simp: typing_list_def set_zip in_set_conv_nth)
qed

section \<open>Gathers\<close>

lemma gather_body_ok:
  assumes input: "(input_raw, MTensor ty) \<in> \<Gamma>" and i: "i = I32 \<or> i = I64"
    and n: "length input_axes = rank ty" and axes: "\<forall>k. GatherOutput k \<in> set input_axes \<longrightarrow> k < rk"
  shows "body_ok \<Gamma> [MElem i, MElem (elem ty)] [MElem (elem ty)]
           (gather_body input_raw (elem ty) rk input_axes axis_size ctx)"
proof (rule body_okI [where G = "\<lambda>rs. typing_list rs [MElem (elem ty)]" and P = "\<lambda>rs. length rs = 1"])
  fix outer
  let ?tys = "[MElem i, MElem (elem ty)]" and ?\<Gamma> = "\<Gamma> \<union> args_typing [MElem i, MElem (elem ty)]"
  have arg: "(region_args ?tys ! 0, MElem i) \<in> ?\<Gamma>" using args_typing_nth [of 0 ?tys] by simp
  have cast: "op_typed ''arith.index_cast'' (text_attrs []) [MElem i] [MIndex]"
    using i by (auto simp: op_typings index_cast_typed_def)
  show "region_builds outer ?tys ?\<Gamma> (gather_body input_raw (elem ty) rk input_axes axis_size ctx (region_args ?tys))
      (\<lambda>rs. typing_list rs [MElem (elem ty)]) (\<lambda>rs. length rs = 1)"
    unfolding gather_body_def index_cast_in_block_def
  proof (rule region.ok_bind [OF ok_linalg_indices],
      rule region.ok_bind [OF region.ok_block_op1 [OF _ _ cast]], simp add: plain_names, use arg in simp,
      rule region.ok_bind [OF region.ok_normalize_index], simp)
    fix indices :: "raw list" and cast index :: raw
    assume indices: "length indices = rk"
    let ?\<Delta> = "?\<Gamma> \<union> typing_list indices (replicate rk MIndex) \<union> {(cast, MIndex)} \<union> {(index, MIndex)}"
    have nth: "(indices ! k, MIndex) \<in> typing_list indices (replicate rk MIndex)" if "k < rk" for k
      using that indices by (auto simp: typing_list_def set_zip)
    have read: "region_builds outer ?tys ?\<Delta>
        (case axis of GatherIndex \<Rightarrow> sreturn index | GatherOutput axis \<Rightarrow> slift (idx indices axis))
        (\<lambda>r. {(r, MIndex)}) (\<lambda>_. True)" if "axis \<in> set input_axes" for axis
    proof (cases axis)
      case GatherIndex
      then show ?thesis by (auto intro: region.ok_return)
    next
      case (GatherOutput k)
      with axes that have "k < rk" by blast
      with GatherOutput indices nth show ?thesis
        by (auto intro!: region.ok_lift [where x = "indices ! k"] simp: idx_Inr_iff)
    qed
    have reads: "region_builds outer ?tys ?\<Delta>
        (smap (\<lambda>axis. case axis of GatherIndex \<Rightarrow> sreturn index | GatherOutput axis \<Rightarrow> slift (idx indices axis))
           input_axes)
        (\<lambda>rs. typing_list rs (replicate (rank ty) MIndex)) (\<lambda>rs. length rs = rank ty)"
    proof -
      have "region_builds outer ?tys ?\<Delta>
          (smap (\<lambda>axis. case axis of GatherIndex \<Rightarrow> sreturn index | GatherOutput axis \<Rightarrow> slift (idx indices axis))
             input_axes)
          (\<lambda>rs. \<Union>((\<lambda>r. {(r, MIndex)}) ` set rs))
          (\<lambda>rs. length rs = length input_axes \<and> (\<forall>i < length input_axes. True))"
        by (rule region.ok_smap) (simp only: read nth_mem)
      then show ?thesis by (rule step_ok_weaken) (auto simp: typing_list_def set_zip in_set_conv_nth n)
    qed
    show "region_builds outer ?tys ?\<Delta>
        (sbind (smap (\<lambda>axis. case axis of GatherIndex \<Rightarrow> sreturn index | GatherOutput axis \<Rightarrow> slift (idx indices axis))
            input_axes) (\<lambda>input_indices.
         sbind (mlir_element_type ctx (elem ty)) (\<lambda>elem_ty.
         sbind (block_op ctx ''tensor.extract'' (input_raw # input_indices) elem_ty []) (\<lambda>r. sreturn [r]))))
        (\<lambda>rs. typing_list rs [MElem (elem ty)]) (\<lambda>rs. length rs = 1)"
      by (rule region.ok_bind [OF reads], rule region.ok_bind_pure [OF region.ok_elem_type], hypsubst,
          rule region.ok_bind [OF region.block_op_ok [where tys = "MTensor ty # replicate (rank ty) MIndex"]])
         (use input in \<open>auto simp: plain_names op_typings extract_typed_def intro!: region.ok_return\<close>)
  qed
qed simp

lemma extract_index_value_ok:
  assumes "vin \<Gamma> v" "is_value (tensor i []) Tensor v" "i = I32 \<or> i = I64"
  shows "builds \<Gamma> (extract_index_value v []) (\<lambda>r. {(r, MIndex)}) (\<lambda>_. True)"
  unfolding extract_index_value_def
proof (rule main.ok_bind [OF append_tensor_extract_ok])
  fix x
  assume x: "is_value (tensor (elem (val_ty v)) []) Scalar x"
  then have t: "value_ty x = MElem i" using assms(2) by (simp add: is_value_simps value_ty_kind)
  have "builds (\<Gamma> \<union> typing_of x) (append_op_with_result_types ''arith.index_cast'' [raw_of x] [MIndex] [])
      (\<lambda>rs. typing_list rs [MIndex]) (\<lambda>rs. length rs = length [MIndex])"
    by (rule append_result_types_ok [where tys = "[MElem i]"])
       (use t assms(3) in \<open>auto simp: plain_names op_typings index_cast_typed_def\<close>)
  then show "builds (\<Gamma> \<union> typing_of x) (sbind (append_op_with_result_types ''arith.index_cast'' [raw_of x] [MIndex] [])
      (\<lambda>results. sreturn (hd results))) (\<lambda>r. {(r, MIndex)}) (\<lambda>_. True)"
    by (rule main.ok_bind) (auto simp: length_Suc_conv intro!: main.ok_return)
qed (use assms in \<open>auto simp: is_value_simps vin_def rank_def\<close>)

lemma normalize_gather_index_ok:
  "(r, MIndex) \<in> \<Gamma> \<Longrightarrow> builds \<Gamma> (normalize_gather_index r n) (\<lambda>r. {(r, MIndex)}) (\<lambda>_. True)"
  unfolding normalize_gather_index_def
  by (rule with_context_ok, rule on_block_ok, rule body.ok_normalize_index)

lemma extract_gather_value_ok:
  assumes "vin \<Gamma> v" "val_kind v = Tensor" "(index, MIndex) \<in> \<Gamma>" "length input_axes = rank (val_ty v)"
  shows "builds \<Gamma> (extract_gather_value v index input_axes) typing_of (is_value (tensor (elem (val_ty v)) []) Scalar)"
  unfolding extract_gather_value_def
  by (rule main.ok_bind [OF append_index_constant_ok], rule append_tensor_extract_ok [OF assms(2)])
     (use assms in \<open>auto simp: vin_def split: gather_input_axis.split\<close>)

lemma join_Nil_dims: "join '', '' [] = []"
  by simp

lemma format_dim_subset_affine: "format_dim_subset axes = affine_tuple (map dim_name axes)"
  by (simp add: format_dim_subset_def affine_tuple_def)

lemma gather_with_maps_ok:
  assumes v: "vin \<Gamma> v" "rank (val_ty v) \<noteq> 0" and i: "vin \<Gamma> indices" "elem (val_ty indices) = I32 \<or> elem (val_ty indices) = I64"
    and ty: "elem ty = elem (val_ty v)"
    and index_axes: "length index_axes = rank (val_ty indices)"
      "\<forall>k < rank (val_ty indices). index_axes ! k < rank ty \<and> shape ty ! (index_axes ! k) = shape (val_ty indices) ! k"
    and input_axes: "length input_axes = rank (val_ty v)" "\<forall>k. GatherOutput k \<in> set input_axes \<longrightarrow> k < rank ty"
  shows "builds \<Gamma> (gather_with_maps v indices ty index_axes input_axes n) typing_of (is_value ty Tensor)"
  unfolding gather_with_maps_def
proof (rule main.ok_bind [OF coerce_to_kind_ok [OF i(1)]], simp, simp, rule main.ok_if)
  fix indices'
  assume i': "is_value (val_ty indices) Tensor indices'"
  let ?\<Gamma> = "\<Gamma> \<union> typing_of indices'"
  have k: "val_kind v = Tensor" by (rule tensor_kind [OF v])
  show "builds ?\<Gamma> (sbind (extract_index_value indices' []) (\<lambda>cast.
      sbind (normalize_gather_index cast n) (\<lambda>index_value.
      sbind (extract_gather_value v index_value input_axes) (\<lambda>scalar. splat scalar ty)))) typing_of (is_value ty Tensor)"
    if rk: "rank ty = 0"
  proof -
    have "rank (val_ty indices) = 0" using index_axes(2) rk by (metis gr0I not_less0)
    then have "is_value (tensor (elem (val_ty indices)) []) Tensor indices'" using i' by (simp add: rank_0_iff)
    from extract_index_value_ok [OF vin_value [OF i'] this i(2)] show ?thesis
    proof (rule main.ok_bind, intro main.ok_bind [OF normalize_gather_index_ok], simp)
      fix cast index
      show "builds (?\<Gamma> \<union> {(cast, MIndex)} \<union> {(index, MIndex)})
          (sbind (extract_gather_value v index input_axes) (\<lambda>scalar. splat scalar ty)) typing_of (is_value ty Tensor)"
        by (rule main.ok_bind [OF extract_gather_value_ok [OF _ k _ input_axes(1)]],
            intro vin_left v(1), simp, rule splat_ok)
           (use ty in \<open>auto simp: is_value_simps vin_def kind_ok_def rank_def\<close>)
    qed
  qed
  show "builds ?\<Gamma> (sbind (append_tensor_empty ty) (\<lambda>dest.
      append_generic_tensor [indices'] dest ty (rank ty) [format_dim_subset index_axes, identity_map (rank ty)]
        (parallel (rank ty)) (gather_body (raw_of v) (elem (val_ty v)) (rank ty) input_axes n))) typing_of (is_value ty Tensor)"
  proof (rule main.ok_bind [OF append_tensor_empty_ok],
      rule append_generic_tensor_ok [where in_maps = "[map dim_name index_axes]" and out_map = "identity_dims (rank ty)"
        and extents = "shape ty"])
    have "operand_fits (shape ty) (map dim_name index_axes) (value_ty indices')"
      using i' index_axes by (auto simp: is_value_simps value_ty_kind list_all2_conv_all_nth rank_def index_fits_def)
    then have "list_all2 (operand_fits (shape ty)) [map dim_name index_axes] [value_ty indices']" by simp
    from elementwise_loops_fit [OF this]
    show "loops_fit (shape ty) [map dim_name index_axes] [identity_dims (rank ty)] (parallel (rank ty))
        (map value_ty [indices'] @ [MTensor ty])" by simp
    show "body_ok (?\<Gamma> \<union> typing_of dest) (map (\<lambda>v. MElem (elem (val_ty v))) [indices'] @ [MElem (elem ty)])
        [MElem (elem ty)] (gather_body (raw_of v) (elem (val_ty v)) (rank ty) input_axes n ctx)" for dest ctx
      using gather_body_ok [of "raw_of v" "val_ty v" "?\<Gamma> \<union> typing_of dest" "elem (val_ty indices)" input_axes "rank ty" n ctx]
        vin_typing [OF v(1)] k i(2) input_axes i' ty
      by (simp add: is_value_simps value_ty_kind)
  qed (use i' in \<open>auto simp: is_value_simps format_dim_subset_affine rank_def\<close>)
qed

lemma lower_gather_ok:
  assumes v: "vin \<Gamma> v" and i: "vin \<Gamma> indices"
    and ty: "gather_result_type (val_ty v) (val_ty indices) target axis = Inr ty"
  shows "builds \<Gamma> (lower_gather v indices axis target) typing_of (is_value ty Tensor)"
proof -
  let ?s = "shape (val_ty v)" and ?r = "rank (val_ty indices)"
  from ty have a: "axis < rank (val_ty v)" and e: "elem (val_ty indices) = I32 \<or> elem (val_ty indices) = I64"
      and t: "ty = target" "elem target = elem (val_ty v)"
        "shape target = take axis ?s @ shape (val_ty indices) @ drop (axis + 1) ?s"
    by (auto simp: gather_result_type_def result_simps guard_defs)
  have rk: "rank target = rank (val_ty v) + ?r - 1" using a t(3) by (simp add: rank_def)
  have at: "axis + k < rank target \<and> shape target ! (axis + k) = shape (val_ty indices) ! k" if "k < ?r" for k
    using a that rk t(3) by (simp add: rank_def nth_append)
  show ?thesis unfolding lower_gather_def Let_def t(1)
    by (rule bind_lift [OF idx_shape [OF a]], rule gather_with_maps_ok [OF v _ i e t(2)])
       (use a at rk in \<open>auto simp: nth_append split: if_splits\<close>)
qed

lemma lower_take_along_axis_ok:
  assumes v: "vin \<Gamma> v" and i: "vin \<Gamma> indices"
    and ty: "take_along_axis_result_type (val_ty v) (val_ty indices) axis = Inr ty"
  shows "builds \<Gamma> (lower_take_along_axis v indices axis) typing_of (is_value ty Tensor)"
proof -
  from ty have a: "axis < rank (val_ty v)" and e: "elem (val_ty indices) = I32 \<or> elem (val_ty indices) = I64"
      and rk: "rank (val_ty v) = rank (val_ty indices)"
      and t: "ty = tensor (elem (val_ty v)) (shape (val_ty indices))"
    by (auto simp: take_along_axis_result_type_def result_simps guard_defs)
  show ?thesis unfolding lower_take_along_axis_def Let_def t
    by (rule bind_lift [OF idx_shape [OF a]], rule gather_with_maps_ok [OF v _ i e])
       (use a rk in \<open>auto simp: rank_def split: if_splits\<close>)
qed

end
