(* ===== verification/Lower_Reduce_Spec.thy ===== *)
theory Lower_Reduce_Spec
  imports Lower_Gather_Spec
begin

text \<open>
  The reductions of \<^verbatim>\<open>reductions.rs\<close>: one loop over the operand whose reduced dimensions are the reduction
  loops, and the statistics built from them.
\<close>

section \<open>Loops of a reduction\<close>

definition reduces :: "tensor_type \<Rightarrow> axis_spec \<Rightarrow> nat list \<Rightarrow> bool" where
  "reduces ty axis s \<longleftrightarrow>
     (case axis of
        AxisOne a \<Rightarrow> a < rank ty \<and> s = remove_nth a (shape ty)
      | AxisAll \<Rightarrow> rank ty \<noteq> 0 \<and> s = [])"

definition reduction_dims :: "nat \<Rightarrow> axis_spec \<Rightarrow> string list" where
  "reduction_dims n axis =
     (case axis of AxisOne a \<Rightarrow> map dim_name (filter (\<lambda>i. i \<noteq> a) [0..<n]) | AxisAll \<Rightarrow> [])"

lemma reduces_output:
  "reduction_output_type ty axis = Inr u \<Longrightarrow> rank ty \<noteq> 0 \<or> axis \<noteq> AxisAll \<Longrightarrow>
     reduces ty axis (shape u) \<and> elem u = elem ty"
  by (cases axis) (auto simp: reduces_def result_simps guard_defs)

lemma reduces_rank: "reduces ty axis s \<Longrightarrow> rank ty \<noteq> 0"
  by (auto simp: reduces_def split: axis_spec.splits)

lemma join_dims_Nil: "join '', '' (map dim_name xs) = [] \<longleftrightarrow> xs = []"
  by (cases xs; cases "tl xs") (auto simp: dim_name_def)

lemma reduction_map:
  assumes "\<And>a. axis = AxisOne a \<Longrightarrow> a < n"
  shows "reduction_output_map n axis False = affine_tuple (reduction_dims n axis)"
proof (cases axis)
  case (AxisOne a)
  with assms have a: "a < n" by simp
  have "n = 1 \<Longrightarrow> filter (\<lambda>i. i \<noteq> a) [0..<n] = []" using a by simp
  then show ?thesis
    by (simp add: AxisOne reduction_output_map_def reduction_dims_def affine_tuple_def Let_def join_dims_Nil)
qed (simp add: reduction_output_map_def reduction_dims_def)

lemma reduction_iterators_ok:
  "n \<noteq> 0 \<Longrightarrow> reduction_iterators n axis =
     Inr (map (\<lambda>k. if dim_name k \<in> set (reduction_dims n axis) then ''parallel'' else ''reduction'') [0..<n])"
  by (cases axis) (auto simp: reduction_iterators_def reduction_dims_def)

lemma reduction_output_fits:
  assumes "reduces ty axis s"
  shows "operand_fits (shape ty) (reduction_dims (rank ty) axis) (MTensor (tensor e s))"
proof (cases axis)
  case (AxisOne a)
  let ?F = "filter (\<lambda>i. i \<noteq> a) [0..<length (shape ty)]"
  from assms AxisOne have s: "s = map (\<lambda>i. shape ty ! i) ?F"
    by (simp add: reduces_def remove_nth_filter rank_def)
  have "index_fits (shape ty) (dim_name i) (shape ty ! i)" if "i \<in> set ?F" for i
    unfolding index_fits_def using that by auto
  then show ?thesis by (simp add: AxisOne reduction_dims_def rank_def s list_all2_map1 list_all2_map2 list_all2_same)
next
  case AxisAll
  with assms show ?thesis by (simp add: reduces_def reduction_dims_def)
qed

lemma reduces_axis: "reduces ty axis s \<Longrightarrow> axis = AxisOne a \<Longrightarrow> a < rank ty"
  by (simp add: reduces_def)

lemma reduction_loops_fit:
  assumes "reduces ty axis s" "\<forall>t \<in> set outs. \<exists>e. t = MTensor (tensor e s)" "outs \<noteq> []"
  shows "loops_fit (shape ty) [identity_dims (rank ty)] (replicate (length outs) (reduction_dims (rank ty) axis))
    (map (\<lambda>k. if dim_name k \<in> set (reduction_dims (rank ty) axis) then ''parallel'' else ''reduction'') [0..<rank ty])
    (MTensor ty # outs)"
proof -
  have "list_all2 (operand_fits (shape ty)) (replicate (length outs) (reduction_dims (rank ty) axis)) outs"
    unfolding list_all2_conv_all_nth
  proof (intro conjI allI impI)
    fix i
    assume i: "i < length (replicate (length outs) (reduction_dims (rank ty) axis))"
    then have "outs ! i \<in> set outs" by simp
    with assms(2) obtain e where "outs ! i = MTensor (tensor e s)" by blast
    with i reduction_output_fits [OF assms(1)]
    show "operand_fits (shape ty) (replicate (length outs) (reduction_dims (rank ty) axis) ! i) (outs ! i)"
      by (simp del: operand_fits.simps)
  qed simp
  then show ?thesis using identity_fits_rank [of "shape ty" ty]
    by (auto simp: loops_fit_def rank_def)
qed

lemma output_shape_ok:
  assumes "reduces ty axis s"
  shows "builds \<Gamma> (reduction_output_shape (shape ty) axis False) (\<lambda>_. {}) (\<lambda>x. x = s)"
  using assms
  by (cases axis) (auto simp: reduction_output_shape_def reduces_def vec_remove_def rank_def
      intro!: main.ok_return main.ok_lift)

lemma fill_tensor_ok: "elem ty = e \<Longrightarrow> builds \<Gamma> (fill_tensor ty v e) typing_of (is_value ty Tensor)"
  unfolding fill_tensor_def using fill_constant_ok by blast

lemma reduce_body_ok:
  assumes "name \<in> set float_binary_ops \<and> is_float e \<or> name \<in> set int_binary_ops \<and> \<not> is_float e"
  shows "body_ok \<Gamma> [MElem e, MElem e] [MElem e] (reduce_body name e ctx)"
proof (rule body_okI [where G = "\<lambda>rs. typing_list rs [MElem e]" and P = "\<lambda>rs. length rs = 1"])
  fix outer
  let ?tys = "[MElem e, MElem e]"
  have "(region_args ?tys ! 0, MElem e) \<in> args_typing ?tys" "(region_args ?tys ! 1, MElem e) \<in> args_typing ?tys"
    using args_typing_nth [of 0 ?tys] args_typing_nth [of 1 ?tys] by simp_all
  with assms show "region_builds outer ?tys (\<Gamma> \<union> args_typing ?tys) (reduce_body name e ctx (region_args ?tys))
      (\<lambda>rs. typing_list rs [MElem e]) (\<lambda>rs. length rs = 1)"
    unfolding reduce_body_def
    by (elim disjE conjE;
        intro region.ok_bind_pure [OF region.ok_elem_type], hypsubst)
       (rule region.ok_bind [OF region.ok_float_binary] region.ok_bind [OF region.ok_binary];
        auto intro: region.ok_return)+
qed simp

lemma lower_reduce_ok:
  assumes v: "vin \<Gamma> v" and s: "reduces (val_ty v) axis s" and e: "elem (val_ty v) = e"
    and name: "name \<in> set float_binary_ops \<and> is_float e \<or> name \<in> set int_binary_ops \<and> \<not> is_float e"
  shows "builds \<Gamma> (lower_reduce v literal name axis False) typing_of (is_value (tensor e s) Tensor)"
proof -
  let ?n = "rank (val_ty v)" and ?ty = "tensor e s"
  have k: "val_kind v = Tensor" by (rule tensor_kind [OF v reduces_rank [OF s]])
  have dims: "reduction_output_map ?n axis False = affine_tuple (reduction_dims ?n axis)"
    by (rule reduction_map) (rule reduces_axis [OF s])
  show ?thesis unfolding lower_reduce_def Let_def e
  proof (rule main.ok_bind_pure [OF output_shape_ok [OF s]], hypsubst, unfold tensor_type.simps,
      rule main.ok_bind [OF fill_tensor_ok], simp, rule bind_lift [OF reduction_iterators_ok [OF reduces_rank [OF s]]])
    fix init
    assume init: "is_value ?ty Tensor init"
    show "builds (\<Gamma> \<union> typing_of init) (append_generic_tensor [v] init ?ty ?n
        [identity_map ?n, reduction_output_map ?n axis False]
        (map (\<lambda>k. if dim_name k \<in> set (reduction_dims ?n axis) then ''parallel'' else ''reduction'') [0..<?n])
        (reduce_body name e)) typing_of (is_value ?ty Tensor)"
      by (rule append_generic_tensor_ok [where in_maps = "[identity_dims ?n]" and out_map = "reduction_dims ?n axis"
            and extents = "shape (val_ty v)"])
         (use v k e init reduction_loops_fit [OF s, of "[MTensor ?ty]"] reduce_body_ok [OF name] in
           \<open>auto simp: vin_def value_ty_kind dims [unfolded rank_def] rank_def\<close>)
  qed
qed

section \<open>Sums and extrema\<close>

lemma reduction_cases:
  assumes "reduction_output_type (val_ty v) axis = Inr ty"
  shows "scalar_reduction v axis \<and> ty = val_ty v \<or>
    \<not> scalar_reduction v axis \<and> reduces (val_ty v) axis (shape ty) \<and> elem ty = elem (val_ty v)"
proof (cases "scalar_reduction v axis")
  case True
  with assms show ?thesis by (auto simp: scalar_reduction_def rank_0_iff)
next
  case False
  with reduces_output [OF assms] show ?thesis by (auto simp: scalar_reduction_def)
qed

lemma folded_ok:
  assumes v: "vin \<Gamma> v" and ty: "reduction_output_type (val_ty v) axis = Inr ty" and e: "elem (val_ty v) = e"
    and name: "name \<in> set float_binary_ops \<and> is_float e \<or> name \<in> set int_binary_ops \<and> \<not> is_float e"
  shows "builds \<Gamma> (if scalar_reduction v axis then sreturn v else lower_reduce v literal name axis False) typing_of
           (has_ty ty)"
  using reduction_cases [OF ty]
proof (elim disjE conjE)
  assume "\<not> scalar_reduction v axis" and r: "reduces (val_ty v) axis (shape ty)" and "elem ty = elem (val_ty v)"
  moreover have "tensor e (shape ty) = ty" using e calculation by (cases ty) simp
  ultimately show ?thesis using builds_tensor [OF lower_reduce_ok [OF v r e name, of literal]] by simp
qed (simp add: v return_has_ty)

lemma float_or_int_group:
  "f \<in> set float_binary_ops \<Longrightarrow> i \<in> set int_binary_ops \<Longrightarrow>
     float_or_int e f i \<in> set float_binary_ops \<and> is_float e \<or> float_or_int e f i \<in> set int_binary_ops \<and> \<not> is_float e"
  by (simp add: float_or_int_def)

lemma lower_sum_ok:
  assumes "vin \<Gamma> v" "reduction_output_type (val_ty v) axis = Inr ty"
  shows "builds \<Gamma> (lower_sum v axis) typing_of (has_ty ty)"
  unfolding lower_sum_def
  by (rule folded_ok [OF assms refl float_or_int_group]) (simp_all add: float_binary_ops_def int_binary_ops_def)

lemma lower_prod_ok:
  assumes "vin \<Gamma> v" "reduction_output_type (val_ty v) axis = Inr ty"
  shows "builds \<Gamma> (lower_prod v axis) typing_of (has_ty ty)"
  unfolding lower_prod_def
  by (rule folded_ok [OF assms refl float_or_int_group]) (simp_all add: float_binary_ops_def int_binary_ops_def)

lemma lower_all_any_ok:
  assumes "vin \<Gamma> v" "reduction_output_type (val_ty v) axis = Inr ty" "elem (val_ty v) = Bool"
  shows "builds \<Gamma> (lower_all v axis) typing_of (has_ty ty)" "builds \<Gamma> (lower_any v axis) typing_of (has_ty ty)"
  unfolding lower_all_def lower_any_def
  by (rule folded_ok [OF assms], simp add: int_binary_ops_def)+

lemma non_empty_ok:
  assumes "expect_non_empty_reduction ty axis = Inr ()"
  shows "builds \<Gamma> (lower_non_empty_reduction ty axis) (\<lambda>_. {}) (\<lambda>_. True)"
  using assms by (cases axis) (auto simp: lower_non_empty_reduction_def result_simps guard_defs intro!: main.ok_return)

lemma float_seeds:
  "is_float e \<Longrightarrow> \<exists>v. negative_infinity_literal e = Inr v" "is_float e \<Longrightarrow> \<exists>v. positive_infinity_literal e = Inr v"
  by (cases e; simp)+

lemma seeds:
  "\<exists>v name. max_seed e = Inr (v, name) \<and>
     (name \<in> set float_binary_ops \<and> is_float e \<or> name \<in> set int_binary_ops \<and> \<not> is_float e)"
  "\<exists>v name. min_seed e = Inr (v, name) \<and>
     (name \<in> set float_binary_ops \<and> is_float e \<or> name \<in> set int_binary_ops \<and> \<not> is_float e)"
  using float_seeds [of e] by (auto simp: max_seed_def min_seed_def float_binary_ops_def int_binary_ops_def)

lemma seeded_ok:
  assumes v: "vin \<Gamma> v" and ne: "expect_non_empty_reduction (val_ty v) axis = Inr ()"
    and ty: "reduction_output_type (val_ty v) axis = Inr ty"
    and seed: "\<exists>l name. seed = Inr (l, name) \<and> (name \<in> set float_binary_ops \<and> is_float (elem (val_ty v)) \<or>
                 name \<in> set int_binary_ops \<and> \<not> is_float (elem (val_ty v)))"
  shows "builds \<Gamma> (sbind (lower_non_empty_reduction (val_ty v) axis) (\<lambda>_.
     if scalar_reduction v axis then sreturn v
     else sbind (slift seed) (\<lambda>(l, name). lower_reduce v l name axis False))) typing_of (has_ty ty)"
proof (rule main.ok_bind_pure [OF non_empty_ok [OF ne]])
  from seed obtain l name where s: "seed = Inr (l, name)"
    and name: "name \<in> set float_binary_ops \<and> is_float (elem (val_ty v)) \<or>
      name \<in> set int_binary_ops \<and> \<not> is_float (elem (val_ty v))" by blast
  from folded_ok [OF v ty refl name, of l] bind_lift [OF s, of \<Gamma> "\<lambda>(l, name). lower_reduce v l name axis False"]
  show "builds \<Gamma> (if scalar_reduction v axis then sreturn v
      else sbind (slift seed) (\<lambda>(l, name). lower_reduce v l name axis False)) typing_of (has_ty ty)"
    by (cases "scalar_reduction v axis") simp_all
qed

lemma extremum_ok:
  assumes "vin \<Gamma> v" "expect_non_empty_reduction (val_ty v) axis = Inr ()"
    and "reduction_output_type (val_ty v) axis = Inr ty"
  shows "builds \<Gamma> (max_keep_dims v axis False) typing_of (has_ty ty)"
    and "builds \<Gamma> (lower_max v axis) typing_of (has_ty ty)" "builds \<Gamma> (lower_min v axis) typing_of (has_ty ty)"
  unfolding lower_max_def max_keep_dims_def lower_min_def
  by (rule seeded_ok [OF assms] seeds)+

section \<open>Statistics\<close>

lemma reduced_count_ok:
  "reduction_output_type ty axis = Inr u \<Longrightarrow> \<exists>n. reduced_count ty axis = Inr n"
  by (cases axis) (auto simp: reduced_count_def result_simps guard_defs idx_Inr_iff rank_def)

lemma scaled_ok:
  assumes v: "vin \<Gamma> v" "val_ty v = ty" and c: "vin \<Gamma> c" "val_ty c = tensor (elem ty) []"
    and name: "name \<in> set float_binary_ops" and e: "is_float (elem ty)"
  shows "builds \<Gamma> (emit_binary name v c) typing_of (has_ty ty)" "builds \<Gamma> (emit_binary name c v) typing_of (has_ty ty)"
proof -
  have "builds \<Gamma> (emit_binary name v c) typing_of (has_ty (tensor (elem ty) (shape ty)))"
    by (rule emit_binary_ok [OF v(1) c(1)]) (use assms in simp_all)
  then show "builds \<Gamma> (emit_binary name v c) typing_of (has_ty ty)" by (simp add: value_as_tensor)
  have "builds \<Gamma> (emit_binary name c v) typing_of (has_ty (tensor (elem ty) (shape ty)))"
    by (rule emit_binary_ok [OF c(1) v(1)]) (use assms in simp_all)
  then show "builds \<Gamma> (emit_binary name c v) typing_of (has_ty ty)" by (simp add: value_as_tensor)
qed

lemma same_type_ok:
  assumes "vin \<Gamma> l" "vin \<Gamma> r" "val_ty l = ty" "val_ty r = ty"
    and "name \<in> set float_binary_ops \<and> is_float (elem ty) \<or> name \<in> set int_binary_ops \<and> \<not> is_float (elem ty)"
  shows "builds \<Gamma> (emit_binary name l r) typing_of (has_ty ty)"
  using emit_binary_ok [OF assms(1,2) _ _ _ assms(5), of "shape ty"] assms(3,4) by (simp add: value_as_tensor)

lemma broadcast_reduced_ok:
  assumes m: "vin \<Gamma> m" "val_ty m = u" and r: "reduction_output_type ty axis = Inr u"
  shows "builds \<Gamma> (broadcast_reduced m ty axis) typing_of (is_value ty Tensor)"
proof (cases axis)
  case (AxisOne a)
  with r have "a < rank ty" "u = tensor (elem ty) (remove_nth a (shape ty))"
    by (auto simp: result_simps guard_defs)
  with m AxisOne broadcast_along_axis_ok [OF m(1), of ty a] show ?thesis by (simp add: broadcast_reduced_def)
next
  case AxisAll
  with r m lower_broadcast_ok [OF m(1), of ty] show ?thesis by (auto simp: broadcast_reduced_def fills_def)
qed

lemma constant_in: "is_value (tensor e []) Scalar c \<Longrightarrow> vin (\<Gamma> \<union> typing_of c) c"
  by (simp add: vin_def is_value_simps kind_ok_def rank_def)

lemma divf_float [simp]:
  "''arith.divf'' \<in> set float_binary_ops" "''arith.subf'' \<in> set float_binary_ops"
  "''arith.mulf'' \<in> set float_binary_ops" "''arith.addf'' \<in> set float_binary_ops"
  by (simp_all add: float_binary_ops_def)

lemma lower_mean_ok:
  assumes v: "vin \<Gamma> v" and ne: "expect_non_empty_reduction (val_ty v) axis = Inr ()"
    and ty: "reduction_output_type (val_ty v) axis = Inr ty" and f: "is_float (elem (val_ty v))"
  shows "builds \<Gamma> (lower_mean v axis) typing_of (has_ty ty)"
proof -
  obtain n where n: "reduced_count (val_ty v) axis = Inr n" using reduced_count_ok [OF ty] by blast
  show ?thesis unfolding lower_mean_def
  proof (rule main.ok_bind_pure [OF non_empty_ok [OF ne]], rule main.ok_if)
    show "builds \<Gamma> (sreturn v) typing_of (has_ty ty)" if "scalar_reduction v axis"
      using that reduction_cases [OF ty] v by (simp add: return_has_ty)
    assume "\<not> scalar_reduction v axis"
    with reduction_cases [OF ty] have e: "elem ty = elem (val_ty v)" by simp
    show "builds \<Gamma> (sbind (slift (reduced_count (val_ty v) axis)) (\<lambda>count.
        sbind (lower_sum v axis) (\<lambda>total.
        sbind (lower_constant (count_literal count) (elem (val_ty v))) (\<lambda>scale.
        emit_binary ''arith.divf'' total scale)))) typing_of (has_ty ty)"
      by (rule bind_lift [OF n], rule main.ok_bind [OF lower_sum_ok [OF v ty]], rule main.ok_bind [OF lower_constant_ok],
          rule scaled_ok(1))
         (use e f in \<open>auto simp: is_value_simps has_ty_def vin_def kind_ok_def rank_def\<close>)
  qed
qed

lemma zero_like_scalar_ok:
  "scalar_reduction v axis \<Longrightarrow> reduction_output_type (val_ty v) axis = Inr ty \<Longrightarrow>
     builds \<Gamma> (zero_like (val_ty v)) typing_of (has_ty ty)"
  using reduction_cases [of v axis ty] zero_like_ok by simp

lemma lower_var_ok:
  assumes v: "vin \<Gamma> v" and ne: "expect_non_empty_reduction (val_ty v) axis = Inr ()"
    and ty: "reduction_output_type (val_ty v) axis = Inr ty" and f: "is_float (elem (val_ty v))"
  shows "builds \<Gamma> (lower_var v axis) typing_of (has_ty ty)"
proof -
  obtain n where n: "reduced_count (val_ty v) axis = Inr n" using reduced_count_ok [OF ty] by blast
  let ?u = "val_ty v"
  show ?thesis unfolding lower_var_def
  proof (rule main.ok_bind_pure [OF non_empty_ok [OF ne]], rule main.ok_if)
    show "builds \<Gamma> (zero_like ?u) typing_of (has_ty ty)" if "scalar_reduction v axis"
      using that ty by (rule zero_like_scalar_ok)
    assume "\<not> scalar_reduction v axis"
    with reduction_cases [OF ty] have e: "elem ty = elem ?u" by simp
    have square: "builds \<Delta> (emit_binary ''arith.mulf'' c c) typing_of (has_ty ?u)" if "vin \<Delta> c" "val_ty c = ?u" for \<Delta> c
      using that f by (intro same_type_ok) simp_all
    have rest: "builds \<Delta> (sbind (lower_sum sq axis) (\<lambda>total.
        sbind (lower_constant (count_literal n) (elem ?u)) (\<lambda>scale. emit_binary ''arith.divf'' total scale)))
        typing_of (has_ty ty)" if "vin \<Delta> sq" "has_ty ?u sq" for \<Delta> sq
      by (rule main.ok_bind [OF lower_sum_ok [OF that(1)]], use that ty in \<open>simp add: has_ty_def\<close>,
          rule main.ok_bind [OF lower_constant_ok], rule scaled_ok(1))
         (use e f in \<open>auto simp: is_value_simps has_ty_def vin_def kind_ok_def rank_def\<close>)
    show "builds \<Gamma> (sbind (slift (reduced_count ?u axis)) (\<lambda>count.
        sbind (lower_mean v axis) (\<lambda>mean.
        sbind (broadcast_reduced mean ?u axis) (\<lambda>mean'.
        sbind (emit_binary ''arith.subf'' v mean') (\<lambda>centered.
        sbind (emit_binary ''arith.mulf'' centered centered) (\<lambda>squared.
        sbind (lower_sum squared axis) (\<lambda>total.
        sbind (lower_constant (count_literal count) (elem ?u)) (\<lambda>scale.
        emit_binary ''arith.divf'' total scale)))))))) typing_of (has_ty ty)"
    proof (rule bind_lift [OF n], rule main.ok_bind [OF lower_mean_ok [OF v ne ty f]],
        rule main.ok_bind [OF broadcast_reduced_ok [OF vin_has_ty _ ty]], assumption, simp add: has_ty_def,
        rule main.ok_bind [OF same_type_ok [where ty = ?u]])
      fix mean mean' centered
      assume c: "has_ty ?u centered"
      show "builds (\<Gamma> \<union> typing_of mean \<union> typing_of mean' \<union> typing_of centered)
          (sbind (emit_binary ''arith.mulf'' centered centered) (\<lambda>squared.
           sbind (lower_sum squared axis) (\<lambda>total.
           sbind (lower_constant (count_literal n) (elem ?u)) (\<lambda>scale.
           emit_binary ''arith.divf'' total scale)))) typing_of (has_ty ty)"
        by (rule main.ok_bind [OF square [OF vin_has_ty [OF c]]], use c in \<open>simp add: has_ty_def\<close>,
            rule rest [OF vin_has_ty]) simp_all
    qed (use v f in \<open>auto simp: is_value_simps vin_def kind_ok_def\<close>)
  qed
qed

lemma float_unary_has_ty:
  assumes v: "vin \<Gamma> v" "val_ty v = ty" and name: "name \<in> set float_unary_ops" "is_float (elem ty)"
  shows "builds \<Gamma> (emit_unary name v) typing_of (has_ty ty)"
proof -
  have "builds \<Gamma> (emit_unary name v) typing_of (is_value (val_ty v) (val_kind v))"
    using v name by (intro float_unary_ok) simp_all
  then show ?thesis
    by (rule builds_has_ty) (use v in \<open>auto simp: is_value_simps has_ty_def kind_ok_def vin_def\<close>)
qed

lemma lower_std_ok:
  assumes "vin \<Gamma> v" "expect_non_empty_reduction (val_ty v) axis = Inr ()"
    and ty: "reduction_output_type (val_ty v) axis = Inr ty" and f: "is_float (elem (val_ty v))"
  shows "builds \<Gamma> (lower_std v axis) typing_of (has_ty ty)"
  unfolding lower_std_def
proof (rule main.ok_bind [OF lower_var_ok [OF assms]])
  fix w
  assume w: "has_ty ty w"
  have "elem ty = elem (val_ty v)" using reduction_cases [OF ty] by auto
  with w f show "builds (\<Gamma> \<union> typing_of w) (emit_unary ''math.sqrt'' w) typing_of (has_ty ty)"
    by (intro float_unary_has_ty [OF vin_has_ty]) (auto simp: float_unary_ops_def has_ty_def)
qed

lemma float_or_int_sub:
  "float_or_int e ''arith.subf'' ''arith.subi'' \<in> set float_binary_ops \<and> is_float e \<or>
   float_or_int e ''arith.subf'' ''arith.subi'' \<in> set int_binary_ops \<and> \<not> is_float e"
  by (rule float_or_int_group) (simp_all add: int_binary_ops_def)

lemma lower_ptp_ok:
  assumes v: "vin \<Gamma> v" and ne: "expect_non_empty_reduction (val_ty v) axis = Inr ()"
    and ty: "reduction_output_type (val_ty v) axis = Inr ty"
  shows "builds \<Gamma> (lower_ptp v axis) typing_of (has_ty ty)"
  unfolding lower_ptp_def
proof (rule main.ok_bind_pure [OF non_empty_ok [OF ne]], rule main.ok_if)
  show "builds \<Gamma> (zero_like (val_ty v)) typing_of (has_ty ty)" if "scalar_reduction v axis"
    using that ty by (rule zero_like_scalar_ok)
  show "builds \<Gamma> (sbind (lower_max v axis) (\<lambda>high. sbind (lower_min v axis) (\<lambda>low.
      emit_binary (float_or_int (elem (val_ty high)) ''arith.subf'' ''arith.subi'') high low))) typing_of (has_ty ty)"
    by (rule main.ok_bind [OF extremum_ok(2) [OF v ne ty]],
        rule main.ok_bind [OF extremum_ok(3) [OF vin_left [OF v] ne ty]], rule same_type_ok)
       (auto simp: has_ty_def vin_def float_or_int_sub)
qed

lemma lower_softmax_ok:
  assumes v: "vin \<Gamma> v" and ne: "expect_non_empty_reduction (val_ty v) axis = Inr ()"
    and rk: "rank (val_ty v) \<noteq> 0" and f: "is_float (elem (val_ty v))"
  shows "builds \<Gamma> (lower_softmax v axis) typing_of (has_ty (val_ty v))"
proof -
  let ?u = "val_ty v" and ?e = "elem (val_ty v)"
  obtain ty where ty: "reduction_output_type ?u axis = Inr ty"
    using ne by (cases axis) (auto simp: result_simps guard_defs)
  have r: "reduces ?u axis (shape ty)" and e: "elem ty = ?e" using reduces_output [OF ty] rk by auto
  have t: "tensor ?e (shape ty) = ty" using e by (cases ty) simp
  have exp: "builds \<Delta> (emit_unary ''math.exp'' x) typing_of (has_ty ?u)" if "vin \<Delta> x" "val_ty x = ?u" for \<Delta> x
    using that f by (intro float_unary_has_ty) (simp_all add: float_unary_ops_def)
  have rest: "builds \<Delta> (sbind (lower_reduce x (zero_literal (elem (val_ty x))) ''arith.addf'' axis False) (\<lambda>denominator.
      sbind (broadcast_reduced denominator (val_ty x) axis) (\<lambda>denominator'.
      emit_binary ''arith.divf'' x denominator'))) typing_of (has_ty ?u)" if "vin \<Delta> x" "val_ty x = ?u" for \<Delta> x
  proof (rule main.ok_bind [OF lower_reduce_ok [OF that(1), unfolded that(2), OF r refl]])
    show "''arith.addf'' \<in> set float_binary_ops \<and> is_float ?e \<or> ''arith.addf'' \<in> set int_binary_ops \<and> \<not> is_float ?e"
      using f by simp
    fix d
    assume d: "is_value (tensor ?e (shape ty)) Tensor d"
    show "builds (\<Delta> \<union> typing_of d) (sbind (broadcast_reduced d (val_ty x) axis) (\<lambda>d'. emit_binary ''arith.divf'' x d'))
        typing_of (has_ty ?u)"
      unfolding that(2)
      by (rule main.ok_bind [OF broadcast_reduced_ok [OF vin_value [OF d] _ ty]],
          use d t in \<open>simp add: is_value_simps\<close>, rule same_type_ok)
         (use that f in \<open>auto simp: is_value_simps vin_def kind_ok_def\<close>)
  qed
  show ?thesis unfolding lower_softmax_def
  proof (rule main.ok_bind_pure [OF non_empty_ok [OF ne]], rule main.ok_bind [OF extremum_ok(1) [OF v ne ty]],
      rule main.ok_bind [OF broadcast_reduced_ok [OF vin_has_ty _ ty]], assumption, simp add: has_ty_def,
      rule main.ok_bind [OF same_type_ok [where ty = ?u]])
    fix high high' shifted
    assume s: "has_ty ?u shifted"
    show "builds (\<Gamma> \<union> typing_of high \<union> typing_of high' \<union> typing_of shifted)
        (sbind (emit_unary ''math.exp'' shifted) (\<lambda>x.
         sbind (lower_reduce x (zero_literal (elem (val_ty x))) ''arith.addf'' axis False) (\<lambda>denominator.
         sbind (broadcast_reduced denominator (val_ty x) axis) (\<lambda>denominator'.
         emit_binary ''arith.divf'' x denominator')))) typing_of (has_ty ?u)"
      by (rule main.ok_bind [OF exp [OF vin_has_ty [OF s]]], use s in \<open>simp add: has_ty_def\<close>,
          rule rest [OF vin_has_ty]) (simp_all add: has_ty_def)
  qed (use v f in \<open>auto simp: is_value_simps vin_def kind_ok_def\<close>)
qed

lemma lower_sigmoid_ok:
  assumes v: "vin \<Gamma> v" and f: "is_float (elem (val_ty v))"
  shows "builds \<Gamma> (lower_sigmoid v) typing_of (has_ty (val_ty v))"
proof -
  let ?u = "val_ty v" and ?e = "elem (val_ty v)"
  have exp: "builds \<Delta> (emit_unary ''math.exp'' x) typing_of (has_ty ?u)" if "vin \<Delta> x" "val_ty x = ?u" for \<Delta> x
    using that f by (intro float_unary_has_ty) (simp_all add: float_unary_ops_def)
  show ?thesis unfolding lower_sigmoid_def
    apply (rule main.ok_bind [OF lower_constant_ok], rule main.ok_bind [OF zero_like_ok])
    apply (rule main.ok_bind [OF same_type_ok [where ty = ?u]])
    apply (use v f in \<open>auto simp: has_ty_def vin_def\<close>)[5]
    apply (rule main.ok_bind [OF exp])
    apply (auto simp: has_ty_def vin_def)[2]
    apply (rule main.ok_bind [OF scaled_ok(2) [where ty = ?u]])
    apply (use f in \<open>auto simp: has_ty_def vin_def is_value_simps kind_ok_def rank_def\<close>)[6]
    apply (rule scaled_ok(2))
    apply (use f in \<open>auto simp: has_ty_def vin_def is_value_simps kind_ok_def rank_def\<close>)
    done
qed

section \<open>Arguments of extrema\<close>

lemma flatten_index_ok:
  "(r, MIndex) \<in> \<Gamma> \<Longrightarrow>
     region_builds outer tys \<Gamma> (flatten_index ctx axis dims r) (\<lambda>r. {(r, MIndex)}) (\<lambda>_. True)"
proof (induction dims arbitrary: \<Gamma> axis r)
  case Nil
  then show ?case by (auto intro: region.ok_return)
next
  case (Cons d dims)
  then show ?case unfolding flatten_index.simps
    by (intro region.ok_bind [OF ok_linalg_index] region.ok_bind [OF region.ok_constant]
        region.ok_bind [OF region.ok_binary] Cons.IH)
       (auto simp: int_binary_ops_def)
qed

lemma arg_candidate_index_ok:
  "region_builds outer tys \<Gamma> (arg_candidate_index ctx ty axis) (\<lambda>r. {(r, MElem I64)}) (\<lambda>_. True)"
proof -
  have "region_builds outer tys \<Gamma> (case axis_index axis of
      Some axis \<Rightarrow> linalg_index ctx axis
    | None \<Rightarrow> sbind (linalg_index ctx 0) (flatten_index ctx 1 (drop 1 (shape ty)))) (\<lambda>r. {(r, MIndex)}) (\<lambda>_. True)"
    by (cases "axis_index axis") (auto intro: ok_linalg_index region.ok_bind [OF ok_linalg_index] flatten_index_ok)
  then show ?thesis unfolding arg_candidate_index_def
    by (rule region.ok_bind, intro region.ok_bind_pure [OF region.ok_elem_type], hypsubst, intro region.ok_block_op1)
       (auto simp: plain_names op_typings index_cast_typed_def)
qed

lemma ok_cmp_attr:
  assumes "name = ''arith.cmpf'' \<and> p \<in> fst ` set cmpf_predicates \<or> name = ''arith.cmpi'' \<and> p \<in> fst ` set cmpi_predicates"
  shows "region_builds outer tys \<Gamma> (cmp_predicate_attr name p) (\<lambda>_. {}) (\<lambda>_. True)"
  using assms unfolding cmp_predicate_attr_def cmpf_predicate_value_def cmpi_predicate_value_def
  by (auto intro!: region.ok_bind_pure [OF region.ok_table] region.ok_return)

lemma arg_extreme_body_ok:
  fixes ty :: tensor_type
  defines "tys \<equiv> [MElem (elem ty), MElem I64, MElem (elem ty)]"
  shows "body_ok \<Gamma> tys [MElem I64, MElem (elem ty)] (arg_extreme_body ex ty axis ctx)"
proof (rule body_okI [where G = "\<lambda>rs. typing_list rs [MElem I64, MElem (elem ty)]" and P = "\<lambda>rs. length rs = 2"])
  fix outer
  let ?\<Gamma> = "\<Gamma> \<union> args_typing tys" and ?e = "elem ty" and ?as = "region_args tys"
  let ?cmp = "float_or_int ?e ''arith.cmpf'' ''arith.cmpi''"
  have args: "(?as ! 0, MElem ?e) \<in> ?\<Gamma>" "(?as ! Suc 0, MElem I64) \<in> ?\<Gamma>" "(?as ! 2, MElem ?e) \<in> ?\<Gamma>"
    using args_typing_nth [of 0 tys] args_typing_nth [of 1 tys] args_typing_nth [of 2 tys] by (simp_all add: tys_def)
  have cmp: "region_builds outer tys \<Delta> (block_op ctx ?cmp [?as ! 0, ?as ! 2] (MElem Bool) attrs)
      (\<lambda>r. {(r, MElem Bool)}) (\<lambda>_. True)" if "?\<Gamma> \<subseteq> \<Delta>" for \<Delta> attrs
    by (rule region.ok_compare [where t = "MElem ?e"]) (use that args in \<open>auto simp: float_or_int_def\<close>)
  have attr: "region_builds outer tys \<Delta> (cmp_predicate_attr ?cmp (ordering_predicate ex ?e)) (\<lambda>_. {}) (\<lambda>_. True)"
    "region_builds outer tys \<Delta> (cmp_predicate_attr ?cmp (float_or_int ?e ''oeq'' ''eq'')) (\<lambda>_. {}) (\<lambda>_. True)" for \<Delta>
    by (rule ok_cmp_attr, cases ex; simp add: float_or_int_def ordering_predicate_def)+
  show "region_builds outer tys ?\<Gamma> (arg_extreme_body ex ty axis ctx ?as)
      (\<lambda>rs. typing_list rs [MElem I64, MElem ?e]) (\<lambda>rs. length rs = 2)"
    unfolding arg_extreme_body_def Let_def
    apply (rule region.ok_bind_pure [OF region.ok_elem_type], hypsubst)
    apply (rule region.ok_bind_pure [OF region.ok_elem_type], hypsubst)
    apply (rule region.ok_bind_pure [OF region.ok_elem_type], hypsubst)
    apply (rule region.ok_bind [OF arg_candidate_index_ok])
    apply (rule region.ok_bind_pure [OF attr(1)])
    apply (rule region.ok_bind [OF cmp], blast)
    apply (rule region.ok_bind_pure [OF attr(2)])
    apply (rule region.ok_bind [OF cmp], blast)
    apply (rule region.ok_bind [OF region.ok_compare [where t = "MElem I64"]])
    apply (use args in simp_all)
    apply (rule region.ok_bind [OF region.ok_binary], simp_all add: int_binary_ops_def)
    apply (rule region.ok_bind [OF region.ok_binary], simp_all add: int_binary_ops_def)
    apply (rule region.ok_bind [OF region.ok_select], simp_all)
    apply (rule region.ok_bind [OF region.ok_select], simp_all)
    apply (rule region.ok_return, simp_all)
    done
qed simp

lemma arg_extreme_ok:
  assumes v: "vin \<Gamma> v" and ne: "expect_non_empty_reduction (val_ty v) axis = Inr ()"
    and ty: "reduction_output_type (val_ty v) axis = Inr ty"
  shows "builds \<Gamma> (arg_extreme v axis ex) typing_of (has_ty (tensor I64 (shape ty)))"
proof -
  let ?n = "rank (val_ty v)" and ?s = "shape ty" and ?e = "elem (val_ty v)"
  let ?out = "reduction_dims ?n axis" and ?ity = "tensor I64 (shape ty)" and ?vty = "tensor (elem (val_ty v)) (shape ty)"
  show ?thesis unfolding arg_extreme_def Let_def
  proof (rule main.ok_bind_pure [OF non_empty_ok [OF ne]], rule main.ok_if)
    assume "scalar_reduction v axis"
    with reduction_cases [OF ty] have "?s = []" by (auto simp: scalar_reduction_def rank_0_iff rank_def)
    then show "builds \<Gamma> (sbind (lower_constant ''0'' I64) (\<lambda>scalar. splat scalar (tensor I64 []))) typing_of (has_ty ?ity)"
      by (simp, intro main.ok_bind [OF lower_constant_ok] builds_tensor)
         (auto intro: splat_ok [OF constant_in] simp: is_value_simps)
  next
    assume "\<not> scalar_reduction v axis"
    with reduction_cases [OF ty] have r: "reduces (val_ty v) axis ?s" by blast
    have k: "val_kind v = Tensor" by (rule tensor_kind [OF v reduces_rank [OF r]])
    have dims: "reduction_output_map ?n axis False = affine_tuple ?out"
      by (rule reduction_map) (rule reduces_axis [OF r])
    let ?kinds = "map (\<lambda>k. if dim_name k \<in> set ?out then ''parallel'' else ''reduction'') [0..<?n]"
    show "builds \<Gamma> (sbind (reduction_output_shape (shape (val_ty v)) axis False) (\<lambda>s.
        sbind (fill_tensor (tensor I64 s) ''0'' I64) (\<lambda>init_index.
        sbind (fill_tensor (tensor ?e s) (initial_value ex ?e) ?e) (\<lambda>init_value.
        sbind (slift (reduction_iterators ?n axis)) (\<lambda>iterators.
        sbind (append_linalg_generic [v] [init_index, init_value] [tensor I64 s, tensor ?e s] ?n
                 [identity_map ?n, reduction_output_map ?n axis False, reduction_output_map ?n axis False] iterators
                 (arg_extreme_body ex (val_ty v) axis)) (\<lambda>results.
        sreturn (value_tensor (hd results) (tensor I64 s)))))))) typing_of (has_ty ?ity)"
    proof (rule main.ok_bind_pure [OF output_shape_ok [OF r]], hypsubst,
        rule main.ok_bind [OF fill_tensor_ok], simp, rule main.ok_bind [OF fill_tensor_ok], simp,
        rule bind_lift [OF reduction_iterators_ok [OF reduces_rank [OF r]]],
        rule main.ok_bind [OF append_linalg_generic_ok [where in_maps = "[identity_dims ?n]"
          and out_maps = "[?out, ?out]" and extents = "shape (val_ty v)"]])
      fix ii iv
      assume i: "is_value ?ity Tensor ii" "is_value ?vty Tensor iv"
      show "\<forall>w \<in> set ([v] @ [ii, iv]). typing_of w \<subseteq> \<Gamma> \<union> typing_of ii \<union> typing_of iv"
        using vin_typing [OF v] by auto
      show "map value_ty [ii, iv] = map MTensor [?ity, ?vty]" using i by (simp add: is_value_simps value_ty_kind)
      show "loops_fit (shape (val_ty v)) [identity_dims ?n] [?out, ?out] ?kinds (map value_ty ([v] @ [ii, iv]))"
        using reduction_loops_fit [OF r, of "[MTensor ?ity, MTensor ?vty]"] i k
        by (simp add: is_value_simps value_ty_kind numeral_2_eq_2)
      show "body_ok (\<Gamma> \<union> typing_of ii \<union> typing_of iv) (map (\<lambda>v. MElem (elem (val_ty v))) ([v] @ [ii, iv]))
          (map (\<lambda>ty. MElem (elem ty)) [?ity, ?vty]) (arg_extreme_body ex (val_ty v) axis ctx)" for ctx
        using arg_extreme_body_ok [of _ "val_ty v"] i by (simp add: is_value_simps)
    qed (auto simp: dims [unfolded rank_def] rank_def length_Suc_conv has_ty_def vin_def kind_ok_def numeral_2_eq_2 intro!: main.ok_return)
  qed
qed

lemma lower_argmax_argmin_ok:
  assumes "vin \<Gamma> v" "arg_reduction_rule axis [val_ty v] = Inr [ty]"
  shows "builds \<Gamma> (lower_argmax v axis) typing_of (has_ty ty)" "builds \<Gamma> (lower_argmin v axis) typing_of (has_ty ty)"
proof -
  from assms(2) obtain u where "expect_non_empty_reduction (val_ty v) axis = Inr ()"
      "reduction_output_type (val_ty v) axis = Inr u" "ty = u\<lparr>elem := I64\<rparr>"
    by (auto simp: arg_reduction_rule_def result_simps guard_defs)
  with arg_extreme_ok [OF assms(1), of axis u]
  show "builds \<Gamma> (lower_argmax v axis) typing_of (has_ty ty)" "builds \<Gamma> (lower_argmin v axis) typing_of (has_ty ty)"
    by (cases u; simp add: lower_argmax_def lower_argmin_def)+
qed

end
