(* ===== verification/Lower_Linalg_Spec.thy ===== *)
theory Lower_Linalg_Spec
  imports Lower_Reduce_Spec
begin

text \<open>
  Contractions, matrix products, convolutions and pooling: the indexing maps that
  \<^verbatim>\<open>linalg.rs\<close> and \<^verbatim>\<open>matmul.rs\<close> print fit the extents of their operands.
\<close>

section \<open>Loops of a contraction\<close>

lemma index_fits_append: "index_fits es i n \<Longrightarrow> index_fits (es @ es') i n"
  unfolding index_fits_def by (auto simp: nth_append)

lemma index_fits_dim: "k < length es \<Longrightarrow> es ! k = n \<Longrightarrow> index_fits es (dim_name k) n"
  unfolding index_fits_def by auto

lemma index_fits_last: "length es = n \<Longrightarrow> index_fits (es @ [k]) (dim_name n) k"
  by (rule index_fits_dim) auto

lemma output_dims_identity: "output_dims n = identity_dims n"
  by (simp add: output_dims_def identity_dims_def)

lemma contraction_loops_fit:
  assumes "list_all2 (operand_fits (shape ty @ [k])) in_maps tys"
    and "\<exists>is \<in> set in_maps. dim_name (rank ty) \<in> set is"
  shows "loops_fit (shape ty @ [k]) in_maps [identity_dims (rank ty)] (parallel (rank ty) @ [''reduction''])
           (tys @ [MTensor ty])"
proof -
  have "list_all2 (index_fits (shape ty)) (identity_dims (rank ty)) (shape ty)"
    using identity_fits_rank [of "shape ty" ty] by simp
  then have "list_all2 (index_fits (shape ty @ [k])) (identity_dims (rank ty)) (shape ty)"
    by (rule list_all2_mono) (rule index_fits_append)
  then show ?thesis using assms
    by (auto simp: loops_fit_def parallel_def rank_def less_Suc_eq nth_append intro: list_all2_appendI)
qed

text \<open>The indices of an operand whose selected axes share one loop and whose other axes are numbered in order.\<close>

lemma axis_indices_fit:
  assumes "map ((!) s) (filter (\<lambda>i. \<not> selected i) is) = drop o' S" "o' \<le> length S"
    and "\<forall>i \<in> set is. selected i \<longrightarrow> index_fits (S @ es) shared (s ! i)"
  shows "list_all2 (index_fits (S @ es)) (axis_indices selected shared o' is) (map ((!) s) is)"
  using assms
proof (induction "is" arbitrary: o')
  case (Cons i "is")
  show ?case
  proof (cases "selected i")
    case True
    with Cons show ?thesis by simp
  next
    case False
    with Cons.prems have d: "drop o' S = s ! i # map ((!) s) (filter (\<lambda>i. \<not> selected i) is)" by simp
    then have lt: "o' < length S" by (metis drop_eq_Nil list.distinct(1) not_less)
    with d have "S ! o' = s ! i" "map ((!) s) (filter (\<lambda>i. \<not> selected i) is) = drop (Suc o') S"
      by (simp_all flip: Cons_nth_drop_Suc)
    with Cons False lt show ?thesis by (simp add: index_fits_dim nth_append)
  qed
qed simp

lemma axis_indices_shared: "i \<in> set is \<Longrightarrow> selected i \<Longrightarrow> shared \<in> set (axis_indices selected shared o' is)"
  by (induction "is" arbitrary: o') auto

lemma has_ty_tensor: "has_ty ty v \<Longrightarrow> rank ty \<noteq> 0 \<Longrightarrow> val_kind v = Tensor"
  by (cases "val_kind v") (auto simp: has_ty_def kind_ok_def)

lemma ensure_tensor_value_ok:
  "vin \<Gamma> v \<Longrightarrow> builds \<Gamma> (ensure_tensor_value v) typing_of (is_value (val_ty v) Tensor)"
  unfolding ensure_tensor_value_def
  by (cases "val_kind v")
     (auto intro!: builds_return splat_ok simp: is_value_def kind_ok_count vin_def kind_ok_def)

lemma multiply_add_op:
  assumes "(l, MElem e) \<in> \<Gamma>" "(r, MElem e) \<in> \<Gamma>"
    and "f \<in> set float_binary_ops" "i \<in> set int_binary_ops"
  shows "region_builds outer tys \<Gamma> (block_op ctx (float_or_int e f i) [l, r] (MElem e) attrs)
           (\<lambda>r. {(r, MElem e)}) (\<lambda>_. True)"
  using assms by (cases "is_float e") (auto simp: float_or_int_def intro: region.ok_float_binary region.ok_binary)

lemma multiply_add_body_ok:
  "body_ok \<Gamma> [MElem e, MElem e, MElem e] [MElem e] (multiply_add_body e ctx)"
proof (rule body_okI [where G = "\<lambda>rs. typing_list rs [MElem e]" and P = "\<lambda>rs. length rs = 1"])
  fix outer
  let ?tys = "[MElem e, MElem e, MElem e]"
  let ?\<Gamma> = "\<Gamma> \<union> args_typing ?tys" and ?as = "region_args ?tys"
  have args: "(?as ! 0, MElem e) \<in> ?\<Gamma>" "(?as ! Suc 0, MElem e) \<in> ?\<Gamma>" "(?as ! 2, MElem e) \<in> ?\<Gamma>"
    using args_typing_nth [of 0 ?tys] args_typing_nth [of 1 ?tys] args_typing_nth [of 2 ?tys] by simp_all
  show "region_builds outer ?tys ?\<Gamma> (multiply_add_body e ctx ?as) (\<lambda>rs. typing_list rs [MElem e])
      (\<lambda>rs. length rs = 1)"
    unfolding multiply_add_body_def
    apply (rule region.ok_bind_pure [OF region.ok_elem_type], hypsubst)
    apply (rule region.ok_bind [OF multiply_add_op], use args in simp_all)
    apply (simp_all add: int_binary_ops_def)
    apply (rule region.ok_bind [OF multiply_add_op], simp_all add: int_binary_ops_def)
    apply (rule region.ok_return, simp_all)
    done
qed simp

lemma emit_two_input_reduction_ok:
  assumes v: "vin \<Gamma> l" "vin \<Gamma> r" and e: "elem (val_ty l) = elem ty" "elem (val_ty r) = elem ty"
    and maps: "list_all2 (index_fits (shape ty @ [k])) ls (shape (val_ty l))"
      "list_all2 (index_fits (shape ty @ [k])) rs (shape (val_ty r))" "dim_name (rank ty) \<in> set ls"
    and n: "loop_rank = rank ty + 1"
  shows "builds \<Gamma> (emit_two_input_reduction l r ty ls rs loop_rank) typing_of (is_value ty Tensor)"
  unfolding emit_two_input_reduction_def
proof (rule main.ok_bind [OF ensure_tensor_value_ok [OF v(1)]],
    rule main.ok_bind [OF ensure_tensor_value_ok [OF vin_left [OF v(2)]]],
    rule main.ok_bind [OF zero_initialized_tensor_ok])
  fix l' r' init
  assume i: "is_value (val_ty l) Tensor l'" "is_value (val_ty r) Tensor r'" "is_value ty Tensor init"
  let ?\<Gamma> = "\<Gamma> \<union> typing_of l' \<union> typing_of r' \<union> typing_of init"
  have fit: "list_all2 (operand_fits (shape ty @ [k])) [ls, rs] (map value_ty [l', r'])"
    using i maps by (simp add: is_value_simps value_ty_kind)
  show "builds ?\<Gamma> (append_generic_tensor [l', r'] init ty loop_rank
       [affine_tuple ls, affine_tuple rs, affine_tuple (output_dims (rank ty))]
       (parallel (rank ty) @ [''reduction'']) (multiply_add_body (elem ty))) typing_of (is_value ty Tensor)"
    by (rule append_generic_tensor_ok [where in_maps = "[ls, rs]" and out_map = "identity_dims (rank ty)"
          and extents = "shape ty @ [k]"])
       (use i e n maps(3) multiply_add_body_ok contraction_loops_fit [OF fit] in
         \<open>auto simp: is_value_simps output_dims_identity rank_def\<close>)
qed

lemma reduce_add_body_ok: "body_ok \<Gamma> [MElem e, MElem e] [MElem e] (add_body e ctx)"
  unfolding add_body_def
  by (rule reduce_body_ok, rule float_or_int_group) (simp_all add: int_binary_ops_def)

lemma emit_one_input_reduction_ok:
  assumes v: "vin \<Gamma> v" and e: "elem (val_ty v) = elem ty"
    and maps: "list_all2 (index_fits (shape ty @ [k])) ls (shape (val_ty v))" "dim_name (rank ty) \<in> set ls"
    and n: "loop_rank = rank ty + 1"
  shows "builds \<Gamma> (emit_one_input_reduction v ty ls loop_rank) typing_of (is_value ty Tensor)"
  unfolding emit_one_input_reduction_def
proof (rule main.ok_bind [OF ensure_tensor_value_ok [OF v(1)]], rule main.ok_bind [OF zero_initialized_tensor_ok])
  fix v' init
  assume i: "is_value (val_ty v) Tensor v'" "is_value ty Tensor init"
  have fit: "list_all2 (operand_fits (shape ty @ [k])) [ls] (map value_ty [v'])"
    using i maps by (simp add: is_value_simps value_ty_kind)
  show "builds (\<Gamma> \<union> typing_of v' \<union> typing_of init) (append_generic_tensor [v'] init ty loop_rank
       [affine_tuple ls, affine_tuple (output_dims (rank ty))]
       (parallel (rank ty) @ [''reduction'']) (add_body (elem ty))) typing_of (is_value ty Tensor)"
    by (rule append_generic_tensor_ok [where in_maps = "[ls]" and out_map = "identity_dims (rank ty)"
          and extents = "shape ty @ [k]"])
       (use i e n maps(2) reduce_add_body_ok contraction_loops_fit [OF fit] in
         \<open>auto simp: is_value_simps output_dims_identity rank_def\<close>)
qed

section \<open>Vector products, traces and diagonals\<close>

lemma remove_nth_axes: "a < length s \<Longrightarrow> map ((!) s) (filter (\<lambda>i. i \<noteq> a) [0..<length s]) = remove_nth a s"
  by (simp add: remove_nth_filter)

lemma lower_vecdot_ok:
  assumes v: "vin \<Gamma> l" "vin \<Gamma> r" and ty: "vecdot_result_type (val_ty l) (val_ty r) axis = Inr ty"
  shows "builds \<Gamma> (lower_vecdot l r axis) typing_of (is_value ty Tensor)"
proof -
  let ?s = "shape (val_ty l)"
  define a where "a = (case axis of Some a \<Rightarrow> a | None \<Rightarrow> rank (val_ty l) - 1)"
  have a: "a < length ?s" "ty = tensor (elem (val_ty l)) (remove_nth a ?s)"
      and eq: "elem (val_ty r) = elem (val_ty l)" "shape (val_ty r) = ?s"
    using ty [unfolded vecdot_result_type_def Let_def, folded a_def]
    by (auto simp: expect_same_numeric_element_def linalg_expect_axis_def result_simps guard_defs rank_def)
  have pos: "rank (val_ty l) \<noteq> 0" using a(1) by (auto simp: rank_def)
  have pick: "builds \<Gamma> (case axis of None \<Rightarrow> slift (usize_sub (rank (val_ty l)) 1) | Some a \<Rightarrow> sreturn a)
      (\<lambda>_. {}) (\<lambda>x. x = a)"
    using pos by (cases axis) (auto simp: a_def usize_sub_def intro!: main.ok_lift main.ok_return)
  let ?ls = "axis_indices (\<lambda>i. i = a) (dim_name (rank ty)) 0 [0..<rank (val_ty l)]"
  have len: "length (remove_nth a ?s) = rank ty" by (simp add: a(2) rank_def)
  have fit: "list_all2 (index_fits (shape ty @ [?s ! a])) ?ls ?s"
  proof -
    have "list_all2 (index_fits (remove_nth a ?s @ [?s ! a])) ?ls (map ((!) ?s) [0..<rank (val_ty l)])"
      by (rule axis_indices_fit) (use a(1) index_fits_last [OF len] in \<open>simp_all add: remove_nth_axes rank_def\<close>)
    then show ?thesis by (simp add: a(2) map_nth rank_def)
  qed
  have red: "dim_name (rank ty) \<in> set ?ls" using a(1) by (intro axis_indices_shared [of a]) (auto simp: rank_def)
  show ?thesis unfolding lower_vecdot_def Let_def
  proof (rule main.ok_bind_pure [OF pick], hypsubst, rule bind_lift [where x = "remove_nth a ?s"])
    show "vec_remove a ?s = Inr (remove_nth a ?s)" using a(1) by (simp add: vec_remove_def)
    show "builds \<Gamma> (emit_two_input_reduction l r (tensor (elem (val_ty l)) (remove_nth a ?s))
        (axis_indices (\<lambda>i. i = a) (dim_name (rank (tensor (elem (val_ty l)) (remove_nth a ?s)))) 0 [0..<rank (val_ty l)])
        (axis_indices (\<lambda>i. i = a) (dim_name (rank (tensor (elem (val_ty l)) (remove_nth a ?s)))) 0 [0..<rank (val_ty l)])
        (rank (tensor (elem (val_ty l)) (remove_nth a ?s)) + 1)) typing_of (is_value ty Tensor)"
      unfolding a(2) [symmetric]
      by (rule emit_two_input_reduction_ok [OF v]) (use fit red eq a(2) in simp_all)
  qed
qed

lemma last_index_split: "s \<noteq> [] \<Longrightarrow> s = take (length s - 1) s @ [s ! (length s - 1)]"
  by (metis append_butlast_last_id butlast_conv_take last_conv_nth)

lemma prefix_indices_fit:
  assumes "length pre = p" "length S = n" "r = length (pre @ S @ post)"
  shows "list_all2 (index_fits (pre @ S @ post @ [k])) (map (\<lambda>i. dim_name (p + i)) [0..<n] @ [dim_name r]) (S @ [k])"
proof (rule list_all2_appendI)
  show "list_all2 (index_fits (pre @ S @ post @ [k])) (map (\<lambda>i. dim_name (p + i)) [0..<n]) S"
    using assms by (auto simp: list_all2_conv_all_nth nth_append intro!: index_fits_dim)
  show "list_all2 (index_fits (pre @ S @ post @ [k])) [dim_name r] [k]"
    using index_fits_last [of "pre @ S @ post" r k] assms by simp
qed

lemma lower_inner_ok:
  assumes v: "vin \<Gamma> l" "vin \<Gamma> r" and ty: "inner_result_type (val_ty l) (val_ty r) = Inr ty"
  shows "builds \<Gamma> (lower_inner l r) typing_of (has_ty ty)"
proof (cases "rank (val_ty l) = 0 \<or> rank (val_ty r) = 0")
  case True
  with ty have "elem (val_ty r) = elem (val_ty l)"
      "broadcast_shape_slices (shape (val_ty l)) (shape (val_ty r)) = Inr (shape ty)" "ty = tensor (elem (val_ty l)) (shape ty)"
    by (auto simp: inner_result_type_def expect_same_numeric_element_def result_simps rank_def split: if_splits)
  with binary_value_ok [OF v refl, of "shape ty" Mul] True show ?thesis by (simp add: lower_inner_def)
next
  case False
  let ?sl = "shape (val_ty l)" and ?sr = "shape (val_ty r)"
  let ?m = "rank (val_ty l) - 1" and ?n = "rank (val_ty r) - 1"
  let ?k = "?sl ! ?m"
  from ty False have t: "ty = tensor (elem (val_ty l)) (take ?m ?sl @ take ?n ?sr)"
      and e: "elem (val_ty r) = elem (val_ty l)" and k: "?sr ! ?n = ?k"
    by (auto simp: inner_result_type_def expect_same_numeric_element_def expect_matching_dim_def result_simps Let_def)
  have split: "?sl = take ?m ?sl @ [?k]" "?sr = take ?n ?sr @ [?k]"
    using last_index_split [of ?sl] last_index_split [of ?sr] False k by (simp_all add: rank_def)
  have rk: "rank ty = ?m + ?n" using t by (simp add: rank_def)
  have len: "length (take ?m ?sl) = ?m" "length (take ?n ?sr) = ?n" by (simp_all add: rank_def)
  have ls: "list_all2 (index_fits (shape ty @ [?k])) (map dim_name [0..<?m] @ [dim_name (rank ty)]) (take ?m ?sl @ [?k])"
    using prefix_indices_fit [OF _ len(1), of "[]" 0 "rank ty" "take ?n ?sr" ?k] len rk by (simp add: t)
  have rs: "list_all2 (index_fits (shape ty @ [?k])) (map (\<lambda>i. dim_name (?m + i)) [0..<?n] @ [dim_name (rank ty)])
      (take ?n ?sr @ [?k])"
    using prefix_indices_fit [OF len, of "rank ty" "[]" ?k] len rk by (simp add: t)
  have "builds \<Gamma> (emit_two_input_reduction l r ty (map dim_name [0..<?m] @ [dim_name (rank ty)])
      (map (\<lambda>i. dim_name (?m + i)) [0..<?n] @ [dim_name (rank ty)]) (rank ty + 1)) typing_of (is_value ty Tensor)"
    by (rule emit_two_input_reduction_ok [OF v, where k = ?k]) (use ls rs split e t in simp_all)
  with False t show ?thesis by (auto simp: lower_inner_def Let_def intro: builds_tensor)
qed

lemma dot_inner: "dot_result_type lt rt = Inr ty \<Longrightarrow> inner_result_type lt rt = Inr ty"
  by (auto simp: dot_result_type_def inner_result_type_def result_simps Let_def MAX_TENSOR_RANK_def)

lemma lower_dot_ok:
  assumes "vin \<Gamma> l" "vin \<Gamma> r" "dot_result_type (val_ty l) (val_ty r) = Inr ty"
  shows "builds \<Gamma> (lower_dot l r) typing_of (has_ty ty)"
  unfolding lower_dot_def by (rule lower_inner_ok [OF assms(1,2) dot_inner [OF assms(3)]])

lemma product_body_ok: "body_ok \<Gamma> [MElem e, MElem e, MElem e] [MElem e] (product_body e ctx)"
proof (rule body_okI [where G = "\<lambda>rs. typing_list rs [MElem e]" and P = "\<lambda>rs. length rs = 1"])
  fix outer
  let ?tys = "[MElem e, MElem e, MElem e]"
  have args: "(region_args ?tys ! 0, MElem e) \<in> args_typing ?tys" "(region_args ?tys ! Suc 0, MElem e) \<in> args_typing ?tys"
    using args_typing_nth [of 0 ?tys] args_typing_nth [of 1 ?tys] by simp_all
  show "region_builds outer ?tys (\<Gamma> \<union> args_typing ?tys) (product_body e ctx (region_args ?tys))
      (\<lambda>rs. typing_list rs [MElem e]) (\<lambda>rs. length rs = 1)"
    unfolding product_body_def
    apply (rule region.ok_bind_pure [OF region.ok_elem_type], hypsubst)
    apply (rule region.ok_bind [OF multiply_add_op], use args in simp_all)
    apply (simp_all add: int_binary_ops_def)
    apply (rule region.ok_return, simp_all)
    done
qed simp

lemma small_tuples:
  "affine_tuple [dim_name 0] = ''(d0)''" "affine_tuple [dim_name (Suc 0)] = ''(d1)''"
  "affine_tuple [dim_name 0, dim_name (Suc 0)] = ''(d0, d1)''"
  "identity_map (Suc (Suc 0)) = ''(d0, d1)''"
  by (simp_all add: affine_tuple_def identity_map_def dim_name_def nat_str_eval)

lemma lower_outer_ok:
  assumes v: "vin \<Gamma> l" "vin \<Gamma> r" and ty: "outer_result_type (val_ty l) (val_ty r) = Inr ty"
  shows "builds \<Gamma> (lower_outer l r) typing_of (is_value ty Tensor)"
proof -
  let ?m = "element_count (val_ty l)" and ?n = "element_count (val_ty r)" and ?e = "elem (val_ty l)"
  from ty have t: "ty = tensor ?e [?m, ?n]" and e: "elem (val_ty r) = ?e"
    by (auto simp: outer_result_type_def expect_same_numeric_element_def result_simps)
  show ?thesis unfolding lower_outer_def Let_def t [symmetric]
  proof (rule main.ok_bind [OF lower_reshape_ok [OF v(1)]], simp, simp add: element_count_def,
      rule main.ok_bind [OF lower_reshape_ok [OF vin_left [OF v(2)]]], simp, simp add: element_count_def,
      rule main.ok_bind [OF append_tensor_empty_ok])
    fix l' r' empty
    assume i: "has_ty (tensor ?e [?m]) l'" "has_ty (tensor (elem (val_ty r)) [?n]) r'" "is_value ty Tensor empty"
    have k: "val_kind l' = Tensor" "val_kind r' = Tensor"
      using i(1,2) [THEN has_ty_tensor] by (simp_all add: rank_def)
    have fit: "list_all2 (operand_fits (shape ty)) [[dim_name 0], [dim_name 1]] (map value_ty [l', r'])"
      using i k t by (auto simp: has_ty_def value_ty_kind intro!: index_fits_dim)
    show "builds (\<Gamma> \<union> typing_of l' \<union> typing_of r' \<union> typing_of empty)
        (append_generic_tensor [l', r'] empty ty 2 [''(d0)'', ''(d1)'', ''(d0, d1)''] [''parallel'', ''parallel'']
          (product_body (elem ty))) typing_of (is_value ty Tensor)"
      by (rule append_generic_tensor_ok [where in_maps = "[[dim_name 0], [dim_name 1]]"
            and out_map = "identity_dims (rank ty)" and extents = "shape ty"])
         (use i k e t product_body_ok [of _ ?e] elementwise_loops_fit [OF fit] in
           \<open>auto simp: has_ty_def small_tuples rank_def parallel_def numeral_2_eq_2\<close>)
  qed
qed

lemma axis_pair_Inr:
  assumes "default_axis_pair ty axes = Inr (a, b)"
  shows "last_axes ty axes = Inr (a, b)" "a < rank ty" "b < rank ty" "a \<noteq> b"
  using assms
  by (auto simp: default_axis_pair_def last_axes_def linalg_expect_axis_def usize_sub_def result_simps Let_def
      split: option.splits)

lemma shared_axes_fit:
  assumes "a < length s" "b < length s" "s ! a = k" "s ! b = k" "length (remove_axes_shape s a b) = r"
  defines "is \<equiv> axis_indices (\<lambda>i. i = a \<or> i = b) (dim_name r) 0 [0..<length s]"
  shows "list_all2 (index_fits (remove_axes_shape s a b @ [k])) is s" "dim_name r \<in> set is"
proof -
  have "list_all2 (index_fits (remove_axes_shape s a b @ [k])) is (map ((!) s) [0..<length s])"
    unfolding is_def
    by (rule axis_indices_fit) (use assms(3,4) index_fits_last [OF assms(5)] in \<open>auto simp: remove_axes_filter\<close>)
  then show "list_all2 (index_fits (remove_axes_shape s a b @ [k])) is s" by (simp add: map_nth)
  show "dim_name r \<in> set is" unfolding is_def using assms(1) by (intro axis_indices_shared [of a]) auto
qed

lemma lower_trace_ok:
  assumes v: "vin \<Gamma> v" and ty: "trace_result_type (val_ty v) axes = Inr ty"
  shows "builds \<Gamma> (lower_trace v axes) typing_of (is_value ty Tensor)"
proof -
  let ?s = "shape (val_ty v)"
  from ty obtain a b where ab: "default_axis_pair (val_ty v) axes = Inr (a, b)" "?s ! a = ?s ! b"
      and t: "ty = tensor (elem (val_ty v)) (remove_axes_shape ?s a b)"
    by (auto simp: trace_result_type_def expect_matching_dim_def result_simps)
  note axes = axis_pair_Inr [OF ab(1)]
  show ?thesis unfolding lower_trace_def
  proof (rule bind_lift [OF axes(1)], unfold prod.case Let_def t [symmetric], rule emit_one_input_reduction_ok [OF v])
    show "list_all2 (index_fits (shape ty @ [?s ! b]))
        (axis_indices (\<lambda>i. i = a \<or> i = b) (dim_name (rank ty)) 0 [0..<rank (val_ty v)]) ?s"
      using shared_axes_fit(1) [of a ?s b "?s ! b" "rank ty"] axes ab(2) t by (simp add: rank_def)
    show "dim_name (rank ty) \<in> set (axis_indices (\<lambda>i. i = a \<or> i = b) (dim_name (rank ty)) 0 [0..<rank (val_ty v)])"
      using axes(2) by (intro axis_indices_shared [of a]) auto
  qed (simp_all add: t)
qed

lemma lower_diagonal_ok:
  assumes v: "vin \<Gamma> v" and ty: "diagonal_result_type (val_ty v) axes = Inr ty"
  shows "builds \<Gamma> (lower_diagonal v axes) typing_of (is_value ty Tensor)"
proof -
  let ?s = "shape (val_ty v)"
  from ty obtain a b where ab: "default_axis_pair (val_ty v) axes = Inr (a, b)" "?s ! a = ?s ! b"
      and t: "ty = tensor (elem (val_ty v)) (remove_axes_shape ?s a b @ [?s ! a])"
    by (auto simp: diagonal_result_type_def expect_matching_dim_def result_simps)
  note axes = axis_pair_Inr [OF ab(1)]
  have st: "shape ty = remove_axes_shape ?s a b @ [?s ! a]" and e: "elem (val_ty v) = elem ty" by (simp_all add: t)
  let ?is = "axis_indices (\<lambda>i. i = a \<or> i = b) (dim_name (rank ty - 1)) 0 [0..<rank (val_ty v)]"
  have fit: "list_all2 (index_fits (shape ty)) ?is ?s"
    unfolding st rank_def
    by (rule shared_axes_fit(1)) (use axes(2,3) ab(2) st in \<open>simp_all add: rank_def\<close>)
  show ?thesis unfolding lower_diagonal_def
  proof (rule bind_lift [OF axes(1)], unfold prod.case Let_def, rule bind_lift [OF idx_shape [OF axes(2)]],
      unfold t [symmetric], rule main.ok_bind [OF ensure_tensor_value_ok [OF v]],
      rule main.ok_bind [OF append_tensor_empty_ok])
    fix v' out
    assume i: "is_value (val_ty v) Tensor v'" "is_value ty Tensor out"
    have ty': "val_ty v' = val_ty v" using i by (simp add: is_value_simps)
    have ops: "list_all2 (operand_fits (shape ty)) [?is] (map value_ty [v'])"
      using i(1) fit by (simp add: is_value_simps value_ty_kind)
    show "builds (\<Gamma> \<union> typing_of v' \<union> typing_of out) (append_generic_tensor [v'] out ty (rank ty)
        [affine_tuple (axis_indices (\<lambda>i. i = a \<or> i = b) (dim_name (rank ty - 1)) 0 [0..<rank (val_ty v')]),
         affine_tuple (output_dims (rank ty))] (parallel (rank ty)) (\<lambda>ctx args. sreturn [args ! 0]))
        typing_of (is_value ty Tensor)"
      unfolding ty'
      by (rule append_generic_tensor_ok [where in_maps = "[?is]" and out_map = "identity_dims (rank ty)"
            and extents = "shape ty"])
         (use i e elementwise_loops_fit [OF ops] copy_body_ok [of "[MElem (elem ty), MElem (elem ty)]"] in
           \<open>auto simp: is_value_simps output_dims_identity rank_def\<close>)
  qed
qed

section \<open>Matrix products\<close>

text \<open>The batch dimensions of an operand are read at the batch loops of the result, a broadcast dimension at 0.\<close>

lemma batch_indices_fit:
  assumes "broadcast_shape_slices b c = Inr c"
  shows "\<exists>is. batch_indices b c = Inr is \<and> list_all2 (index_fits (c @ es)) is b"
proof -
  let ?p = "length c - length b"
  have le: "length b \<le> length c" by (rule broadcast_onto(1) [OF assms])
  have dims: "b ! i = c ! (?p + i) \<or> b ! i = 1" if "i < length b" for i
    using broadcast_onto(2) [OF assms that] by (rule disj_commute [THEN iffD1])
  let ?is = "map (\<lambda>i. if b ! i = 1 \<and> c ! (?p + i) \<noteq> 1 then ''0'' else dim_name (?p + i)) [0..<length b]"
  have "batch_indices b c = Inr ?is" using le by (simp add: batch_indices_def usize_sub_def)
  moreover have "index_fits (c @ es) (?is ! i) (b ! i)" if "i < length b" for i
  proof (cases "b ! i = 1 \<and> c ! (?p + i) \<noteq> 1")
    case True
    then show ?thesis using that by (simp add: index_fits_def)
  next
    case False
    with dims [OF that] have "b ! i = c ! (?p + i)" by auto
    moreover have "?p + i < length c" using that le by simp
    ultimately show ?thesis using False that by (auto simp: nth_append intro!: index_fits_dim)
  qed
  then have "list_all2 (index_fits (c @ es)) ?is b" by (simp add: list_all2_conv_all_nth)
  ultimately show ?thesis by blast
qed

lemma matmul_split:
  assumes "2 \<le> length s"
  shows "s = take (length s - 2) s @ [s ! (length s - 2), s ! (length s - 1)]"
  using assms by (intro nth_equalityI) (auto simp: nth_append nth_Cons' Suc_diff_le intro!: arg_cong [of _ _ "(!) s"])

definition matmul_dims :: "nat list \<Rightarrow> nat list \<Rightarrow> nat list \<Rightarrow> nat list \<Rightarrow> nat list \<Rightarrow> nat \<Rightarrow> bool" where
  "matmul_dims A B batch M N K \<longleftrightarrow>
     (if length A = 1 then A = [K] \<and> M = []
      else \<exists>lb m. A = lb @ [m, K] \<and> M = [m] \<and> broadcast_shape_slices lb batch = Inr batch) \<and>
     (if length B = 1 then B = [K] \<and> N = []
      else \<exists>rb n. B = rb @ [K, n] \<and> N = [n] \<and> broadcast_shape_slices rb batch = Inr batch)"

lemma matmul_result_dims:
  assumes ty: "matmul_result_type lt rt = Inr ty"
  obtains batch M N K where "matmul_dims (shape lt) (shape rt) batch M N K"
    "ty = tensor (elem lt) (batch @ M @ N)" "elem rt = elem lt" "rank lt \<noteq> 0" "rank rt \<noteq> 0"
    "broadcast_shape_slices (take (rank lt - 2) (shape lt)) (take (rank rt - 2) (shape rt)) = Inr batch"
    "matmul_spec_new lt rt =
       (sreturn \<lparr>lhs_shape = shape lt, rhs_shape = shape rt, output_shape = batch @ M @ N\<rparr> :: ('s, matmul_spec) step)"
proof -
  let ?A = "shape lt" and ?B = "shape rt"
  define lb where "lb = (if 2 < rank lt then take (rank lt - 2) ?A else [])"
  define rb where "rb = (if 2 < rank rt then take (rank rt - 2) ?B else [])"
  define M where "M = (if rank lt = 1 then [] else [?A ! (rank lt - 2)])"
  define N where "N = (if rank rt = 1 then [] else [?B ! (rank rt - 1)])"
  define lk where "lk = (if rank lt = 1 then ?A ! 0 else ?A ! (rank lt - 1))"
  define rk where "rk = (if rank rt = 1 then ?B ! 0 else ?B ! (rank rt - 2))"
  note folds = lb_def [symmetric] rb_def [symmetric] M_def [symmetric] N_def [symmetric] lk_def [symmetric] rk_def [symmetric]
  have "\<exists>batch. broadcast_shape_slices lb rb = Inr batch \<and> ty = tensor (elem lt) (batch @ M @ N) \<and>
      elem rt = elem lt \<and> rank lt \<noteq> 0 \<and> rank rt \<noteq> 0 \<and> rk = lk"
    using ty unfolding matmul_result_type_def Let_def folds
    by (simp add: result_simps) (elim conjE exE, intro exI conjI, assumption, simp_all)
  then obtain batch where b: "broadcast_shape_slices lb rb = Inr batch" and t: "ty = tensor (elem lt) (batch @ M @ N)"
      and e: "elem rt = elem lt" and nz: "rank lt \<noteq> 0" "rank rt \<noteq> 0" and k: "rk = lk" by blast
  have lhs: "if length ?A = 1 then ?A = [lk] \<and> M = []
      else \<exists>lb m. ?A = lb @ [m, lk] \<and> M = [m] \<and> broadcast_shape_slices lb batch = Inr batch"
  proof (cases "length ?A = 1")
    case True
    then show ?thesis by (cases ?A) (simp_all add: rank_def lk_def M_def)
  next
    case False
    then have le: "2 \<le> length ?A" using nz(1) unfolding rank_def by arith
    have "?A = lb @ [?A ! (rank lt - 2), lk]"
      by (rule trans [OF matmul_split [OF le]]) (use False le in \<open>auto simp: lb_def lk_def rank_def\<close>)
    moreover have "M = [?A ! (rank lt - 2)]" using False by (simp add: M_def rank_def)
    ultimately show ?thesis using False bc.upper_left [OF b] by metis
  qed
  have rhs: "if length ?B = 1 then ?B = [lk] \<and> N = []
      else \<exists>rb n. ?B = rb @ [lk, n] \<and> N = [n] \<and> broadcast_shape_slices rb batch = Inr batch"
  proof (cases "length ?B = 1")
    case True
    then show ?thesis unfolding k [symmetric] by (cases ?B) (simp_all add: rank_def rk_def N_def)
  next
    case False
    then have le: "2 \<le> length ?B" using nz(2) unfolding rank_def by arith
    have "?B = rb @ [rk, ?B ! (rank rt - 1)]"
      by (rule trans [OF matmul_split [OF le]]) (use False le in \<open>auto simp: rb_def rk_def rank_def\<close>)
    moreover have "N = [?B ! (rank rt - 1)]" using False by (simp add: N_def rank_def)
    ultimately show ?thesis using False bc.upper_right [OF b] unfolding k by metis
  qed
  have "matmul_spec_new lt rt =
      (sreturn \<lparr>lhs_shape = ?A, rhs_shape = ?B, output_shape = batch @ M @ N\<rparr> :: ('s, matmul_spec) step)"
    unfolding matmul_spec_new_def lower_broadcast_shape_def Let_def folds b
    using nz k by (simp add: fun_eq_iff sbind_def slift_def)
  moreover have "lb = take (rank lt - 2) ?A" "rb = take (rank rt - 2) ?B" by (simp_all add: lb_def rb_def)
  then have "broadcast_shape_slices (take (rank lt - 2) ?A) (take (rank rt - 2) ?B) = Inr batch" using b by simp
  ultimately show ?thesis
    by (intro that [of batch M N lk]) (use lhs rhs t e nz in \<open>simp_all add: matmul_dims_def\<close>)
qed

lemma matmul_indices_ok:
  assumes d: "matmul_dims A B batch M N K" and ne: "A \<noteq> []" "B \<noteq> []"
  defines "spec \<equiv> \<lparr>lhs_shape = A, rhs_shape = B, output_shape = batch @ M @ N\<rparr>"
    and "red \<equiv> dim_name (length (batch @ M @ N))"
  shows "\<exists>is. lhs_indices spec red = Inr is \<and> list_all2 (index_fits ((batch @ M @ N) @ [K])) is A \<and> red \<in> set is"
    and "\<exists>is. rhs_indices spec red = Inr is \<and> list_all2 (index_fits ((batch @ M @ N) @ [K])) is B"
proof -
  have M: "length M = (if length A \<noteq> 1 then 1 else 0)" and N: "length N = (if length B \<noteq> 1 then 1 else 0)"
    using d by (auto simp: matmul_dims_def split: if_splits)
  have b: "output_batch_rank spec = Inr (length batch)"
    using M N by (simp add: output_batch_rank_def spec_def usize_sub_def)
  have red: "index_fits ((batch @ M @ N) @ [K]) red K" unfolding red_def by (rule index_fits_last) simp
  show "\<exists>is. lhs_indices spec red = Inr is \<and> list_all2 (index_fits ((batch @ M @ N) @ [K])) is A \<and> red \<in> set is"
  proof (cases "length A = 1")
    case True
    with d have "A = [K]" by (simp add: matmul_dims_def)
    with True red show ?thesis by (simp add: lhs_indices_def spec_def)
  next
    case False
    with d obtain lb m where A: "A = lb @ [m, K]" "M = [m]" "broadcast_shape_slices lb batch = Inr batch"
      by (auto simp: matmul_dims_def)
    obtain "is" where "batch_indices lb batch = Inr is" "list_all2 (index_fits (batch @ M @ N @ [K])) is lb"
      using batch_indices_fit [OF A(3), of "M @ N @ [K]"] by auto
    moreover have "index_fits (batch @ M @ N @ [K]) (dim_name (length batch)) m"
      by (rule index_fits_dim) (simp_all add: A(2))
    ultimately show ?thesis using False b red A(1)
      by (auto simp: lhs_indices_def spec_def intro!: list_all2_appendI)
  qed
  show "\<exists>is. rhs_indices spec red = Inr is \<and> list_all2 (index_fits ((batch @ M @ N) @ [K])) is B"
  proof (cases "length B = 1")
    case True
    with d have "B = [K]" by (simp add: matmul_dims_def)
    with True red show ?thesis by (simp add: rhs_indices_def spec_def)
  next
    case False
    with d obtain rb n where B: "B = rb @ [K, n]" "N = [n]" "broadcast_shape_slices rb batch = Inr batch"
      by (auto simp: matmul_dims_def)
    obtain "is" where "batch_indices rb batch = Inr is" "list_all2 (index_fits (batch @ M @ N @ [K])) is rb"
      using batch_indices_fit [OF B(3), of "M @ N @ [K]"] by auto
    moreover have "index_fits (batch @ M @ N @ [K]) (dim_name (length batch + length M)) n"
      by (rule index_fits_dim) (simp_all add: B(2) nth_append)
    ultimately show ?thesis using False b red B(1) M
      by (auto simp: rhs_indices_def spec_def intro!: list_all2_appendI split: if_splits)
  qed
qed

lemma step_eq_ok: "builds \<Gamma> m G P \<Longrightarrow> m' = m \<Longrightarrow> builds \<Gamma> m' G P"
  by simp

lemma sreturn_bind [simp]: "sbind (sreturn x) f = f x"
  by (simp add: fun_eq_iff sbind_def sreturn_def)

lemma generic_matmul_ok:
  assumes v: "vin \<Gamma> l" "vin \<Gamma> r" and ty: "matmul_result_type (val_ty l) (val_ty r) = Inr ty"
  shows "builds \<Gamma> (generic_matmul l r) typing_of (is_value ty Tensor)"
proof -
  obtain batch M N K where d: "matmul_dims (shape (val_ty l)) (shape (val_ty r)) batch M N K"
      and t: "ty = tensor (elem (val_ty l)) (batch @ M @ N)" and e: "elem (val_ty r) = elem (val_ty l)"
      and rk: "rank (val_ty l) \<noteq> 0" "rank (val_ty r) \<noteq> 0"
      and b: "broadcast_shape_slices (take (rank (val_ty l) - 2) (shape (val_ty l)))
                (take (rank (val_ty r) - 2) (shape (val_ty r))) = Inr batch"
      and new: "matmul_spec_new (val_ty l) (val_ty r) = (sreturn \<lparr>lhs_shape = shape (val_ty l),
         rhs_shape = shape (val_ty r), output_shape = batch @ M @ N\<rparr> :: (lowerer, matmul_spec) step)"
    by (rule matmul_result_dims [OF ty])
  have st: "shape ty = batch @ M @ N" "elem ty = elem (val_ty l)" "length (batch @ M @ N) = rank ty"
    by (simp_all add: t rank_def)
  have t': "ty = tensor (elem (val_ty l)) (shape ty)" by (simp add: t)
  have ne: "shape (val_ty l) \<noteq> []" "shape (val_ty r) \<noteq> []" using rk by (auto simp: rank_def)
  note ix = matmul_indices_ok [OF d ne, unfolded st(1) [symmetric]]
  obtain ls where ls: "lhs_indices \<lparr>lhs_shape = shape (val_ty l), rhs_shape = shape (val_ty r),
      output_shape = shape ty\<rparr> (dim_name (rank ty)) = Inr ls"
    "list_all2 (index_fits (shape ty @ [K])) ls (shape (val_ty l))" "dim_name (rank ty) \<in> set ls"
    using ix(1) unfolding rank_def by blast
  obtain rs where rs: "rhs_indices \<lparr>lhs_shape = shape (val_ty l), rhs_shape = shape (val_ty r),
      output_shape = shape ty\<rparr> (dim_name (rank ty)) = Inr rs"
    "list_all2 (index_fits (shape ty @ [K])) rs (shape (val_ty r))"
    using ix(2) unfolding rank_def by blast
  have k: "val_kind l = Tensor" "val_kind r = Tensor" using tensor_kind v rk by blast+
  have fit: "list_all2 (operand_fits (shape ty @ [K])) [ls, rs] (map value_ty [l, r])"
    using k ls(2) rs(2) by (simp add: value_ty_kind)
  show ?thesis
    unfolding generic_matmul_def new sreturn_bind Let_def matmul_spec.simps st(1) [symmetric] t' [symmetric]
  proof (rule main.ok_bind [OF zero_initialized_tensor_ok], rule bind_lift [OF ls(1)], rule bind_lift [OF rs(1)])
    fix init
    assume i: "is_value ty Tensor init"
    show "builds (\<Gamma> \<union> typing_of init) (append_generic_tensor [l, r] init ty (rank ty + 1)
        [affine_tuple ls, affine_tuple rs, affine_tuple (output_dims (rank ty))]
        (parallel (rank ty) @ [''reduction'']) (multiply_add_body (elem ty))) typing_of (is_value ty Tensor)"
      by (rule append_generic_tensor_ok [where in_maps = "[ls, rs]" and out_map = "identity_dims (rank ty)"
            and extents = "shape ty @ [K]"])
         (use v i e st(2) ls(3) multiply_add_body_ok contraction_loops_fit [OF fit] in
           \<open>auto simp: is_value_simps output_dims_identity rank_def vin_def\<close>)
  qed
qed

lemma append_named_ok:
  assumes "\<forall>v \<in> set inputs. vin \<Gamma> v \<and> elem (val_ty v) = elem ty" "inputs \<noteq> []"
    and "is_value ty Tensor output" "vin \<Gamma> output" "take 7 name = ''linalg.''"
    and "length inputs = 2 \<or> name \<notin> {''linalg.matmul'', ''linalg.batch_matmul'', ''linalg.conv_2d_nhwc_hwcf''}"
    and "op_typed name (dense_i32_attr ''operand_segment_sizes'' [length inputs, 1] # text_attrs attrs)
           (map value_ty inputs @ [MTensor ty]) [MTensor ty]"
  shows "builds \<Gamma> (append_named_linalg name inputs output ty attrs) typing_of (is_value ty Tensor)"
  unfolding append_named_linalg_def
  by (rule with_context_ok, rule main.ok_bind_pure [OF main.ok_parse_attrs], hypsubst, rule append_named_linalg_ok)
     (use assms in \<open>auto simp: vin_def text_attrs_def\<close>)

lemma pair_shape: "length s = 2 \<longleftrightarrow> s = [s ! 0, s ! 1]"
  by (cases s; cases "tl s") auto

lemma triple_shape: "length s = 3 \<longleftrightarrow> s = [s ! 0, s ! 1, s ! 2]"
  by (cases s; cases "tl s"; cases "tl (tl s)") (auto simp: numeral_2_eq_2)

lemma matmul_named_ok:
  assumes v: "vin \<Gamma> l" "vin \<Gamma> r" and e: "elem (val_ty l) = elem ty" "elem (val_ty r) = elem ty"
    and rk: "rank (val_ty l) \<noteq> 0" "rank (val_ty r) \<noteq> 0"
    and name: "name = ''linalg.matmul'' \<or> name = ''linalg.batch_matmul''"
    and typed: "op_typed name [dense_i32_attr ''operand_segment_sizes'' [2, 1]]
           [MTensor (val_ty l), MTensor (val_ty r), MTensor ty] [MTensor ty]"
  shows "builds \<Gamma> (sbind (zero_initialized_tensor ty) (\<lambda>init. append_named_linalg name [l, r] init ty []))
           typing_of (is_value ty Tensor)"
proof (rule main.ok_bind [OF zero_initialized_tensor_ok], rule append_named_ok)
  fix init
  assume i: "is_value ty Tensor init"
  have k: "value_ty l = MTensor (val_ty l)" "value_ty r = MTensor (val_ty r)"
    using tensor_kind [OF v(1) rk(1)] tensor_kind [OF v(2) rk(2)] by (simp_all add: value_ty_kind)
  show "op_typed name (dense_i32_attr ''operand_segment_sizes'' [length [l, r], 1] # text_attrs [])
      (map value_ty [l, r] @ [MTensor ty]) [MTensor ty]"
    using typed by (simp add: k text_attrs_def numeral_2_eq_2)
qed (use v e name in \<open>auto simp: vin_value\<close>)

lemma lower_matmul_ok:
  assumes v: "vin \<Gamma> l" "vin \<Gamma> r" and ty: "matmul_result_type (val_ty l) (val_ty r) = Inr ty"
  shows "builds \<Gamma> (lower_matmul l r) typing_of (is_value ty Tensor)"
proof -
  let ?A = "shape (val_ty l)" and ?B = "shape (val_ty r)"
  obtain batch M N K where d: "matmul_dims ?A ?B batch M N K"
      and t: "ty = tensor (elem (val_ty l)) (batch @ M @ N)" and e: "elem (val_ty r) = elem (val_ty l)"
      and rk: "rank (val_ty l) \<noteq> 0" "rank (val_ty r) \<noteq> 0"
      and b: "broadcast_shape_slices (take (rank (val_ty l) - 2) ?A) (take (rank (val_ty r) - 2) ?B) = Inr batch"
    by (rule matmul_result_dims [OF ty])
  have e': "elem (val_ty l) = elem ty" "elem (val_ty r) = elem ty" by (simp_all add: t e)
  have typed: "MTensor (val_ty l) = MTensor (tensor (elem ty) ?A)" "MTensor (val_ty r) = MTensor (tensor (elem ty) ?B)"
    by (simp_all flip: e' add: value_as_tensor) (simp add: e value_as_tensor flip: e)
  show ?thesis unfolding lower_matmul_def batch_matmul_def Let_def
  proof (intro main.ok_if)
    assume c: "rank (val_ty l) = 3 \<and> rank (val_ty r) = 3 \<and> ?A ! 0 = ?B ! 0"
    with d obtain x m y n where A: "?A = [x, m, K]" "M = [m]" and B: "?B = [y, K, n]" "N = [n]"
      by (auto simp: matmul_dims_def rank_def numeral_3_eq_3 length_Suc_conv append_eq_Cons_conv)
    moreover from this c b have "y = x" "batch = [x]" by (auto simp: rank_def)
    ultimately have s: "?A = [x, m, K]" "?B = [x, K, n]" "ty = tensor (elem ty) [x, m, n]" by (simp_all add: t)
    then have ty': "tensor (elem (val_ty l)) [?A ! 0, ?A ! 1, ?B ! 2] = ty" using e' by simp
    show "builds \<Gamma> (sbind (zero_initialized_tensor (tensor (elem (val_ty l)) [?A ! 0, ?A ! 1, ?B ! 2])) (\<lambda>init.
        append_named_linalg ''linalg.batch_matmul'' [l, r] init (tensor (elem (val_ty l)) [?A ! 0, ?A ! 1, ?B ! 2]) []))
        typing_of (is_value ty Tensor)" unfolding ty'
      by (rule matmul_named_ok [OF v e' rk]) (use s in \<open>auto simp: op_typings linalg_batch_matmul_typed_def typed\<close>)
  next
    assume c: "\<not> (rank (val_ty l) \<noteq> 2 \<or> rank (val_ty r) \<noteq> 2)"
    with d obtain m n where A: "?A = [m, K]" "M = [m]" and B: "?B = [K, n]" "N = [n]"
      by (auto simp: matmul_dims_def rank_def numeral_2_eq_2 length_Suc_conv append_eq_Cons_conv)
    moreover from c b have "batch = []" by (simp add: rank_def)
    ultimately have s: "?A = [m, K]" "?B = [K, n]" "ty = tensor (elem ty) [m, n]" by (simp_all add: t)
    then have ty': "tensor (elem (val_ty l)) [?A ! 0, ?B ! 1] = ty" using e' by simp
    show "builds \<Gamma> (sbind (zero_initialized_tensor (tensor (elem (val_ty l)) [?A ! 0, ?B ! 1])) (\<lambda>init.
        append_named_linalg ''linalg.matmul'' [l, r] init (tensor (elem (val_ty l)) [?A ! 0, ?B ! 1]) []))
        typing_of (is_value ty Tensor)" unfolding ty'
      by (rule matmul_named_ok [OF v e' rk]) (use s in \<open>auto simp: op_typings linalg_matmul_typed_def typed\<close>)
  qed (rule generic_matmul_ok [OF v ty])
qed

end
