(* ===== verification/Lower_Window_Spec.thy ===== *)
theory Lower_Window_Spec
  imports Lower_Linalg_Spec
begin

text \<open>Convolutions and pooling: the windows that the lowering counts stay within the padded input.\<close>

section \<open>Windows\<close>

definition windows :: "nat \<Rightarrow> nat \<Rightarrow> nat \<Rightarrow> nat \<Rightarrow> nat" where
  "windows n k dilation stride = (n - ((k - 1) * dilation + 1)) div stride + 1"

definition window_fits :: "nat \<Rightarrow> nat \<Rightarrow> nat \<Rightarrow> nat \<Rightarrow> bool" where
  "window_fits n k dilation stride \<longleftrightarrow> k \<noteq> 0 \<and> stride \<noteq> 0 \<and> (k - 1) * dilation + 1 \<le> n"

lemma window_extent_ok: "window_fits n k dilation stride \<Longrightarrow> window_extent n k dilation stride = Inr (windows n k dilation stride)"
  by (simp add: window_extent_def window_fits_def windows_def usize_sub_def)

lemma last_window: "window_fits n k dilation stride \<Longrightarrow> (windows n k dilation stride - 1) * stride + (k - 1) * dilation < n"
proof -
  assume f: "window_fits n k dilation stride"
  have "(n - ((k - 1) * dilation + 1)) div stride * stride \<le> n - ((k - 1) * dilation + 1)"
    by (rule div_times_less_eq_dividend)
  moreover have "(k - 1) * dilation + 1 \<le> n" using f by (simp add: window_fits_def)
  ultimately show ?thesis unfolding windows_def add_diff_cancel_right' by linarith
qed

lemma slift_Inr_bind [simp]: "sbind (slift (Inr x)) f = f x"
  by (simp add: fun_eq_iff sbind_def slift_def)

section \<open>Convolutions\<close>

definition conv_ty :: "element_type \<Rightarrow> nat list \<Rightarrow> nat list \<Rightarrow> conv2d_options \<Rightarrow> tensor_type" where
  "conv_ty e s k options =
     tensor e [s ! 0, windows (s ! 1) (k ! 0) (fst (conv_dilation options)) (fst (conv_stride options)),
       windows (s ! 2) (k ! 1) (snd (conv_dilation options)) (snd (conv_stride options)), k ! 3]"

lemma conv2d_attrs_steps:
  assumes "attrs = dense_i32_attr n m # text_attrs (conv2d_attrs options)" "n \<noteq> ''strides''" "n \<noteq> ''dilations''"
  shows "window_step attrs ''strides'' (conv_stride options)" "window_step attrs ''dilations'' (conv_dilation options)"
  using assms
  by (auto simp: window_step_def conv2d_attrs_def text_attrs_def dense_i32_attr_def split: prod.splits)

lemma quad_shape: "length s = 4 \<longleftrightarrow> s = [s ! 0, s ! 1, s ! 2, s ! 3]"
proof
  assume "length s = 4"
  then obtain a b c d where "s = [a, b, c, d]" by (auto simp: length_Suc_conv eval_nat_numeral)
  then show "s = [s ! 0, s ! 1, s ! 2, s ! 3]" by (simp add: eval_nat_numeral)
next
  assume "s = [s ! 0, s ! 1, s ! 2, s ! 3]"
  from arg_cong [OF this, of length] show "length s = 4" by simp
qed

lemma conv2d_direct_ok:
  assumes v: "vin \<Gamma> v" "vin \<Gamma> kern" and ty: "val_ty v = tensor e [n, h, w, c]" "val_ty kern = tensor e [kh, kw, c, f]"
    and fit: "window_fits h kh (fst (conv_dilation options)) (fst (conv_stride options))"
      "window_fits w kw (snd (conv_dilation options)) (snd (conv_stride options))"
  shows "builds \<Gamma> (conv2d_direct v kern options) typing_of
           (is_value (conv_ty e [n, h, w, c] [kh, kw, c, f] options) Tensor)"
proof -
  let ?ty = "conv_ty e [n, h, w, c] [kh, kw, c, f] options"
  let ?attrs = "dense_i32_attr ''operand_segment_sizes'' [2, 1] # text_attrs (conv2d_attrs options)"
  have k: "value_ty v = MTensor (val_ty v)" "value_ty kern = MTensor (val_ty kern)"
    using tensor_kind [OF v(1)] tensor_kind [OF v(2)] ty by (simp_all add: value_ty_kind rank_def)
  have steps: "window_step ?attrs ''strides'' (conv_stride options)" "window_step ?attrs ''dilations'' (conv_dilation options)"
    using conv2d_attrs_steps [OF refl] by simp_all
  have typed: "linalg_conv_typed ?attrs [MTensor (val_ty v), MTensor (val_ty kern), MTensor ?ty] [MTensor ?ty]"
    unfolding linalg_conv_typed_def conv_ty_def ty
    using steps last_window [OF fit(1)] last_window [OF fit(2)]
    by (cases "conv_stride options"; cases "conv_dilation options") (auto intro!: exI)
  have "builds \<Gamma> (sbind (zero_initialized_tensor ?ty) (\<lambda>init.
      append_named_linalg ''linalg.conv_2d_nhwc_hwcf'' [v, kern] init ?ty (conv2d_attrs options)))
      typing_of (is_value ?ty Tensor)"
    by (rule main.ok_bind [OF zero_initialized_tensor_ok], rule append_named_ok)
       (use v k typed ty in \<open>auto simp: vin_value op_typings conv_ty_def numeral_2_eq_2\<close>)
  then show ?thesis
    unfolding conv2d_direct_def ty tensor_type.simps
    by (simp add: idx_def window_extent_ok [OF fit(1)] window_extent_ok [OF fit(2)] conv_ty_def Let_def)
qed

definition padded_ty :: "element_type \<Rightarrow> nat list \<Rightarrow> padding2d \<Rightarrow> tensor_type" where
  "padded_ty e s p = tensor e [s ! 0, s ! 1 + pad_top p + pad_bottom p, s ! 2 + pad_left p + pad_right p, s ! 3]"

lemma upt_4: "[0..<4] = [0, 1, 2, 3]"
  by (simp add: eval_nat_numeral upt_rec)

lemma pad_nhwc_ok:
  assumes v: "vin \<Gamma> v" "val_ty v = tensor e [n, h, w, c]" and literal: "literal = Inr text"
  shows "builds \<Gamma> (pad_nhwc v p literal) typing_of (has_ty (padded_ty e [n, h, w, c] p))"
proof -
  let ?ty = "padded_ty e [n, h, w, c] p"
  have k: "val_kind v = Tensor" using tensor_kind [OF v(1)] v(2) by (simp add: rank_def)
  have dims: "rmap (idx (shape (val_ty v))) [0, 1, 2, 3] = Inr [n, h, w, c]" by (simp add: v(2) idx_def)
  have ty: "tensor (elem (val_ty v)) [[n, h, w, c] ! 0, [n, h, w, c] ! 1 + pad_top p + pad_bottom p,
      [n, h, w, c] ! 2 + pad_left p + pad_right p, [n, h, w, c] ! 3] = ?ty" by (simp add: padded_ty_def v(2))
  show ?thesis unfolding pad_nhwc_def
  proof (rule main.ok_if)
    assume "pad_top p = 0 \<and> pad_bottom p = 0 \<and> pad_left p = 0 \<and> pad_right p = 0"
    then show "builds \<Gamma> (sreturn v) typing_of (has_ty ?ty)"
      using v by (intro return_has_ty) (simp_all add: padded_ty_def)
  next
    show "builds \<Gamma> (sbind (slift (rmap (idx (shape (val_ty v))) [0, 1, 2, 3])) (\<lambda>dims.
        let ty = tensor (elem (val_ty v)) [dims ! 0, dims ! 1 + pad_top p + pad_bottom p,
                   dims ! 2 + pad_left p + pad_right p, dims ! 3] in
        sbind (slift literal) (\<lambda>text.
        sbind (lower_constant text (elem ty)) (\<lambda>pad.
        append_tensor_pad v ty [0, pad_top p, pad_left p, 0] [0, pad_bottom p, pad_right p, 0] pad))))
        typing_of (has_ty ?ty)"
    proof (rule bind_lift [OF dims], unfold Let_def ty, rule bind_lift [OF literal],
        rule main.ok_bind [OF lower_constant_ok], rule builds_tensor, rule append_tensor_pad_ok)
      have "rank (val_ty v) = 4" by (simp add: v(2) rank_def)
      then show "shape ?ty = map (\<lambda>i. [0, pad_top p, pad_left p, 0] ! i + shape (val_ty v) ! i +
          [0, pad_bottom p, pad_right p, 0] ! i) [0..<rank (val_ty v)]"
        by (simp add: v(2) padded_ty_def upt_4)
    qed (use v k in \<open>auto simp: vin_def padded_ty_def rank_def\<close>)
  qed
qed

text \<open>After \<open>g\<close> groups the output holds the channels of those groups.\<close>

definition group_output :: "element_type \<Rightarrow> nat list \<Rightarrow> nat list \<Rightarrow> conv2d_options \<Rightarrow> nat \<Rightarrow> nat \<Rightarrow> tensor_type" where
  "group_output e s k options oc g = conv_ty e s (k[3 := g * oc]) options"

definition optional_typing :: "lvalue option \<Rightarrow> typings" where
  "optional_typing v = (case v of None \<Rightarrow> {} | Some v \<Rightarrow> typing_of v)"

lemma conv2d_group_ok:
  assumes v: "vin \<Gamma> v" "vin \<Gamma> kern" and ty: "val_ty v = tensor e [n, h, w, c]" "val_ty kern = tensor e [kh, kw, ic, f]"
    and fit: "window_fits h kh (fst (conv_dilation options)) (fst (conv_stride options))"
      "window_fits w kw (snd (conv_dilation options)) (snd (conv_stride options))"
    and g: "g * ic + ic \<le> c" "g * oc + oc \<le> f"
    and out: "optional_typing out \<subseteq> \<Gamma>"
      "if g = 0 then out = None else \<exists>v. out = Some v \<and> is_value (group_output e [n, h, w, c] [kh, kw, ic, f] options oc g) Tensor v"
  shows "builds \<Gamma> (conv2d_group v kern options ic oc g out) optional_typing
           (\<lambda>out. \<exists>v. out = Some v \<and>
              is_value (group_output e [n, h, w, c] [kh, kw, ic, f] options oc (Suc g)) Tensor v)"
proof -
  let ?go = "\<lambda>g. group_output e [n, h, w, c] [kh, kw, ic, f] options oc g"
  let ?piece = "conv_ty e [n, h, w, ic] [kh, kw, ic, oc] options"
  have k: "val_kind v = Tensor" "val_kind kern = Tensor"
    using tensor_kind [OF v(1)] tensor_kind [OF v(2)] ty by (simp_all add: rank_def)
  have dims: "rmap (idx (shape (val_ty v))) [0, 1, 2] = Inr [n, h, w]"
    "rmap (idx (shape (val_ty kern))) [0, 1, 2] = Inr [kh, kw, ic]" by (simp_all add: ty idx_def)
  have slices: "tensor (elem (val_ty v)) ([n, h, w] @ [ic]) = tensor e [n, h, w, ic]"
    "tensor (elem (val_ty kern)) ([kh, kw, ic] @ [oc]) = tensor e [kh, kw, ic, oc]" by (simp_all add: ty)
  have all4: "(\<forall>i < Suc (Suc (Suc (Suc 0))). P i) \<longleftrightarrow> P 0 \<and> P 1 \<and> P 2 \<and> P (3 :: nat)" for P
    by (auto simp: eval_nat_numeral less_Suc_eq)
  have concat: "concat_result_type (?go g) ?piece 3 = Inr (?go (Suc g))"
    by (simp add: concat_result_type_def group_output_def conv_ty_def rank_def result_simps guard_defs eval_nat_numeral)
  have islice: "builds \<Gamma> (lower_slice v (tensor e [n, h, w, ic]) [0, 0, 0, g * ic]) typing_of
      (is_value (tensor e [n, h, w, ic]) Tensor)"
    by (rule lower_slice_ok [OF v(1) k(1)]) (use g in \<open>simp_all add: ty rank_def all4\<close>)
  have kslice: "builds (\<Gamma> \<union> \<Delta>) (lower_slice kern (tensor e [kh, kw, ic, oc]) [0, 0, 0, g * oc]) typing_of
      (is_value (tensor e [kh, kw, ic, oc]) Tensor)" for \<Delta>
    by (rule lower_slice_ok [OF vin_left [OF v(2)] k(2)]) (use g in \<open>simp_all add: ty rank_def all4\<close>)
  show ?thesis unfolding conv2d_group_def
  proof (rule bind_lift [OF dims(1)], rule bind_lift [OF dims(2)], unfold slices, rule main.ok_bind [OF islice])
    fix piece
    assume p: "is_value (tensor e [n, h, w, ic]) Tensor piece"
    show "builds (\<Gamma> \<union> typing_of piece) (sbind (lower_slice kern (tensor e [kh, kw, ic, oc]) [0, 0, 0, g * oc]) (\<lambda>kernel_slice.
        sbind (conv2d_direct piece kernel_slice options) (\<lambda>group_output.
        sbind (case out of Some previous \<Rightarrow> lower_concat previous group_output 3 | None \<Rightarrow> sreturn group_output) (\<lambda>output'.
        sreturn (Some output'))))) optional_typing (\<lambda>out. \<exists>v. out = Some v \<and> is_value (?go (Suc g)) Tensor v)"
    proof (rule main.ok_bind [OF kslice], rule main.ok_bind [OF conv2d_direct_ok [OF _ _ _ _ fit]])
      fix kslice out'
      assume o': "is_value (conv_ty e [n, h, w, ic] [kh, kw, ic, oc] options) Tensor out'"
      let ?\<Gamma> = "\<Gamma> \<union> typing_of piece \<union> typing_of kslice \<union> typing_of out'"
      have "builds ?\<Gamma> (case out of Some previous \<Rightarrow> lower_concat previous out' 3 | None \<Rightarrow> sreturn out') typing_of
          (is_value (?go (Suc g)) Tensor)"
      proof (cases "g = 0")
        case True
        with out o' show ?thesis
          by (auto simp: group_output_def conv_ty_def is_value_simps vin_def intro!: main.ok_return)
      next
        case False
        with out obtain prev where "out = Some prev" and pv: "is_value (?go g) Tensor prev" and "typing_of prev \<subseteq> \<Gamma>"
          by (auto simp: optional_typing_def)
        then have "vin ?\<Gamma> prev" by (auto simp: vin_def)
        from lower_concat_ok [OF this vin_value [OF o']] concat pv o' \<open>out = Some prev\<close>
        show ?thesis by (simp add: is_value_simps)
      qed
      then show "builds ?\<Gamma> (sbind (case out of Some previous \<Rightarrow> lower_concat previous out' 3 | None \<Rightarrow> sreturn out')
          (\<lambda>output'. sreturn (Some output'))) optional_typing (\<lambda>out. \<exists>v. out = Some v \<and> is_value (?go (Suc g)) Tensor v)"
        by (rule main.ok_bind) (auto simp: optional_typing_def intro!: main.ok_return)
    qed (use p in \<open>auto simp: is_value_simps vin_def kind_ok_def\<close>)
  qed
qed

lemma grouped_conv2d_ok:
  assumes v: "vin \<Gamma> v" "vin \<Gamma> kern" and ty: "val_ty v = tensor e [n, h, w, c]" "val_ty kern = tensor e [kh, kw, ic, f]"
    and fit: "window_fits h kh (fst (conv_dilation options)) (fst (conv_stride options))"
      "window_fits w kw (snd (conv_dilation options)) (snd (conv_stride options))"
    and g: "conv_groups options \<noteq> 0" "conv_groups options dvd c" "conv_groups options dvd f" "ic = c div conv_groups options"
  shows "builds \<Gamma> (grouped_conv2d v kern options) typing_of
           (is_value (conv_ty e [n, h, w, c] [kh, kw, ic, f] options) Tensor)"
proof -
  let ?n = "conv_groups options" and ?oc = "f div conv_groups options"
  let ?go = "\<lambda>g. group_output e [n, h, w, c] [kh, kw, ic, f] options ?oc g"
  let ?P = "\<lambda>i out. if i = 0 then out = None else \<exists>v. out = Some v \<and> is_value (?go i) Tensor v"
  have part: "i * m + m \<le> k" if "i < ?n" "m = k div ?n" for i k m
  proof -
    have "Suc i * m \<le> ?n * m" using that(1) by (intro mult_le_mono1) simp
    also have "?n * m \<le> k" using that(2) by (simp add: mult.commute div_times_less_eq_dividend)
    finally show ?thesis by simp
  qed
  have fold: "builds \<Gamma> (sfold (conv2d_group v kern options ic ?oc) [0..<?n] None) optional_typing (?P (length [0..<?n]))"
  proof (rule main.ok_sfold)
    fix i out
    assume i: "i < length [0..<?n]" and out: "?P i out"
    have "builds (\<Gamma> \<union> optional_typing out) (conv2d_group v kern options ic ?oc i out) optional_typing
        (\<lambda>out. \<exists>v. out = Some v \<and> is_value (?go (Suc i)) Tensor v)"
      by (rule conv2d_group_ok [OF _ _ ty fit])
         (use v i out part [of i ic c] part [of i ?oc f] g(4) in \<open>simp_all add: vin_left\<close>)
    with i show "builds (\<Gamma> \<union> optional_typing out) (conv2d_group v kern options ic ?oc ([0..<?n] ! i) out) optional_typing
        (?P (Suc i))" by simp
  qed (simp_all add: optional_typing_def)
  have whole: "?go ?n = conv_ty e [n, h, w, c] [kh, kw, ic, f] options"
    using g(3) by (simp add: group_output_def conv_ty_def)
  have c3: "idx (shape (val_ty v)) 3 = Inr c" "idx (shape (val_ty kern)) 3 = Inr f" by (simp_all add: ty idx_def)
  show ?thesis unfolding grouped_conv2d_def c3 slift_Inr_bind Let_def g(4) [symmetric]
  proof (rule main.ok_bind [OF fold])
    fix out
    assume "?P (length [0..<?n]) out"
    with g(1) whole obtain v' where "out = Some v'" "is_value (conv_ty e [n, h, w, c] [kh, kw, ic, f] options) Tensor v'"
      by auto
    then show "builds (\<Gamma> \<union> optional_typing out) (case out of None \<Rightarrow> sfail ConvGroups | Some v' \<Rightarrow> sreturn v') typing_of
        (is_value (conv_ty e [n, h, w, c] [kh, kw, ic, f] options) Tensor)"
      by (auto simp: optional_typing_def intro!: main.ok_return)
  qed
qed

lemma lower_conv2d_ok:
  assumes v: "vin \<Gamma> v" "vin \<Gamma> kern" and ty: "conv2d_result_type (val_ty v) (val_ty kern) options = Inr ty"
  shows "builds \<Gamma> (lower_conv2d v kern options) typing_of (is_value ty Tensor)"
proof -
  from ty have "length (shape (val_ty v)) = 4" "length (shape (val_ty kern)) = 4" and "elem (val_ty kern) = elem (val_ty v)"
    by (auto simp: conv2d_result_type_def result_simps rank_def)
  then obtain e n h w c kh kw ic f where t: "val_ty v = tensor e [n, h, w, c]" "val_ty kern = tensor e [kh, kw, ic, f]"
    by (cases "val_ty v"; cases "val_ty kern") (auto simp: length_Suc_conv eval_nat_numeral)
  let ?h = "h + pad_top (conv_padding options) + pad_bottom (conv_padding options)"
  let ?w = "w + pad_left (conv_padding options) + pad_right (conv_padding options)"
  have g: "conv_groups options \<noteq> 0" "conv_groups options dvd c" "conv_groups options dvd f" "ic = c div conv_groups options"
    and fit: "window_fits ?h kh (fst (conv_dilation options)) (fst (conv_stride options))"
      "window_fits ?w kw (snd (conv_dilation options)) (snd (conv_stride options))"
    and res: "ty = conv_ty e [n, ?h, ?w, c] [kh, kw, ic, f] options"
    using ty by (auto simp: conv2d_result_type_def result_simps t rank_def Let_def conv_ty_def windows_def window_fits_def)
  have pad: "builds \<Gamma> (pad_conv2d_input v options) typing_of (has_ty (tensor e [n, ?h, ?w, c]))"
    unfolding pad_conv2d_input_def using pad_nhwc_ok [OF v(1) t(1) refl, of "conv_padding options"]
    by (simp add: padded_ty_def)
  show ?thesis unfolding lower_conv2d_def
  proof (rule main.ok_bind [OF pad], rule main.ok_if)
    fix v'
    assume v': "has_ty (tensor e [n, ?h, ?w, c]) v'"
    note ins = vin_has_ty [OF v'] vin_left [OF v(2)]
    have ty': "val_ty v' = tensor e [n, ?h, ?w, c]" using v' by (simp add: has_ty_def)
    show "builds (\<Gamma> \<union> typing_of v') (grouped_conv2d v' kern options) typing_of (is_value ty Tensor)"
      unfolding res by (rule grouped_conv2d_ok [OF ins ty' t(2) fit g])
    assume "\<not> 1 < conv_groups options"
    then have "ic = c" using g(1,4) by (cases "conv_groups options") auto
    then show "builds (\<Gamma> \<union> typing_of v') (conv2d_direct v' kern options) typing_of (is_value ty Tensor)"
      unfolding res using conv2d_direct_ok [OF ins ty' _ fit] t(2) by simp
  qed
qed

section \<open>Pooling\<close>

context block_builder
begin

lemma ok_index_constant: "step_ok good T keeps \<Gamma> (index_constant_in_block ctx n) (\<lambda>r. {(r, MIndex)}) (\<lambda>_. True)"
  unfolding index_constant_in_block_def by (rule ok_constant)

lemma ok_scaled_index:
  assumes "(i, MIndex) \<in> \<Gamma>"
  shows "step_ok good T keeps \<Gamma> (scaled_index_in_block ctx i scale offset) (\<lambda>r. {(r, MIndex)}) (\<lambda>_. True)"
  unfolding scaled_index_in_block_def
  apply (rule ok_bind [OF ok_index_constant])
  apply (rule ok_bind [OF ok_binary])
  apply (simp add: int_binary_ops_def, use assms in simp, simp, simp)
  apply (rule ok_if, rule ok_return, simp, simp)
  apply (rule ok_bind [OF ok_index_constant])
  apply (rule ok_binary, simp_all add: int_binary_ops_def)
  done

lemma ok_scalar_constant:
  "step_ok good T keeps \<Gamma> (scalar_constant_in_block ctx v e) (\<lambda>r. {(r, MElem e)}) (\<lambda>_. True)"
  unfolding scalar_constant_in_block_def by (rule ok_bind_pure [OF ok_elem_type], hypsubst, rule ok_constant)

end

lemma pool_op_names:
  "pool_op_name reduction e \<in> set float_binary_ops \<and> is_float e \<or> pool_op_name reduction e \<in> set int_binary_ops \<and> \<not> is_float e"
  by (cases reduction) (simp_all add: pool_op_name_def float_or_int_def float_binary_ops_def int_binary_ops_def)

lemma pool_combine_ok:
  assumes "(a, MElem e) \<in> \<Gamma>" "(b, MElem e) \<in> \<Gamma>"
  shows "region_builds outer tys \<Gamma> (block_op ctx (pool_op_name reduction e) [a, b] (MElem e) attrs)
           (\<lambda>r. {(r, MElem e)}) (\<lambda>_. True)"
  using pool_op_names [of reduction e] assms by (auto intro: region.ok_float_binary region.ok_binary)

lemma pool_tap_ok:
  assumes input: "(input_raw, MTensor ty) \<in> \<Gamma>" "rank ty = 4" and acc: "(acc, MElem (elem ty)) \<in> \<Gamma>"
    and is_: "\<forall>i < 4. (indices ! i, MIndex) \<in> \<Gamma>"
  shows "region_builds outer tys \<Gamma> (pool_tap ctx input_raw (elem ty) options reduction indices kk acc)
           (\<lambda>r. {(r, MElem (elem ty))}) (\<lambda>_. True)"
proof (cases kk)
  case (Pair kh kw)
  have i: "(indices ! 0, MIndex) \<in> \<Gamma>" "(indices ! Suc 0, MIndex) \<in> \<Gamma>" "(indices ! 2, MIndex) \<in> \<Gamma>" "(indices ! 3, MIndex) \<in> \<Gamma>"
    using is_ by auto
  show ?thesis unfolding pool_tap_def Pair prod.case
    apply (rule region.ok_bind_pure [OF region.ok_elem_type], hypsubst)
    apply (rule region.ok_bind [OF region.ok_scaled_index], use i in simp)
    apply (rule region.ok_bind [OF region.ok_scaled_index], use i in simp)
    apply (rule region.ok_bind [OF region.block_op_ok [where tys = "[MTensor ty, MIndex, MIndex, MIndex, MIndex]"]])
    apply (use i input in \<open>simp_all add: plain_names op_typings extract_typed_def eval_nat_numeral\<close>)
    apply (rule pool_combine_ok, use acc in simp_all)
    done
qed

lemma pool_body_ok:
  assumes input: "(input_raw, MTensor ty) \<in> \<Gamma>" "rank ty = 4"
    and seed: "reduction = PoolAverage \<and> is_float (elem ty) \<or> reduction = PoolMax \<and> elem ty \<noteq> Bool"
  shows "body_ok \<Gamma> [MElem (elem ty)] [MElem (elem ty)] (pool_body input_raw (elem ty) options reduction ctx)"
proof (rule body_okI [where G = "\<lambda>rs. typing_list rs [MElem (elem ty)]" and P = "\<lambda>rs. length rs = 1"])
  fix outer
  let ?e = "elem ty" and ?tys = "[MElem (elem ty)]"
  let ?\<Gamma> = "\<Gamma> \<union> args_typing ?tys"
  have s: "\<exists>lit. (case reduction of PoolAverage \<Rightarrow> Inr (zero_literal ?e) | PoolMax \<Rightarrow> max_pool_padding_literal ?e) = Inr lit"
    using seed by (cases ?e) auto
  then obtain lit where lit: "(case reduction of PoolAverage \<Rightarrow> Inr (zero_literal ?e)
      | PoolMax \<Rightarrow> max_pool_padding_literal ?e) = Inr lit" by blast
  show "region_builds outer ?tys ?\<Gamma> (pool_body input_raw ?e options reduction ctx (region_args ?tys))
      (\<lambda>rs. typing_list rs [MElem ?e]) (\<lambda>rs. length rs = 1)"
    unfolding pool_body_def build_pool2d_body_def
  proof (rule region.ok_bind [OF ok_linalg_indices],
      rule region.ok_bind [where G = "\<lambda>r. {(r, MElem ?e)}" and P = "\<lambda>_. True"],
      rule region.ok_bind_pure [OF region.ok_elem_type], hypsubst, unfold lit slift_Inr_bind,
      rule region.ok_bind [OF region.ok_scalar_constant])
    fix indices :: "raw list" and init :: raw
    assume n: "length indices = 4"
    let ?\<Delta> = "?\<Gamma> \<union> typing_list indices (replicate 4 MIndex) \<union> {(init, MElem ?e)}"
    let ?taps = "List.product [0..<fst (pool_kernel options)] [0..<snd (pool_kernel options)]"
    have ix: "\<forall>i < 4. (indices ! i, MIndex) \<in> ?\<Delta>" using n by (auto simp: typing_list_def set_zip)
    have fold: "region_builds outer ?tys ?\<Delta> (sfold (pool_tap ctx input_raw ?e options reduction indices) ?taps init)
        (\<lambda>r. {(r, MElem ?e)}) (\<lambda>_. True)"
      by (rule region.ok_sfold, rule pool_tap_ok) (use input ix in auto)
    show "region_builds outer ?tys ?\<Delta> (sbind (sfold (pool_tap ctx input_raw ?e options reduction indices) ?taps init) (\<lambda>acc.
        if reduction = PoolAverage then
          sbind (scalar_constant_in_block ctx
            (count_literal (fst (pool_kernel options) * snd (pool_kernel options))) ?e) (\<lambda>denominator.
          block_op ctx ''arith.divf'' [acc, denominator] (MElem ?e) [])
        else sreturn acc)) (\<lambda>r. {(r, MElem ?e)}) (\<lambda>_. True)"
      apply (rule region.ok_bind [OF fold], rule region.ok_if)
      apply (rule region.ok_bind [OF region.ok_scalar_constant], rule region.ok_float_binary)
      apply (use seed in \<open>auto intro: region.ok_return\<close>)
      done
  next
    show "region_builds outer ?tys (?\<Gamma> \<union> typing_list indices (replicate 4 MIndex) \<union> {(r, MElem ?e)}) (sreturn [r])
        (\<lambda>rs. typing_list rs [MElem ?e]) (\<lambda>rs. length rs = 1)" for indices r
      by (rule region.ok_return) simp_all
  qed
qed simp

lemma emit_pool2d_ok:
  assumes v: "vin \<Gamma> v" and rk: "rank (val_ty v) = 4" "rank ty = 4" "elem ty = elem (val_ty v)"
    and seed: "reduction = PoolAverage \<and> is_float (elem ty) \<or> reduction = PoolMax \<and> elem ty \<noteq> Bool"
  shows "builds \<Gamma> (emit_pool2d_generic v ty options reduction) typing_of (is_value ty Tensor)"
  unfolding emit_pool2d_generic_def
proof (rule main.ok_bind [OF append_tensor_empty_ok])
  fix out
  assume o': "is_value ty Tensor out"
  have k: "val_kind v = Tensor" using tensor_kind [OF v] rk by simp
  have map4: "identity_map 4 = ''(d0, d1, d2, d3)''"
    by (simp add: identity_map_def dim_name_def nat_str_eval upt_4)
  have loops: "loops_fit (shape ty) [] [identity_dims (rank ty)] (parallel (rank ty)) (map value_ty [] @ [MTensor ty])"
    using elementwise_loops_fit [of ty "[]" "[]"] by simp
  have kinds: "parallel (rank ty) = [''parallel'', ''parallel'', ''parallel'', ''parallel'']"
    by (simp add: rk parallel_def eval_nat_numeral)
  have body: "body_ok (\<Gamma> \<union> typing_of out) [MElem (elem ty)] [MElem (elem ty)]
      (pool_body (raw_of v) (elem (val_ty v)) options reduction ctx)" for ctx
    unfolding rk(3)
    by (rule pool_body_ok) (use vin_typing [OF v] k rk seed in \<open>auto simp: typing_of_def value_ty_kind\<close>)
  show "builds (\<Gamma> \<union> typing_of out) (append_generic_tensor [] out ty (rank ty) [''(d0, d1, d2, d3)'']
      [''parallel'', ''parallel'', ''parallel'', ''parallel''] (pool_body (raw_of v) (elem (val_ty v)) options reduction))
      typing_of (is_value ty Tensor)"
    unfolding kinds [symmetric]
    by (rule append_generic_tensor_ok [where in_maps = "[]" and out_map = "identity_dims (rank ty)"
          and extents = "shape ty"])
       (use o' loops body rk map4 in \<open>simp_all add: rank_def\<close>)
qed

definition pool_ty :: "element_type \<Rightarrow> nat list \<Rightarrow> pool2d_options \<Rightarrow> tensor_type" where
  "pool_ty e s options =
     tensor e [s ! 0, windows (s ! 1) (fst (pool_kernel options)) (fst (pool_dilation options)) (fst (pool_stride options)),
       windows (s ! 2) (snd (pool_kernel options)) (snd (pool_dilation options)) (snd (pool_stride options)), s ! 3]"

lemma padded_pool_ok:
  assumes v: "vin \<Gamma> v" and ty: "pool2d_result_type (val_ty v) options = Inr ty" and literal: "literal = Inr lit"
    and seed: "reduction = PoolAverage \<and> is_float (elem (val_ty v)) \<or> reduction = PoolMax \<and> elem (val_ty v) \<noteq> Bool"
  shows "builds \<Gamma> (sbind (pad_nhwc v (pool_padding options) literal) (\<lambda>v'.
      sbind (slift (pool2d_output_type (val_ty v') options)) (\<lambda>ty.
      emit_pool2d_generic v' ty options reduction))) typing_of (is_value ty Tensor)"
proof -
  from ty have "length (shape (val_ty v)) = 4" by (auto simp: pool2d_result_type_def result_simps rank_def)
  then obtain e n h w c where t: "val_ty v = tensor e [n, h, w, c]"
    by (cases "val_ty v") (auto simp: length_Suc_conv eval_nat_numeral)
  let ?h = "h + pad_top (pool_padding options) + pad_bottom (pool_padding options)"
  let ?w = "w + pad_left (pool_padding options) + pad_right (pool_padding options)"
  have fit: "window_fits ?h (fst (pool_kernel options)) (fst (pool_dilation options)) (fst (pool_stride options))"
      "window_fits ?w (snd (pool_kernel options)) (snd (pool_dilation options)) (snd (pool_stride options))"
    and res: "ty = pool_ty e [n, ?h, ?w, c] options"
    using ty by (auto simp: pool2d_result_type_def result_simps t rank_def Let_def pool_ty_def windows_def window_fits_def)
  show ?thesis
  proof (rule main.ok_bind [OF pad_nhwc_ok [OF v t literal]])
    fix v'
    assume "has_ty (padded_ty e [n, h, w, c] (pool_padding options)) v'"
    then have v': "has_ty (tensor e [n, ?h, ?w, c]) v'" by (simp add: padded_ty_def)
    have out: "pool2d_output_type (val_ty v') options = Inr ty"
      using v' by (simp add: has_ty_def pool2d_output_type_def idx_def window_extent_ok fit res pool_ty_def)
    show "builds (\<Gamma> \<union> typing_of v') (sbind (slift (pool2d_output_type (val_ty v') options)) (\<lambda>ty.
        emit_pool2d_generic v' ty options reduction)) typing_of (is_value ty Tensor)"
      unfolding out slift_Inr_bind
      by (rule emit_pool2d_ok [OF vin_has_ty [OF v']])
         (use v' seed t in \<open>auto simp: has_ty_def rank_def res pool_ty_def\<close>)
  qed
qed

lemma lower_max_pool2d_ok:
  assumes v: "vin \<Gamma> v" and ty: "max_pool2d_result_type (val_ty v) options = Inr ty"
  shows "builds \<Gamma> (lower_max_pool2d v options) typing_of (is_value ty Tensor)"
proof -
  from ty have e: "elem (val_ty v) \<noteq> Bool"
    by (auto simp: max_pool2d_result_type_def pool2d_result_type_def result_simps guard_defs numeric_not_Bool)
  then obtain lit where "max_pool_padding_literal (elem (val_ty v)) = Inr lit" by (cases "elem (val_ty v)") auto
  with padded_pool_ok [OF v ty [unfolded max_pool2d_result_type_def]] e show ?thesis
    unfolding lower_max_pool2d_def by blast
qed

lemma lower_avg_pool2d_ok:
  assumes v: "vin \<Gamma> v" and ty: "avg_pool2d_result_type (val_ty v) options = Inr ty"
  shows "builds \<Gamma> (lower_avg_pool2d v options) typing_of (is_value ty Tensor)"
proof -
  from ty have "is_float (elem (val_ty v))" and t: "pool2d_result_type (val_ty v) options = Inr ty"
    by (auto simp: avg_pool2d_result_type_def result_simps)
  with padded_pool_ok [OF v t refl] show ?thesis unfolding lower_avg_pool2d_def by blast
qed

end
