(* ===== verification/Lower_Random_Spec.thy ===== *)
theory Lower_Random_Spec
  imports Lower_Window_Spec
begin

text \<open>The sampler of \<^verbatim>\<open>random.rs\<close>: its body yields one element of the target type, and the next key is a key.\<close>

section \<open>The generator\<close>

context block_builder
begin

lemma ok_int_constant:
  "step_ok good T keeps \<Gamma> (int_constant_in_block ctx n e) (\<lambda>r. {(r, MElem e)}) (\<lambda>_. True)"
  unfolding int_constant_in_block_def by (rule ok_bind_pure [OF ok_elem_type], hypsubst, rule ok_constant)

lemma ok_float_constant:
  "step_ok good T keeps \<Gamma> (float_constant_in_block ctx v e) (\<lambda>r. {(r, MElem e)}) (\<lambda>_. True)"
  unfolding float_constant_in_block_def by (rule ok_bind_pure [OF ok_elem_type], hypsubst, rule ok_constant)

lemma ok_int_binary:
  assumes "name \<in> set int_binary_ops" "(l, MElem e) \<in> \<Gamma>" "(r, MElem e) \<in> \<Gamma>" "\<not> is_float e"
  shows "step_ok good T keeps \<Gamma> (int_binary ctx name l r e) (\<lambda>r. {(r, MElem e)}) (\<lambda>_. True)"
  unfolding int_binary_def
  by (rule ok_bind_pure [OF ok_elem_type], hypsubst, rule ok_binary) (use assms in simp_all)

lemma int_names [simp]:
  "''arith.addi'' \<in> set int_binary_ops" "''arith.subi'' \<in> set int_binary_ops" "''arith.muli'' \<in> set int_binary_ops"
  "''arith.andi'' \<in> set int_binary_ops" "''arith.xori'' \<in> set int_binary_ops" "''arith.shrui'' \<in> set int_binary_ops"
  "''arith.remui'' \<in> set int_binary_ops"
  by (simp_all add: int_binary_ops_def)

lemma ok_i64_ops:
  assumes "(l, MElem I64) \<in> \<Gamma>"
  shows "step_ok good T keeps \<Gamma> (add_i64 ctx l w) (\<lambda>r. {(r, MElem I64)}) (\<lambda>_. True)"
    and "step_ok good T keeps \<Gamma> (mul_i64 ctx l w) (\<lambda>r. {(r, MElem I64)}) (\<lambda>_. True)"
    and "step_ok good T keeps \<Gamma> (and_i64 ctx l n) (\<lambda>r. {(r, MElem I64)}) (\<lambda>_. True)"
    and "step_ok good T keeps \<Gamma> (shift_right_i64 ctx l n) (\<lambda>r. {(r, MElem I64)}) (\<lambda>_. True)"
  unfolding add_i64_def mul_i64_def and_i64_def shift_right_i64_def
  by (rule ok_bind [OF ok_int_constant], rule ok_int_binary; use assms in simp)+

lemma ok_xor_i64:
  "(l, MElem I64) \<in> \<Gamma> \<Longrightarrow> (r, MElem I64) \<in> \<Gamma> \<Longrightarrow>
     step_ok good T keeps \<Gamma> (xor_i64 ctx l r) (\<lambda>r. {(r, MElem I64)}) (\<lambda>_. True)"
  unfolding xor_i64_def by (rule ok_int_binary) simp_all

lemma ok_splitmix64:
  assumes "(v, MElem I64) \<in> \<Gamma>"
  shows "step_ok good T keeps \<Gamma> (splitmix64_in_block ctx v) (\<lambda>r. {(r, MElem I64)}) (\<lambda>_. True)"
  unfolding splitmix64_in_block_def
  apply (rule ok_bind [OF ok_i64_ops(1)], use assms in simp)
  apply (rule ok_bind [OF ok_i64_ops(4)], simp)
  apply (rule ok_bind [OF ok_xor_i64], simp, simp)
  apply (rule ok_bind [OF ok_i64_ops(2)], simp)
  apply (rule ok_bind [OF ok_i64_ops(4)], simp)
  apply (rule ok_bind [OF ok_xor_i64], simp, simp)
  apply (rule ok_bind [OF ok_i64_ops(2)], simp)
  apply (rule ok_bind [OF ok_i64_ops(4)], simp)
  apply (rule ok_xor_i64, simp, simp)
  done

lemma ok_index_to_i64:
  "(r, MIndex) \<in> \<Gamma> \<Longrightarrow> step_ok good T keeps \<Gamma> (index_to_i64 ctx r) (\<lambda>r. {(r, MElem I64)}) (\<lambda>_. True)"
  unfolding index_to_i64_def
  by (rule ok_bind_pure [OF ok_elem_type], hypsubst, rule ok_block_op1)
     (simp_all add: plain_names op_typings index_cast_typed_def)

lemma ok_cmpf:
  assumes "predicate \<in> {''oeq'', ''ogt'', ''oge''}" "(l, MElem e) \<in> \<Gamma>" "(r, MElem e) \<in> \<Gamma>" "is_float e"
  shows "step_ok good T keeps \<Gamma> (cmpf_in_block ctx predicate l r) (\<lambda>r. {(r, MElem Bool)}) (\<lambda>_. True)"
proof -
  obtain n where n: "of_option (Panic UnwrapNone) (map_of [(''oeq'', 1 :: nat), (''ogt'', 2), (''oge'', 3)] predicate) = Inr n"
    using assms(1) by (auto simp: of_option_def)
  show ?thesis unfolding cmpf_in_block_def n slift_Inr_bind
    by (rule ok_bind_pure [OF ok_elem_type], hypsubst, rule ok_compare [OF assms(2,3)]) (use assms(4) in simp_all)
qed

lemma ok_select_in_block:
  assumes "(c, MElem Bool) \<in> \<Gamma>" "(t, MElem e) \<in> \<Gamma>" "(f, MElem e) \<in> \<Gamma>"
  shows "step_ok good T keeps \<Gamma> (select_in_block ctx c t f e) (\<lambda>r. {(r, MElem e)}) (\<lambda>_. True)"
  unfolding select_in_block_def
  by (rule ok_bind_pure [OF ok_elem_type], hypsubst, rule ok_select) (use assms in simp_all)

lemma ok_bitcast:
  assumes "(v, MElem a) \<in> \<Gamma>" "bit_width a = bit_width b"
  shows "step_ok good T keeps \<Gamma> (bitcast_in_block ctx v (MElem b)) (\<lambda>r. {(r, MElem b)}) (\<lambda>_. True)"
  unfolding bitcast_in_block_def
  by (rule ok_block_op1 [OF _ assms(1)]) (use assms(2) in \<open>simp_all add: plain_names op_typings bitcast_typed_def\<close>)

lemma ok_unit_float:
  assumes "(h, MElem I64) \<in> \<Gamma>" "e = F32 \<or> e = F64"
  shows "step_ok good T keeps \<Gamma> (unit_float_from_hash ctx h e) (\<lambda>r. {(r, MElem e)}) (\<lambda>_. True)"
proof -
  have pick: "step_ok good T keeps \<Gamma> (if e = F64 then sreturn (9007199254740991 :: int, ''9007199254740992.0'')
      else if e = F32 then sreturn (16777215, ''16777216.0'') else sfail RandomElement) (\<lambda>_. {}) (\<lambda>_. True)"
    using assms(2) by (auto intro!: ok_return)
  have f: "is_float e" using assms(2) by auto
  show ?thesis unfolding unit_float_from_hash_def
  proof (rule ok_bind_pure [OF pick], clarify)
    fix bit_mask :: int and scale :: string
    show "step_ok good T keeps \<Gamma> (sbind (and_i64 ctx h bit_mask) (\<lambda>masked.
        sbind (mlir_element_type ctx e) (\<lambda>elem_ty.
        sbind (block_op ctx ''arith.sitofp'' [masked] elem_ty []) (\<lambda>float'.
        sbind (float_constant_in_block ctx scale e) (\<lambda>scale'.
        block_op ctx ''arith.divf'' [float', scale'] elem_ty []))))) (\<lambda>r. {(r, MElem e)}) (\<lambda>_. True)"
      apply (rule ok_bind [OF ok_i64_ops(3) [OF assms(1)]])
      apply (rule ok_bind_pure [OF ok_elem_type], hypsubst)
      apply (rule ok_bind [OF ok_block_op1 [where t = "MElem I64"]])
      apply (simp add: plain_names, simp)
      apply (use f in \<open>simp add: op_typings sitofp_typed_def\<close>)
      apply (rule ok_bind [OF ok_float_constant])
      apply (rule ok_float_binary)
      apply (use f in \<open>simp_all add: float_binary_ops_def\<close>)
      done
  qed
qed

lemma ok_integer_sample:
  assumes "(h, MElem I64) \<in> \<Gamma>" "e = I32 \<or> e = I64"
  shows "step_ok good T keeps \<Gamma> (integer_sample_from_hash ctx h e) (\<lambda>r. {(r, MElem e)}) (\<lambda>_. True)"
proof (cases "e = I32")
  case True
  then show ?thesis unfolding integer_sample_from_hash_def
    by simp (rule ok_bind_pure [OF ok_elem_type], hypsubst, rule ok_block_op1 [OF _ assms(1)],
        simp_all add: plain_names op_typings trunci_typed_def)
next
  case False
  with assms show ?thesis by (auto simp: integer_sample_from_hash_def intro!: ok_return)
qed

lemma ok_next_down_float:
  assumes "(v, MElem e) \<in> \<Gamma>" "e = F32 \<or> e = F64"
  shows "step_ok good T keeps \<Gamma> (next_down_float ctx v e) (\<lambda>r. {(r, MElem e)}) (\<lambda>_. True)"
proof -
  have layout: "step_ok good T keeps \<Gamma> (float_bit_layout e) (\<lambda>_. {})
      (\<lambda>(i, _). \<not> is_float i \<and> bit_width i = bit_width e)"
    using assms(2) by (auto simp: float_bit_layout_def intro!: ok_return)
  have f: "is_float e" using assms(2) by auto
  show ?thesis unfolding next_down_float_def
  proof (rule ok_bind_pure [OF layout], clarify)
    fix i :: element_type and bits :: int
    assume i: "\<not> is_float i" "bit_width i = bit_width e"
    show "step_ok good T keeps \<Gamma> (sbind (mlir_element_type ctx i) (\<lambda>int_ty.
        sbind (float_constant_in_block ctx ''0.0'' e) (\<lambda>zero.
        sbind (int_constant_in_block ctx 1 i) (\<lambda>one'.
        sbind (bitcast_in_block ctx v int_ty) (\<lambda>bits'.
        sbind (int_binary ctx ''arith.subi'' bits' one' i) (\<lambda>decremented.
        sbind (int_binary ctx ''arith.addi'' bits' one' i) (\<lambda>incremented.
        sbind (cmpf_in_block ctx ''ogt'' v zero) (\<lambda>is_positive.
        sbind (select_in_block ctx is_positive decremented incremented i) (\<lambda>nonzero_bits.
        sbind (cmpf_in_block ctx ''oeq'' v zero) (\<lambda>is_zero.
        sbind (int_constant_in_block ctx bits i) (\<lambda>negative_min_subnormal.
        sbind (select_in_block ctx is_zero negative_min_subnormal nonzero_bits i) (\<lambda>next_bits.
        sbind (mlir_element_type ctx e) (\<lambda>elem_ty. bitcast_in_block ctx next_bits elem_ty)))))))))))))
        (\<lambda>r. {(r, MElem e)}) (\<lambda>_. True)"
      apply (rule ok_bind_pure [OF ok_elem_type], hypsubst)
      apply (rule ok_bind [OF ok_float_constant])
      apply (rule ok_bind [OF ok_int_constant])
      apply (rule ok_bind [OF ok_bitcast [where a = e]], use assms(1) in simp, simp add: i)
      apply (rule ok_bind [OF ok_int_binary], simp, simp, simp, rule i(1))
      apply (rule ok_bind [OF ok_int_binary], simp, simp, simp, rule i(1))
      apply (rule ok_bind [OF ok_cmpf [where e = e]], simp, use assms(1) in simp, simp, rule f)
      apply (rule ok_bind [OF ok_select_in_block], simp, simp, simp)
      apply (rule ok_bind [OF ok_cmpf [where e = e]], simp, use assms(1) in simp, simp, rule f)
      apply (rule ok_bind [OF ok_int_constant])
      apply (rule ok_bind [OF ok_select_in_block], simp, simp, simp)
      apply (rule ok_bind_pure [OF ok_elem_type], hypsubst)
      apply (rule ok_bitcast [where a = i], simp, simp add: i)
      done
  qed
qed

lemma ok_clamp:
  assumes "(v, MElem e) \<in> \<Gamma>" "(high, MElem e) \<in> \<Gamma>" "e = F32 \<or> e = F64"
  shows "step_ok good T keeps \<Gamma> (clamp_uniform_sample_below_high ctx v high e) (\<lambda>r. {(r, MElem e)}) (\<lambda>_. True)"
proof -
  have f: "is_float e" using assms(3) by auto
  show ?thesis unfolding clamp_uniform_sample_below_high_def
    apply (rule ok_bind [OF ok_next_down_float [OF assms(2,3)]])
    apply (rule ok_bind [OF ok_cmpf [where e = e]], simp, use assms(1) in simp, use assms(2) in simp, rule f)
    apply (rule ok_select_in_block)
    apply (use assms(1) in simp_all)
    done
qed

end

lemma flattened_axes_ok:
  "(r, MElem I64) \<in> \<Gamma> \<Longrightarrow>
     region_builds outer tys \<Gamma> (flattened_axes ctx axis dims r) (\<lambda>r. {(r, MElem I64)}) (\<lambda>_. True)"
proof (induction dims arbitrary: \<Gamma> axis r)
  case Nil
  then show ?case by (auto intro: region.ok_return)
next
  case (Cons d dims)
  show ?case unfolding flattened_axes.simps
    apply (rule region.ok_bind [OF ok_linalg_index])
    apply (rule region.ok_bind [OF region.ok_index_to_i64], simp)
    apply (rule region.ok_if)
    apply (rule Cons.IH, simp)
    apply (rule region.ok_bind [OF region.ok_int_constant])
    apply (rule region.ok_bind [OF region.ok_int_binary], simp, use Cons.prems in simp, simp, simp)
    apply (rule region.ok_bind [OF region.ok_int_binary], simp, simp, simp, simp)
    apply (rule Cons.IH, simp)
    done
qed

lemma element_hash_ok:
  assumes "(key, MElem I64) \<in> \<Gamma>"
  shows "region_builds outer tys \<Gamma> (element_hash ctx s key) (\<lambda>r. {(r, MElem I64)}) (\<lambda>_. True)"
  unfolding element_hash_def flattened_linalg_index_def
  apply (rule region.ok_bind [where G = "\<lambda>r. {(r, MElem I64)}" and P = "\<lambda>_. True"])
   apply (rule region.ok_bind [OF region.ok_int_constant], rule flattened_axes_ok, simp)
  apply (rule region.ok_bind [OF region.ok_int_binary], simp, use assms in simp, simp, simp)
  apply (rule region.ok_splitmix64, simp)
  done

lemma three_args:
  fixes tys :: "mlir_ty list"
  shows "i < length tys \<Longrightarrow> (region_args tys ! i, tys ! i) \<in> \<Gamma> \<union> args_typing tys"
  using args_typing_nth by blast

lemma random_uniform_body_ok:
  assumes e: "elem target = F32 \<or> elem target = F64"
  shows "body_ok \<Gamma> [MElem I64, MElem (elem target), MElem (elem target), MElem (elem target)] [MElem (elem target)]
           (random_uniform_body target ctx)"
proof (rule body_okI [where G = "\<lambda>rs. typing_list rs [MElem (elem target)]" and P = "\<lambda>rs. length rs = 1"])
  fix outer
  let ?e = "elem target"
  let ?tys = "[MElem I64, MElem ?e, MElem ?e, MElem ?e]"
  let ?\<Gamma> = "\<Gamma> \<union> args_typing ?tys" and ?as = "region_args ?tys"
  have args: "(?as ! 0, MElem I64) \<in> ?\<Gamma>" "(?as ! 1, MElem ?e) \<in> ?\<Gamma>" "(?as ! 2, MElem ?e) \<in> ?\<Gamma>"
    using three_args [of 0 ?tys] three_args [of 1 ?tys] three_args [of 2 ?tys] by simp_all
  have f: "is_float ?e" using e by auto
  have arith: "region_builds outer ?tys \<Delta> (block_op ctx name [l, r] (MElem ?e) []) (\<lambda>r. {(r, MElem ?e)}) (\<lambda>_. True)"
    if "name \<in> set float_binary_ops" "(l, MElem ?e) \<in> \<Delta>" "(r, MElem ?e) \<in> \<Delta>" for \<Delta> name l r
    by (rule region.ok_float_binary [OF that]) (simp add: f)
  show "region_builds outer ?tys ?\<Gamma> (random_uniform_body target ctx ?as) (\<lambda>rs. typing_list rs [MElem ?e])
      (\<lambda>rs. length rs = 1)"
    unfolding random_uniform_body_def
    apply (rule region.ok_bind_pure [OF region.ok_elem_type], hypsubst)
    apply (rule region.ok_bind [OF element_hash_ok [OF args(1)]])
    apply (rule region.ok_bind [OF region.ok_unit_float [OF _ e]], blast)
    apply (rule region.ok_bind [OF arith], simp, use args in blast, use args in blast)
    apply (rule region.ok_bind [OF arith], simp, blast, blast)
    apply (rule region.ok_bind [OF arith], simp, use args in blast, blast)
    apply (rule region.ok_bind [OF region.ok_clamp [OF _ _ e]], blast, use args in blast)
    apply (rule region.ok_return, simp_all)
    done
qed simp

lemma random_int_body_ok:
  assumes e: "elem target = I32 \<or> elem target = I64"
  shows "body_ok \<Gamma> [MElem I64, MElem (elem target), MElem (elem target), MElem (elem target)] [MElem (elem target)]
           (random_int_body target ctx)"
proof (rule body_okI [where G = "\<lambda>rs. typing_list rs [MElem (elem target)]" and P = "\<lambda>rs. length rs = 1"])
  fix outer
  let ?e = "elem target"
  let ?tys = "[MElem I64, MElem ?e, MElem ?e, MElem ?e]"
  let ?\<Gamma> = "\<Gamma> \<union> args_typing ?tys" and ?as = "region_args ?tys"
  have args: "(?as ! 0, MElem I64) \<in> ?\<Gamma>" "(?as ! 1, MElem ?e) \<in> ?\<Gamma>" "(?as ! 2, MElem ?e) \<in> ?\<Gamma>"
    using three_args [of 0 ?tys] three_args [of 1 ?tys] three_args [of 2 ?tys] by simp_all
  have f: "\<not> is_float ?e" using e by auto
  have arith: "region_builds outer ?tys \<Delta> (block_op ctx name [l, r] (MElem ?e) []) (\<lambda>r. {(r, MElem ?e)}) (\<lambda>_. True)"
    if "name \<in> set int_binary_ops" "(l, MElem ?e) \<in> \<Delta>" "(r, MElem ?e) \<in> \<Delta>" for \<Delta> name l r
    by (rule region.ok_binary [OF that]) (simp add: f)
  show "region_builds outer ?tys ?\<Gamma> (random_int_body target ctx ?as) (\<lambda>rs. typing_list rs [MElem ?e])
      (\<lambda>rs. length rs = 1)"
    unfolding random_int_body_def
    apply (rule region.ok_bind [OF element_hash_ok [OF args(1)]])
    apply (rule region.ok_bind [OF region.ok_integer_sample [OF _ e]], blast)
    apply (rule region.ok_bind_pure [OF region.ok_elem_type], hypsubst)
    apply (rule region.ok_bind [OF arith], simp, use args in blast, use args in blast)
    apply (rule region.ok_bind [OF arith], simp, blast, blast)
    apply (rule region.ok_bind [OF arith], simp, use args in blast, blast)
    apply (rule region.ok_return, simp_all)
    done
qed simp

section \<open>Samples and the next key\<close>

lemma is_scalar_simps: "is_value (tensor e []) Scalar v \<Longrightarrow> value_ty v = MElem e \<and> elem (val_ty v) = e"
  by (simp add: is_value_simps value_ty_kind)

lemma random_tensor_ok:
  assumes v: "vin \<Gamma> key" "vin \<Gamma> low" "vin \<Gamma> high"
    and t: "is_value (tensor I64 []) Scalar key" "is_value (tensor (elem target) []) Scalar low"
      "is_value (tensor (elem target) []) Scalar high"
    and body: "\<And>\<Gamma> ctx. body_ok \<Gamma> [MElem I64, MElem (elem target), MElem (elem target), MElem (elem target)]
      [MElem (elem target)] (body ctx)"
  shows "builds \<Gamma> (random_tensor target key low high body) typing_of (is_value target Tensor)"
  unfolding random_tensor_def
proof (rule main.ok_bind [OF append_tensor_empty_ok])
  fix out
  assume o': "is_value target Tensor out"
  have fit: "list_all2 (operand_fits (shape target)) [[], [], []] (map value_ty [key, low, high])"
    using t [THEN is_scalar_simps] by simp
  show "builds (\<Gamma> \<union> typing_of out) (append_generic_tensor [key, low, high] out target (rank target)
      [''()'', ''()'', ''()'', identity_map (rank target)] (parallel (rank target)) body) typing_of (is_value target Tensor)"
    by (rule append_generic_tensor_ok [where in_maps = "[[], [], []]" and out_map = "identity_dims (rank target)"
          and extents = "shape target"])
       (use v o' body t [THEN is_scalar_simps] elementwise_loops_fit [OF fit] in \<open>auto simp: vin_def rank_def\<close>)
qed

lemma random_next_key_ok:
  assumes "vin \<Gamma> key" "is_value (tensor I64 []) Scalar key"
  shows "builds \<Gamma> (random_next_key key target) typing_of (has_ty (tensor I64 []))"
  unfolding random_next_key_def
proof (rule main.ok_if)
  show "builds \<Gamma> (sfail RandomCount) typing_of (has_ty (tensor I64 []))"
    by (rule step_okI) (auto simp: sfail_def)
  show "builds \<Gamma> (sbind (lower_constant (nat_str (prod_list (shape target))) I64) (\<lambda>count. binary_value Add key count))
      typing_of (has_ty (tensor I64 []))"
    by (rule main.ok_bind [OF lower_constant_ok], rule binary_value_ok)
       (use assms in \<open>auto simp: is_value_simps constant_in vin_left\<close>)
qed

definition typings_of :: "lvalue list \<Rightarrow> typings" where
  "typings_of vs = \<Union>(typing_of ` set vs)"

lemma random_values_ok:
  assumes v: "vin \<Gamma> key" "vin \<Gamma> low" "vin \<Gamma> high"
    and t: "val_ty key = tensor I64 []" "val_ty low = tensor (elem target) []" "val_ty high = tensor (elem target) []"
    and body: "\<And>\<Gamma> ctx. body_ok \<Gamma> [MElem I64, MElem (elem target), MElem (elem target), MElem (elem target)]
      [MElem (elem target)] (body ctx)"
  shows "builds \<Gamma> (random_values target key low high body) typings_of
           (\<lambda>vs. list_all2 has_ty [target, tensor I64 []] vs)"
proof -
  have scalar: "builds \<Delta> (coerce_to_scalar w) typing_of (is_value (tensor e []) Scalar)"
    if "vin \<Delta> w" "val_ty w = tensor e []" for \<Delta> w e
    using coerce_to_scalar_ok [OF that(1)] that(2) by (simp add: element_count_def)
  show ?thesis unfolding random_values_def
    apply (rule main.ok_bind [OF scalar [OF v(1) t(1)]])
    apply (rule main.ok_bind [OF scalar [OF vin_left [OF v(2)] t(2)]])
    apply (rule main.ok_bind [OF scalar [OF vin_left [OF vin_left [OF v(3)]] t(3)]])
    apply (rule main.ok_bind [OF random_tensor_ok [where target = target and body = body]])
    apply (auto simp: vin_def body is_value_simps kind_ok_def rank_def)[7]
    apply (rule main.ok_bind [OF random_next_key_ok])
    apply (auto simp: vin_def is_value_simps kind_ok_def rank_def)[2]
    apply (rule main.ok_return)
    apply (auto simp: typings_of_def is_value_simps has_ty_def kind_ok_def)
    done
qed

lemma rank_0_ty: "rank ty = 0 \<Longrightarrow> elem ty = e \<Longrightarrow> ty = tensor e []"
  by (simp add: rank_0_iff)

lemma random_rule_Inr:
  assumes "random_rule elem_ok err target [key, low, high] = Inr tys"
  shows "elem_ok" "key = tensor I64 []" "low = tensor (elem target) []" "high = tensor (elem target) []"
    "tys = [target, tensor I64 []]"
  using assms
  by (auto simp: random_rule_def expect_random_key_def random_bounds_result_type_def result_simps guard_defs
      intro!: rank_0_ty)

lemma lower_random_uniform_ok:
  assumes v: "vin \<Gamma> key" "vin \<Gamma> low" "vin \<Gamma> high"
    and ty: "infer_call_results (OpRandomUniform target) [val_ty key, val_ty low, val_ty high] = Inr tys"
  shows "builds \<Gamma> (lower_random_uniform target key low high) typings_of (\<lambda>vs. list_all2 has_ty tys vs)"
proof -
  note r = random_rule_Inr [OF ty [unfolded infer_call_results.simps]]
  show ?thesis unfolding lower_random_uniform_def r(5)
    by (rule random_values_ok [OF v r(2-4) random_uniform_body_ok]) (use r(1) in auto)
qed

lemma lower_random_int_ok:
  assumes v: "vin \<Gamma> key" "vin \<Gamma> low" "vin \<Gamma> high"
    and ty: "infer_call_results (OpRandomInt target) [val_ty key, val_ty low, val_ty high] = Inr tys"
  shows "builds \<Gamma> (lower_random_int target key low high) typings_of (\<lambda>vs. list_all2 has_ty tys vs)"
proof -
  note r = random_rule_Inr [OF ty [unfolded infer_call_results.simps]]
  show ?thesis unfolding lower_random_int_def r(5)
    by (rule random_values_ok [OF v r(2-4) random_int_body_ok]) (use r(1) in auto)
qed

end
