(* ===== verification/Lower_Calls.thy ===== *)
theory Lower_Calls
  imports Lower_Random_Spec Static_Facts Type_Spec
begin

text \<open>
  One theorem for the dispatch of \<^verbatim>\<open>lowerer.rs\<close>: a call whose operands have the types that the
  typing rule accepts is lowered to operations that fit, and its values have the types that the rule infers.
\<close>

section \<open>Operands\<close>

text \<open>Three operations accept operands that the lowering cannot build: a stack of scalars needs an expansion
  of a scalar to rank 1 by a group of its own, a slice of a scalar reads a tensor, and a broadcast must not
  narrow its operand.\<close>

definition lowerable_call :: "call_op \<Rightarrow> tensor_type list \<Rightarrow> bool" where
  "lowerable_call op tys \<longleftrightarrow>
     (case op of
        OpStack axis \<Rightarrow> rank (tys ! 0) \<noteq> 0
      | OpSlice target starts \<Rightarrow> rank (tys ! 0) \<noteq> 0
      | OpBroadcast target \<Rightarrow> broadcast_shape_slices (shape (tys ! 0)) (shape target) = Inr (shape target)
      | _ \<Rightarrow> True)"

definition operands :: "typings \<Rightarrow> tensor_type list \<Rightarrow> lvalue list \<Rightarrow> bool" where
  "operands \<Gamma> tys vs \<longleftrightarrow> list_all2 (\<lambda>t v. val_ty v = t \<and> vin \<Gamma> v) tys vs"

lemma operands_list [simp]:
  "operands \<Gamma> [] vs \<longleftrightarrow> vs = []"
  "operands \<Gamma> (t # tys) vs \<longleftrightarrow> (\<exists>v vs'. vs = v # vs' \<and> val_ty v = t \<and> vin \<Gamma> v \<and> operands \<Gamma> tys vs')"
  by (auto simp: operands_def list_all2_Cons1)

lemma one_operand:
  assumes "operands \<Gamma> tys vs" "length tys = 1"
  obtains v where "vs = [v]" "tys = [val_ty v]" "vin \<Gamma> v"
  using assms by (auto simp: length_Suc_conv)

lemma two_operands:
  assumes "operands \<Gamma> tys vs" "length tys = 2"
  obtains v w where "vs = [v, w]" "tys = [val_ty v, val_ty w]" "vin \<Gamma> v" "vin \<Gamma> w"
  using assms by (auto simp: length_Suc_conv numeral_2_eq_2)

lemma three_operands:
  assumes "operands \<Gamma> tys vs" "length tys = 3"
  obtains u v w where "vs = [u, v, w]" "tys = [val_ty u, val_ty v, val_ty w]" "vin \<Gamma> u" "vin \<Gamma> v" "vin \<Gamma> w"
  using assms by (auto simp: length_Suc_conv numeral_3_eq_3)

text \<open>One result of the inferred type.\<close>

definition builds_one :: "typings \<Rightarrow> lvalue lower \<Rightarrow> tensor_type list \<Rightarrow> bool" where
  "builds_one \<Gamma> m tys \<longleftrightarrow> (\<exists>ty. tys = [ty] \<and> builds \<Gamma> m typing_of (has_ty ty))"

lemma builds_one_iff [simp]: "builds_one \<Gamma> m [ty] \<longleftrightarrow> builds \<Gamma> m typing_of (has_ty ty)"
  by (simp add: builds_one_def)

section \<open>Unary operations\<close>

lemma unary_float_rule_Inr: "unary_float_rule [ty] = Inr tys \<longleftrightarrow> is_float (elem ty) \<and> tys = [ty]"
  by (auto simp: unary_float_rule_def result_simps)

lemma unary_numeric_rule_Inr: "unary_numeric_rule [ty] = Inr tys \<longleftrightarrow> is_numeric (elem ty) \<and> tys = [ty]"
  by (auto simp: unary_numeric_rule_def result_simps)

lemma float_scaled_ok:
  assumes "vin \<Gamma> v" "vin \<Gamma> c" "val_ty c = tensor (elem (val_ty v)) []"
  shows "builds \<Gamma> (binary_value bop v c) typing_of (has_ty (val_ty v))"
    and "builds \<Gamma> (binary_value bop c v) typing_of (has_ty (val_ty v))"
proof -
  have "builds \<Gamma> (binary_value bop v c) typing_of (has_ty (tensor (elem (val_ty v)) (shape (val_ty v))))"
    by (rule binary_value_ok [OF assms(1,2)]) (simp_all add: assms(3))
  then show "builds \<Gamma> (binary_value bop v c) typing_of (has_ty (val_ty v))" by (simp add: value_as_tensor)
  have "builds \<Gamma> (binary_value bop c v) typing_of (has_ty (tensor (elem (val_ty v)) (shape (val_ty v))))"
    by (rule binary_value_ok [OF assms(2,1)]) (simp_all add: assms(3))
  then show "builds \<Gamma> (binary_value bop c v) typing_of (has_ty (val_ty v))" by (simp add: value_as_tensor)
qed

lemma same_value_ok:
  assumes "vin \<Gamma> v" "vin \<Gamma> w" "val_ty w = val_ty v"
  shows "builds \<Gamma> (binary_value bop v w) typing_of (has_ty (val_ty v))"
  using binary_value_ok [OF assms(1,2) refl, of "shape (val_ty v)" bop] assms(3) by (simp add: value_as_tensor)

lemma log_scaled_ok:
  assumes v: "vin \<Gamma> v" and f: "is_float (elem (val_ty v))"
  shows "builds \<Gamma> (sbind (emit_unary ''math.log'' v) (\<lambda>log'.
      sbind (lower_constant text' (elem (val_ty v))) (\<lambda>scale. binary_value Div log' scale))) typing_of (has_ty (val_ty v))"
proof (rule main.ok_bind [OF float_unary_has_ty [OF v refl]])
  fix l
  assume l: "has_ty (val_ty v) l"
  show "builds (\<Gamma> \<union> typing_of l) (sbind (lower_constant text' (elem (val_ty v))) (\<lambda>scale. binary_value Div l scale))
      typing_of (has_ty (val_ty v))"
  proof (rule main.ok_bind [OF lower_constant_ok])
    fix c
    assume c: "is_value (tensor (elem (val_ty v)) []) Scalar c"
    have "val_ty l = val_ty v" using l by (simp add: has_ty_def)
    with float_scaled_ok(1) [OF vin_left [OF vin_has_ty [OF l]] constant_in [OF c]] c
    show "builds (\<Gamma> \<union> typing_of l \<union> typing_of c) (binary_value Div l c) typing_of (has_ty (val_ty v))"
      by (simp add: is_value_simps)
  qed
qed (use f in \<open>simp_all add: float_unary_ops_def\<close>)

lemma exp2_ok:
  assumes v: "vin \<Gamma> v" and f: "is_float (elem (val_ty v))"
  shows "builds \<Gamma> (sbind (lower_constant text' (elem (val_ty v))) (\<lambda>ln2.
      sbind (binary_value Mul v ln2) (\<lambda>scaled. emit_unary ''math.exp'' scaled))) typing_of (has_ty (val_ty v))"
proof (rule main.ok_bind [OF lower_constant_ok])
  fix c
  assume c: "is_value (tensor (elem (val_ty v)) []) Scalar c"
  have "val_ty c = tensor (elem (val_ty v)) []" using c by (simp add: is_value_simps)
  from float_scaled_ok(1) [OF vin_left [OF v] constant_in [OF c] this]
  show "builds (\<Gamma> \<union> typing_of c) (sbind (binary_value Mul v c) (\<lambda>scaled. emit_unary ''math.exp'' scaled)) typing_of
      (has_ty (val_ty v))"
    by (rule main.ok_bind, intro float_unary_has_ty vin_has_ty)
       (use f in \<open>auto simp: has_ty_def float_unary_ops_def\<close>)
qed

lemma abs_ok:
  assumes v: "vin \<Gamma> v"
  shows "builds \<Gamma> (emit_unary (float_or_int (elem (val_ty v)) ''math.absf'' ''math.absi'') v) typing_of (has_ty (val_ty v))"
proof (cases "is_float (elem (val_ty v))")
  case True
  then show ?thesis using float_unary_has_ty [OF v refl] by (simp add: float_or_int_def float_unary_ops_def)
next
  case False
  have "builds \<Gamma> (emit_unary ''math.absi'' v) typing_of (is_value (val_ty v) (val_kind v))"
    by (rule emit_unary_ok [OF v])
       (use False in \<open>cases "val_kind v"; simp add: plain_names op_typings unary_typed_def value_ty_def\<close>)+
  then have "builds \<Gamma> (emit_unary ''math.absi'' v) typing_of (has_ty (val_ty v))"
    by (rule builds_has_ty) (use v in \<open>auto simp: has_ty_def is_value_simps kind_ok_def vin_def\<close>)
  with False show ?thesis by (simp add: float_or_int_def)
qed

lemma reciprocal_ok:
  assumes v: "vin \<Gamma> v"
  shows "builds \<Gamma> (sbind (one_like (val_ty v)) (\<lambda>one'. binary_value Div one' v)) typing_of (has_ty (val_ty v))"
proof (rule main.ok_bind [OF one_like_ok])
  fix w
  assume w: "has_ty (val_ty v) w"
  with same_value_ok [OF vin_has_ty [OF w] vin_left [OF v]]
  show "builds (\<Gamma> \<union> typing_of w) (binary_value Div w v) typing_of (has_ty (val_ty v))" by (simp add: has_ty_def)
qed

lemma relu_ok:
  assumes v: "vin \<Gamma> v" and f: "is_float (elem (val_ty v))"
  shows "builds \<Gamma> (sbind (zero_like (val_ty v)) (\<lambda>zero. emit_binary ''arith.maximumf'' zero v)) typing_of (has_ty (val_ty v))"
proof (rule main.ok_bind [OF zero_like_ok])
  fix w
  assume w: "has_ty (val_ty v) w"
  show "builds (\<Gamma> \<union> typing_of w) (emit_binary ''arith.maximumf'' w v) typing_of (has_ty (val_ty v))"
    by (rule same_type_ok [OF vin_has_ty [OF w] vin_left [OF v]])
       (use w f in \<open>simp_all add: has_ty_def float_binary_ops_def\<close>)
qed

section \<open>Reshapes and clips\<close>

lemma clip_shapes:
  assumes "broadcast_shape_slices a l = Inr al" "broadcast_shape_slices al h = Inr r"
  obtains ah where "broadcast_shape_slices a h = Inr ah" "broadcast_shape_slices ah l = Inr r"
proof -
  have "broadcast_shape_slices l a = Inr al" using assms(1) by (simp add: broadcast_commute)
  from bc.assoc [OF this assms(2)] obtain ah
    where "broadcast_shape_slices a h = Inr ah" "broadcast_shape_slices l ah = Inr r" by blast
  with that show ?thesis using broadcast_commute by blast
qed

lemma clip_ok:
  assumes v: "vin \<Gamma> a" "vin \<Gamma> l" "vin \<Gamma> h" and ty: "clip_rule [val_ty a, val_ty l, val_ty h] = Inr tys"
  shows "builds_one \<Gamma> (sbind (lower_minimum a h) (\<lambda>clipped_high. lower_maximum clipped_high l)) tys"
proof -
  from ty obtain al ty where 1: "binary_result_type (val_ty a) (val_ty l) = Inr al"
      "binary_result_type al (val_ty h) = Inr ty" "tys = [ty]"
    unfolding clip_rule_def single_def by (simp add: result_simps) blast
  note b = 1(1,2) [unfolded binary_result_Inr]
  have e: "elem (val_ty l) = elem (val_ty a)" "elem (val_ty h) = elem (val_ty a)" "elem ty = elem (val_ty a)"
    and s: "broadcast_shape_slices (shape (val_ty a)) (shape (val_ty l)) = Inr (shape al)"
      "broadcast_shape_slices (shape al) (shape (val_ty h)) = Inr (shape ty)"
    using b by simp_all
  have t: "tensor (elem (val_ty a)) (shape ty) = ty" using value_as_tensor [of ty] e(3) by simp
  obtain ah where ah: "broadcast_shape_slices (shape (val_ty a)) (shape (val_ty h)) = Inr ah"
      "broadcast_shape_slices ah (shape (val_ty l)) = Inr (shape ty)" by (rule clip_shapes [OF s])
  have "builds \<Gamma> (sbind (lower_minimum a h) (\<lambda>clipped_high. lower_maximum clipped_high l)) typing_of
      (has_ty (tensor (elem (val_ty a)) (shape ty)))"
  proof (rule main.ok_bind [OF lower_minimum_ok [OF v(1,3) refl e(2) ah(1)]])
    fix w
    assume w: "has_ty (tensor (elem (val_ty a)) ah) w"
    show "builds (\<Gamma> \<union> typing_of w) (lower_maximum w l) typing_of (has_ty (tensor (elem (val_ty a)) (shape ty)))"
      by (rule lower_maximum_ok [OF vin_has_ty [OF w] vin_left [OF v(2)]]) (use w e ah in \<open>simp_all add: has_ty_def\<close>)
  qed
  then show ?thesis using 1(3) t by simp
qed

section \<open>The dispatch\<close>

definition static_call :: "call_op \<Rightarrow> bool" where
  "static_call op \<longleftrightarrow>
     (case op of
        OpArange t \<Rightarrow> True | OpLinspace t \<Rightarrow> True | OpEye t \<Rightarrow> True
      | OpStaticRandomUniform t seed \<Rightarrow> True | OpStaticRandomInt t seed \<Rightarrow> True
      | _ \<Rightarrow> False)"

definition several_results :: "call_op \<Rightarrow> bool" where
  "several_results op \<longleftrightarrow>
     (case op of OpSplit axis sections \<Rightarrow> True | OpRandomUniform t \<Rightarrow> True | OpRandomInt t \<Rightarrow> True | _ \<Rightarrow> False)"

lemma call_arity_operands:
  "infer_call_results op tys = Inr res \<Longrightarrow> \<not> static_call op \<Longrightarrow> length tys = call_arity op"
  by (cases op) (auto simp: rule_groups result_simps static_call_def)

lemma static_call_ok:
  assumes "validate_static_creation_call F op args = Inr ()" "infer_call_results op tys = Inr res" "static_call op"
  shows "builds_one \<Gamma> (apply_call F args vs op) res"
proof (cases op)
  case (OpArange t)
  with assms obtain lits where "static_arange_literals F t args = Inr lits" "res = [t]"
    by (auto simp: validate_static_creation_call_def discard_def result_simps)
  with OpArange show ?thesis by (auto intro!: dense_constant_ok dest: static_arange_length)
next
  case (OpLinspace t)
  with assms obtain lits where "static_linspace_literals F t args = Inr lits" "res = [t]"
    by (auto simp: validate_static_creation_call_def discard_def result_simps)
  with OpLinspace show ?thesis by (auto intro!: dense_constant_ok dest: static_linspace_length)
next
  case (OpEye t)
  with assms obtain lits where "static_eye_literals t = Inr lits" "res = [t]"
    by (auto simp: validate_static_creation_call_def discard_def result_simps)
  with OpEye show ?thesis by (auto intro!: dense_constant_ok dest: static_eye_length)
next
  case (OpStaticRandomUniform t seed)
  with assms obtain lits where "static_random_uniform_literals F t seed args = Inr lits" "res = [t]"
    by (auto simp: validate_static_creation_call_def discard_def result_simps static_random_rule_def)
  with OpStaticRandomUniform show ?thesis by (auto intro!: dense_constant_ok dest: static_random_uniform_length)
next
  case (OpStaticRandomInt t seed)
  with assms obtain lits where "static_random_int_literals F t seed args = Inr lits" "res = [t]"
    by (auto simp: validate_static_creation_call_def discard_def result_simps static_random_rule_def)
  with OpStaticRandomInt show ?thesis by (auto intro!: dense_constant_ok dest: static_random_int_length)
qed (use assms(3) in \<open>simp_all add: static_call_def\<close>)

lemma unary_call_ok:
  assumes v: "vin \<Gamma> v" and ty: "infer_call_results op [val_ty v] = Inr res" and low: "lowerable_call op [val_ty v]"
    and op: "call_arity op = 1" "\<not> several_results op"
  shows "builds_one \<Gamma> (apply_call F args [v] op) res"
proof (cases op)
  case OpCeil
  then show ?thesis using ty float_unary_has_ty [OF v refl]
    by (auto simp: unary_float_rule_Inr float_unary_ops_def)
next
  case OpCos
  then show ?thesis using ty float_unary_has_ty [OF v refl]
    by (auto simp: unary_float_rule_Inr float_unary_ops_def)
next
  case OpExp
  then show ?thesis using ty float_unary_has_ty [OF v refl]
    by (auto simp: unary_float_rule_Inr float_unary_ops_def)
next
  case OpExpM1
  then show ?thesis using ty float_unary_has_ty [OF v refl]
    by (auto simp: unary_float_rule_Inr float_unary_ops_def)
next
  case OpFloor
  then show ?thesis using ty float_unary_has_ty [OF v refl]
    by (auto simp: unary_float_rule_Inr float_unary_ops_def)
next
  case OpLog
  then show ?thesis using ty float_unary_has_ty [OF v refl]
    by (auto simp: unary_float_rule_Inr float_unary_ops_def)
next
  case OpLog1P
  then show ?thesis using ty float_unary_has_ty [OF v refl]
    by (auto simp: unary_float_rule_Inr float_unary_ops_def)
next
  case OpRint
  then show ?thesis using ty float_unary_has_ty [OF v refl]
    by (auto simp: unary_float_rule_Inr float_unary_ops_def)
next
  case OpRound
  then show ?thesis using ty float_unary_has_ty [OF v refl]
    by (auto simp: unary_float_rule_Inr float_unary_ops_def)
next
  case OpSin
  then show ?thesis using ty float_unary_has_ty [OF v refl]
    by (auto simp: unary_float_rule_Inr float_unary_ops_def)
next
  case OpSqrt
  then show ?thesis using ty float_unary_has_ty [OF v refl]
    by (auto simp: unary_float_rule_Inr float_unary_ops_def)
next
  case OpTan
  then show ?thesis using ty float_unary_has_ty [OF v refl]
    by (auto simp: unary_float_rule_Inr float_unary_ops_def)
next
  case OpTanh
  then show ?thesis using ty float_unary_has_ty [OF v refl]
    by (auto simp: unary_float_rule_Inr float_unary_ops_def)
next
  case OpExp2
  with ty show ?thesis by (auto simp: unary_float_rule_Inr result_simps intro: exp2_ok [OF v])
next
  case OpLog2
  with ty show ?thesis by (auto simp: unary_float_rule_Inr result_simps intro: log_scaled_ok [OF v])
next
  case OpLog10
  with ty show ?thesis by (auto simp: unary_float_rule_Inr result_simps intro: log_scaled_ok [OF v])
next
  case OpRelu
  with ty show ?thesis by (auto simp: unary_float_rule_Inr result_simps intro: relu_ok [OF v])
next
  case OpSigmoid
  with ty show ?thesis by (auto simp: unary_float_rule_Inr result_simps intro: lower_sigmoid_ok [OF v])
next
  case OpIsNan
  with ty show ?thesis by (auto simp: isnan_rule_def result_simps intro: lower_isnan_ok [OF v])
next
  case OpAbs
  with ty show ?thesis by (auto simp: unary_numeric_rule_Inr result_simps intro: abs_ok [OF v])
next
  case OpReciprocal
  with ty show ?thesis by (auto simp: unary_numeric_rule_Inr result_simps intro: reciprocal_ok [OF v])
next
  case OpSquare
  with ty show ?thesis by (auto simp: unary_numeric_rule_Inr result_simps intro: same_value_ok [OF v v refl])
next
  case OpDetach
  with ty show ?thesis by (auto simp: unary_rule_def single_def result_simps intro: return_has_ty [OF v])
next
  case OpOnesLike
  with ty show ?thesis by (auto simp: unary_rule_def single_def result_simps intro: one_like_ok)
next
  case OpZerosLike
  with ty show ?thesis by (auto simp: unary_rule_def single_def result_simps intro: zero_like_ok)
next
  case (OpAll axis)
  with ty show ?thesis
    by (auto simp: bool_reduction_rule_def single_def result_simps intro: lower_all_any_ok(1) [OF v]
        simp del: expect_non_empty_reduction.simps)
next
  case (OpAny axis)
  with ty show ?thesis
    by (auto simp: bool_reduction_rule_def single_def result_simps intro: lower_all_any_ok(2) [OF v]
        simp del: expect_non_empty_reduction.simps)
next
  case (OpMax axis)
  with ty show ?thesis
    by (auto simp: extremum_rule_def single_def result_simps intro: extremum_ok(2) [OF v]
        simp del: expect_non_empty_reduction.simps)
next
  case (OpMin axis)
  with ty show ?thesis
    by (auto simp: extremum_rule_def single_def result_simps intro: extremum_ok(3) [OF v]
        simp del: expect_non_empty_reduction.simps)
next
  case (OpSum axis)
  with ty show ?thesis
    by (auto simp: numeric_reduction_rule_def single_def result_simps intro: lower_sum_ok [OF v]
        simp del: expect_non_empty_reduction.simps)
next
  case (OpProd axis)
  with ty show ?thesis
    by (auto simp: numeric_reduction_rule_def single_def result_simps intro: lower_prod_ok [OF v]
        simp del: expect_non_empty_reduction.simps)
next
  case (OpPtp axis)
  with ty show ?thesis
    by (auto simp: ptp_rule_def single_def result_simps intro: lower_ptp_ok [OF v]
        simp del: expect_non_empty_reduction.simps)
next
  case (OpMean axis)
  with ty show ?thesis
    by (auto simp: float_reduction_rule_def single_def result_simps intro: lower_mean_ok [OF v]
        simp del: expect_non_empty_reduction.simps)
next
  case (OpVar axis)
  with ty show ?thesis
    by (auto simp: float_reduction_rule_def single_def result_simps intro: lower_var_ok [OF v]
        simp del: expect_non_empty_reduction.simps)
next
  case (OpStd axis)
  with ty show ?thesis
    by (auto simp: float_reduction_rule_def single_def result_simps intro: lower_std_ok [OF v]
        simp del: expect_non_empty_reduction.simps)
next
  case (OpSoftmax axis)
  with ty show ?thesis
    by (auto simp: softmax_rule_def single_def result_simps intro: lower_softmax_ok [OF v]
        simp del: expect_non_empty_reduction.simps)
next
  case (OpArgmax axis)
  with ty have r: "arg_reduction_rule axis [val_ty v] = Inr res" by simp
  then obtain ty where "res = [ty]" by (auto simp: arg_reduction_rule_def result_simps)
  with r OpArgmax lower_argmax_argmin_ok(1) [OF v] show ?thesis by simp
next
  case (OpArgmin axis)
  with ty have r: "arg_reduction_rule axis [val_ty v] = Inr res" by simp
  then obtain ty where "res = [ty]" by (auto simp: arg_reduction_rule_def result_simps)
  with r OpArgmin lower_argmax_argmin_ok(2) [OF v] show ?thesis by simp
next
  case OpLogicalNot
  with ty have "elem (val_ty v) = Bool" "res = [tensor Bool (shape (val_ty v))]"
    by (auto simp: result_simps)
  with OpLogicalNot logical_not_ok [OF v] show ?thesis by simp
next
  case (OpDiagonal axes)
  with ty show ?thesis by (auto simp: unary_rule_def single_def result_simps intro: builds_tensor [OF lower_diagonal_ok [OF v]])
next
  case (OpTrace axes)
  with ty show ?thesis by (auto simp: unary_rule_def single_def result_simps intro: builds_tensor [OF lower_trace_ok [OF v]])
next
  case (OpMaxPool2d options)
  with ty show ?thesis by (auto simp: unary_rule_def single_def result_simps intro: builds_tensor [OF lower_max_pool2d_ok [OF v]])
next
  case (OpAvgPool2d options)
  with ty show ?thesis by (auto simp: unary_rule_def single_def result_simps intro: builds_tensor [OF lower_avg_pool2d_ok [OF v]])
next
  case (OpFlip axes)
  with ty show ?thesis by (auto simp:  result_simps intro: lower_flip_ok [OF v])
next
  case (OpMoveAxis source destination)
  with ty show ?thesis by (auto simp: unary_rule_def single_def result_simps intro: lower_moveaxis_ok [OF v])
next
  case (OpPad target lows)
  with ty show ?thesis by (auto simp: target_rule_def result_simps intro: lower_pad_ok [OF v])
next
  case (OpPermute target axes)
  with ty have "elem target = elem (val_ty v)" "is_permutation (rank (val_ty v)) axes"
      "shape target = map (\<lambda>i. shape (val_ty v) ! i) axes" "res = [target]"
    by (auto simp: target_rule_def validate_permute_def scan_axes_ok is_permutation_def result_simps)
  with OpPermute lower_permute_ok [OF v] show ?thesis by simp
next
  case (OpPermuteDims axes)
  with ty have "is_permutation (rank (val_ty v)) axes"
      "res = [tensor (elem (val_ty v)) (map (\<lambda>i. shape (val_ty v) ! i) axes)]"
    by (auto simp: unary_rule_def single_def permute_dims_result_type_def validate_axis_permutation_def scan_axes_ok
        is_permutation_def result_simps)
  with OpPermuteDims lower_permute_dims_ok [OF v] show ?thesis by simp
next
  case (OpRepeat axis count)
  with ty show ?thesis by (auto simp: unary_rule_def single_def result_simps intro: lower_repeat_ok [OF v])
next
  case (OpReshape target)
  with ty show ?thesis by (auto simp: target_rule_def validate_reshape_def result_simps intro: lower_reshape_ok [OF v])
next
  case (OpSqueeze target)
  with ty have "validate_squeeze (val_ty v) target = Inr ()" "res = [target]"
    by (auto simp: target_rule_def result_simps)
  with OpSqueeze squeeze_count lower_reshape_ok [OF v] show ?thesis by (simp add: element_count_def)
next
  case (OpUnsqueeze target)
  with ty have "validate_unsqueeze (val_ty v) target = Inr ()" "res = [target]"
    by (auto simp: target_rule_def result_simps)
  with OpUnsqueeze unsqueeze_count lower_reshape_ok [OF v] show ?thesis by (simp add: element_count_def)
next
  case (OpRoll axis shift)
  with ty have "axis < rank (val_ty v)" "res = [val_ty v]" by (auto simp: result_simps guard_defs)
  with OpRoll lower_roll_ok [OF v] show ?thesis by simp
next
  case (OpBroadcast target)
  with ty low have "fills (val_ty v) target" "res = [target]"
    by (auto simp: target_rule_def validate_broadcast_def lowerable_call_def fills_def result_simps)
  with OpBroadcast builds_tensor [OF lower_broadcast_ok [OF v]] show ?thesis by simp
next
  case (OpSlice target starts)
  with ty low have "elem (val_ty v) = elem target" "length starts = rank (val_ty v)" "rank target = rank (val_ty v)"
      "slice_dims_ok starts (shape target) (shape (val_ty v))" "res = [target]" "rank (val_ty v) \<noteq> 0"
    by (auto simp: target_rule_def validate_slice_def lowerable_call_def result_simps)
  with OpSlice builds_tensor [OF lower_slice_ok [OF v]] tensor_kind [OF v] show ?thesis
    by (simp add: slice_dims_ok_iff rank_def)
next
  case (OpSwapAxes axis0 axis1)
  with ty show ?thesis by (auto simp: unary_rule_def single_def result_simps intro: lower_swapaxes_ok [OF v])
next
  case (OpTake axis index)
  with ty show ?thesis by (auto simp: unary_rule_def single_def result_simps intro: lower_take_ok [OF v])
next
  case (OpTile multiples)
  with ty show ?thesis by (auto simp: unary_rule_def single_def result_simps intro: lower_tile_ok [OF v])
next
  case (OpTranspose axes)
  with ty show ?thesis by (auto simp: unary_rule_def single_def result_simps intro: lower_transpose_ok [OF v])
qed (use op ty in \<open>simp_all add: several_results_def\<close>)

lemma binary_call_ok:
  assumes v: "vin \<Gamma> v" "vin \<Gamma> w" and ty: "infer_call_results op [val_ty v, val_ty w] = Inr res"
    and low: "lowerable_call op [val_ty v, val_ty w]" and op: "call_arity op = 2" "\<not> static_call op"
  shows "builds_one \<Gamma> (apply_call F args [v, w] op) res"
proof (cases op)
  case OpGreater
  with ty obtain t where t: "predicate_result_type (val_ty v) (val_ty w) = Inr t" "res = [t]"
    by (auto simp: binary_rule_def single_def comparison_result_type_def equality_result_type_def result_simps)
  with OpGreater lower_comparison_ok [OF v, of "shape t" "''ogt''" "''sgt''"] show ?thesis
    by (cases t) (simp add: predicate_result_Inr)
next
  case OpGreaterEqual
  with ty obtain t where t: "predicate_result_type (val_ty v) (val_ty w) = Inr t" "res = [t]"
    by (auto simp: binary_rule_def single_def comparison_result_type_def equality_result_type_def result_simps)
  with OpGreaterEqual lower_comparison_ok [OF v, of "shape t" "''oge''" "''sge''"] show ?thesis
    by (cases t) (simp add: predicate_result_Inr)
next
  case OpLess
  with ty obtain t where t: "predicate_result_type (val_ty v) (val_ty w) = Inr t" "res = [t]"
    by (auto simp: binary_rule_def single_def comparison_result_type_def equality_result_type_def result_simps)
  with OpLess lower_comparison_ok [OF v, of "shape t" "''olt''" "''slt''"] show ?thesis
    by (cases t) (simp add: predicate_result_Inr)
next
  case OpLessEqual
  with ty obtain t where t: "predicate_result_type (val_ty v) (val_ty w) = Inr t" "res = [t]"
    by (auto simp: binary_rule_def single_def comparison_result_type_def equality_result_type_def result_simps)
  with OpLessEqual lower_comparison_ok [OF v, of "shape t" "''ole''" "''sle''"] show ?thesis
    by (cases t) (simp add: predicate_result_Inr)
next
  case OpEqual
  with ty obtain t where t: "predicate_result_type (val_ty v) (val_ty w) = Inr t" "res = [t]"
    by (auto simp: binary_rule_def single_def comparison_result_type_def equality_result_type_def result_simps)
  with OpEqual lower_comparison_ok [OF v, of "shape t" "''oeq''" "''eq''"] show ?thesis
    by (cases t) (simp add: predicate_result_Inr)
next
  case OpNotEqual
  with ty obtain t where t: "predicate_result_type (val_ty v) (val_ty w) = Inr t" "res = [t]"
    by (auto simp: binary_rule_def single_def comparison_result_type_def equality_result_type_def result_simps)
  with OpNotEqual lower_comparison_ok [OF v, of "shape t" "''une''" "''ne''"] show ?thesis
    by (cases t) (simp add: predicate_result_Inr)
next
  case OpLogicalAnd
  with ty obtain t where t: "logical_result_type (val_ty v) (val_ty w) = Inr t" "res = [t]"
    by (auto simp: binary_rule_def single_def result_simps)
  with OpLogicalAnd logical_binary_ok [OF v, of "shape t" "''arith.andi''"] show ?thesis
    by (cases t) (simp add: logical_result_Inr int_binary_ops_def)
next
  case OpLogicalOr
  with ty obtain t where t: "logical_result_type (val_ty v) (val_ty w) = Inr t" "res = [t]"
    by (auto simp: binary_rule_def single_def result_simps)
  with OpLogicalOr logical_binary_ok [OF v, of "shape t" "''arith.ori''"] show ?thesis
    by (cases t) (simp add: logical_result_Inr int_binary_ops_def)
next
  case OpLogicalXor
  with ty obtain t where t: "logical_result_type (val_ty v) (val_ty w) = Inr t" "res = [t]"
    by (auto simp: binary_rule_def single_def result_simps)
  with OpLogicalXor logical_binary_ok [OF v, of "shape t" "''arith.xori''"] show ?thesis
    by (cases t) (simp add: logical_result_Inr int_binary_ops_def)
next
  case OpMinimum
  with ty obtain t where t: "binary_result_type (val_ty v) (val_ty w) = Inr t" "res = [t]"
    by (auto simp: minimum_maximum_rule_def single_def result_simps)
  with OpMinimum lower_minimum_ok [OF v refl, of "shape t"] show ?thesis
    by (cases t) (simp add: binary_result_Inr)
next
  case OpMaximum
  with ty obtain t where t: "binary_result_type (val_ty v) (val_ty w) = Inr t" "res = [t]"
    by (auto simp: minimum_maximum_rule_def single_def result_simps)
  with OpMaximum lower_maximum_ok [OF v refl, of "shape t"] show ?thesis
    by (cases t) (simp add: binary_result_Inr)
next
  case OpPow
  with ty obtain t where t: "binary_result_type (val_ty v) (val_ty w) = Inr t" "res = [t]" "is_float (elem (val_ty v))"
    by (auto simp: pow_rule_def single_def result_simps)
  with OpPow emit_binary_ok [OF v refl, of "shape t" "''math.powf''"] show ?thesis
    by (cases t) (simp add: binary_result_Inr float_binary_ops_def)
next
  case OpFullLike
  with ty have "rank (val_ty w) = 0" "elem (val_ty w) = elem (val_ty v)" "res = [val_ty v]"
    by (auto simp: full_like_rule_def result_simps)
  with OpFullLike builds_tensor [OF splat_ok [OF v(2)]] rank_0_count show ?thesis by simp
next
  case (OpStack axis)
  with ty low obtain t where "stack_result_type (val_ty v) (val_ty w) axis = Inr t" "res = [t]" "rank (val_ty v) \<noteq> 0"
    by (auto simp: binary_rule_def single_def lowerable_call_def result_simps)
  with OpStack builds_tensor [OF lower_stack_ok [OF v]] show ?thesis by simp
next
  case (OpConcat axis)
  with ty show ?thesis by (auto simp: binary_rule_def single_def result_simps intro: builds_tensor [OF lower_concat_ok [OF v]])
next
  case (OpConv2d options)
  with ty show ?thesis by (auto simp: binary_rule_def single_def result_simps intro: builds_tensor [OF lower_conv2d_ok [OF v]])
next
  case OpDot
  with ty show ?thesis by (auto simp: binary_rule_def single_def result_simps intro: lower_dot_ok [OF v])
next
  case OpInner
  with ty show ?thesis by (auto simp: binary_rule_def single_def result_simps intro: lower_inner_ok [OF v])
next
  case OpMatmul
  with ty show ?thesis by (auto simp: binary_rule_def single_def result_simps intro: builds_tensor [OF lower_matmul_ok [OF v]])
next
  case OpOuter
  with ty show ?thesis by (auto simp: binary_rule_def single_def result_simps intro: builds_tensor [OF lower_outer_ok [OF v]])
next
  case (OpVecdot axis)
  with ty show ?thesis by (auto simp: binary_rule_def single_def result_simps intro: builds_tensor [OF lower_vecdot_ok [OF v]])
next
  case (OpGather target axis)
  with ty show ?thesis by (auto simp: binary_rule_def single_def result_simps intro: builds_tensor [OF lower_gather_ok [OF v]])
next
  case (OpTakeAlongAxis axis)
  with ty show ?thesis by (auto simp: binary_rule_def single_def result_simps intro: builds_tensor [OF lower_take_along_axis_ok [OF v]])
qed (use op in \<open>simp_all add: static_call_def\<close>)

lemma ternary_call_ok:
  assumes v: "vin \<Gamma> u" "vin \<Gamma> v" "vin \<Gamma> w" and ty: "infer_call_results op [val_ty u, val_ty v, val_ty w] = Inr res"
    and op: "call_arity op = 3" "\<not> several_results op"
  shows "builds_one \<Gamma> (apply_call F args [u, v, w] op) res"
proof (cases op)
  case OpClip
  with ty clip_ok [OF v] show ?thesis by simp
next
  case OpWhere
  with ty obtain t where t: "where_result_type (val_ty u) (val_ty v) (val_ty w) = Inr t" "res = [t]"
    by (auto simp: single_def result_simps)
  with OpWhere where_select_ok [OF v] show ?thesis by (cases t) (auto simp: where_result_Inr)
qed (use op in \<open>simp_all add: several_results_def\<close>)

lemma no_nullary: "call_arity op = 0 \<Longrightarrow> graph_callee op = None \<Longrightarrow> static_call op"
  by (cases op) (simp_all add: static_call_def)

lemma call_arity_small: "call_arity op = 0 \<or> call_arity op = 1 \<or> call_arity op = 2 \<or> call_arity op = 3"
  by (cases op) simp_all

lemma apply_call_ok:
  assumes vs: "operands \<Gamma> (take (call_arity op) tys) vs" and ty: "infer_call_results op tys = Inr res"
    and static: "validate_static_creation_call F op args = Inr ()" and low: "lowerable_call op tys"
    and op: "graph_callee op = None" "\<not> several_results op"
  shows "builds_one \<Gamma> (apply_call F args vs op) res"
proof (cases "static_call op")
  case True
  then have "call_arity op = 0" by (cases op) (simp_all add: static_call_def)
  with True static_call_ok [OF static ty True] vs show ?thesis by simp
next
  case False
  have n: "length tys = call_arity op" by (rule call_arity_operands [OF ty False])
  with vs have os: "operands \<Gamma> tys vs" by simp
  from call_arity_small [of op] show ?thesis
  proof (elim disjE)
    assume "call_arity op = 0"
    with no_nullary False op show ?thesis by blast
  next
    assume 1: "call_arity op = 1"
    with os n obtain v where "vs = [v]" "tys = [val_ty v]" "vin \<Gamma> v" by (metis one_operand)
    with unary_call_ok [OF _ _ _ 1 op(2)] ty low show ?thesis by simp
  next
    assume 2: "call_arity op = 2"
    with os n obtain v w where "vs = [v, w]" "tys = [val_ty v, val_ty w]" "vin \<Gamma> v" "vin \<Gamma> w" by (metis two_operands)
    with binary_call_ok [OF _ _ _ _ 2 False] ty low show ?thesis by simp
  next
    assume 3: "call_arity op = 3"
    with os n obtain u v w where "vs = [u, v, w]" "tys = [val_ty u, val_ty v, val_ty w]" "vin \<Gamma> u" "vin \<Gamma> v" "vin \<Gamma> w"
      by (metis three_operands)
    with ternary_call_ok [OF _ _ _ _ 3 op(2)] ty low show ?thesis by simp
  qed
qed

lemma one_value_ok:
  assumes "builds_one \<Gamma> m tys"
  shows "builds \<Gamma> (sbind m (\<lambda>v. sreturn [v])) typings_of (\<lambda>vs. list_all2 has_ty tys vs)"
proof -
  from assms obtain ty where t: "tys = [ty]" and m: "builds \<Gamma> m typing_of (has_ty ty)" by (auto simp: builds_one_def)
  show ?thesis unfolding t by (rule main.ok_bind [OF m]) (auto simp: typings_of_def intro!: main.ok_return)
qed

lemma apply_call_values_ok:
  assumes vs: "operands \<Gamma> (take (call_arity op) tys) vs" and ty: "infer_call_results op tys = Inr res"
    and static: "validate_static_creation_call F op args = Inr ()" and low: "lowerable_call op tys"
    and op: "graph_callee op = None"
  shows "builds \<Gamma> (apply_call_values F args vs op) typings_of (\<lambda>vs. list_all2 has_ty res vs)"
proof (cases "several_results op")
  case False
  then have "apply_call_values F args vs op = sbind (apply_call F args vs op) (\<lambda>v. sreturn [v])"
    by (cases op) (simp_all add: apply_call_values_def several_results_def)
  with one_value_ok [OF apply_call_ok [OF assms False]] show ?thesis by simp
next
  case True
  then have "\<not> static_call op" by (cases op) (simp_all add: static_call_def several_results_def)
  then have n: "length tys = call_arity op" by (rule call_arity_operands [OF ty])
  with vs have os: "operands \<Gamma> tys vs" by simp
  show ?thesis
  proof (cases op)
    case (OpSplit axis sections)
    with os n obtain v where "vs = [v]" "tys = [val_ty v]" "vin \<Gamma> v" by (metis one_operand call_arity.simps)
    with OpSplit lower_split_ok [of \<Gamma> v axis sections res] ty show ?thesis
      by (auto simp: apply_call_values_def typings_of_def [abs_def] result_simps)
  next
    case (OpRandomUniform t)
    with os n obtain u v w where "vs = [u, v, w]" "tys = [val_ty u, val_ty v, val_ty w]" "vin \<Gamma> u" "vin \<Gamma> v" "vin \<Gamma> w"
      by (metis three_operands call_arity.simps)
    with OpRandomUniform lower_random_uniform_ok [of \<Gamma> u v w t res] ty show ?thesis
      by (simp add: apply_call_values_def del: infer_call_results.simps)
  next
    case (OpRandomInt t)
    with os n obtain u v w where "vs = [u, v, w]" "tys = [val_ty u, val_ty v, val_ty w]" "vin \<Gamma> u" "vin \<Gamma> v" "vin \<Gamma> w"
      by (metis three_operands call_arity.simps)
    with OpRandomInt lower_random_int_ok [of \<Gamma> u v w t res] ty show ?thesis
      by (simp add: apply_call_values_def del: infer_call_results.simps)
  qed (use True in \<open>simp_all add: several_results_def\<close>)
qed

end
