(* ===== verification/Lower_Expr_Spec.thy ===== *)
theory Lower_Expr_Spec
  imports Lower_Calls
begin

text \<open>
  Expressions and inlined graphs: in a good scope a typed expression is lowered to values of its types.
\<close>

text \<open>
  The state of the lowerer between expressions: every name of the environment, cached node and cached
  tuple of the current scope stands for values of its type, and the scopes above it are unused.
\<close>

section \<open>Well-formed states\<close>

definition live :: "lowerer \<Rightarrow> tensor_type \<Rightarrow> lvalue \<Rightarrow> bool" where
  "live s ty v \<longleftrightarrow> has_ty ty v \<and> typings_hold (main_ty s) (typing_of v)"

definition bindings_live :: "type_env \<Rightarrow> lowerer \<Rightarrow> bool" where
  "bindings_live E s \<longleftrightarrow>
     (\<forall>name ty. env_lookup E name = Some ty \<longrightarrow> (\<exists>v. bound_values s name = Some v \<and> live s ty v))"

abbreviation scope_of :: "lowerer \<Rightarrow> nat" where
  "scope_of s \<equiv> last (tuple_scope_stack s)"

definition nodes_live :: "'f checker \<Rightarrow> type_env \<Rightarrow> (nat \<times> expr) set \<Rightarrow> lowerer \<Rightarrow> bool" where
  "nodes_live C E N s \<longleftrightarrow>
     (\<forall>k v. node_values s (scope_of s, k) = Some v \<longrightarrow>
        (\<exists>e. (k, e) \<in> N \<and> has_types C E e [val_ty v] \<and> live s (val_ty v) v))"

definition tuples_live :: "'f checker \<Rightarrow> type_env \<Rightarrow> (nat \<times> expr) set \<Rightarrow> lowerer \<Rightarrow> bool" where
  "tuples_live C E U s \<longleftrightarrow>
     (\<forall>k vs. tuple_values s (scope_of s, k) = Some vs \<longrightarrow>
        (\<exists>e tys. (k, e) \<in> U \<and> has_types C E e tys \<and> list_all2 (live s) tys vs))"

definition scopes_good :: "lowerer \<Rightarrow> bool" where
  "scopes_good s \<longleftrightarrow>
     tuple_scope_stack s \<noteq> [] \<and> scope_of s < next_tuple_scope s \<and>
     (\<forall>k i. next_tuple_scope s \<le> k \<longrightarrow> node_values s (k, i) = None \<and> tuple_values s (k, i) = None)"

text \<open>The calls that may still be entered: the graphs that are not being inlined already.\<close>

definition depth_left :: "nat \<Rightarrow> lowerer \<Rightarrow> bool" where
  "depth_left d s \<longleftrightarrow> finite (dom (graphs_of s)) \<and> card (dom (graphs_of s) - set (call_stack s)) \<le> d"

definition scope_good ::
    "(string \<Rightarrow> typed_graph option) \<Rightarrow> nat \<Rightarrow> 'f checker \<Rightarrow> type_env \<Rightarrow> (nat \<times> expr) set \<Rightarrow> (nat \<times> expr) set
      \<Rightarrow> lowerer \<Rightarrow> bool" where
  "scope_good R d C E N U s \<longleftrightarrow>
     main_good s \<and> graphs_of s = R \<and> depth_left d s \<and> scopes_good s \<and> bindings_live E s \<and>
     nodes_live C E N s \<and> tuples_live C E U s"

text \<open>What an expression leaves alone: the scopes, the bindings, and the caches of every other scope.\<close>

definition other_scopes_kept :: "lowerer \<Rightarrow> lowerer \<Rightarrow> bool" where
  "other_scopes_kept s s' \<longleftrightarrow>
     (\<forall>k i. k \<noteq> scope_of s \<longrightarrow>
        node_values s' (k, i) = node_values s (k, i) \<and> tuple_values s' (k, i) = tuple_values s (k, i))"

definition scope_kept :: "lowerer \<Rightarrow> lowerer \<Rightarrow> bool" where
  "scope_kept s s' \<longleftrightarrow>
     context_of s' = context_of s \<and> graphs_of s' = graphs_of s \<and> call_stack s' = call_stack s \<and>
     tuple_scope_stack s' = tuple_scope_stack s \<and> next_tuple_scope s \<le> next_tuple_scope s' \<and>
     same_args (main_block s) (main_block s') \<and> other_scopes_kept s s'"

definition frame :: "lowerer \<Rightarrow> lowerer \<Rightarrow> bool" where
  "frame s s' \<longleftrightarrow> scope_kept s s' \<and> bound_values s' = bound_values s"

lemma scope_kept_refl: "scope_kept s s"
  by (simp add: scope_kept_def other_scopes_kept_def same_args_def)

lemma scope_kept_trans: "scope_kept s s' \<Longrightarrow> scope_kept s' s'' \<Longrightarrow> scope_kept s s''"
  by (auto simp: scope_kept_def other_scopes_kept_def same_args_def)

interpretation scope: ssa_state "scope_good R d C E N U" main_ty frame for R d C E N U
proof unfold_locales
  show "frame s s" for s by (simp add: frame_def scope_kept_refl)
  show "frame s s''" if "frame s s'" "frame s' s''" for s s' s''
    using that scope_kept_trans [of s s' s''] by (simp add: frame_def)
qed

abbreviation scope_builds ::
    "(string \<Rightarrow> typed_graph option) \<Rightarrow> nat \<Rightarrow> 'f checker \<Rightarrow> type_env \<Rightarrow> (nat \<times> expr) set \<Rightarrow> (nat \<times> expr) set
      \<Rightarrow> typings \<Rightarrow> 'a lower \<Rightarrow> ('a \<Rightarrow> typings) \<Rightarrow> ('a \<Rightarrow> bool) \<Rightarrow> bool" where
  "scope_builds R d C E N U \<equiv> step_ok (scope_good R d C E N U) main_ty frame"

lemma live_mono: "live s ty v \<Longrightarrow> main_ty s \<subseteq>\<^sub>m main_ty s' \<Longrightarrow> live s' ty v"
  by (auto simp: live_def intro: typed_mono)

lemma lives_mono: "list_all2 (live s) tys vs \<Longrightarrow> main_ty s \<subseteq>\<^sub>m main_ty s' \<Longrightarrow> list_all2 (live s') tys vs"
  by (erule list_all2_mono) (rule live_mono)

text \<open>The invariant moves along a step that only adds operations.\<close>

lemma scope_good_later:
  assumes "scope_good R d C E N U s" "main_good s'" "main_ty s \<subseteq>\<^sub>m main_ty s'"
    and "graphs_of s' = graphs_of s" "call_stack s' = call_stack s" "tuple_scope_stack s' = tuple_scope_stack s"
    and "next_tuple_scope s \<le> next_tuple_scope s'" "bound_values s' = bound_values s"
    and "node_values s' = node_values s" "tuple_values s' = tuple_values s"
  shows "scope_good R d C E N U s'"
  using assms
  unfolding scope_good_def depth_left_def scopes_good_def bindings_live_def nodes_live_def tuples_live_def
  by (auto intro: live_mono lives_mono; blast intro: live_mono lives_mono)

lemma builds_in_scope:
  assumes "builds \<Gamma> m G P"
  shows "scope_builds R d C E N U \<Gamma> m G P"
proof (rule step_okI)
  fix s e
  assume s: "scope_good R d C E N U s" "typings_hold (main_ty s) \<Gamma>" and e: "m s = Inl e"
  have "main_good s" using s(1) by (simp add: scope_good_def)
  then show "soft_error e" by (rule step_okD(1) [OF assms _ s(2) e])
next
  fix s r s'
  assume s: "scope_good R d C E N U s" "typings_hold (main_ty s) \<Gamma>" and m: "m s = Inr (r, s')"
  have "main_good s" using s(1) by (simp add: scope_good_def)
  note r = step_okD(2) [OF assms this s(2) m]
  then have s': "s' = s\<lparr>main_block := main_block s'\<rparr>" "same_args (main_block s) (main_block s')"
    by (simp_all add: only_block_def)
  have k: "graphs_of s' = graphs_of s" "call_stack s' = call_stack s" "tuple_scope_stack s' = tuple_scope_stack s"
    "next_tuple_scope s' = next_tuple_scope s" "bound_values s' = bound_values s" "context_of s' = context_of s"
    "node_values s' = node_values s" "tuple_values s' = tuple_values s"
    by (subst s'(1), simp)+
  have "scope_good R d C E N U s'" by (rule scope_good_later [OF s(1)]) (use r k in simp_all)
  with r k s'(2) show "scope_good R d C E N U s' \<and> frame s s' \<and> main_ty s \<subseteq>\<^sub>m main_ty s' \<and>
      typings_hold (main_ty s') (G r) \<and> P r"
    by (simp add: frame_def scope_kept_def other_scopes_kept_def)
qed

section \<open>Names and caches\<close>

lemma lookup_value_ok:
  assumes "env_lookup E name = Some ty"
  shows "scope_builds R d C E N U \<Gamma> (lookup_value name) typing_of (has_ty ty)"
proof (rule step_okI)
  fix s
  assume s: "scope_good R d C E N U s"
  then obtain v where v: "bound_values s name = Some v" "live s ty v"
    using assms by (auto simp: scope_good_def bindings_live_def)
  then have l: "lookup_value name s = Inr (v, s)" by (simp add: lookup_value_def sbind_def sget_def sreturn_def)
  show "soft_error e" if "lookup_value name s = Inl e" for e using that l by simp
  show "scope_good R d C E N U s' \<and> frame s s' \<and> main_ty s \<subseteq>\<^sub>m main_ty s' \<and> typings_hold (main_ty s') (typing_of r) \<and>
      has_ty ty r" if "lookup_value name s = Inr (r, s')" for r s'
    using that l v s by (auto simp: live_def scope.keeps_refl)
qed

lemma current_scope: "tuple_scope_stack s \<noteq> [] \<Longrightarrow> current_tuple_scope s = Inr (scope_of s, s)"
  by (simp add: current_tuple_scope_def sbind_def sget_def sreturn_def)

lemma lives_iff: "list_all2 (live s) tys vs \<longleftrightarrow> list_all2 has_ty tys vs \<and> typings_hold (main_ty s) (typings_of vs)"
proof (induction tys arbitrary: vs)
  case Nil
  then show ?case by (auto simp: typings_of_def)
next
  case (Cons ty tys)
  then show ?case by (cases vs) (auto simp: live_def typings_of_def)
qed

lemma cached_node_ok:
  assumes compute: "scope_builds R d C E N U \<Gamma> compute typing_of (has_ty ty)"
    and e: "has_types C E e [ty]" "(k, e) \<in> N" "consistent N"
  shows "scope_builds R d C E N U \<Gamma> (cached_node k compute) typing_of (has_ty ty)"
  unfolding step_ok_def
proof (intro allI impI)
  fix s
  assume s: "scope_good R d C E N U s" "typings_hold (main_ty s) \<Gamma>"
  then have stack: "tuple_scope_stack s \<noteq> []" by (simp add: scope_good_def scopes_good_def)
  have run: "cached_node k compute s =
      (case node_values s (scope_of s, k) of
         Some v \<Rightarrow> Inr (v, s)
       | None \<Rightarrow>
           (case compute s of
              Inl e \<Rightarrow> Inl e
            | Inr (v, s') \<Rightarrow> Inr (v, s'\<lparr>node_values := (node_values s')((scope_of s, k) \<mapsto> v)\<rparr>)))"
    by (simp add: cached_node_def sbind_def current_scope [OF stack] sget_def supdate_def sreturn_def
        split: option.split sum.split)
  show "case cached_node k compute s of
      Inl e \<Rightarrow> soft_error e
    | Inr (r, s') \<Rightarrow> scope_good R d C E N U s' \<and> frame s s' \<and> main_ty s \<subseteq>\<^sub>m main_ty s' \<and>
        typings_hold (main_ty s') (typing_of r) \<and> has_ty ty r"
  proof (cases "node_values s (scope_of s, k)")
    case (Some v)
    with s(1) obtain e' where e': "(k, e') \<in> N" "has_types C E e' [val_ty v]" and l: "live s (val_ty v) v"
      unfolding scope_good_def nodes_live_def by blast
    then have "e' = e" using e(2,3) by (auto simp: consistent_def)
    with e' e(1) have "val_ty v = ty" using has_types_unique by blast
    with Some l s show ?thesis by (simp add: run live_def scope.keeps_refl)
  next
    case None
    show ?thesis
    proof (cases "compute s")
      case (Inl err)
      with None step_okD(1) [OF compute s Inl] show ?thesis by (simp add: run)
    next
      case (Inr p)
      obtain v s1 where p: "compute s = Inr (v, s1)" using Inr by (cases p) simp
      note c = step_okD(2) [OF compute s p]
      then have f: "tuple_scope_stack s1 = tuple_scope_stack s" by (simp add: frame_def scope_kept_def)
      let ?s2 = "s1\<lparr>node_values := (node_values s1)((scope_of s, k) \<mapsto> v)\<rparr>"
      have ty: "main_ty ?s2 = main_ty s1" by (simp add: main_ty_def)
      have live: "live ?s2 = live s1" by (intro ext) (simp add: live_def ty)
      have good: "scope_good R d C E N U s1" using c by blast
      have v: "live s1 ty v" "val_ty v = ty" using c by (simp_all add: live_def has_ty_def)
      have "nodes_live C E N ?s2"
        using good v e(1,2) unfolding nodes_live_def live scope_good_def by (auto simp: f)
      moreover have "tuples_live C E U ?s2"
        using good unfolding tuples_live_def live scope_good_def by simp
      moreover have "bindings_live E ?s2"
        using good unfolding bindings_live_def live scope_good_def by simp
      moreover have "scopes_good ?s2" "main_good ?s2" "graphs_of ?s2 = R" "depth_left d ?s2"
        using good by (auto simp: scope_good_def scopes_good_def main_good_def depth_left_def f)
      ultimately have "scope_good R d C E N U ?s2" by (simp add: scope_good_def)
      moreover have "frame s ?s2" using c by (auto simp: frame_def scope_kept_def other_scopes_kept_def)
      ultimately show ?thesis using None p c ty by (simp add: run)
    qed
  qed
qed

lemma cached_tuple_ok:
  assumes compute: "scope_builds R d C E N U \<Gamma> compute typings_of (\<lambda>vs. list_all2 has_ty tys vs)"
    and e: "has_types C E e tys" "(k, e) \<in> U" "consistent U" and i: "index < length tys"
  shows "scope_builds R d C E N U \<Gamma> (cached_tuple k index compute) typing_of (has_ty (tys ! index))"
  unfolding step_ok_def
proof (intro allI impI)
  fix s
  assume s: "scope_good R d C E N U s" "typings_hold (main_ty s) \<Gamma>"
  then have stack: "tuple_scope_stack s \<noteq> []" by (simp add: scope_good_def scopes_good_def)
  have run: "cached_tuple k index compute s =
      (case tuple_values s (scope_of s, k) of
         Some vs \<Rightarrow> tuple_value_at vs index s
       | None \<Rightarrow>
           (case compute s of
              Inl e \<Rightarrow> Inl e
            | Inr (vs, s') \<Rightarrow>
                (case tuple_value_at vs index s' of
                   Inl e \<Rightarrow> Inl e
                 | Inr (v, s') \<Rightarrow> Inr (v, s'\<lparr>tuple_values := (tuple_values s')((scope_of s, k) \<mapsto> vs)\<rparr>))))"
    by (simp add: cached_tuple_def sbind_def current_scope [OF stack] sget_def supdate_def sreturn_def
        split: option.split sum.split)
  have at: "tuple_value_at vs index s' = Inr (vs ! index, s')" "live s' (tys ! index) (vs ! index)"
    if "list_all2 (live s') tys vs" for vs s'
    using that i by (auto simp: tuple_value_at_def sreturn_def list_all2_conv_all_nth)
  show "case cached_tuple k index compute s of
      Inl e \<Rightarrow> soft_error e
    | Inr (r, s') \<Rightarrow> scope_good R d C E N U s' \<and> frame s s' \<and> main_ty s \<subseteq>\<^sub>m main_ty s' \<and>
        typings_hold (main_ty s') (typing_of r) \<and> has_ty (tys ! index) r"
  proof (cases "tuple_values s (scope_of s, k)")
    case (Some vs)
    with s(1) obtain e' tys' where e': "(k, e') \<in> U" "has_types C E e' tys'" and l: "list_all2 (live s) tys' vs"
      unfolding scope_good_def tuples_live_def by blast
    then have "e' = e" using e(2,3) by (auto simp: consistent_def)
    with e' e(1) have "tys' = tys" using has_types_unique by blast
    with Some at [of s vs] l s show ?thesis by (simp add: run live_def scope.keeps_refl)
  next
    case None
    show ?thesis
    proof (cases "compute s")
      case (Inl err)
      with None step_okD(1) [OF compute s Inl] show ?thesis by (simp add: run)
    next
      case (Inr p)
      obtain vs s1 where p: "compute s = Inr (vs, s1)" using Inr by (cases p) simp
      note c = step_okD(2) [OF compute s p]
      then have f: "tuple_scope_stack s1 = tuple_scope_stack s" by (simp add: frame_def scope_kept_def)
      let ?s2 = "s1\<lparr>tuple_values := (tuple_values s1)((scope_of s, k) \<mapsto> vs)\<rparr>"
      have ty: "main_ty ?s2 = main_ty s1" by (simp add: main_ty_def)
      have live: "live ?s2 = live s1" by (intro ext) (simp add: live_def ty)
      have good: "scope_good R d C E N U s1" using c by blast
      have vs: "list_all2 (live s1) tys vs" using c by (simp add: lives_iff)
      have "tuples_live C E U ?s2"
        using good vs e(1,2) unfolding tuples_live_def live scope_good_def by (auto simp: f)
      moreover have "nodes_live C E N ?s2"
        using good unfolding nodes_live_def live scope_good_def by simp
      moreover have "bindings_live E ?s2"
        using good unfolding bindings_live_def live scope_good_def by simp
      moreover have "scopes_good ?s2" "main_good ?s2" "graphs_of ?s2 = R" "depth_left d ?s2"
        using good by (auto simp: scope_good_def scopes_good_def main_good_def depth_left_def f)
      ultimately have "scope_good R d C E N U ?s2" by (simp add: scope_good_def)
      moreover have "frame s ?s2" using c by (auto simp: frame_def scope_kept_def other_scopes_kept_def)
      ultimately show ?thesis using None p c ty at [OF vs] by (simp add: run live_def)
    qed
  qed
qed

section \<open>Bindings\<close>

lemma restore_snoc: "restore_values (ov @ [(name, m name)]) (m(name \<mapsto> v)) = restore_values ov m"
  by (simp add: restore_values_def)

lemma insert_values_run:
  "\<exists>ov'. sfold insert_value binds ov s = Inr (ov', s\<lparr>bound_values := bound_values s ++ map_of (rev binds)\<rparr>) \<and>
     restore_values ov' (bound_values s ++ map_of (rev binds)) = restore_values ov (bound_values s)"
proof (induction binds arbitrary: ov s)
  case Nil
  show ?case by (simp add: sreturn_def)
next
  case (Cons b binds)
  obtain name v where b: "b = (name, v)" by (cases b)
  let ?s = "s\<lparr>bound_values := (bound_values s)(name \<mapsto> v)\<rparr>"
  have one: "insert_value b ov s = Inr (ov @ [(name, bound_values s name)], ?s)"
    by (simp add: b insert_value_def sbind_def sget_def supdate_def sreturn_def)
  have m: "bound_values ?s ++ map_of (rev binds) = bound_values s ++ map_of (rev (b # binds))"
    by (simp add: b)
  obtain ov' where "sfold insert_value binds (ov @ [(name, bound_values s name)]) ?s =
      Inr (ov', ?s\<lparr>bound_values := bound_values ?s ++ map_of (rev binds)\<rparr>)"
    "restore_values ov' (bound_values ?s ++ map_of (rev binds)) =
      restore_values (ov @ [(name, bound_values s name)]) (bound_values ?s)"
    using Cons.IH by blast
  then have "sfold insert_value (b # binds) ov s = Inr (ov', s\<lparr>bound_values := bound_values s ++ map_of (rev (b # binds))\<rparr>)"
    "restore_values ov' (bound_values s ++ map_of (rev (b # binds))) = restore_values ov (bound_values s)"
    unfolding m by (simp_all add: sbind_def one restore_snoc)
  then show ?case by blast
qed

lemma zip_lookup_rel:
  "list_all2 Q tys vs \<Longrightarrow> length names = length tys \<Longrightarrow>
     rel_option Q (map_of (rev (zip names tys)) name) (map_of (rev (zip names vs)) name)"
proof (induction tys vs arbitrary: names rule: list_all2_induct)
  case (Cons ty tys v vs)
  then obtain n ns where names: "names = n # ns" "length ns = length tys" by (cases names) auto
  from Cons.IH [OF names(2)] Cons.hyps show ?case
    by (cases "map_of (rev (zip ns tys)) name"; cases "map_of (rev (zip ns vs)) name")
       (simp_all add: names map_add_def)
qed simp

lemma zip_lookup:
  assumes "list_all2 Q tys vs" "length names = length tys"
  shows "map_of (rev (zip names tys)) name = Some ty \<Longrightarrow> \<exists>v. map_of (rev (zip names vs)) name = Some v \<and> Q ty v"
    and "map_of (rev (zip names tys)) name = None \<longleftrightarrow> map_of (rev (zip names vs)) name = None"
  using zip_lookup_rel [OF assms, of name] by (auto elim: option.rel_cases)

lemma pushed_bindings_live:
  assumes "bindings_live E s" "list_all2 (live s) tys vs" "length names = length tys"
  shows "bindings_live (push_bindings E names tys) (s\<lparr>bound_values := bound_values s ++ map_of (rev (zip names vs))\<rparr>)"
  unfolding bindings_live_def
proof (intro allI impI)
  fix name ty
  let ?s = "s\<lparr>bound_values := bound_values s ++ map_of (rev (zip names vs))\<rparr>"
  have live: "live ?s = live s" by (intro ext) (simp add: live_def main_ty_def)
  assume "env_lookup (push_bindings E names tys) name = Some ty"
  then have look: "(env_lookup E ++ map_of (rev (zip names tys))) name = Some ty"
    by (simp add: push_bindings_def env_lookup_append) (simp add: env_lookup_eq)
  show "\<exists>v. bound_values ?s name = Some v \<and> live ?s ty v"
  proof (cases "map_of (rev (zip names tys)) name")
    case None
    with look have "env_lookup E name = Some ty" by (simp add: map_add_def)
    with assms(1) obtain v where "bound_values s name = Some v" "live s ty v" by (auto simp: bindings_live_def)
    moreover have "map_of (rev (zip names vs)) name = None" using None zip_lookup(2) [OF assms(2,3)] by simp
    ultimately show ?thesis by (simp add: live map_add_Some_iff)
  next
    case (Some ty')
    with look have "ty' = ty" by (simp add: map_add_def)
    with zip_lookup(1) [OF assms(2,3) Some] show ?thesis by (auto simp: live map_add_Some_iff)
  qed
qed

lemma bind_values_ok:
  assumes s: "scope_good R d C E N U s" and vs: "list_all2 (live s) tys vs" "length names = length tys"
    and fresh: "set names \<inter> fst ` set E = {}"
  shows "\<exists>ov' s'. bind_values names vs ov s = Inr (ov', s') \<and> scope_good R d C (push_bindings E names tys) N U s' \<and>
    scope_kept s s' \<and> main_ty s' = main_ty s \<and> restore_values ov' (bound_values s') = restore_values ov (bound_values s)"
proof -
  let ?s = "s\<lparr>bound_values := bound_values s ++ map_of (rev (zip names vs))\<rparr>"
  have live: "live ?s = live s" by (intro ext) (simp add: live_def main_ty_def)
  obtain ov' where run: "sfold insert_value (zip names vs) ov s = Inr (ov', ?s)"
      "restore_values ov' (bound_values ?s) = restore_values ov (bound_values s)"
    using insert_values_run [of "zip names vs" ov s] by auto
  have "length names = length vs" using vs list_all2_lengthD by fastforce
  then have bind: "bind_values names vs ov s = Inr (ov', ?s)" by (simp add: bind_values_def run)
  have "nodes_live C (push_bindings E names tys) N ?s" "tuples_live C (push_bindings E names tys) U ?s"
    using s has_types_push [OF _ fresh] unfolding scope_good_def nodes_live_def tuples_live_def live by fastforce+
  moreover have "bindings_live (push_bindings E names tys) ?s"
    using pushed_bindings_live vs s by (simp add: scope_good_def)
  moreover have "main_good ?s" "graphs_of ?s = R" "depth_left d ?s" "scopes_good ?s"
    using s by (auto simp: scope_good_def main_good_def depth_left_def scopes_good_def)
  ultimately have "scope_good R d C (push_bindings E names tys) N U ?s" by (simp add: scope_good_def)
  moreover have "scope_kept s ?s" by (simp add: scope_kept_def other_scopes_kept_def same_args_def)
  moreover have "main_ty ?s = main_ty s" by (simp add: main_ty_def)
  ultimately show ?thesis using bind run(2) by blast
qed

section \<open>Supported expressions\<close>

definition calls_lowerable :: "'f checker \<Rightarrow> type_env \<Rightarrow> (call_op \<times> expr list) set \<Rightarrow> bool" where
  "calls_lowerable C E K \<longleftrightarrow>
     (\<forall>(op, args) \<in> K. \<forall>tys. list_all2 (\<lambda>a t. has_types C E a [t]) args tys \<longrightarrow> lowerable_call op tys)"

lemma calls_lowerable_simps [simp]:
  "calls_lowerable C E (K \<union> K') \<longleftrightarrow> calls_lowerable C E K \<and> calls_lowerable C E K'"
  "calls_lowerable C E (insert (op, args) K) \<longleftrightarrow>
     (\<forall>tys. list_all2 (\<lambda>a t. has_types C E a [t]) args tys \<longrightarrow> lowerable_call op tys) \<and> calls_lowerable C E K"
  "calls_lowerable C E (\<Union>x \<in> X. f x) \<longleftrightarrow> (\<forall>x \<in> X. calls_lowerable C E (f x))"
  by (auto simp: calls_lowerable_def)

definition supported :: "'f checker \<Rightarrow> type_env \<Rightarrow> (nat \<times> expr) set \<Rightarrow> (nat \<times> expr) set \<Rightarrow> expr \<Rightarrow> bool" where
  "supported C E N U e \<longleftrightarrow> expr_nodes e \<subseteq> N \<and> expr_tuples e \<subseteq> U \<and> calls_lowerable C E (expr_calls e)"

lemma supported_simps [simp]:
  "supported C E N U (EUnary uop v) \<longleftrightarrow> supported C E N U v"
  "supported C E N U (EBinary bop l r) \<longleftrightarrow> supported C E N U l \<and> supported C E N U r"
  "supported C E N U (ENode k v) \<longleftrightarrow> (k, v) \<in> N \<and> supported C E N U v"
  "supported C E N U (ETupleGet k v index) \<longleftrightarrow> (k, v) \<in> U \<and> supported C E N U v"
  "supported C E N U (ECall op args) \<longleftrightarrow>
     (\<forall>tys. list_all2 (\<lambda>a t. has_types C E a [t]) args tys \<longrightarrow> lowerable_call op tys) \<and>
     (\<forall>a \<in> set args. supported C E N U a)"
  by (auto simp: supported_def)

text \<open>The calls of the graph \<open>name\<close> are inlined correctly.\<close>

definition inlines ::
    "'f f64_ops \<Rightarrow> (string \<Rightarrow> typed_graph option) \<Rightarrow> (string \<times> graph_signature) list \<Rightarrow> nat \<Rightarrow> bool" where
  "inlines F R sigs d \<longleftrightarrow>
     (\<forall>(C :: 'f checker) E N U \<Gamma> name sig vs.
        find_signature sigs name = Some sig \<longrightarrow> operands \<Gamma> (sig_inputs sig) vs \<longrightarrow>
        scope_builds R d C E N U \<Gamma> (inline_graph_values F d name vs) typings_of
          (\<lambda>vs. list_all2 has_ty (sig_outputs sig) vs))"

section \<open>Expressions\<close>

lemma operands_typings: "list_all2 has_ty tys vs \<Longrightarrow> operands (\<Gamma> \<union> typings_of vs) tys vs"
  by (auto simp: operands_def list_all2_conv_all_nth has_ty_def vin_def typings_of_def)

lemma typings_of_simps [simp]:
  "typings_of [] = {}" "typings_of (v # vs) = typing_of v \<union> typings_of vs"
  by (simp_all add: typings_of_def)

lemma lower_args_ok:
  assumes "list_all2 (\<lambda>a t. \<forall>\<Gamma>. scope_builds R d C E N U \<Gamma> (lower_expr F d a) typing_of (has_ty t)) args tys"
    and "n \<le> length args"
  shows "scope_builds R d C E N U \<Gamma> (lower_args F d n args) typings_of (\<lambda>vs. list_all2 has_ty (take n tys) vs)"
  using assms
proof (induction args tys arbitrary: n \<Gamma> rule: list_all2_induct)
  case Nil
  then show ?case by (auto intro: scope.ok_return)
next
  case (Cons a args t tys)
  show ?case
  proof (cases n)
    case 0
    then show ?thesis by (auto intro: scope.ok_return)
  next
    case (Suc m)
    have rest: "scope_builds R d C E N U \<Gamma>' (lower_args F d m args) typings_of (\<lambda>vs. list_all2 has_ty (take m tys) vs)" for \<Gamma>'
      using Cons.IH Cons.prems Suc by simp
    show ?thesis unfolding Suc lower_args.simps
      by (rule scope.ok_bind [OF Cons.hyps(1) [rule_format]], rule scope.ok_bind [OF rest])
         (auto intro: scope.ok_return)
  qed
qed

lemma lower_all_args_eq: "lower_all_args F d args = lower_args F d (length args) args"
  by (induction args) simp_all

lemma call_values_ok:
  fixes C :: "'f checker"
  assumes inl: "inlines F R (ck_signatures C) d" and F: "ck_ops C = F"
    and args: "\<And>a t \<Gamma>. a \<in> set args \<Longrightarrow> has_types C E a [t] \<Longrightarrow>
      scope_builds R d C E N U \<Gamma> (lower_expr F d a) typing_of (has_ty t)"
    and e: "has_types C E (ECall op args) tys" "supported C E N U (ECall op args)"
  shows "scope_builds R d C E N U \<Gamma> (lower_call_values F d op args) typings_of (\<lambda>vs. list_all2 has_ty tys vs)"
proof -
  have each: "list_all2 (\<lambda>a t. \<forall>\<Gamma>. scope_builds R d C E N U \<Gamma> (lower_expr F d a) typing_of (has_ty t)) args ts"
    if "list_all2 (\<lambda>a t. has_types C E a [t]) args ts" for ts
    using that args by (auto simp: list_all2_conv_all_nth)
  show ?thesis
  proof (cases "graph_callee op")
    case None
    with e(1) obtain ts where ts: "list_all2 (\<lambda>a t. has_types C E a [t]) args ts" "infer_call_results op ts = Inr tys"
        and static: "validate_static_creation_call F op args = Inr ()"
      by (auto simp: has_types_Call_iff F)
    have low: "lowerable_call op ts" using e(2) ts(1) by simp
    have n: "call_arity op \<le> length args"
    proof (cases "static_call op")
      case True
      then show ?thesis by (cases op) (simp_all add: static_call_def)
    next
      case False
      from call_arity_operands [OF ts(2) False] ts(1) list_all2_lengthD show ?thesis by fastforce
    qed
    show ?thesis unfolding lower_call_values.simps None option.case
    proof (rule scope.ok_bind [OF lower_args_ok [OF each [OF ts(1)] n]])
      fix vs
      assume "list_all2 has_ty (take (call_arity op) ts) vs"
      then have "operands (\<Gamma> \<union> typings_of vs) (take (call_arity op) ts) vs" by (rule operands_typings)
      from apply_call_values_ok [OF this ts(2) static low None]
      show "scope_builds R d C E N U (\<Gamma> \<union> typings_of vs) (apply_call_values F args vs op) typings_of
          (\<lambda>vs. list_all2 has_ty tys vs)" by (rule builds_in_scope)
    qed
  next
    case (Some name)
    then have op: "op = OpGraph name" by (simp add: graph_callee_Some)
    with e(1) obtain sig where sig: "find_signature (ck_signatures C) name = Some sig" "tys = sig_outputs sig"
        and ts: "list_all2 (\<lambda>a t. has_types C E a [t]) args (sig_inputs sig)"
      by (auto simp: has_types_Graph_iff)
    have n: "length args = length (sig_inputs sig)" using ts list_all2_lengthD by blast
    show ?thesis unfolding lower_call_values.simps Some option.case lower_all_args_eq sig(2)
    proof (rule scope.ok_bind [OF lower_args_ok [OF each [OF ts] le_refl]])
      fix vs
      assume "list_all2 has_ty (take (length args) (sig_inputs sig)) vs"
      then have "operands (\<Gamma> \<union> typings_of vs) (sig_inputs sig) vs" using n by (simp add: operands_typings)
      then show "scope_builds R d C E N U (\<Gamma> \<union> typings_of vs) (inline_graph_values F d name vs) typings_of
          (\<lambda>vs. list_all2 has_ty (sig_outputs sig) vs)"
        using inl sig(1) unfolding inlines_def by blast
    qed
  qed
qed

lemma single_value_ok:
  "list_all2 has_ty [ty] vs \<Longrightarrow> typings_of vs \<subseteq> \<Gamma> \<Longrightarrow>
     scope_builds R d C E N U \<Gamma> (single_value vs) typing_of (has_ty ty)"
  by (auto simp: single_value_def list_all2_Cons1 intro!: scope.ok_return)

lemma value_list_ok:
  assumes "scope_builds R d C E N U \<Gamma> m typing_of (has_ty ty)"
  shows "scope_builds R d C E N U \<Gamma> (sbind m (\<lambda>v. sreturn [v])) typings_of (\<lambda>vs. list_all2 has_ty [ty] vs)"
  by (rule scope.ok_bind [OF assms]) (auto intro: scope.ok_return)

definition expr_builds ::
    "'f f64_ops \<Rightarrow> (string \<Rightarrow> typed_graph option) \<Rightarrow> nat \<Rightarrow> 'f checker \<Rightarrow> type_env \<Rightarrow> (nat \<times> expr) set
      \<Rightarrow> (nat \<times> expr) set \<Rightarrow> expr \<Rightarrow> bool" where
  "expr_builds F R d C E N U e \<longleftrightarrow>
     (\<forall>ty \<Gamma>. has_types C E e [ty] \<longrightarrow> scope_builds R d C E N U \<Gamma> (lower_expr F d e) typing_of (has_ty ty))"

definition values_build ::
    "'f f64_ops \<Rightarrow> (string \<Rightarrow> typed_graph option) \<Rightarrow> nat \<Rightarrow> 'f checker \<Rightarrow> type_env \<Rightarrow> (nat \<times> expr) set
      \<Rightarrow> (nat \<times> expr) set \<Rightarrow> expr \<Rightarrow> bool" where
  "values_build F R d C E N U e \<longleftrightarrow>
     (\<forall>tys \<Gamma>. has_types C E e tys \<longrightarrow>
        scope_builds R d C E N U \<Gamma> (lower_let_values F d e) typings_of (\<lambda>vs. list_all2 has_ty tys vs))"

lemma expr_buildsD:
  "expr_builds F R d C E N U e \<Longrightarrow> has_types C E e [ty] \<Longrightarrow>
     scope_builds R d C E N U \<Gamma> (lower_expr F d e) typing_of (has_ty ty)"
  by (simp add: expr_builds_def)

lemma values_buildD:
  "values_build F R d C E N U e \<Longrightarrow> has_types C E e tys \<Longrightarrow>
     scope_builds R d C E N U \<Gamma> (lower_let_values F d e) typings_of (\<lambda>vs. list_all2 has_ty tys vs)"
  by (simp add: values_build_def)

lemma single_values_build:
  assumes "expr_builds F R d C E N U e" "lower_let_values F d e = sbind (lower_expr F d e) (\<lambda>v. sreturn [v])"
    and "\<And>tys. has_types C E e tys \<Longrightarrow> \<exists>ty. tys = [ty]"
  shows "expr_builds F R d C E N U e \<and> values_build F R d C E N U e"
proof (rule conjI [OF assms(1)], unfold values_build_def assms(2), intro allI impI)
  fix tys \<Gamma>
  assume t: "has_types C E e tys"
  with assms(3) obtain ty where ty: "tys = [ty]" by blast
  with t value_list_ok [OF expr_buildsD [OF assms(1)]]
  show "scope_builds R d C E N U \<Gamma> (sbind (lower_expr F d e) (\<lambda>v. sreturn [v])) typings_of (\<lambda>vs. list_all2 has_ty tys vs)"
    by blast
qed

lemma constant_value_ok: "builds \<Gamma> (lower_constant v e) typing_of (has_ty (tensor e []))"
  using lower_constant_has_ty [of "tensor e []"] by (simp add: rank_def)

lemma negation_ok:
  assumes "vin \<Gamma> v"
  shows "builds \<Gamma> (sbind (zero_like (val_ty v)) (\<lambda>zero. binary_value Sub zero v)) typing_of (has_ty (val_ty v))"
proof (rule main.ok_bind [OF zero_like_ok])
  fix w
  assume w: "has_ty (val_ty v) w"
  with same_value_ok [OF vin_has_ty [OF w] vin_left [OF assms]]
  show "builds (\<Gamma> \<union> typing_of w) (binary_value Sub w v) typing_of (has_ty (val_ty v))" by (simp add: has_ty_def)
qed

lemma expressions_ok:
  fixes C :: "'f checker"
  assumes inl: "inlines F R (ck_signatures C) d" and F: "ck_ops C = F" and N: "consistent N" "consistent U"
  shows "supported C E N U e \<Longrightarrow> expr_builds F R d C E N U e \<and> values_build F R d C E N U e"
proof (induction e)
  case (EVar name)
  show ?case by (rule single_values_build) (auto simp: expr_builds_def intro: lookup_value_ok)
next
  case (EConst v e)
  show ?case
    by (rule single_values_build) (auto simp: expr_builds_def intro: builds_in_scope constant_value_ok)
next
  case (EUnary uop v)
  then have v: "expr_builds F R d C E N U v" by simp
  have "expr_builds F R d C E N U (EUnary uop v)" unfolding expr_builds_def
  proof (intro allI impI)
    fix ty \<Gamma>
    assume "has_types C E (EUnary uop v) [ty]"
    then have t: "has_types C E v [ty]" by (auto simp: has_types_Unary_iff)
    show "scope_builds R d C E N U \<Gamma> (lower_expr F d (EUnary uop v)) typing_of (has_ty ty)"
    proof (cases uop)
      case Neg
      show ?thesis unfolding Neg lower_expr.simps
      proof (rule scope.ok_bind [OF expr_buildsD [OF v t]])
        fix w
        assume w: "has_ty ty w"
        with negation_ok [OF vin_has_ty [OF w]]
        show "scope_builds R d C E N U (\<Gamma> \<union> typing_of w)
            (sbind (zero_like (val_ty w)) (\<lambda>zero. binary_value Sub zero w)) typing_of (has_ty ty)"
          by (intro builds_in_scope) (simp add: has_ty_def)
      qed
    qed
  qed
  then show ?case by (rule single_values_build) (auto simp: has_types_Unary_iff)
next
  case (EBinary bop l r)
  then have l: "expr_builds F R d C E N U l" and r: "expr_builds F R d C E N U r" by simp_all
  have "expr_builds F R d C E N U (EBinary bop l r)" unfolding expr_builds_def
  proof (intro allI impI)
    fix ty \<Gamma>
    assume "has_types C E (EBinary bop l r) [ty]"
    then obtain lt rt where t: "has_types C E l [lt]" "has_types C E r [rt]" "binary_result_type lt rt = Inr ty"
      by (auto simp: has_types_Binary_iff)
    show "scope_builds R d C E N U \<Gamma> (lower_expr F d (EBinary bop l r)) typing_of (has_ty ty)"
      unfolding lower_expr.simps
    proof (rule scope.ok_bind [OF expr_buildsD [OF l t(1)]], rule scope.ok_bind [OF expr_buildsD [OF r t(2)]],
        rule builds_in_scope)
      fix v w
      assume vw: "has_ty lt v" "has_ty rt w"
      have "builds (\<Gamma> \<union> typing_of v \<union> typing_of w) (binary_value bop v w) typing_of (has_ty (tensor (elem ty) (shape ty)))"
        by (rule binary_value_ok [OF vin_left [OF vin_has_ty [OF vw(1)]] vin_has_ty [OF vw(2)]])
           (use vw t(3) in \<open>auto simp: has_ty_def binary_result_Inr\<close>)
      then show "builds (\<Gamma> \<union> typing_of v \<union> typing_of w) (binary_value bop v w) typing_of (has_ty ty)"
        by (simp add: value_as_tensor)
    qed
  qed
  then show ?case by (rule single_values_build) (auto simp: has_types_Binary_iff)
next
  case (ENode k v)
  then have v: "expr_builds F R d C E N U v" "values_build F R d C E N U v" and k: "(k, v) \<in> N" by simp_all
  have "expr_builds F R d C E N U (ENode k v)" unfolding expr_builds_def
    using v(1) k N(1) by (auto intro!: cached_node_ok expr_buildsD)
  moreover have "values_build F R d C E N U (ENode k v)" unfolding values_build_def
    using v(2) by (auto intro: values_buildD)
  ultimately show ?case by blast
next
  case (ETupleGet k v index)
  then have v: "values_build F R d C E N U v" and k: "(k, v) \<in> U" by simp_all
  have "expr_builds F R d C E N U (ETupleGet k v index)" unfolding expr_builds_def
  proof (intro allI impI)
    fix ty \<Gamma>
    assume "has_types C E (ETupleGet k v index) [ty]"
    then obtain outs where o': "has_types C E v outs" "index < length outs" "ty = outs ! index"
      by (auto simp: has_types_TupleGet_iff)
    show "scope_builds R d C E N U \<Gamma> (lower_expr F d (ETupleGet k v index)) typing_of (has_ty ty)"
      unfolding lower_expr.simps o'(3) by (rule cached_tuple_ok [OF values_buildD [OF v o'(1)] o'(1) k N(2) o'(2)])
  qed
  then show ?case by (rule single_values_build) (auto simp: has_types_TupleGet_iff)
next
  case (ECall op args)
  have a: "scope_builds R d C E N U \<Gamma> (lower_expr F d a) typing_of (has_ty t)"
    if "a \<in> set args" "has_types C E a [t]" for a t \<Gamma>
    using ECall.IH [OF that(1)] ECall.prems that expr_buildsD by auto
  have calls: "values_build F R d C E N U (ECall op args)" unfolding values_build_def
    using call_values_ok [OF inl F a _ ECall.prems] by simp
  moreover have "expr_builds F R d C E N U (ECall op args)" unfolding expr_builds_def
  proof (intro allI impI)
    fix ty \<Gamma>
    assume t: "has_types C E (ECall op args) [ty]"
    show "scope_builds R d C E N U \<Gamma> (lower_expr F d (ECall op args)) typing_of (has_ty ty)"
      unfolding lower_expr.simps
      by (rule scope.ok_bind [OF call_values_ok [OF inl F a t ECall.prems]], assumption+, rule single_value_ok) auto
  qed
  ultimately show ?case by blast
qed

end
