(* ===== verification/Lower_Graph_Spec.thy ===== *)
theory Lower_Graph_Spec
  imports Lower_Expr_Spec
begin

text \<open>
  Whole graphs: let bindings, outputs, inlined calls, and the function.  A typed graph over a registry of
  typed graphs is lowered to a well-formed function, and the registry's size bounds the nesting of calls.
\<close>

section \<open>Lowerable graphs\<close>

definition graph_tuples :: "graph \<Rightarrow> (nat \<times> expr) set" where
  "graph_tuples g = (\<Union>b \<in> set (graph_lets g). expr_tuples (let_value b)) \<union> (\<Union>e \<in> set (graph_body g). expr_tuples e)"

definition graph_calls :: "graph \<Rightarrow> (call_op \<times> expr list) set" where
  "graph_calls g = (\<Union>b \<in> set (graph_lets g). expr_calls (let_value b)) \<union> (\<Union>e \<in> set (graph_body g). expr_calls e)"

definition lowerable_graph :: "'f f64_ops \<Rightarrow> (string \<times> graph_signature) list \<Rightarrow> graph \<Rightarrow> bool" where
  "lowerable_graph F sigs g \<longleftrightarrow>
     distinct (bound_names g) \<and> consistent (graph_nodes g) \<and> consistent (graph_tuples g) \<and>
     (\<forall>tlets E. wt_lets (graph_checker F g sigs) (env_from_inputs (graph_inputs g)) (graph_lets g) tlets E \<longrightarrow>
        calls_lowerable (graph_checker F g sigs) E (graph_calls g))"

text \<open>The registry holds the typed graph of every signature.\<close>

definition registry_typed ::
    "'f f64_ops \<Rightarrow> (string \<times> graph_signature) list \<Rightarrow> (string \<Rightarrow> typed_graph option) \<Rightarrow> bool" where
  "registry_typed F sigs R \<longleftrightarrow>
     finite (dom R) \<and>
     (\<forall>name sig. find_signature sigs name = Some sig \<longrightarrow>
        (\<exists>g tg. R name = Some tg \<and> typed_as F g sigs tg \<and> lowerable_graph F sigs g \<and>
           map input_ty (graph_inputs g) = sig_inputs sig \<and> graph_outputs g = sig_outputs sig))"

lemma calls_lowerable_weaken:
  assumes "calls_lowerable C E' K" "env_lookup E \<subseteq>\<^sub>m env_lookup E'"
  shows "calls_lowerable C E K"
  unfolding calls_lowerable_def
proof (clarify)
  fix op args tys
  assume K: "(op, args) \<in> K" and "list_all2 (\<lambda>a t. has_types C E a [t]) args tys"
  then have "list_all2 (\<lambda>a t. has_types C E' a [t]) args tys"
    using has_types_weaken [OF _ assms(2)] by (auto intro: list_all2_mono)
  with K assms(1) show "lowerable_call op tys" unfolding calls_lowerable_def by blast
qed

lemma wt_lets_env:
  "wt_lets C E bs tbs E' \<Longrightarrow> distinct (let_bound bs) \<Longrightarrow> set (let_bound bs) \<inter> fst ` set E = {} \<Longrightarrow>
     env_lookup E \<subseteq>\<^sub>m env_lookup E'"
proof (induction rule: wt_lets.induct)
  case (WCons E b tys bs tbs E')
  have "env_lookup E \<subseteq>\<^sub>m env_lookup (push_bindings E (let_names b) tys)"
    using WCons.prems by (intro env_lookup_push_fresh) auto
  moreover have "env_lookup (push_bindings E (let_names b) tys) \<subseteq>\<^sub>m env_lookup E'"
    by (rule WCons.IH) (use WCons.prems WCons.hyps(2) in \<open>auto simp: names_push\<close>)
  ultimately show ?case by (rule map_le_trans)
qed simp

section \<open>Let bindings\<close>

definition lower_let :: "'f f64_ops \<Rightarrow> nat \<Rightarrow> typed_let \<Rightarrow> overwritten \<Rightarrow> overwritten lower" where
  "lower_let F d b overwritten =
     sbind (lower_let_values F d (value_kind (tlet_value b))) (\<lambda>values'.
     bind_values (tlet_names b) values' overwritten)"

lemma lower_let_ok:
  fixes C :: "'f checker"
  assumes v: "values_build F R d C E N U (let_value b)" "has_types C E (let_value b) tys"
    and n: "length (let_names b) = length tys" "set (let_names b) \<inter> fst ` set E = {}"
    and s: "scope_good R d C E N U s"
  defines "tb \<equiv> \<lparr>tlet_names = let_names b, tlet_value = \<lparr>value_kind = let_value b, value_tys = tys\<rparr>\<rparr>"
  shows "case lower_let F d tb ov s of
      Inl e \<Rightarrow> soft_error e
    | Inr (ov', s') \<Rightarrow> scope_good R d C (push_bindings E (let_names b) tys) N U s' \<and> scope_kept s s' \<and>
        main_ty s \<subseteq>\<^sub>m main_ty s' \<and> restore_values ov' (bound_values s') = restore_values ov (bound_values s)"
proof -
  have ok: "scope_builds R d C E N U {} (lower_let_values F d (let_value b)) typings_of (\<lambda>vs. list_all2 has_ty tys vs)"
    by (rule values_buildD [OF v])
  show ?thesis
  proof (cases "lower_let_values F d (let_value b) s")
    case (Inl e)
    with step_okD(1) [OF ok s _ Inl] show ?thesis by (simp add: lower_let_def tb_def sbind_def)
  next
    case (Inr p)
    obtain vs s1 where p: "lower_let_values F d (let_value b) s = Inr (vs, s1)" using Inr by (cases p) simp
    note 1 = step_okD(2) [OF ok s _ p, simplified]
    then have "list_all2 (live s1) tys vs" by (simp add: lives_iff)
    from bind_values_ok [OF _ this n] 1 obtain ov' s2 where
        2: "bind_values (let_names b) vs ov s1 = Inr (ov', s2)"
          "scope_good R d C (push_bindings E (let_names b) tys) N U s2" "scope_kept s1 s2" "main_ty s2 = main_ty s1"
          "restore_values ov' (bound_values s2) = restore_values ov (bound_values s1)" by blast
    with 1 p scope_kept_trans [of s s1 s2] show ?thesis
      by (simp add: lower_let_def tb_def sbind_def frame_def)
  qed
qed

lemma lower_lets_ok:
  fixes C :: "'f checker"
  assumes inl: "inlines F R (ck_signatures C) d" and F: "ck_ops C = F" and N: "consistent N" "consistent U"
  shows "wt_lets C E bs tbs E' \<Longrightarrow> distinct (let_bound bs) \<Longrightarrow> set (let_bound bs) \<inter> fst ` set E = {} \<Longrightarrow>
    (\<And>b. b \<in> set bs \<Longrightarrow> supported C E' N U (let_value b)) \<Longrightarrow> scope_good R d C E N U s \<Longrightarrow>
    (case sfold (lower_let F d) tbs ov s of
       Inl e \<Rightarrow> soft_error e
     | Inr (ov', s') \<Rightarrow> scope_good R d C E' N U s' \<and> scope_kept s s' \<and> main_ty s \<subseteq>\<^sub>m main_ty s' \<and>
         restore_values ov' (bound_values s') = restore_values ov (bound_values s))"
proof (induction arbitrary: ov s rule: wt_lets.induct)
  case (WNil E)
  then show ?case by (simp add: sreturn_def scope_kept_refl)
next
  case (WCons E b tys bs tbs E')
  let ?E = "push_bindings E (let_names b) tys"
  let ?tb = "\<lparr>tlet_names = let_names b, tlet_value = \<lparr>value_kind = let_value b, value_tys = tys\<rparr>\<rparr>"
  have fresh: "set (let_names b) \<inter> fst ` set E = {}" using WCons.prems by auto
  have rest: "distinct (let_bound bs)" "set (let_bound bs) \<inter> fst ` set ?E = {}"
    using WCons.prems WCons.hyps(2) by (auto simp: names_push)
  have "env_lookup E \<subseteq>\<^sub>m env_lookup E'"
    using wt_lets_env [OF wt_lets.WCons [OF WCons.hyps]] WCons.prems by simp
  then have "supported C E N U (let_value b)"
    using WCons.prems(3) [of b] calls_lowerable_weaken by (auto simp: supported_def)
  then have v: "values_build F R d C E N U (let_value b)" using expressions_ok [OF inl F N] by blast
  note step = lower_let_ok [OF v WCons.hyps(1,2) fresh WCons.prems(4), of ov]
  show ?case
  proof (cases "lower_let F d ?tb ov s")
    case (Inl e)
    with step show ?thesis by (simp add: sbind_def)
  next
    case (Inr p)
    obtain ov1 s1 where p: "lower_let F d ?tb ov s = Inr (ov1, s1)" using Inr by (cases p) simp
    with step have 1: "scope_good R d C ?E N U s1" "scope_kept s s1" "main_ty s \<subseteq>\<^sub>m main_ty s1"
        "restore_values ov1 (bound_values s1) = restore_values ov (bound_values s)" by simp_all
    from WCons.IH [OF rest WCons.prems(3) 1(1), of ov1] p 1 scope_kept_trans [of s s1] map_le_trans [of "main_ty s" "main_ty s1"]
    show ?thesis by (auto simp: sbind_def split: sum.splits)
  qed
qed

section \<open>Outputs\<close>

lemma output_value_ok:
  assumes v: "vin \<Gamma> v" and ty: "has_ty ty v"
  shows "builds \<Gamma> (output_value v ty) typing_of (is_value ty Tensor)"
proof (cases "val_kind v")
  case Scalar
  with ty have "rank ty = 0" "elem (val_ty v) = elem ty" "element_count (val_ty v) = 1"
    using kind_ok_count [of v] by (auto simp: has_ty_def kind_ok_def)
  with Scalar ty splat_ok [OF v] show ?thesis by (simp add: output_value_def has_ty_def)
next
  case Tensor
  with v ty show ?thesis
    by (auto simp: output_value_def has_ty_def is_value_def vin_def intro!: main.ok_return)
qed

lemma outputs_ok:
  fixes C :: "'f checker"
  assumes inl: "inlines F R (ck_signatures C) d" and F: "ck_ops C = F" and N: "consistent N" "consistent U"
    and es: "list_all2 (\<lambda>e t. has_types C E e [t]) es ts" "\<forall>e \<in> set es. supported C E N U e"
  shows "scope_builds R d C E N U \<Gamma> (lower_outputs (lower_expr F d) (annotate_body es ts) ts) typings_of
           (\<lambda>vs. list_all2 (\<lambda>t v. is_value t Tensor v) ts vs)"
proof -
  have len: "length es = length ts" using es(1) by (rule list_all2_lengthD)
  let ?f = "\<lambda>(e, output). sbind (lower_expr F d (expr_kind e)) (\<lambda>v. output_value v output)"
  let ?xs = "zip (annotate_body es ts) ts"
  have "scope_builds R d C E N U \<Gamma> (smap ?f ?xs) (\<lambda>vs. \<Union>(typing_of ` set vs))
      (\<lambda>vs. length vs = length ?xs \<and> (\<forall>i < length ?xs. is_value (ts ! i) Tensor (vs ! i)))"
  proof (rule scope.ok_smap)
    fix i x
    assume i: "i < length ?xs" "x = ?xs ! i"
    then have "has_types C E (es ! i) [ts ! i]" "es ! i \<in> set es" using es(1) len by (auto simp: list_all2_conv_all_nth)
    with expressions_ok [OF inl F N] es(2)
    have e: "scope_builds R d C E N U \<Gamma> (lower_expr F d (es ! i)) typing_of (has_ty (ts ! i))"
      by (auto intro: expr_buildsD)
    have "scope_builds R d C E N U \<Gamma> (sbind (lower_expr F d (es ! i)) (\<lambda>v. output_value v (ts ! i))) typing_of
        (is_value (ts ! i) Tensor)"
      by (rule scope.ok_bind [OF e], rule builds_in_scope, rule output_value_ok [OF vin_has_ty])
    then show "scope_builds R d C E N U \<Gamma> (?f x) typing_of (is_value (ts ! i) Tensor)"
      using i len by simp
  qed
  then have "scope_builds R d C E N U \<Gamma> (smap ?f ?xs) typings_of (\<lambda>vs. list_all2 (\<lambda>t v. is_value t Tensor v) ts vs)"
    by (rule step_ok_weaken) (use len in \<open>auto simp: typings_of_def list_all2_conv_all_nth\<close>)
  then show ?thesis using len by (simp add: lower_outputs_def)
qed

section \<open>Inlined calls\<close>

text \<open>The state in which the body of an inlined graph starts.\<close>

definition inline_start :: "string \<Rightarrow> (string \<times> lvalue) list \<Rightarrow> lowerer \<Rightarrow> lowerer" where
  "inline_start name inputs s =
     s\<lparr>call_stack := call_stack s @ [name], next_tuple_scope := next_tuple_scope s + 1,
       tuple_scope_stack := tuple_scope_stack s @ [next_tuple_scope s],
       bound_values := bound_values s ++ map_of (rev inputs)\<rparr>"

lemma env_from_inputs_push:
  "env_from_inputs ins = push_bindings [] (map input_name ins) (map input_ty ins)"
  by (induction ins) (simp_all add: env_from_inputs_def push_bindings_def)

lemma depth_left_enter:
  assumes "depth_left (Suc d) s" "name \<in> dom (graphs_of s)" "name \<notin> set (call_stack s)"
  shows "depth_left d (inline_start name inputs s)"
proof -
  let ?A = "dom (graphs_of s) - set (call_stack s)"
  have eq: "dom (graphs_of s) - set (call_stack s @ [name]) = ?A - {name}" by auto
  have "name \<in> ?A" "finite ?A" "card ?A \<le> Suc d" using assms by (simp_all add: depth_left_def)
  then have "card (?A - {name}) \<le> d" by (simp add: card_Diff_singleton)
  then have "card (dom (graphs_of s) - set (call_stack s @ [name])) \<le> d" by (simp only: eq)
  with assms(1) show ?thesis by (simp add: depth_left_def inline_start_def del: set_append)
qed

lemma inline_start_good:
  fixes C :: "'f checker"
  assumes s: "scope_good R (Suc d) C E N U s" and name: "R name = Some tg" "name \<notin> set (call_stack s)"
    and vs: "list_all2 (live s) (map input_ty ins) vs"
  shows "scope_good R d C' (env_from_inputs ins) N' U' (inline_start name (zip (map input_name ins) vs) s)"
proof -
  let ?s = "inline_start name (zip (map input_name ins) vs) s"
  have s': "main_good s" "graphs_of s = R" "depth_left (Suc d) s" "scopes_good s" using s by (simp_all add: scope_good_def)
  have "depth_left d ?s" by (rule depth_left_enter [OF s'(3) _ name(2)]) (use s' name in auto)
  moreover have "bindings_live (env_from_inputs ins) ?s"
    unfolding env_from_inputs_push
    using pushed_bindings_live [of "[]" s "map input_ty ins" vs "map input_name ins", OF _ vs]
    by (simp add: bindings_live_def env_lookup_def inline_start_def live_def main_ty_def)
  moreover have "scopes_good ?s" "nodes_live C' (env_from_inputs ins) N' ?s" "tuples_live C' (env_from_inputs ins) U' ?s"
    using s'(4) by (simp_all add: scopes_good_def nodes_live_def tuples_live_def inline_start_def)
  moreover have "main_good ?s" "graphs_of ?s = R" using s' by (simp_all add: main_good_def inline_start_def)
  ultimately show ?thesis by (simp add: scope_good_def)
qed

text \<open>Leaving the scope, with the shadowed values back, changes nothing but the block.\<close>

definition inline_end :: "nat \<Rightarrow> overwritten \<Rightarrow> lowerer \<Rightarrow> lowerer" where
  "inline_end scope ov s =
     s\<lparr>bound_values := restore_values ov (bound_values s), node_values := outside_scope scope (node_values s),
       tuple_values := outside_scope scope (tuple_values s), tuple_scope_stack := butlast (tuple_scope_stack s),
       call_stack := butlast (call_stack s)\<rparr>"

lemma in_scope_run:
  "in_scope name inputs compute s =
     (case sfold insert_value inputs [] (s\<lparr>call_stack := call_stack s @ [name],
             next_tuple_scope := next_tuple_scope s + 1,
             tuple_scope_stack := tuple_scope_stack s @ [next_tuple_scope s]\<rparr>) of
        Inl e \<Rightarrow> Inl e
      | Inr (ov, s1) \<Rightarrow>
          (case compute ov s1 of
             Inl e \<Rightarrow> Inl e
           | Inr ((r, ov'), s2) \<Rightarrow> Inr (r, inline_end (next_tuple_scope s) ov' s2)))"
  by (simp add: in_scope_def push_inline_scope_def pop_inline_scope_def sbind_def sget_def supdate_def sreturn_def
      inline_end_def split: sum.split prod.split)

lemma inline_end_good:
  assumes s: "scope_good R d C E N U s" and ends: "main_good s'" "main_ty s \<subseteq>\<^sub>m main_ty s'"
    and kept: "scope_kept (inline_start name inputs s) s'"
    and restored: "restore_values ov (bound_values s') = bound_values s"
  shows "scope_good R d C E N U (inline_end (next_tuple_scope s) ov s')"
    and "frame s (inline_end (next_tuple_scope s) ov s')"
    and "main_ty (inline_end (next_tuple_scope s) ov s') = main_ty s'"
    and "inline_end (next_tuple_scope s) ov s' = s\<lparr>main_block := main_block s', next_tuple_scope := next_tuple_scope s'\<rparr>"
proof -
  let ?n = "next_tuple_scope s" and ?s = "inline_end (next_tuple_scope s) ov s'"
  have k: "graphs_of s' = graphs_of s" "call_stack s' = call_stack s @ [name]"
      "tuple_scope_stack s' = tuple_scope_stack s @ [?n]" "?n + 1 \<le> next_tuple_scope s'" "context_of s' = context_of s"
      "same_args (main_block s) (main_block s')"
    using kept by (simp_all add: scope_kept_def inline_start_def)
  have others: "node_values s' (k, i) = node_values s (k, i)" "tuple_values s' (k, i) = tuple_values s (k, i)" if "k \<noteq> ?n" for k i
    using kept that by (simp_all add: scope_kept_def other_scopes_kept_def inline_start_def)
  have unused: "node_values s (?n, i) = None" "tuple_values s (?n, i) = None" for i
    using s by (simp_all add: scope_good_def scopes_good_def)
  have caches: "node_values ?s = node_values s" "tuple_values ?s = tuple_values s"
    using others unused by (auto simp: inline_end_def outside_scope_def fun_eq_iff)
  show ty: "main_ty ?s = main_ty s'" by (simp add: main_ty_def inline_end_def)
  have same: "graphs_of ?s = graphs_of s" "call_stack ?s = call_stack s" "tuple_scope_stack ?s = tuple_scope_stack s"
      "?n \<le> next_tuple_scope ?s" "bound_values ?s = bound_values s" "context_of ?s = context_of s" "main_block ?s = main_block s'"
    using k restored by (simp_all add: inline_end_def)
  show "scope_good R d C E N U ?s"
    by (rule scope_good_later [OF s]) (use ends ty same caches in \<open>simp_all add: main_good_def\<close>)
  show "frame s ?s"
    using same caches k by (simp add: frame_def scope_kept_def other_scopes_kept_def)
  have "next_tuple_scope ?s = next_tuple_scope s'" by (simp add: inline_end_def)
  then show "?s = s\<lparr>main_block := main_block s', next_tuple_scope := next_tuple_scope s'\<rparr>"
    using same caches by simp
qed

lemma inline_target_cases:
  assumes "R name = Some tg" "length (tg_inputs tg) = n" "graphs_of s = R"
  shows "inline_target name n s = (if name \<in> set (call_stack s) then Inl (LowerError RecursiveLowering) else Inr (tg, s))"
  using assms by (simp add: inline_target_def sbind_def sget_def sfail_def sreturn_def)

text \<open>Unfolding an inlined call.\<close>

definition inline_body :: "'f f64_ops \<Rightarrow> nat \<Rightarrow> typed_graph \<Rightarrow> overwritten \<Rightarrow> (lvalue list \<times> overwritten) lower" where
  "inline_body F d tg overwritten =
     sbind (sfold (lower_let F d) (tg_lets tg) overwritten) (\<lambda>overwritten'.
     sbind (lower_outputs (lower_expr F d) (tg_body tg) (tg_outputs tg)) (\<lambda>outputs.
     sreturn (outputs, overwritten')))"

lemma inline_graph_values_Suc:
  "inline_graph_values F (Suc d) name vs =
     sbind (inline_target name (length vs)) (\<lambda>tg.
     in_scope name (zip (map input_name (tg_inputs tg)) vs) (inline_body F d tg))"
  by (simp add: inline_body_def [abs_def] lower_let_def [abs_def])

lemma inline_body_ok:
  assumes inl: "inlines F R sigs d" and tg: "typed_as F g sigs tg" "lowerable_graph F sigs g"
    and s: "scope_good R d (graph_checker F g sigs) (env_from_inputs (graph_inputs g)) (graph_nodes g) (graph_tuples g) s"
  shows "case inline_body F d tg ov s of
      Inl e \<Rightarrow> soft_error e
    | Inr ((vs, ov'), s') \<Rightarrow> main_good s' \<and> scope_kept s s' \<and> main_ty s \<subseteq>\<^sub>m main_ty s' \<and>
        restore_values ov' (bound_values s') = restore_values ov (bound_values s) \<and>
        typings_hold (main_ty s') (typings_of vs) \<and> list_all2 (\<lambda>t v. is_value t Tensor v) (graph_outputs g) vs"
proof -
  let ?C = "graph_checker F g sigs" and ?N = "graph_nodes g" and ?U = "graph_tuples g"
  from tg(1) obtain E tlets where
      lets: "wt_lets ?C (env_from_inputs (graph_inputs g)) (graph_lets g) tlets E"
    and body: "list_all2 (\<lambda>e t. has_types ?C E e [t]) (graph_body g) (graph_outputs g)"
    and tg': "tg_lets tg = tlets" "tg_outputs tg = graph_outputs g" "tg_body tg = annotate_body (graph_body g) (graph_outputs g)"
    by (auto simp: typed_as_def)
  have N: "consistent ?N" "consistent ?U" and calls: "calls_lowerable ?C E (graph_calls g)"
    using tg(2) lets by (auto simp: lowerable_graph_def)
  have names: "distinct (let_bound (graph_lets g))" "set (let_bound (graph_lets g)) \<inter> fst ` set (env_from_inputs (graph_inputs g)) = {}"
    using tg(2) by (auto simp: lowerable_graph_def bound_names_def env_from_inputs_names)
  have sup_lets: "supported ?C E ?N ?U (let_value b)" if "b \<in> set (graph_lets g)" for b
    using that calls by (auto simp: supported_def graph_nodes_def let_nodes_def graph_tuples_def graph_calls_def calls_lowerable_def)
  have sup_body: "\<forall>e \<in> set (graph_body g). supported ?C E ?N ?U e"
    using calls by (auto simp: supported_def graph_nodes_def graph_tuples_def graph_calls_def calls_lowerable_def)
  have inl': "inlines F R (ck_signatures ?C) d" and F: "ck_ops ?C = F" using inl by simp_all
  note run = lower_lets_ok [OF inl' F N lets names sup_lets s, of ov]
  show ?thesis
  proof (cases "sfold (lower_let F d) tlets ov s")
    case (Inl e)
    with run show ?thesis by (simp add: inline_body_def tg' sbind_def)
  next
    case (Inr p)
    obtain ov1 s1 where p: "sfold (lower_let F d) tlets ov s = Inr (ov1, s1)" using Inr by (cases p) simp
    with run have 1: "scope_good R d ?C E ?N ?U s1" "scope_kept s s1" "main_ty s \<subseteq>\<^sub>m main_ty s1"
        "restore_values ov1 (bound_values s1) = restore_values ov (bound_values s)" by simp_all
    note outs = outputs_ok [OF inl' F N body sup_body, where \<Gamma> = "{}"]
    show ?thesis
    proof (cases "lower_outputs (lower_expr F d) (tg_body tg) (tg_outputs tg) s1")
      case (Inl e)
      with p step_okD(1) [OF outs 1(1)] show ?thesis by (simp add: inline_body_def tg' sbind_def)
    next
      case (Inr q)
      obtain vs s2 where q: "lower_outputs (lower_expr F d) (tg_body tg) (tg_outputs tg) s1 = Inr (vs, s2)"
        using Inr by (cases q) simp
      note 2 = step_okD(2) [OF outs 1(1) _ q [unfolded tg'], simplified]
      then have "scope_kept s s2" "main_ty s \<subseteq>\<^sub>m main_ty s2" "main_good s2" "bound_values s2 = bound_values s1"
        using 1 scope_kept_trans [of s s1 s2] map_le_trans [of "main_ty s" "main_ty s1" "main_ty s2"]
        by (simp_all add: frame_def scope_good_def)
      with 1 2 p q show ?thesis by (simp add: inline_body_def tg' sbind_def sreturn_def)
    qed
  qed
qed

lemma values_have_types:
  "list_all2 (\<lambda>t v. is_value t Tensor v) ts vs \<Longrightarrow> list_all2 has_ty ts vs"
  by (erule list_all2_mono) (simp add: is_value_def has_ty_def kind_ok_def)

text \<open>An inlined call leaves only operations behind, and scope numbers that were used.\<close>

lemma inline_call_ok:
  fixes F :: "'f f64_ops" and C :: "'f checker"
  assumes inl: "inlines F R sigs d" and reg: "registry_typed F sigs R"
    and sig: "find_signature sigs name = Some sig" and ops: "operands \<Gamma> (sig_inputs sig) vs"
    and s: "scope_good R (Suc d) C E N U s" "typings_hold (main_ty s) \<Gamma>"
  shows "case inline_graph_values F (Suc d) name vs s of
      Inl e \<Rightarrow> soft_error e
    | Inr (r, s') \<Rightarrow> scope_good R (Suc d) C E N U s' \<and> frame s s' \<and> main_ty s \<subseteq>\<^sub>m main_ty s' \<and>
        typings_hold (main_ty s') (typings_of r) \<and> list_all2 has_ty (sig_outputs sig) r \<and>
        s' = s\<lparr>main_block := main_block s', next_tuple_scope := next_tuple_scope s'\<rparr>"
proof -
  from reg sig obtain g tg where
      tg: "R name = Some tg" "typed_as F g sigs tg" "lowerable_graph F sigs g"
        "map input_ty (graph_inputs g) = sig_inputs sig" "graph_outputs g = sig_outputs sig"
    unfolding registry_typed_def by blast
  have inputs: "tg_inputs tg = graph_inputs g" using tg(2) by (auto simp: typed_as_def)
  have R: "graphs_of s = R" using s(1) by (simp add: scope_good_def)
  have "list_all2 (\<lambda>t v. val_ty v = t \<and> vin \<Gamma> v) (sig_inputs sig) vs" using ops by (simp add: operands_def)
  then have live: "list_all2 (live s) (map input_ty (graph_inputs g)) vs"
    unfolding tg(4)
    by (rule list_all2_mono) (use s(2) in \<open>auto simp: live_def has_ty_def vin_def intro: typings_hold_subset\<close>)
  have "length (map input_ty (graph_inputs g)) = length vs" by (rule list_all2_lengthD [OF live])
  then have arity: "length (tg_inputs tg) = length vs" by (simp add: inputs)
  show ?thesis
  proof (cases "name \<in> set (call_stack s)")
    case True
    then show ?thesis
      unfolding inline_graph_values_Suc by (simp add: sbind_def inline_target_cases [OF tg(1) arity R])
  next
    case False
    let ?binds = "zip (map input_name (graph_inputs g)) vs"
    let ?pushed = "s\<lparr>call_stack := call_stack s @ [name], next_tuple_scope := next_tuple_scope s + 1,
        tuple_scope_stack := tuple_scope_stack s @ [next_tuple_scope s]\<rparr>"
    let ?start = "inline_start name ?binds s"
    have start: "scope_good R d (graph_checker F g sigs) (env_from_inputs (graph_inputs g)) (graph_nodes g) (graph_tuples g) ?start"
      by (rule inline_start_good [OF s(1) tg(1) False live])
    obtain ov where ov: "sfold insert_value ?binds [] ?pushed = Inr (ov, ?start)"
        "restore_values ov (bound_values ?start) = bound_values s"
      using insert_values_run [of ?binds "[]" ?pushed] by (auto simp: inline_start_def restore_values_def)
    have run: "inline_graph_values F (Suc d) name vs s =
        (case inline_body F d tg ov ?start of
           Inl e \<Rightarrow> Inl e
         | Inr ((r, ov'), s2) \<Rightarrow> Inr (r, inline_end (next_tuple_scope s) ov' s2))"
      unfolding inline_graph_values_Suc
      by (simp add: sbind_def inline_target_cases [OF tg(1) arity R] False in_scope_run ov(1) [simplified] inputs)
    note body = inline_body_ok [OF inl tg(2,3) start, of ov]
    show ?thesis
    proof (cases "inline_body F d tg ov ?start")
      case (Inl e)
      with body show ?thesis unfolding run by simp
    next
      case (Inr p)
      obtain r ov' s2 where p: "inline_body F d tg ov ?start = Inr ((r, ov'), s2)" using Inr by (cases p) auto
      with body ov(2) have 2: "main_good s2" "scope_kept ?start s2" "main_ty ?start \<subseteq>\<^sub>m main_ty s2"
          "restore_values ov' (bound_values s2) = bound_values s" "typings_hold (main_ty s2) (typings_of r)"
          "list_all2 (\<lambda>t v. is_value t Tensor v) (graph_outputs g) r" by simp_all
      have "main_ty s \<subseteq>\<^sub>m main_ty s2" using 2(3) by (simp add: inline_start_def main_ty_def)
      with inline_end_good [OF s(1) 2(1) _ 2(2,4)] 2 p values_have_types [OF 2(6)] tg(5)
      show ?thesis unfolding run by (simp add: inline_end_def)
    qed
  qed
qed

lemma inlines_Suc:
  assumes "inlines F R sigs d" "registry_typed F sigs R"
  shows "inlines F R sigs (Suc d)"
  unfolding inlines_def step_ok_def
  using inline_call_ok [OF assms] by (fastforce split: sum.splits prod.splits)

text \<open>When every graph of the registry is being inlined, a call is recursive.\<close>

lemma inlines_0:
  fixes F :: "'f f64_ops"
  assumes reg: "registry_typed F sigs R"
  shows "inlines F R sigs 0"
  unfolding inlines_def step_ok_def
proof (intro allI impI)
  fix C :: "'f checker" and E N U \<Gamma> name sig vs and s :: lowerer
  assume sig: "find_signature sigs name = Some sig" and s: "scope_good R 0 C E N U s"
  from reg sig have "name \<in> dom R" unfolding registry_typed_def by blast
  moreover have "graphs_of s = R" "depth_left 0 s" using s by (simp_all add: scope_good_def)
  then have "finite (dom R)" "card (dom R - set (call_stack s)) = 0" by (simp_all add: depth_left_def)
  then have "dom R \<subseteq> set (call_stack s)" by simp
  ultimately have "name \<in> set (call_stack s)" by blast
  then show "case inline_graph_values F 0 name vs s of
      Inl e \<Rightarrow> soft_error e
    | Inr (r, s') \<Rightarrow> scope_good R 0 C E N U s' \<and> frame s s' \<and> main_ty s \<subseteq>\<^sub>m main_ty s' \<and>
        typings_hold (main_ty s') (typings_of r) \<and> list_all2 has_ty (sig_outputs sig) r"
    by (simp add: inline_target_def sbind_def sget_def sfail_def)
qed

lemma graphs_inline: "registry_typed F sigs R \<Longrightarrow> inlines F R sigs d"
  by (induction d) (auto intro: inlines_0 inlines_Suc)

section \<open>Functions\<close>

lemma sbind_assoc: "sbind (sbind m f) h = sbind m (\<lambda>x. sbind (f x) h)"
  by (auto simp: sbind_def split: sum.split)

text \<open>The values that bindings shadow do not matter for the state.\<close>

lemma bind_values_forget:
  "sbind (bind_values names vs ov) (\<lambda>_. sreturn ()) = sbind (bind_values names vs []) (\<lambda>_. sreturn ())"
proof
  fix s
  obtain ov1 ov2 where
      "sfold insert_value (zip names vs) ov s = Inr (ov1, s\<lparr>bound_values := bound_values s ++ map_of (rev (zip names vs))\<rparr>)"
      "sfold insert_value (zip names vs) [] s = Inr (ov2, s\<lparr>bound_values := bound_values s ++ map_of (rev (zip names vs))\<rparr>)"
    using insert_values_run by blast
  then show "sbind (bind_values names vs ov) (\<lambda>_. sreturn ()) s = sbind (bind_values names vs []) (\<lambda>_. sreturn ()) s"
    by (simp add: bind_values_def sbind_def sfail_def sreturn_def)
qed

abbreviation lower_lets_alone :: "'f f64_ops \<Rightarrow> nat \<Rightarrow> typed_let list \<Rightarrow> unit lower" where
  "lower_lets_alone F d tbs \<equiv>
     sfold (\<lambda>b _. sbind (lower_let_values F d (value_kind (tlet_value b))) (\<lambda>values'.
                  sbind (bind_values (tlet_names b) values' []) (\<lambda>_. sreturn ()))) tbs ()"

lemma lower_lets_forget:
  "sbind (sfold (lower_let F d) tbs ov) (\<lambda>_. sreturn ()) = lower_lets_alone F d tbs"
proof (induction tbs arbitrary: ov)
  case (Cons b tbs)
  have "sbind (sfold (lower_let F d) (b # tbs) ov) (\<lambda>_. sreturn ()) =
      sbind (lower_let F d b ov) (\<lambda>_. lower_lets_alone F d tbs)"
    by (simp add: sbind_assoc Cons.IH)
  also have "\<dots> = sbind (sbind (lower_let F d b ov) (\<lambda>_. sreturn ())) (\<lambda>_. lower_lets_alone F d tbs)"
    by (simp add: sbind_assoc)
  also have "sbind (lower_let F d b ov) (\<lambda>_. sreturn ()) =
      sbind (lower_let_values F d (value_kind (tlet_value b))) (\<lambda>values'.
      sbind (bind_values (tlet_names b) values' []) (\<lambda>_. sreturn ()))"
    unfolding lower_let_def sbind_assoc bind_values_forget [of _ _ ov] ..
  finally show ?case by simp
qed simp

definition finish_function :: "typed_graph \<Rightarrow> lvalue list \<Rightarrow> mlir_func lower" where
  "finish_function g body =
     sbind (append_op_with_built_attrs ''func.return'' (map raw_of body) [] [] []) (\<lambda>_.
     with_context (\<lambda>ctx.
     sbind (smap (\<lambda>i. mlir_tensor_type ctx (input_ty i)) (tg_inputs g)) (\<lambda>input_types.
     sbind (smap (mlir_tensor_type ctx) (tg_outputs g)) (\<lambda>output_types.
     sbind sget (\<lambda>s.
     sreturn \<lparr>func_name = tg_name g, func_inputs = input_types, func_outputs = output_types,
              func_block = main_block s\<rparr>)))))"

lemma lower_graph_body:
  "lower_graph F d g = sbind (inline_body F d g []) (\<lambda>(body, _). finish_function g body)"
proof -
  have "sbind (inline_body F d g []) (\<lambda>(body, _). finish_function g body) =
      sbind (sbind (sfold (lower_let F d) (tg_lets g) []) (\<lambda>_. sreturn ())) (\<lambda>_.
      sbind (lower_outputs (lower_expr F d) (tg_body g) (tg_outputs g)) (finish_function g))"
    by (simp add: inline_body_def sbind_assoc)
  then show ?thesis unfolding lower_lets_forget by (simp add: lower_graph_def finish_function_def [abs_def])
qed

lemma tensor_types_run:
  "smap (\<lambda>x. mlir_tensor_type ctx (f x)) xs s =
     (if \<forall>x \<in> set xs. parses_type ctx (mlir_type (f x)) then Inr (map (\<lambda>x. MTensor (f x)) xs, s)
      else Inl (LowerError ParseTensorType))"
  by (induction xs) (auto simp: mlir_tensor_type_def sbind_def sreturn_def sfail_def)

lemma finish_function_ok:
  assumes s: "main_good s" "block_args (main_block s) = map (MTensor \<circ> input_ty) (tg_inputs g)"
    and body: "typings_hold (main_ty s) (typings_of vs)" "list_all2 (\<lambda>t v. is_value t Tensor v) (tg_outputs g) vs"
  shows "case finish_function g vs s of
      Inl e \<Rightarrow> soft_error e
    | Inr (f, s') \<Rightarrow> func_fits f \<and> func_name f = tg_name g \<and> func_inputs f = map (MTensor \<circ> input_ty) (tg_inputs g) \<and>
        func_outputs f = map MTensor (tg_outputs g)"
proof -
  let ?op = "MOp ''func.return'' (map raw_of vs) [] [] []"
  let ?b = "(main_block s)\<lparr>block_ops := block_ops (main_block s) @ [?op]\<rparr>"
  have ret: "append_op_with_built_attrs ''func.return'' (map raw_of vs) [] [] [] s = Inr ([], s\<lparr>main_block := ?b\<rparr>)"
    by (simp add: append_op_with_built_attrs_def on_block_def append_operation_def)
  have ops: "operands_typed (main_ty s) (map raw_of vs) (map MTensor (tg_outputs g))"
    using body(2,1) unfolding operands_typed_def
    by (induction rule: list_all2_induct) (auto simp: typing_of_def value_ty_def is_value_def)
  have "op_fits (main_ty s) ?op"
    unfolding op_fits_def
    by (intro exI [of _ "map MTensor (tg_outputs g)"]) (simp add: ops op_typings regions_fit_def)
  then have "block_fits op_fits block_ty ?b"
    using s(1) by (intro block_fits_append) (simp_all add: main_good_def body_good_def main_ty_def)
  moreover have "operands_typed (block_ty ?b) (map raw_of vs) (map MTensor (tg_outputs g))"
    using ops block_ty_append unfolding main_ty_def by (rule operands_typed_mono)
  ultimately have "func_fits \<lparr>func_name = tg_name g, func_inputs = map (\<lambda>i. MTensor (input_ty i)) (tg_inputs g),
      func_outputs = map MTensor (tg_outputs g), func_block = ?b\<rparr>"
    using s by (simp add: func_fits_def main_good_def body_good_def comp_def)
  moreover have "finish_function g vs s =
      (if (\<forall>i \<in> set (tg_inputs g). parses_type (context_of s) (mlir_type (input_ty i))) \<and>
          (\<forall>t \<in> set (tg_outputs g). parses_type (context_of s) (mlir_type t))
       then Inr (\<lparr>func_name = tg_name g, func_inputs = map (\<lambda>i. MTensor (input_ty i)) (tg_inputs g),
                  func_outputs = map MTensor (tg_outputs g), func_block = ?b\<rparr>, s\<lparr>main_block := ?b\<rparr>)
       else Inl (LowerError ParseTensorType))"
    unfolding finish_function_def sbind_def ret with_context_def
    by (simp add: tensor_types_run tensor_types_run [where f = "\<lambda>x. x", simplified] sget_def sreturn_def)
  ultimately show ?thesis by (simp add: comp_def)
qed

section \<open>Whole graphs\<close>

lemma lowerer_new_run:
  "lowerer_new ctx g R =
     (if \<forall>i \<in> set (tg_inputs g). parses_type ctx (mlir_type (input_ty i))
      then Inr \<lparr>context_of = ctx,
          main_block = \<lparr>in_region = False, block_args = map (MTensor \<circ> input_ty) (tg_inputs g), block_ops = []\<rparr>,
          graphs_of = R, call_stack = [tg_name g], tuple_scope_stack = [0], next_tuple_scope = 1,
          bound_values = map_of (rev (map (\<lambda>(k, i). (input_name i, value_tensor (BlockArg k) (input_ty i)))
                                          (enumerate 0 (tg_inputs g)))),
          node_values = Map.empty, tuple_values = Map.empty\<rparr>
      else Inl (LowerError ParseTensorType))"
  by (simp add: lowerer_new_def tensor_types_run comp_def)

text \<open>The block's arguments are the values of the inputs.\<close>

lemma arguments_bound:
  assumes "bound_values s = map_of (rev (map (\<lambda>(k, i). (input_name i, value_tensor (BlockArg k) (input_ty i))) (enumerate 0 ins)))"
    and "block_args (main_block s) = map (MTensor \<circ> input_ty) ins" "\<not> in_region (main_block s)"
  shows "bindings_live (env_from_inputs ins) s"
proof -
  let ?vs = "map (\<lambda>(k, i). value_tensor (BlockArg k) (input_ty i)) (enumerate 0 ins)"
  let ?s = "s\<lparr>bound_values := Map.empty\<rparr>"
  have zip: "map (\<lambda>(k, i). (input_name i, value_tensor (BlockArg k) (input_ty i))) (enumerate 0 ins) =
      zip (map input_name ins) ?vs"
    by (auto simp: list_eq_iff_nth_eq nth_enumerate_eq)
  have "list_all2 (live ?s) (map input_ty ins) ?vs"
    using assms(2,3)
    by (auto simp: list_all2_conv_all_nth nth_enumerate_eq live_def has_ty_def kind_ok_def typing_of_def value_ty_def main_ty_def)
  from pushed_bindings_live [OF _ this, of "[]" "map input_name ins"]
  have "bindings_live (env_from_inputs ins) (?s\<lparr>bound_values := map_of (rev (zip (map input_name ins) ?vs))\<rparr>)"
    by (simp add: bindings_live_def env_lookup_def env_from_inputs_push)
  moreover have "?s\<lparr>bound_values := map_of (rev (zip (map input_name ins) ?vs))\<rparr> = s"
    using assms(1) unfolding zip by simp
  ultimately show ?thesis by simp
qed

lemma lowerer_new_good:
  assumes "lowerer_new ctx tg R = Inr s" "finite (dom R)" "card (dom R - {tg_name tg}) \<le> d"
  shows "scope_good R d C (env_from_inputs (tg_inputs tg)) N U s"
    and "block_args (main_block s) = map (MTensor \<circ> input_ty) (tg_inputs tg)"
proof -
  from assms(1) have s: "s = \<lparr>context_of = ctx,
          main_block = \<lparr>in_region = False, block_args = map (MTensor \<circ> input_ty) (tg_inputs tg), block_ops = []\<rparr>,
          graphs_of = R, call_stack = [tg_name tg], tuple_scope_stack = [0], next_tuple_scope = 1,
          bound_values = map_of (rev (map (\<lambda>(k, i). (input_name i, value_tensor (BlockArg k) (input_ty i)))
                                          (enumerate 0 (tg_inputs tg)))),
          node_values = Map.empty, tuple_values = Map.empty\<rparr>"
    by (simp add: lowerer_new_run split: if_splits)
  show args: "block_args (main_block s) = map (MTensor \<circ> input_ty) (tg_inputs tg)" by (simp add: s)
  have "bindings_live (env_from_inputs (tg_inputs tg)) s" by (rule arguments_bound) (simp_all add: s)
  moreover have "main_good s" by (simp add: s main_good_def body_good_def block_fits_def)
  moreover have "depth_left d s" using assms(2,3) by (simp add: s depth_left_def)
  ultimately show "scope_good R d C (env_from_inputs (tg_inputs tg)) N U s"
    by (simp add: scope_good_def) (simp add: s scopes_good_def nodes_live_def tuples_live_def)
qed

text \<open>A typed graph is lowered to a well-formed function of its input and output types, or the lowering
  fails for a reason outside the graph; the nesting of calls never exceeds the number of other graphs.\<close>

definition function_of :: "typed_graph \<Rightarrow> mlir_func \<Rightarrow> bool" where
  "function_of tg f \<longleftrightarrow>
     func_fits f \<and> func_name f = tg_name tg \<and> func_inputs f = map (MTensor \<circ> input_ty) (tg_inputs tg) \<and>
     func_outputs f = map MTensor (tg_outputs tg)"

lemma lower_graph_ok:
  fixes F :: "'f f64_ops"
  assumes tg: "typed_as F g sigs tg" "lowerable_graph F sigs g" and reg: "registry_typed F sigs R"
    and d: "card (dom R - {tg_name tg}) \<le> d" and s: "lowerer_new ctx tg R = Inr s"
  shows "case lower_graph F d tg s of Inl e \<Rightarrow> soft_error e | Inr (f, s') \<Rightarrow> function_of tg f"
proof -
  let ?C = "graph_checker F g sigs"
  have tg': "tg_inputs tg = graph_inputs g" "tg_outputs tg = graph_outputs g" using tg(1) by (auto simp: typed_as_def)
  have "finite (dom R)" using reg by (simp add: registry_typed_def)
  from lowerer_new_good [OF s this d] tg'
  have good: "scope_good R d ?C (env_from_inputs (graph_inputs g)) (graph_nodes g) (graph_tuples g) s"
    and args: "block_args (main_block s) = map (MTensor \<circ> input_ty) (tg_inputs tg)" by simp_all
  note body = inline_body_ok [OF graphs_inline [OF reg] tg good, of "[]"]
  show ?thesis
  proof (cases "inline_body F d tg [] s")
    case (Inl e)
    with body show ?thesis by (simp add: lower_graph_body sbind_def)
  next
    case (Inr p)
    obtain vs ov s1 where p: "inline_body F d tg [] s = Inr ((vs, ov), s1)" using Inr by (cases p) auto
    with body have 1: "main_good s1" "scope_kept s s1" "typings_hold (main_ty s1) (typings_of vs)"
        "list_all2 (\<lambda>t v. is_value t Tensor v) (tg_outputs tg) vs" by (simp_all add: tg')
    then have "block_args (main_block s1) = map (MTensor \<circ> input_ty) (tg_inputs tg)"
      using args by (simp add: scope_kept_def same_args_def)
    from finish_function_ok [OF 1(1) this 1(3,4)] p show ?thesis
      by (simp add: lower_graph_body sbind_def function_of_def split: sum.splits prod.splits)
  qed
qed

lemma lowered_module:
  fixes F :: "'f f64_ops"
  assumes tg: "typed_as F g sigs tg" "lowerable_graph F sigs g" and reg: "registry_typed F sigs R"
    and d: "card (dom R - {tg_name tg}) \<le> d"
  shows "(\<exists>e. lower_to_mlir_with_registry F ctx canonicalize_and_verify d tg R = Inl e \<and> soft_error e) \<or>
    (\<exists>f. function_of tg f \<and>
       lower_to_mlir_with_registry F ctx canonicalize_and_verify d tg R = canonicalize_and_verify f)"
proof (cases "lowerer_new ctx tg R")
  case (Inl e)
  then have "soft_error e" by (auto simp: lowerer_new_run split: if_splits)
  with Inl show ?thesis by (simp add: lower_to_mlir_with_registry_def)
next
  case (Inr s)
  note ok = lower_graph_ok [OF tg reg d Inr]
  show ?thesis
  proof (cases "lower_graph F d tg s")
    case (Inl e)
    with ok Inr show ?thesis by (simp add: lower_to_mlir_with_registry_def)
  next
    case (Inr p)
    with ok \<open>lowerer_new ctx tg R = Inr s\<close> show ?thesis
      by (cases p) (auto simp: lower_to_mlir_with_registry_def)
  qed
qed

end
