(* ===== verification/Lower_Properties.thy ===== *)
theory Lower_Properties
  imports Lower_Graph_Spec Typing_Properties
begin

text \<open>The properties of the MLIR lowering, each with a concrete graph.\<close>

text \<open>
  The depth bound of the lowering is no restriction: a bound that is not exhausted gives the result of every
  larger one, and for typed graphs the number of other graphs in the registry is never exhausted.
\<close>

section \<open>Steps that agree unless the depth is exhausted\<close>

definition agrees :: "'a lower \<Rightarrow> 'a lower \<Rightarrow> bool" where
  "agrees m m' \<longleftrightarrow> (\<forall>s. m s = Inl (LowerError DepthExhausted) \<or> m' s = m s)"

lemma agrees_refl [intro]: "agrees m m"
  by (simp add: agrees_def)

lemma agrees_fail [intro]: "agrees (sfail DepthExhausted) m"
  by (simp add: agrees_def sfail_def)

lemma agrees_bind [intro]:
  assumes "agrees m m'" "\<And>x. agrees (f x) (f' x)"
  shows "agrees (sbind m f) (sbind m' f')"
  unfolding agrees_def
proof
  fix s
  show "sbind m f s = Inl (LowerError DepthExhausted) \<or> sbind m' f' s = sbind m f s"
  proof (cases "m s")
    case (Inl e)
    with assms(1) show ?thesis by (auto simp: agrees_def sbind_def dest: spec [of _ s])
  next
    case (Inr p)
    with assms(1) have "m' s = m s" by (auto simp: agrees_def dest: spec [of _ s])
    with Inr assms(2) show ?thesis by (cases p) (auto simp: agrees_def sbind_def)
  qed
qed

lemma agrees_sfold [intro]:
  assumes "\<And>x acc. agrees (f x acc) (f' x acc)"
  shows "agrees (sfold f xs acc) (sfold f' xs acc)"
  by (induction xs arbitrary: acc) (auto intro!: assms)

lemma agrees_smap [intro]:
  assumes "\<And>x. agrees (f x) (f' x)"
  shows "agrees (smap f xs) (smap f' xs)"
  by (induction xs) (auto intro!: assms)

lemma agrees_outputs [intro]:
  assumes "\<And>e. agrees (f e) (f' e)"
  shows "agrees (lower_outputs f body outputs) (lower_outputs f' body outputs)"
  unfolding lower_outputs_def by (auto intro!: assms agrees_bind agrees_smap)

lemma agrees_cached_node [intro]: "agrees m m' \<Longrightarrow> agrees (cached_node k m) (cached_node k m')"
  unfolding cached_node_def by (auto split: option.split intro!: agrees_bind)

lemma agrees_cached_tuple [intro]: "agrees m m' \<Longrightarrow> agrees (cached_tuple k i m) (cached_tuple k i m')"
  unfolding cached_tuple_def by (auto split: option.split intro!: agrees_bind)

lemma agrees_in_scope [intro]:
  "(\<And>ov. agrees (f ov) (f' ov)) \<Longrightarrow> agrees (in_scope name inputs f) (in_scope name inputs f')"
  unfolding in_scope_def by (auto split: prod.split intro!: agrees_bind)

lemma deeper_agrees:
  "agrees (lower_expr F d e) (lower_expr F (Suc d) e)"
  "agrees (lower_args F d n args) (lower_args F (Suc d) n args)"
  "agrees (lower_all_args F d args) (lower_all_args F (Suc d) args)"
  "agrees (lower_call_values F d op args) (lower_call_values F (Suc d) op args)"
  "agrees (lower_let_values F d e) (lower_let_values F (Suc d) e)"
  "agrees (inline_graph_values F d name vs) (inline_graph_values F (Suc d) name vs)"
proof (induction F d e and F d n args and F d args and F d op args and F d e and F d name vs
    rule: lower_expr_lower_args_lower_all_args_lower_call_values_lower_let_values_inline_graph_values.induct)
  case (13 F d op args)
  then show ?case by (cases "graph_callee op") (auto simp del: inline_graph_values.simps)
next
  case (17 F name args)
  show ?case unfolding inline_graph_values.simps by (rule agrees_bind) auto
next
  case (18 F d name args)
  then show ?case unfolding inline_graph_values.simps by (intro agrees_bind agrees_in_scope) auto
qed (auto split: option.split intro!: agrees_bind simp del: inline_graph_values.simps lower_call_values.simps)

lemma deeper_body_agrees: "agrees (inline_body F d g ov) (inline_body F (Suc d) g ov)"
  unfolding inline_body_def lower_let_def by (intro agrees_bind agrees_sfold agrees_outputs deeper_agrees agrees_refl)

lemma deeper_graph_agrees: "agrees (lower_graph F d g) (lower_graph F (Suc d) g)"
  unfolding lower_graph_body by (intro agrees_bind deeper_body_agrees agrees_refl)

lemma deeper_graph_same:
  assumes "\<And>d. n \<le> d \<Longrightarrow> lower_graph F d g s \<noteq> Inl (LowerError DepthExhausted)" "n \<le> d"
  shows "lower_graph F d g s = lower_graph F n g s"
  using assms(2)
proof (induction rule: dec_induct)
  case (step d)
  with assms(1) [OF step.hyps(1)] deeper_graph_agrees [of F d g] show ?case by (auto simp: agrees_def dest: spec [of _ s])
qed simp

text \<open>Typed graphs never exhaust the number of other graphs.\<close>

lemma depth_sufficient:
  fixes F :: "'f f64_ops"
  assumes tg: "typed_as F g sigs tg" "lowerable_graph F sigs g" and reg: "registry_typed F sigs R"
    and s: "lowerer_new ctx tg R = Inr s" and d: "card (dom R - {tg_name tg}) \<le> d"
  shows "lower_graph F d tg s \<noteq> Inl (LowerError DepthExhausted)"
  using lower_graph_ok [OF tg reg d s] by auto

section \<open>An example\<close>

text \<open>\<open>fn main(x: [2] f32) -> [2] f32 { scale(x + x) }\<close> calls \<open>fn scale(z: [2] f32) -> [2] f32 { z * z }\<close>;
  the sum is a shared node.\<close>

definition scale_graph :: graph where
  "scale_graph =
     \<lparr>graph_name = ''scale'', graph_backend = ''llvm-cpu'',
      graph_inputs = [\<lparr>input_name = ''z'', input_ty = tensor F32 [2]\<rparr>],
      graph_outputs = [tensor F32 [2]], graph_lets = [], graph_body = [EBinary Mul (EVar ''z'') (EVar ''z'')]\<rparr>"

definition main_graph :: graph where
  "main_graph =
     \<lparr>graph_name = ''main'', graph_backend = ''llvm-cpu'',
      graph_inputs = [\<lparr>input_name = ''x'', input_ty = tensor F32 [2]\<rparr>],
      graph_outputs = [tensor F32 [2]], graph_lets = [],
      graph_body = [ECall (OpGraph ''scale'') [ENode 1 (EBinary Add (EVar ''x'') (EVar ''x''))]]\<rparr>"

definition scale_signatures :: "(string \<times> graph_signature) list" where
  "scale_signatures = [(''scale'', \<lparr>sig_inputs = [tensor F32 [2]], sig_outputs = [tensor F32 [2]]\<rparr>)]"

definition scale_typed :: typed_graph where
  "scale_typed =
     \<lparr>tg_name = ''scale'', tg_backend = ''llvm-cpu'',
      tg_inputs = [\<lparr>input_name = ''z'', input_ty = tensor F32 [2]\<rparr>],
      tg_outputs = [tensor F32 [2]], tg_lets = [],
      tg_body = [\<lparr>expr_kind = EBinary Mul (EVar ''z'') (EVar ''z''), expr_ty = tensor F32 [2]\<rparr>]\<rparr>"

definition main_typed :: typed_graph where
  "main_typed =
     \<lparr>tg_name = ''main'', tg_backend = ''llvm-cpu'',
      tg_inputs = [\<lparr>input_name = ''x'', input_ty = tensor F32 [2]\<rparr>],
      tg_outputs = [tensor F32 [2]], tg_lets = [],
      tg_body = [\<lparr>expr_kind = ECall (OpGraph ''scale'') [ENode 1 (EBinary Add (EVar ''x'') (EVar ''x''))],
                  expr_ty = tensor F32 [2]\<rparr>]\<rparr>"

definition scale_registry :: "string \<Rightarrow> typed_graph option" where
  "scale_registry = [''scale'' \<mapsto> scale_typed]"

lemma example_checks:
  "type_check exact_ops scale_graph scale_signatures = Inr scale_typed"
  "type_check exact_ops main_graph scale_signatures = Inr main_typed"
  by (simp_all add: scale_graph_def scale_typed_def main_graph_def main_typed_def scale_signatures_def
      check_eval find_signature_def upt_rec)

lemma example_lowerable:
  "lowerable_graph exact_ops scale_signatures scale_graph" "lowerable_graph exact_ops scale_signatures main_graph"
  by (simp_all add: lowerable_graph_def scale_graph_def main_graph_def bound_names_def consistent_def graph_nodes_def
      let_nodes_def graph_tuples_def graph_calls_def lowerable_call_def calls_lowerable_def)

lemma example_registry: "registry_typed exact_ops scale_signatures scale_registry"
proof -
  have "distinct (bound_names scale_graph)" by (simp add: scale_graph_def bound_names_def)
  then have typed: "typed_as exact_ops scale_graph scale_signatures scale_typed"
    by (rule type_check_sound [OF example_checks(1)])
  have "name = ''scale'' \<and> sig = \<lparr>sig_inputs = [tensor F32 [2]], sig_outputs = [tensor F32 [2]]\<rparr>"
    if "find_signature scale_signatures name = Some sig" for name sig
    using that by (simp add: scale_signatures_def find_signature_def split: if_splits)
  moreover have "scale_registry ''scale'' = Some scale_typed" "finite (dom scale_registry)"
      "map input_ty (graph_inputs scale_graph) = [tensor F32 [2]]" "graph_outputs scale_graph = [tensor F32 [2]]"
    by (simp_all add: scale_registry_def scale_graph_def)
  ultimately show ?thesis using typed example_lowerable(1) unfolding registry_typed_def by fastforce
qed

lemma example_depth: "card (dom scale_registry - {tg_name main_typed}) = 1"
  by (simp add: scale_registry_def main_typed_def)

text \<open>A context that parses every type and attribute.\<close>

definition lenient_context :: mlir_context where
  "lenient_context = \<lparr>parses_type = \<lambda>_. True, parses_attr = \<lambda>_. True\<rparr>"

section \<open>Properties\<close>



text \<open>C8. Lowering terminates: graph calls nest no deeper than the number of other graphs in the registry.
  With that bound, or any larger one, the bounded recursion of the model gives the result of the code's
  unbounded one.\<close>

theorem lowering_depth_sufficient:
  assumes "type_check F g sigs = Inr tg" and "lowerable_graph F sigs g" and "registry_typed F sigs R"
    and "lowerer_new ctx tg R = Inr s" and "card (dom R - {tg_name tg}) \<le> d"
  shows "lower_graph F d tg s \<noteq> Inl (LowerError DepthExhausted) \<and>
    lower_graph F d tg s = lower_graph F (card (dom R - {tg_name tg})) tg s"
proof -
  have "typed_as F g sigs tg" using type_check_sound [OF assms(1)] assms(2) by (simp add: lowerable_graph_def)
  note enough = depth_sufficient [OF this assms(2-4)]
  from enough [OF assms(5)] deeper_graph_same [OF enough assms(5)] show ?thesis by blast
qed

lemma lowering_depth_sufficient_witness:
  "\<exists>s. lowerer_new lenient_context main_typed scale_registry = Inr s \<and>
     lower_graph exact_ops 5 main_typed s = lower_graph exact_ops 1 main_typed s"
proof -
  obtain s where s: "lowerer_new lenient_context main_typed scale_registry = Inr s"
    by (simp add: lowerer_new_run lenient_context_def)
  from lowering_depth_sufficient [OF example_checks(2) example_lowerable(2) example_registry s, of 5]
  have "lower_graph exact_ops 5 main_typed s = lower_graph exact_ops 1 main_typed s" by (simp add: example_depth)
  with s show ?thesis by blast
qed



text \<open>C18. A graph call leaves no trace in the lowerer but the operations of the callee: the caller's values
  are back, even those the callee shadowed, as are the call stack, the scopes and the caches, and the call's
  results have the types of the signature.\<close>

theorem inlined_call_restores:
  fixes F :: "'f f64_ops" and C :: "'f checker"
  assumes "registry_typed F sigs R" and "find_signature sigs name = Some sig" and "operands \<Gamma> (sig_inputs sig) vs"
    and "scope_good R (Suc d) C E N U s" and "typings_hold (main_ty s) \<Gamma>"
    and "inline_graph_values F (Suc d) name vs s = Inr (rs, s')"
  shows "s' = s\<lparr>main_block := main_block s', next_tuple_scope := next_tuple_scope s'\<rparr> \<and>
    list_all2 has_ty (sig_outputs sig) rs"
  using inline_call_ok [OF graphs_inline [OF assms(1)] assms(1-5)] assms(6) by simp

lemmas lower_eval =
  sbind_def sreturn_def sget_def supdate_def slift_def sfail_def
  inline_target_def in_scope_def push_inline_scope_def pop_inline_scope_def insert_value_def lower_outputs_def
  lookup_value_def binary_value_def emit_binary_def broadcast_result_type_def coerce_to_kind_def lower_broadcast_def
  append_op_def append_op_with_built_attrs_def mlir_value_type_def mlir_tensor_type_def with_context_def on_block_def
  append_operation_def result_raw_def value_of_kind_def output_value_def restore_values_def operand_elem_def rank_def
  broadcast_shape_def broadcast_shape_slices_def dim_from_trailing_def lower_broadcast_shape_def scheck_def Let_def

lemma inlined_call_restores_witness:
  "\<exists>s rs s'. lowerer_new lenient_context main_typed scale_registry = Inr s \<and>
     inline_graph_values exact_ops 1 ''scale'' [value_tensor (BlockArg 0) (tensor F32 [2])] s = Inr (rs, s') \<and>
     s' = s\<lparr>main_block := main_block s', next_tuple_scope := next_tuple_scope s'\<rparr> \<and> list_all2 has_ty [tensor F32 [2]] rs"
proof -
  let ?vs = "[value_tensor (BlockArg 0) (tensor F32 [2])]" and ?C = "graph_checker exact_ops main_graph scale_signatures"
  obtain s where s: "lowerer_new lenient_context main_typed scale_registry = Inr s"
    by (simp add: lowerer_new_run lenient_context_def)
  have "finite (dom scale_registry)" by (simp add: scale_registry_def)
  from lowerer_new_good(1) [OF s this, of 1 ?C "{}" "{}"] example_depth
  have good: "scope_good scale_registry (Suc 0) ?C (env_from_inputs (tg_inputs main_typed)) {} {} s" by simp
  obtain rs s' where run: "inline_graph_values exact_ops (Suc 0) ''scale'' ?vs s = Inr (rs, s')"
    using s
    by (auto simp: lowerer_new_run lenient_context_def main_typed_def scale_registry_def scale_typed_def lower_eval upt_rec)
  have sig: "find_signature scale_signatures ''scale'' = Some \<lparr>sig_inputs = [tensor F32 [2]], sig_outputs = [tensor F32 [2]]\<rparr>"
    by (simp add: scale_signatures_def find_signature_def)
  have "operands {(BlockArg 0, MTensor (tensor F32 [2]))} [tensor F32 [2]] ?vs"
    by (simp add: vin_def kind_ok_def typing_of_def value_ty_def)
  moreover have "typings_hold (main_ty s) {(BlockArg 0, MTensor (tensor F32 [2]))}"
    using s by (auto simp: lowerer_new_run main_ty_def main_typed_def split: if_splits)
  ultimately have "s' = s\<lparr>main_block := main_block s', next_tuple_scope := next_tuple_scope s'\<rparr> \<and>
      list_all2 has_ty [tensor F32 [2]] rs"
    using inlined_call_restores [OF example_registry sig _ good _ run] by simp
  with s run show ?thesis by auto
qed



end
