(* ===== verification/Pipeline.thy ===== *)
theory Pipeline
  imports Trace_Properties Lower_Properties
begin

text \<open>
  From a trace to MLIR: the graph that \<open>finish\<close> makes of a program written against the DSL is lowered to a
  well-formed function.  The let-binding pass rewrites the traced expressions, so what the lowering relies on
  (one payload per tuple id, calls that can be lowered) is carried over from the traced expressions.
\<close>

section \<open>Rewritten expressions\<close>






section \<open>Finished graphs\<close>



section \<open>Properties\<close>




end
