(* ===== verification/Type_Parse.thy ===== *)
theory Type_Parse
  imports Ast
begin

text \<open>
  \<^verbatim>\<open>crates/knok-core/src/type_parse.rs\<close>: tensor types read from Rust type syntax.  The syntax trees are those of
  the crate \<^verbatim>\<open>syn\<close>, with the forms that the parser looks at (a path says whether it starts with \<open>::\<close>); the crate's feature \<^verbatim>\<open>half\<close> is enabled.
\<close>

section \<open>Type syntax\<close>

datatype syn_lit = LitInt string | LitOther

datatype syn_expr = ExprLit syn_lit | ExprOther

datatype syn_type = TypePath bool "syn_segment list" | TypeOther
and syn_segment = Segment string syn_arguments
and syn_arguments = NoArguments | AngleBracketed "syn_generic list" | Parenthesized
and syn_generic = GenericType syn_type | GenericConst syn_expr | GenericOther

datatype type_error =
  ExpectedTensorType | ExpectedTensorName | GenericsMissing | UnsupportedElement | DimensionNotConst | DimensionTooBig
| TooManyGenerics

section \<open>The parser\<close>

definition tensor_rank_of :: "string \<Rightarrow> nat option" where
  "tensor_rank_of ident =
     (if ident = ''Tensor0'' \<or> ident = ''T0'' then Some 0
      else if ident = ''Tensor1'' \<or> ident = ''T1'' then Some 1
      else if ident = ''Tensor2'' \<or> ident = ''T2'' then Some 2
      else if ident = ''Tensor3'' \<or> ident = ''T3'' then Some 3
      else if ident = ''Tensor4'' \<or> ident = ''T4'' then Some 4
      else if ident = ''Tensor5'' \<or> ident = ''T5'' then Some 5
      else if ident = ''Tensor6'' \<or> ident = ''T6'' then Some 6
      else None)"

definition element_names :: "(string \<times> element_type) list" where
  "element_names =
     [(''bool'', Bool), (''f32'', F32), (''f64'', F64), (''f16'', F16), (''bf16'', BF16), (''i32'', I32), (''i64'', I64)]"

definition parse_element_type :: "syn_generic option \<Rightarrow> type_error + element_type" where
  "parse_element_type arg =
     (case arg of
        Some (GenericType (TypePath leading segments)) \<Rightarrow>
          (if segments = [] then Inl UnsupportedElement
           else (case last segments of Segment ident _ \<Rightarrow> of_option UnsupportedElement (map_of element_names ident)))
      | _ \<Rightarrow> Inl UnsupportedElement)"

text \<open>\<open>base10_parse\<close> into \<open>usize\<close> fails beyond 64 bits.\<close>

definition parse_const_usize :: "syn_generic option \<Rightarrow> type_error + nat" where
  "parse_const_usize arg =
     (case arg of
        Some (GenericConst (ExprLit (LitInt digits))) \<Rightarrow>
          (case parse_nat digits of
             Some n \<Rightarrow> if n < 2 ^ 64 then Inr n else Inl DimensionTooBig
           | None \<Rightarrow> Inl DimensionTooBig)
      | _ \<Rightarrow> Inl DimensionNotConst)"

text \<open>The iterator over the arguments: the next one, and the rest.\<close>

definition next_arg :: "'a list \<Rightarrow> 'a option \<times> 'a list" where
  "next_arg args = (case args of [] \<Rightarrow> (None, []) | a # rest \<Rightarrow> (Some a, rest))"

fun parse_dims :: "nat \<Rightarrow> syn_generic list \<Rightarrow> type_error + (nat list \<times> syn_generic list)" where
  "parse_dims 0 args = Inr ([], args)"
| "parse_dims (Suc n) args =
     (let (arg, rest) = next_arg args in
      rbind (parse_const_usize arg) (\<lambda>d.
      rbind (parse_dims n rest) (\<lambda>(ds, rest'). Inr (d # ds, rest'))))"

definition parse_tensor_type :: "syn_type \<Rightarrow> type_error + tensor_type" where
  "parse_tensor_type ty =
     (case ty of
        TypeOther \<Rightarrow> Inl ExpectedTensorType
      | TypePath leading segments \<Rightarrow>
          (if segments = [] then Inl ExpectedTensorType
           else (case last segments of Segment ident arguments \<Rightarrow>
             rbind (of_option ExpectedTensorName (tensor_rank_of ident)) (\<lambda>rank'.
             (case arguments of
                AngleBracketed args \<Rightarrow>
                  (let (arg, rest) = next_arg args in
                   rbind (parse_element_type arg) (\<lambda>el.
                   rbind (parse_dims rank' rest) (\<lambda>(dims, rest').
                   rbind (check (rest' = []) TooManyGenerics) (\<lambda>_.
                   Inr (tensor el dims)))))
              | _ \<Rightarrow> Inl GenericsMissing)))))"

section \<open>Printing type syntax\<close>

text \<open>The text of a type, as Rust is written: path segments joined by \<open>::\<close>.\<close>

fun show_lit :: "syn_lit \<Rightarrow> string" where
  "show_lit (LitInt digits) = digits"
| "show_lit LitOther = ''_''"

fun show_expr :: "syn_expr \<Rightarrow> string" where
  "show_expr (ExprLit l) = show_lit l"
| "show_expr ExprOther = ''_''"

fun show_type :: "syn_type \<Rightarrow> string"
and show_segment :: "syn_segment \<Rightarrow> string"
and show_arguments :: "syn_arguments \<Rightarrow> string"
and show_generic :: "syn_generic \<Rightarrow> string" where
  "show_type (TypePath leading segments) = (if leading then ''::'' else []) @ join ''::'' (map show_segment segments)"
| "show_type TypeOther = ''_''"
| "show_segment (Segment ident arguments) = ident @ show_arguments arguments"
| "show_arguments NoArguments = []"
| "show_arguments (AngleBracketed args) = ''<'' @ join '', '' (map show_generic args) @ ''>''"
| "show_arguments Parenthesized = ''()''"
| "show_generic (GenericType ty) = show_type ty"
| "show_generic (GenericConst e) = show_expr e"
| "show_generic GenericOther = ''_''"

end
