(* ===== verification/Codegen.thy ===== *)
theory Codegen
  imports Type_Parse
begin

text \<open>
  \<^verbatim>\<open>crates/knok-build/src/codegen.rs\<close>: the Rust module that wraps a compiled graph or model.  A quote is
  \<open>CHR 0x22\<close>; every line of the module ends with a line feed.
\<close>

section \<open>Backends and models\<close>

text \<open>\<open>Backend\<close> and \<open>MlirModel\<close> of \<^verbatim>\<open>crates/knok-build/src/lib.rs\<close>; \<open>build_backend_variant\<close> is the debug text of a
  backend.\<close>

datatype build_backend = BuildLlvmCpu | BuildMetalSpirv | BuildVulkanSpirv | BuildCuda

definition build_backend_name :: "build_backend \<Rightarrow> string" where
  "build_backend_name b =
     (case b of
        BuildLlvmCpu \<Rightarrow> ''llvm-cpu''
      | BuildMetalSpirv \<Rightarrow> ''metal-spirv''
      | BuildVulkanSpirv \<Rightarrow> ''vulkan-spirv''
      | BuildCuda \<Rightarrow> ''cuda'')"

definition build_default_driver :: "build_backend \<Rightarrow> string" where
  "build_default_driver b =
     (case b of
        BuildLlvmCpu \<Rightarrow> ''local-task''
      | BuildMetalSpirv \<Rightarrow> ''metal''
      | BuildVulkanSpirv \<Rightarrow> ''vulkan''
      | BuildCuda \<Rightarrow> ''cuda'')"

definition build_backend_variant :: "build_backend \<Rightarrow> string" where
  "build_backend_variant b =
     (case b of
        BuildLlvmCpu \<Rightarrow> ''LlvmCpu''
      | BuildMetalSpirv \<Rightarrow> ''MetalSpirv''
      | BuildVulkanSpirv \<Rightarrow> ''VulkanSpirv''
      | BuildCuda \<Rightarrow> ''Cuda'')"

record mlir_model =
  model_name :: string
  model_path :: string
  model_function_name :: string
  model_backend :: build_backend
  model_inputs :: "input list"
  model_outputs :: "tensor_type list"

definition mlir_model_new ::
    "string \<Rightarrow> string \<Rightarrow> string \<Rightarrow> build_backend \<Rightarrow> input list \<Rightarrow> tensor_type list \<Rightarrow> mlir_model" where
  "mlir_model_new name path function_name b ins outs =
     \<lparr>model_name = name, model_path = path, model_function_name = function_name, model_backend = b,
      model_inputs = ins, model_outputs = outs\<rparr>"

datatype codegen_error =
  BadIdentifier string | BadVmFunction string | ArityTooLarge string nat | RankTooLarge nat

section \<open>Names\<close>

definition is_ascii_alpha :: "char \<Rightarrow> bool" where
  "is_ascii_alpha c \<longleftrightarrow> 65 \<le> (of_char c :: nat) \<and> (of_char c :: nat) \<le> 90 \<or> 97 \<le> (of_char c :: nat) \<and> (of_char c :: nat) \<le> 122"

definition is_ascii_alphanumeric :: "char \<Rightarrow> bool" where
  "is_ascii_alphanumeric c \<longleftrightarrow> is_ascii_alpha c \<or> 48 \<le> (of_char c :: nat) \<and> (of_char c :: nat) \<le> 57"

definition is_ident :: "string \<Rightarrow> bool" where
  "is_ident name =
     (case name of
        [] \<Rightarrow> False
      | c # cs \<Rightarrow> (c = CHR ''_'' \<or> is_ascii_alpha c) \<and> list_all (\<lambda>ch. ch = CHR ''_'' \<or> is_ascii_alphanumeric ch) cs)"

definition rust_keywords :: "string list" where
  "rust_keywords =
     [''as'', ''break'', ''const'', ''continue'', ''crate'', ''else'', ''enum'', ''extern'', ''false'', ''fn'', ''for'', ''if'',
      ''impl'', ''in'', ''let'', ''loop'', ''match'', ''mod'', ''move'', ''mut'', ''pub'', ''ref'', ''return'', ''self'', ''Self'',
      ''static'', ''struct'', ''super'', ''trait'', ''true'', ''type'', ''unsafe'', ''use'', ''where'', ''while'', ''async'',
      ''await'', ''dyn'']"

definition is_keyword :: "string \<Rightarrow> bool" where
  "is_keyword name \<longleftrightarrow> name \<in> set rust_keywords"

definition sanitize_ident :: "string \<Rightarrow> codegen_error + string" where
  "sanitize_ident name = (if is_ident name \<and> \<not> is_keyword name then Inr name else Inl (BadIdentifier name))"

definition is_vm_function_name :: "string \<Rightarrow> bool" where
  "is_vm_function_name name \<longleftrightarrow>
     name \<noteq> [] \<and> list_all (\<lambda>ch. ch = CHR ''.'' \<or> ch = CHR ''_'' \<or> is_ascii_alphanumeric ch) name"

text \<open>The loops that append underscores to a parameter name until no input has it.\<close>

function unused_param :: "string list \<Rightarrow> string \<Rightarrow> string" where
  "unused_param input_names name =
     (if name \<in> set input_names then unused_param input_names (name @ ''_'') else name)"
  by pat_completeness auto
termination
proof (relation "measure (\<lambda>(input_names, name). card {n \<in> set input_names. length name \<le> length n})")
  fix input_names :: "string list" and name :: string
  assume name: "name \<in> set input_names"
  have "{n \<in> set input_names. Suc (length name) \<le> length n} \<subset> {n \<in> set input_names. length name \<le> length n}"
  proof (intro psubsetI notI)
    assume "{n \<in> set input_names. Suc (length name) \<le> length n} = {n \<in> set input_names. length name \<le> length n}"
    with name have "name \<in> {n \<in> set input_names. Suc (length name) \<le> length n}" by blast
    then show False by simp
  qed auto
  then show "((input_names, name @ ''_''), (input_names, name)) \<in>
      measure (\<lambda>(input_names, name). card {n \<in> set input_names. length name \<le> length n})"
    by (simp add: psubset_card_mono)
qed simp

declare unused_param.simps [simp del]

definition MAX_GRAPH_TUPLE_ARITY :: nat where
  "MAX_GRAPH_TUPLE_ARITY = 12"

definition ensure_supported_tuple_arity :: "string \<Rightarrow> nat \<Rightarrow> codegen_error + unit" where
  "ensure_supported_tuple_arity kind len = check (\<not> len > MAX_GRAPH_TUPLE_ARITY) (ArityTooLarge kind len)"

section \<open>Types\<close>

definition rust_element_type :: "element_type \<Rightarrow> string" where
  "rust_element_type el =
     (case el of
        Bool \<Rightarrow> ''bool'' | F32 \<Rightarrow> ''f32'' | F64 \<Rightarrow> ''f64'' | F16 \<Rightarrow> ''::knok::half::f16'' | BF16 \<Rightarrow> ''::knok::half::bf16''
      | I32 \<Rightarrow> ''i32'' | I64 \<Rightarrow> ''i64'')"

definition dtype_expr :: "element_type \<Rightarrow> string" where
  "dtype_expr el =
     (case el of
        Bool \<Rightarrow> ''::knok::DType::Bool'' | F32 \<Rightarrow> ''::knok::DType::F32'' | F64 \<Rightarrow> ''::knok::DType::F64''
      | F16 \<Rightarrow> ''::knok::DType::F16'' | BF16 \<Rightarrow> ''::knok::DType::BF16'' | I32 \<Rightarrow> ''::knok::DType::I32''
      | I64 \<Rightarrow> ''::knok::DType::I64'')"

definition rust_tensor_type :: "tensor_type \<Rightarrow> codegen_error + string" where
  "rust_tensor_type ty =
     (let el = rust_element_type (elem ty) in
      case map nat_str (shape ty) of
        [] \<Rightarrow> Inr (''::knok::tensor::Tensor0<'' @ el @ ''>'')
      | [d0] \<Rightarrow> Inr (''::knok::tensor::Tensor1<'' @ el @ '', '' @ d0 @ ''>'')
      | [d0, d1] \<Rightarrow> Inr (''::knok::tensor::Tensor2<'' @ el @ '', '' @ d0 @ '', '' @ d1 @ ''>'')
      | [d0, d1, d2] \<Rightarrow> Inr (''::knok::tensor::Tensor3<'' @ el @ '', '' @ d0 @ '', '' @ d1 @ '', '' @ d2 @ ''>'')
      | [d0, d1, d2, d3] \<Rightarrow>
          Inr (''::knok::tensor::Tensor4<'' @ el @ '', '' @ d0 @ '', '' @ d1 @ '', '' @ d2 @ '', '' @ d3 @ ''>'')
      | [d0, d1, d2, d3, d4] \<Rightarrow>
          Inr (''::knok::tensor::Tensor5<'' @ el @ '', '' @ d0 @ '', '' @ d1 @ '', '' @ d2 @ '', '' @ d3 @ '', '' @ d4 @ ''>'')
      | [d0, d1, d2, d3, d4, d5] \<Rightarrow>
          Inr (''::knok::tensor::Tensor6<'' @ el @ '', '' @ d0 @ '', '' @ d1 @ '', '' @ d2 @ '', '' @ d3 @ '', '' @ d4 @ '', '' @ d5 @ ''>'')
      | _ \<Rightarrow> Inl (RankTooLarge (length (shape ty))))"

definition shape_array :: "tensor_type \<Rightarrow> string" where
  "shape_array ty = ''['' @ join '', '' (map nat_str (shape ty)) @ '']''"

definition tensor_desc_text :: "tensor_type \<Rightarrow> string" where
  "tensor_desc_text ty = ''::knok::TensorDesc::new('' @ dtype_expr (elem ty) @ '', &'' @ shape_array ty @ '')''"

definition rust_output_type :: "tensor_type list \<Rightarrow> codegen_error + string" where
  "rust_output_type outs =
     (case outs of
        [out] \<Rightarrow> rust_tensor_type out
      | _ \<Rightarrow> rbind (rmap rust_tensor_type outs) (\<lambda>tys. Inr (''('' @ join '', '' tys @ '')'')))"

definition rust_input_type :: "input list \<Rightarrow> codegen_error + string" where
  "rust_input_type ins =
     (case ins of
        [] \<Rightarrow> Inr ''()''
      | [i] \<Rightarrow> rust_tensor_type (input_ty i)
      | _ \<Rightarrow> rbind (rmap (\<lambda>i. rust_tensor_type (input_ty i)) ins) (\<lambda>tys.
             Inr (''('' @ join '' '' (map (\<lambda>ty. ty @ '','') tys) @ '')'')))"

definition rust_input_expr :: "string list \<Rightarrow> string" where
  "rust_input_expr input_names =
     (case input_names of
        [] \<Rightarrow> ''()''
      | [name] \<Rightarrow> name
      | _ \<Rightarrow> ''('' @ join '' '' (map (\<lambda>name. name @ '','') input_names) @ '')'')"

section \<open>The module\<close>

text \<open>The debug text of a string.  Characters beyond ASCII are kept as they are.\<close>

definition hex_digit :: "nat \<Rightarrow> char" where
  "hex_digit n = (if n < 10 then char_of (48 + n) else char_of (87 + n))"

fun hex_str :: "nat \<Rightarrow> string" where
  "hex_str n = (if n < 16 then [hex_digit n] else hex_str (n div 16) @ [hex_digit (n mod 16)])"

declare hex_str.simps [simp del]

definition quote :: char where
  "quote = CHR 0x22"

definition escape_debug :: "char \<Rightarrow> string" where
  "escape_debug c =
     (let n = (of_char c :: nat) in
      if n = 0 then [CHR 0x5C, CHR ''0'']
      else if n = 9 then [CHR 0x5C, CHR ''t'']
      else if n = 10 then [CHR 0x5C, CHR ''n'']
      else if n = 13 then [CHR 0x5C, CHR ''r'']
      else if c = quote \<or> n = 0x5C then [CHR 0x5C, c]
      else if n < 32 \<or> n = 127 then [CHR 0x5C, CHR ''u'', CHR 0x7B] @ hex_str n @ [CHR 0x7D]
      else [c])"

definition debug_str :: "string \<Rightarrow> string" where
  "debug_str s = quote # concat (map escape_debug s) @ [quote]"

definition prefixed_params :: "string \<Rightarrow> string \<Rightarrow> string" where
  "prefixed_params prefix params = (if params = [] then prefix else prefix @ '', '' @ params)"

definition text_lines :: "string list \<Rightarrow> string" where
  "text_lines ls = concat (map (\<lambda>l. l @ [CHR 0x0A]) ls)"

text \<open>The names that go into the template.\<close>

definition module_text ::
    "string \<Rightarrow> string \<Rightarrow> build_backend \<Rightarrow> string \<Rightarrow> string \<Rightarrow> string \<Rightarrow> string \<Rightarrow> string \<Rightarrow> string \<Rightarrow> string
      \<Rightarrow> string \<Rightarrow> string \<Rightarrow> string \<Rightarrow> string \<Rightarrow> string" where
  "module_text module_name function_name b vmfb_name flag_list input_descs output_descs input_type output_type input_expr
       input_params engine_name run_params output_name =
     (let run_into_params = prefixed_params run_params (output_name @ '': &mut '' @ output_type) in
      text_lines
      [''pub mod '' @ module_name @ '' {'',
       ''    static VMFB: &[u8] = include_bytes!(concat!(env!('' @ [quote] @ ''OUT_DIR'' @ [quote] @ ''), '' @ [quote] @ ''/'' @ vmfb_name @ [quote] @ ''));'',
       ''    static COMPILE_FLAGS: &[&str] = &['' @ flag_list @ ''];'',
       ''    static VARIANTS: &[::knok::GraphArtifactVariant] = &[::knok::GraphArtifactVariant::new('',
       ''        VMFB, ::knok::Backend::'' @ build_backend_variant b @ '', COMPILE_FLAGS,'',
       ''    )];'',
       ''    static INPUT_DESCS: &[::knok::TensorDesc] = &['' @ input_descs @ ''];'',
       ''    static OUTPUT_DESCS: &[::knok::TensorDesc] = &['' @ output_descs @ ''];'',
       [],
       ''    pub const fn artifact() -> ::knok::GraphArtifact {'',
       ''        ::knok::GraphArtifact::new('' @ [quote] @ function_name @ [quote] @ '', INPUT_DESCS, OUTPUT_DESCS, VARIANTS)'',
       ''    }'',
       [],
       ''    pub static GRAPH: ::knok::Graph<'' @ input_type @ '', '' @ output_type @ ''> = match ::knok::Graph::new(artifact()) {'',
       ''        Ok(graph) => graph,'',
       ''        Err(_) => panic!('' @ [quote] @ ''generated graph signature mismatch'' @ [quote] @ ''),'',
       ''    };'',
       [],
       ''    ::knok::__runtime! {'',
       ''    /// Prepared model for this graph.'',
       ''    pub type Model<'a> = ::knok::Model<'a, '' @ input_type @ '', '' @ output_type @ ''>;'',
       [],
       ''    /// Loads the graph and resolves its function once for repeated calls.'',
       ''    pub fn load(engine: &::knok::Engine) -> ::knok::Result<Model<'_>> {'',
       ''        GRAPH.load(engine)'',
       ''    }'',
       [],
       ''    /// Runs with borrowed inputs and a reusable engine.'',
       ''    pub fn run('' @ run_params @ '') -> ::knok::Result<'' @ output_type @ ''> {'',
       ''        GRAPH.run('' @ engine_name @ '', '' @ input_expr @ '')'',
       ''    }'',
       [],
       ''    /// Runs with borrowed inputs and reuses host output storage.'',
       ''    pub fn run_into('' @ run_into_params @ '') -> ::knok::Result<()> {'',
       ''        GRAPH.run_into('' @ engine_name @ '', '' @ input_expr @ '', '' @ output_name @ '')'',
       ''    }'',
       [],
       ''    /// Runs once with borrowed inputs, creating an engine for this invocation.'',
       ''    pub fn call('' @ input_params @ '') -> ::knok::Result<'' @ output_type @ ''> {'',
       ''        GRAPH.run_once('' @ input_expr @ '')'',
       ''    }'',
       ''    }'',
       ''}''])"

definition generated_module ::
    "string \<Rightarrow> string \<Rightarrow> input list \<Rightarrow> tensor_type list \<Rightarrow> build_backend \<Rightarrow> string \<Rightarrow> string list
      \<Rightarrow> codegen_error + string" where
  "generated_module name function_name ins outs b vmfb_name compile_flags =
     rbind (sanitize_ident name) (\<lambda>module_name.
     rbind (check (is_vm_function_name function_name) (BadVmFunction function_name)) (\<lambda>_.
     rbind (ensure_supported_tuple_arity ''input'' (length ins)) (\<lambda>_.
     rbind (ensure_supported_tuple_arity ''output'' (length outs)) (\<lambda>_.
     let input_descs = join '', '' (map (\<lambda>i. tensor_desc_text (input_ty i)) ins);
         output_descs = join '', '' (map tensor_desc_text outs);
         flag_list = join '', '' (map debug_str compile_flags) in
     rbind (rmap (\<lambda>i. sanitize_ident (input_name i)) ins) (\<lambda>input_names.
     rbind (rmap (\<lambda>(i, name). rbind (rust_tensor_type (input_ty i)) (\<lambda>ty. Inr (name @ '': &'' @ ty)))
              (zip ins input_names)) (\<lambda>params.
     let input_params = join '', '' params in
     rbind (rust_input_type ins) (\<lambda>input_type.
     let input_expr = rust_input_expr input_names in
     rbind (rust_output_type outs) (\<lambda>output_type.
     let engine_name = unused_param input_names ''engine'';
         run_params = prefixed_params (engine_name @ '': &::knok::Engine'') input_params;
         output_name = unused_param input_names ''outputs'' in
     Inr (module_text module_name function_name b vmfb_name flag_list input_descs output_descs input_type output_type
            input_expr input_params engine_name run_params output_name)))))))))"

definition graph_module ::
    "typed_graph \<Rightarrow> build_backend \<Rightarrow> string \<Rightarrow> string list \<Rightarrow> codegen_error + string" where
  "graph_module g b vmfb_name compile_flags =
     generated_module (tg_name g) (''knok.'' @ tg_name g) (tg_inputs g) (tg_outputs g) b vmfb_name compile_flags"

definition mlir_model_module :: "mlir_model \<Rightarrow> string \<Rightarrow> string list \<Rightarrow> codegen_error + string" where
  "mlir_model_module model vmfb_name compile_flags =
     generated_module (model_name model) (model_function_name model) (model_inputs model) (model_outputs model)
       (model_backend model) vmfb_name compile_flags"

end
