(* ===== verification/Host.thy ===== *)
theory Host
  imports Prelude
begin

text \<open>
  What the build-time crates use of \<^verbatim>\<open>std\<close>: environment variables, files, the lines printed to Cargo, and the
  counter of temporary files.  The operations of \<^verbatim>\<open>std::fs\<close> may fail: which do is a parameter, the \<open>os\<close> record.
  An operation that fails leaves the files as they were, except that a failed write may leave a part of the
  contents behind.  A failed step keeps the changes made before it.
\<close>

section \<open>The host\<close>

type_synonym bytes = "8 word list"

datatype write_outcome = Written | NotWritten | PartlyWritten bytes

record os =
  creates_dir :: "string \<Rightarrow> bool"
  locks_file :: "string \<Rightarrow> bool"
  metadata_of :: "string \<Rightarrow> (nat \<times> string) option"
  read_denied :: "string \<Rightarrow> bool"
  write_outcome_of :: "string \<Rightarrow> bytes \<Rightarrow> write_outcome"
  renames_file :: "string \<Rightarrow> string \<Rightarrow> bool"
  removes_file :: "string \<Rightarrow> bool"
  process_id :: nat

record host =
  env_vars :: "string \<Rightarrow> string option"
  files :: "string \<Rightarrow> bytes option"
  temp_counter :: "64 word"
  library_tracked :: bool
  printed :: "string list"

section \<open>Steps\<close>

type_synonym ('e, 'a) io = "host \<Rightarrow> ('e + 'a) \<times> host"

definition io_return :: "'a \<Rightarrow> ('e, 'a) io" where
  "io_return x h = (Inr x, h)"

definition io_fail :: "'e \<Rightarrow> ('e, 'a) io" where
  "io_fail e h = (Inl e, h)"

definition io_bind :: "('e, 'a) io \<Rightarrow> ('a \<Rightarrow> ('e, 'b) io) \<Rightarrow> ('e, 'b) io" where
  "io_bind m f h = (case m h of (Inl e, h') \<Rightarrow> (Inl e, h') | (Inr x, h') \<Rightarrow> f x h')"

definition io_lift :: "'e + 'a \<Rightarrow> ('e, 'a) io" where
  "io_lift r h = (r, h)"

definition io_get :: "('e, host) io" where
  "io_get h = (Inr h, h)"

definition io_update :: "(host \<Rightarrow> host) \<Rightarrow> ('e, unit) io" where
  "io_update f h = (Inr (), f h)"

definition io_check :: "bool \<Rightarrow> 'e \<Rightarrow> ('e, unit) io" where
  "io_check b e = (if b then io_return () else io_fail e)"

fun io_fold :: "('x \<Rightarrow> 'acc \<Rightarrow> ('e, 'acc) io) \<Rightarrow> 'x list \<Rightarrow> 'acc \<Rightarrow> ('e, 'acc) io" where
  "io_fold f [] acc = io_return acc"
| "io_fold f (x # xs) acc = io_bind (f x acc) (io_fold f xs)"

named_theorems io_simps \<open>when a step returns a value\<close>

lemma io_bind_Inr [io_simps]:
  "io_bind m f h = (Inr y, h'') \<longleftrightarrow> (\<exists>x h'. m h = (Inr x, h') \<and> f x h' = (Inr y, h''))"
  by (auto simp: io_bind_def split: prod.splits sum.splits)

lemma io_step_Inr [io_simps]:
  "io_return x h = (Inr y, h') \<longleftrightarrow> y = x \<and> h' = h"
  "io_fail e h = (Inr y, h') \<longleftrightarrow> False"
  "io_lift r h = (Inr y, h') \<longleftrightarrow> r = Inr y \<and> h' = h"
  "io_get h = (Inr g, h') \<longleftrightarrow> g = h \<and> h' = h"
  "io_update f h = (Inr u, h') \<longleftrightarrow> h' = f h"
  "io_check b e h = (Inr u, h') \<longleftrightarrow> b \<and> h' = h"
  by (auto simp: io_return_def io_fail_def io_lift_def io_get_def io_update_def io_check_def)

lemma io_runs [simp]:
  "io_return x h = (Inr x, h)" "io_fail e h = (Inl e, h)" "io_lift r h = (r, h)" "io_get h = (Inr h, h)"
  "io_update f h = (Inr (), f h)" "io_check True e h = (Inr (), h)" "io_check False e h = (Inl e, h)"
  by (simp_all add: io_return_def io_fail_def io_lift_def io_get_def io_update_def io_check_def)

text \<open>A relation between the states before and after a step, whether it fails or not.\<close>

definition io_keeps :: "(host \<Rightarrow> host \<Rightarrow> bool) \<Rightarrow> ('e, 'a) io \<Rightarrow> bool" where
  "io_keeps P m \<longleftrightarrow> (\<forall>h. P h (snd (m h)))"

locale host_frame =
  fixes P :: "host \<Rightarrow> host \<Rightarrow> bool"
  assumes frame_refl: "P h h" and frame_trans: "P h h' \<Longrightarrow> P h' h'' \<Longrightarrow> P h h''"
begin

lemma keeps_pure:
  "io_keeps P (io_return x)" "io_keeps P (io_fail e)" "io_keeps P (io_lift r)" "io_keeps P io_get" "io_keeps P (io_check b e)"
  by (simp_all add: io_keeps_def frame_refl io_check_def)

lemma keeps_bind:
  assumes "io_keeps P m" "\<And>x. io_keeps P (f x)"
  shows "io_keeps P (io_bind m f)"
  unfolding io_keeps_def
proof
  fix h
  show "P h (snd (io_bind m f h))"
  proof (cases "m h")
    case (Pair r h')
    with assms(1) have "P h h'" by (metis io_keeps_def snd_conv)
    then show ?thesis
      using assms(2) frame_trans Pair by (cases r) (auto simp: io_bind_def io_keeps_def)
  qed
qed

lemma keeps_fold:
  assumes "\<And>x acc. io_keeps P (f x acc)"
  shows "io_keeps P (io_fold f xs acc)"
  by (induction xs arbitrary: acc) (auto intro: keeps_pure keeps_bind assms)

end

section \<open>Files and paths\<close>

text \<open>\<^verbatim>\<open>Path::join\<close>.\<close>

definition path_join :: "string \<Rightarrow> string \<Rightarrow> string" where
  "path_join base path =
     (if take 1 path = ''/'' then path
      else if base = [] \<or> last base = CHR ''/'' then base @ path
      else base @ CHR ''/'' # path)"

definition fs_create_dir_all :: "os \<Rightarrow> 'e \<Rightarrow> string \<Rightarrow> ('e, unit) io" where
  "fs_create_dir_all S e path = io_check (creates_dir S path) e"

datatype read_outcome = ReadOk bytes | NotFound | ReadFailed

definition fs_read :: "os \<Rightarrow> string \<Rightarrow> ('e, read_outcome) io" where
  "fs_read S path =
     io_bind io_get (\<lambda>h.
     io_return (if read_denied S path then ReadFailed
                else (case files h path of None \<Rightarrow> NotFound | Some v \<Rightarrow> ReadOk v)))"

definition fs_write :: "os \<Rightarrow> 'e \<Rightarrow> string \<Rightarrow> bytes \<Rightarrow> ('e, unit) io" where
  "fs_write S e path contents =
     (case write_outcome_of S path contents of
        Written \<Rightarrow> io_update (\<lambda>h. h\<lparr>files := (files h)(path \<mapsto> contents)\<rparr>)
      | NotWritten \<Rightarrow> io_fail e
      | PartlyWritten part \<Rightarrow>
          io_bind (io_update (\<lambda>h. h\<lparr>files := (files h)(path \<mapsto> part)\<rparr>)) (\<lambda>_. io_fail e))"

definition fs_remove_file :: "os \<Rightarrow> string \<Rightarrow> ('e, unit) io" where
  "fs_remove_file S path =
     (if removes_file S path then io_update (\<lambda>h. h\<lparr>files := (files h)(path := None)\<rparr>) else io_return ())"

text \<open>\<^verbatim>\<open>fs::rename\<close> replaces the target; its result says whether it did.\<close>

definition fs_rename :: "os \<Rightarrow> string \<Rightarrow> string \<Rightarrow> ('e, bool) io" where
  "fs_rename S source target =
     io_bind io_get (\<lambda>h.
     if renames_file S source target \<and> files h source \<noteq> None
     then io_bind (io_update (\<lambda>h. h\<lparr>files := (files h)(source := None, target := files h source)\<rparr>)) (\<lambda>_. io_return True)
     else io_return False)"

definition print_line :: "string \<Rightarrow> ('e, unit) io" where
  "print_line line = io_update (\<lambda>h. h\<lparr>printed := printed h @ [line]\<rparr>)"

definition str_bytes :: "string \<Rightarrow> bytes" where
  "str_bytes s = map of_char s"

lemma last_path_join: "x \<noteq> [] \<Longrightarrow> last (path_join base x) = last x"
  by (simp add: path_join_def)

text \<open>A path under a directory determines the name, when the name is relative and has no separator.\<close>

lemma path_join_inject:
  "take 1 x \<noteq> ''/'' \<Longrightarrow> take 1 y \<noteq> ''/'' \<Longrightarrow> path_join base x = path_join base y \<longleftrightarrow> x = y"
  by (auto simp: path_join_def)

end
