(* ===== verification/Compile_Driver.thy ===== *)
theory Compile_Driver
  imports Host Lowering
begin

text \<open>
  \<^verbatim>\<open>crates/knok-compile\<close>: backends and compiler flags (\<^verbatim>\<open>backend.rs\<close>), parsing and verifying MLIR
  (\<^verbatim>\<open>mlir.rs\<close>), and the driver of the IREE compiler with its cache of compiled modules (\<^verbatim>\<open>compile.rs\<close>), with
  all features of the crate enabled.  The compiler and MLIR libraries and the hash function are parameters.
\<close>

section \<open>Backends\<close>

datatype iree_backend = IreeLlvmCpu | IreeMetalSpirv | IreeVulkanSpirv | IreeCuda

definition from_target_backend :: "string \<Rightarrow> iree_backend option" where
  "from_target_backend name =
     (if name = ''llvm-cpu'' then Some IreeLlvmCpu
      else if name = ''metal-spirv'' then Some IreeMetalSpirv
      else if name = ''vulkan-spirv'' then Some IreeVulkanSpirv
      else if name = ''cuda'' then Some IreeCuda
      else None)"

definition target_name :: "iree_backend \<Rightarrow> string" where
  "target_name b =
     (case b of
        IreeLlvmCpu \<Rightarrow> ''llvm-cpu''
      | IreeMetalSpirv \<Rightarrow> ''metal-spirv''
      | IreeVulkanSpirv \<Rightarrow> ''vulkan-spirv''
      | IreeCuda \<Rightarrow> ''cuda'')"

definition supported_backend_names :: "string list" where
  "supported_backend_names = [''llvm-cpu'', ''metal-spirv'', ''vulkan-spirv'', ''cuda'']"

section \<open>Errors\<close>

datatype compiler_error =
  IREECompilerError string string | IREECompilerDiagnosticsError string | OtherCompilerError string

datatype driver_error =
  UnsupportedBackend string "string list"
| BackendThroughFlags
| DriverPanic
| MlirUnparsed "string list"
| MlirRejected "string list"
| LoweringFailed lower_error
| ExportedMlirSymbols
| MissingVariable string
| IoFailed
| CompilerNotLoaded
| RevisionUnknown
| CompilationFailed string string
| InvalidVmfb nat
| UnpublishedVmfb

section \<open>Flags\<close>

definition starts_with :: "string \<Rightarrow> string \<Rightarrow> bool" where
  "starts_with prefix flag \<longleftrightarrow> take (length prefix) flag = prefix"

definition cargo_iree_opt_level :: "string option \<Rightarrow> string option" where
  "cargo_iree_opt_level cargo_opt_level =
     (if cargo_opt_level = Some ''0'' then Some ''O0''
      else if cargo_opt_level = Some ''1'' then Some ''O1''
      else if cargo_opt_level = Some ''2'' then Some ''O2''
      else if cargo_opt_level = Some ''3'' then Some ''O3''
      else if cargo_opt_level = Some ''s'' \<or> cargo_opt_level = Some ''z'' then Some ''O2''
      else None)"

text \<open>A default flag is left out when the caller gives a flag with its prefix.\<close>

definition default_flag :: "string list \<Rightarrow> string \<Rightarrow> string option \<Rightarrow> string list" where
  "default_flag extra_flags prefix v =
     (case v of
        None \<Rightarrow> []
      | Some x \<Rightarrow> (if list_ex (starts_with prefix) extra_flags then [] else [prefix @ x]))"

definition backend_flags_with_cargo_env ::
    "string \<Rightarrow> string list \<Rightarrow> string option \<Rightarrow> string option \<Rightarrow> driver_error + string list" where
  "backend_flags_with_cargo_env backend extra_flags cargo_opt_level cargo_target =
     rbind (of_option DriverPanic (from_target_backend backend)) (\<lambda>capability.
     Inr ([''--iree-hal-target-backends='' @ backend, ''--iree-input-demote-f64-to-f32=false''] @
          (if capability = IreeMetalSpirv then [''--iree-metal-compile-to-metallib=false''] else []) @
          (if capability = IreeLlvmCpu
           then default_flag extra_flags ''--iree-opt-level='' (cargo_iree_opt_level cargo_opt_level) @
                default_flag extra_flags ''--iree-llvmcpu-target-triple='' cargo_target
           else []) @
          extra_flags))"

definition backend_flags :: "(string \<Rightarrow> string option) \<Rightarrow> string \<Rightarrow> string list \<Rightarrow> driver_error + string list" where
  "backend_flags env backend extra_flags =
     backend_flags_with_cargo_env backend extra_flags (env ''OPT_LEVEL'') (env ''TARGET'')"

text \<open>\<open>CompileOptions\<close> is a list of flags.\<close>

record compile_options =
  option_flags :: "string list"

definition add_flag :: "string \<Rightarrow> compile_options \<Rightarrow> compile_options" where
  "add_flag flag options = options\<lparr>option_flags := option_flags options @ [flag]\<rparr>"

definition target_cpu :: "string \<Rightarrow> compile_options \<Rightarrow> compile_options" where
  "target_cpu cpu = add_flag (''--iree-llvmcpu-target-cpu='' @ cpu)"

definition cpu_features :: "string \<Rightarrow> compile_options \<Rightarrow> compile_options" where
  "cpu_features features = add_flag (''--iree-llvmcpu-target-cpu-features='' @ features)"

definition parse_backend :: "string \<Rightarrow> driver_error + iree_backend" where
  "parse_backend backend =
     of_option (UnsupportedBackend backend supported_backend_names) (from_target_backend backend)"

definition flag_key :: "string \<Rightarrow> string" where
  "flag_key flag = takeWhile (\<lambda>c. c \<noteq> CHR ''='') flag"

definition compiler_flags :: "(string \<Rightarrow> string option) \<Rightarrow> compile_options \<Rightarrow> string \<Rightarrow> driver_error + string list" where
  "compiler_flags env options backend =
     rbind (parse_backend backend) (\<lambda>_.
     rbind (check (\<not> list_ex (\<lambda>flag. flag_key flag = ''--iree-hal-target-backends'') (option_flags options))
              BackendThroughFlags) (\<lambda>_.
     backend_flags env backend (option_flags options)))"

section \<open>MLIR text\<close>

text \<open>What \<open>melior\<close> does with a module: parse it with diagnostics, verify it with diagnostics, print it.\<close>

record 'm melior =
  module_parse :: "string \<Rightarrow> 'm option \<times> string list"
  module_verify :: "'m \<Rightarrow> bool \<times> string list"
  module_print :: "'m \<Rightarrow> string"

definition canonicalize_and_verify :: "'m melior \<Rightarrow> string \<Rightarrow> driver_error + string" where
  "canonicalize_and_verify M mlir =
     (case module_parse M mlir of
        (None, diagnostics) \<Rightarrow> Inl (MlirUnparsed diagnostics)
      | (Some m, diagnostics) \<Rightarrow>
          (case module_verify M m of
             (False, found) \<Rightarrow> Inl (MlirRejected (diagnostics @ found))
           | (True, _) \<Rightarrow> Inr (module_print M m)))"

section \<open>The compiler\<close>

record iree_compiler =
  library_path :: string
  get_revision :: "string option"
  api_version :: string
  compile_str :: "string \<Rightarrow> string list \<Rightarrow> compiler_error + bytes"

record toolchain =
  load_compiler :: "string option \<Rightarrow> iree_compiler option"
  blake3_hex :: "string \<Rightarrow> string"
  package_version :: string
  exports_mlir :: bool

section \<open>The cache\<close>

definition cache_dir :: "(string \<Rightarrow> string option) \<Rightarrow> driver_error + string" where
  "cache_dir env =
     (case env ''KNOK_CACHE_DIR'' of
        Some path \<Rightarrow> Inr path
      | None \<Rightarrow>
          rbind (of_option (MissingVariable ''CARGO_MANIFEST_DIR'') (env ''CARGO_MANIFEST_DIR'')) (\<lambda>manifest_dir.
          Inr (path_join manifest_dir ''target/knok-cache'')))"

definition key_variables :: "string list" where
  "key_variables = [''CARGO_CFG_TARGET_ARCH'', ''CARGO_CFG_TARGET_ENV'', ''CARGO_CFG_TARGET_OS'', ''CARGO_CFG_TARGET_VENDOR'']"

text \<open>The bytes that the hasher is fed, one update after the other.\<close>

definition key_input ::
    "toolchain \<Rightarrow> (string \<Rightarrow> string option) \<Rightarrow> string \<Rightarrow> string \<Rightarrow> string \<Rightarrow> string \<Rightarrow> string list \<Rightarrow> string" where
  "key_input T env backend mlir compiler compiler_version flags =
     ''knok-cache-v4'' @ package_version T @ backend @ compiler @ compiler_version @ concat flags @
     concat (map (\<lambda>var. case env var of Some v \<Rightarrow> var @ v | None \<Rightarrow> []) key_variables) @ mlir"

definition cache_key ::
    "toolchain \<Rightarrow> (string \<Rightarrow> string option) \<Rightarrow> string \<Rightarrow> string \<Rightarrow> string \<Rightarrow> string \<Rightarrow> string list \<Rightarrow> string" where
  "cache_key T env backend mlir compiler compiler_version flags =
     blake3_hex T (key_input T env backend mlir compiler compiler_version flags)"

definition read_cached_vmfb :: "os \<Rightarrow> string \<Rightarrow> (driver_error, bytes option) io" where
  "read_cached_vmfb S path =
     io_bind (fs_read S path) (\<lambda>r.
     case r of
       ReadOk vmfb \<Rightarrow>
         (if length vmfb \<ge> 16 then io_return (Some vmfb)
          else io_bind (fs_remove_file S path) (\<lambda>_. io_return None))
     | NotFound \<Rightarrow> io_return None
     | ReadFailed \<Rightarrow> io_fail IoFailed)"

definition unique_cache_temp_suffix :: "os \<Rightarrow> (driver_error, string) io" where
  "unique_cache_temp_suffix S =
     io_bind io_get (\<lambda>h.
     io_bind (io_update (\<lambda>h. h\<lparr>temp_counter := temp_counter h + 1\<rparr>)) (\<lambda>_.
     io_return (nat_str (process_id S) @ ''-'' @ nat_str (unat (temp_counter h)))))"

text \<open>The lock file is created empty if it does not exist; the lock is held until the call returns.\<close>

definition lock_compiler_cache :: "os \<Rightarrow> string \<Rightarrow> (driver_error, unit) io" where
  "lock_compiler_cache S dir =
     (let lock_path = path_join dir ''iree-compiler.lock'' in
      io_bind (io_check (locks_file S lock_path) IoFailed) (\<lambda>_.
      io_update (\<lambda>h. if files h lock_path = None then h\<lparr>files := (files h)(lock_path \<mapsto> [])\<rparr> else h)))"

definition compiler_fingerprint :: "os \<Rightarrow> iree_compiler \<Rightarrow> driver_error + string" where
  "compiler_fingerprint S compiler =
     rbind (of_option IoFailed (metadata_of S (library_path compiler))) (\<lambda>(len, modified).
     rbind (of_option RevisionUnknown (get_revision compiler)) (\<lambda>revision.
     Inr (revision @ '';api='' @ api_version compiler @ '';size='' @ nat_str len @ '';modified='' @ modified)))"

definition track_library :: "iree_compiler \<Rightarrow> (driver_error, unit) io" where
  "track_library compiler =
     io_bind io_get (\<lambda>h.
     if env_vars h ''OUT_DIR'' \<noteq> None \<and> \<not> library_tracked h
     then io_bind (print_line (''cargo:rerun-if-changed='' @ library_path compiler)) (\<lambda>_.
          io_update (\<lambda>h. h\<lparr>library_tracked := True\<rparr>))
     else io_return ())"

definition compiler_message :: "compiler_error \<Rightarrow> string" where
  "compiler_message error =
     (case error of
        IREECompilerError message diagnostics \<Rightarrow> message @ CHR 0x0A # diagnostics
      | IREECompilerDiagnosticsError diagnostics \<Rightarrow> diagnostics
      | OtherCompilerError message \<Rightarrow> message)"

text \<open>A new artifact is written to a temporary file that then replaces the cached one.\<close>

definition publish_vmfb :: "os \<Rightarrow> string \<Rightarrow> string \<Rightarrow> bytes \<Rightarrow> (driver_error, bytes) io" where
  "publish_vmfb S dir key vmfb =
     (let vmfb_path = path_join dir (key @ ''.vmfb'') in
      io_bind (unique_cache_temp_suffix S) (\<lambda>suffix.
      let tmp_vmfb_path = path_join dir (key @ ''.'' @ suffix @ ''.vmfb.tmp'') in
      io_bind (fs_write S IoFailed tmp_vmfb_path vmfb) (\<lambda>_.
      io_bind (fs_rename S tmp_vmfb_path vmfb_path) (\<lambda>renamed.
      if renamed then io_return vmfb
      else io_bind (fs_remove_file S tmp_vmfb_path) (\<lambda>_.
           io_bind (read_cached_vmfb S vmfb_path) (\<lambda>cached.
           io_lift (of_option UnpublishedVmfb cached)))))))"

definition compile_cached ::
    "os \<Rightarrow> toolchain \<Rightarrow> iree_compiler \<Rightarrow> string \<Rightarrow> iree_backend \<Rightarrow> string list \<Rightarrow> string \<Rightarrow> string \<Rightarrow> (driver_error, bytes) io" where
  "compile_cached S T compiler dir backend flags mlir version =
     io_bind io_get (\<lambda>h.
     let key = cache_key T (env_vars h) (target_name backend) mlir (library_path compiler) version flags in
     io_bind (read_cached_vmfb S (path_join dir (key @ ''.vmfb''))) (\<lambda>cached.
     case cached of
       Some vmfb \<Rightarrow> io_return vmfb
     | None \<Rightarrow>
         io_bind (io_lift (map_err (\<lambda>e. CompilationFailed (target_name backend) (compiler_message e))
                             (compile_str compiler mlir flags))) (\<lambda>vmfb.
         io_bind (io_check (\<not> length vmfb < 16) (InvalidVmfb (length vmfb))) (\<lambda>_.
         publish_vmfb S dir key vmfb))))"

definition compile_with_iree ::
    "os \<Rightarrow> toolchain \<Rightarrow> iree_backend \<Rightarrow> string list \<Rightarrow> string \<Rightarrow> (driver_error, bytes) io" where
  "compile_with_iree S T backend flags mlir =
     io_bind (io_check (\<not> exports_mlir T) ExportedMlirSymbols) (\<lambda>_.
     io_bind io_get (\<lambda>h.
     io_bind (io_lift (cache_dir (env_vars h))) (\<lambda>dir.
     io_bind (fs_create_dir_all S IoFailed dir) (\<lambda>_.
     io_bind (lock_compiler_cache S dir) (\<lambda>_.
     io_bind (io_lift (of_option CompilerNotLoaded (load_compiler T (env_vars h ''KNOK_IREE_COMPILER'')))) (\<lambda>compiler.
     io_bind (track_library compiler) (\<lambda>_.
     io_bind (io_lift (compiler_fingerprint S compiler)) (\<lambda>version.
     compile_cached S T compiler dir backend flags mlir version))))))))"

section \<open>Compiling graphs and modules\<close>

record compiled_graph =
  compiled_mlir :: string
  compiled_vmfb :: bytes

text \<open>What the entry points use besides the host: arithmetic, MLIR and the compiler.  \<open>print_function\<close> puts a
  lowered function in the module \<open>knok\<close> and prints it, the work of \<open>melior\<close>.\<close>

record ('f, 'm) compile_env =
  float_ops :: "'f f64_ops"
  mlir_ctx :: mlir_context
  print_function :: "mlir_func \<Rightarrow> string"
  mlir_lib :: "'m melior"
  tools :: toolchain

text \<open>The end of \<open>lower\<close> is the verification of the printed module.\<close>

definition verified_mlir ::
    "('f, 'm) compile_env \<Rightarrow> nat \<Rightarrow> typed_graph \<Rightarrow> (string \<Rightarrow> typed_graph option) \<Rightarrow> driver_error + string" where
  "verified_mlir X d g graphs =
     rbind (map_err LoweringFailed
              (lower_to_mlir_with_registry (float_ops X) (mlir_ctx X) (\<lambda>f. Inr (print_function X f)) d g graphs))
       (canonicalize_and_verify (mlir_lib X))"

definition compile_graph_with_options ::
    "os \<Rightarrow> ('f, 'm) compile_env \<Rightarrow> nat \<Rightarrow> typed_graph \<Rightarrow> (string \<Rightarrow> typed_graph option) \<Rightarrow> compile_options
      \<Rightarrow> (driver_error, compiled_graph) io" where
  "compile_graph_with_options S X d g graphs options =
     io_bind (io_lift (verified_mlir X d g graphs)) (\<lambda>mlir.
     io_bind (io_lift (parse_backend (tg_backend g))) (\<lambda>backend.
     io_bind io_get (\<lambda>h.
     io_bind (io_lift (compiler_flags (env_vars h) options (tg_backend g))) (\<lambda>flags.
     io_bind (compile_with_iree S (tools X) backend flags mlir) (\<lambda>vmfb.
     io_return \<lparr>compiled_mlir = mlir, compiled_vmfb = vmfb\<rparr>)))))"

definition default_options :: compile_options where
  "default_options = \<lparr>option_flags = []\<rparr>"

definition compile_graph_with_registry ::
    "os \<Rightarrow> ('f, 'm) compile_env \<Rightarrow> nat \<Rightarrow> typed_graph \<Rightarrow> (string \<Rightarrow> typed_graph option)
      \<Rightarrow> (driver_error, compiled_graph) io" where
  "compile_graph_with_registry S X d g graphs = compile_graph_with_options S X d g graphs default_options"

definition compile_graph :: "os \<Rightarrow> ('f, 'm) compile_env \<Rightarrow> typed_graph \<Rightarrow> (driver_error, compiled_graph) io" where
  "compile_graph S X g = compile_graph_with_registry S X 0 g Map.empty"

definition compile_mlir_source_with_options ::
    "os \<Rightarrow> ('f, 'm) compile_env \<Rightarrow> string \<Rightarrow> string \<Rightarrow> compile_options \<Rightarrow> (driver_error, bytes) io" where
  "compile_mlir_source_with_options S X backend mlir options =
     io_bind io_get (\<lambda>h.
     io_bind (io_lift (compiler_flags (env_vars h) options backend)) (\<lambda>flags.
     io_bind (io_lift (parse_backend backend)) (\<lambda>backend'.
     io_bind (io_lift (canonicalize_and_verify (mlir_lib X) mlir)) (\<lambda>mlir'.
     compile_with_iree S (tools X) backend' flags mlir'))))"

definition compile_mlir_source ::
    "os \<Rightarrow> ('f, 'm) compile_env \<Rightarrow> string \<Rightarrow> string \<Rightarrow> (driver_error, bytes) io" where
  "compile_mlir_source S X backend mlir = compile_mlir_source_with_options S X backend mlir default_options"

end
