(* ===== verification/Build_Driver.thy ===== *)
theory Build_Driver
  imports Codegen Compile_Driver Autograd Trace_Context
begin

text \<open>
  \<^verbatim>\<open>crates/knok-build/src/lib.rs\<close>: the options and the registry of a build script, and the three entry points that
  write artifacts and generated wrappers to \<^verbatim>\<open>OUT_DIR\<close>.
\<close>

section \<open>Options\<close>

record build_options =
  output_file :: string
  stub_artifacts :: bool
  compiler_opts :: compile_options

definition build_options_default :: build_options where
  "build_options_default = \<lparr>output_file = ''knok_graphs.rs'', stub_artifacts = False, compiler_opts = default_options\<rparr>"

definition set_compiler_options :: "compile_options \<Rightarrow> build_options \<Rightarrow> build_options" where
  "set_compiler_options options b = b\<lparr>compiler_opts := options\<rparr>"

definition stub_artifacts_for_check :: build_options where
  "stub_artifacts_for_check = build_options_default\<lparr>stub_artifacts := True\<rparr>"

definition set_output_file :: "string \<Rightarrow> build_options \<Rightarrow> build_options" where
  "set_output_file name b = b\<lparr>output_file := name\<rparr>"

section \<open>The registry\<close>

record registered_graph =
  reg_graph :: typed_graph
  reg_backend :: build_backend

type_synonym graph_registry = "registered_graph list"

definition registry_new :: graph_registry where
  "registry_new = []"

text \<open>\<open>trace\<close> runs a graph function on an empty context; \<open>'s\<close> is the state of the DSL, its id counters.\<close>

definition registry_trace ::
    "'f f64_ops \<Rightarrow> string \<Rightarrow> build_backend \<Rightarrow> (trace_context \<Rightarrow> 's \<Rightarrow> trace_tensor list \<times> trace_context \<times> 's) \<Rightarrow> 's
      \<Rightarrow> graph_registry \<Rightarrow> (graph_registry \<times> 's) result" where
  "registry_trace F name b trace_fn s registry =
     (let (outs, ctx, s') = trace_fn context_default s in
      rbind (finish F ctx name (build_backend_name b) outs) (\<lambda>g.
      Inr (registry @ [\<lparr>reg_graph = g, reg_backend = b\<rparr>], s')))"

text \<open>The graphs by name, as \<open>collect\<close> makes a map of them: of two with one name the later.\<close>

definition graph_registry_of :: "graph_registry \<Rightarrow> (string \<times> typed_graph) list" where
  "graph_registry_of graphs = rev (map (\<lambda>r. (tg_name (reg_graph r), reg_graph r)) graphs)"

section \<open>Build steps\<close>

datatype build_error =
  BuildVariable string | BuildIo | BuildCompiler driver_error | BuildCodegen codegen_error | BuildGradient error | BuildNotUtf8

definition io_map_err :: "('e \<Rightarrow> 'd) \<Rightarrow> ('e, 'a) io \<Rightarrow> ('d, 'a) io" where
  "io_map_err f m h = (case m h of (r, h') \<Rightarrow> (map_err f r, h'))"

definition graph_vmfb_name :: "string \<Rightarrow> string" where
  "graph_vmfb_name name = name @ ''.vmfb''"

definition mlir_model_vmfb_name :: "string \<Rightarrow> string" where
  "mlir_model_vmfb_name name = ''mlir-model-'' @ name @ ''.vmfb''"

definition tracked_variables :: "string list" where
  "tracked_variables = [''EERIE_PYTHON'', ''KNOK_IREE_COMPILER'', ''KNOK_CACHE_DIR'', ''PATH'', ''PYTHONPATH'']"

definition track_compiler_environment :: "(build_error, unit) io" where
  "track_compiler_environment =
     io_fold (\<lambda>variable _. print_line (''cargo:rerun-if-env-changed='' @ variable)) tracked_variables ()"

definition rerun_if_changed :: "string \<Rightarrow> string" where
  "rerun_if_changed path = ''cargo:rerun-if-changed='' @ path"

text \<open>What every entry point does first; its value is \<^verbatim>\<open>OUT_DIR\<close>.\<close>

definition build_prologue :: "os \<Rightarrow> (build_error, string) io" where
  "build_prologue S =
     io_bind io_get (\<lambda>h.
     io_bind (io_lift (of_option (BuildVariable ''OUT_DIR'') (env_vars h ''OUT_DIR''))) (\<lambda>out_dir.
     io_bind (fs_create_dir_all S BuildIo out_dir) (\<lambda>_.
     io_bind (io_update (\<lambda>h. if env_vars h ''KNOK_CACHE_DIR'' = None
                then h\<lparr>env_vars := (env_vars h)(''KNOK_CACHE_DIR'' \<mapsto> path_join out_dir ''knok-cache'')\<rparr> else h)) (\<lambda>_.
     io_bind (print_line (rerun_if_changed ''build.rs'')) (\<lambda>_.
     io_bind track_compiler_environment (\<lambda>_.
     io_return out_dir))))))"

text \<open>The artifact of a check-only build is 16 zero bytes.\<close>

definition stub_vmfb :: bytes where
  "stub_vmfb = replicate 16 0"

definition compile_registered_graph ::
    "os \<Rightarrow> ('f, 'm) compile_env \<Rightarrow> typed_graph \<Rightarrow> (string \<times> typed_graph) list \<Rightarrow> compile_options
      \<Rightarrow> (build_error, compiled_graph) io" where
  "compile_registered_graph S X g graphs options =
     io_map_err BuildCompiler (compile_graph_with_options S X (length graphs) g (map_of graphs) options)"

definition build_flags :: "build_options \<Rightarrow> build_backend \<Rightarrow> (build_error, string list) io" where
  "build_flags options b =
     io_bind io_get (\<lambda>h.
     io_lift (map_err BuildCompiler (compiler_flags (env_vars h) (compiler_opts options) (build_backend_name b))))"

text \<open>The entry points have one shape: the prologue, a loop that makes the artifacts and collects the wrappers, and the
  write of the wrappers.\<close>

definition emit_all :: "os \<Rightarrow> build_options \<Rightarrow> (string \<Rightarrow> 'x \<Rightarrow> string \<Rightarrow> (build_error, string) io) \<Rightarrow> 'x list \<Rightarrow> (build_error, unit) io" where
  "emit_all S options step items =
     io_bind (build_prologue S) (\<lambda>out_dir.
     io_bind (io_fold (step out_dir) items []) (\<lambda>generated.
     fs_write S BuildIo (path_join out_dir (output_file options)) (str_bytes generated)))"

text \<open>One graph of the loop: its artifact, and its wrapper after those of the graphs before.\<close>

definition emit_graph ::
    "os \<Rightarrow> ('f, 'm) compile_env \<Rightarrow> build_options \<Rightarrow> string \<Rightarrow> (string \<times> typed_graph) list \<Rightarrow> typed_graph \<Rightarrow> build_backend
      \<Rightarrow> string \<Rightarrow> (build_error, string) io" where
  "emit_graph S X options out_dir graphs g b generated =
     (let vmfb_name = graph_vmfb_name (tg_name g); vmfb_path = path_join out_dir vmfb_name in
      io_bind (if stub_artifacts options then fs_write S BuildIo vmfb_path stub_vmfb
               else io_bind (compile_registered_graph S X g graphs (compiler_opts options)) (\<lambda>compiled.
                    fs_write S BuildIo vmfb_path (compiled_vmfb compiled))) (\<lambda>_.
      io_bind (build_flags options b) (\<lambda>flags.
      io_bind (io_lift (map_err BuildCodegen (graph_module g b vmfb_name flags))) (\<lambda>wrapper.
      io_return (generated @ wrapper @ [CHR 0x0A])))))"

definition emit_registered_graphs_with_options ::
    "os \<Rightarrow> ('f, 'm) compile_env \<Rightarrow> graph_registry \<Rightarrow> build_options \<Rightarrow> (build_error, unit) io" where
  "emit_registered_graphs_with_options S X registry options =
     (let graphs = graph_registry_of registry in
      emit_all S options (\<lambda>out_dir r. emit_graph S X options out_dir graphs (reg_graph r) (reg_backend r)) registry)"

definition emit_registered_graphs :: "os \<Rightarrow> ('f, 'm) compile_env \<Rightarrow> graph_registry \<Rightarrow> (build_error, unit) io" where
  "emit_registered_graphs S X registry = emit_registered_graphs_with_options S X registry build_options_default"

definition emit_grad_graph ::
    "os \<Rightarrow> ('f, 'm) compile_env \<Rightarrow> build_options \<Rightarrow> string \<Rightarrow> (string \<times> typed_graph) list \<Rightarrow> registered_graph
      \<Rightarrow> string \<Rightarrow> (build_error, string) io" where
  "emit_grad_graph S X options out_dir graphs r generated =
     io_bind (io_lift (map_err BuildGradient (value_and_grad_graph_with_registry (float_ops X) (reg_graph r) graphs))) (\<lambda>g.
     emit_graph S X options out_dir graphs g (reg_backend r) generated)"

definition emit_registered_grad_graphs_with_options ::
    "os \<Rightarrow> ('f, 'm) compile_env \<Rightarrow> graph_registry \<Rightarrow> build_options \<Rightarrow> (build_error, unit) io" where
  "emit_registered_grad_graphs_with_options S X registry options =
     (let graphs = graph_registry_of registry in
      emit_all S options (\<lambda>out_dir. emit_grad_graph S X options out_dir graphs) registry)"

definition emit_registered_grad_graphs :: "os \<Rightarrow> ('f, 'm) compile_env \<Rightarrow> graph_registry \<Rightarrow> (build_error, unit) io" where
  "emit_registered_grad_graphs S X registry = emit_registered_grad_graphs_with_options S X registry build_options_default"

section \<open>External models\<close>

text \<open>\<open>fs::read_to_string\<close> accepts well-formed UTF-8.\<close>

definition continuation_byte :: "nat \<Rightarrow> bool" where
  "continuation_byte b \<longleftrightarrow> 0x80 \<le> b \<and> b \<le> 0xBF"

fun utf8_ok :: "nat list \<Rightarrow> bool" where
  "utf8_ok [] = True"
| "utf8_ok (a # bs) =
     (if a < 0x80 then utf8_ok bs
      else if 0xC2 \<le> a \<and> a \<le> 0xDF then
        (case bs of b # r \<Rightarrow> continuation_byte b \<and> utf8_ok r | _ \<Rightarrow> False)
      else if 0xE0 \<le> a \<and> a \<le> 0xEF then
        (case bs of
           b # c # r \<Rightarrow>
             continuation_byte b \<and> (a = 0xE0 \<longrightarrow> 0xA0 \<le> b) \<and> (a = 0xED \<longrightarrow> b \<le> 0x9F) \<and> continuation_byte c \<and> utf8_ok r
         | _ \<Rightarrow> False)
      else if 0xF0 \<le> a \<and> a \<le> 0xF4 then
        (case bs of
           b # c # d # r \<Rightarrow>
             continuation_byte b \<and> (a = 0xF0 \<longrightarrow> 0x90 \<le> b) \<and> (a = 0xF4 \<longrightarrow> b \<le> 0x8F) \<and>
             continuation_byte c \<and> continuation_byte d \<and> utf8_ok r
         | _ \<Rightarrow> False)
      else False)"

definition read_to_string :: "os \<Rightarrow> string \<Rightarrow> (build_error, string) io" where
  "read_to_string S path =
     io_bind (fs_read S path) (\<lambda>r.
     case r of
       ReadOk v \<Rightarrow> if utf8_ok (map unat v) then io_return (map (\<lambda>b. char_of (unat b)) v) else io_fail BuildNotUtf8
     | _ \<Rightarrow> io_fail BuildIo)"

definition resolve_model_path :: "string \<Rightarrow> (build_error, string) io" where
  "resolve_model_path path =
     (if take 1 path = ''/'' then io_return path
      else io_bind io_get (\<lambda>h.
           io_bind (io_lift (of_option (BuildVariable ''CARGO_MANIFEST_DIR'') (env_vars h ''CARGO_MANIFEST_DIR''))) (\<lambda>dir.
           io_return (path_join dir path))))"

definition emit_model ::
    "os \<Rightarrow> ('f, 'm) compile_env \<Rightarrow> build_options \<Rightarrow> string \<Rightarrow> mlir_model \<Rightarrow> string \<Rightarrow> (build_error, string) io" where
  "emit_model S X options out_dir model generated =
     io_bind (resolve_model_path (model_path model)) (\<lambda>source_path.
     io_bind (print_line (rerun_if_changed source_path)) (\<lambda>_.
     let vmfb_name = mlir_model_vmfb_name (model_name model); vmfb_path = path_join out_dir vmfb_name in
     io_bind (if stub_artifacts options then fs_write S BuildIo vmfb_path stub_vmfb
              else io_bind (read_to_string S source_path) (\<lambda>source.
                   io_bind (io_map_err BuildCompiler
                     (compile_mlir_source_with_options S X (build_backend_name (model_backend model)) source
                        (compiler_opts options))) (\<lambda>vmfb.
                   fs_write S BuildIo vmfb_path vmfb))) (\<lambda>_.
     io_bind (build_flags options (model_backend model)) (\<lambda>flags.
     io_bind (io_lift (map_err BuildCodegen (mlir_model_module model vmfb_name flags))) (\<lambda>wrapper.
     io_return (generated @ wrapper @ [CHR 0x0A]))))))"

definition emit_mlir_models_with_options ::
    "os \<Rightarrow> ('f, 'm) compile_env \<Rightarrow> mlir_model list \<Rightarrow> build_options \<Rightarrow> (build_error, unit) io" where
  "emit_mlir_models_with_options S X models options = emit_all S options (emit_model S X options) models"

definition emit_mlir_models :: "os \<Rightarrow> ('f, 'm) compile_env \<Rightarrow> mlir_model list \<Rightarrow> (build_error, unit) io" where
  "emit_mlir_models S X models = emit_mlir_models_with_options S X models build_options_default"

end
