(* ===== verification/Compile_Cache.thy ===== *)
theory Compile_Cache
  imports Compile_Driver
begin

text \<open>
  The cache of compiled modules.  A file whose name ends in \<^verbatim>\<open>.vmfb\<close> is an artifact; it is valid when it has
  at least 16 bytes.  A request changes at most its own artifact, and only when that is not valid yet.
\<close>

section \<open>Artifacts\<close>

definition artifact_path :: "string \<Rightarrow> bool" where
  "artifact_path p \<longleftrightarrow> (\<exists>q. p = q @ ''.vmfb'')"

definition valid_artifact :: "host \<Rightarrow> string \<Rightarrow> bytes \<Rightarrow> bool" where
  "valid_artifact h p v \<longleftrightarrow> files h p = Some v \<and> 16 \<le> length v"

text \<open>\<open>Q p v\<close> tells which contents an artifact may get.\<close>

definition artifacts_step :: "(string \<Rightarrow> bytes \<Rightarrow> bool) \<Rightarrow> host \<Rightarrow> host \<Rightarrow> bool" where
  "artifacts_step Q h h' \<longleftrightarrow>
     env_vars h' = env_vars h \<and>
     (\<forall>p. artifact_path p \<longrightarrow>
        files h' p = files h p \<or>
        (\<nexists>v. valid_artifact h p v) \<and> (files h' p = None \<or> (\<exists>v. valid_artifact h' p v \<and> Q p v)))"

lemma artifacts_same: "env_vars h' = env_vars h \<Longrightarrow> (\<And>p. artifact_path p \<Longrightarrow> files h' p = files h p) \<Longrightarrow> artifacts_step Q h h'"
  by (simp add: artifacts_step_def)

lemma artifacts_step_trans:
  assumes "artifacts_step Q h h'" "artifacts_step Q h' h''"
  shows "artifacts_step Q h h''"
  unfolding artifacts_step_def
proof (intro conjI allI impI)
  show "env_vars h'' = env_vars h" using assms by (simp add: artifacts_step_def)
  fix p
  assume p: "artifact_path p"
  have 1: "files h' p = files h p \<or> (\<nexists>v. valid_artifact h p v) \<and> (files h' p = None \<or> (\<exists>v. valid_artifact h' p v \<and> Q p v))"
    and 2: "files h'' p = files h' p \<or> (\<nexists>v. valid_artifact h' p v) \<and> (files h'' p = None \<or> (\<exists>v. valid_artifact h'' p v \<and> Q p v))"
    using assms p by (simp_all add: artifacts_step_def)
  from 2 show "files h'' p = files h p \<or> (\<nexists>v. valid_artifact h p v) \<and> (files h'' p = None \<or> (\<exists>v. valid_artifact h'' p v \<and> Q p v))"
  proof
    assume "files h'' p = files h' p"
    with 1 show ?thesis by (auto simp: valid_artifact_def)
  next
    assume "(\<nexists>v. valid_artifact h' p v) \<and> (files h'' p = None \<or> (\<exists>v. valid_artifact h'' p v \<and> Q p v))"
    with 1 show ?thesis by (auto simp: valid_artifact_def)
  qed
qed

interpretation artifacts: host_frame "artifacts_step Q" for Q
  by unfold_locales (auto simp: artifacts_step_def [of _ h h for h] intro: artifacts_step_trans)

lemma artifact_suffix: "artifact_path p \<Longrightarrow> p \<noteq> [] \<and> last p = CHR ''b''"
  by (auto simp: artifact_path_def)

lemma join_artifact: "artifact_path (path_join dir (key @ ''.vmfb''))"
  unfolding artifact_path_def path_join_def by (auto intro: exI [of _ "key"] exI [of _ "dir @ key"] exI [of _ "dir @ CHR ''/'' # key"])

lemma other_paths:
  "\<not> artifact_path (path_join dir ''iree-compiler.lock'')" "\<not> artifact_path (path_join dir (key @ ''.'' @ suffix @ ''.vmfb.tmp''))"
proof -
  have "last (path_join dir ''iree-compiler.lock'') = CHR ''k''" by (simp add: last_path_join)
  then show "\<not> artifact_path (path_join dir ''iree-compiler.lock'')" using artifact_suffix by fastforce
  have "last (path_join dir (key @ ''.'' @ suffix @ ''.vmfb.tmp'')) = CHR ''p''" by (simp add: last_path_join)
  then show "\<not> artifact_path (path_join dir (key @ ''.'' @ suffix @ ''.vmfb.tmp''))" using artifact_suffix by fastforce
qed

section \<open>The steps of a request\<close>

lemma io_cases:
  obtains e h' where "m h = (Inl e, h')" | x h' where "m h = (Inr x, h')"
  by (cases "m h"; cases "fst (m h)") (metis fst_conv sum.exhaust)+

lemma io_bind_run:
  "m h = (Inl e, h') \<Longrightarrow> io_bind m f h = (Inl e, h')"
  "m h = (Inr x, h') \<Longrightarrow> io_bind m f h = f x h'"
  by (simp_all add: io_bind_def)

lemma write_elsewhere: "\<not> artifact_path p \<Longrightarrow> artifacts_step Q h (snd (fs_write S e p v h))"
  by (rule artifacts_same) (auto simp: fs_write_def io_bind_def io_update_def io_fail_def split: write_outcome.split)

text \<open>The steps before the cache is read touch no artifact.\<close>

definition keeps_artifacts :: "host \<Rightarrow> host \<Rightarrow> bool" where
  "keeps_artifacts h h' \<longleftrightarrow> env_vars h' = env_vars h \<and> (\<forall>p. artifact_path p \<longrightarrow> files h' p = files h p)"

interpretation untouched: host_frame keeps_artifacts
  by unfold_locales (auto simp: keeps_artifacts_def)

lemma lock_run:
  obtains "\<not> locks_file S (path_join dir ''iree-compiler.lock'')" "lock_compiler_cache S dir h = (Inl IoFailed, h)"
  | h' where "locks_file S (path_join dir ''iree-compiler.lock'')" "lock_compiler_cache S dir h = (Inr (), h')" "keeps_artifacts h h'"
proof (cases "locks_file S (path_join dir ''iree-compiler.lock'')")
  case True
  let ?h' = "if files h (path_join dir ''iree-compiler.lock'') = None
    then h\<lparr>files := (files h)(path_join dir ''iree-compiler.lock'' \<mapsto> [])\<rparr> else h"
  have "lock_compiler_cache S dir h = (Inr (), ?h')" using True by (simp add: lock_compiler_cache_def Let_def io_bind_def)
  moreover have "keeps_artifacts h ?h'" using other_paths(1) [of dir] by (auto simp: keeps_artifacts_def)
  ultimately show thesis using True that(2) by blast
next
  case False
  then show thesis by (intro that(1)) (simp_all add: lock_compiler_cache_def Let_def io_bind_def)
qed

lemma track_run:
  obtains h' where "track_library C h = (Inr (), h')" "keeps_artifacts h h'"
proof (cases "env_vars h ''OUT_DIR'' \<noteq> None \<and> \<not> library_tracked h")
  case True
  then show thesis by (intro that) (auto simp: track_library_def io_bind_def print_line_def keeps_artifacts_def)
next
  case False
  then show thesis
    by (intro that [of h]) (auto simp: track_library_def io_bind_def keeps_artifacts_def)
qed

lemma read_cached_cases:
  obtains "read_denied S p" "read_cached_vmfb S p h = (Inl IoFailed, h)"
  | v where "\<not> read_denied S p" "valid_artifact h p v" "read_cached_vmfb S p h = (Inr (Some v), h)"
  | h' where "\<not> read_denied S p" "\<nexists>v. valid_artifact h p v" "read_cached_vmfb S p h = (Inr None, h')"
      "h' = h \<or> h' = h\<lparr>files := (files h)(p := None)\<rparr>"
proof (cases "read_denied S p")
  case True
  then show thesis by (intro that(1)) (simp_all add: read_cached_vmfb_def fs_read_def io_bind_def)
next
  case False
  show thesis
  proof (cases "files h p")
    case None
    with False show thesis
      by (intro that(3) [of h]) (simp_all add: read_cached_vmfb_def fs_read_def io_bind_def valid_artifact_def)
  next
    case (Some v)
    note read = read_cached_vmfb_def fs_read_def fs_remove_file_def io_bind_def valid_artifact_def
    show thesis
    proof (cases "16 \<le> length v")
      case True
      with False Some show thesis by (intro that(2) [of v]) (simp_all add: read)
    next
      case short: False
      show thesis
      proof (cases "removes_file S p")
        case True
        with False Some short show thesis by (intro that(3) [of "h\<lparr>files := (files h)(p := None)\<rparr>"]) (simp_all add: read)
      next
        case no: False
        with False Some short show thesis by (intro that(3) [of h]) (simp_all add: read)
      qed
    qed
  qed
qed

lemma drop_invalid:
  "\<nexists>v. valid_artifact h p v \<Longrightarrow> h' = h \<or> h' = h\<lparr>files := (files h)(p := None)\<rparr> \<Longrightarrow> artifacts_step Q h h'"
  unfolding artifacts_step_def by (cases "h' = h") (auto simp: fun_upd_apply)

text \<open>Publishing a new artifact.\<close>

lemma publish_ok:
  assumes new: "\<nexists>v. valid_artifact h p v" and p: "p = path_join dir (key @ ''.vmfb'')"
    and v: "16 \<le> length v" "Q p v"
  shows "artifacts_step Q h (snd (publish_vmfb S dir key v h))"
    and "fst (publish_vmfb S dir key v h) = Inr w \<Longrightarrow> w = v \<and> valid_artifact (snd (publish_vmfb S dir key v h)) p v"
proof -
  define tmp where "tmp = path_join dir (key @ ''.'' @ (nat_str (process_id S) @ ''-'' @ nat_str (unat (temp_counter h))) @ ''.vmfb.tmp'')"
  let ?h1 = "h\<lparr>temp_counter := temp_counter h + 1\<rparr>"
  have tmp: "\<not> artifact_path tmp" by (simp only: tmp_def other_paths(2) not_False_eq_True)
  have art: "artifact_path p" by (simp add: p join_artifact)
  have ne: "tmp \<noteq> p" using tmp art by metis
  have suffix: "io_bind (unique_cache_temp_suffix S) f h = f (nat_str (process_id S) @ ''-'' @ nat_str (unat (temp_counter h))) ?h1"
    for f :: "string \<Rightarrow> (driver_error, bytes) io"
    by (simp add: unique_cache_temp_suffix_def io_bind_def)
  have step1: "artifacts_step Q h ?h1" by (rule artifacts_same) simp_all
  have none1: "\<nexists>v. valid_artifact ?h1 p v" using new by (simp add: valid_artifact_def)
  have run: "publish_vmfb S dir key v h =
      io_bind (fs_write S IoFailed tmp v) (\<lambda>_.
      io_bind (fs_rename S tmp p) (\<lambda>renamed.
      if renamed then io_return v
      else io_bind (fs_remove_file S tmp) (\<lambda>_.
           io_bind (read_cached_vmfb S p) (\<lambda>cached. io_lift (of_option UnpublishedVmfb cached))))) ?h1"
    unfolding publish_vmfb_def Let_def p tmp_def by (simp only: suffix)
  have "artifacts_step Q h (snd (publish_vmfb S dir key v h)) \<and>
      (fst (publish_vmfb S dir key v h) = Inr w \<longrightarrow> w = v \<and> valid_artifact (snd (publish_vmfb S dir key v h)) p v)"
  proof (cases "fs_write S IoFailed tmp v ?h1" rule: prod.exhaust)
    case (Pair r h2)
    have step2: "artifacts_step Q h h2"
      using artifacts_step_trans [OF step1 write_elsewhere [OF tmp, of Q ?h1 S IoFailed v]] Pair by simp
    show ?thesis
    proof (cases r)
      case (Inl e)
      with Pair step2 show ?thesis by (simp add: run io_bind_def)
    next
      case (Inr u)
      then have h2: "h2 = ?h1\<lparr>files := (files h)(tmp \<mapsto> v)\<rparr>"
        using Pair by (auto simp: fs_write_def io_bind_def io_update_def io_fail_def split: write_outcome.splits)
      have none2: "\<nexists>v. valid_artifact h2 p v" using new ne by (simp add: h2 valid_artifact_def)
      show ?thesis
      proof (cases "renames_file S tmp p")
        case True
        let ?h3 = "h2\<lparr>files := (files h2)(tmp := None, p \<mapsto> v)\<rparr>"
        have ren: "fs_rename S tmp p h2 = (Inr True :: driver_error + bool, ?h3)"
          using True ne by (simp add: fs_rename_def io_bind_def h2)
        have "artifacts_step Q h2 ?h3"
          unfolding artifacts_step_def using none2 v tmp by (auto simp: valid_artifact_def)
        with step2 have "artifacts_step Q h ?h3" by (rule artifacts_step_trans)
        moreover have "publish_vmfb S dir key v h = (Inr v, ?h3)"
          using Pair Inr ren by (simp add: run io_bind_def)
        ultimately show ?thesis using v(1) by (intro conjI impI) (simp_all add: valid_artifact_def)
      next
        case False
        have ren: "fs_rename S tmp p h2 = (Inr False :: driver_error + bool, h2)" using False by (simp add: fs_rename_def io_bind_def)
        obtain h3 where rem: "fs_remove_file S tmp h2 = (Inr () :: driver_error + unit, h3)"
            and h3: "h3 = h2 \<or> h3 = h2\<lparr>files := (files h2)(tmp := None)\<rparr>"
          by (cases "removes_file S tmp") (auto simp: fs_remove_file_def)
        have "artifacts_step Q h2 h3" by (rule artifacts_same) (use h3 tmp in auto)
        with step2 have step3: "artifacts_step Q h h3" by (rule artifacts_step_trans)
        have none3: "\<nexists>v. valid_artifact h3 p v" using h3 none2 ne by (auto simp: valid_artifact_def)
        have end': "publish_vmfb S dir key v h =
            io_bind (read_cached_vmfb S p) (\<lambda>cached. io_lift (of_option UnpublishedVmfb cached)) h3"
          using Pair Inr ren rem by (simp add: run io_bind_def)
        show ?thesis
        proof (cases rule: read_cached_cases [of S p h3])
          case 1
          with step3 show ?thesis by (simp add: end' io_bind_def)
        next
          case (2 w)
          with none3 show ?thesis by blast
        next
          case (3 h4)
          from 3(2,4) have "artifacts_step Q h3 h4" by (rule drop_invalid)
          with step3 have "artifacts_step Q h h4" by (rule artifacts_step_trans)
          with 3(3) show ?thesis by (simp add: end' io_bind_def)
        qed
      qed
    qed
  qed
  then show "artifacts_step Q h (snd (publish_vmfb S dir key v h))"
    and "fst (publish_vmfb S dir key v h) = Inr w \<Longrightarrow> w = v \<and> valid_artifact (snd (publish_vmfb S dir key v h)) p v"
    by blast+
qed

section \<open>Requests\<close>

text \<open>Where a request looks for its artifact, and the compiler it would call.\<close>

definition cache_entry ::
    "os \<Rightarrow> toolchain \<Rightarrow> (string \<Rightarrow> string option) \<Rightarrow> iree_backend \<Rightarrow> string list \<Rightarrow> string \<Rightarrow> (string \<times> iree_compiler) option" where
  "cache_entry S T env b flags mlir =
     (case cache_dir env of
        Inl _ \<Rightarrow> None
      | Inr dir \<Rightarrow>
          (case load_compiler T (env ''KNOK_IREE_COMPILER'') of
             None \<Rightarrow> None
           | Some C \<Rightarrow>
               (case compiler_fingerprint S C of
                  Inl _ \<Rightarrow> None
                | Inr version \<Rightarrow>
                    Some (path_join dir (cache_key T env (target_name b) mlir (library_path C) version flags @ ''.vmfb''), C))))"

text \<open>The artifacts that a request may make: its own, with the output of its compiler.\<close>

definition may_produce ::
    "os \<Rightarrow> toolchain \<Rightarrow> (string \<Rightarrow> string option) \<Rightarrow> iree_backend \<Rightarrow> string list \<Rightarrow> string \<Rightarrow> string \<Rightarrow> bytes \<Rightarrow> bool" where
  "may_produce S T env b flags mlir p v \<longleftrightarrow>
     (\<exists>C. cache_entry S T env b flags mlir = Some (p, C) \<and> compile_str C mlir flags = Inr v)"

definition answered :: "(string \<Rightarrow> bytes \<Rightarrow> bool) \<Rightarrow> string \<Rightarrow> host \<Rightarrow> bytes \<Rightarrow> host \<Rightarrow> bool" where
  "answered Q p h v h' \<longleftrightarrow> valid_artifact h' p v \<and> (valid_artifact h p v \<or> Q p v)"

lemma compile_cached_ok:
  assumes p: "p = path_join dir (cache_key T (env_vars h) (target_name b) mlir (library_path C) version flags @ ''.vmfb'')"
    and Q: "\<And>v. compile_str C mlir flags = Inr v \<Longrightarrow> Q p v"
    and run: "compile_cached S T C dir b flags mlir version h = (r, h')"
  shows "artifacts_step Q h h' \<and> (\<forall>v. r = Inr v \<longrightarrow> answered Q p h v h')"
proof -
  let ?key = "cache_key T (env_vars h) (target_name b) mlir (library_path C) version flags"
  note cached = compile_cached_def io_bind_def [of io_get] Let_def p [symmetric]
  show ?thesis
  proof (cases rule: read_cached_cases [of S p h])
    case 1
    with run show ?thesis by (auto simp: cached io_bind_def artifacts.frame_refl)
  next
    case (2 v)
    with run show ?thesis by (auto simp: cached io_bind_def artifacts.frame_refl answered_def)
  next
    case (3 h1)
    have step1: "artifacts_step Q h h1" using 3(2,4) by (rule drop_invalid)
    have none1: "\<nexists>v. valid_artifact h1 p v" using 3(2,4) by (auto simp: valid_artifact_def)
    show ?thesis
    proof (cases "compile_str C mlir flags")
      case (Inl e)
      with 3 run step1 show ?thesis by (auto simp: cached io_bind_def)
    next
      case (Inr v)
      show ?thesis
      proof (cases "length v < 16")
        case True
        with Inr 3 run step1 show ?thesis by (auto simp: cached io_bind_def)
      next
        case False
        then have v: "16 \<le> length v" by simp
        have "publish_vmfb S dir ?key v h1 = (r, h')" using Inr 3 run False by (simp add: cached io_bind_def)
        then show ?thesis
          using publish_ok [where Q = Q and S = S, OF none1 p v Q [OF Inr]] artifacts_step_trans [OF step1] Q [OF Inr]
          by (auto simp: answered_def)
      qed
    qed
  qed
qed

text \<open>A request for an artifact that is there is answered with it.\<close>

lemma compile_cached_hit:
  assumes "p = path_join dir (cache_key T (env_vars h) (target_name b) mlir (library_path C) version flags @ ''.vmfb'')"
    and "valid_artifact h p v" "\<not> read_denied S p"
  shows "compile_cached S T C dir b flags mlir version h = (Inr v, h)"
  using assms
  by (simp add: compile_cached_def Let_def io_bind_def read_cached_vmfb_def fs_read_def valid_artifact_def)

lemma compile_with_iree_run:
  obtains e h' where "compile_with_iree S T b flags mlir h = (Inl e, h')" "keeps_artifacts h h'"
  | dir C version h' where "cache_dir (env_vars h) = Inr dir" "load_compiler T (env_vars h ''KNOK_IREE_COMPILER'') = Some C"
      "compiler_fingerprint S C = Inr version" "keeps_artifacts h h'"
      "compile_with_iree S T b flags mlir h = compile_cached S T C dir b flags mlir version h'"
proof -
  note [simp] = compile_with_iree_def io_bind_def fs_create_dir_all_def untouched.frame_refl
  consider "exports_mlir T" | e where "cache_dir (env_vars h) = Inl e"
    | dir where "\<not> exports_mlir T" "cache_dir (env_vars h) = Inr dir" "\<not> creates_dir S dir"
    | dir where "\<not> exports_mlir T" "cache_dir (env_vars h) = Inr dir" "creates_dir S dir"
    by (metis sum.exhaust)
  then show thesis
  proof cases
    case 1
    then show thesis by (intro that(1) [of _ h]) simp_all
  next
    case 2
    then show thesis by (cases "exports_mlir T") (auto intro!: that(1) [of _ h])
  next
    case 3
    then show thesis by (intro that(1) [of _ h]) simp_all
  next
    case (4 dir)
    show thesis
    proof (cases rule: lock_run [of S dir h])
      case 1
      with 4 show thesis by (intro that(1) [of _ h]) simp_all
    next
      case (2 h1)
      show thesis
      proof (cases "load_compiler T (env_vars h ''KNOK_IREE_COMPILER'')")
        case None
        with 4 2 show thesis by (intro that(1) [of _ h1]) simp_all
      next
        case (Some C)
        obtain h2 where track: "track_library C h1 = (Inr (), h2)" "keeps_artifacts h1 h2" by (rule track_run)
        have keeps: "keeps_artifacts h h2" using 2(3) track(2) by (rule untouched.frame_trans)
        show thesis
        proof (cases "compiler_fingerprint S C")
          case (Inl e)
          with 4 2 Some track keeps show thesis by (intro that(1) [of _ h2]) simp_all
        next
          case (Inr version)
          with 4 2 Some track keeps show thesis by (intro that(2)) simp_all
        qed
      qed
    qed
  qed
qed

theorem compile_with_iree_ok:
  assumes "compile_with_iree S T b flags mlir h = (r, h')"
  shows "artifacts_step (may_produce S T (env_vars h) b flags mlir) h h' \<and>
    (\<forall>v. r = Inr v \<longrightarrow>
       (\<exists>p C. cache_entry S T (env_vars h) b flags mlir = Some (p, C) \<and>
          answered (may_produce S T (env_vars h) b flags mlir) p h v h'))"
proof -
  let ?Q = "may_produce S T (env_vars h) b flags mlir"
  show ?thesis
  proof (cases rule: compile_with_iree_run [of S T b flags mlir h])
    case (1 e h1)
    with assms show ?thesis by (auto intro!: artifacts_same simp: keeps_artifacts_def)
  next
    case (2 dir C version h1)
    let ?p = "path_join dir (cache_key T (env_vars h1) (target_name b) mlir (library_path C) version flags @ ''.vmfb'')"
    have env: "env_vars h1 = env_vars h" and same: "\<And>p. artifact_path p \<Longrightarrow> files h1 p = files h p"
      using 2(4) by (simp_all add: keeps_artifacts_def)
    have entry: "cache_entry S T (env_vars h) b flags mlir = Some (?p, C)"
      using 2(1-3) by (simp add: cache_entry_def env)
    have Q: "?Q ?p v" if "compile_str C mlir flags = Inr v" for v
      using entry that by (simp add: may_produce_def)
    have run: "compile_cached S T C dir b flags mlir version h1 = (r, h')" using assms 2(5) by simp
    have ok: "artifacts_step ?Q h1 h' \<and> (\<forall>v. r = Inr v \<longrightarrow> answered ?Q ?p h1 v h')"
      using Q run by (intro compile_cached_ok [where S = S and C = C]) simp_all
    have "artifacts_step ?Q h h1" by (rule artifacts_same) (use env same in auto)
    then have "artifacts_step ?Q h h'" using ok artifacts_step_trans by blast
    moreover have "answered ?Q ?p h v h'" if "r = Inr v" for v
      using ok that same [OF join_artifact] by (auto simp: answered_def valid_artifact_def)
    ultimately show ?thesis using entry by blast
  qed
qed

end
