(* ===== verification/Compile_Properties.thy ===== *)
theory Compile_Properties
  imports Compile_Cache Lower_Properties
begin

text \<open>
  What the compiler driver promises: which flags the compiler gets, what is in the cache, that a compiled
  artifact stays available, and what the result of compiling a graph is.
\<close>

section \<open>Flags\<close>

lemma default_flag_key:
  assumes "CHR ''='' \<notin> set key" "key \<noteq> key'"
  shows "filter (\<lambda>flag. flag_key flag = key') (default_flag extra (key @ ''='') v) = []"
proof -
  have "flag_key (key @ CHR ''='' # x) = key" for x
    using assms(1) by (auto simp: flag_key_def takeWhile_append intro: takeWhile_eq_all_conv [THEN iffD2])
  with assms(2) show ?thesis by (auto simp: default_flag_def split: option.split)
qed

lemma default_flag_kept:
  "list_ex (starts_with prefix) extra \<Longrightarrow> default_flag extra prefix v = []"
  by (simp add: default_flag_def split: option.split)

text \<open>The compiler gets exactly one flag that selects a backend, that of the request; the flags of the caller come
  last and in order, and the defaults taken from Cargo for the optimization level and the target give way to
  them.\<close>

theorem compiler_flags_select_backend:
  assumes "compiler_flags env options backend = Inr flags"
  shows "filter (\<lambda>flag. flag_key flag = ''--iree-hal-target-backends'') flags = [''--iree-hal-target-backends='' @ backend] \<and>
    (\<exists>defaults. flags = defaults @ option_flags options \<and>
       (list_ex (starts_with ''--iree-opt-level='') (option_flags options) \<longrightarrow>
          filter (starts_with ''--iree-opt-level='') defaults = []) \<and>
       (list_ex (starts_with ''--iree-llvmcpu-target-triple='') (option_flags options) \<longrightarrow>
          filter (starts_with ''--iree-llvmcpu-target-triple='') defaults = []))"
proof -
  let ?opt = "default_flag (option_flags options) ''--iree-opt-level='' (cargo_iree_opt_level (env ''OPT_LEVEL''))"
  let ?target = "default_flag (option_flags options) ''--iree-llvmcpu-target-triple='' (env ''TARGET'')"
  obtain capability where user: "\<not> list_ex (\<lambda>flag. flag_key flag = ''--iree-hal-target-backends'') (option_flags options)"
      and flags: "flags = ([''--iree-hal-target-backends='' @ backend, ''--iree-input-demote-f64-to-f32=false''] @
          (if capability = IreeMetalSpirv then [''--iree-metal-compile-to-metallib=false''] else []) @
          (if capability = IreeLlvmCpu then ?opt @ ?target else [])) @ option_flags options"
    using assms
    by (auto simp: compiler_flags_def backend_flags_def backend_flags_with_cargo_env_def parse_backend_def result_simps)
  have none: "filter (\<lambda>flag. flag_key flag = ''--iree-hal-target-backends'') (option_flags options) = []"
    using user by (auto simp: filter_empty_conv list_ex_iff)
  have opt: "filter (\<lambda>flag. flag_key flag = ''--iree-hal-target-backends'') ?opt = []"
    using default_flag_key [of "''--iree-opt-level''" "''--iree-hal-target-backends''"] by simp
  have target: "filter (\<lambda>flag. flag_key flag = ''--iree-hal-target-backends'') ?target = []"
    using default_flag_key [of "''--iree-llvmcpu-target-triple''" "''--iree-hal-target-backends''"] by simp
  have keys: "flag_key (''--iree-hal-target-backends='' @ backend) = ''--iree-hal-target-backends''"
      "flag_key ''--iree-input-demote-f64-to-f32=false'' = ''--iree-input-demote-f64-to-f32''"
      "flag_key ''--iree-metal-compile-to-metallib=false'' = ''--iree-metal-compile-to-metallib''"
    by (simp_all add: flag_key_def)
  have "filter (\<lambda>flag. flag_key flag = ''--iree-hal-target-backends'') flags = [''--iree-hal-target-backends='' @ backend]"
    unfolding flags filter_append none by (simp add: opt target keys [simplified])
  moreover have "filter (starts_with ''--iree-opt-level='') ?target = []"
      "filter (starts_with ''--iree-llvmcpu-target-triple='') ?opt = []"
    by (simp_all add: default_flag_def starts_with_def split: option.split)
  ultimately show ?thesis
    using flags by (auto simp: default_flag_kept starts_with_def simp del: append_assoc)
qed

lemma compiler_flags_select_backend_witness:
  "filter (\<lambda>flag. flag_key flag = ''--iree-hal-target-backends'')
     [''--iree-hal-target-backends=cuda'', ''--iree-input-demote-f64-to-f32=false'', ''--x''] =
   [''--iree-hal-target-backends='' @ ''cuda'']"
  by (rule conjunct1 [OF compiler_flags_select_backend [where env = Map.empty and options = "\<lparr>option_flags = [''--x'']\<rparr>"]])
    (simp add: compiler_flags_def backend_flags_def backend_flags_with_cargo_env_def parse_backend_def
      from_target_backend_def flag_key_def)

section \<open>The cache\<close>

text \<open>What happens to the files of a build: requests to compile, by one process after the other since each
  holds the lock of the cache, and changes to anything but the artifacts.\<close>

inductive build_step :: "toolchain \<Rightarrow> host \<Rightarrow> host \<Rightarrow> bool" for T where
  request: "compile_with_iree S T b flags mlir h = (r, h') \<Longrightarrow> build_step T h h'"
| elsewhere: "(\<And>p. artifact_path p \<Longrightarrow> files h' p = files h p) \<Longrightarrow> build_step T h h'"

text \<open>An artifact that is valid was made for some request with its key.\<close>

definition cache_sound :: "toolchain \<Rightarrow> host \<Rightarrow> bool" where
  "cache_sound T h \<longleftrightarrow>
     (\<forall>p v. artifact_path p \<and> valid_artifact h p v \<longrightarrow>
        (\<exists>S env b flags mlir. may_produce S T env b flags mlir p v))"

lemma build_step_keeps:
  assumes "build_step T h h'" "artifact_path p" "valid_artifact h p v"
  shows "valid_artifact h' p v"
  using assms
proof (cases rule: build_step.cases)
  case (request S b flags mlir r)
  with compile_with_iree_ok [OF request(1)] assms(2,3) show ?thesis
    by (fastforce simp: artifacts_step_def valid_artifact_def)
qed (simp add: valid_artifact_def)

lemma build_steps_keep:
  assumes "(build_step T)\<^sup>*\<^sup>* h h'" "artifact_path p" "valid_artifact h p v"
  shows "valid_artifact h' p v"
  using assms by (induction rule: rtranclp_induct) (auto intro: build_step_keeps)

lemma build_step_sound:
  assumes "build_step T h h'" "cache_sound T h"
  shows "cache_sound T h'"
  using assms(1)
proof (cases rule: build_step.cases)
  case (request S b flags mlir r)
  then have step: "artifacts_step (may_produce S T (env_vars h) b flags mlir) h h'"
    using compile_with_iree_ok by blast
  show ?thesis
    unfolding cache_sound_def
  proof (intro allI impI)
    fix p v
    assume p: "artifact_path p \<and> valid_artifact h' p v"
    with step consider "files h' p = files h p" | w where "files h' p = Some w" "may_produce S T (env_vars h) b flags mlir p w"
      by (auto simp: artifacts_step_def valid_artifact_def)
    then show "\<exists>S env b flags mlir. may_produce S T env b flags mlir p v"
    proof cases
      case 1
      with p assms(2) show ?thesis by (simp add: cache_sound_def valid_artifact_def)
    next
      case 2
      with p have "may_produce S T (env_vars h) b flags mlir p v" by (simp add: valid_artifact_def)
      then show ?thesis by (intro exI)
    qed
  qed
next
  case elsewhere
  with assms(2) show ?thesis by (auto simp: cache_sound_def valid_artifact_def)
qed

text \<open>C11. No broken artifact is ever used or left: starting from a cache that holds no valid artifact, whatever
  requests are made and wherever they fail, each valid artifact is the complete output of a compiler for a
  request with the artifact's key.\<close>

theorem artifacts_complete:
  assumes "(build_step T)\<^sup>*\<^sup>* h h'" and "\<nexists>p v. artifact_path p \<and> valid_artifact h p v"
  shows "\<forall>p v. artifact_path p \<and> valid_artifact h' p v \<longrightarrow>
    (\<exists>S env b flags mlir C. cache_entry S T env b flags mlir = Some (p, C) \<and> compile_str C mlir flags = Inr v)"
proof -
  from assms(1) have "cache_sound T h'"
  proof (induction rule: rtranclp_induct)
    case base
    show ?case using assms(2) by (auto simp: cache_sound_def)
  qed (rule build_step_sound)
  then show ?thesis by (simp add: cache_sound_def may_produce_def)
qed

text \<open>The host lets a request read the cache.\<close>

definition serves :: "os \<Rightarrow> toolchain \<Rightarrow> (string \<Rightarrow> string option) \<Rightarrow> string \<Rightarrow> bool" where
  "serves S T env p \<longleftrightarrow>
     \<not> exports_mlir T \<and> \<not> read_denied S p \<and>
     (case cache_dir env of
        Inl _ \<Rightarrow> False
      | Inr dir \<Rightarrow> creates_dir S dir \<and> locks_file S (path_join dir ''iree-compiler.lock''))"

text \<open>On such a host a request is the lookup of its artifact, and a call of the compiler when it is missing.\<close>

lemma compile_with_iree_served:
  assumes "cache_entry S T (env_vars h) b flags mlir = Some (p, C)" and "serves S T (env_vars h) p"
  obtains dir version h1 where "keeps_artifacts h h1" "artifact_path p"
    "p = path_join dir (cache_key T (env_vars h1) (target_name b) mlir (library_path C) version flags @ ''.vmfb'')"
    "compile_with_iree S T b flags mlir h = compile_cached S T C dir b flags mlir version h1"
proof -
  obtain dir version where dir: "cache_dir (env_vars h) = Inr dir" and C: "load_compiler T (env_vars h ''KNOK_IREE_COMPILER'') = Some C"
      and version: "compiler_fingerprint S C = Inr version"
      and p: "p = path_join dir (cache_key T (env_vars h) (target_name b) mlir (library_path C) version flags @ ''.vmfb'')"
    using assms(1) by (auto simp: cache_entry_def split: sum.splits option.splits)
  have host: "\<not> exports_mlir T" "creates_dir S dir" "locks_file S (path_join dir ''iree-compiler.lock'')"
    using assms(2) by (simp_all add: serves_def dir)
  obtain h1 where lock: "lock_compiler_cache S dir h = (Inr (), h1)" "keeps_artifacts h h1"
    using host(3) by (cases rule: lock_run [of S dir h]) auto
  obtain h2 where track: "track_library C h1 = (Inr (), h2)" "keeps_artifacts h1 h2" by (rule track_run)
  have keeps: "keeps_artifacts h h2" using lock(2) track(2) by (rule untouched.frame_trans)
  show thesis
  proof (rule that [OF keeps])
    show "artifact_path p" by (simp add: p join_artifact)
    show "p = path_join dir (cache_key T (env_vars h2) (target_name b) mlir (library_path C) version flags @ ''.vmfb'')"
      using keeps by (simp add: p keeps_artifacts_def)
    show "compile_with_iree S T b flags mlir h = compile_cached S T C dir b flags mlir version h2"
      using host dir C version lock track by (simp add: compile_with_iree_def io_bind_def fs_create_dir_all_def)
  qed
qed

lemma compile_with_iree_hit:
  assumes "cache_entry S T (env_vars h) b flags mlir = Some (p, C)" and "serves S T (env_vars h) p"
    and valid: "valid_artifact h p v"
  shows "\<exists>h'. compile_with_iree S T b flags mlir h = (Inr v, h')"
proof (rule compile_with_iree_served [OF assms(1,2)])
  fix dir version h1
  assume h1: "keeps_artifacts h h1" "artifact_path p"
    "p = path_join dir (cache_key T (env_vars h1) (target_name b) mlir (library_path C) version flags @ ''.vmfb'')"
    "compile_with_iree S T b flags mlir h = compile_cached S T C dir b flags mlir version h1"
  then have "valid_artifact h1 p v" using valid by (simp add: keeps_artifacts_def valid_artifact_def)
  with h1(3) have "compile_cached S T C dir b flags mlir version h1 = (Inr v, h1)"
    by (rule compile_cached_hit) (use assms(2) in \<open>simp add: serves_def\<close>)
  with h1(4) show ?thesis by simp
qed

text \<open>Files can be written and replaced.\<close>

definition publishes :: "os \<Rightarrow> string \<Rightarrow> bytes \<Rightarrow> bool" where
  "publishes S p v \<longleftrightarrow> (\<forall>tmp. write_outcome_of S tmp v = Written \<and> renames_file S tmp p)"

lemma publish_succeeds:
  assumes "publishes S (path_join dir (key @ ''.vmfb'')) v"
  shows "\<exists>h'. publish_vmfb S dir key v h = (Inr v, h')"
  using assms
  by (simp add: publishes_def publish_vmfb_def unique_cache_temp_suffix_def io_bind_def Let_def fs_write_def fs_rename_def)

lemma compile_with_iree_total:
  assumes "cache_entry S T (env_vars h) b flags mlir = Some (p, C)" and "serves S T (env_vars h) p"
    and "compile_str C mlir flags = Inr v" and "16 \<le> length v" and "publishes S p v"
  shows "\<exists>w h'. compile_with_iree S T b flags mlir h = (Inr w, h')"
proof (cases "\<exists>w. valid_artifact h p w")
  case True
  with compile_with_iree_hit [OF assms(1,2)] show ?thesis by blast
next
  case False
  show ?thesis
  proof (rule compile_with_iree_served [OF assms(1,2)])
    fix dir version h1
    assume h1: "keeps_artifacts h h1" "artifact_path p"
      "p = path_join dir (cache_key T (env_vars h1) (target_name b) mlir (library_path C) version flags @ ''.vmfb'')"
      "compile_with_iree S T b flags mlir h = compile_cached S T C dir b flags mlir version h1"
    then have none: "\<nexists>w. valid_artifact h1 p w" using False by (simp add: keeps_artifacts_def valid_artifact_def)
    obtain h2 where "read_cached_vmfb S p h1 = (Inr None, h2)"
      using none assms(2) by (cases rule: read_cached_cases [of S p h1]) (auto simp: serves_def)
    then show ?thesis
      using h1(3,4) assms(3,4) publish_succeeds [OF assms(5) [unfolded h1(3)], of h2]
      by (auto simp: compile_cached_def io_bind_def Let_def)
  qed
qed

text \<open>C28. A request on a host that works is answered: when the compiler gives an artifact and the host can read the
  cache and write to it, the request succeeds, whatever is in the cache.  The answer is the artifact in the cache
  if that is valid and otherwise the output of the compiler, and it is in the cache afterwards.\<close>

theorem request_answered:
  assumes "cache_entry S T (env_vars h) b flags mlir = Some (p, C)" and "serves S T (env_vars h) p"
    and "compile_str C mlir flags = Inr v" and "16 \<le> length v" and "publishes S p v"
  shows "\<exists>w h'. compile_with_iree S T b flags mlir h = (Inr w, h') \<and> valid_artifact h' p w \<and>
    w = (if \<exists>u. valid_artifact h p u then the (files h p) else v)"
proof -
  obtain w h' where run: "compile_with_iree S T b flags mlir h = (Inr w, h')"
    using compile_with_iree_total [OF assms] by blast
  have "valid_artifact h' p w" and from_where: "valid_artifact h p w \<or> w = v"
    using compile_with_iree_ok [OF run] assms(1,3) by (auto simp: answered_def may_produce_def)
  moreover have "w = u" if "valid_artifact h p u" for u
    using compile_with_iree_hit [OF assms(1,2) that] run by simp
  ultimately show ?thesis using run by (auto simp: valid_artifact_def)
qed

text \<open>C12. An artifact that was compiled stays available: after a request has succeeded, whatever other requests
  and changes outside the cache follow, a request with the same key succeeds with the same bytes on any host that
  lets it read the cache.\<close>

theorem compiled_stays_available:
  assumes "compile_with_iree S T b flags mlir h = (Inr v, h')" and "cache_entry S T (env_vars h) b flags mlir = Some (p, C)"
    and "(build_step T)\<^sup>*\<^sup>* h' h2"
    and "cache_entry S2 T (env_vars h2) b2 flags2 mlir2 = Some (p, C2)" and "serves S2 T (env_vars h2) p"
  shows "\<exists>h3. compile_with_iree S2 T b2 flags2 mlir2 h2 = (Inr v, h3)"
proof -
  have "valid_artifact h' p v"
    using compile_with_iree_ok [OF assms(1)] assms(2) by (auto simp: answered_def)
  moreover have "artifact_path p"
    using assms(2) by (auto simp: cache_entry_def join_artifact split: sum.splits option.splits)
  ultimately have "valid_artifact h2 p v" using build_steps_keep [OF assms(3)] by blast
  with assms(4,5) show ?thesis by (rule compile_with_iree_hit)
qed

text \<open>A host without failures and a compiler whose output tells how many flags it got.\<close>

definition calm_os :: os where
  "calm_os = \<lparr>creates_dir = \<lambda>_. True, locks_file = \<lambda>_. True, metadata_of = \<lambda>_. Some (64, ''0''),
     read_denied = \<lambda>_. False, write_outcome_of = \<lambda>_ _. Written, renames_file = \<lambda>_ _. True,
     removes_file = \<lambda>_. True, process_id = 7\<rparr>"

definition counting_compiler :: iree_compiler where
  "counting_compiler = \<lparr>library_path = ''/lib'', get_revision = Some ''r'', api_version = ''1.4'',
     compile_str = \<lambda>mlir flags. Inr (replicate 16 (of_nat (length flags)))\<rparr>"

definition counting_tools :: toolchain where
  "counting_tools = \<lparr>load_compiler = \<lambda>_. Some counting_compiler, blake3_hex = id, package_version = ''0.1'',
     exports_mlir = False\<rparr>"

definition empty_host :: host where
  "empty_host = \<lparr>env_vars = [''KNOK_CACHE_DIR'' \<mapsto> ''/cache''], files = Map.empty, temp_counter = 0,
     library_tracked = False, printed = []\<rparr>"

definition counted_entry :: "iree_backend \<Rightarrow> string list \<Rightarrow> string \<Rightarrow> string" where
  "counted_entry b flags mlir =
     ''/cache/'' @ key_input counting_tools (env_vars empty_host) (target_name b) mlir ''/lib'' ''r;api=1.4;size=64;modified=0'' flags @ ''.vmfb''"

definition filled_host :: "string list \<Rightarrow> host" where
  "filled_host flags = snd (compile_with_iree calm_os counting_tools IreeCuda flags ''m'' empty_host)"

lemma size_text: "nat_str 64 = ''64''"
  by (simp add: nat_str_eval)

lemma counted_cache_entry:
  assumes "env_vars h = env_vars empty_host"
  shows "cache_entry calm_os counting_tools (env_vars h) b flags mlir = Some (counted_entry b flags mlir, counting_compiler)"
  unfolding assms
  by (simp add: cache_entry_def counted_entry_def cache_key_def cache_dir_def empty_host_def counting_tools_def counting_compiler_def
      calm_os_def compiler_fingerprint_def path_join_def size_text key_input_def)

lemma calm_serves: "env_vars h = env_vars empty_host \<Longrightarrow> serves calm_os counting_tools (env_vars h) p"
  by (simp add: serves_def calm_os_def counting_tools_def cache_dir_def empty_host_def)

lemma counted_publishes: "publishes calm_os p v"
  by (simp add: publishes_def calm_os_def)

lemma counted_request:
  assumes env: "env_vars h = env_vars empty_host" and none: "\<nexists>w. valid_artifact h (counted_entry b flags mlir) w"
  shows "\<exists>h'. compile_with_iree calm_os counting_tools b flags mlir h =
      (Inr (replicate 16 (of_nat (length flags))), h') \<and> env_vars h' = env_vars empty_host"
proof -
  have out: "compile_str counting_compiler mlir flags = Inr (replicate 16 (of_nat (length flags)))"
    by (simp add: counting_compiler_def)
  obtain w h' where run: "compile_with_iree calm_os counting_tools b flags mlir h = (Inr w, h')"
    using compile_with_iree_total [OF counted_cache_entry [OF env, of b flags mlir] calm_serves [OF env] out _ counted_publishes]
    by fastforce
  with compile_with_iree_ok [OF run] none counted_cache_entry [OF env] out show ?thesis
    by (auto simp: answered_def may_produce_def artifacts_step_def env)
qed

lemma filled_host_run:
  "compile_with_iree calm_os counting_tools IreeCuda flags ''m'' empty_host =
     (Inr (replicate 16 (of_nat (length flags))), filled_host flags)"
  "env_vars (filled_host flags) = env_vars empty_host"
  using counted_request [of empty_host IreeCuda flags "''m''"] by (auto simp: filled_host_def valid_artifact_def empty_host_def)

lemma request_answered_witness:
  "\<exists>w h'. compile_with_iree calm_os counting_tools IreeCuda [''--a''] ''m'' empty_host = (Inr w, h') \<and>
     valid_artifact h' (counted_entry IreeCuda [''--a''] ''m'') w \<and>
     w = (if \<exists>u. valid_artifact empty_host (counted_entry IreeCuda [''--a''] ''m'') u
          then the (files empty_host (counted_entry IreeCuda [''--a''] ''m'')) else replicate 16 1)"
  by (rule request_answered [OF counted_cache_entry [OF refl] calm_serves [OF refl] _ _ counted_publishes])
    (simp_all add: counting_compiler_def)

lemma filled_host_reached: "(build_step counting_tools)\<^sup>*\<^sup>* empty_host (filled_host flags)"
  by (rule r_into_rtranclp) (rule request [OF filled_host_run(1)])

lemma artifacts_complete_witness:
  "valid_artifact (filled_host [''--a'']) (counted_entry IreeCuda [''--a''] ''m'') (replicate 16 1) \<and>
   (\<exists>S env b flags mlir C. cache_entry S counting_tools env b flags mlir = Some (counted_entry IreeCuda [''--a''] ''m'', C) \<and>
      compile_str C mlir flags = Inr (replicate 16 1))"
proof -
  have entry: "cache_entry calm_os counting_tools (env_vars empty_host) IreeCuda [''--a''] ''m'' =
      Some (counted_entry IreeCuda [''--a''] ''m'', counting_compiler)"
    by (rule counted_cache_entry [OF refl])
  have valid: "valid_artifact (filled_host [''--a'']) (counted_entry IreeCuda [''--a''] ''m'') (replicate 16 1)"
    using compile_with_iree_ok [OF filled_host_run(1) [of "[''--a'']"]] entry by (auto simp: answered_def)
  moreover have "artifact_path (counted_entry IreeCuda [''--a''] ''m'')"
    by (simp add: counted_entry_def artifact_path_def)
  moreover have "\<nexists>p v. artifact_path p \<and> valid_artifact empty_host p v"
    by (simp add: valid_artifact_def empty_host_def)
  ultimately show ?thesis
    using artifacts_complete [OF filled_host_reached] by blast
qed

text \<open>After another request for other flags, the first artifact is still served.\<close>

lemma compiled_stays_available_witness:
  "\<exists>h3. compile_with_iree calm_os counting_tools IreeCuda [''--a''] ''m''
     (snd (compile_with_iree calm_os counting_tools IreeCuda [''--b'', ''--c''] ''m'' (filled_host [''--a'']))) =
     (Inr (replicate 16 1), h3)"
proof -
  let ?h2 = "snd (compile_with_iree calm_os counting_tools IreeCuda [''--b'', ''--c''] ''m'' (filled_host [''--a'']))"
  have step: "build_step counting_tools (filled_host [''--a'']) ?h2"
    by (rule request) (rule surjective_pairing)
  have env: "env_vars ?h2 = env_vars empty_host"
    using compile_with_iree_ok [OF surjective_pairing] filled_host_run(2) by (auto simp: artifacts_step_def)
  show ?thesis
    by (rule compiled_stays_available [OF filled_host_run(1) [of "[''--a'']", simplified] counted_cache_entry [OF refl]
          r_into_rtranclp [of "build_step counting_tools", OF step] counted_cache_entry [OF env] calm_serves [OF env]])
qed

text \<open>C38. The key of the cache is the hash of the flags one after the other without separators, so requests whose flags
  differ only in where one ends and the next begins share an artifact: the second is answered with what the
  compiler made for the first.\<close>

theorem split_flags_share_artifact:
  assumes "concat flags1 = concat flags2" and "compile_with_iree S T b flags1 mlir h = (Inr v, h')"
    and "cache_entry S T (env_vars h) b flags1 mlir = Some (p, C)" and "serves S T (env_vars h) p"
  shows "\<exists>h''. compile_with_iree S T b flags2 mlir h' = (Inr v, h'')"
proof (rule compile_with_iree_hit)
  have env: "env_vars h' = env_vars h" and valid: "valid_artifact h' p v"
    using compile_with_iree_ok [OF assms(2)] assms(3) by (auto simp: artifacts_step_def answered_def)
  have same_key: "cache_key T e n m l w flags1 = cache_key T e n m l w flags2" for e n m l w
    by (simp add: cache_key_def key_input_def assms(1))
  show "cache_entry S T (env_vars h') b flags2 mlir = Some (p, C)"
    using assms(3) unfolding env cache_entry_def same_key .
  show "serves S T (env_vars h') p" using assms(4) by (simp add: env)
  show "valid_artifact h' p v" by (rule valid)
qed

lemma split_flags_share_artifact_witness:
  "compile_str counting_compiler ''m'' [''--a'', ''--b''] = Inr (replicate 16 2) \<and>
   (\<exists>h. compile_with_iree calm_os counting_tools IreeCuda [''--a'', ''--b''] ''m'' (filled_host [''--a--b'']) =
      (Inr (replicate 16 1), h))"
proof
  show "compile_str counting_compiler ''m'' [''--a'', ''--b''] = Inr (replicate 16 2)"
    by (simp add: counting_compiler_def)
  show "\<exists>h. compile_with_iree calm_os counting_tools IreeCuda [''--a'', ''--b''] ''m'' (filled_host [''--a--b'']) =
      (Inr (replicate 16 1), h)"
    by (rule split_flags_share_artifact [OF _ filled_host_run(1) [of "[''--a--b'']", simplified]
          counted_cache_entry [OF refl] calm_serves [OF refl]]) simp
qed

section \<open>Compiling a graph\<close>








end
