(* ===== verification/Build_Properties.thy ===== *)
theory Build_Properties
  imports Build_Driver Compile_Properties
begin

text \<open>
  What a build leaves in \<^verbatim>\<open>OUT_DIR\<close>: the artifacts and the wrappers of every graph when it succeeds, and the
  wrappers of before when it fails.
\<close>

section \<open>Paths that a build spares\<close>

text \<open>A path whose name ends in \<^verbatim>\<open>.rs\<close> is neither an artifact nor a file of the cache.\<close>

definition rust_file :: "string \<Rightarrow> bool" where
  "rust_file name \<longleftrightarrow> (\<exists>stem. name = stem @ ''.rs'')"



lemma rust_path: "rust_file name \<Longrightarrow> path_join dir name \<noteq> [] \<and> last (path_join dir name) = CHR ''s''"
  by (auto simp: rust_file_def last_path_join path_join_def)


















lemma prologue_run:
  assumes "build_prologue S h = (r, h')"
  shows "(\<exists>e. r = Inl e) \<or> (\<exists>out_dir. r = Inr out_dir \<and> env_vars h ''OUT_DIR'' = Some out_dir)"
  using assms by (cases "env_vars h ''OUT_DIR''") (auto simp: build_prologue_def io_bind_def split: prod.splits sum.splits)




section \<open>Loops that make artifacts\<close>

text \<open>What stays of the valid artifacts, apart from one path.\<close>

definition keeps_valid :: "string set \<Rightarrow> host \<Rightarrow> host \<Rightarrow> bool" where
  "keeps_valid P h h' \<longleftrightarrow>
     (\<forall>p v. artifact_path p \<and> p \<notin> P \<and> valid_artifact h p v \<longrightarrow> valid_artifact h' p v)"

lemma keeps_valid_trans: "keeps_valid P h h' \<Longrightarrow> keeps_valid Q h' h'' \<Longrightarrow> keeps_valid (P \<union> Q) h h''"
  by (simp add: keeps_valid_def)

lemma artifacts_keep_valid: "artifacts_step Q h h' \<Longrightarrow> keeps_valid {} h h'"
  unfolding keeps_valid_def artifacts_step_def by (metis valid_artifact_def)

text \<open>The contract of a step of the loop: it adds one wrapper and writes one artifact, \<open>made env x v w\<close> tells which
  artifact and wrapper an item may get, and it keeps the valid artifacts of other items.\<close>

locale emit_loop =
  fixes step :: "'x \<Rightarrow> string \<Rightarrow> (build_error, string) io" and path :: "'x \<Rightarrow> string"
    and made :: "(string \<Rightarrow> string option) \<Rightarrow> 'x \<Rightarrow> bytes \<Rightarrow> string \<Rightarrow> bool"
  assumes step_ok: "step x acc h = (Inr acc', h') \<Longrightarrow>
      \<exists>v w. acc' = acc @ w \<and> made (env_vars h) x v w \<and> artifact_path (path x) \<and> valid_artifact h' (path x) v \<and>
        env_vars h' = env_vars h \<and> keeps_valid {path x} h h'"
begin

lemma loop_made:
  "io_fold step xs acc h = (Inr acc', h') \<Longrightarrow> x \<in> set xs \<Longrightarrow> \<exists>env v w. made env x v w"
proof (induction xs arbitrary: acc h)
  case (Cons y xs)
  then show ?case using step_ok by (auto simp: io_simps) blast+
qed simp

lemma loop_ok:
  assumes "io_fold step xs acc h = (Inr acc', h')" "distinct (map path xs)"
  shows "\<exists>ws. acc' = acc @ concat ws \<and> env_vars h' = env_vars h \<and> keeps_valid (path ` set xs) h h' \<and>
      list_all2 (\<lambda>x w. artifact_path (path x) \<and> (\<exists>v. made (env_vars h) x v w \<and> valid_artifact h' (path x) v)) xs ws"
  using assms
proof (induction xs arbitrary: acc h)
  case Nil
  then show ?case by (simp add: keeps_valid_def)
next
  case (Cons x xs)
  obtain acc1 h1 where x: "step x acc h = (Inr acc1, h1)" and rest: "io_fold step xs acc1 h1 = (Inr acc', h')"
    using Cons.prems(1) by (auto simp: io_simps)
  obtain v w where w: "acc1 = acc @ w" "made (env_vars h) x v w" "artifact_path (path x)" "valid_artifact h1 (path x) v"
      "env_vars h1 = env_vars h" "keeps_valid {path x} h h1"
    using step_ok [OF x] by blast
  obtain ws where ws: "acc' = acc1 @ concat ws" "env_vars h' = env_vars h1" "keeps_valid (path ` set xs) h1 h'"
      "list_all2 (\<lambda>x w. artifact_path (path x) \<and> (\<exists>v. made (env_vars h1) x v w \<and> valid_artifact h' (path x) v)) xs ws"
    using Cons.IH [OF rest] Cons.prems(2) by auto
  have "valid_artifact h' (path x) v"
    using ws(3) w(3,4) Cons.prems(2) by (auto simp: keeps_valid_def)
  moreover have "keeps_valid (path ` set (x # xs)) h h'"
    using keeps_valid_trans [OF w(6) ws(3)] by simp
  ultimately show ?case
    using w ws by (intro exI [of _ "w # ws"]) auto
qed

end

section \<open>The steps\<close>

lemma write_run: "fs_write S e p v h = (Inr u, h') \<Longrightarrow> h' = h\<lparr>files := (files h)(p \<mapsto> v)\<rparr>"
  by (auto simp: fs_write_def io_bind_def split: write_outcome.splits)

lemma write_keeps_valid: "keeps_valid {p} h (h\<lparr>files := (files h)(p \<mapsto> v)\<rparr>)"
  by (auto simp: keeps_valid_def valid_artifact_def)

text \<open>Compiling for a build: the artifact is complete and nothing valid is lost.\<close>

lemma compile_graph_run:
  assumes "compile_graph_with_options S X d g R options h = (Inr compiled, h')"
  shows "env_vars h' = env_vars h" "keeps_valid {} h h'" "16 \<le> length (compiled_vmfb compiled)"
proof -
  from assms obtain mlir backend flags vmfb where run: "compile_with_iree S (tools X) backend flags mlir h = (Inr vmfb, h')"
      and compiled: "compiled = \<lparr>compiled_mlir = mlir, compiled_vmfb = vmfb\<rparr>"
    by (auto simp: compile_graph_with_options_def io_simps)
  from compile_with_iree_ok [OF run] show "env_vars h' = env_vars h" "keeps_valid {} h h'"
      "16 \<le> length (compiled_vmfb compiled)"
    by (auto simp: artifacts_step_def [of _ h h'] compiled answered_def valid_artifact_def intro: artifacts_keep_valid)
qed

lemma compile_mlir_run:
  assumes "compile_mlir_source_with_options S X b mlir options h = (Inr vmfb, h')"
  shows "env_vars h' = env_vars h" "keeps_valid {} h h'" "16 \<le> length vmfb"
proof -
  from assms obtain mlir' backend flags where run: "compile_with_iree S (tools X) backend flags mlir' h = (Inr vmfb, h')"
    by (auto simp: compile_mlir_source_with_options_def io_simps)
  from compile_with_iree_ok [OF run] show "env_vars h' = env_vars h" "keeps_valid {} h h'" "16 \<le> length vmfb"
    by (auto simp: artifacts_step_def [of _ h h'] answered_def valid_artifact_def intro: artifacts_keep_valid)
qed

lemma io_map_err_Inr: "io_map_err f m h = (Inr x, h') \<longleftrightarrow> m h = (Inr x, h')"
  by (auto simp: io_map_err_def map_err_def split: prod.splits sum.splits)

lemma build_flags_run:
  "build_flags options b h = (Inr flags, h') \<longleftrightarrow>
     h' = h \<and> compiler_flags (env_vars h) (compiler_opts options) (build_backend_name b) = Inr flags"
  by (auto simp: build_flags_def io_simps result_simps)

text \<open>The artifact of a graph, and its wrapper with the line feed that follows it.\<close>

definition graph_artifact ::
    "os \<Rightarrow> ('f, 'm) compile_env \<Rightarrow> build_options \<Rightarrow> (string \<times> typed_graph) list \<Rightarrow> (string \<Rightarrow> string option) \<Rightarrow> typed_graph
      \<Rightarrow> bytes \<Rightarrow> bool" where
  "graph_artifact S X options graphs env g v \<longleftrightarrow>
     (if stub_artifacts options then v = stub_vmfb
      else \<exists>h compiled h'. env_vars h = env \<and>
        compile_graph_with_options S X (length graphs) g (map_of graphs) (compiler_opts options) h = (Inr compiled, h') \<and>
        v = compiled_vmfb compiled)"

text \<open>The end of a step: the artifact is written, and the wrapper is generated with the flags of the backend.\<close>

definition finish_item ::
    "os \<Rightarrow> build_options \<Rightarrow> build_backend \<Rightarrow> string \<Rightarrow> (string list \<Rightarrow> codegen_error + string) \<Rightarrow> string \<Rightarrow> bytes
      \<Rightarrow> (build_error, string) io" where
  "finish_item S options b p generate acc v =
     io_bind (fs_write S BuildIo p v) (\<lambda>_.
     io_bind (build_flags options b) (\<lambda>flags.
     io_bind (io_lift (map_err BuildCodegen (generate flags))) (\<lambda>wrapper. io_return (acc @ wrapper @ [CHR 0x0A]))))"

definition wrapper_made ::
    "build_options \<Rightarrow> (string \<Rightarrow> string option) \<Rightarrow> build_backend \<Rightarrow> (string list \<Rightarrow> codegen_error + string) \<Rightarrow> string \<Rightarrow> bool" where
  "wrapper_made options env b generate w \<longleftrightarrow>
     (\<exists>flags m. compiler_flags env (compiler_opts options) (build_backend_name b) = Inr flags \<and> generate flags = Inr m \<and>
        w = m @ [CHR 0x0A])"

lemma finish_item_ok:
  assumes run: "finish_item S options b p generate acc v h1 = (Inr acc', h')"
    and before: "env_vars h1 = env_vars h" "keeps_valid {} h h1" "16 \<le> length v"
  shows "\<exists>w. acc' = acc @ w \<and> wrapper_made options (env_vars h) b generate w \<and> valid_artifact h' p v \<and>
    env_vars h' = env_vars h \<and> keeps_valid {p} h h'"
proof -
  from run before(1) obtain flags m where
      "compiler_flags (env_vars h) (compiler_opts options) (build_backend_name b) = Inr flags" "generate flags = Inr m"
      "acc' = acc @ m @ [CHR 0x0A]" and h': "h' = h1\<lparr>files := (files h1)(p \<mapsto> v)\<rparr>"
    by (auto simp: finish_item_def io_simps build_flags_run result_simps dest!: write_run)
  then show ?thesis
    using before keeps_valid_trans [OF before(2) write_keeps_valid]
    by (intro exI [of _ "m @ [CHR 0x0A]"]) (auto simp: wrapper_made_def valid_artifact_def)
qed

definition graph_made ::
    "os \<Rightarrow> ('f, 'm) compile_env \<Rightarrow> build_options \<Rightarrow> (string \<times> typed_graph) list \<Rightarrow> (string \<Rightarrow> string option) \<Rightarrow> typed_graph
      \<Rightarrow> build_backend \<Rightarrow> bytes \<Rightarrow> string \<Rightarrow> bool" where
  "graph_made S X options graphs env g b v w \<longleftrightarrow>
     graph_artifact S X options graphs env g v \<and>
     wrapper_made options env b (graph_module g b (graph_vmfb_name (tg_name g))) w"

definition graph_path :: "string \<Rightarrow> typed_graph \<Rightarrow> string" where
  "graph_path out_dir g = path_join out_dir (graph_vmfb_name (tg_name g))"

lemma emit_graph_ok:
  assumes "emit_graph S X options out_dir graphs g b acc h = (Inr acc', h')"
  shows "\<exists>v w. acc' = acc @ w \<and> graph_made S X options graphs (env_vars h) g b v w \<and> artifact_path (graph_path out_dir g) \<and>
    valid_artifact h' (graph_path out_dir g) v \<and> env_vars h' = env_vars h \<and> keeps_valid {graph_path out_dir g} h h'"
proof -
  let ?finish = "finish_item S options b (graph_path out_dir g) (graph_module g b (graph_vmfb_name (tg_name g))) acc"
  obtain v h1 where art: "graph_artifact S X options graphs (env_vars h) g v" "16 \<le> length v"
      and h1: "env_vars h1 = env_vars h" "keeps_valid {} h h1" and run: "?finish v h1 = (Inr acc', h')"
  proof (cases "stub_artifacts options")
    case True
    with assms have "?finish stub_vmfb h = (Inr acc', h')"
      by (simp add: emit_graph_def Let_def finish_item_def graph_path_def)
    with True show thesis
      by (intro that [of stub_vmfb h]) (simp_all add: graph_artifact_def stub_vmfb_def keeps_valid_def)
  next
    case False
    with assms obtain compiled h1 where
        c: "compile_graph_with_options S X (length graphs) g (map_of graphs) (compiler_opts options) h = (Inr compiled, h1)"
      and run: "?finish (compiled_vmfb compiled) h1 = (Inr acc', h')"
      by (auto simp: emit_graph_def Let_def io_simps compile_registered_graph_def io_map_err_Inr finish_item_def graph_path_def)
    have "graph_artifact S X options graphs (env_vars h) g (compiled_vmfb compiled)"
      using False c by (auto simp: graph_artifact_def)
    with run compile_graph_run [OF c] show thesis by (intro that)
  qed
  moreover have "artifact_path (graph_path out_dir g)" by (simp add: graph_path_def graph_vmfb_name_def join_artifact)
  ultimately show ?thesis
    using finish_item_ok [OF run h1 art(2)] by (auto simp: graph_made_def)
qed


lemma type_check_signature:
  "type_check F g sigs = Inr tg \<Longrightarrow>
     tg_name tg = graph_name g \<and> tg_backend tg = graph_backend g \<and> tg_inputs tg = graph_inputs g \<and> tg_outputs tg = graph_outputs g"
  by (auto simp: type_check_def Let_def result_simps split: if_splits prod.splits)

lemma grad_graph_name: "graph_name (grad_graph g st) = tg_name g @ ''_value_and_grad''"
  by (simp add: grad_graph_def split_beta)

lemma gradient_name:
  "value_and_grad_graph_with_registry F g graphs = Inr g' \<Longrightarrow> tg_name g' = tg_name g @ ''_value_and_grad''"
  by (auto simp: value_and_grad_graph_with_registry_def build_def result_simps grad_graph_name dest!: type_check_signature)

text \<open>The gradient graph of a registered graph, its artifact and its wrapper.\<close>

definition gradient_made ::
    "os \<Rightarrow> ('f, 'm) compile_env \<Rightarrow> build_options \<Rightarrow> (string \<times> typed_graph) list \<Rightarrow> (string \<Rightarrow> string option) \<Rightarrow> registered_graph
      \<Rightarrow> bytes \<Rightarrow> string \<Rightarrow> bool" where
  "gradient_made S X options graphs env r v w \<longleftrightarrow>
     (\<exists>g. value_and_grad_graph_with_registry (float_ops X) (reg_graph r) graphs = Inr g \<and>
        graph_made S X options graphs env g (reg_backend r) v w)"

definition gradient_path :: "string \<Rightarrow> registered_graph \<Rightarrow> string" where
  "gradient_path out_dir r = path_join out_dir (graph_vmfb_name (tg_name (reg_graph r) @ ''_value_and_grad''))"

lemma emit_grad_graph_ok:
  assumes "emit_grad_graph S X options out_dir graphs r acc h = (Inr acc', h')"
  shows "\<exists>v w. acc' = acc @ w \<and> gradient_made S X options graphs (env_vars h) r v w \<and> artifact_path (gradient_path out_dir r) \<and>
    valid_artifact h' (gradient_path out_dir r) v \<and> env_vars h' = env_vars h \<and> keeps_valid {gradient_path out_dir r} h h'"
proof -
  from assms obtain g where g: "value_and_grad_graph_with_registry (float_ops X) (reg_graph r) graphs = Inr g"
      and run: "emit_graph S X options out_dir graphs g (reg_backend r) acc h = (Inr acc', h')"
    by (auto simp: emit_grad_graph_def io_simps result_simps)
  have "graph_path out_dir g = gradient_path out_dir r" by (simp add: graph_path_def gradient_path_def gradient_name [OF g])
  with emit_graph_ok [OF run] g show ?thesis by (auto simp: gradient_made_def)
qed

interpretation gradient_loop: emit_loop "emit_grad_graph S X options out_dir graphs" "gradient_path out_dir"
    "gradient_made S X options graphs"
    for S X options out_dir graphs
  by unfold_locales (rule emit_grad_graph_ok)

text \<open>An external model: its text is read from its path and compiled for its backend.\<close>

definition model_artifact ::
    "os \<Rightarrow> ('f, 'm) compile_env \<Rightarrow> build_options \<Rightarrow> (string \<Rightarrow> string option) \<Rightarrow> mlir_model \<Rightarrow> bytes \<Rightarrow> bool" where
  "model_artifact S X options env m v \<longleftrightarrow>
     (if stub_artifacts options then v = stub_vmfb
      else \<exists>q source h h'. env_vars h = env \<and> resolve_model_path (model_path m) h = (Inr q, h) \<and>
        read_to_string S q h = (Inr source, h) \<and>
        compile_mlir_source_with_options S X (build_backend_name (model_backend m)) source (compiler_opts options) h = (Inr v, h'))"

definition model_made ::
    "os \<Rightarrow> ('f, 'm) compile_env \<Rightarrow> build_options \<Rightarrow> (string \<Rightarrow> string option) \<Rightarrow> mlir_model \<Rightarrow> bytes \<Rightarrow> string \<Rightarrow> bool" where
  "model_made S X options env m v w \<longleftrightarrow>
     model_artifact S X options env m v \<and>
     wrapper_made options env (model_backend m) (mlir_model_module m (mlir_model_vmfb_name (model_name m))) w"

definition artifact_of_model :: "string \<Rightarrow> mlir_model \<Rightarrow> string" where
  "artifact_of_model out_dir m = path_join out_dir (mlir_model_vmfb_name (model_name m))"

lemma read_to_string_run: "read_to_string S q h = (Inr source, h') \<Longrightarrow> h' = h"
  by (auto simp: read_to_string_def fs_read_def io_simps split: read_outcome.splits if_splits option.splits)

lemma resolve_run:
  "resolve_model_path q h = (Inr q', h') \<Longrightarrow> h' = h \<and> (env_vars g = env_vars h \<longrightarrow> resolve_model_path q g = (Inr q', g))"
  by (auto simp: resolve_model_path_def io_simps result_simps split: if_splits)

lemma print_run: "print_line l h = (Inr u, h') \<longleftrightarrow> h' = h\<lparr>printed := printed h @ [l]\<rparr>"
  by (auto simp: print_line_def)

lemma io_bind_assoc: "io_bind (io_bind m f) g = io_bind m (\<lambda>x. io_bind (f x) g)"
  by (auto simp: io_bind_def fun_eq_iff split: prod.splits sum.splits)

lemma io_bind_return: "io_bind (io_return x) f = f x"
  by (simp add: io_bind_def fun_eq_iff)

lemma emit_model_steps:
  "emit_model S X options out_dir m acc =
     io_bind (resolve_model_path (model_path m)) (\<lambda>q.
     io_bind (print_line (rerun_if_changed q)) (\<lambda>_.
     io_bind (if stub_artifacts options then io_return stub_vmfb
              else io_bind (read_to_string S q) (\<lambda>source.
                   io_map_err BuildCompiler (compile_mlir_source_with_options S X (build_backend_name (model_backend m)) source
                     (compiler_opts options))))
       (finish_item S options (model_backend m) (artifact_of_model out_dir m)
          (mlir_model_module m (mlir_model_vmfb_name (model_name m))) acc)))"
  by (cases "stub_artifacts options")
    (simp_all add: emit_model_def Let_def finish_item_def [abs_def] artifact_of_model_def io_bind_assoc io_bind_return)

lemma emit_model_ok:
  assumes "emit_model S X options out_dir m acc h = (Inr acc', h')"
  shows "\<exists>v w. acc' = acc @ w \<and> model_made S X options (env_vars h) m v w \<and> artifact_path (artifact_of_model out_dir m) \<and>
    valid_artifact h' (artifact_of_model out_dir m) v \<and> env_vars h' = env_vars h \<and> keeps_valid {artifact_of_model out_dir m} h h'"
proof -
  let ?finish = "finish_item S options (model_backend m) (artifact_of_model out_dir m)
      (mlir_model_module m (mlir_model_vmfb_name (model_name m))) acc"
  obtain q h0 where q: "resolve_model_path (model_path m) h = (Inr q, h)"
      and h0: "h0 = h\<lparr>printed := printed h @ [rerun_if_changed q]\<rparr>"
      and rest: "io_bind (if stub_artifacts options then io_return stub_vmfb
              else io_bind (read_to_string S q) (\<lambda>source.
                   io_map_err BuildCompiler (compile_mlir_source_with_options S X (build_backend_name (model_backend m)) source
                     (compiler_opts options)))) ?finish h0 = (Inr acc', h')"
  proof -
    have step: "(\<exists>u h2. print_line l h1 = (Inr u, h2) \<and> P h2) \<longleftrightarrow> P (h1\<lparr>printed := printed h1 @ [l]\<rparr>)"
      for l h1 and P :: "host \<Rightarrow> bool"
      by (simp add: print_run)
    from assms obtain q where q: "resolve_model_path (model_path m) h = (Inr q, h)"
      using resolve_run by (fastforce simp: emit_model_def io_bind_Inr)
    from assms q show thesis
      unfolding emit_model_steps io_bind_Inr [of "resolve_model_path (model_path m)"] io_bind_Inr [of "print_line l" for l] step
      by (intro that [OF q refl]) simp
  qed
  have same: "env_vars h0 = env_vars h" "keeps_valid {} h h0" by (simp_all add: h0 keeps_valid_def valid_artifact_def)
  have q0: "resolve_model_path (model_path m) h0 = (Inr q, h0)" using resolve_run [OF q] same(1) by blast
  obtain v h1 where art: "model_artifact S X options (env_vars h) m v" "16 \<le> length v"
      and h1: "env_vars h1 = env_vars h" "keeps_valid {} h h1" and run: "?finish v h1 = (Inr acc', h')"
  proof (cases "stub_artifacts options")
    case True
    with rest have "?finish stub_vmfb h0 = (Inr acc', h')" by (simp add: io_bind_return)
    with True same show thesis by (intro that [of stub_vmfb h0]) (simp_all add: model_artifact_def stub_vmfb_def)
  next
    case False
    with rest obtain source hs vmfb h1 where source: "read_to_string S q h0 = (Inr source, hs)"
      and c: "compile_mlir_source_with_options S X (build_backend_name (model_backend m)) source (compiler_opts options) hs = (Inr vmfb, h1)"
      and run: "?finish vmfb h1 = (Inr acc', h')"
      by (auto simp: io_bind_Inr io_map_err_Inr)
    have "hs = h0" using source by (rule read_to_string_run)
    then have "model_artifact S X options (env_vars h) m vmfb"
      using False same(1) q0 source c by (auto simp: model_artifact_def)
    with run compile_mlir_run [OF c] same keeps_valid_trans [OF same(2), of "{}" h1] \<open>hs = h0\<close> show thesis
      by (intro that) simp_all
  qed
  moreover have "artifact_path (artifact_of_model out_dir m)"
    using join_artifact [of out_dir "''mlir-model-'' @ model_name m"] by (simp add: artifact_of_model_def mlir_model_vmfb_name_def)
  ultimately show ?thesis
    using finish_item_ok [OF run h1 art(2)] by (auto simp: model_made_def)
qed

interpretation model_loop: emit_loop "emit_model S X options out_dir" "artifact_of_model out_dir" "model_made S X options"
    for S X options out_dir
  by unfold_locales (rule emit_model_ok)

section \<open>Names\<close>

lemma generated_names:
  assumes "generated_module name fname ins outs b vmfb flags = Inr w"
  shows "is_ident name \<and> \<not> is_keyword name \<and> list_all (\<lambda>i. is_ident (input_name i) \<and> \<not> is_keyword (input_name i)) ins"
proof -
  from assms obtain names where "sanitize_ident name = Inr w' " "rmap (\<lambda>i. sanitize_ident (input_name i)) ins = Inr names"
    if "w' = name" for w'
    by (auto simp: generated_module_def result_simps Let_def sanitize_ident_def split: if_splits)
  then have "sanitize_ident name = Inr name" "list_all2 (\<lambda>i n. sanitize_ident (input_name i) = Inr n) ins names"
    by (simp_all add: rmap_Inr_iff)
  then show ?thesis
    by (auto simp: sanitize_ident_def list_all_length list_all2_conv_all_nth split: if_splits)
qed

text \<open>An identifier has no separator, so an artifact is a file of the directory and determined by its graph.\<close>

lemma ident_chars: "is_ident name \<Longrightarrow> c \<in> set name \<Longrightarrow> c = CHR ''_'' \<or> is_ascii_alphanumeric c"
  by (auto simp: is_ident_def list_all_iff is_ascii_alphanumeric_def split: list.splits)

lemma ident_no_slash: "is_ident name \<Longrightarrow> CHR ''/'' \<notin> set name"
  by (auto dest!: ident_chars simp: is_ascii_alphanumeric_def is_ascii_alpha_def)

lemma relative_name: "is_ident name \<Longrightarrow> take 1 (name @ rest) \<noteq> ''/''"
  using ident_no_slash [of name] by (cases name) (auto simp: is_ident_def)

lemma vmfb_paths_inject:
  "is_ident a \<Longrightarrow> is_ident c \<Longrightarrow>
     path_join out_dir (graph_vmfb_name a) = path_join out_dir (graph_vmfb_name c) \<longleftrightarrow> a = c"
  unfolding graph_vmfb_name_def by (simp add: path_join_inject [OF relative_name relative_name])

lemma model_paths_inject:
  "path_join out_dir (mlir_model_vmfb_name a) = path_join out_dir (mlir_model_vmfb_name c) \<longleftrightarrow> a = c"
  unfolding mlir_model_vmfb_name_def by (subst path_join_inject) simp_all

section \<open>Successful builds\<close>

lemma emit_all_run:
  assumes "emit_all S options step items h = (Inr u, h')"
  obtains out_dir h1 generated h2 where "env_vars h ''OUT_DIR'' = Some out_dir" "io_fold (step out_dir) items [] h1 = (Inr generated, h2)"
    "h' = h2\<lparr>files := (files h2)(path_join out_dir (output_file options) \<mapsto> str_bytes generated)\<rparr>"
proof -
  from assms obtain out_dir h1 generated h2 where "build_prologue S h = (Inr out_dir, h1)"
      "io_fold (step out_dir) items [] h1 = (Inr generated, h2)"
      "fs_write S BuildIo (path_join out_dir (output_file options)) (str_bytes generated) h2 = (Inr u, h')"
    by (auto simp: emit_all_def io_bind_Inr)
  with prologue_run [of S h] show thesis by (intro that) (auto dest: write_run)
qed

text \<open>What a successful build leaves: the wrappers, one after the other, in the output file, and beside it for each
  item the artifact that belongs to its wrapper.\<close>

definition build_left ::
    "build_options \<Rightarrow> host \<Rightarrow> host \<Rightarrow> (string \<Rightarrow> 'x \<Rightarrow> string) \<Rightarrow> ('x \<Rightarrow> bytes \<Rightarrow> string \<Rightarrow> bool) \<Rightarrow> 'x list \<Rightarrow> bool" where
  "build_left options h h' path made xs \<longleftrightarrow>
     (\<exists>out_dir ws. env_vars h ''OUT_DIR'' = Some out_dir \<and>
        files h' (path_join out_dir (output_file options)) = Some (str_bytes (concat ws)) \<and>
        list_all2 (\<lambda>x w. \<exists>v. made x v w \<and> valid_artifact h' (path out_dir x) v) xs ws)"

lemma emit_all_left:
  assumes run: "emit_all S options step xs h = (Inr (), h')" and name: "rust_file (output_file options)"
    and loop: "\<And>out_dir. emit_loop (step out_dir) (path out_dir) made"
    and dist: "\<And>out_dir. (\<And>x. x \<in> set xs \<Longrightarrow> \<exists>env v w. made env x v w) \<Longrightarrow> distinct (map (path out_dir) xs)"
  shows "build_left options h h' path (made (env_vars h')) xs"
proof (rule emit_all_run [OF run])
  fix out_dir h1 generated h2
  assume out: "env_vars h ''OUT_DIR'' = Some out_dir" and fold: "io_fold (step out_dir) xs [] h1 = (Inr generated, h2)"
    and h': "h' = h2\<lparr>files := (files h2)(path_join out_dir (output_file options) \<mapsto> str_bytes generated)\<rparr>"
  have "distinct (map (path out_dir) xs)"
    using emit_loop.loop_made [OF loop fold] by (intro dist)
  with emit_loop.loop_ok [OF loop fold] obtain ws where ws: "generated = concat ws" "env_vars h2 = env_vars h1"
      "list_all2 (\<lambda>x w. artifact_path (path out_dir x) \<and> (\<exists>v. made (env_vars h1) x v w \<and> valid_artifact h2 (path out_dir x) v)) xs ws"
    by auto
  have "list_all2 (\<lambda>x w. \<exists>v. made (env_vars h1) x v w \<and> valid_artifact h' (path out_dir x) v) xs ws"
    using ws(3)
  proof (rule list_all2_mono)
    fix x w
    assume x: "artifact_path (path out_dir x) \<and> (\<exists>v. made (env_vars h1) x v w \<and> valid_artifact h2 (path out_dir x) v)"
    then have "path out_dir x \<noteq> path_join out_dir (output_file options)"
      using artifact_suffix rust_path [OF name] by fastforce
    with x show "\<exists>v. made (env_vars h1) x v w \<and> valid_artifact h' (path out_dir x) v"
      by (auto simp: h' valid_artifact_def)
  qed
  then show ?thesis
    using out ws(1,2) by (auto simp: build_left_def h')
qed

lemma graph_made_ident: "graph_made S X options graphs env g b v w \<Longrightarrow> is_ident (tg_name g)"
  by (auto simp: graph_made_def wrapper_made_def graph_module_def dest: generated_names)


text \<open>The same for gradients: each wrapper is that of the gradient graph, and its artifact has the name of the
  gradient graph.\<close>

theorem emitted_gradients_complete:
  assumes "emit_registered_grad_graphs_with_options S X registry options h = (Inr (), h')"
    and "rust_file (output_file options)" and "distinct (map (\<lambda>r. tg_name (reg_graph r)) registry)"
  shows "build_left options h h' gradient_path (gradient_made S X options (graph_registry_of registry) (env_vars h')) registry"
proof (rule emit_all_left [OF assms(1) [unfolded emit_registered_grad_graphs_with_options_def Let_def] assms(2)
      gradient_loop.emit_loop_axioms])
  fix out_dir
  assume made: "\<And>r. r \<in> set registry \<Longrightarrow> \<exists>env v w. gradient_made S X options (graph_registry_of registry) env r v w"
  have "is_ident (tg_name (reg_graph r) @ ''_value_and_grad'')" if "r \<in> set registry" for r
    using made [OF that] graph_made_ident gradient_name by (fastforce simp: gradient_made_def)
  with assms(3) show "distinct (map (gradient_path out_dir) registry)"
    by (auto simp: distinct_map inj_on_def gradient_path_def vmfb_paths_inject)
qed

text \<open>The same for external models, whose artifacts never have the name of an artifact of a graph.\<close>

theorem emitted_models_complete:
  assumes "emit_mlir_models_with_options S X models options h = (Inr (), h')"
    and "rust_file (output_file options)" and "distinct (map model_name models)"
  shows "build_left options h h' artifact_of_model (model_made S X options (env_vars h')) models \<and>
    (\<forall>out_dir m g b vmfb flags w. graph_module g b vmfb flags = Inr w \<longrightarrow> artifact_of_model out_dir m \<noteq> graph_path out_dir g)"
proof
  show "build_left options h h' artifact_of_model (model_made S X options (env_vars h')) models"
  proof (rule emit_all_left [OF assms(1) [unfolded emit_mlir_models_with_options_def] assms(2) model_loop.emit_loop_axioms])
    show "distinct (map (artifact_of_model out_dir) models)" for out_dir
      using assms(3) by (auto simp: distinct_map inj_on_def artifact_of_model_def model_paths_inject)
  qed
  have "path_join out_dir (mlir_model_vmfb_name name) \<noteq> path_join out_dir (graph_vmfb_name (tg_name g))"
    if "graph_module g b vmfb flags = Inr w" for out_dir name g b vmfb flags w
  proof -
    have ident: "is_ident (tg_name g)" using that by (auto simp: graph_module_def dest: generated_names)
    have "mlir_model_vmfb_name name \<noteq> graph_vmfb_name (tg_name g)"
    proof
      assume "mlir_model_vmfb_name name = graph_vmfb_name (tg_name g)"
      then have "(''mlir-model-'' @ name) @ ''.vmfb'' = tg_name g @ ''.vmfb''"
        by (simp add: mlir_model_vmfb_name_def graph_vmfb_name_def)
      then have "tg_name g = ''mlir-model-'' @ name" unfolding append_same_eq by simp
      then have "CHR ''-'' \<in> set (tg_name g)" by simp
      from ident_chars [OF ident this] show False by (simp add: is_ascii_alphanumeric_def is_ascii_alpha_def)
    qed
    moreover have "take 1 (mlir_model_vmfb_name name) \<noteq> ''/''" by (simp add: mlir_model_vmfb_name_def)
    moreover have "take 1 (graph_vmfb_name (tg_name g)) \<noteq> ''/''" unfolding graph_vmfb_name_def by (rule relative_name [OF ident])
    ultimately show ?thesis by (simp add: path_join_inject)
  qed
  then show "\<forall>out_dir m g b vmfb flags w. graph_module g b vmfb flags = Inr w \<longrightarrow> artifact_of_model out_dir m \<noteq> graph_path out_dir g"
    unfolding artifact_of_model_def graph_path_def by blast
qed

section \<open>Generated functions\<close>

















text \<open>The check of identifiers lets through names that the generated module cannot have: reserved words, the wildcard,
  and the names of the statics of the module, which no parameter may shadow.\<close>

lemma unusable_names_accepted:
  "list_all (\<lambda>name. sanitize_ident name = Inr name)
     [''_'', ''abstract'', ''become'', ''box'', ''do'', ''final'', ''macro'', ''override'', ''priv'', ''try'', ''typeof'', ''unsized'',
      ''virtual'', ''yield'', ''GRAPH'', ''VMFB'', ''VARIANTS'', ''INPUT_DESCS'', ''OUTPUT_DESCS'', ''COMPILE_FLAGS'']"
  by (simp add: sanitize_ident_def is_ident_def is_keyword_def rust_keywords_def is_ascii_alpha_def is_ascii_alphanumeric_def)

section \<open>Types\<close>

text \<open>The syntax of the type of a tensor, as the generated code writes it.\<close>

definition elem_syntax :: "element_type \<Rightarrow> syn_type" where
  "elem_syntax el =
     (case el of
        F16 \<Rightarrow> TypePath True [Segment ''knok'' NoArguments, Segment ''half'' NoArguments, Segment ''f16'' NoArguments]
      | BF16 \<Rightarrow> TypePath True [Segment ''knok'' NoArguments, Segment ''half'' NoArguments, Segment ''bf16'' NoArguments]
      | _ \<Rightarrow> TypePath False [Segment (rust_element_type el) NoArguments])"

definition dim_syntax :: "nat \<Rightarrow> syn_generic" where
  "dim_syntax d = GenericConst (ExprLit (LitInt (nat_str d)))"

definition type_syntax :: "tensor_type \<Rightarrow> syn_type" where
  "type_syntax ty =
     TypePath True
       [Segment ''knok'' NoArguments, Segment ''tensor'' NoArguments,
        Segment (''Tensor'' @ nat_str (rank ty)) (AngleBracketed (GenericType (elem_syntax (elem ty)) # map dim_syntax (shape ty)))]"

lemma elem_syntax_text: "show_type (elem_syntax el) = rust_element_type el"
  by (cases el) (simp_all add: elem_syntax_def rust_element_type_def)

lemma elem_syntax_parsed: "parse_element_type (Some (GenericType (elem_syntax el))) = Inr el"
  by (cases el) (simp_all add: elem_syntax_def rust_element_type_def parse_element_type_def element_names_def)

lemma dims_parsed:
  "\<forall>d \<in> set ds. d < 2 ^ 64 \<Longrightarrow> parse_dims (length ds) (map dim_syntax ds) = Inr (ds, [])"
  by (induction ds) (simp_all add: next_arg_def parse_const_usize_def dim_syntax_def)

text \<open>What the parser accepts: a rank of at most 6 and dimensions of 64 bits.\<close>

lemma parse_dims_bound:
  "parse_dims n args = Inr (ds, rest) \<Longrightarrow> length ds = n \<and> (\<forall>d \<in> set ds. d < 2 ^ 64)"
  by (induction n args arbitrary: ds rest rule: parse_dims.induct)
    (fastforce simp: result_simps parse_const_usize_def Let_def split: option.splits syn_generic.splits syn_expr.splits
      syn_lit.splits if_splits prod.splits)+

lemma tensor_rank_bound: "tensor_rank_of ident = Some n \<Longrightarrow> n \<le> 6"
  by (auto simp: tensor_rank_of_def split: if_splits)

lemma parsed_bounds:
  assumes "parse_tensor_type ty = Inr t"
  shows "rank t \<le> 6 \<and> (\<forall>d \<in> set (shape t). d < 2 ^ 64)"
proof -
  from assms obtain leading segments where ty: "ty = TypePath leading segments" "segments \<noteq> []"
    by (auto simp: parse_tensor_type_def split: syn_type.splits if_splits)
  obtain ident arguments where last: "last segments = Segment ident arguments" by (cases "last segments")
  from assms ty last obtain args where "arguments = AngleBracketed args"
    by (cases arguments) (auto simp: parse_tensor_type_def result_simps)
  with assms ty last obtain n el dims rest where "tensor_rank_of ident = Some n"
      "parse_dims n (snd (next_arg args)) = Inr (dims, rest)" "t = tensor el dims"
    by (auto simp: parse_tensor_type_def result_simps Let_def split_beta)
  then show ?thesis using parse_dims_bound tensor_rank_bound by (fastforce simp: rank_def)
qed

lemma short_lists:
  assumes "length xs \<le> 6"
  obtains "xs = []" | a where "xs = [a]" | a b where "xs = [a, b]" | a b c where "xs = [a, b, c]"
    | a b c d where "xs = [a, b, c, d]" | a b c d e where "xs = [a, b, c, d, e]" | a b c d e f where "xs = [a, b, c, d, e, f]"
  using assms by (auto simp: le_Suc_eq length_Suc_conv numeral_eq_Suc)

lemma rank_texts:
  "nat_str 0 = ''0''" "nat_str 1 = ''1''" "nat_str 2 = ''2''" "nat_str 3 = ''3''" "nat_str 4 = ''4''" "nat_str 5 = ''5''"
  "nat_str 6 = ''6''"
  by (simp_all add: nat_str_eval)

lemma rank_names:
  assumes "n \<le> 6"
  shows "tensor_rank_of (''Tensor'' @ nat_str n) = Some n"
proof -
  consider "n = 0" | "n = 1" | "n = 2" | "n = 3" | "n = 4" | "n = 5" | "n = 6" using assms by linarith
  then show ?thesis by cases (simp_all add: nat_str_eval tensor_rank_of_def)
qed

lemma type_text:
  assumes "rank ty \<le> 6"
  shows "rust_tensor_type ty = Inr (show_type (type_syntax ty))"
proof -
  have "length (shape ty) \<le> 6" using assms by (simp add: rank_def)
  then show ?thesis
    by (cases rule: short_lists)
      (simp_all add: rust_tensor_type_def Let_def type_syntax_def rank_def dim_syntax_def elem_syntax_text
        rank_texts [unfolded One_nat_def] numeral_2_eq_2 [symmetric])
qed

text \<open>C17. Tensor types survive the way through generated code: exactly the types with at most six dimensions, each
  of 64 bits, have a Rust type whose text the generator writes and from which the parser of Rust types reads the
  same tensor type.\<close>

theorem rust_type_roundtrip:
  "(\<exists>a. rust_tensor_type t = Inr (show_type a) \<and> parse_tensor_type a = Inr t) \<longleftrightarrow>
     rank t \<le> 6 \<and> (\<forall>d \<in> set (shape t). d < 2 ^ 64)"
proof
  show "rank t \<le> 6 \<and> (\<forall>d \<in> set (shape t). d < 2 ^ 64)"
    if "\<exists>a. rust_tensor_type t = Inr (show_type a) \<and> parse_tensor_type a = Inr t"
    using that parsed_bounds by blast
next
  assume t: "rank t \<le> 6 \<and> (\<forall>d \<in> set (shape t). d < 2 ^ 64)"
  then have "parse_tensor_type (type_syntax t) = Inr t"
    using rank_names [of "rank t"] dims_parsed [of "shape t"]
    by (simp add: parse_tensor_type_def type_syntax_def next_arg_def elem_syntax_parsed rank_def del: append_Cons)
  with t show "\<exists>a. rust_tensor_type t = Inr (show_type a) \<and> parse_tensor_type a = Inr t"
    using type_text by blast
qed

lemma rust_type_roundtrip_witness:
  "\<exists>a. rust_tensor_type (tensor F16 [2, 3]) = Inr (show_type a) \<and> parse_tensor_type a = Inr (tensor F16 [2, 3])"
  by (rule rust_type_roundtrip [THEN iffD2]) (simp add: rank_def)

section \<open>Examples\<close>




text \<open>A check-only build of the example graph, and one of a graph with a name that is no identifier.\<close>

definition build_host :: host where
  "build_host = empty_host\<lparr>env_vars := [''KNOK_CACHE_DIR'' \<mapsto> ''/cache'', ''OUT_DIR'' \<mapsto> ''/out'']\<rparr>"

lemma scale_module: "\<exists>w. graph_module scale_typed BuildLlvmCpu vmfb flags = Inr w"
  by (simp add: graph_module_def scale_typed_def generated_module_def sanitize_ident_def is_ident_def is_keyword_def
      rust_keywords_def is_ascii_alpha_def is_ascii_alphanumeric_def is_vm_function_name_def ensure_supported_tuple_arity_def
      MAX_GRAPH_TUPLE_ARITY_def Let_def rust_tensor_type_def rust_input_type_def rust_output_type_def)


lemma build_host_flags: "\<exists>flags. build_flags stub_artifacts_for_check BuildLlvmCpu h = (Inr flags, h)"
  by (simp add: build_flags_def io_bind_def compiler_flags_def backend_flags_def backend_flags_with_cargo_env_def
      parse_backend_def from_target_backend_def stub_artifacts_for_check_def build_options_default_def default_options_def
      build_backend_name_def)


lemma calm_write: "fs_write calm_os e p v h = (Inr (), h\<lparr>files := (files h)(p \<mapsto> v)\<rparr>)"
  by (simp add: fs_write_def calm_os_def)





definition scale_model :: mlir_model where
  "scale_model = mlir_model_new ''scale'' ''scale.mlir'' ''knok.scale'' BuildLlvmCpu (tg_inputs scale_typed) (tg_outputs scale_typed)"

lemma model_build: "\<exists>h. emit_mlir_models_with_options calm_os X [scale_model] stub_artifacts_for_check
    (build_host\<lparr>env_vars := (env_vars build_host)(''CARGO_MANIFEST_DIR'' \<mapsto> ''/src'')\<rparr>) = (Inr (), h)"
proof -
  let ?start = "build_host\<lparr>env_vars := (env_vars build_host)(''CARGO_MANIFEST_DIR'' \<mapsto> ''/src'')\<rparr>"
  obtain h where pro: "build_prologue calm_os ?start = (Inr ''/out'', h)" and dir: "env_vars h ''CARGO_MANIFEST_DIR'' = Some ''/src''"
    by (simp add: build_prologue_def io_bind_def build_host_def fs_create_dir_all_def calm_os_def print_line_def
        track_compiler_environment_def tracked_variables_def)
  let ?h0 = "h\<lparr>printed := printed h @ [rerun_if_changed ''/src/scale.mlir'']\<rparr>"
  let ?h = "?h0\<lparr>files := (files h)(path_join ''/out'' (mlir_model_vmfb_name ''scale'') \<mapsto> stub_vmfb)\<rparr>"
  obtain flags where flags: "build_flags stub_artifacts_for_check BuildLlvmCpu ?h = (Inr flags, ?h)"
    using build_host_flags by blast
  obtain w where w: "mlir_model_module scale_model (mlir_model_vmfb_name ''scale'') flags = Inr w"
    using scale_module [of "mlir_model_vmfb_name ''scale''" flags]
    by (auto simp: mlir_model_module_def graph_module_def scale_model_def mlir_model_new_def scale_typed_def)
  have "stub_artifacts stub_artifacts_for_check" by (simp add: stub_artifacts_for_check_def)
  moreover have "resolve_model_path (model_path scale_model) h = (Inr ''/src/scale.mlir'', h)"
    using dir by (simp add: resolve_model_path_def scale_model_def mlir_model_new_def io_bind_def path_join_def)
  moreover have "model_name scale_model = ''scale''" "model_backend scale_model = BuildLlvmCpu"
    by (simp_all add: scale_model_def mlir_model_new_def)
  ultimately show ?thesis
    using pro flags w
    by (simp add: emit_mlir_models_with_options_def emit_all_def emit_model_def io_bind_def Let_def calm_write print_line_def)
qed

lemma emitted_models_complete_witness:
  "\<exists>h0 h. build_left stub_artifacts_for_check h0 h artifact_of_model
     (model_made calm_os demo_env stub_artifacts_for_check (env_vars h)) [scale_model]"
proof -
  let ?h0 = "build_host\<lparr>env_vars := (env_vars build_host)(''CARGO_MANIFEST_DIR'' \<mapsto> ''/src'')\<rparr>"
  obtain h where run: "emit_mlir_models_with_options calm_os demo_env [scale_model] stub_artifacts_for_check ?h0 = (Inr (), h)"
    using model_build by blast
  have "rust_file (output_file stub_artifacts_for_check)"
    by (simp add: stub_artifacts_for_check_def build_options_default_def rust_file_def)
  from emitted_models_complete [OF run this] show ?thesis by auto
qed

end
