(* ===== verification/Build_Macros.thy ===== *)
theory Build_Macros
  imports Build_Driver
begin

text \<open>
  \<^verbatim>\<open>crates/knok-build-macros/src/lib.rs\<close>: the attribute that makes a function a registered graph, and the macros that emit
  registered graphs and models.  What the macros parse with the crate \<^verbatim>\<open>syn\<close> is the parameter \<open>syn_parsers\<close>; an expansion is
  data, and its meaning is given after it.  Raw identifiers are left out.
\<close>

section \<open>Syntax\<close>

type_synonym syn_path = "bool \<times> syn_segment list"

datatype syn_pat = PatIdent string | PatOther

datatype syn_arg = ArgTyped syn_pat syn_type | ArgReceiver

datatype syn_return = ReturnDefault | ReturnType syn_type

record item_fn =
  fn_ident :: string
  fn_args :: "syn_arg list"
  fn_return :: syn_return

record mlir_model_input =
  spec_input_name :: string
  spec_input_type :: syn_type

record 'e mlir_model_spec =
  spec_name :: string
  spec_mlir_path :: string
  spec_function :: string
  spec_backend :: 'e
  spec_inputs :: "mlir_model_input list"
  spec_outputs :: "syn_type list"

datatype 'x macro_error =
  SynError 'x | UnknownModelField string | MissingModelField string | MissingBackend
| SelfReceiver | PatternNotIdent | NoReturnType

text \<open>
  The parsers of \<^verbatim>\<open>syn\<close> on streams \<open>'s\<close>, with expressions \<open>'e\<close> and errors \<open>'x\<close>.  A parser returns the rest of the stream;
  the brackets return their contents first.  \<open>terminated_\<dots>\<close> are the instances of \<^verbatim>\<open>Punctuated::parse_terminated\<close> with
  commas, which take a whole stream; for models, whose parser loops, \<open>None\<close> is a parser that does not return.
\<close>

record ('s, 'e, 'x) syn_parsers =
  parse_ident :: "'s \<Rightarrow> 'x macro_error + (string \<times> 's)"
  parse_str :: "'s \<Rightarrow> 'x macro_error + (string \<times> 's)"
  parse_expr :: "'s \<Rightarrow> 'x macro_error + ('e \<times> 's)"
  parse_type :: "'s \<Rightarrow> 'x macro_error + (syn_type \<times> 's)"
  parse_colon :: "'s \<Rightarrow> 'x macro_error + 's"
  parse_comma :: "'s \<Rightarrow> 'x macro_error + 's"
  parse_semicolon :: "'s \<Rightarrow> 'x macro_error + 's"
  in_braces :: "'s \<Rightarrow> 'x macro_error + ('s \<times> 's)"
  in_brackets :: "'s \<Rightarrow> 'x macro_error + ('s \<times> 's)"
  stream_empty :: "'s \<Rightarrow> bool"
  parse_item :: "'s \<Rightarrow> 'x macro_error + item_fn"
  terminated_types :: "'s \<Rightarrow> 'x macro_error + syn_type list"
  terminated_paths :: "'s \<Rightarrow> 'x macro_error + syn_path list"
  terminated_metas :: "'s \<Rightarrow> 'x macro_error + (syn_path \<times> 'e) list"
  terminated_inputs :: "('s \<Rightarrow> 'x macro_error + (mlir_model_input \<times> 's)) \<Rightarrow> 's \<Rightarrow> 'x macro_error + mlir_model_input list"
  terminated_models :: "('s \<Rightarrow> ('x macro_error + ('e mlir_model_spec \<times> 's)) option) \<Rightarrow> 's
    \<Rightarrow> ('x macro_error + 'e mlir_model_spec list) option"

section \<open>Models\<close>

definition parse_model_input :: "('s, 'e, 'x) syn_parsers \<Rightarrow> 's \<Rightarrow> 'x macro_error + (mlir_model_input \<times> 's)" where
  "parse_model_input P s =
     rbind (parse_ident P s) (\<lambda>(name, s).
     rbind (parse_colon P s) (\<lambda>s.
     rbind (parse_type P s) (\<lambda>(ty, s).
     Inr (\<lparr>spec_input_name = name, spec_input_type = ty\<rparr>, s))))"

text \<open>The fields read so far.\<close>

record 'e model_fields =
  field_path :: "string option"
  field_function :: "string option"
  field_backend :: "'e option"
  field_inputs :: "mlir_model_input list option"
  field_outputs :: "syn_type list option"

definition no_fields :: "'e model_fields" where
  "no_fields = \<lparr>field_path = None, field_function = None, field_backend = None, field_inputs = None, field_outputs = None\<rparr>"

definition parse_field_value ::
    "('s, 'e, 'x) syn_parsers \<Rightarrow> string \<Rightarrow> 's \<Rightarrow> 'e model_fields \<Rightarrow> 'x macro_error + ('e model_fields \<times> 's)" where
  "parse_field_value P key s fs =
     (if key = ''path'' then rbind (parse_str P s) (\<lambda>(v, s). Inr (fs\<lparr>field_path := Some v\<rparr>, s))
      else if key = ''function'' then rbind (parse_str P s) (\<lambda>(v, s). Inr (fs\<lparr>field_function := Some v\<rparr>, s))
      else if key = ''backend'' then rbind (parse_expr P s) (\<lambda>(v, s). Inr (fs\<lparr>field_backend := Some v\<rparr>, s))
      else if key = ''inputs'' then
        rbind (in_brackets P s) (\<lambda>(inner, s).
        rbind (terminated_inputs P (parse_model_input P) inner) (\<lambda>v. Inr (fs\<lparr>field_inputs := Some v\<rparr>, s)))
      else if key = ''outputs'' then
        rbind (in_brackets P s) (\<lambda>(inner, s).
        rbind (terminated_types P inner) (\<lambda>v. Inr (fs\<lparr>field_outputs := Some v\<rparr>, s)))
      else Inl (UnknownModelField key))"

definition skip_comma :: "('s, 'e, 'x) syn_parsers \<Rightarrow> 's \<Rightarrow> 's" where
  "skip_comma P s = (case parse_comma P s of Inl _ \<Rightarrow> s | Inr s' \<Rightarrow> s')"

definition parse_field ::
    "('s, 'e, 'x) syn_parsers \<Rightarrow> 's \<Rightarrow> 'e model_fields \<Rightarrow> 'x macro_error + ('e model_fields \<times> 's)" where
  "parse_field P s fs =
     rbind (parse_ident P s) (\<lambda>(key, s).
     rbind (parse_colon P s) (\<lambda>s.
     rbind (parse_field_value P key s fs) (\<lambda>(fs, s). Inr (fs, skip_comma P s))))"

partial_function (option) parse_fields ::
    "('s, 'e, 'x) syn_parsers \<Rightarrow> 's \<Rightarrow> 'e model_fields \<Rightarrow> ('x macro_error + 'e model_fields) option" where
  "parse_fields P s fs =
     (if stream_empty P s then Some (Inr fs)
      else (case parse_field P s fs of Inl e \<Rightarrow> Some (Inl e) | Inr (fs, s) \<Rightarrow> parse_fields P s fs))"

definition model_of_fields :: "string \<Rightarrow> 'e model_fields \<Rightarrow> 'x macro_error + 'e mlir_model_spec" where
  "model_of_fields name fs =
     rbind (of_option (MissingModelField ''path'') (field_path fs)) (\<lambda>path.
     rbind (of_option (MissingModelField ''function'') (field_function fs)) (\<lambda>function.
     rbind (of_option (MissingModelField ''backend'') (field_backend fs)) (\<lambda>backend.
     rbind (of_option (MissingModelField ''inputs'') (field_inputs fs)) (\<lambda>ins.
     rbind (of_option (MissingModelField ''outputs'') (field_outputs fs)) (\<lambda>outs.
     Inr \<lparr>spec_name = name, spec_mlir_path = path, spec_function = function, spec_backend = backend, spec_inputs = ins,
          spec_outputs = outs\<rparr>)))))"

definition parse_model_spec ::
    "('s, 'e, 'x) syn_parsers \<Rightarrow> 's \<Rightarrow> ('x macro_error + ('e mlir_model_spec \<times> 's)) option" where
  "parse_model_spec P s =
     (case rbind (parse_ident P s) (\<lambda>(name, s). rbind (in_braces P s) (\<lambda>(content, s). Inr (name, content, s))) of
        Inl e \<Rightarrow> Some (Inl e)
      | Inr (name, content, s) \<Rightarrow>
          map_option (\<lambda>r. rbind r (\<lambda>fs. rbind (model_of_fields name fs) (\<lambda>spec. Inr (spec, s))))
            (parse_fields P content no_fields))"

section \<open>The attribute\<close>

definition path_is_ident :: "string \<Rightarrow> syn_path \<Rightarrow> bool" where
  "path_is_ident name p \<longleftrightarrow> p = (False, [Segment name NoArguments])"

definition parse_backend_attribute :: "('s, 'e, 'x) syn_parsers \<Rightarrow> 's \<Rightarrow> 'x macro_error + 'e" where
  "parse_backend_attribute P attr =
     rbind (terminated_metas P attr) (\<lambda>args.
     of_option MissingBackend (map_option snd (List.find (\<lambda>(p, v). path_is_ident ''backend'' p) args)))"

text \<open>An input of the expansion is a \<open>let\<close> of its name, its type, and the name as text.\<close>

record 'e traced_expansion =
  ex_item :: item_fn
  ex_register :: string
  ex_graph_name :: string
  ex_backend :: 'e
  ex_inputs :: "(string \<times> syn_type \<times> string) list"
  ex_args :: "string list"

definition register_name :: "string \<Rightarrow> string" where
  "register_name name = ''__knok_register_'' @ name"

definition input_let :: "syn_arg \<Rightarrow> 'x macro_error + (string \<times> syn_type \<times> string)" where
  "input_let arg =
     (case arg of
        ArgReceiver \<Rightarrow> Inl SelfReceiver
      | ArgTyped pat ty \<Rightarrow>
          (case pat of PatIdent name \<Rightarrow> Inr (name, ty, name) | PatOther \<Rightarrow> Inl PatternNotIdent))"

text \<open>\<open>None\<close> is the panic of \<^verbatim>\<open>unreachable!\<close>.\<close>

definition arg_name :: "syn_arg \<Rightarrow> string option" where
  "arg_name arg = (case arg of ArgTyped (PatIdent name) _ \<Rightarrow> Some name | _ \<Rightarrow> None)"

definition expand_traced_graph ::
    "('s, 'e, 'x) syn_parsers \<Rightarrow> 's \<Rightarrow> 's \<Rightarrow> ('x macro_error + 'e traced_expansion) option" where
  "expand_traced_graph P attr item =
     (case rbind (parse_backend_attribute P attr) (\<lambda>backend.
           rbind (parse_item P item) (\<lambda>f.
           rbind (rmap input_let (fn_args f)) (\<lambda>ins.
           rbind (check (fn_return f \<noteq> ReturnDefault) NoReturnType) (\<lambda>_.
           Inr (backend, f, ins))))) of
        Inl e \<Rightarrow> Some (Inl e)
      | Inr (backend, f, ins) \<Rightarrow>
          map_option (\<lambda>args.
            Inr \<lparr>ex_item = f, ex_register = register_name (fn_ident f), ex_graph_name = fn_ident f, ex_backend = backend,
                 ex_inputs = ins, ex_args = args\<rparr>)
            (those (map arg_name (fn_args f))))"

section \<open>The macros that emit\<close>

text \<open>The block that \<open>compile_graphs\<close> and its variants expand to: the calls on a new registry, and the emitter with its
  options.  \<open>None\<close> is the panic on a path without segments.\<close>

datatype emit_function = EmitGraphs | EmitGradGraphs

datatype 'e options_code = DefaultOptions | OptionsCode 'e

record 'e graphs_block =
  block_calls :: "syn_path list"
  block_emit :: emit_function
  block_options :: "'e options_code"

definition register_path :: "syn_path \<Rightarrow> syn_path option" where
  "register_path p =
     (case p of (leading, segments) \<Rightarrow>
        if segments = [] then None
        else (case last segments of Segment name arguments \<Rightarrow>
                Some (leading, butlast segments @ [Segment (register_name name) arguments])))"

definition expand_registered_graph_emit ::
    "syn_path list \<Rightarrow> 'e options_code \<Rightarrow> emit_function \<Rightarrow> 'e graphs_block option" where
  "expand_registered_graph_emit paths options emit =
     map_option (\<lambda>calls. \<lparr>block_calls = calls, block_emit = emit, block_options = options\<rparr>)
       (those (map register_path paths))"

definition expand_compile_graphs :: "syn_path list \<Rightarrow> 'e options_code \<Rightarrow> 'e graphs_block option" where
  "expand_compile_graphs paths options = expand_registered_graph_emit paths options EmitGraphs"

definition expand_grad_graphs :: "syn_path list \<Rightarrow> 'e options_code \<Rightarrow> 'e graphs_block option" where
  "expand_grad_graphs paths options = expand_registered_graph_emit paths options EmitGradGraphs"

definition parse_graphs_with_options ::
    "('s, 'e, 'x) syn_parsers \<Rightarrow> 's \<Rightarrow> 'x macro_error + ('e \<times> syn_path list)" where
  "parse_graphs_with_options P s =
     rbind (parse_expr P s) (\<lambda>(options, s).
     rbind (parse_semicolon P s) (\<lambda>s.
     rbind (terminated_paths P s) (\<lambda>graphs. Inr (options, graphs))))"

definition expand_parsed :: "'x macro_error + 'a \<Rightarrow> ('a \<Rightarrow> 'b option) \<Rightarrow> ('x macro_error + 'b) option" where
  "expand_parsed r f = (case r of Inl e \<Rightarrow> Some (Inl e) | Inr v \<Rightarrow> map_option Inr (f v))"

definition compile_graphs :: "('s, 'e, 'x) syn_parsers \<Rightarrow> 's \<Rightarrow> ('x macro_error + 'e graphs_block) option" where
  "compile_graphs P s = expand_parsed (terminated_paths P s) (\<lambda>paths. expand_compile_graphs paths DefaultOptions)"

definition grad_graphs :: "('s, 'e, 'x) syn_parsers \<Rightarrow> 's \<Rightarrow> ('x macro_error + 'e graphs_block) option" where
  "grad_graphs P s = expand_parsed (terminated_paths P s) (\<lambda>paths. expand_grad_graphs paths DefaultOptions)"

definition compile_graphs_with_options :: "('s, 'e, 'x) syn_parsers \<Rightarrow> 's \<Rightarrow> ('x macro_error + 'e graphs_block) option" where
  "compile_graphs_with_options P s =
     expand_parsed (parse_graphs_with_options P s) (\<lambda>(options, graphs). expand_compile_graphs graphs (OptionsCode options))"

definition grad_graphs_with_options :: "('s, 'e, 'x) syn_parsers \<Rightarrow> 's \<Rightarrow> ('x macro_error + 'e graphs_block) option" where
  "grad_graphs_with_options P s =
     expand_parsed (parse_graphs_with_options P s) (\<lambda>(options, graphs). expand_grad_graphs graphs (OptionsCode options))"

text \<open>Models.  A type that does not parse leaves a compile error in the expansion.\<close>

datatype type_code = TypeCode string "nat list" | TypeCompileError type_error

record 'e model_code =
  code_name :: string
  code_path :: string
  code_function :: string
  code_backend :: 'e
  code_inputs :: "(string \<times> type_code) list"
  code_outputs :: "type_code list"

record 'e models_block =
  block_models :: "'e model_code list"
  models_options :: "'e options_code"

definition element_type_tokens :: "element_type \<Rightarrow> string" where
  "element_type_tokens el =
     (case el of
        Bool \<Rightarrow> ''::knok_build::__private::ElementType::Bool''
      | F32 \<Rightarrow> ''::knok_build::__private::ElementType::F32''
      | F64 \<Rightarrow> ''::knok_build::__private::ElementType::F64''
      | F16 \<Rightarrow> ''::knok_build::__private::ElementType::F16''
      | BF16 \<Rightarrow> ''::knok_build::__private::ElementType::BF16''
      | I32 \<Rightarrow> ''::knok_build::__private::ElementType::I32''
      | I64 \<Rightarrow> ''::knok_build::__private::ElementType::I64'')"

definition tensor_type_tokens :: "syn_type \<Rightarrow> type_code" where
  "tensor_type_tokens ty =
     (case parse_tensor_type ty of
        Inr t \<Rightarrow> TypeCode (element_type_tokens (elem t)) (shape t)
      | Inl e \<Rightarrow> TypeCompileError e)"

definition mlir_model_tokens :: "'e mlir_model_spec \<Rightarrow> 'e model_code" where
  "mlir_model_tokens spec =
     \<lparr>code_name = spec_name spec, code_path = spec_mlir_path spec, code_function = spec_function spec,
      code_backend = spec_backend spec,
      code_inputs = map (\<lambda>i. (spec_input_name i, tensor_type_tokens (spec_input_type i))) (spec_inputs spec),
      code_outputs = map tensor_type_tokens (spec_outputs spec)\<rparr>"

definition expand_compile_mlir_models :: "'e mlir_model_spec list \<Rightarrow> 'e options_code \<Rightarrow> 'e models_block" where
  "expand_compile_mlir_models specs options =
     \<lparr>block_models = map mlir_model_tokens specs, models_options = options\<rparr>"

definition parse_models_with_options ::
    "('s, 'e, 'x) syn_parsers \<Rightarrow> 's \<Rightarrow> ('x macro_error + ('e \<times> 'e mlir_model_spec list)) option" where
  "parse_models_with_options P s =
     (case rbind (parse_expr P s) (\<lambda>(options, s). rbind (parse_semicolon P s) (\<lambda>s. Inr (options, s))) of
        Inl e \<Rightarrow> Some (Inl e)
      | Inr (options, s) \<Rightarrow>
          map_option (\<lambda>r. rbind r (\<lambda>models. Inr (options, models))) (terminated_models P (parse_model_spec P) s))"

definition compile_mlir_models :: "('s, 'e, 'x) syn_parsers \<Rightarrow> 's \<Rightarrow> ('x macro_error + 'e models_block) option" where
  "compile_mlir_models P s =
     map_option (\<lambda>r. rbind r (\<lambda>models. Inr (expand_compile_mlir_models models DefaultOptions)))
       (terminated_models P (parse_model_spec P) s)"

definition compile_mlir_models_with_options ::
    "('s, 'e, 'x) syn_parsers \<Rightarrow> 's \<Rightarrow> ('x macro_error + 'e models_block) option" where
  "compile_mlir_models_with_options P s =
     map_option (\<lambda>r. rbind r (\<lambda>(options, models). Inr (expand_compile_mlir_models models (OptionsCode options))))
       (parse_models_with_options P s)"

section \<open>What the expansions mean\<close>

text \<open>
  The closure of a registration: its locals and the graph function share one scope, as the identifiers that \<^verbatim>\<open>quote!\<close>
  writes are resolved where the macro is called.  \<open>T\<close> gives the tensor type of a Rust type, \<open>body\<close> runs the graph function;
  \<open>None\<close> is a closure that does not compile.
\<close>

datatype binding = TheContext | TheFunction | ATensor trace_tensor

fun run_lets ::
    "(syn_type \<Rightarrow> tensor_type) \<Rightarrow> (string \<times> syn_type \<times> string) list \<Rightarrow> (string \<Rightarrow> binding option) \<Rightarrow> trace_context
      \<Rightarrow> ((string \<Rightarrow> binding option) \<times> trace_context) option" where
  "run_lets T [] env ctx = Some (env, ctx)"
| "run_lets T ((name, ty, key) # lets) env ctx =
     (if env ''context'' = Some TheContext
      then (case context_input (T ty) key ctx of (t, ctx') \<Rightarrow> run_lets T lets (env(name \<mapsto> ATensor t)) ctx')
      else None)"

definition tensor_argument :: "(string \<Rightarrow> binding option) \<Rightarrow> string \<Rightarrow> trace_tensor option" where
  "tensor_argument env name = (case env name of Some (ATensor t) \<Rightarrow> Some t | _ \<Rightarrow> None)"

type_synonym 'u traced_body = "trace_tensor list \<Rightarrow> 'u \<Rightarrow> trace_tensor list \<times> 'u"

definition run_closure ::
    "(syn_type \<Rightarrow> tensor_type) \<Rightarrow> 'u traced_body \<Rightarrow> 'e traced_expansion \<Rightarrow> trace_context \<Rightarrow> 'u
      \<Rightarrow> (trace_tensor list \<times> trace_context \<times> 'u) option" where
  "run_closure T body x ctx s =
     Option.bind (run_lets T (ex_inputs x) [fn_ident (ex_item x) \<mapsto> TheFunction, ''context'' \<mapsto> TheContext] ctx) (\<lambda>(env, ctx').
     if env (fn_ident (ex_item x)) = Some TheFunction
     then map_option (\<lambda>args. case body args s of (outs, s') \<Rightarrow> (outs, ctx', s')) (those (map (tensor_argument env) (ex_args x)))
     else None)"

type_synonym 'u registration = "graph_registry \<Rightarrow> 'u \<Rightarrow> (graph_registry \<times> 'u) result"

definition run_register ::
    "'f f64_ops \<Rightarrow> (syn_type \<Rightarrow> tensor_type) \<Rightarrow> ('e \<Rightarrow> build_backend) \<Rightarrow> 'u traced_body \<Rightarrow> 'e traced_expansion \<Rightarrow> 'u registration" where
  "run_register F T B body x registry s =
     registry_trace F (ex_graph_name x) (B (ex_backend x)) (\<lambda>ctx s. the (run_closure T body x ctx s)) s registry"

text \<open>A graph function of a build script: the path of its module as callers write it, the tokens of the attribute and of the
  function, and what the function does.  The expansion puts the registration beside the function.\<close>

record ('s, 'u) graph_fn =
  gf_module :: syn_path
  gf_attribute :: 's
  gf_tokens :: 's
  gf_body :: "'u traced_body"

definition in_module :: "syn_path \<Rightarrow> string \<Rightarrow> syn_path" where
  "in_module m name = (fst m, snd m @ [Segment name NoArguments])"

definition registration_of ::
    "('s, 'e, 'x) syn_parsers \<Rightarrow> 'f f64_ops \<Rightarrow> (syn_type \<Rightarrow> tensor_type) \<Rightarrow> ('e \<Rightarrow> build_backend) \<Rightarrow> ('s, 'u) graph_fn
      \<Rightarrow> (syn_path \<times> 'u registration) option" where
  "registration_of P F T B g =
     (case expand_traced_graph P (gf_attribute g) (gf_tokens g) of
        Some (Inr x) \<Rightarrow> Some (in_module (gf_module g) (ex_register x), run_register F T B (gf_body g) x)
      | _ \<Rightarrow> None)"

definition script_scope ::
    "('s, 'e, 'x) syn_parsers \<Rightarrow> 'f f64_ops \<Rightarrow> (syn_type \<Rightarrow> tensor_type) \<Rightarrow> ('e \<Rightarrow> build_backend) \<Rightarrow> ('s, 'u) graph_fn list
      \<Rightarrow> syn_path \<Rightarrow> 'u registration option" where
  "script_scope P F T B fns = map_of (List.map_filter (registration_of P F T B) fns)"

fun run_registrations :: "'u registration list \<Rightarrow> 'u registration" where
  "run_registrations [] registry s = Inr (registry, s)"
| "run_registrations (r # rs) registry s = rbind (r registry s) (\<lambda>(registry, s). run_registrations rs registry s)"

definition options_of :: "('e \<Rightarrow> build_options) \<Rightarrow> 'e options_code \<Rightarrow> build_options" where
  "options_of Q code = (case code of DefaultOptions \<Rightarrow> build_options_default | OptionsCode e \<Rightarrow> Q e)"

definition emitter :: "os \<Rightarrow> ('f, 'm) compile_env \<Rightarrow> emit_function \<Rightarrow> graph_registry \<Rightarrow> build_options \<Rightarrow> (build_error, unit) io" where
  "emitter S X emit =
     (case emit of
        EmitGraphs \<Rightarrow> emit_registered_graphs_with_options S X
      | EmitGradGraphs \<Rightarrow> emit_registered_grad_graphs_with_options S X)"

text \<open>An error of the block is a panic with the error in its message; \<open>None\<close> is a block with a path that does not resolve.\<close>

datatype script_panic = TracingFailed error | EmittingFailed build_error

definition traced_then_emitted ::
    "os \<Rightarrow> ('f, 'm) compile_env \<Rightarrow> emit_function \<Rightarrow> build_options \<Rightarrow> (graph_registry \<times> 'u) result \<Rightarrow> (script_panic, unit) io" where
  "traced_then_emitted S X emit options outcome =
     io_bind (io_lift (map_err TracingFailed outcome)) (\<lambda>(registry, s).
     io_map_err EmittingFailed (emitter S X emit registry options))"

definition run_graphs_block ::
    "os \<Rightarrow> ('f, 'm) compile_env \<Rightarrow> ('e \<Rightarrow> build_options) \<Rightarrow> (syn_path \<Rightarrow> 'u registration option) \<Rightarrow> 'e graphs_block \<Rightarrow> 'u
      \<Rightarrow> (script_panic, unit) io option" where
  "run_graphs_block S X Q scope block s =
     map_option (\<lambda>rs. traced_then_emitted S X (block_emit block) (options_of Q (block_options block)) (run_registrations rs registry_new s))
       (those (map scope (block_calls block)))"

text \<open>The path of an element type is one of \<^verbatim>\<open>knok_core\<close>'s enum; a compile error is no type.\<close>

definition element_type_at :: "string \<Rightarrow> element_type option" where
  "element_type_at path = map_of (map (\<lambda>el. (element_type_tokens el, el)) [Bool, F32, F64, F16, BF16, I32, I64]) path"

definition type_at :: "type_code \<Rightarrow> tensor_type option" where
  "type_at code =
     (case code of TypeCode el dims \<Rightarrow> map_option (\<lambda>el. tensor el dims) (element_type_at el) | TypeCompileError e \<Rightarrow> None)"

definition input_at :: "string \<times> type_code \<Rightarrow> input option" where
  "input_at code = map_option (\<lambda>ty. \<lparr>input_name = fst code, input_ty = ty\<rparr>) (type_at (snd code))"

definition model_at :: "('e \<Rightarrow> build_backend) \<Rightarrow> 'e model_code \<Rightarrow> mlir_model option" where
  "model_at B code =
     Option.bind (those (map input_at (code_inputs code))) (\<lambda>ins.
     Option.bind (those (map type_at (code_outputs code))) (\<lambda>outs.
     Some (mlir_model_new (code_name code) (code_path code) (code_function code) (B (code_backend code)) ins outs)))"

definition run_models_block ::
    "os \<Rightarrow> ('f, 'm) compile_env \<Rightarrow> ('e \<Rightarrow> build_options) \<Rightarrow> ('e \<Rightarrow> build_backend) \<Rightarrow> 'e models_block
      \<Rightarrow> (script_panic, unit) io option" where
  "run_models_block S X Q B block =
     map_option (\<lambda>models. io_map_err EmittingFailed (emit_mlir_models_with_options S X models (options_of Q (models_options block))))
       (those (map (model_at B) (block_models block)))"

section \<open>The attribute: facts\<close>

definition typed_arg :: "syn_arg \<Rightarrow> (string \<times> syn_type) option" where
  "typed_arg arg = (case arg of ArgTyped (PatIdent name) ty \<Rightarrow> Some (name, ty) | _ \<Rightarrow> None)"

definition typed_args :: "item_fn \<Rightarrow> (string \<times> syn_type) list" where
  "typed_args f = List.map_filter typed_arg (fn_args f)"

definition arg_names :: "item_fn \<Rightarrow> string list" where
  "arg_names f = map fst (typed_args f)"

lemma input_lets:
  "rmap input_let args = Inr ins \<Longrightarrow>
     ins = map (\<lambda>(n, ty). (n, ty, n)) (List.map_filter typed_arg args) \<and>
     those (map arg_name args) = Some (map fst (List.map_filter typed_arg args))"
proof (induction args arbitrary: ins)
  case (Cons a args)
  then show ?case
    by (cases a rule: syn_arg.exhaust [case_product syn_pat.exhaust])
      (auto simp: input_let_def arg_name_def typed_arg_def result_simps split: syn_arg.splits syn_pat.splits)
qed simp

text \<open>The second pass over the arguments never meets a pattern that the first would have rejected.\<close>

lemma expansion_never_panics: "expand_traced_graph P attr item \<noteq> None"
  by (auto simp: expand_traced_graph_def result_simps split: sum.splits dest!: input_lets)

lemma expansion_parts:
  assumes "expand_traced_graph P attr item = Some (Inr x)"
  shows "parse_item P item = Inr (ex_item x)" "parse_backend_attribute P attr = Inr (ex_backend x)"
    "ex_register x = register_name (fn_ident (ex_item x))" "ex_graph_name x = fn_ident (ex_item x)"
    "ex_inputs x = map (\<lambda>(n, ty). (n, ty, n)) (typed_args (ex_item x))" "ex_args x = arg_names (ex_item x)"
  using assms unfolding typed_args_def arg_names_def
  by (auto simp: expand_traced_graph_def result_simps split: sum.splits dest!: input_lets)

text \<open>The graph function called on the inputs of its signature, in order.\<close>

definition traced_input :: "(syn_type \<Rightarrow> tensor_type) \<Rightarrow> string \<times> syn_type \<Rightarrow> trace_tensor" where
  "traced_input T arg = from_expr (T (snd arg)) (EVar (fst arg))"

definition with_inputs :: "(syn_type \<Rightarrow> tensor_type) \<Rightarrow> (string \<times> syn_type) list \<Rightarrow> trace_context \<Rightarrow> trace_context" where
  "with_inputs T args ctx =
     ctx\<lparr>ctx_inputs := ctx_inputs ctx @ map (\<lambda>(name, ty). \<lparr>input_name = name, input_ty = T ty\<rparr>) args\<rparr>"

definition direct_call ::
    "(syn_type \<Rightarrow> tensor_type) \<Rightarrow> 'u traced_body \<Rightarrow> item_fn \<Rightarrow> trace_context \<Rightarrow> 'u \<Rightarrow> trace_tensor list \<times> trace_context \<times> 'u" where
  "direct_call T body f ctx s =
     (case body (map (traced_input T) (typed_args f)) s of (outs, s') \<Rightarrow> (outs, with_inputs T (typed_args f) ctx, s'))"

text \<open>The names that the closure of an expansion needs: its context until the last input is made, and the function.\<close>

definition names_usable :: "item_fn \<Rightarrow> bool" where
  "names_usable f \<longleftrightarrow>
     fn_ident f \<noteq> ''context'' \<and> fn_ident f \<notin> set (arg_names f) \<and> ''context'' \<notin> set (butlast (arg_names f))"

definition input_env ::
    "(syn_type \<Rightarrow> tensor_type) \<Rightarrow> (string \<times> syn_type) list \<Rightarrow> (string \<Rightarrow> binding option) \<Rightarrow> string \<Rightarrow> binding option" where
  "input_env T args env = env ++ map_of (rev (map (\<lambda>a. (fst a, ATensor (traced_input T a))) args))"

lemma run_lets_inputs:
  "run_lets T (map (\<lambda>(n, ty). (n, ty, n)) args) env ctx =
     (if args = [] \<or> env ''context'' = Some TheContext \<and> ''context'' \<notin> set (butlast (map fst args))
      then Some (input_env T args env, with_inputs T args ctx)
      else None)"
proof (induction args arbitrary: env ctx)
  case (Cons a args)
  then show ?case
    by (cases a)
      (auto simp: context_input_def with_inputs_def traced_input_def input_env_def map_add_def fun_eq_iff split: option.split)
qed (simp add: with_inputs_def input_env_def)

lemma input_env_arg:
  "distinct (map fst args) \<Longrightarrow> a \<in> set args \<Longrightarrow> tensor_argument (input_env T args env) (fst a) = Some (traced_input T a)"
proof -
  assume "distinct (map fst args)" "a \<in> set args"
  then have "map_of (rev (map (\<lambda>a. (fst a, ATensor (traced_input T a))) args)) (fst a) = Some (ATensor (traced_input T a))"
    by (intro map_of_is_SomeI) (auto simp: rev_map [symmetric] comp_def)
  then show ?thesis by (simp add: tensor_argument_def input_env_def map_add_def)
qed

lemma those_map_Some: "(\<And>x. x \<in> set xs \<Longrightarrow> f x = Some (g x)) \<Longrightarrow> those (map f xs) = Some (map g xs)"
  by (induction xs) auto

lemma input_env_fn:
  "input_env T args [f \<mapsto> TheFunction, ''context'' \<mapsto> TheContext] f = Some TheFunction \<longleftrightarrow>
     f \<noteq> ''context'' \<and> f \<notin> fst ` set args"
proof (cases "map_of (rev (map (\<lambda>a. (fst a, ATensor (traced_input T a))) args)) f")
  case None
  then have "f \<notin> fst ` set args" by (simp add: map_of_eq_None_iff image_image)
  with None show ?thesis by (simp add: input_env_def map_add_def)
next
  case (Some b)
  then have "f \<in> fst ` set args" "b \<noteq> TheFunction" by (auto dest!: map_of_SomeD)
  with Some show ?thesis by (simp add: input_env_def map_add_def)
qed

lemma closure_meaning:
  assumes "expand_traced_graph P attr item = Some (Inr x)" and "distinct (arg_names (ex_item x))"
  shows "run_closure T body x ctx s = (if names_usable (ex_item x) then Some (direct_call T body (ex_item x) ctx s) else None)"
proof -
  let ?f = "ex_item x" and ?args = "typed_args (ex_item x)"
  note parts = expansion_parts [OF assms(1)]
  have names: "arg_names ?f = map fst ?args" by (simp add: arg_names_def)
  let ?env = "[fn_ident ?f \<mapsto> TheFunction, ''context'' \<mapsto> TheContext]"
  have run: "run_closure T body x ctx s =
    Option.bind (run_lets T (map (\<lambda>(n, ty). (n, ty, n)) ?args) ?env ctx) (\<lambda>(env, ctx').
     if env (fn_ident ?f) = Some TheFunction
     then map_option (\<lambda>args. case body args s of (outs, s') \<Rightarrow> (outs, ctx', s')) (those (map (tensor_argument env) (map fst ?args)))
     else None)"
    unfolding run_closure_def parts(5) parts(6) names ..
  have args: "those (map (tensor_argument (input_env T ?args ?env)) (map fst ?args)) = Some (map (traced_input T) ?args)"
    unfolding map_map
    by (rule those_map_Some) (use assms(2) in \<open>simp add: names input_env_arg\<close>)
  have usable: "names_usable ?f \<longleftrightarrow>
      (?args = [] \<or> ?env ''context'' = Some TheContext \<and> ''context'' \<notin> set (butlast (map fst ?args))) \<and>
      input_env T ?args ?env (fn_ident ?f) = Some TheFunction"
    unfolding input_env_fn names_usable_def names by auto
  show ?thesis
    unfolding run run_lets_inputs usable direct_call_def by (simp add: args del: map_map)
qed

lemma closure_runs:
  "expand_traced_graph P attr item = Some (Inr x) \<Longrightarrow> distinct (arg_names (ex_item x)) \<Longrightarrow> names_usable (ex_item x) \<Longrightarrow>
     run_closure T body x ctx s = Some (direct_call T body (ex_item x) ctx s)"
  by (simp add: closure_meaning)


section \<open>The emitting macros: facts\<close>

text \<open>What the expansion of \<open>g\<close> is to register: the graph function itself, traced under its own name.\<close>

definition trace_function ::
    "'f f64_ops \<Rightarrow> (syn_type \<Rightarrow> tensor_type) \<Rightarrow> ('e \<Rightarrow> build_backend) \<Rightarrow> ('s, 'u) graph_fn \<times> 'e traced_expansion \<Rightarrow> 'u registration" where
  "trace_function F T B gx registry s =
     registry_trace F (fn_ident (ex_item (snd gx))) (B (ex_backend (snd gx)))
       (direct_call T (gf_body (fst gx)) (ex_item (snd gx))) s registry"

definition function_path :: "('s, 'u) graph_fn \<times> 'e traced_expansion \<Rightarrow> syn_path" where
  "function_path gx = in_module (gf_module (fst gx)) (fn_ident (ex_item (snd gx)))"

text \<open>The functions of a script that the attribute accepts and that compile, each with its expansion.\<close>

definition script_compiles :: "('s, 'e, 'x) syn_parsers \<Rightarrow> (('s, 'u) graph_fn \<times> 'e traced_expansion) list \<Rightarrow> bool" where
  "script_compiles P gxs \<longleftrightarrow>
     list_all (\<lambda>(g, x). expand_traced_graph P (gf_attribute g) (gf_tokens g) = Some (Inr x) \<and>
       distinct (arg_names (ex_item x)) \<and> names_usable (ex_item x)) gxs \<and>
     distinct (map function_path gxs)"

lemma register_path_in_module: "register_path (in_module m name) = Some (in_module m (register_name name))"
  by (cases m) (simp add: register_path_def in_module_def)

lemma register_name_inject [simp]: "register_name a = register_name b \<longleftrightarrow> a = b"
  by (simp add: register_name_def)

lemma in_module_inject [simp]: "in_module m a = in_module n b \<longleftrightarrow> m = n \<and> a = b"
  by (cases m; cases n) (auto simp: in_module_def)

lemma registration_found:
  assumes "script_compiles P gxs" and "gx \<in> set gxs"
  shows "registration_of P F T B (fst gx) =
    Some (in_module (gf_module (fst gx)) (register_name (fn_ident (ex_item (snd gx)))), trace_function F T B gx)"
proof -
  obtain g x where gx: "gx = (g, x)" by (cases gx)
  with assms have x: "expand_traced_graph P (gf_attribute g) (gf_tokens g) = Some (Inr x)" "distinct (arg_names (ex_item x))"
      "names_usable (ex_item x)"
    by (auto simp: script_compiles_def list_all_iff)
  have closure: "run_closure T (gf_body g) x ctx s = Some (direct_call T (gf_body g) (ex_item x) ctx s)" for ctx s
    by (rule closure_runs [OF x])
  show ?thesis
    unfolding gx by (simp add: registration_of_def x(1) expansion_parts [OF x(1)] fun_eq_iff run_register_def trace_function_def closure)
qed

lemma script_scope_finds:
  assumes "script_compiles P gxs" and "gx \<in> set gxs"
  shows "script_scope P F T B (map fst gxs) (in_module (gf_module (fst gx)) (register_name (fn_ident (ex_item (snd gx))))) =
    Some (trace_function F T B gx)"
proof -
  let ?entry = "\<lambda>gx. (in_module (gf_module (fst gx)) (register_name (fn_ident (ex_item (snd gx)))), trace_function F T B gx)"
  have "List.map_filter (registration_of P F T B) (map fst gxs') = map ?entry gxs'" if "set gxs' \<subseteq> set gxs" for gxs'
    using that by (induction gxs') (auto simp: registration_found [OF assms(1)])
  then have "script_scope P F T B (map fst gxs) = map_of (map ?entry gxs)" by (simp add: script_scope_def)
  moreover have "distinct (map fst (map ?entry gxs))"
    using assms(1) by (auto simp: script_compiles_def distinct_map inj_on_def function_path_def)
  ultimately show ?thesis using assms(2) by (auto intro!: map_of_is_SomeI)
qed

text \<open>C37. The macros that emit graphs or gradients, given functions of the script, trace exactly these in the given order
  and hand them to the emitter; the first error, of a trace or of the emitter, is the panic.\<close>

theorem block_emits_functions:
  assumes "script_compiles P gxs" and "set chosen \<subseteq> set gxs"
    and "expand_registered_graph_emit (map function_path chosen) options emit = Some block"
  shows "run_graphs_block S X Q (script_scope P F T B (map fst gxs)) block s =
    Some (traced_then_emitted S X emit (options_of Q options)
      (run_registrations (map (trace_function F T B) chosen) registry_new s))"
proof -
  let ?call = "\<lambda>gx. in_module (gf_module (fst gx)) (register_name (fn_ident (ex_item (snd gx))))"
  have "those (map register_path (map function_path chosen)) = Some (map ?call chosen)"
    unfolding map_map by (rule those_map_Some) (simp add: function_path_def register_path_in_module)
  with assms(3) have block: "block = \<lparr>block_calls = map ?call chosen, block_emit = emit, block_options = options\<rparr>"
    by (simp add: expand_registered_graph_emit_def)
  have "those (map (script_scope P F T B (map fst gxs)) (map ?call chosen)) = Some (map (trace_function F T B) chosen)"
    unfolding map_map comp_def by (rule those_map_Some, rule script_scope_finds [OF assms(1)]) (use assms(2) in blast)
  then show ?thesis unfolding block run_graphs_block_def by (simp del: map_map)
qed

section \<open>The fields of a model\<close>

text \<open>The grammar of the fields: a comma may follow each, and a later field of a name replaces an earlier one.\<close>

inductive reads_fields :: "('s, 'e, 'x) syn_parsers \<Rightarrow> 's \<Rightarrow> 'e model_fields \<Rightarrow> 'e model_fields \<Rightarrow> bool" for P where
  FieldsEnd: "stream_empty P s \<Longrightarrow> reads_fields P s fs fs"
| FieldsNext: "\<not> stream_empty P s \<Longrightarrow> parse_field P s fs = Inr (fs', s') \<Longrightarrow> reads_fields P s' fs' fs'' \<Longrightarrow> reads_fields P s fs fs''"

lemma parse_fields_sound:
  assumes "parse_fields P s fs = Some r" and "r = Inr fs'"
  shows "reads_fields P s fs fs'"
proof -
  have "(\<lambda>((P, s), fs) r. \<forall>fs'. r = Inr fs' \<longrightarrow> reads_fields P s fs fs') ((P, s), fs) r"
  proof (rule parse_fields.raw_induct)
    fix parse P s fs r
    assume IH: "\<And>s fs b r. parse s fs b = Some r \<Longrightarrow>
        (\<lambda>((P, s), fs) r. \<forall>fs'. r = Inr fs' \<longrightarrow> reads_fields P s fs fs') ((s, fs), b) r"
      and "(if stream_empty P s then Some (Inr fs)
        else (case parse_field P s fs of Inl e \<Rightarrow> Some (Inl e) | Inr (fs, s) \<Rightarrow> parse P s fs)) = Some r"
    then show "(\<lambda>((P, s), fs) r. \<forall>fs'. r = Inr fs' \<longrightarrow> reads_fields P s fs fs') ((P, s), fs) r"
      by (auto split: if_splits sum.splits intro: reads_fields.intros dest!: IH)
  qed (rule assms(1))
  with assms(2) show ?thesis by simp
qed

lemma parse_fields_complete: "reads_fields P s fs fs' \<Longrightarrow> parse_fields P s fs = Some (Inr fs')"
  by (induction rule: reads_fields.induct) (simp_all add: parse_fields.simps)

lemma parse_fields_iff: "parse_fields P s fs = Some (Inr fs') \<longleftrightarrow> reads_fields P s fs fs'"
  by (auto intro: parse_fields_sound parse_fields_complete)

text \<open>Parsers never give back more than they got, and an identifier takes a token.\<close>

definition consuming :: "('s, 'e, 'x) syn_parsers \<Rightarrow> ('s \<Rightarrow> nat) \<Rightarrow> bool" where
  "consuming P left \<longleftrightarrow>
     (\<forall>s v s'. parse_ident P s = Inr (v, s') \<longrightarrow> left s' < left s) \<and>
     (\<forall>s v s'. parse_str P s = Inr (v, s') \<longrightarrow> left s' \<le> left s) \<and>
     (\<forall>s v s'. parse_expr P s = Inr (v, s') \<longrightarrow> left s' \<le> left s) \<and>
     (\<forall>s v s'. in_brackets P s = Inr (v, s') \<longrightarrow> left s' \<le> left s) \<and>
     (\<forall>s s'. parse_colon P s = Inr s' \<longrightarrow> left s' \<le> left s) \<and>
     (\<forall>s s'. parse_comma P s = Inr s' \<longrightarrow> left s' \<le> left s)"

lemma field_value_consumes:
  "consuming P left \<Longrightarrow> parse_field_value P key s fs = Inr (fs', s') \<Longrightarrow> left s' \<le> left s"
  by (auto simp: parse_field_value_def consuming_def result_simps split: if_splits)

lemma field_consumes:
  assumes "consuming P left" and "parse_field P s fs = Inr (fs', s')"
  shows "left s' < left s"
proof -
  from assms(2) obtain key s1 s2 s3 where "parse_ident P s = Inr (key, s1)" "parse_colon P s1 = Inr s2"
      "parse_field_value P key s2 fs = Inr (fs', s3)" "s' = skip_comma P s3"
    by (auto simp: parse_field_def result_simps)
  moreover from this have "left s3 \<le> left s2" by (blast intro: field_value_consumes [OF assms(1)])
  moreover have "left (skip_comma P s3) \<le> left s3"
    using assms(1) by (auto simp: skip_comma_def consuming_def split: sum.split)
  ultimately show ?thesis using assms(1) unfolding consuming_def by (metis le_trans less_le_trans leD linorder_not_less)
qed

lemma parse_fields_returns: "consuming P left \<Longrightarrow> parse_fields P s fs \<noteq> None"
proof (induction "left s" arbitrary: s fs rule: less_induct)
  case less
  show ?case
  proof (cases "stream_empty P s")
    case False
    show ?thesis
    proof (cases "parse_field P s fs")
      case (Inr r)
      then obtain fs' s' where r: "parse_field P s fs = Inr (fs', s')" by (cases r) auto
      from field_consumes [OF less.prems r] less show ?thesis by (subst parse_fields.simps) (simp add: r)
    qed (subst parse_fields.simps, simp)
  qed (subst parse_fields.simps, simp)
qed

lemma model_of_fields_iff:
  "model_of_fields name fs = Inr spec \<longleftrightarrow>
     spec_name spec = name \<and> field_path fs = Some (spec_mlir_path spec) \<and> field_function fs = Some (spec_function spec) \<and>
     field_backend fs = Some (spec_backend spec) \<and> field_inputs fs = Some (spec_inputs spec) \<and>
     field_outputs fs = Some (spec_outputs spec)"
  by (cases spec) (auto simp: model_of_fields_def result_simps)

text \<open>A model is read exactly if its fields are, and each field is there at least once; its parser always returns.\<close>

lemma parse_model_spec_iff:
  "parse_model_spec P s = Some (Inr (spec, rest)) \<longleftrightarrow>
     (\<exists>content fs s'. parse_ident P s = Inr (spec_name spec, s') \<and> in_braces P s' = Inr (content, rest) \<and>
        reads_fields P content no_fields fs \<and> field_path fs = Some (spec_mlir_path spec) \<and>
        field_function fs = Some (spec_function spec) \<and> field_backend fs = Some (spec_backend spec) \<and>
        field_inputs fs = Some (spec_inputs spec) \<and> field_outputs fs = Some (spec_outputs spec))"
  by (auto simp: parse_model_spec_def result_simps parse_fields_iff [symmetric] model_of_fields_iff split: sum.splits)

lemma parse_model_spec_returns: "consuming P left \<Longrightarrow> parse_model_spec P s \<noteq> None"
  using parse_fields_returns by (fastforce simp: parse_model_spec_def split: sum.split)

section \<open>The models block: facts\<close>

lemma element_type_at_tokens [simp]: "element_type_at (element_type_tokens el) = Some el"
  by (cases el) (simp_all add: element_type_at_def element_type_tokens_def)

lemma type_at_tokens [simp]: "type_at (tensor_type_tokens ty) = (case parse_tensor_type ty of Inr t \<Rightarrow> Some t | Inl e \<Rightarrow> None)"
  by (auto simp: type_at_def tensor_type_tokens_def split: sum.split)

lemma those_iff: "those (map f xs) = Some ys \<longleftrightarrow> list_all2 (\<lambda>x y. f x = Some y) xs ys"
  by (induction xs arbitrary: ys) (auto simp: list_all2_Cons1 split: option.splits)

text \<open>The models of a block are those of the macro with the types that \<^verbatim>\<open>type_parse.rs\<close> reads; a type that it rejects keeps
  the block from compiling.\<close>

lemma model_at_tokens:
  "model_at B (mlir_model_tokens spec) = Some m \<longleftrightarrow>
     model_name m = spec_name spec \<and> model_path m = spec_mlir_path spec \<and> model_function_name m = spec_function spec \<and>
     model_backend m = B (spec_backend spec) \<and>
     list_all2 (\<lambda>i j. input_name j = spec_input_name i \<and> parse_tensor_type (spec_input_type i) = Inr (input_ty j))
       (spec_inputs spec) (model_inputs m) \<and>
     list_all2 (\<lambda>ty t. parse_tensor_type ty = Inr t) (spec_outputs spec) (model_outputs m)"
proof -
  have types: "(case parse_tensor_type ty of Inr t \<Rightarrow> Some t | Inl e \<Rightarrow> None) = Some t' \<longleftrightarrow> parse_tensor_type ty = Inr t'" for ty t'
    by (auto split: sum.split)
  have ins: "input_at (spec_input_name i, tensor_type_tokens (spec_input_type i)) = Some j \<longleftrightarrow>
      input_name j = spec_input_name i \<and> parse_tensor_type (spec_input_type i) = Inr (input_ty j)" for i j
    by (cases j) (auto simp: input_at_def types)
  show ?thesis
    by (cases m) (auto simp: model_at_def mlir_model_tokens_def mlir_model_new_def those_iff ins types comp_def bind_eq_Some_conv)
qed

section \<open>Examples\<close>

text \<open>A function of arguments of one type, with streams that are items already.\<close>

definition example_item :: "string list \<Rightarrow> item_fn" where
  "example_item names =
     \<lparr>fn_ident = ''scale'', fn_args = map (\<lambda>n. ArgTyped (PatIdent n) TypeOther) names, fn_return = ReturnType TypeOther\<rparr>"

definition example_parsers :: "(item_fn, build_backend, unit) syn_parsers" where
  "example_parsers =
     \<lparr>parse_ident = (\<lambda>_. Inl (SynError ())), parse_str = (\<lambda>_. Inl (SynError ())), parse_expr = (\<lambda>_. Inl (SynError ())),
       parse_type = (\<lambda>_. Inl (SynError ())), parse_colon = (\<lambda>_. Inl (SynError ())), parse_comma = (\<lambda>_. Inl (SynError ())),
       parse_semicolon = (\<lambda>_. Inl (SynError ())), in_braces = (\<lambda>_. Inl (SynError ())), in_brackets = (\<lambda>_. Inl (SynError ())),
       stream_empty = (\<lambda>_. True), parse_item = Inr, terminated_types = (\<lambda>_. Inr []), terminated_paths = (\<lambda>_. Inr []),
       terminated_metas = (\<lambda>_. Inr [((False, [Segment ''backend'' NoArguments]), BuildLlvmCpu)]),
       terminated_inputs = (\<lambda>_ _. Inr []), terminated_models = (\<lambda>_ _. Some (Inr []))\<rparr>"

definition example_expansion :: "string list \<Rightarrow> build_backend traced_expansion" where
  "example_expansion names =
     \<lparr>ex_item = example_item names, ex_register = ''__knok_register_scale'', ex_graph_name = ''scale'', ex_backend = BuildLlvmCpu,
      ex_inputs = map (\<lambda>n. (n, TypeOther, n)) names, ex_args = names\<rparr>"

lemma example_lets:
  "rmap input_let (map (\<lambda>n. ArgTyped (PatIdent n) TypeOther) names) = Inr (map (\<lambda>n. (n, TypeOther, n)) names)"
  "those (map (arg_name \<circ> (\<lambda>n. ArgTyped (PatIdent n) TypeOther)) names) = Some names"
  by (induction names) (simp_all add: input_let_def arg_name_def)

lemma example_expands: "expand_traced_graph example_parsers item (example_item names) = Some (Inr (example_expansion names))"
  by (simp add: expand_traced_graph_def example_parsers_def example_item_def example_expansion_def
      parse_backend_attribute_def path_is_ident_def register_name_def example_lets)

lemma example_args [simp]:
  "ex_item (example_expansion names) = example_item names" "fn_ident (example_item names) = ''scale''"
  "typed_args (example_item names) = map (\<lambda>n. (n, TypeOther)) names" "arg_names (example_item names) = names"
proof -
  show typed: "typed_args (example_item names) = map (\<lambda>n. (n, TypeOther)) names"
    unfolding typed_args_def example_item_def by (induction names) (simp_all add: typed_arg_def)
  then show "arg_names (example_item names) = names" by (simp add: arg_names_def comp_def)
qed (simp_all add: example_expansion_def example_item_def)

definition example_type :: "syn_type \<Rightarrow> tensor_type" where
  "example_type ty = tensor F32 [4]"


definition example_script :: "((item_fn, unit) graph_fn \<times> build_backend traced_expansion) list" where
  "example_script =
     [(\<lparr>gf_module = (False, [Segment ''crate'' NoArguments]), gf_attribute = example_item [], gf_tokens = example_item [''x''],
        gf_body = Pair\<rparr>, example_expansion [''x''])]"

lemma block_emits_functions_witness:
  "\<forall>S X Q F. run_graphs_block S X Q (script_scope example_parsers F example_type (\<lambda>b. b) (map fst example_script))
     \<lparr>block_calls = [(False, [Segment ''crate'' NoArguments, Segment ''__knok_register_scale'' NoArguments])],
      block_emit = EmitGraphs, block_options = DefaultOptions\<rparr> () =
   Some (traced_then_emitted S X EmitGraphs build_options_default
     (run_registrations (map (trace_function F example_type (\<lambda>b. b)) example_script) registry_new ()))"
proof (intro allI)
  fix S X Q F
  have script: "script_compiles example_parsers example_script"
    by (simp add: script_compiles_def example_script_def example_expands names_usable_def)
  have block: "expand_registered_graph_emit (map function_path example_script) DefaultOptions EmitGraphs =
     Some \<lparr>block_calls = [(False, [Segment ''crate'' NoArguments, Segment ''__knok_register_scale'' NoArguments])],
      block_emit = EmitGraphs, block_options = DefaultOptions\<rparr>"
    by (simp add: expand_registered_graph_emit_def example_script_def function_path_def register_path_def in_module_def
        register_name_def)
  show "run_graphs_block S X Q (script_scope example_parsers F example_type (\<lambda>b. b) (map fst example_script))
     \<lparr>block_calls = [(False, [Segment ''crate'' NoArguments, Segment ''__knok_register_scale'' NoArguments])],
      block_emit = EmitGraphs, block_options = DefaultOptions\<rparr> () =
   Some (traced_then_emitted S X EmitGraphs build_options_default
     (run_registrations (map (trace_function F example_type (\<lambda>b. b)) example_script) registry_new ()))"
    using block_emits_functions [OF script subset_refl block, of S X Q F example_type "\<lambda>b. b" "()"] by (simp add: options_of_def)
qed

end
